(* ===== verification/Sched_Prelude.thy ===== *)
theory Sched_Prelude
  imports Main "HOL-Library.Word" "HOL-Library.List_Lexorder" "HOL-Library.Char_ord" "HOL-Library.Multiset"
begin

section \<open>Shared types, ordered maps, guard chains and sorting\<close>

text \<open>
  What every component of the scheduler shares: the machine integer types, the model of
  std::map as an association list kept in key order (iteration order is the order the C++
  code iterates in), guard chains that return the first failing check as the code's early
  returns do, and a stable sort by a comparison function with the laws of std::sort and
  std::stable_sort for a strict weak ordering.
\<close>

type_synonym u8 = "8 word"
type_synonym u16 = "16 word"
type_synonym u32 = "32 word"
type_synonym u64 = "64 word"

named_theorems omap_simps \<open>lookup laws of the ordered maps\<close>
named_theorems frame_simps \<open>fields an operation leaves unchanged\<close>
named_theorems guard_simps \<open>guard chains and single guards\<close>


subsection \<open>Ordered maps\<close>

type_synonym ('k, 'v) omap = "('k \<times> 'v) list"

abbreviation om_get :: "('k, 'v) omap \<Rightarrow> 'k \<Rightarrow> 'v option" where
  "om_get m k \<equiv> map_of m k"

text \<open>Insert or overwrite, keeping the key order: \<open>m[k] = v\<close>.\<close>

fun om_put :: "'k::linorder \<Rightarrow> 'v \<Rightarrow> ('k, 'v) omap \<Rightarrow> ('k, 'v) omap" where
  "om_put k v [] = [(k, v)]"
| "om_put k v (e # m) =
     (if k < fst e then (k, v) # e # m
      else if fst e = k then (k, v) # m
      else e # om_put k v m)"

text \<open>std::map::emplace: no effect when the key is present.\<close>

definition om_emplace :: "'k::linorder \<Rightarrow> 'v \<Rightarrow> ('k, 'v) omap \<Rightarrow> ('k, 'v) omap" where
  "om_emplace k v m = (case om_get m k of None \<Rightarrow> om_put k v m | Some _ \<Rightarrow> m)"

text \<open>Mutation of the value found under a key, through the iterator \<open>find\<close> returned.\<close>

definition om_adjust :: "'k::linorder \<Rightarrow> ('v \<Rightarrow> 'v) \<Rightarrow> ('k, 'v) omap \<Rightarrow> ('k, 'v) omap" where
  "om_adjust k f m = (case om_get m k of None \<Rightarrow> m | Some v \<Rightarrow> om_put k (f v) m)"

definition om_erase :: "'k \<Rightarrow> ('k, 'v) omap \<Rightarrow> ('k, 'v) omap" where
  "om_erase k m = filter (\<lambda>e. fst e \<noteq> k) m"

definition om_map :: "('v \<Rightarrow> 'v) \<Rightarrow> ('k, 'v) omap \<Rightarrow> ('k, 'v) omap" where
  "om_map f m = map (\<lambda>e. (fst e, f (snd e))) m"

definition om_keys :: "('k, 'v) omap \<Rightarrow> 'k list" where
  "om_keys m = map fst m"

definition om_ok :: "('k::linorder, 'v) omap \<Rightarrow> bool" where
  "om_ok m \<longleftrightarrow> sorted_wrt (<) (om_keys m)"

lemma om_get_put [omap_simps, simp]:
  "om_get (om_put k v m) x = (if x = k then Some v else om_get m x)"
  by (induction k v m rule: om_put.induct) auto

lemma om_get_emplace [omap_simps, simp]:
  "om_get (om_emplace k v m) x =
     (if x = k then (case om_get m k of None \<Rightarrow> Some v | Some w \<Rightarrow> Some w) else om_get m x)"
  by (simp add: om_emplace_def split: option.split)

lemma om_get_adjust [omap_simps, simp]:
  "om_get (om_adjust k f m) x = (if x = k then map_option f (om_get m k) else om_get m x)"
  by (simp add: om_adjust_def split: option.split)

lemma om_get_erase [omap_simps, simp]:
  "om_get (om_erase k m) x = (if x = k then None else om_get m x)"
  by (induction m) (auto simp: om_erase_def)

lemma om_get_map [omap_simps, simp]: "om_get (om_map f m) x = map_option f (om_get m x)"
  by (induction m) (auto simp: om_map_def)

lemma set_om_keys [simp]: "set (om_keys m) = dom (om_get m)"
  by (simp add: om_keys_def dom_map_of_conv_image_fst)

lemma om_keys_iff: "k \<in> set (om_keys m) \<longleftrightarrow> om_get m k \<noteq> None"
  by auto

lemma om_keys_put_set: "set (om_keys (om_put k v m)) = insert k (set (om_keys m))"
  by auto

lemma om_ok_Nil [simp]: "om_ok []"
  by (simp add: om_ok_def om_keys_def)

lemma om_ok_put [simp]: "om_ok m \<Longrightarrow> om_ok (om_put k v m)"
proof (induction k v m rule: om_put.induct)
  case (1 k v)
  then show ?case by (simp add: om_ok_def om_keys_def)
next
  case (2 k v e m)
  have keys: "set (map fst (om_put k v m)) = insert k (set (map fst m))"
    using om_keys_put_set [of k v m] unfolding om_keys_def .
  from "2.prems" have "om_ok m" and "\<forall>x \<in> set (map fst m). fst e < x"
    by (auto simp: om_ok_def om_keys_def)
  moreover from this have "\<not> k < fst e \<Longrightarrow> fst e \<noteq> k \<Longrightarrow> om_ok (om_put k v m)"
    using "2.IH" by blast
  ultimately show ?case
    using keys by (auto simp: om_ok_def om_keys_def)
qed

lemma om_ok_emplace [simp]: "om_ok m \<Longrightarrow> om_ok (om_emplace k v m)"
  by (simp add: om_emplace_def split: option.split)

lemma om_ok_adjust [simp]: "om_ok m \<Longrightarrow> om_ok (om_adjust k f m)"
  by (simp add: om_adjust_def split: option.split)

lemma om_ok_erase [simp]: "om_ok m \<Longrightarrow> om_ok (om_erase k m)"
  by (induction m) (auto simp: om_erase_def om_ok_def om_keys_def)

lemma om_keys_map [simp]: "om_keys (om_map f m) = om_keys m"
  by (simp add: om_map_def om_keys_def)

lemma om_ok_map [simp]: "om_ok (om_map f m) \<longleftrightarrow> om_ok m"
  by (simp add: om_ok_def)

lemma om_ok_distinct: "om_ok m \<Longrightarrow> distinct (om_keys m)"
  using strict_sorted_iff unfolding om_ok_def by blast

lemma finite_om_get [simp]: "finite {k. \<exists>v. om_get m k = Some v \<and> P k v}"
  by (rule finite_subset [OF _ finite_dom_map_of [of m]]) auto

text \<open>An index maps a key to a set; a missing entry stands for the empty set.\<close>

definition ix_get :: "('k, 'a set) omap \<Rightarrow> 'k \<Rightarrow> 'a set" where
  "ix_get m k = (case om_get m k of None \<Rightarrow> {} | Some s \<Rightarrow> s)"

definition ix_insert :: "'k::linorder \<Rightarrow> 'a \<Rightarrow> ('k, 'a set) omap \<Rightarrow> ('k, 'a set) omap" where
  "ix_insert k x m = om_put k (insert x (ix_get m k)) m"

definition ix_erase_all :: "'a \<Rightarrow> ('k, 'a set) omap \<Rightarrow> ('k, 'a set) omap" where
  "ix_erase_all x m = om_map (\<lambda>s. s - {x}) m"

text \<open>Erase from one entry and drop the entry when its set becomes empty.\<close>

definition ix_erase_at :: "'k::linorder \<Rightarrow> 'a \<Rightarrow> ('k, 'a set) omap \<Rightarrow> ('k, 'a set) omap" where
  "ix_erase_at k x m =
     (case om_get m k of None \<Rightarrow> m
      | Some s \<Rightarrow> if s - {x} = {} then om_erase k m else om_put k (s - {x}) m)"

lemma ix_get_Nil [simp]: "ix_get [] k = {}"
  by (simp add: ix_get_def)

lemma ix_get_insert [omap_simps, simp]:
  "ix_get (ix_insert k x m) j = (if j = k then insert x (ix_get m k) else ix_get m j)"
  by (simp add: ix_insert_def ix_get_def)

lemma ix_get_erase_all [omap_simps, simp]: "ix_get (ix_erase_all x m) j = ix_get m j - {x}"
  by (simp add: ix_erase_all_def ix_get_def split: option.split)

lemma ix_get_erase_at [omap_simps, simp]:
  "ix_get (ix_erase_at k x m) j = (if j = k then ix_get m k - {x} else ix_get m j)"
  by (auto simp: ix_erase_at_def ix_get_def split: option.split)


subsection \<open>Guard chains\<close>

text \<open>
  The validation functions of the program are sequences of \<open>if (bad) return error\<close>.
  A chain lists the checks in the program's order and returns the first that fires.
\<close>

definition guard :: "bool \<Rightarrow> 'e \<Rightarrow> 'e option" where
  "guard c e = (if c then Some e else None)"

fun first_some :: "'e option list \<Rightarrow> 'e option" where
  "first_some [] = None"
| "first_some (x # xs) = (case x of None \<Rightarrow> first_some xs | Some e \<Rightarrow> Some e)"

lemma guard_None [guard_simps, simp]: "guard c e = None \<longleftrightarrow> \<not> c"
  by (simp add: guard_def)

lemma guard_Some [guard_simps, simp]: "guard c e = Some f \<longleftrightarrow> c \<and> f = e"
  by (auto simp: guard_def)

declare first_some.simps(2) [simp del]

lemma first_some_guard [simp]:
  "first_some (guard c e # xs) = (if c then Some e else first_some xs)"
  by (simp add: guard_def first_some.simps)

lemma first_some_Cons_simps [simp]:
  "first_some (None # xs) = first_some xs" "first_some (Some e # xs) = Some e"
  by (simp_all add: first_some.simps)

lemma first_some_Cons_None:
  "first_some (x # xs) = None \<longleftrightarrow> x = None \<and> first_some xs = None"
  by (simp add: first_some.simps split: option.split)

lemma first_some_None: "first_some xs = None \<longleftrightarrow> (\<forall>x \<in> set xs. x = None)"
  by (induction xs) (auto simp: first_some_Cons_None)

lemma first_some_Some: "first_some xs = Some e \<Longrightarrow> Some e \<in> set xs"
  by (induction xs) (auto simp: first_some.simps split: option.splits)

lemma first_some_append:
  "first_some (xs @ ys) = (case first_some xs of None \<Rightarrow> first_some ys | Some e \<Rightarrow> Some e)"
  by (induction xs) (auto simp: first_some.simps split: option.split)

text \<open>The first element of a list that a loop rejects.\<close>

fun first_reject :: "('a \<Rightarrow> 'e option) \<Rightarrow> 'a list \<Rightarrow> 'e option" where
  "first_reject f [] = None"
| "first_reject f (x # xs) = (case f x of None \<Rightarrow> first_reject f xs | Some e \<Rightarrow> Some e)"

lemma first_reject_None [guard_simps]:
  "first_reject f xs = None \<longleftrightarrow> (\<forall>x \<in> set xs. f x = None)"
  by (induction xs) (auto split: option.split)

lemma first_reject_Some: "first_reject f xs = Some e \<Longrightarrow> \<exists>x \<in> set xs. f x = Some e"
  by (induction xs) (auto split: option.splits)


subsection \<open>Sorting by a comparison function\<close>

text \<open>
  Insertion sort by a "comes before" predicate. Built from the right, an element is placed
  before the later elements it is equivalent to, so the sort is stable.
\<close>

fun insert_by :: "('a \<Rightarrow> 'a \<Rightarrow> bool) \<Rightarrow> 'a \<Rightarrow> 'a list \<Rightarrow> 'a list" where
  "insert_by lt x [] = [x]"
| "insert_by lt x (y # ys) = (if lt y x then y # insert_by lt x ys else x # y # ys)"

definition sort_by :: "('a \<Rightarrow> 'a \<Rightarrow> bool) \<Rightarrow> 'a list \<Rightarrow> 'a list" where
  "sort_by lt xs = foldr (insert_by lt) xs []"

lemma sort_by_Nil [simp]: "sort_by lt [] = []"
  by (simp add: sort_by_def)

lemma sort_by_Cons [simp]: "sort_by lt (x # xs) = insert_by lt x (sort_by lt xs)"
  by (simp add: sort_by_def)

lemma mset_insert_by [simp]: "mset (insert_by lt x ys) = add_mset x (mset ys)"
  by (induction ys) auto

lemma mset_sort_by [simp]: "mset (sort_by lt xs) = mset xs"
  by (induction xs) auto

lemma set_sort_by [simp]: "set (sort_by lt xs) = set xs"
  using mset_sort_by by (metis set_mset_mset)

lemma length_sort_by [simp]: "length (sort_by lt xs) = length xs"
  using mset_sort_by by (metis size_mset)

lemma distinct_sort_by [simp]: "distinct (sort_by lt xs) \<longleftrightarrow> distinct xs"
  using mset_sort_by mset_eq_imp_distinct_iff by blast

lemma set_insert_by: "set (insert_by lt x ys) = insert x (set ys)"
  by (metis mset_insert_by set_mset_add_mset_insert set_mset_mset)

text \<open>Duplicate removal on a sorted sequence: std::unique followed by erase.\<close>

fun unique_adjacent :: "'a list \<Rightarrow> 'a list" where
  "unique_adjacent [] = []"
| "unique_adjacent [x] = [x]"
| "unique_adjacent (x # y # ys) =
     (if x = y then unique_adjacent (y # ys) else x # unique_adjacent (y # ys))"

text \<open>std::adjacent_find different from end.\<close>

fun has_adjacent :: "('a \<Rightarrow> 'a \<Rightarrow> bool) \<Rightarrow> 'a list \<Rightarrow> bool" where
  "has_adjacent eq (x # y # ys) \<longleftrightarrow> eq x y \<or> has_adjacent eq (y # ys)"
| "has_adjacent eq _ \<longleftrightarrow> False"

lemma set_unique_adjacent [simp]: "set (unique_adjacent xs) = set xs"
  by (induction xs rule: unique_adjacent.induct) auto

lemma unique_adjacent_strict:
  "sorted xs \<Longrightarrow> sorted_wrt (<) (unique_adjacent (xs :: 'a::linorder list))"
proof (induction xs rule: unique_adjacent.induct)
  case (3 x y ys)
  then show ?case by (auto simp: order.strict_iff_order)
qed auto

lemma has_adjacent_sorted:
  "sorted xs \<Longrightarrow> has_adjacent (=) xs \<longleftrightarrow> \<not> distinct (xs :: 'a::linorder list)"
proof (induction "(=) :: 'a \<Rightarrow> 'a \<Rightarrow> bool" xs rule: has_adjacent.induct)
  case (1 x y ys)
  then show ?case by (auto dest: order.antisym)
qed auto

lemma insert_by_less_sorted:
  "sorted (ys :: 'a::linorder list) \<Longrightarrow> sorted (insert_by (<) x ys)"
  by (induction ys) (auto simp: set_insert_by)

lemma sort_by_less_sorted [simp]: "sorted (sort_by (<) (xs :: 'a::linorder list))"
  by (induction xs) (auto simp: insert_by_less_sorted)

text \<open>The law the comparison functions of the program satisfy.\<close>

locale strict_weak_order =
  fixes lt :: "'a \<Rightarrow> 'a \<Rightarrow> bool"
  assumes lt_irrefl: "\<not> lt x x"
    and lt_trans: "lt x y \<Longrightarrow> lt y z \<Longrightarrow> lt x z"
    and not_lt_trans: "\<not> lt x y \<Longrightarrow> \<not> lt y z \<Longrightarrow> \<not> lt x z"
begin

lemma lt_asym: "lt x y \<Longrightarrow> \<not> lt y x"
  using lt_irrefl lt_trans by blast

lemma insert_by_sorted:
  "sorted_wrt (\<lambda>a b. \<not> lt b a) ys \<Longrightarrow> sorted_wrt (\<lambda>a b. \<not> lt b a) (insert_by lt x ys)"
proof (induction ys)
  case (Cons y ys)
  then have le: "\<forall>b \<in> set ys. \<not> lt b y" by simp
  have "\<forall>b \<in> set ys. \<not> lt b x" if "\<not> lt y x"
    using le that not_lt_trans by blast
  with Cons show ?case
    by (auto simp: set_insert_by dest: lt_asym)
qed simp

lemma sort_by_sorted: "sorted_wrt (\<lambda>a b. \<not> lt b a) (sort_by lt xs)"
  by (induction xs) (auto simp: insert_by_sorted)

lemma hd_sort_by_least: "x \<in> set xs \<Longrightarrow> \<not> lt x (hd (sort_by lt xs))"
proof -
  assume "x \<in> set xs"
  then have mem: "x \<in> set (sort_by lt xs)" by simp
  then obtain h t where ht: "sort_by lt xs = h # t" by (cases "sort_by lt xs") auto
  have "sorted_wrt (\<lambda>a b. \<not> lt b a) (h # t)" using sort_by_sorted [of xs] ht by simp
  then show "\<not> lt x (hd (sort_by lt xs))" using mem ht lt_irrefl by auto
qed

text \<open>
  Two sorted arrangements of the same elements agree when the comparison separates
  distinct elements: any conforming std::sort returns this list.
\<close>

lemma sorted_arrangement_unique:
  assumes "sorted_wrt (\<lambda>a b. \<not> lt b a) xs" and "sorted_wrt (\<lambda>a b. \<not> lt b a) ys"
    and "mset xs = mset ys"
    and "\<And>a b. a \<in> set xs \<Longrightarrow> b \<in> set xs \<Longrightarrow> a \<noteq> b \<Longrightarrow> lt a b \<or> lt b a"
  shows "xs = ys"
  using assms
proof (induction xs arbitrary: ys)
  case Nil
  then show ?case by simp
next
  case (Cons x xs)
  then obtain y ys' where ys: "ys = y # ys'" by (cases ys) auto
  have sets: "set (x # xs) = set ys" using Cons.prems(3) by (metis set_mset_mset)
  have "y \<in> set (x # xs)" and "x \<in> set (y # ys')" using sets ys by auto
  with Cons.prems(1,2) ys have "\<not> lt y x" and "\<not> lt x y"
    using lt_irrefl by auto
  then have "x = y" using Cons.prems(4) [of x y] \<open>y \<in> set (x # xs)\<close> by auto
  moreover have "xs = ys'"
    using Cons ys \<open>x = y\<close> by simp
  ultimately show ?case using ys by simp
qed

end

text \<open>Comparing through a key keeps the law.\<close>

lemma strict_weak_order_on_key:
  "strict_weak_order lt \<Longrightarrow> strict_weak_order (\<lambda>a b. lt (f a) (f b))"
  unfolding strict_weak_order_def by blast

interpretation less_order: strict_weak_order "(<) :: 'a::linorder \<Rightarrow> 'a \<Rightarrow> bool"
  by unfold_locales (auto simp: not_less)

end
