(* ===== verification/Outcomes.thy ===== *)
theory Outcomes
  imports Sched_Prelude
begin

section \<open>Structured outcomes and errors\<close>

text \<open>
  The error codes, scheduling outcomes and structured errors of result.hpp and result.cpp.
  A MutationResult is an optional error, so it is modelled by the type
  \<open>SchedulerError option\<close>: None is success.
\<close>

datatype ErrorCode =
    Ok
  | InvalidArgument
  | LimitExceeded
  | NotFound
  | StaleGeneration
  | Conflict
  | Duplicate
  | NotEligible
  | NoCapacity
  | PolicyRejected
  | CapabilityRejected
  | NotReady
  | Unhealthy
  | Unreachable
  | LeaseExpired
  | Fenced
  | Cancelled
  | Superseded
  | ShuttingDown
  | AdmissionClosed
  | PersistenceFormat
  | PersistenceIntegrity
  | PersistenceIo
  | PersistenceUnsupportedVersion
  | ProtocolError
  | DecodeError
  | RecoveryRejected
  | InvariantViolation
  | NotStarted
  | AlreadyStarted
  | Internal
  | DeadlineExpired
  | FeasibilityRejected
  | DrainBarrier
  | ExclusiveConflict

primrec error_code_code :: "ErrorCode \<Rightarrow> nat" where
  "error_code_code ErrorCode.Ok = 0"
| "error_code_code ErrorCode.InvalidArgument = 1"
| "error_code_code ErrorCode.LimitExceeded = 2"
| "error_code_code ErrorCode.NotFound = 3"
| "error_code_code ErrorCode.StaleGeneration = 4"
| "error_code_code ErrorCode.Conflict = 5"
| "error_code_code ErrorCode.Duplicate = 6"
| "error_code_code ErrorCode.NotEligible = 7"
| "error_code_code ErrorCode.NoCapacity = 8"
| "error_code_code ErrorCode.PolicyRejected = 9"
| "error_code_code ErrorCode.CapabilityRejected = 10"
| "error_code_code ErrorCode.NotReady = 11"
| "error_code_code ErrorCode.Unhealthy = 12"
| "error_code_code ErrorCode.Unreachable = 13"
| "error_code_code ErrorCode.LeaseExpired = 14"
| "error_code_code ErrorCode.Fenced = 15"
| "error_code_code ErrorCode.Cancelled = 16"
| "error_code_code ErrorCode.Superseded = 17"
| "error_code_code ErrorCode.ShuttingDown = 18"
| "error_code_code ErrorCode.AdmissionClosed = 19"
| "error_code_code ErrorCode.PersistenceFormat = 20"
| "error_code_code ErrorCode.PersistenceIntegrity = 21"
| "error_code_code ErrorCode.PersistenceIo = 22"
| "error_code_code ErrorCode.PersistenceUnsupportedVersion = 23"
| "error_code_code ErrorCode.ProtocolError = 24"
| "error_code_code ErrorCode.DecodeError = 25"
| "error_code_code ErrorCode.RecoveryRejected = 26"
| "error_code_code ErrorCode.InvariantViolation = 27"
| "error_code_code ErrorCode.NotStarted = 28"
| "error_code_code ErrorCode.AlreadyStarted = 29"
| "error_code_code ErrorCode.Internal = 30"
| "error_code_code ErrorCode.DeadlineExpired = 31"
| "error_code_code ErrorCode.FeasibilityRejected = 32"
| "error_code_code ErrorCode.DrainBarrier = 33"
| "error_code_code ErrorCode.ExclusiveConflict = 34"

primrec error_code_to_string :: "ErrorCode \<Rightarrow> string" where
  "error_code_to_string ErrorCode.Ok = ''OK''"
| "error_code_to_string ErrorCode.InvalidArgument = ''INVALID_ARGUMENT''"
| "error_code_to_string ErrorCode.LimitExceeded = ''LIMIT_EXCEEDED''"
| "error_code_to_string ErrorCode.NotFound = ''NOT_FOUND''"
| "error_code_to_string ErrorCode.StaleGeneration = ''STALE_GENERATION''"
| "error_code_to_string ErrorCode.Conflict = ''CONFLICT''"
| "error_code_to_string ErrorCode.Duplicate = ''DUPLICATE''"
| "error_code_to_string ErrorCode.NotEligible = ''NOT_ELIGIBLE''"
| "error_code_to_string ErrorCode.NoCapacity = ''NO_CAPACITY''"
| "error_code_to_string ErrorCode.PolicyRejected = ''POLICY_REJECTED''"
| "error_code_to_string ErrorCode.CapabilityRejected = ''CAPABILITY_REJECTED''"
| "error_code_to_string ErrorCode.NotReady = ''NOT_READY''"
| "error_code_to_string ErrorCode.Unhealthy = ''UNHEALTHY''"
| "error_code_to_string ErrorCode.Unreachable = ''UNREACHABLE''"
| "error_code_to_string ErrorCode.LeaseExpired = ''LEASE_EXPIRED''"
| "error_code_to_string ErrorCode.Fenced = ''FENCED''"
| "error_code_to_string ErrorCode.Cancelled = ''CANCELLED''"
| "error_code_to_string ErrorCode.Superseded = ''SUPERSEDED''"
| "error_code_to_string ErrorCode.ShuttingDown = ''SHUTTING_DOWN''"
| "error_code_to_string ErrorCode.AdmissionClosed = ''ADMISSION_CLOSED''"
| "error_code_to_string ErrorCode.PersistenceFormat = ''PERSISTENCE_FORMAT''"
| "error_code_to_string ErrorCode.PersistenceIntegrity = ''PERSISTENCE_INTEGRITY''"
| "error_code_to_string ErrorCode.PersistenceIo = ''PERSISTENCE_IO''"
| "error_code_to_string ErrorCode.PersistenceUnsupportedVersion = ''PERSISTENCE_UNSUPPORTED_VERSION''"
| "error_code_to_string ErrorCode.ProtocolError = ''PROTOCOL_ERROR''"
| "error_code_to_string ErrorCode.DecodeError = ''DECODE_ERROR''"
| "error_code_to_string ErrorCode.RecoveryRejected = ''RECOVERY_REJECTED''"
| "error_code_to_string ErrorCode.InvariantViolation = ''INVARIANT_VIOLATION''"
| "error_code_to_string ErrorCode.NotStarted = ''NOT_STARTED''"
| "error_code_to_string ErrorCode.AlreadyStarted = ''ALREADY_STARTED''"
| "error_code_to_string ErrorCode.Internal = ''INTERNAL''"
| "error_code_to_string ErrorCode.DeadlineExpired = ''DEADLINE_EXPIRED''"
| "error_code_to_string ErrorCode.FeasibilityRejected = ''FEASIBILITY_REJECTED''"
| "error_code_to_string ErrorCode.DrainBarrier = ''DRAIN_BARRIER''"
| "error_code_to_string ErrorCode.ExclusiveConflict = ''EXCLUSIVE_CONFLICT''"

datatype ScheduleOutcome =
    Assigned
  | NoChange
  | Deferred
  | NoEligibleAgent
  | RejectStaleSchedulerEpoch
  | RejectStaleCoordinatorEpoch
  | RejectStaleAgentBoot
  | RejectStaleAgentGeneration
  | RejectStaleWorkGeneration
  | RejectStaleAssignment
  | RejectStalePolicy
  | RejectStaleCapability
  | RejectResourceFeasibility
  | RejectBudget
  | RejectSlo
  | RejectPolicy
  | RejectCancelled
  | RejectSuperseded
  | RejectConflict
  | RevalidationRequired
  | ShuttingDown
  | RejectInvalidRequest
  | RejectLimitExceeded
  | RejectHealth
  | RejectReachability
  | RejectReadiness
  | RejectCapacity
  | RejectAffinity
  | RejectLocality
  | RejectTenant
  | RejectLeaseExpired
  | RejectDrain
  | RejectDuplicate
  | RejectExpired
  | RejectFenced
  | RejectReservation
  | RejectLifecycle
  | RejectDeadline
  | RejectCapability
  | RejectStaleQueueGeneration

primrec outcome_code :: "ScheduleOutcome \<Rightarrow> nat" where
  "outcome_code ScheduleOutcome.Assigned = 0"
| "outcome_code ScheduleOutcome.NoChange = 1"
| "outcome_code ScheduleOutcome.Deferred = 2"
| "outcome_code ScheduleOutcome.NoEligibleAgent = 3"
| "outcome_code ScheduleOutcome.RejectStaleSchedulerEpoch = 4"
| "outcome_code ScheduleOutcome.RejectStaleCoordinatorEpoch = 5"
| "outcome_code ScheduleOutcome.RejectStaleAgentBoot = 6"
| "outcome_code ScheduleOutcome.RejectStaleAgentGeneration = 7"
| "outcome_code ScheduleOutcome.RejectStaleWorkGeneration = 8"
| "outcome_code ScheduleOutcome.RejectStaleAssignment = 9"
| "outcome_code ScheduleOutcome.RejectStalePolicy = 10"
| "outcome_code ScheduleOutcome.RejectStaleCapability = 11"
| "outcome_code ScheduleOutcome.RejectResourceFeasibility = 12"
| "outcome_code ScheduleOutcome.RejectBudget = 13"
| "outcome_code ScheduleOutcome.RejectSlo = 14"
| "outcome_code ScheduleOutcome.RejectPolicy = 15"
| "outcome_code ScheduleOutcome.RejectCancelled = 16"
| "outcome_code ScheduleOutcome.RejectSuperseded = 17"
| "outcome_code ScheduleOutcome.RejectConflict = 18"
| "outcome_code ScheduleOutcome.RevalidationRequired = 19"
| "outcome_code ScheduleOutcome.ShuttingDown = 20"
| "outcome_code ScheduleOutcome.RejectInvalidRequest = 21"
| "outcome_code ScheduleOutcome.RejectLimitExceeded = 22"
| "outcome_code ScheduleOutcome.RejectHealth = 23"
| "outcome_code ScheduleOutcome.RejectReachability = 24"
| "outcome_code ScheduleOutcome.RejectReadiness = 25"
| "outcome_code ScheduleOutcome.RejectCapacity = 26"
| "outcome_code ScheduleOutcome.RejectAffinity = 27"
| "outcome_code ScheduleOutcome.RejectLocality = 28"
| "outcome_code ScheduleOutcome.RejectTenant = 29"
| "outcome_code ScheduleOutcome.RejectLeaseExpired = 30"
| "outcome_code ScheduleOutcome.RejectDrain = 31"
| "outcome_code ScheduleOutcome.RejectDuplicate = 32"
| "outcome_code ScheduleOutcome.RejectExpired = 33"
| "outcome_code ScheduleOutcome.RejectFenced = 34"
| "outcome_code ScheduleOutcome.RejectReservation = 35"
| "outcome_code ScheduleOutcome.RejectLifecycle = 36"
| "outcome_code ScheduleOutcome.RejectDeadline = 37"
| "outcome_code ScheduleOutcome.RejectCapability = 38"
| "outcome_code ScheduleOutcome.RejectStaleQueueGeneration = 39"

primrec outcome_to_string :: "ScheduleOutcome \<Rightarrow> string" where
  "outcome_to_string ScheduleOutcome.Assigned = ''ASSIGNED''"
| "outcome_to_string ScheduleOutcome.NoChange = ''NO_CHANGE''"
| "outcome_to_string ScheduleOutcome.Deferred = ''DEFERRED''"
| "outcome_to_string ScheduleOutcome.NoEligibleAgent = ''NO_ELIGIBLE_AGENT''"
| "outcome_to_string ScheduleOutcome.RejectStaleSchedulerEpoch = ''REJECT_STALE_SCHEDULER_EPOCH''"
| "outcome_to_string ScheduleOutcome.RejectStaleCoordinatorEpoch = ''REJECT_STALE_COORDINATOR_EPOCH''"
| "outcome_to_string ScheduleOutcome.RejectStaleAgentBoot = ''REJECT_STALE_AGENT_BOOT''"
| "outcome_to_string ScheduleOutcome.RejectStaleAgentGeneration = ''REJECT_STALE_AGENT_GENERATION''"
| "outcome_to_string ScheduleOutcome.RejectStaleWorkGeneration = ''REJECT_STALE_WORK_GENERATION''"
| "outcome_to_string ScheduleOutcome.RejectStaleAssignment = ''REJECT_STALE_ASSIGNMENT''"
| "outcome_to_string ScheduleOutcome.RejectStalePolicy = ''REJECT_STALE_POLICY''"
| "outcome_to_string ScheduleOutcome.RejectStaleCapability = ''REJECT_STALE_CAPABILITY''"
| "outcome_to_string ScheduleOutcome.RejectResourceFeasibility = ''REJECT_RESOURCE_FEASIBILITY''"
| "outcome_to_string ScheduleOutcome.RejectBudget = ''REJECT_BUDGET''"
| "outcome_to_string ScheduleOutcome.RejectSlo = ''REJECT_SLO''"
| "outcome_to_string ScheduleOutcome.RejectPolicy = ''REJECT_POLICY''"
| "outcome_to_string ScheduleOutcome.RejectCancelled = ''REJECT_CANCELLED''"
| "outcome_to_string ScheduleOutcome.RejectSuperseded = ''REJECT_SUPERSEDED''"
| "outcome_to_string ScheduleOutcome.RejectConflict = ''REJECT_CONFLICT''"
| "outcome_to_string ScheduleOutcome.RevalidationRequired = ''REVALIDATION_REQUIRED''"
| "outcome_to_string ScheduleOutcome.ShuttingDown = ''SHUTTING_DOWN''"
| "outcome_to_string ScheduleOutcome.RejectInvalidRequest = ''REJECT_INVALID_REQUEST''"
| "outcome_to_string ScheduleOutcome.RejectLimitExceeded = ''REJECT_LIMIT_EXCEEDED''"
| "outcome_to_string ScheduleOutcome.RejectHealth = ''REJECT_HEALTH''"
| "outcome_to_string ScheduleOutcome.RejectReachability = ''REJECT_REACHABILITY''"
| "outcome_to_string ScheduleOutcome.RejectReadiness = ''REJECT_READINESS''"
| "outcome_to_string ScheduleOutcome.RejectCapacity = ''REJECT_CAPACITY''"
| "outcome_to_string ScheduleOutcome.RejectAffinity = ''REJECT_AFFINITY''"
| "outcome_to_string ScheduleOutcome.RejectLocality = ''REJECT_LOCALITY''"
| "outcome_to_string ScheduleOutcome.RejectTenant = ''REJECT_TENANT''"
| "outcome_to_string ScheduleOutcome.RejectLeaseExpired = ''REJECT_LEASE_EXPIRED''"
| "outcome_to_string ScheduleOutcome.RejectDrain = ''REJECT_DRAIN''"
| "outcome_to_string ScheduleOutcome.RejectDuplicate = ''REJECT_DUPLICATE''"
| "outcome_to_string ScheduleOutcome.RejectExpired = ''REJECT_EXPIRED''"
| "outcome_to_string ScheduleOutcome.RejectFenced = ''REJECT_FENCED''"
| "outcome_to_string ScheduleOutcome.RejectReservation = ''REJECT_RESERVATION''"
| "outcome_to_string ScheduleOutcome.RejectLifecycle = ''REJECT_LIFECYCLE''"
| "outcome_to_string ScheduleOutcome.RejectDeadline = ''REJECT_DEADLINE''"
| "outcome_to_string ScheduleOutcome.RejectCapability = ''REJECT_CAPABILITY''"
| "outcome_to_string ScheduleOutcome.RejectStaleQueueGeneration = ''REJECT_STALE_QUEUE_GENERATION''"

definition is_rejection :: "ScheduleOutcome \<Rightarrow> bool" where
  "is_rejection oc = (case oc of
     ScheduleOutcome.Assigned \<Rightarrow> False
   | ScheduleOutcome.NoChange \<Rightarrow> False
   | ScheduleOutcome.Deferred \<Rightarrow> False
   | ScheduleOutcome.NoEligibleAgent \<Rightarrow> False
   | _ \<Rightarrow> True)"

definition all_outcomes :: "ScheduleOutcome list" where
  "all_outcomes =
     [ScheduleOutcome.Assigned, ScheduleOutcome.NoChange, ScheduleOutcome.Deferred,
      ScheduleOutcome.NoEligibleAgent, ScheduleOutcome.RejectStaleSchedulerEpoch,
      ScheduleOutcome.RejectStaleCoordinatorEpoch, ScheduleOutcome.RejectStaleAgentBoot,
      ScheduleOutcome.RejectStaleAgentGeneration, ScheduleOutcome.RejectStaleWorkGeneration,
      ScheduleOutcome.RejectStaleAssignment, ScheduleOutcome.RejectStalePolicy,
      ScheduleOutcome.RejectStaleCapability, ScheduleOutcome.RejectResourceFeasibility,
      ScheduleOutcome.RejectBudget, ScheduleOutcome.RejectSlo, ScheduleOutcome.RejectPolicy,
      ScheduleOutcome.RejectCancelled, ScheduleOutcome.RejectSuperseded,
      ScheduleOutcome.RejectConflict, ScheduleOutcome.RevalidationRequired,
      ScheduleOutcome.ShuttingDown, ScheduleOutcome.RejectInvalidRequest,
      ScheduleOutcome.RejectLimitExceeded, ScheduleOutcome.RejectHealth,
      ScheduleOutcome.RejectReachability, ScheduleOutcome.RejectReadiness,
      ScheduleOutcome.RejectCapacity, ScheduleOutcome.RejectAffinity,
      ScheduleOutcome.RejectLocality, ScheduleOutcome.RejectTenant,
      ScheduleOutcome.RejectLeaseExpired, ScheduleOutcome.RejectDrain,
      ScheduleOutcome.RejectDuplicate, ScheduleOutcome.RejectExpired,
      ScheduleOutcome.RejectFenced, ScheduleOutcome.RejectReservation,
      ScheduleOutcome.RejectLifecycle, ScheduleOutcome.RejectDeadline,
      ScheduleOutcome.RejectCapability, ScheduleOutcome.RejectStaleQueueGeneration]"

lemma all_outcomes_nth [simp]: "all_outcomes ! outcome_code a = a"
  by (cases a) (simp_all add: all_outcomes_def)

lemma outcome_code_inject: "outcome_code a = outcome_code b \<longleftrightarrow> a = b"
  by (metis all_outcomes_nth)

text \<open>The order of the enumerators, used to sort the rejection histogram.\<close>

instantiation ScheduleOutcome :: linorder
begin

definition less_eq_ScheduleOutcome :: "ScheduleOutcome \<Rightarrow> ScheduleOutcome \<Rightarrow> bool" where
  "less_eq_ScheduleOutcome a b \<longleftrightarrow> outcome_code a \<le> outcome_code b"

definition less_ScheduleOutcome :: "ScheduleOutcome \<Rightarrow> ScheduleOutcome \<Rightarrow> bool" where
  "less_ScheduleOutcome a b \<longleftrightarrow> outcome_code a < outcome_code b"

instance proof
  fix a b c :: ScheduleOutcome
  show "(a < b) = (a \<le> b \<and> \<not> b \<le> a)"
    by (auto simp: less_eq_ScheduleOutcome_def less_ScheduleOutcome_def)
  show "a \<le> a" by (simp add: less_eq_ScheduleOutcome_def)
  show "a \<le> b \<Longrightarrow> b \<le> c \<Longrightarrow> a \<le> c" by (simp add: less_eq_ScheduleOutcome_def)
  show "a \<le> b \<or> b \<le> a" by (auto simp: less_eq_ScheduleOutcome_def)
  show "a \<le> b \<Longrightarrow> b \<le> a \<Longrightarrow> a = b"
    by (simp add: less_eq_ScheduleOutcome_def outcome_code_inject)
qed

end

record SchedulerError =
  er_code :: ErrorCode
  er_operation :: string
  er_subject :: string
  er_current_generation :: u64
  er_expected_generation :: u64
  er_factors :: "string list"
  er_detail :: string
  er_outcome :: ScheduleOutcome

type_synonym MutationResult = "SchedulerError option"

definition make_error ::
    "ErrorCode \<Rightarrow> string \<Rightarrow> string \<Rightarrow> string \<Rightarrow> ScheduleOutcome \<Rightarrow> SchedulerError" where
  "make_error code operation subject detail oc =
     \<lparr> er_code = code, er_operation = operation, er_subject = subject,
       er_current_generation = 0, er_expected_generation = 0, er_factors = [],
       er_detail = detail, er_outcome = oc \<rparr>"

lemma make_error_sel [simp]:
  "er_code (make_error c oper s d oc) = c"
  "er_outcome (make_error c oper s d oc) = oc"
  "er_detail (make_error c oper s d oc) = d"
  by (simp_all add: make_error_def)

text \<open>std::to_string on an unsigned number.\<close>

fun decimal :: "nat \<Rightarrow> string" where
  "decimal n = (if n < 10 then [''0123456789'' ! n]
                else decimal (n div 10) @ [''0123456789'' ! (n mod 10)])"

declare decimal.simps [simp del]

definition describe_error :: "SchedulerError \<Rightarrow> string" where
  "describe_error e =
     error_code_to_string (er_code e) @ '' op='' @ er_operation e @ '' subject='' @ er_subject e
     @ '' outcome='' @ outcome_to_string (er_outcome e)
     @ (if er_current_generation e \<noteq> 0 \<or> er_expected_generation e \<noteq> 0
        then '' current='' @ decimal (unat (er_current_generation e))
             @ '' expected='' @ decimal (unat (er_expected_generation e))
        else [])
     @ concat (map (\<lambda>f. '' factor='' @ f) (er_factors e))
     @ (if er_detail e \<noteq> [] then '' detail='' @ er_detail e else [])"

definition describe_result :: "MutationResult \<Rightarrow> string" where
  "describe_result r = (case r of None \<Rightarrow> ''OK'' | Some e \<Rightarrow> describe_error e)"

end
