(* ===== verification/Text_Util.thy ===== *)
theory Text_Util
  imports Outcomes
begin

section \<open>Text validation and canonicalization\<close>

text \<open>
  internal/util.cpp: identifier and free text checks, UTF-8 shape validation, sorting and
  duplicate removal of string lists, and the fixed-point clamp. A char is a byte; the loops
  over positions are recursions over the remaining text.
\<close>

unbundle bit_operations_syntax

definition byte_of :: "char \<Rightarrow> u32" where
  "byte_of c = of_char c"

text \<open>Leading byte of a multi-byte form: number of continuation bytes and payload bits.\<close>

definition utf8_lead :: "u32 \<Rightarrow> (nat \<times> u32) option" where
  "utf8_lead byte =
     (if byte AND 0xE0 = 0xC0 then
        (if byte AND 0x1F = 0 then None else Some (1, byte AND 0x1F))
      else if byte AND 0xF0 = 0xE0 then Some (2, byte AND 0x0F)
      else if byte AND 0xF8 = 0xF0 then Some (3, byte AND 0x07)
      else None)"

fun utf8_continue :: "u32 \<Rightarrow> string \<Rightarrow> u32 option" where
  "utf8_continue cp [] = Some cp"
| "utf8_continue cp (c # cs) =
     (if byte_of c AND 0xC0 \<noteq> 0x80 then None
      else utf8_continue (push_bit 6 cp OR (byte_of c AND 0x3F)) cs)"

definition utf8_in_range :: "nat \<Rightarrow> u32 \<Rightarrow> bool" where
  "utf8_in_range extra cp \<longleftrightarrow>
     \<not> (extra = 1 \<and> cp < 0x80) \<and> \<not> (extra = 2 \<and> cp < 0x800) \<and> \<not> (extra = 3 \<and> cp < 0x10000)
     \<and> \<not> cp > 0x10FFFF \<and> \<not> (0xD800 \<le> cp \<and> cp \<le> 0xDFFF)"

fun valid_utf8 :: "string \<Rightarrow> bool" where
  "valid_utf8 [] = True"
| "valid_utf8 (c # cs) =
     (if byte_of c < 0x80 then valid_utf8 cs
      else case utf8_lead (byte_of c) of
        None \<Rightarrow> False
      | Some (extra, cp) \<Rightarrow>
          if length cs < extra then False
          else (case utf8_continue cp (take extra cs) of
                  None \<Rightarrow> False
                | Some p \<Rightarrow> utf8_in_range extra p \<and> valid_utf8 (drop extra cs)))"

definition is_control_byte :: "char \<Rightarrow> bool" where
  "is_control_byte c \<longleftrightarrow> byte_of c < 0x20 \<or> byte_of c = 0x7F \<or> (0x80 \<le> byte_of c \<and> byte_of c \<le> 0x9F)"

definition contains_control_chars :: "string \<Rightarrow> bool" where
  "contains_control_chars text \<longleftrightarrow> list_ex is_control_byte text"

definition is_identifier_char :: "char \<Rightarrow> bool" where
  "is_identifier_char c \<longleftrightarrow>
     (CHR ''a'' \<le> c \<and> c \<le> CHR ''z'') \<or> (CHR ''A'' \<le> c \<and> c \<le> CHR ''Z'')
     \<or> (CHR ''0'' \<le> c \<and> c \<le> CHR ''9'') \<or> c = CHR ''_'' \<or> c = CHR ''-'' \<or> c = CHR ''.''
     \<or> c = CHR '':'' \<or> c = CHR ''/'' \<or> c = CHR ''+''"

definition is_identifier :: "string \<Rightarrow> u32 \<Rightarrow> bool" where
  "is_identifier text max_length \<longleftrightarrow>
     \<not> (text = [] \<or> length text > unat max_length) \<and> list_all is_identifier_char text"

definition text_problem :: "string \<Rightarrow> u32 \<Rightarrow> string \<Rightarrow> string option" where
  "text_problem text max_length field = first_some
     [guard (length text > unat max_length) (field @ '' exceeds maximum length''),
      guard (contains_control_chars text) (field @ '' contains control characters''),
      guard (\<not> valid_utf8 text) (field @ '' is not valid UTF-8'')]"

definition identifier_problem :: "string \<Rightarrow> u32 \<Rightarrow> string \<Rightarrow> string option" where
  "identifier_problem text max_length field = first_some
     [guard (text = []) (field @ '' must not be empty''),
      guard (\<not> is_identifier text max_length)
        (field @ '' contains characters outside the identifier charset'')]"

definition canonicalize_strings :: "string list \<Rightarrow> string list" where
  "canonicalize_strings values = unique_adjacent (sort_by (<) values)"

text \<open>The flag is false when a duplicate was present; the list is the canonical one.\<close>

definition canonicalize_unique :: "string list \<Rightarrow> bool \<times> string list" where
  "canonicalize_unique values =
     (let sorted_values = sort_by (<) values
      in (\<not> has_adjacent (=) sorted_values, unique_adjacent sorted_values))"

definition clamp_unit_scale :: "u64 \<Rightarrow> u64 \<Rightarrow> int" where
  "clamp_unit_scale value ceiling =
     (if ceiling = 0 then 0
      else if ceiling \<le> value then 1000
      else if value > (- 1) div 1000 then 1000
      else sint ((value * 1000) div ceiling))"

text \<open>Identifier and generation text: 16 hexadecimal digits, or 32 for derived values.\<close>

definition hex_digit :: "nat \<Rightarrow> char" where
  "hex_digit n = ''0123456789abcdef'' ! n"

definition id_to_string :: "u64 \<Rightarrow> string" where
  "id_to_string v = map (\<lambda>i. hex_digit (unat (drop_bit (4 * i) v AND 0xF))) (rev [0..<16])"

lemma canonicalize_strings_props:
  "set (canonicalize_strings xs) = set xs" "sorted_wrt (<) (canonicalize_strings xs)"
  by (simp_all add: canonicalize_strings_def unique_adjacent_strict)

lemma canonicalize_unique_fst [simp]: "fst (canonicalize_unique xs) \<longleftrightarrow> distinct xs"
  by (simp add: canonicalize_unique_def Let_def has_adjacent_sorted)

lemma identifier_problem_None:
  "identifier_problem t n f = None \<longleftrightarrow> is_identifier t n"
  by (auto simp: identifier_problem_def is_identifier_def)

lemma text_problem_None:
  "text_problem t n f = None \<longleftrightarrow>
     length t \<le> unat n \<and> (\<forall>c \<in> set t. \<not> is_control_byte c) \<and> valid_utf8 t"
  by (auto simp: text_problem_def contains_control_chars_def list_ex_iff)

end
