(* ===== verification/Sched_Digest.thy ===== *)
theory Sched_Digest
  imports Text_Util
begin

section \<open>Digests, checksums and derived identities\<close>

text \<open>
  digest.hpp and digest.cpp: the streaming SHA-256 hasher, the 128-bit identity taken from
  a digest, and CRC-32. The hasher keeps its eight state words, the number of bytes fed and
  the bytes buffered since the last full block; the block buffer is modelled by the list of
  the bytes it holds.
\<close>

unbundle bit_operations_syntax

datatype Hash128 = Hash128 (h_high: u64) (h_low: u64)

instantiation Hash128 :: linorder
begin

definition less_eq_Hash128 :: "Hash128 \<Rightarrow> Hash128 \<Rightarrow> bool" where
  "less_eq_Hash128 a b \<longleftrightarrow>
     h_high a < h_high b \<or> h_high a = h_high b \<and> h_low a \<le> h_low b"

definition less_Hash128 :: "Hash128 \<Rightarrow> Hash128 \<Rightarrow> bool" where
  "less_Hash128 a b \<longleftrightarrow>
     h_high a < h_high b \<or> h_high a = h_high b \<and> h_low a < h_low b"

instance
  by intro_classes
    (auto simp: less_eq_Hash128_def less_Hash128_def Hash128.expand)

end

definition hash128_zero :: Hash128 where
  "hash128_zero = Hash128 0 0"

definition hash128_is_zero :: "Hash128 \<Rightarrow> bool" where
  "hash128_is_zero h \<longleftrightarrow> h_high h = 0 \<and> h_low h = 0"

lemma hash128_is_zero_iff: "hash128_is_zero h \<longleftrightarrow> h = hash128_zero"
  by (cases h) (simp add: hash128_is_zero_def hash128_zero_def)

text \<open>Bytes of a word, most significant first, and least significant first.\<close>

definition be_bytes64 :: "u64 \<Rightarrow> u8 list" where
  "be_bytes64 v = map (\<lambda>i. ucast (drop_bit (56 - 8 * i) v AND 0xFF)) [0..<8]"

definition le_bytes :: "nat \<Rightarrow> 'a::len word \<Rightarrow> u8 list" where
  "le_bytes n v = map (\<lambda>i. ucast (drop_bit (8 * i) v AND 0xFF)) [0..<n]"

definition to_hex :: "u8 list \<Rightarrow> string" where
  "to_hex data = concat (map (\<lambda>b. [hex_digit (unat (drop_bit 4 b AND 0xF)),
                                   hex_digit (unat (b AND 0xF))]) data)"

definition hash128_to_string :: "Hash128 \<Rightarrow> string" where
  "hash128_to_string h = to_hex (be_bytes64 (h_high h) @ be_bytes64 (h_low h))"

subsection \<open>SHA-256\<close>

definition round_constants :: "u32 list" where
  "round_constants = concat
     [[0x428a2f98, 0x71374491, 0xb5c0fbcf, 0xe9b5dba5,
        0x3956c25b, 0x59f111f1, 0x923f82a4, 0xab1c5ed5],
      [0xd807aa98, 0x12835b01, 0x243185be, 0x550c7dc3,
        0x72be5d74, 0x80deb1fe, 0x9bdc06a7, 0xc19bf174],
      [0xe49b69c1, 0xefbe4786, 0x0fc19dc6, 0x240ca1cc,
        0x2de92c6f, 0x4a7484aa, 0x5cb0a9dc, 0x76f988da],
      [0x983e5152, 0xa831c66d, 0xb00327c8, 0xbf597fc7,
        0xc6e00bf3, 0xd5a79147, 0x06ca6351, 0x14292967],
      [0x27b70a85, 0x2e1b2138, 0x4d2c6dfc, 0x53380d13,
        0x650a7354, 0x766a0abb, 0x81c2c92e, 0x92722c85],
      [0xa2bfe8a1, 0xa81a664b, 0xc24b8b70, 0xc76c51a3,
        0xd192e819, 0xd6990624, 0xf40e3585, 0x106aa070],
      [0x19a4c116, 0x1e376c08, 0x2748774c, 0x34b0bcb5,
        0x391c0cb3, 0x4ed8aa4a, 0x5b9cca4f, 0x682e6ff3],
      [0x748f82ee, 0x78a5636f, 0x84c87814, 0x8cc70208,
        0x90befffa, 0xa4506ceb, 0xbef9a3f7, 0xc67178f2]]"

definition rotr :: "u32 \<Rightarrow> nat \<Rightarrow> u32" where
  "rotr value shift = drop_bit shift value OR push_bit (32 - shift) value"

text \<open>The first sixteen schedule words: big-endian words of the block.\<close>

definition block_word :: "u8 list \<Rightarrow> nat \<Rightarrow> u32" where
  "block_word block i =
     push_bit 24 (ucast (block ! (4 * i))) OR push_bit 16 (ucast (block ! (4 * i + 1)))
     OR push_bit 8 (ucast (block ! (4 * i + 2))) OR ucast (block ! (4 * i + 3))"

definition next_schedule_word :: "u32 list \<Rightarrow> u32" where
  "next_schedule_word w =
     (let i = length w;
          s0 = rotr (w ! (i - 15)) 7 XOR rotr (w ! (i - 15)) 18 XOR drop_bit 3 (w ! (i - 15));
          s1 = rotr (w ! (i - 2)) 17 XOR rotr (w ! (i - 2)) 19 XOR drop_bit 10 (w ! (i - 2))
      in w ! (i - 16) + s0 + w ! (i - 7) + s1)"

definition message_schedule :: "u8 list \<Rightarrow> u32 list" where
  "message_schedule block =
     ((\<lambda>w. w @ [next_schedule_word w]) ^^ 48) (map (block_word block) [0..<16])"

type_synonym sha_state = "u32 \<times> u32 \<times> u32 \<times> u32 \<times> u32 \<times> u32 \<times> u32 \<times> u32"

fun sha_round :: "u32 \<times> u32 \<Rightarrow> sha_state \<Rightarrow> sha_state" where
  "sha_round (k, w) (a, b, c, d, e, f, g, h) =
     (let s1 = rotr e 6 XOR rotr e 11 XOR rotr e 25;
          choice = (e AND f) XOR (NOT e AND g);
          temp1 = h + s1 + choice + k + w;
          s0 = rotr a 2 XOR rotr a 13 XOR rotr a 22;
          majority = (a AND b) XOR (a AND c) XOR (b AND c);
          temp2 = s0 + majority
      in (temp1 + temp2, a, b, c, d + temp1, e, f, g))"

fun sha_add :: "sha_state \<Rightarrow> sha_state \<Rightarrow> sha_state" where
  "sha_add (a, b, c, d, e, f, g, h) (a', b', c', d', e', f', g', h') =
     (a + a', b + b', c + c', d + d', e + e', f + f', g + g', h + h')"

definition compress :: "sha_state \<Rightarrow> u8 list \<Rightarrow> sha_state" where
  "compress st block =
     sha_add st (fold sha_round (zip round_constants (message_schedule block)) st)"

record Hasher256 =
  hs_state :: sha_state
  hs_total_bytes :: u64
  hs_buffer :: "u8 list"

definition hasher_init :: Hasher256 where
  "hasher_init =
     \<lparr> hs_state = (0x6a09e667, 0xbb67ae85, 0x3c6ef372, 0xa54ff53a,
                   0x510e527f, 0x9b05688c, 0x1f83d9ab, 0x5be0cd19),
       hs_total_bytes = 0, hs_buffer = [] \<rparr>"

text \<open>
  The copy loop of \<open>update\<close>: fill the block buffer, compress it when it is full. The
  buffer never enters the loop full; the guard on its length only makes the recursion total.
\<close>

function hasher_feed :: "Hasher256 \<Rightarrow> u8 list \<Rightarrow> Hasher256" where
  "hasher_feed h data =
     (if data = [] \<or> 64 \<le> length (hs_buffer h) then h
      else let take_n = min (64 - length (hs_buffer h)) (length data);
               buffer = hs_buffer h @ take take_n data;
               h' = (if length buffer = 64
                     then h\<lparr>hs_state := compress (hs_state h) buffer, hs_buffer := []\<rparr>
                     else h\<lparr>hs_buffer := buffer\<rparr>)
           in hasher_feed h' (drop take_n data))"
  by pat_completeness auto
termination
  by (relation "measure (\<lambda>(h, data). length data)") auto

declare hasher_feed.simps [simp del]

definition hasher_update :: "u8 list \<Rightarrow> Hasher256 \<Rightarrow> Hasher256" where
  "hasher_update data h =
     hasher_feed (h\<lparr>hs_total_bytes := hs_total_bytes h + of_nat (length data)\<rparr>) data"

definition update_u8 :: "u8 \<Rightarrow> Hasher256 \<Rightarrow> Hasher256" where
  "update_u8 v = hasher_update [v]"

definition update_u32 :: "u32 \<Rightarrow> Hasher256 \<Rightarrow> Hasher256" where
  "update_u32 v = hasher_update (le_bytes 4 v)"

definition update_u64 :: "u64 \<Rightarrow> Hasher256 \<Rightarrow> Hasher256" where
  "update_u64 v = hasher_update (le_bytes 8 v)"

definition text_bytes :: "string \<Rightarrow> u8 list" where
  "text_bytes s = map of_char s"

definition update_length_prefixed :: "string \<Rightarrow> Hasher256 \<Rightarrow> Hasher256" where
  "update_length_prefixed s h =
     hasher_update (text_bytes s) (update_u32 (of_nat (length s)) h)"

definition update_field_tag :: "u8 \<Rightarrow> Hasher256 \<Rightarrow> Hasher256" where
  "update_field_tag tag h = update_u32 0xA5A5A5A5 (update_u8 tag h)"

text \<open>
  Padding: one 0x80 byte, zero bytes until 56 bytes are buffered, the bit length. The zero
  loop runs fewer than 64 times, so 64 units of fuel always reach the 56th byte
  (\<open>pad_zeros_reach\<close> in \<open>Digest_Facts\<close>).
\<close>

fun pad_zeros :: "nat \<Rightarrow> Hasher256 \<Rightarrow> Hasher256" where
  "pad_zeros 0 h = h"
| "pad_zeros (Suc n) h =
     (if length (hs_buffer h) = 56 then h else pad_zeros n (hasher_update [0] h))"

fun sha_state_bytes :: "sha_state \<Rightarrow> u8 list" where
  "sha_state_bytes (a, b, c, d, e, f, g, h) =
     concat (map (\<lambda>w. [ucast (drop_bit 24 w AND 0xFF), ucast (drop_bit 16 w AND 0xFF),
                       ucast (drop_bit 8 w AND 0xFF), ucast (w AND 0xFF)])
               [a, b, c, d, e, f, g, h])"

type_synonym Digest256 = "u8 list"

definition hasher_final :: "Hasher256 \<Rightarrow> Digest256" where
  "hasher_final h =
     (let bit_length = hs_total_bytes h * 8;
          padded = pad_zeros 64 (hasher_update [0x80] h);
          done = hasher_update (be_bytes64 bit_length) padded
      in sha_state_bytes (hs_state done))"

definition sha256 :: "u8 list \<Rightarrow> Digest256" where
  "sha256 data = hasher_final (hasher_update data hasher_init)"

definition digest_is_zero :: "Digest256 \<Rightarrow> bool" where
  "digest_is_zero d \<longleftrightarrow> list_all (\<lambda>b. b = 0) d"

definition hash128_of :: "Digest256 \<Rightarrow> Hash128" where
  "hash128_of d = Hash128 (fold (\<lambda>i acc. push_bit 8 acc OR ucast (d ! i)) [0..<8] 0)
                          (fold (\<lambda>i acc. push_bit 8 acc OR ucast (d ! (i + 8))) [0..<8] 0)"

subsection \<open>CRC-32\<close>

definition crc_bit_step :: "u32 \<Rightarrow> u32" where
  "crc_bit_step v = (if v AND 1 \<noteq> 0 then 0xEDB88320 XOR drop_bit 1 v else drop_bit 1 v)"

definition crc_table :: "u32 list" where
  "crc_table = map (\<lambda>i. (crc_bit_step ^^ 8) (of_nat i)) [0..<256]"

definition crc_byte_step :: "u8 \<Rightarrow> u32 \<Rightarrow> u32" where
  "crc_byte_step byte value =
     crc_table ! unat ((value XOR ucast byte) AND 0xFF) XOR drop_bit 8 value"

definition crc32 :: "u8 list \<Rightarrow> u32 \<Rightarrow> u32" where
  "crc32 data seed = fold crc_byte_step data (seed XOR 0xFFFFFFFF) XOR 0xFFFFFFFF"

end
