(* ===== verification/Float64.thy ===== *)
theory Float64
  imports Complex_Main Sched_Prelude
begin

section \<open>Double precision evidence\<close>

text \<open>
  The two doubles of a load observation, as IEEE 754 binary64 bit patterns (the encoding the
  codec and the digest use). Their finite values are rationals; the arithmetic the ranking
  does on them is rounded to nearest, ties to even, as the standard requires.
\<close>

unbundle bit_operations_syntax

definition f64_exponent :: "u64 \<Rightarrow> nat" where
  "f64_exponent b = unat (drop_bit 52 b AND 0x7FF)"

definition f64_fraction :: "u64 \<Rightarrow> int" where
  "f64_fraction b = uint (b AND 0xFFFFFFFFFFFFF)"

definition f64_is_finite :: "u64 \<Rightarrow> bool" where
  "f64_is_finite b \<longleftrightarrow> f64_exponent b \<noteq> 0x7FF"

definition f64_magnitude :: "u64 \<Rightarrow> rat" where
  "f64_magnitude b =
     (if f64_exponent b = 0 then of_int (f64_fraction b) / 2 ^ 1074
      else if f64_exponent b \<ge> 1075
           then of_int (2 ^ 52 + f64_fraction b) * 2 ^ (f64_exponent b - 1075)
           else of_int (2 ^ 52 + f64_fraction b) / 2 ^ (1075 - f64_exponent b))"

definition f64_value :: "u64 \<Rightarrow> rat" where
  "f64_value b = (if drop_bit 63 b = 0 then f64_magnitude b else - f64_magnitude b)"

text \<open>Comparisons with constants; a NaN fails them all.\<close>

definition f64_ge_zero :: "u64 \<Rightarrow> bool" where
  "f64_ge_zero b \<longleftrightarrow>
     (if f64_exponent b = 0x7FF then f64_fraction b = 0 \<and> drop_bit 63 b = 0
      else 0 \<le> f64_value b)"

definition is_finite_non_negative :: "u64 \<Rightarrow> bool" where
  "is_finite_non_negative b \<longleftrightarrow> f64_is_finite b \<and> f64_ge_zero b"

definition is_finite_unit_fraction :: "u64 \<Rightarrow> bool" where
  "is_finite_unit_fraction b \<longleftrightarrow> f64_is_finite b \<and> f64_ge_zero b \<and> f64_value b \<le> 1"

function bit_length :: "int \<Rightarrow> nat" where
  "bit_length n = (if n \<le> 0 then 0 else Suc (bit_length (n div 2)))"
  by pat_completeness auto
termination
  by (relation "measure nat") auto

declare bit_length.simps [simp del]

text \<open>The binary exponent e of a positive rational: 2^e <= x < 2^(e+1).\<close>

definition rat_exponent :: "rat \<Rightarrow> int" where
  "rat_exponent x =
     (let (n, d) = quotient_of x;
          k = int (bit_length n) - int (bit_length d)
      in if 2 powi k \<le> x then k else k - 1)"

definition round_half_even :: "rat \<Rightarrow> int" where
  "round_half_even x =
     (let f = \<lfloor>x\<rfloor>; r = x - of_int f
      in if r < 1 / 2 then f else if r > 1 / 2 then f + 1
         else if even f then f else f + 1)"

text \<open>Rounding of a positive value of the normal range to 53 significant bits.\<close>

definition f64_round :: "rat \<Rightarrow> rat" where
  "f64_round x =
     (if x \<le> 0 then x
      else let ulp = 2 powi (rat_exponent x - 52) in of_int (round_half_even (x / ulp)) * ulp)"

text \<open>The conversion of a non-negative double to int64 truncates.\<close>

definition f64_to_i64 :: "rat \<Rightarrow> int" where
  "f64_to_i64 x = (if 0 \<le> x then \<lfloor>x\<rfloor> else \<lceil>x\<rceil>)"

text \<open>The cost score \<open>1000.0 / (1.0 + cost)\<close> and the headroom score \<open>fraction * 1000.0\<close>.\<close>

definition cost_score_of :: "u64 \<Rightarrow> int" where
  "cost_score_of cost =
     (if f64_ge_zero cost
      then f64_to_i64 (f64_round (1000 / f64_round (1 + f64_value cost)))
      else - 1)"

definition headroom_score_of :: "u64 \<Rightarrow> int" where
  "headroom_score_of fraction = f64_to_i64 (f64_round (f64_value fraction * 1000))"

end
