(* ===== verification/Codec.thy ===== *)
theory Codec
  imports Sched_Digest Float64
begin

section \<open>The bounds-checked binary codec\<close>

text \<open>
  codec.hpp and codec.cpp. A writer extends a byte buffer, a reader consumes a prefix of the
  bytes that remain; both stop with the text of the DecodeError the code throws. Composite
  encoders are lists of writers run in order. A composite decoder is a list of steps, each
  reading one field and storing it in the record under construction, as the statements
  \<open>message.field = reader.get_...()\<close> do.
\<close>

named_theorems struct_fields \<open>one rule per kind of field: the record format without its first field\<close>

type_synonym 'a coded = "string + 'a"
type_synonym writer = "u8 list \<Rightarrow> u8 list coded"
type_synonym 'a reader = "u8 list \<Rightarrow> ('a \<times> u8 list) coded"
type_synonym 'r step = "'r \<Rightarrow> 'r reader"

subsection \<open>ByteWriter\<close>

definition kMaxEncodeBytes :: u64 where
  "kMaxEncodeBytes = push_bit 30 1"

text \<open>The check of \<open>require\<close>, in size_t arithmetic: the subtraction wraps.\<close>

definition require_space :: "nat \<Rightarrow> u8 list \<Rightarrow> bool" where
  "require_space extra buffer \<longleftrightarrow>
     \<not> (of_nat (length buffer) :: u64) > kMaxEncodeBytes - of_nat extra"

definition put_raw :: "u8 list \<Rightarrow> writer" where
  "put_raw data buffer =
     (if require_space (length data) buffer then Inr (buffer @ data)
      else Inl ''encoded message exceeds the maximum encodable size'')"

definition put_u8 :: "u8 \<Rightarrow> writer" where "put_u8 v = put_raw [v]"
definition put_u16 :: "u16 \<Rightarrow> writer" where "put_u16 v = put_raw (le_bytes 2 v)"
definition put_u32 :: "u32 \<Rightarrow> writer" where "put_u32 v = put_raw (le_bytes 4 v)"
definition put_u64 :: "u64 \<Rightarrow> writer" where "put_u64 v = put_raw (le_bytes 8 v)"

definition put_i64 :: "int \<Rightarrow> writer" where "put_i64 v = put_u64 (word_of_int v)"

definition put_bool :: "bool \<Rightarrow> writer" where
  "put_bool v = put_u8 (if v then 1 else 0)"

definition put_f64 :: "u64 \<Rightarrow> writer" where
  "put_f64 v buffer =
     (if \<not> f64_is_finite v then Inl ''non-finite double is not encodable''
      else put_u64 v buffer)"

fun seq_puts :: "writer list \<Rightarrow> writer" where
  "seq_puts [] buffer = Inr buffer"
| "seq_puts (p # ps) buffer =
     (case p buffer of Inl e \<Rightarrow> Inl e | Inr buffer' \<Rightarrow> seq_puts ps buffer')"

definition put_string :: "string \<Rightarrow> u32 \<Rightarrow> writer" where
  "put_string v max_bytes buffer =
     (if length v > unat max_bytes then Inl ''string exceeds the configured maximum size''
      else seq_puts [put_u32 (of_nat (length v)), put_raw (text_bytes v)] buffer)"

definition put_digest :: "Digest256 \<Rightarrow> writer" where
  "put_digest v = put_raw v"

subsection \<open>ByteReader\<close>

definition get_bytes :: "nat \<Rightarrow> u8 list reader" where
  "get_bytes n bs =
     (if n > length bs then Inl ''truncated message: not enough bytes remain''
      else Inr (take n bs, drop n bs))"

definition bind_get :: "'a reader \<Rightarrow> ('a \<Rightarrow> 'b reader) \<Rightarrow> 'b reader" where
  "bind_get r k bs = (case r bs of Inl e \<Rightarrow> Inl e | Inr (x, rest) \<Rightarrow> k x rest)"

definition return_get :: "'a \<Rightarrow> 'a reader" where
  "return_get x bs = Inr (x, bs)"

definition fail_get :: "string \<Rightarrow> 'a reader" where
  "fail_get e bs = Inl e"

text \<open>The loops of get_u32 and get_u64: from the highest byte down.\<close>

definition le_value :: "u8 list \<Rightarrow> 'a::len word" where
  "le_value bs = foldr (\<lambda>b v. push_bit 8 v OR ucast b) bs 0"

definition get_u8 :: "u8 reader" where
  "get_u8 = bind_get (get_bytes 1) (\<lambda>b. return_get (b ! 0))"

definition get_u16 :: "u16 reader" where
  "get_u16 = bind_get (get_bytes 2)
     (\<lambda>b. return_get (ucast (b ! 0) OR push_bit 8 (ucast (b ! 1))))"

definition get_u32 :: "u32 reader" where
  "get_u32 = bind_get (get_bytes 4) (\<lambda>b. return_get (le_value b))"

definition get_u64 :: "u64 reader" where
  "get_u64 = bind_get (get_bytes 8) (\<lambda>b. return_get (le_value b))"

definition get_i64 :: "int reader" where
  "get_i64 = bind_get get_u64 (\<lambda>v. return_get (sint v))"

definition get_bool :: "bool reader" where
  "get_bool = bind_get get_u8 (\<lambda>v.
     if v > 1 then fail_get ''boolean field must be 0 or 1'' else return_get (v \<noteq> 0))"

definition get_f64 :: "u64 reader" where
  "get_f64 = bind_get get_u64 (\<lambda>bits.
     if \<not> f64_is_finite bits then fail_get ''non-finite double is not accepted''
     else return_get bits)"

definition bytes_text :: "u8 list \<Rightarrow> string" where
  "bytes_text bs = map (\<lambda>b. char_of (unat b)) bs"

definition get_string :: "u32 \<Rightarrow> string reader" where
  "get_string max_bytes = bind_get get_u32 (\<lambda>size.
     if size > max_bytes then fail_get ''string length exceeds the configured maximum size''
     else bind_get (get_bytes (unat size)) (\<lambda>b. return_get (bytes_text b)))"

definition get_digest :: "Digest256 reader" where
  "get_digest = get_bytes 32"

definition require_exhausted :: "u8 list \<Rightarrow> unit coded" where
  "require_exhausted bs =
     (if bs \<noteq> [] then Inl ''message payload carries trailing bytes'' else Inr ())"

text \<open>A whole payload: the message, then nothing.\<close>

definition decode_payload :: "'a reader \<Rightarrow> u8 list \<Rightarrow> 'a coded" where
  "decode_payload get payload =
     (case get payload of Inl e \<Rightarrow> Inl e
      | Inr (x, rest) \<Rightarrow> (case require_exhausted rest of Inl e \<Rightarrow> Inl e | Inr _ \<Rightarrow> Inr x))"

subsection \<open>Composition\<close>

definition into :: "'a reader \<Rightarrow> ('a \<Rightarrow> 'r \<Rightarrow> 'r) \<Rightarrow> 'r step" where
  "into get upd r = bind_get get (\<lambda>x. return_get (upd x r))"

fun seq_gets :: "'r step list \<Rightarrow> 'r step" where
  "seq_gets [] r = return_get r"
| "seq_gets (s # ss) r = bind_get (s r) (seq_gets ss)"

text \<open>A counted sequence: the count, then the elements. The reader checks the count first.\<close>

definition put_list :: "('a \<Rightarrow> writer) \<Rightarrow> 'a list \<Rightarrow> writer" where
  "put_list put xs = seq_puts (put_u32 (of_nat (length xs)) # map put xs)"

fun get_times :: "nat \<Rightarrow> 'a reader \<Rightarrow> 'a list reader" where
  "get_times 0 get = return_get []"
| "get_times (Suc n) get =
     bind_get get (\<lambda>x. bind_get (get_times n get) (\<lambda>xs. return_get (x # xs)))"

definition get_list :: "u32 \<Rightarrow> string \<Rightarrow> 'a reader \<Rightarrow> 'a list reader" where
  "get_list maximum message get = bind_get get_u32 (\<lambda>count.
     if count > maximum then fail_get message else get_times (unat count) get)"

text \<open>A one byte enumeration, given by its values in the order of their codes.\<close>

definition checked_enum :: "'e list \<Rightarrow> string \<Rightarrow> 'e reader" where
  "checked_enum vals field = bind_get get_u8 (\<lambda>raw.
     if unat raw \<ge> length vals then fail_get (field @ '' is out of range'')
     else return_get (vals ! unat raw))"

definition put_hash128 :: "Hash128 \<Rightarrow> writer" where
  "put_hash128 h = seq_puts [put_u64 (h_high h), put_u64 (h_low h)]"

definition get_hash128 :: "Hash128 reader" where
  "get_hash128 = bind_get get_u64 (\<lambda>hi. bind_get get_u64 (\<lambda>lo. return_get (Hash128 hi lo)))"

subsection \<open>Little-endian words\<close>

lemma length_le_bytes [simp]: "length (le_bytes n v) = n"
  by (simp add: le_bytes_def)

lemma le_value_Nil [simp]: "le_value [] = 0"
  by (simp add: le_value_def)

lemma le_value_Cons: "le_value (b # bs) = push_bit 8 (le_value bs) OR ucast b"
  by (simp add: le_value_def)

lemma low_byte: "ucast (v AND 0xFF) = (ucast (v :: 'a::len word) :: u8)"
proof -
  have eq: "(0xFF :: 'a word) = mask 8" by (simp add: mask_eq_exp_minus_1)
  show ?thesis unfolding eq by (rule bit_word_eqI) (auto simp: bit_simps dest: bit_imp_le_length)
qed

lemma le_bytes_Suc: "le_bytes (Suc n) v = ucast v # le_bytes n (drop_bit 8 v)"
proof -
  have "[0..<Suc n] = 0 # map Suc [0..<n]"
    by (simp add: upt_conv_Cons map_Suc_upt del: upt_Suc)
  then show ?thesis
    by (simp add: le_bytes_def low_byte drop_bit_drop_bit comp_def add.commute del: upt_Suc)
qed

lemma le_value_le_bytes: "le_value (le_bytes n v) = take_bit (8 * n) (v :: 'a::len word)"
proof (induction n arbitrary: v)
  case 0
  then show ?case by (simp add: le_bytes_def)
next
  case (Suc n)
  show ?case
    unfolding le_bytes_Suc le_value_Cons Suc
    by (rule bit_word_eqI) (auto simp: bit_simps)
qed

lemma bit_le_value: "bit (le_value bs :: 'a::len word) i \<Longrightarrow> i < 8 * length bs"
proof (induction bs arbitrary: i)
  case (Cons b bs)
  from Cons.prems have "bit (le_value bs :: 'a word) (i - 8) \<and> 8 \<le> i \<or> bit b i"
    by (auto simp: le_value_Cons bit_simps)
  then show ?case
    using Cons.IH [of "i - 8"] bit_imp_le_length [of b i] by auto
qed simp

lemma le_bytes_le_value:
  "8 * length bs \<le> LENGTH('a) \<Longrightarrow> le_bytes (length bs) (le_value bs :: 'a::len word) = bs"
proof (induction bs)
  case Nil
  then show ?case by (simp add: le_bytes_def)
next
  case (Cons b bs)
  let ?v = "le_value bs :: 'a word"
  have hd: "ucast (push_bit 8 ?v OR ucast b) = b"
    using Cons.prems by (intro bit_word_eqI) (auto simp: bit_simps dest: bit_imp_le_length)
  have tl: "drop_bit 8 (push_bit 8 ?v OR ucast b) = ?v"
  proof (rule bit_word_eqI)
    fix n assume "n < LENGTH('a)"
    have "\<not> bit b (n + 8)" using bit_imp_le_length [of b "n + 8"] by auto
    moreover have "n + 8 < LENGTH('a)" if "bit ?v n"
      using bit_le_value [OF that] Cons.prems by simp
    ultimately show "bit (drop_bit 8 (push_bit 8 ?v OR ucast b)) n = bit ?v n"
      by (auto simp: bit_simps add.commute)
  qed
  have "le_bytes (length bs) ?v = bs" using Cons by simp
  then show ?case by (simp only: list.size add_0_right add_Suc_right le_bytes_Suc le_value_Cons hd tl)
qed

lemma of_char_u8 [simp]: "char_of (unat (of_char c :: u8)) = c"
proof -
  have "unat (of_char c :: u8) = unat (of_nat (of_char c) :: u8)"
    by (simp only: of_nat_of_char)
  also have "\<dots> = of_char c mod 256" by (simp add: unat_of_nat)
  finally show ?thesis by simp
qed

lemma char_u8 [simp]: "of_char (char_of (unat b) :: char) = (b :: u8)"
proof -
  have "(of_char (char_of (unat b) :: char) :: u8) = of_nat (of_char (char_of (unat b) :: char))"
    by (simp only: of_nat_of_char)
  also have "\<dots> = of_nat (unat b mod 256)" by simp
  also have "\<dots> = b"
  proof -
    have "unat b < 2 ^ LENGTH(8)" by (rule unsigned_less)
    then show ?thesis by simp
  qed
  finally show ?thesis .
qed

lemma bytes_text_bytes [simp]: "bytes_text (text_bytes s) = s"
  by (simp add: bytes_text_def text_bytes_def comp_def)

lemma text_bytes_text [simp]: "text_bytes (bytes_text bs) = bs"
  by (simp add: bytes_text_def text_bytes_def comp_def)

subsection \<open>The contract of a wire format\<close>

text \<open>
  \<open>codes p g x used\<close>: the writer \<open>p\<close> appends exactly the bytes \<open>used\<close>, failing only when
  the message would outgrow the maximum, and the reader \<open>g\<close> turns these bytes back into
  \<open>x\<close>, whatever follows them.
\<close>

definition codes :: "writer \<Rightarrow> 'a reader \<Rightarrow> 'a \<Rightarrow> u8 list \<Rightarrow> bool" where
  "codes p g x used \<longleftrightarrow>
     (\<forall>rest. g (used @ rest) = Inr (x, rest))
     \<and> (\<forall>buffer. p buffer = Inr (buffer @ used)
          \<or> (\<exists>e. p buffer = Inl e) \<and> 2 ^ 30 < length buffer + length used)"

definition codable :: "writer \<Rightarrow> 'a reader \<Rightarrow> 'a \<Rightarrow> bool" where
  "codable p g x \<longleftrightarrow> (\<exists>used. codes p g x used)"

definition tracks :: "writer \<Rightarrow> 'a reader \<Rightarrow> 'a \<Rightarrow> u8 list \<Rightarrow> u8 list \<Rightarrow> bool" where
  "tracks p g x bs rest \<longleftrightarrow> (\<exists>used. bs = used @ rest \<and> codes p g x used)"

text \<open>
  The interface every field and every message satisfies: what may be encoded decodes to the
  same value, and what the decoder accepts is the canonical encoding of its result.
\<close>

locale wire_format =
  fixes put :: "'a \<Rightarrow> writer"
    and get :: "'a reader"
    and ok :: "'a \<Rightarrow> bool"
  assumes encodable: "ok x \<Longrightarrow> codable (put x) get x"
    and accepted: "get bs = Inr (x, rest) \<Longrightarrow> ok x \<and> tracks (put x) get x bs rest"
begin

lemma encoded_codes:
  assumes "ok x" and "put x buffer = Inr out"
  obtains used where "codes (put x) get x used" and "out = buffer @ used"
  using encodable [OF assms(1)] assms(2) unfolding codable_def codes_def
  by (metis Inr_Inl_False sum.inject(2))

lemma decode_inverts:
  assumes "ok x" and "put x buffer = Inr out"
  obtains used where "out = buffer @ used" and "\<And>rest. get (used @ rest) = Inr (x, rest)"
  using encoded_codes [OF assms] unfolding codes_def by metis

lemma encode_fits:
  assumes "get bs = Inr (x, [])" and "length bs \<le> 2 ^ 30"
  shows "put x [] = Inr bs"
proof -
  obtain used where "bs = used" "codes (put x) get x used"
    using accepted [OF assms(1)] unfolding tracks_def by auto
  then show ?thesis using assms(2) unfolding codes_def
    by (metis add_0 append_Nil list.size(3) not_less)
qed

text \<open>The reader never looks past the bytes it consumes.\<close>

lemma local_reader:
  assumes "get bs = Inr (x, rest)"
  shows "get (bs @ suffix) = Inr (x, rest @ suffix)"
  using accepted [OF assms] unfolding tracks_def codes_def by auto

lemma truncated_refused:
  assumes "get (p @ q) = Inr (x, [])" and "q \<noteq> []"
  shows "\<exists>e. get p = Inl e"
proof (cases "get p")
  case (Inr r)
  then obtain y rest where "get p = Inr (y, rest)" by (cases r) auto
  then have "get (p @ q) = Inr (y, rest @ q)" by (rule local_reader)
  then show ?thesis using assms by simp
qed blast

text \<open>A payload is accepted exactly when it is the encoding of a value that may be encoded.\<close>

lemma payload_exact:
  assumes "length bs \<le> 2 ^ 30"
  shows "decode_payload get bs = Inr x \<longleftrightarrow> ok x \<and> put x [] = Inr bs"
proof
  assume "decode_payload get bs = Inr x"
  then have get: "get bs = Inr (x, [])"
    by (auto simp: decode_payload_def require_exhausted_def split: sum.splits if_splits)
  show "ok x \<and> put x [] = Inr bs" using accepted [OF get] encode_fits [OF get assms] by simp
next
  assume x: "ok x \<and> put x [] = Inr bs"
  obtain used where "bs = [] @ used" "\<And>rest. get (used @ rest) = Inr (x, rest)"
    by (rule decode_inverts [OF conjunct1 [OF x] conjunct2 [OF x]]) (rule that)
  from this(1) this(2) [of "[]"] show "decode_payload get bs = Inr x"
    by (simp add: decode_payload_def require_exhausted_def)
qed

lemma payload_truncated:
  assumes "decode_payload get (p @ q) = Inr x" and "q \<noteq> []"
  shows "\<exists>e. decode_payload get p = Inl e"
proof -
  have "get (p @ q) = Inr (x, [])"
    using assms(1) by (auto simp: decode_payload_def require_exhausted_def split: sum.splits if_splits)
  then obtain e where "get p = Inl e" using truncated_refused [OF _ assms(2)] by blast
  then show ?thesis by (simp add: decode_payload_def)
qed

lemma encoding_injective:
  assumes "ok x" "ok y" and "put x [] = Inr bs" "put y [] = Inr bs"
  shows "x = y"
proof -
  obtain u where "bs = [] @ u" "get (u @ []) = Inr (x, [])"
    by (rule decode_inverts [OF assms(1,3)]) blast
  moreover obtain v where "bs = [] @ v" "get (v @ []) = Inr (y, [])"
    by (rule decode_inverts [OF assms(2,4)]) blast
  ultimately show ?thesis by simp
qed

end

subsection \<open>Rules for primitives and compositions\<close>

lemma bind_get_Inr:
  "bind_get r k bs = Inr y \<longleftrightarrow> (\<exists>x rest. r bs = Inr (x, rest) \<and> k x rest = Inr y)"
  by (auto simp: bind_get_def split: sum.split)

lemma bind_get_step [simp]: "r bs = Inr (x, rest) \<Longrightarrow> bind_get r k bs = k x rest"
  by (simp add: bind_get_def)

lemma return_get_Inr [simp]: "return_get x bs = Inr y \<longleftrightarrow> y = (x, bs)"
  by (auto simp: return_get_def)

lemma fail_get_Inr [simp]: "fail_get e bs = Inr y \<longleftrightarrow> False"
  by (simp add: fail_get_def)

lemma put_raw_cases:
  "put_raw data buffer = Inr (buffer @ data)
   \<or> (\<exists>e. put_raw data buffer = Inl e) \<and> 2 ^ 30 < length buffer + length data"
proof (cases "length buffer + length data \<le> 2 ^ 30")
  case True
  have max: "unat kMaxEncodeBytes = 2 ^ 30"
    by (simp add: kMaxEncodeBytes_def push_bit_eq_mult)
  have small: "unat (of_nat n :: u64) = n" if "n \<le> 2 ^ 30" for n
    using that by (simp add: unat_of_nat)
  have "of_nat (length data) \<le> kMaxEncodeBytes"
    using True by (simp add: word_le_nat_alt max small)
  then have "unat (kMaxEncodeBytes - of_nat (length data)) = 2 ^ 30 - length data"
    using True by (simp add: unat_sub max small)
  then have "require_space (length data) buffer"
    using True by (simp add: require_space_def not_less word_le_nat_alt small)
  then show ?thesis by (simp add: put_raw_def)
next
  case False
  then show ?thesis by (auto simp: put_raw_def)
qed

lemma codes_raw: "(\<And>rest. g (u @ rest) = Inr (x, rest)) \<Longrightarrow> codes (put_raw u) g x u"
  unfolding codes_def using put_raw_cases [of u] by blast

lemma get_bytes_append [simp]: "length u = n \<Longrightarrow> get_bytes n (u @ rest) = Inr (u, rest)"
  by (simp add: get_bytes_def)

lemma get_bytes_Inr: "get_bytes n bs = Inr (u, rest) \<longleftrightarrow> length u = n \<and> bs = u @ rest"
  by (auto simp: get_bytes_def not_less)

lemma codes_Nil: "codes (seq_puts []) (seq_gets [] r) r []"
  by (simp add: codes_def return_get_def)

text \<open>A writer before others, against a reader that continues with the value read.\<close>

lemma codes_pair:
  assumes "codes p g x u" and "codes (seq_puts P) (k x) y v"
  shows "codes (seq_puts (p # P)) (bind_get g k) y (u @ v)"
  unfolding codes_def
proof (intro conjI allI)
  fix rest show "bind_get g k ((u @ v) @ rest) = Inr (y, rest)"
    using assms by (simp add: codes_def)
next
  fix buffer
  have p: "p buffer = Inr (buffer @ u) \<or> (\<exists>e. p buffer = Inl e) \<and> 2 ^ 30 < length buffer + length u"
    using assms(1) by (simp add: codes_def)
  have q: "seq_puts P (buffer @ u) = Inr ((buffer @ u) @ v)
      \<or> (\<exists>e. seq_puts P (buffer @ u) = Inl e) \<and> 2 ^ 30 < length (buffer @ u) + length v"
    using assms(2) unfolding codes_def by blast
  show "seq_puts (p # P) buffer = Inr (buffer @ (u @ v))
      \<or> (\<exists>e. seq_puts (p # P) buffer = Inl e) \<and> 2 ^ 30 < length buffer + length (u @ v)"
    using p q by auto
qed

lemma codes_Cons:
  "codes p (s r) q u \<Longrightarrow> codes (seq_puts P) (seq_gets S q) t v \<Longrightarrow>
   codes (seq_puts (p # P)) (seq_gets (s # S) r) t (u @ v)"
  unfolding seq_gets.simps by (rule codes_pair)

lemma codes_bind:
  assumes "codes p g x u"
  shows "codes p (bind_get g (\<lambda>y. return_get (f y))) (f x) u"
  using assms by (simp add: codes_def return_get_def)

lemma codes_into: "codes p g x u \<Longrightarrow> codes p (into g upd r) (upd x r) u"
  unfolding into_def by (rule codes_bind)

lemma codes_step:
  "codes p g x u \<Longrightarrow> codes (seq_puts P) (seq_gets S (upd x r)) t v \<Longrightarrow>
   codes (seq_puts (p # P)) (seq_gets (into g upd # S) r) t (u @ v)"
  by (rule codes_Cons, rule codes_into)

text \<open>
  A record: its fields are written in order and read in order into the record under
  construction. While the rules below take the fields one by one, the predicate collects
  what is known of the record: the fields read so far have the values read.
\<close>

lemma struct_Nil:
  assumes "\<And>t. ok t \<longleftrightarrow> t = r"
  shows "wire_format (\<lambda>t. seq_puts []) (seq_gets [] r) ok"
proof
  have codes: "codes (seq_puts []) (seq_gets [] r) r []"
    by (simp add: codes_def return_get_def)
  fix t assume "ok t"
  then show "codable (seq_puts []) (seq_gets [] r) t"
    using codes assms unfolding codable_def by (intro exI) simp
next
  fix bs t rest assume t: "seq_gets [] r bs = Inr (t, rest)"
  then have "codes (seq_puts []) (seq_gets [] r) t []" by (simp add: codes_def return_get_def)
  with t assms show "ok t \<and> tracks (seq_puts []) (seq_gets [] r) t bs rest"
    unfolding tracks_def by simp
qed

lemma struct_Cons:
  assumes field: "wire_format p g okx"
    and known: "\<And>t. ok t \<Longrightarrow> okx (sel t)"
    and others: "\<And>x. okx x \<Longrightarrow>
      wire_format (\<lambda>t. seq_puts (P t)) (seq_gets S (upd x r)) (\<lambda>t. ok t \<and> sel t = x)"
  shows "wire_format (\<lambda>t. seq_puts (p (sel t) # P t)) (seq_gets (into g upd # S) r) ok"
proof
  fix t assume t: "ok t"
  obtain u where u: "codes (p (sel t)) g (sel t) u"
    using wire_format.encodable [OF field known [OF t]] unfolding codable_def by (rule exE)
  have "ok t \<and> sel t = sel t" using t by simp
  then obtain v where "codes (seq_puts (P t)) (seq_gets S (upd (sel t) r)) t v"
    using wire_format.encodable [OF others [OF known [OF t]]] unfolding codable_def by blast
  then have "codes (seq_puts (p (sel t) # P t)) (seq_gets (into g upd # S) r) t (u @ v)"
    by (rule codes_step [OF u])
  then show "codable (seq_puts (p (sel t) # P t)) (seq_gets (into g upd # S) r) t"
    unfolding codable_def by (rule exI)
next
  fix bs t rest assume "seq_gets (into g upd # S) r bs = Inr (t, rest)"
  then obtain x mid where x: "g bs = Inr (x, mid)" and t: "seq_gets S (upd x r) mid = Inr (t, rest)"
    by (auto simp: into_def bind_get_Inr)
  obtain u where u: "okx x" "bs = u @ mid" "codes (p x) g x u"
    using wire_format.accepted [OF field x] unfolding tracks_def by blast
  obtain v where v: "ok t" "sel t = x" "mid = v @ rest"
    "codes (seq_puts (P t)) (seq_gets S (upd x r)) t v"
    using wire_format.accepted [OF others [OF u(1)] t] unfolding tracks_def by blast
  have "codes (seq_puts (p (sel t) # P t)) (seq_gets (into g upd # S) r) t (u @ v)"
    unfolding v(2) using u(3) v(4) by (rule codes_step)
  then show "ok t \<and> tracks (seq_puts (p (sel t) # P t)) (seq_gets (into g upd # S) r) t bs rest"
    using u(2) v(1,3) unfolding tracks_def by auto
qed

lemma struct_Cons_any:
  assumes "wire_format p g (\<lambda>_. True)"
    and "\<And>x. wire_format (\<lambda>t. seq_puts (P t)) (seq_gets S (upd x r)) (\<lambda>t. ok t \<and> sel t = x)"
  shows "wire_format (\<lambda>t. seq_puts (p (sel t) # P t)) (seq_gets (into g upd # S) r) ok"
  by (rule struct_Cons [OF assms(1) TrueI]) (rule assms(2))

lemma wire_format_cong:
  "wire_format p g ok \<Longrightarrow> (\<And>x. ok x = ok' x) \<Longrightarrow> wire_format p g ok'"
  by (simp add: wire_format_def)

subsection \<open>The primitive fields\<close>

lemma wire_format_fixed:
  assumes "\<And>x. length (enc x) = n \<and> f (enc x) = x" and "\<And>u. length u = n \<Longrightarrow> enc (f u) = u"
  shows "wire_format (\<lambda>x. put_raw (enc x)) (bind_get (get_bytes n) (\<lambda>u. return_get (f u))) (\<lambda>_. True)"
proof
  have raw: "codes (put_raw (enc x)) (bind_get (get_bytes n) (\<lambda>u. return_get (f u))) x (enc x)" for x
    using codes_bind [OF codes_raw [of "get_bytes n" "enc x" "enc x"], of f] assms(1) [of x] by simp
  show "codable (put_raw (enc x)) (bind_get (get_bytes n) (\<lambda>u. return_get (f u))) x" for x
    using raw [of x] unfolding codable_def by (rule exI)
  fix bs x rest assume "bind_get (get_bytes n) (\<lambda>u. return_get (f u)) bs = Inr (x, rest)"
  then have "bs = enc x @ rest" using assms(2) by (auto simp: bind_get_Inr get_bytes_Inr)
  then show "True \<and> tracks (put_raw (enc x)) (bind_get (get_bytes n) (\<lambda>u. return_get (f u))) x bs rest"
    using raw [of x] unfolding tracks_def by blast
qed

text \<open>A field whose decoded value is checked and converted.\<close>

lemma wire_format_checked:
  assumes "wire_format put g okb"
    and e: "\<And>x. ok x \<Longrightarrow> okb (e x) \<and> \<not> bad (e x) \<and> f (e x) = x"
    and f: "\<And>y. okb y \<Longrightarrow> \<not> bad y \<Longrightarrow> ok (f y) \<and> e (f y) = y"
  shows "wire_format (\<lambda>x. put (e x))
    (bind_get g (\<lambda>y. if bad y then fail_get m else return_get (f y))) ok"
proof -
  note encodable = wire_format.encodable [OF assms(1)] and accepted = wire_format.accepted [OF assms(1)]
  have codes: "codes (put (e x)) (bind_get g (\<lambda>y. if bad y then fail_get m else return_get (f y))) x u"
    if "codes (put (e x)) g (e x) u" "ok x" for x u
    using that e [of x] by (simp add: codes_def return_get_def)
  show ?thesis
  proof
    fix x assume "ok x"
    then obtain u where "codes (put (e x)) g (e x) u"
      using encodable [of "e x"] e unfolding codable_def by blast
    from codes [OF this \<open>ok x\<close>]
    show "codable (put (e x)) (bind_get g (\<lambda>y. if bad y then fail_get m else return_get (f y))) x"
      unfolding codable_def by (rule exI)
  next
    fix bs x rest
    assume "bind_get g (\<lambda>y. if bad y then fail_get m else return_get (f y)) bs = Inr (x, rest)"
    then obtain y where y: "g bs = Inr (y, rest)" "\<not> bad y" "x = f y"
      by (auto simp: bind_get_Inr split: if_splits)
    then obtain u where "okb y" "bs = u @ rest" "codes (put y) g y u"
      using accepted [OF y(1)] unfolding tracks_def by blast
    moreover from this y f have "ok x" "e x = y" by auto
    ultimately show "ok x \<and> tracks (put (e x))
        (bind_get g (\<lambda>y. if bad y then fail_get m else return_get (f y))) x bs rest"
      using codes [of x u] unfolding tracks_def by auto
  qed
qed

lemma le_value_self [simp]: "le_value (le_bytes 8 v) = (v :: u64)" "le_value (le_bytes 4 w) = (w :: u32)"
  "le_value (le_bytes 2 h) = (h :: u16)"
  by (simp_all add: le_value_le_bytes take_bit_word_eq_self)

lemma length_one: "length u = 1 \<Longrightarrow> [u ! 0] = u"
  by (cases u) auto

lemma u16_value: "length u = 2 \<Longrightarrow> ucast (u ! 0) OR push_bit 8 (ucast (u ! 1)) = (le_value u :: u16)"
proof -
  assume "length u = 2"
  then obtain a b where "u = [a, b]" by (auto simp: length_Suc_conv numeral_2_eq_2)
  then show ?thesis by (simp add: le_value_Cons or.commute)
qed

interpretation u8_format: wire_format put_u8 get_u8 "\<lambda>_. True"
  using wire_format_fixed [of "\<lambda>v. [v]" 1 "\<lambda>b. b ! 0"]
  by (simp add: put_u8_def [abs_def] get_u8_def length_one)

interpretation u16_format: wire_format put_u16 get_u16 "\<lambda>_. True"
proof -
  have "le_bytes 2 (le_value u :: u16) = u" if "length u = 2" for u
    using le_bytes_le_value [of u, where 'a = 16] that by simp
  then have "wire_format (\<lambda>v. put_raw (le_bytes 2 v)) (bind_get (get_bytes 2)
      (\<lambda>b. return_get (ucast (b ! 0) OR push_bit 8 (ucast (b ! 1)) :: u16))) (\<lambda>_. True)"
    by (intro wire_format_fixed) (simp_all only: u16_value length_le_bytes le_value_self simp_thms)
  then show "wire_format put_u16 get_u16 (\<lambda>_. True)"
    by (simp only: put_u16_def [abs_def] get_u16_def)
qed

interpretation u32_format: wire_format put_u32 get_u32 "\<lambda>_. True"
proof -
  have "le_bytes 4 (le_value u :: u32) = u" if "length u = 4" for u
    using le_bytes_le_value [of u, where 'a = 32] that by simp
  then show "wire_format put_u32 get_u32 (\<lambda>_. True)"
    using wire_format_fixed [of "le_bytes 4" 4 "le_value :: _ \<Rightarrow> u32"]
    by (simp add: put_u32_def [abs_def] get_u32_def)
qed

interpretation u64_format: wire_format put_u64 get_u64 "\<lambda>_. True"
proof -
  have "le_bytes 8 (le_value u :: u64) = u" if "length u = 8" for u
    using le_bytes_le_value [of u, where 'a = 64] that by simp
  then show "wire_format put_u64 get_u64 (\<lambda>_. True)"
    using wire_format_fixed [of "le_bytes 8" 8 "le_value :: _ \<Rightarrow> u64"]
    by (simp add: put_u64_def [abs_def] get_u64_def)
qed

interpretation digest_format: wire_format put_digest get_digest "\<lambda>d. length d = 32"
proof
  show "length d = 32 \<Longrightarrow> codable (put_digest d) get_digest d" for d
    unfolding codable_def put_digest_def get_digest_def by (rule exI, rule codes_raw) simp
  fix bs d rest assume "get_digest bs = Inr (d, rest)"
  then have d: "length d = 32" "bs = d @ rest" by (auto simp: get_digest_def get_bytes_Inr)
  then have "codes (put_digest d) get_digest d d"
    unfolding put_digest_def get_digest_def by (intro codes_raw) simp
  with d show "length d = 32 \<and> tracks (put_digest d) get_digest d bs rest"
    unfolding tracks_def by blast
qed

interpretation bool_format: wire_format put_bool get_bool "\<lambda>_. True"
proof -
  have "wire_format (\<lambda>b. put_u8 (if b then 1 else 0)) (bind_get get_u8 (\<lambda>v.
      if v > 1 then fail_get ''boolean field must be 0 or 1'' else return_get (v \<noteq> 0))) (\<lambda>_. True)"
  proof (rule wire_format_checked [OF u8_format.wire_format_axioms])
    fix y :: u8 assume "\<not> 1 < y"
    then have "y = 0 \<or> y = 1" by (simp add: not_less le_less word_less_1)
    then show "True \<and> (if y \<noteq> 0 then 1 else 0) = y" by auto
  qed auto
  then show "wire_format put_bool get_bool (\<lambda>_. True)"
    by (simp add: put_bool_def [abs_def] get_bool_def)
qed

interpretation f64_format: wire_format put_f64 get_f64 f64_is_finite
proof -
  have put: "put_f64 x = put_u64 x" if "f64_is_finite x" for x
    using that by (simp add: put_f64_def fun_eq_iff)
  have w: "wire_format (\<lambda>x. put_u64 x) (bind_get get_u64 (\<lambda>bits. if \<not> f64_is_finite bits
      then fail_get ''non-finite double is not accepted'' else return_get bits)) f64_is_finite"
    by (rule wire_format_checked [OF u64_format.wire_format_axioms]) auto
  show "wire_format put_f64 get_f64 f64_is_finite"
    using w unfolding wire_format_def get_f64_def [symmetric] by (metis put)
qed

lemma put_string_fits:
  "length s \<le> unat m \<Longrightarrow> put_string s m = seq_puts [put_u32 (of_nat (length s)), put_raw (text_bytes s)]"
  by (simp add: put_string_def fun_eq_iff)

lemma length_text_bytes [simp]: "length (text_bytes s) = length s"
  by (simp add: text_bytes_def)

lemma length_bytes_text [simp]: "length (bytes_text u) = length u"
  by (simp add: bytes_text_def)

lemma u32_length: "n \<le> unat (m :: u32) \<Longrightarrow> unat (of_nat n :: u32) = n \<and> \<not> of_nat n > m"
proof -
  assume le: "n \<le> unat m"
  moreover have "unat m < 2 ^ LENGTH(32)" by (rule unsigned_less)
  ultimately have "unat (of_nat n :: u32) = n" by (simp add: unat_of_nat)
  then show ?thesis using le by (simp add: not_less word_le_nat_alt)
qed

interpretation string_format: wire_format "\<lambda>s. put_string s m" "get_string m" "\<lambda>s. length s \<le> unat m" for m
proof
  have codes: "codes (put_string s m) (get_string m) s (le_bytes 4 (of_nat (length s) :: u32) @ text_bytes s)"
    if s: "length s \<le> unat m" for s
  proof -
    have len: "unat (of_nat (length s) :: u32) = length s" "\<not> (of_nat (length s) :: u32) > m"
      using u32_length [OF s] by blast+
    have "codes (put_u32 (of_nat (length s))) get_u32 (of_nat (length s)) (le_bytes 4 (of_nat (length s) :: u32))"
      unfolding put_u32_def get_u32_def by (rule codes_raw) (simp add: return_get_def)
    from codes_pair [OF this, of "[put_raw (text_bytes s)]"] show ?thesis
      unfolding put_string_fits [OF s] get_string_def
    proof this
      have "codes (seq_puts [put_raw (text_bytes s)])
          (bind_get (get_bytes (length s)) (\<lambda>b. return_get (bytes_text b))) s (text_bytes s @ [])"
        by (rule codes_pair [OF codes_raw [where x = "text_bytes s"]])
          (simp_all add: codes_def return_get_def)
      then show "codes (seq_puts [put_raw (text_bytes s)])
          (if of_nat (length s) > m then fail_get ''string length exceeds the configured maximum size''
           else bind_get (get_bytes (unat (of_nat (length s) :: u32))) (\<lambda>b. return_get (bytes_text b)))
          s (text_bytes s)"
        using len by simp
    qed
  qed
  show "codable (put_string s m) (get_string m) s" if "length s \<le> unat m" for s
    using codes [OF that] unfolding codable_def by (rule exI)
  fix bs s rest assume "get_string m bs = Inr (s, rest)"
  then obtain n u mid where n: "get_u32 bs = Inr (n, mid)" "\<not> n > m"
    and u: "length u = unat n" "mid = u @ rest" "s = bytes_text u"
    by (auto simp: get_string_def bind_get_Inr get_bytes_Inr split: if_splits)
  have ok: "length s \<le> unat m" using n(2) u by (simp add: not_less word_le_nat_alt)
  obtain v where v: "bs = v @ mid" "codes (put_u32 n) get_u32 n v"
    using u32_format.accepted [OF n(1)] unfolding tracks_def by blast
  have "put_u32 n [] = Inr v \<or> (\<exists>e. put_u32 n [] = Inl e) \<and> 2 ^ 30 < length v"
    using v(2) unfolding codes_def by (metis add_0 append_Nil list.size(3))
  moreover have "put_u32 n [] = Inr (le_bytes 4 n)"
    using put_raw_cases [of "le_bytes 4 n" "[]"] by (auto simp: put_u32_def)
  ultimately have "v = le_bytes 4 (of_nat (length s) :: u32)" using u by auto
  with codes [OF ok] v u ok show "length s \<le> unat m \<and> tracks (put_string s m) (get_string m) s bs rest"
    unfolding tracks_def by auto
qed

interpretation i64_format: wire_format put_i64 get_i64
  "\<lambda>v. - (2 ^ 63) \<le> v \<and> v < 2 ^ 63"
proof -
  have w: "wire_format (\<lambda>v. put_u64 (word_of_int v)) (bind_get get_u64 (\<lambda>v. if False
      then fail_get [] else return_get (sint v))) (\<lambda>v. - (2 ^ 63) \<le> v \<and> v < 2 ^ 63)"
  proof (rule wire_format_checked [OF u64_format.wire_format_axioms])
    fix v :: int assume "- (2 ^ 63) \<le> v \<and> v < 2 ^ 63"
    then show "True \<and> \<not> False \<and> sint (word_of_int v :: u64) = v"
      by (simp add: signed_of_int signed_take_bit_int_eq_self)
  next
    fix y :: u64
    have "- (2 ^ 63) \<le> sint y" "sint y < 2 ^ 63"
      using sint_greater_eq [of y] sint_less [of y] by simp_all
    then show "(- (2 ^ 63) \<le> sint y \<and> sint y < 2 ^ 63) \<and> word_of_int (sint y) = y" by simp
  qed
  then show "wire_format put_i64 get_i64 (\<lambda>v. - (2 ^ 63) \<le> v \<and> v < 2 ^ 63)"
    by (simp add: put_i64_def [abs_def] get_i64_def)
qed

lemma codes_then:
  "codes p g x u \<Longrightarrow> codes (seq_puts P) h y v \<Longrightarrow> k x = h \<Longrightarrow>
   codes (seq_puts (p # P)) (bind_get g k) y (u @ v)"
  by (rule codes_pair [where x = x]) simp_all

interpretation hash128_format: wire_format put_hash128 get_hash128 "\<lambda>_. True"
proof
  have codes: "\<exists>u. codes (put_hash128 h) get_hash128 h u" for h
  proof -
    obtain u v where u: "codes (put_u64 (h_high h)) get_u64 (h_high h) u"
      and v: "codes (put_u64 (h_low h)) get_u64 (h_low h) v"
      using u64_format.encodable unfolding codable_def by blast
    have "codes (seq_puts []) (return_get (Hash128 (h_high h) (h_low h))) h []"
      by (simp add: codes_def return_get_def)
    then show ?thesis
      unfolding put_hash128_def get_hash128_def
      by (intro exI) (rule codes_then [OF u codes_then [OF v]]; simp)
  qed
  show "codable (put_hash128 h) get_hash128 h" for h
    using codes unfolding codable_def .
  fix bs h rest assume "get_hash128 bs = Inr (h, rest)"
  then obtain a b mid where ab: "get_u64 bs = Inr (a, mid)" "get_u64 mid = Inr (b, rest)" "h = Hash128 a b"
    by (auto simp: get_hash128_def bind_get_Inr)
  obtain u v where u: "bs = u @ mid" "codes (put_u64 a) get_u64 a u"
    and v: "mid = v @ rest" "codes (put_u64 b) get_u64 b v"
    using u64_format.accepted [OF ab(1)] u64_format.accepted [OF ab(2)] unfolding tracks_def by blast
  have "codes (seq_puts []) (return_get (Hash128 a b)) h []"
    using ab(3) by (simp add: codes_def return_get_def)
  then have "codes (put_hash128 h) get_hash128 h (u @ v @ [])"
    unfolding put_hash128_def get_hash128_def ab(3) Hash128.sel
    by (rule codes_then [OF u(2) codes_then [OF v(2)]]) simp_all
  then show "True \<and> tracks (put_hash128 h) get_hash128 h bs rest"
    unfolding tracks_def u(1) v(1) by auto
qed

lemma enum_format:
  assumes codes: "map code vals = [0..<length vals]" and "\<And>x. x \<in> set vals" and "length vals \<le> 256"
  shows "wire_format (\<lambda>x. put_u8 (of_nat (code x))) (checked_enum vals field) (\<lambda>_. True)"
  unfolding checked_enum_def
proof (rule wire_format_checked [OF u8_format.wire_format_axioms])
  have nth: "code (vals ! i) = i" if "i < length vals" for i
    using arg_cong [OF codes, of "\<lambda>xs. xs ! i"] that by simp
  fix x
  obtain i where i: "i < length vals" "x = vals ! i"
    using assms(2) [of x] by (auto simp: in_set_conv_nth)
  then have "unat (of_nat (code x) :: u8) = i" using nth assms(3) by (simp add: unat_of_nat)
  with i show "True \<and> \<not> length vals \<le> unat (of_nat (code x) :: u8)
      \<and> vals ! unat (of_nat (code x) :: u8) = x" by simp
next
  fix y :: u8 assume "\<not> length vals \<le> unat y"
  then show "True \<and> of_nat (code (vals ! unat y)) = y"
    using arg_cong [OF codes, of "\<lambda>xs. xs ! unat y"] by simp
qed

context wire_format begin

lemma times_codes:
  "\<forall>x \<in> set xs. ok x \<Longrightarrow> \<exists>u. codes (seq_puts (map put xs)) (get_times (length xs) get) xs u"
proof (induction xs)
  case Nil
  show ?case by (rule exI [of _ "[]"]) (simp add: codes_def return_get_def)
next
  case (Cons x xs)
  then obtain u v where u: "codes (put x) get x u"
    and v: "codes (seq_puts (map put xs)) (get_times (length xs) get) xs v"
    using encodable [of x] unfolding codable_def by auto
  have "codes (seq_puts (map put (x # xs))) (get_times (length (x # xs)) get) (x # xs) (u @ v)"
    unfolding list.map list.size add_0_right add_Suc_right get_times.simps
    by (rule codes_then [OF u codes_bind [OF v, of "\<lambda>ys. x # ys"]]) simp
  then show ?case by (rule exI)
qed

lemma times_accepted:
  "get_times n get bs = Inr (xs, rest) \<Longrightarrow> length xs = n \<and> (\<forall>x \<in> set xs. ok x)
     \<and> tracks (seq_puts (map put xs)) (get_times n get) xs bs rest"
proof (induction n arbitrary: bs xs)
  case 0
  then have "codes (seq_puts []) (return_get xs) xs []" by (simp add: codes_def return_get_def)
  with 0 show ?case unfolding tracks_def by simp
next
  case (Suc n)
  then obtain x ys mid where x: "get bs = Inr (x, mid)" "xs = x # ys"
    and ys: "get_times n get mid = Inr (ys, rest)"
    by (auto simp: bind_get_Inr)
  obtain u v where u: "bs = u @ mid" "ok x" "codes (put x) get x u"
    and v: "mid = v @ rest" "length ys = n" "\<forall>x \<in> set ys. ok x"
      "codes (seq_puts (map put ys)) (get_times n get) ys v"
    using accepted [OF x(1)] Suc.IH [OF ys] unfolding tracks_def by blast
  have "codes (seq_puts (map put xs)) (get_times (Suc n) get) xs (u @ v)"
    unfolding x(2) list.map get_times.simps
    by (rule codes_then [OF u(3) codes_bind [OF v(4), of "\<lambda>ys. x # ys"]]) simp
  then show ?case using u v x(2) unfolding tracks_def by auto
qed

lemma list_format:
  "wire_format (put_list put) (get_list m message get) (\<lambda>xs. length xs \<le> unat m \<and> (\<forall>x \<in> set xs. ok x))"
proof
  have codes: "codes (put_list put xs) (get_list m message get) xs (w @ u)"
    if "length xs \<le> unat m" "codes (put_u32 (of_nat (length xs))) get_u32 (of_nat (length xs)) w"
      "codes (seq_puts (map put xs)) (get_times (length xs) get) xs u" for xs u w
  proof -
    have len: "unat (of_nat (length xs) :: u32) = length xs" "\<not> (of_nat (length xs) :: u32) > m"
      using u32_length [OF that(1)] by blast+
    show ?thesis
      unfolding put_list_def get_list_def by (rule codes_then [OF that(2,3)]) (simp add: len)
  qed
  show "codable (put_list put xs) (get_list m message get) xs"
    if xs: "length xs \<le> unat m \<and> (\<forall>x \<in> set xs. ok x)" for xs
  proof -
    obtain w where w: "codes (put_u32 (of_nat (length xs))) get_u32 (of_nat (length xs)) w"
      using u32_format.encodable [OF TrueI] unfolding codable_def by (rule exE)
    obtain u where u: "codes (seq_puts (map put xs)) (get_times (length xs) get) xs u"
      by (rule exE [OF times_codes [OF conjunct2 [OF xs]]])
    from codes [OF conjunct1 [OF xs] w u] show ?thesis unfolding codable_def by (rule exI)
  qed
  fix bs xs rest assume "get_list m message get bs = Inr (xs, rest)"
  then obtain n mid where n: "get_u32 bs = Inr (n, mid)" "\<not> n > m"
    and xs: "get_times (unat n) get mid = Inr (xs, rest)"
    by (auto simp: get_list_def bind_get_Inr split: if_splits)
  obtain w u where w: "bs = w @ mid" "codes (put_u32 n) get_u32 n w" and u: "mid = u @ rest"
    "length xs = unat n" "\<forall>x \<in> set xs. ok x"
    "codes (seq_puts (map put xs)) (get_times (unat n) get) xs u"
    using u32_format.accepted [OF n(1)] times_accepted [OF xs] unfolding tracks_def by blast
  have n': "of_nat (length xs) = n" "length xs \<le> unat m"
    using u(2) n(2) by (simp_all add: not_less word_le_nat_alt)
  have "codes (put_list put xs) (get_list m message get) xs (w @ u)"
    by (rule codes) (use n' w u in simp_all)
  then show "(length xs \<le> unat m \<and> (\<forall>x \<in> set xs. ok x))
      \<and> tracks (put_list put xs) (get_list m message get) xs bs rest"
    using n' u w unfolding tracks_def by auto
qed

end

subsection \<open>The fields of a record\<close>

lemmas [struct_fields] =
  struct_Cons_any [OF u8_format.wire_format_axioms] struct_Cons_any [OF u16_format.wire_format_axioms]
  struct_Cons_any [OF u32_format.wire_format_axioms] struct_Cons_any [OF u64_format.wire_format_axioms]
  struct_Cons_any [OF bool_format.wire_format_axioms]
  struct_Cons_any [OF hash128_format.wire_format_axioms]
  struct_Cons [OF f64_format.wire_format_axioms] struct_Cons [OF i64_format.wire_format_axioms]
  struct_Cons [OF string_format.wire_format_axioms]

interpretation strings_format: wire_format "put_list (\<lambda>s. put_string s m)"
    "get_list k message (get_string m)" "\<lambda>xs. length xs \<le> unat k \<and> (\<forall>s \<in> set xs. length s \<le> unat m)"
  for m k message
  by (rule string_format.list_format)

interpretation ids_format: wire_format "put_list put_u64" "get_list k message get_u64"
    "\<lambda>xs. length xs \<le> unat k" for k message
  using u64_format.list_format [of k message] by simp

lemmas [struct_fields] =
  struct_Cons [OF strings_format.wire_format_axioms] struct_Cons [OF ids_format.wire_format_axioms]

end
