(* ===== verification/Resource_Limits.thy ===== *)
theory Resource_Limits
  imports Text_Util
begin

section \<open>Resource bounds and checked arithmetic\<close>

text \<open>
  limits.hpp and limits.cpp: the configured bounds, their consistency check and the checked
  arithmetic helpers. Signed 64-bit values are integers in the int64 range; the product of
  the signed multiplication is taken with two's complement wrap-around before it is checked,
  as the code writes it.
\<close>

record ResourceLimits =
  max_agents :: u32
  max_queues :: u32
  max_work_items :: u32
  max_active_assignments :: u32
  max_historical_assignments :: u32
  max_leases :: u32
  max_fenced_boots :: u32
  max_tenants :: u32
  max_capabilities_per_agent :: u32
  max_policy_labels :: u32
  max_capability_requirements :: u32
  max_affinity_entries :: u32
  max_warm_state_keys :: u32
  max_explanation_factors :: u32
  max_candidates_examined :: u32
  max_retained_history :: u32
  max_batch_assignments :: u32
  max_string_size :: u32
  max_identifier_size :: u32
  max_frame_size :: u32
  max_payload_size :: u32
  max_query_result_bytes :: u32
  max_connections :: u32
  max_session_threads :: u32
  max_send_queue :: u32
  max_accept_backlog :: u32
  max_persistence_bytes :: u64

definition default_limits :: ResourceLimits where
  "default_limits =
     \<lparr> max_agents = 200000,
       max_queues = 4096,
       max_work_items = 500000,
       max_active_assignments = 200000,
       max_historical_assignments = 500000,
       max_leases = 200000,
       max_fenced_boots = 500000,
       max_tenants = 8192,
       max_capabilities_per_agent = 256,
       max_policy_labels = 64,
       max_capability_requirements = 128,
       max_affinity_entries = 256,
       max_warm_state_keys = 64,
       max_explanation_factors = 64,
       max_candidates_examined = 200000,
       max_retained_history = 100000,
       max_batch_assignments = 100000,
       max_string_size = 512,
       max_identifier_size = 64,
       max_frame_size = 1048576,
       max_payload_size = 1048576,
       max_query_result_bytes = 4194304,
       max_connections = 64,
       max_session_threads = 160,
       max_send_queue = 4096,
       max_accept_backlog = 64,
       max_persistence_bytes = 1073741824 \<rparr>"

definition validate_limits :: "ResourceLimits \<Rightarrow> string option" where
  "validate_limits l = first_some
     [guard (max_agents l = 0 \<or> max_work_items l = 0 \<or> max_queues l = 0)
        ''population limits must be non-zero'',
      guard (max_string_size l = 0 \<or> max_identifier_size l = 0)
        ''text limits must be non-zero'',
      guard (max_identifier_size l > max_string_size l)
        ''max_identifier_size must not exceed max_string_size'',
      guard (max_frame_size l < 64 \<or> max_payload_size l < 64)
        ''frame and payload limits must be at least 64 bytes'',
      guard (max_payload_size l > max_frame_size l)
        ''max_payload_size must not exceed max_frame_size'',
      guard (max_send_queue l = 0 \<or> max_connections l = 0 \<or> max_session_threads l = 0)
        ''transport limits must be non-zero'',
      guard (max_session_threads l < 2 * max_connections l)
        ''max_session_threads must allow a reader and writer per connection'',
      guard (max_capabilities_per_agent l = 0 \<or> max_capability_requirements l = 0)
        ''capability limits must be non-zero'',
      guard (max_historical_assignments l < max_active_assignments l)
        ''max_historical_assignments must be at least max_active_assignments'',
      guard (max_persistence_bytes l < 1024)
        ''max_persistence_bytes must be at least 1024'']"

definition u64_max :: u64 where
  "u64_max = - 1"

definition checked_add_u64 :: "u64 \<Rightarrow> u64 \<Rightarrow> u64 option" where
  "checked_add_u64 a b = (if a > u64_max - b then None else Some (a + b))"

definition checked_mul_u64 :: "u64 \<Rightarrow> u64 \<Rightarrow> u64 option" where
  "checked_mul_u64 a b = (if a \<noteq> 0 \<and> b > u64_max div a then None else Some (a * b))"

definition i64_min :: int where
  "i64_min = - (2 ^ 63)"

definition i64_max :: int where
  "i64_max = 2 ^ 63 - 1"

definition i64_wrap :: "int \<Rightarrow> int" where
  "i64_wrap v = (v + 2 ^ 63) mod 2 ^ 64 - 2 ^ 63"

text \<open>C++ integer division truncates towards zero.\<close>

definition trunc_div :: "int \<Rightarrow> int \<Rightarrow> int" where
  "trunc_div x y = sgn x * sgn y * (\<bar>x\<bar> div \<bar>y\<bar>)"

definition checked_add_i64 :: "int \<Rightarrow> int \<Rightarrow> int option" where
  "checked_add_i64 a b =
     (if (b > 0 \<and> a > i64_max - b) \<or> (b < 0 \<and> a < i64_min - b) then None else Some (a + b))"

definition checked_mul_i64 :: "int \<Rightarrow> int \<Rightarrow> int option" where
  "checked_mul_i64 a b =
     (if a = 0 \<or> b = 0 then Some 0
      else if a = - 1 \<and> b = i64_min then None
      else if b = - 1 \<and> a = i64_min then None
      else let result = i64_wrap (a * b)
           in if trunc_div result b \<noteq> a then None else Some result)"

lemma unat_u64_max [simp]: "unat u64_max = 2 ^ 64 - 1"
  by (simp add: u64_max_def unsigned_minus_1_eq_mask mask_eq_exp_minus_1)

lemma le_u64_max [simp]: "b \<le> u64_max"
  by (simp add: u64_max_def word_order.extremum)

lemma checked_add_u64_spec:
  "checked_add_u64 a b = (if unat a + unat b < 2 ^ 64 then Some (a + b) else None)"
proof -
  have "unat (u64_max - b) = 2 ^ 64 - 1 - unat b"
    by (simp add: unat_sub)
  moreover have "unat b < 2 ^ 64" using unsigned_less [of b] by simp
  ultimately have "a > u64_max - b \<longleftrightarrow> \<not> unat a + unat b < 2 ^ 64"
    unfolding word_less_nat_alt by linarith
  then show ?thesis by (simp add: checked_add_u64_def)
qed

lemma checked_mul_u64_spec:
  "checked_mul_u64 a b = (if unat a * unat b < 2 ^ 64 then Some (a * b) else None)"
proof (cases "a = 0")
  case True
  then show ?thesis by (simp add: checked_mul_u64_def)
next
  case False
  then have pos: "0 < unat a" by (simp add: unat_gt_0)
  have "unat (u64_max div a) = (2 ^ 64 - 1) div unat a"
    by (simp add: unat_div_distrib)
  then have "b > u64_max div a \<longleftrightarrow> (2 ^ 64 - 1) div unat a < unat b"
    by (simp add: word_less_nat_alt)
  also have "\<dots> \<longleftrightarrow> 2 ^ 64 - 1 < unat b * unat a"
    using pos by (rule div_less_iff_less_mult)
  also have "\<dots> \<longleftrightarrow> \<not> unat a * unat b < 2 ^ 64"
    by (auto simp: mult.commute)
  finally show ?thesis using False by (simp add: checked_mul_u64_def)
qed

lemma checked_add_i64_spec:
  assumes "i64_min \<le> a" "a \<le> i64_max" "i64_min \<le> b" "b \<le> i64_max"
  shows "checked_add_i64 a b =
     (if i64_min \<le> a + b \<and> a + b \<le> i64_max then Some (a + b) else None)"
  using assms by (auto simp: checked_add_i64_def i64_min_def i64_max_def)

lemma i64_wrap_eq: "\<exists>k. i64_wrap v = v - k * 2 ^ 64"
proof
  show "i64_wrap v = v - ((v + 2 ^ 63) div 2 ^ 64) * 2 ^ 64"
    unfolding i64_wrap_def using minus_div_mult_eq_mod [of "v + 2 ^ 63" "2 ^ 64"] by linarith
qed

lemma i64_wrap_range: "i64_min \<le> i64_wrap v" "i64_wrap v \<le> i64_max"
proof -
  have "0 \<le> (v + 2 ^ 63) mod 2 ^ 64" "(v + 2 ^ 63) mod 2 ^ 64 < 2 ^ 64" by simp_all
  then show "i64_min \<le> i64_wrap v" "i64_wrap v \<le> i64_max"
    by (simp_all add: i64_wrap_def i64_min_def i64_max_def)
qed

lemma i64_wrap_id: "i64_min \<le> v \<Longrightarrow> v \<le> i64_max \<Longrightarrow> i64_wrap v = v"
  by (simp add: i64_wrap_def i64_min_def i64_max_def)

text \<open>
  The overflow check of the signed multiplication by dividing back: a wrapped product
  differs from the true one by a multiple of 2^64, which no divisor of at most 2^63 hides.
\<close>

lemma trunc_div_close: "b \<noteq> 0 \<Longrightarrow> trunc_div r b = a \<Longrightarrow> \<bar>r - a * b\<bar> < \<bar>b\<bar>"
proof -
  assume b: "b \<noteq> 0" and q: "trunc_div r b = a"
  have "\<bar>r\<bar> = \<bar>b\<bar> * (\<bar>r\<bar> div \<bar>b\<bar>) + \<bar>r\<bar> mod \<bar>b\<bar>" by simp
  moreover have "a * b = sgn r * (\<bar>b\<bar> * (\<bar>r\<bar> div \<bar>b\<bar>))"
    using q [symmetric] b by (simp add: trunc_div_def sgn_if mult_ac)
  ultimately have "r - a * b = sgn r * (\<bar>r\<bar> mod \<bar>b\<bar>)"
    by (metis abs_mult_sgn add_diff_cancel_left' mult.commute right_diff_distrib')
  then show ?thesis using b by (simp add: abs_mult sgn_if)
qed

lemma trunc_div_exact: "b \<noteq> 0 \<Longrightarrow> trunc_div (a * b) b = a"
proof -
  assume b: "b \<noteq> 0"
  have "trunc_div (a * b) b = (sgn b * sgn b) * (sgn a * \<bar>a\<bar>)"
    using b by (simp add: trunc_div_def abs_mult sgn_mult mult_ac)
  then show ?thesis using b by (simp add: sgn_if abs_if)
qed

lemma checked_mul_i64_spec:
  assumes "i64_min \<le> a" "a \<le> i64_max" "i64_min \<le> b" "b \<le> i64_max"
  shows "checked_mul_i64 a b =
     (if i64_min \<le> a * b \<and> a * b \<le> i64_max then Some (a * b) else None)"
proof -
  consider (zero) "a = 0 \<or> b = 0" | (min) "a = - 1 \<and> b = i64_min \<or> b = - 1 \<and> a = i64_min"
    | (other) "a \<noteq> 0" "b \<noteq> 0" "\<not> (a = - 1 \<and> b = i64_min)" "\<not> (b = - 1 \<and> a = i64_min)"
    by blast
  then show ?thesis
  proof cases
    case zero
    then show ?thesis by (auto simp: checked_mul_i64_def i64_min_def i64_max_def)
  next
    case min
    then show ?thesis by (auto simp: checked_mul_i64_def i64_min_def i64_max_def)
  next
    case other
    obtain k where k: "i64_wrap (a * b) = a * b - k * 2 ^ 64" using i64_wrap_eq by blast
    show ?thesis
    proof (cases "i64_min \<le> a * b \<and> a * b \<le> i64_max")
      case True
      then show ?thesis
        using other by (simp add: checked_mul_i64_def i64_wrap_id trunc_div_exact)
    next
      case False
      have "k \<noteq> 0" using False k i64_wrap_range [of "a * b"] by auto
      then have far: "2 ^ 64 \<le> \<bar>i64_wrap (a * b) - a * b\<bar>" unfolding k by (simp add: abs_mult)
      have "\<bar>b\<bar> \<le> 2 ^ 63" using assms(3,4) by (simp add: i64_min_def i64_max_def)
      then have "trunc_div (i64_wrap (a * b)) b \<noteq> a"
        using far trunc_div_close [OF other(2)] by fastforce
      then show ?thesis using False other by (auto simp: checked_mul_i64_def Let_def)
    qed
  qed
qed

end
