(* ===== verification/Capabilities.thy ===== *)
theory Capabilities
  imports Sched_Digest Resource_Limits
begin

section \<open>Capability evidence, provenance and generations\<close>

text \<open>
  capability.hpp and capability.cpp: evidence states and their strength, generation-bound
  profiles, canonicalization (validation, ordering by name, duplicate rejection) and lookup.
  std::lower_bound is modelled by its specification on a range sorted by name.
\<close>

datatype CapabilityState =
    Unknown
  | Declared
  | Observed
  | Verified
  | Revoked
  | Stale

primrec capability_state_code :: "CapabilityState \<Rightarrow> nat" where
  "capability_state_code CapabilityState.Unknown = 0"
| "capability_state_code CapabilityState.Declared = 1"
| "capability_state_code CapabilityState.Observed = 2"
| "capability_state_code CapabilityState.Verified = 3"
| "capability_state_code CapabilityState.Revoked = 4"
| "capability_state_code CapabilityState.Stale = 5"

primrec capability_state_to_string :: "CapabilityState \<Rightarrow> string" where
  "capability_state_to_string CapabilityState.Unknown = ''UNKNOWN''"
| "capability_state_to_string CapabilityState.Declared = ''DECLARED''"
| "capability_state_to_string CapabilityState.Observed = ''OBSERVED''"
| "capability_state_to_string CapabilityState.Verified = ''VERIFIED''"
| "capability_state_to_string CapabilityState.Revoked = ''REVOKED''"
| "capability_state_to_string CapabilityState.Stale = ''STALE''"

fun capability_state_rank :: "CapabilityState \<Rightarrow> int" where
  "capability_state_rank CapabilityState.Unknown = 0"
| "capability_state_rank CapabilityState.Declared = 1"
| "capability_state_rank CapabilityState.Observed = 2"
| "capability_state_rank CapabilityState.Verified = 3"
| "capability_state_rank CapabilityState.Revoked = - 2"
| "capability_state_rank CapabilityState.Stale = - 1"

definition capability_state_is_usable :: "CapabilityState \<Rightarrow> bool" where
  "capability_state_is_usable state \<longleftrightarrow>
     capability_state_rank state \<ge> capability_state_rank CapabilityState.Declared"

record CapabilityEvidence =
  ce_name :: string
  ce_state :: CapabilityState
  ce_quality :: u32
  ce_generation :: u64
  ce_boot :: Hash128
  ce_observed_at_ms :: u64
  ce_provenance :: string

record CapabilityProfile =
  cp_profile_id :: u64
  cp_generation :: u64
  cp_boot :: Hash128
  cp_capabilities :: "CapabilityEvidence list"

definition default_profile :: CapabilityProfile where
  "default_profile =
     \<lparr> cp_profile_id = 0, cp_generation = 0, cp_boot = hash128_zero, cp_capabilities = [] \<rparr>"

datatype CapabilityRequirementMode = Required | Preferred

primrec requirement_mode_code :: "CapabilityRequirementMode \<Rightarrow> nat" where
  "requirement_mode_code Required = 0"
| "requirement_mode_code Preferred = 1"

record CapabilityRequirement =
  cr_name :: string
  cr_mode :: CapabilityRequirementMode
  cr_minimum_state :: CapabilityState
  cr_minimum_quality :: u32

definition publish_error ::
    "ErrorCode \<Rightarrow> string \<Rightarrow> string \<Rightarrow> ScheduleOutcome \<Rightarrow> SchedulerError" where
  "publish_error code subject detail oc =
     make_error code ''publish_capabilities'' subject detail oc"

definition evidence_problem ::
    "ResourceLimits \<Rightarrow> CapabilityProfile \<Rightarrow> CapabilityEvidence \<Rightarrow> SchedulerError option" where
  "evidence_problem limits profile e = first_some
     [map_option (\<lambda>p. publish_error ErrorCode.InvalidArgument
          (id_to_string (cp_profile_id profile)) p ScheduleOutcome.RejectInvalidRequest)
        (identifier_problem (ce_name e) (max_identifier_size limits) ''capability name''),
      guard (ce_quality e > 1000)
        (publish_error ErrorCode.InvalidArgument (ce_name e)
           ''capability quality must be 0..1000'' ScheduleOutcome.RejectInvalidRequest),
      map_option (\<lambda>p. publish_error ErrorCode.InvalidArgument (ce_name e) p
          ScheduleOutcome.RejectInvalidRequest)
        (text_problem (ce_provenance e) (max_string_size limits) ''capability provenance'')]"

definition sort_evidence :: "CapabilityEvidence list \<Rightarrow> CapabilityEvidence list" where
  "sort_evidence es = sort_by (\<lambda>l r. ce_name l < ce_name r) es"

text \<open>The element std::adjacent_find returns, if any.\<close>

fun adjacent_duplicate :: "CapabilityEvidence list \<Rightarrow> CapabilityEvidence option" where
  "adjacent_duplicate (x # y # ys) =
     (if ce_name x = ce_name y then Some x else adjacent_duplicate (y # ys))"
| "adjacent_duplicate _ = None"

text \<open>
  canonicalize mutates the profile it is given; the model returns the error, if any, or the
  profile with its evidence sorted.
\<close>

definition canonicalize_profile ::
    "CapabilityProfile \<Rightarrow> ResourceLimits \<Rightarrow> SchedulerError + CapabilityProfile" where
  "canonicalize_profile profile limits =
     (case first_some
        [guard (length (cp_capabilities profile) > unat (max_capabilities_per_agent limits))
           (publish_error ErrorCode.LimitExceeded (id_to_string (cp_profile_id profile))
              ''capability count exceeds max_capabilities_per_agent''
              ScheduleOutcome.RejectLimitExceeded),
         guard (cp_generation profile = 0)
           (publish_error ErrorCode.InvalidArgument (id_to_string (cp_profile_id profile))
              ''capability generation must be non-zero'' ScheduleOutcome.RejectInvalidRequest),
         guard (hash128_is_zero (cp_boot profile))
           (publish_error ErrorCode.InvalidArgument (id_to_string (cp_profile_id profile))
              ''capability profile must name its originating boot''
              ScheduleOutcome.RejectInvalidRequest),
         first_reject (evidence_problem limits profile) (cp_capabilities profile)]
      of Some e \<Rightarrow> Inl e
       | None \<Rightarrow>
           let sorted_caps = sort_evidence (cp_capabilities profile)
           in (case adjacent_duplicate sorted_caps of
                 Some d \<Rightarrow> Inl (publish_error ErrorCode.Duplicate (ce_name d)
                                 ''duplicate capability name in profile''
                                 ScheduleOutcome.RejectDuplicate)
               | None \<Rightarrow> Inr (profile\<lparr>cp_capabilities := sorted_caps\<rparr>)))"

definition find_capability :: "CapabilityProfile \<Rightarrow> string \<Rightarrow> CapabilityEvidence option" where
  "find_capability profile name =
     (case dropWhile (\<lambda>e. ce_name e < name) (cp_capabilities profile) of
        [] \<Rightarrow> None
      | e # _ \<Rightarrow> if ce_name e \<noteq> name then None else Some e)"

definition invalidate_evidence :: "CapabilityProfile \<Rightarrow> CapabilityProfile" where
  "invalidate_evidence profile =
     profile\<lparr>cp_capabilities :=
       map (\<lambda>e. e\<lparr>ce_state := CapabilityState.Stale, ce_observed_at_ms := 0\<rparr>)
         (cp_capabilities profile)\<rparr>"

subsection \<open>Canonical profiles\<close>

definition profile_canonical :: "CapabilityProfile \<Rightarrow> bool" where
  "profile_canonical p \<longleftrightarrow> sorted_wrt (\<lambda>l r. ce_name l < ce_name r) (cp_capabilities p)"

interpretation evidence_order: strict_weak_order "\<lambda>l r. ce_name l < ce_name r"
  by (rule strict_weak_order_on_key) (rule less_order.strict_weak_order_axioms)

lemma usable_states:
  "capability_state_is_usable st \<longleftrightarrow>
     st = CapabilityState.Declared \<or> st = CapabilityState.Observed \<or> st = CapabilityState.Verified"
  by (cases st) (simp_all add: capability_state_is_usable_def)

lemma adjacent_duplicate_None:
  "sorted_wrt (\<lambda>l r. \<not> ce_name r < ce_name l) es \<Longrightarrow>
   adjacent_duplicate es = None \<longleftrightarrow> sorted_wrt (\<lambda>l r. ce_name l < ce_name r) es"
proof (induction es rule: adjacent_duplicate.induct)
  case (1 x y ys)
  show ?case
  proof (cases "ce_name x = ce_name y")
    case True
    then show ?thesis by simp
  next
    case False
    with "1.prems" have "ce_name x < ce_name y"
      using linorder_less_linear [of "ce_name x" "ce_name y"] by simp
    moreover have "\<forall>z \<in> set ys. ce_name y \<le> ce_name z" using "1.prems" by (simp add: not_less)
    ultimately have "\<forall>z \<in> set ys. ce_name x < ce_name z" by (meson less_le_trans)
    with \<open>ce_name x < ce_name y\<close> False 1 show ?thesis by simp
  qed
qed simp_all

lemma canonicalize_profile_canonical:
  "canonicalize_profile p l = Inr q \<Longrightarrow> profile_canonical q"
  using evidence_order.sort_by_sorted [of "cp_capabilities p"]
  by (auto simp: canonicalize_profile_def profile_canonical_def sort_evidence_def Let_def
        adjacent_duplicate_None split: option.splits)

lemma canonicalize_profile_fields:
  "canonicalize_profile p l = Inr q \<Longrightarrow>
     cp_profile_id q = cp_profile_id p \<and> cp_generation q = cp_generation p
     \<and> cp_boot q = cp_boot p \<and> mset (cp_capabilities q) = mset (cp_capabilities p)
     \<and> cp_generation p \<noteq> 0 \<and> cp_boot p \<noteq> hash128_zero"
  by (auto simp: canonicalize_profile_def sort_evidence_def Let_def first_some_Cons_None
        hash128_is_zero_iff split: option.splits if_splits)

lemma dropWhile_sorted_names:
  "sorted_wrt (\<lambda>l r. ce_name l < ce_name r) es \<Longrightarrow>
   (case dropWhile (\<lambda>e. ce_name e < n) es of [] \<Rightarrow> None
    | e # _ \<Rightarrow> if ce_name e \<noteq> n then None else Some e) = Some e
   \<longleftrightarrow> e \<in> set es \<and> ce_name e = n"
proof (induction es)
  case (Cons x xs)
  then show ?case by (cases "ce_name x < n") auto
qed simp

lemma find_capability_iff:
  "profile_canonical p \<Longrightarrow>
   find_capability p n = Some e \<longleftrightarrow> e \<in> set (cp_capabilities p) \<and> ce_name e = n"
  by (simp add: find_capability_def profile_canonical_def dropWhile_sorted_names)

lemma find_capability_sound:
  "find_capability p n = Some e \<Longrightarrow> e \<in> set (cp_capabilities p) \<and> ce_name e = n"
  unfolding find_capability_def
  by (auto split: list.splits if_splits) (metis list.set_intros(1) set_dropWhileD)

lemma invalidate_evidence_stale:
  "e \<in> set (cp_capabilities (invalidate_evidence p)) \<Longrightarrow>
     ce_state e = CapabilityState.Stale \<and> \<not> capability_state_is_usable (ce_state e)"
  by (auto simp: invalidate_evidence_def usable_states)

lemma invalidate_evidence_sel [simp]:
  "cp_profile_id (invalidate_evidence p) = cp_profile_id p"
  "cp_generation (invalidate_evidence p) = cp_generation p"
  "cp_boot (invalidate_evidence p) = cp_boot p"
  by (simp_all add: invalidate_evidence_def)

end
