(* ===== verification/Agents.thy ===== *)
theory Agents
  imports Capabilities Float64
begin

section \<open>Agents: lifecycle, evidence records and their validation\<close>

text \<open>
  agent.hpp and agent.cpp: lifecycle and health enumerations, the registration descriptor,
  the load, health and availability observations and the validation of each.
\<close>

datatype AgentLifecycle =
    Unregistered
  | Registering
  | Ready
  | Busy
  | Draining
  | Unavailable
  | RevalidationRequired
  | Lost
  | Retired

primrec agent_lifecycle_code :: "AgentLifecycle \<Rightarrow> nat" where
  "agent_lifecycle_code AgentLifecycle.Unregistered = 0"
| "agent_lifecycle_code AgentLifecycle.Registering = 1"
| "agent_lifecycle_code AgentLifecycle.Ready = 2"
| "agent_lifecycle_code AgentLifecycle.Busy = 3"
| "agent_lifecycle_code AgentLifecycle.Draining = 4"
| "agent_lifecycle_code AgentLifecycle.Unavailable = 5"
| "agent_lifecycle_code AgentLifecycle.RevalidationRequired = 6"
| "agent_lifecycle_code AgentLifecycle.Lost = 7"
| "agent_lifecycle_code AgentLifecycle.Retired = 8"

primrec agent_lifecycle_to_string :: "AgentLifecycle \<Rightarrow> string" where
  "agent_lifecycle_to_string AgentLifecycle.Unregistered = ''UNREGISTERED''"
| "agent_lifecycle_to_string AgentLifecycle.Registering = ''REGISTERING''"
| "agent_lifecycle_to_string AgentLifecycle.Ready = ''READY''"
| "agent_lifecycle_to_string AgentLifecycle.Busy = ''BUSY''"
| "agent_lifecycle_to_string AgentLifecycle.Draining = ''DRAINING''"
| "agent_lifecycle_to_string AgentLifecycle.Unavailable = ''UNAVAILABLE''"
| "agent_lifecycle_to_string AgentLifecycle.RevalidationRequired = ''REVALIDATION_REQUIRED''"
| "agent_lifecycle_to_string AgentLifecycle.Lost = ''LOST''"
| "agent_lifecycle_to_string AgentLifecycle.Retired = ''RETIRED''"

lemma agent_lifecycle_code_inject: "agent_lifecycle_code a = agent_lifecycle_code b \<longleftrightarrow> a = b"
  by (cases a; cases b) simp_all

instantiation AgentLifecycle :: linorder
begin

definition less_eq_AgentLifecycle :: "AgentLifecycle \<Rightarrow> AgentLifecycle \<Rightarrow> bool" where
  "less_eq_AgentLifecycle a b \<longleftrightarrow> agent_lifecycle_code a \<le> agent_lifecycle_code b"

definition less_AgentLifecycle :: "AgentLifecycle \<Rightarrow> AgentLifecycle \<Rightarrow> bool" where
  "less_AgentLifecycle a b \<longleftrightarrow> agent_lifecycle_code a < agent_lifecycle_code b"

instance
  by intro_classes
    (auto simp: less_eq_AgentLifecycle_def less_AgentLifecycle_def agent_lifecycle_code_inject)

end

datatype AgentHealth =
    Unknown
  | Healthy
  | Degraded
  | Unhealthy

primrec agent_health_code :: "AgentHealth \<Rightarrow> nat" where
  "agent_health_code AgentHealth.Unknown = 0"
| "agent_health_code AgentHealth.Healthy = 1"
| "agent_health_code AgentHealth.Degraded = 2"
| "agent_health_code AgentHealth.Unhealthy = 3"

primrec agent_health_to_string :: "AgentHealth \<Rightarrow> string" where
  "agent_health_to_string AgentHealth.Unknown = ''UNKNOWN''"
| "agent_health_to_string AgentHealth.Healthy = ''HEALTHY''"
| "agent_health_to_string AgentHealth.Degraded = ''DEGRADED''"
| "agent_health_to_string AgentHealth.Unhealthy = ''UNHEALTHY''"

datatype AgentReadiness =
    Unknown
  | Ready
  | NotReady

primrec agent_readiness_code :: "AgentReadiness \<Rightarrow> nat" where
  "agent_readiness_code AgentReadiness.Unknown = 0"
| "agent_readiness_code AgentReadiness.Ready = 1"
| "agent_readiness_code AgentReadiness.NotReady = 2"

primrec agent_readiness_to_string :: "AgentReadiness \<Rightarrow> string" where
  "agent_readiness_to_string AgentReadiness.Unknown = ''UNKNOWN''"
| "agent_readiness_to_string AgentReadiness.Ready = ''READY''"
| "agent_readiness_to_string AgentReadiness.NotReady = ''NOT_READY''"

datatype AgentReachability =
    Unknown
  | Reachable
  | Unreachable

primrec agent_reachability_code :: "AgentReachability \<Rightarrow> nat" where
  "agent_reachability_code AgentReachability.Unknown = 0"
| "agent_reachability_code AgentReachability.Reachable = 1"
| "agent_reachability_code AgentReachability.Unreachable = 2"

primrec agent_reachability_to_string :: "AgentReachability \<Rightarrow> string" where
  "agent_reachability_to_string AgentReachability.Unknown = ''UNKNOWN''"
| "agent_reachability_to_string AgentReachability.Reachable = ''REACHABLE''"
| "agent_reachability_to_string AgentReachability.Unreachable = ''UNREACHABLE''"

datatype AgentAvailability =
    Unknown
  | Available
  | Unavailable

primrec agent_availability_code :: "AgentAvailability \<Rightarrow> nat" where
  "agent_availability_code AgentAvailability.Unknown = 0"
| "agent_availability_code AgentAvailability.Available = 1"
| "agent_availability_code AgentAvailability.Unavailable = 2"

primrec agent_availability_to_string :: "AgentAvailability \<Rightarrow> string" where
  "agent_availability_to_string AgentAvailability.Unknown = ''UNKNOWN''"
| "agent_availability_to_string AgentAvailability.Available = ''AVAILABLE''"
| "agent_availability_to_string AgentAvailability.Unavailable = ''UNAVAILABLE''"

definition lifecycle_accepts_new_work :: "AgentLifecycle \<Rightarrow> bool" where
  "lifecycle_accepts_new_work v \<longleftrightarrow> v = AgentLifecycle.Ready \<or> v = AgentLifecycle.Busy"

definition lifecycle_is_terminal :: "AgentLifecycle \<Rightarrow> bool" where
  "lifecycle_is_terminal v \<longleftrightarrow> v = AgentLifecycle.Retired"

record AgentDescriptor =
  ad_id :: u64
  ad_generation :: u64
  ad_boot :: Hash128
  ad_registration_generation :: u64
  ad_tenant :: u64
  ad_name_space :: u64
  ad_display_name :: string
  ad_policy_labels :: "string list"
  ad_placement_domain :: u64
  ad_topology_epoch :: u64
  ad_max_concurrency :: u32
  ad_lease_ttl_ms :: u64
  ad_provenance :: string

record LoadObservation =
  lo_generation :: u64
  lo_reported_active_assignments :: u32
  lo_max_concurrency :: u32
  lo_queue_depth :: u32
  lo_cpu_pressure_percent :: u32
  lo_estimated_dispatch_latency_ms :: u64
  lo_cost_index :: u64
  lo_slo_headroom_fraction :: u64
  lo_warm_state_keys :: "string list"
  lo_observed_at_ms :: u64

record HealthObservation =
  ho_generation :: u64
  ho_health :: AgentHealth
  ho_health_quality :: u32
  ho_detail :: string
  ho_observed_at_ms :: u64

record AvailabilityObservation =
  ao_generation :: u64
  ao_availability :: AgentAvailability
  ao_reachability :: AgentReachability
  ao_readiness :: AgentReadiness
  ao_observed_at_ms :: u64

definition register_error ::
    "AgentDescriptor \<Rightarrow> ErrorCode \<Rightarrow> string \<Rightarrow> ScheduleOutcome \<Rightarrow> SchedulerError" where
  "register_error d code detail oc =
     make_error code ''register_agent'' (id_to_string (ad_id d)) detail oc"

definition validate_descriptor :: "AgentDescriptor \<Rightarrow> ResourceLimits \<Rightarrow> MutationResult" where
  "validate_descriptor d limits = first_some
     [guard (ad_id d = 0)
        (make_error ErrorCode.InvalidArgument ''register_agent'' [] ''agent id must be non-zero''
           ScheduleOutcome.RejectInvalidRequest),
      guard (ad_generation d = 0)
        (register_error d ErrorCode.InvalidArgument ''agent generation must be non-zero''
           ScheduleOutcome.RejectInvalidRequest),
      guard (hash128_is_zero (ad_boot d))
        (register_error d ErrorCode.InvalidArgument ''agent boot id must be non-zero''
           ScheduleOutcome.RejectInvalidRequest),
      guard (ad_registration_generation d = 0)
        (register_error d ErrorCode.InvalidArgument ''registration generation must be non-zero''
           ScheduleOutcome.RejectInvalidRequest),
      guard (ad_max_concurrency d = 0)
        (register_error d ErrorCode.InvalidArgument ''max_concurrency must be at least 1''
           ScheduleOutcome.RejectInvalidRequest),
      guard (ad_max_concurrency d > max_active_assignments limits)
        (register_error d ErrorCode.LimitExceeded ''max_concurrency exceeds max_active_assignments''
           ScheduleOutcome.RejectLimitExceeded),
      map_option (\<lambda>p. register_error d ErrorCode.InvalidArgument p
          ScheduleOutcome.RejectInvalidRequest)
        (text_problem (ad_display_name d) (max_string_size limits) ''display_name''),
      map_option (\<lambda>p. register_error d ErrorCode.InvalidArgument p
          ScheduleOutcome.RejectInvalidRequest)
        (text_problem (ad_provenance d) (max_string_size limits) ''provenance''),
      guard (length (ad_policy_labels d) > unat (max_policy_labels limits))
        (register_error d ErrorCode.LimitExceeded ''policy label count exceeds max_policy_labels''
           ScheduleOutcome.RejectLimitExceeded),
      first_reject
        (\<lambda>label. map_option (\<lambda>p. register_error d ErrorCode.InvalidArgument p
             ScheduleOutcome.RejectInvalidRequest)
           (identifier_problem label (max_identifier_size limits) ''policy label''))
        (ad_policy_labels d)]"

definition validate_load :: "LoadObservation \<Rightarrow> ResourceLimits \<Rightarrow> MutationResult" where
  "validate_load ob limits =
     (let err = (\<lambda>code detail oc. make_error code ''publish_load'' [] detail oc) in first_some
        [guard (lo_generation ob = 0)
           (err ErrorCode.InvalidArgument ''load generation must be non-zero''
              ScheduleOutcome.RejectInvalidRequest),
         guard (lo_cpu_pressure_percent ob > 100)
           (err ErrorCode.InvalidArgument ''cpu_pressure_percent must be 0..100''
              ScheduleOutcome.RejectInvalidRequest),
         guard (\<not> is_finite_non_negative (lo_cost_index ob))
           (err ErrorCode.InvalidArgument ''cost_index must be finite and non-negative''
              ScheduleOutcome.RejectInvalidRequest),
         guard (\<not> is_finite_unit_fraction (lo_slo_headroom_fraction ob))
           (err ErrorCode.InvalidArgument ''slo_headroom_fraction must be finite and within [0,1]''
              ScheduleOutcome.RejectInvalidRequest),
         guard (length (lo_warm_state_keys ob) > unat (max_warm_state_keys limits))
           (err ErrorCode.LimitExceeded ''warm_state_keys exceeds max_warm_state_keys''
              ScheduleOutcome.RejectLimitExceeded),
         first_reject
           (\<lambda>key. map_option (\<lambda>p. err ErrorCode.InvalidArgument p
                ScheduleOutcome.RejectInvalidRequest)
              (identifier_problem key (max_identifier_size limits) ''warm state key''))
           (lo_warm_state_keys ob)])"

definition validate_health :: "HealthObservation \<Rightarrow> ResourceLimits \<Rightarrow> MutationResult" where
  "validate_health ob limits =
     (let err = (\<lambda>detail. make_error ErrorCode.InvalidArgument ''publish_health'' [] detail
                    ScheduleOutcome.RejectInvalidRequest) in first_some
        [guard (ho_generation ob = 0) (err ''health generation must be non-zero''),
         guard (ho_health_quality ob > 1000) (err ''health_quality must be 0..1000''),
         map_option err (text_problem (ho_detail ob) (max_string_size limits) ''health detail'')])"

definition validate_availability ::
    "AvailabilityObservation \<Rightarrow> ResourceLimits \<Rightarrow> MutationResult" where
  "validate_availability ob limits = first_some
     [guard (ao_generation ob = 0)
        (make_error ErrorCode.InvalidArgument ''publish_availability'' []
           ''availability generation must be non-zero'' ScheduleOutcome.RejectInvalidRequest)]"

text \<open>What a valid descriptor guarantees.\<close>

lemma validate_descriptor_None:
  "validate_descriptor d l = None \<Longrightarrow>
     ad_id d \<noteq> 0 \<and> ad_generation d \<noteq> 0 \<and> ad_boot d \<noteq> hash128_zero
     \<and> ad_registration_generation d \<noteq> 0 \<and> ad_max_concurrency d \<noteq> 0
     \<and> ad_max_concurrency d \<le> max_active_assignments l"
  by (auto simp: validate_descriptor_def hash128_is_zero_iff not_less split: if_splits)

end
