(* ===== verification/Work_Items.thy ===== *)
theory Work_Items
  imports Capabilities
begin

section \<open>Schedulable work\<close>

text \<open>
  work.hpp and work.cpp: the work lifecycle, the requirements and the request, validation of
  a request and its canonicalization.
\<close>

datatype WorkLifecycle =
    Unknown
  | Admitted
  | Assigned
  | Executing
  | Completed
  | Failed
  | Cancelled
  | Superseded
  | Expired

primrec work_lifecycle_code :: "WorkLifecycle \<Rightarrow> nat" where
  "work_lifecycle_code WorkLifecycle.Unknown = 0"
| "work_lifecycle_code WorkLifecycle.Admitted = 1"
| "work_lifecycle_code WorkLifecycle.Assigned = 2"
| "work_lifecycle_code WorkLifecycle.Executing = 3"
| "work_lifecycle_code WorkLifecycle.Completed = 4"
| "work_lifecycle_code WorkLifecycle.Failed = 5"
| "work_lifecycle_code WorkLifecycle.Cancelled = 6"
| "work_lifecycle_code WorkLifecycle.Superseded = 7"
| "work_lifecycle_code WorkLifecycle.Expired = 8"

primrec work_lifecycle_to_string :: "WorkLifecycle \<Rightarrow> string" where
  "work_lifecycle_to_string WorkLifecycle.Unknown = ''UNKNOWN''"
| "work_lifecycle_to_string WorkLifecycle.Admitted = ''ADMITTED''"
| "work_lifecycle_to_string WorkLifecycle.Assigned = ''ASSIGNED''"
| "work_lifecycle_to_string WorkLifecycle.Executing = ''EXECUTING''"
| "work_lifecycle_to_string WorkLifecycle.Completed = ''COMPLETED''"
| "work_lifecycle_to_string WorkLifecycle.Failed = ''FAILED''"
| "work_lifecycle_to_string WorkLifecycle.Cancelled = ''CANCELLED''"
| "work_lifecycle_to_string WorkLifecycle.Superseded = ''SUPERSEDED''"
| "work_lifecycle_to_string WorkLifecycle.Expired = ''EXPIRED''"

lemma work_lifecycle_code_inject: "work_lifecycle_code a = work_lifecycle_code b \<longleftrightarrow> a = b"
  by (cases a; cases b) simp_all

instantiation WorkLifecycle :: linorder
begin

definition less_eq_WorkLifecycle :: "WorkLifecycle \<Rightarrow> WorkLifecycle \<Rightarrow> bool" where
  "less_eq_WorkLifecycle a b \<longleftrightarrow> work_lifecycle_code a \<le> work_lifecycle_code b"

definition less_WorkLifecycle :: "WorkLifecycle \<Rightarrow> WorkLifecycle \<Rightarrow> bool" where
  "less_WorkLifecycle a b \<longleftrightarrow> work_lifecycle_code a < work_lifecycle_code b"

instance
  by intro_classes
    (auto simp: less_eq_WorkLifecycle_def less_WorkLifecycle_def work_lifecycle_code_inject)

end

definition work_accepts_assignment :: "WorkLifecycle \<Rightarrow> bool" where
  "work_accepts_assignment v \<longleftrightarrow> v = WorkLifecycle.Admitted"

fun work_is_terminal :: "WorkLifecycle \<Rightarrow> bool" where
  "work_is_terminal WorkLifecycle.Completed = True"
| "work_is_terminal WorkLifecycle.Failed = True"
| "work_is_terminal WorkLifecycle.Cancelled = True"
| "work_is_terminal WorkLifecycle.Superseded = True"
| "work_is_terminal WorkLifecycle.Expired = True"
| "work_is_terminal _ = False"

datatype SchedulingMode = Exclusive | Parallel

datatype FeasibilityVerdict =
    Unknown
  | Feasible
  | Infeasible

primrec feasibility_verdict_code :: "FeasibilityVerdict \<Rightarrow> nat" where
  "feasibility_verdict_code FeasibilityVerdict.Unknown = 0"
| "feasibility_verdict_code FeasibilityVerdict.Feasible = 1"
| "feasibility_verdict_code FeasibilityVerdict.Infeasible = 2"

primrec feasibility_verdict_to_string :: "FeasibilityVerdict \<Rightarrow> string" where
  "feasibility_verdict_to_string FeasibilityVerdict.Unknown = ''UNKNOWN''"
| "feasibility_verdict_to_string FeasibilityVerdict.Feasible = ''FEASIBLE''"
| "feasibility_verdict_to_string FeasibilityVerdict.Infeasible = ''INFEASIBLE''"

record WorkRequirements =
  rq_capabilities :: "CapabilityRequirement list"
  rq_tenant :: u64
  rq_name_space :: u64
  rq_required_policy_labels :: "string list"
  rq_affinity :: "u64 list"
  rq_anti_affinity :: "u64 list"
  rq_restrict_placement_domain :: bool
  rq_placement_domain :: u64
  rq_topology_epoch :: u64
  rq_require_healthy :: bool
  rq_require_reachable :: bool
  rq_require_ready :: bool
  rq_require_current_lease :: bool
  rq_require_resource_feasibility :: bool
  rq_resource_generation :: u64
  rq_resource_feasibility :: FeasibilityVerdict
  rq_require_budget_feasibility :: bool
  rq_budget_generation :: u64
  rq_budget_feasibility :: FeasibilityVerdict
  rq_require_slo_feasibility :: bool
  rq_slo_generation :: u64
  rq_slo_feasibility :: FeasibilityVerdict
  rq_require_reservation :: bool
  rq_reservation_generation :: u64
  rq_reservation_feasibility :: FeasibilityVerdict
  rq_require_warm_state :: bool
  rq_warm_state_keys :: "string list"
  rq_deadline_ms :: u64
  rq_max_parallel :: u32
  rq_max_assignments_per_agent :: u32

record WorkRequest =
  wq_id :: u64
  wq_generation :: u64
  wq_queue :: u64
  wq_queue_generation :: u64
  wq_kind :: string
  wq_priority :: u32
  wq_fairness_class :: string
  wq_mode :: SchedulingMode
  wq_requirements :: WorkRequirements
  wq_payload_ref :: string
  wq_earliest_start_ms :: u64
  wq_expected_duration_ms :: u64

text \<open>The member initializers of WorkRequirements and WorkRequest.\<close>

definition default_requirements :: WorkRequirements where
  "default_requirements =
     \<lparr> rq_capabilities = [], rq_tenant = 0, rq_name_space = 0, rq_required_policy_labels = [],
       rq_affinity = [], rq_anti_affinity = [], rq_restrict_placement_domain = False,
       rq_placement_domain = 0, rq_topology_epoch = 0, rq_require_healthy = True,
       rq_require_reachable = True, rq_require_ready = True, rq_require_current_lease = True,
       rq_require_resource_feasibility = False, rq_resource_generation = 0,
       rq_resource_feasibility = FeasibilityVerdict.Unknown,
       rq_require_budget_feasibility = False, rq_budget_generation = 0,
       rq_budget_feasibility = FeasibilityVerdict.Unknown,
       rq_require_slo_feasibility = False, rq_slo_generation = 0,
       rq_slo_feasibility = FeasibilityVerdict.Unknown,
       rq_require_reservation = False, rq_reservation_generation = 0,
       rq_reservation_feasibility = FeasibilityVerdict.Unknown,
       rq_require_warm_state = False, rq_warm_state_keys = [], rq_deadline_ms = 0,
       rq_max_parallel = 1, rq_max_assignments_per_agent = 1 \<rparr>"

definition default_work_request :: WorkRequest where
  "default_work_request =
     \<lparr> wq_id = 0, wq_generation = 0, wq_queue = 0, wq_queue_generation = 0, wq_kind = [],
       wq_priority = 0, wq_fairness_class = ''default'', wq_mode = SchedulingMode.Exclusive,
       wq_requirements = default_requirements, wq_payload_ref = [], wq_earliest_start_ms = 0,
       wq_expected_duration_ms = 0 \<rparr>"

definition work_error ::
    "ErrorCode \<Rightarrow> string \<Rightarrow> ScheduleOutcome \<Rightarrow> string \<Rightarrow> SchedulerError" where
  "work_error code detail oc subject = make_error code ''submit_work'' subject detail oc"

definition requirement_problem ::
    "ResourceLimits \<Rightarrow> string \<Rightarrow> CapabilityRequirement \<Rightarrow> SchedulerError option" where
  "requirement_problem limits subject r = first_some
     [map_option (\<lambda>p. work_error ErrorCode.InvalidArgument p ScheduleOutcome.RejectInvalidRequest subject)
        (identifier_problem (cr_name r) (max_identifier_size limits) ''capability requirement name''),
      guard (cr_minimum_quality r > 1000)
        (work_error ErrorCode.InvalidArgument ''minimum_quality must be 0..1000''
           ScheduleOutcome.RejectInvalidRequest subject),
      guard (\<not> capability_state_is_usable (cr_minimum_state r))
        (work_error ErrorCode.InvalidArgument ''minimum_state must be a usable capability state''
           ScheduleOutcome.RejectInvalidRequest subject)]"

definition validate_work :: "WorkRequest \<Rightarrow> ResourceLimits \<Rightarrow> MutationResult" where
  "validate_work q limits =
     (let subject = id_to_string (wq_id q);
          r = wq_requirements q;
          invalid = (\<lambda>d. work_error ErrorCode.InvalidArgument d
                        ScheduleOutcome.RejectInvalidRequest subject);
          limit = (\<lambda>d. work_error ErrorCode.LimitExceeded d
                        ScheduleOutcome.RejectLimitExceeded subject)
      in first_some
        [guard (wq_id q = 0)
           (work_error ErrorCode.InvalidArgument ''work id must be non-zero''
              ScheduleOutcome.RejectInvalidRequest []),
         guard (wq_generation q = 0) (invalid ''work generation must be non-zero''),
         guard (wq_queue q = 0) (invalid ''queue id must be non-zero''),
         guard (wq_queue_generation q = 0) (invalid ''queue generation must be non-zero''),
         guard (wq_priority q > 1000) (invalid ''priority must be 0..1000''),
         (case wq_mode q of
            SchedulingMode.Parallel \<Rightarrow>
              guard (rq_max_parallel r < 2) (invalid ''parallel work requires max_parallel >= 2'')
          | SchedulingMode.Exclusive \<Rightarrow>
              guard (rq_max_parallel r \<noteq> 1) (invalid ''exclusive work requires max_parallel == 1'')),
         guard (rq_max_parallel r > max_batch_assignments limits)
           (limit ''max_parallel exceeds max_batch_assignments''),
         guard (rq_max_assignments_per_agent r = 0
                \<or> rq_max_assignments_per_agent r > rq_max_parallel r)
           (invalid ''max_assignments_per_agent must be within 1..max_parallel''),
         map_option invalid
           (identifier_problem (wq_fairness_class q) (max_identifier_size limits) ''fairness_class''),
         map_option invalid (text_problem (wq_kind q) (max_identifier_size limits) ''kind''),
         map_option invalid (text_problem (wq_payload_ref q) (max_string_size limits) ''payload_ref''),
         guard (length (rq_capabilities r) > unat (max_capability_requirements limits))
           (limit ''capability requirement count exceeds max_capability_requirements''),
         first_reject (requirement_problem limits subject) (rq_capabilities r),
         guard (\<not> fst (canonicalize_unique (map cr_name (rq_capabilities r))))
           (work_error ErrorCode.Duplicate ''duplicate capability requirement name''
              ScheduleOutcome.RejectDuplicate subject),
         guard (length (rq_required_policy_labels r) > unat (max_policy_labels limits))
           (limit ''policy label count exceeds max_policy_labels''),
         first_reject
           (\<lambda>label. map_option invalid
              (identifier_problem label (max_identifier_size limits) ''policy label''))
           (rq_required_policy_labels r),
         guard (length (rq_affinity r) > unat (max_affinity_entries limits)
                \<or> length (rq_anti_affinity r) > unat (max_affinity_entries limits))
           (limit ''affinity set exceeds max_affinity_entries''),
         first_reject
           (\<lambda>agent. guard (agent \<in> set (rq_affinity r))
              (work_error ErrorCode.Conflict ''agent appears in both affinity and anti-affinity''
                 ScheduleOutcome.RejectAffinity subject))
           (rq_anti_affinity r),
         guard (length (rq_warm_state_keys r) > unat (max_warm_state_keys limits))
           (limit ''warm_state_keys exceeds max_warm_state_keys''),
         first_reject
           (\<lambda>key. map_option invalid
              (identifier_problem key (max_identifier_size limits) ''warm state key''))
           (rq_warm_state_keys r)])"

definition requirement_before :: "CapabilityRequirement \<Rightarrow> CapabilityRequirement \<Rightarrow> bool" where
  "requirement_before l r \<longleftrightarrow>
     (if cr_name l \<noteq> cr_name r then cr_name l < cr_name r
      else requirement_mode_code (cr_mode l) < requirement_mode_code (cr_mode r))"

definition canonicalize_ids :: "u64 list \<Rightarrow> u64 list" where
  "canonicalize_ids ids = unique_adjacent (sort_by (<) ids)"

definition canonicalize_work :: "WorkRequest \<Rightarrow> WorkRequest" where
  "canonicalize_work q =
     (let r = wq_requirements q in
      q\<lparr>wq_requirements := r\<lparr>
          rq_capabilities := sort_by requirement_before (rq_capabilities r),
          rq_required_policy_labels := canonicalize_strings (rq_required_policy_labels r),
          rq_warm_state_keys := canonicalize_strings (rq_warm_state_keys r),
          rq_affinity := canonicalize_ids (rq_affinity r),
          rq_anti_affinity := canonicalize_ids (rq_anti_affinity r)\<rparr>\<rparr>)"

interpretation requirement_order: strict_weak_order requirement_before
  by unfold_locales (auto simp: requirement_before_def not_less split: if_splits)

lemma canonicalize_work_sel [simp]:
  "wq_id (canonicalize_work q) = wq_id q"
  "wq_generation (canonicalize_work q) = wq_generation q"
  "wq_queue (canonicalize_work q) = wq_queue q"
  "wq_queue_generation (canonicalize_work q) = wq_queue_generation q"
  "wq_mode (canonicalize_work q) = wq_mode q"
  "rq_max_parallel (wq_requirements (canonicalize_work q)) = rq_max_parallel (wq_requirements q)"
  by (simp_all add: canonicalize_work_def Let_def)

text \<open>What admission guarantees about the fan-out bounds of a request.\<close>

definition request_wf :: "WorkRequest \<Rightarrow> bool" where
  "request_wf q \<longleftrightarrow>
     wq_id q \<noteq> 0 \<and> wq_generation q \<noteq> 0 \<and> wq_queue q \<noteq> 0 \<and>
     (case wq_mode q of
        SchedulingMode.Exclusive \<Rightarrow> rq_max_parallel (wq_requirements q) = 1
      | SchedulingMode.Parallel \<Rightarrow> 2 \<le> rq_max_parallel (wq_requirements q)) \<and>
     1 \<le> rq_max_assignments_per_agent (wq_requirements q) \<and>
     rq_max_assignments_per_agent (wq_requirements q) \<le> rq_max_parallel (wq_requirements q)"

lemma word_one_le_iff: "1 \<le> (x :: 'a::len word) \<longleftrightarrow> x \<noteq> 0"
  by (metis not_less word_coorder.extremum_strict word_gt_0 word_less_1)

lemma validate_work_wf: "validate_work q l = None \<Longrightarrow> request_wf q"
  by (cases "wq_mode q")
    (auto simp: validate_work_def request_wf_def Let_def first_some_Cons_None not_less
       word_one_le_iff intro: order.antisym split: if_splits)

end
