(* ===== verification/Feasibility.thy ===== *)
theory Feasibility
  imports Work_Items
begin

section \<open>External feasibility evidence\<close>

text \<open>
  adapters.hpp and adapters.cpp: the one question the scheduler asks an external authority,
  and the two providers of the repository. A provider is a function from requests to
  results; the scheduler only relies on the interface, stated as a locale below.
\<close>

record ExternalFeasibilityRequest =
  fq_work :: u64
  fq_work_generation :: u64
  fq_tenant :: u64
  fq_name_space :: u64
  fq_resource_generation :: u64
  fq_budget_generation :: u64
  fq_slo_generation :: u64
  fq_reservation_generation :: u64
  fq_deadline_ms :: u64

record ExternalFeasibilityResult =
  fr_resource :: FeasibilityVerdict
  fr_budget :: FeasibilityVerdict
  fr_slo :: FeasibilityVerdict
  fr_reservation :: FeasibilityVerdict
  fr_detail :: string

definition unknown_feasibility :: ExternalFeasibilityResult where
  "unknown_feasibility =
     \<lparr> fr_resource = FeasibilityVerdict.Unknown, fr_budget = FeasibilityVerdict.Unknown,
       fr_slo = FeasibilityVerdict.Unknown, fr_reservation = FeasibilityVerdict.Unknown,
       fr_detail = [] \<rparr>"

type_synonym Provider = "ExternalFeasibilityRequest \<Rightarrow> ExternalFeasibilityResult"

definition null_evaluate :: Provider where
  "null_evaluate request = unknown_feasibility"

record ScriptedProvider =
  sp_resource :: "(u64, FeasibilityVerdict) omap"
  sp_budget :: "(u64, FeasibilityVerdict) omap"
  sp_slo :: "(u64, FeasibilityVerdict) omap"
  sp_reservation :: "(u64, FeasibilityVerdict) omap"
  sp_detail :: string

definition empty_script :: ScriptedProvider where
  "empty_script =
     \<lparr> sp_resource = [], sp_budget = [], sp_slo = [], sp_reservation = [], sp_detail = [] \<rparr>"

definition verdict_lookup :: "(u64, FeasibilityVerdict) omap \<Rightarrow> u64 \<Rightarrow> FeasibilityVerdict" where
  "verdict_lookup table generation =
     (case om_get table generation of None \<Rightarrow> FeasibilityVerdict.Unknown | Some v \<Rightarrow> v)"

definition set_resource :: "u64 \<Rightarrow> FeasibilityVerdict \<Rightarrow> ScriptedProvider \<Rightarrow> ScriptedProvider" where
  "set_resource generation v p = p\<lparr>sp_resource := om_put generation v (sp_resource p)\<rparr>"

definition set_budget :: "u64 \<Rightarrow> FeasibilityVerdict \<Rightarrow> ScriptedProvider \<Rightarrow> ScriptedProvider" where
  "set_budget generation v p = p\<lparr>sp_budget := om_put generation v (sp_budget p)\<rparr>"

definition set_slo :: "u64 \<Rightarrow> FeasibilityVerdict \<Rightarrow> ScriptedProvider \<Rightarrow> ScriptedProvider" where
  "set_slo generation v p = p\<lparr>sp_slo := om_put generation v (sp_slo p)\<rparr>"

definition set_reservation ::
    "u64 \<Rightarrow> FeasibilityVerdict \<Rightarrow> ScriptedProvider \<Rightarrow> ScriptedProvider" where
  "set_reservation generation v p = p\<lparr>sp_reservation := om_put generation v (sp_reservation p)\<rparr>"

definition set_detail :: "string \<Rightarrow> ScriptedProvider \<Rightarrow> ScriptedProvider" where
  "set_detail d p = p\<lparr>sp_detail := d\<rparr>"

definition scripted_evaluate :: "ScriptedProvider \<Rightarrow> Provider" where
  "scripted_evaluate p request =
     \<lparr> fr_resource = verdict_lookup (sp_resource p) (fq_resource_generation request),
       fr_budget = verdict_lookup (sp_budget p) (fq_budget_generation request),
       fr_slo = verdict_lookup (sp_slo p) (fq_slo_generation request),
       fr_reservation = verdict_lookup (sp_reservation p) (fq_reservation_generation request),
       fr_detail = sp_detail p \<rparr>"

subsection \<open>The feasibility requirements of a work item\<close>

definition feasibility_request :: "WorkRequest \<Rightarrow> ExternalFeasibilityRequest" where
  "feasibility_request q =
     (let r = wq_requirements q in
      \<lparr> fq_work = wq_id q, fq_work_generation = wq_generation q, fq_tenant = rq_tenant r,
        fq_name_space = rq_name_space r, fq_resource_generation = rq_resource_generation r,
        fq_budget_generation = rq_budget_generation r, fq_slo_generation = rq_slo_generation r,
        fq_reservation_generation = rq_reservation_generation r,
        fq_deadline_ms = rq_deadline_ms r \<rparr>)"

text \<open>Without a provider the verdicts the submitter declared in the request are used.\<close>

definition declared_feasibility :: "WorkRequest \<Rightarrow> ExternalFeasibilityResult" where
  "declared_feasibility q =
     (let r = wq_requirements q in
      \<lparr> fr_resource = rq_resource_feasibility r, fr_budget = rq_budget_feasibility r,
        fr_slo = rq_slo_feasibility r, fr_reservation = rq_reservation_feasibility r,
        fr_detail = [] \<rparr>)"

text \<open>Which required verdict is missing, in the order the program checks them.\<close>

definition feasibility_met :: "WorkRequirements \<Rightarrow> ExternalFeasibilityResult \<Rightarrow> bool" where
  "feasibility_met r f \<longleftrightarrow>
     (rq_require_resource_feasibility r \<longrightarrow> fr_resource f = FeasibilityVerdict.Feasible)
     \<and> (rq_require_budget_feasibility r \<longrightarrow> fr_budget f = FeasibilityVerdict.Feasible)
     \<and> (rq_require_slo_feasibility r \<longrightarrow> fr_slo f = FeasibilityVerdict.Feasible)
     \<and> (rq_require_reservation r \<longrightarrow> fr_reservation f = FeasibilityVerdict.Feasible)"

text \<open>
  The interface: a provider's verdict on an axis is keyed by that axis' generation, so a
  verdict cannot change while the generation stays. Both providers of the repository keep it.
\<close>

locale feasibility_provider =
  fixes evaluate :: Provider
  assumes resource_keyed:
      "fq_resource_generation p = fq_resource_generation q \<Longrightarrow>
         fr_resource (evaluate p) = fr_resource (evaluate q)"
    and budget_keyed:
      "fq_budget_generation p = fq_budget_generation q \<Longrightarrow>
         fr_budget (evaluate p) = fr_budget (evaluate q)"
    and slo_keyed:
      "fq_slo_generation p = fq_slo_generation q \<Longrightarrow> fr_slo (evaluate p) = fr_slo (evaluate q)"
    and reservation_keyed:
      "fq_reservation_generation p = fq_reservation_generation q \<Longrightarrow>
         fr_reservation (evaluate p) = fr_reservation (evaluate q)"
begin

lemma same_generations_same_feasibility:
  assumes "rq_resource_generation (wq_requirements v) = rq_resource_generation (wq_requirements w)"
    and "rq_budget_generation (wq_requirements v) = rq_budget_generation (wq_requirements w)"
    and "rq_slo_generation (wq_requirements v) = rq_slo_generation (wq_requirements w)"
    and "rq_reservation_generation (wq_requirements v) = rq_reservation_generation (wq_requirements w)"
  shows "feasibility_met r (evaluate (feasibility_request v))
           \<longleftrightarrow> feasibility_met r (evaluate (feasibility_request w))"
  using assms resource_keyed [of "feasibility_request v" "feasibility_request w"]
    budget_keyed [of "feasibility_request v" "feasibility_request w"]
    slo_keyed [of "feasibility_request v" "feasibility_request w"]
    reservation_keyed [of "feasibility_request v" "feasibility_request w"]
  by (simp add: feasibility_met_def feasibility_request_def Let_def)

end

interpretation null_provider: feasibility_provider null_evaluate
  by unfold_locales (simp_all add: null_evaluate_def)

interpretation scripted_provider: feasibility_provider "scripted_evaluate p" for p
  by unfold_locales (simp_all add: scripted_evaluate_def)

lemma null_provider_meets:
  "feasibility_met r (null_evaluate q) \<longleftrightarrow>
     \<not> rq_require_resource_feasibility r \<and> \<not> rq_require_budget_feasibility r
     \<and> \<not> rq_require_slo_feasibility r \<and> \<not> rq_require_reservation r"
  by (simp add: feasibility_met_def null_evaluate_def unknown_feasibility_def)

lemma verdict_lookup_put [simp]:
  "verdict_lookup (om_put g v t) h = (if h = g then v else verdict_lookup t h)"
  by (simp add: verdict_lookup_def)

end
