(* ===== verification/Assignments.thy ===== *)
theory Assignments
  imports Capabilities
begin

section \<open>Authoritative assignments and leases\<close>

text \<open>
  assignment.hpp and assignment.cpp: assignment states, the authority binding, derived
  identities and the assignment, lease and fenced incarnation records.
\<close>

datatype AssignmentState =
    Unknown
  | Assigned
  | Dispatched
  | Acknowledged
  | Executing
  | Releasing
  | RevalidationRequired
  | Completed
  | Failed
  | Released
  | Invalidated
  | Superseded
  | Expired
  | Lost
  | Cancelled

primrec assignment_state_code :: "AssignmentState \<Rightarrow> nat" where
  "assignment_state_code AssignmentState.Unknown = 0"
| "assignment_state_code AssignmentState.Assigned = 1"
| "assignment_state_code AssignmentState.Dispatched = 2"
| "assignment_state_code AssignmentState.Acknowledged = 3"
| "assignment_state_code AssignmentState.Executing = 4"
| "assignment_state_code AssignmentState.Releasing = 5"
| "assignment_state_code AssignmentState.RevalidationRequired = 6"
| "assignment_state_code AssignmentState.Completed = 7"
| "assignment_state_code AssignmentState.Failed = 8"
| "assignment_state_code AssignmentState.Released = 9"
| "assignment_state_code AssignmentState.Invalidated = 10"
| "assignment_state_code AssignmentState.Superseded = 11"
| "assignment_state_code AssignmentState.Expired = 12"
| "assignment_state_code AssignmentState.Lost = 13"
| "assignment_state_code AssignmentState.Cancelled = 14"

primrec assignment_state_to_string :: "AssignmentState \<Rightarrow> string" where
  "assignment_state_to_string AssignmentState.Unknown = ''UNKNOWN''"
| "assignment_state_to_string AssignmentState.Assigned = ''ASSIGNED''"
| "assignment_state_to_string AssignmentState.Dispatched = ''DISPATCHED''"
| "assignment_state_to_string AssignmentState.Acknowledged = ''ACKNOWLEDGED''"
| "assignment_state_to_string AssignmentState.Executing = ''EXECUTING''"
| "assignment_state_to_string AssignmentState.Releasing = ''RELEASING''"
| "assignment_state_to_string AssignmentState.RevalidationRequired = ''REVALIDATION_REQUIRED''"
| "assignment_state_to_string AssignmentState.Completed = ''COMPLETED''"
| "assignment_state_to_string AssignmentState.Failed = ''FAILED''"
| "assignment_state_to_string AssignmentState.Released = ''RELEASED''"
| "assignment_state_to_string AssignmentState.Invalidated = ''INVALIDATED''"
| "assignment_state_to_string AssignmentState.Superseded = ''SUPERSEDED''"
| "assignment_state_to_string AssignmentState.Expired = ''EXPIRED''"
| "assignment_state_to_string AssignmentState.Lost = ''LOST''"
| "assignment_state_to_string AssignmentState.Cancelled = ''CANCELLED''"

fun assignment_state_is_active :: "AssignmentState \<Rightarrow> bool" where
  "assignment_state_is_active AssignmentState.Assigned = True"
| "assignment_state_is_active AssignmentState.Dispatched = True"
| "assignment_state_is_active AssignmentState.Acknowledged = True"
| "assignment_state_is_active AssignmentState.Executing = True"
| "assignment_state_is_active AssignmentState.Releasing = True"
| "assignment_state_is_active AssignmentState.RevalidationRequired = True"
| "assignment_state_is_active _ = False"

fun assignment_state_is_terminal :: "AssignmentState \<Rightarrow> bool" where
  "assignment_state_is_terminal AssignmentState.Completed = True"
| "assignment_state_is_terminal AssignmentState.Failed = True"
| "assignment_state_is_terminal AssignmentState.Released = True"
| "assignment_state_is_terminal AssignmentState.Invalidated = True"
| "assignment_state_is_terminal AssignmentState.Superseded = True"
| "assignment_state_is_terminal AssignmentState.Expired = True"
| "assignment_state_is_terminal AssignmentState.Lost = True"
| "assignment_state_is_terminal AssignmentState.Cancelled = True"
| "assignment_state_is_terminal _ = False"

definition assignment_state_is_dispatchable :: "AssignmentState \<Rightarrow> bool" where
  "assignment_state_is_dispatchable v \<longleftrightarrow> v = AssignmentState.Assigned"

lemma active_not_terminal: "assignment_state_is_active v \<Longrightarrow> \<not> assignment_state_is_terminal v"
  by (cases v) simp_all

lemma terminal_not_active: "assignment_state_is_terminal v \<Longrightarrow> \<not> assignment_state_is_active v"
  by (cases v) simp_all

lemma state_trichotomy:
  "v = AssignmentState.Unknown \<or> assignment_state_is_active v \<or> assignment_state_is_terminal v"
  by (cases v) simp_all

datatype InvalidationReason =
    NoReason
  | AgentLost
  | AgentRetired
  | AgentDrained
  | AgentFenced
  | LeaseExpired
  | WorkCancelled
  | WorkSuperseded
  | PolicyChanged
  | CapabilityChanged
  | ResourceChanged
  | BudgetChanged
  | SloChanged
  | SchedulerRestart
  | CoordinatorEpochChanged
  | ExclusiveConflict
  | Replaced
  | Shutdown
  | Rejected
  | AssignmentAcknowledgedElsewhere
  | WorkCompleted
  | WorkFailed
  | LeaseReleased

primrec invalidation_code :: "InvalidationReason \<Rightarrow> nat" where
  "invalidation_code InvalidationReason.NoReason = 0"
| "invalidation_code InvalidationReason.AgentLost = 1"
| "invalidation_code InvalidationReason.AgentRetired = 2"
| "invalidation_code InvalidationReason.AgentDrained = 3"
| "invalidation_code InvalidationReason.AgentFenced = 4"
| "invalidation_code InvalidationReason.LeaseExpired = 5"
| "invalidation_code InvalidationReason.WorkCancelled = 6"
| "invalidation_code InvalidationReason.WorkSuperseded = 7"
| "invalidation_code InvalidationReason.PolicyChanged = 8"
| "invalidation_code InvalidationReason.CapabilityChanged = 9"
| "invalidation_code InvalidationReason.ResourceChanged = 10"
| "invalidation_code InvalidationReason.BudgetChanged = 11"
| "invalidation_code InvalidationReason.SloChanged = 12"
| "invalidation_code InvalidationReason.SchedulerRestart = 13"
| "invalidation_code InvalidationReason.CoordinatorEpochChanged = 14"
| "invalidation_code InvalidationReason.ExclusiveConflict = 15"
| "invalidation_code InvalidationReason.Replaced = 16"
| "invalidation_code InvalidationReason.Shutdown = 17"
| "invalidation_code InvalidationReason.Rejected = 18"
| "invalidation_code InvalidationReason.AssignmentAcknowledgedElsewhere = 19"
| "invalidation_code InvalidationReason.WorkCompleted = 20"
| "invalidation_code InvalidationReason.WorkFailed = 21"
| "invalidation_code InvalidationReason.LeaseReleased = 22"

primrec invalidation_to_string :: "InvalidationReason \<Rightarrow> string" where
  "invalidation_to_string InvalidationReason.NoReason = ''NONE''"
| "invalidation_to_string InvalidationReason.AgentLost = ''AGENT_LOST''"
| "invalidation_to_string InvalidationReason.AgentRetired = ''AGENT_RETIRED''"
| "invalidation_to_string InvalidationReason.AgentDrained = ''AGENT_DRAINED''"
| "invalidation_to_string InvalidationReason.AgentFenced = ''AGENT_FENCED''"
| "invalidation_to_string InvalidationReason.LeaseExpired = ''LEASE_EXPIRED''"
| "invalidation_to_string InvalidationReason.WorkCancelled = ''WORK_CANCELLED''"
| "invalidation_to_string InvalidationReason.WorkSuperseded = ''WORK_SUPERSEDED''"
| "invalidation_to_string InvalidationReason.PolicyChanged = ''POLICY_CHANGED''"
| "invalidation_to_string InvalidationReason.CapabilityChanged = ''CAPABILITY_CHANGED''"
| "invalidation_to_string InvalidationReason.ResourceChanged = ''RESOURCE_CHANGED''"
| "invalidation_to_string InvalidationReason.BudgetChanged = ''BUDGET_CHANGED''"
| "invalidation_to_string InvalidationReason.SloChanged = ''SLO_CHANGED''"
| "invalidation_to_string InvalidationReason.SchedulerRestart = ''SCHEDULER_RESTART''"
| "invalidation_to_string InvalidationReason.CoordinatorEpochChanged = ''COORDINATOR_EPOCH_CHANGED''"
| "invalidation_to_string InvalidationReason.ExclusiveConflict = ''EXCLUSIVE_CONFLICT''"
| "invalidation_to_string InvalidationReason.Replaced = ''REPLACED''"
| "invalidation_to_string InvalidationReason.Shutdown = ''SHUTDOWN''"
| "invalidation_to_string InvalidationReason.Rejected = ''REJECTED''"
| "invalidation_to_string InvalidationReason.AssignmentAcknowledgedElsewhere = ''ACKNOWLEDGED_ELSEWHERE''"
| "invalidation_to_string InvalidationReason.WorkCompleted = ''WORK_COMPLETED''"
| "invalidation_to_string InvalidationReason.WorkFailed = ''WORK_FAILED''"
| "invalidation_to_string InvalidationReason.LeaseReleased = ''LEASE_RELEASED''"

record AssignmentBinding =
  bn_id :: Hash128
  bn_generation :: u64
  bn_work :: u64
  bn_work_generation :: u64
  bn_agent :: u64
  bn_agent_generation :: u64
  bn_boot :: Hash128
  bn_scheduler :: u64
  bn_scheduler_epoch :: u64
  bn_coordinator_epoch :: u64
  bn_policy :: u64
  bn_policy_generation :: u64
  bn_capability_profile :: u64
  bn_capability_generation :: u64
  bn_resource_generation :: u64
  bn_budget_generation :: u64
  bn_slo_generation :: u64
  bn_reservation_generation :: u64
  bn_queue :: u64
  bn_queue_generation :: u64
  bn_lease :: Hash128
  bn_lease_generation :: u64
  bn_dispatch :: Hash128
  bn_dispatch_generation :: u64
  bn_placement_domain :: u64
  bn_topology_epoch :: u64
  bn_created_at_ms :: u64
  bn_lease_expires_at_ms :: u64
  bn_replica_index :: u32
  bn_exclusive :: bool

record AssignmentRecord =
  ar_binding :: AssignmentBinding
  ar_state :: AssignmentState
  ar_invalidation :: InvalidationReason
  ar_lease_current :: bool
  ar_dispatched_at_ms :: u64
  ar_acknowledged_at_ms :: u64
  ar_closed_at_ms :: u64
  ar_reason :: string

record Lease =
  ls_id :: Hash128
  ls_generation :: u64
  ls_assignment :: Hash128
  ls_assignment_generation :: u64
  ls_agent :: u64
  ls_boot :: Hash128
  ls_granted_at_ms :: u64
  ls_expires_at_ms :: u64
  ls_current :: bool

record FencedBoot =
  fb_agent :: u64
  fb_boot :: Hash128
  fb_generation :: u64
  fb_fenced_at_ms :: u64
  fb_reason :: string

text \<open>Canonical binding encoding: the updates hash_binding feeds to the hasher, in order.\<close>

definition update_hash128 :: "Hash128 \<Rightarrow> Hasher256 \<Rightarrow> Hasher256" where
  "update_hash128 v h = update_u64 (h_low v) (update_u64 (h_high v) h)"

definition hash_binding :: "AssignmentBinding \<Rightarrow> Hasher256 \<Rightarrow> Hasher256" where
  "hash_binding b h = fold (\<lambda>f. f)
     [update_field_tag 0x01,
      update_u64 (bn_generation b),
      update_field_tag 0x02,
      update_u64 (bn_work b),
      update_u64 (bn_work_generation b),
      update_field_tag 0x03,
      update_u64 (bn_agent b),
      update_u64 (bn_agent_generation b),
      update_hash128 (bn_boot b),
      update_field_tag 0x04,
      update_u64 (bn_scheduler b),
      update_u64 (bn_scheduler_epoch b),
      update_u64 (bn_coordinator_epoch b),
      update_field_tag 0x05,
      update_u64 (bn_policy b),
      update_u64 (bn_policy_generation b),
      update_field_tag 0x06,
      update_u64 (bn_capability_profile b),
      update_u64 (bn_capability_generation b),
      update_field_tag 0x07,
      update_u64 (bn_resource_generation b),
      update_u64 (bn_budget_generation b),
      update_u64 (bn_slo_generation b),
      update_u64 (bn_reservation_generation b),
      update_field_tag 0x08,
      update_u64 (bn_queue b),
      update_u64 (bn_queue_generation b),
      update_field_tag 0x09,
      update_u64 (bn_placement_domain b),
      update_u64 (bn_topology_epoch b),
      update_field_tag 0x0A,
      update_u32 (bn_replica_index b),
      update_u8 (if bn_exclusive b then 1 else 0)] h"

definition derive_assignment_id :: "AssignmentBinding \<Rightarrow> Hash128" where
  "derive_assignment_id b = hash128_of (hasher_final (hash_binding b hasher_init))"

definition derive_lease_id :: "AssignmentBinding \<Rightarrow> Hash128" where
  "derive_lease_id b = hash128_of (hasher_final
     (update_u64 (bn_lease_generation b)
       (update_hash128 (bn_id b) (update_field_tag 0x11 hasher_init))))"

definition derive_dispatch_id :: "AssignmentBinding \<Rightarrow> Hash128" where
  "derive_dispatch_id b = hash128_of (hasher_final
     (update_u64 (bn_dispatch_generation b)
       (update_hash128 (bn_id b) (update_field_tag 0x12 hasher_init))))"

end
