(* ===== verification/Explanations.thy ===== *)
theory Explanations
  imports Assignments
begin

section \<open>Decision and explanation records\<close>

text \<open>
  explanation.hpp, explanation.cpp and the result records of scheduler.hpp: what a
  scheduling pass reports about every candidate, the batch and dispatch results and the
  revalidation report. Counters of type size_t are natural numbers; int64 scores are
  integers (their range is proved with the ranking).
\<close>

datatype FactorStatus = Known | Unknown

primrec factor_status_to_string :: "FactorStatus \<Rightarrow> string" where
  "factor_status_to_string FactorStatus.Known = ''KNOWN''"
| "factor_status_to_string FactorStatus.Unknown = ''UNKNOWN''"

record FactorScore =
  fs_name :: string
  fs_status :: FactorStatus
  fs_raw_value :: int
  fs_normalized_value :: int
  fs_weight :: u32
  fs_note :: string

record CandidateEvaluation =
  cv_agent :: u64
  cv_agent_generation :: u64
  cv_boot :: Hash128
  cv_eligible :: bool
  cv_rejection :: ScheduleOutcome
  cv_rejection_detail :: string
  cv_factors :: "FactorScore list"
  cv_score :: int
  cv_known_weight :: u32
  cv_total_weight :: u32
  cv_active_assignments :: u32
  cv_available_capacity :: u32
  cv_rank :: u32
  cv_selected :: bool
  cv_tie_break_decided :: bool
  cv_tie_break_reason :: string

definition default_evaluation :: CandidateEvaluation where
  "default_evaluation =
     \<lparr> cv_agent = 0, cv_agent_generation = 0, cv_boot = hash128_zero, cv_eligible = False,
       cv_rejection = ScheduleOutcome.NoChange, cv_rejection_detail = [], cv_factors = [],
       cv_score = 0, cv_known_weight = 0, cv_total_weight = 0, cv_active_assignments = 0,
       cv_available_capacity = 0, cv_rank = 0, cv_selected = False,
       cv_tie_break_decided = False, cv_tie_break_reason = [] \<rparr>"

record FairnessEntry =
  fe_work :: u64
  fe_queue :: u64
  fe_tenant :: u64
  fe_fairness_class :: string
  fe_priority :: u32
  fe_effective_priority :: int
  fe_bypass_count :: u32
  fe_bypass_ceiling :: u32
  fe_starvation_rounds :: u32
  fe_admitted_sequence :: u64
  fe_starved :: bool
  fe_must_run :: bool

record FairnessSnapshot =
  fn_entries :: "FairnessEntry list"
  fn_starved_count :: u32
  fn_must_run_count :: u32
  fn_max_bypass_observed :: u32
  fn_scheduling_rounds :: u64
  fn_aging_rounds_per_step :: u64
  fn_max_priority_bypass :: u32
  fn_bounded_starvation :: bool

record ScheduleRequest =
  sr_work :: "u64 list"
  sr_queues :: "u64 list"
  sr_max_assignments :: u32
  sr_dry_run :: bool

record ScheduleDecision =
  sd_outcome :: ScheduleOutcome
  sd_work :: u64
  sd_work_generation :: u64
  sd_candidate_count :: nat
  sd_eligible_count :: nat
  sd_candidates :: "CandidateEvaluation list"
  sd_ranking_order :: "nat list"
  sd_selected_agent :: u64
  sd_selected_agent_generation :: u64
  sd_selected_boot :: Hash128
  sd_assignment :: "AssignmentBinding option"
  sd_tie_break_reason :: string
  sd_rejection_summary :: "string list"
  sd_scheduler_epoch :: u64
  sd_coordinator_epoch :: u64
  sd_policy_generation :: u64
  sd_detail :: string

definition default_decision :: ScheduleDecision where
  "default_decision =
     \<lparr> sd_outcome = ScheduleOutcome.NoChange, sd_work = 0, sd_work_generation = 0,
       sd_candidate_count = 0, sd_eligible_count = 0, sd_candidates = [],
       sd_ranking_order = [], sd_selected_agent = 0, sd_selected_agent_generation = 0,
       sd_selected_boot = hash128_zero, sd_assignment = None, sd_tie_break_reason = [],
       sd_rejection_summary = [], sd_scheduler_epoch = 0, sd_coordinator_epoch = 0,
       sd_policy_generation = 0, sd_detail = [] \<rparr>"

record BatchDecision =
  bd_decisions :: "ScheduleDecision list"
  bd_examined :: nat
  bd_assigned :: nat
  bd_deferred :: nat
  bd_rejected :: nat
  bd_outcome :: ScheduleOutcome

definition default_batch :: BatchDecision where
  "default_batch =
     \<lparr> bd_decisions = [], bd_examined = 0, bd_assigned = 0, bd_deferred = 0, bd_rejected = 0,
       bd_outcome = ScheduleOutcome.NoChange \<rparr>"

record DispatchResult =
  dr_outcome :: ScheduleOutcome
  dr_handoff :: "AssignmentBinding option"
  dr_detail :: string

record RevalidationReport =
  rp_examined :: nat
  rp_promoted :: nat
  rp_invalidated :: nat
  rp_work_returned :: nat
  rp_details :: "string list"

definition default_report :: RevalidationReport where
  "default_report = \<lparr> rp_examined = 0, rp_promoted = 0, rp_invalidated = 0, rp_work_returned = 0,
       rp_details = [] \<rparr>"

end
