(* ===== verification/Sched_Policy.thy ===== *)
theory Sched_Policy
  imports Text_Util Resource_Limits
begin

section \<open>Scheduling policy, fairness contract and ranking weights\<close>

text \<open>
  policy.hpp and policy.cpp: the policy record, its defaults, its validation and the bypass
  ceiling that bounds how often an admissible item may be passed over.
\<close>

definition known_factors :: "string list" where
  "known_factors =
     [''load_headroom'', ''remaining_capacity'', ''capability_quality'',
      ''capability_completeness'', ''warm_state_affinity'', ''locality_match'',
      ''health_quality'', ''readiness'', ''queue_age'', ''fairness_deficit'',
      ''dispatch_latency'', ''cost_evidence'', ''slo_headroom'', ''resource_headroom'',
      ''reliability_history'', ''anti_concentration'', ''failure_domain_diversity'',
      ''handoff_cost'']"

definition is_known_factor :: "string \<Rightarrow> bool" where
  "is_known_factor name \<longleftrightarrow> name \<in> set known_factors"

record RankingWeight =
  rw_factor :: string
  rw_weight :: u32

record QueueClassWeight =
  qw_fairness_class :: string
  qw_weight :: u32

record PolicySnapshot =
  po_id :: u64
  po_generation :: u64
  aging_rounds_per_step :: u32
  max_priority_bypass :: u32
  starvation_alert_rounds :: u32
  allow_unbounded_starvation :: bool
  fairness_class_weights :: "QueueClassWeight list"
  anti_concentration_window :: u32
  anti_concentration_penalty :: u32
  capability_staleness_ms :: u64
  health_staleness_ms :: u64
  load_staleness_ms :: u64
  availability_staleness_ms :: u64
  assignment_lease_ttl_ms :: u64
  registration_lease_ttl_ms :: u64
  close_dispatch_authority_on_shutdown :: bool
  ranking_weights :: "RankingWeight list"

definition default_ranking_weights :: "RankingWeight list" where
  "default_ranking_weights =
     [\<lparr> rw_factor = ''load_headroom'', rw_weight = 30 \<rparr>,
      \<lparr> rw_factor = ''remaining_capacity'', rw_weight = 20 \<rparr>,
      \<lparr> rw_factor = ''capability_quality'', rw_weight = 25 \<rparr>,
      \<lparr> rw_factor = ''capability_completeness'', rw_weight = 15 \<rparr>,
      \<lparr> rw_factor = ''warm_state_affinity'', rw_weight = 10 \<rparr>,
      \<lparr> rw_factor = ''locality_match'', rw_weight = 10 \<rparr>,
      \<lparr> rw_factor = ''health_quality'', rw_weight = 15 \<rparr>,
      \<lparr> rw_factor = ''readiness'', rw_weight = 10 \<rparr>,
      \<lparr> rw_factor = ''queue_age'', rw_weight = 8 \<rparr>,
      \<lparr> rw_factor = ''fairness_deficit'', rw_weight = 8 \<rparr>,
      \<lparr> rw_factor = ''dispatch_latency'', rw_weight = 6 \<rparr>,
      \<lparr> rw_factor = ''cost_evidence'', rw_weight = 6 \<rparr>,
      \<lparr> rw_factor = ''slo_headroom'', rw_weight = 6 \<rparr>,
      \<lparr> rw_factor = ''resource_headroom'', rw_weight = 6 \<rparr>,
      \<lparr> rw_factor = ''reliability_history'', rw_weight = 6 \<rparr>,
      \<lparr> rw_factor = ''anti_concentration'', rw_weight = 8 \<rparr>,
      \<lparr> rw_factor = ''failure_domain_diversity'', rw_weight = 6 \<rparr>,
      \<lparr> rw_factor = ''handoff_cost'', rw_weight = 6 \<rparr>]"

definition default_fairness_class_weights :: "QueueClassWeight list" where
  "default_fairness_class_weights =
     [\<lparr> qw_fairness_class = ''interactive'', qw_weight = 4 \<rparr>,
      \<lparr> qw_fairness_class = ''default'', qw_weight = 2 \<rparr>,
      \<lparr> qw_fairness_class = ''batch'', qw_weight = 1 \<rparr>]"

text \<open>The member initializers of PolicySnapshot.\<close>

definition default_policy :: PolicySnapshot where
  "default_policy =
     \<lparr> po_id = 0, po_generation = 0, aging_rounds_per_step = 1, max_priority_bypass = 32,
       starvation_alert_rounds = 256, allow_unbounded_starvation = False,
       fairness_class_weights = [], anti_concentration_window = 8,
       anti_concentration_penalty = 200, capability_staleness_ms = 60000,
       health_staleness_ms = 60000, load_staleness_ms = 60000,
       availability_staleness_ms = 60000, assignment_lease_ttl_ms = 120000,
       registration_lease_ttl_ms = 300000, close_dispatch_authority_on_shutdown = True,
       ranking_weights = [] \<rparr>"

definition policy_error ::
    "ErrorCode \<Rightarrow> string \<Rightarrow> string \<Rightarrow> ScheduleOutcome \<Rightarrow> SchedulerError" where
  "policy_error code subject detail oc = make_error code ''set_policy'' subject detail oc"

definition ranking_weight_problem :: "RankingWeight \<Rightarrow> SchedulerError option" where
  "ranking_weight_problem w = first_some
     [guard (\<not> is_known_factor (rw_factor w))
        (policy_error ErrorCode.InvalidArgument (rw_factor w) ''unknown ranking factor''
           ScheduleOutcome.RejectInvalidRequest),
      guard (rw_weight w > 1000000)
        (policy_error ErrorCode.InvalidArgument (rw_factor w) ''ranking weight exceeds 1000000''
           ScheduleOutcome.RejectInvalidRequest)]"

definition class_weight_problem ::
    "ResourceLimits \<Rightarrow> QueueClassWeight \<Rightarrow> SchedulerError option" where
  "class_weight_problem limits w = first_some
     [map_option (\<lambda>p. policy_error ErrorCode.InvalidArgument [] p
          ScheduleOutcome.RejectInvalidRequest)
        (identifier_problem (qw_fairness_class w) (max_identifier_size limits) ''fairness class''),
      guard (qw_weight w = 0 \<or> qw_weight w > 1000)
        (policy_error ErrorCode.InvalidArgument (qw_fairness_class w)
           ''fairness class weight must be 1..1000'' ScheduleOutcome.RejectInvalidRequest)]"

definition validate_policy :: "PolicySnapshot \<Rightarrow> ResourceLimits \<Rightarrow> MutationResult" where
  "validate_policy policy limits =
     (let subject = id_to_string (po_id policy) in first_some
        [guard (po_id policy = 0)
           (policy_error ErrorCode.InvalidArgument [] ''policy id must be non-zero''
              ScheduleOutcome.RejectInvalidRequest),
         guard (po_generation policy = 0)
           (policy_error ErrorCode.InvalidArgument subject ''policy generation must be non-zero''
              ScheduleOutcome.RejectInvalidRequest),
         guard (aging_rounds_per_step policy = 0)
           (policy_error ErrorCode.InvalidArgument subject
              ''aging_rounds_per_step must be at least 1'' ScheduleOutcome.RejectInvalidRequest),
         guard (max_priority_bypass policy = 0 \<and> \<not> allow_unbounded_starvation policy)
           (policy_error ErrorCode.InvalidArgument subject
              ''max_priority_bypass must be at least 1 when starvation is bounded''
              ScheduleOutcome.RejectInvalidRequest),
         guard (length (ranking_weights policy) > unat (max_explanation_factors limits))
           (policy_error ErrorCode.LimitExceeded subject
              ''ranking weight count exceeds max_explanation_factors''
              ScheduleOutcome.RejectLimitExceeded),
         first_reject ranking_weight_problem (ranking_weights policy),
         guard (\<not> fst (canonicalize_unique (map rw_factor (ranking_weights policy))))
           (policy_error ErrorCode.Duplicate [] ''duplicate ranking factor''
              ScheduleOutcome.RejectDuplicate),
         guard (length (fairness_class_weights policy) > unat (max_queues limits))
           (policy_error ErrorCode.LimitExceeded subject
              ''fairness class count exceeds max_queues'' ScheduleOutcome.RejectLimitExceeded),
         first_reject (class_weight_problem limits) (fairness_class_weights policy),
         guard (\<not> fst (canonicalize_unique
                    (map qw_fairness_class (fairness_class_weights policy))))
           (policy_error ErrorCode.Duplicate [] ''duplicate fairness class''
              ScheduleOutcome.RejectDuplicate),
         guard (anti_concentration_window policy > max_retained_history limits)
           (policy_error ErrorCode.LimitExceeded subject
              ''anti_concentration_window exceeds max_retained_history''
              ScheduleOutcome.RejectLimitExceeded),
         guard (assignment_lease_ttl_ms policy = 0 \<or> registration_lease_ttl_ms policy = 0)
           (policy_error ErrorCode.InvalidArgument subject ''lease TTLs must be non-zero''
              ScheduleOutcome.RejectInvalidRequest)])"

fun class_weight_in :: "QueueClassWeight list \<Rightarrow> string \<Rightarrow> u32" where
  "class_weight_in [] c = 1"
| "class_weight_in (w # ws) c =
     (if qw_fairness_class w = c then qw_weight w else class_weight_in ws c)"

definition fairness_class_weight :: "PolicySnapshot \<Rightarrow> string \<Rightarrow> u32" where
  "fairness_class_weight policy c = class_weight_in (fairness_class_weights policy) c"

definition bypass_ceiling :: "PolicySnapshot \<Rightarrow> string \<Rightarrow> u32" where
  "bypass_ceiling policy c =
     (if allow_unbounded_starvation policy then 0xFFFFFFFF
      else let weight = (ucast (fairness_class_weight policy c) :: u64) in
        if weight = 0 then max_priority_bypass policy
        else let ceiling = ucast (max_priority_bypass policy) div weight in
          if ceiling < 1 then 1
          else if ceiling > 0xFFFFFFFF then 0xFFFFFFFF
          else ucast ceiling)"

end
