(* ===== verification/Scheduler_State.thy ===== *)
theory Scheduler_State
  imports Agents Feasibility Explanations Sched_Policy
begin

section \<open>Authoritative state of the scheduler\<close>

text \<open>
  The records of scheduler_impl.hpp and the Impl state. The clock is the field im_now: one
  critical section reads one instant. The mutex is the atomicity of an operation of the
  model; the interlock, which runs without the lock, is where an operation is split into a
  check and a commit. The eight index maps are kept as the code keeps them.
\<close>

record AgentRecord =
  ag_descriptor :: AgentDescriptor
  ag_lifecycle :: AgentLifecycle
  ag_health :: AgentHealth
  ag_readiness :: AgentReadiness
  ag_reachability :: AgentReachability
  ag_availability :: AgentAvailability
  ag_profile :: CapabilityProfile
  ag_health_generation :: u64
  ag_availability_generation :: u64
  ag_load_generation :: u64
  ag_health_observation :: HealthObservation
  ag_availability_observation :: AvailabilityObservation
  ag_load_observation :: LoadObservation
  ag_lease_expires_at_ms :: u64
  ag_active_assignments :: u32
  ag_recent_assignments :: u32
  ag_last_heartbeat_ms :: u64
  ag_registered_at_ms :: u64
  ag_assignments_completed :: u64
  ag_assignments_failed :: u64
  ag_capability_current :: bool
  ag_health_current :: bool
  ag_availability_current :: bool
  ag_load_current :: bool
  ag_recovered :: bool
  ag_reason :: string

record WorkRecord =
  wr_request :: WorkRequest
  wr_lifecycle :: WorkLifecycle
  wr_admitted_sequence :: u64
  wr_admitted_at_ms :: u64
  wr_bypass_count :: u32
  wr_starvation_rounds :: u32
  wr_current_assignments :: u32
  wr_last_assignment_generation :: u64
  wr_reason :: string

record QueueRecord =
  qr_id :: u64
  qr_generation :: u64
  qr_fairness_class :: string
  qr_weight :: u32
  qr_admitted_count :: u64
  qr_assigned_count :: u64
  qr_completed_count :: u64
  qr_cancelled_count :: u64

record TenantRecord =
  tr_id :: u64
  tr_admitted_count :: u64
  tr_active_assignments :: u64

record Impl =
  im_limits :: ResourceLimits
  im_now :: u64
  im_feasibility :: "Provider option"
  im_scheduler_id :: u64
  im_scheduler_epoch :: u64
  im_coordinator_epoch :: u64
  im_queue_generation :: u64
  im_policy :: PolicySnapshot
  im_agents :: "(u64, AgentRecord) omap"
  im_work :: "(u64, WorkRecord) omap"
  im_assignments :: "(Hash128, AssignmentRecord) omap"
  im_leases :: "(Hash128, Lease) omap"
  im_fenced_boots :: "(Hash128, FencedBoot) omap"
  im_queues :: "(u64, QueueRecord) omap"
  im_tenants :: "(u64, TenantRecord) omap"
  im_next_admission_sequence :: u64
  im_state_revision :: u64
  im_scheduling_rounds :: u64
  im_assignments_created :: u64
  im_assignments_invalidated :: u64
  im_running :: bool
  im_admission_open :: bool
  im_shutting_down :: bool
  im_shutdown_at_ms :: u64
  im_recovered :: bool
  im_by_capability :: "(string, u64 set) omap"
  im_by_lifecycle :: "(AgentLifecycle, u64 set) omap"
  im_by_tenant :: "(u64, u64 set) omap"
  im_by_domain :: "(u64, u64 set) omap"
  im_work_by_queue :: "(u64, u64 set) omap"
  im_work_by_lifecycle :: "(WorkLifecycle, u64 set) omap"
  im_by_agent :: "(u64, Hash128 set) omap"
  im_by_work :: "(u64, Hash128 set) omap"

text \<open>The member initializers of the records.\<close>

definition default_descriptor :: AgentDescriptor where
  "default_descriptor =
     \<lparr> ad_id = 0, ad_generation = 0, ad_boot = hash128_zero, ad_registration_generation = 0,
       ad_tenant = 0, ad_name_space = 0, ad_display_name = [], ad_policy_labels = [],
       ad_placement_domain = 0, ad_topology_epoch = 0, ad_max_concurrency = 1,
       ad_lease_ttl_ms = 0, ad_provenance = [] \<rparr>"

definition default_load :: LoadObservation where
  "default_load =
     \<lparr> lo_generation = 0, lo_reported_active_assignments = 0, lo_max_concurrency = 0,
       lo_queue_depth = 0, lo_cpu_pressure_percent = 0, lo_estimated_dispatch_latency_ms = 0,
       lo_cost_index = 0, lo_slo_headroom_fraction = 0, lo_warm_state_keys = [],
       lo_observed_at_ms = 0 \<rparr>"

definition default_health :: HealthObservation where
  "default_health =
     \<lparr> ho_generation = 0, ho_health = AgentHealth.Unknown, ho_health_quality = 0,
       ho_detail = [], ho_observed_at_ms = 0 \<rparr>"

definition default_availability :: AvailabilityObservation where
  "default_availability =
     \<lparr> ao_generation = 0, ao_availability = AgentAvailability.Unknown,
       ao_reachability = AgentReachability.Unknown, ao_readiness = AgentReadiness.Unknown,
       ao_observed_at_ms = 0 \<rparr>"

definition default_agent_record :: AgentRecord where
  "default_agent_record =
     \<lparr> ag_descriptor = default_descriptor, ag_lifecycle = AgentLifecycle.Unregistered,
       ag_health = AgentHealth.Unknown, ag_readiness = AgentReadiness.Unknown,
       ag_reachability = AgentReachability.Unknown,
       ag_availability = AgentAvailability.Unknown, ag_profile = default_profile,
       ag_health_generation = 0, ag_availability_generation = 0, ag_load_generation = 0,
       ag_health_observation = default_health,
       ag_availability_observation = default_availability, ag_load_observation = default_load,
       ag_lease_expires_at_ms = 0, ag_active_assignments = 0, ag_recent_assignments = 0,
       ag_last_heartbeat_ms = 0, ag_registered_at_ms = 0, ag_assignments_completed = 0,
       ag_assignments_failed = 0, ag_capability_current = False, ag_health_current = False,
       ag_availability_current = False, ag_load_current = False, ag_recovered = False,
       ag_reason = [] \<rparr>"

definition default_work_record :: WorkRecord where
  "default_work_record =
     \<lparr> wr_request = default_work_request, wr_lifecycle = WorkLifecycle.Unknown,
       wr_admitted_sequence = 0, wr_admitted_at_ms = 0, wr_bypass_count = 0,
       wr_starvation_rounds = 0, wr_current_assignments = 0,
       wr_last_assignment_generation = 0, wr_reason = [] \<rparr>"

definition default_queue_record :: QueueRecord where
  "default_queue_record =
     \<lparr> qr_id = 0, qr_generation = 0, qr_fairness_class = ''default'', qr_weight = 1,
       qr_admitted_count = 0, qr_assigned_count = 0, qr_completed_count = 0,
       qr_cancelled_count = 0 \<rparr>"

definition default_tenant_record :: TenantRecord where
  "default_tenant_record = \<lparr> tr_id = 0, tr_admitted_count = 0, tr_active_assignments = 0 \<rparr>"

subsection \<open>Construction\<close>

record SchedulerOptions =
  so_scheduler_id :: u64
  so_limits :: ResourceLimits
  so_policy :: PolicySnapshot
  so_feasibility :: "Provider option"
  so_auto_start :: bool

text \<open>
  The constructor of Impl. A zero scheduler id is replaced by one derived from a process
  nonce and the wall clock, which the model takes as arguments.
\<close>

definition impl_policy_defaults :: "PolicySnapshot \<Rightarrow> PolicySnapshot" where
  "impl_policy_defaults p =
     (let p1 = (if po_id p = 0 then p\<lparr>po_id := 1\<rparr> else p);
          p2 = (if po_generation p1 = 0 then p1\<lparr>po_generation := 1\<rparr> else p1);
          p3 = (if ranking_weights p2 = [] then p2\<lparr>ranking_weights := default_ranking_weights\<rparr>
                else p2)
      in if fairness_class_weights p3 = []
         then p3\<lparr>fairness_class_weights := default_fairness_class_weights\<rparr> else p3)"

definition derived_scheduler_id :: "u64 \<Rightarrow> u64 \<Rightarrow> u64" where
  "derived_scheduler_id nonce wall_clock =
     h_high (hash128_of (hasher_final
       (update_u64 wall_clock (update_u64 nonce (update_field_tag 0x52 hasher_init)))))"

definition make_impl :: "SchedulerOptions \<Rightarrow> u64 \<Rightarrow> u64 \<Rightarrow> u64 \<Rightarrow> Impl" where
  "make_impl options nonce wall_clock now =
     \<lparr> im_limits = so_limits options, im_now = now, im_feasibility = so_feasibility options,
       im_scheduler_id = (if so_scheduler_id options = 0
                          then derived_scheduler_id nonce wall_clock
                          else so_scheduler_id options),
       im_scheduler_epoch = 1, im_coordinator_epoch = 0, im_queue_generation = 0,
       im_policy = impl_policy_defaults (so_policy options),
       im_agents = [], im_work = [], im_assignments = [], im_leases = [],
       im_fenced_boots = [], im_queues = [], im_tenants = [],
       im_next_admission_sequence = 1, im_state_revision = 0, im_scheduling_rounds = 0,
       im_assignments_created = 0, im_assignments_invalidated = 0, im_running = False,
       im_admission_open = False, im_shutting_down = False, im_shutdown_at_ms = 0,
       im_recovered = False, im_by_capability = [], im_by_lifecycle = [], im_by_tenant = [],
       im_by_domain = [], im_work_by_queue = [], im_work_by_lifecycle = [], im_by_agent = [],
       im_by_work = [] \<rparr>"

end
