(* ===== verification/Wire_Fields.thy ===== *)
theory Wire_Fields
  imports Codec Scheduler_State
begin

section \<open>The wire form of the shared records\<close>

text \<open>
  The encoders and decoders of net/protocol.cpp for the records of the core: errors, agent
  descriptors, capability profiles, observations, work requests and assignment bindings.
  A decoder starts from the default record and fills its fields in the order of the code; the
  code's callers always decode into a fresh record. An identity of 128 bits is its high and
  its low word. Every pair is a \<open>wire_format\<close>; its predicate, named \<open>_fits\<close>, says which values
  can be encoded, and is also what the decoder guarantees.
\<close>

subsection \<open>One byte enumerations\<close>

definition capability_state_values :: "CapabilityState list" where
  "capability_state_values = [CapabilityState.Unknown, CapabilityState.Declared,
     CapabilityState.Observed, CapabilityState.Verified, CapabilityState.Revoked,
     CapabilityState.Stale]"

interpretation capability_state_format: wire_format "\<lambda>x. put_u8 (of_nat (capability_state_code x))"
    "checked_enum capability_state_values field" "\<lambda>_. True" for field
proof (rule enum_format)
  show "x \<in> set capability_state_values" for x by (cases x) (simp_all add: capability_state_values_def)
qed (simp_all add: capability_state_values_def upt_rec)

lemmas [struct_fields] = struct_Cons_any [OF capability_state_format.wire_format_axioms]

definition requirement_mode_values :: "CapabilityRequirementMode list" where
  "requirement_mode_values = [CapabilityRequirementMode.Required,
     CapabilityRequirementMode.Preferred]"

interpretation requirement_mode_format: wire_format "\<lambda>x. put_u8 (of_nat (requirement_mode_code x))"
    "checked_enum requirement_mode_values field" "\<lambda>_. True" for field
proof (rule enum_format)
  show "x \<in> set requirement_mode_values" for x by (cases x) (simp_all add: requirement_mode_values_def)
qed (simp_all add: requirement_mode_values_def upt_rec)

lemmas [struct_fields] = struct_Cons_any [OF requirement_mode_format.wire_format_axioms]

definition agent_health_values :: "AgentHealth list" where
  "agent_health_values = [AgentHealth.Unknown, AgentHealth.Healthy, AgentHealth.Degraded,
     AgentHealth.Unhealthy]"

interpretation agent_health_format: wire_format "\<lambda>x. put_u8 (of_nat (agent_health_code x))"
    "checked_enum agent_health_values field" "\<lambda>_. True" for field
proof (rule enum_format)
  show "x \<in> set agent_health_values" for x by (cases x) (simp_all add: agent_health_values_def)
qed (simp_all add: agent_health_values_def upt_rec)

lemmas [struct_fields] = struct_Cons_any [OF agent_health_format.wire_format_axioms]

definition agent_availability_values :: "AgentAvailability list" where
  "agent_availability_values = [AgentAvailability.Unknown, AgentAvailability.Available,
     AgentAvailability.Unavailable]"

interpretation agent_availability_format: wire_format "\<lambda>x. put_u8 (of_nat (agent_availability_code x))"
    "checked_enum agent_availability_values field" "\<lambda>_. True" for field
proof (rule enum_format)
  show "x \<in> set agent_availability_values" for x by (cases x) (simp_all add: agent_availability_values_def)
qed (simp_all add: agent_availability_values_def upt_rec)

lemmas [struct_fields] = struct_Cons_any [OF agent_availability_format.wire_format_axioms]

definition agent_reachability_values :: "AgentReachability list" where
  "agent_reachability_values = [AgentReachability.Unknown, AgentReachability.Reachable,
     AgentReachability.Unreachable]"

interpretation agent_reachability_format: wire_format "\<lambda>x. put_u8 (of_nat (agent_reachability_code x))"
    "checked_enum agent_reachability_values field" "\<lambda>_. True" for field
proof (rule enum_format)
  show "x \<in> set agent_reachability_values" for x by (cases x) (simp_all add: agent_reachability_values_def)
qed (simp_all add: agent_reachability_values_def upt_rec)

lemmas [struct_fields] = struct_Cons_any [OF agent_reachability_format.wire_format_axioms]

definition agent_readiness_values :: "AgentReadiness list" where
  "agent_readiness_values = [AgentReadiness.Unknown, AgentReadiness.Ready, AgentReadiness.NotReady]"

interpretation agent_readiness_format: wire_format "\<lambda>x. put_u8 (of_nat (agent_readiness_code x))"
    "checked_enum agent_readiness_values field" "\<lambda>_. True" for field
proof (rule enum_format)
  show "x \<in> set agent_readiness_values" for x by (cases x) (simp_all add: agent_readiness_values_def)
qed (simp_all add: agent_readiness_values_def upt_rec)

lemmas [struct_fields] = struct_Cons_any [OF agent_readiness_format.wire_format_axioms]

definition feasibility_verdict_values :: "FeasibilityVerdict list" where
  "feasibility_verdict_values = [FeasibilityVerdict.Unknown, FeasibilityVerdict.Feasible,
     FeasibilityVerdict.Infeasible]"

interpretation feasibility_verdict_format: wire_format "\<lambda>x. put_u8 (of_nat (feasibility_verdict_code x))"
    "checked_enum feasibility_verdict_values field" "\<lambda>_. True" for field
proof (rule enum_format)
  show "x \<in> set feasibility_verdict_values" for x by (cases x) (simp_all add: feasibility_verdict_values_def)
qed (simp_all add: feasibility_verdict_values_def upt_rec)

lemmas [struct_fields] = struct_Cons_any [OF feasibility_verdict_format.wire_format_axioms]

primrec scheduling_mode_code :: "SchedulingMode \<Rightarrow> nat" where
  "scheduling_mode_code SchedulingMode.Exclusive = 0"
| "scheduling_mode_code SchedulingMode.Parallel = 1"

definition scheduling_mode_values :: "SchedulingMode list" where
  "scheduling_mode_values = [SchedulingMode.Exclusive, SchedulingMode.Parallel]"

interpretation scheduling_mode_format: wire_format "\<lambda>x. put_u8 (of_nat (scheduling_mode_code x))"
    "checked_enum scheduling_mode_values field" "\<lambda>_. True" for field
proof (rule enum_format)
  show "x \<in> set scheduling_mode_values" for x by (cases x) (simp_all add: scheduling_mode_values_def)
qed (simp_all add: scheduling_mode_values_def upt_rec)

lemmas [struct_fields] = struct_Cons_any [OF scheduling_mode_format.wire_format_axioms]

subsection \<open>Errors\<close>

text \<open>
  The decoder casts the two codes without a check, so a decoded error may carry codes that no
  enumerator has. The wire form of an error therefore keeps them as numbers.
\<close>

record WireError =
  we_code :: u32
  we_outcome :: u32
  we_operation :: string
  we_subject :: string
  we_current_generation :: u64
  we_expected_generation :: u64
  we_factors :: "string list"
  we_detail :: string

definition default_wire_error :: WireError where
  "default_wire_error =
     \<lparr> we_code = of_nat (error_code_code ErrorCode.Ok),
       we_outcome = of_nat (outcome_code ScheduleOutcome.NoChange), we_operation = [],
       we_subject = [], we_current_generation = 0, we_expected_generation = 0, we_factors = [],
       we_detail = [] \<rparr>"

definition error_on_wire :: "SchedulerError \<Rightarrow> WireError" where
  "error_on_wire e =
     \<lparr> we_code = of_nat (error_code_code (er_code e)),
       we_outcome = of_nat (outcome_code (er_outcome e)), we_operation = er_operation e,
       we_subject = er_subject e, we_current_generation = er_current_generation e,
       we_expected_generation = er_expected_generation e, we_factors = er_factors e,
       we_detail = er_detail e \<rparr>"

definition encode_error :: "ResourceLimits \<Rightarrow> WireError \<Rightarrow> writer" where
  "encode_error l e = seq_puts
     [put_u32 (we_code e), put_u32 (we_outcome e),
      put_string (we_operation e) (max_identifier_size l),
      put_string (we_subject e) (max_string_size l), put_u64 (we_current_generation e),
      put_u64 (we_expected_generation e),
      put_list (\<lambda>s. put_string s (max_string_size l)) (we_factors e),
      put_string (we_detail e) (max_string_size l)]"

definition decode_error :: "ResourceLimits \<Rightarrow> WireError reader" where
  "decode_error l = seq_gets
     [into get_u32 (\<lambda>v e. e\<lparr>we_code := v\<rparr>),
      into get_u32 (\<lambda>v e. e\<lparr>we_outcome := v\<rparr>),
      into (get_string (max_identifier_size l)) (\<lambda>v e. e\<lparr>we_operation := v\<rparr>),
      into (get_string (max_string_size l)) (\<lambda>v e. e\<lparr>we_subject := v\<rparr>),
      into get_u64 (\<lambda>v e. e\<lparr>we_current_generation := v\<rparr>),
      into get_u64 (\<lambda>v e. e\<lparr>we_expected_generation := v\<rparr>),
      into (get_list (max_explanation_factors l)
          ''error factor count exceeds the configured maximum'' (get_string (max_string_size l)))
        (\<lambda>v e. e\<lparr>we_factors := v\<rparr>),
      into (get_string (max_string_size l)) (\<lambda>v e. e\<lparr>we_detail := v\<rparr>)]
     default_wire_error"

definition error_fits :: "ResourceLimits \<Rightarrow> WireError \<Rightarrow> bool" where
  "error_fits l e \<longleftrightarrow>
     length (we_operation e) \<le> unat (max_identifier_size l)
     \<and> length (we_subject e) \<le> unat (max_string_size l)
     \<and> length (we_factors e) \<le> unat (max_explanation_factors l)
     \<and> (\<forall>s \<in> set (we_factors e). length s \<le> unat (max_string_size l))
     \<and> length (we_detail e) \<le> unat (max_string_size l)"

interpretation error_format: wire_format "encode_error l" "decode_error l"
    "error_fits l" for l
  unfolding encode_error_def [abs_def] decode_error_def
  by (rule struct_fields struct_Nil | (simp add: error_fits_def; fail))+
    (auto simp: error_fits_def default_wire_error_def intro!: WireError.equality)

lemmas [struct_fields] = struct_Cons [OF error_format.wire_format_axioms]

subsection \<open>Agent descriptors\<close>

definition encode_descriptor :: "ResourceLimits \<Rightarrow> AgentDescriptor \<Rightarrow> writer" where
  "encode_descriptor l d = seq_puts
     [put_u64 (ad_id d), put_u64 (ad_generation d), put_hash128 (ad_boot d),
      put_u64 (ad_registration_generation d), put_u64 (ad_tenant d), put_u64 (ad_name_space d),
      put_string (ad_display_name d) (max_string_size l),
      put_list (\<lambda>s. put_string s (max_identifier_size l)) (ad_policy_labels d),
      put_u64 (ad_placement_domain d), put_u64 (ad_topology_epoch d),
      put_u32 (ad_max_concurrency d), put_u64 (ad_lease_ttl_ms d),
      put_string (ad_provenance d) (max_string_size l)]"

definition decode_descriptor :: "ResourceLimits \<Rightarrow> AgentDescriptor reader" where
  "decode_descriptor l = seq_gets
     [into get_u64 (\<lambda>v d. d\<lparr>ad_id := v\<rparr>),
      into get_u64 (\<lambda>v d. d\<lparr>ad_generation := v\<rparr>),
      into get_hash128 (\<lambda>v d. d\<lparr>ad_boot := v\<rparr>),
      into get_u64 (\<lambda>v d. d\<lparr>ad_registration_generation := v\<rparr>),
      into get_u64 (\<lambda>v d. d\<lparr>ad_tenant := v\<rparr>),
      into get_u64 (\<lambda>v d. d\<lparr>ad_name_space := v\<rparr>),
      into (get_string (max_string_size l)) (\<lambda>v d. d\<lparr>ad_display_name := v\<rparr>),
      into (get_list (max_policy_labels l)
          ''policy label count exceeds the configured maximum'' (get_string (max_identifier_size l)))
        (\<lambda>v d. d\<lparr>ad_policy_labels := v\<rparr>),
      into get_u64 (\<lambda>v d. d\<lparr>ad_placement_domain := v\<rparr>),
      into get_u64 (\<lambda>v d. d\<lparr>ad_topology_epoch := v\<rparr>),
      into get_u32 (\<lambda>v d. d\<lparr>ad_max_concurrency := v\<rparr>),
      into get_u64 (\<lambda>v d. d\<lparr>ad_lease_ttl_ms := v\<rparr>),
      into (get_string (max_string_size l)) (\<lambda>v d. d\<lparr>ad_provenance := v\<rparr>)]
     default_descriptor"

definition descriptor_fits :: "ResourceLimits \<Rightarrow> AgentDescriptor \<Rightarrow> bool" where
  "descriptor_fits l d \<longleftrightarrow>
     length (ad_display_name d) \<le> unat (max_string_size l)
     \<and> length (ad_policy_labels d) \<le> unat (max_policy_labels l)
     \<and> (\<forall>s \<in> set (ad_policy_labels d). length s \<le> unat (max_identifier_size l))
     \<and> length (ad_provenance d) \<le> unat (max_string_size l)"

interpretation descriptor_format: wire_format "encode_descriptor l" "decode_descriptor l"
    "descriptor_fits l" for l
  unfolding encode_descriptor_def [abs_def] decode_descriptor_def
  by (rule struct_fields struct_Nil | (simp add: descriptor_fits_def; fail))+
    (auto simp: descriptor_fits_def default_descriptor_def intro!: AgentDescriptor.equality)

lemmas [struct_fields] = struct_Cons [OF descriptor_format.wire_format_axioms]

subsection \<open>Capability profiles\<close>

definition default_evidence :: CapabilityEvidence where
  "default_evidence =
     \<lparr> ce_name = [], ce_state = CapabilityState.Unknown, ce_quality = 0, ce_generation = 0,
       ce_boot = hash128_zero, ce_observed_at_ms = 0, ce_provenance = [] \<rparr>"

text \<open>The quality is checked when it is read; the encoder writes whatever it is given.\<close>

definition get_quality :: "u32 reader" where
  "get_quality = bind_get get_u32 (\<lambda>v.
     if v > 1000 then fail_get ''capability quality is out of range'' else return_get v)"

interpretation quality_format: wire_format put_u32 get_quality "\<lambda>v. v \<le> 1000"
proof -
  have "wire_format (\<lambda>v. put_u32 v) (bind_get get_u32 (\<lambda>v.
      if v > 1000 then fail_get ''capability quality is out of range'' else return_get v)) (\<lambda>v. v \<le> 1000)"
    by (rule wire_format_checked [OF u32_format.wire_format_axioms, where f = "\<lambda>v. v"]) auto
  then show "wire_format put_u32 get_quality (\<lambda>v. v \<le> 1000)" by (simp add: get_quality_def)
qed

lemmas [struct_fields] = struct_Cons [OF quality_format.wire_format_axioms]

definition encode_evidence :: "ResourceLimits \<Rightarrow> CapabilityEvidence \<Rightarrow> writer" where
  "encode_evidence l e = seq_puts
     [put_string (ce_name e) (max_identifier_size l),
      put_u8 (of_nat (capability_state_code (ce_state e))), put_u32 (ce_quality e),
      put_u64 (ce_generation e), put_hash128 (ce_boot e), put_u64 (ce_observed_at_ms e),
      put_string (ce_provenance e) (max_string_size l)]"

definition decode_evidence :: "ResourceLimits \<Rightarrow> CapabilityEvidence reader" where
  "decode_evidence l = seq_gets
     [into (get_string (max_identifier_size l)) (\<lambda>v e. e\<lparr>ce_name := v\<rparr>),
      into (checked_enum capability_state_values ''capability state'')
        (\<lambda>v e. e\<lparr>ce_state := v\<rparr>),
      into get_quality (\<lambda>v e. e\<lparr>ce_quality := v\<rparr>),
      into get_u64 (\<lambda>v e. e\<lparr>ce_generation := v\<rparr>),
      into get_hash128 (\<lambda>v e. e\<lparr>ce_boot := v\<rparr>),
      into get_u64 (\<lambda>v e. e\<lparr>ce_observed_at_ms := v\<rparr>),
      into (get_string (max_string_size l)) (\<lambda>v e. e\<lparr>ce_provenance := v\<rparr>)]
     default_evidence"

definition evidence_fits :: "ResourceLimits \<Rightarrow> CapabilityEvidence \<Rightarrow> bool" where
  "evidence_fits l e \<longleftrightarrow>
     length (ce_name e) \<le> unat (max_identifier_size l)
     \<and> (ce_quality e) \<le> 1000
     \<and> length (ce_provenance e) \<le> unat (max_string_size l)"

interpretation evidence_format: wire_format "encode_evidence l" "decode_evidence l"
    "evidence_fits l" for l
  unfolding encode_evidence_def [abs_def] decode_evidence_def
  by (rule struct_fields struct_Nil | (simp add: evidence_fits_def; fail))+
    (auto simp: evidence_fits_def default_evidence_def intro!: CapabilityEvidence.equality)

lemmas [struct_fields] = struct_Cons [OF evidence_format.wire_format_axioms]

lemmas [struct_fields] = struct_Cons [OF evidence_format.list_format]

definition encode_profile :: "ResourceLimits \<Rightarrow> CapabilityProfile \<Rightarrow> writer" where
  "encode_profile l p = seq_puts
     [put_u64 (cp_profile_id p), put_u64 (cp_generation p), put_hash128 (cp_boot p),
      put_list (encode_evidence l) (cp_capabilities p)]"

definition decode_profile :: "ResourceLimits \<Rightarrow> CapabilityProfile reader" where
  "decode_profile l = seq_gets
     [into get_u64 (\<lambda>v p. p\<lparr>cp_profile_id := v\<rparr>),
      into get_u64 (\<lambda>v p. p\<lparr>cp_generation := v\<rparr>),
      into get_hash128 (\<lambda>v p. p\<lparr>cp_boot := v\<rparr>),
      into (get_list (max_capabilities_per_agent l)
          ''capability count exceeds the configured maximum'' (decode_evidence l))
        (\<lambda>v p. p\<lparr>cp_capabilities := v\<rparr>)]
     default_profile"

definition profile_fits :: "ResourceLimits \<Rightarrow> CapabilityProfile \<Rightarrow> bool" where
  "profile_fits l p \<longleftrightarrow>
     length (cp_capabilities p) \<le> unat (max_capabilities_per_agent l)
     \<and> (\<forall>x \<in> set (cp_capabilities p). evidence_fits l x)"

interpretation profile_format: wire_format "encode_profile l" "decode_profile l"
    "profile_fits l" for l
  unfolding encode_profile_def [abs_def] decode_profile_def
  by (rule struct_fields struct_Nil | (simp add: profile_fits_def; fail))+
    (auto simp: profile_fits_def default_profile_def intro!: CapabilityProfile.equality)

lemmas [struct_fields] = struct_Cons [OF profile_format.wire_format_axioms]

subsection \<open>Observations\<close>

definition encode_health :: "ResourceLimits \<Rightarrow> HealthObservation \<Rightarrow> writer" where
  "encode_health l ob = seq_puts
     [put_u64 (ho_generation ob), put_u8 (of_nat (agent_health_code (ho_health ob))),
      put_u32 (ho_health_quality ob), put_string (ho_detail ob) (max_string_size l),
      put_u64 (ho_observed_at_ms ob)]"

definition decode_health :: "ResourceLimits \<Rightarrow> HealthObservation reader" where
  "decode_health l = seq_gets
     [into get_u64 (\<lambda>v ob. ob\<lparr>ho_generation := v\<rparr>),
      into (checked_enum agent_health_values ''agent health'')
        (\<lambda>v ob. ob\<lparr>ho_health := v\<rparr>),
      into get_u32 (\<lambda>v ob. ob\<lparr>ho_health_quality := v\<rparr>),
      into (get_string (max_string_size l)) (\<lambda>v ob. ob\<lparr>ho_detail := v\<rparr>),
      into get_u64 (\<lambda>v ob. ob\<lparr>ho_observed_at_ms := v\<rparr>)]
     default_health"

definition health_fits :: "ResourceLimits \<Rightarrow> HealthObservation \<Rightarrow> bool" where
  "health_fits l ob \<longleftrightarrow>
     length (ho_detail ob) \<le> unat (max_string_size l)"

interpretation health_format: wire_format "encode_health l" "decode_health l"
    "health_fits l" for l
  unfolding encode_health_def [abs_def] decode_health_def
  by (rule struct_fields struct_Nil | (simp add: health_fits_def; fail))+
    (auto simp: health_fits_def default_health_def intro!: HealthObservation.equality)

lemmas [struct_fields] = struct_Cons [OF health_format.wire_format_axioms]

definition encode_availability :: "ResourceLimits \<Rightarrow> AvailabilityObservation \<Rightarrow> writer" where
  "encode_availability l ob = seq_puts
     [put_u64 (ao_generation ob), put_u8 (of_nat (agent_availability_code (ao_availability ob))),
      put_u8 (of_nat (agent_reachability_code (ao_reachability ob))),
      put_u8 (of_nat (agent_readiness_code (ao_readiness ob))), put_u64 (ao_observed_at_ms ob)]"

definition decode_availability :: "ResourceLimits \<Rightarrow> AvailabilityObservation reader" where
  "decode_availability l = seq_gets
     [into get_u64 (\<lambda>v ob. ob\<lparr>ao_generation := v\<rparr>),
      into (checked_enum agent_availability_values ''agent availability'')
        (\<lambda>v ob. ob\<lparr>ao_availability := v\<rparr>),
      into (checked_enum agent_reachability_values ''agent reachability'')
        (\<lambda>v ob. ob\<lparr>ao_reachability := v\<rparr>),
      into (checked_enum agent_readiness_values ''agent readiness'')
        (\<lambda>v ob. ob\<lparr>ao_readiness := v\<rparr>),
      into get_u64 (\<lambda>v ob. ob\<lparr>ao_observed_at_ms := v\<rparr>)]
     default_availability"

interpretation availability_format: wire_format "encode_availability l" "decode_availability l"
    "(\<lambda>_. True)" for l
  unfolding encode_availability_def [abs_def] decode_availability_def
  by (rule struct_fields struct_Nil)+
    (auto simp: default_availability_def intro!: AvailabilityObservation.equality)

lemmas [struct_fields] = struct_Cons_any [OF availability_format.wire_format_axioms]

definition encode_load :: "ResourceLimits \<Rightarrow> LoadObservation \<Rightarrow> writer" where
  "encode_load l ob = seq_puts
     [put_u64 (lo_generation ob), put_u32 (lo_reported_active_assignments ob),
      put_u32 (lo_max_concurrency ob), put_u32 (lo_queue_depth ob),
      put_u32 (lo_cpu_pressure_percent ob), put_u64 (lo_estimated_dispatch_latency_ms ob),
      put_f64 (lo_cost_index ob), put_f64 (lo_slo_headroom_fraction ob),
      put_list (\<lambda>s. put_string s (max_identifier_size l)) (lo_warm_state_keys ob),
      put_u64 (lo_observed_at_ms ob)]"

definition decode_load :: "ResourceLimits \<Rightarrow> LoadObservation reader" where
  "decode_load l = seq_gets
     [into get_u64 (\<lambda>v ob. ob\<lparr>lo_generation := v\<rparr>),
      into get_u32 (\<lambda>v ob. ob\<lparr>lo_reported_active_assignments := v\<rparr>),
      into get_u32 (\<lambda>v ob. ob\<lparr>lo_max_concurrency := v\<rparr>),
      into get_u32 (\<lambda>v ob. ob\<lparr>lo_queue_depth := v\<rparr>),
      into get_u32 (\<lambda>v ob. ob\<lparr>lo_cpu_pressure_percent := v\<rparr>),
      into get_u64 (\<lambda>v ob. ob\<lparr>lo_estimated_dispatch_latency_ms := v\<rparr>),
      into get_f64 (\<lambda>v ob. ob\<lparr>lo_cost_index := v\<rparr>),
      into get_f64 (\<lambda>v ob. ob\<lparr>lo_slo_headroom_fraction := v\<rparr>),
      into (get_list (max_warm_state_keys l)
          ''warm state key count exceeds the configured maximum'' (get_string (max_identifier_size l)))
        (\<lambda>v ob. ob\<lparr>lo_warm_state_keys := v\<rparr>),
      into get_u64 (\<lambda>v ob. ob\<lparr>lo_observed_at_ms := v\<rparr>)]
     default_load"

definition load_fits :: "ResourceLimits \<Rightarrow> LoadObservation \<Rightarrow> bool" where
  "load_fits l ob \<longleftrightarrow>
     f64_is_finite (lo_cost_index ob)
     \<and> f64_is_finite (lo_slo_headroom_fraction ob)
     \<and> length (lo_warm_state_keys ob) \<le> unat (max_warm_state_keys l)
     \<and> (\<forall>s \<in> set (lo_warm_state_keys ob). length s \<le> unat (max_identifier_size l))"

interpretation load_format: wire_format "encode_load l" "decode_load l"
    "load_fits l" for l
  unfolding encode_load_def [abs_def] decode_load_def
  by (rule struct_fields struct_Nil | (simp add: load_fits_def; fail))+
    (auto simp: load_fits_def default_load_def intro!: LoadObservation.equality)

lemmas [struct_fields] = struct_Cons [OF load_format.wire_format_axioms]

subsection \<open>Work requests\<close>

definition default_capability_requirement :: CapabilityRequirement where
  "default_capability_requirement =
     \<lparr> cr_name = [], cr_mode = CapabilityRequirementMode.Required,
       cr_minimum_state = CapabilityState.Observed, cr_minimum_quality = 0 \<rparr>"

definition encode_capability_requirement :: "ResourceLimits \<Rightarrow> CapabilityRequirement \<Rightarrow> writer" where
  "encode_capability_requirement l c = seq_puts
     [put_string (cr_name c) (max_identifier_size l),
      put_u8 (of_nat (requirement_mode_code (cr_mode c))),
      put_u8 (of_nat (capability_state_code (cr_minimum_state c))), put_u32 (cr_minimum_quality c)]"

definition decode_capability_requirement :: "ResourceLimits \<Rightarrow> CapabilityRequirement reader" where
  "decode_capability_requirement l = seq_gets
     [into (get_string (max_identifier_size l)) (\<lambda>v c. c\<lparr>cr_name := v\<rparr>),
      into (checked_enum requirement_mode_values ''capability requirement mode'')
        (\<lambda>v c. c\<lparr>cr_mode := v\<rparr>),
      into (checked_enum capability_state_values ''capability minimum state'')
        (\<lambda>v c. c\<lparr>cr_minimum_state := v\<rparr>),
      into get_u32 (\<lambda>v c. c\<lparr>cr_minimum_quality := v\<rparr>)]
     default_capability_requirement"

definition capability_requirement_fits :: "ResourceLimits \<Rightarrow> CapabilityRequirement \<Rightarrow> bool" where
  "capability_requirement_fits l c \<longleftrightarrow>
     length (cr_name c) \<le> unat (max_identifier_size l)"

interpretation capability_requirement_format: wire_format "encode_capability_requirement l" "decode_capability_requirement l"
    "capability_requirement_fits l" for l
  unfolding encode_capability_requirement_def [abs_def] decode_capability_requirement_def
  by (rule struct_fields struct_Nil | (simp add: capability_requirement_fits_def; fail))+
    (auto simp: capability_requirement_fits_def default_capability_requirement_def intro!: CapabilityRequirement.equality)

lemmas [struct_fields] = struct_Cons [OF capability_requirement_format.wire_format_axioms]

lemmas [struct_fields] = struct_Cons [OF capability_requirement_format.list_format]

definition encode_requirements :: "ResourceLimits \<Rightarrow> WorkRequirements \<Rightarrow> writer" where
  "encode_requirements l q = seq_puts
     [put_list (encode_capability_requirement l) (rq_capabilities q), put_u64 (rq_tenant q),
      put_u64 (rq_name_space q),
      put_list (\<lambda>s. put_string s (max_identifier_size l)) (rq_required_policy_labels q),
      put_list put_u64 (rq_affinity q), put_list put_u64 (rq_anti_affinity q),
      put_bool (rq_restrict_placement_domain q), put_u64 (rq_placement_domain q),
      put_u64 (rq_topology_epoch q), put_bool (rq_require_healthy q),
      put_bool (rq_require_reachable q), put_bool (rq_require_ready q),
      put_bool (rq_require_current_lease q), put_bool (rq_require_resource_feasibility q),
      put_u64 (rq_resource_generation q),
      put_u8 (of_nat (feasibility_verdict_code (rq_resource_feasibility q))),
      put_bool (rq_require_budget_feasibility q), put_u64 (rq_budget_generation q),
      put_u8 (of_nat (feasibility_verdict_code (rq_budget_feasibility q))),
      put_bool (rq_require_slo_feasibility q), put_u64 (rq_slo_generation q),
      put_u8 (of_nat (feasibility_verdict_code (rq_slo_feasibility q))),
      put_bool (rq_require_reservation q), put_u64 (rq_reservation_generation q),
      put_u8 (of_nat (feasibility_verdict_code (rq_reservation_feasibility q))),
      put_bool (rq_require_warm_state q),
      put_list (\<lambda>s. put_string s (max_identifier_size l)) (rq_warm_state_keys q),
      put_u64 (rq_deadline_ms q), put_u32 (rq_max_parallel q),
      put_u32 (rq_max_assignments_per_agent q)]"

definition decode_requirements :: "ResourceLimits \<Rightarrow> WorkRequirements reader" where
  "decode_requirements l = seq_gets
     [into (get_list (max_capability_requirements l)
          ''capability requirement count exceeds the configured maximum'' (decode_capability_requirement l))
        (\<lambda>v q. q\<lparr>rq_capabilities := v\<rparr>),
      into get_u64 (\<lambda>v q. q\<lparr>rq_tenant := v\<rparr>),
      into get_u64 (\<lambda>v q. q\<lparr>rq_name_space := v\<rparr>),
      into (get_list (max_policy_labels l)
          ''policy label count exceeds the configured maximum'' (get_string (max_identifier_size l)))
        (\<lambda>v q. q\<lparr>rq_required_policy_labels := v\<rparr>),
      into (get_list (max_affinity_entries l)
          ''affinity count exceeds the configured maximum'' get_u64)
        (\<lambda>v q. q\<lparr>rq_affinity := v\<rparr>),
      into (get_list (max_affinity_entries l)
          ''anti-affinity count exceeds the configured maximum'' get_u64)
        (\<lambda>v q. q\<lparr>rq_anti_affinity := v\<rparr>),
      into get_bool (\<lambda>v q. q\<lparr>rq_restrict_placement_domain := v\<rparr>),
      into get_u64 (\<lambda>v q. q\<lparr>rq_placement_domain := v\<rparr>),
      into get_u64 (\<lambda>v q. q\<lparr>rq_topology_epoch := v\<rparr>),
      into get_bool (\<lambda>v q. q\<lparr>rq_require_healthy := v\<rparr>),
      into get_bool (\<lambda>v q. q\<lparr>rq_require_reachable := v\<rparr>),
      into get_bool (\<lambda>v q. q\<lparr>rq_require_ready := v\<rparr>),
      into get_bool (\<lambda>v q. q\<lparr>rq_require_current_lease := v\<rparr>),
      into get_bool (\<lambda>v q. q\<lparr>rq_require_resource_feasibility := v\<rparr>),
      into get_u64 (\<lambda>v q. q\<lparr>rq_resource_generation := v\<rparr>),
      into (checked_enum feasibility_verdict_values ''resource feasibility'')
        (\<lambda>v q. q\<lparr>rq_resource_feasibility := v\<rparr>),
      into get_bool (\<lambda>v q. q\<lparr>rq_require_budget_feasibility := v\<rparr>),
      into get_u64 (\<lambda>v q. q\<lparr>rq_budget_generation := v\<rparr>),
      into (checked_enum feasibility_verdict_values ''budget feasibility'')
        (\<lambda>v q. q\<lparr>rq_budget_feasibility := v\<rparr>),
      into get_bool (\<lambda>v q. q\<lparr>rq_require_slo_feasibility := v\<rparr>),
      into get_u64 (\<lambda>v q. q\<lparr>rq_slo_generation := v\<rparr>),
      into (checked_enum feasibility_verdict_values ''slo feasibility'')
        (\<lambda>v q. q\<lparr>rq_slo_feasibility := v\<rparr>),
      into get_bool (\<lambda>v q. q\<lparr>rq_require_reservation := v\<rparr>),
      into get_u64 (\<lambda>v q. q\<lparr>rq_reservation_generation := v\<rparr>),
      into (checked_enum feasibility_verdict_values ''reservation feasibility'')
        (\<lambda>v q. q\<lparr>rq_reservation_feasibility := v\<rparr>),
      into get_bool (\<lambda>v q. q\<lparr>rq_require_warm_state := v\<rparr>),
      into (get_list (max_warm_state_keys l)
          ''warm state key count exceeds the configured maximum'' (get_string (max_identifier_size l)))
        (\<lambda>v q. q\<lparr>rq_warm_state_keys := v\<rparr>),
      into get_u64 (\<lambda>v q. q\<lparr>rq_deadline_ms := v\<rparr>),
      into get_u32 (\<lambda>v q. q\<lparr>rq_max_parallel := v\<rparr>),
      into get_u32 (\<lambda>v q. q\<lparr>rq_max_assignments_per_agent := v\<rparr>)]
     default_requirements"

definition requirements_fits :: "ResourceLimits \<Rightarrow> WorkRequirements \<Rightarrow> bool" where
  "requirements_fits l q \<longleftrightarrow>
     length (rq_capabilities q) \<le> unat (max_capability_requirements l)
     \<and> (\<forall>x \<in> set (rq_capabilities q). capability_requirement_fits l x)
     \<and> length (rq_required_policy_labels q) \<le> unat (max_policy_labels l)
     \<and> (\<forall>s \<in> set (rq_required_policy_labels q). length s \<le> unat (max_identifier_size l))
     \<and> length (rq_affinity q) \<le> unat (max_affinity_entries l)
     \<and> length (rq_anti_affinity q) \<le> unat (max_affinity_entries l)
     \<and> length (rq_warm_state_keys q) \<le> unat (max_warm_state_keys l)
     \<and> (\<forall>s \<in> set (rq_warm_state_keys q). length s \<le> unat (max_identifier_size l))"

interpretation requirements_format: wire_format "encode_requirements l" "decode_requirements l"
    "requirements_fits l" for l
  unfolding encode_requirements_def [abs_def] decode_requirements_def
  by (rule struct_fields struct_Nil | (simp add: requirements_fits_def; fail))+
    (auto simp: requirements_fits_def default_requirements_def intro!: WorkRequirements.equality)

lemmas [struct_fields] = struct_Cons [OF requirements_format.wire_format_axioms]

definition encode_work_request :: "ResourceLimits \<Rightarrow> WorkRequest \<Rightarrow> writer" where
  "encode_work_request l w = seq_puts
     [put_u64 (wq_id w), put_u64 (wq_generation w), put_u64 (wq_queue w),
      put_u64 (wq_queue_generation w), put_string (wq_kind w) (max_identifier_size l),
      put_u32 (wq_priority w), put_string (wq_fairness_class w) (max_identifier_size l),
      put_u8 (of_nat (scheduling_mode_code (wq_mode w))),
      put_string (wq_payload_ref w) (max_string_size l), put_u64 (wq_earliest_start_ms w),
      put_u64 (wq_expected_duration_ms w), encode_requirements l (wq_requirements w)]"

definition decode_work_request :: "ResourceLimits \<Rightarrow> WorkRequest reader" where
  "decode_work_request l = seq_gets
     [into get_u64 (\<lambda>v w. w\<lparr>wq_id := v\<rparr>),
      into get_u64 (\<lambda>v w. w\<lparr>wq_generation := v\<rparr>),
      into get_u64 (\<lambda>v w. w\<lparr>wq_queue := v\<rparr>),
      into get_u64 (\<lambda>v w. w\<lparr>wq_queue_generation := v\<rparr>),
      into (get_string (max_identifier_size l)) (\<lambda>v w. w\<lparr>wq_kind := v\<rparr>),
      into get_u32 (\<lambda>v w. w\<lparr>wq_priority := v\<rparr>),
      into (get_string (max_identifier_size l))
        (\<lambda>v w. w\<lparr>wq_fairness_class := v\<rparr>),
      into (checked_enum scheduling_mode_values ''scheduling mode'')
        (\<lambda>v w. w\<lparr>wq_mode := v\<rparr>),
      into (get_string (max_string_size l)) (\<lambda>v w. w\<lparr>wq_payload_ref := v\<rparr>),
      into get_u64 (\<lambda>v w. w\<lparr>wq_earliest_start_ms := v\<rparr>),
      into get_u64 (\<lambda>v w. w\<lparr>wq_expected_duration_ms := v\<rparr>),
      into (decode_requirements l) (\<lambda>v w. w\<lparr>wq_requirements := v\<rparr>)]
     default_work_request"

definition work_request_fits :: "ResourceLimits \<Rightarrow> WorkRequest \<Rightarrow> bool" where
  "work_request_fits l w \<longleftrightarrow>
     length (wq_kind w) \<le> unat (max_identifier_size l)
     \<and> length (wq_fairness_class w) \<le> unat (max_identifier_size l)
     \<and> length (wq_payload_ref w) \<le> unat (max_string_size l)
     \<and> requirements_fits l (wq_requirements w)"

interpretation work_request_format: wire_format "encode_work_request l" "decode_work_request l"
    "work_request_fits l" for l
  unfolding encode_work_request_def [abs_def] decode_work_request_def
  by (rule struct_fields struct_Nil | (simp add: work_request_fits_def; fail))+
    (auto simp: work_request_fits_def default_work_request_def intro!: WorkRequest.equality)

lemmas [struct_fields] = struct_Cons [OF work_request_format.wire_format_axioms]

subsection \<open>Assignment bindings\<close>

definition default_binding :: AssignmentBinding where
  "default_binding =
     \<lparr> bn_id = hash128_zero, bn_generation = 0, bn_work = 0, bn_work_generation = 0, bn_agent = 0,
       bn_agent_generation = 0, bn_boot = hash128_zero, bn_scheduler = 0, bn_scheduler_epoch = 0,
       bn_coordinator_epoch = 0, bn_policy = 0, bn_policy_generation = 0,
       bn_capability_profile = 0, bn_capability_generation = 0, bn_resource_generation = 0,
       bn_budget_generation = 0, bn_slo_generation = 0, bn_reservation_generation = 0,
       bn_queue = 0, bn_queue_generation = 0, bn_lease = hash128_zero, bn_lease_generation = 0,
       bn_dispatch = hash128_zero, bn_dispatch_generation = 0, bn_placement_domain = 0,
       bn_topology_epoch = 0, bn_created_at_ms = 0, bn_lease_expires_at_ms = 0,
       bn_replica_index = 0, bn_exclusive = True \<rparr>"

definition encode_binding :: "ResourceLimits \<Rightarrow> AssignmentBinding \<Rightarrow> writer" where
  "encode_binding l b = seq_puts
     [put_hash128 (bn_id b), put_u64 (bn_generation b), put_u64 (bn_work b),
      put_u64 (bn_work_generation b), put_u64 (bn_agent b), put_u64 (bn_agent_generation b),
      put_hash128 (bn_boot b), put_u64 (bn_scheduler b), put_u64 (bn_scheduler_epoch b),
      put_u64 (bn_coordinator_epoch b), put_u64 (bn_policy b), put_u64 (bn_policy_generation b),
      put_u64 (bn_capability_profile b), put_u64 (bn_capability_generation b),
      put_u64 (bn_resource_generation b), put_u64 (bn_budget_generation b),
      put_u64 (bn_slo_generation b), put_u64 (bn_reservation_generation b), put_u64 (bn_queue b),
      put_u64 (bn_queue_generation b), put_hash128 (bn_lease b), put_u64 (bn_lease_generation b),
      put_hash128 (bn_dispatch b), put_u64 (bn_dispatch_generation b),
      put_u64 (bn_placement_domain b), put_u64 (bn_topology_epoch b), put_u64 (bn_created_at_ms b),
      put_u64 (bn_lease_expires_at_ms b), put_u32 (bn_replica_index b), put_bool (bn_exclusive b)]"

definition decode_binding :: "ResourceLimits \<Rightarrow> AssignmentBinding reader" where
  "decode_binding l = seq_gets
     [into get_hash128 (\<lambda>v b. b\<lparr>bn_id := v\<rparr>),
      into get_u64 (\<lambda>v b. b\<lparr>bn_generation := v\<rparr>),
      into get_u64 (\<lambda>v b. b\<lparr>bn_work := v\<rparr>),
      into get_u64 (\<lambda>v b. b\<lparr>bn_work_generation := v\<rparr>),
      into get_u64 (\<lambda>v b. b\<lparr>bn_agent := v\<rparr>),
      into get_u64 (\<lambda>v b. b\<lparr>bn_agent_generation := v\<rparr>),
      into get_hash128 (\<lambda>v b. b\<lparr>bn_boot := v\<rparr>),
      into get_u64 (\<lambda>v b. b\<lparr>bn_scheduler := v\<rparr>),
      into get_u64 (\<lambda>v b. b\<lparr>bn_scheduler_epoch := v\<rparr>),
      into get_u64 (\<lambda>v b. b\<lparr>bn_coordinator_epoch := v\<rparr>),
      into get_u64 (\<lambda>v b. b\<lparr>bn_policy := v\<rparr>),
      into get_u64 (\<lambda>v b. b\<lparr>bn_policy_generation := v\<rparr>),
      into get_u64 (\<lambda>v b. b\<lparr>bn_capability_profile := v\<rparr>),
      into get_u64 (\<lambda>v b. b\<lparr>bn_capability_generation := v\<rparr>),
      into get_u64 (\<lambda>v b. b\<lparr>bn_resource_generation := v\<rparr>),
      into get_u64 (\<lambda>v b. b\<lparr>bn_budget_generation := v\<rparr>),
      into get_u64 (\<lambda>v b. b\<lparr>bn_slo_generation := v\<rparr>),
      into get_u64 (\<lambda>v b. b\<lparr>bn_reservation_generation := v\<rparr>),
      into get_u64 (\<lambda>v b. b\<lparr>bn_queue := v\<rparr>),
      into get_u64 (\<lambda>v b. b\<lparr>bn_queue_generation := v\<rparr>),
      into get_hash128 (\<lambda>v b. b\<lparr>bn_lease := v\<rparr>),
      into get_u64 (\<lambda>v b. b\<lparr>bn_lease_generation := v\<rparr>),
      into get_hash128 (\<lambda>v b. b\<lparr>bn_dispatch := v\<rparr>),
      into get_u64 (\<lambda>v b. b\<lparr>bn_dispatch_generation := v\<rparr>),
      into get_u64 (\<lambda>v b. b\<lparr>bn_placement_domain := v\<rparr>),
      into get_u64 (\<lambda>v b. b\<lparr>bn_topology_epoch := v\<rparr>),
      into get_u64 (\<lambda>v b. b\<lparr>bn_created_at_ms := v\<rparr>),
      into get_u64 (\<lambda>v b. b\<lparr>bn_lease_expires_at_ms := v\<rparr>),
      into get_u32 (\<lambda>v b. b\<lparr>bn_replica_index := v\<rparr>),
      into get_bool (\<lambda>v b. b\<lparr>bn_exclusive := v\<rparr>)]
     default_binding"

interpretation binding_format: wire_format "encode_binding l" "decode_binding l"
    "(\<lambda>_. True)" for l
  unfolding encode_binding_def [abs_def] decode_binding_def
  by (rule struct_fields struct_Nil)+
    (auto simp: default_binding_def intro!: AssignmentBinding.equality)

lemmas [struct_fields] = struct_Cons_any [OF binding_format.wire_format_axioms]

end
