(* ===== verification/Persisted_Records.thy ===== *)
theory Persisted_Records
  imports Wire_Fields
begin

section \<open>The stored form of the records\<close>

text \<open>
  The writers and readers of persistence.cpp for the records of the state. Most are exact
  formats. Where storing loses information (a lifecycle becomes a hint, counters and dynamic
  evidence are not stored), the contract is weaker: what is read back is an image of what was
  written. Both contracts are locales, and every exact format is also a storing format.
\<close>

locale storing_format =
  fixes put :: "'a \<Rightarrow> writer"
    and get :: "'b reader"
    and img :: "'a \<Rightarrow> 'b"
    and ok :: "'a \<Rightarrow> bool"
  assumes stored: "ok x \<Longrightarrow> codable (put x) get (img x)"
begin

lemma stored_codes:
  assumes "ok x" and "put x buffer = Inr out"
  obtains used where "codes (put x) get (img x) used" and "out = buffer @ used"
  using stored [OF assms(1)] assms(2) unfolding codable_def codes_def
  by (metis Inr_Inl_False sum.inject(2))

lemma times_stored:
  "\<forall>x \<in> set xs. ok x \<Longrightarrow> \<exists>u. codes (seq_puts (map put xs)) (get_times (length xs) get) (map img xs) u"
proof (induction xs)
  case Nil
  show ?case by (rule exI [of _ "[]"]) (simp add: codes_def return_get_def)
next
  case (Cons x xs)
  then obtain u v where u: "codes (put x) get (img x) u"
    and v: "codes (seq_puts (map put xs)) (get_times (length xs) get) (map img xs) v"
    using stored [of x] unfolding codable_def by auto
  have "codes (seq_puts (map put (x # xs))) (get_times (length (x # xs)) get) (map img (x # xs)) (u @ v)"
    unfolding list.map list.size add_0_right add_Suc_right get_times.simps
    by (rule codes_then [OF u codes_bind [OF v, of "\<lambda>ys. img x # ys"]]) simp
  then show ?case by (rule exI)
qed

lemma list_storing:
  "storing_format (put_list put) (get_list m message get) (map img)
     (\<lambda>xs. length xs \<le> unat m \<and> (\<forall>x \<in> set xs. ok x))"
proof
  fix xs assume xs: "length xs \<le> unat m \<and> (\<forall>x \<in> set xs. ok x)"
  have len: "unat (of_nat (length xs) :: u32) = length xs" "\<not> (of_nat (length xs) :: u32) > m"
    using u32_length [OF conjunct1 [OF xs]] by blast+
  obtain w where w: "codes (put_u32 (of_nat (length xs))) get_u32 (of_nat (length xs)) w"
    using u32_format.encodable [OF TrueI] unfolding codable_def by (rule exE)
  obtain u where u: "codes (seq_puts (map put xs)) (get_times (length xs) get) (map img xs) u"
    by (rule exE [OF times_stored [OF conjunct2 [OF xs]]])
  have "codes (put_list put xs) (get_list m message get) (map img xs) (w @ u)"
    unfolding put_list_def get_list_def by (rule codes_then [OF w u]) (simp add: len)
  then show "codable (put_list put xs) (get_list m message get) (map img xs)"
    unfolding codable_def by (rule exI)
qed

end

sublocale wire_format \<subseteq> exact: storing_format put get "\<lambda>x. x" ok
  by unfold_locales (rule encodable)

text \<open>A record, field by field; the image of a record holds the images of its fields.\<close>

named_theorems stored_fields \<open>one rule per kind of field: the storing format without its first field\<close>

lemma stored_Nil:
  assumes "\<And>t. ok t \<Longrightarrow> img t = r"
  shows "storing_format (\<lambda>t. seq_puts []) (seq_gets [] r) img ok"
proof
  fix t assume "ok t"
  then have "codes (seq_puts []) (seq_gets [] r) (img t) []"
    using assms by (simp add: codes_def return_get_def)
  then show "codable (seq_puts []) (seq_gets [] r) (img t)" unfolding codable_def by (rule exI)
qed

lemma stored_Cons:
  assumes field: "storing_format p g f okx"
    and known: "\<And>t. ok t \<Longrightarrow> okx (sel t)"
    and others: "\<And>x. okx x \<Longrightarrow>
      storing_format (\<lambda>t. seq_puts (P t)) (seq_gets S (upd (f x) r)) img (\<lambda>t. ok t \<and> sel t = x)"
  shows "storing_format (\<lambda>t. seq_puts (p (sel t) # P t)) (seq_gets (into g upd # S) r) img ok"
proof
  fix t assume t: "ok t"
  obtain u where u: "codes (p (sel t)) g (f (sel t)) u"
    using storing_format.stored [OF field known [OF t]] unfolding codable_def by (rule exE)
  have "ok t \<and> sel t = sel t" using t by simp
  then obtain v where "codes (seq_puts (P t)) (seq_gets S (upd (f (sel t)) r)) (img t) v"
    using storing_format.stored [OF others [OF known [OF t]]] unfolding codable_def by blast
  then have "codes (seq_puts (p (sel t) # P t)) (seq_gets (into g upd # S) r) (img t) (u @ v)"
    by (rule codes_step [OF u])
  then show "codable (seq_puts (p (sel t) # P t)) (seq_gets (into g upd # S) r) (img t)"
    unfolding codable_def by (rule exI)
qed

lemma wire_format_storing: "wire_format p g ok \<Longrightarrow> storing_format p g (\<lambda>x. x) ok"
  by (rule storing_format.intro) (rule wire_format.encodable)

lemmas stored_exact = stored_Cons [OF wire_format_storing]

lemma stored_checked:
  assumes "storing_format put get img ok" and "\<And>t rest. ok t \<Longrightarrow> check (img t) rest = Inr (kept t, rest)"
  shows "storing_format put (bind_get get check) kept ok"
proof
  fix t assume t: "ok t"
  obtain u where "codes (put t) get (img t) u"
    using storing_format.stored [OF assms(1) t] unfolding codable_def by (rule exE)
  then have "codes (put t) (bind_get get check) (kept t) u"
    using assms(2) [OF t] unfolding codes_def by simp
  then show "codable (put t) (bind_get get check) (kept t)" unfolding codable_def by (rule exI)
qed

subsection \<open>Exact formats\<close>

text \<open>
  The identities and the options of these records are stored as they are. The binding of an
  assignment is stored in full, whatever its state.
\<close>

definition write_descriptor :: "ResourceLimits \<Rightarrow> AgentDescriptor \<Rightarrow> writer" where
  "write_descriptor l d = seq_puts
     [put_u64 (ad_id d), put_u64 (ad_generation d), put_hash128 (ad_boot d),
      put_u64 (ad_registration_generation d), put_u64 (ad_tenant d), put_u64 (ad_name_space d),
      put_string (ad_display_name d) (max_string_size l),
      put_list (\<lambda>s. put_string s (max_identifier_size l)) (ad_policy_labels d),
      put_u64 (ad_placement_domain d), put_u64 (ad_topology_epoch d),
      put_u32 (ad_max_concurrency d), put_u64 (ad_lease_ttl_ms d),
      put_string (ad_provenance d) (max_string_size l)]"

definition read_descriptor :: "ResourceLimits \<Rightarrow> AgentDescriptor reader" where
  "read_descriptor l = seq_gets
     [into get_u64 (\<lambda>v d. d\<lparr>ad_id := v\<rparr>),
      into get_u64 (\<lambda>v d. d\<lparr>ad_generation := v\<rparr>),
      into get_hash128 (\<lambda>v d. d\<lparr>ad_boot := v\<rparr>),
      into get_u64 (\<lambda>v d. d\<lparr>ad_registration_generation := v\<rparr>),
      into get_u64 (\<lambda>v d. d\<lparr>ad_tenant := v\<rparr>),
      into get_u64 (\<lambda>v d. d\<lparr>ad_name_space := v\<rparr>),
      into (get_string (max_string_size l)) (\<lambda>v d. d\<lparr>ad_display_name := v\<rparr>),
      into (get_list (max_policy_labels l)
          ''policy label count exceeds the configured maximum'' (get_string (max_identifier_size l)))
        (\<lambda>v d. d\<lparr>ad_policy_labels := v\<rparr>),
      into get_u64 (\<lambda>v d. d\<lparr>ad_placement_domain := v\<rparr>),
      into get_u64 (\<lambda>v d. d\<lparr>ad_topology_epoch := v\<rparr>),
      into get_u32 (\<lambda>v d. d\<lparr>ad_max_concurrency := v\<rparr>),
      into get_u64 (\<lambda>v d. d\<lparr>ad_lease_ttl_ms := v\<rparr>),
      into (get_string (max_string_size l)) (\<lambda>v d. d\<lparr>ad_provenance := v\<rparr>)]
     default_descriptor"

definition stored_descriptor_fits :: "ResourceLimits \<Rightarrow> AgentDescriptor \<Rightarrow> bool" where
  "stored_descriptor_fits l d \<longleftrightarrow>
     length (ad_display_name d) \<le> unat (max_string_size l)
     \<and> length (ad_policy_labels d) \<le> unat (max_policy_labels l)
     \<and> (\<forall>s \<in> set (ad_policy_labels d). length s \<le> unat (max_identifier_size l))
     \<and> length (ad_provenance d) \<le> unat (max_string_size l)"

interpretation stored_descriptor_format: wire_format "write_descriptor l" "read_descriptor l"
    "stored_descriptor_fits l" for l
  unfolding write_descriptor_def [abs_def] read_descriptor_def
  by (rule struct_fields struct_Nil | (simp add: stored_descriptor_fits_def; fail))+
    (auto simp: stored_descriptor_fits_def default_descriptor_def intro!: AgentDescriptor.equality)

lemmas [struct_fields] = struct_Cons [OF stored_descriptor_format.wire_format_axioms]

definition write_evidence :: "ResourceLimits \<Rightarrow> CapabilityEvidence \<Rightarrow> writer" where
  "write_evidence l e = seq_puts
     [put_string (ce_name e) (max_identifier_size l),
      put_u8 (of_nat (capability_state_code (ce_state e))), put_u32 (ce_quality e),
      put_u64 (ce_generation e), put_hash128 (ce_boot e), put_u64 (ce_observed_at_ms e),
      put_string (ce_provenance e) (max_string_size l)]"

definition read_evidence :: "ResourceLimits \<Rightarrow> CapabilityEvidence reader" where
  "read_evidence l = seq_gets
     [into (get_string (max_identifier_size l)) (\<lambda>v e. e\<lparr>ce_name := v\<rparr>),
      into (checked_enum capability_state_values ''capability state'')
        (\<lambda>v e. e\<lparr>ce_state := v\<rparr>),
      into get_quality (\<lambda>v e. e\<lparr>ce_quality := v\<rparr>),
      into get_u64 (\<lambda>v e. e\<lparr>ce_generation := v\<rparr>),
      into get_hash128 (\<lambda>v e. e\<lparr>ce_boot := v\<rparr>),
      into get_u64 (\<lambda>v e. e\<lparr>ce_observed_at_ms := v\<rparr>),
      into (get_string (max_string_size l)) (\<lambda>v e. e\<lparr>ce_provenance := v\<rparr>)]
     default_evidence"

definition stored_evidence_fits :: "ResourceLimits \<Rightarrow> CapabilityEvidence \<Rightarrow> bool" where
  "stored_evidence_fits l e \<longleftrightarrow>
     length (ce_name e) \<le> unat (max_identifier_size l)
     \<and> (ce_quality e) \<le> 1000
     \<and> length (ce_provenance e) \<le> unat (max_string_size l)"

interpretation stored_evidence_format: wire_format "write_evidence l" "read_evidence l"
    "stored_evidence_fits l" for l
  unfolding write_evidence_def [abs_def] read_evidence_def
  by (rule struct_fields struct_Nil | (simp add: stored_evidence_fits_def; fail))+
    (auto simp: stored_evidence_fits_def default_evidence_def intro!: CapabilityEvidence.equality)

lemmas [struct_fields] = struct_Cons [OF stored_evidence_format.wire_format_axioms]

lemmas [struct_fields] = struct_Cons [OF stored_evidence_format.list_format]

definition write_capabilities :: "ResourceLimits \<Rightarrow> CapabilityProfile \<Rightarrow> writer" where
  "write_capabilities l p = seq_puts
     [put_u64 (cp_profile_id p), put_u64 (cp_generation p), put_hash128 (cp_boot p),
      put_list (write_evidence l) (cp_capabilities p)]"

definition read_capabilities :: "ResourceLimits \<Rightarrow> CapabilityProfile reader" where
  "read_capabilities l = seq_gets
     [into get_u64 (\<lambda>v p. p\<lparr>cp_profile_id := v\<rparr>),
      into get_u64 (\<lambda>v p. p\<lparr>cp_generation := v\<rparr>),
      into get_hash128 (\<lambda>v p. p\<lparr>cp_boot := v\<rparr>),
      into (get_list (max_capabilities_per_agent l)
          ''capability count exceeds the configured maximum'' (read_evidence l))
        (\<lambda>v p. p\<lparr>cp_capabilities := v\<rparr>)]
     default_profile"

definition stored_capabilities_fits :: "ResourceLimits \<Rightarrow> CapabilityProfile \<Rightarrow> bool" where
  "stored_capabilities_fits l p \<longleftrightarrow>
     length (cp_capabilities p) \<le> unat (max_capabilities_per_agent l)
     \<and> (\<forall>x \<in> set (cp_capabilities p). stored_evidence_fits l x)"

interpretation stored_capabilities_format: wire_format "write_capabilities l" "read_capabilities l"
    "stored_capabilities_fits l" for l
  unfolding write_capabilities_def [abs_def] read_capabilities_def
  by (rule struct_fields struct_Nil | (simp add: stored_capabilities_fits_def; fail))+
    (auto simp: stored_capabilities_fits_def default_profile_def intro!: CapabilityProfile.equality)

lemmas [struct_fields] = struct_Cons [OF stored_capabilities_format.wire_format_axioms]

definition write_binding :: "AssignmentBinding \<Rightarrow> writer" where
  "write_binding b = seq_puts
     [put_hash128 (bn_id b), put_u64 (bn_generation b), put_u64 (bn_work b),
      put_u64 (bn_work_generation b), put_u64 (bn_agent b), put_u64 (bn_agent_generation b),
      put_hash128 (bn_boot b), put_u64 (bn_scheduler b), put_u64 (bn_scheduler_epoch b),
      put_u64 (bn_coordinator_epoch b), put_u64 (bn_policy b), put_u64 (bn_policy_generation b),
      put_u64 (bn_capability_profile b), put_u64 (bn_capability_generation b),
      put_u64 (bn_resource_generation b), put_u64 (bn_budget_generation b),
      put_u64 (bn_slo_generation b), put_u64 (bn_reservation_generation b), put_u64 (bn_queue b),
      put_u64 (bn_queue_generation b), put_hash128 (bn_lease b), put_u64 (bn_lease_generation b),
      put_hash128 (bn_dispatch b), put_u64 (bn_dispatch_generation b),
      put_u64 (bn_placement_domain b), put_u64 (bn_topology_epoch b), put_u64 (bn_created_at_ms b),
      put_u64 (bn_lease_expires_at_ms b), put_u32 (bn_replica_index b), put_bool (bn_exclusive b)]"

definition read_binding :: "AssignmentBinding reader" where
  "read_binding = seq_gets
     [into get_hash128 (\<lambda>v b. b\<lparr>bn_id := v\<rparr>),
      into get_u64 (\<lambda>v b. b\<lparr>bn_generation := v\<rparr>),
      into get_u64 (\<lambda>v b. b\<lparr>bn_work := v\<rparr>),
      into get_u64 (\<lambda>v b. b\<lparr>bn_work_generation := v\<rparr>),
      into get_u64 (\<lambda>v b. b\<lparr>bn_agent := v\<rparr>),
      into get_u64 (\<lambda>v b. b\<lparr>bn_agent_generation := v\<rparr>),
      into get_hash128 (\<lambda>v b. b\<lparr>bn_boot := v\<rparr>),
      into get_u64 (\<lambda>v b. b\<lparr>bn_scheduler := v\<rparr>),
      into get_u64 (\<lambda>v b. b\<lparr>bn_scheduler_epoch := v\<rparr>),
      into get_u64 (\<lambda>v b. b\<lparr>bn_coordinator_epoch := v\<rparr>),
      into get_u64 (\<lambda>v b. b\<lparr>bn_policy := v\<rparr>),
      into get_u64 (\<lambda>v b. b\<lparr>bn_policy_generation := v\<rparr>),
      into get_u64 (\<lambda>v b. b\<lparr>bn_capability_profile := v\<rparr>),
      into get_u64 (\<lambda>v b. b\<lparr>bn_capability_generation := v\<rparr>),
      into get_u64 (\<lambda>v b. b\<lparr>bn_resource_generation := v\<rparr>),
      into get_u64 (\<lambda>v b. b\<lparr>bn_budget_generation := v\<rparr>),
      into get_u64 (\<lambda>v b. b\<lparr>bn_slo_generation := v\<rparr>),
      into get_u64 (\<lambda>v b. b\<lparr>bn_reservation_generation := v\<rparr>),
      into get_u64 (\<lambda>v b. b\<lparr>bn_queue := v\<rparr>),
      into get_u64 (\<lambda>v b. b\<lparr>bn_queue_generation := v\<rparr>),
      into get_hash128 (\<lambda>v b. b\<lparr>bn_lease := v\<rparr>),
      into get_u64 (\<lambda>v b. b\<lparr>bn_lease_generation := v\<rparr>),
      into get_hash128 (\<lambda>v b. b\<lparr>bn_dispatch := v\<rparr>),
      into get_u64 (\<lambda>v b. b\<lparr>bn_dispatch_generation := v\<rparr>),
      into get_u64 (\<lambda>v b. b\<lparr>bn_placement_domain := v\<rparr>),
      into get_u64 (\<lambda>v b. b\<lparr>bn_topology_epoch := v\<rparr>),
      into get_u64 (\<lambda>v b. b\<lparr>bn_created_at_ms := v\<rparr>),
      into get_u64 (\<lambda>v b. b\<lparr>bn_lease_expires_at_ms := v\<rparr>),
      into get_u32 (\<lambda>v b. b\<lparr>bn_replica_index := v\<rparr>),
      into get_bool (\<lambda>v b. b\<lparr>bn_exclusive := v\<rparr>)]
     default_binding"

interpretation stored_binding_format: wire_format "write_binding" "read_binding"
    "\<lambda>_. True"
  unfolding write_binding_def [abs_def] read_binding_def
  by (rule struct_fields struct_Nil)+
    (auto simp: default_binding_def intro!: AssignmentBinding.equality)

lemmas [struct_fields] = struct_Cons_any [OF stored_binding_format.wire_format_axioms]

subsection \<open>The policy\<close>

definition default_ranking_weight :: RankingWeight where
  "default_ranking_weight = \<lparr> rw_factor = [], rw_weight = 0 \<rparr>"

definition default_class_weight :: QueueClassWeight where
  "default_class_weight = \<lparr> qw_fairness_class = [], qw_weight = 1 \<rparr>"

definition write_ranking_weight :: "ResourceLimits \<Rightarrow> RankingWeight \<Rightarrow> writer" where
  "write_ranking_weight l w = seq_puts
     [put_string (rw_factor w) (max_identifier_size l), put_u32 (rw_weight w)]"

definition read_ranking_weight :: "ResourceLimits \<Rightarrow> RankingWeight reader" where
  "read_ranking_weight l = seq_gets
     [into (get_string (max_identifier_size l)) (\<lambda>v w. w\<lparr>rw_factor := v\<rparr>),
      into get_u32 (\<lambda>v w. w\<lparr>rw_weight := v\<rparr>)]
     default_ranking_weight"

definition stored_ranking_weight_fits :: "ResourceLimits \<Rightarrow> RankingWeight \<Rightarrow> bool" where
  "stored_ranking_weight_fits l w \<longleftrightarrow>
     length (rw_factor w) \<le> unat (max_identifier_size l)"

interpretation stored_ranking_weight_format: wire_format "write_ranking_weight l" "read_ranking_weight l"
    "stored_ranking_weight_fits l" for l
  unfolding write_ranking_weight_def [abs_def] read_ranking_weight_def
  by (rule struct_fields struct_Nil | (simp add: stored_ranking_weight_fits_def; fail))+
    (auto simp: stored_ranking_weight_fits_def default_ranking_weight_def intro!: RankingWeight.equality)

lemmas [struct_fields] = struct_Cons [OF stored_ranking_weight_format.wire_format_axioms]

lemmas [struct_fields] = struct_Cons [OF stored_ranking_weight_format.list_format]

definition write_class_weight :: "ResourceLimits \<Rightarrow> QueueClassWeight \<Rightarrow> writer" where
  "write_class_weight l w = seq_puts
     [put_string (qw_fairness_class w) (max_identifier_size l), put_u32 (qw_weight w)]"

definition read_class_weight :: "ResourceLimits \<Rightarrow> QueueClassWeight reader" where
  "read_class_weight l = seq_gets
     [into (get_string (max_identifier_size l))
        (\<lambda>v w. w\<lparr>qw_fairness_class := v\<rparr>),
      into get_u32 (\<lambda>v w. w\<lparr>qw_weight := v\<rparr>)]
     default_class_weight"

definition stored_class_weight_fits :: "ResourceLimits \<Rightarrow> QueueClassWeight \<Rightarrow> bool" where
  "stored_class_weight_fits l w \<longleftrightarrow>
     length (qw_fairness_class w) \<le> unat (max_identifier_size l)"

interpretation stored_class_weight_format: wire_format "write_class_weight l" "read_class_weight l"
    "stored_class_weight_fits l" for l
  unfolding write_class_weight_def [abs_def] read_class_weight_def
  by (rule struct_fields struct_Nil | (simp add: stored_class_weight_fits_def; fail))+
    (auto simp: stored_class_weight_fits_def default_class_weight_def intro!: QueueClassWeight.equality)

lemmas [struct_fields] = struct_Cons [OF stored_class_weight_format.wire_format_axioms]

lemmas [struct_fields] = struct_Cons [OF stored_class_weight_format.list_format]

definition write_policy :: "ResourceLimits \<Rightarrow> PolicySnapshot \<Rightarrow> writer" where
  "write_policy l p = seq_puts
     [put_u64 (po_id p), put_u64 (po_generation p), put_u32 (aging_rounds_per_step p),
      put_u32 (max_priority_bypass p), put_u32 (starvation_alert_rounds p),
      put_bool (allow_unbounded_starvation p), put_u32 (anti_concentration_window p),
      put_u32 (anti_concentration_penalty p), put_u64 (capability_staleness_ms p),
      put_u64 (health_staleness_ms p), put_u64 (load_staleness_ms p),
      put_u64 (availability_staleness_ms p), put_u64 (assignment_lease_ttl_ms p),
      put_u64 (registration_lease_ttl_ms p), put_bool (close_dispatch_authority_on_shutdown p),
      put_list (write_ranking_weight l) (ranking_weights p),
      put_list (write_class_weight l) (fairness_class_weights p)]"

definition read_policy :: "ResourceLimits \<Rightarrow> PolicySnapshot reader" where
  "read_policy l = seq_gets
     [into get_u64 (\<lambda>v p. p\<lparr>po_id := v\<rparr>),
      into get_u64 (\<lambda>v p. p\<lparr>po_generation := v\<rparr>),
      into get_u32 (\<lambda>v p. p\<lparr>aging_rounds_per_step := v\<rparr>),
      into get_u32 (\<lambda>v p. p\<lparr>max_priority_bypass := v\<rparr>),
      into get_u32 (\<lambda>v p. p\<lparr>starvation_alert_rounds := v\<rparr>),
      into get_bool (\<lambda>v p. p\<lparr>allow_unbounded_starvation := v\<rparr>),
      into get_u32 (\<lambda>v p. p\<lparr>anti_concentration_window := v\<rparr>),
      into get_u32 (\<lambda>v p. p\<lparr>anti_concentration_penalty := v\<rparr>),
      into get_u64 (\<lambda>v p. p\<lparr>capability_staleness_ms := v\<rparr>),
      into get_u64 (\<lambda>v p. p\<lparr>health_staleness_ms := v\<rparr>),
      into get_u64 (\<lambda>v p. p\<lparr>load_staleness_ms := v\<rparr>),
      into get_u64 (\<lambda>v p. p\<lparr>availability_staleness_ms := v\<rparr>),
      into get_u64 (\<lambda>v p. p\<lparr>assignment_lease_ttl_ms := v\<rparr>),
      into get_u64 (\<lambda>v p. p\<lparr>registration_lease_ttl_ms := v\<rparr>),
      into get_bool (\<lambda>v p. p\<lparr>close_dispatch_authority_on_shutdown := v\<rparr>),
      into (get_list (max_explanation_factors l)
          ''ranking weight count exceeds the configured maximum'' (read_ranking_weight l))
        (\<lambda>v p. p\<lparr>ranking_weights := v\<rparr>),
      into (get_list (max_queues l)
          ''fairness class count exceeds the configured maximum'' (read_class_weight l))
        (\<lambda>v p. p\<lparr>fairness_class_weights := v\<rparr>)]
     default_policy"

definition stored_policy_fits :: "ResourceLimits \<Rightarrow> PolicySnapshot \<Rightarrow> bool" where
  "stored_policy_fits l p \<longleftrightarrow>
     length (ranking_weights p) \<le> unat (max_explanation_factors l)
     \<and> (\<forall>x \<in> set (ranking_weights p). stored_ranking_weight_fits l x)
     \<and> length (fairness_class_weights p) \<le> unat (max_queues l)
     \<and> (\<forall>x \<in> set (fairness_class_weights p). stored_class_weight_fits l x)"

interpretation stored_policy_format: wire_format "write_policy l" "read_policy l"
    "stored_policy_fits l" for l
  unfolding write_policy_def [abs_def] read_policy_def
  by (rule struct_fields struct_Nil | (simp add: stored_policy_fits_def; fail))+
    (auto simp: stored_policy_fits_def default_policy_def intro!: PolicySnapshot.equality)

lemmas [struct_fields] = struct_Cons [OF stored_policy_format.wire_format_axioms]

end
