(* ===== verification/State_Maintenance.thy ===== *)
theory State_Maintenance
  imports Scheduler_State
begin

section \<open>Index, accounting and authority maintenance\<close>

text \<open>
  The internal functions of scheduler_state.cpp. A C++ reference to a record inside one of
  the maps is the record's key in the model: a function that mutates such a record looks it
  up and stores it back. Functions on records outside the maps work on the record.
\<close>

definition boot_is_fenced :: "Impl \<Rightarrow> Hash128 \<Rightarrow> bool" where
  "boot_is_fenced impl boot \<longleftrightarrow> om_get (im_fenced_boots impl) boot \<noteq> None"

definition incarnation_current :: "Impl \<Rightarrow> AgentRecord \<Rightarrow> Hash128 \<Rightarrow> bool" where
  "incarnation_current impl r boot \<longleftrightarrow>
     ad_boot (ag_descriptor r) = boot \<and> \<not> boot_is_fenced impl boot"

definition fence_boot :: "u64 \<Rightarrow> Hash128 \<Rightarrow> u64 \<Rightarrow> string \<Rightarrow> Impl \<Rightarrow> Impl" where
  "fence_boot agent boot generation reason impl =
     (if hash128_is_zero boot \<or> boot_is_fenced impl boot then impl
      else impl\<lparr>
        im_fenced_boots := om_emplace boot
          \<lparr> fb_agent = agent, fb_boot = boot, fb_generation = generation,
            fb_fenced_at_ms = im_now impl, fb_reason = reason \<rparr> (im_fenced_boots impl),
        im_state_revision := im_state_revision impl + 1\<rparr>)"

text \<open>Mutation of one record of a map, through a reference to it.\<close>

definition adjust_agent :: "u64 \<Rightarrow> (AgentRecord \<Rightarrow> AgentRecord) \<Rightarrow> Impl \<Rightarrow> Impl" where
  "adjust_agent a f impl = impl\<lparr>im_agents := om_adjust a f (im_agents impl)\<rparr>"

definition adjust_work :: "u64 \<Rightarrow> (WorkRecord \<Rightarrow> WorkRecord) \<Rightarrow> Impl \<Rightarrow> Impl" where
  "adjust_work w f impl = impl\<lparr>im_work := om_adjust w f (im_work impl)\<rparr>"

definition adjust_assignment ::
    "Hash128 \<Rightarrow> (AssignmentRecord \<Rightarrow> AssignmentRecord) \<Rightarrow> Impl \<Rightarrow> Impl" where
  "adjust_assignment k f impl = impl\<lparr>im_assignments := om_adjust k f (im_assignments impl)\<rparr>"

definition adjust_lease :: "Hash128 \<Rightarrow> (Lease \<Rightarrow> Lease) \<Rightarrow> Impl \<Rightarrow> Impl" where
  "adjust_lease k f impl = impl\<lparr>im_leases := om_adjust k f (im_leases impl)\<rparr>"

definition adjust_queue :: "u64 \<Rightarrow> (QueueRecord \<Rightarrow> QueueRecord) \<Rightarrow> Impl \<Rightarrow> Impl" where
  "adjust_queue q f impl = impl\<lparr>im_queues := om_adjust q f (im_queues impl)\<rparr>"

definition adjust_tenant :: "u64 \<Rightarrow> (TenantRecord \<Rightarrow> TenantRecord) \<Rightarrow> Impl \<Rightarrow> Impl" where
  "adjust_tenant t f impl = impl\<lparr>im_tenants := om_adjust t f (im_tenants impl)\<rparr>"

definition bump_revision :: "Impl \<Rightarrow> Impl" where
  "bump_revision impl = impl\<lparr>im_state_revision := im_state_revision impl + 1\<rparr>"

subsection \<open>Index maintenance\<close>

definition index_agent :: "AgentRecord \<Rightarrow> Impl \<Rightarrow> Impl" where
  "index_agent r impl =
     (let d = ag_descriptor r; a = ad_id d;
          usable = filter (\<lambda>e. capability_state_is_usable (ce_state e))
                     (cp_capabilities (ag_profile r))
      in impl\<lparr>
        im_by_lifecycle := ix_insert (ag_lifecycle r) a (im_by_lifecycle impl),
        im_by_tenant := ix_insert (ad_tenant d) a (im_by_tenant impl),
        im_by_domain := (if ad_placement_domain d \<noteq> 0
                         then ix_insert (ad_placement_domain d) a (im_by_domain impl)
                         else im_by_domain impl),
        im_by_capability := (if ag_capability_current r
                             then fold (\<lambda>e. ix_insert (ce_name e) a) usable (im_by_capability impl)
                             else im_by_capability impl)\<rparr>)"

definition deindex_agent :: "u64 \<Rightarrow> Impl \<Rightarrow> Impl" where
  "deindex_agent a impl = impl\<lparr>
     im_by_lifecycle := ix_erase_all a (im_by_lifecycle impl),
     im_by_tenant := ix_erase_all a (im_by_tenant impl),
     im_by_domain := ix_erase_all a (im_by_domain impl),
     im_by_capability := ix_erase_all a (im_by_capability impl)\<rparr>"

definition index_work :: "WorkRecord \<Rightarrow> Impl \<Rightarrow> Impl" where
  "index_work r impl =
     (let q = wr_request r in impl\<lparr>
        im_work_by_queue := ix_insert (wq_queue q) (wq_id q) (im_work_by_queue impl),
        im_work_by_lifecycle := ix_insert (wr_lifecycle r) (wq_id q) (im_work_by_lifecycle impl)\<rparr>)"

definition deindex_work :: "u64 \<Rightarrow> Impl \<Rightarrow> Impl" where
  "deindex_work w impl = impl\<lparr>
     im_work_by_queue := ix_erase_all w (im_work_by_queue impl),
     im_work_by_lifecycle := ix_erase_all w (im_work_by_lifecycle impl)\<rparr>"

definition index_assignment :: "AssignmentRecord \<Rightarrow> Impl \<Rightarrow> Impl" where
  "index_assignment r impl =
     (if \<not> assignment_state_is_active (ar_state r) then impl
      else let b = ar_binding r in impl\<lparr>
        im_by_agent := ix_insert (bn_agent b) (bn_id b) (im_by_agent impl),
        im_by_work := ix_insert (bn_work b) (bn_id b) (im_by_work impl)\<rparr>)"

definition deindex_assignment :: "AssignmentRecord \<Rightarrow> Impl \<Rightarrow> Impl" where
  "deindex_assignment r impl =
     (let b = ar_binding r in impl\<lparr>
        im_by_agent := ix_erase_at (bn_agent b) (bn_id b) (im_by_agent impl),
        im_by_work := ix_erase_at (bn_work b) (bn_id b) (im_by_work impl)\<rparr>)"

definition rebuild_indexes :: "Impl \<Rightarrow> Impl" where
  "rebuild_indexes impl =
     (let cleared = impl\<lparr>
            im_by_capability := [], im_by_lifecycle := [], im_by_tenant := [],
            im_by_domain := [], im_work_by_queue := [], im_work_by_lifecycle := [],
            im_by_agent := [], im_by_work := []\<rparr>
      in fold (\<lambda>e. index_assignment (snd e)) (im_assignments impl)
           (fold (\<lambda>e. index_work (snd e)) (im_work impl)
             (fold (\<lambda>e. index_agent (snd e)) (im_agents impl) cleared)))"

subsection \<open>Agent lifecycle and freshness of evidence\<close>

definition recompute_lifecycle :: "AgentRecord \<Rightarrow> AgentRecord" where
  "recompute_lifecycle r =
     (if ag_lifecycle r = AgentLifecycle.Lost \<or> ag_lifecycle r = AgentLifecycle.Retired
         \<or> ag_lifecycle r = AgentLifecycle.Draining then r
      else if \<not> ag_capability_current r \<or> \<not> ag_health_current r \<or> \<not> ag_availability_current r
      then r\<lparr>ag_lifecycle := (if ag_recovered r then AgentLifecycle.RevalidationRequired
                              else AgentLifecycle.Registering)\<rparr>
      else if ag_availability r \<noteq> AgentAvailability.Available
              \<or> ag_reachability r \<noteq> AgentReachability.Reachable
              \<or> ag_readiness r \<noteq> AgentReadiness.Ready
      then r\<lparr>ag_lifecycle := AgentLifecycle.Unavailable\<rparr>
      else r\<lparr>ag_lifecycle := (if ag_active_assignments r > 0 then AgentLifecycle.Busy
                              else AgentLifecycle.Ready)\<rparr>)"

text \<open>The comparison the four freshness functions share.\<close>

definition observed_within :: "u64 \<Rightarrow> u64 \<Rightarrow> u64 \<Rightarrow> bool" where
  "observed_within now observed staleness \<longleftrightarrow> observed \<le> now \<and> now - observed \<le> staleness"

definition capability_fresh :: "Impl \<Rightarrow> AgentRecord \<Rightarrow> bool" where
  "capability_fresh impl r \<longleftrightarrow>
     ag_capability_current r \<and> cp_boot (ag_profile r) = ad_boot (ag_descriptor r)
     \<and> (case cp_capabilities (ag_profile r) of [] \<Rightarrow> True
        | e # _ \<Rightarrow> observed_within (im_now impl) (ce_observed_at_ms e)
                      (capability_staleness_ms (im_policy impl)))"

definition health_fresh :: "Impl \<Rightarrow> AgentRecord \<Rightarrow> bool" where
  "health_fresh impl r \<longleftrightarrow>
     ag_health_current r
     \<and> observed_within (im_now impl) (ho_observed_at_ms (ag_health_observation r))
         (health_staleness_ms (im_policy impl))"

definition availability_fresh :: "Impl \<Rightarrow> AgentRecord \<Rightarrow> bool" where
  "availability_fresh impl r \<longleftrightarrow>
     ag_availability_current r
     \<and> observed_within (im_now impl) (ao_observed_at_ms (ag_availability_observation r))
         (availability_staleness_ms (im_policy impl))"

definition load_fresh :: "Impl \<Rightarrow> AgentRecord \<Rightarrow> bool" where
  "load_fresh impl r \<longleftrightarrow>
     ag_load_current r
     \<and> observed_within (im_now impl) (lo_observed_at_ms (ag_load_observation r))
         (load_staleness_ms (im_policy impl))"

definition lease_current :: "Impl \<Rightarrow> AgentRecord \<Rightarrow> bool" where
  "lease_current impl r \<longleftrightarrow> ag_lease_expires_at_ms r \<noteq> 0 \<and> im_now impl \<le> ag_lease_expires_at_ms r"

definition invalidate_dynamic_evidence :: "AgentRecord \<Rightarrow> AgentRecord" where
  "invalidate_dynamic_evidence r = r\<lparr>
     ag_capability_current := False, ag_health_current := False,
     ag_availability_current := False, ag_load_current := False,
     ag_health := AgentHealth.Unknown, ag_readiness := AgentReadiness.Unknown,
     ag_reachability := AgentReachability.Unknown,
     ag_availability := AgentAvailability.Unknown, ag_lease_expires_at_ms := 0,
     ag_profile := invalidate_evidence (ag_profile r)\<rparr>"

subsection \<open>Accounting\<close>

definition holds_in :: "(Hash128, AssignmentRecord) omap \<Rightarrow> (AssignmentRecord \<Rightarrow> bool) \<Rightarrow> Hash128 \<Rightarrow> bool" where
  "holds_in m P k \<longleftrightarrow> (case om_get m k of None \<Rightarrow> False | Some r \<Rightarrow> P r)"

abbreviation record_active :: "AssignmentRecord \<Rightarrow> bool" where
  "record_active r \<equiv> assignment_state_is_active (ar_state r)"

definition active_assignment_count :: "Impl \<Rightarrow> u64 \<Rightarrow> u32" where
  "active_assignment_count impl a =
     of_nat (card (Set.filter (holds_in (im_assignments impl) record_active)
       (ix_get (im_by_agent impl) a)))"

definition sync_agent_lifecycle_index :: "u64 \<Rightarrow> AgentLifecycle \<Rightarrow> Impl \<Rightarrow> Impl" where
  "sync_agent_lifecycle_index a lc impl = impl\<lparr>
     im_by_lifecycle := ix_insert lc a (ix_erase_all a (im_by_lifecycle impl))\<rparr>"

definition sync_work_lifecycle_index :: "u64 \<Rightarrow> WorkLifecycle \<Rightarrow> Impl \<Rightarrow> Impl" where
  "sync_work_lifecycle_index w lc impl = impl\<lparr>
     im_work_by_lifecycle := ix_insert lc w (ix_erase_all w (im_work_by_lifecycle impl))\<rparr>"

definition refresh_agent_accounting :: "u64 \<Rightarrow> Impl \<Rightarrow> Impl" where
  "refresh_agent_accounting a impl =
     (case om_get (im_agents impl) a of None \<Rightarrow> impl
      | Some r \<Rightarrow>
          let r' = recompute_lifecycle
                     (r\<lparr>ag_active_assignments :=
                        active_assignment_count impl (ad_id (ag_descriptor r))\<rparr>)
          in sync_agent_lifecycle_index (ad_id (ag_descriptor r)) (ag_lifecycle r')
               (impl\<lparr>im_agents := om_put a r' (im_agents impl)\<rparr>))"

definition work_active_count :: "Impl \<Rightarrow> u64 \<Rightarrow> u32" where
  "work_active_count impl w =
     of_nat (card (Set.filter (holds_in (im_assignments impl) record_active)
       (ix_get (im_by_work impl) w)))"

definition work_executing :: "Impl \<Rightarrow> u64 \<Rightarrow> bool" where
  "work_executing impl w \<longleftrightarrow>
     (\<exists>k \<in> ix_get (im_by_work impl) w. holds_in (im_assignments impl)
        (\<lambda>r. ar_state r = AssignmentState.Executing \<or> ar_state r = AssignmentState.Releasing) k)"

definition refresh_work_accounting :: "u64 \<Rightarrow> Impl \<Rightarrow> Impl" where
  "refresh_work_accounting w impl =
     (case om_get (im_work impl) w of None \<Rightarrow> impl
      | Some r \<Rightarrow>
          let q = wq_id (wr_request r);
              active = work_active_count impl q;
              r1 = r\<lparr>wr_current_assignments := active\<rparr>;
              r2 = (if work_is_terminal (wr_lifecycle r1) then r1
                    else if active = 0 then r1\<lparr>wr_lifecycle := WorkLifecycle.Admitted\<rparr>
                    else r1\<lparr>wr_lifecycle := (if work_executing impl q then WorkLifecycle.Executing
                                            else WorkLifecycle.Assigned)\<rparr>)
          in sync_work_lifecycle_index q (wr_lifecycle r2)
               (impl\<lparr>im_work := om_put w r2 (im_work impl)\<rparr>))"

text \<open>close_assignment on the record stored under a key.\<close>

definition closed_record ::
    "u64 \<Rightarrow> AssignmentState \<Rightarrow> InvalidationReason \<Rightarrow> string \<Rightarrow> AssignmentRecord \<Rightarrow> AssignmentRecord" where
  "closed_record now st reason detail r = r\<lparr>
     ar_state := st, ar_invalidation := reason, ar_lease_current := False,
     ar_closed_at_ms := now, ar_reason := detail\<rparr>"

definition decay_recent :: "AgentRecord \<Rightarrow> AgentRecord" where
  "decay_recent r =
     (if ag_recent_assignments r > 0
      then r\<lparr>ag_recent_assignments := (ag_recent_assignments r * 3) div 4\<rparr> else r)"

definition close_assignment ::
    "Hash128 \<Rightarrow> AssignmentState \<Rightarrow> InvalidationReason \<Rightarrow> string \<Rightarrow> Impl \<Rightarrow> Impl" where
  "close_assignment k st reason detail impl =
     (case om_get (im_assignments impl) k of None \<Rightarrow> impl
      | Some r \<Rightarrow>
          if assignment_state_is_terminal (ar_state r) then impl
          else
            let r' = closed_record (im_now impl) st reason detail r;
                b = ar_binding r';
                s1 = impl\<lparr>
                  im_assignments := om_put k r' (im_assignments impl),
                  im_leases := om_adjust (bn_lease b) (\<lambda>l. l\<lparr>ls_current := False\<rparr>) (im_leases impl)\<rparr>;
                s2 = deindex_assignment r' s1;
                s3 = refresh_agent_accounting (bn_agent b)
                       (s2\<lparr>im_agents := om_adjust (bn_agent b) decay_recent (im_agents s2)\<rparr>);
                s4 = refresh_work_accounting (bn_work b) s3
            in s4\<lparr>im_assignments_invalidated := im_assignments_invalidated s4 + 1,
                  im_state_revision := im_state_revision s4 + 1\<rparr>)"

text \<open>
  The loops over all assignments that close the records satisfying a condition: the keys do
  not change while the loop runs, and each record is read when the loop reaches it.
\<close>

definition close_if ::
    "(AssignmentRecord \<Rightarrow> bool) \<Rightarrow> AssignmentState \<Rightarrow> InvalidationReason \<Rightarrow> string
       \<Rightarrow> Hash128 \<Rightarrow> Impl \<Rightarrow> Impl" where
  "close_if P st reason detail k impl =
     (if holds_in (im_assignments impl) P k then close_assignment k st reason detail impl
      else impl)"

definition close_where ::
    "(AssignmentRecord \<Rightarrow> bool) \<Rightarrow> AssignmentState \<Rightarrow> InvalidationReason \<Rightarrow> string \<Rightarrow> Impl \<Rightarrow> Impl" where
  "close_where P st reason detail impl =
     fold (close_if P st reason detail) (om_keys (im_assignments impl)) impl"

definition active_exclusive_assignment :: "Impl \<Rightarrow> u64 \<Rightarrow> Hash128 option" where
  "active_exclusive_assignment impl w =
     (let ids = Set.filter (holds_in (im_assignments impl)
                  (\<lambda>r. record_active r \<and> bn_exclusive (ar_binding r)))
                  (ix_get (im_by_work impl) w)
      in if ids = {} then None else Some (Min ids))"

definition active_assignments_on_agent :: "Impl \<Rightarrow> u64 \<Rightarrow> u64 \<Rightarrow> u32" where
  "active_assignments_on_agent impl w a =
     of_nat (card (Set.filter (holds_in (im_assignments impl)
       (\<lambda>r. record_active r \<and> bn_agent (ar_binding r) = a)) (ix_get (im_by_work impl) w)))"

subsection \<open>Bindings and authority\<close>

definition build_binding :: "Impl \<Rightarrow> WorkRecord \<Rightarrow> AgentRecord \<Rightarrow> u64 \<Rightarrow> u32 \<Rightarrow> AssignmentBinding" where
  "build_binding impl w a generation replica_index =
     (let q = wr_request w; rq = wq_requirements q; d = ag_descriptor a;
          b0 = \<lparr> bn_id = hash128_zero, bn_generation = generation, bn_work = wq_id q,
                 bn_work_generation = wq_generation q, bn_agent = ad_id d,
                 bn_agent_generation = ad_generation d, bn_boot = ad_boot d,
                 bn_scheduler = im_scheduler_id impl,
                 bn_scheduler_epoch = im_scheduler_epoch impl,
                 bn_coordinator_epoch = im_coordinator_epoch impl,
                 bn_policy = po_id (im_policy impl),
                 bn_policy_generation = po_generation (im_policy impl),
                 bn_capability_profile = cp_profile_id (ag_profile a),
                 bn_capability_generation = cp_generation (ag_profile a),
                 bn_resource_generation = rq_resource_generation rq,
                 bn_budget_generation = rq_budget_generation rq,
                 bn_slo_generation = rq_slo_generation rq,
                 bn_reservation_generation = rq_reservation_generation rq,
                 bn_queue = wq_queue q, bn_queue_generation = wq_queue_generation q,
                 bn_lease = hash128_zero, bn_lease_generation = generation,
                 bn_dispatch = hash128_zero, bn_dispatch_generation = generation,
                 bn_placement_domain = ad_placement_domain d,
                 bn_topology_epoch = ad_topology_epoch d,
                 bn_created_at_ms = im_now impl,
                 bn_lease_expires_at_ms =
                   im_now impl + assignment_lease_ttl_ms (im_policy impl),
                 bn_replica_index = replica_index,
                 bn_exclusive = (wq_mode q = SchedulingMode.Exclusive) \<rparr>;
          b1 = b0\<lparr>bn_id := derive_assignment_id b0\<rparr>;
          b2 = b1\<lparr>bn_lease := derive_lease_id b1\<rparr>
      in b2\<lparr>bn_dispatch := derive_dispatch_id b2\<rparr>)"

definition evaluate_feasibility :: "Impl \<Rightarrow> WorkRecord \<Rightarrow> ExternalFeasibilityResult" where
  "evaluate_feasibility impl w =
     (case im_feasibility impl of
        None \<Rightarrow> declared_feasibility (wr_request w)
      | Some evaluate \<Rightarrow> evaluate (feasibility_request (wr_request w)))"

text \<open>The four feasibility checks, in order, with the detail each caller reports.\<close>

definition feasibility_problem ::
    "WorkRequirements \<Rightarrow> ExternalFeasibilityResult
       \<Rightarrow> (string \<Rightarrow> FeasibilityVerdict \<Rightarrow> string) \<Rightarrow> (ScheduleOutcome \<times> string) option" where
  "feasibility_problem rq f detail = first_some
     [guard (rq_require_resource_feasibility rq \<and> fr_resource f \<noteq> FeasibilityVerdict.Feasible)
        (ScheduleOutcome.RejectResourceFeasibility, detail ''resource'' (fr_resource f)),
      guard (rq_require_budget_feasibility rq \<and> fr_budget f \<noteq> FeasibilityVerdict.Feasible)
        (ScheduleOutcome.RejectBudget, detail ''budget'' (fr_budget f)),
      guard (rq_require_slo_feasibility rq \<and> fr_slo f \<noteq> FeasibilityVerdict.Feasible)
        (ScheduleOutcome.RejectSlo, detail ''slo'' (fr_slo f)),
      guard (rq_require_reservation rq \<and> fr_reservation f \<noteq> FeasibilityVerdict.Feasible)
        (ScheduleOutcome.RejectReservation, detail ''reservation'' (fr_reservation f))]"

lemma feasibility_problem_None [simp]:
  "feasibility_problem rq f d = None \<longleftrightarrow> feasibility_met rq f"
  by (auto simp: feasibility_problem_def feasibility_met_def)

definition revalidate_work ::
    "Impl \<Rightarrow> AssignmentBinding \<Rightarrow> WorkRecord \<Rightarrow> (ScheduleOutcome \<times> string) option" where
  "revalidate_work impl b w = first_some
     [guard (wq_generation (wr_request w) \<noteq> bn_work_generation b)
        (ScheduleOutcome.RejectStaleWorkGeneration, ''work generation moved''),
      guard (wr_lifecycle w = WorkLifecycle.Cancelled)
        (ScheduleOutcome.RejectCancelled, ''work is cancelled''),
      guard (wr_lifecycle w = WorkLifecycle.Superseded)
        (ScheduleOutcome.RejectSuperseded, ''work is superseded''),
      guard (work_is_terminal (wr_lifecycle w))
        (ScheduleOutcome.RejectExpired, ''work is terminal''),
      guard (rq_deadline_ms (wq_requirements (wr_request w)) \<noteq> 0
             \<and> im_now impl > rq_deadline_ms (wq_requirements (wr_request w)))
        (ScheduleOutcome.RejectDeadline, ''work deadline passed'')]"

definition revalidate_agent ::
    "Impl \<Rightarrow> AssignmentBinding \<Rightarrow> WorkRecord \<Rightarrow> AgentRecord \<Rightarrow> (ScheduleOutcome \<times> string) option" where
  "revalidate_agent impl b w a =
     (let rq = wq_requirements (wr_request w) in first_some
        [guard (ad_generation (ag_descriptor a) \<noteq> bn_agent_generation b)
           (ScheduleOutcome.RejectStaleAgentGeneration, ''agent generation moved''),
         guard (ad_boot (ag_descriptor a) \<noteq> bn_boot b)
           (ScheduleOutcome.RejectStaleAgentBoot, ''agent incarnation replaced''),
         guard (boot_is_fenced impl (bn_boot b))
           (ScheduleOutcome.RejectFenced, ''agent incarnation is fenced''),
         guard (ag_lifecycle a = AgentLifecycle.Lost \<or> ag_lifecycle a = AgentLifecycle.Retired)
           (ScheduleOutcome.RejectLifecycle, ''agent is lost or retired''),
         guard (ag_lifecycle a = AgentLifecycle.Draining)
           (ScheduleOutcome.RejectDrain, ''agent is draining''),
         guard (cp_generation (ag_profile a) \<noteq> bn_capability_generation b
                \<or> cp_profile_id (ag_profile a) \<noteq> bn_capability_profile b
                \<or> cp_boot (ag_profile a) \<noteq> bn_boot b \<or> \<not> capability_fresh impl a)
           (ScheduleOutcome.RejectStaleCapability, ''capability evidence moved or is stale''),
         guard (rq_require_current_lease rq \<and> \<not> lease_current impl a)
           (ScheduleOutcome.RejectLeaseExpired, ''registration lease is not current''),
         guard (rq_require_healthy rq
                \<and> (\<not> health_fresh impl a \<or> ag_health a = AgentHealth.Unknown
                   \<or> ag_health a = AgentHealth.Unhealthy))
           (ScheduleOutcome.RejectHealth, ''health evidence is not current''),
         guard (rq_require_reachable rq
                \<and> (\<not> availability_fresh impl a
                   \<or> ag_reachability a \<noteq> AgentReachability.Reachable))
           (ScheduleOutcome.RejectReachability, ''reachability evidence is not current''),
         feasibility_problem rq (evaluate_feasibility impl w)
           (\<lambda>axis _. axis @ '' feasibility is not current'')])"

definition revalidate_authority :: "Impl \<Rightarrow> AssignmentRecord \<Rightarrow> (ScheduleOutcome \<times> string) option" where
  "revalidate_authority impl r =
     (let b = ar_binding r in first_some
        [guard (im_shutting_down impl \<and> \<not> assignment_state_is_dispatchable (ar_state r))
           (ScheduleOutcome.ShuttingDown, ''scheduler is shutting down''),
         guard (bn_scheduler b \<noteq> im_scheduler_id impl
                \<or> bn_scheduler_epoch b \<noteq> im_scheduler_epoch impl)
           (ScheduleOutcome.RejectStaleSchedulerEpoch, ''scheduler epoch moved''),
         guard (bn_coordinator_epoch b \<noteq> im_coordinator_epoch impl)
           (ScheduleOutcome.RejectStaleCoordinatorEpoch, ''coordinator epoch moved''),
         guard (bn_policy b \<noteq> po_id (im_policy impl)
                \<or> bn_policy_generation b \<noteq> po_generation (im_policy impl))
           (ScheduleOutcome.RejectStalePolicy, ''policy generation moved''),
         (case om_get (im_work impl) (bn_work b) of
            None \<Rightarrow> Some (ScheduleOutcome.RejectInvalidRequest, ''work item is not known'')
          | Some w \<Rightarrow> first_some
              [revalidate_work impl b w,
               (case om_get (im_agents impl) (bn_agent b) of
                  None \<Rightarrow> Some (ScheduleOutcome.RejectStaleAgentGeneration, ''agent is not known'')
                | Some a \<Rightarrow> revalidate_agent impl b w a)])])"

subsection \<open>Fairness order\<close>

record FairnessKey =
  fk_effective_priority :: int
  fk_bypass_count :: u32
  fk_bypass_ceiling :: u32
  fk_must_run :: bool
  fk_admitted_sequence :: u64
  fk_admitted_at_ms :: u64

definition fairness_key :: "Impl \<Rightarrow> WorkRecord \<Rightarrow> FairnessKey" where
  "fairness_key impl w =
     (let q = wr_request w; policy = im_policy impl;
          ceiling = bypass_ceiling policy (wq_fairness_class q);
          aging_step = (ucast (max 1 (aging_rounds_per_step policy)) :: u64);
          credit = (ucast (wr_bypass_count w) :: u64) div aging_step;
          cap = (ucast (max 1 (max_priority_bypass policy)) :: u64);
          credit' = (if credit > cap then cap else credit)
      in \<lparr> fk_effective_priority = uint (wq_priority q) + sint credit',
           fk_bypass_count = wr_bypass_count w,
           fk_bypass_ceiling = ceiling,
           fk_must_run = (\<not> allow_unbounded_starvation policy \<and> wr_bypass_count w \<ge> ceiling),
           fk_admitted_sequence = wr_admitted_sequence w,
           fk_admitted_at_ms = wr_admitted_at_ms w \<rparr>)"

definition pressure_ratio :: "FairnessKey \<Rightarrow> u64" where
  "pressure_ratio k =
     (if fk_bypass_ceiling k = 0 then ucast (fk_bypass_count k)
      else (ucast (fk_bypass_count k) * 1024) div ucast (fk_bypass_ceiling k))"

definition fairness_before :: "FairnessKey \<Rightarrow> FairnessKey \<Rightarrow> bool" where
  "fairness_before l r =
     (if fk_must_run l \<noteq> fk_must_run r then fk_must_run l
      else if fk_must_run l \<and> fk_must_run r
      then if pressure_ratio l \<noteq> pressure_ratio r then pressure_ratio l > pressure_ratio r
           else fk_admitted_sequence l < fk_admitted_sequence r
      else if fk_effective_priority l \<noteq> fk_effective_priority r
      then fk_effective_priority l > fk_effective_priority r
      else fk_admitted_sequence l < fk_admitted_sequence r)"

end
