(* ===== verification/Persisted_Entries.thy ===== *)
theory Persisted_Entries
  imports Persisted_Records State_Maintenance
begin

section \<open>The entries of a saved state\<close>

text \<open>
  The writers and readers of persistence.cpp for work requests, whose verdicts are checked
  after the last field, and for the entries of the sections: queues, tenants, agents, work
  items, assignments, leases and fences. What a reader returns is the record before the
  recovery resets its dynamic parts.
\<close>

subsection \<open>The fields of an entry\<close>

lemma stored_Cons_any:
  assumes "storing_format p g f (\<lambda>_. True)"
    and "\<And>x. storing_format (\<lambda>t. seq_puts (P t)) (seq_gets S (upd (f x) r)) img (\<lambda>t. ok t \<and> sel t = x)"
  shows "storing_format (\<lambda>t. seq_puts (p (sel t) # P t)) (seq_gets (into g upd # S) r) img ok"
  by (rule stored_Cons [OF assms(1) TrueI]) (rule assms(2))

lemmas stored_exact_any = stored_Cons_any [OF wire_format_storing]

lemmas [stored_fields] =
  stored_exact_any [OF u8_format.wire_format_axioms] stored_exact_any [OF u32_format.wire_format_axioms]
  stored_exact_any [OF u64_format.wire_format_axioms] stored_exact_any [OF bool_format.wire_format_axioms]
  stored_exact_any [OF hash128_format.wire_format_axioms]
  stored_exact [OF string_format.wire_format_axioms] stored_exact [OF strings_format.wire_format_axioms]
  stored_exact [OF ids_format.wire_format_axioms]
  stored_exact_any [OF requirement_mode_format.wire_format_axioms]
  stored_exact_any [OF capability_state_format.wire_format_axioms]
  stored_exact_any [OF scheduling_mode_format.wire_format_axioms]
  stored_exact [OF stored_descriptor_format.wire_format_axioms]
  stored_exact [OF stored_capabilities_format.wire_format_axioms]
  stored_exact_any [OF stored_binding_format.wire_format_axioms]

subsection \<open>Work requests\<close>

definition write_capability_requirement :: "ResourceLimits \<Rightarrow> CapabilityRequirement \<Rightarrow> writer" where
  "write_capability_requirement l c = seq_puts
     [put_string (cr_name c) (max_identifier_size l),
      put_u8 (of_nat (requirement_mode_code (cr_mode c))),
      put_u8 (of_nat (capability_state_code (cr_minimum_state c))), put_u32 (cr_minimum_quality c)]"

definition read_capability_requirement :: "ResourceLimits \<Rightarrow> CapabilityRequirement reader" where
  "read_capability_requirement l = seq_gets
     [into (get_string (max_identifier_size l)) (\<lambda>v c. c\<lparr>cr_name := v\<rparr>),
      into (checked_enum requirement_mode_values ''capability requirement mode'')
        (\<lambda>v c. c\<lparr>cr_mode := v\<rparr>),
      into (checked_enum capability_state_values ''capability minimum state'')
        (\<lambda>v c. c\<lparr>cr_minimum_state := v\<rparr>),
      into get_u32 (\<lambda>v c. c\<lparr>cr_minimum_quality := v\<rparr>)]
     default_capability_requirement"

definition stored_capability_requirement_fits :: "ResourceLimits \<Rightarrow> CapabilityRequirement \<Rightarrow> bool" where
  "stored_capability_requirement_fits l c \<longleftrightarrow>
     length (cr_name c) \<le> unat (max_identifier_size l)"

interpretation stored_capability_requirement_format: wire_format "write_capability_requirement l" "read_capability_requirement l"
    "stored_capability_requirement_fits l" for l
  unfolding write_capability_requirement_def [abs_def] read_capability_requirement_def
  by (rule struct_fields struct_Nil | (simp add: stored_capability_requirement_fits_def; fail))+
    (auto simp: stored_capability_requirement_fits_def default_capability_requirement_def intro!: CapabilityRequirement.equality)

lemmas [struct_fields] = struct_Cons [OF stored_capability_requirement_format.wire_format_axioms]

lemmas [stored_fields] = stored_exact [OF stored_capability_requirement_format.list_format]

text \<open>
  The reader stores the four verdicts without looking at them and checks them at the end. The
  record under construction carries them as bytes.
\<close>

record RawRequirements = WorkRequirements +
  rr_resource :: u8
  rr_budget :: u8
  rr_slo :: u8
  rr_reservation :: u8

definition default_raw_requirements :: RawRequirements where
  "default_raw_requirements = WorkRequirements.extend default_requirements (RawRequirements.fields 0 0 0 0)"

definition raw_requirements :: "WorkRequirements \<Rightarrow> RawRequirements" where
  "raw_requirements q = WorkRequirements.extend
     (q\<lparr>rq_resource_feasibility := FeasibilityVerdict.Unknown,
        rq_budget_feasibility := FeasibilityVerdict.Unknown,
        rq_slo_feasibility := FeasibilityVerdict.Unknown,
        rq_reservation_feasibility := FeasibilityVerdict.Unknown\<rparr>)
     (RawRequirements.fields (of_nat (feasibility_verdict_code (rq_resource_feasibility q)))
        (of_nat (feasibility_verdict_code (rq_budget_feasibility q)))
        (of_nat (feasibility_verdict_code (rq_slo_feasibility q)))
        (of_nat (feasibility_verdict_code (rq_reservation_feasibility q))))"

definition verdict_of :: "u8 \<Rightarrow> FeasibilityVerdict" where
  "verdict_of v = feasibility_verdict_values ! unat v"

definition checked_verdicts :: "RawRequirements \<Rightarrow> WorkRequirements reader" where
  "checked_verdicts q =
     (if rr_resource q > 2 \<or> rr_budget q > 2 \<or> rr_slo q > 2 \<or> rr_reservation q > 2
      then fail_get ''feasibility verdict is out of range''
      else return_get ((WorkRequirements.truncate q)
             \<lparr>rq_resource_feasibility := verdict_of (rr_resource q),
              rq_budget_feasibility := verdict_of (rr_budget q),
              rq_slo_feasibility := verdict_of (rr_slo q),
              rq_reservation_feasibility := verdict_of (rr_reservation q)\<rparr>))"

interpretation verdict_byte_format: storing_format
    "\<lambda>v. put_u8 (of_nat (feasibility_verdict_code v))" get_u8
    "\<lambda>v. of_nat (feasibility_verdict_code v)" "\<lambda>_. True"
  by unfold_locales (rule u8_format.encodable, simp)

lemmas [stored_fields] = stored_Cons_any [OF verdict_byte_format.storing_format_axioms]

definition write_requirements :: "ResourceLimits \<Rightarrow> WorkRequirements \<Rightarrow> writer" where
  "write_requirements l q = seq_puts
     [put_list (write_capability_requirement l) (rq_capabilities q), put_u64 (rq_tenant q),
      put_u64 (rq_name_space q),
      put_list (\<lambda>s. put_string s (max_identifier_size l)) (rq_required_policy_labels q),
      put_list put_u64 (rq_affinity q), put_list put_u64 (rq_anti_affinity q),
      put_bool (rq_restrict_placement_domain q), put_u64 (rq_placement_domain q),
      put_u64 (rq_topology_epoch q), put_bool (rq_require_healthy q),
      put_bool (rq_require_reachable q), put_bool (rq_require_ready q),
      put_bool (rq_require_current_lease q), put_bool (rq_require_resource_feasibility q),
      put_u64 (rq_resource_generation q),
      put_u8 (of_nat (feasibility_verdict_code (rq_resource_feasibility q))),
      put_bool (rq_require_budget_feasibility q), put_u64 (rq_budget_generation q),
      put_u8 (of_nat (feasibility_verdict_code (rq_budget_feasibility q))),
      put_bool (rq_require_slo_feasibility q), put_u64 (rq_slo_generation q),
      put_u8 (of_nat (feasibility_verdict_code (rq_slo_feasibility q))),
      put_bool (rq_require_reservation q), put_u64 (rq_reservation_generation q),
      put_u8 (of_nat (feasibility_verdict_code (rq_reservation_feasibility q))),
      put_bool (rq_require_warm_state q),
      put_list (\<lambda>s. put_string s (max_identifier_size l)) (rq_warm_state_keys q),
      put_u64 (rq_deadline_ms q), put_u32 (rq_max_parallel q),
      put_u32 (rq_max_assignments_per_agent q)]"

definition read_raw_requirements :: "ResourceLimits \<Rightarrow> RawRequirements reader" where
  "read_raw_requirements l = seq_gets
     [into (get_list (max_capability_requirements l)
          ''capability requirement count exceeds the configured maximum'' (read_capability_requirement l))
        (\<lambda>v q. q\<lparr>rq_capabilities := v\<rparr>),
      into get_u64 (\<lambda>v q. q\<lparr>rq_tenant := v\<rparr>),
      into get_u64 (\<lambda>v q. q\<lparr>rq_name_space := v\<rparr>),
      into (get_list (max_policy_labels l)
          ''policy label count exceeds the configured maximum'' (get_string (max_identifier_size l)))
        (\<lambda>v q. q\<lparr>rq_required_policy_labels := v\<rparr>),
      into (get_list (max_affinity_entries l)
          ''affinity count exceeds the configured maximum'' get_u64)
        (\<lambda>v q. q\<lparr>rq_affinity := v\<rparr>),
      into (get_list (max_affinity_entries l)
          ''anti-affinity count exceeds the configured maximum'' get_u64)
        (\<lambda>v q. q\<lparr>rq_anti_affinity := v\<rparr>),
      into get_bool (\<lambda>v q. q\<lparr>rq_restrict_placement_domain := v\<rparr>),
      into get_u64 (\<lambda>v q. q\<lparr>rq_placement_domain := v\<rparr>),
      into get_u64 (\<lambda>v q. q\<lparr>rq_topology_epoch := v\<rparr>),
      into get_bool (\<lambda>v q. q\<lparr>rq_require_healthy := v\<rparr>),
      into get_bool (\<lambda>v q. q\<lparr>rq_require_reachable := v\<rparr>),
      into get_bool (\<lambda>v q. q\<lparr>rq_require_ready := v\<rparr>),
      into get_bool (\<lambda>v q. q\<lparr>rq_require_current_lease := v\<rparr>),
      into get_bool (\<lambda>v q. q\<lparr>rq_require_resource_feasibility := v\<rparr>),
      into get_u64 (\<lambda>v q. q\<lparr>rq_resource_generation := v\<rparr>),
      into get_u8 (\<lambda>v q. q\<lparr>rr_resource := v\<rparr>),
      into get_bool (\<lambda>v q. q\<lparr>rq_require_budget_feasibility := v\<rparr>),
      into get_u64 (\<lambda>v q. q\<lparr>rq_budget_generation := v\<rparr>),
      into get_u8 (\<lambda>v q. q\<lparr>rr_budget := v\<rparr>),
      into get_bool (\<lambda>v q. q\<lparr>rq_require_slo_feasibility := v\<rparr>),
      into get_u64 (\<lambda>v q. q\<lparr>rq_slo_generation := v\<rparr>),
      into get_u8 (\<lambda>v q. q\<lparr>rr_slo := v\<rparr>),
      into get_bool (\<lambda>v q. q\<lparr>rq_require_reservation := v\<rparr>),
      into get_u64 (\<lambda>v q. q\<lparr>rq_reservation_generation := v\<rparr>),
      into get_u8 (\<lambda>v q. q\<lparr>rr_reservation := v\<rparr>),
      into get_bool (\<lambda>v q. q\<lparr>rq_require_warm_state := v\<rparr>),
      into (get_list (max_warm_state_keys l)
          ''warm state key count exceeds the configured maximum'' (get_string (max_identifier_size l)))
        (\<lambda>v q. q\<lparr>rq_warm_state_keys := v\<rparr>),
      into get_u64 (\<lambda>v q. q\<lparr>rq_deadline_ms := v\<rparr>),
      into get_u32 (\<lambda>v q. q\<lparr>rq_max_parallel := v\<rparr>),
      into get_u32 (\<lambda>v q. q\<lparr>rq_max_assignments_per_agent := v\<rparr>)]
     default_raw_requirements"

definition stored_requirements_fits :: "ResourceLimits \<Rightarrow> WorkRequirements \<Rightarrow> bool" where
  "stored_requirements_fits l q \<longleftrightarrow>
     length (rq_capabilities q) \<le> unat (max_capability_requirements l)
     \<and> (\<forall>x \<in> set (rq_capabilities q). stored_capability_requirement_fits l x)
     \<and> length (rq_required_policy_labels q) \<le> unat (max_policy_labels l)
     \<and> (\<forall>s \<in> set (rq_required_policy_labels q). length s \<le> unat (max_identifier_size l))
     \<and> length (rq_affinity q) \<le> unat (max_affinity_entries l)
     \<and> length (rq_anti_affinity q) \<le> unat (max_affinity_entries l)
     \<and> length (rq_warm_state_keys q) \<le> unat (max_warm_state_keys l)
     \<and> (\<forall>s \<in> set (rq_warm_state_keys q). length s \<le> unat (max_identifier_size l))"

definition read_requirements :: "ResourceLimits \<Rightarrow> WorkRequirements reader" where
  "read_requirements l = bind_get (read_raw_requirements l) checked_verdicts"

interpretation raw_requirements_format: storing_format "write_requirements l" "read_raw_requirements l"
    raw_requirements "stored_requirements_fits l" for l
  unfolding write_requirements_def [abs_def] read_raw_requirements_def
  by (rule stored_fields stored_Nil | (simp add: stored_requirements_fits_def; fail))+
    (auto simp: raw_requirements_def default_raw_requirements_def default_requirements_def
      WorkRequirements.defs RawRequirements.defs intro!: RawRequirements.equality)

lemma verdict_of_code [simp]:
  "verdict_of (of_nat (feasibility_verdict_code v)) = v"
  "\<not> (of_nat (feasibility_verdict_code v) :: u8) > 2"
  by (cases v; simp add: verdict_of_def feasibility_verdict_values_def)+

interpretation stored_requirements_format: storing_format "write_requirements l" "read_requirements l"
    "\<lambda>q. q" "stored_requirements_fits l" for l
  unfolding read_requirements_def
proof (rule stored_checked [OF raw_requirements_format.storing_format_axioms])
  fix q rest
  have "rr_resource (raw_requirements q) = of_nat (feasibility_verdict_code (rq_resource_feasibility q))"
    "rr_budget (raw_requirements q) = of_nat (feasibility_verdict_code (rq_budget_feasibility q))"
    "rr_slo (raw_requirements q) = of_nat (feasibility_verdict_code (rq_slo_feasibility q))"
    "rr_reservation (raw_requirements q) = of_nat (feasibility_verdict_code (rq_reservation_feasibility q))"
    by (simp_all add: raw_requirements_def WorkRequirements.defs RawRequirements.defs)
  moreover have "WorkRequirements.truncate (raw_requirements q) =
      q\<lparr>rq_resource_feasibility := FeasibilityVerdict.Unknown,
        rq_budget_feasibility := FeasibilityVerdict.Unknown,
        rq_slo_feasibility := FeasibilityVerdict.Unknown,
        rq_reservation_feasibility := FeasibilityVerdict.Unknown\<rparr>"
    by (simp add: raw_requirements_def WorkRequirements.defs RawRequirements.defs)
  ultimately show "checked_verdicts (raw_requirements q) rest = Inr (q, rest)"
    by (simp add: checked_verdicts_def return_get_def del: of_nat_numeral)
qed

lemmas [stored_fields] = stored_Cons [OF stored_requirements_format.storing_format_axioms]

definition write_work_request :: "ResourceLimits \<Rightarrow> WorkRequest \<Rightarrow> writer" where
  "write_work_request l w = seq_puts
     [put_u64 (wq_id w), put_u64 (wq_generation w), put_u64 (wq_queue w),
      put_u64 (wq_queue_generation w), put_string (wq_kind w) (max_identifier_size l),
      put_u32 (wq_priority w), put_string (wq_fairness_class w) (max_identifier_size l),
      put_u8 (of_nat (scheduling_mode_code (wq_mode w))),
      put_string (wq_payload_ref w) (max_string_size l), put_u64 (wq_earliest_start_ms w),
      put_u64 (wq_expected_duration_ms w), write_requirements l (wq_requirements w)]"

definition read_work_request :: "ResourceLimits \<Rightarrow> WorkRequest reader" where
  "read_work_request l = seq_gets
     [into get_u64 (\<lambda>v w. w\<lparr>wq_id := v\<rparr>),
      into get_u64 (\<lambda>v w. w\<lparr>wq_generation := v\<rparr>),
      into get_u64 (\<lambda>v w. w\<lparr>wq_queue := v\<rparr>),
      into get_u64 (\<lambda>v w. w\<lparr>wq_queue_generation := v\<rparr>),
      into (get_string (max_identifier_size l)) (\<lambda>v w. w\<lparr>wq_kind := v\<rparr>),
      into get_u32 (\<lambda>v w. w\<lparr>wq_priority := v\<rparr>),
      into (get_string (max_identifier_size l))
        (\<lambda>v w. w\<lparr>wq_fairness_class := v\<rparr>),
      into (checked_enum scheduling_mode_values ''scheduling mode'')
        (\<lambda>v w. w\<lparr>wq_mode := v\<rparr>),
      into (get_string (max_string_size l)) (\<lambda>v w. w\<lparr>wq_payload_ref := v\<rparr>),
      into get_u64 (\<lambda>v w. w\<lparr>wq_earliest_start_ms := v\<rparr>),
      into get_u64 (\<lambda>v w. w\<lparr>wq_expected_duration_ms := v\<rparr>),
      into (read_requirements l) (\<lambda>v w. w\<lparr>wq_requirements := v\<rparr>)]
     default_work_request"

definition stored_work_request_fits :: "ResourceLimits \<Rightarrow> WorkRequest \<Rightarrow> bool" where
  "stored_work_request_fits l w \<longleftrightarrow>
     length (wq_kind w) \<le> unat (max_identifier_size l)
     \<and> length (wq_fairness_class w) \<le> unat (max_identifier_size l)
     \<and> length (wq_payload_ref w) \<le> unat (max_string_size l)
     \<and> stored_requirements_fits l (wq_requirements w)"

interpretation stored_work_request_format: storing_format "write_work_request l" "read_work_request l"
    "\<lambda>x. x" "stored_work_request_fits l" for l
  unfolding write_work_request_def [abs_def] read_work_request_def
  by (rule stored_fields stored_Nil | (simp add: stored_work_request_fits_def; fail))+

lemmas [stored_fields] = stored_Cons [OF stored_work_request_format.storing_format_axioms]

subsection \<open>Queues, tenants, leases and fences\<close>

definition write_queue :: "ResourceLimits \<Rightarrow> QueueRecord \<Rightarrow> writer" where
  "write_queue l r = seq_puts
     [put_u64 (qr_id r), put_u64 (qr_generation r),
      put_string (qr_fairness_class r) (max_identifier_size l), put_u32 (qr_weight r),
      put_u64 (qr_admitted_count r), put_u64 (qr_assigned_count r), put_u64 (qr_completed_count r),
      put_u64 (qr_cancelled_count r)]"

definition read_queue :: "ResourceLimits \<Rightarrow> QueueRecord reader" where
  "read_queue l = seq_gets
     [into get_u64 (\<lambda>v r. r\<lparr>qr_id := v\<rparr>),
      into get_u64 (\<lambda>v r. r\<lparr>qr_generation := v\<rparr>),
      into (get_string (max_identifier_size l))
        (\<lambda>v r. r\<lparr>qr_fairness_class := v\<rparr>),
      into get_u32 (\<lambda>v r. r\<lparr>qr_weight := v\<rparr>),
      into get_u64 (\<lambda>v r. r\<lparr>qr_admitted_count := v\<rparr>),
      into get_u64 (\<lambda>v r. r\<lparr>qr_assigned_count := v\<rparr>),
      into get_u64 (\<lambda>v r. r\<lparr>qr_completed_count := v\<rparr>),
      into get_u64 (\<lambda>v r. r\<lparr>qr_cancelled_count := v\<rparr>)]
     default_queue_record"

definition stored_queue_fits :: "ResourceLimits \<Rightarrow> QueueRecord \<Rightarrow> bool" where
  "stored_queue_fits l r \<longleftrightarrow>
     length (qr_fairness_class r) \<le> unat (max_identifier_size l)"

interpretation stored_queue_format: storing_format "write_queue l" "read_queue l"
    "\<lambda>x. x" "stored_queue_fits l" for l
  unfolding write_queue_def [abs_def] read_queue_def
  by (rule stored_fields stored_Nil | (simp add: stored_queue_fits_def; fail))+

lemmas [stored_fields] = stored_Cons [OF stored_queue_format.storing_format_axioms]

definition write_tenant :: "ResourceLimits \<Rightarrow> TenantRecord \<Rightarrow> writer" where
  "write_tenant l r = seq_puts
     [put_u64 (tr_id r), put_u64 (tr_admitted_count r), put_u64 (tr_active_assignments r)]"

definition read_tenant :: "ResourceLimits \<Rightarrow> TenantRecord reader" where
  "read_tenant l = seq_gets
     [into get_u64 (\<lambda>v r. r\<lparr>tr_id := v\<rparr>),
      into get_u64 (\<lambda>v r. r\<lparr>tr_admitted_count := v\<rparr>),
      into get_u64 (\<lambda>v r. r\<lparr>tr_active_assignments := v\<rparr>)]
     default_tenant_record"

interpretation stored_tenant_format: storing_format "write_tenant l" "read_tenant l"
    "\<lambda>x. x" "\<lambda>_. True" for l
  unfolding write_tenant_def [abs_def] read_tenant_def
  by (rule stored_fields stored_Nil)+
    (auto simp: default_tenant_record_def intro!: TenantRecord.equality)

lemmas [stored_fields] = stored_Cons_any [OF stored_tenant_format.storing_format_axioms]

text \<open>A lease is stored without its currency.\<close>

definition default_lease :: Lease where
  "default_lease =
     \<lparr> ls_id = hash128_zero, ls_generation = 0, ls_assignment = hash128_zero,
       ls_assignment_generation = 0, ls_agent = 0, ls_boot = hash128_zero, ls_granted_at_ms = 0,
       ls_expires_at_ms = 0, ls_current = False \<rparr>"

definition write_lease :: "ResourceLimits \<Rightarrow> Lease \<Rightarrow> writer" where
  "write_lease l x = seq_puts
     [put_hash128 (ls_id x), put_u64 (ls_generation x), put_hash128 (ls_assignment x),
      put_u64 (ls_assignment_generation x), put_u64 (ls_agent x), put_hash128 (ls_boot x),
      put_u64 (ls_granted_at_ms x), put_u64 (ls_expires_at_ms x)]"

definition read_lease :: "ResourceLimits \<Rightarrow> Lease reader" where
  "read_lease l = seq_gets
     [into get_hash128 (\<lambda>v x. x\<lparr>ls_id := v\<rparr>),
      into get_u64 (\<lambda>v x. x\<lparr>ls_generation := v\<rparr>),
      into get_hash128 (\<lambda>v x. x\<lparr>ls_assignment := v\<rparr>),
      into get_u64 (\<lambda>v x. x\<lparr>ls_assignment_generation := v\<rparr>),
      into get_u64 (\<lambda>v x. x\<lparr>ls_agent := v\<rparr>),
      into get_hash128 (\<lambda>v x. x\<lparr>ls_boot := v\<rparr>),
      into get_u64 (\<lambda>v x. x\<lparr>ls_granted_at_ms := v\<rparr>),
      into get_u64 (\<lambda>v x. x\<lparr>ls_expires_at_ms := v\<rparr>)]
     default_lease"

definition stored_lease :: "Lease \<Rightarrow> Lease" where
  "stored_lease x = x\<lparr>ls_current := False\<rparr>"

interpretation stored_lease_format: storing_format "write_lease l" "read_lease l"
    "stored_lease" "\<lambda>_. True" for l
  unfolding write_lease_def [abs_def] read_lease_def
  by (rule stored_fields stored_Nil)+
    (auto simp: default_lease_def stored_lease_def intro!: Lease.equality)

lemmas [stored_fields] = stored_Cons_any [OF stored_lease_format.storing_format_axioms]

definition default_fence :: FencedBoot where
  "default_fence =
     \<lparr> fb_agent = 0, fb_boot = hash128_zero, fb_generation = 0, fb_fenced_at_ms = 0, fb_reason = [] \<rparr>"

definition write_fence :: "ResourceLimits \<Rightarrow> FencedBoot \<Rightarrow> writer" where
  "write_fence l f = seq_puts
     [put_u64 (fb_agent f), put_hash128 (fb_boot f), put_u64 (fb_generation f),
      put_u64 (fb_fenced_at_ms f), put_string (fb_reason f) (max_string_size l)]"

definition read_fence :: "ResourceLimits \<Rightarrow> FencedBoot reader" where
  "read_fence l = seq_gets
     [into get_u64 (\<lambda>v f. f\<lparr>fb_agent := v\<rparr>),
      into get_hash128 (\<lambda>v f. f\<lparr>fb_boot := v\<rparr>),
      into get_u64 (\<lambda>v f. f\<lparr>fb_generation := v\<rparr>),
      into get_u64 (\<lambda>v f. f\<lparr>fb_fenced_at_ms := v\<rparr>),
      into (get_string (max_string_size l)) (\<lambda>v f. f\<lparr>fb_reason := v\<rparr>)]
     default_fence"

definition stored_fence_fits :: "ResourceLimits \<Rightarrow> FencedBoot \<Rightarrow> bool" where
  "stored_fence_fits l f \<longleftrightarrow>
     length (fb_reason f) \<le> unat (max_string_size l)"

interpretation stored_fence_format: storing_format "write_fence l" "read_fence l"
    "\<lambda>x. x" "stored_fence_fits l" for l
  unfolding write_fence_def [abs_def] read_fence_def
  by (rule stored_fields stored_Nil | (simp add: stored_fence_fits_def; fail))+

lemmas [stored_fields] = stored_Cons [OF stored_fence_format.storing_format_axioms]

subsection \<open>Agents\<close>

definition kLifecycleNormal :: u8 where "kLifecycleNormal = 0"
definition kLifecycleRetired :: u8 where "kLifecycleRetired = 1"
definition kLifecycleLost :: u8 where "kLifecycleLost = 2"

definition lifecycle_hint :: "AgentLifecycle \<Rightarrow> u8" where
  "lifecycle_hint v =
     (case v of AgentLifecycle.Retired \<Rightarrow> kLifecycleRetired
      | AgentLifecycle.Lost \<Rightarrow> kLifecycleLost
      | _ \<Rightarrow> kLifecycleNormal)"

definition lifecycle_from_hint :: "u8 \<Rightarrow> AgentLifecycle" where
  "lifecycle_from_hint hint =
     (if hint = kLifecycleRetired then AgentLifecycle.Retired
      else if hint = kLifecycleLost then AgentLifecycle.Lost
      else AgentLifecycle.RevalidationRequired)"

definition get_lifecycle_hint :: "AgentLifecycle reader" where
  "get_lifecycle_hint = bind_get get_u8 (\<lambda>hint.
     if hint > kLifecycleLost then fail_get ''agent lifecycle hint is out of range''
     else return_get (lifecycle_from_hint hint))"

text \<open>The lifecycles that survive: an agent is retired, lost, or has to be revalidated.\<close>

definition stored_lifecycle :: "AgentLifecycle \<Rightarrow> AgentLifecycle" where
  "stored_lifecycle v = lifecycle_from_hint (lifecycle_hint v)"

interpretation lifecycle_hint_format: storing_format "\<lambda>v. put_u8 (lifecycle_hint v)"
    get_lifecycle_hint stored_lifecycle "\<lambda>_. True"
  unfolding get_lifecycle_hint_def
proof (rule stored_checked [where img = lifecycle_hint])
  show "storing_format (\<lambda>v. put_u8 (lifecycle_hint v)) get_u8 lifecycle_hint (\<lambda>_. True)"
    by (rule storing_format.intro) (rule u8_format.encodable, simp)
  fix v rest
  have "\<not> lifecycle_hint v > kLifecycleLost"
    by (cases v)
      (simp_all add: lifecycle_hint_def kLifecycleNormal_def kLifecycleRetired_def kLifecycleLost_def)
  then show "(if lifecycle_hint v > kLifecycleLost then fail_get ''agent lifecycle hint is out of range''
      else return_get (lifecycle_from_hint (lifecycle_hint v))) rest = Inr (stored_lifecycle v, rest)"
    by (simp add: return_get_def stored_lifecycle_def)
qed

lemmas [stored_fields] = stored_Cons_any [OF lifecycle_hint_format.storing_format_axioms]

definition write_agent :: "ResourceLimits \<Rightarrow> AgentRecord \<Rightarrow> writer" where
  "write_agent l r = seq_puts
     [write_descriptor l (ag_descriptor r), put_u8 (lifecycle_hint (ag_lifecycle r)),
      put_u64 (ag_assignments_completed r), put_u64 (ag_assignments_failed r),
      put_u64 (ag_registered_at_ms r), put_u32 (ag_recent_assignments r),
      put_string (ag_reason r) (max_string_size l), write_capabilities l (ag_profile r)]"

definition read_agent :: "ResourceLimits \<Rightarrow> AgentRecord reader" where
  "read_agent l = seq_gets
     [into (read_descriptor l) (\<lambda>v r. r\<lparr>ag_descriptor := v\<rparr>),
      into get_lifecycle_hint (\<lambda>v r. r\<lparr>ag_lifecycle := v\<rparr>),
      into get_u64 (\<lambda>v r. r\<lparr>ag_assignments_completed := v\<rparr>),
      into get_u64 (\<lambda>v r. r\<lparr>ag_assignments_failed := v\<rparr>),
      into get_u64 (\<lambda>v r. r\<lparr>ag_registered_at_ms := v\<rparr>),
      into get_u32 (\<lambda>v r. r\<lparr>ag_recent_assignments := v\<rparr>),
      into (get_string (max_string_size l)) (\<lambda>v r. r\<lparr>ag_reason := v\<rparr>),
      into (read_capabilities l) (\<lambda>v r. r\<lparr>ag_profile := v\<rparr>)]
     default_agent_record"

definition stored_agent_fits :: "ResourceLimits \<Rightarrow> AgentRecord \<Rightarrow> bool" where
  "stored_agent_fits l r \<longleftrightarrow>
     stored_descriptor_fits l (ag_descriptor r)
     \<and> length (ag_reason r) \<le> unat (max_string_size l)
     \<and> stored_capabilities_fits l (ag_profile r)"

definition stored_agent :: "AgentRecord \<Rightarrow> AgentRecord" where
  "stored_agent r = default_agent_record
     \<lparr>ag_descriptor := ag_descriptor r, ag_lifecycle := stored_lifecycle (ag_lifecycle r),
      ag_assignments_completed := ag_assignments_completed r,
      ag_assignments_failed := ag_assignments_failed r,
      ag_registered_at_ms := ag_registered_at_ms r,
      ag_recent_assignments := ag_recent_assignments r, ag_reason := ag_reason r,
      ag_profile := ag_profile r\<rparr>"

interpretation stored_agent_format: storing_format "write_agent l" "read_agent l"
    "stored_agent" "stored_agent_fits l" for l
  unfolding write_agent_def [abs_def] read_agent_def
  by (rule stored_fields stored_Nil | (simp add: stored_agent_fits_def; fail))+
    (auto simp: stored_agent_fits_def default_agent_record_def stored_agent_def intro!: AgentRecord.equality)

lemmas [stored_fields] = stored_Cons [OF stored_agent_format.storing_format_axioms]

subsection \<open>Work items\<close>

definition work_lifecycle_values :: "WorkLifecycle list" where
  "work_lifecycle_values = [WorkLifecycle.Unknown, WorkLifecycle.Admitted, WorkLifecycle.Assigned,
     WorkLifecycle.Executing, WorkLifecycle.Completed, WorkLifecycle.Failed,
     WorkLifecycle.Cancelled, WorkLifecycle.Superseded, WorkLifecycle.Expired]"

definition work_lifecycle_hint :: "WorkLifecycle \<Rightarrow> u8" where
  "work_lifecycle_hint v = of_nat (work_lifecycle_code v)"

definition work_lifecycle_from_hint :: "u8 \<Rightarrow> WorkLifecycle" where
  "work_lifecycle_from_hint hint =
     (if unat hint < length work_lifecycle_values then work_lifecycle_values ! unat hint
      else WorkLifecycle.Unknown)"

definition get_work_lifecycle :: "WorkLifecycle reader" where
  "get_work_lifecycle = bind_get get_u8 (\<lambda>hint.
     if work_lifecycle_from_hint hint = WorkLifecycle.Unknown
     then fail_get ''work lifecycle hint is out of range''
     else return_get (work_lifecycle_from_hint hint))"

interpretation work_lifecycle_format: storing_format "\<lambda>v. put_u8 (work_lifecycle_hint v)"
    get_work_lifecycle "\<lambda>v. v" "\<lambda>v. v \<noteq> WorkLifecycle.Unknown"
  unfolding get_work_lifecycle_def
proof (rule stored_checked [where img = work_lifecycle_hint])
  show "storing_format (\<lambda>v. put_u8 (work_lifecycle_hint v)) get_u8 work_lifecycle_hint
      (\<lambda>v. v \<noteq> WorkLifecycle.Unknown)"
    by (rule storing_format.intro) (rule u8_format.encodable, simp)
  fix v :: WorkLifecycle and rest
  have "work_lifecycle_from_hint (work_lifecycle_hint v) = v"
    by (cases v)
      (simp_all add: work_lifecycle_hint_def work_lifecycle_from_hint_def work_lifecycle_values_def)
  moreover assume "v \<noteq> WorkLifecycle.Unknown"
  ultimately show "(if work_lifecycle_from_hint (work_lifecycle_hint v) = WorkLifecycle.Unknown
      then fail_get ''work lifecycle hint is out of range''
      else return_get (work_lifecycle_from_hint (work_lifecycle_hint v))) rest = Inr (v, rest)"
    by (simp add: return_get_def)
qed

lemmas [stored_fields] = stored_Cons [OF work_lifecycle_format.storing_format_axioms]

definition write_work :: "ResourceLimits \<Rightarrow> WorkRecord \<Rightarrow> writer" where
  "write_work l r = seq_puts
     [write_work_request l (wr_request r), put_u8 (work_lifecycle_hint (wr_lifecycle r)),
      put_u64 (wr_admitted_sequence r), put_u64 (wr_admitted_at_ms r), put_u32 (wr_bypass_count r),
      put_u32 (wr_starvation_rounds r), put_u64 (wr_last_assignment_generation r),
      put_string (wr_reason r) (max_string_size l)]"

definition read_work :: "ResourceLimits \<Rightarrow> WorkRecord reader" where
  "read_work l = seq_gets
     [into (read_work_request l) (\<lambda>v r. r\<lparr>wr_request := v\<rparr>),
      into get_work_lifecycle (\<lambda>v r. r\<lparr>wr_lifecycle := v\<rparr>),
      into get_u64 (\<lambda>v r. r\<lparr>wr_admitted_sequence := v\<rparr>),
      into get_u64 (\<lambda>v r. r\<lparr>wr_admitted_at_ms := v\<rparr>),
      into get_u32 (\<lambda>v r. r\<lparr>wr_bypass_count := v\<rparr>),
      into get_u32 (\<lambda>v r. r\<lparr>wr_starvation_rounds := v\<rparr>),
      into get_u64 (\<lambda>v r. r\<lparr>wr_last_assignment_generation := v\<rparr>),
      into (get_string (max_string_size l)) (\<lambda>v r. r\<lparr>wr_reason := v\<rparr>)]
     default_work_record"

definition stored_work_fits :: "ResourceLimits \<Rightarrow> WorkRecord \<Rightarrow> bool" where
  "stored_work_fits l r \<longleftrightarrow>
     stored_work_request_fits l (wr_request r)
     \<and> (wr_lifecycle r) \<noteq> WorkLifecycle.Unknown
     \<and> length (wr_reason r) \<le> unat (max_string_size l)"

definition stored_work :: "WorkRecord \<Rightarrow> WorkRecord" where
  "stored_work r = r\<lparr>wr_current_assignments := 0\<rparr>"

interpretation stored_work_format: storing_format "write_work l" "read_work l"
    "stored_work" "stored_work_fits l" for l
  unfolding write_work_def [abs_def] read_work_def
  by (rule stored_fields stored_Nil | (simp add: stored_work_fits_def; fail))+
    (auto simp: stored_work_fits_def default_work_record_def stored_work_def intro!: WorkRecord.equality)

lemmas [stored_fields] = stored_Cons [OF stored_work_format.storing_format_axioms]

subsection \<open>Assignments\<close>

definition assignment_state_values :: "AssignmentState list" where
  "assignment_state_values = [AssignmentState.Unknown, AssignmentState.Assigned,
     AssignmentState.Dispatched, AssignmentState.Acknowledged, AssignmentState.Executing,
     AssignmentState.Releasing, AssignmentState.RevalidationRequired, AssignmentState.Completed,
     AssignmentState.Failed, AssignmentState.Released, AssignmentState.Invalidated,
     AssignmentState.Superseded, AssignmentState.Expired, AssignmentState.Lost,
     AssignmentState.Cancelled]"

interpretation assignment_state_format: wire_format "\<lambda>x. put_u8 (of_nat (assignment_state_code x))"
    "checked_enum assignment_state_values field" "\<lambda>_. True" for field
proof (rule enum_format)
  show "x \<in> set assignment_state_values" for x by (cases x) (simp_all add: assignment_state_values_def)
qed (simp_all add: assignment_state_values_def upt_rec)

lemmas [stored_fields] = stored_exact_any [OF assignment_state_format.wire_format_axioms]

definition invalidation_values :: "InvalidationReason list" where
  "invalidation_values = [InvalidationReason.NoReason, InvalidationReason.AgentLost,
     InvalidationReason.AgentRetired, InvalidationReason.AgentDrained,
     InvalidationReason.AgentFenced, InvalidationReason.LeaseExpired,
     InvalidationReason.WorkCancelled, InvalidationReason.WorkSuperseded,
     InvalidationReason.PolicyChanged, InvalidationReason.CapabilityChanged,
     InvalidationReason.ResourceChanged, InvalidationReason.BudgetChanged,
     InvalidationReason.SloChanged, InvalidationReason.SchedulerRestart,
     InvalidationReason.CoordinatorEpochChanged, InvalidationReason.ExclusiveConflict,
     InvalidationReason.Replaced, InvalidationReason.Shutdown, InvalidationReason.Rejected,
     InvalidationReason.AssignmentAcknowledgedElsewhere, InvalidationReason.WorkCompleted,
     InvalidationReason.WorkFailed, InvalidationReason.LeaseReleased]"

interpretation invalidation_format: wire_format "\<lambda>x. put_u8 (of_nat (invalidation_code x))"
    "checked_enum invalidation_values field" "\<lambda>_. True" for field
proof (rule enum_format)
  show "x \<in> set invalidation_values" for x by (cases x) (simp_all add: invalidation_values_def)
qed (simp_all add: invalidation_values_def upt_rec)

lemmas [stored_fields] = stored_exact_any [OF invalidation_format.wire_format_axioms]

definition default_assignment_record :: AssignmentRecord where
  "default_assignment_record =
     \<lparr> ar_binding = default_binding, ar_state = AssignmentState.Unknown,
       ar_invalidation = InvalidationReason.NoReason, ar_lease_current = False,
       ar_dispatched_at_ms = 0, ar_acknowledged_at_ms = 0, ar_closed_at_ms = 0, ar_reason = [] \<rparr>"

definition write_assignment :: "ResourceLimits \<Rightarrow> AssignmentRecord \<Rightarrow> writer" where
  "write_assignment l r = seq_puts
     [write_binding (ar_binding r), put_u8 (of_nat (assignment_state_code (ar_state r))),
      put_u8 (of_nat (invalidation_code (ar_invalidation r))), put_u64 (ar_dispatched_at_ms r),
      put_u64 (ar_acknowledged_at_ms r), put_u64 (ar_closed_at_ms r),
      put_string (ar_reason r) (max_string_size l)]"

definition read_assignment :: "ResourceLimits \<Rightarrow> AssignmentRecord reader" where
  "read_assignment l = seq_gets
     [into read_binding (\<lambda>v r. r\<lparr>ar_binding := v\<rparr>),
      into (checked_enum assignment_state_values ''assignment state'')
        (\<lambda>v r. r\<lparr>ar_state := v\<rparr>),
      into (checked_enum invalidation_values ''assignment invalidation reason'')
        (\<lambda>v r. r\<lparr>ar_invalidation := v\<rparr>),
      into get_u64 (\<lambda>v r. r\<lparr>ar_dispatched_at_ms := v\<rparr>),
      into get_u64 (\<lambda>v r. r\<lparr>ar_acknowledged_at_ms := v\<rparr>),
      into get_u64 (\<lambda>v r. r\<lparr>ar_closed_at_ms := v\<rparr>),
      into (get_string (max_string_size l)) (\<lambda>v r. r\<lparr>ar_reason := v\<rparr>)]
     default_assignment_record"

definition stored_assignment_fits :: "ResourceLimits \<Rightarrow> AssignmentRecord \<Rightarrow> bool" where
  "stored_assignment_fits l r \<longleftrightarrow>
     length (ar_reason r) \<le> unat (max_string_size l)"

definition stored_assignment :: "AssignmentRecord \<Rightarrow> AssignmentRecord" where
  "stored_assignment r = r\<lparr>ar_lease_current := False\<rparr>"

interpretation stored_assignment_format: storing_format "write_assignment l" "read_assignment l"
    "stored_assignment" "stored_assignment_fits l" for l
  unfolding write_assignment_def [abs_def] read_assignment_def
  by (rule stored_fields stored_Nil | (simp add: stored_assignment_fits_def; fail))+
    (auto simp: stored_assignment_fits_def default_assignment_record_def stored_assignment_def intro!: AssignmentRecord.equality)

lemmas [stored_fields] = stored_Cons [OF stored_assignment_format.storing_format_axioms]

end
