(* ===== verification/Frames.thy ===== *)
theory Frames
  imports Codec
begin

section \<open>The framed transport\<close>

text \<open>
  net/frame.hpp and net/frame.cpp: message types, the frame header with its two checksums,
  the frame encoder and the incremental decoder. The decoder keeps the bytes received and
  how many of them it has consumed, and drops the consumed ones when it is convenient; what
  it does depends only on the bytes that are pending.
\<close>

datatype MessageType =
    Hello
  | HelloResult
  | RegisterAgent
  | RegisterResult
  | PublishCapabilities
  | PublishCapabilitiesResult
  | PublishHealth
  | PublishHealthResult
  | PublishAvailability
  | PublishAvailabilityResult
  | PublishLoad
  | PublishLoadResult
  | Heartbeat
  | HeartbeatResult
  | SubmitWork
  | SubmitWorkResult
  | CancelWork
  | CancelWorkResult
  | SupersedeWork
  | SupersedeWorkResult
  | AssignWork
  | AssignmentAck
  | AssignmentReject
  | WorkStarted
  | WorkReleased
  | WorkCompleted
  | WorkFailed
  | DrainAgent
  | DrainAgentResult
  | DeregisterAgent
  | DeregisterAgentResult
  | Query
  | QueryResult
  | DispatchAssignment
  | DispatchAssignmentResult
  | Error
  | ShutdownNotice

primrec message_type_code :: "MessageType \<Rightarrow> nat" where
  "message_type_code MessageType.Hello = 1"
| "message_type_code MessageType.HelloResult = 2"
| "message_type_code MessageType.RegisterAgent = 3"
| "message_type_code MessageType.RegisterResult = 4"
| "message_type_code MessageType.PublishCapabilities = 5"
| "message_type_code MessageType.PublishCapabilitiesResult = 6"
| "message_type_code MessageType.PublishHealth = 7"
| "message_type_code MessageType.PublishHealthResult = 8"
| "message_type_code MessageType.PublishAvailability = 9"
| "message_type_code MessageType.PublishAvailabilityResult = 10"
| "message_type_code MessageType.PublishLoad = 11"
| "message_type_code MessageType.PublishLoadResult = 12"
| "message_type_code MessageType.Heartbeat = 13"
| "message_type_code MessageType.HeartbeatResult = 14"
| "message_type_code MessageType.SubmitWork = 15"
| "message_type_code MessageType.SubmitWorkResult = 16"
| "message_type_code MessageType.CancelWork = 17"
| "message_type_code MessageType.CancelWorkResult = 18"
| "message_type_code MessageType.SupersedeWork = 19"
| "message_type_code MessageType.SupersedeWorkResult = 20"
| "message_type_code MessageType.AssignWork = 21"
| "message_type_code MessageType.AssignmentAck = 22"
| "message_type_code MessageType.AssignmentReject = 23"
| "message_type_code MessageType.WorkStarted = 24"
| "message_type_code MessageType.WorkReleased = 25"
| "message_type_code MessageType.WorkCompleted = 26"
| "message_type_code MessageType.WorkFailed = 27"
| "message_type_code MessageType.DrainAgent = 28"
| "message_type_code MessageType.DrainAgentResult = 29"
| "message_type_code MessageType.DeregisterAgent = 30"
| "message_type_code MessageType.DeregisterAgentResult = 31"
| "message_type_code MessageType.Query = 32"
| "message_type_code MessageType.QueryResult = 33"
| "message_type_code MessageType.DispatchAssignment = 34"
| "message_type_code MessageType.DispatchAssignmentResult = 35"
| "message_type_code MessageType.Error = 36"
| "message_type_code MessageType.ShutdownNotice = 37"

primrec message_type_to_string :: "MessageType \<Rightarrow> string" where
  "message_type_to_string MessageType.Hello = ''HELLO''"
| "message_type_to_string MessageType.HelloResult = ''HELLO_RESULT''"
| "message_type_to_string MessageType.RegisterAgent = ''REGISTER_AGENT''"
| "message_type_to_string MessageType.RegisterResult = ''REGISTER_RESULT''"
| "message_type_to_string MessageType.PublishCapabilities = ''PUBLISH_CAPABILITIES''"
| "message_type_to_string MessageType.PublishCapabilitiesResult = ''PUBLISH_CAPABILITIES_RESULT''"
| "message_type_to_string MessageType.PublishHealth = ''PUBLISH_HEALTH''"
| "message_type_to_string MessageType.PublishHealthResult = ''PUBLISH_HEALTH_RESULT''"
| "message_type_to_string MessageType.PublishAvailability = ''PUBLISH_AVAILABILITY''"
| "message_type_to_string MessageType.PublishAvailabilityResult = ''PUBLISH_AVAILABILITY_RESULT''"
| "message_type_to_string MessageType.PublishLoad = ''PUBLISH_LOAD''"
| "message_type_to_string MessageType.PublishLoadResult = ''PUBLISH_LOAD_RESULT''"
| "message_type_to_string MessageType.Heartbeat = ''HEARTBEAT''"
| "message_type_to_string MessageType.HeartbeatResult = ''HEARTBEAT_RESULT''"
| "message_type_to_string MessageType.SubmitWork = ''SUBMIT_WORK''"
| "message_type_to_string MessageType.SubmitWorkResult = ''SUBMIT_WORK_RESULT''"
| "message_type_to_string MessageType.CancelWork = ''CANCEL_WORK''"
| "message_type_to_string MessageType.CancelWorkResult = ''CANCEL_WORK_RESULT''"
| "message_type_to_string MessageType.SupersedeWork = ''SUPERSEDE_WORK''"
| "message_type_to_string MessageType.SupersedeWorkResult = ''SUPERSEDE_WORK_RESULT''"
| "message_type_to_string MessageType.AssignWork = ''ASSIGN_WORK''"
| "message_type_to_string MessageType.AssignmentAck = ''ASSIGNMENT_ACK''"
| "message_type_to_string MessageType.AssignmentReject = ''ASSIGNMENT_REJECT''"
| "message_type_to_string MessageType.WorkStarted = ''WORK_STARTED''"
| "message_type_to_string MessageType.WorkReleased = ''WORK_RELEASED''"
| "message_type_to_string MessageType.WorkCompleted = ''WORK_COMPLETED''"
| "message_type_to_string MessageType.WorkFailed = ''WORK_FAILED''"
| "message_type_to_string MessageType.DrainAgent = ''DRAIN_AGENT''"
| "message_type_to_string MessageType.DrainAgentResult = ''DRAIN_AGENT_RESULT''"
| "message_type_to_string MessageType.DeregisterAgent = ''DEREGISTER_AGENT''"
| "message_type_to_string MessageType.DeregisterAgentResult = ''DEREGISTER_AGENT_RESULT''"
| "message_type_to_string MessageType.Query = ''QUERY''"
| "message_type_to_string MessageType.QueryResult = ''QUERY_RESULT''"
| "message_type_to_string MessageType.DispatchAssignment = ''DISPATCH_ASSIGNMENT''"
| "message_type_to_string MessageType.DispatchAssignmentResult = ''DISPATCH_ASSIGNMENT_RESULT''"
| "message_type_to_string MessageType.Error = ''ERROR''"
| "message_type_to_string MessageType.ShutdownNotice = ''SHUTDOWN_NOTICE''"

definition message_type_values :: "MessageType list" where
  "message_type_values = [MessageType.Hello, MessageType.HelloResult, MessageType.RegisterAgent,
     MessageType.RegisterResult, MessageType.PublishCapabilities,
     MessageType.PublishCapabilitiesResult, MessageType.PublishHealth,
     MessageType.PublishHealthResult, MessageType.PublishAvailability,
     MessageType.PublishAvailabilityResult, MessageType.PublishLoad,
     MessageType.PublishLoadResult, MessageType.Heartbeat, MessageType.HeartbeatResult,
     MessageType.SubmitWork, MessageType.SubmitWorkResult, MessageType.CancelWork,
     MessageType.CancelWorkResult, MessageType.SupersedeWork, MessageType.SupersedeWorkResult,
     MessageType.AssignWork, MessageType.AssignmentAck, MessageType.AssignmentReject,
     MessageType.WorkStarted, MessageType.WorkReleased, MessageType.WorkCompleted,
     MessageType.WorkFailed, MessageType.DrainAgent, MessageType.DrainAgentResult,
     MessageType.DeregisterAgent, MessageType.DeregisterAgentResult, MessageType.Query,
     MessageType.QueryResult, MessageType.DispatchAssignment,
     MessageType.DispatchAssignmentResult, MessageType.Error, MessageType.ShutdownNotice]"

definition is_known_message_type :: "u16 \<Rightarrow> bool" where
  "is_known_message_type v \<longleftrightarrow>
     v \<ge> of_nat (message_type_code MessageType.Hello)
     \<and> v \<le> of_nat (message_type_code MessageType.ShutdownNotice)"

definition frame_magic :: u32 where "frame_magic = 0x44534741"
definition frame_header_bytes :: nat where "frame_header_bytes = 32"
definition kHeaderCrcOffset :: nat where "kHeaderCrcOffset = 28"

record FrameHeader =
  fh_magic :: u32
  fh_version :: u16
  fh_type :: u16
  fh_flags :: u16
  fh_reserved :: u16
  fh_correlation :: u64
  fh_payload_length :: u32
  fh_payload_crc32 :: u32
  fh_header_crc32 :: u32

record Frame =
  fr_header :: FrameHeader
  fr_payload :: "u8 list"

datatype FrameCodecStatus =
    Ok
  | NeedMoreData
  | BadMagic
  | BadVersion
  | BadHeaderCrc
  | UnknownMessageType
  | PayloadTooLarge
  | BadPayloadCrc
  | TruncatedPayload

primrec frame_status_to_string :: "FrameCodecStatus \<Rightarrow> string" where
  "frame_status_to_string FrameCodecStatus.Ok = ''OK''"
| "frame_status_to_string FrameCodecStatus.NeedMoreData = ''NEED_MORE_DATA''"
| "frame_status_to_string FrameCodecStatus.BadMagic = ''BAD_MAGIC''"
| "frame_status_to_string FrameCodecStatus.BadVersion = ''BAD_VERSION''"
| "frame_status_to_string FrameCodecStatus.BadHeaderCrc = ''BAD_HEADER_CRC''"
| "frame_status_to_string FrameCodecStatus.UnknownMessageType = ''UNKNOWN_MESSAGE_TYPE''"
| "frame_status_to_string FrameCodecStatus.PayloadTooLarge = ''PAYLOAD_TOO_LARGE''"
| "frame_status_to_string FrameCodecStatus.BadPayloadCrc = ''BAD_PAYLOAD_CRC''"
| "frame_status_to_string FrameCodecStatus.TruncatedPayload = ''TRUNCATED_PAYLOAD''"

subsection \<open>Encoding\<close>

text \<open>The header is written with a zero checksum, which is then patched in place.\<close>

definition frame_header_puts :: "Frame \<Rightarrow> writer" where
  "frame_header_puts f = seq_puts
     [put_u32 frame_magic, put_u16 (fh_version (fr_header f)), put_u16 (fh_type (fr_header f)),
      put_u16 (fh_flags (fr_header f)), put_u16 (fh_reserved (fr_header f)),
      put_u64 (fh_correlation (fr_header f)), put_u32 (of_nat (length (fr_payload f))),
      put_u32 (crc32 (fr_payload f) 0), put_u32 0]"

definition encode_frame :: "Frame \<Rightarrow> u32 \<Rightarrow> u8 list coded" where
  "encode_frame f max_frame_size =
     (if length (fr_payload f) > unat max_frame_size
      then Inl ''frame payload exceeds the configured maximum frame size''
      else case frame_header_puts f [] of Inl e \<Rightarrow> Inl e
      | Inr header \<Rightarrow>
          Inr (take kHeaderCrcOffset header
               @ le_bytes 4 (crc32 (take kHeaderCrcOffset header) 0)
               @ drop (kHeaderCrcOffset + 4) header @ fr_payload f))"

subsection \<open>Decoding\<close>

definition read_u16 :: "u8 list \<Rightarrow> u16" where
  "read_u16 d = ucast (d ! 0) OR push_bit 8 (ucast (d ! 1))"

definition read_u32 :: "u8 list \<Rightarrow> u32" where
  "read_u32 d = ucast (d ! 0) OR push_bit 8 (ucast (d ! 1))
     OR push_bit 16 (ucast (d ! 2)) OR push_bit 24 (ucast (d ! 3))"

definition read_u64 :: "u8 list \<Rightarrow> u64" where
  "read_u64 d = fold (\<lambda>i value. push_bit 8 value OR ucast (d ! i)) [7, 6, 5, 4, 3, 2, 1, 0] 0"

record FrameStreamDecoder =
  fd_buffer :: "u8 list"
  fd_consumed :: nat
  fd_max_frame_size :: u32
  fd_expected_version :: u16

definition new_decoder :: "u32 \<Rightarrow> u16 \<Rightarrow> FrameStreamDecoder" where
  "new_decoder max_frame_size expected_version =
     \<lparr> fd_buffer = [], fd_consumed = 0, fd_max_frame_size = max_frame_size,
       fd_expected_version = expected_version \<rparr>"

definition decoder_append :: "u8 list \<Rightarrow> FrameStreamDecoder \<Rightarrow> FrameStreamDecoder" where
  "decoder_append data d =
     (let d' = (if fd_consumed d > 0 \<and> fd_consumed d = length (fd_buffer d)
                then d\<lparr>fd_buffer := [], fd_consumed := 0\<rparr>
                else if fd_consumed d > 4096
                then d\<lparr>fd_buffer := drop (fd_consumed d) (fd_buffer d), fd_consumed := 0\<rparr>
                else d)
      in d'\<lparr>fd_buffer := fd_buffer d' @ data\<rparr>)"

definition decoder_reset :: "FrameStreamDecoder \<Rightarrow> FrameStreamDecoder" where
  "decoder_reset d = d\<lparr>fd_buffer := [], fd_consumed := 0\<rparr>"

text \<open>The checks on the header, in the order of the code.\<close>

definition header_violation :: "u32 \<Rightarrow> u16 \<Rightarrow> u8 list \<Rightarrow> FrameCodecStatus option" where
  "header_violation max_frame_size expected_version header = first_some
     [guard (read_u32 header \<noteq> frame_magic) FrameCodecStatus.BadMagic,
      guard (read_u16 (drop 4 header) \<noteq> expected_version) FrameCodecStatus.BadVersion,
      guard (\<not> is_known_message_type (read_u16 (drop 6 header))) FrameCodecStatus.UnknownMessageType,
      guard (read_u32 (drop kHeaderCrcOffset header) \<noteq> crc32 (take kHeaderCrcOffset header) 0)
        FrameCodecStatus.BadHeaderCrc,
      guard (read_u32 (drop 20 header) > max_frame_size) FrameCodecStatus.PayloadTooLarge]"

definition decoded_frame :: "u8 list \<Rightarrow> u8 list \<Rightarrow> Frame" where
  "decoded_frame header payload =
     \<lparr> fr_header =
         \<lparr> fh_magic = frame_magic, fh_version = read_u16 (drop 4 header),
           fh_type = read_u16 (drop 6 header), fh_flags = read_u16 (drop 8 header),
           fh_reserved = read_u16 (drop 10 header), fh_correlation = read_u64 (drop 12 header),
           fh_payload_length = read_u32 (drop 20 header),
           fh_payload_crc32 = read_u32 (drop 24 header),
           fh_header_crc32 = read_u32 (drop kHeaderCrcOffset header) \<rparr>,
       fr_payload = payload \<rparr>"

text \<open>
  \<open>next\<close>. The pointer \<open>header\<close> of the code is the rest of the buffer from the consumed
  position on. The consumed count never exceeds the buffer, so the subtraction does not wrap.
\<close>

definition decoder_next ::
    "FrameStreamDecoder \<Rightarrow> FrameStreamDecoder \<times> FrameCodecStatus \<times> Frame option" where
  "decoder_next d =
     (let header = drop (fd_consumed d) (fd_buffer d); available = length (fd_buffer d) - fd_consumed d
      in if available < frame_header_bytes then (d, FrameCodecStatus.NeedMoreData, None)
      else case header_violation (fd_max_frame_size d) (fd_expected_version d) header of
        Some status \<Rightarrow> (decoder_reset d, status, None)
      | None \<Rightarrow>
          let payload_length = unat (read_u32 (drop 20 header));
              total = frame_header_bytes + payload_length;
              payload = take payload_length (drop frame_header_bytes header)
          in if available < total then (d, FrameCodecStatus.NeedMoreData, None)
             else if crc32 payload 0 \<noteq> read_u32 (drop 24 header)
             then (decoder_reset d, FrameCodecStatus.BadPayloadCrc, None)
             else (d\<lparr>fd_consumed := fd_consumed d + total\<rparr>, FrameCodecStatus.Ok,
                   Some (decoded_frame header payload)))"

end
