(* ===== verification/Persistence.thy ===== *)
theory Persistence
  imports Persisted_Entries Frames
begin

section \<open>Saving and recovering the state\<close>

text \<open>
  AgentScheduler::save and AgentScheduler::load of persistence.cpp and verify_file of
  persistence_io.cpp. A state file is a header with two checksums and a SHA-256 digest, the
  payload, and a trailer with a checksum of everything before it. The payload is a sequence of
  tagged sections. Recovery is conservative: what is read back is stripped of all dynamic
  evidence and of all dispatch authority. Reading and writing the file itself are arguments.
\<close>

subsection \<open>Sections\<close>

definition kSectionScheduler :: u8 where "kSectionScheduler = 1"
definition kSectionPolicy :: u8 where "kSectionPolicy = 2"
definition kSectionQueues :: u8 where "kSectionQueues = 3"
definition kSectionTenants :: u8 where "kSectionTenants = 4"
definition kSectionAgents :: u8 where "kSectionAgents = 5"
definition kSectionWork :: u8 where "kSectionWork = 6"
definition kSectionAssignments :: u8 where "kSectionAssignments = 7"
definition kSectionLeases :: u8 where "kSectionLeases = 8"
definition kSectionFenced :: u8 where "kSectionFenced = 9"
definition kSectionCount :: u32 where "kSectionCount = 9"

lemmas section_tags = kSectionScheduler_def kSectionPolicy_def kSectionQueues_def
  kSectionTenants_def kSectionAgents_def kSectionWork_def kSectionAssignments_def
  kSectionLeases_def kSectionFenced_def

definition write_scheduler :: "Impl \<Rightarrow> writer" where
  "write_scheduler s = seq_puts
     [put_u64 (im_scheduler_id s), put_u64 (im_scheduler_epoch s), put_u64 (im_coordinator_epoch s),
      put_u64 (im_queue_generation s), put_u64 (im_next_admission_sequence s),
      put_u64 (im_assignments_created s), put_u64 (im_assignments_invalidated s),
      put_u64 (im_scheduling_rounds s), put_bool (im_admission_open s),
      put_bool (im_shutting_down s)]"

definition encode_state :: "Impl \<Rightarrow> writer" where
  "encode_state s =
     (let l = im_limits s in seq_puts
       [put_u32 kSectionCount,
        seq_puts [put_u8 kSectionScheduler, write_scheduler s],
        seq_puts [put_u8 kSectionPolicy, write_policy l (im_policy s)],
        seq_puts [put_u8 kSectionQueues, put_list (write_queue l) (map snd (im_queues s))],
        seq_puts [put_u8 kSectionTenants, put_list (write_tenant l) (map snd (im_tenants s))],
        seq_puts [put_u8 kSectionAgents, put_list (write_agent l) (map snd (im_agents s))],
        seq_puts [put_u8 kSectionWork, put_list (write_work l) (map snd (im_work s))],
        seq_puts [put_u8 kSectionAssignments,
                  put_list (write_assignment l) (map snd (im_assignments s))],
        seq_puts [put_u8 kSectionLeases, put_list (write_lease l) (map snd (im_leases s))],
        seq_puts [put_u8 kSectionFenced, put_list (write_fence l) (map snd (im_fenced_boots s))]])"

definition record_count :: "Impl \<Rightarrow> u64" where
  "record_count s = of_nat (length (im_queues s) + length (im_tenants s) + length (im_agents s)
     + length (im_work s) + length (im_assignments s) + length (im_leases s)
     + length (im_fenced_boots s))"

subsection \<open>The decoded candidate state\<close>

text \<open>
  DecodedState of the code, with the count of assignments that require revalidation, which
  the code keeps in the result.
\<close>

record DecodedState =
  ds_scheduler_id :: u64
  ds_scheduler_epoch :: u64
  ds_coordinator_epoch :: u64
  ds_queue_generation :: u64
  ds_next_admission_sequence :: u64
  ds_assignments_created :: u64
  ds_assignments_invalidated :: u64
  ds_scheduling_rounds :: u64
  ds_admission_open :: bool
  ds_shutting_down :: bool
  ds_policy :: PolicySnapshot
  ds_queues :: "(u64, QueueRecord) omap"
  ds_tenants :: "(u64, TenantRecord) omap"
  ds_agents :: "(u64, AgentRecord) omap"
  ds_work :: "(u64, WorkRecord) omap"
  ds_assignments :: "(Hash128, AssignmentRecord) omap"
  ds_leases :: "(Hash128, Lease) omap"
  ds_fenced_boots :: "(Hash128, FencedBoot) omap"
  ds_requiring_revalidation :: nat

definition default_decoded :: DecodedState where
  "default_decoded =
     \<lparr> ds_scheduler_id = 0, ds_scheduler_epoch = 0, ds_coordinator_epoch = 0,
       ds_queue_generation = 0, ds_next_admission_sequence = 1, ds_assignments_created = 0,
       ds_assignments_invalidated = 0, ds_scheduling_rounds = 0, ds_admission_open = False,
       ds_shutting_down = False, ds_policy = default_policy, ds_queues = [], ds_tenants = [],
       ds_agents = [], ds_work = [], ds_assignments = [], ds_leases = [], ds_fenced_boots = [],
       ds_requiring_revalidation = 0 \<rparr>"

text \<open>Dynamic process-local evidence is never restored as current.\<close>

definition conservative_agent :: "AgentRecord \<Rightarrow> AgentRecord" where
  "conservative_agent r =
     r\<lparr>ag_capability_current := False, ag_health_current := False,
       ag_availability_current := False, ag_load_current := False,
       ag_health := AgentHealth.Unknown, ag_readiness := AgentReadiness.Unknown,
       ag_reachability := AgentReachability.Unknown,
       ag_availability := AgentAvailability.Unknown, ag_lease_expires_at_ms := 0,
       ag_recovered := True, ag_profile := invalidate_evidence (ag_profile r)\<rparr>"

definition conservative_work :: "WorkRecord \<Rightarrow> WorkRecord" where
  "conservative_work r =
     (let r1 = r\<lparr>wr_current_assignments := 0\<rparr>
      in if wr_lifecycle r1 = WorkLifecycle.Assigned \<or> wr_lifecycle r1 = WorkLifecycle.Executing
         then r1\<lparr>wr_lifecycle := WorkLifecycle.Admitted\<rparr> else r1)"

text \<open>A recovered assignment never silently regains dispatch authority.\<close>

definition conservative_assignment :: "AssignmentRecord \<Rightarrow> AssignmentRecord" where
  "conservative_assignment r =
     (let r1 = r\<lparr>ar_lease_current := False\<rparr>
      in if assignment_state_is_active (ar_state r1)
         then r1\<lparr>ar_state := AssignmentState.RevalidationRequired,
                 ar_binding := (ar_binding r1)\<lparr>bn_lease_expires_at_ms := 0\<rparr>\<rparr>
         else r1)"

definition restore_queue :: "QueueRecord \<Rightarrow> DecodedState \<Rightarrow> DecodedState" where
  "restore_queue r d = d\<lparr>ds_queues := om_emplace (qr_id r) r (ds_queues d)\<rparr>"

definition restore_tenant :: "TenantRecord \<Rightarrow> DecodedState \<Rightarrow> DecodedState" where
  "restore_tenant r d = d\<lparr>ds_tenants := om_emplace (tr_id r) r (ds_tenants d)\<rparr>"

definition restore_agent :: "AgentRecord \<Rightarrow> DecodedState \<Rightarrow> DecodedState" where
  "restore_agent r d =
     d\<lparr>ds_agents := om_emplace (ad_id (ag_descriptor r)) (conservative_agent r) (ds_agents d)\<rparr>"

definition restore_work :: "WorkRecord \<Rightarrow> DecodedState \<Rightarrow> DecodedState" where
  "restore_work r d =
     d\<lparr>ds_work := om_emplace (wq_id (wr_request r)) (conservative_work r) (ds_work d)\<rparr>"

definition restore_assignment :: "AssignmentRecord \<Rightarrow> DecodedState \<Rightarrow> DecodedState" where
  "restore_assignment r d =
     d\<lparr>ds_assignments := om_emplace (bn_id (ar_binding r)) (conservative_assignment r)
                           (ds_assignments d),
       ds_requiring_revalidation := ds_requiring_revalidation d
         + (if assignment_state_is_active (ar_state r) then 1 else 0)\<rparr>"

definition restore_lease :: "Lease \<Rightarrow> DecodedState \<Rightarrow> DecodedState" where
  "restore_lease x d = d\<lparr>ds_leases := om_emplace (ls_id x) (x\<lparr>ls_current := False\<rparr>) (ds_leases d)\<rparr>"

definition restore_fence :: "FencedBoot \<Rightarrow> DecodedState \<Rightarrow> DecodedState" where
  "restore_fence f d = d\<lparr>ds_fenced_boots := om_emplace (fb_boot f) f (ds_fenced_boots d)\<rparr>"

text \<open>One section: the switch on its tag.\<close>

definition read_scheduler :: "DecodedState step" where
  "read_scheduler = seq_gets
     [into get_u64 (\<lambda>v d. d\<lparr>ds_scheduler_id := v\<rparr>),
      into get_u64 (\<lambda>v d. d\<lparr>ds_scheduler_epoch := v\<rparr>),
      into get_u64 (\<lambda>v d. d\<lparr>ds_coordinator_epoch := v\<rparr>),
      into get_u64 (\<lambda>v d. d\<lparr>ds_queue_generation := v\<rparr>),
      into get_u64 (\<lambda>v d. d\<lparr>ds_next_admission_sequence := v\<rparr>),
      into get_u64 (\<lambda>v d. d\<lparr>ds_assignments_created := v\<rparr>),
      into get_u64 (\<lambda>v d. d\<lparr>ds_assignments_invalidated := v\<rparr>),
      into get_u64 (\<lambda>v d. d\<lparr>ds_scheduling_rounds := v\<rparr>),
      into get_bool (\<lambda>v d. d\<lparr>ds_admission_open := v\<rparr>),
      into get_bool (\<lambda>v d. d\<lparr>ds_shutting_down := v\<rparr>)]"

definition read_tagged :: "ResourceLimits \<Rightarrow> u8 \<Rightarrow> DecodedState step" where
  "read_tagged l tag =
     (if tag = kSectionScheduler then read_scheduler
      else if tag = kSectionPolicy then into (read_policy l) (\<lambda>v d. d\<lparr>ds_policy := v\<rparr>)
      else if tag = kSectionQueues then
        into (get_list (max_queues l) ''queue count exceeds the configured maximum''
               (read_queue l)) (fold restore_queue)
      else if tag = kSectionTenants then
        into (get_list (max_tenants l) ''tenant count exceeds the configured maximum''
               (read_tenant l)) (fold restore_tenant)
      else if tag = kSectionAgents then
        into (get_list (max_agents l) ''agent count exceeds the configured maximum''
               (read_agent l)) (fold restore_agent)
      else if tag = kSectionWork then
        into (get_list (max_work_items l) ''work count exceeds the configured maximum''
               (read_work l)) (fold restore_work)
      else if tag = kSectionAssignments then
        into (get_list (max_active_assignments l + max_historical_assignments l)
               ''assignment count exceeds the configured maximum'' (read_assignment l))
          (fold restore_assignment)
      else if tag = kSectionLeases then
        into (get_list (max_leases l) ''lease count exceeds the configured maximum''
               (read_lease l)) (fold restore_lease)
      else if tag = kSectionFenced then
        into (get_list (max_fenced_boots l) ''fenced boot count exceeds the configured maximum''
               (read_fence l)) (fold restore_fence)
      else (\<lambda>d. fail_get ''unknown persistence section tag''))"

definition read_section :: "ResourceLimits \<Rightarrow> DecodedState step" where
  "read_section l d = bind_get get_u8 (\<lambda>tag. read_tagged l tag d)"

fun repeat_get :: "nat \<Rightarrow> 'r step \<Rightarrow> 'r step" where
  "repeat_get 0 s r = return_get r"
| "repeat_get (Suc n) s r = bind_get (s r) (repeat_get n s)"

text \<open>The text of the error is the detail of the result.\<close>

definition decode_failed :: "string \<Rightarrow> string" where
  "decode_failed e = ''candidate state decode failed: '' @ e"

definition decode_state :: "ResourceLimits \<Rightarrow> u8 list \<Rightarrow> DecodedState coded" where
  "decode_state l payload =
     (case get_u32 payload of Inl e \<Rightarrow> Inl (decode_failed e)
      | Inr (sections, rest) \<Rightarrow>
          if sections \<noteq> kSectionCount then Inl ''section count does not match the current schema''
          else case decode_payload (repeat_get (unat sections) (read_section l) default_decoded) rest of
            Inl e \<Rightarrow> Inl (decode_failed e) | Inr d \<Rightarrow> Inr d)"

subsection \<open>The file\<close>

definition persistence_magic :: "u8 list" where
  "persistence_magic = text_bytes ''AGSDCHST''"

definition persistence_version :: u32 where "persistence_version = 1"
definition header_bytes :: nat where "header_bytes = 72"
definition trailer_bytes :: nat where "trailer_bytes = 16"
definition kFileCrcOffset :: nat where "kFileCrcOffset = 36"
definition trailer_mask :: u32 where "trailer_mask = 0x5A5A5A5A"

text \<open>memcpy into and out of a byte buffer, little endian.\<close>

definition mem_put :: "nat \<Rightarrow> u8 list \<Rightarrow> u8 list \<Rightarrow> u8 list" where
  "mem_put offset data bytes = take offset bytes @ data @ drop (offset + length data) bytes"

definition mem_u32 :: "nat \<Rightarrow> u8 list \<Rightarrow> u32" where
  "mem_u32 offset bytes = le_value (take 4 (drop offset bytes))"

definition mem_u64 :: "nat \<Rightarrow> u8 list \<Rightarrow> u64" where
  "mem_u64 offset bytes = le_value (take 8 (drop offset bytes))"

definition file_header :: "u8 list \<Rightarrow> u64 \<Rightarrow> u8 list coded" where
  "file_header payload records =
     (case seq_puts [put_raw persistence_magic, put_u32 persistence_version, put_u32 0,
                     put_u64 (of_nat (length payload)), put_u64 records,
                     put_u32 (crc32 payload 0), put_u32 0, put_digest (sha256 payload)] [] of
        Inl e \<Rightarrow> Inl e
      | Inr bytes \<Rightarrow> Inr (mem_put kFileCrcOffset (le_bytes 4 (crc32 bytes 0)) bytes))"

definition file_trailer :: "u8 list \<Rightarrow> u8 list coded" where
  "file_trailer file =
     (case seq_puts [put_raw persistence_magic, put_u32 0, put_u32 0] [] of
        Inl e \<Rightarrow> Inl e
      | Inr bytes \<Rightarrow> Inr (mem_put 8 (le_bytes 4 (crc32 file 0 XOR trailer_mask)) bytes))"

record PersistOptions =
  ps_fsync :: bool
  ps_verify_after_write :: bool
  ps_max_bytes :: u64

definition persistence_failure :: "ErrorCode \<Rightarrow> string \<Rightarrow> string \<Rightarrow> string \<Rightarrow> SchedulerError" where
  "persistence_failure code operation subject detail =
     make_error code operation subject detail ScheduleOutcome.RejectInvalidRequest"

text \<open>
  The bytes save hands to the file system. The outer error is a DecodeError the writer
  throws, which save does not catch; the inner one is the result of the operation.
\<close>

definition save_bytes ::
    "PersistOptions \<Rightarrow> string \<Rightarrow> Impl \<Rightarrow> (SchedulerError + u8 list) coded" where
  "save_bytes options path s =
     (case encode_state s [] of Inl e \<Rightarrow> Inl e
      | Inr payload \<Rightarrow>
          if of_nat (length payload) > (if ps_max_bytes options \<noteq> 0 then ps_max_bytes options
                                        else max_persistence_bytes (im_limits s))
          then Inr (Inl (persistence_failure ErrorCode.LimitExceeded ''save'' path
                           ''encoded state exceeds the configured persistence byte limit''))
          else case file_header payload (record_count s) of Inl e \<Rightarrow> Inl e
            | Inr header \<Rightarrow>
                (case file_trailer (header @ payload) of Inl e \<Rightarrow> Inl e
                 | Inr trailer \<Rightarrow> Inr (Inr (header @ payload @ trailer))))"

definition save ::
    "(u8 list \<Rightarrow> PersistOptions \<Rightarrow> MutationResult) \<Rightarrow> PersistOptions \<Rightarrow> string \<Rightarrow> Impl
       \<Rightarrow> MutationResult coded" where
  "save write_atomically options path s =
     (case save_bytes options path s of Inl e \<Rightarrow> Inl e
      | Inr (Inl e) \<Rightarrow> Inr (Some e)
      | Inr (Inr file) \<Rightarrow> Inr (write_atomically file options))"

record PersistenceHeaderInfo =
  ph_format_version :: u32
  ph_flags :: u32
  ph_payload_bytes :: u64
  ph_record_count :: u64
  ph_payload_crc32 :: u32
  ph_semantic_digest :: Digest256
  ph_total_bytes :: u64

definition verify_error :: "ErrorCode \<Rightarrow> string \<Rightarrow> SchedulerError" where
  "verify_error code detail = persistence_failure code ''load'' [] detail"

definition verify_file :: "u8 list \<Rightarrow> SchedulerError + PersistenceHeaderInfo \<times> u8 list" where
  "verify_file file =
     (if length file < header_bytes + trailer_bytes
      then Inl (verify_error ErrorCode.PersistenceIntegrity
                  ''state file is shorter than the header and trailer'')
      else if take 8 file \<noteq> persistence_magic
      then Inl (verify_error ErrorCode.PersistenceFormat ''state file magic does not match'')
      else if mem_u32 8 file \<noteq> persistence_version
      then Inl (verify_error ErrorCode.PersistenceUnsupportedVersion
                  (''state file format version '' @ decimal (unat (mem_u32 8 file))
                   @ '' is not supported by this build (expected ''
                   @ decimal (unat persistence_version) @ '')''))
      else if crc32 (mem_put kFileCrcOffset [0, 0, 0, 0] (take header_bytes file)) 0
              \<noteq> mem_u32 kFileCrcOffset file
      then Inl (verify_error ErrorCode.PersistenceIntegrity ''state file header checksum mismatch'')
      else let payload_bytes = mem_u64 16 file; end = header_bytes + unat payload_bytes in
        if of_nat header_bytes + payload_bytes + of_nat trailer_bytes \<noteq> of_nat (length file)
        then Inl (verify_error ErrorCode.PersistenceIntegrity
          ''state file length does not match the declared payload length (truncation or trailing garbage)'')
        else if take 8 (drop end file) \<noteq> persistence_magic
        then Inl (verify_error ErrorCode.PersistenceIntegrity
                    ''state file trailer magic does not match'')
        else if crc32 (take end file) 0 XOR trailer_mask \<noteq> mem_u32 (end + 8) file
        then Inl (verify_error ErrorCode.PersistenceIntegrity ''state file trailer checksum mismatch'')
        else let payload = take (unat payload_bytes) (drop header_bytes file) in
          if crc32 payload 0 \<noteq> mem_u32 32 file
          then Inl (verify_error ErrorCode.PersistenceIntegrity ''state file payload checksum mismatch'')
          else Inr (\<lparr> ph_format_version = mem_u32 8 file, ph_flags = mem_u32 12 file,
                      ph_payload_bytes = payload_bytes, ph_record_count = mem_u64 24 file,
                      ph_payload_crc32 = mem_u32 32 file,
                      ph_semantic_digest = take 32 (drop 40 file),
                      ph_total_bytes = of_nat (length file) \<rparr>, payload))"

subsection \<open>Loading\<close>

record LoadOptions =
  ld_require_semantic_digest :: bool
  ld_inspect_only :: bool

record RecoveryResult =
  rv_error :: "SchedulerError option"
  rv_format_version :: u32
  rv_previous_scheduler_epoch :: u64
  rv_new_scheduler_epoch :: u64
  rv_previous_coordinator_epoch :: u64
  rv_new_coordinator_epoch :: u64
  rv_agents_loaded :: nat
  rv_work_loaded :: nat
  rv_assignments_loaded :: nat
  rv_assignments_requiring_revalidation :: nat
  rv_leases_invalidated :: nat
  rv_fenced_boots_loaded :: nat
  rv_dynamic_evidence_invalidated :: nat
  rv_queues_loaded :: nat
  rv_stored_digest :: Digest256
  rv_computed_digest :: Digest256
  rv_bytes_read :: u64
  rv_elapsed_ms :: u64
  rv_detail :: string

definition zero_digest :: Digest256 where "zero_digest = replicate 32 0"

definition default_recovery :: RecoveryResult where
  "default_recovery =
     \<lparr> rv_error = None, rv_format_version = 0, rv_previous_scheduler_epoch = 0,
       rv_new_scheduler_epoch = 0, rv_previous_coordinator_epoch = 0,
       rv_new_coordinator_epoch = 0, rv_agents_loaded = 0, rv_work_loaded = 0,
       rv_assignments_loaded = 0, rv_assignments_requiring_revalidation = 0,
       rv_leases_invalidated = 0, rv_fenced_boots_loaded = 0,
       rv_dynamic_evidence_invalidated = 0, rv_queues_loaded = 0,
       rv_stored_digest = zero_digest, rv_computed_digest = zero_digest, rv_bytes_read = 0,
       rv_elapsed_ms = 0, rv_detail = [] \<rparr>"

definition load_running :: "string \<Rightarrow> SchedulerError" where
  "load_running path =
     make_error ErrorCode.AlreadyStarted ''load'' path ''recovery requires a stopped scheduler''
       ScheduleOutcome.NoChange"

text \<open>The part of load that runs without the lock: verification and decoding.\<close>

definition load_file ::
    "LoadOptions \<Rightarrow> string \<Rightarrow> ResourceLimits \<Rightarrow> u8 list
       \<Rightarrow> RecoveryResult + DecodedState \<times> RecoveryResult" where
  "load_file options path l file =
     (let r0 = default_recovery\<lparr>rv_bytes_read := of_nat (length file)\<rparr> in
      case verify_file file of Inl e \<Rightarrow> Inl (r0\<lparr>rv_error := Some e\<rparr>)
      | Inr (info, payload) \<Rightarrow>
          let r1 = r0\<lparr>rv_format_version := ph_format_version info,
                      rv_stored_digest := ph_semantic_digest info,
                      rv_computed_digest := sha256 payload\<rparr>
          in if ld_require_semantic_digest options \<and> rv_stored_digest r1 \<noteq> rv_computed_digest r1
          then Inl (r1\<lparr>rv_error := Some (persistence_failure ErrorCode.PersistenceIntegrity ''load''
                 path ''semantic state digest does not match the stored digest'')\<rparr>)
          else case decode_state l payload of
            Inl e \<Rightarrow> Inl (r1\<lparr>rv_error := Some (persistence_failure ErrorCode.PersistenceFormat
                              ''load'' path e)\<rparr>)
          | Inr d \<Rightarrow> Inr (d, r1\<lparr>rv_assignments_requiring_revalidation :=
                                    ds_requiring_revalidation d\<rparr>))"

text \<open>The decoded state replaces the state; indexes and accounting are computed anew.\<close>

definition adopt :: "DecodedState \<Rightarrow> Impl \<Rightarrow> Impl" where
  "adopt d s = s\<lparr>
     im_scheduler_id := (if ds_scheduler_id d = 0 then im_scheduler_id s else ds_scheduler_id d),
     im_scheduler_epoch := ds_scheduler_epoch d + 1,
     im_coordinator_epoch := ds_coordinator_epoch d,
     im_queue_generation := ds_queue_generation d,
     im_next_admission_sequence :=
       (if ds_next_admission_sequence d = 0 then 1 else ds_next_admission_sequence d),
     im_assignments_created := ds_assignments_created d,
     im_assignments_invalidated := ds_assignments_invalidated d,
     im_scheduling_rounds := ds_scheduling_rounds d, im_policy := ds_policy d,
     im_queues := ds_queues d, im_tenants := ds_tenants d, im_agents := ds_agents d,
     im_work := ds_work d, im_assignments := ds_assignments d, im_leases := ds_leases d,
     im_fenced_boots := ds_fenced_boots d, im_running := False, im_admission_open := False,
     im_shutting_down := False, im_shutdown_at_ms := 0, im_recovered := True\<rparr>"

definition recover :: "DecodedState \<Rightarrow> Impl \<Rightarrow> Impl" where
  "recover d s =
     (let s1 = rebuild_indexes (adopt d s);
          s2 = fold refresh_agent_accounting (om_keys (im_agents s1)) s1;
          s3 = fold refresh_work_accounting (om_keys (im_work s2)) s2
      in bump_revision s3)"

definition load_commit ::
    "LoadOptions \<Rightarrow> string \<Rightarrow> DecodedState \<Rightarrow> RecoveryResult \<Rightarrow> Impl \<Rightarrow> Impl \<times> RecoveryResult" where
  "load_commit options path d r s =
     (if im_running s then (s, r\<lparr>rv_error := Some (load_running path)\<rparr>)
      else let s' = recover d s in
        (s', r\<lparr>rv_previous_scheduler_epoch := im_scheduler_epoch s,
               rv_previous_coordinator_epoch := im_coordinator_epoch s,
               rv_agents_loaded := length (ds_agents d), rv_work_loaded := length (ds_work d),
               rv_assignments_loaded := length (ds_assignments d),
               rv_leases_invalidated := length (ds_leases d),
               rv_fenced_boots_loaded := length (ds_fenced_boots d),
               rv_queues_loaded := length (ds_queues d),
               rv_dynamic_evidence_invalidated := length (ds_agents d),
               rv_new_scheduler_epoch := im_scheduler_epoch s',
               rv_new_coordinator_epoch := im_coordinator_epoch s',
               rv_detail := (if ld_inspect_only options then ''inspected''
                             else ''recovered conservatively'')\<rparr>))"

text \<open>The contents of the file are the result of read_all, an error or the bytes.\<close>

definition load_state ::
    "LoadOptions \<Rightarrow> string \<Rightarrow> SchedulerError + u8 list \<Rightarrow> Impl \<Rightarrow> Impl \<times> RecoveryResult" where
  "load_state options path contents s =
     (if im_running s then (s, default_recovery\<lparr>rv_error := Some (load_running path)\<rparr>)
      else case contents of
        Inl e \<Rightarrow> (s, default_recovery\<lparr>rv_error := Some e\<rparr>)
      | Inr file \<Rightarrow>
          (case load_file options path (im_limits s) file of
             Inl r \<Rightarrow> (s, r) | Inr (d, r) \<Rightarrow> load_commit options path d r s))"

end
