(* ===== verification/Digest_Facts.thy ===== *)
theory Digest_Facts
  imports Sched_Digest
begin

section \<open>What the digests detect\<close>

text \<open>
  CRC-32 as a map on its register: each bit step is linear and injective, eight of them are
  one table step, so changing one byte of the input always changes the checksum. The SHA-256
  hasher does not depend on how its input is cut into pieces.
\<close>

subsection \<open>CRC-32\<close>

lemma crc_bit_step_odd: "crc_bit_step v = (if odd v then 0xEDB88320 XOR drop_bit 1 v else drop_bit 1 v)"
proof -
  have "v AND 1 \<noteq> 0 \<longleftrightarrow> odd v" by (simp add: and_one_eq odd_iff_mod_2_eq_one even_iff_mod_2_eq_zero)
  then show ?thesis by (simp add: crc_bit_step_def)
qed

lemma crc_bit_step_linear: "crc_bit_step (x XOR y) = crc_bit_step x XOR crc_bit_step y"
  by (simp add: crc_bit_step_odd even_xor_iff drop_bit_xor ac_simps)

lemma crc_bit_step_top: "bit (crc_bit_step x) 31 \<longleftrightarrow> odd x"
proof -
  have "bit (0xEDB88320 :: u32) 31" by simp
  moreover have "\<not> bit x 32" using bit_imp_le_length [of x 32] by auto
  ultimately show ?thesis by (simp add: crc_bit_step_odd bit_simps)
qed

lemma crc_bit_step_zero: "crc_bit_step x = 0 \<Longrightarrow> x = 0"
proof -
  assume zero: "crc_bit_step x = 0"
  then have even: "even x" using crc_bit_step_top [of x] by simp
  then have shifted: "drop_bit 1 x = 0" using zero by (simp add: crc_bit_step_odd)
  show "x = 0"
  proof (rule bit_word_eqI)
    fix n
    show "bit x n = bit 0 n"
    proof (cases n)
      case 0
      then show ?thesis using even by (simp add: bit_0)
    next
      case (Suc k)
      have "\<not> bit (drop_bit 1 x) k" by (simp only: shifted bit_0_eq bot_apply) simp
      then show ?thesis by (simp add: bit_drop_bit_eq Suc)
    qed
  qed
qed

lemma crc_bits_linear: "(crc_bit_step ^^ n) (x XOR y) = (crc_bit_step ^^ n) x XOR (crc_bit_step ^^ n) y"
  by (induction n) (simp_all add: crc_bit_step_linear)

lemma crc_bits_zero: "(crc_bit_step ^^ n) z = 0 \<Longrightarrow> z = 0"
  by (induction n) (auto dest: crc_bit_step_zero)

lemma xor_zero_iff: "x XOR y = 0 \<longleftrightarrow> x = (y :: 'a::len word)"
  by (metis xor.right_neutral xor_self_eq xor.left_commute xor.commute)

lemma crc_bits_inject: "(crc_bit_step ^^ n) x = (crc_bit_step ^^ n) y \<longleftrightarrow> x = y"
  using crc_bits_zero [of n "x XOR y"] by (auto simp: crc_bits_linear xor_zero_iff)

text \<open>With the low bits clear the steps only shift.\<close>

lemma crc_bits_shift: "take_bit n x = 0 \<Longrightarrow> (crc_bit_step ^^ n) x = drop_bit n x"
proof (induction n)
  case (Suc n)
  have low: "\<not> bit x k" if "k < Suc n" for k
  proof -
    have "\<not> bit (take_bit (Suc n) x) k" by (simp only: Suc.prems) simp
    with that show ?thesis by (simp add: bit_take_bit_iff)
  qed
  have "take_bit n x = 0" by (rule bit_word_eqI) (use low in \<open>auto simp: bit_take_bit_iff\<close>)
  then have "(crc_bit_step ^^ n) x = drop_bit n x" by (rule Suc.IH)
  moreover have "even (drop_bit n x)"
    using low [of n] bit_0 [of "drop_bit n x"] by (simp add: bit_drop_bit_eq)
  ultimately show ?case by (simp add: crc_bit_step_odd [of "drop_bit n x"] drop_bit_drop_bit)
qed simp

lemma low_byte_mask: "take_bit 8 v = v AND 0xFF" for v :: u32
  by (simp add: take_bit_eq_mask mask_eq_exp_minus_1)

text \<open>The step of the loop over the bytes is eight bit steps.\<close>

lemma crc_table_step: "(crc_bit_step ^^ 8) x = crc_table ! unat (x AND 0xFF) XOR drop_bit 8 x"
proof -
  let ?lo = "take_bit 8 x"
  let ?hi = "x XOR ?lo"
  have "take_bit 8 ?hi = 0"
    by (rule bit_word_eqI) (auto simp: bit_take_bit_iff bit_xor_iff)
  then have "(crc_bit_step ^^ 8) ?hi = drop_bit 8 ?hi" by (rule crc_bits_shift)
  also have "\<dots> = drop_bit 8 x"
    by (rule bit_word_eqI) (simp add: bit_drop_bit_eq bit_take_bit_iff bit_xor_iff)
  finally have hi: "(crc_bit_step ^^ 8) ?hi = drop_bit 8 x" .
  have "unat ?lo = take_bit 8 (unat x)" by (simp add: unsigned_take_bit_eq)
  also have "\<dots> < 256" using take_bit_nat_less_exp [of 8 "unat x"] by simp
  finally have "crc_table ! unat ?lo = (crc_bit_step ^^ 8) ?lo" by (simp add: crc_table_def)
  moreover have "x = ?lo XOR ?hi" by (simp add: xor.left_commute)
  then have "(crc_bit_step ^^ 8) x = (crc_bit_step ^^ 8) ?lo XOR (crc_bit_step ^^ 8) ?hi"
    using crc_bits_linear [of 8 ?lo ?hi] by metis
  ultimately show ?thesis by (simp only: hi flip: low_byte_mask)
qed

lemma crc_byte_step_bits: "crc_byte_step b v = (crc_bit_step ^^ 8) (v XOR ucast b)"
proof -
  have "drop_bit 8 (v XOR ucast b) = drop_bit 8 v"
  proof (rule bit_word_eqI)
    fix n
    have "\<not> bit b (8 + n)" using bit_imp_le_length [of b "8 + n"] by auto
    then show "bit (drop_bit 8 (v XOR ucast b)) n = bit (drop_bit 8 v) n"
      by (simp add: bit_drop_bit_eq bit_xor_iff bit_unsigned_iff)
  qed
  then show ?thesis by (simp only: crc_table_step crc_byte_step_def)
qed

lemma xor_cancel: "x XOR z = y XOR z \<longleftrightarrow> x = (y :: 'a::len word)"
  by (metis xor.assoc xor_self_eq xor.right_neutral)

lemma crc_byte_step_inject:
  "crc_byte_step b v = crc_byte_step b w \<longleftrightarrow> v = w"
  "crc_byte_step b v = crc_byte_step c v \<longleftrightarrow> b = c"
proof -
  show "crc_byte_step b v = crc_byte_step b w \<longleftrightarrow> v = w"
    by (simp add: crc_byte_step_bits crc_bits_inject xor_cancel)
  have "(ucast b :: u32) = ucast c \<longleftrightarrow> b = c"
  proof
    assume eq: "(ucast b :: u32) = ucast c"
    have "bit b n = bit c n" if "n < 8" for n
      using arg_cong [OF eq, of "\<lambda>w. bit w n"] that by (simp add: bit_unsigned_iff)
    then show "b = c" by (auto intro: bit_word_eqI)
  qed simp
  then show "crc_byte_step b v = crc_byte_step c v \<longleftrightarrow> b = c"
    by (simp add: crc_byte_step_bits crc_bits_inject xor.commute [of v] xor_cancel)
qed

lemma crc_fold_inject: "fold crc_byte_step xs v = fold crc_byte_step xs w \<longleftrightarrow> v = w"
  by (induction xs arbitrary: v w) (simp_all add: crc_byte_step_inject)

text \<open>Changing one byte changes the checksum.\<close>

lemma crc32_byte_changed:
  assumes "i < length xs" and "xs ! i \<noteq> b"
  shows "crc32 (xs[i := b]) seed \<noteq> crc32 xs seed"
proof
  assume "crc32 (xs[i := b]) seed = crc32 xs seed"
  then have "fold crc_byte_step (xs[i := b]) (seed XOR 0xFFFFFFFF)
      = fold crc_byte_step xs (seed XOR 0xFFFFFFFF)"
    unfolding crc32_def by (simp only: xor_cancel)
  moreover have "xs[i := b] = take i xs @ b # drop (Suc i) xs"
    and "xs = take i xs @ xs ! i # drop (Suc i) xs"
    using assms(1) by (simp_all add: upd_conv_take_nth_drop id_take_nth_drop)
  ultimately have "fold crc_byte_step (take i xs @ b # drop (Suc i) xs) (seed XOR 0xFFFFFFFF)
      = fold crc_byte_step (take i xs @ xs ! i # drop (Suc i) xs) (seed XOR 0xFFFFFFFF)"
    by (simp only:)
  then have "fold crc_byte_step (drop (Suc i) xs)
        (crc_byte_step b (fold crc_byte_step (take i xs) (seed XOR 0xFFFFFFFF)))
      = fold crc_byte_step (drop (Suc i) xs)
        (crc_byte_step (xs ! i) (fold crc_byte_step (take i xs) (seed XOR 0xFFFFFFFF)))"
    unfolding fold_append fold.simps comp_apply .
  then show False using assms(2) unfolding crc_fold_inject crc_byte_step_inject by simp
qed

subsection \<open>The streaming hasher\<close>

text \<open>The hasher, one byte at a time.\<close>

definition feed_byte :: "u8 \<Rightarrow> Hasher256 \<Rightarrow> Hasher256" where
  "feed_byte b h =
     (if length (hs_buffer h) = 63
      then h\<lparr>hs_state := compress (hs_state h) (hs_buffer h @ [b]), hs_buffer := []\<rparr>
      else h\<lparr>hs_buffer := hs_buffer h @ [b]\<rparr>)"

lemma feed_bytes_short:
  "length (hs_buffer h) + length bs < 64 \<Longrightarrow> fold feed_byte bs h = h\<lparr>hs_buffer := hs_buffer h @ bs\<rparr>"
  by (induction bs arbitrary: h) (simp_all add: feed_byte_def)

lemma feed_bytes_block:
  assumes "length (hs_buffer h) + length bs = 64" and "bs \<noteq> []"
  shows "fold feed_byte bs h =
    h\<lparr>hs_state := compress (hs_state h) (hs_buffer h @ bs), hs_buffer := []\<rparr>"
proof -
  obtain cs b where bs: "bs = cs @ [b]" using assms(2) by (cases bs rule: rev_cases) auto
  then have "fold feed_byte cs h = h\<lparr>hs_buffer := hs_buffer h @ cs\<rparr>"
    using assms(1) by (intro feed_bytes_short) simp
  then show ?thesis using assms(1) by (simp add: bs feed_byte_def)
qed

lemma feed_byte_buffer: "length (hs_buffer h) < 64 \<Longrightarrow> length (hs_buffer (feed_byte b h)) < 64"
  by (simp add: feed_byte_def)

lemma feed_bytes_buffer: "length (hs_buffer h) < 64 \<Longrightarrow> length (hs_buffer (fold feed_byte bs h)) < 64"
  by (induction bs arbitrary: h) (simp_all add: feed_byte_buffer)

lemma hasher_feed_bytes: "length (hs_buffer h) < 64 \<Longrightarrow> hasher_feed h data = fold feed_byte data h"
proof (induction h data rule: hasher_feed.induct)
  case (1 h data)
  show ?case
  proof (cases "data = []")
    case True
    then show ?thesis by (simp add: hasher_feed.simps)
  next
    case False
    define n where "n = min (64 - length (hs_buffer h)) (length data)"
    define h' where "h' = (if length (hs_buffer h @ take n data) = 64
      then h\<lparr>hs_state := compress (hs_state h) (hs_buffer h @ take n data), hs_buffer := []\<rparr>
      else h\<lparr>hs_buffer := hs_buffer h @ take n data\<rparr>)"
    have n: "n \<le> length data" "length (hs_buffer h) + n \<le> 64" "0 < n"
      using "1.prems" False by (auto simp: n_def)
    have "fold feed_byte (take n data) h = h'"
      using n False feed_bytes_block [of h "take n data"] feed_bytes_short [of h "take n data"]
      by (auto simp: h'_def)
    moreover have "length (hs_buffer h') < 64" using n by (auto simp: h'_def)
    then have "hasher_feed h' (drop n data) = fold feed_byte (drop n data) h'"
      using "1.IH" [OF _ n_def refl h'_def] "1.prems" False by simp
    moreover have "hasher_feed h data = hasher_feed h' (drop n data)"
      using "1.prems" False by (subst hasher_feed.simps) (simp add: h'_def n_def Let_def)
    moreover have "fold feed_byte data h = fold feed_byte (drop n data) (fold feed_byte (take n data) h)"
      by (metis append_take_drop_id fold_append comp_apply)
    ultimately show ?thesis by simp
  qed
qed

definition hasher_wf :: "Hasher256 \<Rightarrow> bool" where
  "hasher_wf h \<longleftrightarrow> length (hs_buffer h) < 64"

lemma hasher_wf_init [simp]: "hasher_wf hasher_init"
  by (simp add: hasher_wf_def hasher_init_def)

lemma hasher_update_bytes: "hasher_wf h \<Longrightarrow> hasher_update data h =
    fold feed_byte data (h\<lparr>hs_total_bytes := hs_total_bytes h + of_nat (length data)\<rparr>)"
  by (simp add: hasher_update_def hasher_wf_def hasher_feed_bytes)

lemma feed_byte_total: "feed_byte b (h\<lparr>hs_total_bytes := n\<rparr>) = (feed_byte b h)\<lparr>hs_total_bytes := n\<rparr>"
  by (simp add: feed_byte_def)

lemma feed_bytes_total:
  "fold feed_byte bs (h\<lparr>hs_total_bytes := n\<rparr>) = (fold feed_byte bs h)\<lparr>hs_total_bytes := n\<rparr>"
  by (induction bs arbitrary: h) (simp_all add: feed_byte_total)

lemma feed_bytes_keep_total [simp]: "hs_total_bytes (fold feed_byte bs h) = hs_total_bytes h"
  by (induction bs arbitrary: h) (simp_all add: feed_byte_def)

lemma hasher_wf_update [simp]: "hasher_wf h \<Longrightarrow> hasher_wf (hasher_update data h)"
  by (simp add: hasher_update_bytes) (simp add: hasher_wf_def feed_bytes_buffer)

lemma hasher_update_append:
  "hasher_wf h \<Longrightarrow> hasher_update ys (hasher_update xs h) = hasher_update (xs @ ys) h"
  by (simp add: hasher_update_bytes [of "hasher_update xs h"])
    (simp add: hasher_update_bytes feed_bytes_total add.assoc)

lemma hasher_update_pieces:
  "hasher_wf h \<Longrightarrow> fold hasher_update pieces h = hasher_update (concat pieces) h"
proof (induction pieces arbitrary: h)
  case Nil
  then show ?case by (simp add: hasher_update_bytes)
next
  case (Cons p pieces)
  then show ?case by (simp add: hasher_update_append)
qed

subsection \<open>SHA-256 of a message\<close>

text \<open>The specification: pad the message, cut it into blocks of 64 bytes, compress each.\<close>

fun blocks64 :: "nat \<Rightarrow> u8 list \<Rightarrow> u8 list list" where
  "blocks64 0 bs = []"
| "blocks64 (Suc n) bs = take 64 bs # blocks64 n (drop 64 bs)"

definition sha_padding :: "nat \<Rightarrow> u8 list" where
  "sha_padding n = 0x80 # replicate ((119 - n mod 64) mod 64) 0 @ be_bytes64 (of_nat n * 8)"

definition sha256_spec :: "u8 list \<Rightarrow> Digest256" where
  "sha256_spec message =
     (let padded = message @ sha_padding (length message)
      in sha_state_bytes (fold (\<lambda>block st. compress st block)
           (blocks64 (length padded div 64) padded) (hs_state hasher_init)))"

lemma blocks64_append:
  "64 * n \<le> length bs \<Longrightarrow> blocks64 n (bs @ cs) = blocks64 n bs"
  by (induction n arbitrary: bs) auto

lemma blocks64_Suc:
  "64 * n \<le> length bs \<Longrightarrow> blocks64 (Suc n) bs = blocks64 n bs @ [take 64 (drop (64 * n) bs)]"
proof (induction n arbitrary: bs)
  case (Suc n)
  then have "64 * n \<le> length (drop 64 bs)" by simp
  from Suc.IH [OF this] show ?case
    by (simp only: blocks64.simps(2) [of "Suc n" bs] blocks64.simps(2) [of n bs] append_Cons drop_drop)
      (simp add: add.commute)
qed simp

lemma feed_bytes_blocks:
  "hs_buffer h = [] \<Longrightarrow> fold feed_byte bs h =
     h\<lparr>hs_state := fold (\<lambda>block st. compress st block) (blocks64 (length bs div 64) bs) (hs_state h),
       hs_buffer := drop (64 * (length bs div 64)) bs\<rparr>"
proof (induction bs rule: rev_induct)
  case (snoc b bs)
  let ?n = "length bs div 64" and ?r = "drop (64 * (length bs div 64)) bs"
  let ?h = "fold feed_byte bs h"
  have r: "length ?r = length bs mod 64" by (simp add: minus_mult_div_eq_mod)
  have le: "64 * ?n \<le> length bs" by simp
  show ?case
  proof (cases "length bs mod 64 = 63")
    case True
    then have d: "length (bs @ [b]) div 64 = Suc ?n" by (simp add: div_Suc mod_Suc)
    have "64 * Suc ?n = length (bs @ [b])"
      using True mult_div_mod_eq [of 64 "length bs"] by simp
    then have "take 64 (drop (64 * ?n) (bs @ [b])) = ?r @ [b]"
      using r True by simp
    then have "blocks64 (Suc ?n) (bs @ [b]) = blocks64 ?n bs @ [?r @ [b]]"
      using blocks64_Suc [of ?n "bs @ [b]"] blocks64_append [OF le, of "[b]"] le by simp
    moreover have "drop (64 * Suc ?n) (bs @ [b]) = []"
      using \<open>64 * Suc ?n = length (bs @ [b])\<close> by simp
    ultimately show ?thesis
      unfolding d using snoc True r by (simp add: feed_byte_def)
  next
    case False
    then have d: "length (bs @ [b]) div 64 = ?n" by (simp add: div_Suc mod_Suc)
    show ?thesis
      unfolding d using snoc False r le blocks64_append [OF le, of "[b]"]
      by (simp add: feed_byte_def)
  qed
qed simp

text \<open>The zero loop of the padding reaches the 56th byte.\<close>

lemma pad_zeros_reach:
  assumes "hasher_wf h" and "(120 - length (hs_buffer h)) mod 64 \<le> n"
  shows "\<exists>t. pad_zeros n h =
    (fold feed_byte (replicate ((120 - length (hs_buffer h)) mod 64) 0) h)\<lparr>hs_total_bytes := t\<rparr>"
  using assms
proof (induction n arbitrary: h)
  case 0
  then show ?case by (auto intro: exI [of _ "hs_total_bytes h"])
next
  case (Suc n)
  let ?b = "length (hs_buffer h)" let ?k = "(120 - ?b) mod 64"
  show ?case
  proof (cases "?b = 56")
    case True
    then show ?thesis by (auto intro: exI [of _ "hs_total_bytes h"])
  next
    case False
    let ?h = "hasher_update [0] h"
    have b: "?b < 64" using Suc.prems by (simp add: hasher_wf_def)
    have buffer: "length (hs_buffer ?h) = (if ?b = 63 then 0 else Suc ?b)"
      using Suc.prems by (simp add: hasher_update_bytes feed_byte_def)
    have k: "?k = Suc ((120 - length (hs_buffer ?h)) mod 64)"
      using b False unfolding buffer by (cases "?b < 56") (auto simp: mod_if)
    then have "(120 - length (hs_buffer ?h)) mod 64 \<le> n" using Suc.prems by simp
    then obtain t where t: "pad_zeros n ?h =
        (fold feed_byte (replicate ((120 - length (hs_buffer ?h)) mod 64) 0) ?h)\<lparr>hs_total_bytes := t\<rparr>"
      using Suc.IH [of ?h] Suc.prems by auto
    have "pad_zeros (Suc n) h = (fold feed_byte (replicate ?k 0) h)\<lparr>hs_total_bytes := t\<rparr>"
      using False Suc.prems t feed_bytes_total [of "replicate _ 0" _ "feed_byte 0 h"]
      by (simp add: k hasher_update_bytes feed_byte_total)
    then show ?thesis by (rule exI)
  qed
qed

lemma length_be_bytes64 [simp]: "length (be_bytes64 v) = 8"
  by (simp add: be_bytes64_def)

lemma hasher_final_spec:
  "hasher_final (hasher_update message hasher_init) = sha256_spec message"
proof -
  let ?h = "hasher_update message hasher_init" and ?z = "(119 - length message mod 64) mod 64"
  let ?tail = "0x80 # replicate ?z 0"
  have h: "?h = (fold feed_byte message hasher_init)\<lparr>hs_total_bytes := of_nat (length message)\<rparr>"
    using hasher_update_bytes [of hasher_init message]
    by (simp add: feed_bytes_total) (simp add: hasher_init_def)
  have "hs_buffer hasher_init = []" by (simp add: hasher_init_def)
  then have buffer: "length (hs_buffer ?h) = length message mod 64"
    unfolding h by (simp add: feed_bytes_blocks minus_mult_div_eq_mod)
  let ?g = "hasher_update [0x80] ?h"
  have wf: "hasher_wf ?g" by simp
  have g: "?g = (fold feed_byte (message @ [0x80]) hasher_init)\<lparr>hs_total_bytes := of_nat (length message) + 1\<rparr>"
    using hasher_update_bytes [OF hasher_wf_update [OF hasher_wf_init], of "[0x80]" message]
    by (simp add: h feed_byte_total)
  have "length (hs_buffer ?g) = (if length message mod 64 = 63 then 0 else Suc (length message mod 64))"
    using buffer by (simp add: hasher_update_bytes [of ?h] feed_byte_def)
  moreover have "length message mod 64 < 64" by simp
  ultimately have z: "(120 - length (hs_buffer ?g)) mod 64 = ?z" by auto
  then obtain t where "pad_zeros 64 ?g = (fold feed_byte (replicate ?z 0) ?g)\<lparr>hs_total_bytes := t\<rparr>"
    using pad_zeros_reach [OF wf, of 64] by auto
  then have padded: "pad_zeros 64 ?g = (fold feed_byte (message @ ?tail) hasher_init)\<lparr>hs_total_bytes := t\<rparr>"
    unfolding g feed_bytes_total by (simp del: fold_replicate)
  have wf': "hasher_wf (pad_zeros 64 ?g)"
    unfolding padded using feed_bytes_buffer [of hasher_init "message @ ?tail"]
    by (simp add: hasher_wf_def hasher_init_def del: fold_append fold.simps fold_replicate)
  have total: "hs_total_bytes ?h = of_nat (length message)" by (simp add: h)
  have "hs_state (hasher_update (be_bytes64 (of_nat (length message) * 8)) (pad_zeros 64 ?g))
      = hs_state (fold feed_byte (message @ sha_padding (length message)) hasher_init)"
    by (subst hasher_update_bytes [OF wf'], unfold padded)
      (simp add: feed_bytes_total sha_padding_def del: fold_replicate)
  also have "\<dots> = fold (\<lambda>block st. compress st block)
      (blocks64 (length (message @ sha_padding (length message)) div 64)
        (message @ sha_padding (length message))) (hs_state hasher_init)"
    by (subst feed_bytes_blocks) (simp_all add: hasher_init_def)
  finally show ?thesis
    by (simp only: hasher_final_def sha256_spec_def Let_def total)
qed

end
