(* ===== verification/Persistence_Facts.thy ===== *)
theory Persistence_Facts
  imports Persistence Digest_Facts
begin

section \<open>What was saved is what is read\<close>

text \<open>
  The image of a state under saving and reading (\<open>decoded_of\<close>), the round trip of the payload,
  and what the checks on the file guarantee: a file that verifies has one length and tolerates
  no changed byte outside its last four, which nothing covers.
\<close>

subsection \<open>Rebuilding a map from its entries\<close>

lemma om_put_last: "\<forall>k' \<in> set (om_keys m). k' < k \<Longrightarrow> om_put k v m = m @ [(k, v)]"
  by (induction m) (auto simp: om_keys_def)

lemma om_emplace_last: "\<forall>k' \<in> set (om_keys m). k' < k \<Longrightarrow> om_emplace k v m = m @ [(k, v)]"
proof -
  assume last: "\<forall>k' \<in> set (om_keys m). k' < k"
  then have "om_get m k = None" using om_keys_iff [of k m] by fastforce
  then show ?thesis using last by (simp add: om_emplace_def om_put_last)
qed

lemma emplace_entries:
  assumes "om_ok (acc @ m)" and "\<forall>(k, v) \<in> set m. key (f v) = k"
  shows "fold (\<lambda>r. om_emplace (key (f r)) (g r)) (map snd m) acc = acc @ om_map g m"
  using assms
proof (induction m arbitrary: acc)
  case Nil
  then show ?case by (simp add: om_map_def)
next
  case (Cons e m)
  obtain k v where e: "e = (k, v)" by (cases e)
  then have "\<forall>k' \<in> set (om_keys acc). k' < k"
    using Cons.prems(1) by (auto simp: om_ok_def om_keys_def sorted_wrt_append)
  then have "om_emplace k (g v) acc = acc @ [(k, g v)]" by (rule om_emplace_last)
  moreover have "key (f v) = k" using Cons.prems(2) e by auto
  moreover have "om_ok ((acc @ [(k, g v)]) @ m)"
    using Cons.prems(1) e by (simp add: om_ok_def om_keys_def)
  ultimately show ?case using Cons.IH [of "acc @ [(k, g v)]"] Cons.prems(2) e by (simp add: om_map_def)
qed

lemma emplaced: "om_ok m \<Longrightarrow> \<forall>(k, v) \<in> set m. key (f v) = k \<Longrightarrow>
   fold (\<lambda>r. om_emplace (key (f r)) (g r)) (map snd m) [] = om_map g m"
  using emplace_entries [of "[]" m key f g] by simp

subsection \<open>The image of a state\<close>

definition state_fits :: "Impl \<Rightarrow> bool" where
  "state_fits s \<longleftrightarrow> (let l = im_limits s in
     stored_policy_fits l (im_policy s)
     \<and> (length (im_queues s) \<le> unat (max_queues l)
        \<and> (\<forall>x \<in> set (map snd (im_queues s)). stored_queue_fits l x))
     \<and> length (im_tenants s) \<le> unat (max_tenants l)
     \<and> (length (im_agents s) \<le> unat (max_agents l)
        \<and> (\<forall>x \<in> set (map snd (im_agents s)). stored_agent_fits l x))
     \<and> (length (im_work s) \<le> unat (max_work_items l)
        \<and> (\<forall>x \<in> set (map snd (im_work s)). stored_work_fits l x))
     \<and> (length (im_assignments s) \<le> unat (max_active_assignments l + max_historical_assignments l)
        \<and> (\<forall>x \<in> set (map snd (im_assignments s)). stored_assignment_fits l x))
     \<and> length (im_leases s) \<le> unat (max_leases l)
     \<and> (length (im_fenced_boots s) \<le> unat (max_fenced_boots l)
        \<and> (\<forall>x \<in> set (map snd (im_fenced_boots s)). stored_fence_fits l x)))"

text \<open>The maps are ordered and every record is stored under its own identity.\<close>

definition state_keyed :: "Impl \<Rightarrow> bool" where
  "state_keyed s \<longleftrightarrow>
     (om_ok (im_queues s) \<and> (\<forall>(k, v) \<in> set (im_queues s). qr_id v = k))
     \<and> (om_ok (im_tenants s) \<and> (\<forall>(k, v) \<in> set (im_tenants s). tr_id v = k))
     \<and> (om_ok (im_agents s) \<and> (\<forall>(k, v) \<in> set (im_agents s). ad_id (ag_descriptor v) = k))
     \<and> (om_ok (im_work s) \<and> (\<forall>(k, v) \<in> set (im_work s). wq_id (wr_request v) = k))
     \<and> (om_ok (im_assignments s) \<and> (\<forall>(k, v) \<in> set (im_assignments s). bn_id (ar_binding v) = k))
     \<and> (om_ok (im_leases s) \<and> (\<forall>(k, v) \<in> set (im_leases s). ls_id v = k))
     \<and> (om_ok (im_fenced_boots s) \<and> (\<forall>(k, v) \<in> set (im_fenced_boots s). fb_boot v = k))"

definition recovered_agent :: "AgentRecord \<Rightarrow> AgentRecord" where
  "recovered_agent r = conservative_agent (stored_agent r)"

definition recovered_work :: "WorkRecord \<Rightarrow> WorkRecord" where
  "recovered_work r = conservative_work (stored_work r)"

definition recovered_assignment :: "AssignmentRecord \<Rightarrow> AssignmentRecord" where
  "recovered_assignment r = conservative_assignment (stored_assignment r)"

definition decoded_of :: "Impl \<Rightarrow> DecodedState" where
  "decoded_of s =
     \<lparr> ds_scheduler_id = im_scheduler_id s, ds_scheduler_epoch = im_scheduler_epoch s,
       ds_coordinator_epoch = im_coordinator_epoch s, ds_queue_generation = im_queue_generation s,
       ds_next_admission_sequence = im_next_admission_sequence s,
       ds_assignments_created = im_assignments_created s,
       ds_assignments_invalidated = im_assignments_invalidated s,
       ds_scheduling_rounds = im_scheduling_rounds s, ds_admission_open = im_admission_open s,
       ds_shutting_down = im_shutting_down s, ds_policy = im_policy s,
       ds_queues = im_queues s, ds_tenants = im_tenants s,
       ds_agents = om_map recovered_agent (im_agents s),
       ds_work = om_map recovered_work (im_work s),
       ds_assignments = om_map recovered_assignment (im_assignments s),
       ds_leases = om_map stored_lease (im_leases s), ds_fenced_boots = im_fenced_boots s,
       ds_requiring_revalidation =
         length (filter record_active (map snd (im_assignments s))) \<rparr>"

text \<open>The loops over the entries of a section.\<close>

lemma restore_queues: "fold restore_queue rs d
    = d\<lparr>ds_queues := fold (\<lambda>r. om_emplace (qr_id r) r) rs (ds_queues d)\<rparr>"
  by (induction rs arbitrary: d) (simp_all add: restore_queue_def)

lemma restore_tenants: "fold restore_tenant rs d
    = d\<lparr>ds_tenants := fold (\<lambda>r. om_emplace (tr_id r) r) rs (ds_tenants d)\<rparr>"
  by (induction rs arbitrary: d) (simp_all add: restore_tenant_def)

lemma restore_agents: "fold restore_agent rs d
    = d\<lparr>ds_agents := fold (\<lambda>r. om_emplace (ad_id (ag_descriptor r)) (conservative_agent r)) rs (ds_agents d)\<rparr>"
  by (induction rs arbitrary: d) (simp_all add: restore_agent_def)

lemma restore_works: "fold restore_work rs d
    = d\<lparr>ds_work := fold (\<lambda>r. om_emplace (wq_id (wr_request r)) (conservative_work r)) rs (ds_work d)\<rparr>"
  by (induction rs arbitrary: d) (simp_all add: restore_work_def)

lemma restore_assignments: "fold restore_assignment rs d
    = d\<lparr>ds_assignments := fold (\<lambda>r. om_emplace (bn_id (ar_binding r)) (conservative_assignment r)) rs
          (ds_assignments d),
        ds_requiring_revalidation := ds_requiring_revalidation d + length (filter record_active rs)\<rparr>"
  by (induction rs arbitrary: d) (simp_all add: restore_assignment_def)

lemma restore_leases: "fold restore_lease rs d
    = d\<lparr>ds_leases := fold (\<lambda>x. om_emplace (ls_id x) (x\<lparr>ls_current := False\<rparr>)) rs (ds_leases d)\<rparr>"
  by (induction rs arbitrary: d) (simp_all add: restore_lease_def)

lemma restore_fences: "fold restore_fence rs d
    = d\<lparr>ds_fenced_boots := fold (\<lambda>r. om_emplace (fb_boot r) r) rs (ds_fenced_boots d)\<rparr>"
  by (induction rs arbitrary: d) (simp_all add: restore_fence_def)

text \<open>The chain of sections the reader runs through.\<close>

definition restored :: "Impl \<Rightarrow> DecodedState" where
  "restored s =
     (let d0 = default_decoded
            \<lparr>ds_scheduler_id := im_scheduler_id s, ds_scheduler_epoch := im_scheduler_epoch s,
             ds_coordinator_epoch := im_coordinator_epoch s,
             ds_queue_generation := im_queue_generation s,
             ds_next_admission_sequence := im_next_admission_sequence s,
             ds_assignments_created := im_assignments_created s,
             ds_assignments_invalidated := im_assignments_invalidated s,
             ds_scheduling_rounds := im_scheduling_rounds s,
             ds_admission_open := im_admission_open s, ds_shutting_down := im_shutting_down s\<rparr>
      in fold restore_fence (map snd (im_fenced_boots s))
        (fold restore_lease (map stored_lease (map snd (im_leases s)))
        (fold restore_assignment (map stored_assignment (map snd (im_assignments s)))
        (fold restore_work (map stored_work (map snd (im_work s)))
        (fold restore_agent (map stored_agent (map snd (im_agents s)))
        (fold restore_tenant (map snd (im_tenants s))
        (fold restore_queue (map snd (im_queues s)) (d0\<lparr>ds_policy := im_policy s\<rparr>))))))))"

lemma map_snd_om_map: "map f (map snd m) = map snd (om_map f m)"
  by (simp add: om_map_def)

lemma stored_keys [simp]:
  "ad_id (ag_descriptor (stored_agent a)) = ad_id (ag_descriptor a)"
  "wq_id (wr_request (stored_work w)) = wq_id (wr_request w)"
  "bn_id (ar_binding (stored_assignment r)) = bn_id (ar_binding r)"
  "ls_id (stored_lease x) = ls_id x"
  by (simp_all add: stored_agent_def stored_work_def stored_assignment_def stored_lease_def)

lemma stored_lease_again: "(stored_lease x)\<lparr>ls_current := False\<rparr> = stored_lease x"
  by (simp add: stored_lease_def)

lemma fold_map_entries: "fold (\<lambda>r. om_emplace (key r) (g r)) (map f xs) m
    = fold (\<lambda>r. om_emplace (key (f r)) (g (f r))) xs m"
  by (induction xs arbitrary: m) simp_all

lemma restored_eq:
  assumes "state_keyed s"
  shows "restored s = decoded_of s"
proof -
  have active: "record_active (stored_assignment r) = record_active r" for r
    by (simp add: stored_assignment_def)
  note k = assms [unfolded state_keyed_def]
  have maps:
    "fold (\<lambda>r. om_emplace (qr_id r) r) (map snd (im_queues s)) [] = im_queues s"
    "fold (\<lambda>r. om_emplace (tr_id r) r) (map snd (im_tenants s)) [] = im_tenants s"
    "fold (\<lambda>r. om_emplace (fb_boot r) r) (map snd (im_fenced_boots s)) [] = im_fenced_boots s"
    "fold (\<lambda>r. om_emplace (ad_id (ag_descriptor (stored_agent r))) (conservative_agent (stored_agent r)))
       (map snd (im_agents s)) [] = om_map recovered_agent (im_agents s)"
    "fold (\<lambda>r. om_emplace (wq_id (wr_request (stored_work r))) (conservative_work (stored_work r)))
       (map snd (im_work s)) [] = om_map recovered_work (im_work s)"
    "fold (\<lambda>r. om_emplace (bn_id (ar_binding (stored_assignment r)))
         (conservative_assignment (stored_assignment r)))
       (map snd (im_assignments s)) [] = om_map recovered_assignment (im_assignments s)"
    "fold (\<lambda>x. om_emplace (ls_id (stored_lease x)) (stored_lease x)) (map snd (im_leases s)) []
       = om_map stored_lease (im_leases s)"
    using emplaced [of "im_queues s" qr_id "\<lambda>r. r" "\<lambda>r. r"]
      emplaced [of "im_tenants s" tr_id "\<lambda>r. r" "\<lambda>r. r"]
      emplaced [of "im_fenced_boots s" fb_boot "\<lambda>r. r" "\<lambda>r. r"]
      emplaced [of "im_agents s" "\<lambda>r. ad_id (ag_descriptor r)" stored_agent "\<lambda>r. conservative_agent (stored_agent r)"]
      emplaced [of "im_work s" "\<lambda>r. wq_id (wr_request r)" stored_work "\<lambda>r. conservative_work (stored_work r)"]
      emplaced [of "im_assignments s" "\<lambda>r. bn_id (ar_binding r)" stored_assignment
        "\<lambda>r. conservative_assignment (stored_assignment r)"]
      emplaced [of "im_leases s" ls_id stored_lease stored_lease] k
    by (simp_all add: om_map_def recovered_agent_def [abs_def] recovered_work_def [abs_def]
        recovered_assignment_def [abs_def])
  show ?thesis
    unfolding restored_def decoded_of_def Let_def restore_queues restore_tenants restore_agents
      restore_works restore_assignments restore_leases restore_fences
    by (simp only: fold_map_entries [where f = stored_agent] fold_map_entries [where f = stored_work]
        fold_map_entries [where f = stored_assignment] fold_map_entries [where f = stored_lease])
      (simp add: default_decoded_def maps stored_lease_again active comp_def filter_map
        del: stored_keys fold_map map_map)
qed

subsection \<open>The payload\<close>

lemma seq_puts_one [simp]: "seq_puts [p] = p"
  by (rule ext) (simp split: sum.split)

lemma codable_section:
  assumes "codable body (read_tagged l tag d) d'"
  shows "codable (seq_puts [put_u8 tag, body]) (read_section l d) d'"
proof -
  obtain u where u: "codes body (read_tagged l tag d) d' u"
    using assms unfolding codable_def by (rule exE)
  obtain v where v: "codes (put_u8 tag) get_u8 tag v"
    using u8_format.encodable [OF TrueI] unfolding codable_def by (rule exE)
  have "codes (seq_puts [body]) (read_tagged l tag d) d' u" using u by simp
  then have "codes (seq_puts [put_u8 tag, body]) (read_section l d) d' (v @ u)"
    unfolding read_section_def by (rule codes_then [OF v]) simp
  then show ?thesis unfolding codable_def by (rule exI)
qed

lemma codable_into:
  assumes "storing_format put get img ok" and "ok x"
  shows "codable (put x) (into get upd d) (upd (img x) d)"
proof -
  obtain u where "codes (put x) get (img x) u"
    using storing_format.stored [OF assms] unfolding codable_def by (rule exE)
  then show ?thesis unfolding codable_def by (intro exI) (rule codes_into)
qed

lemma codable_repeat:
  assumes "codable p (s r) q" and "codable (seq_puts P) (repeat_get n s q) t"
  shows "codable (seq_puts (p # P)) (repeat_get (Suc n) s r) t"
proof -
  obtain u v where "codes p (s r) q u" "codes (seq_puts P) (repeat_get n s q) t v"
    using assms unfolding codable_def by (elim exE)
  then have "codes (seq_puts (p # P)) (repeat_get (Suc n) s r) t (u @ v)"
    unfolding repeat_get.simps by (rule codes_pair)
  then show ?thesis unfolding codable_def by (rule exI)
qed

lemma codable_end: "codable (seq_puts []) (repeat_get 0 s r) r"
  unfolding codable_def by (rule exI [of _ "[]"]) (simp add: codes_def return_get_def)

definition scheduler_image :: "DecodedState \<Rightarrow> Impl \<Rightarrow> DecodedState" where
  "scheduler_image d s = d
     \<lparr>ds_scheduler_id := im_scheduler_id s, ds_scheduler_epoch := im_scheduler_epoch s,
      ds_coordinator_epoch := im_coordinator_epoch s,
      ds_queue_generation := im_queue_generation s,
      ds_next_admission_sequence := im_next_admission_sequence s,
      ds_assignments_created := im_assignments_created s,
      ds_assignments_invalidated := im_assignments_invalidated s,
      ds_scheduling_rounds := im_scheduling_rounds s,
      ds_admission_open := im_admission_open s, ds_shutting_down := im_shutting_down s\<rparr>"

interpretation scheduler_section: storing_format write_scheduler "read_scheduler d"
    "scheduler_image d" "\<lambda>_. True" for d
  unfolding write_scheduler_def [abs_def] read_scheduler_def
  by (rule stored_fields stored_Nil)+
    (auto simp: scheduler_image_def intro!: DecodedState.equality)

definition state_sections :: "Impl \<Rightarrow> writer list" where
  "state_sections s =
     (let l = im_limits s in
       [seq_puts [put_u8 kSectionScheduler, write_scheduler s],
        seq_puts [put_u8 kSectionPolicy, write_policy l (im_policy s)],
        seq_puts [put_u8 kSectionQueues, put_list (write_queue l) (map snd (im_queues s))],
        seq_puts [put_u8 kSectionTenants, put_list (write_tenant l) (map snd (im_tenants s))],
        seq_puts [put_u8 kSectionAgents, put_list (write_agent l) (map snd (im_agents s))],
        seq_puts [put_u8 kSectionWork, put_list (write_work l) (map snd (im_work s))],
        seq_puts [put_u8 kSectionAssignments,
                  put_list (write_assignment l) (map snd (im_assignments s))],
        seq_puts [put_u8 kSectionLeases, put_list (write_lease l) (map snd (im_leases s))],
        seq_puts [put_u8 kSectionFenced, put_list (write_fence l) (map snd (im_fenced_boots s))]])"

lemma encode_state_sections: "encode_state s = seq_puts (put_u32 kSectionCount # state_sections s)"
  by (simp only: encode_state_def state_sections_def Let_def)

lemma nine_sections: "unat kSectionCount = Suc (Suc (Suc (Suc (Suc (Suc (Suc (Suc (Suc 0))))))))"
  by (simp add: kSectionCount_def)

lemma payload_sections:
  assumes "state_fits s"
  shows "codable (seq_puts (state_sections s))
    (repeat_get (unat kSectionCount) (read_section (im_limits s)) default_decoded) (restored s)"
proof -
  let ?l = "im_limits s"
  note fits = assms [unfolded state_fits_def Let_def]
  have scheduler: "codable (write_scheduler s) (read_tagged ?l kSectionScheduler d) (scheduler_image d s)" for d
    using scheduler_section.stored [OF TrueI, of s d] by (simp add: read_tagged_def)
  have policy: "codable (write_policy ?l (im_policy s)) (read_tagged ?l kSectionPolicy d) (d\<lparr>ds_policy := im_policy s\<rparr>)" for d
    using codable_into [OF stored_policy_format.exact.storing_format_axioms, of ?l "im_policy s"
        "\<lambda>v d. d\<lparr>ds_policy := v\<rparr>" d] fits by (simp add: read_tagged_def section_tags)
  have queues: "codable (put_list (write_queue ?l) (map snd (im_queues s)))
      (read_tagged ?l kSectionQueues d) (fold restore_queue (map snd (im_queues s)) d)" for d
    using codable_into [OF stored_queue_format.list_storing, of "map snd (im_queues s)" "max_queues ?l" ?l
        "''queue count exceeds the configured maximum''" "fold restore_queue" d] fits
    by (simp add: read_tagged_def section_tags)
  have tenants: "codable (put_list (write_tenant ?l) (map snd (im_tenants s)))
      (read_tagged ?l kSectionTenants d) (fold restore_tenant (map snd (im_tenants s)) d)" for d
    using codable_into [OF stored_tenant_format.list_storing, of "map snd (im_tenants s)" "max_tenants ?l" ?l
        "''tenant count exceeds the configured maximum''" "fold restore_tenant" d] fits
    by (simp add: read_tagged_def section_tags)
  have agents: "codable (put_list (write_agent ?l) (map snd (im_agents s)))
      (read_tagged ?l kSectionAgents d) (fold restore_agent (map stored_agent (map snd (im_agents s))) d)" for d
    using codable_into [OF stored_agent_format.list_storing, of "map snd (im_agents s)" "max_agents ?l" ?l
        "''agent count exceeds the configured maximum''" "fold restore_agent" d] fits
    by (simp add: read_tagged_def section_tags del: map_map fold_map)
  have works: "codable (put_list (write_work ?l) (map snd (im_work s)))
      (read_tagged ?l kSectionWork d) (fold restore_work (map stored_work (map snd (im_work s))) d)" for d
    using codable_into [OF stored_work_format.list_storing, of "map snd (im_work s)" "max_work_items ?l" ?l
        "''work count exceeds the configured maximum''" "fold restore_work" d] fits
    by (simp add: read_tagged_def section_tags del: map_map fold_map)
  have assignments: "codable (put_list (write_assignment ?l) (map snd (im_assignments s)))
      (read_tagged ?l kSectionAssignments d)
      (fold restore_assignment (map stored_assignment (map snd (im_assignments s))) d)" for d
    using codable_into [OF stored_assignment_format.list_storing, of "map snd (im_assignments s)"
        "max_active_assignments ?l + max_historical_assignments ?l" ?l
        "''assignment count exceeds the configured maximum''" "fold restore_assignment" d] fits
    by (simp add: read_tagged_def section_tags del: map_map fold_map)
  have leases: "codable (put_list (write_lease ?l) (map snd (im_leases s)))
      (read_tagged ?l kSectionLeases d) (fold restore_lease (map stored_lease (map snd (im_leases s))) d)" for d
    using codable_into [OF stored_lease_format.list_storing, of "map snd (im_leases s)" "max_leases ?l" ?l
        "''lease count exceeds the configured maximum''" "fold restore_lease" d] fits
    by (simp add: read_tagged_def section_tags del: map_map fold_map)
  have fences: "codable (put_list (write_fence ?l) (map snd (im_fenced_boots s)))
      (read_tagged ?l kSectionFenced d) (fold restore_fence (map snd (im_fenced_boots s)) d)" for d
    using codable_into [OF stored_fence_format.list_storing, of "map snd (im_fenced_boots s)" "max_fenced_boots ?l" ?l
        "''fenced boot count exceeds the configured maximum''" "fold restore_fence" d] fits
    by (simp add: read_tagged_def section_tags)
  show ?thesis
    unfolding restored_def Let_def scheduler_image_def [of default_decoded s, symmetric]
      state_sections_def nine_sections
    by (rule codable_repeat codable_section scheduler policy queues tenants agents works
        assignments leases fences codable_end)+
qed

theorem decode_encode_state:
  assumes "state_fits s" and "state_keyed s" and "encode_state s [] = Inr payload"
  shows "decode_state (im_limits s) payload = Inr (decoded_of s)"
proof -
  obtain u where u: "codes (put_u32 kSectionCount) get_u32 kSectionCount u"
    using u32_format.encodable [OF TrueI] unfolding codable_def by (rule exE)
  from payload_sections [OF assms(1)] obtain v where
    v: "codes (seq_puts (state_sections s))
      (repeat_get (unat kSectionCount) (read_section (im_limits s)) default_decoded) (restored s) v"
    unfolding codable_def by (rule exE)
  have "codes (encode_state s) (bind_get get_u32 (\<lambda>n. repeat_get (unat n) (read_section (im_limits s)) default_decoded))
      (restored s) (u @ v)"
    unfolding encode_state_sections by (rule codes_then [OF u v]) simp
  with assms(3) have payload: "payload = u @ v" unfolding codes_def by (metis Inr_Inl_False append_Nil sum.inject(2))
  have "get_u32 payload = Inr (kSectionCount, v)" using u unfolding payload codes_def by blast
  moreover have "repeat_get (unat kSectionCount) (read_section (im_limits s)) default_decoded v
      = Inr (restored s, [])" using v unfolding codes_def by (metis append_Nil2)
  ultimately show ?thesis
    by (simp add: decode_state_def decode_payload_def require_exhausted_def restored_eq [OF assms(2)])
qed

section \<open>Valid state files\<close>

text \<open>
  What the checks of verify_file amount to, that the bytes save produces pass them, and what
  they notice: every changed byte outside the last four of the file, truncation and bytes that
  follow the trailer.
\<close>

subsection \<open>The checks\<close>

definition file_valid :: "u8 list \<Rightarrow> bool" where
  "file_valid f \<longleftrightarrow> (let n = unat (mem_u64 16 f) in
     length f = 88 + n \<and> take 8 f = persistence_magic \<and> mem_u32 8 f = persistence_version
     \<and> crc32 (mem_put 36 [0, 0, 0, 0] (take 72 f)) 0 = mem_u32 36 f
     \<and> take 8 (drop (72 + n) f) = persistence_magic
     \<and> crc32 (take (72 + n) f) 0 XOR trailer_mask = mem_u32 (80 + n) f
     \<and> crc32 (take n (drop 72 f)) 0 = mem_u32 32 f)"

lemma declared_length:
  assumes "length f < 2 ^ 64"
  shows "72 + m + 16 = (of_nat (length f) :: u64) \<and> 88 \<le> length f \<longleftrightarrow> length f = 88 + unat m"
proof
  have m: "unat m < 2 ^ 64" using unsigned_less [of m] by simp
  assume eq: "72 + m + 16 = of_nat (length f) \<and> 88 \<le> length f"
  then have "m = of_nat (length f - 88)" by (simp add: of_nat_diff algebra_simps)
  then have "unat m = length f - 88" using assms by (simp add: unat_of_nat)
  then show "length f = 88 + unat m" using eq by simp
next
  assume "length f = 88 + unat m"
  then have "(of_nat (length f) :: u64) = 88 + of_nat (unat m)" by (simp only: of_nat_add of_nat_numeral)
  then show "72 + m + 16 = (of_nat (length f) :: u64) \<and> 88 \<le> length f"
    using \<open>length f = 88 + unat m\<close> by (simp add: algebra_simps)
qed

lemma verify_file_Inr:
  assumes "length f < 2 ^ 64"
  shows "(\<exists>info. verify_file f = Inr (info, payload)) \<longleftrightarrow>
    file_valid f \<and> payload = take (unat (mem_u64 16 f)) (drop 72 f)"
  using declared_length [OF assms, of "mem_u64 16 f"]
  by (auto simp: verify_file_def file_valid_def header_bytes_def trailer_bytes_def
      kFileCrcOffset_def Let_def add.commute [of 8])

lemma verify_file_digest:
  "verify_file f = Inr (info, payload) \<Longrightarrow> ph_semantic_digest info = take 32 (drop 40 f)
     \<and> ph_format_version info = persistence_version"
  by (auto simp: verify_file_def Let_def split: if_splits)

subsection \<open>A changed byte\<close>

lemma mem_u32_other: "i < k \<or> k + 4 \<le> i \<Longrightarrow> mem_u32 k (f[i := b]) = mem_u32 k f"
  by (auto simp: mem_u32_def drop_update_swap)

lemma mem_u64_other: "i < k \<or> k + 8 \<le> i \<Longrightarrow> mem_u64 k (f[i := b]) = mem_u64 k f"
  by (auto simp: mem_u64_def drop_update_swap)

lemma mem_u32_inject:
  assumes "length x = 4" "length y = 4" and "(le_value x :: u32) = le_value y"
  shows "x = y"
  using le_bytes_le_value [of x, where 'a = 32] le_bytes_le_value [of y, where 'a = 32] assms by simp

lemma mem_u32_changed:
  assumes "k \<le> i" "i < k + 4" "k + 4 \<le> length f" and "b \<noteq> f ! i"
  shows "mem_u32 k (f[i := b]) \<noteq> mem_u32 k f"
proof
  let ?x = "take 4 (drop k (f[i := b]))" and ?y = "take 4 (drop k f)"
  assume "mem_u32 k (f[i := b]) = mem_u32 k f"
  then have "?x = ?y" using assms(3) by (intro mem_u32_inject) (simp_all add: mem_u32_def)
  then have "?x ! (i - k) = ?y ! (i - k)" by simp
  then show False using assms by simp
qed

lemma take_drop_changed:
  assumes "k \<le> i" "i < k + n" "i < length f" and "b \<noteq> f ! i"
  shows "take n (drop k (f[i := b])) \<noteq> take n (drop k f)"
proof
  assume "take n (drop k (f[i := b])) = take n (drop k f)"
  then have "take n (drop k (f[i := b])) ! (i - k) = take n (drop k f) ! (i - k)" by simp
  then show False using assms by simp
qed

lemma mem_put_other:
  assumes "i < k \<or> k + length d \<le> i" and "k + length d \<le> length f" and "d \<noteq> []"
  shows "mem_put k d (f[i := b]) = (mem_put k d f)[i := b]"
proof (cases "i < k")
  case True
  then show ?thesis using assms(2) by (simp add: mem_put_def list_update_append take_update_swap)
next
  case False
  then have i: "k + length d \<le> i" using assms(1) by simp
  then have "\<not> i - k < length d" by arith
  then show ?thesis using assms(2,3) False i
    by (simp add: mem_put_def list_update_append drop_update_swap diff_diff_left)
qed

lemma mem_put_inside:
  assumes "k \<le> i" "i < k + length d"
  shows "mem_put k d (f[i := b]) = mem_put k d f"
  using assms by (auto simp: mem_put_def)

lemma nth_mem_put:
  assumes "i < k \<or> k + length d \<le> i" and "k + length d \<le> length f" and "i < length f"
  shows "mem_put k d f ! i = f ! i"
  using assms by (auto simp: mem_put_def nth_append)

lemma length_mem_put [simp]: "k + length d \<le> length f \<Longrightarrow> length (mem_put k d f) = length f"
  by (simp add: mem_put_def)

lemma changed_byte_invalid:
  assumes "file_valid f" and "i < length f - 4" and "b \<noteq> f ! i"
  shows "\<not> file_valid (f[i := b])"
proof
  assume g: "file_valid (f[i := b])"
  let ?n = "unat (mem_u64 16 f)" and ?h = "\<lambda>f. mem_put 36 [0, 0, 0, 0 :: u8] (take 72 f)"
  note f = assms(1) [unfolded file_valid_def Let_def] and g = g [unfolded file_valid_def Let_def]
  have len: "length f = 88 + ?n" and i: "i < 84 + ?n" using f assms(2) by auto
  show False
  proof (cases "i < 72")
    case True
    have "crc32 (?h (f[i := b])) 0 \<noteq> mem_u32 36 (f[i := b])"
    proof (cases "36 \<le> i \<and> i < 40")
      case True
      then have "?h (f[i := b]) = ?h f" by (simp add: take_update_swap mem_put_inside)
      moreover have "mem_u32 36 (f[i := b]) \<noteq> mem_u32 36 f"
        using True len assms(3) by (intro mem_u32_changed) auto
      ultimately show ?thesis using f by metis
    next
      case False
      then have "?h (f[i := b]) = (?h f)[i := b]"
        using len by (subst take_update_swap, intro mem_put_other) auto
      moreover have "?h f ! i \<noteq> b"
        using False True len assms(3) by (subst nth_mem_put) auto
      moreover have "i < length (?h f)" using True len by (subst length_mem_put) auto
      ultimately have "crc32 (?h (f[i := b])) 0 \<noteq> crc32 (?h f) 0"
        using crc32_byte_changed [of i "?h f" b 0] by simp
      moreover have "mem_u32 36 (f[i := b]) = mem_u32 36 f" using False by (intro mem_u32_other) auto
      ultimately show ?thesis using f by metis
    qed
    with g show False by blast
  next
    case False
    then have n: "mem_u64 16 (f[i := b]) = mem_u64 16 f" by (intro mem_u64_other) simp
    show False
    proof (cases "i < 72 + ?n")
      case True
      then have "take (72 + ?n) (f[i := b]) = (take (72 + ?n) f)[i := b]"
        and "take (72 + ?n) f ! i \<noteq> b" and "i < length (take (72 + ?n) f)"
        using len assms(3) by (auto simp: take_update_swap)
      then have "crc32 (take (72 + ?n) (f[i := b])) 0 \<noteq> crc32 (take (72 + ?n) f) 0"
        using crc32_byte_changed [of i "take (72 + ?n) f" b 0] by simp
      moreover have "mem_u32 (80 + ?n) (f[i := b]) = mem_u32 (80 + ?n) f"
        using True by (intro mem_u32_other) simp
      ultimately have "crc32 (take (72 + ?n) (f[i := b])) 0 XOR trailer_mask \<noteq> mem_u32 (80 + ?n) (f[i := b])"
        using f by (metis xor_cancel)
      then show False using g n by simp
    next
      case False
      then have pre: "take (72 + ?n) (f[i := b]) = take (72 + ?n) f" by simp
      show False
      proof (cases "i < 80 + ?n")
        case True
        then have "take 8 (drop (72 + ?n) (f[i := b])) \<noteq> take 8 (drop (72 + ?n) f)"
          using False len assms(3) by (intro take_drop_changed) auto
        then show False using f g n by simp
      next
        case False
        then have "mem_u32 (80 + ?n) (f[i := b]) \<noteq> mem_u32 (80 + ?n) f"
          using i len assms(3) by (intro mem_u32_changed) auto
        then show False using f g n pre by simp
      qed
    qed
  qed
qed

lemma file_valid_length: "file_valid f \<Longrightarrow> length f = 88 + unat (mem_u64 16 f)"
  by (simp add: file_valid_def Let_def)

lemma valid_length_unique:
  assumes "file_valid f" and "file_valid (f @ q)"
  shows "q = []"
proof -
  have "24 \<le> length f" using file_valid_length [OF assms(1)] by simp
  then have "mem_u64 16 (f @ q) = mem_u64 16 f" by (simp add: mem_u64_def)
  then have "length (f @ q) = length f"
    by (simp only: file_valid_length [OF assms(1)] file_valid_length [OF assms(2)])
  then show ?thesis by simp
qed

subsection \<open>The file save produces\<close>

lemma put_raw_ok: "length buffer + length data \<le> 2 ^ 30 \<Longrightarrow> put_raw data buffer = Inr (buffer @ data)"
  using put_raw_cases [of data buffer] by auto

lemma length_sha_state_bytes [simp]: "length (sha_state_bytes st) = 32"
  by (induction st rule: sha_state_bytes.induct) simp

lemma length_sha256 [simp]: "length (sha256 data) = 32"
  by (simp add: sha256_def hasher_final_def Let_def)

lemma length_magic [simp]: "length persistence_magic = 8"
  by (simp add: persistence_magic_def)

definition header_fields :: "u8 list \<Rightarrow> u64 \<Rightarrow> u8 list" where
  "header_fields payload records =
     persistence_magic @ le_bytes 4 persistence_version @ le_bytes 4 (0 :: u32)
     @ le_bytes 8 (of_nat (length payload) :: u64) @ le_bytes 8 records
     @ le_bytes 4 (crc32 payload 0)"

lemma length_header_fields [simp]: "length (header_fields payload records) = 36"
  by (simp add: header_fields_def)

lemma zero_bytes: "le_bytes 4 (0 :: u32) = [0, 0, 0, 0]"
  by (simp add: le_bytes_def upt_rec)

lemma file_header_eq:
  "file_header payload records = Inr (header_fields payload records
     @ le_bytes 4 (crc32 (header_fields payload records @ [0, 0, 0, 0] @ sha256 payload) 0)
     @ sha256 payload)"
proof -
  have "seq_puts [put_raw persistence_magic, put_u32 persistence_version, put_u32 0,
      put_u64 (of_nat (length payload)), put_u64 records, put_u32 (crc32 payload 0), put_u32 0,
      put_digest (sha256 payload)] [] = Inr (header_fields payload records @ [0, 0, 0, 0] @ sha256 payload)"
    by (simp add: put_u32_def put_u64_def put_digest_def put_raw_ok header_fields_def zero_bytes)
  then show ?thesis
    by (simp add: file_header_def kFileCrcOffset_def mem_put_def)
qed

lemma file_trailer_eq:
  "file_trailer file = Inr (persistence_magic @ le_bytes 4 (crc32 file 0 XOR trailer_mask) @ [0, 0, 0, 0])"
  by (simp add: file_trailer_def put_u32_def put_raw_ok mem_put_def zero_bytes)

lemma mem_u32_at: "length a = k \<Longrightarrow> mem_u32 k (a @ le_bytes 4 v @ b) = v"
  by (simp add: mem_u32_def)

lemma mem_u64_at: "length a = k \<Longrightarrow> mem_u64 k (a @ le_bytes 8 v @ b) = v"
  by (simp add: mem_u64_def)

lemma sealed_file_valid:
  assumes "length payload < 2 ^ 64"
    and header: "file_header payload records = Inr h" and trailer: "file_trailer (h @ payload) = Inr t"
  shows "file_valid (h @ payload @ t) \<and> mem_u64 16 (h @ payload @ t) = of_nat (length payload)
    \<and> take 32 (drop 40 (h @ payload @ t)) = sha256 payload \<and> length h = 72"
proof -
  let ?c = "le_bytes 4 (crc32 (header_fields payload records @ [0, 0, 0, 0] @ sha256 payload) 0)"
  have h: "h = header_fields payload records @ ?c @ sha256 payload"
    using header by (simp add: file_header_eq)
  have len: "length h = 72" by (simp add: h)
  have t: "t = persistence_magic @ le_bytes 4 (crc32 (h @ payload) 0 XOR trailer_mask) @ [0, 0, 0, 0]"
    using trailer by (simp add: file_trailer_eq)
  let ?f = "h @ payload @ t"
  have n: "mem_u64 16 ?f = of_nat (length payload)"
    using mem_u64_at [of "persistence_magic @ le_bytes 4 persistence_version @ le_bytes 4 (0 :: u32)" 16]
    by (simp add: h header_fields_def)
  have un: "unat (of_nat (length payload) :: u64) = length payload" using assms(1) by (simp add: unat_of_nat)
  have version: "mem_u32 8 ?f = persistence_version"
    using mem_u32_at [of persistence_magic 8] by (simp add: h header_fields_def)
  have crc: "mem_u32 32 ?f = crc32 payload 0"
    using mem_u32_at [of "persistence_magic @ le_bytes 4 persistence_version @ le_bytes 4 (0 :: u32)
        @ le_bytes 8 (of_nat (length payload) :: u64) @ le_bytes 8 records" 32]
    by (simp add: h header_fields_def)
  have stored: "mem_u32 36 ?f = crc32 (header_fields payload records @ [0, 0, 0, 0] @ sha256 payload) 0"
    using mem_u32_at [of "header_fields payload records" 36] by (simp add: h)
  have cleared: "mem_put 36 [0, 0, 0, 0] (take 72 ?f) = header_fields payload records @ [0, 0, 0, 0] @ sha256 payload"
    using len by (simp add: mem_put_def) (simp add: h)
  have magic: "take 8 ?f = persistence_magic" by (simp add: h header_fields_def)
  have tail: "drop (72 + length payload) ?f = t" "take (72 + length payload) ?f = h @ payload"
    using len by simp_all
  have tcrc: "mem_u32 (80 + length payload) ?f = crc32 (h @ payload) 0 XOR trailer_mask"
    using mem_u32_at [of "h @ payload @ persistence_magic" "80 + length payload"] len by (simp add: t)
  have size: "length ?f = 88 + length payload" using len by (simp add: t)
  have body: "take (length payload) (drop 72 ?f) = payload" using len by simp
  have "take 8 t = persistence_magic" by (simp add: t)
  then have "file_valid ?f"
    unfolding file_valid_def Let_def n un tail tcrc size body cleared stored version crc magic by simp
  moreover have "take 32 (drop 40 ?f) = sha256 payload" by (simp add: h)
  ultimately show ?thesis using n len by blast
qed

theorem load_saved_file:
  assumes saved: "save_bytes popts path s = Inr (Inr file)"
    and fits: "state_fits s" "state_keyed s" and size: "length file < 2 ^ 64"
  shows "\<exists>r. load_file lopts path' (im_limits s) file = Inr (decoded_of s, r) \<and> rv_error r = None
    \<and> rv_stored_digest r = rv_computed_digest r"
proof -
  obtain payload h t where payload: "encode_state s [] = Inr payload"
    and h: "file_header payload (record_count s) = Inr h" and t: "file_trailer (h @ payload) = Inr t"
    and whole: "file = h @ payload @ t"
    using saved by (auto simp: save_bytes_def split: sum.splits if_splits)
  have len: "length payload < 2 ^ 64" using size whole by simp
  note valid = sealed_file_valid [OF len h t, folded whole]
  have "unat (of_nat (length payload) :: u64) = length payload" using len by (simp add: unat_of_nat)
  then have "take (unat (mem_u64 16 file)) (drop 72 file) = payload"
    using valid by (simp add: whole)
  then obtain info where v: "verify_file file = Inr (info, payload)"
    using verify_file_Inr [OF size, of payload] valid by blast
  have digest: "ph_semantic_digest info = sha256 payload" using verify_file_digest [OF v] valid by simp
  have "decode_state (im_limits s) payload = Inr (decoded_of s)"
    by (rule decode_encode_state [OF fits payload])
  then show ?thesis
    using v digest by (simp add: load_file_def default_recovery_def Let_def)
qed

end
