(* ===== verification/State_Frames.thy ===== *)
theory State_Frames
  imports State_Maintenance
begin

section \<open>What the maintenance functions leave unchanged\<close>

text \<open>
  For each internal function, the fields of the state it does not touch. They are rewrite
  rules, so a proof about an operation only meets the fields the operation changes.
\<close>

lemma fence_boot_frame [simp, frame_simps]:
  "im_limits (fence_boot a b g d s) = im_limits s"
  "im_now (fence_boot a b g d s) = im_now s"
  "im_feasibility (fence_boot a b g d s) = im_feasibility s"
  "im_scheduler_id (fence_boot a b g d s) = im_scheduler_id s"
  "im_scheduler_epoch (fence_boot a b g d s) = im_scheduler_epoch s"
  "im_coordinator_epoch (fence_boot a b g d s) = im_coordinator_epoch s"
  "im_queue_generation (fence_boot a b g d s) = im_queue_generation s"
  "im_policy (fence_boot a b g d s) = im_policy s"
  "im_agents (fence_boot a b g d s) = im_agents s"
  "im_work (fence_boot a b g d s) = im_work s"
  "im_assignments (fence_boot a b g d s) = im_assignments s"
  "im_leases (fence_boot a b g d s) = im_leases s"
  "im_queues (fence_boot a b g d s) = im_queues s"
  "im_tenants (fence_boot a b g d s) = im_tenants s"
  "im_next_admission_sequence (fence_boot a b g d s) = im_next_admission_sequence s"
  "im_scheduling_rounds (fence_boot a b g d s) = im_scheduling_rounds s"
  "im_assignments_created (fence_boot a b g d s) = im_assignments_created s"
  "im_assignments_invalidated (fence_boot a b g d s) = im_assignments_invalidated s"
  "im_running (fence_boot a b g d s) = im_running s"
  "im_admission_open (fence_boot a b g d s) = im_admission_open s"
  "im_shutting_down (fence_boot a b g d s) = im_shutting_down s"
  "im_shutdown_at_ms (fence_boot a b g d s) = im_shutdown_at_ms s"
  "im_recovered (fence_boot a b g d s) = im_recovered s"
  "im_by_capability (fence_boot a b g d s) = im_by_capability s"
  "im_by_lifecycle (fence_boot a b g d s) = im_by_lifecycle s"
  "im_by_tenant (fence_boot a b g d s) = im_by_tenant s"
  "im_by_domain (fence_boot a b g d s) = im_by_domain s"
  "im_work_by_queue (fence_boot a b g d s) = im_work_by_queue s"
  "im_work_by_lifecycle (fence_boot a b g d s) = im_work_by_lifecycle s"
  "im_by_agent (fence_boot a b g d s) = im_by_agent s"
  "im_by_work (fence_boot a b g d s) = im_by_work s"
  by (simp_all add: fence_boot_def)

lemma adjust_agent_frame [simp, frame_simps]:
  "im_limits (adjust_agent a f s) = im_limits s"
  "im_now (adjust_agent a f s) = im_now s"
  "im_feasibility (adjust_agent a f s) = im_feasibility s"
  "im_scheduler_id (adjust_agent a f s) = im_scheduler_id s"
  "im_scheduler_epoch (adjust_agent a f s) = im_scheduler_epoch s"
  "im_coordinator_epoch (adjust_agent a f s) = im_coordinator_epoch s"
  "im_queue_generation (adjust_agent a f s) = im_queue_generation s"
  "im_policy (adjust_agent a f s) = im_policy s"
  "im_work (adjust_agent a f s) = im_work s"
  "im_assignments (adjust_agent a f s) = im_assignments s"
  "im_leases (adjust_agent a f s) = im_leases s"
  "im_fenced_boots (adjust_agent a f s) = im_fenced_boots s"
  "im_queues (adjust_agent a f s) = im_queues s"
  "im_tenants (adjust_agent a f s) = im_tenants s"
  "im_next_admission_sequence (adjust_agent a f s) = im_next_admission_sequence s"
  "im_state_revision (adjust_agent a f s) = im_state_revision s"
  "im_scheduling_rounds (adjust_agent a f s) = im_scheduling_rounds s"
  "im_assignments_created (adjust_agent a f s) = im_assignments_created s"
  "im_assignments_invalidated (adjust_agent a f s) = im_assignments_invalidated s"
  "im_running (adjust_agent a f s) = im_running s"
  "im_admission_open (adjust_agent a f s) = im_admission_open s"
  "im_shutting_down (adjust_agent a f s) = im_shutting_down s"
  "im_shutdown_at_ms (adjust_agent a f s) = im_shutdown_at_ms s"
  "im_recovered (adjust_agent a f s) = im_recovered s"
  "im_by_capability (adjust_agent a f s) = im_by_capability s"
  "im_by_lifecycle (adjust_agent a f s) = im_by_lifecycle s"
  "im_by_tenant (adjust_agent a f s) = im_by_tenant s"
  "im_by_domain (adjust_agent a f s) = im_by_domain s"
  "im_work_by_queue (adjust_agent a f s) = im_work_by_queue s"
  "im_work_by_lifecycle (adjust_agent a f s) = im_work_by_lifecycle s"
  "im_by_agent (adjust_agent a f s) = im_by_agent s"
  "im_by_work (adjust_agent a f s) = im_by_work s"
  by (simp_all add: adjust_agent_def)

lemma adjust_work_frame [simp, frame_simps]:
  "im_limits (adjust_work w g s) = im_limits s"
  "im_now (adjust_work w g s) = im_now s"
  "im_feasibility (adjust_work w g s) = im_feasibility s"
  "im_scheduler_id (adjust_work w g s) = im_scheduler_id s"
  "im_scheduler_epoch (adjust_work w g s) = im_scheduler_epoch s"
  "im_coordinator_epoch (adjust_work w g s) = im_coordinator_epoch s"
  "im_queue_generation (adjust_work w g s) = im_queue_generation s"
  "im_policy (adjust_work w g s) = im_policy s"
  "im_agents (adjust_work w g s) = im_agents s"
  "im_assignments (adjust_work w g s) = im_assignments s"
  "im_leases (adjust_work w g s) = im_leases s"
  "im_fenced_boots (adjust_work w g s) = im_fenced_boots s"
  "im_queues (adjust_work w g s) = im_queues s"
  "im_tenants (adjust_work w g s) = im_tenants s"
  "im_next_admission_sequence (adjust_work w g s) = im_next_admission_sequence s"
  "im_state_revision (adjust_work w g s) = im_state_revision s"
  "im_scheduling_rounds (adjust_work w g s) = im_scheduling_rounds s"
  "im_assignments_created (adjust_work w g s) = im_assignments_created s"
  "im_assignments_invalidated (adjust_work w g s) = im_assignments_invalidated s"
  "im_running (adjust_work w g s) = im_running s"
  "im_admission_open (adjust_work w g s) = im_admission_open s"
  "im_shutting_down (adjust_work w g s) = im_shutting_down s"
  "im_shutdown_at_ms (adjust_work w g s) = im_shutdown_at_ms s"
  "im_recovered (adjust_work w g s) = im_recovered s"
  "im_by_capability (adjust_work w g s) = im_by_capability s"
  "im_by_lifecycle (adjust_work w g s) = im_by_lifecycle s"
  "im_by_tenant (adjust_work w g s) = im_by_tenant s"
  "im_by_domain (adjust_work w g s) = im_by_domain s"
  "im_work_by_queue (adjust_work w g s) = im_work_by_queue s"
  "im_work_by_lifecycle (adjust_work w g s) = im_work_by_lifecycle s"
  "im_by_agent (adjust_work w g s) = im_by_agent s"
  "im_by_work (adjust_work w g s) = im_by_work s"
  by (simp_all add: adjust_work_def)

lemma adjust_assignment_frame [simp, frame_simps]:
  "im_limits (adjust_assignment k h s) = im_limits s"
  "im_now (adjust_assignment k h s) = im_now s"
  "im_feasibility (adjust_assignment k h s) = im_feasibility s"
  "im_scheduler_id (adjust_assignment k h s) = im_scheduler_id s"
  "im_scheduler_epoch (adjust_assignment k h s) = im_scheduler_epoch s"
  "im_coordinator_epoch (adjust_assignment k h s) = im_coordinator_epoch s"
  "im_queue_generation (adjust_assignment k h s) = im_queue_generation s"
  "im_policy (adjust_assignment k h s) = im_policy s"
  "im_agents (adjust_assignment k h s) = im_agents s"
  "im_work (adjust_assignment k h s) = im_work s"
  "im_leases (adjust_assignment k h s) = im_leases s"
  "im_fenced_boots (adjust_assignment k h s) = im_fenced_boots s"
  "im_queues (adjust_assignment k h s) = im_queues s"
  "im_tenants (adjust_assignment k h s) = im_tenants s"
  "im_next_admission_sequence (adjust_assignment k h s) = im_next_admission_sequence s"
  "im_state_revision (adjust_assignment k h s) = im_state_revision s"
  "im_scheduling_rounds (adjust_assignment k h s) = im_scheduling_rounds s"
  "im_assignments_created (adjust_assignment k h s) = im_assignments_created s"
  "im_assignments_invalidated (adjust_assignment k h s) = im_assignments_invalidated s"
  "im_running (adjust_assignment k h s) = im_running s"
  "im_admission_open (adjust_assignment k h s) = im_admission_open s"
  "im_shutting_down (adjust_assignment k h s) = im_shutting_down s"
  "im_shutdown_at_ms (adjust_assignment k h s) = im_shutdown_at_ms s"
  "im_recovered (adjust_assignment k h s) = im_recovered s"
  "im_by_capability (adjust_assignment k h s) = im_by_capability s"
  "im_by_lifecycle (adjust_assignment k h s) = im_by_lifecycle s"
  "im_by_tenant (adjust_assignment k h s) = im_by_tenant s"
  "im_by_domain (adjust_assignment k h s) = im_by_domain s"
  "im_work_by_queue (adjust_assignment k h s) = im_work_by_queue s"
  "im_work_by_lifecycle (adjust_assignment k h s) = im_work_by_lifecycle s"
  "im_by_agent (adjust_assignment k h s) = im_by_agent s"
  "im_by_work (adjust_assignment k h s) = im_by_work s"
  by (simp_all add: adjust_assignment_def)

lemma adjust_lease_frame [simp, frame_simps]:
  "im_limits (adjust_lease k l s) = im_limits s"
  "im_now (adjust_lease k l s) = im_now s"
  "im_feasibility (adjust_lease k l s) = im_feasibility s"
  "im_scheduler_id (adjust_lease k l s) = im_scheduler_id s"
  "im_scheduler_epoch (adjust_lease k l s) = im_scheduler_epoch s"
  "im_coordinator_epoch (adjust_lease k l s) = im_coordinator_epoch s"
  "im_queue_generation (adjust_lease k l s) = im_queue_generation s"
  "im_policy (adjust_lease k l s) = im_policy s"
  "im_agents (adjust_lease k l s) = im_agents s"
  "im_work (adjust_lease k l s) = im_work s"
  "im_assignments (adjust_lease k l s) = im_assignments s"
  "im_fenced_boots (adjust_lease k l s) = im_fenced_boots s"
  "im_queues (adjust_lease k l s) = im_queues s"
  "im_tenants (adjust_lease k l s) = im_tenants s"
  "im_next_admission_sequence (adjust_lease k l s) = im_next_admission_sequence s"
  "im_state_revision (adjust_lease k l s) = im_state_revision s"
  "im_scheduling_rounds (adjust_lease k l s) = im_scheduling_rounds s"
  "im_assignments_created (adjust_lease k l s) = im_assignments_created s"
  "im_assignments_invalidated (adjust_lease k l s) = im_assignments_invalidated s"
  "im_running (adjust_lease k l s) = im_running s"
  "im_admission_open (adjust_lease k l s) = im_admission_open s"
  "im_shutting_down (adjust_lease k l s) = im_shutting_down s"
  "im_shutdown_at_ms (adjust_lease k l s) = im_shutdown_at_ms s"
  "im_recovered (adjust_lease k l s) = im_recovered s"
  "im_by_capability (adjust_lease k l s) = im_by_capability s"
  "im_by_lifecycle (adjust_lease k l s) = im_by_lifecycle s"
  "im_by_tenant (adjust_lease k l s) = im_by_tenant s"
  "im_by_domain (adjust_lease k l s) = im_by_domain s"
  "im_work_by_queue (adjust_lease k l s) = im_work_by_queue s"
  "im_work_by_lifecycle (adjust_lease k l s) = im_work_by_lifecycle s"
  "im_by_agent (adjust_lease k l s) = im_by_agent s"
  "im_by_work (adjust_lease k l s) = im_by_work s"
  by (simp_all add: adjust_lease_def)

lemma adjust_queue_frame [simp, frame_simps]:
  "im_limits (adjust_queue q fq s) = im_limits s"
  "im_now (adjust_queue q fq s) = im_now s"
  "im_feasibility (adjust_queue q fq s) = im_feasibility s"
  "im_scheduler_id (adjust_queue q fq s) = im_scheduler_id s"
  "im_scheduler_epoch (adjust_queue q fq s) = im_scheduler_epoch s"
  "im_coordinator_epoch (adjust_queue q fq s) = im_coordinator_epoch s"
  "im_queue_generation (adjust_queue q fq s) = im_queue_generation s"
  "im_policy (adjust_queue q fq s) = im_policy s"
  "im_agents (adjust_queue q fq s) = im_agents s"
  "im_work (adjust_queue q fq s) = im_work s"
  "im_assignments (adjust_queue q fq s) = im_assignments s"
  "im_leases (adjust_queue q fq s) = im_leases s"
  "im_fenced_boots (adjust_queue q fq s) = im_fenced_boots s"
  "im_tenants (adjust_queue q fq s) = im_tenants s"
  "im_next_admission_sequence (adjust_queue q fq s) = im_next_admission_sequence s"
  "im_state_revision (adjust_queue q fq s) = im_state_revision s"
  "im_scheduling_rounds (adjust_queue q fq s) = im_scheduling_rounds s"
  "im_assignments_created (adjust_queue q fq s) = im_assignments_created s"
  "im_assignments_invalidated (adjust_queue q fq s) = im_assignments_invalidated s"
  "im_running (adjust_queue q fq s) = im_running s"
  "im_admission_open (adjust_queue q fq s) = im_admission_open s"
  "im_shutting_down (adjust_queue q fq s) = im_shutting_down s"
  "im_shutdown_at_ms (adjust_queue q fq s) = im_shutdown_at_ms s"
  "im_recovered (adjust_queue q fq s) = im_recovered s"
  "im_by_capability (adjust_queue q fq s) = im_by_capability s"
  "im_by_lifecycle (adjust_queue q fq s) = im_by_lifecycle s"
  "im_by_tenant (adjust_queue q fq s) = im_by_tenant s"
  "im_by_domain (adjust_queue q fq s) = im_by_domain s"
  "im_work_by_queue (adjust_queue q fq s) = im_work_by_queue s"
  "im_work_by_lifecycle (adjust_queue q fq s) = im_work_by_lifecycle s"
  "im_by_agent (adjust_queue q fq s) = im_by_agent s"
  "im_by_work (adjust_queue q fq s) = im_by_work s"
  by (simp_all add: adjust_queue_def)

lemma adjust_tenant_frame [simp, frame_simps]:
  "im_limits (adjust_tenant t ft s) = im_limits s"
  "im_now (adjust_tenant t ft s) = im_now s"
  "im_feasibility (adjust_tenant t ft s) = im_feasibility s"
  "im_scheduler_id (adjust_tenant t ft s) = im_scheduler_id s"
  "im_scheduler_epoch (adjust_tenant t ft s) = im_scheduler_epoch s"
  "im_coordinator_epoch (adjust_tenant t ft s) = im_coordinator_epoch s"
  "im_queue_generation (adjust_tenant t ft s) = im_queue_generation s"
  "im_policy (adjust_tenant t ft s) = im_policy s"
  "im_agents (adjust_tenant t ft s) = im_agents s"
  "im_work (adjust_tenant t ft s) = im_work s"
  "im_assignments (adjust_tenant t ft s) = im_assignments s"
  "im_leases (adjust_tenant t ft s) = im_leases s"
  "im_fenced_boots (adjust_tenant t ft s) = im_fenced_boots s"
  "im_queues (adjust_tenant t ft s) = im_queues s"
  "im_next_admission_sequence (adjust_tenant t ft s) = im_next_admission_sequence s"
  "im_state_revision (adjust_tenant t ft s) = im_state_revision s"
  "im_scheduling_rounds (adjust_tenant t ft s) = im_scheduling_rounds s"
  "im_assignments_created (adjust_tenant t ft s) = im_assignments_created s"
  "im_assignments_invalidated (adjust_tenant t ft s) = im_assignments_invalidated s"
  "im_running (adjust_tenant t ft s) = im_running s"
  "im_admission_open (adjust_tenant t ft s) = im_admission_open s"
  "im_shutting_down (adjust_tenant t ft s) = im_shutting_down s"
  "im_shutdown_at_ms (adjust_tenant t ft s) = im_shutdown_at_ms s"
  "im_recovered (adjust_tenant t ft s) = im_recovered s"
  "im_by_capability (adjust_tenant t ft s) = im_by_capability s"
  "im_by_lifecycle (adjust_tenant t ft s) = im_by_lifecycle s"
  "im_by_tenant (adjust_tenant t ft s) = im_by_tenant s"
  "im_by_domain (adjust_tenant t ft s) = im_by_domain s"
  "im_work_by_queue (adjust_tenant t ft s) = im_work_by_queue s"
  "im_work_by_lifecycle (adjust_tenant t ft s) = im_work_by_lifecycle s"
  "im_by_agent (adjust_tenant t ft s) = im_by_agent s"
  "im_by_work (adjust_tenant t ft s) = im_by_work s"
  by (simp_all add: adjust_tenant_def)

lemma bump_revision_frame [simp, frame_simps]:
  "im_limits (bump_revision s) = im_limits s"
  "im_now (bump_revision s) = im_now s"
  "im_feasibility (bump_revision s) = im_feasibility s"
  "im_scheduler_id (bump_revision s) = im_scheduler_id s"
  "im_scheduler_epoch (bump_revision s) = im_scheduler_epoch s"
  "im_coordinator_epoch (bump_revision s) = im_coordinator_epoch s"
  "im_queue_generation (bump_revision s) = im_queue_generation s"
  "im_policy (bump_revision s) = im_policy s"
  "im_agents (bump_revision s) = im_agents s"
  "im_work (bump_revision s) = im_work s"
  "im_assignments (bump_revision s) = im_assignments s"
  "im_leases (bump_revision s) = im_leases s"
  "im_fenced_boots (bump_revision s) = im_fenced_boots s"
  "im_queues (bump_revision s) = im_queues s"
  "im_tenants (bump_revision s) = im_tenants s"
  "im_next_admission_sequence (bump_revision s) = im_next_admission_sequence s"
  "im_scheduling_rounds (bump_revision s) = im_scheduling_rounds s"
  "im_assignments_created (bump_revision s) = im_assignments_created s"
  "im_assignments_invalidated (bump_revision s) = im_assignments_invalidated s"
  "im_running (bump_revision s) = im_running s"
  "im_admission_open (bump_revision s) = im_admission_open s"
  "im_shutting_down (bump_revision s) = im_shutting_down s"
  "im_shutdown_at_ms (bump_revision s) = im_shutdown_at_ms s"
  "im_recovered (bump_revision s) = im_recovered s"
  "im_by_capability (bump_revision s) = im_by_capability s"
  "im_by_lifecycle (bump_revision s) = im_by_lifecycle s"
  "im_by_tenant (bump_revision s) = im_by_tenant s"
  "im_by_domain (bump_revision s) = im_by_domain s"
  "im_work_by_queue (bump_revision s) = im_work_by_queue s"
  "im_work_by_lifecycle (bump_revision s) = im_work_by_lifecycle s"
  "im_by_agent (bump_revision s) = im_by_agent s"
  "im_by_work (bump_revision s) = im_by_work s"
  by (simp_all add: bump_revision_def)

lemma adjusted_maps [simp, frame_simps]:
  "im_agents (adjust_agent a f s) = om_adjust a f (im_agents s)"
  "im_work (adjust_work w g s) = om_adjust w g (im_work s)"
  "im_assignments (adjust_assignment k h s) = om_adjust k h (im_assignments s)"
  "im_leases (adjust_lease k l s) = om_adjust k l (im_leases s)"
  "im_queues (adjust_queue q fq s) = om_adjust q fq (im_queues s)"
  "im_tenants (adjust_tenant t ft s) = om_adjust t ft (im_tenants s)"
  by (simp_all add: adjust_agent_def adjust_work_def adjust_assignment_def adjust_lease_def
      adjust_queue_def adjust_tenant_def)

lemma index_agent_frame [simp, frame_simps]:
  "im_limits (index_agent r s) = im_limits s"
  "im_now (index_agent r s) = im_now s"
  "im_feasibility (index_agent r s) = im_feasibility s"
  "im_scheduler_id (index_agent r s) = im_scheduler_id s"
  "im_scheduler_epoch (index_agent r s) = im_scheduler_epoch s"
  "im_coordinator_epoch (index_agent r s) = im_coordinator_epoch s"
  "im_queue_generation (index_agent r s) = im_queue_generation s"
  "im_policy (index_agent r s) = im_policy s"
  "im_agents (index_agent r s) = im_agents s"
  "im_work (index_agent r s) = im_work s"
  "im_assignments (index_agent r s) = im_assignments s"
  "im_leases (index_agent r s) = im_leases s"
  "im_fenced_boots (index_agent r s) = im_fenced_boots s"
  "im_queues (index_agent r s) = im_queues s"
  "im_tenants (index_agent r s) = im_tenants s"
  "im_next_admission_sequence (index_agent r s) = im_next_admission_sequence s"
  "im_state_revision (index_agent r s) = im_state_revision s"
  "im_scheduling_rounds (index_agent r s) = im_scheduling_rounds s"
  "im_assignments_created (index_agent r s) = im_assignments_created s"
  "im_assignments_invalidated (index_agent r s) = im_assignments_invalidated s"
  "im_running (index_agent r s) = im_running s"
  "im_admission_open (index_agent r s) = im_admission_open s"
  "im_shutting_down (index_agent r s) = im_shutting_down s"
  "im_shutdown_at_ms (index_agent r s) = im_shutdown_at_ms s"
  "im_recovered (index_agent r s) = im_recovered s"
  "im_work_by_queue (index_agent r s) = im_work_by_queue s"
  "im_work_by_lifecycle (index_agent r s) = im_work_by_lifecycle s"
  "im_by_agent (index_agent r s) = im_by_agent s"
  "im_by_work (index_agent r s) = im_by_work s"
  by (simp_all add: index_agent_def Let_def)

lemma deindex_agent_frame [simp, frame_simps]:
  "im_limits (deindex_agent a s) = im_limits s"
  "im_now (deindex_agent a s) = im_now s"
  "im_feasibility (deindex_agent a s) = im_feasibility s"
  "im_scheduler_id (deindex_agent a s) = im_scheduler_id s"
  "im_scheduler_epoch (deindex_agent a s) = im_scheduler_epoch s"
  "im_coordinator_epoch (deindex_agent a s) = im_coordinator_epoch s"
  "im_queue_generation (deindex_agent a s) = im_queue_generation s"
  "im_policy (deindex_agent a s) = im_policy s"
  "im_agents (deindex_agent a s) = im_agents s"
  "im_work (deindex_agent a s) = im_work s"
  "im_assignments (deindex_agent a s) = im_assignments s"
  "im_leases (deindex_agent a s) = im_leases s"
  "im_fenced_boots (deindex_agent a s) = im_fenced_boots s"
  "im_queues (deindex_agent a s) = im_queues s"
  "im_tenants (deindex_agent a s) = im_tenants s"
  "im_next_admission_sequence (deindex_agent a s) = im_next_admission_sequence s"
  "im_state_revision (deindex_agent a s) = im_state_revision s"
  "im_scheduling_rounds (deindex_agent a s) = im_scheduling_rounds s"
  "im_assignments_created (deindex_agent a s) = im_assignments_created s"
  "im_assignments_invalidated (deindex_agent a s) = im_assignments_invalidated s"
  "im_running (deindex_agent a s) = im_running s"
  "im_admission_open (deindex_agent a s) = im_admission_open s"
  "im_shutting_down (deindex_agent a s) = im_shutting_down s"
  "im_shutdown_at_ms (deindex_agent a s) = im_shutdown_at_ms s"
  "im_recovered (deindex_agent a s) = im_recovered s"
  "im_work_by_queue (deindex_agent a s) = im_work_by_queue s"
  "im_work_by_lifecycle (deindex_agent a s) = im_work_by_lifecycle s"
  "im_by_agent (deindex_agent a s) = im_by_agent s"
  "im_by_work (deindex_agent a s) = im_by_work s"
  by (simp_all add: deindex_agent_def)

lemma index_work_frame [simp, frame_simps]:
  "im_limits (index_work r s) = im_limits s"
  "im_now (index_work r s) = im_now s"
  "im_feasibility (index_work r s) = im_feasibility s"
  "im_scheduler_id (index_work r s) = im_scheduler_id s"
  "im_scheduler_epoch (index_work r s) = im_scheduler_epoch s"
  "im_coordinator_epoch (index_work r s) = im_coordinator_epoch s"
  "im_queue_generation (index_work r s) = im_queue_generation s"
  "im_policy (index_work r s) = im_policy s"
  "im_agents (index_work r s) = im_agents s"
  "im_work (index_work r s) = im_work s"
  "im_assignments (index_work r s) = im_assignments s"
  "im_leases (index_work r s) = im_leases s"
  "im_fenced_boots (index_work r s) = im_fenced_boots s"
  "im_queues (index_work r s) = im_queues s"
  "im_tenants (index_work r s) = im_tenants s"
  "im_next_admission_sequence (index_work r s) = im_next_admission_sequence s"
  "im_state_revision (index_work r s) = im_state_revision s"
  "im_scheduling_rounds (index_work r s) = im_scheduling_rounds s"
  "im_assignments_created (index_work r s) = im_assignments_created s"
  "im_assignments_invalidated (index_work r s) = im_assignments_invalidated s"
  "im_running (index_work r s) = im_running s"
  "im_admission_open (index_work r s) = im_admission_open s"
  "im_shutting_down (index_work r s) = im_shutting_down s"
  "im_shutdown_at_ms (index_work r s) = im_shutdown_at_ms s"
  "im_recovered (index_work r s) = im_recovered s"
  "im_by_capability (index_work r s) = im_by_capability s"
  "im_by_lifecycle (index_work r s) = im_by_lifecycle s"
  "im_by_tenant (index_work r s) = im_by_tenant s"
  "im_by_domain (index_work r s) = im_by_domain s"
  "im_by_agent (index_work r s) = im_by_agent s"
  "im_by_work (index_work r s) = im_by_work s"
  by (simp_all add: index_work_def Let_def)

lemma deindex_work_frame [simp, frame_simps]:
  "im_limits (deindex_work w s) = im_limits s"
  "im_now (deindex_work w s) = im_now s"
  "im_feasibility (deindex_work w s) = im_feasibility s"
  "im_scheduler_id (deindex_work w s) = im_scheduler_id s"
  "im_scheduler_epoch (deindex_work w s) = im_scheduler_epoch s"
  "im_coordinator_epoch (deindex_work w s) = im_coordinator_epoch s"
  "im_queue_generation (deindex_work w s) = im_queue_generation s"
  "im_policy (deindex_work w s) = im_policy s"
  "im_agents (deindex_work w s) = im_agents s"
  "im_work (deindex_work w s) = im_work s"
  "im_assignments (deindex_work w s) = im_assignments s"
  "im_leases (deindex_work w s) = im_leases s"
  "im_fenced_boots (deindex_work w s) = im_fenced_boots s"
  "im_queues (deindex_work w s) = im_queues s"
  "im_tenants (deindex_work w s) = im_tenants s"
  "im_next_admission_sequence (deindex_work w s) = im_next_admission_sequence s"
  "im_state_revision (deindex_work w s) = im_state_revision s"
  "im_scheduling_rounds (deindex_work w s) = im_scheduling_rounds s"
  "im_assignments_created (deindex_work w s) = im_assignments_created s"
  "im_assignments_invalidated (deindex_work w s) = im_assignments_invalidated s"
  "im_running (deindex_work w s) = im_running s"
  "im_admission_open (deindex_work w s) = im_admission_open s"
  "im_shutting_down (deindex_work w s) = im_shutting_down s"
  "im_shutdown_at_ms (deindex_work w s) = im_shutdown_at_ms s"
  "im_recovered (deindex_work w s) = im_recovered s"
  "im_by_capability (deindex_work w s) = im_by_capability s"
  "im_by_lifecycle (deindex_work w s) = im_by_lifecycle s"
  "im_by_tenant (deindex_work w s) = im_by_tenant s"
  "im_by_domain (deindex_work w s) = im_by_domain s"
  "im_by_agent (deindex_work w s) = im_by_agent s"
  "im_by_work (deindex_work w s) = im_by_work s"
  by (simp_all add: deindex_work_def)

lemma index_assignment_frame [simp, frame_simps]:
  "im_limits (index_assignment r s) = im_limits s"
  "im_now (index_assignment r s) = im_now s"
  "im_feasibility (index_assignment r s) = im_feasibility s"
  "im_scheduler_id (index_assignment r s) = im_scheduler_id s"
  "im_scheduler_epoch (index_assignment r s) = im_scheduler_epoch s"
  "im_coordinator_epoch (index_assignment r s) = im_coordinator_epoch s"
  "im_queue_generation (index_assignment r s) = im_queue_generation s"
  "im_policy (index_assignment r s) = im_policy s"
  "im_agents (index_assignment r s) = im_agents s"
  "im_work (index_assignment r s) = im_work s"
  "im_assignments (index_assignment r s) = im_assignments s"
  "im_leases (index_assignment r s) = im_leases s"
  "im_fenced_boots (index_assignment r s) = im_fenced_boots s"
  "im_queues (index_assignment r s) = im_queues s"
  "im_tenants (index_assignment r s) = im_tenants s"
  "im_next_admission_sequence (index_assignment r s) = im_next_admission_sequence s"
  "im_state_revision (index_assignment r s) = im_state_revision s"
  "im_scheduling_rounds (index_assignment r s) = im_scheduling_rounds s"
  "im_assignments_created (index_assignment r s) = im_assignments_created s"
  "im_assignments_invalidated (index_assignment r s) = im_assignments_invalidated s"
  "im_running (index_assignment r s) = im_running s"
  "im_admission_open (index_assignment r s) = im_admission_open s"
  "im_shutting_down (index_assignment r s) = im_shutting_down s"
  "im_shutdown_at_ms (index_assignment r s) = im_shutdown_at_ms s"
  "im_recovered (index_assignment r s) = im_recovered s"
  "im_by_capability (index_assignment r s) = im_by_capability s"
  "im_by_lifecycle (index_assignment r s) = im_by_lifecycle s"
  "im_by_tenant (index_assignment r s) = im_by_tenant s"
  "im_by_domain (index_assignment r s) = im_by_domain s"
  "im_work_by_queue (index_assignment r s) = im_work_by_queue s"
  "im_work_by_lifecycle (index_assignment r s) = im_work_by_lifecycle s"
  by (simp_all add: index_assignment_def Let_def)

lemma deindex_assignment_frame [simp, frame_simps]:
  "im_limits (deindex_assignment r s) = im_limits s"
  "im_now (deindex_assignment r s) = im_now s"
  "im_feasibility (deindex_assignment r s) = im_feasibility s"
  "im_scheduler_id (deindex_assignment r s) = im_scheduler_id s"
  "im_scheduler_epoch (deindex_assignment r s) = im_scheduler_epoch s"
  "im_coordinator_epoch (deindex_assignment r s) = im_coordinator_epoch s"
  "im_queue_generation (deindex_assignment r s) = im_queue_generation s"
  "im_policy (deindex_assignment r s) = im_policy s"
  "im_agents (deindex_assignment r s) = im_agents s"
  "im_work (deindex_assignment r s) = im_work s"
  "im_assignments (deindex_assignment r s) = im_assignments s"
  "im_leases (deindex_assignment r s) = im_leases s"
  "im_fenced_boots (deindex_assignment r s) = im_fenced_boots s"
  "im_queues (deindex_assignment r s) = im_queues s"
  "im_tenants (deindex_assignment r s) = im_tenants s"
  "im_next_admission_sequence (deindex_assignment r s) = im_next_admission_sequence s"
  "im_state_revision (deindex_assignment r s) = im_state_revision s"
  "im_scheduling_rounds (deindex_assignment r s) = im_scheduling_rounds s"
  "im_assignments_created (deindex_assignment r s) = im_assignments_created s"
  "im_assignments_invalidated (deindex_assignment r s) = im_assignments_invalidated s"
  "im_running (deindex_assignment r s) = im_running s"
  "im_admission_open (deindex_assignment r s) = im_admission_open s"
  "im_shutting_down (deindex_assignment r s) = im_shutting_down s"
  "im_shutdown_at_ms (deindex_assignment r s) = im_shutdown_at_ms s"
  "im_recovered (deindex_assignment r s) = im_recovered s"
  "im_by_capability (deindex_assignment r s) = im_by_capability s"
  "im_by_lifecycle (deindex_assignment r s) = im_by_lifecycle s"
  "im_by_tenant (deindex_assignment r s) = im_by_tenant s"
  "im_by_domain (deindex_assignment r s) = im_by_domain s"
  "im_work_by_queue (deindex_assignment r s) = im_work_by_queue s"
  "im_work_by_lifecycle (deindex_assignment r s) = im_work_by_lifecycle s"
  by (simp_all add: deindex_assignment_def Let_def)

lemma sync_agent_index_frame [simp, frame_simps]:
  "im_limits (sync_agent_lifecycle_index a lc s) = im_limits s"
  "im_now (sync_agent_lifecycle_index a lc s) = im_now s"
  "im_feasibility (sync_agent_lifecycle_index a lc s) = im_feasibility s"
  "im_scheduler_id (sync_agent_lifecycle_index a lc s) = im_scheduler_id s"
  "im_scheduler_epoch (sync_agent_lifecycle_index a lc s) = im_scheduler_epoch s"
  "im_coordinator_epoch (sync_agent_lifecycle_index a lc s) = im_coordinator_epoch s"
  "im_queue_generation (sync_agent_lifecycle_index a lc s) = im_queue_generation s"
  "im_policy (sync_agent_lifecycle_index a lc s) = im_policy s"
  "im_agents (sync_agent_lifecycle_index a lc s) = im_agents s"
  "im_work (sync_agent_lifecycle_index a lc s) = im_work s"
  "im_assignments (sync_agent_lifecycle_index a lc s) = im_assignments s"
  "im_leases (sync_agent_lifecycle_index a lc s) = im_leases s"
  "im_fenced_boots (sync_agent_lifecycle_index a lc s) = im_fenced_boots s"
  "im_queues (sync_agent_lifecycle_index a lc s) = im_queues s"
  "im_tenants (sync_agent_lifecycle_index a lc s) = im_tenants s"
  "im_next_admission_sequence (sync_agent_lifecycle_index a lc s) = im_next_admission_sequence s"
  "im_state_revision (sync_agent_lifecycle_index a lc s) = im_state_revision s"
  "im_scheduling_rounds (sync_agent_lifecycle_index a lc s) = im_scheduling_rounds s"
  "im_assignments_created (sync_agent_lifecycle_index a lc s) = im_assignments_created s"
  "im_assignments_invalidated (sync_agent_lifecycle_index a lc s) = im_assignments_invalidated s"
  "im_running (sync_agent_lifecycle_index a lc s) = im_running s"
  "im_admission_open (sync_agent_lifecycle_index a lc s) = im_admission_open s"
  "im_shutting_down (sync_agent_lifecycle_index a lc s) = im_shutting_down s"
  "im_shutdown_at_ms (sync_agent_lifecycle_index a lc s) = im_shutdown_at_ms s"
  "im_recovered (sync_agent_lifecycle_index a lc s) = im_recovered s"
  "im_by_capability (sync_agent_lifecycle_index a lc s) = im_by_capability s"
  "im_by_tenant (sync_agent_lifecycle_index a lc s) = im_by_tenant s"
  "im_by_domain (sync_agent_lifecycle_index a lc s) = im_by_domain s"
  "im_work_by_queue (sync_agent_lifecycle_index a lc s) = im_work_by_queue s"
  "im_work_by_lifecycle (sync_agent_lifecycle_index a lc s) = im_work_by_lifecycle s"
  "im_by_agent (sync_agent_lifecycle_index a lc s) = im_by_agent s"
  "im_by_work (sync_agent_lifecycle_index a lc s) = im_by_work s"
  by (simp_all add: sync_agent_lifecycle_index_def)

lemma sync_work_index_frame [simp, frame_simps]:
  "im_limits (sync_work_lifecycle_index w wl s) = im_limits s"
  "im_now (sync_work_lifecycle_index w wl s) = im_now s"
  "im_feasibility (sync_work_lifecycle_index w wl s) = im_feasibility s"
  "im_scheduler_id (sync_work_lifecycle_index w wl s) = im_scheduler_id s"
  "im_scheduler_epoch (sync_work_lifecycle_index w wl s) = im_scheduler_epoch s"
  "im_coordinator_epoch (sync_work_lifecycle_index w wl s) = im_coordinator_epoch s"
  "im_queue_generation (sync_work_lifecycle_index w wl s) = im_queue_generation s"
  "im_policy (sync_work_lifecycle_index w wl s) = im_policy s"
  "im_agents (sync_work_lifecycle_index w wl s) = im_agents s"
  "im_work (sync_work_lifecycle_index w wl s) = im_work s"
  "im_assignments (sync_work_lifecycle_index w wl s) = im_assignments s"
  "im_leases (sync_work_lifecycle_index w wl s) = im_leases s"
  "im_fenced_boots (sync_work_lifecycle_index w wl s) = im_fenced_boots s"
  "im_queues (sync_work_lifecycle_index w wl s) = im_queues s"
  "im_tenants (sync_work_lifecycle_index w wl s) = im_tenants s"
  "im_next_admission_sequence (sync_work_lifecycle_index w wl s) = im_next_admission_sequence s"
  "im_state_revision (sync_work_lifecycle_index w wl s) = im_state_revision s"
  "im_scheduling_rounds (sync_work_lifecycle_index w wl s) = im_scheduling_rounds s"
  "im_assignments_created (sync_work_lifecycle_index w wl s) = im_assignments_created s"
  "im_assignments_invalidated (sync_work_lifecycle_index w wl s) = im_assignments_invalidated s"
  "im_running (sync_work_lifecycle_index w wl s) = im_running s"
  "im_admission_open (sync_work_lifecycle_index w wl s) = im_admission_open s"
  "im_shutting_down (sync_work_lifecycle_index w wl s) = im_shutting_down s"
  "im_shutdown_at_ms (sync_work_lifecycle_index w wl s) = im_shutdown_at_ms s"
  "im_recovered (sync_work_lifecycle_index w wl s) = im_recovered s"
  "im_by_capability (sync_work_lifecycle_index w wl s) = im_by_capability s"
  "im_by_lifecycle (sync_work_lifecycle_index w wl s) = im_by_lifecycle s"
  "im_by_tenant (sync_work_lifecycle_index w wl s) = im_by_tenant s"
  "im_by_domain (sync_work_lifecycle_index w wl s) = im_by_domain s"
  "im_work_by_queue (sync_work_lifecycle_index w wl s) = im_work_by_queue s"
  "im_by_agent (sync_work_lifecycle_index w wl s) = im_by_agent s"
  "im_by_work (sync_work_lifecycle_index w wl s) = im_by_work s"
  by (simp_all add: sync_work_lifecycle_index_def)

lemma refresh_agent_frame [simp, frame_simps]:
  "im_limits (refresh_agent_accounting a s) = im_limits s"
  "im_now (refresh_agent_accounting a s) = im_now s"
  "im_feasibility (refresh_agent_accounting a s) = im_feasibility s"
  "im_scheduler_id (refresh_agent_accounting a s) = im_scheduler_id s"
  "im_scheduler_epoch (refresh_agent_accounting a s) = im_scheduler_epoch s"
  "im_coordinator_epoch (refresh_agent_accounting a s) = im_coordinator_epoch s"
  "im_queue_generation (refresh_agent_accounting a s) = im_queue_generation s"
  "im_policy (refresh_agent_accounting a s) = im_policy s"
  "im_work (refresh_agent_accounting a s) = im_work s"
  "im_assignments (refresh_agent_accounting a s) = im_assignments s"
  "im_leases (refresh_agent_accounting a s) = im_leases s"
  "im_fenced_boots (refresh_agent_accounting a s) = im_fenced_boots s"
  "im_queues (refresh_agent_accounting a s) = im_queues s"
  "im_tenants (refresh_agent_accounting a s) = im_tenants s"
  "im_next_admission_sequence (refresh_agent_accounting a s) = im_next_admission_sequence s"
  "im_state_revision (refresh_agent_accounting a s) = im_state_revision s"
  "im_scheduling_rounds (refresh_agent_accounting a s) = im_scheduling_rounds s"
  "im_assignments_created (refresh_agent_accounting a s) = im_assignments_created s"
  "im_assignments_invalidated (refresh_agent_accounting a s) = im_assignments_invalidated s"
  "im_running (refresh_agent_accounting a s) = im_running s"
  "im_admission_open (refresh_agent_accounting a s) = im_admission_open s"
  "im_shutting_down (refresh_agent_accounting a s) = im_shutting_down s"
  "im_shutdown_at_ms (refresh_agent_accounting a s) = im_shutdown_at_ms s"
  "im_recovered (refresh_agent_accounting a s) = im_recovered s"
  "im_by_capability (refresh_agent_accounting a s) = im_by_capability s"
  "im_by_tenant (refresh_agent_accounting a s) = im_by_tenant s"
  "im_by_domain (refresh_agent_accounting a s) = im_by_domain s"
  "im_work_by_queue (refresh_agent_accounting a s) = im_work_by_queue s"
  "im_work_by_lifecycle (refresh_agent_accounting a s) = im_work_by_lifecycle s"
  "im_by_agent (refresh_agent_accounting a s) = im_by_agent s"
  "im_by_work (refresh_agent_accounting a s) = im_by_work s"
  by (simp_all add: refresh_agent_accounting_def Let_def split: option.split)

lemma refresh_work_frame [simp, frame_simps]:
  "im_limits (refresh_work_accounting w s) = im_limits s"
  "im_now (refresh_work_accounting w s) = im_now s"
  "im_feasibility (refresh_work_accounting w s) = im_feasibility s"
  "im_scheduler_id (refresh_work_accounting w s) = im_scheduler_id s"
  "im_scheduler_epoch (refresh_work_accounting w s) = im_scheduler_epoch s"
  "im_coordinator_epoch (refresh_work_accounting w s) = im_coordinator_epoch s"
  "im_queue_generation (refresh_work_accounting w s) = im_queue_generation s"
  "im_policy (refresh_work_accounting w s) = im_policy s"
  "im_agents (refresh_work_accounting w s) = im_agents s"
  "im_assignments (refresh_work_accounting w s) = im_assignments s"
  "im_leases (refresh_work_accounting w s) = im_leases s"
  "im_fenced_boots (refresh_work_accounting w s) = im_fenced_boots s"
  "im_queues (refresh_work_accounting w s) = im_queues s"
  "im_tenants (refresh_work_accounting w s) = im_tenants s"
  "im_next_admission_sequence (refresh_work_accounting w s) = im_next_admission_sequence s"
  "im_state_revision (refresh_work_accounting w s) = im_state_revision s"
  "im_scheduling_rounds (refresh_work_accounting w s) = im_scheduling_rounds s"
  "im_assignments_created (refresh_work_accounting w s) = im_assignments_created s"
  "im_assignments_invalidated (refresh_work_accounting w s) = im_assignments_invalidated s"
  "im_running (refresh_work_accounting w s) = im_running s"
  "im_admission_open (refresh_work_accounting w s) = im_admission_open s"
  "im_shutting_down (refresh_work_accounting w s) = im_shutting_down s"
  "im_shutdown_at_ms (refresh_work_accounting w s) = im_shutdown_at_ms s"
  "im_recovered (refresh_work_accounting w s) = im_recovered s"
  "im_by_capability (refresh_work_accounting w s) = im_by_capability s"
  "im_by_lifecycle (refresh_work_accounting w s) = im_by_lifecycle s"
  "im_by_tenant (refresh_work_accounting w s) = im_by_tenant s"
  "im_by_domain (refresh_work_accounting w s) = im_by_domain s"
  "im_work_by_queue (refresh_work_accounting w s) = im_work_by_queue s"
  "im_by_agent (refresh_work_accounting w s) = im_by_agent s"
  "im_by_work (refresh_work_accounting w s) = im_by_work s"
  by (simp_all add: refresh_work_accounting_def Let_def split: option.split)

lemma close_assignment_frame [simp, frame_simps]:
  "im_limits (close_assignment k st re d s) = im_limits s"
  "im_now (close_assignment k st re d s) = im_now s"
  "im_feasibility (close_assignment k st re d s) = im_feasibility s"
  "im_scheduler_id (close_assignment k st re d s) = im_scheduler_id s"
  "im_scheduler_epoch (close_assignment k st re d s) = im_scheduler_epoch s"
  "im_coordinator_epoch (close_assignment k st re d s) = im_coordinator_epoch s"
  "im_queue_generation (close_assignment k st re d s) = im_queue_generation s"
  "im_policy (close_assignment k st re d s) = im_policy s"
  "im_fenced_boots (close_assignment k st re d s) = im_fenced_boots s"
  "im_queues (close_assignment k st re d s) = im_queues s"
  "im_tenants (close_assignment k st re d s) = im_tenants s"
  "im_next_admission_sequence (close_assignment k st re d s) = im_next_admission_sequence s"
  "im_scheduling_rounds (close_assignment k st re d s) = im_scheduling_rounds s"
  "im_assignments_created (close_assignment k st re d s) = im_assignments_created s"
  "im_running (close_assignment k st re d s) = im_running s"
  "im_admission_open (close_assignment k st re d s) = im_admission_open s"
  "im_shutting_down (close_assignment k st re d s) = im_shutting_down s"
  "im_shutdown_at_ms (close_assignment k st re d s) = im_shutdown_at_ms s"
  "im_recovered (close_assignment k st re d s) = im_recovered s"
  "im_by_capability (close_assignment k st re d s) = im_by_capability s"
  "im_by_tenant (close_assignment k st re d s) = im_by_tenant s"
  "im_by_domain (close_assignment k st re d s) = im_by_domain s"
  "im_work_by_queue (close_assignment k st re d s) = im_work_by_queue s"
  by (simp_all add: close_assignment_def Let_def split: option.split)

lemma close_if_frame [simp, frame_simps]:
  "im_limits (close_if P st re d k s) = im_limits s"
  "im_now (close_if P st re d k s) = im_now s"
  "im_feasibility (close_if P st re d k s) = im_feasibility s"
  "im_scheduler_id (close_if P st re d k s) = im_scheduler_id s"
  "im_scheduler_epoch (close_if P st re d k s) = im_scheduler_epoch s"
  "im_coordinator_epoch (close_if P st re d k s) = im_coordinator_epoch s"
  "im_queue_generation (close_if P st re d k s) = im_queue_generation s"
  "im_policy (close_if P st re d k s) = im_policy s"
  "im_fenced_boots (close_if P st re d k s) = im_fenced_boots s"
  "im_queues (close_if P st re d k s) = im_queues s"
  "im_tenants (close_if P st re d k s) = im_tenants s"
  "im_next_admission_sequence (close_if P st re d k s) = im_next_admission_sequence s"
  "im_scheduling_rounds (close_if P st re d k s) = im_scheduling_rounds s"
  "im_assignments_created (close_if P st re d k s) = im_assignments_created s"
  "im_running (close_if P st re d k s) = im_running s"
  "im_admission_open (close_if P st re d k s) = im_admission_open s"
  "im_shutting_down (close_if P st re d k s) = im_shutting_down s"
  "im_shutdown_at_ms (close_if P st re d k s) = im_shutdown_at_ms s"
  "im_recovered (close_if P st re d k s) = im_recovered s"
  "im_by_capability (close_if P st re d k s) = im_by_capability s"
  "im_by_tenant (close_if P st re d k s) = im_by_tenant s"
  "im_by_domain (close_if P st re d k s) = im_by_domain s"
  "im_work_by_queue (close_if P st re d k s) = im_work_by_queue s"
  by (simp_all add: close_if_def)

lemma close_fold_frame [simp, frame_simps]:
  "im_limits (fold (close_if P st re d) ks s) = im_limits s"
  "im_now (fold (close_if P st re d) ks s) = im_now s"
  "im_feasibility (fold (close_if P st re d) ks s) = im_feasibility s"
  "im_scheduler_id (fold (close_if P st re d) ks s) = im_scheduler_id s"
  "im_scheduler_epoch (fold (close_if P st re d) ks s) = im_scheduler_epoch s"
  "im_coordinator_epoch (fold (close_if P st re d) ks s) = im_coordinator_epoch s"
  "im_queue_generation (fold (close_if P st re d) ks s) = im_queue_generation s"
  "im_policy (fold (close_if P st re d) ks s) = im_policy s"
  "im_fenced_boots (fold (close_if P st re d) ks s) = im_fenced_boots s"
  "im_queues (fold (close_if P st re d) ks s) = im_queues s"
  "im_tenants (fold (close_if P st re d) ks s) = im_tenants s"
  "im_next_admission_sequence (fold (close_if P st re d) ks s) = im_next_admission_sequence s"
  "im_scheduling_rounds (fold (close_if P st re d) ks s) = im_scheduling_rounds s"
  "im_assignments_created (fold (close_if P st re d) ks s) = im_assignments_created s"
  "im_running (fold (close_if P st re d) ks s) = im_running s"
  "im_admission_open (fold (close_if P st re d) ks s) = im_admission_open s"
  "im_shutting_down (fold (close_if P st re d) ks s) = im_shutting_down s"
  "im_shutdown_at_ms (fold (close_if P st re d) ks s) = im_shutdown_at_ms s"
  "im_recovered (fold (close_if P st re d) ks s) = im_recovered s"
  "im_by_capability (fold (close_if P st re d) ks s) = im_by_capability s"
  "im_by_tenant (fold (close_if P st re d) ks s) = im_by_tenant s"
  "im_by_domain (fold (close_if P st re d) ks s) = im_by_domain s"
  "im_work_by_queue (fold (close_if P st re d) ks s) = im_work_by_queue s"
  by (induction ks arbitrary: s) simp_all

lemma close_where_frame [simp, frame_simps]:
  "im_limits (close_where P st re d s) = im_limits s"
  "im_now (close_where P st re d s) = im_now s"
  "im_feasibility (close_where P st re d s) = im_feasibility s"
  "im_scheduler_id (close_where P st re d s) = im_scheduler_id s"
  "im_scheduler_epoch (close_where P st re d s) = im_scheduler_epoch s"
  "im_coordinator_epoch (close_where P st re d s) = im_coordinator_epoch s"
  "im_queue_generation (close_where P st re d s) = im_queue_generation s"
  "im_policy (close_where P st re d s) = im_policy s"
  "im_fenced_boots (close_where P st re d s) = im_fenced_boots s"
  "im_queues (close_where P st re d s) = im_queues s"
  "im_tenants (close_where P st re d s) = im_tenants s"
  "im_next_admission_sequence (close_where P st re d s) = im_next_admission_sequence s"
  "im_scheduling_rounds (close_where P st re d s) = im_scheduling_rounds s"
  "im_assignments_created (close_where P st re d s) = im_assignments_created s"
  "im_running (close_where P st re d s) = im_running s"
  "im_admission_open (close_where P st re d s) = im_admission_open s"
  "im_shutting_down (close_where P st re d s) = im_shutting_down s"
  "im_shutdown_at_ms (close_where P st re d s) = im_shutdown_at_ms s"
  "im_recovered (close_where P st re d s) = im_recovered s"
  "im_by_capability (close_where P st re d s) = im_by_capability s"
  "im_by_tenant (close_where P st re d s) = im_by_tenant s"
  "im_by_domain (close_where P st re d s) = im_by_domain s"
  "im_work_by_queue (close_where P st re d s) = im_work_by_queue s"
  by (simp_all add: close_where_def)

end
