(* ===== verification/Accounting.thy ===== *)
theory Accounting
  imports State_Frames
begin

section \<open>Indexes and accounting agree with the assignments\<close>

text \<open>
  The assignment map is authoritative; the two assignment indexes and the counters of agents
  and work items are derived from it. An index maps an owner (the agent or the work item of
  a binding) to the active assignments it owns. This theory states the agreement and proves
  that the maintenance functions keep it.
\<close>

definition active_owned ::
    "(Hash128, AssignmentRecord) omap \<Rightarrow> (AssignmentBinding \<Rightarrow> 'k) \<Rightarrow> 'k \<Rightarrow> Hash128 set" where
  "active_owned m owner j =
     {k. \<exists>r. om_get m k = Some r \<and> record_active r \<and> owner (ar_binding r) = j}"

definition index_matches ::
    "('i \<Rightarrow> 'k \<Rightarrow> Hash128 set) \<Rightarrow> (AssignmentBinding \<Rightarrow> 'k)
       \<Rightarrow> (Hash128, AssignmentRecord) omap \<Rightarrow> 'i \<Rightarrow> bool" where
  "index_matches lookup owner m ix \<longleftrightarrow> (\<forall>j. lookup ix j = active_owned m owner j)"

definition keyed :: "(Hash128, AssignmentRecord) omap \<Rightarrow> bool" where
  "keyed m \<longleftrightarrow> (\<forall>k r. om_get m k = Some r \<longrightarrow> bn_id (ar_binding r) = k)"

lemma finite_active_owned [simp]: "finite (active_owned m owner j)"
  by (simp add: active_owned_def)

lemma holds_in_iff: "holds_in m P k \<longleftrightarrow> (\<exists>r. om_get m k = Some r \<and> P r)"
  by (simp add: holds_in_def split: option.split)

lemma keyed_assignment: "keyed m \<Longrightarrow> om_get m k = Some r \<Longrightarrow> bn_id (ar_binding r) = k"
  by (simp add: keyed_def)

lemma keyed_put: "keyed m \<Longrightarrow> bn_id (ar_binding r) = k \<Longrightarrow> keyed (om_put k r m)"
  by (simp add: keyed_def)

text \<open>The contract of an index store, and what its client gets from it.\<close>

locale assignment_index =
  fixes lookup :: "'i \<Rightarrow> 'k \<Rightarrow> Hash128 set"
    and add :: "'k \<Rightarrow> Hash128 \<Rightarrow> 'i \<Rightarrow> 'i"
    and drop_at :: "'k \<Rightarrow> Hash128 \<Rightarrow> 'i \<Rightarrow> 'i"
    and owner :: "AssignmentBinding \<Rightarrow> 'k"
  assumes lookup_add: "lookup (add k x i) j = (if j = k then insert x (lookup i k) else lookup i j)"
    and lookup_drop: "lookup (drop_at k x i) j = (if j = k then lookup i k - {x} else lookup i j)"
begin

lemma matches_add:
  assumes "index_matches lookup owner m ix" and "record_active r"
    and "\<And>r0. om_get m k = Some r0 \<Longrightarrow> \<not> record_active r0"
  shows "index_matches lookup owner (om_put k r m) (add (owner (ar_binding r)) k ix)"
  using assms by (auto simp: index_matches_def lookup_add active_owned_def split: if_splits)

lemma matches_add_present:
  assumes "index_matches lookup owner m ix" and "om_get m k = Some r" and "record_active r"
  shows "index_matches lookup owner m (add (owner (ar_binding r)) k ix)"
  using assms by (auto simp: index_matches_def lookup_add active_owned_def)

lemma matches_close:
  assumes "index_matches lookup owner m ix" and "om_get m k = Some r"
    and "\<not> record_active r'" and "owner (ar_binding r') = owner (ar_binding r)"
  shows "index_matches lookup owner (om_put k r' m) (drop_at (owner (ar_binding r')) k ix)"
  using assms by (auto simp: index_matches_def lookup_drop active_owned_def split: if_splits)

lemma matches_update:
  assumes "index_matches lookup owner m ix" and "om_get m k = Some r"
    and "record_active r' = record_active r" and "owner (ar_binding r') = owner (ar_binding r)"
  shows "index_matches lookup owner (om_put k r' m) ix"
  using assms by (auto simp: index_matches_def active_owned_def split: if_splits)

lemma filter_active: "index_matches lookup owner m ix \<Longrightarrow>
    {k \<in> lookup ix j. holds_in m record_active k} = active_owned m owner j"
  by (auto simp: index_matches_def active_owned_def holds_in_iff)

end

interpretation by_agent: assignment_index ix_get ix_insert ix_erase_at bn_agent
  by unfold_locales simp_all

interpretation by_work: assignment_index ix_get ix_insert ix_erase_at bn_work
  by unfold_locales simp_all

abbreviation assignments_of_agent :: "Impl \<Rightarrow> u64 \<Rightarrow> Hash128 set" where
  "assignments_of_agent s a \<equiv> active_owned (im_assignments s) bn_agent a"

abbreviation assignments_of_work :: "Impl \<Rightarrow> u64 \<Rightarrow> Hash128 set" where
  "assignments_of_work s w \<equiv> active_owned (im_assignments s) bn_work w"

definition indexes_ok :: "Impl \<Rightarrow> bool" where
  "indexes_ok s \<longleftrightarrow> keyed (im_assignments s)
     \<and> index_matches ix_get bn_agent (im_assignments s) (im_by_agent s)
     \<and> index_matches ix_get bn_work (im_assignments s) (im_by_work s)"

definition agent_accounted :: "Impl \<Rightarrow> u64 \<Rightarrow> bool" where
  "agent_accounted s a \<longleftrightarrow> (\<forall>r. om_get (im_agents s) a = Some r \<longrightarrow>
     ad_id (ag_descriptor r) = a
     \<and> ag_active_assignments r = of_nat (card (assignments_of_agent s a)))"

definition work_accounted :: "Impl \<Rightarrow> u64 \<Rightarrow> bool" where
  "work_accounted s w \<longleftrightarrow> (\<forall>r. om_get (im_work s) w = Some r \<longrightarrow>
     wq_id (wr_request r) = w
     \<and> wr_current_assignments r = of_nat (card (assignments_of_work s w)))"

definition accounts_ok :: "Impl \<Rightarrow> bool" where
  "accounts_ok s \<longleftrightarrow> indexes_ok s \<and> (\<forall>a. agent_accounted s a) \<and> (\<forall>w. work_accounted s w)"

definition agents_named :: "Impl \<Rightarrow> bool" where
  "agents_named s \<longleftrightarrow> (\<forall>a r. om_get (im_agents s) a = Some r \<longrightarrow> ad_id (ag_descriptor r) = a)"

definition work_named :: "Impl \<Rightarrow> bool" where
  "work_named s \<longleftrightarrow> (\<forall>w r. om_get (im_work s) w = Some r \<longrightarrow> wq_id (wr_request r) = w)"

lemma accounts_ok_named: "accounts_ok s \<Longrightarrow> agents_named s \<and> work_named s"
  by (auto simp: accounts_ok_def agents_named_def work_named_def agent_accounted_def
        work_accounted_def)

lemma indexes_ok_cong:
  "im_assignments s' = im_assignments s \<Longrightarrow> im_by_agent s' = im_by_agent s \<Longrightarrow>
   im_by_work s' = im_by_work s \<Longrightarrow> indexes_ok s' \<longleftrightarrow> indexes_ok s"
  by (simp add: indexes_ok_def)

subsection \<open>The counters read from the indexes\<close>

lemma active_assignment_count_eq:
  "indexes_ok s \<Longrightarrow> active_assignment_count s a = of_nat (card (assignments_of_agent s a))"
  by (simp add: active_assignment_count_def by_agent.filter_active indexes_ok_def)

lemma work_active_count_eq:
  "indexes_ok s \<Longrightarrow> work_active_count s w = of_nat (card (assignments_of_work s w))"
  by (simp add: work_active_count_def by_work.filter_active indexes_ok_def)

lemma active_exclusive_None:
  "indexes_ok s \<Longrightarrow> active_exclusive_assignment s w = None \<longleftrightarrow>
     (\<forall>k r. om_get (im_assignments s) k = Some r \<and> record_active r \<and> bn_work (ar_binding r) = w
        \<longrightarrow> \<not> bn_exclusive (ar_binding r))"
proof -
  assume "indexes_ok s"
  then have "ix_get (im_by_work s) w = assignments_of_work s w"
    by (simp add: indexes_ok_def index_matches_def)
  then have "Set.filter (holds_in (im_assignments s)
      (\<lambda>r. record_active r \<and> bn_exclusive (ar_binding r))) (ix_get (im_by_work s) w) =
    {k. \<exists>r. om_get (im_assignments s) k = Some r \<and> record_active r \<and> bn_work (ar_binding r) = w
           \<and> bn_exclusive (ar_binding r)}"
    by (auto simp: active_owned_def holds_in_iff)
  then show ?thesis by (simp only: active_exclusive_assignment_def Let_def) auto
qed

definition held_by :: "Impl \<Rightarrow> u64 \<Rightarrow> u64 \<Rightarrow> Hash128 set" where
  "held_by s w a = assignments_of_work s w \<inter> assignments_of_agent s a"

lemma active_assignments_on_agent_eq:
  "indexes_ok s \<Longrightarrow> active_assignments_on_agent s w a = of_nat (card (held_by s w a))"
proof -
  assume "indexes_ok s"
  then have "ix_get (im_by_work s) w = assignments_of_work s w"
    by (simp add: indexes_ok_def index_matches_def)
  then have "Set.filter (holds_in (im_assignments s)
      (\<lambda>r. record_active r \<and> bn_agent (ar_binding r) = a)) (ix_get (im_by_work s) w) = held_by s w a"
    by (auto simp: held_by_def active_owned_def holds_in_iff)
  then show ?thesis by (simp add: active_assignments_on_agent_def)
qed

subsection \<open>Refreshing restores the accounting of one owner\<close>

lemma recompute_lifecycle_sel [simp]:
  "ag_descriptor (recompute_lifecycle r) = ag_descriptor r"
  "ag_active_assignments (recompute_lifecycle r) = ag_active_assignments r"
  by (simp_all add: recompute_lifecycle_def)

lemma decay_recent_sel [simp]:
  "ag_descriptor (decay_recent r) = ag_descriptor r"
  "ag_active_assignments (decay_recent r) = ag_active_assignments r"
  by (simp_all add: decay_recent_def)

lemma refresh_agent_indexes [simp]: "indexes_ok (refresh_agent_accounting a s) = indexes_ok s"
  by (rule indexes_ok_cong) simp_all

lemma refresh_work_indexes [simp]: "indexes_ok (refresh_work_accounting w s) = indexes_ok s"
  by (rule indexes_ok_cong) simp_all

lemma refresh_agent_get:
  "om_get (im_agents (refresh_agent_accounting a s)) x =
     (if x = a then map_option (\<lambda>r. recompute_lifecycle (r\<lparr>ag_active_assignments :=
          active_assignment_count s (ad_id (ag_descriptor r))\<rparr>)) (om_get (im_agents s) a)
      else om_get (im_agents s) x)"
  by (simp add: refresh_agent_accounting_def sync_agent_lifecycle_index_def Let_def
      split: option.split)

lemma refresh_work_get_other:
  "x \<noteq> w \<Longrightarrow> om_get (im_work (refresh_work_accounting w s)) x = om_get (im_work s) x"
  by (simp add: refresh_work_accounting_def sync_work_lifecycle_index_def Let_def
      split: option.split)

lemma refresh_work_get_same:
  assumes "om_get (im_work (refresh_work_accounting w s)) w = Some r'"
  obtains r where "om_get (im_work s) w = Some r" and "wr_request r' = wr_request r"
    and "wr_current_assignments r' = work_active_count s (wq_id (wr_request r))"
    and "r'\<lparr>wr_lifecycle := WorkLifecycle.Unknown, wr_current_assignments := 0\<rparr>
           = r\<lparr>wr_lifecycle := WorkLifecycle.Unknown, wr_current_assignments := 0\<rparr>"
    and "work_is_terminal (wr_lifecycle r) \<Longrightarrow> wr_lifecycle r' = wr_lifecycle r"
  using assms that
  by (cases "om_get (im_work s) w")
    (auto simp: refresh_work_accounting_def sync_work_lifecycle_index_def Let_def)

lemma refresh_agent_accounts_other:
  "x \<noteq> a \<Longrightarrow> agent_accounted (refresh_agent_accounting a s) x = agent_accounted s x"
  by (simp add: agent_accounted_def refresh_agent_get)

lemma refresh_agent_accounts:
  "indexes_ok s \<Longrightarrow> agents_named s \<Longrightarrow> agent_accounted (refresh_agent_accounting a s) a"
  by (auto simp: agent_accounted_def refresh_agent_get agents_named_def active_assignment_count_eq)

lemma refresh_agent_work_accounted [simp]:
  "work_accounted (refresh_agent_accounting a s) w = work_accounted s w"
  by (simp add: work_accounted_def)

lemma refresh_work_agent_accounted [simp]:
  "agent_accounted (refresh_work_accounting w s) a = agent_accounted s a"
  by (simp add: agent_accounted_def)

lemma refresh_work_accounts_other:
  "x \<noteq> w \<Longrightarrow> work_accounted (refresh_work_accounting w s) x = work_accounted s x"
  by (simp add: work_accounted_def refresh_work_get_other)

lemma refresh_work_accounts:
  "indexes_ok s \<Longrightarrow> work_named s \<Longrightarrow> work_accounted (refresh_work_accounting w s) w"
  unfolding work_accounted_def
proof (intro allI impI)
  fix r' assume "indexes_ok s" "work_named s"
    and got: "om_get (im_work (refresh_work_accounting w s)) w = Some r'"
  from got obtain r where "om_get (im_work s) w = Some r" "wr_request r' = wr_request r"
    "wr_current_assignments r' = work_active_count s (wq_id (wr_request r))"
    by (rule refresh_work_get_same)
  with \<open>indexes_ok s\<close> \<open>work_named s\<close>
  show "wq_id (wr_request r') = w \<and> wr_current_assignments r' =
      of_nat (card (assignments_of_work (refresh_work_accounting w s) w))"
    by (simp add: work_named_def work_active_count_eq)
qed

lemma refresh_agent_ids:
  "map_option (\<lambda>r. ad_id (ag_descriptor r)) (om_get (im_agents (refresh_agent_accounting a s)) x)
     = map_option (\<lambda>r. ad_id (ag_descriptor r)) (om_get (im_agents s) x)"
  by (simp add: refresh_agent_get option.map_comp comp_def)

lemma agents_named_iff:
  "agents_named s \<longleftrightarrow>
     (\<forall>x n. map_option (\<lambda>r. ad_id (ag_descriptor r)) (om_get (im_agents s) x) = Some n \<longrightarrow> n = x)"
  by (auto simp: agents_named_def)

lemma refresh_agent_named [simp]: "agents_named (refresh_agent_accounting a s) = agents_named s"
  by (simp only: agents_named_iff refresh_agent_ids)

lemma refresh_agent_work_named [simp]: "work_named (refresh_agent_accounting a s) = work_named s"
  by (simp add: work_named_def)

lemma refresh_agent_accounted:
  "indexes_ok s \<Longrightarrow> agents_named s \<Longrightarrow> x \<noteq> a \<longrightarrow> agent_accounted s x \<Longrightarrow>
   agent_accounted (refresh_agent_accounting a s) x"
  by (cases "x = a") (simp_all add: refresh_agent_accounts refresh_agent_accounts_other)

lemma refresh_work_accounted:
  "indexes_ok s \<Longrightarrow> work_named s \<Longrightarrow> x \<noteq> w \<longrightarrow> work_accounted s x \<Longrightarrow>
   work_accounted (refresh_work_accounting w s) x"
  by (cases "x = w") (simp_all add: refresh_work_accounts refresh_work_accounts_other)

lemma refresh_agent_keeps_accounts:
  "accounts_ok s \<Longrightarrow> accounts_ok (refresh_agent_accounting a s)"
  using accounts_ok_named [of s] by (simp add: accounts_ok_def refresh_agent_accounted)

lemma refresh_work_keeps_accounts:
  "accounts_ok s \<Longrightarrow> accounts_ok (refresh_work_accounting w s)"
  using accounts_ok_named [of s] by (simp add: accounts_ok_def refresh_work_accounted)

text \<open>
  After a change of the assignments and indexes, refreshing the agent and the work item
  whose sets changed restores all accounts.
\<close>

definition accounts_except :: "u64 \<Rightarrow> u64 \<Rightarrow> Impl \<Rightarrow> bool" where
  "accounts_except a w s \<longleftrightarrow> indexes_ok s \<and> agents_named s \<and> work_named s
     \<and> (\<forall>x. x \<noteq> a \<longrightarrow> agent_accounted s x) \<and> (\<forall>x. x \<noteq> w \<longrightarrow> work_accounted s x)"

lemma refresh_agent_then_work:
  "accounts_except a w s \<Longrightarrow>
   accounts_ok (refresh_work_accounting w (refresh_agent_accounting a s))"
  by (simp add: accounts_ok_def accounts_except_def refresh_agent_accounted refresh_work_accounted)

lemma refresh_work_then_agent:
  "accounts_except a w s \<Longrightarrow>
   accounts_ok (refresh_agent_accounting a (refresh_work_accounting w s))"
  by (simp add: accounts_ok_def accounts_except_def refresh_agent_accounted refresh_work_accounted
      agents_named_def)

end
