(* ===== verification/Closing.thy ===== *)
theory Closing
  imports Accounting
begin

section \<open>Closing assignments\<close>

text \<open>
  close_assignment moves one assignment to a terminal state, releases its lease, its index
  entries and its slots, and recomputes the counters. This theory describes its effect on
  each map, shows that a terminal record never changes again, and lifts both to the loops
  that close every assignment satisfying a condition.
\<close>

definition agent_stable :: "AgentRecord \<Rightarrow> AgentRecord" where
  "agent_stable r = r\<lparr>ag_lifecycle := AgentLifecycle.Unregistered, ag_active_assignments := 0,
     ag_recent_assignments := 0\<rparr>"

definition work_stable :: "WorkRecord \<Rightarrow> WorkRecord" where
  "work_stable r = r\<lparr>wr_lifecycle := WorkLifecycle.Unknown, wr_current_assignments := 0\<rparr>"

lemma agent_stable_recompute [simp]: "agent_stable (recompute_lifecycle r) = agent_stable r"
  by (simp add: agent_stable_def recompute_lifecycle_def)

lemma agent_stable_decay [simp]: "agent_stable (decay_recent r) = agent_stable r"
  by (simp add: agent_stable_def decay_recent_def)

lemma agent_stable_count [simp]: "agent_stable (r\<lparr>ag_active_assignments := n\<rparr>) = agent_stable r"
  by (simp add: agent_stable_def)

lemma agent_stableD:
  assumes "agent_stable r' = agent_stable r"
  shows "ag_descriptor r' = ag_descriptor r" and "ag_profile r' = ag_profile r"
    and "ag_capability_current r' = ag_capability_current r"
proof -
  show "ag_descriptor r' = ag_descriptor r"
    using arg_cong [OF assms, of ag_descriptor] by (simp add: agent_stable_def)
  show "ag_profile r' = ag_profile r"
    using arg_cong [OF assms, of ag_profile] by (simp add: agent_stable_def)
  show "ag_capability_current r' = ag_capability_current r"
    using arg_cong [OF assms, of ag_capability_current] by (simp add: agent_stable_def)
qed

lemma work_stableD:
  assumes "work_stable r' = work_stable r"
  shows "wr_request r' = wr_request r"
  using arg_cong [OF assms, of wr_request] by (simp add: work_stable_def)

text \<open>The stable parts of all agents and work items.\<close>

definition stable_agents :: "Impl \<Rightarrow> u64 \<Rightarrow> AgentRecord option" where
  "stable_agents s a = map_option agent_stable (om_get (im_agents s) a)"

definition stable_work :: "Impl \<Rightarrow> u64 \<Rightarrow> WorkRecord option" where
  "stable_work s w = map_option work_stable (om_get (im_work s) w)"

lemma stable_agents_SomeD:
  "stable_agents s' = stable_agents s \<Longrightarrow> om_get (im_agents s) a = Some r \<Longrightarrow>
   \<exists>r'. om_get (im_agents s') a = Some r' \<and> agent_stable r' = agent_stable r"
  by (drule fun_cong [of _ _ a]) (auto simp: stable_agents_def)

lemma stable_work_SomeD:
  "stable_work s' = stable_work s \<Longrightarrow> om_get (im_work s) w = Some r \<Longrightarrow>
   \<exists>r'. om_get (im_work s') w = Some r' \<and> work_stable r' = work_stable r"
  by (drule fun_cong [of _ _ w]) (auto simp: stable_work_def)

lemma stable_agents_refresh [simp]:
  "stable_agents (refresh_agent_accounting a s) = stable_agents s"
  by (rule ext) (simp add: stable_agents_def refresh_agent_get option.map_comp comp_def)

lemma stable_work_refresh [simp]:
  "stable_work (refresh_work_accounting w s) = stable_work s"
proof (rule ext)
  fix x
  show "stable_work (refresh_work_accounting w s) x = stable_work s x"
    by (cases "om_get (im_work s) w")
      (simp_all add: stable_work_def refresh_work_accounting_def sync_work_lifecycle_index_def
        work_stable_def Let_def)
qed

lemma stable_agents_cong: "im_agents s' = im_agents s \<Longrightarrow> stable_agents s' = stable_agents s"
  by (simp add: stable_agents_def fun_eq_iff)

lemma stable_work_cong: "im_work s' = im_work s \<Longrightarrow> stable_work s' = stable_work s"
  by (simp add: stable_work_def fun_eq_iff)

lemma stable_agents_adjust:
  "(\<And>r. agent_stable (f r) = agent_stable r) \<Longrightarrow>
   stable_agents (s\<lparr>im_agents := om_adjust a f (im_agents s)\<rparr>) = stable_agents s"
  by (rule ext) (simp add: stable_agents_def option.map_comp comp_def)

subsection \<open>One assignment\<close>

definition close_effect ::
    "u64 \<Rightarrow> AssignmentState \<Rightarrow> InvalidationReason \<Rightarrow> string \<Rightarrow> AssignmentRecord \<Rightarrow> AssignmentRecord" where
  "close_effect now st re d r =
     (if assignment_state_is_terminal (ar_state r) then r else closed_record now st re d r)"

lemma closed_record_sel [simp]:
  "ar_binding (closed_record now st re d r) = ar_binding r"
  "ar_state (closed_record now st re d r) = st"
  "ar_lease_current (closed_record now st re d r) = False"
  "ar_invalidation (closed_record now st re d r) = re"
  "ar_reason (closed_record now st re d r) = d"
  by (simp_all add: closed_record_def)

lemma close_assignment_get:
  "om_get (im_assignments (close_assignment k st re d s)) j =
     (if j = k then map_option (close_effect (im_now s) st re d) (om_get (im_assignments s) k)
      else om_get (im_assignments s) j)"
  by (simp add: close_assignment_def close_effect_def Let_def split: option.split)

lemma close_assignment_stable [simp]:
  "stable_agents (close_assignment k st re d s) = stable_agents s"
  "stable_work (close_assignment k st re d s) = stable_work s"
proof -
  show "stable_agents (close_assignment k st re d s) = stable_agents s"
  proof (cases "om_get (im_assignments s) k")
    case (Some r)
    let ?a = "bn_agent (ar_binding r)"
    let ?s = "s\<lparr>im_agents := om_adjust ?a decay_recent (im_agents s)\<rparr>"
    have "stable_agents (close_assignment k st re d s) a = stable_agents s a
            \<or> stable_agents (close_assignment k st re d s) a = stable_agents ?s a" for a
      using Some
      by (auto simp: stable_agents_def close_assignment_def Let_def refresh_agent_get
          option.map_comp comp_def)
    then show ?thesis by (auto simp: fun_eq_iff stable_agents_adjust)
  qed (simp add: close_assignment_def)
  show "stable_work (close_assignment k st re d s) = stable_work s"
  proof (cases "om_get (im_assignments s) k")
    case (Some r)
    have upd: "stable_work (s\<lparr>im_assignments_invalidated := n, im_state_revision := v\<rparr>)
        = stable_work s" for s n v
      by (rule stable_work_cong) simp
    show ?thesis
      using Some by (auto simp: close_assignment_def Let_def upd intro: stable_work_cong)
  qed (simp add: close_assignment_def)
qed

text \<open>The state between the index update and the two refreshes.\<close>

lemma closing_accounts_except:
  assumes ok: "accounts_ok s" and r: "om_get (im_assignments s) k = Some r"
    and st: "\<not> assignment_state_is_active st"
    and s2: "s2 = deindex_assignment (closed_record now st re d r)
               (s\<lparr>im_assignments := om_put k (closed_record now st re d r) (im_assignments s),
                  im_leases := ls\<rparr>)"
  shows "accounts_except (bn_agent (ar_binding r)) (bn_work (ar_binding r))
           (s2\<lparr>im_agents := om_adjust (bn_agent (ar_binding r)) decay_recent (im_agents s2)\<rparr>)"
proof -
  let ?r' = "closed_record now st re d r"
  have ix: "indexes_ok s" and named: "agents_named s" "work_named s"
    using ok accounts_ok_named by (simp_all add: accounts_ok_def)
  have "bn_id (ar_binding r) = k"
    using ix r by (auto simp: indexes_ok_def dest: keyed_assignment)
  then have "indexes_ok (s2\<lparr>im_agents := ags\<rparr>)" for ags
    using ix r st by_agent.matches_close [of "im_assignments s" "im_by_agent s" k r ?r']
      by_work.matches_close [of "im_assignments s" "im_by_work s" k r ?r']
    by (simp add: s2 indexes_ok_def keyed_put deindex_assignment_def Let_def)
  moreover have owned: "active_owned (om_put k ?r' (im_assignments s)) owner j
      = active_owned (im_assignments s) owner j"
    if "j \<noteq> owner (ar_binding r)" for owner :: "AssignmentBinding \<Rightarrow> u64" and j
    using that r st by (auto simp: active_owned_def split: if_splits)
  ultimately show ?thesis
    using named ok
    by (auto simp: accounts_except_def s2 agents_named_def work_named_def agent_accounted_def
        work_accounted_def accounts_ok_def owned)
qed

lemma accounts_ok_counters [simp]:
  "accounts_ok (s\<lparr>im_assignments_invalidated := n, im_state_revision := v\<rparr>) = accounts_ok s"
  by (simp add: accounts_ok_def indexes_ok_def agent_accounted_def work_accounted_def)

lemma close_assignment_accounts:
  assumes "accounts_ok s" and "\<not> assignment_state_is_active st"
  shows "accounts_ok (close_assignment k st re d s)"
proof (cases "om_get (im_assignments s) k")
  case None
  then show ?thesis using assms by (simp add: close_assignment_def)
next
  case (Some r)
  show ?thesis
  proof (cases "assignment_state_is_terminal (ar_state r)")
    case True
    then show ?thesis using assms Some by (simp add: close_assignment_def)
  next
    case False
    then show ?thesis
      using refresh_agent_then_work
        [OF closing_accounts_except [OF assms(1) Some assms(2) refl]] Some
      by (simp add: close_assignment_def Let_def)
  qed
qed

subsection \<open>Closing loops\<close>

lemma close_if_get:
  "om_get (im_assignments (close_if P st re d k s)) j =
     map_option (\<lambda>r. if j = k \<and> P r then close_effect (im_now s) st re d r else r)
       (om_get (im_assignments s) j)"
  by (cases "om_get (im_assignments s) j")
    (auto simp: close_if_def close_assignment_get holds_in_iff)

lemma close_effect_terminal:
  "assignment_state_is_terminal st \<Longrightarrow>
   assignment_state_is_terminal (ar_state (close_effect n st re d r))"
  by (simp add: close_effect_def)

lemma close_effect_inactive:
  "assignment_state_is_terminal st \<Longrightarrow> \<not> record_active (close_effect n st re d r)"
  by (rule terminal_not_active) (rule close_effect_terminal)

lemma close_fold_get:
  assumes "assignment_state_is_terminal st"
  shows "om_get (im_assignments (fold (close_if P st re d) ks s)) j =
     map_option (\<lambda>r. if j \<in> set ks \<and> P r then close_effect (im_now s) st re d r else r)
       (om_get (im_assignments s) j)"
proof (induction ks arbitrary: s)
  case (Cons k ks)
  show ?case
    using assms
    by (cases "om_get (im_assignments s) j")
      (auto simp: Cons close_if_get close_effect_def)
qed (simp add: option.map_ident)

lemma close_where_get:
  assumes "assignment_state_is_terminal st"
  shows "om_get (im_assignments (close_where P st re d s)) j =
     map_option (\<lambda>r. if P r then close_effect (im_now s) st re d r else r)
       (om_get (im_assignments s) j)"
  by (cases "om_get (im_assignments s) j")
    (auto simp: close_where_def close_fold_get [OF assms])

lemma close_if_stable [simp]:
  "stable_agents (close_if P st re d k s) = stable_agents s"
  "stable_work (close_if P st re d k s) = stable_work s"
  by (simp_all add: close_if_def)

lemma close_fold_stable [simp]:
  "stable_agents (fold (close_if P st re d) ks s) = stable_agents s"
  "stable_work (fold (close_if P st re d) ks s) = stable_work s"
  by (induction ks arbitrary: s) simp_all

lemma close_where_stable [simp]:
  "stable_agents (close_where P st re d s) = stable_agents s"
  "stable_work (close_where P st re d s) = stable_work s"
  by (simp_all add: close_where_def)

lemma close_fold_accounts:
  "accounts_ok s \<Longrightarrow> \<not> assignment_state_is_active st \<Longrightarrow>
   accounts_ok (fold (close_if P st re d) ks s)"
  by (induction ks arbitrary: s) (simp_all add: close_if_def close_assignment_accounts)

lemma close_where_accounts:
  "accounts_ok s \<Longrightarrow> \<not> assignment_state_is_active st \<Longrightarrow>
   accounts_ok (close_where P st re d s)"
  by (simp add: close_where_def close_fold_accounts)

text \<open>After the loop no active record satisfies the condition.\<close>

lemma close_where_none_left:
  assumes "assignment_state_is_terminal st"
    and "om_get (im_assignments (close_where P st re d s)) k = Some r" and "record_active r"
  shows "om_get (im_assignments s) k = Some r \<and> \<not> P r"
  using assms close_effect_inactive [OF assms(1)]
  by (cases "om_get (im_assignments s) k") (auto simp: close_where_get split: if_splits)

end
