(* ===== verification/Agent_Lifecycle.thy ===== *)
theory Agent_Lifecycle
  imports Closing
begin

section \<open>Agent registration, evidence and departure\<close>

text \<open>
  The agent operations of scheduler.cpp. register_agent and declare_agent_lost check, run
  the interlock, and check again; the check and the commit are separate definitions. An
  operation returns the new state and None, or the error.
\<close>

definition stale_boot :: "Impl \<Rightarrow> AgentRecord \<Rightarrow> Hash128 \<Rightarrow> bool" where
  "stale_boot impl r boot \<longleftrightarrow> ad_boot (ag_descriptor r) \<noteq> boot \<or> boot_is_fenced impl boot"

definition effective_lease_ttl :: "Impl \<Rightarrow> AgentDescriptor \<Rightarrow> u32" where
  "effective_lease_ttl impl d =
     (let ttl = (if ad_lease_ttl_ms d \<noteq> 0 then ad_lease_ttl_ms d
                 else registration_lease_ttl_ms (im_policy impl));
          capped = min ttl (24 * 60 * 60 * 1000)
      in ucast (if capped = 0 then 1 else capped))"

definition refresh_agent :: "u64 \<Rightarrow> Impl \<Rightarrow> Impl" where
  "refresh_agent a impl =
     (let s = refresh_agent_accounting a (deindex_agent a impl)
      in case om_get (im_agents s) a of None \<Rightarrow> s | Some r \<Rightarrow> index_agent r s)"

definition close_all_active ::
    "Hash128 \<Rightarrow> AssignmentState \<Rightarrow> InvalidationReason \<Rightarrow> string \<Rightarrow> Impl \<Rightarrow> Impl" where
  "close_all_active boot st reason detail impl =
     close_where (\<lambda>r. bn_boot (ar_binding r) = boot \<and> record_active r) st reason detail impl"

definition agent_error ::
    "string \<Rightarrow> u64 \<Rightarrow> ErrorCode \<Rightarrow> string \<Rightarrow> ScheduleOutcome \<Rightarrow> SchedulerError" where
  "agent_error operation a code detail oc = make_error code operation (id_to_string a) detail oc"

subsection \<open>Registration\<close>

definition register_check :: "AgentDescriptor \<Rightarrow> Impl \<Rightarrow> SchedulerError option" where
  "register_check d impl =
     (let err = agent_error ''register_agent'' (ad_id d) in
      case om_get (im_agents impl) (ad_id d) of
        Some existing \<Rightarrow>
          (let old = ag_descriptor existing in first_some
             [guard (ad_generation d < ad_generation old)
                (err ErrorCode.StaleGeneration ''agent generation is stale''
                   ScheduleOutcome.RejectStaleAgentGeneration),
              guard (ad_generation d = ad_generation old \<and> ad_boot d \<noteq> ad_boot old)
                (err ErrorCode.StaleGeneration
                   ''a new incarnation requires a higher agent generation''
                   ScheduleOutcome.RejectStaleAgentGeneration),
              guard (ag_lifecycle existing = AgentLifecycle.Retired
                     \<and> ad_generation d = ad_generation old)
                (err ErrorCode.Conflict ''retired agent cannot re-register at the same generation''
                   ScheduleOutcome.RejectLifecycle),
              guard (boot_is_fenced impl (ad_boot d))
                (err ErrorCode.Fenced ''incarnation is permanently fenced''
                   ScheduleOutcome.RejectFenced)])
      | None \<Rightarrow>
          guard (length (im_agents impl) \<ge> unat (max_agents (im_limits impl)))
            (err ErrorCode.LimitExceeded ''agent count exceeds max_agents''
               ScheduleOutcome.RejectLimitExceeded))"

definition canonical_descriptor :: "AgentDescriptor \<Rightarrow> AgentDescriptor" where
  "canonical_descriptor d = d\<lparr>ad_policy_labels := canonicalize_strings (ad_policy_labels d)\<rparr>"

definition fresh_agent :: "AgentDescriptor \<Rightarrow> string \<Rightarrow> Impl \<Rightarrow> AgentRecord" where
  "fresh_agent d reason impl = recompute_lifecycle (default_agent_record\<lparr>
     ag_descriptor := canonical_descriptor d, ag_registered_at_ms := im_now impl,
     ag_lease_expires_at_ms := im_now impl + ucast (effective_lease_ttl impl d),
     ag_last_heartbeat_ms := im_now impl, ag_reason := reason\<rparr>)"

definition reincarnate :: "AgentDescriptor \<Rightarrow> AgentRecord \<Rightarrow> Impl \<Rightarrow> Impl" where
  "reincarnate d existing impl =
     (let a = ad_id d; old = ag_descriptor existing;
          s1 = (if hash128_is_zero (ad_boot old) then impl
                else close_all_active (ad_boot old) AssignmentState.Lost
                       InvalidationReason.AgentFenced
                       ''agent incarnation replaced by a newer generation''
                       (fence_boot a (ad_boot old) (ad_generation old)
                          ''replaced by reincarnation'' impl));
          s2 = deindex_agent a s1;
          s3 = refresh_agent_accounting a
                 (s2\<lparr>im_agents := om_put a (fresh_agent d ''reincarnated'' impl) (im_agents s2)\<rparr>)
      in bump_revision (case om_get (im_agents s3) a of
           None \<Rightarrow> s3 | Some r \<Rightarrow> index_agent r s3))"

definition reregister :: "AgentDescriptor \<Rightarrow> Impl \<Rightarrow> Impl" where
  "reregister d impl =
     bump_revision (refresh_agent (ad_id d) (adjust_agent (ad_id d)
       (\<lambda>r. r\<lparr>ag_descriptor := canonical_descriptor d, ag_registered_at_ms := im_now impl,
              ag_last_heartbeat_ms := im_now impl,
              ag_lease_expires_at_ms := im_now impl + ucast (effective_lease_ttl impl d),
              ag_lifecycle := (if ag_lifecycle r = AgentLifecycle.Lost
                               then AgentLifecycle.RevalidationRequired else ag_lifecycle r),
              ag_reason := ''re-registered''\<rparr>) impl))"

definition register_new :: "AgentDescriptor \<Rightarrow> Impl \<Rightarrow> Impl" where
  "register_new d impl =
     (let r = fresh_agent d ''registered'' impl
      in bump_revision (index_agent r
           (impl\<lparr>im_agents := om_emplace (ad_id d) r (im_agents impl)\<rparr>)))"

definition register_commit :: "AgentDescriptor \<Rightarrow> Impl \<Rightarrow> Impl \<times> MutationResult" where
  "register_commit d impl =
     (let err = agent_error ''register_agent'' (ad_id d) in
      case om_get (im_agents impl) (ad_id d) of
        Some existing \<Rightarrow>
          (let old = ag_descriptor existing in
           case first_some
             [guard (ad_generation d < ad_generation old)
                (err ErrorCode.StaleGeneration ''agent generation is stale''
                   ScheduleOutcome.RejectStaleAgentGeneration),
              guard (ad_generation d = ad_generation old \<and> ad_boot d \<noteq> ad_boot old)
                (err ErrorCode.StaleGeneration
                   ''a new incarnation requires a higher agent generation''
                   ScheduleOutcome.RejectStaleAgentGeneration),
              guard (boot_is_fenced impl (ad_boot d))
                (err ErrorCode.Fenced ''incarnation is permanently fenced''
                   ScheduleOutcome.RejectFenced)]
           of Some e \<Rightarrow> (impl, Some e)
            | None \<Rightarrow> (if ad_generation d > ad_generation old then reincarnate d existing impl
                       else reregister d impl, None))
      | None \<Rightarrow>
          if length (im_agents impl) \<ge> unat (max_agents (im_limits impl))
          then (impl, Some (err ErrorCode.LimitExceeded ''agent count exceeds max_agents''
                  ScheduleOutcome.RejectLimitExceeded))
          else (register_new d impl, None))"

definition register_agent :: "(Impl \<Rightarrow> Impl) \<Rightarrow> AgentDescriptor \<Rightarrow> Impl \<Rightarrow> Impl \<times> MutationResult" where
  "register_agent interlock d impl =
     (case validate_descriptor d (im_limits impl) of
        Some e \<Rightarrow> (impl, Some e)
      | None \<Rightarrow> (case register_check d impl of
                   Some e \<Rightarrow> (impl, Some e)
                 | None \<Rightarrow> register_commit d (interlock impl)))"

subsection \<open>Evidence\<close>

text \<open>The lookup every evidence operation starts with.\<close>

definition with_incarnation ::
    "string \<Rightarrow> string \<Rightarrow> u64 \<Rightarrow> Hash128 \<Rightarrow> Impl \<Rightarrow> (AgentRecord \<Rightarrow> Impl \<times> MutationResult)
       \<Rightarrow> Impl \<times> MutationResult" where
  "with_incarnation operation stale agent boot impl continue =
     (case om_get (im_agents impl) agent of
        None \<Rightarrow> (impl, Some (agent_error operation agent ErrorCode.NotFound ''agent is not known''
                  ScheduleOutcome.RejectStaleAgentGeneration))
      | Some r \<Rightarrow>
          if stale_boot impl r boot
          then (impl, Some (agent_error operation agent ErrorCode.StaleGeneration stale
                  ScheduleOutcome.RejectStaleAgentBoot))
          else continue r)"

text \<open>Stamping the evidence of a profile: the loop stops at the first bad entry.\<close>

definition stamp_evidence ::
    "Hash128 \<Rightarrow> u64 \<Rightarrow> u64 \<Rightarrow> CapabilityEvidence \<Rightarrow> SchedulerError + CapabilityEvidence" where
  "stamp_evidence boot generation now e =
     (if \<not> hash128_is_zero (ce_boot e) \<and> ce_boot e \<noteq> boot
      then Inl (make_error ErrorCode.StaleGeneration ''publish_capabilities'' (ce_name e)
             ''capability evidence names a different incarnation''
             ScheduleOutcome.RejectStaleAgentBoot)
      else let e' = e\<lparr>ce_boot := boot, ce_generation := generation,
                      ce_observed_at_ms := (if ce_observed_at_ms e = 0 then now
                                            else ce_observed_at_ms e)\<rparr>
        in if ce_observed_at_ms e' > now
           then Inl (make_error ErrorCode.InvalidArgument ''publish_capabilities'' (ce_name e)
                  ''capability observation time is in the future''
                  ScheduleOutcome.RejectInvalidRequest)
           else Inr e')"

fun stamp_all ::
    "Hash128 \<Rightarrow> u64 \<Rightarrow> u64 \<Rightarrow> CapabilityEvidence list \<Rightarrow> SchedulerError + CapabilityEvidence list" where
  "stamp_all boot generation now [] = Inr []"
| "stamp_all boot generation now (e # es) =
     (case stamp_evidence boot generation now e of
        Inl err \<Rightarrow> Inl err
      | Inr e' \<Rightarrow> (case stamp_all boot generation now es of
                     Inl err \<Rightarrow> Inl err | Inr es' \<Rightarrow> Inr (e' # es')))"

text \<open>An assignment bound to superseded evidence loses dispatch authority, not its slot.\<close>

definition evidence_superseded :: "u64 \<Rightarrow> CapabilityProfile \<Rightarrow> AssignmentRecord \<Rightarrow> bool" where
  "evidence_superseded agent profile r \<longleftrightarrow>
     bn_agent (ar_binding r) = agent \<and> record_active r
     \<and> (bn_capability_generation (ar_binding r) \<noteq> cp_generation profile
        \<or> bn_capability_profile (ar_binding r) \<noteq> cp_profile_id profile)"

definition require_revalidation :: "AssignmentRecord \<Rightarrow> AssignmentRecord" where
  "require_revalidation r = r\<lparr>ar_state := AssignmentState.RevalidationRequired,
     ar_lease_current := False,
     ar_reason := ''capability evidence generation moved under the assignment''\<rparr>"

definition mark_superseded :: "u64 \<Rightarrow> CapabilityProfile \<Rightarrow> Hash128 \<Rightarrow> Impl \<Rightarrow> Impl" where
  "mark_superseded agent profile k impl =
     (case om_get (im_assignments impl) k of None \<Rightarrow> impl
      | Some r \<Rightarrow>
          if evidence_superseded agent profile r
          then adjust_lease (bn_lease (ar_binding r)) (\<lambda>l. l\<lparr>ls_current := False\<rparr>)
                 (adjust_assignment k require_revalidation impl)
          else impl)"

definition apply_capabilities :: "u64 \<Rightarrow> CapabilityProfile \<Rightarrow> Impl \<Rightarrow> Impl" where
  "apply_capabilities agent profile impl =
     (let s1 = adjust_agent agent (\<lambda>r. r\<lparr>ag_profile := profile, ag_capability_current := True,
                 ag_recovered := False\<rparr>) (deindex_agent agent impl);
          s2 = fold (mark_superseded agent profile) (om_keys (im_assignments s1)) s1;
          s3 = refresh_agent_accounting agent s2
      in bump_revision (case om_get (im_agents s3) agent of
           None \<Rightarrow> s3 | Some r \<Rightarrow> index_agent r s3))"

definition publish_capabilities ::
    "u64 \<Rightarrow> Hash128 \<Rightarrow> CapabilityProfile \<Rightarrow> Impl \<Rightarrow> Impl \<times> MutationResult" where
  "publish_capabilities agent boot profile impl =
     (case canonicalize_profile profile (im_limits impl) of
        Inl e \<Rightarrow> (impl, Some e)
      | Inr canonical \<Rightarrow>
          with_incarnation ''publish_capabilities''
            ''capability evidence names a fenced or replaced incarnation'' agent boot impl (\<lambda>r.
            let err = agent_error ''publish_capabilities'' agent in
            if cp_boot canonical \<noteq> boot
            then (impl, Some (err ErrorCode.InvalidArgument
                    ''profile boot does not match the publishing incarnation''
                    ScheduleOutcome.RejectStaleAgentBoot))
            else if cp_generation canonical < cp_generation (ag_profile r)
            then (impl, Some (err ErrorCode.StaleGeneration ''capability generation is stale''
                    ScheduleOutcome.RejectStaleCapability))
            else if cp_generation canonical = cp_generation (ag_profile r) \<and> ag_capability_current r
            then (if cp_capabilities canonical = cp_capabilities (ag_profile r)
                     \<and> cp_profile_id canonical = cp_profile_id (ag_profile r)
                  then (impl, None)
                  else (impl, Some (err ErrorCode.Conflict
                    ''conflicting capability publication for the current generation''
                    ScheduleOutcome.RejectConflict)))
            else case stamp_all boot (cp_generation canonical) (im_now impl)
                        (cp_capabilities canonical) of
                   Inl e \<Rightarrow> (impl, Some e)
                 | Inr es \<Rightarrow>
                     (apply_capabilities agent
                        (canonical\<lparr>cp_boot := boot, cp_capabilities := es\<rparr>) impl, None)))"

text \<open>The common checks of the three observations: generation, then observation time.\<close>

definition observation_problem ::
    "string \<Rightarrow> string \<Rightarrow> u64 \<Rightarrow> u64 \<Rightarrow> u64 \<Rightarrow> u64 \<Rightarrow> u64 \<Rightarrow> SchedulerError option" where
  "observation_problem operation subject agent generation recorded observed now = first_some
     [guard (generation < recorded)
        (agent_error operation agent ErrorCode.StaleGeneration
           (subject @ '' generation is stale'') ScheduleOutcome.RejectStaleCapability),
      guard (observed > now)
        (agent_error operation agent ErrorCode.InvalidArgument
           (subject @ '' observation time is in the future'') ScheduleOutcome.RejectInvalidRequest)]"

definition observed_time :: "u64 \<Rightarrow> u64 \<Rightarrow> u64" where
  "observed_time observed now = (if observed = 0 then now else observed)"

definition publish_health ::
    "u64 \<Rightarrow> Hash128 \<Rightarrow> HealthObservation \<Rightarrow> Impl \<Rightarrow> Impl \<times> MutationResult" where
  "publish_health agent boot ob impl =
     (case validate_health ob (im_limits impl) of Some e \<Rightarrow> (impl, Some e) | None \<Rightarrow>
      with_incarnation ''publish_health''
        ''health evidence names a fenced or replaced incarnation'' agent boot impl (\<lambda>r.
        let observed = observed_time (ho_observed_at_ms ob) (im_now impl) in
        case observation_problem ''publish_health'' ''health'' agent (ho_generation ob)
               (ag_health_generation r) observed (im_now impl) of
          Some e \<Rightarrow> (impl, Some e)
        | None \<Rightarrow> (bump_revision (refresh_agent agent (adjust_agent agent
            (\<lambda>r. r\<lparr>ag_health_generation := ho_generation ob,
                   ag_health_observation := ob\<lparr>ho_observed_at_ms := observed\<rparr>,
                   ag_health := ho_health ob, ag_health_current := True,
                   ag_recovered := False\<rparr>) impl)), None)))"

definition publish_availability ::
    "u64 \<Rightarrow> Hash128 \<Rightarrow> AvailabilityObservation \<Rightarrow> Impl \<Rightarrow> Impl \<times> MutationResult" where
  "publish_availability agent boot ob impl =
     (case validate_availability ob (im_limits impl) of Some e \<Rightarrow> (impl, Some e) | None \<Rightarrow>
      with_incarnation ''publish_availability''
        ''availability evidence names a fenced or replaced incarnation'' agent boot impl (\<lambda>r.
        let observed = observed_time (ao_observed_at_ms ob) (im_now impl) in
        case observation_problem ''publish_availability'' ''availability'' agent (ao_generation ob)
               (ag_availability_generation r) observed (im_now impl) of
          Some e \<Rightarrow> (impl, Some e)
        | None \<Rightarrow> (bump_revision (refresh_agent agent (adjust_agent agent
            (\<lambda>r. r\<lparr>ag_availability_generation := ao_generation ob,
                   ag_availability_observation := ob\<lparr>ao_observed_at_ms := observed\<rparr>,
                   ag_availability := ao_availability ob, ag_readiness := ao_readiness ob,
                   ag_reachability := ao_reachability ob, ag_availability_current := True,
                   ag_recovered := False\<rparr>) impl)), None)))"

definition publish_load ::
    "u64 \<Rightarrow> Hash128 \<Rightarrow> LoadObservation \<Rightarrow> Impl \<Rightarrow> Impl \<times> MutationResult" where
  "publish_load agent boot ob impl =
     (case validate_load ob (im_limits impl) of Some e \<Rightarrow> (impl, Some e) | None \<Rightarrow>
      with_incarnation ''publish_load''
        ''load evidence names a fenced or replaced incarnation'' agent boot impl (\<lambda>r.
        let observed = observed_time (lo_observed_at_ms ob) (im_now impl) in
        case observation_problem ''publish_load'' ''load'' agent (lo_generation ob)
               (ag_load_generation r) observed (im_now impl) of
          Some e \<Rightarrow> (impl, Some e)
        | None \<Rightarrow> (bump_revision (adjust_agent agent
            (\<lambda>r. r\<lparr>ag_load_generation := lo_generation ob,
                   ag_load_observation := ob\<lparr>lo_observed_at_ms := observed,
                     lo_warm_state_keys := canonicalize_strings (lo_warm_state_keys ob)\<rparr>,
                   ag_load_current := True\<rparr>) impl), None)))"

definition heartbeat :: "u64 \<Rightarrow> Hash128 \<Rightarrow> u64 \<Rightarrow> Impl \<Rightarrow> Impl \<times> MutationResult" where
  "heartbeat agent boot registration_generation impl =
     with_incarnation ''heartbeat'' ''heartbeat names a fenced or replaced incarnation''
       agent boot impl (\<lambda>r.
       if registration_generation \<noteq> ad_registration_generation (ag_descriptor r)
       then (impl, Some (agent_error ''heartbeat'' agent ErrorCode.StaleGeneration
               ''registration generation moved'' ScheduleOutcome.RejectStaleAgentGeneration))
       else (bump_revision (adjust_agent agent
               (\<lambda>r. r\<lparr>ag_last_heartbeat_ms := im_now impl,
                      ag_lease_expires_at_ms := im_now impl
                        + ucast (effective_lease_ttl impl (ag_descriptor r))\<rparr>) impl), None))"

subsection \<open>Drain, departure and loss\<close>

definition drain_agent :: "u64 \<Rightarrow> Hash128 \<Rightarrow> bool \<Rightarrow> Impl \<Rightarrow> Impl \<times> MutationResult" where
  "drain_agent agent boot force impl =
     with_incarnation ''drain_agent'' ''drain names a fenced or replaced incarnation''
       agent boot impl (\<lambda>r.
       if ag_lifecycle r = AgentLifecycle.Retired
       then (impl, Some (agent_error ''drain_agent'' agent ErrorCode.Conflict ''agent is retired''
               ScheduleOutcome.RejectLifecycle))
       else
         let s1 = adjust_agent agent (\<lambda>r. r\<lparr>ag_lifecycle := AgentLifecycle.Draining,
                    ag_reason := ''draining''\<rparr>) impl;
             s2 = (if force
                   then close_all_active boot AssignmentState.Invalidated
                          InvalidationReason.AgentDrained
                          ''forced drain invalidated the assignment'' s1
                   else s1)
         in (bump_revision (refresh_agent agent s2), None))"

text \<open>The end of an incarnation: evidence dropped, lifecycle final, accounting refreshed.\<close>

definition end_incarnation :: "u64 \<Rightarrow> AgentLifecycle \<Rightarrow> string \<Rightarrow> Impl \<Rightarrow> Impl" where
  "end_incarnation agent lc reason impl =
     bump_revision (refresh_agent agent (adjust_agent agent
       (\<lambda>r. (invalidate_dynamic_evidence r)\<lparr>ag_lifecycle := lc, ag_reason := reason\<rparr>) impl))"

definition deregister_agent :: "u64 \<Rightarrow> Hash128 \<Rightarrow> bool \<Rightarrow> Impl \<Rightarrow> Impl \<times> MutationResult" where
  "deregister_agent agent boot force impl =
     with_incarnation ''deregister_agent'' ''deregistration names a fenced or replaced incarnation''
       agent boot impl (\<lambda>r.
       let active = active_assignment_count impl agent in
       if active > 0 \<and> \<not> force
       then (impl, Some (agent_error ''deregister_agent'' agent ErrorCode.DrainBarrier
               ''agent still owns active scheduler assignments'' ScheduleOutcome.RejectDrain))
       else
         let s1 = (if active > 0
                   then close_all_active boot AssignmentState.Invalidated
                          InvalidationReason.AgentRetired
                          ''forced deregistration invalidated the assignment'' impl
                   else impl);
             s2 = fence_boot agent boot (ad_generation (ag_descriptor r)) ''deregistered'' s1
         in (end_incarnation agent AgentLifecycle.Retired ''deregistered'' s2, None))"

definition lost_check :: "u64 \<Rightarrow> Hash128 \<Rightarrow> Impl \<Rightarrow> bool" where
  "lost_check agent boot impl \<longleftrightarrow>
     (case om_get (im_agents impl) agent of None \<Rightarrow> False
      | Some r \<Rightarrow> ad_boot (ag_descriptor r) = boot \<and> ag_lifecycle r = AgentLifecycle.Lost)"

definition lost_commit :: "u64 \<Rightarrow> Hash128 \<Rightarrow> string \<Rightarrow> Impl \<Rightarrow> Impl" where
  "lost_commit agent boot reason impl =
     (case om_get (im_agents impl) agent of
        None \<Rightarrow> fence_boot agent boot 0 reason impl
      | Some r \<Rightarrow>
          if ad_boot (ag_descriptor r) \<noteq> boot then fence_boot agent boot 0 reason impl
          else
            let s1 = fence_boot agent boot (ad_generation (ag_descriptor r)) reason impl;
                s2 = close_all_active boot AssignmentState.Lost InvalidationReason.AgentLost
                       ''agent incarnation was declared lost'' s1
            in end_incarnation agent AgentLifecycle.Lost reason s2)"

definition declare_agent_lost ::
    "(Impl \<Rightarrow> Impl) \<Rightarrow> u64 \<Rightarrow> Hash128 \<Rightarrow> string \<Rightarrow> Impl \<Rightarrow> Impl \<times> MutationResult" where
  "declare_agent_lost interlock agent boot reason impl =
     (if lost_check agent boot impl then (impl, None)
      else (lost_commit agent boot reason (interlock impl), None))"

end
