(* ===== verification/Work_Lifecycle.thy ===== *)
theory Work_Lifecycle
  imports Closing
begin

section \<open>Work admission, cancellation, supersession and expiry\<close>

text \<open>
  The work operations of scheduler.cpp. submit_work and cancel_work check, run the
  interlock and check again. The order of the mutations is the code's: a re-admission
  mutates the work item before the queue and tenant checks that may still fail.
\<close>

definition work_problem ::
    "string \<Rightarrow> u64 \<Rightarrow> ErrorCode \<Rightarrow> string \<Rightarrow> ScheduleOutcome \<Rightarrow> SchedulerError" where
  "work_problem operation w code detail oc = make_error code operation (id_to_string w) detail oc"

definition ensure_queue :: "WorkRequest \<Rightarrow> Impl \<Rightarrow> Impl \<times> MutationResult" where
  "ensure_queue q impl =
     (let err = work_problem ''submit_work'' (wq_id q);
          weight = fairness_class_weight (im_policy impl) (wq_fairness_class q) in
      case om_get (im_queues impl) (wq_queue q) of
        None \<Rightarrow>
          if length (im_queues impl) \<ge> unat (max_queues (im_limits impl))
          then (impl, Some (err ErrorCode.LimitExceeded ''queue count exceeds max_queues''
                  ScheduleOutcome.RejectLimitExceeded))
          else (impl\<lparr>im_queues := om_emplace (wq_queue q)
                  (default_queue_record\<lparr>qr_id := wq_queue q, qr_generation := wq_queue_generation q,
                     qr_fairness_class := wq_fairness_class q, qr_weight := weight\<rparr>)
                  (im_queues impl)\<rparr>, None)
      | Some found \<Rightarrow>
          if wq_queue_generation q < qr_generation found
          then (impl, Some (err ErrorCode.StaleGeneration ''queue generation is stale''
                  ScheduleOutcome.RejectStaleQueueGeneration))
          else if wq_queue_generation q > qr_generation found
          then (adjust_queue (wq_queue q) (\<lambda>r. r\<lparr>qr_generation := wq_queue_generation q,
                  qr_fairness_class := wq_fairness_class q, qr_weight := weight\<rparr>) impl, None)
          else (impl, None))"

definition ensure_tenant :: "u64 \<Rightarrow> Impl \<Rightarrow> Impl \<times> MutationResult" where
  "ensure_tenant tenant impl =
     (if tenant = 0 then (impl, None)
      else case om_get (im_tenants impl) tenant of
        Some _ \<Rightarrow> (impl, None)
      | None \<Rightarrow>
          if length (im_tenants impl) \<ge> unat (max_tenants (im_limits impl))
          then (impl, Some (work_problem ''submit_work'' tenant ErrorCode.LimitExceeded
                  ''tenant count exceeds max_tenants'' ScheduleOutcome.RejectLimitExceeded))
          else (impl\<lparr>im_tenants := om_emplace tenant (default_tenant_record\<lparr>tr_id := tenant\<rparr>)
                  (im_tenants impl)\<rparr>, None))"

text \<open>ensure_queue, then ensure_tenant, then the rest: an error keeps what was done so far.\<close>

definition ensure_both ::
    "WorkRequest \<Rightarrow> Impl \<Rightarrow> (Impl \<Rightarrow> Impl \<times> MutationResult) \<Rightarrow> Impl \<times> MutationResult" where
  "ensure_both q impl continue =
     (case ensure_queue q impl of
        (s1, Some e) \<Rightarrow> (s1, Some e)
      | (s1, None) \<Rightarrow>
          (case ensure_tenant (rq_tenant (wq_requirements q)) s1 of
             (s2, Some e) \<Rightarrow> (s2, Some e)
           | (s2, None) \<Rightarrow> continue s2))"

definition count_admitted :: "WorkRequest \<Rightarrow> Impl \<Rightarrow> Impl" where
  "count_admitted q impl =
     bump_revision
       (adjust_tenant (rq_tenant (wq_requirements q))
          (\<lambda>t. t\<lparr>tr_admitted_count := tr_admitted_count t + 1\<rparr>)
          (adjust_queue (wq_queue q) (\<lambda>r. r\<lparr>qr_admitted_count := qr_admitted_count r + 1\<rparr>) impl))"

text \<open>The checks against an existing item of the same id, in both phases of submit_work.\<close>

definition existing_problem ::
    "string \<Rightarrow> WorkRequest \<Rightarrow> WorkRecord \<Rightarrow> MutationResult option" where
  "existing_problem cancelled_detail q existing =
     (let err = work_problem ''submit_work'' (wq_id q) in
      if wq_generation q < wq_generation (wr_request existing)
      then Some (Some (err ErrorCode.StaleGeneration ''work generation is stale''
             ScheduleOutcome.RejectStaleWorkGeneration))
      else if wq_generation q = wq_generation (wr_request existing)
      then Some
        (if wr_lifecycle existing = WorkLifecycle.Cancelled
         then Some (err ErrorCode.Cancelled cancelled_detail ScheduleOutcome.RejectCancelled)
         else if wr_lifecycle existing = WorkLifecycle.Superseded
         then Some (err ErrorCode.Superseded ''work is superseded'' ScheduleOutcome.RejectSuperseded)
         else if wr_request existing = q then None
         else Some (err ErrorCode.Conflict ''conflicting work publication for the current generation''
                ScheduleOutcome.RejectConflict))
      else None)"

text \<open>The first critical section: Some result returns, None continues to the interlock.\<close>

definition submit_check :: "WorkRequest \<Rightarrow> Impl \<Rightarrow> MutationResult option" where
  "submit_check q impl =
     (let err = work_problem ''submit_work'' (wq_id q) in
      if \<not> im_admission_open impl
      then Some (Some (err ErrorCode.AdmissionClosed ''admission is closed''
             ScheduleOutcome.ShuttingDown))
      else first_some
        [(case om_get (im_work impl) (wq_id q) of
            Some existing \<Rightarrow> existing_problem
              ''work is cancelled and cannot be re-admitted at the same generation'' q existing
          | None \<Rightarrow> guard (length (im_work impl) \<ge> unat (max_work_items (im_limits impl)))
              (Some (err ErrorCode.LimitExceeded ''work item count exceeds max_work_items''
                 ScheduleOutcome.RejectLimitExceeded))),
         (case om_get (im_queues impl) (wq_queue q) of
            None \<Rightarrow> None
          | Some queue \<Rightarrow> guard (wq_queue_generation q < qr_generation queue)
              (Some (err ErrorCode.StaleGeneration ''queue generation is stale''
                 ScheduleOutcome.RejectStaleQueueGeneration)))])"

definition close_work ::
    "u64 \<Rightarrow> AssignmentState \<Rightarrow> InvalidationReason \<Rightarrow> string \<Rightarrow> Impl \<Rightarrow> Impl" where
  "close_work w st reason detail impl =
     close_where (\<lambda>r. bn_work (ar_binding r) = w \<and> record_active r) st reason detail impl"

text \<open>The work item admitted again under a new request.\<close>

definition readmitted :: "WorkRequest \<Rightarrow> u64 \<Rightarrow> u64 \<Rightarrow> string \<Rightarrow> WorkRecord \<Rightarrow> WorkRecord" where
  "readmitted q sequence now reason r = r\<lparr>
     wr_request := q, wr_lifecycle := WorkLifecycle.Admitted, wr_admitted_sequence := sequence,
     wr_admitted_at_ms := now, wr_bypass_count := 0, wr_starvation_rounds := 0,
     wr_current_assignments := 0, wr_reason := reason\<rparr>"

definition readmit :: "WorkRequest \<Rightarrow> string \<Rightarrow> Impl \<Rightarrow> Impl" where
  "readmit q reason impl =
     (let w = wq_id q;
          s1 = deindex_work w
                 (close_work w AssignmentState.Superseded InvalidationReason.WorkSuperseded
                    ''work generation was superseded'' impl);
          s2 = (adjust_work w (readmitted q (im_next_admission_sequence s1) (im_now s1) reason) s1)
                 \<lparr>im_next_admission_sequence := im_next_admission_sequence s1 + 1\<rparr>
      in case om_get (im_work s2) w of None \<Rightarrow> s2 | Some r \<Rightarrow> index_work r s2)"

definition submit_commit :: "WorkRequest \<Rightarrow> Impl \<Rightarrow> Impl \<times> MutationResult" where
  "submit_commit q impl =
     (let err = work_problem ''submit_work'' (wq_id q); w = wq_id q in
      if \<not> im_admission_open impl
      then (impl, Some (err ErrorCode.AdmissionClosed ''admission is closed''
              ScheduleOutcome.ShuttingDown))
      else case om_get (im_work impl) w of
        Some existing \<Rightarrow>
          (case existing_problem ''work is cancelled'' q existing of
             Some result \<Rightarrow> (impl, result)
           | None \<Rightarrow> ensure_both q (readmit q ''re-admitted at a higher generation'' impl)
               (\<lambda>s. (count_admitted q s, None)))
      | None \<Rightarrow>
          if length (im_work impl) \<ge> unat (max_work_items (im_limits impl))
          then (impl, Some (err ErrorCode.LimitExceeded ''work item count exceeds max_work_items''
                  ScheduleOutcome.RejectLimitExceeded))
          else
            let record = default_work_record\<lparr>wr_request := q,
                  wr_lifecycle := WorkLifecycle.Admitted,
                  wr_admitted_sequence := im_next_admission_sequence impl,
                  wr_admitted_at_ms := im_now impl, wr_reason := ''admitted''\<rparr>;
                s1 = impl\<lparr>im_next_admission_sequence := im_next_admission_sequence impl + 1\<rparr>
            in ensure_both q s1 (\<lambda>s.
                 (count_admitted q (index_work record
                    (s\<lparr>im_work := om_emplace w record (im_work s)\<rparr>)), None)))"

definition submit_work :: "(Impl \<Rightarrow> Impl) \<Rightarrow> WorkRequest \<Rightarrow> Impl \<Rightarrow> Impl \<times> MutationResult" where
  "submit_work interlock request impl =
     (let q = canonicalize_work request in
      case validate_work q (im_limits impl) of
        Some e \<Rightarrow> (impl, Some e)
      | None \<Rightarrow> (case submit_check q impl of
                   Some result \<Rightarrow> (impl, result)
                 | None \<Rightarrow> submit_commit q (interlock impl)))"

definition cancel_check :: "u64 \<Rightarrow> u64 \<Rightarrow> Impl \<Rightarrow> MutationResult option" where
  "cancel_check w generation impl =
     (let err = work_problem ''cancel_work'' w in
      case om_get (im_work impl) w of
        None \<Rightarrow> Some (Some (err ErrorCode.NotFound ''work is not known''
                  ScheduleOutcome.RejectInvalidRequest))
      | Some r \<Rightarrow>
          if wq_generation (wr_request r) \<noteq> generation
          then Some (Some (err ErrorCode.StaleGeneration ''work generation moved''
                 ScheduleOutcome.RejectStaleWorkGeneration))
          else if wr_lifecycle r = WorkLifecycle.Cancelled then Some None else None)"

definition cancel_commit :: "u64 \<Rightarrow> u64 \<Rightarrow> string \<Rightarrow> Impl \<Rightarrow> Impl \<times> MutationResult" where
  "cancel_commit w generation reason impl =
     (case cancel_check w generation impl of
        Some result \<Rightarrow> (impl, result)
      | None \<Rightarrow>
          (case om_get (im_work impl) w of None \<Rightarrow> (impl, None)
           | Some r \<Rightarrow>
               if work_is_terminal (wr_lifecycle r)
               then (impl, Some (work_problem ''cancel_work'' w ErrorCode.Conflict
                       ''work is already terminal'' ScheduleOutcome.RejectConflict))
               else
                 let s1 = close_work w AssignmentState.Cancelled InvalidationReason.WorkCancelled
                            reason impl;
                     s2 = sync_work_lifecycle_index w WorkLifecycle.Cancelled
                            (adjust_work w (\<lambda>r. r\<lparr>wr_lifecycle := WorkLifecycle.Cancelled\<rparr>) s1)
                 in (bump_revision (adjust_work w
                       (\<lambda>r. r\<lparr>wr_reason := if reason = [] then ''cancelled'' else reason\<rparr>) s2),
                     None)))"

definition cancel_work :: "(Impl \<Rightarrow> Impl) \<Rightarrow> u64 \<Rightarrow> u64 \<Rightarrow> string \<Rightarrow> Impl \<Rightarrow> Impl \<times> MutationResult" where
  "cancel_work interlock w generation reason impl =
     (case cancel_check w generation impl of
        Some result \<Rightarrow> (impl, result)
      | None \<Rightarrow> cancel_commit w generation reason (interlock impl))"

definition supersede_work :: "u64 \<Rightarrow> u64 \<Rightarrow> WorkRequest \<Rightarrow> Impl \<Rightarrow> Impl \<times> MutationResult" where
  "supersede_work w expected_generation replacement impl =
     (let err = work_problem ''supersede_work'' w; q = canonicalize_work replacement in
      if wq_id replacement \<noteq> w
      then (impl, Some (err ErrorCode.InvalidArgument
              ''replacement work id does not match the target''
              ScheduleOutcome.RejectInvalidRequest))
      else case validate_work q (im_limits impl) of Some e \<Rightarrow> (impl, Some e)
      | None \<Rightarrow>
        (case om_get (im_work impl) w of
           None \<Rightarrow> (impl, Some (err ErrorCode.NotFound ''work is not known''
                     ScheduleOutcome.RejectInvalidRequest))
         | Some r \<Rightarrow>
             if wq_generation (wr_request r) \<noteq> expected_generation
             then (impl, Some (err ErrorCode.StaleGeneration ''work generation moved''
                     ScheduleOutcome.RejectStaleWorkGeneration))
             else if wq_generation q \<le> expected_generation
             then (impl, Some (err ErrorCode.StaleGeneration
                     ''replacement generation must be higher than the superseded generation''
                     ScheduleOutcome.RejectStaleWorkGeneration))
             else if wr_lifecycle r = WorkLifecycle.Cancelled
             then (impl, Some (err ErrorCode.Cancelled ''work is cancelled''
                     ScheduleOutcome.RejectCancelled))
             else ensure_both q (readmit q ''superseded'' impl) (\<lambda>s. (bump_revision s, None))))"

text \<open>Expiry of deadlines: the outer loop over work, the inner loop closes its assignments.\<close>

definition deadline_passed :: "Impl \<Rightarrow> WorkRecord \<Rightarrow> bool" where
  "deadline_passed impl r \<longleftrightarrow>
     \<not> work_is_terminal (wr_lifecycle r)
     \<and> rq_deadline_ms (wq_requirements (wr_request r)) \<noteq> 0
     \<and> im_now impl > rq_deadline_ms (wq_requirements (wr_request r))"

definition expire_one :: "u64 \<Rightarrow> Impl \<times> bool \<Rightarrow> Impl \<times> bool" where
  "expire_one w st =
     (let impl = fst st in
      case om_get (im_work impl) w of None \<Rightarrow> st
      | Some r \<Rightarrow>
          if deadline_passed impl r
          then let s1 = close_work w AssignmentState.Expired InvalidationReason.Rejected
                          ''work deadline passed'' impl;
                   s2 = sync_work_lifecycle_index w WorkLifecycle.Expired
                          (adjust_work w (\<lambda>r. r\<lparr>wr_lifecycle := WorkLifecycle.Expired\<rparr>) s1)
               in (adjust_work w (\<lambda>r. r\<lparr>wr_reason := ''deadline passed''\<rparr>) s2, True)
          else st)"

definition expire_deadlines :: "Impl \<Rightarrow> Impl \<times> MutationResult" where
  "expire_deadlines impl =
     (let (s, changed) = fold expire_one (om_keys (im_work impl)) (impl, False)
      in (if changed then bump_revision s else s, None))"

end
