(* ===== verification/Process_Lifecycle.thy ===== *)
theory Process_Lifecycle
  imports Closing
begin

section \<open>Process lifecycle, policy and queues\<close>

text \<open>
  start, shutdown, set_policy and register_queue of scheduler.cpp, and the constructor,
  which refuses invalid limits or policies (an exception in the code, None here). The
  shutdown notifier is called outside the lock and does not touch the state.
\<close>

definition start :: "Impl \<Rightarrow> Impl \<times> MutationResult" where
  "start impl =
     (if im_running impl then (impl, None)
      else (bump_revision (impl\<lparr>im_coordinator_epoch := im_coordinator_epoch impl + 1,
              im_running := True, im_admission_open := True, im_shutting_down := False,
              im_shutdown_at_ms := 0\<rparr>), None))"

definition make_scheduler :: "SchedulerOptions \<Rightarrow> u64 \<Rightarrow> u64 \<Rightarrow> u64 \<Rightarrow> Impl option" where
  "make_scheduler options nonce wall_clock now =
     (let impl = make_impl options nonce wall_clock now in
      case validate_limits (im_limits impl) of Some _ \<Rightarrow> None
      | None \<Rightarrow> (case validate_policy (im_policy impl) (im_limits impl) of Some _ \<Rightarrow> None
                 | None \<Rightarrow> Some (if so_auto_start options then fst (start impl) else impl)))"

definition shutdown :: "Impl \<Rightarrow> Impl \<times> MutationResult" where
  "shutdown impl =
     (if im_shutting_down impl then (impl, None)
      else let s1 = impl\<lparr>im_shutting_down := True, im_admission_open := False,
                      im_running := False, im_shutdown_at_ms := im_now impl\<rparr>;
               s2 = (if close_dispatch_authority_on_shutdown (im_policy s1)
                     then close_where (\<lambda>r. ar_state r = AssignmentState.Assigned)
                            AssignmentState.Invalidated InvalidationReason.Shutdown
                            ''dispatch authority closed by shutdown'' s1
                     else s1)
           in (bump_revision s2, None))"

definition set_policy :: "PolicySnapshot \<Rightarrow> Impl \<Rightarrow> Impl \<times> MutationResult" where
  "set_policy policy impl =
     (let err = (\<lambda>code detail oc. make_error code ''set_policy'' (id_to_string (po_id policy)) detail oc)
      in case validate_policy policy (im_limits impl) of Some e \<Rightarrow> (impl, Some e)
      | None \<Rightarrow>
          if po_generation policy < po_generation (im_policy impl)
          then (impl, Some (err ErrorCode.StaleGeneration ''policy generation is stale''
                  ScheduleOutcome.RejectStalePolicy))
          else if po_generation policy = po_generation (im_policy impl)
          then (if policy = im_policy impl then (impl, None)
                else (impl, Some (err ErrorCode.Conflict
                  ''conflicting policy publication for the current generation''
                  ScheduleOutcome.RejectConflict)))
          else (close_where (\<lambda>r. record_active r
                  \<and> bn_policy_generation (ar_binding r) \<noteq> po_generation policy)
                  AssignmentState.Invalidated InvalidationReason.PolicyChanged
                  ''policy generation moved under an active assignment''
                  (bump_revision (impl\<lparr>im_policy := policy\<rparr>)), None))"

definition register_queue :: "u64 \<Rightarrow> u64 \<Rightarrow> string \<Rightarrow> u32 \<Rightarrow> Impl \<Rightarrow> Impl \<times> MutationResult" where
  "register_queue queue generation fairness_class weight impl =
     (let err = (\<lambda>code detail oc. make_error code ''register_queue'' (id_to_string queue) detail oc)
      in case first_some
        [guard (queue = 0 \<or> generation = 0)
           (err ErrorCode.InvalidArgument ''queue id and generation must be non-zero''
              ScheduleOutcome.RejectInvalidRequest),
         guard (\<not> is_identifier fairness_class (max_identifier_size (im_limits impl)))
           (err ErrorCode.InvalidArgument ''fairness_class is not a valid identifier''
              ScheduleOutcome.RejectInvalidRequest),
         guard (weight = 0 \<or> weight > 1000)
           (err ErrorCode.InvalidArgument ''queue weight must be 1..1000''
              ScheduleOutcome.RejectInvalidRequest)]
      of Some e \<Rightarrow> (impl, Some e)
       | None \<Rightarrow>
         (case om_get (im_queues impl) queue of
            None \<Rightarrow>
              if length (im_queues impl) \<ge> unat (max_queues (im_limits impl))
              then (impl, Some (err ErrorCode.LimitExceeded ''queue count exceeds max_queues''
                      ScheduleOutcome.RejectLimitExceeded))
              else (bump_revision (impl\<lparr>im_queues := om_emplace queue
                      (default_queue_record\<lparr>qr_id := queue, qr_generation := generation,
                         qr_fairness_class := fairness_class, qr_weight := weight\<rparr>)
                      (im_queues impl)\<rparr>), None)
          | Some found \<Rightarrow>
              if generation < qr_generation found
              then (impl, Some (err ErrorCode.StaleGeneration ''queue generation is stale''
                      ScheduleOutcome.RejectStaleQueueGeneration))
              else if generation = qr_generation found
              then (if qr_fairness_class found = fairness_class \<and> qr_weight found = weight
                    then (impl, None)
                    else (impl, Some (err ErrorCode.Conflict
                      ''conflicting queue publication for the current generation''
                      ScheduleOutcome.RejectConflict)))
              else (bump_revision (adjust_queue queue (\<lambda>r. r\<lparr>qr_generation := generation,
                      qr_fairness_class := fairness_class, qr_weight := weight\<rparr>) impl), None)))"

end
