(* ===== verification/Eligibility.thy ===== *)
theory Eligibility
  imports Accounting
begin

section \<open>Hard eligibility\<close>

text \<open>
  evaluate_eligibility of scheduling.cpp: the checks an agent passes before it is ranked, in
  the order of the code, each with the outcome and the detail it reports. A declarative
  predicate states what an eligible agent is; the two agree.
\<close>

fun lifecycle_problem :: "AgentLifecycle \<Rightarrow> (ScheduleOutcome \<times> string) option" where
  "lifecycle_problem AgentLifecycle.Lost =
     Some (ScheduleOutcome.RejectLifecycle,
           ''agent lifecycle is '' @ agent_lifecycle_to_string AgentLifecycle.Lost)"
| "lifecycle_problem AgentLifecycle.Retired =
     Some (ScheduleOutcome.RejectLifecycle,
           ''agent lifecycle is '' @ agent_lifecycle_to_string AgentLifecycle.Retired)"
| "lifecycle_problem AgentLifecycle.Draining =
     Some (ScheduleOutcome.RejectDrain, ''agent is draining and accepts no new work'')"
| "lifecycle_problem AgentLifecycle.Registering =
     Some (ScheduleOutcome.RejectReadiness, ''agent has not published current evidence'')"
| "lifecycle_problem AgentLifecycle.RevalidationRequired =
     Some (ScheduleOutcome.RevalidationRequired, ''agent incarnation requires revalidation'')"
| "lifecycle_problem AgentLifecycle.Unavailable =
     Some (ScheduleOutcome.RejectReadiness, ''agent is unavailable'')"
| "lifecycle_problem AgentLifecycle.Ready = None"
| "lifecycle_problem AgentLifecycle.Busy = None"
| "lifecycle_problem AgentLifecycle.Unregistered =
     Some (ScheduleOutcome.RejectLifecycle, ''agent is not registered'')"

definition label_problem :: "AgentRecord \<Rightarrow> string \<Rightarrow> (ScheduleOutcome \<times> string) option" where
  "label_problem a label =
     guard (label \<notin> set (ad_policy_labels (ag_descriptor a)))
       (ScheduleOutcome.RejectPolicy, ''agent lacks policy label '' @ label)"

definition capability_problem ::
    "Impl \<Rightarrow> AgentRecord \<Rightarrow> CapabilityRequirement \<Rightarrow> (ScheduleOutcome \<times> string) option" where
  "capability_problem impl a r =
     (if cr_mode r \<noteq> CapabilityRequirementMode.Required then None
      else first_some
        [guard (cp_generation (ag_profile a) = 0
                \<or> cp_boot (ag_profile a) \<noteq> ad_boot (ag_descriptor a))
           (ScheduleOutcome.RejectStaleCapability,
            ''agent has no capability profile for the current incarnation''),
         guard (\<not> capability_fresh impl a)
           (ScheduleOutcome.RejectStaleCapability, ''capability evidence is not current''),
         (case find_capability (ag_profile a) (cr_name r) of
            None \<Rightarrow> Some (ScheduleOutcome.RejectCapability,
                          ''required capability is unknown: '' @ cr_name r)
          | Some e \<Rightarrow> first_some
              [guard (ce_generation e \<noteq> cp_generation (ag_profile a)
                      \<or> ce_boot e \<noteq> ad_boot (ag_descriptor a))
                 (ScheduleOutcome.RejectStaleCapability,
                  ''capability evidence generation is stale: '' @ cr_name r),
               guard (\<not> capability_state_is_usable (ce_state e)
                      \<or> capability_state_rank (ce_state e)
                          < capability_state_rank (cr_minimum_state r))
                 (ScheduleOutcome.RejectCapability,
                  ''capability evidence state is insufficient: '' @ cr_name r),
               guard (ce_quality e < cr_minimum_quality r)
                 (ScheduleOutcome.RejectCapability,
                  ''capability quality is insufficient: '' @ cr_name r)])])"

definition eligibility_problem ::
    "Impl \<Rightarrow> WorkRecord \<Rightarrow> AgentRecord \<Rightarrow> ExternalFeasibilityResult
       \<Rightarrow> (ScheduleOutcome \<times> string) option" where
  "eligibility_problem impl w a feasibility =
     (let q = wr_request w; rq = wq_requirements q; d = ag_descriptor a in first_some
        [guard (boot_is_fenced impl (ad_boot d))
           (ScheduleOutcome.RejectFenced, ''incarnation is permanently fenced''),
         lifecycle_problem (ag_lifecycle a),
         guard (rq_tenant rq \<noteq> 0 \<and> rq_tenant rq \<noteq> ad_tenant d)
           (ScheduleOutcome.RejectTenant, ''agent belongs to a different tenant''),
         guard (rq_name_space rq \<noteq> 0 \<and> rq_name_space rq \<noteq> ad_name_space d)
           (ScheduleOutcome.RejectTenant, ''agent belongs to a different namespace''),
         first_reject (label_problem a) (rq_required_policy_labels rq),
         guard (rq_require_ready rq \<and> \<not> lifecycle_accepts_new_work (ag_lifecycle a))
           (ScheduleOutcome.RejectReadiness, ''agent lifecycle does not accept new work''),
         guard (rq_require_healthy rq \<and> \<not> health_fresh impl a)
           (ScheduleOutcome.RejectHealth, ''health evidence is not current''),
         guard (rq_require_healthy rq
                \<and> (ag_health a = AgentHealth.Unknown \<or> ag_health a = AgentHealth.Unhealthy))
           (ScheduleOutcome.RejectHealth,
            ''agent health is '' @ agent_health_to_string (ag_health a)),
         guard (rq_require_reachable rq \<and> \<not> availability_fresh impl a)
           (ScheduleOutcome.RejectReachability, ''reachability evidence is not current''),
         guard (rq_require_reachable rq \<and> ag_reachability a \<noteq> AgentReachability.Reachable)
           (ScheduleOutcome.RejectReachability, ''agent is not reachable''),
         guard (rq_require_current_lease rq \<and> \<not> lease_current impl a)
           (ScheduleOutcome.RejectLeaseExpired, ''registration lease is not current''),
         guard (ag_active_assignments a \<ge> ad_max_concurrency d)
           (ScheduleOutcome.RejectCapacity, ''agent is at declared concurrency capacity''),
         guard (wr_current_assignments w \<ge> rq_max_parallel rq)
           (ScheduleOutcome.RejectCapacity, ''work fan-out is already saturated''),
         guard (active_assignments_on_agent impl (wq_id q) (ad_id d)
                  \<ge> rq_max_assignments_per_agent rq)
           (ScheduleOutcome.RejectCapacity,
            ''agent already holds the maximum assignments for this work''),
         guard (rq_restrict_placement_domain rq
                \<and> (rq_placement_domain rq = 0
                   \<or> ad_placement_domain d \<noteq> rq_placement_domain rq))
           (ScheduleOutcome.RejectLocality, ''agent is outside the required placement domain''),
         guard (rq_restrict_placement_domain rq \<and> rq_topology_epoch rq \<noteq> 0
                \<and> ad_topology_epoch d \<noteq> rq_topology_epoch rq)
           (ScheduleOutcome.RejectLocality, ''agent topology epoch is not the required epoch''),
         guard (ad_id d \<in> set (rq_anti_affinity rq))
           (ScheduleOutcome.RejectAffinity, ''agent is listed in anti-affinity''),
         guard (rq_affinity rq \<noteq> [] \<and> ad_id d \<notin> set (rq_affinity rq))
           (ScheduleOutcome.RejectAffinity, ''agent is not listed in affinity''),
         guard (rq_require_warm_state rq \<and> \<not> load_fresh impl a)
           (ScheduleOutcome.RejectAffinity, ''warm state evidence is not current''),
         guard (rq_require_warm_state rq
                \<and> \<not> (\<exists>key \<in> set (rq_warm_state_keys rq).
                       key \<in> set (lo_warm_state_keys (ag_load_observation a))))
           (ScheduleOutcome.RejectAffinity, ''agent reports no required warm state''),
         first_reject (capability_problem impl a) (rq_capabilities rq),
         feasibility_problem rq feasibility
           (\<lambda>axis v. ''external '' @ axis @ '' feasibility is '' @ feasibility_verdict_to_string v)])"

definition evaluate_eligibility ::
    "Impl \<Rightarrow> WorkRecord \<Rightarrow> AgentRecord \<Rightarrow> ExternalFeasibilityResult \<Rightarrow> CandidateEvaluation" where
  "evaluate_eligibility impl w a feasibility =
     (let d = ag_descriptor a;
          base = default_evaluation\<lparr>
            cv_agent := ad_id d, cv_agent_generation := ad_generation d, cv_boot := ad_boot d,
            cv_active_assignments := ag_active_assignments a,
            cv_available_capacity :=
              (if ad_max_concurrency d > ag_active_assignments a
               then ad_max_concurrency d - ag_active_assignments a else 0)\<rparr>
      in case eligibility_problem impl w a feasibility of
           Some (oc, detail) \<Rightarrow>
             base\<lparr>cv_eligible := False, cv_rejection := oc, cv_rejection_detail := detail,
                  cv_factors := [], cv_score := 0, cv_rank := 0\<rparr>
         | None \<Rightarrow> base\<lparr>cv_eligible := True, cv_rejection := ScheduleOutcome.NoChange,
                        cv_rejection_detail := []\<rparr>)"

subsection \<open>What an eligible agent is\<close>

definition capability_satisfied :: "Impl \<Rightarrow> AgentRecord \<Rightarrow> CapabilityRequirement \<Rightarrow> bool" where
  "capability_satisfied impl a r \<longleftrightarrow>
     cp_generation (ag_profile a) \<noteq> 0 \<and> capability_fresh impl a
     \<and> (\<exists>e. find_capability (ag_profile a) (cr_name r) = Some e
          \<and> ce_generation e = cp_generation (ag_profile a)
          \<and> ce_boot e = ad_boot (ag_descriptor a)
          \<and> capability_state_is_usable (ce_state e)
          \<and> capability_state_rank (cr_minimum_state r) \<le> capability_state_rank (ce_state e)
          \<and> cr_minimum_quality r \<le> ce_quality e)"

definition healthy_enough :: "Impl \<Rightarrow> AgentRecord \<Rightarrow> bool" where
  "healthy_enough impl a \<longleftrightarrow> health_fresh impl a
     \<and> (ag_health a = AgentHealth.Healthy \<or> ag_health a = AgentHealth.Degraded)"

definition within_capacity :: "Impl \<Rightarrow> WorkRecord \<Rightarrow> AgentRecord \<Rightarrow> bool" where
  "within_capacity impl w a \<longleftrightarrow>
     ag_active_assignments a < ad_max_concurrency (ag_descriptor a)
     \<and> wr_current_assignments w < rq_max_parallel (wq_requirements (wr_request w))
     \<and> active_assignments_on_agent impl (wq_id (wr_request w)) (ad_id (ag_descriptor a))
         < rq_max_assignments_per_agent (wq_requirements (wr_request w))"

definition placed_as_required :: "WorkRequirements \<Rightarrow> AgentDescriptor \<Rightarrow> bool" where
  "placed_as_required rq d \<longleftrightarrow>
     (rq_restrict_placement_domain rq \<longrightarrow>
        rq_placement_domain rq \<noteq> 0 \<and> ad_placement_domain d = rq_placement_domain rq
        \<and> (rq_topology_epoch rq = 0 \<or> ad_topology_epoch d = rq_topology_epoch rq))
     \<and> ad_id d \<notin> set (rq_anti_affinity rq)
     \<and> (rq_affinity rq = [] \<or> ad_id d \<in> set (rq_affinity rq))"

definition hard_eligible :: "Impl \<Rightarrow> WorkRecord \<Rightarrow> AgentRecord \<Rightarrow> ExternalFeasibilityResult \<Rightarrow> bool" where
  "hard_eligible impl w a feasibility \<longleftrightarrow>
     (let rq = wq_requirements (wr_request w); d = ag_descriptor a in
        \<not> boot_is_fenced impl (ad_boot d)
        \<and> (ag_lifecycle a = AgentLifecycle.Ready \<or> ag_lifecycle a = AgentLifecycle.Busy)
        \<and> (rq_tenant rq = 0 \<or> ad_tenant d = rq_tenant rq)
        \<and> (rq_name_space rq = 0 \<or> ad_name_space d = rq_name_space rq)
        \<and> set (rq_required_policy_labels rq) \<subseteq> set (ad_policy_labels d)
        \<and> (rq_require_healthy rq \<longrightarrow> healthy_enough impl a)
        \<and> (rq_require_reachable rq \<longrightarrow>
             availability_fresh impl a \<and> ag_reachability a = AgentReachability.Reachable)
        \<and> (rq_require_current_lease rq \<longrightarrow> lease_current impl a)
        \<and> within_capacity impl w a
        \<and> placed_as_required rq d
        \<and> (rq_require_warm_state rq \<longrightarrow> load_fresh impl a
             \<and> set (rq_warm_state_keys rq) \<inter> set (lo_warm_state_keys (ag_load_observation a)) \<noteq> {})
        \<and> (\<forall>r \<in> set (rq_capabilities rq).
             cr_mode r = CapabilityRequirementMode.Required \<longrightarrow> capability_satisfied impl a r)
        \<and> feasibility_met rq feasibility)"

lemma lifecycle_problem_None:
  "lifecycle_problem lc = None \<longleftrightarrow> lc = AgentLifecycle.Ready \<or> lc = AgentLifecycle.Busy"
  by (cases lc) simp_all

lemma labels_None:
  "first_reject (label_problem a) ls = None
     \<longleftrightarrow> set ls \<subseteq> set (ad_policy_labels (ag_descriptor a))"
  by (auto simp: first_reject_None label_problem_def)

lemma capability_problem_None:
  "capability_problem impl a r = None \<longleftrightarrow>
     (cr_mode r = CapabilityRequirementMode.Required \<longrightarrow> capability_satisfied impl a r)"
  by (auto simp: capability_problem_def capability_satisfied_def first_some_Cons_None not_less
        capability_fresh_def split: option.split)

lemma healthy_enough_alt:
  "healthy_enough impl a \<longleftrightarrow> health_fresh impl a \<and> ag_health a \<noteq> AgentHealth.Unknown
     \<and> ag_health a \<noteq> AgentHealth.Unhealthy"
  by (cases "ag_health a") (simp_all add: healthy_enough_def)

lemma capabilities_None:
  "first_reject (capability_problem impl a) rs = None \<longleftrightarrow>
     (\<forall>r \<in> set rs. cr_mode r = CapabilityRequirementMode.Required \<longrightarrow> capability_satisfied impl a r)"
  by (simp add: first_reject_None capability_problem_None)

lemma eligibility_problem_None:
  "eligibility_problem impl w a f = None \<longleftrightarrow> hard_eligible impl w a f"
proof -
  have disjoint: "(\<exists>k \<in> set ks. k \<in> set ls) \<longleftrightarrow> \<not> set ks \<inter> set ls = {}" for ks ls :: "string list"
    by auto
  have empty: "first_some [] = (None :: (ScheduleOutcome \<times> string) option) \<longleftrightarrow> True" by simp
  show ?thesis
    unfolding eligibility_problem_def hard_eligible_def Let_def first_some_Cons_None empty
      guard_None lifecycle_problem_None labels_None capabilities_None
      feasibility_problem_None healthy_enough_alt within_capacity_def placed_as_required_def
      disjoint lifecycle_accepts_new_work_def not_le eq_commute [of "rq_tenant _"]
      eq_commute [of "rq_name_space _"] eq_commute [of "rq_topology_epoch _"]
    by argo
qed

lemma evaluate_eligibility_eligible:
  "cv_eligible (evaluate_eligibility impl w a f) \<longleftrightarrow> hard_eligible impl w a f"
  by (auto simp: evaluate_eligibility_def Let_def eligibility_problem_None [symmetric]
        split: option.split)

lemma evaluate_eligibility_sel [simp]:
  "cv_agent (evaluate_eligibility impl w a f) = ad_id (ag_descriptor a)"
  "cv_agent_generation (evaluate_eligibility impl w a f) = ad_generation (ag_descriptor a)"
  "cv_boot (evaluate_eligibility impl w a f) = ad_boot (ag_descriptor a)"
  "cv_factors (evaluate_eligibility impl w a f) = []"
  "cv_known_weight (evaluate_eligibility impl w a f) = 0"
  "cv_selected (evaluate_eligibility impl w a f) = False"
  by (simp_all add: evaluate_eligibility_def Let_def default_evaluation_def
      split: option.split prod.split)

end
