(* ===== verification/Ranking.thy ===== *)
theory Ranking
  imports Eligibility Float64
begin

section \<open>Named-factor ranking\<close>

text \<open>
  score_candidate and candidate_better of scheduling.cpp. A factor value below zero means
  the evidence is unknown; an unknown factor contributes nothing to the weighted score. The
  int64 accumulators are integers: with eighteen 32 bit weights and values up to 1000 they
  stay far below the int64 range. The 32 bit known-weight accumulator wraps.
\<close>

definition ratio :: "u64 \<Rightarrow> u64 \<Rightarrow> int" where
  "ratio numerator denominator =
     (if denominator = 0 then 0
      else if numerator \<ge> denominator then 1000
      else sint ((numerator * 1000) div denominator))"

definition make_factor :: "string \<Rightarrow> u32 \<Rightarrow> int \<Rightarrow> string \<Rightarrow> FactorScore" where
  "make_factor name weight v note =
     (if v < 0
      then \<lparr> fs_name = name, fs_status = FactorStatus.Unknown, fs_raw_value = 0,
             fs_normalized_value = 0, fs_weight = weight, fs_note = note \<rparr>
      else \<lparr> fs_name = name, fs_status = FactorStatus.Known, fs_raw_value = v,
             fs_normalized_value = min 1000 (max 0 v), fs_weight = weight, fs_note = note \<rparr>)"

fun weight_in :: "RankingWeight list \<Rightarrow> string \<Rightarrow> u32" where
  "weight_in [] factor = 0"
| "weight_in (w # ws) factor = (if rw_factor w = factor then rw_weight w else weight_in ws factor)"

definition weight_of :: "PolicySnapshot \<Rightarrow> string \<Rightarrow> u32" where
  "weight_of policy factor = weight_in (ranking_weights policy) factor"

text \<open>The minimum quality over the required capabilities; a missing one ends the loop.\<close>

fun capability_quality_loop ::
    "CapabilityProfile \<Rightarrow> CapabilityRequirement list \<Rightarrow> int \<Rightarrow> u32 \<Rightarrow> int \<times> u32" where
  "capability_quality_loop profile [] quality required_count = (quality, required_count)"
| "capability_quality_loop profile (r # rs) quality required_count =
     (if cr_mode r \<noteq> CapabilityRequirementMode.Required
      then capability_quality_loop profile rs quality required_count
      else case find_capability profile (cr_name r) of
             None \<Rightarrow> (- 1, required_count + 1)
           | Some e \<Rightarrow> capability_quality_loop profile rs
               (if quality < 0 then uint (ce_quality e) else min quality (uint (ce_quality e)))
               (required_count + 1))"

definition capability_quality_value :: "CapabilityProfile \<Rightarrow> CapabilityRequirement list \<Rightarrow> int" where
  "capability_quality_value profile rs =
     (let (quality, required_count) = capability_quality_loop profile rs (- 1) 0
      in if required_count = 0 then 1000 else quality)"

definition preferred_satisfied :: "CapabilityProfile \<Rightarrow> CapabilityRequirement \<Rightarrow> bool" where
  "preferred_satisfied profile r \<longleftrightarrow>
     (case find_capability profile (cr_name r) of
        None \<Rightarrow> False
      | Some e \<Rightarrow> capability_state_is_usable (ce_state e)
          \<and> capability_state_rank (ce_state e) \<ge> capability_state_rank (cr_minimum_state r)
          \<and> ce_quality e \<ge> cr_minimum_quality r)"

definition capability_completeness_value ::
    "CapabilityProfile \<Rightarrow> CapabilityRequirement list \<Rightarrow> int" where
  "capability_completeness_value profile rs =
     (let preferred = filter (\<lambda>r. cr_mode r = CapabilityRequirementMode.Preferred) rs;
          weight_sum = (of_nat (length preferred) :: u32);
          satisfied = (of_nat (length (filter (preferred_satisfied profile) preferred)) :: u32)
      in if weight_sum = 0 then 1000 else ratio (ucast satisfied) (ucast weight_sum))"

definition diversity_value :: "Impl \<Rightarrow> AgentDescriptor \<Rightarrow> int" where
  "diversity_value impl d =
     (if ad_placement_domain d = 0 then - 1
      else let active = filter record_active (map snd (im_assignments impl));
               here = filter (\<lambda>r. bn_placement_domain (ar_binding r) = ad_placement_domain d) active
           in if length active > 0
              then 1000 - ratio (of_nat (length here)) (of_nat (length active)) else - 1)"

definition kQueueAgeCeilingMs :: u64 where "kQueueAgeCeilingMs = 300000"
definition kLatencyCeilingMs :: u64 where "kLatencyCeilingMs = 30000"

text \<open>The factors in the order score_candidate adds them.\<close>

definition candidate_factors ::
    "Impl \<Rightarrow> WorkRecord \<Rightarrow> AgentRecord \<Rightarrow> ExternalFeasibilityResult \<Rightarrow> u32 \<Rightarrow> FactorScore list" where
  "candidate_factors impl w a feasibility available_capacity =
     (let q = wr_request w; rq = wq_requirements q; d = ag_descriptor a;
          policy = im_policy impl; now = im_now impl; load = ag_load_observation a;
          factor = (\<lambda>name v note. make_factor name (weight_of policy name) v note);
          capacity = ad_max_concurrency d;
          matched = (of_nat (length (filter (\<lambda>key. key \<in> set (lo_warm_state_keys load))
                       (rq_warm_state_keys rq))) :: u32);
          age = (if now > wr_admitted_at_ms w then now - wr_admitted_at_ms w else 0);
          ceiling = bypass_ceiling policy (wq_fairness_class q);
          attempts = ag_assignments_completed a + ag_assignments_failed a;
          window = anti_concentration_window policy
      in
        (if capacity > 0
         then [factor ''load_headroom''
                 (ratio (ucast (capacity - min capacity (ag_active_assignments a))) (ucast capacity))
                 ''canonical capacity minus active assignments'',
               factor ''remaining_capacity'' (uint available_capacity)
                 ''absolute remaining assignment slots'']
         else [factor ''load_headroom'' (- 1) ''no declared concurrency'',
               factor ''remaining_capacity'' (- 1) ''no declared concurrency''])
        @ [factor ''capability_quality''
             (capability_quality_value (ag_profile a) (rq_capabilities rq))
             ''minimum reported quality across required capabilities'',
           factor ''capability_completeness''
             (capability_completeness_value (ag_profile a) (rq_capabilities rq))
             ''fraction of preferred capabilities satisfied'']
        @ (if rq_warm_state_keys rq = []
           then [factor ''warm_state_affinity'' (- 1) ''no warm state requested'',
                 factor ''handoff_cost'' (- 1) ''no warm state requested'']
           else [factor ''warm_state_affinity''
                   (ratio (ucast matched)
                      (ucast (of_nat (length (rq_warm_state_keys rq)) :: u32)))
                   ''warm state keys matched'',
                 factor ''handoff_cost'' (if matched > 0 then 1000 else 0)
                   ''handoff cost implied by warm state reuse''])
        @ [if rq_placement_domain rq = 0
           then factor ''locality_match'' (- 1) ''no placement domain requested''
           else factor ''locality_match''
                  (if ad_placement_domain d = rq_placement_domain rq then 1000 else 0)
                  ''placement domain comparison'',
           factor ''health_quality''
             (if health_fresh impl a then uint (ho_health_quality (ag_health_observation a)) else - 1)
             ''reported health quality'',
           factor ''readiness''
             (if availability_fresh impl a
              then (if ag_readiness a = AgentReadiness.Ready then 1000 else 0) else - 1)
             ''reported readiness'',
           factor ''queue_age'' (ratio (min age kQueueAgeCeilingMs) kQueueAgeCeilingMs)
             ''time since admission'',
           factor ''fairness_deficit''
             (if ceiling = 0 then 0 else ratio (ucast (wr_bypass_count w)) (ucast ceiling))
             ''bypass pressure for this work'']
        @ (if load_fresh impl a
           then [factor ''dispatch_latency''
                   (1000 - ratio (min (lo_estimated_dispatch_latency_ms load) kLatencyCeilingMs)
                             kLatencyCeilingMs)
                   ''reported dispatch latency'',
                 factor ''cost_evidence'' (cost_score_of (lo_cost_index load)) ''reported cost index'',
                 factor ''slo_headroom'' (headroom_score_of (lo_slo_headroom_fraction load))
                   ''reported SLO headroom'']
           else [factor ''dispatch_latency'' (- 1) ''no current load evidence'',
                 factor ''cost_evidence'' (- 1) ''no current load evidence'',
                 factor ''slo_headroom'' (- 1) ''no current load evidence''])
        @ [factor ''resource_headroom''
             (if fr_resource feasibility = FeasibilityVerdict.Feasible then 1000 else - 1)
             ''external resource feasibility evidence'',
           factor ''reliability_history''
             (if attempts = 0 then - 1 else ratio (ag_assignments_completed a) attempts)
             ''completed versus failed assignments'',
           factor ''anti_concentration''
             (if window = 0 then - 1
              else 1000 - ratio (ucast (min (ag_recent_assignments a) window)) (ucast window))
             ''recent assignment concentration'',
           factor ''failure_domain_diversity'' (diversity_value impl d)
             ''share of active assignments in this placement domain''])"

text \<open>The accumulation loop over the factors: weight_sum weight, known weight, weighted sum.\<close>

fun accumulate_factors :: "FactorScore list \<Rightarrow> int \<Rightarrow> u32 \<Rightarrow> int \<Rightarrow> int \<times> u32 \<times> int" where
  "accumulate_factors [] weight_sum known weighted = (weight_sum, known, weighted)"
| "accumulate_factors (f # fs) weight_sum known weighted =
     (if fs_status f = FactorStatus.Known
      then accumulate_factors fs (weight_sum + uint (fs_weight f)) (known + fs_weight f)
             (weighted + uint (fs_weight f) * fs_normalized_value f)
      else accumulate_factors fs (weight_sum + uint (fs_weight f)) known weighted)"

definition score_candidate ::
    "Impl \<Rightarrow> WorkRecord \<Rightarrow> AgentRecord \<Rightarrow> ExternalFeasibilityResult
       \<Rightarrow> CandidateEvaluation \<Rightarrow> CandidateEvaluation" where
  "score_candidate impl w a feasibility ev =
     (let factors = cv_factors ev @ candidate_factors impl w a feasibility (cv_available_capacity ev);
          (weight_sum, known, weighted) = accumulate_factors factors 0 0 0
      in ev\<lparr>cv_factors := factors, cv_known_weight := known,
            cv_total_weight := of_int (min weight_sum 0xFFFFFFFF),
            cv_score := (if weight_sum = 0 then 0 else weighted div weight_sum)\<rparr>)"

definition candidate_better :: "CandidateEvaluation \<Rightarrow> CandidateEvaluation \<Rightarrow> bool" where
  "candidate_better l r =
     (if cv_score l \<noteq> cv_score r then cv_score l > cv_score r
      else if cv_known_weight l \<noteq> cv_known_weight r then cv_known_weight l > cv_known_weight r
      else cv_agent l < cv_agent r)"

subsection \<open>The comparison is a total order on candidates of distinct agents\<close>

interpretation ranking_order: strict_weak_order candidate_better
  by unfold_locales (auto simp: candidate_better_def split: if_splits)

lemma candidate_better_total:
  "cv_agent l \<noteq> cv_agent r \<Longrightarrow> candidate_better l r \<or> candidate_better r l"
  by (auto simp: candidate_better_def)

subsection \<open>Ranges\<close>

lemma ratio_range: "0 \<le> ratio n d \<and> ratio n d \<le> 1000"
proof (cases "d = 0 \<or> n \<ge> d")
  case True
  then show ?thesis by (auto simp: ratio_def)
next
  case False
  then have lt: "unat n < unat d" and pos: "0 < unat d"
    by (auto simp: word_less_nat_alt not_le unat_gt_0)
  have "unat (n * 1000) \<le> unat n * 1000"
    by (simp add: unat_word_ariths)
  then have "unat (n * 1000) div unat d \<le> unat n * 1000 div unat d"
    by (rule div_le_mono)
  also have "\<dots> \<le> unat d * 1000 div unat d"
    using lt by (intro div_le_mono) simp
  also have "\<dots> = 1000" using pos by simp
  finally have small: "unat ((n * 1000) div d) \<le> 1000" by (simp add: unat_div)
  define q where "q = (n * 1000) div d"
  have small': "uint q \<le> 1000"
    using small unfolding q_def [symmetric] unat_eq_nat_uint by linarith
  from this have "signed_take_bit (LENGTH(64) - Suc 0) (uint q) = uint q"
    by (intro signed_take_bit_int_eq_self order_trans [OF _ uint_ge_0 [of q]]) simp_all
  then have "sint q = uint q"
    by (simp add: sint_uint)
  with small' False show ?thesis by (simp add: ratio_def q_def)
qed

lemma make_factor_norm:
  "0 \<le> fs_normalized_value (make_factor n w v t) \<and> fs_normalized_value (make_factor n w v t) \<le> 1000"
  by (simp add: make_factor_def)

lemma make_factor_unknown:
  "v < 0 \<Longrightarrow> fs_status (make_factor n w v t) = FactorStatus.Unknown
     \<and> fs_normalized_value (make_factor n w v t) = 0"
  by (simp add: make_factor_def)

definition factor_contribution :: "FactorScore \<Rightarrow> int" where
  "factor_contribution f =
     (if fs_status f = FactorStatus.Known then uint (fs_weight f) * fs_normalized_value f else 0)"

lemma accumulate_factors_eq:
  "accumulate_factors fs weight_sum known weighted =
     (weight_sum + (\<Sum>f \<leftarrow> fs. uint (fs_weight f)),
      known + (\<Sum>f \<leftarrow> filter (\<lambda>f. fs_status f = FactorStatus.Known) fs. fs_weight f),
      weighted + (\<Sum>f \<leftarrow> fs. factor_contribution f))"
  by (induction fs arbitrary: weight_sum known weighted) (auto simp: factor_contribution_def add.assoc)

definition factors_normal :: "FactorScore list \<Rightarrow> bool" where
  "factors_normal fs \<longleftrightarrow>
     (\<forall>f \<in> set fs. 0 \<le> fs_normalized_value f \<and> fs_normalized_value f \<le> 1000)"

lemma candidate_factors_normal: "factors_normal (candidate_factors impl w a f c)"
  by (auto simp: factors_normal_def candidate_factors_def Let_def make_factor_norm
      split: if_splits)

lemma contribution_range:
  "factors_normal fs \<Longrightarrow>
     0 \<le> (\<Sum>f \<leftarrow> fs. factor_contribution f)
     \<and> (\<Sum>f \<leftarrow> fs. factor_contribution f) \<le> 1000 * (\<Sum>f \<leftarrow> fs. uint (fs_weight f))"
proof (induction fs)
  case (Cons f fs)
  have "0 \<le> factor_contribution f \<and> factor_contribution f \<le> 1000 * uint (fs_weight f)"
    using Cons.prems mult_left_mono [of "fs_normalized_value f" 1000 "uint (fs_weight f)"]
    by (auto simp: factor_contribution_def factors_normal_def)
  with Cons show ?case by (simp add: factors_normal_def algebra_simps)
qed simp

lemma weights_nonneg: "0 \<le> (\<Sum>f \<leftarrow> fs. uint (fs_weight (f :: FactorScore)))"
  by (induction fs) simp_all

lemma weighted_score_range:
  assumes "factors_normal fs"
  shows "(let (weight_sum, known, weighted) = accumulate_factors fs 0 0 0
          in 0 \<le> (if weight_sum = 0 then 0 else weighted div weight_sum)
             \<and> (if weight_sum = 0 then 0 else weighted div weight_sum) \<le> 1000)"
proof -
  let ?t = "\<Sum>f \<leftarrow> fs. uint (fs_weight f)" and ?c = "\<Sum>f \<leftarrow> fs. factor_contribution f"
  have c: "0 \<le> ?c" "?c \<le> 1000 * ?t" using contribution_range [OF assms] by simp_all
  have "?c div ?t \<le> 1000 * ?t div ?t" if "0 < ?t"
    using c that by (intro zdiv_mono1) simp_all
  then show ?thesis
    using c weights_nonneg [of fs] by (auto simp: accumulate_factors_eq Let_def
        intro!: pos_imp_zdiv_nonneg_iff [THEN iffD2])
qed

lemma score_candidate_sel [simp]:
  "cv_agent (score_candidate impl w a f ev) = cv_agent ev"
  "cv_agent_generation (score_candidate impl w a f ev) = cv_agent_generation ev"
  "cv_boot (score_candidate impl w a f ev) = cv_boot ev"
  "cv_eligible (score_candidate impl w a f ev) = cv_eligible ev"
  "cv_rejection (score_candidate impl w a f ev) = cv_rejection ev"
  "cv_selected (score_candidate impl w a f ev) = cv_selected ev"
  by (simp_all add: score_candidate_def Let_def split: prod.split)

end
