(* ===== verification/Planning.thy ===== *)
theory Planning
  imports Ranking Closing
begin

section \<open>Planning an assignment\<close>

text \<open>
  plan_locked of scheduling.cpp. It reads the state and returns a decision with, when an
  eligible agent exists, the authority binding to commit. The plan does not change the state.
\<close>

definition fanout_available :: "WorkRecord \<Rightarrow> bool" where
  "fanout_available w \<longleftrightarrow> wq_mode (wr_request w) = SchedulingMode.Parallel
     \<and> wr_current_assignments w < rq_max_parallel (wq_requirements (wr_request w))"

definition plan_problem :: "Impl \<Rightarrow> WorkRecord \<Rightarrow> (ScheduleOutcome \<times> string) option" where
  "plan_problem impl w =
     (let q = wr_request w; rq = wq_requirements q in first_some
        [guard (\<not> im_running impl \<or> \<not> im_admission_open impl)
           (ScheduleOutcome.ShuttingDown, ''admission is closed''),
         guard (wr_lifecycle w = WorkLifecycle.Cancelled)
           (ScheduleOutcome.RejectCancelled, ''work is cancelled''),
         guard (wr_lifecycle w = WorkLifecycle.Superseded)
           (ScheduleOutcome.RejectSuperseded, ''work is superseded''),
         guard (work_is_terminal (wr_lifecycle w))
           (ScheduleOutcome.NoChange, ''work is terminal''),
         guard (\<not> work_accepts_assignment (wr_lifecycle w) \<and> wr_current_assignments w > 0
                \<and> \<not> fanout_available w)
           (ScheduleOutcome.NoChange, ''work already holds an authoritative assignment''),
         guard (rq_deadline_ms rq \<noteq> 0 \<and> im_now impl > rq_deadline_ms rq)
           (ScheduleOutcome.RejectDeadline, ''work deadline has passed''),
         guard (wq_earliest_start_ms q \<noteq> 0 \<and> im_now impl < wq_earliest_start_ms q)
           (ScheduleOutcome.Deferred, ''work is not yet eligible to start''),
         (case wq_mode q of
            SchedulingMode.Exclusive \<Rightarrow>
              guard (active_exclusive_assignment impl (wq_id q) \<noteq> None)
                (ScheduleOutcome.NoChange,
                 ''work already has an authoritative exclusive assignment'')
          | SchedulingMode.Parallel \<Rightarrow>
              guard (wr_current_assignments w \<ge> rq_max_parallel rq)
                (ScheduleOutcome.NoChange, ''explicit parallel fan-out is saturated''))])"

definition evaluate_candidate ::
    "Impl \<Rightarrow> WorkRecord \<Rightarrow> ExternalFeasibilityResult \<Rightarrow> AgentRecord \<Rightarrow> CandidateEvaluation" where
  "evaluate_candidate impl w feasibility a =
     (let ev = evaluate_eligibility impl w a feasibility
      in if cv_eligible ev then score_candidate impl w a feasibility ev else ev)"

definition plan_candidates :: "Impl \<Rightarrow> WorkRecord \<Rightarrow> CandidateEvaluation list" where
  "plan_candidates impl w =
     map (\<lambda>e. evaluate_candidate impl w (evaluate_feasibility impl w) (snd e)) (im_agents impl)"

definition eligible_indices :: "CandidateEvaluation list \<Rightarrow> nat list" where
  "eligible_indices cs = filter (\<lambda>i. cv_eligible (cs ! i)) [0..<length cs]"

definition rank_indices :: "CandidateEvaluation list \<Rightarrow> nat list" where
  "rank_indices cs = sort_by (\<lambda>l r. candidate_better (cs ! l) (cs ! r)) (eligible_indices cs)"

text \<open>The rejection histogram: one bucket per outcome, sorted by outcome.\<close>

fun histogram_add :: "ScheduleOutcome \<Rightarrow> (ScheduleOutcome \<times> nat) list \<Rightarrow> (ScheduleOutcome \<times> nat) list" where
  "histogram_add oc [] = [(oc, 1)]"
| "histogram_add oc (b # bs) =
     (if fst b = oc then (oc, snd b + 1) # bs else b # histogram_add oc bs)"

definition rejection_histogram :: "CandidateEvaluation list \<Rightarrow> (ScheduleOutcome \<times> nat) list" where
  "rejection_histogram cs =
     sort_by (\<lambda>l r. fst l < fst r)
       (fold (\<lambda>c. histogram_add (cv_rejection c)) (filter (\<lambda>c. \<not> cv_eligible c) cs) [])"

definition rejection_summary :: "CandidateEvaluation list \<Rightarrow> string list" where
  "rejection_summary cs =
     map (\<lambda>b. outcome_to_string (fst b) @ ''='' @ decimal (snd b)) (rejection_histogram cs)"

definition set_rank :: "nat \<times> nat \<Rightarrow> CandidateEvaluation list \<Rightarrow> CandidateEvaluation list" where
  "set_rank p cs = cs[snd p := (cs ! snd p)\<lparr>cv_rank := of_nat (fst p)\<rparr>]"

definition assign_ranks :: "nat list \<Rightarrow> CandidateEvaluation list \<Rightarrow> CandidateEvaluation list" where
  "assign_ranks order cs = fold set_rank (enumerate 1 order) cs"

record PlanResult =
  pl_decision :: ScheduleDecision
  pl_binding :: "AssignmentBinding option"

definition equal_evidence :: "CandidateEvaluation \<Rightarrow> CandidateEvaluation \<Rightarrow> bool" where
  "equal_evidence l r \<longleftrightarrow> cv_score l = cv_score r \<and> cv_known_weight l = cv_known_weight r"

definition tie_break_text :: string where
  "tie_break_text = ''equal score and evidence coverage; lowest agent id wins''"

text \<open>The winner of a non-empty ranking and the binding of the assignment.\<close>

definition plan_selection ::
    "Impl \<Rightarrow> WorkRecord \<Rightarrow> CandidateEvaluation list \<Rightarrow> nat list \<Rightarrow> ScheduleDecision \<Rightarrow> PlanResult" where
  "plan_selection impl w cs order decision =
     (let wi = hd order; winner0 = (cs ! wi)\<lparr>cv_selected := True\<rparr>;
          tied = (tl order \<noteq> [] \<and> equal_evidence winner0 (cs ! hd (tl order)));
          winner = (if tied then winner0\<lparr>cv_tie_break_decided := True,
                                         cv_tie_break_reason := tie_break_text\<rparr>
                    else winner0);
          chosen = decision\<lparr>
            sd_candidates := cs[wi := winner],
            sd_selected_agent := cv_agent winner,
            sd_selected_agent_generation := cv_agent_generation winner,
            sd_selected_boot := cv_boot winner,
            sd_tie_break_reason := (if tl order = [] then ''sole eligible candidate''
                                    else if tied then tie_break_text else ''score'')\<rparr>
      in case om_get (im_agents impl) (cv_agent winner) of
           None \<Rightarrow> \<lparr> pl_decision = chosen\<lparr>
                       sd_outcome := ScheduleOutcome.RejectStaleAgentGeneration,
                       sd_detail := ''selected agent disappeared during planning''\<rparr>,
                     pl_binding = None \<rparr>
         | Some a \<Rightarrow>
             let b = build_binding impl w a (wr_last_assignment_generation w + 1)
                       (if wq_mode (wr_request w) = SchedulingMode.Parallel
                        then wr_current_assignments w else 0)
             in \<lparr> pl_decision = chosen\<lparr>
                    sd_assignment := Some b, sd_outcome := ScheduleOutcome.Assigned,
                    sd_detail := ''hard-eligible winner under current authority''\<rparr>,
                  pl_binding = Some b \<rparr>)"

definition plan_locked :: "Impl \<Rightarrow> WorkRecord \<Rightarrow> PlanResult" where
  "plan_locked impl w =
     (let base = default_decision\<lparr>
            sd_work := wq_id (wr_request w), sd_work_generation := wq_generation (wr_request w),
            sd_scheduler_epoch := im_scheduler_epoch impl,
            sd_coordinator_epoch := im_coordinator_epoch impl,
            sd_policy_generation := po_generation (im_policy impl)\<rparr>
      in case plan_problem impl w of
           Some (oc, detail) \<Rightarrow>
             \<lparr> pl_decision = base\<lparr>sd_outcome := oc, sd_detail := detail\<rparr>, pl_binding = None \<rparr>
         | None \<Rightarrow>
             let cs = plan_candidates impl w; order = rank_indices cs;
                 ranked = assign_ranks order cs;
                 examined = base\<lparr>
                   sd_candidate_count := length cs,
                   sd_eligible_count := length (eligible_indices cs),
                   sd_rejection_summary := rejection_summary cs,
                   sd_ranking_order := order, sd_candidates := ranked\<rparr>
             in if order = []
                then \<lparr> pl_decision = examined\<lparr>sd_outcome := ScheduleOutcome.NoEligibleAgent,
                         sd_detail := ''no hard-eligible agent exists for this work item''\<rparr>,
                       pl_binding = None \<rparr>
                else plan_selection impl w ranked order examined)"

subsection \<open>The ranking\<close>

lemma set_rank_sel [simp]: "length (set_rank p cs) = length cs"
  by (simp add: set_rank_def)

lemma set_rank_fields:
  "i < length cs \<Longrightarrow> (set_rank p cs ! i)\<lparr>cv_rank := 0\<rparr> = (cs ! i)\<lparr>cv_rank := 0\<rparr>"
  by (cases "i = snd p") (simp_all add: set_rank_def)

lemma fold_set_rank_length [simp]: "length (fold set_rank ps cs) = length cs"
  by (induction ps arbitrary: cs) simp_all

lemma fold_set_rank_fields:
  "i < length cs \<Longrightarrow> (fold set_rank ps cs ! i)\<lparr>cv_rank := 0\<rparr> = (cs ! i)\<lparr>cv_rank := 0\<rparr>"
  by (induction ps arbitrary: cs) (simp_all add: set_rank_fields)

lemma assign_ranks_length [simp]: "length (assign_ranks order cs) = length cs"
  by (simp add: assign_ranks_def)

lemma assign_ranks_fields:
  "i < length cs \<Longrightarrow> (assign_ranks order cs ! i)\<lparr>cv_rank := 0\<rparr> = (cs ! i)\<lparr>cv_rank := 0\<rparr>"
  by (simp add: assign_ranks_def fold_set_rank_fields)

lemma rank_irrelevant:
  assumes "c\<lparr>cv_rank := 0\<rparr> = d\<lparr>cv_rank := 0\<rparr>"
  shows "cv_agent c = cv_agent d" and "cv_score c = cv_score d"
    and "cv_known_weight c = cv_known_weight d" and "cv_eligible c = cv_eligible d"
    and "cv_agent_generation c = cv_agent_generation d" and "cv_boot c = cv_boot d"
  using arg_cong [OF assms, of cv_agent] arg_cong [OF assms, of cv_score]
    arg_cong [OF assms, of cv_known_weight] arg_cong [OF assms, of cv_eligible]
    arg_cong [OF assms, of cv_agent_generation] arg_cong [OF assms, of cv_boot]
  by simp_all

lemma set_eligible_indices:
  "set (eligible_indices cs) = {i. i < length cs \<and> cv_eligible (cs ! i)}"
  by (auto simp: eligible_indices_def)

lemma set_rank_indices: "set (rank_indices cs) = {i. i < length cs \<and> cv_eligible (cs ! i)}"
  by (simp add: rank_indices_def set_eligible_indices)

lemma distinct_rank_indices: "distinct (rank_indices cs)"
  by (simp add: rank_indices_def eligible_indices_def)

lemma rank_indices_sorted:
  "sorted_wrt (\<lambda>l r. \<not> candidate_better (cs ! r) (cs ! l)) (rank_indices cs)"
  unfolding rank_indices_def
  by (rule strict_weak_order.sort_by_sorted
      [OF strict_weak_order_on_key [OF ranking_order.strict_weak_order_axioms]])

lemma rank_indices_head:
  assumes "rank_indices cs = i # is" and "j < length cs" and "cv_eligible (cs ! j)"
  shows "\<not> candidate_better (cs ! j) (cs ! i)"
proof -
  have "j \<in> set (i # is)" using assms set_rank_indices [of cs] by auto
  moreover have "\<not> candidate_better (cs ! k) (cs ! k)" for k
    by (simp add: ranking_order.lt_irrefl)
  ultimately show ?thesis
    using rank_indices_sorted [of cs] assms(1) by auto
qed

subsection \<open>What a plan with a binding guarantees\<close>

lemma plan_binding_cases:
  assumes "pl_binding (plan_locked impl w) = Some b"
  obtains i a where "plan_problem impl w = None"
    and "rank_indices (plan_candidates impl w) \<noteq> []"
    and "i = hd (rank_indices (plan_candidates impl w))"
    and "om_get (im_agents impl) (cv_agent (plan_candidates impl w ! i)) = Some a"
    and "b = build_binding impl w a (wr_last_assignment_generation w + 1)
               (if wq_mode (wr_request w) = SchedulingMode.Parallel
                then wr_current_assignments w else 0)"
proof -
  let ?cs = "plan_candidates impl w" and ?order = "rank_indices (plan_candidates impl w)"
  let ?i = "hd ?order"
  have none: "plan_problem impl w = None" and ne: "?order \<noteq> []"
    using assms by (auto simp: plan_locked_def Let_def split: option.splits if_splits)
  have "?i \<in> set ?order" using ne by simp
  then have "?i < length ?cs" by (simp add: set_rank_indices)
  then have same: "cv_agent (assign_ranks ?order ?cs ! ?i) = cv_agent (?cs ! ?i)"
    by (intro rank_irrelevant(1) assign_ranks_fields)
  obtain a where "om_get (im_agents impl) (cv_agent (?cs ! ?i)) = Some a"
    and "b = build_binding impl w a (wr_last_assignment_generation w + 1)
               (if wq_mode (wr_request w) = SchedulingMode.Parallel
                then wr_current_assignments w else 0)"
    using assms none ne same
    by (auto simp: plan_locked_def plan_selection_def Let_def split: option.splits if_splits)
  then show thesis using that [of ?i a] none ne by blast
qed

lemma plan_candidate_nth:
  assumes "i < length (im_agents impl)"
  shows "cv_agent (plan_candidates impl w ! i) = ad_id (ag_descriptor (snd (im_agents impl ! i)))"
    and "cv_eligible (plan_candidates impl w ! i) \<longleftrightarrow>
           hard_eligible impl w (snd (im_agents impl ! i)) (evaluate_feasibility impl w)"
  using assms by (auto simp: plan_candidates_def evaluate_candidate_def Let_def
      evaluate_eligibility_eligible)

lemma build_binding_sel [simp]:
  "bn_work (build_binding s w a g ri) = wq_id (wr_request w)"
  "bn_work_generation (build_binding s w a g ri) = wq_generation (wr_request w)"
  "bn_agent (build_binding s w a g ri) = ad_id (ag_descriptor a)"
  "bn_agent_generation (build_binding s w a g ri) = ad_generation (ag_descriptor a)"
  "bn_boot (build_binding s w a g ri) = ad_boot (ag_descriptor a)"
  "bn_exclusive (build_binding s w a g ri) = (wq_mode (wr_request w) = SchedulingMode.Exclusive)"
  "bn_generation (build_binding s w a g ri) = g"
  "bn_policy_generation (build_binding s w a g ri) = po_generation (im_policy s)"
  "bn_capability_profile (build_binding s w a g ri) = cp_profile_id (ag_profile a)"
  "bn_capability_generation (build_binding s w a g ri) = cp_generation (ag_profile a)"
  by (simp_all add: build_binding_def Let_def)

subsection \<open>When a plan selects an agent\<close>

text \<open>
  The converse of plan_binding_cases: a plan yields a binding exactly when nothing stops the
  work item and some registered agent is hard eligible.
\<close>

lemma plan_binding_intro:
  assumes "plan_problem impl w = None" and "rank_indices (plan_candidates impl w) \<noteq> []"
    and "om_get (im_agents impl)
      (cv_agent (plan_candidates impl w ! hd (rank_indices (plan_candidates impl w)))) = Some a"
  shows "pl_binding (plan_locked impl w) = Some (build_binding impl w a
    (wr_last_assignment_generation w + 1)
    (if wq_mode (wr_request w) = SchedulingMode.Parallel then wr_current_assignments w else 0))"
proof -
  let ?cs = "plan_candidates impl w" and ?order = "rank_indices (plan_candidates impl w)"
  have "hd ?order \<in> set ?order" using assms(2) by simp
  then have "hd ?order < length ?cs" by (simp add: set_rank_indices)
  then have "cv_agent (assign_ranks ?order ?cs ! hd ?order) = cv_agent (?cs ! hd ?order)"
    by (intro rank_irrelevant(1) assign_ranks_fields)
  then show ?thesis
    using assms by (simp add: plan_locked_def plan_selection_def Let_def)
qed

lemma plan_candidates_length [simp]: "length (plan_candidates impl w) = length (im_agents impl)"
  by (simp add: plan_candidates_def)

lemma rank_indices_empty:
  "rank_indices (plan_candidates impl w) = [] \<longleftrightarrow>
     (\<forall>e\<in>set (im_agents impl). \<not> hard_eligible impl w (snd e) (evaluate_feasibility impl w))"
proof -
  let ?P = "\<lambda>i. hard_eligible impl w (snd (im_agents impl ! i)) (evaluate_feasibility impl w)"
  have "rank_indices (plan_candidates impl w) = [] \<longleftrightarrow>
      set (rank_indices (plan_candidates impl w)) = {}" by simp
  also have "\<dots> \<longleftrightarrow> (\<forall>i<length (im_agents impl). \<not> ?P i)"
    unfolding set_rank_indices using plan_candidate_nth(2) by auto
  also have "\<dots> \<longleftrightarrow> (\<forall>e\<in>set (im_agents impl).
      \<not> hard_eligible impl w (snd e) (evaluate_feasibility impl w))"
    by (simp add: all_set_conv_all_nth)
  finally show ?thesis .
qed

lemma plan_sole_candidate:
  assumes "im_agents impl = [(k, a)]" and "ad_id (ag_descriptor a) = k"
    and "plan_problem impl w = None" and "hard_eligible impl w a (evaluate_feasibility impl w)"
  shows "pl_binding (plan_locked impl w) = Some (build_binding impl w a
    (wr_last_assignment_generation w + 1)
    (if wq_mode (wr_request w) = SchedulingMode.Parallel then wr_current_assignments w else 0))"
proof -
  have ne: "rank_indices (plan_candidates impl w) \<noteq> []"
    using assms by (simp add: rank_indices_empty)
  have "hd (rank_indices (plan_candidates impl w)) \<in> set (rank_indices (plan_candidates impl w))"
    using ne by simp
  then have "hd (rank_indices (plan_candidates impl w)) = 0"
    using assms(1) by (simp add: set_rank_indices)
  then show ?thesis
    using assms ne plan_candidate_nth(1) [of 0 impl w] by (intro plan_binding_intro) simp_all
qed

text \<open>Completeness: a hard-eligible agent is never overlooked.\<close>

lemma plan_complete:
  assumes "om_ok (im_agents impl)"
    and named: "\<And>k r. om_get (im_agents impl) k = Some r \<Longrightarrow> ad_id (ag_descriptor r) = k"
  shows "pl_binding (plan_locked impl w) \<noteq> None \<longleftrightarrow> plan_problem impl w = None
    \<and> (\<exists>k r. om_get (im_agents impl) k = Some r
          \<and> hard_eligible impl w r (evaluate_feasibility impl w))"
proof
  let ?order = "rank_indices (plan_candidates impl w)"
  have entry: "om_get (im_agents impl) k = Some r" if "(k, r) \<in> set (im_agents impl)" for k r
    using that om_ok_distinct [OF assms(1)] by (simp add: om_keys_def)
  {
    assume "pl_binding (plan_locked impl w) \<noteq> None"
    then obtain b where "pl_binding (plan_locked impl w) = Some b" by blast
    then have "plan_problem impl w = None" and "?order \<noteq> []"
      using plan_binding_cases by blast+
    then show "plan_problem impl w = None \<and> (\<exists>k r. om_get (im_agents impl) k = Some r
          \<and> hard_eligible impl w r (evaluate_feasibility impl w))"
      using entry by (fastforce simp: rank_indices_empty)
  }
  assume right: "plan_problem impl w = None \<and> (\<exists>k r. om_get (im_agents impl) k = Some r
          \<and> hard_eligible impl w r (evaluate_feasibility impl w))"
  then have ne: "?order \<noteq> []" by (fastforce simp: rank_indices_empty dest: map_of_SomeD)
  then have "hd ?order \<in> set ?order" by simp
  then have i: "hd ?order < length (im_agents impl)" by (simp add: set_rank_indices)
  then obtain k r where kr: "im_agents impl ! hd ?order = (k, r)" "(k, r) \<in> set (im_agents impl)"
    by (metis nth_mem surj_pair)
  then have "om_get (im_agents impl) (cv_agent (plan_candidates impl w ! hd ?order)) = Some r"
    using entry [OF kr(2)] named plan_candidate_nth(1) [OF i, of w] by simp
  then show "pl_binding (plan_locked impl w) \<noteq> None"
    using right plan_binding_intro [OF _ ne] by simp
qed

end
