(* ===== verification/Committing.thy ===== *)
theory Committing
  imports Planning
begin

section \<open>Committing a planned assignment\<close>

text \<open>
  commit_locked of scheduling.cpp: every authority the plan bound is checked again in the
  state at commit time, then the assignment, its lease, the index entries and the counters
  are created. schedule is its two critical sections around the interlock; the interlock is
  the argument between them, an arbitrary change of the state by other threads.
\<close>

definition commit_work_problem ::
    "Impl \<Rightarrow> u64 \<Rightarrow> u64 \<Rightarrow> AssignmentBinding \<Rightarrow> WorkRecord \<Rightarrow> (ScheduleOutcome \<times> string) option" where
  "commit_work_problem impl work_id work_generation b w =
     (let rq = wq_requirements (wr_request w) in first_some
        [guard (wq_generation (wr_request w) \<noteq> work_generation
                \<or> work_generation \<noteq> bn_work_generation b)
           (ScheduleOutcome.RejectStaleWorkGeneration, ''work generation moved before commit''),
         guard (wr_lifecycle w = WorkLifecycle.Cancelled)
           (ScheduleOutcome.RejectCancelled, ''work was cancelled before commit''),
         guard (wr_lifecycle w = WorkLifecycle.Superseded)
           (ScheduleOutcome.RejectSuperseded, ''work was superseded before commit''),
         guard (\<not> work_accepts_assignment (wr_lifecycle w) \<and> wr_current_assignments w > 0
                \<and> \<not> fanout_available w)
           (ScheduleOutcome.RejectConflict, ''work acquired an assignment before commit''),
         guard (rq_deadline_ms rq \<noteq> 0 \<and> im_now impl > rq_deadline_ms rq)
           (ScheduleOutcome.RejectDeadline, ''work deadline passed before commit''),
         (if bn_exclusive b
          then guard (active_exclusive_assignment impl work_id \<noteq> None)
                 (ScheduleOutcome.RejectConflict, ''exclusive assignment already exists'')
          else guard (wr_current_assignments w \<ge> rq_max_parallel rq)
                 (ScheduleOutcome.RejectCapacity, ''parallel fan-out is saturated''))])"

definition commit_agent_problem ::
    "Impl \<Rightarrow> u64 \<Rightarrow> AssignmentBinding \<Rightarrow> WorkRecord \<Rightarrow> AgentRecord \<Rightarrow> (ScheduleOutcome \<times> string) option" where
  "commit_agent_problem impl work_id b w a =
     (let rq = wq_requirements (wr_request w); d = ag_descriptor a in first_some
        [guard (ad_generation d \<noteq> bn_agent_generation b)
           (ScheduleOutcome.RejectStaleAgentGeneration, ''agent generation moved before commit''),
         guard (ad_boot d \<noteq> bn_boot b)
           (ScheduleOutcome.RejectStaleAgentBoot, ''agent incarnation replaced before commit''),
         guard (boot_is_fenced impl (bn_boot b))
           (ScheduleOutcome.RejectFenced, ''agent incarnation fenced before commit''),
         guard (\<not> lifecycle_accepts_new_work (ag_lifecycle a))
           (if ag_lifecycle a = AgentLifecycle.Draining then ScheduleOutcome.RejectDrain
            else ScheduleOutcome.RejectLifecycle,
            ''agent lifecycle is '' @ agent_lifecycle_to_string (ag_lifecycle a)),
         guard (cp_generation (ag_profile a) \<noteq> bn_capability_generation b
                \<or> cp_profile_id (ag_profile a) \<noteq> bn_capability_profile b
                \<or> \<not> capability_fresh impl a)
           (ScheduleOutcome.RejectStaleCapability, ''capability generation moved before commit''),
         guard (ag_active_assignments a \<ge> ad_max_concurrency d)
           (ScheduleOutcome.RejectCapacity, ''agent reached capacity before commit''),
         guard (active_assignments_on_agent impl work_id (bn_agent b)
                  \<ge> rq_max_assignments_per_agent rq)
           (ScheduleOutcome.RejectCapacity,
            ''agent already holds the maximum assignments for this work''),
         feasibility_problem rq (evaluate_feasibility impl w)
           (\<lambda>axis _. ''external '' @ axis @ '' feasibility changed before commit'')])"

definition commit_problem ::
    "Impl \<Rightarrow> u64 \<Rightarrow> u64 \<Rightarrow> AssignmentBinding \<Rightarrow> (ScheduleOutcome \<times> string) option" where
  "commit_problem impl work_id work_generation b = first_some
     [guard (\<not> im_running impl \<or> \<not> im_admission_open impl)
        (ScheduleOutcome.ShuttingDown, ''admission closed before commit''),
      guard (bn_scheduler b \<noteq> im_scheduler_id impl
             \<or> bn_scheduler_epoch b \<noteq> im_scheduler_epoch impl)
        (ScheduleOutcome.RejectStaleSchedulerEpoch, ''scheduler epoch moved before commit''),
      guard (bn_coordinator_epoch b \<noteq> im_coordinator_epoch impl)
        (ScheduleOutcome.RejectStaleCoordinatorEpoch, ''coordinator epoch moved before commit''),
      guard (bn_policy b \<noteq> po_id (im_policy impl)
             \<or> bn_policy_generation b \<noteq> po_generation (im_policy impl))
        (ScheduleOutcome.RejectStalePolicy, ''policy generation moved before commit''),
      (case om_get (im_work impl) work_id of
         None \<Rightarrow> Some (ScheduleOutcome.RejectInvalidRequest, ''work disappeared before commit'')
       | Some w \<Rightarrow> first_some
           [commit_work_problem impl work_id work_generation b w,
            (case om_get (im_agents impl) (bn_agent b) of
               None \<Rightarrow> Some (ScheduleOutcome.RejectStaleAgentGeneration,
                             ''agent disappeared before commit'')
             | Some a \<Rightarrow> commit_agent_problem impl work_id b w a)])]"

definition new_assignment :: "AssignmentBinding \<Rightarrow> AssignmentRecord" where
  "new_assignment b =
     \<lparr> ar_binding = b, ar_state = AssignmentState.Assigned,
       ar_invalidation = InvalidationReason.NoReason, ar_lease_current = True,
       ar_dispatched_at_ms = 0, ar_acknowledged_at_ms = 0, ar_closed_at_ms = 0,
       ar_reason = ''assigned'' \<rparr>"

definition new_lease :: "AssignmentBinding \<Rightarrow> Lease" where
  "new_lease b =
     \<lparr> ls_id = bn_lease b, ls_generation = bn_lease_generation b, ls_assignment = bn_id b,
       ls_assignment_generation = bn_generation b, ls_agent = bn_agent b, ls_boot = bn_boot b,
       ls_granted_at_ms = bn_created_at_ms b, ls_expires_at_ms = bn_lease_expires_at_ms b,
       ls_current = True \<rparr>"

definition insert_assignment :: "AssignmentBinding \<Rightarrow> Impl \<Rightarrow> Impl" where
  "insert_assignment b impl = impl\<lparr>
     im_assignments := om_emplace (bn_id b) (new_assignment b) (im_assignments impl),
     im_leases := om_emplace (bn_lease b) (new_lease b) (im_leases impl)\<rparr>"

definition count_assigned :: "u64 \<Rightarrow> u64 \<Rightarrow> Impl \<Rightarrow> Impl" where
  "count_assigned queue tenant impl = impl\<lparr>
     im_assignments_created := im_assignments_created impl + 1,
     im_queues := om_adjust queue (\<lambda>q. q\<lparr>qr_assigned_count := qr_assigned_count q + 1\<rparr>)
                    (im_queues impl),
     im_tenants := om_adjust tenant (\<lambda>t. t\<lparr>tr_active_assignments := tr_active_assignments t + 1\<rparr>)
                    (im_tenants impl),
     im_state_revision := im_state_revision impl + 1\<rparr>"

definition commit_apply :: "u64 \<Rightarrow> AssignmentBinding \<Rightarrow> Impl \<Rightarrow> Impl" where
  "commit_apply work_id b impl =
     (let s1 = insert_assignment b impl;
          s2 = s1\<lparr>im_work := om_adjust work_id
                   (\<lambda>w. w\<lparr>wr_last_assignment_generation := bn_generation b\<rparr>) (im_work s1)\<rparr>;
          s3 = (case om_get (im_assignments s2) (bn_id b) of
                  None \<Rightarrow> s2 | Some stored \<Rightarrow> index_assignment stored s2);
          s4 = refresh_agent_accounting (bn_agent b) (refresh_work_accounting work_id s3);
          tenant = (case om_get (im_work s4) work_id of
                      None \<Rightarrow> 0 | Some w \<Rightarrow> rq_tenant (wq_requirements (wr_request w)))
      in count_assigned (bn_queue b) tenant s4)"

definition commit_locked ::
    "u64 \<Rightarrow> u64 \<Rightarrow> AssignmentBinding \<Rightarrow> Impl \<Rightarrow> (ScheduleOutcome \<times> string) + Impl" where
  "commit_locked work_id work_generation b impl =
     (case commit_problem impl work_id work_generation b of
        Some failure \<Rightarrow> Inl failure
      | None \<Rightarrow> Inr (commit_apply work_id b impl))"

subsection \<open>The schedule operation\<close>

definition schedule_plan :: "Impl \<Rightarrow> u64 \<Rightarrow> u64 \<Rightarrow> PlanResult" where
  "schedule_plan impl work generation =
     (let refused = (\<lambda>oc detail.
            \<lparr> pl_decision = default_decision\<lparr>sd_outcome := oc, sd_work := work,
                sd_work_generation := generation, sd_detail := detail\<rparr>, pl_binding = None \<rparr>)
      in case om_get (im_work impl) work of
           None \<Rightarrow> refused ScheduleOutcome.RejectInvalidRequest ''work is not known''
         | Some w \<Rightarrow>
             if wq_generation (wr_request w) \<noteq> generation
             then refused ScheduleOutcome.RejectStaleWorkGeneration ''work generation moved''
             else plan_locked impl w)"

definition schedule_commit ::
    "u64 \<Rightarrow> u64 \<Rightarrow> ScheduleDecision \<Rightarrow> AssignmentBinding \<Rightarrow> Impl \<Rightarrow> Impl \<times> ScheduleDecision" where
  "schedule_commit work generation decision b impl =
     (case commit_locked work generation b impl of
        Inl (oc, detail) \<Rightarrow>
          (impl, decision\<lparr>sd_outcome := oc, sd_detail := detail, sd_assignment := None,
             sd_selected_agent := 0, sd_selected_agent_generation := 0,
             sd_selected_boot := hash128_zero, sd_tie_break_reason := [],
             sd_candidates := map (\<lambda>c. c\<lparr>cv_selected := False\<rparr>) (sd_candidates decision)\<rparr>)
      | Inr impl' \<Rightarrow>
          (impl', case om_get (im_assignments impl') (bn_id b) of
                    None \<Rightarrow> decision
                  | Some stored \<Rightarrow> decision\<lparr>sd_assignment := Some (ar_binding stored)\<rparr>))"

definition schedule :: "(Impl \<Rightarrow> Impl) \<Rightarrow> u64 \<Rightarrow> u64 \<Rightarrow> Impl \<Rightarrow> Impl \<times> ScheduleDecision" where
  "schedule interlock work generation impl =
     (let plan = schedule_plan impl work generation in
      case pl_binding plan of
        None \<Rightarrow> (impl, pl_decision plan)
      | Some b \<Rightarrow> schedule_commit work generation (pl_decision plan) b (interlock impl))"

subsection \<open>What a successful commit guarantees\<close>

definition bound_authority_current :: "Impl \<Rightarrow> AssignmentBinding \<Rightarrow> bool" where
  "bound_authority_current impl b \<longleftrightarrow>
     bn_scheduler b = im_scheduler_id impl \<and> bn_scheduler_epoch b = im_scheduler_epoch impl
     \<and> bn_coordinator_epoch b = im_coordinator_epoch impl
     \<and> bn_policy b = po_id (im_policy impl)
     \<and> bn_policy_generation b = po_generation (im_policy impl)"

lemma commit_problem_None:
  assumes "commit_problem impl work_id g b = None"
  obtains w a where "im_running impl" and "im_admission_open impl"
    and "bound_authority_current impl b"
    and "om_get (im_work impl) work_id = Some w" and "om_get (im_agents impl) (bn_agent b) = Some a"
    and "commit_work_problem impl work_id g b w = None"
    and "commit_agent_problem impl work_id b w a = None"
  using assms that
  by (auto simp: commit_problem_def bound_authority_current_def first_some_Cons_None
      split: option.splits if_splits)

lemma commit_work_problem_None:
  "commit_work_problem impl work_id g b w = None \<Longrightarrow>
     wq_generation (wr_request w) = g \<and> bn_work_generation b = g
     \<and> wr_lifecycle w \<noteq> WorkLifecycle.Cancelled \<and> wr_lifecycle w \<noteq> WorkLifecycle.Superseded
     \<and> (rq_deadline_ms (wq_requirements (wr_request w)) = 0
        \<or> im_now impl \<le> rq_deadline_ms (wq_requirements (wr_request w)))
     \<and> (if bn_exclusive b then active_exclusive_assignment impl work_id = None
        else wr_current_assignments w < rq_max_parallel (wq_requirements (wr_request w)))"
  by (auto simp: commit_work_problem_def Let_def not_le split: if_splits)

lemma commit_agent_problem_None:
  "commit_agent_problem impl work_id b w a = None \<longleftrightarrow>
     ad_generation (ag_descriptor a) = bn_agent_generation b
     \<and> ad_boot (ag_descriptor a) = bn_boot b \<and> \<not> boot_is_fenced impl (bn_boot b)
     \<and> (ag_lifecycle a = AgentLifecycle.Ready \<or> ag_lifecycle a = AgentLifecycle.Busy)
     \<and> cp_generation (ag_profile a) = bn_capability_generation b
     \<and> cp_profile_id (ag_profile a) = bn_capability_profile b \<and> capability_fresh impl a
     \<and> ag_active_assignments a < ad_max_concurrency (ag_descriptor a)
     \<and> active_assignments_on_agent impl work_id (bn_agent b)
         < rq_max_assignments_per_agent (wq_requirements (wr_request w))
     \<and> feasibility_met (wq_requirements (wr_request w)) (evaluate_feasibility impl w)"
  by (auto simp: commit_agent_problem_def Let_def not_le lifecycle_accepts_new_work_def
      first_some_Cons_None)

subsection \<open>The effect of the commit on the maps\<close>

lemma commit_apply_get_assignments:
  "om_get (im_assignments (commit_apply work_id b s)) k =
     (if k = bn_id b then (case om_get (im_assignments s) k of
        None \<Rightarrow> Some (new_assignment b) | Some r \<Rightarrow> Some r) else om_get (im_assignments s) k)"
  by (simp add: commit_apply_def Let_def count_assigned_def insert_assignment_def
      split: option.split)

lemma stored_assignment [simp]:
  "om_get (im_assignments (insert_assignment b s)) (bn_id b) =
     Some (case om_get (im_assignments s) (bn_id b) of None \<Rightarrow> new_assignment b | Some r \<Rightarrow> r)"
  by (simp add: insert_assignment_def split: option.split)

lemma new_assignment_sel [simp]:
  "ar_binding (new_assignment b) = b" "ar_state (new_assignment b) = AssignmentState.Assigned"
  by (simp_all add: new_assignment_def)

definition commit_indexed :: "u64 \<Rightarrow> AssignmentBinding \<Rightarrow> Impl \<Rightarrow> Impl" where
  "commit_indexed work_id b s =
     (let s1 = insert_assignment b s
      in index_assignment
           (case om_get (im_assignments s) (bn_id b) of None \<Rightarrow> new_assignment b | Some r \<Rightarrow> r)
           (s1\<lparr>im_work := om_adjust work_id
                (\<lambda>w. w\<lparr>wr_last_assignment_generation := bn_generation b\<rparr>) (im_work s1)\<rparr>))"

lemma commit_apply_split:
  "\<exists>tenant. commit_apply work_id b s = count_assigned (bn_queue b) tenant
     (refresh_agent_accounting (bn_agent b)
       (refresh_work_accounting work_id (commit_indexed work_id b s)))"
  by (simp add: commit_apply_def commit_indexed_def Let_def, rule exI, rule refl)

lemma insert_assignment_frame [simp]:
  "im_agents (insert_assignment b s) = im_agents s" "im_work (insert_assignment b s) = im_work s"
  "im_by_agent (insert_assignment b s) = im_by_agent s"
  "im_by_work (insert_assignment b s) = im_by_work s"
  "im_policy (insert_assignment b s) = im_policy s"
  "im_fenced_boots (insert_assignment b s) = im_fenced_boots s"
  by (simp_all add: insert_assignment_def)

lemma commit_indexed_frame [simp]:
  "im_agents (commit_indexed work_id b s) = im_agents s"
  "im_policy (commit_indexed work_id b s) = im_policy s"
  "im_fenced_boots (commit_indexed work_id b s) = im_fenced_boots s"
  "im_assignments (commit_indexed work_id b s) = im_assignments (insert_assignment b s)"
  by (simp_all add: commit_indexed_def Let_def)

lemma index_assignment_get:
  "im_by_agent (index_assignment r s) =
     (if record_active r then ix_insert (bn_agent (ar_binding r)) (bn_id (ar_binding r)) (im_by_agent s)
      else im_by_agent s)"
  "im_by_work (index_assignment r s) =
     (if record_active r then ix_insert (bn_work (ar_binding r)) (bn_id (ar_binding r)) (im_by_work s)
      else im_by_work s)"
  by (simp_all add: index_assignment_def Let_def)

lemma om_emplace_present: "om_get m k = Some v \<Longrightarrow> om_emplace k w m = m"
  by (simp add: om_emplace_def)

lemma om_emplace_absent: "om_get m k = None \<Longrightarrow> om_emplace k w m = om_put k w m"
  by (simp add: om_emplace_def)

lemma commit_indexed_indexes:
  assumes "indexes_ok s"
  shows "indexes_ok (commit_indexed work_id b s)"
proof (cases "om_get (im_assignments s) (bn_id b)")
  case None
  then show ?thesis
    using assms by_agent.matches_add [of "im_assignments s" "im_by_agent s" "new_assignment b" "bn_id b"]
      by_work.matches_add [of "im_assignments s" "im_by_work s" "new_assignment b" "bn_id b"]
    by (simp add: indexes_ok_def commit_indexed_def index_assignment_get Let_def
        insert_assignment_def om_emplace_absent keyed_put)
next
  case (Some r)
  then have "bn_id (ar_binding r) = bn_id b"
    using assms by (auto simp: indexes_ok_def dest: keyed_assignment)
  then show ?thesis
    using assms Some by_agent.matches_add_present [of "im_assignments s" "im_by_agent s" "bn_id b" r]
      by_work.matches_add_present [of "im_assignments s" "im_by_work s" "bn_id b" r]
    by (simp add: indexes_ok_def commit_indexed_def index_assignment_get Let_def
        insert_assignment_def om_emplace_present)
qed

lemma insert_owned_other:
  assumes "j \<noteq> owner b"
  shows "active_owned (im_assignments (insert_assignment b s)) owner j
           = active_owned (im_assignments s) owner j"
  using assms by (auto simp: active_owned_def insert_assignment_def split: option.splits if_splits)

lemma commit_accounts_except:
  assumes ok: "accounts_ok s" and work: "bn_work b = work_id"
  shows "accounts_except (bn_agent b) work_id (commit_indexed work_id b s)"
proof -
  have "work_accounted (commit_indexed work_id b s) x" if "x \<noteq> work_id" for x
    using that ok work insert_owned_other [of x bn_work b s]
    by (simp add: accounts_ok_def work_accounted_def commit_indexed_def Let_def)
  moreover have "agent_accounted (commit_indexed work_id b s) x" if "x \<noteq> bn_agent b" for x
    using that ok insert_owned_other [of x bn_agent b s]
    by (simp add: accounts_ok_def agent_accounted_def)
  moreover have "work_named (commit_indexed work_id b s)"
    using accounts_ok_named [OF ok]
    by (auto simp: work_named_def commit_indexed_def Let_def)
  ultimately show ?thesis
    using ok accounts_ok_named [OF ok]
    by (simp add: accounts_except_def commit_indexed_indexes accounts_ok_def agents_named_def)
qed

lemma accounts_ok_count_assigned [simp]:
  "accounts_ok (count_assigned q t s) = accounts_ok s"
  by (simp add: accounts_ok_def indexes_ok_def agent_accounted_def work_accounted_def
      count_assigned_def)

lemma commit_apply_accounts:
  "accounts_ok s \<Longrightarrow> bn_work b = work_id \<Longrightarrow> accounts_ok (commit_apply work_id b s)"
  using commit_apply_split [of work_id b s] commit_accounts_except [of s b work_id]
    refresh_work_then_agent [of "bn_agent b" work_id "commit_indexed work_id b s"] by auto

end
