(* ===== verification/Dispatching.thy ===== *)
theory Dispatching
  imports Committing
begin

section \<open>Dispatch, observation and revalidation of assignments\<close>

text \<open>
  dispatch, the observations an agent reports (acknowledge, mark_executing, release,
  complete, fail, reject), revalidation and lease expiry, from scheduling.cpp. dispatch is
  two critical sections around the interlock. An operation returns the new state and its
  result; None is success.
\<close>

fun code_for :: "ScheduleOutcome \<Rightarrow> ErrorCode" where
  "code_for ScheduleOutcome.RejectStaleSchedulerEpoch = ErrorCode.StaleGeneration"
| "code_for ScheduleOutcome.RejectStaleCoordinatorEpoch = ErrorCode.StaleGeneration"
| "code_for ScheduleOutcome.RejectStaleAgentBoot = ErrorCode.StaleGeneration"
| "code_for ScheduleOutcome.RejectStaleAgentGeneration = ErrorCode.StaleGeneration"
| "code_for ScheduleOutcome.RejectStaleWorkGeneration = ErrorCode.StaleGeneration"
| "code_for ScheduleOutcome.RejectStaleAssignment = ErrorCode.StaleGeneration"
| "code_for ScheduleOutcome.RejectStalePolicy = ErrorCode.StaleGeneration"
| "code_for ScheduleOutcome.RejectStaleCapability = ErrorCode.StaleGeneration"
| "code_for ScheduleOutcome.RejectStaleQueueGeneration = ErrorCode.StaleGeneration"
| "code_for ScheduleOutcome.RejectConflict = ErrorCode.Conflict"
| "code_for ScheduleOutcome.RejectCancelled = ErrorCode.Cancelled"
| "code_for ScheduleOutcome.RejectSuperseded = ErrorCode.Superseded"
| "code_for ScheduleOutcome.RejectFenced = ErrorCode.Fenced"
| "code_for ScheduleOutcome.RejectLeaseExpired = ErrorCode.LeaseExpired"
| "code_for ScheduleOutcome.ShuttingDown = ErrorCode.ShuttingDown"
| "code_for ScheduleOutcome.RejectDrain = ErrorCode.DrainBarrier"
| "code_for ScheduleOutcome.RejectCapacity = ErrorCode.NoCapacity"
| "code_for ScheduleOutcome.RejectHealth = ErrorCode.Unhealthy"
| "code_for ScheduleOutcome.RejectReachability = ErrorCode.Unreachable"
| "code_for ScheduleOutcome.RejectReadiness = ErrorCode.NotReady"
| "code_for ScheduleOutcome.RejectLifecycle = ErrorCode.NotReady"
| "code_for ScheduleOutcome.RejectPolicy = ErrorCode.PolicyRejected"
| "code_for ScheduleOutcome.RejectTenant = ErrorCode.PolicyRejected"
| "code_for ScheduleOutcome.RejectAffinity = ErrorCode.PolicyRejected"
| "code_for ScheduleOutcome.RejectLocality = ErrorCode.PolicyRejected"
| "code_for ScheduleOutcome.RejectCapability = ErrorCode.CapabilityRejected"
| "code_for ScheduleOutcome.RejectResourceFeasibility = ErrorCode.FeasibilityRejected"
| "code_for ScheduleOutcome.RejectBudget = ErrorCode.FeasibilityRejected"
| "code_for ScheduleOutcome.RejectSlo = ErrorCode.FeasibilityRejected"
| "code_for ScheduleOutcome.RejectReservation = ErrorCode.FeasibilityRejected"
| "code_for ScheduleOutcome.RejectDeadline = ErrorCode.DeadlineExpired"
| "code_for ScheduleOutcome.RejectExpired = ErrorCode.DeadlineExpired"
| "code_for ScheduleOutcome.RevalidationRequired = ErrorCode.NotEligible"
| "code_for ScheduleOutcome.RejectLimitExceeded = ErrorCode.LimitExceeded"
| "code_for ScheduleOutcome.RejectInvalidRequest = ErrorCode.InvalidArgument"
| "code_for ScheduleOutcome.RejectDuplicate = ErrorCode.InvalidArgument"
| "code_for _ = ErrorCode.NotEligible"

fun reason_for :: "ScheduleOutcome \<Rightarrow> InvalidationReason" where
  "reason_for ScheduleOutcome.RejectCancelled = InvalidationReason.WorkCancelled"
| "reason_for ScheduleOutcome.RejectSuperseded = InvalidationReason.WorkSuperseded"
| "reason_for ScheduleOutcome.RejectStalePolicy = InvalidationReason.PolicyChanged"
| "reason_for ScheduleOutcome.RejectStaleCapability = InvalidationReason.CapabilityChanged"
| "reason_for ScheduleOutcome.RejectResourceFeasibility = InvalidationReason.ResourceChanged"
| "reason_for ScheduleOutcome.RejectBudget = InvalidationReason.BudgetChanged"
| "reason_for ScheduleOutcome.RejectSlo = InvalidationReason.SloChanged"
| "reason_for ScheduleOutcome.RejectStaleCoordinatorEpoch = InvalidationReason.CoordinatorEpochChanged"
| "reason_for ScheduleOutcome.RejectStaleSchedulerEpoch = InvalidationReason.CoordinatorEpochChanged"
| "reason_for ScheduleOutcome.RejectStaleAgentBoot = InvalidationReason.AgentFenced"
| "reason_for ScheduleOutcome.RejectFenced = InvalidationReason.AgentFenced"
| "reason_for ScheduleOutcome.RejectLeaseExpired = InvalidationReason.LeaseExpired"
| "reason_for ScheduleOutcome.RejectLifecycle = InvalidationReason.AgentLost"
| "reason_for ScheduleOutcome.RejectDrain = InvalidationReason.AgentDrained"
| "reason_for _ = InvalidationReason.Rejected"

subsection \<open>Dispatch\<close>

text \<open>The lease comparison of dispatch, acknowledge and mark_executing.\<close>

definition lease_lapsed :: "Impl \<Rightarrow> AssignmentRecord \<Rightarrow> bool" where
  "lease_lapsed impl r \<longleftrightarrow>
     \<not> ar_lease_current r \<or> bn_lease_expires_at_ms (ar_binding r) < im_now impl"

definition dispatch_problem :: "Impl \<Rightarrow> u64 \<Rightarrow> AssignmentRecord \<Rightarrow> (ScheduleOutcome \<times> string) option" where
  "dispatch_problem impl generation r = first_some
     [guard (bn_generation (ar_binding r) \<noteq> generation)
        (ScheduleOutcome.RejectStaleAssignment, ''assignment generation moved''),
      guard (\<not> im_running impl \<or> im_shutting_down impl)
        (ScheduleOutcome.ShuttingDown, ''scheduler is shutting down''),
      guard (boot_is_fenced impl (bn_boot (ar_binding r)))
        (ScheduleOutcome.RejectStaleAgentBoot, ''assignment incarnation is permanently fenced''),
      guard (ar_state r = AssignmentState.Dispatched)
        (ScheduleOutcome.NoChange, ''assignment is already dispatched''),
      guard (ar_state r = AssignmentState.RevalidationRequired)
        (ScheduleOutcome.RevalidationRequired,
         ''assignment requires revalidation before dispatch''),
      guard (\<not> assignment_state_is_dispatchable (ar_state r))
        (ScheduleOutcome.RejectStaleAssignment,
         ''assignment state is '' @ assignment_state_to_string (ar_state r)),
      guard (lease_lapsed impl r)
        (ScheduleOutcome.RejectLeaseExpired, ''assignment lease is not current''),
      revalidate_authority impl r]"

definition dispatch_check :: "Impl \<Rightarrow> Hash128 \<Rightarrow> u64 \<Rightarrow> (ScheduleOutcome \<times> string) option" where
  "dispatch_check impl k generation =
     (case om_get (im_assignments impl) k of
        None \<Rightarrow> Some (ScheduleOutcome.RejectStaleAssignment, ''assignment is not known'')
      | Some r \<Rightarrow> dispatch_problem impl generation r)"

definition refused_dispatch :: "ScheduleOutcome \<times> string \<Rightarrow> DispatchResult" where
  "refused_dispatch failure =
     \<lparr> dr_outcome = fst failure, dr_handoff = None, dr_detail = snd failure \<rparr>"

text \<open>Granting a fresh lease to a record: its binding and the lease record move together.\<close>

definition renew_record :: "AssignmentState \<Rightarrow> u64 \<Rightarrow> AssignmentRecord \<Rightarrow> AssignmentRecord" where
  "renew_record st expires r = r\<lparr>ar_state := st, ar_lease_current := True,
     ar_binding := (ar_binding r)\<lparr>bn_lease_expires_at_ms := expires\<rparr>\<rparr>"

definition renew_lease :: "u64 \<Rightarrow> Lease \<Rightarrow> Lease" where
  "renew_lease expires l = l\<lparr>ls_expires_at_ms := expires, ls_current := True\<rparr>"

definition handoff_record :: "u64 \<Rightarrow> u64 \<Rightarrow> AssignmentRecord \<Rightarrow> AssignmentRecord" where
  "handoff_record now expires r =
     (renew_record AssignmentState.Dispatched expires r)\<lparr>ar_dispatched_at_ms := now\<rparr>"

definition dispatch_commit :: "Hash128 \<Rightarrow> u64 \<Rightarrow> Impl \<Rightarrow> Impl \<times> DispatchResult" where
  "dispatch_commit k generation impl =
     (case om_get (im_assignments impl) k of
        None \<Rightarrow> (impl, refused_dispatch (ScheduleOutcome.RejectStaleAssignment,
                         ''assignment disappeared before handoff''))
      | Some r \<Rightarrow>
          if bn_generation (ar_binding r) \<noteq> generation
          then (impl, refused_dispatch (ScheduleOutcome.RejectStaleAssignment,
                        ''assignment disappeared before handoff''))
          else if ar_state r \<noteq> AssignmentState.Assigned
          then (impl, refused_dispatch
                 (if ar_state r = AssignmentState.Dispatched then ScheduleOutcome.NoChange
                  else ScheduleOutcome.RejectStaleAssignment,
                  ''assignment state changed before handoff''))
          else case revalidate_authority impl r of
                 Some failure \<Rightarrow> (impl, refused_dispatch failure)
               | None \<Rightarrow>
                   let now = im_now impl;
                       expires = now + assignment_lease_ttl_ms (im_policy impl);
                       r' = handoff_record now expires r
                   in (bump_revision (adjust_lease (bn_lease (ar_binding r)) (renew_lease expires)
                         (adjust_assignment k (handoff_record now expires) impl)),
                       \<lparr> dr_outcome = ScheduleOutcome.Assigned,
                         dr_handoff = Some (ar_binding r'),
                         dr_detail = ''revalidated and handed off'' \<rparr>))"

definition dispatch :: "(Impl \<Rightarrow> Impl) \<Rightarrow> Hash128 \<Rightarrow> u64 \<Rightarrow> Impl \<Rightarrow> Impl \<times> DispatchResult" where
  "dispatch interlock k generation impl =
     (case dispatch_check impl k generation of
        Some failure \<Rightarrow> (impl, refused_dispatch failure)
      | None \<Rightarrow> dispatch_commit k generation (interlock impl))"

subsection \<open>Observations\<close>

definition lookup_assignment ::
    "Impl \<Rightarrow> Hash128 \<Rightarrow> u64 \<Rightarrow> Hash128 \<Rightarrow> (string \<times> ScheduleOutcome) + AssignmentRecord" where
  "lookup_assignment impl k generation boot =
     (case om_get (im_assignments impl) k of
        None \<Rightarrow> Inl (''assignment is not known'', ScheduleOutcome.RejectStaleAssignment)
      | Some r \<Rightarrow>
          (case first_some
             [guard (bn_generation (ar_binding r) \<noteq> generation)
                (''assignment generation moved'', ScheduleOutcome.RejectStaleAssignment),
              guard (\<not> hash128_is_zero boot \<and> bn_boot (ar_binding r) \<noteq> boot)
                (''observation names a different incarnation'',
                 ScheduleOutcome.RejectStaleAgentBoot),
              guard (boot_is_fenced impl (bn_boot (ar_binding r)))
                (''incarnation is fenced'', ScheduleOutcome.RejectStaleAgentBoot),
              guard (case om_get (im_agents impl) (bn_agent (ar_binding r)) of
                       None \<Rightarrow> True
                     | Some a \<Rightarrow> ad_boot (ag_descriptor a) \<noteq> bn_boot (ar_binding r))
                (''incarnation is no longer current'', ScheduleOutcome.RejectStaleAgentBoot)]
           of Some problem \<Rightarrow> Inl problem | None \<Rightarrow> Inr r))"

definition observe ::
    "string \<Rightarrow> Hash128 \<Rightarrow> u64 \<Rightarrow> Hash128 \<Rightarrow> Impl
       \<Rightarrow> (AssignmentRecord \<Rightarrow> Impl \<times> MutationResult) \<Rightarrow> Impl \<times> MutationResult" where
  "observe operation k generation boot impl continue =
     (case lookup_assignment impl k generation boot of
        Inl (problem, oc) \<Rightarrow>
          (impl, Some (make_error (code_for oc) operation (hash128_to_string k) problem oc))
      | Inr r \<Rightarrow> continue r)"

definition acknowledge ::
    "Hash128 \<Rightarrow> u64 \<Rightarrow> Hash128 \<Rightarrow> u64 \<Rightarrow> Hash128 \<Rightarrow> Impl \<Rightarrow> Impl \<times> MutationResult" where
  "acknowledge k generation dispatch_id dispatch_generation boot impl =
     observe ''acknowledge'' k generation boot impl (\<lambda>r.
       let err = (\<lambda>code detail oc. Some (make_error code ''acknowledge'' (hash128_to_string k) detail oc))
       in if bn_dispatch (ar_binding r) \<noteq> dispatch_id
             \<or> bn_dispatch_generation (ar_binding r) \<noteq> dispatch_generation
          then (impl, err ErrorCode.StaleGeneration
                  ''dispatch identity or generation does not match the assignment''
                  ScheduleOutcome.RejectStaleAssignment)
          else if ar_state r = AssignmentState.Acknowledged \<or> ar_state r = AssignmentState.Executing
          then (impl, None)
          else if assignment_state_is_terminal (ar_state r)
          then (impl, err ErrorCode.StaleGeneration
                  (''assignment is terminal: '' @ assignment_state_to_string (ar_state r))
                  ScheduleOutcome.RejectStaleAssignment)
          else if ar_state r \<noteq> AssignmentState.Dispatched
          then (impl, err ErrorCode.Conflict
                  (''assignment is not awaiting acknowledgement: ''
                     @ assignment_state_to_string (ar_state r))
                  ScheduleOutcome.RejectConflict)
          else if lease_lapsed impl r
          then (close_assignment k AssignmentState.Expired InvalidationReason.LeaseExpired
                  ''lease expired before acknowledgement'' impl,
                err ErrorCode.LeaseExpired ''assignment lease expired before acknowledgement''
                  ScheduleOutcome.RejectLeaseExpired)
          else (bump_revision (adjust_assignment k
                  (\<lambda>r. r\<lparr>ar_state := AssignmentState.Acknowledged,
                         ar_acknowledged_at_ms := im_now impl\<rparr>) impl), None))"

definition mark_executing :: "Hash128 \<Rightarrow> u64 \<Rightarrow> Hash128 \<Rightarrow> Impl \<Rightarrow> Impl \<times> MutationResult" where
  "mark_executing k generation boot impl =
     observe ''mark_executing'' k generation boot impl (\<lambda>r.
       let err = (\<lambda>code detail oc. Some (make_error code ''mark_executing'' (hash128_to_string k) detail oc))
       in if assignment_state_is_terminal (ar_state r)
          then (impl, err ErrorCode.StaleGeneration ''assignment is terminal''
                  ScheduleOutcome.RejectStaleAssignment)
          else if ar_state r \<noteq> AssignmentState.Acknowledged
                  \<and> ar_state r \<noteq> AssignmentState.Dispatched
                  \<and> ar_state r \<noteq> AssignmentState.Executing
          then (impl, err ErrorCode.Conflict ''assignment has not been acknowledged''
                  ScheduleOutcome.RejectConflict)
          else if lease_lapsed impl r
          then (close_assignment k AssignmentState.Expired InvalidationReason.LeaseExpired
                  ''lease expired before execution'' impl,
                err ErrorCode.LeaseExpired ''assignment lease expired before execution''
                  ScheduleOutcome.RejectLeaseExpired)
          else (bump_revision (refresh_work_accounting (bn_work (ar_binding r))
                  (adjust_assignment k (\<lambda>r. r\<lparr>ar_state := AssignmentState.Executing\<rparr>) impl)), None))"

definition release :: "Hash128 \<Rightarrow> u64 \<Rightarrow> Hash128 \<Rightarrow> string \<Rightarrow> Impl \<Rightarrow> Impl \<times> MutationResult" where
  "release k generation boot reason impl =
     observe ''release'' k generation boot impl (\<lambda>r.
       if assignment_state_is_terminal (ar_state r) then (impl, None)
       else (refresh_agent_accounting (bn_agent (ar_binding r))
               (close_assignment k AssignmentState.Released InvalidationReason.LeaseReleased
                  (if reason = [] then ''released'' else reason) impl), None))"

text \<open>Marking the work item finished when its last assignment closed.\<close>

definition settle_work :: "u64 \<Rightarrow> WorkLifecycle \<Rightarrow> string \<Rightarrow> Impl \<Rightarrow> Impl" where
  "settle_work w lc reason impl =
     (case om_get (im_work impl) w of None \<Rightarrow> impl
      | Some r \<Rightarrow>
          if wr_current_assignments r = 0
          then sync_work_lifecycle_index w lc
                 (adjust_work w (\<lambda>r. r\<lparr>wr_lifecycle := lc, wr_reason := reason\<rparr>) impl)
          else impl)"

definition release_tenant_slot :: "u64 \<Rightarrow> Impl \<Rightarrow> Impl" where
  "release_tenant_slot w impl =
     (case om_get (im_work impl) w of None \<Rightarrow> impl
      | Some r \<Rightarrow> adjust_tenant (rq_tenant (wq_requirements (wr_request r)))
          (\<lambda>t. if tr_active_assignments t > 0
               then t\<lparr>tr_active_assignments := tr_active_assignments t - 1\<rparr> else t) impl)"

definition complete_assignment :: "Hash128 \<Rightarrow> u64 \<Rightarrow> Hash128 \<Rightarrow> Impl \<Rightarrow> Impl \<times> MutationResult" where
  "complete_assignment k generation boot impl =
     observe ''complete_assignment'' k generation boot impl (\<lambda>r.
       if assignment_state_is_terminal (ar_state r) then (impl, None)
       else
         let b = ar_binding r;
             s1 = close_assignment k AssignmentState.Completed InvalidationReason.WorkCompleted
                    ''assignment completed'' impl;
             s2 = refresh_agent_accounting (bn_agent b)
                    (adjust_agent (bn_agent b)
                      (\<lambda>a. a\<lparr>ag_assignments_completed := ag_assignments_completed a + 1\<rparr>) s1);
             s3 = settle_work (bn_work b) WorkLifecycle.Completed ''completed'' s2;
             s4 = adjust_queue (bn_queue b)
                    (\<lambda>q. q\<lparr>qr_completed_count := qr_completed_count q + 1\<rparr>) s3
         in (bump_revision (release_tenant_slot (bn_work b) s4), None))"

definition fail_assignment ::
    "Hash128 \<Rightarrow> u64 \<Rightarrow> Hash128 \<Rightarrow> string \<Rightarrow> Impl \<Rightarrow> Impl \<times> MutationResult" where
  "fail_assignment k generation boot reason impl =
     observe ''fail_assignment'' k generation boot impl (\<lambda>r.
       if assignment_state_is_terminal (ar_state r) then (impl, None)
       else
         let b = ar_binding r;
             s1 = close_assignment k AssignmentState.Failed InvalidationReason.WorkFailed
                    (if reason = [] then ''failed'' else reason) impl;
             s2 = refresh_agent_accounting (bn_agent b)
                    (adjust_agent (bn_agent b)
                      (\<lambda>a. a\<lparr>ag_assignments_failed := ag_assignments_failed a + 1\<rparr>) s1);
             s3 = settle_work (bn_work b) WorkLifecycle.Failed ''failed'' s2;
             s4 = adjust_queue (bn_queue b)
                    (\<lambda>q. q\<lparr>qr_cancelled_count := qr_cancelled_count q + 1\<rparr>) s3
         in (bump_revision (release_tenant_slot (bn_work b) s4), None))"

definition reject_assignment ::
    "Hash128 \<Rightarrow> u64 \<Rightarrow> Hash128 \<Rightarrow> string \<Rightarrow> Impl \<Rightarrow> Impl \<times> MutationResult" where
  "reject_assignment k generation boot reason impl =
     observe ''reject_assignment'' k generation boot impl (\<lambda>r.
       if assignment_state_is_terminal (ar_state r) then (impl, None)
       else
         let b = ar_binding r;
             s1 = close_assignment k AssignmentState.Invalidated InvalidationReason.Rejected
                    (if reason = [] then ''rejected by agent'' else reason) impl;
             s2 = adjust_queue (bn_queue b)
                    (\<lambda>q. q\<lparr>qr_cancelled_count := qr_cancelled_count q + 1\<rparr>) s1
         in (bump_revision (release_tenant_slot (bn_work b) s2), None))"

subsection \<open>Revalidation and lease expiry\<close>

text \<open>Promotion of a record whose authority is current again.\<close>

definition promote_assignment :: "Hash128 \<Rightarrow> AssignmentBinding \<Rightarrow> Impl \<Rightarrow> Impl" where
  "promote_assignment k b impl =
     (let expires = im_now impl + assignment_lease_ttl_ms (im_policy impl);
          s1 = adjust_lease (bn_lease b) (renew_lease expires)
                 (adjust_assignment k (renew_record AssignmentState.Assigned expires) impl);
          s2 = (case om_get (im_assignments s1) k of
                  None \<Rightarrow> s1 | Some r \<Rightarrow> index_assignment r s1)
      in refresh_agent_accounting (bn_agent b) (refresh_work_accounting (bn_work b) s2))"

definition invalidated :: "string list \<Rightarrow> RevalidationReport \<Rightarrow> RevalidationReport" where
  "invalidated lines report = report\<lparr>rp_invalidated := rp_invalidated report + 1,
     rp_details := rp_details report @ lines\<rparr>"

definition promoted :: "AssignmentBinding \<Rightarrow> RevalidationReport \<Rightarrow> RevalidationReport" where
  "promoted b report = report\<lparr>rp_promoted := rp_promoted report + 1,
     rp_details := rp_details report @ [hash128_to_string (bn_id b) @ '' PROMOTED'']\<rparr>"

definition close_stale :: "Hash128 \<Rightarrow> ScheduleOutcome \<times> string \<Rightarrow> Impl \<Rightarrow> Impl" where
  "close_stale k failure impl =
     close_assignment k AssignmentState.Invalidated (reason_for (fst failure))
       (outcome_to_string (fst failure) @ '': '' @ snd failure) impl"

definition revalidate_one :: "Hash128 \<Rightarrow> Impl \<times> RevalidationReport \<Rightarrow> Impl \<times> RevalidationReport" where
  "revalidate_one k st =
     (let impl = fst st in
      case om_get (im_assignments impl) k of None \<Rightarrow> st
      | Some r \<Rightarrow>
          if ar_state r \<noteq> AssignmentState.RevalidationRequired then st
          else let report = (snd st)\<lparr>rp_examined := rp_examined (snd st) + 1\<rparr>;
                   b = ar_binding r; name = hash128_to_string (bn_id b)
            in case revalidate_authority impl r of
                 Some failure \<Rightarrow>
                   (close_stale k failure impl,
                    invalidated [name @ '' '' @ outcome_to_string (fst failure) @ '' '' @ snd failure]
                      report)
               | None \<Rightarrow>
                   (case om_get (im_agents impl) (bn_agent b) of
                      None \<Rightarrow>
                        (close_assignment k AssignmentState.Invalidated InvalidationReason.AgentLost
                           ''incarnation did not revalidate to an accepting lifecycle'' impl,
                         invalidated [name @ '' REVALIDATION_REQUIRED lifecycle''] report)
                    | Some a \<Rightarrow>
                        if \<not> lifecycle_accepts_new_work (ag_lifecycle a)
                        then (close_assignment k AssignmentState.Invalidated
                                InvalidationReason.AgentLost
                                ''incarnation did not revalidate to an accepting lifecycle'' impl,
                              invalidated [name @ '' REVALIDATION_REQUIRED lifecycle''] report)
                        else if ag_active_assignments a \<ge> ad_max_concurrency (ag_descriptor a)
                        then (close_assignment k AssignmentState.Invalidated
                                InvalidationReason.Rejected
                                ''incarnation is at capacity during revalidation'' impl,
                              invalidated [] report)
                        else (promote_assignment k b impl, promoted b report)))"

definition finish_revalidation :: "Impl \<times> RevalidationReport \<Rightarrow> Impl \<times> RevalidationReport" where
  "finish_revalidation st =
     (if rp_examined (snd st) > 0 then (bump_revision (fst st), snd st) else st)"

definition revalidate_assignments :: "Impl \<Rightarrow> Impl \<times> RevalidationReport" where
  "revalidate_assignments impl =
     finish_revalidation (fold revalidate_one (om_keys (im_assignments impl)) (impl, default_report))"

definition revalidate_agent_one ::
    "u64 \<Rightarrow> Hash128 \<Rightarrow> Hash128 \<Rightarrow> Impl \<times> RevalidationReport \<Rightarrow> Impl \<times> RevalidationReport" where
  "revalidate_agent_one agent boot k st =
     (let impl = fst st in
      case om_get (im_assignments impl) k of None \<Rightarrow> st
      | Some r \<Rightarrow>
          if bn_agent (ar_binding r) \<noteq> agent \<or> bn_boot (ar_binding r) \<noteq> boot
             \<or> ar_state r \<noteq> AssignmentState.RevalidationRequired then st
          else let report = (snd st)\<lparr>rp_examined := rp_examined (snd st) + 1\<rparr>; b = ar_binding r
            in case revalidate_authority impl r of
                 Some failure \<Rightarrow>
                   (close_stale k failure impl,
                    invalidated [hash128_to_string (bn_id b) @ '' ''
                                   @ outcome_to_string (fst failure)] report)
               | None \<Rightarrow> (promote_assignment k b impl, promoted b report))"

definition revalidate_agent_assignments ::
    "u64 \<Rightarrow> Hash128 \<Rightarrow> Impl \<Rightarrow> Impl \<times> RevalidationReport" where
  "revalidate_agent_assignments agent boot impl =
     (case om_get (im_agents impl) agent of None \<Rightarrow> (impl, default_report)
      | Some a \<Rightarrow>
          if ad_boot (ag_descriptor a) \<noteq> boot then (impl, default_report)
          else finish_revalidation (fold (revalidate_agent_one agent boot)
                 (om_keys (im_assignments impl)) (impl, default_report)))"

definition expire_leases :: "Impl \<Rightarrow> Impl \<times> MutationResult" where
  "expire_leases impl =
     (close_where (\<lambda>r. record_active r \<and> bn_lease_expires_at_ms (ar_binding r) < im_now impl)
        AssignmentState.Expired InvalidationReason.LeaseExpired ''assignment lease expired'' impl,
      None)"

subsection \<open>Fairness inspection\<close>

definition fairness_entry :: "Impl \<Rightarrow> u64 \<times> WorkRecord \<Rightarrow> FairnessEntry" where
  "fairness_entry impl e =
     (let w = snd e; q = wr_request w; key = fairness_key impl w in
      \<lparr> fe_work = fst e, fe_queue = wq_queue q, fe_tenant = rq_tenant (wq_requirements q),
        fe_fairness_class = wq_fairness_class q, fe_priority = wq_priority q,
        fe_effective_priority = fk_effective_priority key, fe_bypass_count = wr_bypass_count w,
        fe_bypass_ceiling = fk_bypass_ceiling key,
        fe_starvation_rounds = wr_starvation_rounds w,
        fe_admitted_sequence = wr_admitted_sequence w,
        fe_starved = (wr_starvation_rounds w \<ge> starvation_alert_rounds (im_policy impl)),
        fe_must_run = fk_must_run key \<rparr>)"

definition fairness :: "Impl \<Rightarrow> FairnessSnapshot" where
  "fairness impl =
     (let live = filter (\<lambda>e. \<not> work_is_terminal (wr_lifecycle (snd e))) (im_work impl);
          entries = map (fairness_entry impl) live; policy = im_policy impl in
      \<lparr> fn_entries = entries,
        fn_starved_count = of_nat (length (filter fe_starved entries)),
        fn_must_run_count = of_nat (length (filter fe_must_run entries)),
        fn_max_bypass_observed = fold (\<lambda>e m. max m (fe_bypass_count e)) entries 0,
        fn_scheduling_rounds = im_scheduling_rounds impl,
        fn_aging_rounds_per_step = ucast (aging_rounds_per_step policy),
        fn_max_priority_bypass = max_priority_bypass policy,
        fn_bounded_starvation = (\<not> allow_unbounded_starvation policy) \<rparr>)"

end
