(* ===== verification/Batching.thy ===== *)
theory Batching
  imports Committing
begin

section \<open>Batch scheduling\<close>

text \<open>
  schedule_batch of scheduling.cpp: the admissible work items in fairness order, planned and
  committed under one lock, with further passes for parallel fan-out that is still open. The
  number of passes is bounded, so the loop is a recursion on the passes left. work.at(id)
  cannot miss, since the candidate ids are keys of the work map; the model leaves the state
  unchanged in that unreachable case.
\<close>

definition fanout_open :: "WorkRecord \<Rightarrow> bool" where
  "fanout_open w \<longleftrightarrow> wq_mode (wr_request w) = SchedulingMode.Parallel
     \<and> wr_current_assignments w > 0
     \<and> wr_current_assignments w < rq_max_parallel (wq_requirements (wr_request w))"

definition batch_candidate :: "ScheduleRequest \<Rightarrow> u64 \<times> WorkRecord \<Rightarrow> bool" where
  "batch_candidate request e \<longleftrightarrow>
     (work_accepts_assignment (wr_lifecycle (snd e)) \<or> fanout_open (snd e))
     \<and> (sr_queues request = [] \<or> wq_queue (wr_request (snd e)) \<in> set (sr_queues request))
     \<and> (sr_work request = [] \<or> fst e \<in> set (sr_work request))"

definition batch_candidates :: "ScheduleRequest \<Rightarrow> Impl \<Rightarrow> (u64 \<times> WorkRecord) list" where
  "batch_candidates request impl = filter (batch_candidate request) (im_work impl)"

definition batch_max_fanout :: "(u64 \<times> WorkRecord) list \<Rightarrow> u32" where
  "batch_max_fanout cs =
     fold (\<lambda>e m. max m (rq_max_parallel (wq_requirements (wr_request (snd e))))) cs 1"

text \<open>Saturating increments of the bypass and starvation counters.\<close>

definition saturating_inc :: "u32 \<Rightarrow> u32" where
  "saturating_inc n = (if n \<noteq> 0xFFFFFFFF then n + 1 else n)"

definition bump_bypass :: "WorkRecord \<Rightarrow> WorkRecord" where
  "bump_bypass w = w\<lparr>wr_bypass_count := saturating_inc (wr_bypass_count w),
     wr_starvation_rounds := saturating_inc (wr_starvation_rounds w)\<rparr>"

definition reset_bypass :: "WorkRecord \<Rightarrow> WorkRecord" where
  "reset_bypass w = w\<lparr>wr_bypass_count := 0, wr_starvation_rounds := 0\<rparr>"

record BatchState =
  bs_impl :: Impl
  bs_batch :: BatchDecision
  bs_assigned :: nat
  bs_progress :: bool

definition push_decision :: "nat \<Rightarrow> ScheduleDecision \<Rightarrow> BatchDecision \<Rightarrow> BatchDecision" where
  "push_decision pass d batch =
     (if pass = 0 then batch\<lparr>bd_decisions := bd_decisions batch @ [d]\<rparr> else batch)"

definition on_first_pass :: "nat \<Rightarrow> (BatchDecision \<Rightarrow> BatchDecision) \<Rightarrow> BatchDecision \<Rightarrow> BatchDecision" where
  "on_first_pass pass f batch = (if pass = 0 then f batch else batch)"

text \<open>One item of a pass: the body of the loop over the ordered items.\<close>

definition batch_entry :: "ScheduleRequest \<Rightarrow> nat \<Rightarrow> u64 \<Rightarrow> BatchState \<Rightarrow> BatchState" where
  "batch_entry request pass work st =
     (case om_get (im_work (bs_impl st)) work of None \<Rightarrow> st
      | Some w \<Rightarrow>
        let impl = bs_impl st;
            batch = on_first_pass pass (\<lambda>b. b\<lparr>bd_examined := bd_examined b + 1\<rparr>) (bs_batch st)
        in if bs_assigned st \<ge> unat (sr_max_assignments request)
           then (if pass = 0
                 then st\<lparr>bs_impl := adjust_work work bump_bypass impl,
                         bs_batch := batch\<lparr>bd_deferred := bd_deferred batch + 1\<rparr>\<rparr>
                 else st)
           else let plan = plan_locked impl w in
             case pl_binding plan of
               None \<Rightarrow>
                 (if pass = 0
                  then if sd_outcome (pl_decision plan) = ScheduleOutcome.Deferred
                          \<or> sd_outcome (pl_decision plan) = ScheduleOutcome.NoChange
                       then st\<lparr>bs_batch := push_decision pass (pl_decision plan)
                                 (batch\<lparr>bd_deferred := bd_deferred batch + 1\<rparr>)\<rparr>
                       else st\<lparr>bs_impl := adjust_work work bump_bypass impl,
                               bs_batch := push_decision pass (pl_decision plan)
                                 (batch\<lparr>bd_rejected := bd_rejected batch + 1\<rparr>)\<rparr>
                  else st)
             | Some b \<Rightarrow>
                 if sr_dry_run request
                 then st\<lparr>bs_batch := on_first_pass pass
                           (\<lambda>bt. (push_decision pass (pl_decision plan) bt)
                                   \<lparr>bd_deferred := bd_deferred bt + 1\<rparr>) batch\<rparr>
                 else case commit_locked (wq_id (wr_request w)) (wq_generation (wr_request w)) b impl of
                        Inl (oc, detail) \<Rightarrow>
                          st\<lparr>bs_batch := push_decision pass
                               ((pl_decision plan)\<lparr>sd_outcome := oc, sd_detail := detail,
                                                   sd_assignment := None\<rparr>)
                               (on_first_pass pass (\<lambda>b. b\<lparr>bd_rejected := bd_rejected b + 1\<rparr>) batch)\<rparr>
                      | Inr impl' \<Rightarrow>
                          \<lparr> bs_impl = adjust_work work reset_bypass impl',
                            bs_batch = push_decision pass (pl_decision plan)
                              (batch\<lparr>bd_assigned := bd_assigned batch + 1\<rparr>),
                            bs_assigned = bs_assigned st + 1, bs_progress = True \<rparr>)"

text \<open>The items of a pass in fairness order; later passes only keep open fan-out.\<close>

definition batch_ordered :: "nat \<Rightarrow> u64 list \<Rightarrow> Impl \<Rightarrow> (FairnessKey \<times> u64) list" where
  "batch_ordered pass ids impl =
     sort_by (\<lambda>l r. fairness_before (fst l) (fst r))
       (concat (map (\<lambda>id. case om_get (im_work impl) id of None \<Rightarrow> []
          | Some w \<Rightarrow> if pass > 0 \<and> \<not> fanout_open w then [] else [(fairness_key impl w, id)]) ids))"

fun batch_passes :: "ScheduleRequest \<Rightarrow> u64 list \<Rightarrow> nat \<Rightarrow> nat \<Rightarrow> BatchState \<Rightarrow> BatchState" where
  "batch_passes request ids 0 pass st = st"
| "batch_passes request ids (Suc left) pass st =
     (if bs_assigned st \<ge> unat (sr_max_assignments request) then st
      else let ordered = batch_ordered pass ids (bs_impl st) in
        if ordered = [] then st
        else let st' = fold (\<lambda>e. batch_entry request pass (snd e)) ordered
                         (st\<lparr>bs_progress := False\<rparr>)
             in if bs_progress st' then batch_passes request ids left (pass + 1) st' else st')"

definition schedule_batch :: "ScheduleRequest \<Rightarrow> Impl \<Rightarrow> Impl \<times> BatchDecision" where
  "schedule_batch request impl =
     (if \<not> im_running impl \<or> \<not> im_admission_open impl
      then (impl, default_batch\<lparr>bd_outcome := ScheduleOutcome.ShuttingDown\<rparr>)
      else let cs = batch_candidates request impl in
        if length cs > unat (max_candidates_examined (im_limits impl))
        then (impl, default_batch\<lparr>bd_outcome := ScheduleOutcome.RejectLimitExceeded\<rparr>)
        else let pass_limit = max 1 (min (unat (batch_max_fanout cs))
                                         (unat (max_batch_assignments (im_limits impl))));
                 st = batch_passes request (map fst cs) pass_limit 0
                        \<lparr> bs_impl = impl, bs_batch = default_batch, bs_assigned = 0,
                          bs_progress = False \<rparr>;
                 impl' = (bs_impl st)\<lparr>im_scheduling_rounds :=
                           im_scheduling_rounds (bs_impl st) + 1\<rparr>
             in (impl', (bs_batch st)\<lparr>bd_outcome :=
                   (if bd_assigned (bs_batch st) > 0 then ScheduleOutcome.Assigned
                    else ScheduleOutcome.Deferred)\<rparr>))"

subsection \<open>Lifting a state invariant through a batch\<close>

text \<open>
  A predicate that survives a commit of a plan made in the same state, and the bookkeeping
  on work counters, survives the whole batch.
\<close>

lemma batch_entry_inv:
  assumes "I (bs_impl st)"
    and bump: "\<And>s w. I s \<Longrightarrow> I (adjust_work w bump_bypass s)"
    and reset: "\<And>s w. I s \<Longrightarrow> I (adjust_work w reset_bypass s)"
    and commit: "\<And>s k w b. I s \<Longrightarrow> om_get (im_work s) k = Some w \<Longrightarrow>
      pl_binding (plan_locked s w) = Some b \<Longrightarrow>
      commit_problem s (wq_id (wr_request w)) (wq_generation (wr_request w)) b = None \<Longrightarrow>
      I (commit_apply (wq_id (wr_request w)) b s)"
  shows "I (bs_impl (batch_entry request pass work st))"
  using assms(1)
  by (auto simp: batch_entry_def Let_def commit_locked_def bump reset commit
      split: option.split sum.splits)

lemma batch_fold_inv:
  assumes "I (bs_impl st)" and step: "\<And>e st. I (bs_impl st) \<Longrightarrow> I (bs_impl (f e st))"
  shows "I (bs_impl (fold f es st))"
  using assms(1) by (induction es arbitrary: st) (simp_all add: step)

lemma batch_passes_inv:
  assumes "I (bs_impl st)"
    and step: "\<And>p w st. I (bs_impl st) \<Longrightarrow> I (bs_impl (batch_entry request p w st))"
  shows "I (bs_impl (batch_passes request ids left pass st))"
  using assms(1)
proof (induction left arbitrary: pass st)
  case (Suc left)
  define st' where "st' = fold (\<lambda>e. batch_entry request pass (snd e))
    (batch_ordered pass ids (bs_impl st)) (st\<lparr>bs_progress := False\<rparr>)"
  have "I (bs_impl st')"
    unfolding st'_def by (rule batch_fold_inv) (simp_all add: Suc.prems step)
  moreover have "batch_passes request ids (Suc left) pass st \<in>
      {st, st', batch_passes request ids left (pass + 1) st'}"
    by (simp add: Let_def st'_def [symmetric])
  ultimately show ?case using Suc.IH Suc.prems by auto
qed simp

lemma schedule_batch_inv:
  assumes "I s"
    and rounds: "\<And>s n. I s \<Longrightarrow> I (s\<lparr>im_scheduling_rounds := n\<rparr>)"
    and bump: "\<And>s w. I s \<Longrightarrow> I (adjust_work w bump_bypass s)"
    and reset: "\<And>s w. I s \<Longrightarrow> I (adjust_work w reset_bypass s)"
    and commit: "\<And>s k w b. I s \<Longrightarrow> om_get (im_work s) k = Some w \<Longrightarrow>
      pl_binding (plan_locked s w) = Some b \<Longrightarrow>
      commit_problem s (wq_id (wr_request w)) (wq_generation (wr_request w)) b = None \<Longrightarrow>
      I (commit_apply (wq_id (wr_request w)) b s)"
  shows "I (fst (schedule_batch request s))"
proof -
  have entry: "I (bs_impl (batch_entry request p w st))" if "I (bs_impl st)" for p w st
    using that bump reset commit by (rule batch_entry_inv)
  have "I (bs_impl (batch_passes request ids n 0
      \<lparr> bs_impl = s, bs_batch = default_batch, bs_assigned = 0, bs_progress = False \<rparr>))" for ids n
    by (rule batch_passes_inv) (simp_all add: assms(1) entry)
  then show ?thesis using assms(1) by (simp add: schedule_batch_def Let_def rounds)
qed

end
