(* ===== verification/Invariants.thy ===== *)
theory Invariants
  imports Agent_Lifecycle Work_Lifecycle Process_Lifecycle Dispatching Batching
begin

section \<open>The authority invariant and how the state may evolve\<close>

text \<open>
  core_inv states what holds between operations: indexes and counters agree with the
  assignments, every active assignment is bound to the current generation of its work item,
  to the current incarnation of its agent and to the current policy generation, and no work
  item holds more active assignments than its request allows. evolves states how an
  operation may change the state: terminal assignments and fences are permanent, generations
  do not go back. Both are proved for every operation, and safe_step packs them so that an
  operation is treated one mutation at a time.
\<close>

definition agent_auth :: "Impl \<Rightarrow> u64 \<Rightarrow> (u64 \<times> Hash128 \<times> bool \<times> u64 \<times> u64) option" where
  "agent_auth s a = map_option (\<lambda>r. (ad_generation (ag_descriptor r), ad_boot (ag_descriptor r),
     ag_capability_current r, cp_generation (ag_profile r), cp_profile_id (ag_profile r)))
     (om_get (im_agents s) a)"

definition work_req :: "Impl \<Rightarrow> u64 \<Rightarrow> WorkRequest option" where
  "work_req s w = map_option wr_request (om_get (im_work s) w)"

definition binding_core :: "AssignmentBinding \<Rightarrow> AssignmentBinding" where
  "binding_core b = b\<lparr>bn_lease_expires_at_ms := 0\<rparr>"

abbreviation needs_revalidation :: "AssignmentRecord \<Rightarrow> bool" where
  "needs_revalidation r \<equiv> ar_state r = AssignmentState.RevalidationRequired"

text \<open>
  Evidence of an active assignment: current, or the assignment awaits a revalidation that
  cannot succeed, because its evidence was superseded or the scheduler was restarted since.
\<close>

definition evidence_bound :: "bool \<Rightarrow> bool \<Rightarrow> u64 \<Rightarrow> u64 \<Rightarrow> bool \<Rightarrow> u64 \<Rightarrow> u64 \<Rightarrow> bool" where
  "evidence_bound waiting restarted bound_generation bound_profile current generation profile \<longleftrightarrow>
     (if waiting then restarted \<or> bound_generation < generation
      else current \<and> bound_generation = generation \<and> bound_profile = profile)"

definition assignment_bound :: "Impl \<Rightarrow> AssignmentRecord \<Rightarrow> bool" where
  "assignment_bound s r \<longleftrightarrow> (let b = ar_binding r in
     (\<exists>q. work_req s (bn_work b) = Some q \<and> wq_generation q = bn_work_generation b
        \<and> bn_exclusive b = (wq_mode q = SchedulingMode.Exclusive))
     \<and> (\<exists>c cg pid. agent_auth s (bn_agent b)
            = Some (bn_agent_generation b, bn_boot b, c, cg, pid)
          \<and> evidence_bound (needs_revalidation r) (bn_scheduler_epoch b < im_scheduler_epoch s)
                (bn_capability_generation b) (bn_capability_profile b) c cg pid)
     \<and> bn_scheduler_epoch b \<le> im_scheduler_epoch s
     \<and> bn_policy_generation b = po_generation (im_policy s))"

definition fanout_bounded :: "Impl \<Rightarrow> u64 \<Rightarrow> WorkRequest \<Rightarrow> bool" where
  "fanout_bounded s w q \<longleftrightarrow>
     card (assignments_of_work s w) \<le> unat (rq_max_parallel (wq_requirements q))
     \<and> (\<forall>a. card (held_by s w a) \<le> unat (rq_max_assignments_per_agent (wq_requirements q)))"

definition core_inv :: "Impl \<Rightarrow> bool" where
  "core_inv s \<longleftrightarrow> accounts_ok s
     \<and> (\<forall>k r. om_get (im_assignments s) k = Some r \<longrightarrow> record_active r \<longrightarrow> assignment_bound s r)
     \<and> (\<forall>a g b x. agent_auth s a = Some (g, b, x) \<longrightarrow> b \<noteq> hash128_zero)
     \<and> (\<forall>w q. work_req s w = Some q \<longrightarrow> request_wf q \<and> fanout_bounded s w q)
     \<and> (\<forall>a. card (assignments_of_agent s a) < 2 ^ 32)"

text \<open>
  The position of a state in the life of an assignment; all terminal states share the last
  one. An assignment only moves to higher positions.
\<close>

definition assignment_rank :: "AssignmentState \<Rightarrow> nat" where
  "assignment_rank v = min 7 (assignment_state_code v)"

lemma assignment_rank_simps [simp]:
  "assignment_rank AssignmentState.Assigned = 1" "assignment_rank AssignmentState.Dispatched = 2"
  "assignment_rank AssignmentState.Acknowledged = 3" "assignment_rank AssignmentState.Executing = 4"
  "assignment_rank AssignmentState.RevalidationRequired = 6"
  by (simp_all add: assignment_rank_def)

lemma assignment_rank_terminal: "assignment_state_is_terminal v \<Longrightarrow> assignment_rank v = 7"
  by (cases v) (simp_all add: assignment_rank_def)

lemma assignment_rank_le: "assignment_rank v \<le> 7"
  by (simp add: assignment_rank_def)

lemma assignment_rank_active:
  "assignment_state_is_active v \<Longrightarrow> assignment_rank v \<le> 6"
  by (cases v) (simp_all add: assignment_rank_def)

text \<open>The parts of evolves; each is a preorder.\<close>

definition assignments_le :: "Impl \<Rightarrow> Impl \<Rightarrow> bool" where
  "assignments_le s s' \<longleftrightarrow> (\<forall>k r. om_get (im_assignments s) k = Some r \<longrightarrow>
     (\<exists>r'. om_get (im_assignments s') k = Some r'
         \<and> binding_core (ar_binding r') = binding_core (ar_binding r)
         \<and> (assignment_state_is_terminal (ar_state r) \<longrightarrow> r' = r)
         \<and> assignment_rank (ar_state r) \<le> assignment_rank (ar_state r')))"

definition fences_le :: "Impl \<Rightarrow> Impl \<Rightarrow> bool" where
  "fences_le s s' \<longleftrightarrow>
     (\<forall>b f. om_get (im_fenced_boots s) b = Some f \<longrightarrow> om_get (im_fenced_boots s') b = Some f)"

fun auth_le :: "u64 \<times> Hash128 \<times> bool \<times> u64 \<times> u64 \<Rightarrow> u64 \<times> Hash128 \<times> bool \<times> u64 \<times> u64 \<Rightarrow> bool" where
  "auth_le (g, b, c, cg, p) (g', b', c', cg', p') \<longleftrightarrow> g < g' \<or> g' = g \<and> b' = b \<and> cg \<le> cg'"

definition agents_le :: "Impl \<Rightarrow> Impl \<Rightarrow> bool" where
  "agents_le s s' \<longleftrightarrow>
     (\<forall>a x. agent_auth s a = Some x \<longrightarrow> (\<exists>x'. agent_auth s' a = Some x' \<and> auth_le x x'))"

definition work_le :: "Impl \<Rightarrow> Impl \<Rightarrow> bool" where
  "work_le s s' \<longleftrightarrow> (\<forall>w q. work_req s w = Some q \<longrightarrow>
     (\<exists>q'. work_req s' w = Some q' \<and> (wq_generation q < wq_generation q' \<or> q' = q)))"

definition policy_le :: "Impl \<Rightarrow> Impl \<Rightarrow> bool" where
  "policy_le s s' \<longleftrightarrow>
     (po_generation (im_policy s) < po_generation (im_policy s') \<or> im_policy s' = im_policy s)
     \<and> im_limits s' = im_limits s \<and> im_scheduler_id s' = im_scheduler_id s
     \<and> im_scheduler_epoch s' = im_scheduler_epoch s"

definition evolves :: "Impl \<Rightarrow> Impl \<Rightarrow> bool" where
  "evolves s s' \<longleftrightarrow> assignments_le s s' \<and> fences_le s s' \<and> agents_le s s' \<and> work_le s s'
     \<and> policy_le s s'"

definition safe_step :: "Impl \<Rightarrow> Impl \<Rightarrow> bool" where
  "safe_step s s' \<longleftrightarrow> (core_inv s \<longrightarrow> evolves s s' \<and> core_inv s')"

lemma auth_le_refl [simp]: "auth_le x x"
  by (cases x) simp

lemma auth_le_trans: "auth_le x y \<Longrightarrow> auth_le y z \<Longrightarrow> auth_le x z"
  by (cases x; cases y; cases z) (auto intro: order.strict_trans)

lemma evolves_refl [simp]: "evolves s s"
  by (auto simp: evolves_def assignments_le_def fences_le_def agents_le_def work_le_def policy_le_def)

lemma assignments_le_trans:
  assumes "assignments_le s t" and "assignments_le t u"
  shows "assignments_le s u"
  unfolding assignments_le_def
proof (intro allI impI)
  fix k r assume r: "om_get (im_assignments s) k = Some r"
  obtain x where x: "om_get (im_assignments t) k = Some x"
    "binding_core (ar_binding x) = binding_core (ar_binding r)"
    "assignment_state_is_terminal (ar_state r) \<longrightarrow> x = r"
    "assignment_rank (ar_state r) \<le> assignment_rank (ar_state x)"
    using assms(1) r unfolding assignments_le_def by blast
  obtain z where "om_get (im_assignments u) k = Some z"
    "binding_core (ar_binding z) = binding_core (ar_binding x)"
    "assignment_state_is_terminal (ar_state x) \<longrightarrow> z = x"
    "assignment_rank (ar_state x) \<le> assignment_rank (ar_state z)"
    using assms(2) x(1) unfolding assignments_le_def by blast
  with x show "\<exists>z. om_get (im_assignments u) k = Some z
      \<and> binding_core (ar_binding z) = binding_core (ar_binding r)
      \<and> (assignment_state_is_terminal (ar_state r) \<longrightarrow> z = r)
      \<and> assignment_rank (ar_state r) \<le> assignment_rank (ar_state z)"
    by (auto intro: order_trans)
qed

lemma agents_le_trans: "agents_le s t \<Longrightarrow> agents_le t u \<Longrightarrow> agents_le s u"
  unfolding agents_le_def using auth_le_trans by blast

lemma work_le_trans:
  assumes "work_le s t" and "work_le t u"
  shows "work_le s u"
  unfolding work_le_def
proof (intro allI impI)
  fix w q assume "work_req s w = Some q"
  then obtain p where p: "work_req t w = Some p" "wq_generation q < wq_generation p \<or> p = q"
    using assms(1) unfolding work_le_def by blast
  then obtain r where "work_req u w = Some r" "wq_generation p < wq_generation r \<or> r = p"
    using assms(2) unfolding work_le_def by blast
  with p(2) show "\<exists>r. work_req u w = Some r \<and> (wq_generation q < wq_generation r \<or> r = q)"
    using order.strict_trans by blast
qed

lemma policy_le_trans: "policy_le s t \<Longrightarrow> policy_le t u \<Longrightarrow> policy_le s u"
  unfolding policy_le_def by (auto intro: order.strict_trans)

lemma evolves_trans: "evolves s t \<Longrightarrow> evolves t u \<Longrightarrow> evolves s u"
  unfolding evolves_def
  using assignments_le_trans agents_le_trans work_le_trans policy_le_trans
  by (auto simp: fences_le_def)

lemma safe_step_refl [simp]: "safe_step s s"
  by (simp add: safe_step_def)

lemma safe_step_trans: "safe_step s t \<Longrightarrow> safe_step t u \<Longrightarrow> safe_step s u"
  unfolding safe_step_def using evolves_trans by blast

subsection \<open>Steps that leave the authority data alone\<close>

text \<open>The counters and ids the accounting reads.\<close>

definition agent_count :: "Impl \<Rightarrow> u64 \<Rightarrow> (u64 \<times> u32) option" where
  "agent_count s a = map_option (\<lambda>r. (ad_id (ag_descriptor r), ag_active_assignments r))
     (om_get (im_agents s) a)"

definition work_count :: "Impl \<Rightarrow> u64 \<Rightarrow> (u64 \<times> u32) option" where
  "work_count s w = map_option (\<lambda>r. (wq_id (wr_request r), wr_current_assignments r))
     (om_get (im_work s) w)"

lemma agent_accounted_count:
  "agent_accounted s a \<longleftrightarrow> (\<forall>i n. agent_count s a = Some (i, n) \<longrightarrow>
     i = a \<and> n = of_nat (card (assignments_of_agent s a)))"
  by (auto simp: agent_accounted_def agent_count_def)

lemma work_accounted_count:
  "work_accounted s w \<longleftrightarrow> (\<forall>i n. work_count s w = Some (i, n) \<longrightarrow>
     i = w \<and> n = of_nat (card (assignments_of_work s w)))"
  by (auto simp: work_accounted_def work_count_def)

lemma accounts_ok_view:
  assumes "im_assignments s' = im_assignments s" and "im_by_agent s' = im_by_agent s"
    and "im_by_work s' = im_by_work s" and "agent_count s' = agent_count s"
    and "work_count s' = work_count s"
  shows "accounts_ok s' = accounts_ok s"
  using assms indexes_ok_cong [of s' s]
  by (simp add: accounts_ok_def agent_accounted_count work_accounted_count)

lemma held_by_view: "im_assignments s' = im_assignments s \<Longrightarrow> held_by s' w a = held_by s w a"
  by (simp add: held_by_def)

lemma core_inv_view:
  assumes "im_assignments s' = im_assignments s" and "agent_auth s' = agent_auth s"
    and "work_req s' = work_req s"
    and "po_generation (im_policy s') = po_generation (im_policy s)"
    and "im_scheduler_epoch s' = im_scheduler_epoch s"
    and "accounts_ok s \<Longrightarrow> accounts_ok s'"
  shows "core_inv s \<Longrightarrow> core_inv s'"
  using assms by (simp add: core_inv_def assignment_bound_def fanout_bounded_def held_by_def)

text \<open>A step that keeps assignments, authority data and counters.\<close>

lemma quiet_step:
  assumes "im_assignments s' = im_assignments s" and "im_by_agent s' = im_by_agent s"
    and "im_by_work s' = im_by_work s" and "agent_count s' = agent_count s"
    and "work_count s' = work_count s" and "agent_auth s' = agent_auth s"
    and "work_req s' = work_req s" and "im_policy s' = im_policy s"
    and "im_limits s' = im_limits s" and "im_scheduler_id s' = im_scheduler_id s"
    and "im_scheduler_epoch s' = im_scheduler_epoch s" and "fences_le s s'"
  shows "safe_step s s'"
  using assms accounts_ok_view [OF assms(1-5)] core_inv_view [of s' s]
  by (auto simp: safe_step_def evolves_def assignments_le_def agents_le_def work_le_def policy_le_def)

lemma fences_le_same: "im_fenced_boots s' = im_fenced_boots s \<Longrightarrow> fences_le s s'"
  by (simp add: fences_le_def)

lemma agent_views_cong:
  "im_agents s' = im_agents s \<Longrightarrow> agent_auth s' = agent_auth s"
  "im_agents s' = im_agents s \<Longrightarrow> agent_count s' = agent_count s"
  "im_work s' = im_work s \<Longrightarrow> work_req s' = work_req s"
  "im_work s' = im_work s \<Longrightarrow> work_count s' = work_count s"
  by (simp_all add: agent_auth_def agent_count_def work_req_def work_count_def fun_eq_iff)

lemma adjust_agent_views:
  assumes "\<And>r. om_get (im_agents s) a = Some r \<Longrightarrow>
    ad_id (ag_descriptor (f r)) = ad_id (ag_descriptor r)
    \<and> ag_active_assignments (f r) = ag_active_assignments r
    \<and> ad_generation (ag_descriptor (f r)) = ad_generation (ag_descriptor r)
    \<and> ad_boot (ag_descriptor (f r)) = ad_boot (ag_descriptor r)
    \<and> ag_capability_current (f r) = ag_capability_current r
    \<and> cp_generation (ag_profile (f r)) = cp_generation (ag_profile r)
    \<and> cp_profile_id (ag_profile (f r)) = cp_profile_id (ag_profile r)"
  shows "agent_auth (adjust_agent a f s) = agent_auth s"
    and "agent_count (adjust_agent a f s) = agent_count s"
  using assms
  by (auto simp: agent_auth_def agent_count_def fun_eq_iff option.map_comp comp_def
      intro!: option.map_cong0 split: option.splits)

lemma adjust_work_views:
  assumes "\<And>r. om_get (im_work s) w = Some r \<Longrightarrow> wr_request (f r) = wr_request r
    \<and> wr_current_assignments (f r) = wr_current_assignments r"
  shows "work_req (adjust_work w f s) = work_req s"
    and "work_count (adjust_work w f s) = work_count s"
  using assms by (cases "om_get (im_work s) w"; auto simp: work_req_def work_count_def fun_eq_iff)+

end
