(* ===== verification/Safe_Steps.thy ===== *)
theory Safe_Steps
  imports Invariants
begin

section \<open>Every mutation is a safe step\<close>

text \<open>
  The mutations of the operations, one lemma each: the bookkeeping functions, the closing of
  assignments, changes of an active assignment that keep its binding, the marking of
  superseded evidence and the commit of a plan.
\<close>

lemma evolves_view:
  assumes "assignments_le s s'" and "agent_auth s' = agent_auth s" and "work_req s' = work_req s"
    and "im_policy s' = im_policy s" and "im_limits s' = im_limits s"
    and "im_scheduler_id s' = im_scheduler_id s" and "im_scheduler_epoch s' = im_scheduler_epoch s"
    and "fences_le s s'"
  shows "evolves s s'"
  using assms by (auto simp: evolves_def agents_le_def work_le_def policy_le_def)

lemma assignments_le_same: "im_assignments s' = im_assignments s \<Longrightarrow> assignments_le s s'"
  by (simp add: assignments_le_def)

lemma accounted_step:
  assumes "im_assignments s' = im_assignments s" and "agent_auth s' = agent_auth s"
    and "work_req s' = work_req s" and "im_policy s' = im_policy s"
    and "im_limits s' = im_limits s" and "im_scheduler_id s' = im_scheduler_id s"
    and "im_scheduler_epoch s' = im_scheduler_epoch s" and "fences_le s s'"
    and "accounts_ok s \<Longrightarrow> accounts_ok s'"
  shows "safe_step s s'"
  unfolding safe_step_def
  using assms evolves_view [OF assignments_le_same [OF assms(1)] assms(2-8)]
    core_inv_view [OF assms(1-3)] by simp

subsection \<open>Bookkeeping\<close>

lemma fence_boot_step: "safe_step s (fence_boot a b g d s)"
proof -
  have "fences_le s (fence_boot a b g d s)"
    by (auto simp: fences_le_def fence_boot_def boot_is_fenced_def)
  then show ?thesis by (intro quiet_step agent_views_cong; simp)
qed

lemma bookkeeping_steps [intro!]:
  "safe_step s (index_agent r s)" "safe_step s (deindex_agent a s)"
  "safe_step s (index_work wr s)" "safe_step s (deindex_work w s)"
  "safe_step s (sync_agent_lifecycle_index a lc s)" "safe_step s (sync_work_lifecycle_index w wl s)"
  "safe_step s (adjust_lease k l s)" "safe_step s (adjust_queue q fq s)"
  "safe_step s (adjust_tenant t ft s)" "safe_step s (bump_revision s)"
  by (intro quiet_step agent_views_cong fences_le_same; simp)+

lemma stable_agents_auth: "stable_agents s' = stable_agents s \<Longrightarrow> agent_auth s' = agent_auth s"
proof (rule ext)
  fix a assume eq: "stable_agents s' = stable_agents s"
  have "agent_auth t a = map_option (\<lambda>r. (ad_generation (ag_descriptor r), ad_boot (ag_descriptor r),
     ag_capability_current r, cp_generation (ag_profile r), cp_profile_id (ag_profile r)))
     (stable_agents t a)" for t
    by (simp add: agent_auth_def stable_agents_def agent_stable_def option.map_comp comp_def)
  then show "agent_auth s' a = agent_auth s a" using eq by simp
qed

lemma stable_work_req: "stable_work s' = stable_work s \<Longrightarrow> work_req s' = work_req s"
proof (rule ext)
  fix w assume eq: "stable_work s' = stable_work s"
  have "work_req t w = map_option wr_request (stable_work t w)" for t
    by (simp add: work_req_def stable_work_def work_stable_def option.map_comp comp_def)
  then show "work_req s' w = work_req s w" using eq by simp
qed

lemma agent_auth_refresh [simp]: "agent_auth (refresh_agent_accounting a s) = agent_auth s"
  by (rule stable_agents_auth) simp

lemma work_req_refresh [simp]: "work_req (refresh_work_accounting w s) = work_req s"
  by (rule stable_work_req) simp

lemma refresh_agent_step: "safe_step s (refresh_agent_accounting a s)"
  by (rule accounted_step)
    (simp_all add: agent_views_cong(3) [of "refresh_agent_accounting a s" s] fences_le_same
      refresh_agent_keeps_accounts)

lemma refresh_work_step: "safe_step s (refresh_work_accounting w s)"
  by (rule accounted_step)
    (simp_all add: agent_views_cong(1) [of "refresh_work_accounting w s" s] fences_le_same
      refresh_work_keeps_accounts)

lemma adjust_agent_step:
  assumes "\<And>r. om_get (im_agents s) a = Some r \<Longrightarrow>
    ad_id (ag_descriptor (f r)) = ad_id (ag_descriptor r)
    \<and> ag_active_assignments (f r) = ag_active_assignments r
    \<and> ad_generation (ag_descriptor (f r)) = ad_generation (ag_descriptor r)
    \<and> ad_boot (ag_descriptor (f r)) = ad_boot (ag_descriptor r)
    \<and> ag_capability_current (f r) = ag_capability_current r
    \<and> cp_generation (ag_profile (f r)) = cp_generation (ag_profile r)
    \<and> cp_profile_id (ag_profile (f r)) = cp_profile_id (ag_profile r)"
  shows "safe_step s (adjust_agent a f s)"
  using adjust_agent_views [OF assms]
  by (intro quiet_step)
    (simp_all add: agent_views_cong(3,4) [of "adjust_agent a f s" s] fences_le_same)

lemma adjust_work_step:
  assumes "\<And>r. om_get (im_work s) w = Some r \<Longrightarrow> wr_request (f r) = wr_request r
    \<and> wr_current_assignments (f r) = wr_current_assignments r"
  shows "safe_step s (adjust_work w f s)"
  using adjust_work_views [OF assms]
  by (intro quiet_step)
    (simp_all add: agent_views_cong(1,2) [of "adjust_work w f s" s] fences_le_same)

lemma index_stored_step:
  "safe_step s (case om_get (im_agents s) a of None \<Rightarrow> s | Some r \<Rightarrow> index_agent r s)"
  by (auto split: option.split)

lemma refresh_agent_full_step: "safe_step s (refresh_agent a s)"
  unfolding refresh_agent_def Let_def
  by (rule safe_step_trans [OF _ index_stored_step])
    (rule safe_step_trans [OF bookkeeping_steps(2) refresh_agent_step])

subsection \<open>Steps that change assignments\<close>

text \<open>
  Every active record of the new state was active before, with the same core binding and an
  unchanged agent and work item.
\<close>

definition shrinks :: "Impl \<Rightarrow> Impl \<Rightarrow> bool" where
  "shrinks s s' \<longleftrightarrow> (\<forall>k r'. om_get (im_assignments s') k = Some r' \<longrightarrow> record_active r' \<longrightarrow>
     (\<exists>r. om_get (im_assignments s) k = Some r \<and> record_active r
        \<and> binding_core (ar_binding r') = binding_core (ar_binding r)
        \<and> needs_revalidation r' = needs_revalidation r
        \<and> agent_auth s' (bn_agent (ar_binding r)) = agent_auth s (bn_agent (ar_binding r))
        \<and> work_req s' (bn_work (ar_binding r)) = work_req s (bn_work (ar_binding r))
        \<and> bn_policy_generation (ar_binding r) = po_generation (im_policy s')))"

lemma binding_coreD:
  assumes "binding_core b = binding_core c"
  shows "bn_id b = bn_id c" and "bn_work b = bn_work c" and "bn_agent b = bn_agent c"
    and "bn_work_generation b = bn_work_generation c"
    and "bn_agent_generation b = bn_agent_generation c" and "bn_boot b = bn_boot c"
    and "bn_exclusive b = bn_exclusive c" and "bn_generation b = bn_generation c"
    and "bn_capability_generation b = bn_capability_generation c"
    and "bn_capability_profile b = bn_capability_profile c"
    and "bn_policy_generation b = bn_policy_generation c"
    and "bn_scheduler_epoch b = bn_scheduler_epoch c"
  using arg_cong [OF assms, of bn_id] arg_cong [OF assms, of bn_work]
    arg_cong [OF assms, of bn_agent] arg_cong [OF assms, of bn_work_generation]
    arg_cong [OF assms, of bn_agent_generation] arg_cong [OF assms, of bn_boot]
    arg_cong [OF assms, of bn_exclusive] arg_cong [OF assms, of bn_generation]
    arg_cong [OF assms, of bn_capability_generation]
    arg_cong [OF assms, of bn_capability_profile] arg_cong [OF assms, of bn_policy_generation]
    arg_cong [OF assms, of bn_scheduler_epoch]
  by (simp_all add: binding_core_def)

lemma assignment_bound_same:
  assumes "assignment_bound s r" and "binding_core (ar_binding r') = binding_core (ar_binding r)"
    and "needs_revalidation r' = needs_revalidation r"
    and "agent_auth s' (bn_agent (ar_binding r)) = agent_auth s (bn_agent (ar_binding r))"
    and "work_req s' (bn_work (ar_binding r)) = work_req s (bn_work (ar_binding r))"
    and "bn_policy_generation (ar_binding r) = po_generation (im_policy s')"
    and "im_scheduler_epoch s' = im_scheduler_epoch s"
  shows "assignment_bound s' r'"
  using assms(1,3-7) binding_coreD [OF assms(2)]
  by (simp add: assignment_bound_def Let_def)

lemma shrinks_owned:
  assumes "shrinks s s'" and "\<And>b c. binding_core b = binding_core c \<Longrightarrow> owner b = owner c"
  shows "active_owned (im_assignments s') owner j \<subseteq> active_owned (im_assignments s) owner j"
proof
  fix k assume "k \<in> active_owned (im_assignments s') owner j"
  then obtain r' where r': "om_get (im_assignments s') k = Some r'" "record_active r'"
    "owner (ar_binding r') = j" by (auto simp: active_owned_def)
  then obtain r where "om_get (im_assignments s) k = Some r" "record_active r"
    "binding_core (ar_binding r') = binding_core (ar_binding r)"
    using assms(1) unfolding shrinks_def by blast
  moreover then have "owner (ar_binding r) = j" using assms(2) r'(3) by metis
  ultimately show "k \<in> active_owned (im_assignments s) owner j" by (auto simp: active_owned_def)
qed

lemma shrinks_owned_work:
  assumes "shrinks s s'"
  shows "assignments_of_work s' w \<subseteq> assignments_of_work s w"
    and "assignments_of_agent s' a \<subseteq> assignments_of_agent s a"
  by (rule shrinks_owned [OF assms], erule binding_coreD)+

lemma core_inv_shrinks:
  assumes inv: "core_inv s" and sh: "shrinks s s'" and acc: "accounts_ok s'"
    and epoch: "im_scheduler_epoch s' = im_scheduler_epoch s"
    and boots: "\<And>a g b x. agent_auth s' a = Some (g, b, x) \<Longrightarrow> b \<noteq> hash128_zero"
    and reqs: "\<And>w q. work_req s' w = Some q \<Longrightarrow> request_wf q"
  shows "core_inv s'"
  unfolding core_inv_def
proof (intro conjI allI impI acc reqs boots)
  fix k r' assume new: "om_get (im_assignments s') k = Some r'" "record_active r'"
  then obtain r where r: "om_get (im_assignments s) k = Some r" "record_active r"
    "binding_core (ar_binding r') = binding_core (ar_binding r)"
    "needs_revalidation r' = needs_revalidation r"
    "agent_auth s' (bn_agent (ar_binding r)) = agent_auth s (bn_agent (ar_binding r))"
    "work_req s' (bn_work (ar_binding r)) = work_req s (bn_work (ar_binding r))"
    "bn_policy_generation (ar_binding r) = po_generation (im_policy s')"
    using sh unfolding shrinks_def by blast
  moreover have "assignment_bound s r" using inv r(1,2) by (simp add: core_inv_def)
  ultimately show "assignment_bound s' r'" using epoch by (blast intro: assignment_bound_same)
next
  fix w q assume q: "work_req s' w = Some q"
  show "fanout_bounded s' w q"
  proof (cases "assignments_of_work s' w = {}")
    case True
    then show ?thesis by (simp add: fanout_bounded_def held_by_def)
  next
    case False
    then obtain k r' where "om_get (im_assignments s') k = Some r'" "record_active r'"
      "bn_work (ar_binding r') = w" by (auto simp: active_owned_def)
    then have "work_req s w = Some q"
      using sh q binding_coreD(2) unfolding shrinks_def by metis
    then have "fanout_bounded s w q" using inv by (simp add: core_inv_def)
    moreover have "card (assignments_of_work s' w) \<le> card (assignments_of_work s w)"
      by (intro card_mono shrinks_owned_work [OF sh]) simp
    moreover have "card (held_by s' w a) \<le> card (held_by s w a)" for a
      unfolding held_by_def using shrinks_owned_work [OF sh] by (intro card_mono Int_mono) simp_all
    ultimately show ?thesis
      unfolding fanout_bounded_def by (meson order_trans)
  qed
next
  fix a
  have "card (assignments_of_agent s' a) \<le> card (assignments_of_agent s a)"
    by (intro card_mono shrinks_owned_work [OF sh]) simp
  also have "\<dots> < 2 ^ 32" using inv by (simp add: core_inv_def)
  finally show "card (assignments_of_agent s' a) < 2 ^ 32" .
qed

text \<open>The same with authority data and policy unchanged.\<close>

lemma core_inv_boots: "core_inv s \<Longrightarrow> agent_auth s a = Some (g, b, x) \<Longrightarrow> b \<noteq> hash128_zero"
  unfolding core_inv_def by (cases x) blast

lemma core_inv_reqs: "core_inv s \<Longrightarrow> work_req s w = Some q \<Longrightarrow> request_wf q"
  unfolding core_inv_def by blast

lemma core_inv_bound:
  "core_inv s \<Longrightarrow> om_get (im_assignments s) k = Some r \<Longrightarrow> record_active r \<Longrightarrow> assignment_bound s r"
  unfolding core_inv_def by blast

lemma core_inv_card: "core_inv s \<Longrightarrow> card (assignments_of_agent s a) < 2 ^ 32"
  unfolding core_inv_def by blast

lemma core_inv_fanout: "core_inv s \<Longrightarrow> work_req s w = Some q \<Longrightarrow> fanout_bounded s w q"
  unfolding core_inv_def by blast

lemma core_inv_accounts: "core_inv s \<Longrightarrow> accounts_ok s"
  unfolding core_inv_def by blast

lemma bound_policy: "assignment_bound s r \<Longrightarrow>
    bn_policy_generation (ar_binding r) = po_generation (im_policy s)"
  by (simp add: assignment_bound_def Let_def)

lemma core_inv_fewer:
  assumes "core_inv s" and "accounts_ok s'" and "agent_auth s' = agent_auth s"
    and "work_req s' = work_req s" and "im_policy s' = im_policy s"
    and "im_scheduler_epoch s' = im_scheduler_epoch s"
    and "\<And>k r'. om_get (im_assignments s') k = Some r' \<Longrightarrow> record_active r' \<Longrightarrow>
      \<exists>r. om_get (im_assignments s) k = Some r \<and> record_active r
        \<and> binding_core (ar_binding r') = binding_core (ar_binding r)
        \<and> needs_revalidation r' = needs_revalidation r"
  shows "core_inv s'"
proof (rule core_inv_shrinks [OF assms(1)])
  show "shrinks s s'"
    unfolding shrinks_def
  proof (intro allI impI)
    fix k r' assume "om_get (im_assignments s') k = Some r'" "record_active r'"
    then obtain r where "om_get (im_assignments s) k = Some r" "record_active r"
      "binding_core (ar_binding r') = binding_core (ar_binding r)"
      "needs_revalidation r' = needs_revalidation r" using assms(7) by blast
    moreover then have "bn_policy_generation (ar_binding r) = po_generation (im_policy s')"
      using bound_policy core_inv_bound [OF assms(1)] assms(5) by auto
    ultimately show "\<exists>r. om_get (im_assignments s) k = Some r \<and> record_active r
        \<and> binding_core (ar_binding r') = binding_core (ar_binding r)
        \<and> needs_revalidation r' = needs_revalidation r
        \<and> agent_auth s' (bn_agent (ar_binding r)) = agent_auth s (bn_agent (ar_binding r))
        \<and> work_req s' (bn_work (ar_binding r)) = work_req s (bn_work (ar_binding r))
        \<and> bn_policy_generation (ar_binding r) = po_generation (im_policy s')"
      using assms(3,4) by auto
  qed
qed (use assms core_inv_boots core_inv_reqs in auto)

subsection \<open>Closing\<close>

lemma close_assignment_step:
  assumes "assignment_state_is_terminal st"
  shows "safe_step s (close_assignment k st re d s)"
proof -
  let ?s' = "close_assignment k st re d s"
  have auth: "agent_auth ?s' = agent_auth s" and req: "work_req ?s' = work_req s"
    by (rule stable_agents_auth, simp) (rule stable_work_req, simp)
  have "assignments_le s ?s'"
    using assms
    by (auto simp: assignments_le_def close_assignment_get close_effect_def
        assignment_rank_terminal assignment_rank_le)
  then have "evolves s ?s'"
    by (intro evolves_view) (simp_all add: auth req fences_le_same)
  moreover have "core_inv ?s'" if inv: "core_inv s"
  proof (rule core_inv_fewer [OF inv _ auth req])
    show "accounts_ok ?s'"
      using inv assms by (simp add: core_inv_accounts close_assignment_accounts terminal_not_active)
    fix j r' assume new: "om_get (im_assignments ?s') j = Some r'" "record_active r'"
    have "om_get (im_assignments s) j = Some r'"
      using new close_effect_inactive [OF assms]
      by (auto simp: close_assignment_get split: if_splits)
    then show "\<exists>r. om_get (im_assignments s) j = Some r \<and> record_active r
        \<and> binding_core (ar_binding r') = binding_core (ar_binding r)
        \<and> needs_revalidation r' = needs_revalidation r" using new by blast
  qed simp_all
  ultimately show ?thesis by (simp add: safe_step_def)
qed

lemma close_fold_step:
  "assignment_state_is_terminal st \<Longrightarrow> safe_step s (fold (close_if P st re d) ks s)"
  by (induction ks arbitrary: s)
    (auto simp: close_if_def intro: safe_step_trans close_assignment_step)

lemma close_where_step:
  "assignment_state_is_terminal st \<Longrightarrow> safe_step s (close_where P st re d s)"
  by (simp add: close_where_def close_fold_step)

subsection \<open>Changing an active assignment\<close>

lemma adjust_assignment_evolves:
  assumes "\<And>r. om_get (im_assignments s) k = Some r \<Longrightarrow>
    \<not> assignment_state_is_terminal (ar_state r)
    \<and> binding_core (ar_binding (f r)) = binding_core (ar_binding r)
    \<and> assignment_rank (ar_state r) \<le> assignment_rank (ar_state (f r))"
  shows "evolves s (adjust_assignment k f s)"
  using assms by (intro evolves_view agent_views_cong fences_le_same)
    (auto simp: assignments_le_def)

lemma adjust_assignment_accounts:
  assumes "accounts_ok s"
    and "\<And>r. om_get (im_assignments s) k = Some r \<Longrightarrow> record_active (f r) = record_active r
      \<and> binding_core (ar_binding (f r)) = binding_core (ar_binding r)"
  shows "accounts_ok (adjust_assignment k f s)"
proof (cases "om_get (im_assignments s) k")
  case None
  then show ?thesis using assms(1) by (simp add: adjust_assignment_def om_adjust_def)
next
  case (Some r)
  note same = assms(2) [OF Some]
  note core = binding_coreD [OF same [THEN conjunct2]]
  have "active_owned (om_put k (f r) (im_assignments s)) owner j
      = active_owned (im_assignments s) owner j"
    if "owner (ar_binding (f r)) = owner (ar_binding r)" for owner :: "AssignmentBinding \<Rightarrow> u64" and j
    using that Some same by (auto simp: active_owned_def split: if_splits)
  moreover have "indexes_ok (adjust_assignment k f s)"
    using assms(1) Some same core by_agent.matches_update [of "im_assignments s" "im_by_agent s" k r "f r"]
      by_work.matches_update [of "im_assignments s" "im_by_work s" k r "f r"]
    by (auto simp: accounts_ok_def indexes_ok_def om_adjust_def intro!: keyed_put dest: keyed_assignment)
  ultimately show ?thesis
    using assms(1) Some core
    by (simp add: accounts_ok_def agent_accounted_def work_accounted_def om_adjust_def)
qed

lemma adjust_assignment_step:
  assumes "\<And>r. om_get (im_assignments s) k = Some r \<Longrightarrow>
    record_active r \<and> record_active (f r)
    \<and> binding_core (ar_binding (f r)) = binding_core (ar_binding r)
    \<and> needs_revalidation (f r) = needs_revalidation r
    \<and> assignment_rank (ar_state r) \<le> assignment_rank (ar_state (f r))"
  shows "safe_step s (adjust_assignment k f s)"
proof -
  have "evolves s (adjust_assignment k f s)"
    using assms by (intro adjust_assignment_evolves) (auto dest: active_not_terminal)
  moreover have "core_inv (adjust_assignment k f s)" if inv: "core_inv s"
  proof (rule core_inv_fewer [OF inv])
    show "accounts_ok (adjust_assignment k f s)"
      using assms core_inv_accounts [OF inv] by (intro adjust_assignment_accounts) auto
  qed (use assms in \<open>auto intro: agent_views_cong split: if_splits\<close>)
  ultimately show ?thesis by (simp add: safe_step_def)
qed

end
