(* ===== verification/Operation_Safety.thy ===== *)
theory Operation_Safety
  imports Safe_Steps
begin

section \<open>Every operation is a safe step\<close>

text \<open>
  For each critical section of each operation, the state it leaves is a safe_step of the
  state it found: process and policy operations, observations and revalidation, evidence and
  the departure of agents, and the work operations other than admission of new requests.
\<close>

text \<open>The mutations in the form: what was safe so far stays safe after one more.\<close>

lemma after_bump: "safe_step s t \<Longrightarrow> safe_step s (bump_revision t)"
  by (rule safe_step_trans [OF _ bookkeeping_steps(10)])

lemma after_tenant: "safe_step s t \<Longrightarrow> safe_step s (adjust_tenant x f t)"
  by (rule safe_step_trans [OF _ bookkeeping_steps(9)])

lemma after_queue: "safe_step s t \<Longrightarrow> safe_step s (adjust_queue x f t)"
  by (rule safe_step_trans [OF _ bookkeeping_steps(8)])

lemma after_lease: "safe_step s t \<Longrightarrow> safe_step s (adjust_lease x f t)"
  by (rule safe_step_trans [OF _ bookkeeping_steps(7)])

lemma after_sync_work: "safe_step s t \<Longrightarrow> safe_step s (sync_work_lifecycle_index w wl t)"
  by (rule safe_step_trans [OF _ bookkeeping_steps(6)])

lemma after_deindex_agent: "safe_step s t \<Longrightarrow> safe_step s (deindex_agent a t)"
  by (rule safe_step_trans [OF _ bookkeeping_steps(2)])

lemma after_index_work: "safe_step s t \<Longrightarrow> safe_step s (index_work r t)"
  by (rule safe_step_trans [OF _ bookkeeping_steps(3)])

lemma after_fence: "safe_step s t \<Longrightarrow> safe_step s (fence_boot a b g d t)"
  by (rule safe_step_trans [OF _ fence_boot_step])

lemma after_refresh_agent_accounting: "safe_step s t \<Longrightarrow> safe_step s (refresh_agent_accounting a t)"
  by (rule safe_step_trans [OF _ refresh_agent_step])

lemma after_refresh_work: "safe_step s t \<Longrightarrow> safe_step s (refresh_work_accounting w t)"
  by (rule safe_step_trans [OF _ refresh_work_step])

lemma after_refresh_agent: "safe_step s t \<Longrightarrow> safe_step s (refresh_agent a t)"
  by (rule safe_step_trans [OF _ refresh_agent_full_step])

lemma after_close: "assignment_state_is_terminal st \<Longrightarrow> safe_step s t \<Longrightarrow>
    safe_step s (close_assignment k st re d t)"
  by (rule safe_step_trans [OF _ close_assignment_step])

lemma after_close_where: "assignment_state_is_terminal st \<Longrightarrow> safe_step s t \<Longrightarrow>
    safe_step s (close_where P st re d t)"
  by (rule safe_step_trans [OF _ close_where_step])

lemmas safe_after = after_bump after_tenant after_queue after_lease after_sync_work
  after_deindex_agent after_index_work after_fence after_refresh_agent_accounting
  after_refresh_work after_refresh_agent after_close after_close_where

subsection \<open>Process and queues\<close>

lemma time_step: "safe_step s (s\<lparr>im_now := t\<rparr>)"
  by (intro quiet_step agent_views_cong fences_le_same; simp)

lemma rounds_step: "safe_step s (s\<lparr>im_scheduling_rounds := n\<rparr>)"
  by (intro quiet_step agent_views_cong fences_le_same; simp)

lemma start_step: "safe_step s (fst (start s))"
  unfolding start_def
  by (auto intro!: safe_step_trans [OF _ bookkeeping_steps(10)] quiet_step agent_views_cong
      fences_le_same)

lemma shutdown_step: "safe_step s (fst (shutdown s))"
proof -
  let ?s1 = "s\<lparr>im_shutting_down := True, im_admission_open := False, im_running := False,
      im_shutdown_at_ms := im_now s\<rparr>"
  have "safe_step s ?s1"
    by (intro quiet_step agent_views_cong fences_le_same; simp)
  then show ?thesis
    unfolding shutdown_def Let_def by (simp add: after_bump after_close_where)
qed

lemma register_queue_step: "safe_step s (fst (register_queue q g c w s))"
proof -
  have "safe_step s (bump_revision (s\<lparr>im_queues := x\<rparr>))" for x
    by (rule safe_step_trans [OF _ bookkeeping_steps(10)])
      (intro quiet_step agent_views_cong fences_le_same; simp)
  moreover have "safe_step s (bump_revision (adjust_queue q f s))" for f
    by (rule safe_step_trans [OF bookkeeping_steps(8) bookkeeping_steps(10)])
  ultimately show ?thesis
    by (simp add: register_queue_def Let_def split: option.split)
qed

lemma set_policy_step: "safe_step s (fst (set_policy p s))"
proof (cases "validate_policy p (im_limits s) = None \<and> po_generation (im_policy s) < po_generation p")
  case False
  then show ?thesis
    by (cases "validate_policy p (im_limits s)") (simp_all add: set_policy_def Let_def)
next
  case True
  let ?s1 = "bump_revision (s\<lparr>im_policy := p\<rparr>)"
  let ?P = "\<lambda>r. record_active r \<and> bn_policy_generation (ar_binding r) \<noteq> po_generation p"
  let ?s2 = "close_where ?P AssignmentState.Invalidated InvalidationReason.PolicyChanged
    ''policy generation moved under an active assignment'' ?s1"
  have "\<not> po_generation p < po_generation (im_policy s)" "po_generation p \<noteq> po_generation (im_policy s)"
    using True by auto
  then have res: "fst (set_policy p s) = ?s2"
    using True by (simp add: set_policy_def Let_def)
  have auth: "agent_auth ?s2 = agent_auth s" and req: "work_req ?s2 = work_req s"
  proof -
    have "agent_auth ?s2 = agent_auth ?s1" by (rule stable_agents_auth) simp
    moreover have "agent_auth ?s1 = agent_auth s" by (rule agent_views_cong) simp
    ultimately show "agent_auth ?s2 = agent_auth s" by simp
    have "work_req ?s2 = work_req ?s1" by (rule stable_work_req) simp
    moreover have "work_req ?s1 = work_req s" by (rule agent_views_cong) simp
    ultimately show "work_req ?s2 = work_req s" by simp
  qed
  have get: "om_get (im_assignments ?s2) k = map_option (\<lambda>r. if ?P r
      then close_effect (im_now s) AssignmentState.Invalidated InvalidationReason.PolicyChanged
        ''policy generation moved under an active assignment'' r else r) (om_get (im_assignments s) k)"
    for k by (simp add: close_where_get cong: if_cong)
  have "assignments_le s ?s2"
    by (auto simp: assignments_le_def get close_effect_def assignment_rank_terminal
        assignment_rank_le)
  then have "evolves s ?s2"
    using True auth req
    by (simp add: evolves_def agents_le_def work_le_def policy_le_def fences_le_def)
  moreover have "core_inv ?s2" if inv: "core_inv s"
  proof (rule core_inv_shrinks [OF inv])
    show "accounts_ok ?s2"
    proof (rule close_where_accounts)
      have "accounts_ok ?s1 = accounts_ok s"
        by (intro accounts_ok_view agent_views_cong) simp_all
      then show "accounts_ok ?s1" using core_inv_accounts [OF inv] by simp
    qed simp
    show "shrinks s ?s2"
      unfolding shrinks_def
    proof (intro allI impI)
      fix k r' assume new: "om_get (im_assignments ?s2) k = Some r'" "record_active r'"
      have "om_get (im_assignments s) k = Some r'" "\<not> ?P r'"
        using close_where_none_left [OF _ new] by auto
      then show "\<exists>r. om_get (im_assignments s) k = Some r \<and> record_active r
        \<and> binding_core (ar_binding r') = binding_core (ar_binding r)
        \<and> needs_revalidation r' = needs_revalidation r
        \<and> agent_auth ?s2 (bn_agent (ar_binding r)) = agent_auth s (bn_agent (ar_binding r))
        \<and> work_req ?s2 (bn_work (ar_binding r)) = work_req s (bn_work (ar_binding r))
        \<and> bn_policy_generation (ar_binding r) = po_generation (im_policy ?s2)"
        using new(2) auth req by auto
    qed
  qed (use auth req core_inv_boots [OF inv] core_inv_reqs [OF inv] in auto)
  ultimately show ?thesis by (simp add: res safe_step_def)
qed

subsection \<open>Observations\<close>

lemma lookup_assignment_Inr:
  "lookup_assignment s k g b = Inr r \<Longrightarrow>
     om_get (im_assignments s) k = Some r \<and> bn_generation (ar_binding r) = g
     \<and> \<not> boot_is_fenced s (bn_boot (ar_binding r))
     \<and> (b \<noteq> hash128_zero \<longrightarrow> bn_boot (ar_binding r) = b)"
  by (auto simp: lookup_assignment_def hash128_is_zero_iff split: option.splits if_splits)

lemma observe_step:
  assumes "\<And>r. om_get (im_assignments s) k = Some r \<Longrightarrow> safe_step s (fst (f r))"
  shows "safe_step s (fst (observe oper k g b s f))"
  using assms by (auto simp: observe_def dest: lookup_assignment_Inr split: sum.split)

lemma acknowledge_step: "safe_step s (fst (acknowledge k g di dg b s))"
  unfolding acknowledge_def Let_def
proof (rule observe_step)
  fix r assume r: "om_get (im_assignments s) k = Some r"
  have "safe_step s (adjust_assignment k (\<lambda>r. r\<lparr>ar_state := AssignmentState.Acknowledged,
      ar_acknowledged_at_ms := im_now s\<rparr>) s)" if "ar_state r = AssignmentState.Dispatched"
    using that r by (intro adjust_assignment_step) simp
  then show "safe_step s (fst (if bn_dispatch (ar_binding r) \<noteq> di
             \<or> bn_dispatch_generation (ar_binding r) \<noteq> dg then (s, X1)
          else if ar_state r = AssignmentState.Acknowledged \<or> ar_state r = AssignmentState.Executing
          then (s, None)
          else if assignment_state_is_terminal (ar_state r) then (s, X2)
          else if ar_state r \<noteq> AssignmentState.Dispatched then (s, X3)
          else if lease_lapsed s r
          then (close_assignment k AssignmentState.Expired re d s, X4)
          else (bump_revision (adjust_assignment k
                  (\<lambda>r. r\<lparr>ar_state := AssignmentState.Acknowledged,
                         ar_acknowledged_at_ms := im_now s\<rparr>) s), None)))" for X1 X2 X3 X4 re d
    by (simp add: close_assignment_step after_bump)
qed

lemma mark_executing_step: "safe_step s (fst (mark_executing k g b s))"
  unfolding mark_executing_def Let_def
proof (rule observe_step)
  fix r assume r: "om_get (im_assignments s) k = Some r"
  let ?t = "adjust_assignment k (\<lambda>r. r\<lparr>ar_state := AssignmentState.Executing\<rparr>) s"
  have "safe_step s (refresh_work_accounting w ?t)"
    if "ar_state r = AssignmentState.Acknowledged \<or> ar_state r = AssignmentState.Dispatched
        \<or> ar_state r = AssignmentState.Executing" for w
    using that r by (intro safe_step_trans [OF _ refresh_work_step] adjust_assignment_step) auto
  then show "safe_step s (fst (if assignment_state_is_terminal (ar_state r) then (s, X1)
          else if ar_state r \<noteq> AssignmentState.Acknowledged
                  \<and> ar_state r \<noteq> AssignmentState.Dispatched
                  \<and> ar_state r \<noteq> AssignmentState.Executing then (s, X2)
          else if lease_lapsed s r
          then (close_assignment k AssignmentState.Expired re d s, X3)
          else (bump_revision (refresh_work_accounting (bn_work (ar_binding r)) ?t), None)))"
    for X1 X2 X3 re d
    by (auto simp: close_assignment_step after_bump)
qed

lemma release_step: "safe_step s (fst (release k g b reason s))"
  unfolding release_def
  by (rule observe_step) (simp add: safe_after)

lemma after_settle_work: "safe_step s t \<Longrightarrow> safe_step s (settle_work w lc reason t)"
  unfolding settle_work_def
  by (rule safe_step_trans [of s t]; simp split: option.split)
    (intro allI impI after_sync_work adjust_work_step; simp)

lemma after_release_tenant_slot: "safe_step s t \<Longrightarrow> safe_step s (release_tenant_slot w t)"
  by (simp add: release_tenant_slot_def after_tenant split: option.split)

lemma after_agent_tally:
  assumes "safe_step s t"
  shows "safe_step s (adjust_agent a (\<lambda>r. r\<lparr>ag_assignments_completed := f r\<rparr>) t)"
    and "safe_step s (adjust_agent a (\<lambda>r. r\<lparr>ag_assignments_failed := f r\<rparr>) t)"
  by (rule safe_step_trans [OF assms adjust_agent_step]; simp)+

lemma complete_assignment_step: "safe_step s (fst (complete_assignment k g b s))"
  unfolding complete_assignment_def Let_def
  by (rule observe_step)
    (simp add: safe_after after_release_tenant_slot after_settle_work after_agent_tally)

lemma fail_assignment_step: "safe_step s (fst (fail_assignment k g b reason s))"
  unfolding fail_assignment_def Let_def
  by (rule observe_step)
    (simp add: safe_after after_release_tenant_slot after_settle_work after_agent_tally)

lemma reject_assignment_step: "safe_step s (fst (reject_assignment k g b reason s))"
  unfolding reject_assignment_def Let_def
  by (rule observe_step) (simp add: safe_after after_release_tenant_slot)

lemma expire_leases_step: "safe_step s (fst (expire_leases s))"
  by (simp add: expire_leases_def close_where_step)

subsection \<open>Dispatch\<close>

lemma renew_record_sel [simp]:
  "ar_state (renew_record st e r) = st"
  "binding_core (ar_binding (renew_record st e r)) = binding_core (ar_binding r)"
  by (simp_all add: renew_record_def binding_core_def)

lemma handoff_record_sel [simp]:
  "ar_state (handoff_record n e r) = AssignmentState.Dispatched"
  "binding_core (ar_binding (handoff_record n e r)) = binding_core (ar_binding r)"
  by (simp_all add: handoff_record_def renew_record_def binding_core_def)

lemma dispatch_commit_step: "safe_step s (fst (dispatch_commit k g s))"
proof (cases "om_get (im_assignments s) k")
  case (Some r)
  have "safe_step s (adjust_assignment k (handoff_record n e) s)"
    if "ar_state r = AssignmentState.Assigned" for n e
    using that Some by (intro adjust_assignment_step) simp
  then have "safe_step s (bump_revision (adjust_lease l f (adjust_assignment k (handoff_record n e) s)))"
    if "ar_state r = AssignmentState.Assigned" for n e l f
    using that by (intro safe_after)
  then show ?thesis
    using Some by (auto simp: dispatch_commit_def Let_def split: option.split)
qed (simp add: dispatch_commit_def)

subsection \<open>Revalidation\<close>

lemma revalidate_authority_None:
  assumes "revalidate_authority s r = None"
  obtains w a where "om_get (im_work s) (bn_work (ar_binding r)) = Some w"
    and "om_get (im_agents s) (bn_agent (ar_binding r)) = Some a"
    and "bound_authority_current s (ar_binding r)"
    and "revalidate_work s (ar_binding r) w = None"
    and "revalidate_agent s (ar_binding r) w a = None"
  using assms that
  by (auto simp: revalidate_authority_def Let_def first_some_Cons_None bound_authority_current_def
      split: option.splits if_splits)

lemma revalidate_agent_None:
  "revalidate_agent s b w a = None \<Longrightarrow>
     ad_generation (ag_descriptor a) = bn_agent_generation b
     \<and> ad_boot (ag_descriptor a) = bn_boot b \<and> \<not> boot_is_fenced s (bn_boot b)
     \<and> ag_lifecycle a \<noteq> AgentLifecycle.Lost \<and> ag_lifecycle a \<noteq> AgentLifecycle.Retired
     \<and> ag_lifecycle a \<noteq> AgentLifecycle.Draining
     \<and> cp_generation (ag_profile a) = bn_capability_generation b
     \<and> cp_profile_id (ag_profile a) = bn_capability_profile b
     \<and> cp_boot (ag_profile a) = bn_boot b \<and> capability_fresh s a"
  by (auto simp: revalidate_agent_def Let_def first_some_Cons_None split: if_splits)

text \<open>In a state with the invariant, superseded evidence never becomes current again.\<close>

lemma superseded_never_revalidates:
  assumes inv: "core_inv s" and r: "om_get (im_assignments s) k = Some r" "needs_revalidation r"
  shows "revalidate_authority s r \<noteq> None"
proof
  assume none: "revalidate_authority s r = None"
  then obtain w a where a: "om_get (im_agents s) (bn_agent (ar_binding r)) = Some a"
    "revalidate_agent s (ar_binding r) w a = None" "bound_authority_current s (ar_binding r)"
    by (rule revalidate_authority_None)
  have "assignment_bound s r" using inv r by (simp add: core_inv_bound)
  then have "bn_capability_generation (ar_binding r) < cp_generation (ag_profile a)"
    using a r(2) by (auto simp: assignment_bound_def evidence_bound_def agent_auth_def Let_def
        bound_authority_current_def)
  then show False using revalidate_agent_None [OF a(2)] by simp
qed

lemma promote_step:
  assumes "om_get (im_assignments s) k = Some r" and "needs_revalidation r"
    and "revalidate_authority s r = None"
  shows "safe_step s (promote_assignment k b s)"
  using assms superseded_never_revalidates unfolding safe_step_def by blast

lemma revalidate_one_step: "safe_step (fst st) (fst (revalidate_one k st))"
  unfolding revalidate_one_def Let_def close_stale_def
  by (auto split: option.split intro: close_assignment_step promote_step)

lemma revalidate_agent_one_step: "safe_step (fst st) (fst (revalidate_agent_one a b k st))"
  unfolding revalidate_agent_one_def Let_def close_stale_def
  by (auto split: option.split intro: close_assignment_step promote_step)

lemma fold_fst_step:
  assumes "\<And>x st. safe_step (fst st) (fst (f x st))"
  shows "safe_step (fst st) (fst (fold f xs st))"
  by (induction xs arbitrary: st) (simp, metis assms fold_simps(2) safe_step_trans)

lemma finish_revalidation_step: "safe_step (fst st) (fst (finish_revalidation st))"
  by (auto simp: finish_revalidation_def)

lemma revalidate_assignments_step: "safe_step s (fst (revalidate_assignments s))"
  unfolding revalidate_assignments_def
  using safe_step_trans [OF fold_fst_step [where f = revalidate_one, OF revalidate_one_step]
      finish_revalidation_step] by (metis fst_conv)

lemma revalidate_agent_assignments_step: "safe_step s (fst (revalidate_agent_assignments a b s))"
proof -
  have "safe_step s (fst (finish_revalidation (fold (revalidate_agent_one a b) ks (s, r))))" for ks r
    using safe_step_trans [OF fold_fst_step [where f = "revalidate_agent_one a b",
          OF revalidate_agent_one_step] finish_revalidation_step] by (metis fst_conv)
  then show ?thesis by (simp add: revalidate_agent_assignments_def split: option.split)
qed

end
