(* ===== verification/Agent_Safety.thy ===== *)
theory Agent_Safety
  imports Operation_Safety
begin

section \<open>Agent operations are safe steps\<close>

subsection \<open>Replacing the record of an agent without active assignments\<close>

lemma active_bound_agent:
  assumes "core_inv s" and "om_get (im_assignments s) k = Some r" and "record_active r"
  obtains c cg p where "agent_auth s (bn_agent (ar_binding r))
      = Some (bn_agent_generation (ar_binding r), bn_boot (ar_binding r), c, cg, p)"
  using core_inv_bound [OF assms] that by (auto simp: assignment_bound_def Let_def)

lemma active_bound_work:
  assumes "core_inv s" and "om_get (im_assignments s) k = Some r" and "record_active r"
  obtains q where "work_req s (bn_work (ar_binding r)) = Some q"
    and "wq_generation q = bn_work_generation (ar_binding r)"
    and "bn_exclusive (ar_binding r) = (wq_mode q = SchedulingMode.Exclusive)"
  using core_inv_bound [OF assms] that by (auto simp: assignment_bound_def Let_def)

lemma owned_empty_iff:
  "active_owned m owner j = {} \<longleftrightarrow>
     (\<forall>k r. om_get m k = Some r \<longrightarrow> record_active r \<longrightarrow> owner (ar_binding r) \<noteq> j)"
  by (auto simp: active_owned_def)

lemma unknown_agent_owns_nothing:
  assumes "core_inv s" and "om_get (im_agents s) a = None"
  shows "assignments_of_agent s a = {}"
  unfolding owned_empty_iff
proof (intro allI impI notI)
  fix k r assume r: "om_get (im_assignments s) k = Some r" "record_active r"
    "bn_agent (ar_binding r) = a"
  obtain x where "agent_auth s (bn_agent (ar_binding r)) = Some x"
    using active_bound_agent [OF assms(1) r(1,2)] by blast
  then show False using assms(2) r(3) by (simp add: agent_auth_def)
qed

lemma unknown_work_owns_nothing:
  assumes "core_inv s" and "om_get (im_work s) w = None"
  shows "assignments_of_work s w = {}"
  unfolding owned_empty_iff
proof (intro allI impI notI)
  fix k r assume r: "om_get (im_assignments s) k = Some r" "record_active r"
    "bn_work (ar_binding r) = w"
  obtain x where "work_req s (bn_work (ar_binding r)) = Some x"
    using active_bound_work [OF assms(1) r(1,2)] by blast
  then show False using assms(2) r(3) by (simp add: work_req_def)
qed

lemma replace_agent_core:
  assumes inv: "core_inv s" and none: "assignments_of_agent s a = {}"
    and id: "ad_id (ag_descriptor r') = a" and active: "ag_active_assignments r' = 0"
    and boot: "ad_boot (ag_descriptor r') \<noteq> hash128_zero"
  shows "core_inv (s\<lparr>im_agents := om_put a r' (im_agents s)\<rparr>)"
proof (rule core_inv_shrinks [OF inv])
  let ?s' = "s\<lparr>im_agents := om_put a r' (im_agents s)\<rparr>"
  have auth: "agent_auth ?s' x = agent_auth s x" if "x \<noteq> a" for x
    using that by (simp add: agent_auth_def)
  have req: "work_req ?s' = work_req s" by (rule agent_views_cong) simp
  show "shrinks s ?s'"
    unfolding shrinks_def
  proof (intro allI impI)
    fix k r assume r: "om_get (im_assignments ?s') k = Some r" "record_active r"
    then have "bn_agent (ar_binding r) \<noteq> a"
      using none by (auto simp: owned_empty_iff)
    moreover have "bn_policy_generation (ar_binding r) = po_generation (im_policy s)"
      using r core_inv_bound [OF inv] bound_policy by simp
    ultimately show "\<exists>r0. om_get (im_assignments s) k = Some r0 \<and> record_active r0
        \<and> binding_core (ar_binding r) = binding_core (ar_binding r0)
        \<and> needs_revalidation r = needs_revalidation r0
        \<and> agent_auth ?s' (bn_agent (ar_binding r0)) = agent_auth s (bn_agent (ar_binding r0))
        \<and> work_req ?s' (bn_work (ar_binding r0)) = work_req s (bn_work (ar_binding r0))
        \<and> bn_policy_generation (ar_binding r0) = po_generation (im_policy ?s')"
      using r by (auto simp: auth req)
  qed
  show "accounts_ok ?s'"
    using core_inv_accounts [OF inv] none id active
    by (auto simp: accounts_ok_def indexes_ok_def agent_accounted_def work_accounted_def)
  show "b \<noteq> hash128_zero" if "agent_auth ?s' x = Some (g, b, y)" for x g b y
    using that boot core_inv_boots [OF inv] auth by (cases "x = a") (auto simp: agent_auth_def)
  show "request_wf q" if "work_req ?s' x = Some q" for x q
    using that core_inv_reqs [OF inv] by (simp add: req)
qed simp

lemma put_agent_evolves:
  assumes "\<And>x. agent_auth s a = Some x \<Longrightarrow>
    auth_le x (ad_generation (ag_descriptor r'), ad_boot (ag_descriptor r'),
      ag_capability_current r', cp_generation (ag_profile r'), cp_profile_id (ag_profile r'))"
  shows "evolves s (s\<lparr>im_agents := om_put a r' (im_agents s)\<rparr>)"
proof -
  let ?s' = "s\<lparr>im_agents := om_put a r' (im_agents s)\<rparr>"
  have "\<exists>x'. agent_auth ?s' b = Some x' \<and> auth_le x x'" if "agent_auth s b = Some x" for b x
    using that assms by (cases "b = a") (auto simp: agent_auth_def)
  then have "agents_le s ?s'" by (simp add: agents_le_def)
  moreover have "work_req ?s' = work_req s" by (rule agent_views_cong) simp
  ultimately show ?thesis
    by (simp add: evolves_def assignments_le_def fences_le_def work_le_def policy_le_def)
qed

text \<open>A step whose invariant part may use the invariant of an earlier state.\<close>

lemma safe_step_via:
  "safe_step s t \<Longrightarrow> evolves t u \<Longrightarrow> (core_inv s \<Longrightarrow> core_inv t \<Longrightarrow> core_inv u) \<Longrightarrow> safe_step s u"
  unfolding safe_step_def using evolves_trans by blast

subsection \<open>Registration\<close>

lemma fresh_agent_sel [simp]:
  "ag_descriptor (fresh_agent d t s) = canonical_descriptor d"
  "ag_active_assignments (fresh_agent d t s) = 0"
  by (simp_all add: fresh_agent_def default_agent_record_def)

lemma canonical_descriptor_sel [simp]:
  "ad_id (canonical_descriptor d) = ad_id d" "ad_generation (canonical_descriptor d) = ad_generation d"
  "ad_boot (canonical_descriptor d) = ad_boot d"
  "ad_max_concurrency (canonical_descriptor d) = ad_max_concurrency d"
  by (simp_all add: canonical_descriptor_def)

lemma after_index_stored:
  "safe_step s t \<Longrightarrow>
   safe_step s (case om_get (im_agents t) a of None \<Rightarrow> t | Some r \<Rightarrow> index_agent r t)"
  by (rule safe_step_trans [OF _ index_stored_step])

lemma register_new_step:
  assumes "om_get (im_agents s) (ad_id d) = None" and "ad_boot d \<noteq> hash128_zero"
  shows "safe_step s (register_new d s)"
proof -
  have "safe_step s (s\<lparr>im_agents := om_put (ad_id d) (fresh_agent d t s) (im_agents s)\<rparr>)" for t
  proof (rule safe_step_via [OF safe_step_refl put_agent_evolves])
    assume "core_inv s"
    then show "core_inv (s\<lparr>im_agents := om_put (ad_id d) (fresh_agent d t s) (im_agents s)\<rparr>)"
      using assms unknown_agent_owns_nothing by (intro replace_agent_core) simp_all
  qed (use assms in \<open>simp add: agent_auth_def\<close>)
  then show ?thesis
    using assms unfolding register_new_def Let_def
    by (intro after_bump safe_step_trans [OF _ bookkeeping_steps(1)]) (simp add: om_emplace_absent)
qed

text \<open>After all assignments of an incarnation are closed, its agent has none left.\<close>

lemma close_all_active_empties:
  assumes "core_inv s" and "om_get (im_agents s) a = Some r" and "ad_boot (ag_descriptor r) = boot"
    and "assignment_state_is_terminal st"
  shows "assignments_of_agent (close_all_active boot st re d s) a = {}"
  unfolding owned_empty_iff
proof (intro allI impI notI)
  fix k x assume x: "om_get (im_assignments (close_all_active boot st re d s)) k = Some x"
    "record_active x" "bn_agent (ar_binding x) = a"
  note kept = close_where_none_left [OF assms(4) x(1) [unfolded close_all_active_def] x(2)]
  from kept x(2) have "om_get (im_assignments s) k = Some x" "bn_boot (ar_binding x) \<noteq> boot"
    by simp_all
  moreover from this(1) obtain c cg p where "agent_auth s (bn_agent (ar_binding x))
      = Some (bn_agent_generation (ar_binding x), bn_boot (ar_binding x), c, cg, p)"
    using active_bound_agent [OF assms(1) _ x(2)] by blast
  ultimately show False
    using assms(2,3) x(3) by (simp add: agent_auth_def)
qed

lemma after_close_all:
  "assignment_state_is_terminal st \<Longrightarrow> safe_step s t \<Longrightarrow> safe_step s (close_all_active b st re d t)"
  by (simp add: close_all_active_def after_close_where)

lemma close_all_active_frame [simp]:
  "stable_agents (close_all_active b st re d s) = stable_agents s"
  "im_fenced_boots (close_all_active b st re d s) = im_fenced_boots s"
  "im_policy (close_all_active b st re d s) = im_policy s"
  "im_now (close_all_active b st re d s) = im_now s"
  by (simp_all add: close_all_active_def)

lemma owned_same: "im_assignments s' = im_assignments s \<Longrightarrow>
    active_owned (im_assignments s') owner j = active_owned (im_assignments s) owner j"
  by simp

text \<open>The state in which reincarnate stores the new record.\<close>

definition cleared_incarnation :: "u64 \<Rightarrow> AgentRecord \<Rightarrow> Impl \<Rightarrow> Impl" where
  "cleared_incarnation a existing s =
     (let old = ag_descriptor existing in deindex_agent a
        (if hash128_is_zero (ad_boot old) then s
         else close_all_active (ad_boot old) AssignmentState.Lost InvalidationReason.AgentFenced
                ''agent incarnation replaced by a newer generation''
                (fence_boot a (ad_boot old) (ad_generation old) ''replaced by reincarnation'' s)))"

lemma cleared_incarnation_step: "safe_step s (cleared_incarnation a existing s)"
  by (simp add: cleared_incarnation_def Let_def after_deindex_agent after_close_all after_fence)

lemma cleared_incarnation_auth: "agent_auth (cleared_incarnation a existing s) = agent_auth s"
proof -
  have fence: "agent_auth (fence_boot a b g d s) = agent_auth s" for b g d
    by (rule agent_views_cong) simp
  have deindex: "agent_auth (deindex_agent a t) = agent_auth t" for t
    by (rule agent_views_cong) simp
  show ?thesis
    by (simp add: cleared_incarnation_def Let_def deindex fence
        stable_agents_auth [OF close_all_active_frame(1)])
qed

lemma cleared_incarnation_empties:
  assumes inv: "core_inv s" and old: "om_get (im_agents s) a = Some existing"
  shows "assignments_of_agent (cleared_incarnation a existing s) a = {}"
proof -
  let ?b = "ad_boot (ag_descriptor existing)"
  have nz: "\<not> hash128_is_zero ?b"
    using core_inv_boots [OF inv, of a "ad_generation (ag_descriptor existing)" ?b] old
    by (simp add: agent_auth_def hash128_is_zero_iff)
  have "core_inv (fence_boot a ?b g d s)" for g d
    using fence_boot_step inv unfolding safe_step_def by blast
  then show ?thesis
    using nz old by (simp add: cleared_incarnation_def Let_def close_all_active_empties)
qed

lemma reincarnate_step:
  assumes old: "om_get (im_agents s) (ad_id d) = Some existing"
    and gen: "ad_generation (ag_descriptor existing) < ad_generation d"
    and boot: "ad_boot d \<noteq> hash128_zero"
  shows "safe_step s (reincarnate d existing s)"
proof -
  let ?a = "ad_id d" and ?t = "cleared_incarnation (ad_id d) existing s"
  let ?r = "fresh_agent d ''reincarnated'' s"
  have "safe_step s (?t\<lparr>im_agents := om_put ?a ?r (im_agents ?t)\<rparr>)"
  proof (rule safe_step_via [OF cleared_incarnation_step put_agent_evolves])
    fix x assume "agent_auth ?t ?a = Some x"
    then have "fst x = ad_generation (ag_descriptor existing)"
      using old by (auto simp: cleared_incarnation_auth agent_auth_def)
    then show "auth_le x (ad_generation (ag_descriptor ?r), ad_boot (ag_descriptor ?r),
        ag_capability_current ?r, cp_generation (ag_profile ?r), cp_profile_id (ag_profile ?r))"
      using gen by (cases x) simp
  next
    assume "core_inv s" and "core_inv ?t"
    then show "core_inv (?t\<lparr>im_agents := om_put ?a ?r (im_agents ?t)\<rparr>)"
      using cleared_incarnation_empties [OF _ old] boot by (intro replace_agent_core) simp_all
  qed
  then show ?thesis
    unfolding reincarnate_def Let_def cleared_incarnation_def
    by (intro after_bump after_index_stored after_refresh_agent_accounting)
qed

lemma reregister_step:
  assumes old: "om_get (im_agents s) (ad_id d) = Some existing"
    and gen: "ad_generation d = ad_generation (ag_descriptor existing)"
    and boot: "ad_boot d = ad_boot (ag_descriptor existing)"
  shows "safe_step s (reregister d s)"
proof -
  define f :: "AgentRecord \<Rightarrow> AgentRecord" where "f = (\<lambda>r. r\<lparr>ag_descriptor := canonical_descriptor d,
    ag_registered_at_ms := im_now s, ag_last_heartbeat_ms := im_now s,
    ag_lease_expires_at_ms := im_now s + ucast (effective_lease_ttl s d),
    ag_lifecycle := (if ag_lifecycle r = AgentLifecycle.Lost
                     then AgentLifecycle.RevalidationRequired else ag_lifecycle r),
    ag_reason := ''re-registered''\<rparr>)"
  let ?s' = "adjust_agent (ad_id d) f s"
  have auth: "agent_auth ?s' = agent_auth s"
    using old gen boot by (auto simp: agent_auth_def fun_eq_iff f_def)
  have req: "work_req ?s' = work_req s" and wc: "work_count ?s' = work_count s"
    by (rule agent_views_cong, simp)+
  have "safe_step s ?s'"
  proof (rule safe_step_via [OF safe_step_refl])
    show "evolves s ?s'"
      by (intro evolves_view) (simp_all add: auth req assignments_le_same fences_le_same)
    assume inv: "core_inv s"
    have "ad_id (ag_descriptor existing) = ad_id d"
      using accounts_ok_named [OF core_inv_accounts [OF inv]] old by (auto simp: agents_named_def)
    then have "agent_count ?s' = agent_count s"
      using old by (auto simp: agent_count_def fun_eq_iff f_def)
    then have "accounts_ok ?s' = accounts_ok s"
      by (intro accounts_ok_view) (simp_all add: wc)
    then show "core_inv ?s'"
      using inv auth req core_inv_view [of ?s' s] by simp
  qed
  then show ?thesis
    unfolding reregister_def f_def by (intro after_bump after_refresh_agent)
qed

lemma register_commit_step:
  assumes "validate_descriptor d l = None"
  shows "safe_step s (fst (register_commit d s))"
proof (cases "om_get (im_agents s) (ad_id d)")
  case None
  then show ?thesis
    using validate_descriptor_None [OF assms] register_new_step
    by (simp add: register_commit_def Let_def)
next
  case (Some existing)
  have "safe_step s (if ad_generation (ag_descriptor existing) < ad_generation d
      then reincarnate d existing s else reregister d s)"
    if "\<not> ad_generation d < ad_generation (ag_descriptor existing)"
      "ad_generation d = ad_generation (ag_descriptor existing) \<longrightarrow>
         ad_boot d = ad_boot (ag_descriptor existing)"
    using that Some validate_descriptor_None [OF assms] reincarnate_step [OF Some]
      reregister_step [OF Some] by (auto simp: not_less)
  then show ?thesis
    using Some by (auto simp: register_commit_def Let_def)
qed

subsection \<open>Evidence\<close>

lemma with_incarnation_step:
  assumes "\<And>r. om_get (im_agents s) a = Some r \<Longrightarrow> \<not> stale_boot s r b \<Longrightarrow> safe_step s (fst (f r))"
  shows "safe_step s (fst (with_incarnation oper t a b s f))"
  using assms by (auto simp: with_incarnation_def split: option.split)

lemma publish_health_step: "safe_step s (fst (publish_health a b ob s))"
  unfolding publish_health_def Let_def
  by (auto split: option.split intro!: with_incarnation_step after_bump after_refresh_agent
      adjust_agent_step)

lemma publish_availability_step: "safe_step s (fst (publish_availability a b ob s))"
  unfolding publish_availability_def Let_def
  by (auto split: option.split intro!: with_incarnation_step after_bump after_refresh_agent
      adjust_agent_step)

lemma publish_load_step: "safe_step s (fst (publish_load a b ob s))"
  unfolding publish_load_def Let_def
  by (auto split: option.split intro!: with_incarnation_step after_bump adjust_agent_step)

lemma heartbeat_step: "safe_step s (fst (heartbeat a b g s))"
  unfolding heartbeat_def
  by (auto intro!: with_incarnation_step after_bump adjust_agent_step)

lemma drain_agent_step: "safe_step s (fst (drain_agent a b force s))"
  unfolding drain_agent_def Let_def
  by (auto intro!: with_incarnation_step after_bump after_refresh_agent after_close_all
      adjust_agent_step)

text \<open>Publishing a profile: the marking pass, then the whole operation.\<close>

definition remark :: "u64 \<Rightarrow> CapabilityProfile \<Rightarrow> AssignmentRecord \<Rightarrow> AssignmentRecord" where
  "remark a p r = (if evidence_superseded a p r then require_revalidation r else r)"

lemma remark_sel [simp]:
  "ar_binding (remark a p r) = ar_binding r" "record_active (remark a p r) = record_active r"
  "remark a p (remark a p r) = remark a p r"
  by (auto simp: remark_def evidence_superseded_def require_revalidation_def)

lemma mark_superseded_get:
  "om_get (im_assignments (mark_superseded a p k s)) j =
     (if j = k then map_option (remark a p) (om_get (im_assignments s) k)
      else om_get (im_assignments s) j)"
  by (simp add: mark_superseded_def remark_def split: option.split)

lemma mark_superseded_frame [simp]:
  "im_agents (mark_superseded a p k s) = im_agents s" "im_work (mark_superseded a p k s) = im_work s"
  "im_policy (mark_superseded a p k s) = im_policy s" "im_limits (mark_superseded a p k s) = im_limits s"
  "im_scheduler_id (mark_superseded a p k s) = im_scheduler_id s"
  "im_scheduler_epoch (mark_superseded a p k s) = im_scheduler_epoch s"
  "im_fenced_boots (mark_superseded a p k s) = im_fenced_boots s"
  by (simp_all add: mark_superseded_def split: option.split)

lemma mark_superseded_accounts: "accounts_ok s \<Longrightarrow> accounts_ok (mark_superseded a p k s)"
proof -
  assume ok: "accounts_ok s"
  have "accounts_ok (adjust_lease l f t) = accounts_ok t" for l f t
    by (intro accounts_ok_view agent_views_cong) simp_all
  moreover have "accounts_ok (adjust_assignment k require_revalidation s)"
    if "om_get (im_assignments s) k = Some r" "evidence_superseded a p r" for r
    using that by (intro adjust_assignment_accounts [OF ok])
      (simp add: evidence_superseded_def require_revalidation_def)
  ultimately show ?thesis
    using ok by (simp add: mark_superseded_def split: option.split)
qed

lemma mark_pass:
  "om_get (im_assignments (fold (mark_superseded a p) ks s)) j =
     (if j \<in> set ks then map_option (remark a p) (om_get (im_assignments s) j)
      else om_get (im_assignments s) j)"
  "im_agents (fold (mark_superseded a p) ks s) = im_agents s"
  "im_work (fold (mark_superseded a p) ks s) = im_work s"
  "im_policy (fold (mark_superseded a p) ks s) = im_policy s"
  "im_limits (fold (mark_superseded a p) ks s) = im_limits s"
  "im_scheduler_id (fold (mark_superseded a p) ks s) = im_scheduler_id s"
  "im_scheduler_epoch (fold (mark_superseded a p) ks s) = im_scheduler_epoch s"
  "im_fenced_boots (fold (mark_superseded a p) ks s) = im_fenced_boots s"
  "accounts_ok s \<Longrightarrow> accounts_ok (fold (mark_superseded a p) ks s)"
  by (induction ks arbitrary: s)
    (auto simp: mark_superseded_get option.map_comp comp_def mark_superseded_accounts)

text \<open>The state after the profile is stored and the superseded assignments are marked.\<close>

definition published :: "u64 \<Rightarrow> CapabilityProfile \<Rightarrow> Impl \<Rightarrow> Impl" where
  "published a p s =
     (let s1 = adjust_agent a (\<lambda>r. r\<lparr>ag_profile := p, ag_capability_current := True,
                 ag_recovered := False\<rparr>) (deindex_agent a s)
      in fold (mark_superseded a p) (om_keys (im_assignments s1)) s1)"

lemma published_get:
  "om_get (im_assignments (published a p s)) j = map_option (remark a p) (om_get (im_assignments s) j)"
  by (cases "om_get (im_assignments s) j") (auto simp: published_def Let_def mark_pass om_keys_iff)

lemma published_views:
  "agent_auth (published a p s) = (\<lambda>x. if x = a
     then map_option (\<lambda>(g, b, c, cg, q). (g, b, True, cp_generation p, cp_profile_id p)) (agent_auth s a)
     else agent_auth s x)"
  "work_req (published a p s) = work_req s"
  "im_policy (published a p s) = im_policy s"
  "im_limits (published a p s) = im_limits s"
  "im_scheduler_id (published a p s) = im_scheduler_id s"
  "im_scheduler_epoch (published a p s) = im_scheduler_epoch s"
  "im_fenced_boots (published a p s) = im_fenced_boots s"
  by (auto simp: published_def Let_def mark_pass agent_auth_def work_req_def fun_eq_iff
      option.map_comp comp_def)

lemma published_owned:
  "active_owned (im_assignments (published a p s)) owner j = active_owned (im_assignments s) owner j"
  by (auto simp: active_owned_def published_get)

lemma published_accounts: "accounts_ok s \<Longrightarrow> accounts_ok (published a p s)"
proof -
  assume "accounts_ok s"
  moreover have "agent_count (adjust_agent a f (deindex_agent a s)) = agent_count s"
    if "\<And>r. ag_descriptor (f r) = ag_descriptor r \<and> ag_active_assignments (f r) = ag_active_assignments r"
    for f
    using that by (auto simp: agent_count_def fun_eq_iff option.map_comp comp_def)
  moreover have "work_count (adjust_agent a f (deindex_agent a s)) = work_count s" for f
    by (rule agent_views_cong) simp
  ultimately show ?thesis
    unfolding published_def Let_def
    by (intro mark_pass(9)) (subst accounts_ok_view [of _ s]; simp)
qed

lemma published_evolves:
  assumes "\<And>g b c cg q. agent_auth s a = Some (g, b, c, cg, q) \<Longrightarrow> cg \<le> cp_generation p"
  shows "evolves s (published a p s)"
proof -
  have "assignments_le s (published a p s)"
    by (auto simp: assignments_le_def published_get remark_def evidence_superseded_def
        require_revalidation_def dest: terminal_not_active assignment_rank_active)
  moreover have "agents_le s (published a p s)"
    using assms by (fastforce simp: agents_le_def published_views)
  ultimately show ?thesis
    by (simp add: evolves_def fences_le_def work_le_def policy_le_def published_views)
qed

text \<open>
  The marking keeps the evidence of every active assignment either current or marked: an
  assignment of the agent was bound to a generation below the published one.
\<close>

lemma published_bound:
  assumes bound: "assignment_bound s r" and active: "record_active r"
    and newer: "\<And>g b c cg q. agent_auth s a = Some (g, b, c, cg, q) \<Longrightarrow>
      cg \<le> cp_generation p \<and> (c \<longrightarrow> cg < cp_generation p)"
  shows "assignment_bound (published a p s) (remark a p r)"
proof (cases "bn_agent (ar_binding r) = a")
  case False
  then have "remark a p r = r" by (simp add: remark_def evidence_superseded_def)
  then show ?thesis
    using bound False by (simp add: assignment_bound_def published_views Let_def)
next
  case True
  let ?b = "ar_binding r" and ?restarted = "bn_scheduler_epoch (ar_binding r) < im_scheduler_epoch s"
  obtain c cg q where auth: "agent_auth s a = Some (bn_agent_generation ?b, bn_boot ?b, c, cg, q)"
    and ev: "evidence_bound (needs_revalidation r) ?restarted (bn_capability_generation ?b)
      (bn_capability_profile ?b) c cg q"
    using bound True by (auto simp: assignment_bound_def Let_def)
  have older: "?restarted \<or> bn_capability_generation ?b < cp_generation p"
    using ev newer [OF auth] by (auto simp: evidence_bound_def split: if_splits)
  have "needs_revalidation (remark a p r)"
    using active True ev newer [OF auth]
    by (auto simp: remark_def evidence_superseded_def require_revalidation_def evidence_bound_def
        split: if_splits)
  then show ?thesis
    using bound True older auth
    by (simp add: assignment_bound_def published_views Let_def evidence_bound_def ex_bool_eq)
qed

lemma published_step:
  assumes "\<And>g b c cg q. agent_auth s a = Some (g, b, c, cg, q) \<Longrightarrow>
      cg \<le> cp_generation p \<and> (c \<longrightarrow> cg < cp_generation p)"
  shows "safe_step s (published a p s)"
proof -
  have "core_inv (published a p s)" if inv: "core_inv s"
    unfolding core_inv_def
  proof (intro conjI allI impI)
    show "accounts_ok (published a p s)" by (rule published_accounts [OF core_inv_accounts [OF inv]])
    fix k r' assume "om_get (im_assignments (published a p s)) k = Some r'" "record_active r'"
    then obtain r where "om_get (im_assignments s) k = Some r" "r' = remark a p r" "record_active r"
      by (auto simp: published_get)
    then show "assignment_bound (published a p s) r'"
      using assms core_inv_bound [OF inv] by (auto intro!: published_bound)
  next
    fix x g b y assume "agent_auth (published a p s) x = Some (g, b, y)"
    then obtain z where "agent_auth s x = Some (g, b, z)"
      by (auto simp: published_views split: if_splits)
    then show "b \<noteq> hash128_zero" by (rule core_inv_boots [OF inv])
  next
    fix w q assume "work_req (published a p s) w = Some q"
    then show "request_wf q" "fanout_bounded (published a p s) w q"
      using core_inv_reqs [OF inv] core_inv_fanout [OF inv]
      by (simp_all add: published_views fanout_bounded_def held_by_def published_owned)
  next
    fix x show "card (assignments_of_agent (published a p s) x) < 2 ^ 32"
      using core_inv_card [OF inv] by (simp add: published_owned)
  qed
  moreover have "evolves s (published a p s)"
    using assms by (intro published_evolves) blast
  ultimately show ?thesis by (simp add: safe_step_def)
qed

lemma publish_capabilities_step: "safe_step s (fst (publish_capabilities a b profile s))"
proof -
  have step: "safe_step s (apply_capabilities a p s)"
    if "om_get (im_agents s) a = Some r" "\<not> cp_generation p < cp_generation (ag_profile r)"
      "cp_generation p = cp_generation (ag_profile r) \<Longrightarrow> \<not> ag_capability_current r" for p r
  proof -
    have "safe_step s (published a p s)"
      using that by (intro published_step) (auto simp: agent_auth_def not_less order.strict_iff_order)
    then show ?thesis
      unfolding apply_capabilities_def Let_def published_def
      by (intro after_bump after_index_stored after_refresh_agent_accounting)
  qed
  show ?thesis
    unfolding publish_capabilities_def
    by (cases "canonicalize_profile profile (im_limits s)")
      (auto simp: Let_def split: sum.split intro!: with_incarnation_step step)
qed

subsection \<open>Departure and loss\<close>

lemma end_incarnation_step:
  assumes before: "safe_step s t" and none: "core_inv s \<Longrightarrow> assignments_of_agent t a = {}"
  shows "safe_step s (end_incarnation a lc re t)"
proof -
  let ?f = "\<lambda>r. (invalidate_dynamic_evidence r)\<lparr>ag_lifecycle := lc, ag_reason := re\<rparr>"
  have "safe_step s (adjust_agent a ?f t)"
  proof (cases "om_get (im_agents t) a")
    case None
    then show ?thesis using before by (simp add: adjust_agent_def om_adjust_def)
  next
    case (Some r)
    then have put: "adjust_agent a ?f t = t\<lparr>im_agents := om_put a (?f r) (im_agents t)\<rparr>"
      by (simp add: adjust_agent_def om_adjust_def)
    show ?thesis
      unfolding put
    proof (rule safe_step_via [OF before put_agent_evolves])
      assume inv: "core_inv s" "core_inv t"
      have "agent_accounted t a"
        using core_inv_accounts [OF inv(2)] by (simp add: accounts_ok_def)
      moreover have "ad_boot (ag_descriptor r) \<noteq> hash128_zero"
        using core_inv_boots [OF inv(2), of a "ad_generation (ag_descriptor r)"] Some
        by (simp add: agent_auth_def)
      ultimately show "core_inv (t\<lparr>im_agents := om_put a (?f r) (im_agents t)\<rparr>)"
        using none [OF inv(1)] Some
        by (intro replace_agent_core [OF inv(2)])
          (simp_all add: agent_accounted_def invalidate_dynamic_evidence_def)
    qed (use Some in \<open>auto simp: agent_auth_def invalidate_dynamic_evidence_def\<close>)
  qed
  then show ?thesis
    unfolding end_incarnation_def by (intro after_bump after_refresh_agent)
qed

text \<open>A count below the word size survives the conversion to u32.\<close>

lemma unat_of_nat_small: "n < 2 ^ 32 \<Longrightarrow> unat (of_nat n :: u32) = n"
  by (simp add: unsigned_of_nat take_bit_nat_eq_self)

lemma no_active_none:
  assumes "core_inv s" and "active_assignment_count s a = 0"
  shows "assignments_of_agent s a = {}"
proof -
  let ?n = "card (assignments_of_agent s a)"
  have zero: "(of_nat ?n :: u32) = 0"
    using assms core_inv_accounts by (simp add: active_assignment_count_eq accounts_ok_def)
  have "unat (of_nat ?n :: u32) = ?n"
    by (rule unat_of_nat_small [OF core_inv_card [OF assms(1)]])
  then have "?n = 0" unfolding zero by simp
  then show ?thesis by simp
qed

lemma deregister_agent_step: "safe_step s (fst (deregister_agent a b force s))"
  unfolding deregister_agent_def
proof (rule with_incarnation_step)
  fix r assume r: "om_get (im_agents s) a = Some r" "\<not> stale_boot s r b"
  let ?t = "if active_assignment_count s a > 0
    then close_all_active b AssignmentState.Invalidated InvalidationReason.AgentRetired
           ''forced deregistration invalidated the assignment'' s else s"
  have "safe_step s ?t" by (simp add: after_close_all)
  moreover have "assignments_of_agent ?t a = {}" if inv: "core_inv s"
    using r no_active_none [OF inv] close_all_active_empties [OF inv r(1)]
    by (simp add: stale_boot_def word_gt_0)
  ultimately have "safe_step s (end_incarnation a AgentLifecycle.Retired ''deregistered''
      (fence_boot a b (ad_generation (ag_descriptor r)) ''deregistered'' ?t))"
    by (intro end_incarnation_step after_fence) simp_all
  then show "safe_step s (fst (let active = active_assignment_count s a in
       if active > 0 \<and> \<not> force
       then (s, Some (agent_error ''deregister_agent'' a ErrorCode.DrainBarrier
               ''agent still owns active scheduler assignments'' ScheduleOutcome.RejectDrain))
       else
         let s1 = (if active > 0
                   then close_all_active b AssignmentState.Invalidated
                          InvalidationReason.AgentRetired
                          ''forced deregistration invalidated the assignment'' s
                   else s);
             s2 = fence_boot a b (ad_generation (ag_descriptor r)) ''deregistered'' s1
         in (end_incarnation a AgentLifecycle.Retired ''deregistered'' s2, None)))"
    by (simp add: Let_def)
qed

lemma lost_commit_step: "safe_step s (lost_commit a b re s)"
proof (cases "om_get (im_agents s) a")
  case None
  then show ?thesis by (simp add: lost_commit_def fence_boot_step)
next
  case (Some r)
  show ?thesis
  proof (cases "ad_boot (ag_descriptor r) = b")
    case False
    then show ?thesis using Some by (simp add: lost_commit_def fence_boot_step)
  next
    case True
    let ?s1 = "fence_boot a b (ad_generation (ag_descriptor r)) re s"
    have "core_inv s \<Longrightarrow> core_inv ?s1"
      using fence_boot_step unfolding safe_step_def by blast
    then have "assignments_of_agent (close_all_active b AssignmentState.Lost
        InvalidationReason.AgentLost ''agent incarnation was declared lost'' ?s1) a = {}"
      if "core_inv s"
      using that Some True by (intro close_all_active_empties) simp_all
    then show ?thesis
      using Some True
      by (simp add: lost_commit_def Let_def end_incarnation_step after_close_all fence_boot_step)
  qed
qed

end
