(* ===== verification/Work_Safety.thy ===== *)
theory Work_Safety
  imports Agent_Safety
begin

section \<open>Work operations and commits are safe steps\<close>

text \<open>
  Admission, re-admission, cancellation and supersession of work, and the commit of a plan
  made earlier. A commit is safe for every binding that was built from the request of its
  work generation, however much the state has moved since.
\<close>

subsection \<open>Replacing the record of a work item without active assignments\<close>

lemma replace_work_core:
  assumes inv: "core_inv s" and none: "assignments_of_work s w = {}"
    and id: "wq_id (wr_request r') = w" and current: "wr_current_assignments r' = 0"
    and wf: "request_wf (wr_request r')"
  shows "core_inv (s\<lparr>im_work := om_put w r' (im_work s)\<rparr>)"
proof (rule core_inv_shrinks [OF inv])
  let ?s' = "s\<lparr>im_work := om_put w r' (im_work s)\<rparr>"
  have req: "work_req ?s' x = work_req s x" if "x \<noteq> w" for x
    using that by (simp add: work_req_def)
  have auth: "agent_auth ?s' = agent_auth s" by (rule agent_views_cong) simp
  show "shrinks s ?s'"
    unfolding shrinks_def
  proof (intro allI impI)
    fix k r assume r: "om_get (im_assignments ?s') k = Some r" "record_active r"
    then have "bn_work (ar_binding r) \<noteq> w"
      using none by (auto simp: owned_empty_iff)
    moreover have "bn_policy_generation (ar_binding r) = po_generation (im_policy s)"
      using r core_inv_bound [OF inv] bound_policy by simp
    ultimately show "\<exists>r0. om_get (im_assignments s) k = Some r0 \<and> record_active r0
        \<and> binding_core (ar_binding r) = binding_core (ar_binding r0)
        \<and> needs_revalidation r = needs_revalidation r0
        \<and> agent_auth ?s' (bn_agent (ar_binding r0)) = agent_auth s (bn_agent (ar_binding r0))
        \<and> work_req ?s' (bn_work (ar_binding r0)) = work_req s (bn_work (ar_binding r0))
        \<and> bn_policy_generation (ar_binding r0) = po_generation (im_policy ?s')"
      using r by (auto simp: auth req)
  qed
  show "accounts_ok ?s'"
    using core_inv_accounts [OF inv] none id current
    by (auto simp: accounts_ok_def indexes_ok_def agent_accounted_def work_accounted_def)
  show "b \<noteq> hash128_zero" if "agent_auth ?s' x = Some (g, b, y)" for x g b y
    using that core_inv_boots [OF inv] by (simp add: auth)
  show "request_wf q" if "work_req ?s' x = Some q" for x q
    using that wf core_inv_reqs [OF inv] by (cases "x = w") (simp_all add: req, simp add: work_req_def)
qed simp

lemma put_work_evolves:
  assumes "\<And>q. work_req s w = Some q \<Longrightarrow> wq_generation q < wq_generation (wr_request r')"
  shows "evolves s (s\<lparr>im_work := om_put w r' (im_work s)\<rparr>)"
proof -
  let ?s' = "s\<lparr>im_work := om_put w r' (im_work s)\<rparr>"
  have "work_le s ?s'"
    using assms by (auto simp: work_le_def work_req_def)
  moreover have "agent_auth ?s' = agent_auth s" by (rule agent_views_cong) simp
  ultimately show ?thesis
    by (simp add: evolves_def assignments_le_def fences_le_def agents_le_def policy_le_def)
qed

lemma put_work_step:
  assumes before: "safe_step s t" and none: "core_inv s \<Longrightarrow> assignments_of_work t w = {}"
    and r': "wq_id (wr_request r') = w" "wr_current_assignments r' = 0" "request_wf (wr_request r')"
    and newer: "\<And>q. work_req t w = Some q \<Longrightarrow> wq_generation q < wq_generation (wr_request r')"
  shows "safe_step s (t\<lparr>im_work := om_put w r' (im_work t)\<rparr>)"
  using assms by (intro safe_step_via [OF before put_work_evolves] replace_work_core) simp_all

subsection \<open>Admission\<close>

lemma admission_sequence_step: "safe_step s (s\<lparr>im_next_admission_sequence := n\<rparr>)"
  by (intro quiet_step agent_views_cong fences_le_same; simp)

lemma queues_step: "safe_step s (s\<lparr>im_queues := x\<rparr>)"
  by (intro quiet_step agent_views_cong fences_le_same; simp)

lemma tenants_step: "safe_step s (s\<lparr>im_tenants := x\<rparr>)"
  by (intro quiet_step agent_views_cong fences_le_same; simp)

lemma ensure_queue_step: "safe_step s (fst (ensure_queue q s))"
  by (auto simp: ensure_queue_def Let_def queues_step split: option.split)

lemma ensure_tenant_step: "safe_step s (fst (ensure_tenant t s))"
  by (auto simp: ensure_tenant_def tenants_step split: option.split)

lemma ensure_frames:
  "im_work (fst (ensure_queue q s)) = im_work s"
  "im_assignments (fst (ensure_queue q s)) = im_assignments s"
  "im_work (fst (ensure_tenant x s)) = im_work s"
  "im_assignments (fst (ensure_tenant x s)) = im_assignments s"
  by (auto simp: ensure_queue_def ensure_tenant_def Let_def split: option.split)

lemma ensure_both_step:
  assumes before: "safe_step s t"
    and rest: "\<And>u. safe_step s u \<Longrightarrow> im_work u = im_work t \<Longrightarrow> im_assignments u = im_assignments t
      \<Longrightarrow> safe_step s (fst (f u))"
  shows "safe_step s (fst (ensure_both q t f))"
proof -
  obtain s1 e1 where 1: "ensure_queue q t = (s1, e1)" by force
  obtain s2 e2 where 2: "ensure_tenant (rq_tenant (wq_requirements q)) s1 = (s2, e2)" by force
  have s1: "safe_step s s1"
    using ensure_queue_step [of t q] 1 before by (auto intro: safe_step_trans)
  moreover have "safe_step s s2"
    using ensure_tenant_step [of s1] 2 s1 by (metis fst_conv safe_step_trans)
  moreover have "im_work s2 = im_work t" "im_assignments s2 = im_assignments t"
    using ensure_frames(1,2) [of q t] ensure_frames(3,4) [of _ s1] 1 2 by (metis fst_conv)+
  ultimately show ?thesis
    using rest by (auto simp: ensure_both_def 1 2 split: option.split)
qed

lemma count_admitted_step: "safe_step s t \<Longrightarrow> safe_step s (count_admitted q t)"
  unfolding count_admitted_def by (intro after_bump after_tenant after_queue)

lemma close_work_empties:
  assumes "assignment_state_is_terminal st"
  shows "assignments_of_work (close_work w st re d s) w = {}"
  unfolding owned_empty_iff
proof (intro allI impI notI)
  fix k r assume r: "om_get (im_assignments (close_work w st re d s)) k = Some r"
    "record_active r" "bn_work (ar_binding r) = w"
  show False
    using close_where_none_left [OF assms r(1) [unfolded close_work_def] r(2)] r(2,3) by simp
qed

lemma after_close_work:
  "assignment_state_is_terminal st \<Longrightarrow> safe_step s t \<Longrightarrow> safe_step s (close_work w st re d t)"
  by (simp add: close_work_def after_close_where)

lemma readmit_step:
  assumes old: "work_req s (wq_id q) = Some old" and newer: "wq_generation old < wq_generation q"
    and wf: "request_wf q"
  shows "safe_step s (readmit q re s)"
proof -
  let ?w = "wq_id q"
  define t where "t = deindex_work ?w (close_work ?w AssignmentState.Superseded
    InvalidationReason.WorkSuperseded ''work generation was superseded'' s)"
  have step: "safe_step s t"
    unfolding t_def by (intro safe_step_trans [OF _ bookkeeping_steps(4)] after_close_work) simp_all
  have none: "assignments_of_work t ?w = {}"
    by (simp add: t_def close_work_empties)
  have "work_req t = work_req (close_work ?w AssignmentState.Superseded
    InvalidationReason.WorkSuperseded ''work generation was superseded'' s)"
    unfolding t_def by (rule agent_views_cong) simp
  also have "\<dots> = work_req s" by (rule stable_work_req) (simp add: close_work_def)
  finally have req: "work_req t = work_req s" .
  then have "work_req t ?w = Some old" using old by simp
  then obtain r where r: "om_get (im_work t) ?w = Some r"
    by (auto simp: work_req_def)
  let ?r = "readmitted q (im_next_admission_sequence t) (im_now t) re r"
  have "safe_step s (t\<lparr>im_work := om_put ?w ?r (im_work t)\<rparr>)"
    using none old newer wf req by (intro put_work_step [OF step]) (simp_all add: readmitted_def)
  moreover have "adjust_work ?w (readmitted q (im_next_admission_sequence t) (im_now t) re) t
      = t\<lparr>im_work := om_put ?w ?r (im_work t)\<rparr>"
    using r by (simp add: adjust_work_def om_adjust_def)
  ultimately have "safe_step s ((adjust_work ?w (readmitted q (im_next_admission_sequence t)
      (im_now t) re) t)\<lparr>im_next_admission_sequence := im_next_admission_sequence t + 1\<rparr>)"
    by (metis safe_step_trans admission_sequence_step)
  then show ?thesis
    unfolding readmit_def Let_def t_def [symmetric]
    by (auto split: option.split intro: after_index_work)
qed

lemma submit_commit_step:
  assumes wf: "request_wf q"
  shows "safe_step s (fst (submit_commit q s))"
proof (cases "om_get (im_work s) (wq_id q)")
  case None
  let ?r = "default_work_record\<lparr>wr_request := q, wr_lifecycle := WorkLifecycle.Admitted,
    wr_admitted_sequence := im_next_admission_sequence s, wr_admitted_at_ms := im_now s,
    wr_reason := ''admitted''\<rparr>"
  have "safe_step s (u\<lparr>im_work := om_emplace (wq_id q) ?r (im_work u)\<rparr>)"
    if u: "safe_step s u" "im_work u = im_work s" "im_assignments u = im_assignments s" for u
  proof -
    have "safe_step s (u\<lparr>im_work := om_put (wq_id q) ?r (im_work u)\<rparr>)"
      using u None wf unknown_work_owns_nothing [of s]
      by (intro put_work_step) (simp_all add: default_work_record_def work_req_def)
    then show ?thesis using None u by (simp add: om_emplace_absent)
  qed
  then show ?thesis
    using None by (auto simp: submit_commit_def Let_def
        intro!: ensure_both_step admission_sequence_step count_admitted_step after_index_work)
next
  case (Some r)
  have "safe_step s (readmit q re s)"
    if "existing_problem d q r = None" for d re
    using that Some wf
    by (intro readmit_step) (auto simp: existing_problem_def Let_def work_req_def not_less
        order.strict_iff_order split: if_splits)
  then show ?thesis
    using Some by (auto simp: submit_commit_def Let_def split: option.split
        intro!: ensure_both_step count_admitted_step)
qed

lemma after_adjust_work:
  assumes "safe_step s t" and "\<And>r. wr_request (f r) = wr_request r"
    and "\<And>r. wr_current_assignments (f r) = wr_current_assignments r"
  shows "safe_step s (adjust_work w f t)"
  by (rule safe_step_trans [OF assms(1) adjust_work_step]) (simp add: assms(2,3))

lemma cancel_commit_step: "safe_step s (fst (cancel_commit w g re s))"
  by (auto simp: cancel_commit_def Let_def split: option.split
      intro!: after_bump after_adjust_work after_sync_work after_close_work)

lemma supersede_work_step: "safe_step s (fst (supersede_work w g q s))"
proof (cases "validate_work (canonicalize_work q) (im_limits s)")
  case None
  have "safe_step s (readmit (canonicalize_work q) re s)"
    if "om_get (im_work s) (wq_id q) = Some r" "wq_generation (wr_request r) < wq_generation q" for r re
    using that validate_work_wf [OF None] by (intro readmit_step) (simp_all add: work_req_def)
  then show ?thesis
    using None by (auto simp: supersede_work_def Let_def not_le split: option.split
        intro!: ensure_both_step after_bump)
qed (simp add: supersede_work_def Let_def)

lemma expire_one_step: "safe_step s (fst st) \<Longrightarrow> safe_step s (fst (expire_one w st))"
  by (auto simp: expire_one_def Let_def split: option.split
      intro!: after_adjust_work after_sync_work after_close_work)

lemma expire_fold_step: "safe_step s (fst st) \<Longrightarrow> safe_step s (fst (fold expire_one ws st))"
  by (induction ws arbitrary: st) (simp_all add: expire_one_step)

lemma expire_deadlines_step: "safe_step s (fst (expire_deadlines s))"
proof -
  obtain t changed where t: "fold expire_one (om_keys (im_work s)) (s, False) = (t, changed)"
    by force
  then have "safe_step s t"
    using expire_fold_step [of s "(s, False)" "om_keys (im_work s)"] by simp
  then show ?thesis by (simp add: expire_deadlines_def t after_bump)
qed

subsection \<open>Commit\<close>

text \<open>
  A binding that came out of a plan: while its work generation is the current one, its
  exclusivity is that of the request. The condition survives every step, since a request
  never changes within a generation.
\<close>

definition binding_planned :: "Impl \<Rightarrow> AssignmentBinding \<Rightarrow> bool" where
  "binding_planned s b \<longleftrightarrow> (\<exists>q. work_req s (bn_work b) = Some q
     \<and> (wq_generation q = bn_work_generation b
          \<and> bn_exclusive b = (wq_mode q = SchedulingMode.Exclusive)
        \<or> bn_work_generation b < wq_generation q))"

lemma binding_planned_evolves:
  assumes "evolves s s'" and "binding_planned s b"
  shows "binding_planned s' b"
proof -
  obtain q where q: "work_req s (bn_work b) = Some q"
    "wq_generation q = bn_work_generation b \<and> bn_exclusive b = (wq_mode q = SchedulingMode.Exclusive)
       \<or> bn_work_generation b < wq_generation q"
    using assms(2) unfolding binding_planned_def by blast
  then obtain q' where "work_req s' (bn_work b) = Some q'"
    "wq_generation q < wq_generation q' \<or> q' = q"
    using assms(1) unfolding evolves_def work_le_def by blast
  with q(2) show ?thesis
    unfolding binding_planned_def by (auto intro: order.strict_trans)
qed

lemma plan_binding_planned:
  assumes inv: "accounts_ok s" and w: "om_get (im_work s) k = Some w"
    and b: "pl_binding (plan_locked s w) = Some b"
  shows "binding_planned s b" and "bn_work b = k"
    and "bn_work_generation b = wq_generation (wr_request w)"
proof -
  have "wq_id (wr_request w) = k"
    using accounts_ok_named [OF inv] w by (auto simp: work_named_def)
  moreover obtain a g i where "b = build_binding s w a g i"
    using plan_binding_cases [OF b] by blast
  ultimately show "binding_planned s b" "bn_work b = k"
    "bn_work_generation b = wq_generation (wr_request w)"
    using w by (simp_all add: binding_planned_def work_req_def)
qed

lemma count_assigned_frame [simp]:
  "im_agents (count_assigned q t s) = im_agents s" "im_work (count_assigned q t s) = im_work s"
  "im_assignments (count_assigned q t s) = im_assignments s"
  "im_policy (count_assigned q t s) = im_policy s" "im_limits (count_assigned q t s) = im_limits s"
  "im_scheduler_id (count_assigned q t s) = im_scheduler_id s"
  "im_scheduler_epoch (count_assigned q t s) = im_scheduler_epoch s"
  "im_fenced_boots (count_assigned q t s) = im_fenced_boots s"
  by (simp_all add: count_assigned_def)

lemma commit_apply_views:
  "agent_auth (commit_apply w b s) = agent_auth s" "work_req (commit_apply w b s) = work_req s"
  "im_policy (commit_apply w b s) = im_policy s" "im_limits (commit_apply w b s) = im_limits s"
  "im_scheduler_id (commit_apply w b s) = im_scheduler_id s"
  "im_scheduler_epoch (commit_apply w b s) = im_scheduler_epoch s"
  "im_fenced_boots (commit_apply w b s) = im_fenced_boots s"
proof -
  let ?c = "commit_indexed w b s"
  obtain t where eq: "commit_apply w b s = count_assigned (bn_queue b) t
      (refresh_agent_accounting (bn_agent b) (refresh_work_accounting w ?c))"
    using commit_apply_split by blast
  have counted: "agent_auth (count_assigned q t x) = agent_auth x"
    "work_req (count_assigned q t x) = work_req x" for q t x
    by (rule agent_views_cong, simp)+
  have refreshed: "agent_auth (refresh_work_accounting w x) = agent_auth x"
    "work_req (refresh_agent_accounting a x) = work_req x" for a x
    by (rule agent_views_cong, simp)+
  have "agent_auth ?c = agent_auth s" by (rule agent_views_cong) simp
  then show "agent_auth (commit_apply w b s) = agent_auth s" by (simp add: eq counted refreshed)
  have "work_req ?c = work_req s"
    by (auto simp: commit_indexed_def Let_def work_req_def fun_eq_iff option.map_comp comp_def)
  then show "work_req (commit_apply w b s) = work_req s" by (simp add: eq counted refreshed)
  show "im_policy (commit_apply w b s) = im_policy s" "im_limits (commit_apply w b s) = im_limits s"
    "im_scheduler_id (commit_apply w b s) = im_scheduler_id s"
    "im_scheduler_epoch (commit_apply w b s) = im_scheduler_epoch s"
    "im_fenced_boots (commit_apply w b s) = im_fenced_boots s"
    by (simp_all add: eq commit_indexed_def Let_def insert_assignment_def)
qed

lemma commit_owned:
  assumes "om_get (im_assignments s) (bn_id b) = None"
  shows "active_owned (im_assignments (commit_apply w b s)) owner j =
     (if owner b = j then insert (bn_id b) (active_owned (im_assignments s) owner j)
      else active_owned (im_assignments s) owner j)"
  using assms by (auto simp: active_owned_def commit_apply_get_assignments split: if_splits)

lemma commit_owned_present:
  assumes "om_get (im_assignments s) (bn_id b) = Some r"
  shows "active_owned (im_assignments (commit_apply w b s)) owner j
     = active_owned (im_assignments s) owner j"
  using assms by (auto simp: active_owned_def commit_apply_get_assignments split: if_splits)

text \<open>A counter that equals a cardinality modulo the word size, below a word bound.\<close>

lemma card_below_word:
  assumes "(of_nat n :: u32) < m" and "n < 2 ^ 32"
  shows "n < unat m"
  using assms by (simp add: word_less_nat_alt unat_of_nat_small)

lemma unat_u32_bound: "unat (m :: u32) < 2 ^ 32"
  using unsigned_less [of m] by simp

text \<open>What a successful commit check says of the fan-out, read in the invariant.\<close>

lemma commit_room:
  assumes inv: "core_inv s" and planned: "binding_planned s b"
    and ok: "commit_problem s (bn_work b) g b = None"
  obtains q where "work_req s (bn_work b) = Some q" "wq_generation q = bn_work_generation b"
    "bn_exclusive b = (wq_mode q = SchedulingMode.Exclusive)"
    "card (assignments_of_work s (bn_work b)) < unat (rq_max_parallel (wq_requirements q))"
    "card (held_by s (bn_work b) (bn_agent b)) < unat (rq_max_assignments_per_agent (wq_requirements q))"
proof -
  obtain w a where w: "om_get (im_work s) (bn_work b) = Some w"
    and wp: "commit_work_problem s (bn_work b) g b w = None"
    and ap: "commit_agent_problem s (bn_work b) b w a = None"
    using commit_problem_None [OF ok] by blast
  let ?q = "wr_request w" and ?n = "card (assignments_of_work s (bn_work b))"
  note acc = core_inv_accounts [OF inv]
  have ix: "indexes_ok s" using acc by (simp add: accounts_ok_def)
  have req: "work_req s (bn_work b) = Some ?q" using w by (simp add: work_req_def)
  note wp' = commit_work_problem_None [OF wp]
  have mode: "wq_generation ?q = bn_work_generation b"
    "bn_exclusive b = (wq_mode ?q = SchedulingMode.Exclusive)"
    using planned req wp' by (auto simp: binding_planned_def)
  have wf: "request_wf ?q" and fan: "fanout_bounded s (bn_work b) ?q"
    using core_inv_reqs [OF inv req] core_inv_fanout [OF inv req] .
  have parallel: "?n < unat (rq_max_parallel (wq_requirements ?q))"
  proof (cases "bn_exclusive b")
    case True
    have none: "assignments_of_work s (bn_work b) = {}"
      unfolding owned_empty_iff
    proof (intro allI impI notI)
      fix k r assume r: "om_get (im_assignments s) k = Some r" "record_active r"
        "bn_work (ar_binding r) = bn_work b"
      obtain q where "work_req s (bn_work (ar_binding r)) = Some q"
        "bn_exclusive (ar_binding r) = (wq_mode q = SchedulingMode.Exclusive)"
        using active_bound_work [OF inv r(1,2)] by blast
      then have "bn_exclusive (ar_binding r)" using True mode(2) req r(3) by simp
      then show False using wp' True active_exclusive_None [OF ix, of "bn_work b"] r by simp
    qed
    then show ?thesis using wf True mode(2) by (simp add: request_wf_def)
  next
    case False
    have "wr_current_assignments w = of_nat ?n"
      using acc w by (simp add: accounts_ok_def work_accounted_def)
    then show ?thesis
      using wp' False fan unat_u32_bound [of "rq_max_parallel (wq_requirements ?q)"]
      by (intro card_below_word) (simp_all add: fanout_bounded_def)
  qed
  have "card (held_by s (bn_work b) (bn_agent b)) \<le> unat (rq_max_assignments_per_agent (wq_requirements ?q))"
    using fan by (simp add: fanout_bounded_def)
  then have "card (held_by s (bn_work b) (bn_agent b))
      < unat (rq_max_assignments_per_agent (wq_requirements ?q))"
    using ap active_assignments_on_agent_eq [OF ix]
      unat_u32_bound [of "rq_max_assignments_per_agent (wq_requirements ?q)"]
    by (intro card_below_word) (simp_all add: commit_agent_problem_None)
  then show thesis using that req mode parallel by blast
qed

lemma commit_agent_room:
  assumes inv: "core_inv s" and ok: "commit_problem s (bn_work b) g b = None"
  obtains a where "om_get (im_agents s) (bn_agent b) = Some a"
    "card (assignments_of_agent s (bn_agent b)) < unat (ad_max_concurrency (ag_descriptor a))"
proof -
  obtain w a where a: "om_get (im_agents s) (bn_agent b) = Some a"
    and ap: "commit_agent_problem s (bn_work b) b w a = None"
    using commit_problem_None [OF ok] by blast
  have "ag_active_assignments a = of_nat (card (assignments_of_agent s (bn_agent b)))"
    using core_inv_accounts [OF inv] a by (simp add: accounts_ok_def agent_accounted_def)
  then have "card (assignments_of_agent s (bn_agent b)) < unat (ad_max_concurrency (ag_descriptor a))"
    using ap core_inv_card [OF inv] by (intro card_below_word) (simp_all add: commit_agent_problem_None)
  then show thesis using that a by blast
qed

lemma commit_bound:
  assumes inv: "core_inv s" and planned: "binding_planned s b"
    and ok: "commit_problem s (bn_work b) g b = None"
  shows "assignment_bound s (new_assignment b)"
proof -
  obtain q where "work_req s (bn_work b) = Some q" "wq_generation q = bn_work_generation b"
    "bn_exclusive b = (wq_mode q = SchedulingMode.Exclusive)"
    using commit_room [OF assms] by blast
  moreover obtain w a where "om_get (im_agents s) (bn_agent b) = Some a"
    and "commit_agent_problem s (bn_work b) b w a = None" "bound_authority_current s b"
    using commit_problem_None [OF ok] by blast
  ultimately show ?thesis
    by (simp add: assignment_bound_def agent_auth_def commit_agent_problem_None capability_fresh_def
        bound_authority_current_def evidence_bound_def ex_bool_eq)
qed

lemma commit_apply_evolves: "evolves s (commit_apply w b s)"
  by (intro evolves_view fences_le_same)
    (simp_all add: commit_apply_views assignments_le_def commit_apply_get_assignments)

lemma commit_apply_core:
  assumes inv: "core_inv s" and planned: "binding_planned s b"
    and ok: "commit_problem s (bn_work b) g b = None"
  shows "core_inv (commit_apply (bn_work b) b s)"
proof -
  let ?s' = "commit_apply (bn_work b) b s"
  have acc: "accounts_ok ?s'" by (rule commit_apply_accounts [OF core_inv_accounts [OF inv] refl])
  have same: "assignment_bound ?s' r = assignment_bound s r" for r
    by (simp add: assignment_bound_def commit_apply_views)
  show ?thesis
  proof (cases "om_get (im_assignments s) (bn_id b)")
    case (Some r)
    then have "om_get (im_assignments ?s') k = om_get (im_assignments s) k" for k
      by (simp add: commit_apply_get_assignments)
    then show ?thesis
      using acc inv
      by (simp add: core_inv_def same commit_apply_views fanout_bounded_def held_by_def
          commit_owned_present [OF Some])
  next
    case None
    obtain q where q: "work_req s (bn_work b) = Some q" "wq_generation q = bn_work_generation b"
      "bn_exclusive b = (wq_mode q = SchedulingMode.Exclusive)"
      "card (assignments_of_work s (bn_work b)) < unat (rq_max_parallel (wq_requirements q))"
      "card (held_by s (bn_work b) (bn_agent b)) < unat (rq_max_assignments_per_agent (wq_requirements q))"
      by (rule commit_room [OF assms])
    obtain a where a: "om_get (im_agents s) (bn_agent b) = Some a"
      "card (assignments_of_agent s (bn_agent b)) < unat (ad_max_concurrency (ag_descriptor a))"
      by (rule commit_agent_room [OF inv ok])
    have new: "bn_id b \<notin> active_owned (im_assignments s) owner j" for owner and j :: u64
      using None by (simp add: active_owned_def)
    have held: "held_by ?s' w x = (if w = bn_work b \<and> x = bn_agent b
        then insert (bn_id b) (held_by s w x) else held_by s w x)" for w x
      unfolding held_by_def commit_owned [OF None] using new by auto
    have fin: "finite (held_by s w x)" for w x by (simp add: held_by_def)
    show ?thesis
      unfolding core_inv_def
    proof (intro conjI allI impI acc)
      fix k r assume "om_get (im_assignments ?s') k = Some r" "record_active r"
      then show "assignment_bound ?s' r"
        using None commit_bound [OF assms] core_inv_bound [OF inv]
        by (auto simp: same commit_apply_get_assignments split: if_splits)
    next
      fix x g' b' y assume "agent_auth ?s' x = Some (g', b', y)"
      then show "b' \<noteq> hash128_zero" using core_inv_boots [OF inv] by (simp add: commit_apply_views)
    next
      fix w q' assume "work_req ?s' w = Some q'"
      then have req: "work_req s w = Some q'" by (simp add: commit_apply_views)
      then show "request_wf q'" by (rule core_inv_reqs [OF inv])
      show "fanout_bounded ?s' w q'"
        using core_inv_fanout [OF inv req] q req None
        by (auto simp: fanout_bounded_def held commit_owned card_insert_if fin)
    next
      fix x show "card (assignments_of_agent ?s' x) < 2 ^ 32"
        using core_inv_card [OF inv, of x] a None
          unat_u32_bound [of "ad_max_concurrency (ag_descriptor a)"]
        by (auto simp: commit_owned card_insert_if)
    qed
  qed
qed

lemma commit_step:
  assumes "binding_planned s b" and "commit_problem s (bn_work b) g b = None"
  shows "safe_step s (commit_apply (bn_work b) b s)"
  using commit_apply_core [OF _ assms] commit_apply_evolves by (simp add: safe_step_def)

lemma schedule_commit_step:
  assumes "binding_planned s b"
  shows "safe_step s (fst (schedule_commit (bn_work b) g d b s))"
  using commit_step [OF assms]
  by (auto simp: schedule_commit_def commit_locked_def split: option.split)

lemma schedule_batch_step:
  assumes "core_inv s"
  shows "safe_step s (fst (schedule_batch request s))"
proof -
  define I where "I t \<longleftrightarrow> safe_step s t" for t
  have inv: "core_inv t" if "I t" for t
    using that assms by (simp add: I_def safe_step_def)
  have "I (fst (schedule_batch request s))"
  proof (rule schedule_batch_inv)
    fix t k w b
    assume t: "I t" and w: "om_get (im_work t) k = Some w" "pl_binding (plan_locked t w) = Some b"
      and ok: "commit_problem t (wq_id (wr_request w)) (wq_generation (wr_request w)) b = None"
    have b: "binding_planned t b" "bn_work b = k"
      using plan_binding_planned [OF core_inv_accounts [OF inv [OF t]] w] by simp_all
    have "wq_id (wr_request w) = k"
      using accounts_ok_named [OF core_inv_accounts [OF inv [OF t]]] w by (auto simp: work_named_def)
    then have "safe_step t (commit_apply (wq_id (wr_request w)) b t)"
      using ok b(2) commit_step [OF b(1)] by simp
    then show "I (commit_apply (wq_id (wr_request w)) b t)"
      using t unfolding I_def by (rule safe_step_trans [rotated])
  next
    fix t n assume "I t"
    then show "I (t\<lparr>im_scheduling_rounds := n\<rparr>)"
      unfolding I_def by (rule safe_step_trans [OF _ rounds_step])
  next
    fix t w assume "I t"
    then show "I (adjust_work w bump_bypass t)" "I (adjust_work w reset_bypass t)"
      unfolding I_def by (auto intro!: after_adjust_work simp: bump_bypass_def reset_bypass_def)
  qed (simp add: I_def)
  then show ?thesis by (simp add: I_def)
qed

end
