(* ===== verification/Recovery.thy ===== *)
theory Recovery
  imports Persistence_Facts Work_Safety
begin

section \<open>The recovered state\<close>

text \<open>
  What \<open>recover\<close> makes of the image of a saved state, record by record, and the invariant it
  establishes: the indexes and counters agree with the assignments, every assignment that was
  active waits for revalidation without a lease, and no evidence is current.
\<close>

lemma fold_keeps: "(\<And>x s. sel (f x s) = sel s) \<Longrightarrow> sel (fold f xs s) = sel s"
  by (induction xs arbitrary: s) simp_all

lemma fold_establishes:
  assumes "\<And>x s. P s \<Longrightarrow> P (f x s)" and "\<And>x s. P s \<Longrightarrow> Q x (f x s)"
    and "\<And>x y s. P s \<Longrightarrow> Q y s \<Longrightarrow> Q y (f x s)" and "P s"
  shows "P (fold f xs s) \<and> (\<forall>x. x \<in> set xs \<or> Q x s \<longrightarrow> Q x (fold f xs s))"
  using assms(4)
proof (induction xs arbitrary: s)
  case (Cons x xs)
  then show ?case using Cons.IH [of "f x s"] assms(1-3) by auto
qed simp

subsection \<open>Rebuilding the indexes\<close>

lemma index_assignment_by:
  "ix_get (im_by_agent (index_assignment r s)) j =
     (if record_active r \<and> bn_agent (ar_binding r) = j
      then insert (bn_id (ar_binding r)) (ix_get (im_by_agent s) j) else ix_get (im_by_agent s) j)"
  "ix_get (im_by_work (index_assignment r s)) j =
     (if record_active r \<and> bn_work (ar_binding r) = j
      then insert (bn_id (ar_binding r)) (ix_get (im_by_work s) j) else ix_get (im_by_work s) j)"
  by (auto simp: index_assignment_def Let_def)

lemma index_entries:
  "ix_get (im_by_agent (fold (\<lambda>e. index_assignment (snd e)) m s)) j = ix_get (im_by_agent s) j
     \<union> (\<lambda>e. bn_id (ar_binding (snd e))) ` {e \<in> set m. record_active (snd e) \<and> bn_agent (ar_binding (snd e)) = j}"
  "ix_get (im_by_work (fold (\<lambda>e. index_assignment (snd e)) m s)) j = ix_get (im_by_work s) j
     \<union> (\<lambda>e. bn_id (ar_binding (snd e))) ` {e \<in> set m. record_active (snd e) \<and> bn_work (ar_binding (snd e)) = j}"
  by (induction m arbitrary: s) (auto simp: index_assignment_by)

lemma index_agent_by [simp]:
  "im_by_agent (index_agent r s) = im_by_agent s" "im_by_work (index_agent r s) = im_by_work s"
  "im_by_agent (index_work w s) = im_by_agent s" "im_by_work (index_work w s) = im_by_work s"
  by (simp_all add: index_agent_def index_work_def Let_def)

lemma om_get_entries: "om_ok m \<Longrightarrow> (k, v) \<in> set m \<longleftrightarrow> om_get m k = Some v"
  using om_ok_distinct [of m] by (simp add: om_keys_def)

lemma rebuild_keeps [simp]:
  "im_assignments (rebuild_indexes s) = im_assignments s" "im_agents (rebuild_indexes s) = im_agents s"
  "im_work (rebuild_indexes s) = im_work s" "im_policy (rebuild_indexes s) = im_policy s"
  "im_fenced_boots (rebuild_indexes s) = im_fenced_boots s"
  "im_leases (rebuild_indexes s) = im_leases s" "im_queues (rebuild_indexes s) = im_queues s"
  "im_tenants (rebuild_indexes s) = im_tenants s" "im_running (rebuild_indexes s) = im_running s"
  "im_admission_open (rebuild_indexes s) = im_admission_open s"
  "im_scheduler_epoch (rebuild_indexes s) = im_scheduler_epoch s"
  by (simp_all add: rebuild_indexes_def fold_keeps)

lemma rebuild_indexes_ok:
  assumes "om_ok (im_assignments s)" and keyed: "keyed (im_assignments s)"
  shows "indexes_ok (rebuild_indexes s)"
proof -
  have entries: "(\<lambda>e. bn_id (ar_binding (snd e)))
        ` {e \<in> set (im_assignments s). record_active (snd e) \<and> owner (ar_binding (snd e)) = j}
      = active_owned (im_assignments s) owner j" for owner and j :: u64
    using keyed_assignment [OF keyed] by (force simp: active_owned_def image_iff om_get_entries [OF assms(1)])
  have "ix_get (im_by_agent (rebuild_indexes s)) j = active_owned (im_assignments s) bn_agent j"
    and "ix_get (im_by_work (rebuild_indexes s)) j = active_owned (im_assignments s) bn_work j" for j
    by (simp_all add: rebuild_indexes_def index_entries entries fold_keeps)
  then show ?thesis using keyed by (simp add: indexes_ok_def index_matches_def)
qed

subsection \<open>Accounting after recovery\<close>

lemma refresh_all_agents:
  assumes "indexes_ok s" "agents_named s"
  shows "indexes_ok (fold refresh_agent_accounting ks s) \<and> agents_named (fold refresh_agent_accounting ks s)
    \<and> (\<forall>a \<in> set ks. agent_accounted (fold refresh_agent_accounting ks s) a)"
  using fold_establishes [of "\<lambda>s. indexes_ok s \<and> agents_named s" refresh_agent_accounting
      "\<lambda>a s. agent_accounted s a" s ks] assms
  by (auto simp: refresh_agent_accounted)

lemma refresh_all_work:
  assumes "indexes_ok s" "work_named s"
  shows "indexes_ok (fold refresh_work_accounting ks s)
    \<and> (\<forall>w \<in> set ks. work_accounted (fold refresh_work_accounting ks s) w)"
proof -
  have named: "work_named (refresh_work_accounting w s)" if "work_named s" "indexes_ok s" for w s
  proof -
    have "wq_id (wr_request r) = x" if r: "om_get (im_work (refresh_work_accounting w s)) x = Some r" for x r
    proof (cases "x = w")
      case True
      then show ?thesis using refresh_work_accounts [OF \<open>indexes_ok s\<close> \<open>work_named s\<close>, of w] r
        by (simp add: work_accounted_def)
    next
      case False
      then show ?thesis using r \<open>work_named s\<close> by (simp add: refresh_work_get_other work_named_def)
    qed
    then show ?thesis by (simp add: work_named_def)
  qed
  show ?thesis
    using fold_establishes [of "\<lambda>s. indexes_ok s \<and> work_named s" refresh_work_accounting
        "\<lambda>w s. work_accounted s w" s ks] assms named
    by (auto simp: refresh_work_accounted)
qed

subsection \<open>Recovered records\<close>

lemma stored_lifecycle_cases:
  "stored_lifecycle v = (if v = AgentLifecycle.Retired \<or> v = AgentLifecycle.Lost then v
     else AgentLifecycle.RevalidationRequired)"
  by (cases v) (simp_all add: stored_lifecycle_def lifecycle_hint_def lifecycle_from_hint_def
      kLifecycleNormal_def kLifecycleRetired_def kLifecycleLost_def)

lemma recovered_agent_sel [simp]:
  "ag_descriptor (recovered_agent r) = ag_descriptor r"
  "ag_lifecycle (recovered_agent r) = stored_lifecycle (ag_lifecycle r)"
  "\<not> ag_capability_current (recovered_agent r)" "\<not> ag_health_current (recovered_agent r)"
  "\<not> ag_availability_current (recovered_agent r)" "\<not> ag_load_current (recovered_agent r)"
  "ag_lease_expires_at_ms (recovered_agent r) = 0" "ag_recovered (recovered_agent r)"
  "cp_generation (ag_profile (recovered_agent r)) = cp_generation (ag_profile r)"
  "cp_profile_id (ag_profile (recovered_agent r)) = cp_profile_id (ag_profile r)"
  by (simp_all add: recovered_agent_def conservative_agent_def stored_agent_def)

lemma recovered_agent_again:
  "recompute_lifecycle ((recovered_agent r)\<lparr>ag_active_assignments := n\<rparr>)
     = (recovered_agent r)\<lparr>ag_active_assignments := n\<rparr>"
  by (simp add: recompute_lifecycle_def stored_lifecycle_cases
      recovered_agent_def conservative_agent_def stored_agent_def)

lemma recovered_work_sel [simp]:
  "wr_request (recovered_work r) = wr_request r" "wr_bypass_count (recovered_work r) = wr_bypass_count r"
  "wr_admitted_sequence (recovered_work r) = wr_admitted_sequence r"
  "wr_lifecycle (recovered_work r) =
     (if wr_lifecycle r = WorkLifecycle.Assigned \<or> wr_lifecycle r = WorkLifecycle.Executing
      then WorkLifecycle.Admitted else wr_lifecycle r)"
  by (simp_all add: recovered_work_def conservative_work_def stored_work_def Let_def)

lemma recovered_state: "ar_state (recovered_assignment r) =
     (if record_active r then AssignmentState.RevalidationRequired else ar_state r)"
  by (simp add: recovered_assignment_def conservative_assignment_def stored_assignment_def Let_def)

lemma recovered_assignment_sel [simp]:
  "ar_lease_current (recovered_assignment r) \<longleftrightarrow> False"
  "ar_binding (recovered_assignment r) =
     (if record_active r then (ar_binding r)\<lparr>bn_lease_expires_at_ms := 0\<rparr> else ar_binding r)"
  by (simp_all add: recovered_assignment_def conservative_assignment_def stored_assignment_def Let_def)

lemma recovered_active [simp]: "record_active (recovered_assignment r) = record_active r"
  by (simp add: recovered_state)

subsection \<open>The recovered state\<close>

definition recovered_from :: "Impl \<Rightarrow> Impl \<Rightarrow> bool" where
  "recovered_from s x \<longleftrightarrow>
     im_assignments x = om_map recovered_assignment (im_assignments s)
     \<and> im_policy x = im_policy s \<and> im_fenced_boots x = im_fenced_boots s
     \<and> im_queues x = im_queues s \<and> im_tenants x = im_tenants s
     \<and> im_leases x = om_map stored_lease (im_leases s)
     \<and> im_scheduler_epoch x = im_scheduler_epoch s + 1
     \<and> \<not> im_running x \<and> \<not> im_admission_open x
     \<and> (\<forall>a. \<exists>n. om_get (im_agents x) a = map_option
          (\<lambda>r. (recovered_agent r)\<lparr>ag_active_assignments := n\<rparr>) (om_get (im_agents s) a))
     \<and> (\<forall>w. map_option wr_request (om_get (im_work x) w) = map_option wr_request (om_get (im_work s) w))
     \<and> (\<forall>w r. om_get (im_work s) w = Some r \<longrightarrow> work_is_terminal (wr_lifecycle r) \<longrightarrow>
          (\<exists>r'. om_get (im_work x) w = Some r' \<and> wr_lifecycle r' = wr_lifecycle r))"

lemma recovered_refresh_agent: "recovered_from s x \<Longrightarrow> recovered_from s (refresh_agent_accounting k x)"
proof -
  assume x: "recovered_from s x"
  have "\<exists>n. om_get (im_agents (refresh_agent_accounting k x)) a = map_option
      (\<lambda>r. (recovered_agent r)\<lparr>ag_active_assignments := n\<rparr>) (om_get (im_agents s) a)" for a
  proof -
    obtain n where n: "om_get (im_agents x) a = map_option
        (\<lambda>r. (recovered_agent r)\<lparr>ag_active_assignments := n\<rparr>) (om_get (im_agents s) a)"
      using x unfolding recovered_from_def by blast
    show ?thesis
    proof (cases "a = k")
      case True
      show ?thesis
      proof (cases "om_get (im_agents s) k")
        case None
        then show ?thesis using n True by (simp add: refresh_agent_get)
      next
        case (Some r)
        then show ?thesis using n True
          by (intro exI [of _ "active_assignment_count x (ad_id (ag_descriptor r))"])
            (simp add: refresh_agent_get recovered_agent_again)
      qed
    next
      case False
      then show ?thesis using n by (auto simp: refresh_agent_get)
    qed
  qed
  then show ?thesis using x by (simp add: recovered_from_def)
qed

lemma recovered_refresh_work: "recovered_from s x \<Longrightarrow> recovered_from s (refresh_work_accounting k x)"
proof -
  assume x: "recovered_from s x"
  have req: "map_option wr_request (om_get (im_work (refresh_work_accounting k x)) w)
      = map_option wr_request (om_get (im_work x) w)" for w
    by (cases "om_get (im_work x) k"; cases "w = k")
      (auto simp: refresh_work_accounting_def sync_work_lifecycle_index_def Let_def)
  have terminal: "\<exists>r''. om_get (im_work (refresh_work_accounting k x)) w = Some r''
      \<and> wr_lifecycle r'' = wr_lifecycle r'"
    if "om_get (im_work x) w = Some r'" "work_is_terminal (wr_lifecycle r')" for w r'
  proof (cases "w = k")
    case True
    then show ?thesis using that
      by (simp add: refresh_work_accounting_def sync_work_lifecycle_index_def Let_def)
  next
    case False
    then show ?thesis using that by (simp add: refresh_work_get_other)
  qed
  show ?thesis
    using x req terminal unfolding recovered_from_def by (simp, metis)
qed

lemma state_keyed_named:
  assumes "state_keyed s"
  shows "agents_named s" "work_named s" "keyed (im_assignments s)"
  using assms by (auto simp: state_keyed_def agents_named_def work_named_def keyed_def
      dest!: map_of_SomeD)

lemma adopt_recovered: "recovered_from s (adopt (decoded_of s) t)"
proof -
  have "\<exists>n. map_option recovered_agent x = map_option
      (\<lambda>r. (recovered_agent r)\<lparr>ag_active_assignments := n\<rparr>) x" for x
    by (rule exI [of _ 0], rule option.map_cong0)
      (simp add: recovered_agent_def conservative_agent_def stored_agent_def default_agent_record_def)
  moreover have "work_is_terminal v \<Longrightarrow> v \<noteq> WorkLifecycle.Assigned \<and> v \<noteq> WorkLifecycle.Executing" for v
    by (cases v) simp_all
  ultimately show ?thesis
    by (simp add: recovered_from_def adopt_def decoded_of_def option.map_comp comp_def)
qed

lemma recovered_rebuild: "recovered_from s x \<Longrightarrow> recovered_from s (rebuild_indexes x)"
  by (simp add: recovered_from_def)

lemma recovered_agent_some:
  assumes "recovered_from s x" and "om_get (im_agents x) a = Some r"
  obtains r0 n where "om_get (im_agents s) a = Some r0"
    and "r = (recovered_agent r0)\<lparr>ag_active_assignments := n\<rparr>"
proof -
  obtain n where "om_get (im_agents x) a = map_option
      (\<lambda>r. (recovered_agent r)\<lparr>ag_active_assignments := n\<rparr>) (om_get (im_agents s) a)"
    using assms(1) unfolding recovered_from_def by blast
  then show ?thesis using assms(2) that by (cases "om_get (im_agents s) a") simp_all
qed

lemma recovered_named:
  assumes "recovered_from s x" and "state_keyed s"
  shows "agents_named x \<and> work_named x \<and> keyed (im_assignments x) \<and> om_ok (im_assignments x)"
proof -
  note named = state_keyed_named [OF assms(2)]
  have "agents_named x"
    unfolding agents_named_def
  proof (intro allI impI)
    fix a r assume r: "om_get (im_agents x) a = Some r"
    obtain r0 n where "om_get (im_agents s) a = Some r0"
      "r = (recovered_agent r0)\<lparr>ag_active_assignments := n\<rparr>"
      by (rule recovered_agent_some [OF assms(1) r])
    then show "ad_id (ag_descriptor r) = a" using named(1) by (simp add: agents_named_def)
  qed
  moreover have "work_named x"
    unfolding work_named_def
  proof (intro allI impI)
    fix w r assume "om_get (im_work x) w = Some r"
    then have "map_option wr_request (om_get (im_work s) w) = Some (wr_request r)"
      using assms(1) unfolding recovered_from_def by (metis option.simps(9))
    then obtain r0 where "om_get (im_work s) w = Some r0" "wr_request r0 = wr_request r" by auto
    then show "wq_id (wr_request r) = w" using named(2) by (metis work_named_def)
  qed
  moreover have "keyed (im_assignments x)" "om_ok (im_assignments x)"
    using assms named(3) by (auto simp: recovered_from_def keyed_def state_keyed_def)
  ultimately show ?thesis by blast
qed

lemma recovered_domain:
  assumes "recovered_from s x"
  shows "om_get (im_agents x) a = None \<longleftrightarrow> om_get (im_agents s) a = None"
    and "om_get (im_work x) w = None \<longleftrightarrow> om_get (im_work s) w = None"
proof -
  obtain n where "om_get (im_agents x) a = map_option
      (\<lambda>r. (recovered_agent r)\<lparr>ag_active_assignments := n\<rparr>) (om_get (im_agents s) a)"
    using assms unfolding recovered_from_def by blast
  then show "om_get (im_agents x) a = None \<longleftrightarrow> om_get (im_agents s) a = None" by simp
  have "map_option wr_request (om_get (im_work x) w) = map_option wr_request (om_get (im_work s) w)"
    using assms unfolding recovered_from_def by blast
  then show "om_get (im_work x) w = None \<longleftrightarrow> om_get (im_work s) w = None"
    by (metis option.map_disc_iff)
qed

lemma recover_recovered:
  assumes "state_keyed s"
  shows "recovered_from s (recover (decoded_of s) t) \<and> accounts_ok (recover (decoded_of s) t)"
proof -
  let ?x1 = "rebuild_indexes (adopt (decoded_of s) t)"
  let ?x2 = "fold refresh_agent_accounting (om_keys (im_agents ?x1)) ?x1"
  let ?x3 = "fold refresh_work_accounting (om_keys (im_work ?x2)) ?x2"
  have r1: "recovered_from s ?x1" by (intro recovered_rebuild adopt_recovered)
  note n1 = recovered_named [OF r1 assms]
  have i1: "indexes_ok ?x1"
    by (rule rebuild_indexes_ok) (use n1 in simp_all)
  have r2: "recovered_from s ?x2"
    using fold_establishes [of "recovered_from s" refresh_agent_accounting "\<lambda>_ _. True"] r1
      recovered_refresh_agent by blast
  have a2: "indexes_ok ?x2" "agents_named ?x2" "agent_accounted ?x2 a" for a
  proof -
    note all = refresh_all_agents [OF i1, of "om_keys (im_agents ?x1)"] n1
    then show "indexes_ok ?x2" "agents_named ?x2" by blast+
    have "om_get (im_agents ?x2) a = None" if "a \<notin> set (om_keys (im_agents ?x1))"
      using that recovered_domain(1) [OF r1] recovered_domain(1) [OF r2] by (metis om_keys_iff)
    then show "agent_accounted ?x2 a" using all by (cases "a \<in> set (om_keys (im_agents ?x1))")
      (auto simp: agent_accounted_def simp del: set_om_keys)
  qed
  have n2: "work_named ?x2" using recovered_named [OF r2 assms] by blast
  have r3: "recovered_from s ?x3"
    using fold_establishes [of "recovered_from s" refresh_work_accounting "\<lambda>_ _. True"] r2
      recovered_refresh_work by blast
  have agents: "agent_accounted ?x3 a" for a
    using a2(3) [of a] fold_keeps [of "\<lambda>x. agent_accounted x a" refresh_work_accounting] by simp
  have work: "indexes_ok ?x3" "work_accounted ?x3 w" for w
  proof -
    note all = refresh_all_work [OF a2(1) n2, of "om_keys (im_work ?x2)"]
    then show "indexes_ok ?x3" by blast
    have "om_get (im_work ?x3) w = None" if "w \<notin> set (om_keys (im_work ?x2))"
      using that recovered_domain(2) [OF r2] recovered_domain(2) [OF r3] by (metis om_keys_iff)
    then show "work_accounted ?x3 w" using all by (cases "w \<in> set (om_keys (im_work ?x2))")
      (auto simp: work_accounted_def simp del: set_om_keys)
  qed
  have "accounts_ok ?x3" using agents work by (simp add: accounts_ok_def)
  moreover have "recover (decoded_of s) t = bump_revision ?x3" by (simp add: recover_def Let_def)
  moreover have "recovered_from s (bump_revision x) = recovered_from s x" for x
    by (simp add: recovered_from_def bump_revision_def)
  ultimately show ?thesis using r3
    by (simp add: accounts_ok_def agent_accounted_def work_accounted_def indexes_ok_def bump_revision_def)
qed

text \<open>Authority after recovery: nothing active is usable, no evidence is current.\<close>

definition conservative :: "Impl \<Rightarrow> bool" where
  "conservative x \<longleftrightarrow>
     (\<forall>k r. om_get (im_assignments x) k = Some r \<longrightarrow> record_active r \<longrightarrow>
          ar_state r = AssignmentState.RevalidationRequired \<and> \<not> ar_lease_current r
          \<and> bn_lease_expires_at_ms (ar_binding r) = 0
          \<and> bn_scheduler_epoch (ar_binding r) < im_scheduler_epoch x)
     \<and> (\<forall>a r. om_get (im_agents x) a = Some r \<longrightarrow>
          \<not> ag_capability_current r \<and> \<not> ag_health_current r \<and> \<not> ag_availability_current r
          \<and> \<not> ag_load_current r \<and> ag_lease_expires_at_ms r = 0
          \<and> ag_lifecycle r \<in> {AgentLifecycle.RevalidationRequired, AgentLifecycle.Lost,
                               AgentLifecycle.Retired})"

lemma recovered_owned:
  assumes "recovered_from s x" and "\<And>r. owner (ar_binding (recovered_assignment r)) = owner (ar_binding r)"
  shows "active_owned (im_assignments x) owner j = active_owned (im_assignments s) owner j"
proof -
  have "im_assignments x = om_map recovered_assignment (im_assignments s)"
    using assms(1) by (simp add: recovered_from_def)
  then show ?thesis
    by (auto simp: active_owned_def assms(2) simp del: recovered_assignment_sel)
qed

text \<open>
  The invariant of the running scheduler survives the restart: the epoch that recovery
  advances is what keeps a recovered assignment from ever being revalidated.
\<close>

lemma recovered_agent_auth:
  assumes "recovered_from s x"
  shows "agent_auth x a = map_option (\<lambda>(g, b, c, y). (g, b, False, y)) (agent_auth s a)"
proof -
  obtain n where "om_get (im_agents x) a = map_option
      (\<lambda>r. (recovered_agent r)\<lparr>ag_active_assignments := n\<rparr>) (om_get (im_agents s) a)"
    using assms unfolding recovered_from_def by blast
  then show ?thesis by (auto simp: agent_auth_def option.map_comp comp_def)
qed

lemma recovered_work_req: "recovered_from s x \<Longrightarrow> work_req x w = work_req s w"
  by (simp add: recovered_from_def work_req_def)

lemma recovered_assignments:
  assumes "recovered_from s x" and "om_get (im_assignments x) k = Some r" and "record_active r"
  obtains r0 where "om_get (im_assignments s) k = Some r0" and "record_active r0"
    and "r = recovered_assignment r0"
  using assms unfolding recovered_from_def by auto

lemma later_epoch:
  assumes "recovered_from s x" and "im_scheduler_epoch s + 1 \<noteq> 0" and "e \<le> im_scheduler_epoch s"
  shows "e < im_scheduler_epoch x"
proof -
  have "im_scheduler_epoch s < im_scheduler_epoch s + 1"
    using assms(2) unatSuc [of "im_scheduler_epoch s"] by (simp add: add.commute word_less_nat_alt)
  then show ?thesis using assms(1,3) by (simp add: recovered_from_def)
qed

lemma recovered_bound:
  assumes core: "core_inv s" and x: "recovered_from s x" and epoch: "im_scheduler_epoch s + 1 \<noteq> 0"
    and got: "om_get (im_assignments x) k = Some r" and live: "record_active r"
  shows "assignment_bound x r \<and> bn_scheduler_epoch (ar_binding r) < im_scheduler_epoch x"
proof -
  obtain r0 where r0: "om_get (im_assignments s) k = Some r0" "record_active r0"
    "r = recovered_assignment r0" by (rule recovered_assignments [OF x got live])
  have bound: "assignment_bound s r0" by (rule core_inv_bound [OF core r0(1,2)])
  then have "bn_scheduler_epoch (ar_binding r0) \<le> im_scheduler_epoch s"
    by (simp add: assignment_bound_def Let_def)
  note later = later_epoch [OF x epoch this]
  have "im_policy x = im_policy s" using x by (simp add: recovered_from_def)
  then show ?thesis
    using bound r0(2,3) later
    by (auto simp: assignment_bound_def Let_def recovered_work_req [OF x] recovered_agent_auth [OF x]
        recovered_state evidence_bound_def)
qed

lemma recovered_core:
  assumes core: "core_inv s" and x: "recovered_from s x" "accounts_ok x"
    and epoch: "im_scheduler_epoch s + 1 \<noteq> 0"
  shows "core_inv x"
  unfolding core_inv_def
proof (intro conjI allI impI)
  have owned: "assignments_of_work x w = assignments_of_work s w"
    "assignments_of_agent x a = assignments_of_agent s a" for w a
    using recovered_owned [OF x(1), of bn_work w] recovered_owned [OF x(1), of bn_agent a] by simp_all
  show "accounts_ok x" by (rule x(2))
  show "assignment_bound x r" if "om_get (im_assignments x) k = Some r" "record_active r" for k r
    using recovered_bound [OF core x(1) epoch that] by blast
  show "b \<noteq> hash128_zero" if "agent_auth x a = Some (g, b, y)" for a g b y
  proof -
    have "\<exists>c. agent_auth s a = Some (g, b, c, snd y)"
      using that by (cases y) (auto simp: recovered_agent_auth [OF x(1)])
    then obtain c where "agent_auth s a = Some (g, b, c, snd y)" by (rule exE)
    then show ?thesis by (rule core_inv_boots [OF core])
  qed
  fix w q assume "work_req x w = Some q"
  then have "work_req s w = Some q" by (simp add: recovered_work_req [OF x(1)])
  then show "request_wf q" "fanout_bounded x w q"
    using core_inv_reqs [OF core] core_inv_fanout [OF core]
    by (simp_all add: fanout_bounded_def held_by_def owned)
next
  fix a show "card (assignments_of_agent x a) < 2 ^ 32"
    using core_inv_card [OF core] recovered_owned [OF x(1), of bn_agent a] by simp
qed

lemma recovered_conservative:
  assumes core: "core_inv s" and x: "recovered_from s x" and epoch: "im_scheduler_epoch s + 1 \<noteq> 0"
  shows "conservative x"
  unfolding conservative_def
proof (intro conjI allI impI)
  fix k r assume got: "om_get (im_assignments x) k = Some r" and live: "record_active r"
  then obtain r0 where r0: "record_active r0" "r = recovered_assignment r0"
    by (rule recovered_assignments [OF x])
  then show "ar_state r = AssignmentState.RevalidationRequired" "\<not> ar_lease_current r"
    "bn_lease_expires_at_ms (ar_binding r) = 0" by (simp_all add: recovered_state)
  show "bn_scheduler_epoch (ar_binding r) < im_scheduler_epoch x"
    using recovered_bound [OF core x epoch got live] by blast
next
  fix a r assume got: "om_get (im_agents x) a = Some r"
  obtain r0 n where "r = (recovered_agent r0)\<lparr>ag_active_assignments := n\<rparr>"
    by (rule recovered_agent_some [OF x got])
  then show "\<not> ag_capability_current r" "\<not> ag_health_current r" "\<not> ag_availability_current r"
    "\<not> ag_load_current r" "ag_lease_expires_at_ms r = 0"
    "ag_lifecycle r \<in> {AgentLifecycle.RevalidationRequired, AgentLifecycle.Lost, AgentLifecycle.Retired}"
    by (simp_all add: stored_lifecycle_cases)
qed

text \<open>Loading a saved file into a stopped scheduler.\<close>

lemma load_saved:
  assumes saved: "save_bytes popts path s = Inr (Inr f)" and fits: "state_fits s" "state_keyed s"
    and size: "length f < 2 ^ 64" and t: "\<not> im_running t" "im_limits t = im_limits s"
  shows "\<exists>r. load_state lopts path' (Inr f) t = (recover (decoded_of s) t, r) \<and> rv_error r = None
    \<and> rv_stored_digest r = rv_computed_digest r"
proof -
  obtain r where "load_file lopts path' (im_limits s) f = Inr (decoded_of s, r)"
    "rv_error r = None" "rv_stored_digest r = rv_computed_digest r"
    using load_saved_file [OF saved fits size] by blast
  then show ?thesis using t by (simp add: load_state_def load_commit_def Let_def)
qed

lemma load_recovered:
  assumes "save_bytes popts path s = Inr (Inr f)" and "state_fits s" and "state_keyed s"
    and "length f < 2 ^ 64" and "\<not> im_running t" and "im_limits t = im_limits s"
  shows "recovered_from s (fst (load_state lopts path' (Inr f) t)) \<and> accounts_ok (fst (load_state lopts path' (Inr f) t))"
proof -
  obtain r where "load_state lopts path' (Inr f) t = (recover (decoded_of s) t, r)"
    using load_saved [OF assms] by blast
  then show ?thesis using recover_recovered [OF assms(3), of t] by simp
qed

end
