(* ===== verification/Keyed_Maps.thy ===== *)
theory Keyed_Maps
  imports Recovery
begin

section \<open>Every record is stored under its own identity\<close>

text \<open>
  state_keyed: the maps are in key order and the key of a record is the identity the record
  carries. It holds in the constructed scheduler, survives every critical section and every
  recovery. Proved one mutation at a time, as an introduction rule per mutation.
\<close>

definition well_keyed :: "('v \<Rightarrow> 'k::linorder) \<Rightarrow> ('k, 'v) omap \<Rightarrow> bool" where
  "well_keyed ident m \<longleftrightarrow> om_ok m \<and> (\<forall>k v. om_get m k = Some v \<longrightarrow> ident v = k)"

abbreviation agent_ident :: "AgentRecord \<Rightarrow> u64" where
  "agent_ident r \<equiv> ad_id (ag_descriptor r)"

abbreviation work_ident :: "WorkRecord \<Rightarrow> u64" where
  "work_ident r \<equiv> wq_id (wr_request r)"

abbreviation assignment_ident :: "AssignmentRecord \<Rightarrow> Hash128" where
  "assignment_ident r \<equiv> bn_id (ar_binding r)"

lemma well_keyed_set:
  "om_ok m \<and> (\<forall>(k, v) \<in> set m. ident v = k) \<longleftrightarrow> well_keyed ident m"
  unfolding well_keyed_def using om_get_entries by fastforce

lemma state_keyed_maps:
  "state_keyed s \<longleftrightarrow> well_keyed qr_id (im_queues s) \<and> well_keyed tr_id (im_tenants s)
     \<and> well_keyed agent_ident (im_agents s) \<and> well_keyed work_ident (im_work s)
     \<and> well_keyed assignment_ident (im_assignments s) \<and> well_keyed ls_id (im_leases s)
     \<and> well_keyed fb_boot (im_fenced_boots s)"
  by (simp add: state_keyed_def well_keyed_set)

lemma well_keyed_Nil [simp]: "well_keyed ident []"
  by (simp add: well_keyed_def)

lemma well_keyed_put [simp]: "well_keyed ident m \<Longrightarrow> ident v = k \<Longrightarrow> well_keyed ident (om_put k v m)"
  by (simp add: well_keyed_def)

lemma well_keyed_emplace [simp]:
  "well_keyed ident m \<Longrightarrow> ident v = k \<Longrightarrow> well_keyed ident (om_emplace k v m)"
  by (simp add: om_emplace_def split: option.split)

lemma well_keyed_adjust:
  "well_keyed ident m \<Longrightarrow> (\<And>v. ident v = k \<Longrightarrow> ident (f v) = k) \<Longrightarrow> well_keyed ident (om_adjust k f m)"
  by (auto simp: well_keyed_def)

lemma well_keyed_map:
  "well_keyed ident m \<Longrightarrow> (\<And>v. ident (f v) = ident v) \<Longrightarrow> well_keyed ident (om_map f m)"
  by (auto simp: well_keyed_def)

lemma well_keyed_get: "well_keyed ident m \<Longrightarrow> om_get m k = Some v \<Longrightarrow> ident v = k"
  by (simp add: well_keyed_def)

subsection \<open>The mutations\<close>

named_theorems keyed_steps \<open>mutations keep every record under its identity\<close>

text \<open>A change of fields outside the seven maps.\<close>

lemma state_keyed_cong:
  assumes "im_queues t = im_queues s" and "im_tenants t = im_tenants s"
    and "im_agents t = im_agents s" and "im_work t = im_work s"
    and "im_assignments t = im_assignments s" and "im_leases t = im_leases s"
    and "im_fenced_boots t = im_fenced_boots s"
  shows "state_keyed s \<Longrightarrow> state_keyed t"
  using assms by (simp add: state_keyed_maps)

lemma keyed_fields [keyed_steps]:
  "state_keyed s \<Longrightarrow> state_keyed (s\<lparr>im_now := t\<rparr>)"
  "state_keyed s \<Longrightarrow> state_keyed (s\<lparr>im_feasibility := p\<rparr>)"
  "state_keyed s \<Longrightarrow> state_keyed (s\<lparr>im_policy := policy\<rparr>)"
  "state_keyed s \<Longrightarrow> state_keyed (s\<lparr>im_scheduling_rounds := n\<rparr>)"
  "state_keyed s \<Longrightarrow> state_keyed (s\<lparr>im_next_admission_sequence := n\<rparr>)"
  "state_keyed s \<Longrightarrow> state_keyed (bump_revision s)"
  "state_keyed s \<Longrightarrow> state_keyed (index_agent r s)"
  "state_keyed s \<Longrightarrow> state_keyed (deindex_agent a s)"
  "state_keyed s \<Longrightarrow> state_keyed (index_work wr s)"
  "state_keyed s \<Longrightarrow> state_keyed (deindex_work w s)"
  "state_keyed s \<Longrightarrow> state_keyed (index_assignment ar s)"
  "state_keyed s \<Longrightarrow> state_keyed (sync_work_lifecycle_index w lc s)"
  by (simp_all add: state_keyed_maps)

lemma keyed_maps [keyed_steps]:
  "state_keyed s \<Longrightarrow> well_keyed qr_id q \<Longrightarrow> state_keyed (s\<lparr>im_queues := q\<rparr>)"
  "state_keyed s \<Longrightarrow> well_keyed tr_id tn \<Longrightarrow> state_keyed (s\<lparr>im_tenants := tn\<rparr>)"
  "state_keyed s \<Longrightarrow> well_keyed agent_ident ag \<Longrightarrow> state_keyed (s\<lparr>im_agents := ag\<rparr>)"
  "state_keyed s \<Longrightarrow> well_keyed work_ident wk \<Longrightarrow> state_keyed (s\<lparr>im_work := wk\<rparr>)"
  by (simp_all add: state_keyed_maps)

lemma state_keyedD:
  assumes "state_keyed s"
  shows "well_keyed qr_id (im_queues s)" "well_keyed tr_id (im_tenants s)"
    "well_keyed agent_ident (im_agents s)" "well_keyed work_ident (im_work s)"
    "well_keyed assignment_ident (im_assignments s)" "well_keyed ls_id (im_leases s)"
    "well_keyed fb_boot (im_fenced_boots s)"
  using assms by (simp_all add: state_keyed_maps)

lemma keyed_adjust_agent [keyed_steps]:
  "state_keyed s \<Longrightarrow> (\<And>r. agent_ident r = a \<Longrightarrow> agent_ident (f r) = a) \<Longrightarrow>
   state_keyed (adjust_agent a f s)"
  by (simp add: adjust_agent_def keyed_maps state_keyedD well_keyed_adjust)

lemma keyed_adjust_work [keyed_steps]:
  "state_keyed s \<Longrightarrow> (\<And>r. work_ident r = w \<Longrightarrow> work_ident (f r) = w) \<Longrightarrow>
   state_keyed (adjust_work w f s)"
  by (simp add: adjust_work_def keyed_maps state_keyedD well_keyed_adjust)

lemma keyed_adjust_queue [keyed_steps]:
  "state_keyed s \<Longrightarrow> (\<And>r. qr_id r = q \<Longrightarrow> qr_id (f r) = q) \<Longrightarrow> state_keyed (adjust_queue q f s)"
  by (simp add: adjust_queue_def keyed_maps state_keyedD well_keyed_adjust)

lemma keyed_adjust_tenant [keyed_steps]:
  "state_keyed s \<Longrightarrow> (\<And>r. tr_id r = t \<Longrightarrow> tr_id (f r) = t) \<Longrightarrow> state_keyed (adjust_tenant t f s)"
  by (simp add: adjust_tenant_def keyed_maps state_keyedD well_keyed_adjust)

lemma keyed_adjust_assignment [keyed_steps]:
  "state_keyed s \<Longrightarrow> (\<And>r. assignment_ident r = k \<Longrightarrow> assignment_ident (f r) = k) \<Longrightarrow>
   state_keyed (adjust_assignment k f s)"
  by (simp add: adjust_assignment_def state_keyed_maps well_keyed_adjust)

lemma keyed_adjust_lease [keyed_steps]:
  "state_keyed s \<Longrightarrow> (\<And>l. ls_id l = k \<Longrightarrow> ls_id (f l) = k) \<Longrightarrow> state_keyed (adjust_lease k f s)"
  by (simp add: adjust_lease_def state_keyed_maps well_keyed_adjust)

lemma keyed_fence_boot [keyed_steps]: "state_keyed s \<Longrightarrow> state_keyed (fence_boot a b g d s)"
  by (simp add: fence_boot_def state_keyed_maps)

lemma recompute_lifecycle_ident [simp]: "agent_ident (recompute_lifecycle r) = agent_ident r"
  by (simp add: recompute_lifecycle_def)

lemma decay_recent_ident [simp]: "agent_ident (decay_recent r) = agent_ident r"
  by (simp add: decay_recent_def)

lemma keyed_refresh_agent_accounting [keyed_steps]:
  assumes "state_keyed s"
  shows "state_keyed (refresh_agent_accounting a s)"
proof (cases "om_get (im_agents s) a")
  case (Some r)
  then have "agent_ident r = a" by (rule well_keyed_get [OF state_keyedD(3) [OF assms]])
  then show ?thesis
    using Some assms
    by (simp add: refresh_agent_accounting_def sync_agent_lifecycle_index_def state_keyed_maps Let_def)
qed (simp add: refresh_agent_accounting_def assms)

lemma keyed_refresh_work_accounting [keyed_steps]:
  assumes "state_keyed s"
  shows "state_keyed (refresh_work_accounting w s)"
proof (cases "om_get (im_work s) w")
  case (Some r)
  then have "work_ident r = w" by (rule well_keyed_get [OF state_keyedD(4) [OF assms]])
  then show ?thesis
    using Some assms
    by (simp add: refresh_work_accounting_def sync_work_lifecycle_index_def state_keyed_maps Let_def)
qed (simp add: refresh_work_accounting_def assms)

lemma keyed_index_stored [keyed_steps]:
  "state_keyed s \<Longrightarrow> state_keyed (case om_get (im_agents s) a of None \<Rightarrow> s | Some r \<Rightarrow> index_agent r s)"
  "state_keyed s \<Longrightarrow> state_keyed (case om_get (im_work s) w of None \<Rightarrow> s | Some wr \<Rightarrow> index_work wr s)"
  "state_keyed s \<Longrightarrow> state_keyed (case om_get (im_assignments s) k of None \<Rightarrow> s
     | Some ar \<Rightarrow> index_assignment ar s)"
  by (auto intro: keyed_steps split: option.split)

lemma keyed_refresh_agent [keyed_steps]: "state_keyed s \<Longrightarrow> state_keyed (refresh_agent a s)"
  unfolding refresh_agent_def Let_def by (intro keyed_steps)

lemma keyed_close_assignment [keyed_steps]:
  assumes "state_keyed s"
  shows "state_keyed (close_assignment k st re d s)"
proof (cases "om_get (im_assignments s) k")
  case (Some r)
  have ident: "assignment_ident r = k" by (rule well_keyed_get [OF state_keyedD(5) [OF assms] Some])
  let ?r = "closed_record (im_now s) st re d r"
  let ?s1 = "s\<lparr>im_assignments := om_put k ?r (im_assignments s),
    im_leases := om_adjust (bn_lease (ar_binding ?r)) (\<lambda>l. l\<lparr>ls_current := False\<rparr>) (im_leases s)\<rparr>"
  have "state_keyed ?s1"
    using assms ident by (simp add: state_keyed_maps well_keyed_adjust)
  then have "state_keyed (deindex_assignment ?r ?s1)"
    by (rule state_keyed_cong [rotated -1]) (simp_all add: deindex_assignment_def Let_def)
  then have main: "state_keyed (refresh_work_accounting w (refresh_agent_accounting a
      ((deindex_assignment ?r ?s1)\<lparr>im_agents := om_adjust a decay_recent
        (im_agents (deindex_assignment ?r ?s1))\<rparr>)))" for w a
    by (intro keyed_steps well_keyed_adjust state_keyedD) simp_all
  have "state_keyed (t\<lparr>im_assignments_invalidated := n, im_state_revision := m\<rparr>) = state_keyed t" for t n m
    by (simp add: state_keyed_maps)
  with main show ?thesis
    using Some assms by (simp only: close_assignment_def Let_def option.case if_split) simp
qed (simp add: close_assignment_def assms)

lemma fold_keyed:
  "state_keyed s \<Longrightarrow> (\<And>x t. state_keyed t \<Longrightarrow> state_keyed (f x t)) \<Longrightarrow> state_keyed (fold f xs s)"
  by (induction xs arbitrary: s) simp_all

lemma keyed_close_where [keyed_steps]: "state_keyed s \<Longrightarrow> state_keyed (close_where P st re d s)"
  unfolding close_where_def
  by (rule fold_keyed) (simp_all add: close_if_def keyed_close_assignment)

lemma keyed_close_parts [keyed_steps]:
  "state_keyed s \<Longrightarrow> state_keyed (close_all_active b st re d s)"
  "state_keyed s \<Longrightarrow> state_keyed (close_work w st re d s)"
  "state_keyed s \<Longrightarrow> state_keyed (close_stale k failure s)"
  by (simp_all add: close_all_active_def close_work_def close_stale_def keyed_steps)

subsection \<open>The operations\<close>

lemma keyed_observe:
  "state_keyed s \<Longrightarrow> (\<And>r. om_get (im_assignments s) k = Some r \<Longrightarrow> state_keyed (fst (f r))) \<Longrightarrow>
   state_keyed (fst (observe oper k g b s f))"
  by (auto simp: observe_def dest: lookup_assignment_Inr split: sum.split)

lemma keyed_with_incarnation:
  "state_keyed s \<Longrightarrow> (\<And>r. om_get (im_agents s) a = Some r \<Longrightarrow> state_keyed (fst (f r))) \<Longrightarrow>
   state_keyed (fst (with_incarnation oper stale a b s f))"
  by (simp add: with_incarnation_def split: option.split)

lemma keyed_settle_work [keyed_steps]: "state_keyed s \<Longrightarrow> state_keyed (settle_work w lc reason s)"
  by (auto simp: settle_work_def intro!: keyed_steps split: option.split)

lemma keyed_release_tenant_slot [keyed_steps]: "state_keyed s \<Longrightarrow> state_keyed (release_tenant_slot w s)"
  by (auto simp: release_tenant_slot_def intro!: keyed_steps split: option.split)

lemma keyed_end_incarnation [keyed_steps]: "state_keyed s \<Longrightarrow> state_keyed (end_incarnation a lc re s)"
  unfolding end_incarnation_def
  by (intro keyed_steps) (simp_all add: invalidate_dynamic_evidence_def)

lemma keyed_process:
  assumes "state_keyed s"
  shows "state_keyed (fst (start s))" and "state_keyed (fst (shutdown s))"
    and "state_keyed (fst (set_policy p s))" and "state_keyed (fst (register_queue q g c n s))"
proof -
  show "state_keyed (fst (start s))"
    using assms by (auto simp: start_def state_keyed_maps)
  have "state_keyed (s\<lparr>im_shutting_down := True, im_admission_open := False, im_running := False,
      im_shutdown_at_ms := im_now s\<rparr>)"
    using assms by (simp add: state_keyed_maps)
  then show "state_keyed (fst (shutdown s))"
    using assms by (auto simp: shutdown_def Let_def intro!: keyed_steps)
  show "state_keyed (fst (set_policy p s))"
    using assms by (auto simp: set_policy_def Let_def intro!: keyed_steps split: option.split)
  show "state_keyed (fst (register_queue q g c n s))"
    using assms by (auto simp: register_queue_def Let_def state_keyedD intro!: keyed_steps well_keyed_emplace
        split: option.split)
qed

lemma keyed_observations:
  assumes "state_keyed s"
  shows "state_keyed (fst (acknowledge k g di dg b s))" and "state_keyed (fst (mark_executing k g b s))"
    and "state_keyed (fst (release k g b re s))" and "state_keyed (fst (complete_assignment k g b s))"
    and "state_keyed (fst (fail_assignment k g b re s))"
    and "state_keyed (fst (reject_assignment k g b re s))"
    and "state_keyed (fst (expire_leases s))"
  unfolding acknowledge_def mark_executing_def release_def complete_assignment_def fail_assignment_def
    reject_assignment_def expire_leases_def Let_def
  by (auto intro!: keyed_observe keyed_steps assms)

lemma renew_idents [simp]:
  "assignment_ident (renew_record st e r) = assignment_ident r" "ls_id (renew_lease e l) = ls_id l"
  "assignment_ident (handoff_record now e r) = assignment_ident r"
  by (simp_all add: renew_record_def renew_lease_def handoff_record_def)

lemma keyed_dispatch: "state_keyed s \<Longrightarrow> state_keyed (fst (dispatch_commit k g s))"
  by (auto simp: dispatch_commit_def Let_def intro!: keyed_steps split: option.split)

lemma keyed_promote [keyed_steps]: "state_keyed s \<Longrightarrow> state_keyed (promote_assignment k b s)"
  unfolding promote_assignment_def Let_def by (intro keyed_steps) simp_all

lemma keyed_revalidate:
  assumes "state_keyed s"
  shows "state_keyed (fst (revalidate_assignments s))"
    and "state_keyed (fst (revalidate_agent_assignments a b s))"
proof -
  have one: "state_keyed (fst st) \<Longrightarrow> state_keyed (fst (revalidate_one k st))" for k st
    by (auto simp: revalidate_one_def Let_def intro!: keyed_steps split: option.split)
  have agent_one: "state_keyed (fst st) \<Longrightarrow> state_keyed (fst (revalidate_agent_one a b k st))" for k st
    by (auto simp: revalidate_agent_one_def Let_def intro!: keyed_steps split: option.split)
  have fold_one: "state_keyed (fst st) \<Longrightarrow> (\<And>k st. state_keyed (fst st) \<Longrightarrow> state_keyed (fst (f k st)))
      \<Longrightarrow> state_keyed (fst (finish_revalidation (fold f ks st)))" for f ks st
    by (induction ks arbitrary: st) (simp_all add: finish_revalidation_def keyed_steps)
  show "state_keyed (fst (revalidate_assignments s))"
    unfolding revalidate_assignments_def by (rule fold_one) (simp_all add: assms one)
  show "state_keyed (fst (revalidate_agent_assignments a b s))"
    using assms fold_one [of "(s, default_report)" "revalidate_agent_one a b"] agent_one
    by (simp add: revalidate_agent_assignments_def split: option.split)
qed

lemma fresh_agent_ident [simp]: "agent_ident (fresh_agent d reason s) = ad_id d"
  by (simp add: fresh_agent_def canonical_descriptor_def)

lemma keyed_register: "state_keyed s \<Longrightarrow> state_keyed (fst (register_commit d s))"
proof -
  assume s: "state_keyed s"
  have "state_keyed (reincarnate d r s)" for r
    unfolding reincarnate_def Let_def
    by (intro keyed_steps well_keyed_put) (simp_all add: s keyed_steps state_keyedD)
  moreover have "state_keyed (reregister d s)"
    unfolding reregister_def
    by (intro keyed_steps s) (simp add: canonical_descriptor_def)
  moreover have "state_keyed (register_new d s)"
    unfolding register_new_def Let_def
    by (intro keyed_steps well_keyed_emplace) (simp_all add: s state_keyedD)
  ultimately show ?thesis
    using s by (simp add: register_commit_def Let_def split: option.split)
qed

lemma keyed_publish:
  assumes "state_keyed s"
  shows "state_keyed (fst (publish_health a b h s))" and "state_keyed (fst (publish_availability a b v s))"
    and "state_keyed (fst (publish_load a b l s))" and "state_keyed (fst (heartbeat a b g s))"
    and "state_keyed (fst (drain_agent a b force s))" and "state_keyed (fst (deregister_agent a b force s))"
    and "state_keyed (lost_commit a b re s)"
  unfolding publish_health_def publish_availability_def publish_load_def heartbeat_def drain_agent_def
    deregister_agent_def lost_commit_def Let_def
  by (auto intro!: keyed_with_incarnation keyed_steps assms split: option.split)

lemma keyed_publish_capabilities: "state_keyed s \<Longrightarrow> state_keyed (fst (publish_capabilities a b p s))"
proof -
  assume s: "state_keyed s"
  have mark: "state_keyed t \<Longrightarrow> state_keyed (mark_superseded a q k t)" for q k t
    by (auto simp: mark_superseded_def require_revalidation_def intro!: keyed_steps split: option.split)
  have "state_keyed (apply_capabilities a q s)" for q
    unfolding apply_capabilities_def Let_def
    by (intro keyed_steps fold_keyed mark s) simp
  then show ?thesis
    using s by (auto simp: publish_capabilities_def Let_def intro!: keyed_with_incarnation
        split: sum.split)
qed

lemma keyed_ensure:
  assumes "state_keyed s"
  shows "state_keyed (fst (ensure_queue q s))" and "state_keyed (fst (ensure_tenant t s))"
  using assms
  by (auto simp: ensure_queue_def ensure_tenant_def Let_def state_keyedD
      intro!: keyed_steps well_keyed_emplace split: option.split)

lemma keyed_ensure_both:
  assumes "state_keyed s" and "\<And>t. state_keyed t \<Longrightarrow> state_keyed (fst (f t))"
  shows "state_keyed (fst (ensure_both q s f))"
proof (cases "ensure_queue q s")
  case (Pair s1 e1)
  have s1: "state_keyed s1" using keyed_ensure(1) [OF assms(1), of q] Pair by simp
  obtain s2 e2 where s2: "ensure_tenant (rq_tenant (wq_requirements q)) s1 = (s2, e2)" by fastforce
  have "state_keyed s2" using keyed_ensure(2) [OF s1, of "rq_tenant (wq_requirements q)"] s2 by simp
  then show ?thesis
    using Pair s1 s2 assms(2) by (simp add: ensure_both_def split: option.split)
qed

lemma keyed_readmit [keyed_steps]: "state_keyed s \<Longrightarrow> state_keyed (readmit q reason s)"
proof -
  assume s: "state_keyed s"
  then show ?thesis
    unfolding readmit_def Let_def
    by (intro keyed_steps) (simp_all add: readmitted_def)
qed

lemma keyed_count_admitted [keyed_steps]: "state_keyed s \<Longrightarrow> state_keyed (count_admitted q s)"
  unfolding count_admitted_def by (intro keyed_steps) simp_all

lemma keyed_submit: "state_keyed s \<Longrightarrow> state_keyed (fst (submit_commit q s))"
  by (auto simp: submit_commit_def Let_def state_keyedD
      intro!: keyed_ensure_both keyed_steps well_keyed_emplace split: option.split)

lemma keyed_work:
  assumes "state_keyed s"
  shows "state_keyed (fst (cancel_commit w g re s))" and "state_keyed (fst (supersede_work w g q s))"
    and "state_keyed (fst (expire_deadlines s))"
proof -
  show "state_keyed (fst (cancel_commit w g re s))"
    using assms by (auto simp: cancel_commit_def Let_def intro!: keyed_steps split: option.split)
  show "state_keyed (fst (supersede_work w g q s))"
    using assms by (auto simp: supersede_work_def Let_def intro!: keyed_ensure_both keyed_steps
        split: option.split)
  have one: "state_keyed (fst st) \<Longrightarrow> state_keyed (fst (expire_one x st))" for x st
    by (auto simp: expire_one_def Let_def intro!: keyed_steps split: option.split)
  have "state_keyed (fst st) \<Longrightarrow> state_keyed (fst (fold expire_one ws st))" for ws st
    by (induction ws arbitrary: st) (simp_all add: one)
  from this [of "(s, False)" "om_keys (im_work s)"] show "state_keyed (fst (expire_deadlines s))"
    using assms by (auto simp: expire_deadlines_def Let_def intro!: keyed_steps split: prod.split)
qed

lemma keyed_commit_apply: "state_keyed s \<Longrightarrow> state_keyed (commit_apply w b s)"
proof -
  assume s: "state_keyed s"
  have insert: "state_keyed (insert_assignment b s)"
    using s by (simp add: insert_assignment_def state_keyed_maps new_lease_def)
  have count: "state_keyed t \<Longrightarrow> state_keyed (count_assigned q n t)" for q n t
    by (simp add: count_assigned_def state_keyed_maps well_keyed_adjust)
  show ?thesis
    unfolding commit_apply_def Let_def
    by (intro count keyed_steps insert well_keyed_adjust state_keyedD) simp_all
qed

lemma keyed_batch: "state_keyed s \<Longrightarrow> state_keyed (fst (schedule_batch request s))"
  by (rule schedule_batch_inv)
    (auto simp: bump_bypass_def reset_bypass_def intro!: keyed_steps keyed_commit_apply)

lemma keyed_schedule_commit: "state_keyed s \<Longrightarrow> state_keyed (fst (schedule_commit w g d b s))"
  by (auto simp: schedule_commit_def commit_locked_def keyed_commit_apply split: sum.splits option.splits)

subsection \<open>Construction and recovery\<close>

lemma keyed_make_scheduler: "make_scheduler options nonce wall now = Some s \<Longrightarrow> state_keyed s"
proof -
  assume "make_scheduler options nonce wall now = Some s"
  then have "s = make_impl options nonce wall now \<or> s = fst (start (make_impl options nonce wall now))"
    by (auto simp: make_scheduler_def Let_def split: option.splits if_splits)
  moreover have "state_keyed (make_impl options nonce wall now)"
    by (simp add: state_keyed_maps make_impl_def)
  ultimately show ?thesis using keyed_process(1) by blast
qed

lemma keyed_rebuild: "state_keyed s \<Longrightarrow> state_keyed (rebuild_indexes s)"
  unfolding rebuild_indexes_def Let_def
  by (intro fold_keyed keyed_steps) (simp add: state_keyed_maps)

lemma stored_idents [simp]:
  "agent_ident (recovered_agent r) = agent_ident r" "work_ident (recovered_work w) = work_ident w"
  "ls_id (stored_lease l) = ls_id l"
  by (simp_all add: recovered_work_def conservative_work_def stored_work_def stored_lease_def Let_def)

lemma keyed_recover: "state_keyed s \<Longrightarrow> state_keyed (recover (decoded_of s) t)"
proof -
  assume s: "state_keyed s"
  have "state_keyed (adopt (decoded_of s) t)"
    using s by (simp add: state_keyed_maps adopt_def decoded_of_def well_keyed_map)
  then show ?thesis
    unfolding recover_def Let_def by (intro fold_keyed keyed_steps keyed_rebuild)
qed

end
