(* ===== verification/Index_Invariants.thy ===== *)
theory Index_Invariants
  imports Keyed_Maps
begin

section \<open>The indexes of agents and work items\<close>

text \<open>
  Six of the eight indexes file agents (by lifecycle, tenant, placement domain and offered
  capability) and work items (by queue and lifecycle). \<open>filed_keys\<close> collects the keys an
  agent is filed under, \<open>agent_keys\<close> those it belongs under. The code unfiles an entry, changes
  the record, and files it again; in between the entry is excepted (\<open>filed_but\<close>).
\<close>

type_synonym AgentKeys = "AgentLifecycle set \<times> u64 set \<times> u64 set \<times> string set"

definition offered :: "AgentRecord \<Rightarrow> string set" where
  "offered r = (if ag_capability_current r
     then ce_name ` {e \<in> set (cp_capabilities (ag_profile r)). capability_state_is_usable (ce_state e)}
     else {})"

definition agent_keys :: "AgentRecord \<Rightarrow> AgentKeys" where
  "agent_keys r =
     ({ag_lifecycle r}, {ad_tenant (ag_descriptor r)},
      {ad_placement_domain (ag_descriptor r)} - {0}, offered r)"

definition no_keys :: AgentKeys where
  "no_keys = ({}, {}, {}, {})"

definition filed_keys :: "Impl \<Rightarrow> u64 \<Rightarrow> AgentKeys" where
  "filed_keys s a =
     ({k. a \<in> ix_get (im_by_lifecycle s) k}, {k. a \<in> ix_get (im_by_tenant s) k},
      {k. a \<in> ix_get (im_by_domain s) k}, {k. a \<in> ix_get (im_by_capability s) k})"

definition agent_filed :: "Impl \<Rightarrow> u64 \<Rightarrow> bool" where
  "agent_filed s a \<longleftrightarrow>
     filed_keys s a = (case om_get (im_agents s) a of None \<Rightarrow> no_keys | Some r \<Rightarrow> agent_keys r)"

definition work_keys :: "WorkRecord \<Rightarrow> u64 set \<times> WorkLifecycle set" where
  "work_keys r = ({wq_queue (wr_request r)}, {wr_lifecycle r})"

definition filed_work :: "Impl \<Rightarrow> u64 \<Rightarrow> u64 set \<times> WorkLifecycle set" where
  "filed_work s w =
     ({k. w \<in> ix_get (im_work_by_queue s) k}, {k. w \<in> ix_get (im_work_by_lifecycle s) k})"

definition work_filed :: "Impl \<Rightarrow> u64 \<Rightarrow> bool" where
  "work_filed s w \<longleftrightarrow>
     filed_work s w = (case om_get (im_work s) w of None \<Rightarrow> ({}, {}) | Some r \<Rightarrow> work_keys r)"

definition filed_but :: "u64 set \<Rightarrow> u64 set \<Rightarrow> Impl \<Rightarrow> bool" where
  "filed_but A W s \<longleftrightarrow> state_keyed s \<and> (\<forall>a. a \<notin> A \<longrightarrow> agent_filed s a) \<and> (\<forall>w. w \<notin> W \<longrightarrow> work_filed s w)"

abbreviation all_filed :: "Impl \<Rightarrow> bool" where
  "all_filed \<equiv> filed_but {} {}"

lemma filed_butI:
  assumes "filed_but A' W' s" and "state_keyed t"
    and "\<And>a. a \<notin> A \<Longrightarrow> (a \<notin> A' \<Longrightarrow> agent_filed s a) \<Longrightarrow> agent_filed t a"
    and "\<And>w. w \<notin> W \<Longrightarrow> (w \<notin> W' \<Longrightarrow> work_filed s w) \<Longrightarrow> work_filed t w"
  shows "filed_but A W t"
  using assms by (simp add: filed_but_def)

lemma filed_but_keyed: "filed_but A W s \<Longrightarrow> state_keyed s"
  by (simp add: filed_but_def)

lemma filed_but_mono: "filed_but A W s \<Longrightarrow> A \<subseteq> A' \<Longrightarrow> W \<subseteq> W' \<Longrightarrow> filed_but A' W' s"
  by (auto simp: filed_but_def)

subsection \<open>What the index functions file\<close>

lemma ix_insert_capabilities:
  "a \<in> ix_get (fold (\<lambda>e. ix_insert (ce_name e) b) es m) k \<longleftrightarrow>
     a \<in> ix_get m k \<or> a = b \<and> k \<in> ce_name ` set es"
  by (induction es arbitrary: m) auto

lemma filed_index_agent:
  "filed_keys (index_agent r s) a =
     (if a = agent_ident r then
        (case (filed_keys s a, agent_keys r) of
           ((l, t, d, c), (l', t', d', c')) \<Rightarrow> (l \<union> l', t \<union> t', d \<union> d', c \<union> c'))
      else filed_keys s a)"
  by (auto simp: index_agent_def filed_keys_def agent_keys_def offered_def Let_def ix_insert_capabilities)

lemma filed_deindex_agent:
  "filed_keys (deindex_agent b s) a = (if a = b then no_keys else filed_keys s a)"
  by (auto simp: deindex_agent_def filed_keys_def no_keys_def)

lemma filed_sync_agent:
  "filed_keys (sync_agent_lifecycle_index b lc s) a =
     (if a = b then ({lc}, snd (filed_keys s a)) else filed_keys s a)"
  by (auto simp: sync_agent_lifecycle_index_def filed_keys_def)

lemma filed_index_work:
  "filed_work (index_work r s) w =
     (if w = work_ident r then
        (fst (filed_work s w) \<union> fst (work_keys r), snd (filed_work s w) \<union> snd (work_keys r))
      else filed_work s w)"
  by (auto simp: index_work_def filed_work_def work_keys_def Let_def)

lemma filed_deindex_work:
  "filed_work (deindex_work x s) w = (if w = x then ({}, {}) else filed_work s w)"
  by (auto simp: deindex_work_def filed_work_def)

lemma filed_sync_work:
  "filed_work (sync_work_lifecycle_index x lc s) w =
     (if w = x then (fst (filed_work s w), {lc}) else filed_work s w)"
  by (auto simp: sync_work_lifecycle_index_def filed_work_def)

text \<open>A step that touches neither an index of agents nor one of work items.\<close>

lemma filed_keys_cong:
  "im_by_lifecycle t = im_by_lifecycle s \<Longrightarrow> im_by_tenant t = im_by_tenant s \<Longrightarrow>
   im_by_domain t = im_by_domain s \<Longrightarrow> im_by_capability t = im_by_capability s \<Longrightarrow>
   filed_keys t = filed_keys s"
  by (simp add: filed_keys_def fun_eq_iff)

lemma filed_work_cong:
  "im_work_by_queue t = im_work_by_queue s \<Longrightarrow> im_work_by_lifecycle t = im_work_by_lifecycle s \<Longrightarrow>
   filed_work t = filed_work s"
  by (simp add: filed_work_def fun_eq_iff)

lemma filed_but_same:
  assumes "filed_but A W s" and "state_keyed t" and "im_agents t = im_agents s"
    and "im_work t = im_work s" and "filed_keys t = filed_keys s" and "filed_work t = filed_work s"
  shows "filed_but A W t"
  using assms by (simp add: filed_but_def agent_filed_def work_filed_def)

named_theorems filed_steps \<open>mutations keep the entries filed\<close>

lemma filed_fields [filed_steps]:
  "filed_but A W s \<Longrightarrow> filed_but A W (s\<lparr>im_now := t\<rparr>)"
  "filed_but A W s \<Longrightarrow> filed_but A W (s\<lparr>im_feasibility := p\<rparr>)"
  "filed_but A W s \<Longrightarrow> filed_but A W (s\<lparr>im_policy := policy\<rparr>)"
  "filed_but A W s \<Longrightarrow> filed_but A W (s\<lparr>im_scheduling_rounds := n\<rparr>)"
  "filed_but A W s \<Longrightarrow> filed_but A W (s\<lparr>im_next_admission_sequence := n\<rparr>)"
  "filed_but A W s \<Longrightarrow> well_keyed qr_id q \<Longrightarrow> filed_but A W (s\<lparr>im_queues := q\<rparr>)"
  "filed_but A W s \<Longrightarrow> well_keyed tr_id tn \<Longrightarrow> filed_but A W (s\<lparr>im_tenants := tn\<rparr>)"
  by (rule filed_but_same, assumption, rule keyed_steps, rule filed_but_keyed, assumption,
      assumption?; simp add: filed_keys_def filed_work_def fun_eq_iff)+

lemma filed_frames [filed_steps]:
  "filed_but A W s \<Longrightarrow> filed_but A W (bump_revision s)"
  "filed_but A W s \<Longrightarrow> filed_but A W (index_assignment ar s)"
  "filed_but A W s \<Longrightarrow> filed_but A W (fence_boot a b g d s)"
  by (rule filed_but_same, assumption, rule keyed_steps, rule filed_but_keyed, assumption;
      simp add: filed_keys_def filed_work_def fun_eq_iff)+

lemma filed_adjust_queue [filed_steps]:
  "filed_but A W s \<Longrightarrow> (\<And>r. qr_id r = q \<Longrightarrow> qr_id (f r) = q) \<Longrightarrow> filed_but A W (adjust_queue q f s)"
  by (rule filed_but_same, assumption, rule keyed_steps, rule filed_but_keyed, assumption, assumption)
    (simp_all add: filed_keys_def filed_work_def fun_eq_iff)

lemma filed_adjust_tenant [filed_steps]:
  "filed_but A W s \<Longrightarrow> (\<And>r. tr_id r = t \<Longrightarrow> tr_id (f r) = t) \<Longrightarrow> filed_but A W (adjust_tenant t f s)"
  by (rule filed_but_same, assumption, rule keyed_steps, rule filed_but_keyed, assumption, assumption)
    (simp_all add: filed_keys_def filed_work_def fun_eq_iff)

lemma filed_adjust_assignment [filed_steps]:
  "filed_but A W s \<Longrightarrow> (\<And>r. assignment_ident r = k \<Longrightarrow> assignment_ident (f r) = k) \<Longrightarrow>
   filed_but A W (adjust_assignment k f s)"
  by (rule filed_but_same, assumption, rule keyed_steps, rule filed_but_keyed, assumption, assumption)
    (simp_all add: filed_keys_def filed_work_def fun_eq_iff)

lemma filed_adjust_lease [filed_steps]:
  "filed_but A W s \<Longrightarrow> (\<And>l. ls_id l = k \<Longrightarrow> ls_id (f l) = k) \<Longrightarrow> filed_but A W (adjust_lease k f s)"
  by (rule filed_but_same, assumption, rule keyed_steps, rule filed_but_keyed, assumption, assumption)
    (simp_all add: filed_keys_def filed_work_def fun_eq_iff)

subsection \<open>Changes of a record\<close>

lemma filed_adjust_agent [filed_steps]:
  assumes "filed_but A W s" and "\<And>r. agent_ident r = a \<Longrightarrow> agent_ident (f r) = a"
    and "a \<in> A \<or> (\<forall>r. agent_keys (f r) = agent_keys r)"
  shows "filed_but A W (adjust_agent a f s)"
proof (rule filed_butI [OF assms(1)])
  show "state_keyed (adjust_agent a f s)"
    by (rule keyed_adjust_agent [OF filed_but_keyed [OF assms(1)] assms(2)])
  have keys: "filed_keys (adjust_agent a f s) = filed_keys s" by (rule filed_keys_cong) simp_all
  show "agent_filed (adjust_agent a f s) b" if "b \<notin> A" "b \<notin> A \<Longrightarrow> agent_filed s b" for b
    using that assms(3) keys by (auto simp: agent_filed_def split: option.split)
  have "filed_work (adjust_agent a f s) = filed_work s" by (rule filed_work_cong) simp_all
  then show "work_filed (adjust_agent a f s) w" if "w \<notin> W" "w \<notin> W \<Longrightarrow> work_filed s w" for w
    using that by (simp add: work_filed_def)
qed

lemma filed_adjust_work [filed_steps]:
  assumes "filed_but A W s" and "\<And>r. work_ident r = w \<Longrightarrow> work_ident (f r) = w"
    and "w \<in> W \<or> (\<forall>r. work_keys (f r) = work_keys r)"
  shows "filed_but A W (adjust_work w f s)"
proof (rule filed_butI [OF assms(1)])
  show "state_keyed (adjust_work w f s)"
    by (rule keyed_adjust_work [OF filed_but_keyed [OF assms(1)] assms(2)])
  have keys: "filed_work (adjust_work w f s) = filed_work s" by (rule filed_work_cong) simp_all
  show "work_filed (adjust_work w f s) x" if "x \<notin> W" "x \<notin> W \<Longrightarrow> work_filed s x" for x
    using that assms(3) keys by (auto simp: work_filed_def split: option.split)
  have "filed_keys (adjust_work w f s) = filed_keys s" by (rule filed_keys_cong) simp_all
  then show "agent_filed (adjust_work w f s) b" if "b \<notin> A" "b \<notin> A \<Longrightarrow> agent_filed s b" for b
    using that by (simp add: agent_filed_def)
qed

lemma agent_keys_recompute:
  "agent_keys (recompute_lifecycle r) = ({ag_lifecycle (recompute_lifecycle r)}, snd (agent_keys r))"
  by (simp add: agent_keys_def offered_def recompute_lifecycle_def)

lemma agent_keys_counts [simp]:
  "agent_keys (r\<lparr>ag_active_assignments := n\<rparr>) = agent_keys r"
  "agent_keys (decay_recent r) = agent_keys r"
  by (simp_all add: agent_keys_def offered_def decay_recent_def)

text \<open>Refreshing the accounting of an agent moves its lifecycle entry with its record.\<close>

lemma refresh_agent_cases:
  assumes "state_keyed s"
  obtains "om_get (im_agents s) a = None" and "refresh_agent_accounting a s = s"
  | r r' where "om_get (im_agents s) a = Some r"
      "om_get (im_agents (refresh_agent_accounting a s)) a = Some r'"
      "snd (agent_keys r') = snd (agent_keys r)"
      "filed_keys (refresh_agent_accounting a s) a = ({ag_lifecycle r'}, snd (filed_keys s a))"
proof (cases "om_get (im_agents s) a")
  case None
  then show ?thesis using that(1) by (simp add: refresh_agent_accounting_def)
next
  case (Some r)
  then have ident: "agent_ident r = a" by (rule well_keyed_get [OF state_keyedD(3) [OF assms]])
  let ?r = "recompute_lifecycle (r\<lparr>ag_active_assignments := active_assignment_count s a\<rparr>)"
  have "filed_keys (s\<lparr>im_agents := m\<rparr>) = filed_keys s" for m by (rule filed_keys_cong) simp_all
  then show ?thesis
    using that(2) [of r ?r] Some ident
    by (simp add: refresh_agent_accounting_def Let_def filed_sync_agent agent_keys_recompute)
qed

lemma refresh_agent_other:
  assumes "state_keyed s" and "b \<noteq> a"
  shows "om_get (im_agents (refresh_agent_accounting a s)) b = om_get (im_agents s) b"
    and "filed_keys (refresh_agent_accounting a s) b = filed_keys s b"
proof -
  have "filed_keys (s\<lparr>im_agents := m\<rparr>) = filed_keys s" for m by (rule filed_keys_cong) simp_all
  moreover have "om_get (im_agents s) a = Some r \<Longrightarrow> agent_ident r = a" for r
    by (rule well_keyed_get [OF state_keyedD(3) [OF assms(1)]])
  ultimately show "om_get (im_agents (refresh_agent_accounting a s)) b = om_get (im_agents s) b"
    "filed_keys (refresh_agent_accounting a s) b = filed_keys s b"
    using assms(2)
    by (auto simp: refresh_agent_accounting_def Let_def filed_sync_agent split: option.split)
qed

lemma refresh_agent_work [simp]: "filed_work (refresh_agent_accounting a s) = filed_work s"
  by (rule filed_work_cong) simp_all

lemma filed_refresh_agent_accounting [filed_steps]:
  assumes "filed_but A W s"
  shows "filed_but A W (refresh_agent_accounting a s)"
proof (rule filed_butI [OF assms])
  have keyed: "state_keyed s" by (rule filed_but_keyed [OF assms])
  then show "state_keyed (refresh_agent_accounting a s)" by (rule keyed_steps)
  fix b assume b: "b \<notin> A" "b \<notin> A \<Longrightarrow> agent_filed s b"
  show "agent_filed (refresh_agent_accounting a s) b"
  proof (cases "b = a")
    case True
    show ?thesis
    proof (rule refresh_agent_cases [OF keyed, of a])
      fix r r' assume r: "om_get (im_agents s) a = Some r"
        "om_get (im_agents (refresh_agent_accounting a s)) a = Some r'"
        "snd (agent_keys r') = snd (agent_keys r)"
        "filed_keys (refresh_agent_accounting a s) a = ({ag_lifecycle r'}, snd (filed_keys s a))"
      moreover have "filed_keys s a = agent_keys r" using b True r(1) by (simp add: agent_filed_def)
      moreover have "agent_keys r' = ({ag_lifecycle r'}, snd (agent_keys r'))" by (simp add: agent_keys_def)
      ultimately show ?thesis using True by (simp add: agent_filed_def)
    qed (use b True in simp)
  next
    case False
    then show ?thesis using b refresh_agent_other [OF keyed False] by (simp add: agent_filed_def)
  qed
qed (simp_all add: work_filed_def)

text \<open>Once an agent is unfiled, refreshing and filing it again restores all its entries.\<close>

lemma refile_agent:
  assumes but: "filed_but (insert a A) W s" and bare: "filed_keys s a = no_keys"
  shows "filed_but A W (case om_get (im_agents (refresh_agent_accounting a s)) a of
      None \<Rightarrow> refresh_agent_accounting a s
    | Some r \<Rightarrow> index_agent r (refresh_agent_accounting a s))" (is "filed_but A W ?t")
proof (rule filed_butI [OF but])
  have keyed: "state_keyed s" by (rule filed_but_keyed [OF but])
  then show keyed_t: "state_keyed ?t" by (intro keyed_steps)
  let ?s = "refresh_agent_accounting a s"
  have agents: "im_agents ?t = im_agents ?s" "im_work ?t = im_work ?s" by (simp_all split: option.split)
  have "filed_work ?t = filed_work ?s"
    by (rule filed_work_cong) (simp_all split: option.split)
  then show "work_filed ?t w" if "w \<notin> W" "w \<notin> W \<Longrightarrow> work_filed s w" for w
    using that agents by (simp add: work_filed_def)
  fix b assume b: "b \<notin> A" "b \<notin> insert a A \<Longrightarrow> agent_filed s b"
  have ident: "om_get (im_agents ?s) a = Some r \<Longrightarrow> agent_ident r = a" for r
    by (rule well_keyed_get [OF state_keyedD(3) [OF keyed_refresh_agent_accounting [OF keyed]]])
  show "agent_filed ?t b"
  proof (cases "b = a")
    case True
    show ?thesis
    proof (rule refresh_agent_cases [OF keyed, of a])
      fix r r' assume r: "om_get (im_agents ?s) a = Some r'"
        "filed_keys ?s a = ({ag_lifecycle r'}, snd (filed_keys s a))"
      then have "filed_keys ?t a = agent_keys r'"
        using ident bare by (simp add: filed_index_agent agent_keys_def no_keys_def)
      then show ?thesis using True r(1) agents by (simp add: agent_filed_def)
    qed (use True bare in \<open>simp add: agent_filed_def\<close>)
  next
    case False
    have "filed_keys ?t b = filed_keys ?s b"
      using False ident by (auto simp: filed_index_agent split: option.split)
    then show ?thesis
      using b False refresh_agent_other [OF keyed False] agents by (simp add: agent_filed_def)
  qed
qed

lemma filed_deindex_but:
  assumes "filed_but A W s"
  shows "filed_but (insert a A) W (deindex_agent a s)"
proof (rule filed_butI [OF assms])
  show "state_keyed (deindex_agent a s)" by (rule keyed_steps) (rule filed_but_keyed [OF assms])
  have "filed_work (deindex_agent a s) = filed_work s" by (rule filed_work_cong) simp_all
  then show "work_filed (deindex_agent a s) w" if "w \<notin> W" "w \<notin> W \<Longrightarrow> work_filed s w" for w
    using that by (simp add: work_filed_def)
qed (auto simp: agent_filed_def filed_deindex_agent)

lemma filed_refresh_agent [filed_steps]:
  "filed_but (insert a A) W s \<Longrightarrow> filed_but A W (refresh_agent a s)"
  unfolding refresh_agent_def Let_def
  by (rule refile_agent)
    (use filed_deindex_but [of "insert a A" W s a] in \<open>simp_all add: filed_deindex_agent\<close>)

subsection \<open>Work items\<close>

lemma sync_work_keys [simp]: "filed_keys (sync_work_lifecycle_index w lc s) = filed_keys s"
  by (rule filed_keys_cong) simp_all

text \<open>Giving a stored item a lifecycle and filing it under that lifecycle.\<close>

lemma filed_move_work:
  assumes but: "filed_but A W s" and stored: "om_get (im_work s) w = Some r"
    and r': "work_ident r' = w" "wq_queue (wr_request r') = wq_queue (wr_request r)"
    and t: "im_work t = om_put w r' (im_work s)" "im_agents t = im_agents s"
      "filed_keys t = filed_keys s"
      "filed_work t = (filed_work s)(w := (fst (filed_work s w), {wr_lifecycle r'}))" "state_keyed t"
  shows "filed_but A W t"
proof (rule filed_butI [OF but t(5)])
  show "agent_filed t a" if "a \<notin> A" "a \<notin> A \<Longrightarrow> agent_filed s a" for a
    using that t by (simp add: agent_filed_def)
  show "work_filed t x" if "x \<notin> W" "x \<notin> W \<Longrightarrow> work_filed s x" for x
    using that t r' stored by (auto simp: work_filed_def work_keys_def)
qed

lemma filed_refresh_work_accounting [filed_steps]:
  assumes but: "filed_but A W s"
  shows "filed_but A W (refresh_work_accounting w s)"
proof (cases "om_get (im_work s) w")
  case None
  then show ?thesis using but by (simp add: refresh_work_accounting_def)
next
  case (Some r)
  have keyed: "state_keyed s" by (rule filed_but_keyed [OF but])
  have ident: "work_ident r = w" by (rule well_keyed_get [OF state_keyedD(4) [OF keyed] Some])
  have same: "filed_work (s\<lparr>im_work := m\<rparr>) = filed_work s" "filed_keys (s\<lparr>im_work := m\<rparr>) = filed_keys s" for m
    by (rule filed_work_cong filed_keys_cong; simp)+
  define r' where "r' = (let active = work_active_count s w; r1 = r\<lparr>wr_current_assignments := active\<rparr>
    in if work_is_terminal (wr_lifecycle r1) then r1
       else if active = 0 then r1\<lparr>wr_lifecycle := WorkLifecycle.Admitted\<rparr>
       else r1\<lparr>wr_lifecycle := (if work_executing s w then WorkLifecycle.Executing
                               else WorkLifecycle.Assigned)\<rparr>)"
  have eq: "refresh_work_accounting w s =
      sync_work_lifecycle_index w (wr_lifecycle r') (s\<lparr>im_work := om_put w r' (im_work s)\<rparr>)"
    using Some ident by (simp add: refresh_work_accounting_def r'_def Let_def)
  have "wr_request r' = wr_request r" by (simp add: r'_def Let_def)
  then show ?thesis
    using keyed_refresh_work_accounting [OF keyed, of w] ident unfolding eq
    by (intro filed_move_work [OF but Some, of r'])
      (simp_all add: same fun_eq_iff filed_sync_work)
qed

lemma filed_finish_work [filed_steps]:
  assumes but: "filed_but A W s" and stored: "om_get (im_work s) w \<noteq> None"
    and f: "\<And>r. wr_request (f r) = wr_request r" "\<And>r. wr_lifecycle (f r) = lc"
  shows "filed_but A W (sync_work_lifecycle_index w lc (adjust_work w f s))"
proof -
  have keyed: "state_keyed s" by (rule filed_but_keyed [OF but])
  obtain r where r: "om_get (im_work s) w = Some r" using stored by blast
  have ident: "work_ident r = w" by (rule well_keyed_get [OF state_keyedD(4) [OF keyed] r])
  have same: "filed_work (adjust_work w f s) = filed_work s" "filed_keys (adjust_work w f s) = filed_keys s"
    by (rule filed_work_cong filed_keys_cong; simp)+
  have "state_keyed (sync_work_lifecycle_index w lc (adjust_work w f s))"
    by (intro keyed_steps keyed) (simp add: f)
  then show ?thesis
    using ident r
    by (intro filed_move_work [OF but r, of "f r"])
      (simp_all add: f same fun_eq_iff filed_sync_work, simp_all add: adjust_work_def om_adjust_def)
qed

lemma filed_deindex_work_but:
  assumes "filed_but A W s"
  shows "filed_but A (insert w W) (deindex_work w s)"
proof (rule filed_butI [OF assms])
  show "state_keyed (deindex_work w s)" by (rule keyed_steps) (rule filed_but_keyed [OF assms])
  have "filed_keys (deindex_work w s) = filed_keys s" by (rule filed_keys_cong) simp_all
  then show "agent_filed (deindex_work w s) a" if "a \<notin> A" "a \<notin> A \<Longrightarrow> agent_filed s a" for a
    using that by (simp add: agent_filed_def)
qed (auto simp: work_filed_def filed_deindex_work)

lemma refile_work:
  assumes but: "filed_but A (insert w W) s" and bare: "filed_work s w = ({}, {})"
  shows "filed_but A W (case om_get (im_work s) w of None \<Rightarrow> s | Some r \<Rightarrow> index_work r s)"
    (is "filed_but A W ?t")
proof (rule filed_butI [OF but])
  have keyed: "state_keyed s" by (rule filed_but_keyed [OF but])
  then show "state_keyed ?t" by (intro keyed_steps)
  have maps: "im_agents ?t = im_agents s" "im_work ?t = im_work s" by (simp_all split: option.split)
  have "filed_keys ?t = filed_keys s" by (rule filed_keys_cong) (simp_all split: option.split)
  then show "agent_filed ?t a" if "a \<notin> A" "a \<notin> A \<Longrightarrow> agent_filed s a" for a
    using that maps by (simp add: agent_filed_def)
  have ident: "om_get (im_work s) w = Some r \<Longrightarrow> work_ident r = w" for r
    by (rule well_keyed_get [OF state_keyedD(4) [OF keyed]])
  show "work_filed ?t x" if "x \<notin> W" "x \<notin> insert w W \<Longrightarrow> work_filed s x" for x
    using that bare ident
    by (cases "x = w") (auto simp: work_filed_def filed_index_work work_keys_def split: option.split)
qed

subsection \<open>The operations\<close>

lemma filed_adjust_any:
  assumes "filed_but A W s" and "\<And>r. agent_ident r = a \<Longrightarrow> agent_ident (f r) = a"
  shows "filed_but (insert a A) W (adjust_agent a f s)"
  by (rule filed_adjust_agent [OF filed_but_mono [OF assms(1)]]) (auto simp: assms(2))

lemma filed_close_assignment [filed_steps]:
  assumes but: "filed_but A W s"
  shows "filed_but A W (close_assignment k st re d s)"
proof (cases "om_get (im_assignments s) k")
  case (Some r)
  have keyed: "state_keyed s" by (rule filed_but_keyed [OF but])
  have ident: "assignment_ident r = k" by (rule well_keyed_get [OF state_keyedD(5) [OF keyed] Some])
  let ?r = "closed_record (im_now s) st re d r"
  let ?s1 = "s\<lparr>im_assignments := om_put k ?r (im_assignments s),
    im_leases := om_adjust (bn_lease (ar_binding ?r)) (\<lambda>l. l\<lparr>ls_current := False\<rparr>) (im_leases s)\<rparr>"
  have "state_keyed ?s1"
    using keyed ident by (simp add: state_keyed_maps well_keyed_adjust)
  then have "state_keyed (deindex_assignment ?r ?s1)"
    by (rule state_keyed_cong [rotated -1]) (simp_all add: deindex_assignment_def Let_def)
  then have s2: "filed_but A W (deindex_assignment ?r ?s1)"
    by (rule filed_but_same [OF but]) (simp_all add: filed_keys_def filed_work_def fun_eq_iff)
  have "filed_but A W (refresh_work_accounting w (refresh_agent_accounting a
      (adjust_agent a decay_recent (deindex_assignment ?r ?s1))))" for w a
    by (intro filed_steps s2) simp_all
  then have main: "filed_but A W (refresh_work_accounting w (refresh_agent_accounting a
      ((deindex_assignment ?r ?s1)\<lparr>im_agents := om_adjust a decay_recent
        (im_agents (deindex_assignment ?r ?s1))\<rparr>)))" for w a
    by (simp only: adjust_agent_def)
  have counters: "filed_but A W (t\<lparr>im_assignments_invalidated := n, im_state_revision := m\<rparr>) = filed_but A W t" for t n m
    by (simp add: filed_but_def agent_filed_def work_filed_def filed_keys_def filed_work_def state_keyed_maps)
  with main show ?thesis
    using Some but by (simp only: close_assignment_def Let_def option.case if_split) simp
qed (simp add: close_assignment_def but)

lemma fold_filed:
  "filed_but A W s \<Longrightarrow> (\<And>x t. filed_but A W t \<Longrightarrow> filed_but A W (f x t)) \<Longrightarrow> filed_but A W (fold f xs s)"
  by (induction xs arbitrary: s) simp_all

lemma filed_close_where [filed_steps]: "filed_but A W s \<Longrightarrow> filed_but A W (close_where P st re d s)"
  unfolding close_where_def
  by (rule fold_filed) (simp_all add: close_if_def filed_close_assignment)

lemma filed_close_parts [filed_steps]:
  "filed_but A W s \<Longrightarrow> filed_but A W (close_all_active b st re d s)"
  "filed_but A W s \<Longrightarrow> filed_but A W (close_work w st re d s)"
  "filed_but A W s \<Longrightarrow> filed_but A W (close_stale k failure s)"
  by (simp_all add: close_all_active_def close_work_def close_stale_def filed_steps)

lemma close_work_stored [simp]:
  "om_get (im_work (close_work w st re d s)) x = None \<longleftrightarrow> om_get (im_work s) x = None"
  "(\<exists>y. om_get (im_work (close_work w st re d s)) x = Some y) \<longleftrightarrow> (\<exists>y. om_get (im_work s) x = Some y)"
proof -
  have "stable_work (close_work w st re d s) x = stable_work s x" by (simp add: close_work_def)
  then show none: "om_get (im_work (close_work w st re d s)) x = None \<longleftrightarrow> om_get (im_work s) x = None"
    unfolding stable_work_def by (metis option.map_disc_iff)
  show "(\<exists>y. om_get (im_work (close_work w st re d s)) x = Some y) \<longleftrightarrow> (\<exists>y. om_get (im_work s) x = Some y)"
    using none by (simp add: option.exhaust_sel flip: not_None_eq)
qed

lemma filed_settle_work [filed_steps]: "filed_but A W s \<Longrightarrow> filed_but A W (settle_work w lc reason s)"
  by (auto simp: settle_work_def intro!: filed_steps split: option.split)

lemma filed_release_tenant_slot [filed_steps]:
  "filed_but A W s \<Longrightarrow> filed_but A W (release_tenant_slot w s)"
  by (auto simp: release_tenant_slot_def intro!: filed_steps split: option.split)

lemma filed_end_incarnation [filed_steps]: "filed_but A W s \<Longrightarrow> filed_but A W (end_incarnation a lc re s)"
  unfolding end_incarnation_def
  by (intro filed_adjust_any filed_steps) (simp_all add: invalidate_dynamic_evidence_def)

lemma filed_observe:
  "filed_but A W s \<Longrightarrow> (\<And>r. om_get (im_assignments s) k = Some r \<Longrightarrow> filed_but A W (fst (f r))) \<Longrightarrow>
   filed_but A W (fst (observe oper k g b s f))"
  by (auto simp: observe_def dest: lookup_assignment_Inr split: sum.split)

lemma filed_with_incarnation:
  "filed_but A W s \<Longrightarrow> (\<And>r. om_get (im_agents s) a = Some r \<Longrightarrow> filed_but A W (fst (f r))) \<Longrightarrow>
   filed_but A W (fst (with_incarnation oper stale a b s f))"
  by (simp add: with_incarnation_def split: option.split)

lemma filed_flags:
  "filed_but A W s \<Longrightarrow> filed_but A W (s\<lparr>im_coordinator_epoch := e, im_running := x, im_admission_open := y,
     im_shutting_down := z, im_shutdown_at_ms := t\<rparr>)"
  "filed_but A W s \<Longrightarrow> filed_but A W (s\<lparr>im_shutting_down := z, im_admission_open := y, im_running := x,
     im_shutdown_at_ms := t\<rparr>)"
  by (simp_all add: filed_but_def agent_filed_def work_filed_def filed_keys_def filed_work_def state_keyed_maps)

lemma filed_process:
  assumes "filed_but A W s"
  shows "filed_but A W (fst (start s))" and "filed_but A W (fst (shutdown s))"
    and "filed_but A W (fst (set_policy p s))" and "filed_but A W (fst (register_queue q g c n s))"
proof -
  note keyed = filed_but_keyed [OF assms]
  show "filed_but A W (fst (start s))"
    using assms by (auto simp: start_def intro!: filed_steps filed_flags)
  show "filed_but A W (fst (shutdown s))"
    using assms by (auto simp: shutdown_def Let_def intro!: filed_steps filed_flags)
  show "filed_but A W (fst (set_policy p s))"
    using assms by (auto simp: set_policy_def Let_def intro!: filed_steps split: option.split)
  show "filed_but A W (fst (register_queue q g c n s))"
    using assms by (auto simp: register_queue_def Let_def state_keyedD [OF keyed]
        intro!: filed_steps well_keyed_emplace split: option.split)
qed

lemma filed_observations:
  assumes "filed_but A W s"
  shows "filed_but A W (fst (acknowledge k g di dg b s))" and "filed_but A W (fst (mark_executing k g b s))"
    and "filed_but A W (fst (release k g b re s))" and "filed_but A W (fst (complete_assignment k g b s))"
    and "filed_but A W (fst (fail_assignment k g b re s))"
    and "filed_but A W (fst (reject_assignment k g b re s))"
    and "filed_but A W (fst (expire_leases s))"
  unfolding acknowledge_def mark_executing_def release_def complete_assignment_def fail_assignment_def
    reject_assignment_def expire_leases_def Let_def
  by (auto simp: agent_keys_def offered_def intro!: filed_observe filed_steps assms)

lemma filed_dispatch: "filed_but A W s \<Longrightarrow> filed_but A W (fst (dispatch_commit k g s))"
  by (auto simp: dispatch_commit_def Let_def intro!: filed_steps split: option.split)

lemma filed_promote [filed_steps]: "filed_but A W s \<Longrightarrow> filed_but A W (promote_assignment k b s)"
proof -
  assume "filed_but A W s"
  then have "filed_but A W (case om_get (im_assignments t) k of None \<Rightarrow> t | Some r \<Rightarrow> index_assignment r t)"
    if "t = adjust_lease l (renew_lease e) (adjust_assignment k (renew_record st e) s)" for t l e st
    using that by (auto intro!: filed_steps split: option.split)
  then show ?thesis unfolding promote_assignment_def Let_def by (intro filed_steps) blast
qed

lemma filed_revalidate:
  assumes "filed_but A W s"
  shows "filed_but A W (fst (revalidate_assignments s))"
    and "filed_but A W (fst (revalidate_agent_assignments a b s))"
proof -
  have one: "filed_but A W (fst st) \<Longrightarrow> filed_but A W (fst (revalidate_one k st))" for k st
    by (auto simp: revalidate_one_def Let_def intro!: filed_steps split: option.split)
  have agent_one: "filed_but A W (fst st) \<Longrightarrow> filed_but A W (fst (revalidate_agent_one a b k st))" for k st
    by (auto simp: revalidate_agent_one_def Let_def intro!: filed_steps split: option.split)
  have fold_one: "filed_but A W (fst st) \<Longrightarrow> (\<And>k st. filed_but A W (fst st) \<Longrightarrow> filed_but A W (fst (f k st)))
      \<Longrightarrow> filed_but A W (fst (finish_revalidation (fold f ks st)))" for f ks st
    by (induction ks arbitrary: st) (simp_all add: finish_revalidation_def filed_steps)
  show "filed_but A W (fst (revalidate_assignments s))"
    unfolding revalidate_assignments_def by (rule fold_one) (simp_all add: assms one)
  show "filed_but A W (fst (revalidate_agent_assignments a b s))"
    using assms fold_one [of "(s, default_report)" "revalidate_agent_one a b"] agent_one
    by (simp add: revalidate_agent_assignments_def split: option.split)
qed

text \<open>A record stored for an agent that is filed nowhere.\<close>

lemma filed_put_agent:
  assumes but: "filed_but (insert a A) W s" and r: "agent_ident r = a"
  shows "filed_but (insert a A) W (s\<lparr>im_agents := om_put a r (im_agents s)\<rparr>)"
proof (rule filed_butI [OF but])
  show "state_keyed (s\<lparr>im_agents := om_put a r (im_agents s)\<rparr>)"
    using filed_but_keyed [OF but] r by (simp add: state_keyed_maps)
qed (simp_all add: agent_filed_def work_filed_def filed_keys_def filed_work_def)

lemma filed_keys_put [simp]: "filed_keys (s\<lparr>im_agents := m\<rparr>) = filed_keys s"
  by (rule filed_keys_cong) simp_all

lemma filed_register: "all_filed s \<Longrightarrow> all_filed (fst (register_commit d s))"
proof -
  assume s: "all_filed s"
  have "all_filed (reincarnate d r s)" for r
    unfolding reincarnate_def Let_def
    by (intro filed_frames(1) refile_agent filed_put_agent filed_deindex_but)
      (simp_all add: s filed_steps filed_deindex_agent)
  moreover have "all_filed (reregister d s)"
    unfolding reregister_def
    by (intro filed_adjust_any filed_steps s) (simp add: canonical_descriptor_def)
  moreover have "all_filed (register_new d s)" if "om_get (im_agents s) (ad_id d) = None"
  proof -
    let ?a = "ad_id d"
    let ?r = "fresh_agent d ''registered'' s"
    let ?t = "index_agent ?r (s\<lparr>im_agents := om_emplace ?a ?r (im_agents s)\<rparr>)"
    have bare: "filed_keys s ?a = no_keys" using s that by (simp add: filed_but_def agent_filed_def)
    have work: "filed_work ?t = filed_work s" by (rule filed_work_cong) simp_all
    have "all_filed ?t"
    proof (rule filed_butI [OF s])
      show "state_keyed ?t"
        by (intro keyed_steps well_keyed_emplace) (simp_all add: state_keyedD filed_but_keyed [OF s])
      show "agent_filed ?t b" if "b \<notin> {} \<Longrightarrow> agent_filed s b" for b
        using that bare \<open>om_get (im_agents s) ?a = None\<close>
        by (auto simp: agent_filed_def filed_index_agent agent_keys_def no_keys_def)
      show "work_filed ?t w" if "w \<notin> {} \<Longrightarrow> work_filed s w" for w
        using that work by (simp add: work_filed_def)
    qed
    then show ?thesis unfolding register_new_def Let_def by (rule filed_frames(1))
  qed
  ultimately show ?thesis
    using s by (simp add: register_commit_def Let_def split: option.split)
qed

lemma filed_publish:
  assumes "all_filed s"
  shows "all_filed (fst (publish_health a b h s))" and "all_filed (fst (publish_availability a b v s))"
    and "all_filed (fst (publish_load a b l s))" and "all_filed (fst (heartbeat a b g s))"
    and "all_filed (fst (drain_agent a b force s))" and "all_filed (fst (deregister_agent a b force s))"
    and "all_filed (lost_commit a b re s)"
  unfolding publish_health_def publish_availability_def publish_load_def heartbeat_def drain_agent_def
    deregister_agent_def lost_commit_def Let_def
  by (auto simp: agent_keys_def offered_def
      intro!: filed_with_incarnation filed_adjust_any filed_steps assms split: option.split)

lemma filed_publish_capabilities: "all_filed s \<Longrightarrow> all_filed (fst (publish_capabilities a b p s))"
proof -
  assume s: "all_filed s"
  have mark: "filed_but A W t \<Longrightarrow> filed_but A W (mark_superseded a q k t)" for A W q k t
    by (auto simp: mark_superseded_def require_revalidation_def intro!: filed_steps split: option.split)
  have mark_keys: "filed_keys (mark_superseded a q k t) = filed_keys t" for q k t
    by (auto simp: mark_superseded_def intro!: filed_keys_cong split: option.split)
  then have marks_keys: "filed_keys (fold (mark_superseded a q) ks t) = filed_keys t" for q ks t
    by (rule fold_keeps)
  have adjust_keys: "filed_keys (adjust_agent a f t) = filed_keys t" for f t
    by (rule filed_keys_cong) simp_all
  have "filed_but {a} {} (deindex_agent a s)" by (rule filed_deindex_but [OF s])
  then have "all_filed (apply_capabilities a q s)" for q
    unfolding apply_capabilities_def Let_def
    by (intro filed_frames(1) refile_agent fold_filed mark filed_adjust_agent)
      (simp_all add: marks_keys adjust_keys filed_deindex_agent)
  then show ?thesis
    using s by (auto simp: publish_capabilities_def Let_def intro!: filed_with_incarnation
        split: sum.split)
qed

lemma filed_ensure:
  assumes "filed_but A W s"
  shows "filed_but A W (fst (ensure_queue q s))" and "filed_but A W (fst (ensure_tenant t s))"
  using assms
  by (auto simp: ensure_queue_def ensure_tenant_def Let_def state_keyedD [OF filed_but_keyed]
      intro!: filed_steps well_keyed_emplace split: option.split)

lemma filed_ensure_both:
  assumes "filed_but A W s"
    and "\<And>t. filed_but A W t \<Longrightarrow> om_get (im_work t) = om_get (im_work s) \<Longrightarrow> filed_but A W (fst (f t))"
  shows "filed_but A W (fst (ensure_both q s f))"
proof (cases "ensure_queue q s")
  case (Pair s1 e1)
  have s1: "filed_but A W s1" using filed_ensure(1) [OF assms(1), of q] Pair by simp
  obtain s2 e2 where s2: "ensure_tenant (rq_tenant (wq_requirements q)) s1 = (s2, e2)" by fastforce
  have "filed_but A W s2" using filed_ensure(2) [OF s1, of "rq_tenant (wq_requirements q)"] s2 by simp
  moreover have "im_work s2 = im_work s1" "im_work s1 = im_work s"
    using Pair s2 by (auto simp: ensure_queue_def ensure_tenant_def Let_def split: option.splits if_splits)
  ultimately show ?thesis
    using Pair s1 s2 assms(2) by (simp add: ensure_both_def split: option.split)
qed

lemma filed_readmit [filed_steps]: "filed_but A W s \<Longrightarrow> filed_but A W (readmit q reason s)"
proof -
  assume s: "filed_but A W s"
  let ?w = "wq_id q"
  have work: "filed_work (adjust_work w f t) = filed_work t"
    "filed_work (t\<lparr>im_next_admission_sequence := n\<rparr>) = filed_work t" for w f t n
    by (rule filed_work_cong; simp)+
  have "filed_but A (insert ?w W) (deindex_work ?w (close_work ?w st re d s))" for st re d
    by (intro filed_deindex_work_but filed_steps s)
  then show ?thesis
    unfolding readmit_def Let_def
    by (intro refile_work filed_fields filed_adjust_work)
      (simp_all add: work filed_deindex_work readmitted_def)
qed

lemma filed_count_admitted [filed_steps]: "filed_but A W s \<Longrightarrow> filed_but A W (count_admitted q s)"
  unfolding count_admitted_def by (intro filed_steps) simp_all

lemma filed_new_work:
  assumes s: "all_filed s" and new: "om_get (im_work s) (work_ident r) = None"
  shows "all_filed (index_work r (s\<lparr>im_work := om_emplace (work_ident r) r (im_work s)\<rparr>))"
    (is "all_filed ?t")
proof (rule filed_butI [OF s])
  show "state_keyed ?t"
    by (intro keyed_steps well_keyed_emplace) (simp_all add: state_keyedD filed_but_keyed [OF s])
  have keys: "filed_keys ?t = filed_keys s" by (rule filed_keys_cong) simp_all
  show "agent_filed ?t b" if "b \<notin> {} \<Longrightarrow> agent_filed s b" for b
    using that keys by (simp add: agent_filed_def)
  have "filed_work (s\<lparr>im_work := m\<rparr>) = filed_work s" for m by (rule filed_work_cong) simp_all
  moreover have "filed_work s (work_ident r) = ({}, {})"
    using s new by (simp add: filed_but_def work_filed_def)
  ultimately show "work_filed ?t w" if "w \<notin> {} \<Longrightarrow> work_filed s w" for w
    using that new by (auto simp: work_filed_def filed_index_work work_keys_def)
qed

lemma filed_submit: "all_filed s \<Longrightarrow> all_filed (fst (submit_commit q s))"
proof -
  assume s: "all_filed s"
  let ?r = "default_work_record\<lparr>wr_request := q, wr_lifecycle := WorkLifecycle.Admitted,
    wr_admitted_sequence := im_next_admission_sequence s, wr_admitted_at_ms := im_now s,
    wr_reason := ''admitted''\<rparr>"
  have "all_filed t \<Longrightarrow> om_get (im_work t) (wq_id q) = None \<Longrightarrow>
      all_filed (index_work ?r (t\<lparr>im_work := om_emplace (wq_id q) ?r (im_work t)\<rparr>))" for t
    using filed_new_work [of t ?r] by simp
  then show ?thesis
    using s by (auto simp: submit_commit_def Let_def intro!: filed_ensure_both filed_steps
        split: option.split)
qed

lemma filed_work_operations:
  assumes "filed_but A W s"
  shows "filed_but A W (fst (cancel_commit w g re s))" and "filed_but A W (fst (supersede_work w g q s))"
    and "filed_but A W (fst (expire_deadlines s))"
proof -
  show "filed_but A W (fst (cancel_commit w g re s))"
    using assms by (auto simp: cancel_commit_def Let_def work_keys_def intro!: filed_steps split: option.split)
  show "filed_but A W (fst (supersede_work w g q s))"
    using assms by (auto simp: supersede_work_def Let_def intro!: filed_ensure_both filed_steps
        split: option.split)
  have one: "filed_but A W (fst st) \<Longrightarrow> filed_but A W (fst (expire_one x st))" for x st
    by (auto simp: expire_one_def Let_def work_keys_def intro!: filed_steps split: option.split)
  have "filed_but A W (fst st) \<Longrightarrow> filed_but A W (fst (fold expire_one ws st))" for ws st
    by (induction ws arbitrary: st) (simp_all add: one)
  from this [of "(s, False)" "om_keys (im_work s)"] show "filed_but A W (fst (expire_deadlines s))"
    using assms by (auto simp: expire_deadlines_def Let_def intro!: filed_steps split: prod.split)
qed

lemma filed_commit_apply: "filed_but A W s \<Longrightarrow> filed_but A W (commit_apply w b s)"
proof -
  assume s: "filed_but A W s"
  have "state_keyed (insert_assignment b s)"
    using filed_but_keyed [OF s] by (simp add: insert_assignment_def state_keyed_maps new_lease_def)
  then have insert: "filed_but A W (insert_assignment b s)"
    by (rule filed_but_same [OF s]) (simp_all add: filed_keys_def filed_work_def fun_eq_iff insert_assignment_def)
  let ?f = "\<lambda>w. w\<lparr>wr_last_assignment_generation := bn_generation b\<rparr>"
  have "filed_but A W (adjust_work w ?f (insert_assignment b s))"
    by (intro filed_steps insert) (simp_all add: work_keys_def)
  then have s2: "filed_but A W ((insert_assignment b s)\<lparr>im_work := om_adjust w ?f (im_work (insert_assignment b s))\<rparr>)"
    by (simp only: adjust_work_def)
  have stored: "filed_but A W t \<Longrightarrow>
      filed_but A W (case om_get (im_assignments t) k of None \<Rightarrow> t | Some r \<Rightarrow> index_assignment r t)" for t k
    by (auto intro!: filed_steps split: option.split)
  have count: "filed_but A W (count_assigned q n t)" if "filed_but A W t" for q n t
  proof (rule filed_but_same [OF that])
    show "state_keyed (count_assigned q n t)"
      using filed_but_keyed [OF that] by (simp add: count_assigned_def state_keyed_maps well_keyed_adjust)
  qed (simp_all add: filed_keys_def filed_work_def fun_eq_iff count_assigned_def)
  show ?thesis
    unfolding commit_apply_def Let_def by (intro count filed_steps stored s2)
qed

lemma filed_batch: "filed_but A W s \<Longrightarrow> filed_but A W (fst (schedule_batch request s))"
  by (rule schedule_batch_inv)
    (auto simp: bump_bypass_def reset_bypass_def work_keys_def intro!: filed_steps filed_commit_apply)

lemma filed_schedule_commit: "filed_but A W s \<Longrightarrow> filed_but A W (fst (schedule_commit w g d b s))"
  by (auto simp: schedule_commit_def commit_locked_def filed_commit_apply split: sum.splits option.splits)

subsection \<open>Construction and recovery\<close>

lemma filed_empty:
  assumes "state_keyed s" and "im_agents s = []" and "im_work s = []" and "filed_keys s = (\<lambda>_. no_keys)"
    and "filed_work s = (\<lambda>_. ({}, {}))"
  shows "all_filed s"
  using assms by (simp add: filed_but_def agent_filed_def work_filed_def)

lemma filed_make_scheduler: "make_scheduler options nonce wall now = Some s \<Longrightarrow> all_filed s"
proof -
  assume "make_scheduler options nonce wall now = Some s"
  then have "s = make_impl options nonce wall now \<or> s = fst (start (make_impl options nonce wall now))"
    by (auto simp: make_scheduler_def Let_def split: option.splits if_splits)
  moreover have "all_filed (make_impl options nonce wall now)"
    by (rule filed_empty)
      (simp_all add: state_keyed_maps make_impl_def filed_keys_def filed_work_def no_keys_def fun_eq_iff)
  ultimately show ?thesis using filed_process(1) by blast
qed

text \<open>Rebuilding: every agent and every work item is filed from nothing, one by one.\<close>

lemma fold_index_agents:
  assumes "distinct (map fst es)" and "\<And>k r. (k, r) \<in> set es \<Longrightarrow> agent_ident r = k"
    and "\<And>k. k \<in> fst ` set es \<Longrightarrow> filed_keys s k = no_keys"
  shows "filed_keys (fold (\<lambda>e. index_agent (snd e)) es s) a =
    (case map_of es a of None \<Rightarrow> filed_keys s a | Some r \<Rightarrow> agent_keys r)"
  using assms
proof (induction es arbitrary: s)
  case (Cons e es)
  obtain k r where e: "e = (k, r)" by fastforce
  have ident: "agent_ident r = k" using Cons.prems(2) e by simp
  have fresh: "k \<notin> fst ` set es" using Cons.prems(1) e by simp
  then have none: "map_of es k = None" by (simp add: map_of_eq_None_iff)
  have "filed_keys (fold (\<lambda>e. index_agent (snd e)) es (index_agent r s)) a =
      (case map_of es a of None \<Rightarrow> filed_keys (index_agent r s) a | Some x \<Rightarrow> agent_keys x)"
  proof (rule Cons.IH)
    show "filed_keys (index_agent r s) j = no_keys" if "j \<in> fst ` set es" for j
    proof -
      have "j \<noteq> k" using that fresh by blast
      then show ?thesis using that ident Cons.prems(3) by (simp add: filed_index_agent)
    qed
  next
    show "distinct (map fst es)" using Cons.prems(1) by simp
    show "agent_ident r = k" if "(k, r) \<in> set es" for k r using that Cons.prems(2) by simp
  qed
  moreover have "filed_keys s k = no_keys" using Cons.prems(3) e by simp
  ultimately show ?case
    using e ident none
    by (auto simp: filed_index_agent no_keys_def agent_keys_def split: option.split)
qed simp

lemma fold_index_works:
  assumes "distinct (map fst es)" and "\<And>k r. (k, r) \<in> set es \<Longrightarrow> work_ident r = k"
    and "\<And>k. k \<in> fst ` set es \<Longrightarrow> filed_work s k = ({}, {})"
  shows "filed_work (fold (\<lambda>e. index_work (snd e)) es s) w =
    (case map_of es w of None \<Rightarrow> filed_work s w | Some r \<Rightarrow> work_keys r)"
  using assms
proof (induction es arbitrary: s)
  case (Cons e es)
  obtain k r where e: "e = (k, r)" by fastforce
  have ident: "work_ident r = k" using Cons.prems(2) e by simp
  have fresh: "k \<notin> fst ` set es" using Cons.prems(1) e by simp
  then have none: "map_of es k = None" by (simp add: map_of_eq_None_iff)
  have "filed_work (fold (\<lambda>e. index_work (snd e)) es (index_work r s)) w =
      (case map_of es w of None \<Rightarrow> filed_work (index_work r s) w | Some x \<Rightarrow> work_keys x)"
  proof (rule Cons.IH)
    show "filed_work (index_work r s) j = ({}, {})" if "j \<in> fst ` set es" for j
    proof -
      have "j \<noteq> k" using that fresh by blast
      then show ?thesis using that ident Cons.prems(3) by (simp add: filed_index_work)
    qed
  next
    show "distinct (map fst es)" using Cons.prems(1) by simp
    show "work_ident r = k" if "(k, r) \<in> set es" for k r using that Cons.prems(2) by simp
  qed
  moreover have "filed_work s k = ({}, {})" using Cons.prems(3) e by simp
  ultimately show ?case
    using e ident none by (auto simp: filed_index_work work_keys_def split: option.split)
qed simp

lemma filed_rebuild:
  assumes "state_keyed s"
  shows "all_filed (rebuild_indexes s)"
proof -
  let ?c = "s\<lparr>im_by_capability := [], im_by_lifecycle := [], im_by_tenant := [], im_by_domain := [],
    im_work_by_queue := [], im_work_by_lifecycle := [], im_by_agent := [], im_by_work := []\<rparr>"
  let ?s1 = "fold (\<lambda>e. index_agent (snd e)) (im_agents s) ?c"
  let ?s2 = "fold (\<lambda>e. index_work (snd e)) (im_work s) ?s1"
  have eq: "rebuild_indexes s = fold (\<lambda>e. index_assignment (snd e)) (im_assignments s) ?s2"
    by (simp add: rebuild_indexes_def Let_def)
  note keyed = state_keyedD [OF assms]
  have agents: "filed_keys ?s1 a = (case om_get (im_agents s) a of None \<Rightarrow> no_keys | Some r \<Rightarrow> agent_keys r)" for a
    using keyed(3) well_keyed_set [of "im_agents s" agent_ident] om_ok_distinct [of "im_agents s"]
    by (subst fold_index_agents) (auto simp: well_keyed_def om_keys_def filed_keys_def no_keys_def split: option.split)
  have works: "filed_work ?s2 w = (case om_get (im_work s) w of None \<Rightarrow> ({}, {}) | Some r \<Rightarrow> work_keys r)" for w
  proof -
    have "filed_work ?s1 = filed_work ?c"
      by (rule fold_keeps) (rule filed_work_cong; simp)
    then have "filed_work ?s1 = (\<lambda>_. ({}, {}))" by (simp add: filed_work_def fun_eq_iff)
    then show ?thesis
      using keyed(4) well_keyed_set [of "im_work s" work_ident] om_ok_distinct [of "im_work s"]
      by (subst fold_index_works) (auto simp: well_keyed_def om_keys_def split: option.split)
  qed
  have keys: "filed_keys (rebuild_indexes s) = filed_keys ?s1"
  proof -
    have "filed_keys (rebuild_indexes s) = filed_keys ?s2"
      unfolding eq by (rule fold_keeps) (rule filed_keys_cong; simp)
    also have "\<dots> = filed_keys ?s1" by (rule fold_keeps) (rule filed_keys_cong; simp)
    finally show ?thesis .
  qed
  have work: "filed_work (rebuild_indexes s) = filed_work ?s2"
    unfolding eq by (rule fold_keeps) (rule filed_work_cong; simp)
  show ?thesis
    using agents works keys work keyed_rebuild [OF assms]
    by (simp add: filed_but_def agent_filed_def work_filed_def)
qed

lemma filed_recover:
  assumes "state_keyed s"
  shows "all_filed (recover (decoded_of s) t)"
proof -
  have "state_keyed (adopt (decoded_of s) t)"
    using assms by (simp add: state_keyed_maps adopt_def decoded_of_def well_keyed_map)
  then show ?thesis
    unfolding recover_def Let_def by (intro fold_filed filed_steps filed_rebuild)
qed

end
