(* ===== verification/Reference_Invariants.thy ===== *)
theory Reference_Invariants
  imports Index_Invariants
begin

section \<open>References of assignments\<close>

text \<open>
  Every assignment ever stored, ended ones included, refers to a stored work item and a
  stored agent whose generations are at least the ones it was bound to. Operations never
  remove an assignment, a work item or an agent, and only a commit stores a new assignment.
\<close>

definition binding_referenced :: "Impl \<Rightarrow> AssignmentBinding \<Rightarrow> bool" where
  "binding_referenced s b \<longleftrightarrow>
     (\<exists>q. work_req s (bn_work b) = Some q \<and> bn_work_generation b \<le> wq_generation q)
     \<and> (\<exists>g x. agent_auth s (bn_agent b) = Some (g, x) \<and> bn_agent_generation b \<le> g)"

definition refs_ok :: "Impl \<Rightarrow> bool" where
  "refs_ok s \<longleftrightarrow>
     (\<forall>k r. om_get (im_assignments s) k = Some r \<longrightarrow> binding_referenced s (ar_binding r))"

definition stored_ids :: "Impl \<Rightarrow> Hash128 set" where
  "stored_ids s = dom (om_get (im_assignments s))"

lemma binding_referenced_evolves:
  assumes ev: "evolves s t" and b: "binding_referenced s b"
  shows "binding_referenced t b"
proof -
  obtain q where q: "work_req s (bn_work b) = Some q" "bn_work_generation b \<le> wq_generation q"
    using b unfolding binding_referenced_def by blast
  obtain g x where g: "agent_auth s (bn_agent b) = Some (g, x)" "bn_agent_generation b \<le> g"
    using b unfolding binding_referenced_def by blast
  obtain q' where "work_req t (bn_work b) = Some q'" "wq_generation q < wq_generation q' \<or> q' = q"
    using ev q(1) unfolding evolves_def work_le_def by blast
  moreover obtain y where y: "agent_auth t (bn_agent b) = Some y" "auth_le (g, x) y"
    using ev g(1) unfolding evolves_def agents_le_def by blast
  obtain g' x' where pair: "y = (g', x')" by (cases y)
  with y(2) have "g \<le> g'" by (cases x; cases x') auto
  with g(2) have "bn_agent_generation b \<le> g'" by simp
  ultimately show ?thesis
    using q(2) y(1) pair unfolding binding_referenced_def by fastforce
qed

lemma binding_referenced_core:
  "binding_core b = binding_core c \<Longrightarrow> binding_referenced s b = binding_referenced s c"
  using binding_coreD [of b c] by (simp add: binding_referenced_def)

lemma refs_ok_step:
  assumes "evolves s t" and "stored_ids t = stored_ids s" and "refs_ok s"
  shows "refs_ok t"
  unfolding refs_ok_def
proof (intro allI impI)
  fix k r assume r: "om_get (im_assignments t) k = Some r"
  then have "k \<in> stored_ids t" by (auto simp: stored_ids_def)
  then obtain r0 where r0: "om_get (im_assignments s) k = Some r0"
    using assms(2) by (auto simp: stored_ids_def)
  then obtain r' where "om_get (im_assignments t) k = Some r'"
    "binding_core (ar_binding r') = binding_core (ar_binding r0)"
    using assms(1) unfolding evolves_def assignments_le_def by blast
  then have "binding_core (ar_binding r) = binding_core (ar_binding r0)" using r by simp
  moreover have "binding_referenced s (ar_binding r0)" using assms(3) r0 by (simp add: refs_ok_def)
  ultimately show "binding_referenced t (ar_binding r)"
    using binding_referenced_evolves [OF assms(1)] binding_referenced_core by blast
qed

lemma refs_ok_safe: "safe_step s t \<Longrightarrow> core_inv s \<Longrightarrow> stored_ids t = stored_ids s \<Longrightarrow> refs_ok s \<Longrightarrow> refs_ok t"
  unfolding safe_step_def using refs_ok_step by blast

subsection \<open>No operation but a commit stores or removes an assignment\<close>

lemma stored_ids_cong: "im_assignments t = im_assignments s \<Longrightarrow> stored_ids t = stored_ids s"
  by (simp add: stored_ids_def)

lemma stored_adjust [simp]: "stored_ids (adjust_assignment k f s) = stored_ids s"
  by (auto simp: stored_ids_def adjust_assignment_def dom_def)

lemma stored_frames [simp]:
  "stored_ids (bump_revision s) = stored_ids s" "stored_ids (index_agent ag s) = stored_ids s"
  "stored_ids (deindex_agent a s) = stored_ids s" "stored_ids (index_work wr s) = stored_ids s"
  "stored_ids (deindex_work w s) = stored_ids s" "stored_ids (index_assignment ar s) = stored_ids s"
  "stored_ids (sync_work_lifecycle_index w wl s) = stored_ids s"
  "stored_ids (adjust_agent a fa s) = stored_ids s" "stored_ids (adjust_work w fw s) = stored_ids s"
  "stored_ids (adjust_queue q fq s) = stored_ids s" "stored_ids (adjust_tenant t ft s) = stored_ids s"
  "stored_ids (adjust_lease l fl s) = stored_ids s" "stored_ids (fence_boot a b g d s) = stored_ids s"
  "stored_ids (refresh_agent_accounting a s) = stored_ids s"
  "stored_ids (refresh_work_accounting w s) = stored_ids s"
  "stored_ids (s\<lparr>im_agents := ma\<rparr>) = stored_ids s" "stored_ids (s\<lparr>im_work := mw\<rparr>) = stored_ids s"
  "stored_ids (s\<lparr>im_queues := mq\<rparr>) = stored_ids s" "stored_ids (s\<lparr>im_tenants := mt\<rparr>) = stored_ids s"
  "stored_ids (s\<lparr>im_policy := p\<rparr>) = stored_ids s"
  "stored_ids (s\<lparr>im_next_admission_sequence := n\<rparr>) = stored_ids s"
  by (rule stored_ids_cong; simp)+

lemma stored_close [simp]: "stored_ids (close_assignment k st re d s) = stored_ids s"
  by (auto simp: stored_ids_def dom_def close_assignment_get)

lemma stored_fold: "(\<And>x s. stored_ids (f x s) = stored_ids s) \<Longrightarrow> stored_ids (fold f xs s) = stored_ids s"
  by (rule fold_keeps)

lemma stored_closes [simp]:
  "stored_ids (close_where P st re d s) = stored_ids s"
  "stored_ids (close_all_active b st re d s) = stored_ids s"
  "stored_ids (close_work w st re d s) = stored_ids s"
  "stored_ids (close_stale k failure s) = stored_ids s"
  by (simp_all add: close_where_def close_if_def close_all_active_def close_work_def close_stale_def
      stored_fold)

lemma stored_parts [simp]:
  "stored_ids (refresh_agent a s) = stored_ids s"
  "stored_ids (settle_work w lc re s) = stored_ids s"
  "stored_ids (release_tenant_slot w s) = stored_ids s"
  "stored_ids (end_incarnation a al re s) = stored_ids s"
  "stored_ids (promote_assignment k b s) = stored_ids s"
  "stored_ids (mark_superseded a p k s) = stored_ids s"
  "stored_ids (readmit wq re s) = stored_ids s"
  "stored_ids (count_admitted wq s) = stored_ids s"
  "stored_ids (fst (ensure_queue q s)) = stored_ids s"
  "stored_ids (fst (ensure_tenant t s)) = stored_ids s"
  by (simp_all add: refresh_agent_def settle_work_def release_tenant_slot_def end_incarnation_def
      promote_assignment_def mark_superseded_def readmit_def count_admitted_def ensure_queue_def
      ensure_tenant_def Let_def split: option.split)

lemma stored_registers [simp]:
  "stored_ids (reincarnate d r s) = stored_ids s" "stored_ids (reregister d s) = stored_ids s"
  "stored_ids (register_new d s) = stored_ids s"
  "stored_ids (apply_capabilities a p s) = stored_ids s"
  by (simp_all add: reincarnate_def reregister_def register_new_def apply_capabilities_def Let_def
      stored_fold split: option.split)

lemma stored_with_incarnation:
  "(\<And>r. stored_ids (fst (f r)) = stored_ids s) \<Longrightarrow>
   stored_ids (fst (with_incarnation oper stale a b s f)) = stored_ids s"
  by (simp add: with_incarnation_def split: option.split)

lemma stored_observe:
  "(\<And>r. stored_ids (fst (f r)) = stored_ids s) \<Longrightarrow>
   stored_ids (fst (observe oper k g b s f)) = stored_ids s"
  by (simp add: observe_def split: sum.split prod.split)

lemma stored_ensure_both:
  assumes "\<And>t. stored_ids (fst (f t)) = stored_ids t"
  shows "stored_ids (fst (ensure_both q s f)) = stored_ids s"
proof -
  obtain s1 e1 where 1: "ensure_queue q s = (s1, e1)" by (cases "ensure_queue q s")
  obtain s2 e2 where 2: "ensure_tenant (rq_tenant (wq_requirements q)) s1 = (s2, e2)"
    by (cases "ensure_tenant (rq_tenant (wq_requirements q)) s1")
  have "stored_ids s1 = stored_ids s" "stored_ids s2 = stored_ids s1"
    using arg_cong [OF 1, of "\<lambda>x. stored_ids (fst x)"] arg_cong [OF 2, of "\<lambda>x. stored_ids (fst x)"]
    by simp_all
  then show ?thesis using assms 1 2 by (simp add: ensure_both_def split: option.split)
qed

lemma stored_process:
  "stored_ids (fst (start s)) = stored_ids s" "stored_ids (fst (shutdown s)) = stored_ids s"
proof -
  let ?t = "s\<lparr>im_shutting_down := True, im_admission_open := False, im_running := False,
      im_shutdown_at_ms := im_now s\<rparr>"
  have same: "stored_ids ?t = stored_ids s" by (rule stored_ids_cong) simp
  then show "stored_ids (fst (shutdown s)) = stored_ids s"
    by (simp add: shutdown_def Let_def)
  show "stored_ids (fst (start s)) = stored_ids s"
    by (rule stored_ids_cong) (simp add: start_def)
qed

lemma stored_operations:
  "stored_ids (s\<lparr>im_now := t\<rparr>) = stored_ids s" "stored_ids (s\<lparr>im_feasibility := p\<rparr>) = stored_ids s"
  "stored_ids (fst (start s)) = stored_ids s" "stored_ids (fst (shutdown s)) = stored_ids s"
  "stored_ids (fst (set_policy policy s)) = stored_ids s"
  "stored_ids (fst (register_queue q g c n s)) = stored_ids s"
  "stored_ids (fst (register_commit d s)) = stored_ids s"
  "stored_ids (fst (publish_capabilities a b profile s)) = stored_ids s"
  "stored_ids (fst (publish_health a b h s)) = stored_ids s"
  "stored_ids (fst (publish_availability a b v s)) = stored_ids s"
  "stored_ids (fst (publish_load a b l s)) = stored_ids s"
  "stored_ids (fst (heartbeat a b g s)) = stored_ids s"
  "stored_ids (fst (drain_agent a b force s)) = stored_ids s"
  "stored_ids (fst (deregister_agent a b force s)) = stored_ids s"
  "stored_ids (lost_commit a b re s) = stored_ids s"
  "stored_ids (fst (submit_commit r s)) = stored_ids s"
  "stored_ids (fst (cancel_commit w g re s)) = stored_ids s"
  "stored_ids (fst (supersede_work w g r s)) = stored_ids s"
  by (simp_all add: stored_process set_policy_def register_queue_def register_commit_def
      publish_capabilities_def publish_health_def publish_availability_def publish_load_def
      heartbeat_def drain_agent_def deregister_agent_def lost_commit_def submit_commit_def
      cancel_commit_def supersede_work_def stored_with_incarnation stored_ensure_both Let_def
      stored_ids_cong [of "s\<lparr>im_now := t\<rparr>" s] stored_ids_cong [of "s\<lparr>im_feasibility := p\<rparr>" s]
      split: option.split sum.split)

lemma stored_observations:
  "stored_ids (fst (acknowledge k g di dg b s)) = stored_ids s"
  "stored_ids (fst (mark_executing k g b s)) = stored_ids s"
  "stored_ids (fst (release k g b re s)) = stored_ids s"
  "stored_ids (fst (complete_assignment k g b s)) = stored_ids s"
  "stored_ids (fst (fail_assignment k g b re s)) = stored_ids s"
  "stored_ids (fst (reject_assignment k g b re s)) = stored_ids s"
  "stored_ids (fst (expire_leases s)) = stored_ids s"
  "stored_ids (fst (dispatch_commit k g s)) = stored_ids s"
  by (simp_all add: acknowledge_def mark_executing_def release_def complete_assignment_def
      fail_assignment_def reject_assignment_def expire_leases_def dispatch_commit_def
      stored_observe Let_def split: option.split)

lemma stored_fold_fst:
  "(\<And>x st. stored_ids (fst (f x st)) = stored_ids (fst st)) \<Longrightarrow>
   stored_ids (fst (fold f xs st)) = stored_ids (fst st)"
  by (induction xs arbitrary: st) simp_all

lemma stored_loops:
  "stored_ids (fst (expire_deadlines s)) = stored_ids s"
  "stored_ids (fst (revalidate_assignments s)) = stored_ids s"
  "stored_ids (fst (revalidate_agent_assignments a b s)) = stored_ids s"
proof -
  have one: "stored_ids (fst (expire_one w st)) = stored_ids (fst st)" for w st
    by (simp add: expire_one_def Let_def split: option.split)
  obtain t c where t: "fold expire_one (om_keys (im_work s)) (s, False) = (t, c)" by fastforce
  have "stored_ids t = stored_ids s"
    using stored_fold_fst [of expire_one "om_keys (im_work s)" "(s, False)", OF one] t by simp
  then show "stored_ids (fst (expire_deadlines s)) = stored_ids s" by (simp add: expire_deadlines_def t)
  have "stored_ids (fst (revalidate_one k st)) = stored_ids (fst st)" for k st
    by (simp add: revalidate_one_def Let_def split: option.split)
  moreover have "stored_ids (fst (finish_revalidation st)) = stored_ids (fst st)" for st
    by (simp add: finish_revalidation_def)
  moreover have "stored_ids (fst (revalidate_agent_one a b k st)) = stored_ids (fst st)" for k st
    by (simp add: revalidate_agent_one_def Let_def split: option.split)
  ultimately show "stored_ids (fst (revalidate_assignments s)) = stored_ids s"
    "stored_ids (fst (revalidate_agent_assignments a b s)) = stored_ids s"
    by (simp_all add: revalidate_assignments_def revalidate_agent_assignments_def stored_fold_fst
        split: option.split)
qed

subsection \<open>Commits\<close>

lemma refs_ok_commit:
  assumes refs: "refs_ok s" and ok: "commit_problem s w g b = None" and wb: "bn_work b = w"
  shows "refs_ok (commit_apply w b s)"
proof -
  have ev: "evolves s (commit_apply w b s)" by (rule commit_apply_evolves)
  obtain x a where x: "om_get (im_work s) w = Some x" "om_get (im_agents s) (bn_agent b) = Some a"
    "commit_work_problem s w g b x = None" "commit_agent_problem s w b x a = None"
    by (rule commit_problem_None [OF ok])
  have "binding_referenced s b"
    using x commit_work_problem_None [OF x(3)] commit_agent_problem_None [of s w b x a] wb
    by (auto simp: binding_referenced_def work_req_def agent_auth_def)
  then have new: "binding_referenced (commit_apply w b s) b" by (rule binding_referenced_evolves [OF ev])
  show ?thesis
    unfolding refs_ok_def
  proof (intro allI impI)
    fix k r assume r: "om_get (im_assignments (commit_apply w b s)) k = Some r"
    show "binding_referenced (commit_apply w b s) (ar_binding r)"
    proof (cases "om_get (im_assignments s) k")
      case None
      then have "ar_binding r = b"
        using r by (simp add: commit_apply_get_assignments split: if_splits)
          (metis new_assignment_sel(1) option.inject)
      then show ?thesis using new by simp
    next
      case (Some r0)
      then have "r = r0" using r by (simp add: commit_apply_get_assignments split: if_splits)
      then show ?thesis
        using refs Some binding_referenced_evolves [OF ev] by (simp add: refs_ok_def)
    qed
  qed
qed

lemma refs_ok_schedule_commit:
  assumes "refs_ok s" and "bn_work b = w"
  shows "refs_ok (fst (schedule_commit w g d b s))"
  using assms by (auto simp: schedule_commit_def commit_locked_def refs_ok_commit
      split: sum.splits option.splits)

lemma refs_ok_batch:
  assumes "core_inv s" and "refs_ok s"
  shows "refs_ok (fst (schedule_batch request s))"
proof -
  have "core_inv (fst (schedule_batch request s)) \<and> refs_ok (fst (schedule_batch request s))"
  proof (rule schedule_batch_inv)
    show "core_inv s \<and> refs_ok s" using assms by simp
    show "core_inv (t\<lparr>im_scheduling_rounds := n\<rparr>) \<and> refs_ok (t\<lparr>im_scheduling_rounds := n\<rparr>)"
      if "core_inv t \<and> refs_ok t" for t n
      using that rounds_step [of t n] refs_ok_safe [OF rounds_step [of t n]]
      by (simp add: safe_step_def stored_ids_def)
    have bumped: "core_inv (adjust_work w f t) \<and> refs_ok (adjust_work w f t)"
      if "core_inv t \<and> refs_ok t" and "\<And>r. wr_request (f r) = wr_request r
        \<and> wr_current_assignments (f r) = wr_current_assignments r" for w f t
    proof -
      have step: "safe_step t (adjust_work w f t)" by (rule adjust_work_step) (rule that(2))
      then show ?thesis using that(1) refs_ok_safe [OF step] by (simp add: safe_step_def)
    qed
    show "core_inv (adjust_work w bump_bypass t) \<and> refs_ok (adjust_work w bump_bypass t)"
      if "core_inv t \<and> refs_ok t" for t w
      by (rule bumped [OF that]) (simp add: bump_bypass_def)
    show "core_inv (adjust_work w reset_bypass t) \<and> refs_ok (adjust_work w reset_bypass t)"
      if "core_inv t \<and> refs_ok t" for t w
      by (rule bumped [OF that]) (simp add: reset_bypass_def)
    show "core_inv (commit_apply (wq_id (wr_request w)) b t) \<and> refs_ok (commit_apply (wq_id (wr_request w)) b t)"
      if inv: "core_inv t \<and> refs_ok t" and w: "om_get (im_work t) k = Some w"
        and b: "pl_binding (plan_locked t w) = Some b"
        and ok: "commit_problem t (wq_id (wr_request w)) (wq_generation (wr_request w)) b = None" for t k w b
    proof -
      have acc: "accounts_ok t" using inv core_inv_accounts by blast
      have k: "wq_id (wr_request w) = k"
        using accounts_ok_named [OF acc] w by (auto simp: work_named_def)
      note planned = plan_binding_planned [OF acc w b]
      have bw: "bn_work b = wq_id (wr_request w)" using planned k by simp
      have "safe_step t (commit_apply (wq_id (wr_request w)) b t)"
        using commit_step [OF planned(1)] ok by (simp add: bw)
      then show ?thesis
        using inv refs_ok_commit [OF _ ok] planned(2) k by (simp add: safe_step_def)
    qed
  qed
  then show ?thesis by blast
qed

end
