(* ===== verification/Interleaving.thy ===== *)
theory Interleaving
  imports Reference_Invariants
begin

section \<open>Interleavings of the operations\<close>

text \<open>
  The scheduler is shared by many callers. Every operation runs one or two critical sections
  under the mutex; between the two sections of schedule, register_agent, submit_work,
  cancel_work, declare_agent_lost and dispatch the mutex is free and any other section may
  run. A system state is the authoritative state together with the plans that wait for their
  commit. A step is one critical section of any caller, so a run is an arbitrary
  interleaving of the sections of arbitrarily many callers.
\<close>

subsection \<open>The critical sections\<close>

inductive critical_section :: "Impl \<Rightarrow> Impl \<Rightarrow> bool" where
  sec_clock: "critical_section s (s\<lparr>im_now := t\<rparr>)"
| sec_provider: "critical_section s (s\<lparr>im_feasibility := p\<rparr>)"
| sec_start: "critical_section s (fst (start s))"
| sec_shutdown: "critical_section s (fst (shutdown s))"
| sec_set_policy: "critical_section s (fst (set_policy p s))"
| sec_register_queue: "critical_section s (fst (register_queue q g c n s))"
| sec_register_agent: "validate_descriptor d (im_limits s) = None \<Longrightarrow>
    critical_section s (fst (register_commit d s))"
| sec_publish_capabilities: "critical_section s (fst (publish_capabilities a boot profile s))"
| sec_publish_health: "critical_section s (fst (publish_health a boot health s))"
| sec_publish_availability: "critical_section s (fst (publish_availability a boot avail s))"
| sec_publish_load: "critical_section s (fst (publish_load a boot load s))"
| sec_heartbeat: "critical_section s (fst (heartbeat a boot g s))"
| sec_drain: "critical_section s (fst (drain_agent a boot force s))"
| sec_deregister: "critical_section s (fst (deregister_agent a boot force s))"
| sec_lost: "critical_section s (lost_commit a boot reason s)"
| sec_submit: "validate_work q (im_limits s) = None \<Longrightarrow>
    critical_section s (fst (submit_commit q s))"
| sec_cancel: "critical_section s (fst (cancel_commit w g reason s))"
| sec_supersede: "critical_section s (fst (supersede_work w g q s))"
| sec_expire_deadlines: "critical_section s (fst (expire_deadlines s))"
| sec_schedule_batch: "critical_section s (fst (schedule_batch request s))"
| sec_dispatch: "critical_section s (fst (dispatch_commit k g s))"
| sec_acknowledge: "critical_section s (fst (acknowledge k g di dg boot s))"
| sec_mark_executing: "critical_section s (fst (mark_executing k g boot s))"
| sec_release: "critical_section s (fst (release k g boot reason s))"
| sec_complete: "critical_section s (fst (complete_assignment k g boot s))"
| sec_fail: "critical_section s (fst (fail_assignment k g boot reason s))"
| sec_reject: "critical_section s (fst (reject_assignment k g boot reason s))"
| sec_revalidate: "critical_section s (fst (revalidate_assignments s))"
| sec_revalidate_agent: "critical_section s (fst (revalidate_agent_assignments a boot s))"
| sec_expire_leases: "critical_section s (fst (expire_leases s))"

lemma provider_step: "safe_step s (s\<lparr>im_feasibility := p\<rparr>)"
  by (intro quiet_step agent_views_cong fences_le_same; simp)

lemmas section_steps = time_step provider_step start_step shutdown_step set_policy_step
  register_queue_step register_commit_step publish_capabilities_step publish_health_step
  publish_availability_step publish_load_step heartbeat_step drain_agent_step
  deregister_agent_step lost_commit_step submit_commit_step [OF validate_work_wf]
  cancel_commit_step supersede_work_step expire_deadlines_step schedule_batch_step
  dispatch_commit_step acknowledge_step mark_executing_step release_step
  complete_assignment_step fail_assignment_step reject_assignment_step
  revalidate_assignments_step revalidate_agent_assignments_step expire_leases_step

theorem critical_section_step: "critical_section s t \<Longrightarrow> core_inv s \<Longrightarrow> safe_step s t"
  by (induction rule: critical_section.induct) (rule section_steps, assumption?)+

lemmas section_filed = filed_fields(1,2) filed_process filed_register filed_publish_capabilities
  filed_publish filed_submit filed_work_operations filed_batch filed_dispatch filed_observations
  filed_revalidate

lemma critical_section_filed: "critical_section s t \<Longrightarrow> all_filed s \<Longrightarrow> all_filed t"
  by (induction rule: critical_section.induct) (rule section_filed, assumption)+

lemmas section_stored = stored_operations stored_observations stored_loops

lemma critical_section_refs:
  assumes "critical_section s t" and "core_inv s" and "refs_ok s"
  shows "refs_ok t"
proof (cases "\<exists>request. t = fst (schedule_batch request s)")
  case True
  then show ?thesis using refs_ok_batch [OF assms(2,3)] by blast
next
  case False
  then have "stored_ids t = stored_ids s"
    by - (rule critical_section.cases [OF assms(1)]; auto simp: section_stored)
  then show ?thesis
    using refs_ok_safe [OF critical_section_step [OF assms(1,2)] assms(2)] assms(3) by blast
qed

subsection \<open>Systems with pending plans\<close>

text \<open>A plan that waits for its commit: work id, expected generation, decision and binding.\<close>

type_synonym PendingPlan = "u64 \<times> u64 \<times> ScheduleDecision \<times> AssignmentBinding"

record System =
  sys_impl :: Impl
  sys_pending :: "PendingPlan list"

inductive sys_step :: "System \<Rightarrow> System \<Rightarrow> bool" where
  step_section: "critical_section s t \<Longrightarrow>
    sys_step \<lparr>sys_impl = s, sys_pending = ps\<rparr> \<lparr>sys_impl = t, sys_pending = ps\<rparr>"
| step_plan: "pl_binding (schedule_plan s w g) = Some b \<Longrightarrow>
    sys_step \<lparr>sys_impl = s, sys_pending = ps\<rparr>
      \<lparr>sys_impl = s, sys_pending = ps @ [(w, g, pl_decision (schedule_plan s w g), b)]\<rparr>"
| step_commit: "(w, g, d, b) \<in> set ps \<Longrightarrow>
    sys_step \<lparr>sys_impl = s, sys_pending = ps\<rparr>
      \<lparr>sys_impl = fst (schedule_commit w g d b s), sys_pending = remove1 (w, g, d, b) ps\<rparr>"

definition initial_system :: "System \<Rightarrow> bool" where
  "initial_system y \<longleftrightarrow> sys_pending y = []
     \<and> (\<exists>options nonce wall now. make_scheduler options nonce wall now = Some (sys_impl y))"

text \<open>
  A restart saves the state to a file and loads the file into a stopped scheduler with the
  same limits; plans that waited for their commit do not survive it. The saved records obey
  the limits, and the scheduler epoch has not reached its maximum.
\<close>

definition restarts_to :: "Impl \<Rightarrow> Impl \<Rightarrow> bool" where
  "restarts_to s x \<longleftrightarrow> state_fits s \<and> im_scheduler_epoch s + 1 \<noteq> 0
     \<and> (\<exists>popts path path' lopts f t. save_bytes popts path s = Inr (Inr f) \<and> length f < 2 ^ 64
          \<and> \<not> im_running t \<and> im_limits t = im_limits s \<and> x = fst (load_state lopts path' (Inr f) t))"

inductive reachable :: "System \<Rightarrow> bool" where
  reach_initial: "initial_system y \<Longrightarrow> reachable y"
| reach_step: "reachable y \<Longrightarrow> sys_step y z \<Longrightarrow> reachable z"
| reach_restart: "reachable y \<Longrightarrow> restarts_to (sys_impl y) x \<Longrightarrow>
    reachable \<lparr>sys_impl = x, sys_pending = []\<rparr>"

abbreviation leads_to :: "System \<Rightarrow> System \<Rightarrow> bool" where
  "leads_to \<equiv> sys_step\<^sup>*\<^sup>*"

text \<open>Transition systems with an invariant and an order that every step follows.\<close>

locale ordered_system =
  fixes step :: "'s \<Rightarrow> 's \<Rightarrow> bool" and invariant :: "'s \<Rightarrow> bool" and grows :: "'s \<Rightarrow> 's \<Rightarrow> bool"
  assumes step_invariant: "invariant s \<Longrightarrow> step s t \<Longrightarrow> invariant t"
    and step_grows: "invariant s \<Longrightarrow> step s t \<Longrightarrow> grows s t"
    and grows_refl: "grows s s"
    and grows_trans: "grows s t \<Longrightarrow> grows t u \<Longrightarrow> grows s u"
begin

lemma run_invariant:
  assumes "invariant s" and "step\<^sup>*\<^sup>* s t"
  shows "invariant t"
  using assms(2,1) by (induction rule: rtranclp_induct) (auto intro: step_invariant)

lemma run_grows:
  assumes "invariant s" and "step\<^sup>*\<^sup>* s t"
  shows "grows s t"
  using assms(2)
proof (induction rule: rtranclp_induct)
  case base
  show ?case by (rule grows_refl)
next
  case (step t u)
  have "invariant t" by (rule run_invariant [OF assms(1) step.hyps(1)])
  then show ?case using step by (blast intro: grows_trans step_grows)
qed

end

definition pending_ok :: "Impl \<Rightarrow> PendingPlan \<Rightarrow> bool" where
  "pending_ok s p \<longleftrightarrow> (case p of (w, g, d, b) \<Rightarrow>
     bn_work b = w \<and> bn_work_generation b = g \<and> binding_planned s b)"

definition system_inv :: "System \<Rightarrow> bool" where
  "system_inv y \<longleftrightarrow> core_inv (sys_impl y) \<and> all_filed (sys_impl y) \<and> refs_ok (sys_impl y)
     \<and> (\<forall>p\<in>set (sys_pending y). pending_ok (sys_impl y) p)"

definition system_le :: "System \<Rightarrow> System \<Rightarrow> bool" where
  "system_le y z \<longleftrightarrow> evolves (sys_impl y) (sys_impl z)"

lemma pending_ok_evolves: "evolves s t \<Longrightarrow> pending_ok s p \<Longrightarrow> pending_ok t p"
  by (cases p) (auto simp: pending_ok_def intro: binding_planned_evolves)

lemma schedule_plan_planned:
  assumes "accounts_ok s" and "pl_binding (schedule_plan s w g) = Some b"
  shows "pending_ok s (w, g, d, b)"
proof -
  obtain r where r: "om_get (im_work s) w = Some r" "wq_generation (wr_request r) = g"
    "pl_binding (plan_locked s r) = Some b"
    using assms(2) by (auto simp: schedule_plan_def Let_def split: option.splits if_splits)
  then show ?thesis
    using plan_binding_planned [OF assms(1) r(1,3)] by (simp add: pending_ok_def)
qed

lemma sys_step_safe:
  assumes "sys_step y z" and "system_inv y"
  shows "system_inv z \<and> system_le y z"
  using assms
proof (induction rule: sys_step.induct)
  case (step_section s t ps)
  then have "safe_step s t" "all_filed t" "refs_ok t"
    using critical_section_refs
    by (simp_all add: system_inv_def critical_section_step critical_section_filed)
  then show ?case
    using step_section.prems by (auto simp: system_inv_def system_le_def safe_step_def
        intro: pending_ok_evolves)
next
  case (step_plan s w g b ps)
  then show ?case
    by (auto simp: system_inv_def system_le_def core_inv_accounts intro: schedule_plan_planned)
next
  case (step_commit w g d b ps s)
  then have "pending_ok s (w, g, d, b)" by (auto simp: system_inv_def)
  then have "safe_step s (fst (schedule_commit w g d b s))" "all_filed (fst (schedule_commit w g d b s))"
    "refs_ok (fst (schedule_commit w g d b s))"
    using schedule_commit_step [of s b g d] step_commit.prems
    by (auto simp: pending_ok_def system_inv_def filed_schedule_commit refs_ok_schedule_commit)
  then show ?case
    using step_commit.prems
    by (auto simp: system_inv_def system_le_def safe_step_def dest: subsetD [OF set_remove1_subset]
        intro: pending_ok_evolves)
qed

interpretation scheduling: ordered_system sys_step system_inv system_le
proof unfold_locales
  show "system_inv s \<Longrightarrow> sys_step s t \<Longrightarrow> system_inv t" for s t
    using sys_step_safe by blast
  show "system_inv s \<Longrightarrow> sys_step s t \<Longrightarrow> system_le s t" for s t
    using sys_step_safe by blast
  show "system_le s t \<Longrightarrow> system_le t u \<Longrightarrow> system_le s u" for s t u
    unfolding system_le_def by (rule evolves_trans)
qed (simp add: system_le_def)

text \<open>The constructed scheduler satisfies the invariant.\<close>

lemma make_impl_inv: "core_inv (make_impl options nonce wall now)"
  by (simp add: core_inv_def make_impl_def accounts_ok_def indexes_ok_def keyed_def
      index_matches_def active_owned_def agent_accounted_def work_accounted_def agent_auth_def
      work_req_def)

lemma make_scheduler_inv:
  assumes "make_scheduler options nonce wall now = Some s"
  shows "core_inv s"
proof -
  have "s = make_impl options nonce wall now \<or> s = fst (start (make_impl options nonce wall now))"
    using assms by (auto simp: make_scheduler_def Let_def split: option.splits if_splits)
  then show ?thesis
    using make_impl_inv [of options nonce wall now] start_step [of "make_impl options nonce wall now"]
    by (auto simp: safe_step_def)
qed

lemma make_scheduler_refs:
  assumes "make_scheduler options nonce wall now = Some s"
  shows "refs_ok s"
proof -
  have "refs_ok (make_impl options nonce wall now)" by (simp add: refs_ok_def make_impl_def)
  moreover have "s = make_impl options nonce wall now \<or> s = fst (start (make_impl options nonce wall now))"
    using assms by (auto simp: make_scheduler_def Let_def split: option.splits if_splits)
  ultimately show ?thesis
    using refs_ok_safe [OF start_step make_impl_inv stored_process(1)] by auto
qed

lemma restart_recovers:
  assumes "restarts_to s x" and "state_keyed s"
  shows "recovered_from s x \<and> accounts_ok x \<and> im_scheduler_epoch s + 1 \<noteq> 0"
proof -
  obtain popts path path' lopts f t where "save_bytes popts path s = Inr (Inr f)" "state_fits s"
    "length f < 2 ^ 64" "\<not> im_running t" "im_limits t = im_limits s"
    "x = fst (load_state lopts path' (Inr f) t)" "im_scheduler_epoch s + 1 \<noteq> 0"
    using assms(1) unfolding restarts_to_def by blast
  then show ?thesis using load_recovered [of popts path s f t lopts path'] assms(2) by simp
qed

lemma recovered_refs:
  assumes "recovered_from s x" and "refs_ok s"
  shows "refs_ok x"
  unfolding refs_ok_def
proof (intro allI impI)
  fix k r assume "om_get (im_assignments x) k = Some r"
  then obtain r0 where r0: "om_get (im_assignments s) k = Some r0" "r = recovered_assignment r0"
    using assms(1) by (auto simp: recovered_from_def)
  then have "binding_referenced s (ar_binding r0)" using assms(2) by (simp add: refs_ok_def)
  then show "binding_referenced x (ar_binding r)"
    using r0(2) by (auto simp: binding_referenced_def recovered_work_req [OF assms(1)]
        recovered_agent_auth [OF assms(1)])
qed

lemma restart_core:
  assumes "restarts_to s x" and "core_inv s" and "state_keyed s" and "refs_ok s"
  shows "core_inv x \<and> conservative x \<and> all_filed x \<and> refs_ok x"
proof -
  obtain popts path path' lopts f t where saved: "save_bytes popts path s = Inr (Inr f)" "state_fits s"
    "length f < 2 ^ 64" "\<not> im_running t" "im_limits t = im_limits s"
    "x = fst (load_state lopts path' (Inr f) t)"
    using assms(1) unfolding restarts_to_def by blast
  have "x = recover (decoded_of s) t"
    using load_saved [OF saved(1,2) assms(3) saved(3-5), of lopts path'] saved(6) by auto
  then show ?thesis
    using restart_recovers [OF assms(1,3)] recovered_core [OF assms(2)]
      recovered_conservative [OF assms(2)] filed_recover [OF assms(3)]
      recovered_refs [OF _ assms(4)] by simp
qed

lemma reachable_inv: "reachable y \<Longrightarrow> system_inv y"
proof (induction rule: reachable.induct)
  case (reach_initial y)
  then show ?case
    by (auto simp: initial_system_def system_inv_def
        intro: make_scheduler_inv filed_make_scheduler make_scheduler_refs)
next
  case (reach_step y z)
  then show ?case by (blast intro: scheduling.step_invariant)
next
  case (reach_restart y x)
  then have "core_inv x \<and> all_filed x \<and> refs_ok x"
    using restart_core filed_but_keyed unfolding system_inv_def by blast
  then show ?case by (simp add: system_inv_def)
qed

lemma reachable_core: "reachable y \<Longrightarrow> core_inv (sys_impl y)"
  using reachable_inv by (simp add: system_inv_def)

lemma reachable_filed: "reachable y \<Longrightarrow> all_filed (sys_impl y)"
  using reachable_inv by (simp add: system_inv_def)

lemma reachable_keyed: "reachable y \<Longrightarrow> state_keyed (sys_impl y)"
  by (rule filed_but_keyed [OF reachable_filed])

lemma reachable_refs: "reachable y \<Longrightarrow> refs_ok (sys_impl y)"
  using reachable_inv by (simp add: system_inv_def)

lemma run_evolves: "reachable y \<Longrightarrow> leads_to y z \<Longrightarrow> evolves (sys_impl y) (sys_impl z)"
  using scheduling.run_grows [OF reachable_inv] by (simp add: system_le_def)

lemma run_reachable:
  assumes "reachable y" and "leads_to y z"
  shows "reachable z"
  using assms(2,1) by (induction rule: rtranclp_induct) (auto intro: reach_step)

end
