(* ===== verification/Scenario.thy ===== *)
theory Scenario
  imports Interleaving
begin

section \<open>A concrete run\<close>

text \<open>
  A short run of a concrete scheduler, used as the input of the witnesses: a started
  scheduler, one agent with current evidence, one exclusive work item, and its assignment.
  The identifiers of the assignment are digests; they stay symbolic, nothing below depends
  on their value.
\<close>

definition demo_options :: SchedulerOptions where
  "demo_options = \<lparr> so_scheduler_id = 7, so_limits = default_limits, so_policy = default_policy,
     so_feasibility = None, so_auto_start = True \<rparr>"

definition demo_boot :: Hash128 where
  "demo_boot = Hash128 1 2"

definition demo_descriptor :: AgentDescriptor where
  "demo_descriptor = default_descriptor\<lparr>ad_id := 5, ad_generation := 1, ad_boot := demo_boot,
     ad_registration_generation := 1, ad_max_concurrency := 2\<rparr>"

definition demo_profile :: CapabilityProfile where
  "demo_profile = \<lparr> cp_profile_id = 1, cp_generation = 1, cp_boot = demo_boot, cp_capabilities = [] \<rparr>"

definition demo_health :: HealthObservation where
  "demo_health = \<lparr> ho_generation = 1, ho_health = AgentHealth.Healthy, ho_health_quality = 900,
     ho_detail = [], ho_observed_at_ms = 0 \<rparr>"

definition demo_availability :: AvailabilityObservation where
  "demo_availability = \<lparr> ao_generation = 1, ao_availability = AgentAvailability.Available,
     ao_reachability = AgentReachability.Reachable, ao_readiness = AgentReadiness.Ready,
     ao_observed_at_ms = 0 \<rparr>"

definition demo_request :: WorkRequest where
  "demo_request = default_work_request\<lparr>wq_id := 9, wq_generation := 1, wq_queue := 3,
     wq_queue_generation := 1, wq_kind := ''k''\<rparr>"

definition demo0 :: Impl where
  "demo0 = fst (start (make_impl demo_options 0 0 1000))"

definition demo1 :: Impl where
  "demo1 = fst (register_commit demo_descriptor demo0)"

definition demo2 :: Impl where
  "demo2 = fst (publish_capabilities 5 demo_boot demo_profile demo1)"

definition demo3 :: Impl where
  "demo3 = fst (publish_health 5 demo_boot demo_health demo2)"

definition demo4 :: Impl where
  "demo4 = fst (publish_availability 5 demo_boot demo_availability demo3)"

definition demo5 :: Impl where
  "demo5 = fst (submit_commit demo_request demo4)"

lemma demo_limits_valid: "validate_limits default_limits = None"
  by code_simp

lemma demo_policy_valid: "validate_policy (impl_policy_defaults default_policy) default_limits = None"
  by code_simp

lemma demo_created: "make_scheduler demo_options 0 0 1000 = Some demo0"
  using demo_limits_valid demo_policy_valid
  by (simp add: make_scheduler_def Let_def demo0_def demo_options_def make_impl_def)

lemma demo0_sel:
  "im_now demo0 = 1000" "im_agents demo0 = []" "im_work demo0 = []" "im_assignments demo0 = []"
  "im_running demo0" "im_admission_open demo0" "im_limits demo0 = default_limits"
  "im_policy demo0 = impl_policy_defaults default_policy" "im_feasibility demo0 = None"
  "im_fenced_boots demo0 = []" "im_queues demo0 = []" "im_tenants demo0 = []"
  "im_by_work demo0 = []" "im_by_agent demo0 = []" "im_leases demo0 = []"
  "im_scheduler_epoch demo0 = 1" "\<not> im_shutting_down demo0"
  by (simp_all add: demo0_def start_def make_impl_def demo_options_def bump_revision_def)

lemma demo_policy_sel:
  "registration_lease_ttl_ms (im_policy demo0) = 300000"
  "capability_staleness_ms (im_policy demo0) = 60000"
  "health_staleness_ms (im_policy demo0) = 60000"
  "availability_staleness_ms (im_policy demo0) = 60000"
  "close_dispatch_authority_on_shutdown (im_policy demo0)"
  by (simp_all add: demo0_sel impl_policy_defaults_def default_policy_def Let_def)

lemma demo_limits_sel:
  "max_agents default_limits \<noteq> 0" "max_work_items default_limits \<noteq> 0"
  "max_queues default_limits \<noteq> 0"
  by (simp_all add: default_limits_def)

lemma demo_descriptor_sel [simp]:
  "ad_id demo_descriptor = 5" "ad_generation demo_descriptor = 1" "ad_boot demo_descriptor = demo_boot"
  "ad_max_concurrency demo_descriptor = 2"
  "ad_policy_labels demo_descriptor = []"
  by (simp_all add: demo_descriptor_def default_descriptor_def)

lemma demo_boot_sel [simp]: "demo_boot \<noteq> hash128_zero" "hash128_is_zero demo_boot = False"
  by (simp_all add: demo_boot_def hash128_zero_def hash128_is_zero_def)

lemma demo_descriptor_valid: "validate_descriptor demo_descriptor default_limits = None"
  by code_simp

lemma demo1_eq: "demo1 = register_new demo_descriptor demo0"
  by (simp add: demo1_def register_commit_def demo0_sel demo_limits_sel unat_eq_zero Let_def)

lemma demo1_sel:
  "im_agents demo1 = [(5, fresh_agent demo_descriptor ''registered'' demo0)]"
  "im_now demo1 = 1000" "im_work demo1 = []" "im_assignments demo1 = []"
  "im_running demo1" "im_admission_open demo1" "im_limits demo1 = default_limits"
  "im_policy demo1 = im_policy demo0" "im_feasibility demo1 = None"
  "im_fenced_boots demo1 = []" "im_queues demo1 = []" "im_tenants demo1 = []"
  "im_by_work demo1 = []" "im_by_agent demo1 = []" "im_leases demo1 = []"
  "im_scheduler_epoch demo1 = 1" "\<not> im_shutting_down demo1"
  by (simp_all add: demo1_eq register_new_def Let_def demo0_sel om_emplace_def)

lemma demo_profile_canonical:
  "canonicalize_profile demo_profile default_limits = Inr demo_profile"
  by code_simp

definition demo_agent1 :: AgentRecord where
  "demo_agent1 = default_agent_record\<lparr>ag_descriptor := demo_descriptor,
     ag_lifecycle := AgentLifecycle.Registering, ag_registered_at_ms := 1000,
     ag_lease_expires_at_ms := 301000, ag_last_heartbeat_ms := 1000, ag_reason := ''registered''\<rparr>"

definition demo_agent2 :: AgentRecord where
  "demo_agent2 = demo_agent1\<lparr>ag_profile := demo_profile, ag_capability_current := True\<rparr>"

definition demo_agent3 :: AgentRecord where
  "demo_agent3 = demo_agent2\<lparr>ag_health_generation := 1,
     ag_health_observation := demo_health\<lparr>ho_observed_at_ms := 1000\<rparr>,
     ag_health := AgentHealth.Healthy, ag_health_current := True\<rparr>"

definition demo_agent4 :: AgentRecord where
  "demo_agent4 = demo_agent3\<lparr>ag_availability_generation := 1,
     ag_availability_observation := demo_availability\<lparr>ao_observed_at_ms := 1000\<rparr>,
     ag_availability := AgentAvailability.Available, ag_readiness := AgentReadiness.Ready,
     ag_reachability := AgentReachability.Reachable, ag_availability_current := True,
     ag_lifecycle := AgentLifecycle.Ready\<rparr>"

lemma demo_agent1_fresh: "fresh_agent demo_descriptor ''registered'' demo0 = demo_agent1"
proof -
  have "canonical_descriptor demo_descriptor = demo_descriptor"
    by (simp add: canonical_descriptor_def canonicalize_strings_def)
  moreover have "effective_lease_ttl demo0 demo_descriptor = 300000"
    by (simp add: effective_lease_ttl_def demo_policy_sel demo_descriptor_def default_descriptor_def)
  ultimately show ?thesis
    by (simp add: fresh_agent_def demo_agent1_def recompute_lifecycle_def default_agent_record_def
        demo0_sel)
qed

text \<open>The fields every stage keeps.\<close>

definition demo_stage :: "Impl \<Rightarrow> AgentRecord \<Rightarrow> bool" where
  "demo_stage s r \<longleftrightarrow> im_agents s = [(5, r)] \<and> im_now s = 1000 \<and> im_work s = []
     \<and> im_assignments s = [] \<and> im_running s \<and> im_admission_open s
     \<and> im_limits s = default_limits \<and> im_policy s = im_policy demo0
     \<and> im_feasibility s = None \<and> im_fenced_boots s = [] \<and> im_queues s = [] \<and> im_tenants s = []
     \<and> im_by_work s = [] \<and> im_by_agent s = [] \<and> im_leases s = []
     \<and> im_scheduler_epoch s = 1 \<and> \<not> im_shutting_down s"

lemma demo_stage1: "demo_stage demo1 demo_agent1"
  using demo_agent1_fresh by (simp add: demo_stage_def demo1_sel)

lemma demo_not_stale: "demo_stage s r \<Longrightarrow> ag_descriptor r = demo_descriptor \<Longrightarrow> \<not> stale_boot s r demo_boot"
  by (simp add: stale_boot_def demo_stage_def boot_is_fenced_def)

lemma demo_stage_refresh:
  assumes "demo_stage s r" and "ad_id (ag_descriptor r) = 5"
  shows "demo_stage (refresh_agent 5 s) (recompute_lifecycle (r\<lparr>ag_active_assignments := 0\<rparr>))"
  using assms
  by (simp add: demo_stage_def refresh_agent_def Let_def refresh_agent_accounting_def
      active_assignment_count_def om_adjust_def)

lemma demo_stage_adjust:
  assumes "demo_stage s r"
  shows "demo_stage (adjust_agent 5 f s) (f r)"
  using assms by (simp add: demo_stage_def adjust_agent_def om_adjust_def)

lemma demo_stage_bump: "demo_stage s r \<Longrightarrow> demo_stage (bump_revision s) r"
  by (simp add: demo_stage_def)

lemma demo_stage_deindex: "demo_stage s r \<Longrightarrow> demo_stage (deindex_agent 5 s) r"
  by (simp add: demo_stage_def)

lemma demo_stage_index: "demo_stage s r \<Longrightarrow> demo_stage (index_agent x s) r"
  by (simp add: demo_stage_def)

lemma demo_stage_accounting:
  assumes "demo_stage s r" and "ad_id (ag_descriptor r) = 5"
  shows "demo_stage (refresh_agent_accounting 5 s)
    (recompute_lifecycle (r\<lparr>ag_active_assignments := 0\<rparr>))"
  using assms
  by (simp add: demo_stage_def refresh_agent_accounting_def active_assignment_count_def om_adjust_def
      Let_def)

lemma demo_stage_get: "demo_stage s r \<Longrightarrow> om_get (im_agents s) 5 = Some r"
  by (simp add: demo_stage_def)

lemma demo_agent_sel [simp]:
  "ag_descriptor demo_agent1 = demo_descriptor" "ag_descriptor demo_agent2 = demo_descriptor"
  "ag_descriptor demo_agent3 = demo_descriptor" "ag_descriptor demo_agent4 = demo_descriptor"
  by (simp_all add: demo_agent1_def demo_agent2_def demo_agent3_def demo_agent4_def)

lemma demo_stage2: "demo_stage demo2 demo_agent2"
proof -
  let ?f = "\<lambda>r. r\<lparr>ag_profile := demo_profile, ag_capability_current := True, ag_recovered := False\<rparr>"
  have "demo2 = apply_capabilities 5 demo_profile demo1"
    using demo_stage1 demo_not_stale [OF demo_stage1]
    by (simp add: demo2_def publish_capabilities_def demo_profile_canonical demo_stage_def
        with_incarnation_def Let_def)
      (simp add: demo_profile_def demo_agent1_def default_agent_record_def default_profile_def)
  also have "demo_stage \<dots> (recompute_lifecycle ((?f demo_agent1)\<lparr>ag_active_assignments := 0\<rparr>))"
  proof -
    define u where "u = adjust_agent 5 ?f (deindex_agent 5 demo1)"
    have 1: "demo_stage u (?f demo_agent1)"
      unfolding u_def by (intro demo_stage_adjust demo_stage_deindex demo_stage1)
    then have none: "im_assignments u = []" by (simp add: demo_stage_def)
    have "apply_capabilities 5 demo_profile demo1 = bump_revision
        (case om_get (im_agents (refresh_agent_accounting 5 u)) 5
         of None \<Rightarrow> refresh_agent_accounting 5 u
          | Some r \<Rightarrow> index_agent r (refresh_agent_accounting 5 u))"
      unfolding apply_capabilities_def Let_def u_def [symmetric] none om_keys_def list.map fold_simps
      by (rule refl)
    then show ?thesis
      using demo_stage_accounting [OF 1] by (simp add: demo_stage_get demo_stage_bump demo_stage_index)
  qed
  also have "recompute_lifecycle ((?f demo_agent1)\<lparr>ag_active_assignments := 0\<rparr>) = demo_agent2"
    by (simp add: recompute_lifecycle_def demo_agent2_def demo_agent1_def default_agent_record_def)
  finally show ?thesis .
qed

lemma demo_stage_published:
  assumes "demo_stage s r" and "ad_id (ag_descriptor (f r)) = 5"
  shows "demo_stage (bump_revision (refresh_agent 5 (adjust_agent 5 f s)))
    (recompute_lifecycle ((f r)\<lparr>ag_active_assignments := 0\<rparr>))"
  using assms by (intro demo_stage_bump demo_stage_refresh demo_stage_adjust)

lemma demo_observations_valid:
  "validate_health demo_health default_limits = None"
  "validate_availability demo_availability default_limits = None"
  by code_simp+

lemma demo_stage3: "demo_stage demo3 demo_agent3"
proof -
  let ?f = "\<lambda>r. r\<lparr>ag_health_generation := 1,
    ag_health_observation := demo_health\<lparr>ho_observed_at_ms := 1000\<rparr>,
    ag_health := AgentHealth.Healthy, ag_health_current := True, ag_recovered := False\<rparr>"
  have now: "im_limits demo2 = default_limits" "im_now demo2 = 1000"
    using demo_stage2 by (simp_all add: demo_stage_def)
  have "demo3 = bump_revision (refresh_agent 5 (adjust_agent 5 ?f demo2))"
    using demo_not_stale [OF demo_stage2] demo_observations_valid
    by (simp add: demo3_def publish_health_def with_incarnation_def Let_def
        demo_stage_get [OF demo_stage2] now observation_problem_def observed_time_def
        demo_health_def demo_agent2_def demo_agent1_def default_agent_record_def)
  moreover have "recompute_lifecycle ((?f demo_agent2)\<lparr>ag_active_assignments := 0\<rparr>) = demo_agent3"
    by (simp add: recompute_lifecycle_def demo_agent3_def demo_agent2_def demo_agent1_def
        default_agent_record_def)
  ultimately show ?thesis using demo_stage_published [OF demo_stage2, of ?f] by simp
qed

lemma demo_stage4: "demo_stage demo4 demo_agent4"
proof -
  let ?f = "\<lambda>r. r\<lparr>ag_availability_generation := 1,
    ag_availability_observation := demo_availability\<lparr>ao_observed_at_ms := 1000\<rparr>,
    ag_availability := AgentAvailability.Available, ag_readiness := AgentReadiness.Ready,
    ag_reachability := AgentReachability.Reachable, ag_availability_current := True,
    ag_recovered := False\<rparr>"
  have now: "im_limits demo3 = default_limits" "im_now demo3 = 1000"
    using demo_stage3 by (simp_all add: demo_stage_def)
  have "demo4 = bump_revision (refresh_agent 5 (adjust_agent 5 ?f demo3))"
    using demo_not_stale [OF demo_stage3] demo_observations_valid
    by (simp add: demo4_def publish_availability_def with_incarnation_def Let_def
        demo_stage_get [OF demo_stage3] now observation_problem_def observed_time_def
        demo_availability_def demo_agent3_def demo_agent2_def demo_agent1_def default_agent_record_def)
  moreover have "recompute_lifecycle ((?f demo_agent3)\<lparr>ag_active_assignments := 0\<rparr>) = demo_agent4"
    by (simp add: recompute_lifecycle_def demo_agent4_def demo_agent3_def demo_agent2_def
        demo_agent1_def default_agent_record_def)
  ultimately show ?thesis using demo_stage_published [OF demo_stage3, of ?f] by simp
qed

text \<open>Admission of the work item.\<close>

definition demo_work :: WorkRecord where
  "demo_work = default_work_record\<lparr>wr_request := demo_request,
     wr_lifecycle := WorkLifecycle.Admitted, wr_admitted_sequence := im_next_admission_sequence demo4,
     wr_admitted_at_ms := 1000, wr_reason := ''admitted''\<rparr>"

lemma demo_request_sel [simp]:
  "wq_id demo_request = 9" "wq_generation demo_request = 1" "wq_queue demo_request = 3"
  "wq_queue_generation demo_request = 1" "wq_mode demo_request = SchedulingMode.Exclusive"
  "wq_requirements demo_request = default_requirements" "wq_earliest_start_ms demo_request = 0"
  by (simp_all add: demo_request_def default_work_request_def)

lemma demo_request_valid: "validate_work demo_request default_limits = None"
  by code_simp

lemma demo5_sel:
  "im_work demo5 = [(9, demo_work)]" "im_agents demo5 = [(5, demo_agent4)]" "im_now demo5 = 1000"
  "im_assignments demo5 = []" "im_by_work demo5 = []" "im_by_agent demo5 = []"
  "im_fenced_boots demo5 = []" "im_policy demo5 = im_policy demo0" "im_feasibility demo5 = None"
  "im_running demo5" "im_admission_open demo5" "\<not> im_shutting_down demo5"
  using demo_stage4
  by (simp_all add: demo5_def submit_commit_def demo_stage_def Let_def demo_limits_sel unat_eq_zero
      ensure_both_def ensure_queue_def ensure_tenant_def default_requirements_def
      count_admitted_def om_emplace_def demo_work_def)

definition demo_binding :: AssignmentBinding where
  "demo_binding = build_binding demo5 demo_work demo_agent4 1 0"

lemma demo_work_sel [simp]:
  "wr_request demo_work = demo_request" "wr_lifecycle demo_work = WorkLifecycle.Admitted"
  "wr_current_assignments demo_work = 0" "wr_last_assignment_generation demo_work = 0"
  by (simp_all add: demo_work_def default_work_record_def)

lemma demo_agent4_sel [simp]:
  "ag_lifecycle demo_agent4 = AgentLifecycle.Ready" "ag_active_assignments demo_agent4 = 0"
  "ag_profile demo_agent4 = demo_profile" "ag_capability_current demo_agent4"
  by (simp_all add: demo_agent4_def demo_agent3_def demo_agent2_def demo_agent1_def
      default_agent_record_def)

lemma demo_no_claims:
  "active_exclusive_assignment demo5 9 = None" "active_assignments_on_agent demo5 9 a = 0"
  by (simp_all add: active_exclusive_assignment_def active_assignments_on_agent_def demo5_sel)

lemma demo_eligible: "hard_eligible demo5 demo_work demo_agent4 (evaluate_feasibility demo5 demo_work)"
  by (simp add: hard_eligible_def Let_def demo5_sel boot_is_fenced_def default_requirements_def
      healthy_enough_def within_capacity_def placed_as_required_def demo_no_claims
      availability_fresh_def health_fresh_def lease_current_def observed_within_def demo_policy_sel
      feasibility_met_def)
    (simp add: demo_agent4_def demo_agent3_def demo_agent2_def demo_agent1_def
      default_agent_record_def demo_health_def demo_availability_def)

lemma demo_plan: "pl_binding (schedule_plan demo5 9 1) = Some demo_binding"
proof -
  have "plan_problem demo5 demo_work = None"
    by (simp add: plan_problem_def Let_def demo5_sel default_requirements_def demo_no_claims
        work_accepts_assignment_def)
  then have "pl_binding (plan_locked demo5 demo_work) = Some demo_binding"
    using demo_eligible plan_sole_candidate [of demo5 5 demo_agent4 demo_work]
    by (simp add: demo5_sel demo_binding_def)
  then show ?thesis
    by (simp add: schedule_plan_def Let_def demo5_sel)
qed

lemma demo_binding_sel [simp]:
  "bn_work demo_binding = 9" "bn_work_generation demo_binding = 1" "bn_agent demo_binding = 5"
  "bn_agent_generation demo_binding = 1" "bn_boot demo_binding = demo_boot"
  "bn_exclusive demo_binding" "bn_generation demo_binding = 1"
  "bn_policy_generation demo_binding = po_generation (im_policy demo5)"
  "bn_capability_profile demo_binding = 1" "bn_capability_generation demo_binding = 1"
  "bn_scheduler demo_binding = im_scheduler_id demo5"
  "bn_scheduler_epoch demo_binding = im_scheduler_epoch demo5"
  "bn_coordinator_epoch demo_binding = im_coordinator_epoch demo5"
  "bn_policy demo_binding = po_id (im_policy demo5)"
  by (simp_all add: demo_binding_def) (simp_all add: build_binding_def Let_def demo_profile_def)

lemma demo_commit_ok: "commit_problem demo5 9 1 demo_binding = None"
proof -
  have "commit_agent_problem demo5 9 demo_binding demo_work demo_agent4 = None"
    by (simp add: default_requirements_def demo5_sel
        demo_no_claims commit_agent_problem_None boot_is_fenced_def capability_fresh_def
        feasibility_met_def demo_profile_def)
  then show ?thesis
    by (simp add: commit_problem_def demo5_sel commit_work_problem_def Let_def
        default_requirements_def demo_no_claims)
qed

definition demo6 :: Impl where
  "demo6 = commit_apply 9 demo_binding demo5"

definition demo_decision :: ScheduleDecision where
  "demo_decision = pl_decision (schedule_plan demo5 9 1)"

lemma demo_commit: "fst (schedule_commit 9 1 demo_decision demo_binding demo5) = demo6"
  by (simp add: schedule_commit_def commit_locked_def demo_commit_ok demo6_def)

abbreviation demo_key :: Hash128 where
  "demo_key \<equiv> bn_id demo_binding"

lemma demo6_assignment: "om_get (im_assignments demo6) demo_key = Some (new_assignment demo_binding)"
  by (simp add: demo6_def commit_apply_get_assignments demo5_sel)

text \<open>Reachability of the stages.\<close>

definition idle :: "Impl \<Rightarrow> System" where
  "idle s = \<lparr>sys_impl = s, sys_pending = []\<rparr>"

lemma idle_sel [simp]: "sys_impl (idle s) = s" "sys_pending (idle s) = []"
  by (simp_all add: idle_def)

lemma idle_section: "reachable (idle s) \<Longrightarrow> critical_section s t \<Longrightarrow> reachable (idle t)"
  unfolding idle_def by (blast intro: reach_step step_section)

lemma idle_leads: "critical_section s t \<Longrightarrow> leads_to (idle s) (idle t)"
  unfolding idle_def by (blast intro: step_section)

lemma demo_reachable0: "reachable (idle demo0)"
proof (rule reach_initial)
  show "initial_system (idle demo0)"
    unfolding initial_system_def idle_sel using demo_created by blast
qed

lemma demo_sections:
  "critical_section demo0 demo1" "critical_section demo1 demo2" "critical_section demo2 demo3"
  "critical_section demo3 demo4" "critical_section demo4 demo5"
proof -
  have "validate_descriptor demo_descriptor (im_limits demo0) = None"
    using demo_descriptor_valid by (simp add: demo0_sel)
  then show "critical_section demo0 demo1" unfolding demo1_def by (rule sec_register_agent)
  show "critical_section demo1 demo2" unfolding demo2_def by (rule sec_publish_capabilities)
  show "critical_section demo2 demo3" unfolding demo3_def by (rule sec_publish_health)
  show "critical_section demo3 demo4" unfolding demo4_def by (rule sec_publish_availability)
  have "validate_work demo_request (im_limits demo4) = None"
    using demo_request_valid demo_stage4 by (simp add: demo_stage_def)
  then show "critical_section demo4 demo5" unfolding demo5_def by (rule sec_submit)
qed

lemma demo_reachable5: "reachable (idle demo5)"
  using demo_reachable0 demo_sections idle_section by meson

definition demo_planned :: System where
  "demo_planned = \<lparr>sys_impl = demo5, sys_pending = [(9, 1, demo_decision, demo_binding)]\<rparr>"

lemma demo_plan_steps: "sys_step (idle demo5) demo_planned" "sys_step demo_planned (idle demo6)"
proof -
  show "sys_step (idle demo5) demo_planned"
    using step_plan [OF demo_plan, of "[]"]
    by (simp add: idle_def demo_planned_def demo_decision_def)
  show "sys_step demo_planned (idle demo6)"
    using step_commit [of 9 1 demo_decision demo_binding "[(9, 1, demo_decision, demo_binding)]" demo5]
    by (simp add: idle_def demo_planned_def demo_commit)
qed

lemma demo_reachable6: "reachable (idle demo6)"
  using demo_reachable5 demo_plan_steps by (blast intro: reach_step)

lemma demo_run: "leads_to (idle demo5) (idle demo6)"
  using demo_plan_steps by (meson converse_rtranclp_into_rtranclp r_into_rtranclp)

text \<open>The same run continued: shutdown closes the assignment, a restart opens a new epoch.\<close>

lemma demo6_work: "\<exists>r. om_get (im_work demo6) 9 = Some r \<and> wr_request r = demo_request"
proof -
  have "work_req demo6 9 = Some demo_request"
    by (simp add: demo6_def commit_apply_views work_req_def demo5_sel)
  then show ?thesis by (auto simp: work_req_def)
qed

lemma demo6_owned: "demo_key \<in> assignments_of_work demo6 9" "demo_key \<in> assignments_of_agent demo6 5"
  by (simp_all add: active_owned_def demo6_assignment)

definition demo7 :: Impl where
  "demo7 = fst (shutdown demo6)"

definition demo8 :: Impl where
  "demo8 = fst (start demo7)"

lemma demo_shutdown: "critical_section demo6 demo7"
  unfolding demo7_def by (rule sec_shutdown)

lemma demo_restart: "critical_section demo7 demo8"
  unfolding demo8_def by (rule sec_start)

lemma demo_reachable7: "reachable (idle demo7)"
  by (rule idle_section [OF demo_reachable6 demo_shutdown])

lemma demo6_sel: "\<not> im_shutting_down demo6" "im_policy demo6 = im_policy demo0"
proof -
  obtain t where eq: "demo6 = count_assigned (bn_queue demo_binding) t
      (refresh_agent_accounting (bn_agent demo_binding)
        (refresh_work_accounting 9 (commit_indexed 9 demo_binding demo5)))"
    using commit_apply_split unfolding demo6_def by blast
  show "\<not> im_shutting_down demo6"
    unfolding eq by (simp add: count_assigned_def commit_indexed_def Let_def insert_assignment_def demo5_sel)
  show "im_policy demo6 = im_policy demo0"
    by (simp add: demo6_def commit_apply_views demo5_sel)
qed

lemma demo7_assignment:
  "\<exists>r. om_get (im_assignments demo7) demo_key = Some r \<and> ar_state r = AssignmentState.Invalidated"
  by (simp add: demo7_def shutdown_def demo6_sel Let_def demo_policy_sel close_where_get
      demo6_assignment close_effect_def)

text \<open>A branch of the run: the agent is declared lost before the plan commits.\<close>

definition demo_lost :: Impl where
  "demo_lost = lost_commit 5 demo_boot ''gone'' demo5"

lemma demo_loss: "critical_section demo5 demo_lost"
  unfolding demo_lost_def by (rule sec_lost)

lemma demo_lost_fenced: "boot_is_fenced demo_lost demo_boot"
  by (simp add: demo_lost_def lost_commit_def demo5_sel Let_def end_incarnation_def
      refresh_agent_def close_all_active_def fence_boot_def boot_is_fenced_def split: option.split)

lemma demo_reachable_lost: "reachable (idle demo_lost)"
  by (rule idle_section [OF demo_reachable5 demo_loss])

end
