(* ===== verification/Planning_Properties.thy ===== *)
theory Planning_Properties
  imports Scenario
begin

section \<open>Properties of eligibility, ranking and planning\<close>

text \<open>
  What the scheduler selects: the eligibility chain against its specification, the score
  against the weighted mean it should be, and the plan against the set of eligible agents.
\<close>

text \<open>The mean the score should be: known contributions over all weights.\<close>

definition weighted_mean :: "FactorScore list \<Rightarrow> int" where
  "weighted_mean fs =
     (let total_weight = \<Sum>x \<leftarrow> fs. uint (fs_weight x)
      in if total_weight = 0 then 0 else (\<Sum>x \<leftarrow> fs. factor_contribution x) div total_weight)"

lemma om_get_nth:
  assumes "om_ok m" and "i < length m"
  shows "om_get m (fst (m ! i)) = Some (snd (m ! i))"
  using om_ok_distinct [OF assms(1)] assms(2) by (simp add: om_keys_def)

lemma demo_plan_free: "plan_problem demo5 demo_work = None"
  by (simp add: plan_problem_def Let_def demo5_sel default_requirements_def demo_no_claims
      work_accepts_assignment_def)

lemma demo_agents_ok: "om_ok (im_agents demo5)" "agents_named demo5"
  by (simp_all add: demo5_sel om_ok_def om_keys_def agents_named_def)

lemma demo_plan_locked: "pl_binding (plan_locked demo5 demo_work) = Some demo_binding"
  using demo_eligible plan_sole_candidate [of demo5 5 demo_agent4 demo_work] demo_plan_free
  by (simp add: demo5_sel demo_binding_def)

text \<open>C11: The chain of eligibility checks accepts an agent exactly when the agent satisfies
  every hard requirement of the work item, independently of the order of the checks.\<close>

theorem eligibility_is_hard_eligible:
  "cv_eligible (evaluate_eligibility impl w a f) \<longleftrightarrow> hard_eligible impl w a f"
  by (rule evaluate_eligibility_eligible)

text \<open>C12: A plan yields a binding exactly when nothing stops the work item and some registered
  agent satisfies every hard requirement: no eligible agent is overlooked.\<close>

theorem plan_finds_every_eligible_agent:
  assumes "om_ok (im_agents impl)"
    and "agents_named impl"
  shows "pl_binding (plan_locked impl w) \<noteq> None \<longleftrightarrow> plan_problem impl w = None
    \<and> (\<exists>k r. om_get (im_agents impl) k = Some r
          \<and> hard_eligible impl w r (evaluate_feasibility impl w))"
  using assms by (intro plan_complete) (auto simp: agents_named_def)

theorem plan_finds_every_eligible_agent_witness:
  "pl_binding (plan_locked demo5 demo_work) \<noteq> None"
  using plan_finds_every_eligible_agent [OF demo_agents_ok, of demo_work] demo_eligible
    demo_plan_free by (auto simp: demo5_sel)

text \<open>C13: The selected agent is the registered agent the binding names, it satisfies every hard
  requirement, and no other eligible agent is a better candidate by score, evidence coverage
  and lowest id.\<close>

theorem selected_agent_is_best:
  assumes "om_ok (im_agents impl)"
    and named: "agents_named impl"
    and plan: "pl_binding (plan_locked impl w) = Some b"
  shows "\<exists>a. om_get (im_agents impl) (bn_agent b) = Some a
    \<and> bn_agent_generation b = ad_generation (ag_descriptor a) \<and> bn_boot b = ad_boot (ag_descriptor a)
    \<and> hard_eligible impl w a (evaluate_feasibility impl w)
    \<and> (\<forall>k r. om_get (im_agents impl) k = Some r \<and> hard_eligible impl w r (evaluate_feasibility impl w)
         \<longrightarrow> \<not> candidate_better (evaluate_candidate impl w (evaluate_feasibility impl w) r)
                (evaluate_candidate impl w (evaluate_feasibility impl w) a))"
proof -
  let ?cs = "plan_candidates impl w" and ?f = "evaluate_feasibility impl w"
  obtain i a where ne: "rank_indices ?cs \<noteq> []" and i: "i = hd (rank_indices ?cs)"
    and a: "om_get (im_agents impl) (cv_agent (?cs ! i)) = Some a"
    and b: "bn_agent b = ad_id (ag_descriptor a)" "bn_agent_generation b = ad_generation (ag_descriptor a)"
      "bn_boot b = ad_boot (ag_descriptor a)"
    using plan_binding_cases [OF plan] by (metis build_binding_sel(3-5))
  obtain js where order: "rank_indices ?cs = i # js" using ne i by (cases "rank_indices ?cs") simp_all
  then have len: "i < length (im_agents impl)" and el: "cv_eligible (?cs ! i)"
    using set_rank_indices [of ?cs] by auto
  obtain k r where kr: "im_agents impl ! i = (k, r)" by force
  have entry: "om_get (im_agents impl) k = Some r"
    using om_get_nth [OF assms(1) len] kr by simp
  then have same: "r = a" "bn_agent b = k"
    using a b named [unfolded agents_named_def] plan_candidate_nth(1) [OF len, of w] kr by simp_all
  have cand: "?cs ! j = evaluate_candidate impl w ?f (snd (im_agents impl ! j))"
    if "j < length (im_agents impl)" for j
    using that by (simp add: plan_candidates_def)
  have best: "\<not> candidate_better (evaluate_candidate impl w ?f x) (evaluate_candidate impl w ?f a)"
    if "om_get (im_agents impl) m = Some x" "hard_eligible impl w x ?f" for m x
  proof -
    have "(m, x) \<in> set (im_agents impl)" using that(1) by (rule map_of_SomeD)
    then obtain j where j: "j < length (im_agents impl)" "im_agents impl ! j = (m, x)"
      unfolding in_set_conv_nth by blast
    then have "cv_eligible (?cs ! j)" using that(2) plan_candidate_nth(2) [OF j(1), of w] by simp
    then show ?thesis
      using rank_indices_head [OF order, of j] j cand len kr same(1) by simp
  qed
  have hard: "hard_eligible impl w a ?f"
    using el plan_candidate_nth(2) [OF len, of w] kr same(1) by simp
  show ?thesis
  proof (intro exI [of _ a] conjI allI impI)
    show "om_get (im_agents impl) (bn_agent b) = Some a" using entry same by simp
  qed (use b(2,3) hard best in blast)+
qed

theorem selected_agent_is_best_witness:
  "hard_eligible demo5 demo_work demo_agent4 (evaluate_feasibility demo5 demo_work)
   \<and> bn_agent demo_binding = 5"
  using selected_agent_is_best [OF demo_agents_ok demo_plan_locked] by (simp add: demo5_sel)

text \<open>C14: The score of a candidate is the weighted mean of its factors, where a factor without
  known evidence counts as zero at full weight, so missing evidence never raises a score; it
  lies between 0 and 1000.\<close>

theorem score_is_weighted_mean:
  "cv_score (evaluate_candidate impl w f a) = weighted_mean (cv_factors (evaluate_candidate impl w f a))
   \<and> 0 \<le> cv_score (evaluate_candidate impl w f a) \<and> cv_score (evaluate_candidate impl w f a) \<le> 1000"
proof (cases "hard_eligible impl w a f")
  case False
  then have "cv_score (evaluate_candidate impl w f a) = 0" "cv_factors (evaluate_candidate impl w f a) = []"
    by (auto simp: evaluate_candidate_def Let_def evaluate_eligibility_eligible)
      (auto simp: evaluate_eligibility_def Let_def eligibility_problem_None [symmetric])
  then show ?thesis by (simp add: weighted_mean_def)
next
  case True
  let ?fs = "candidate_factors impl w a f (cv_available_capacity (evaluate_eligibility impl w a f))"
  have ev: "evaluate_candidate impl w f a = score_candidate impl w a f (evaluate_eligibility impl w a f)"
    using True by (simp add: evaluate_candidate_def Let_def evaluate_eligibility_eligible)
  have "cv_factors (evaluate_candidate impl w f a) = ?fs"
    and score: "cv_score (evaluate_candidate impl w f a) = weighted_mean ?fs"
    by (simp_all add: ev score_candidate_def accumulate_factors_eq Let_def weighted_mean_def)
  moreover have "0 \<le> weighted_mean ?fs \<and> weighted_mean ?fs \<le> 1000"
    using weighted_score_range [OF candidate_factors_normal]
    by (simp add: accumulate_factors_eq Let_def weighted_mean_def)
  ultimately show ?thesis by simp
qed

text \<open>The ranking of a plan is a permutation of the eligible candidates, best first: no
  candidate is followed by a better one.\<close>

theorem ranking_sorted_permutation:
  "distinct (rank_indices cs) \<and> set (rank_indices cs) = {i. i < length cs \<and> cv_eligible (cs ! i)}
   \<and> sorted_wrt (\<lambda>l r. \<not> candidate_better (cs ! r) (cs ! l)) (rank_indices cs)"
  using distinct_rank_indices set_rank_indices rank_indices_sorted by blast

end
