(* ===== verification/Fairness_Properties.thy ===== *)
theory Fairness_Properties
  imports Scenario
begin

section \<open>Fairness, starvation bounds and batches\<close>














lemma class_weight_nonzero:
  assumes "first_reject (class_weight_problem l) ws = None"
  shows "class_weight_in ws c \<noteq> 0"
proof -
  have "\<forall>x \<in> set ws. qw_weight x \<noteq> 0"
    using assms unfolding first_reject_None class_weight_problem_def first_some_Cons_None guard_None
    by blast
  then show ?thesis by (induction ws) auto
qed

lemma unat_ucast_u64 [simp]: "unat (ucast (x :: u32) :: u64) = unat x"
  using unat_u32_bound [of x] by (simp add: unsigned_ucast_eq take_bit_nat_eq_self)

lemma bounded_ceiling:
  assumes "M \<noteq> 0" and "w \<noteq> 0"
  shows "let c = ucast (M :: u32) div (ucast (w :: u32) :: u64);
    r = (if c < 1 then 1 else if c > 0xFFFFFFFF then 0xFFFFFFFF else ucast c) in 1 \<le> r \<and> r \<le> M"
proof -
  let ?c = "ucast M div (ucast w :: u64)"
  have c: "unat ?c = unat M div unat w" by (simp add: unat_div_distrib)
  have le: "unat ?c \<le> unat M" unfolding c by (rule div_le_dividend)
  then have small: "unat ?c < 2 ^ 32" using unat_u32_bound [of M] by simp
  then have "\<not> ?c > 0xFFFFFFFF" by (simp add: word_less_nat_alt)
  moreover have "1 \<le> M" using assms(1) by (simp add: word_one_le_iff)
  moreover have "1 \<le> (ucast ?c :: u32) \<and> (ucast ?c :: u32) \<le> M" if "\<not> ?c < 1"
  proof -
    have u: "unat (ucast ?c :: u32) = unat ?c"
      using small by (simp add: unsigned_ucast_eq take_bit_nat_eq_self)
    have "1 \<le> unat ?c" using that by (simp add: word_less_nat_alt)
    then show ?thesis using u le by (simp add: word_le_nat_alt)
  qed
  ultimately show ?thesis by (simp add: Let_def)
qed

text \<open>Under a valid policy with bounded starvation, every fairness class has a bypass
  ceiling of at least one and at most max_priority_bypass; an unbounded policy has the
  largest value.\<close>

theorem bypass_ceiling_bounds:
  assumes "validate_policy p l = None"
  shows "if allow_unbounded_starvation p then bypass_ceiling p c = 0xFFFFFFFF
    else 1 \<le> bypass_ceiling p c \<and> bypass_ceiling p c \<le> max_priority_bypass p"
proof -
  have valid: "max_priority_bypass p = 0 \<longrightarrow> allow_unbounded_starvation p"
    "first_reject (class_weight_problem l) (fairness_class_weights p) = None"
    using assms unfolding validate_policy_def Let_def first_some_Cons_None guard_None by blast+
  have w: "fairness_class_weight p c \<noteq> 0"
    using class_weight_nonzero [OF valid(2)] by (simp add: fairness_class_weight_def)
  have "(ucast (fairness_class_weight p c) :: u64) \<noteq> 0"
    using w unat_ucast_u64 [of "fairness_class_weight p c"] by (metis unat_eq_zero)
  then show ?thesis
    using bounded_ceiling [of "max_priority_bypass p" "fairness_class_weight p c"] valid(1) w
    by (auto simp: bypass_ceiling_def Let_def)
qed

theorem bypass_ceiling_bounds_witness:
  "1 \<le> bypass_ceiling (impl_policy_defaults default_policy) ''batch''"
  using bypass_ceiling_bounds [OF demo_policy_valid, of "''batch''"]
  by (simp add: impl_policy_defaults_def default_policy_def Let_def)

text \<open>The budget and the counters of a batch.\<close>

definition within_budget :: "ScheduleRequest \<Rightarrow> BatchState \<Rightarrow> bool" where
  "within_budget request st \<longleftrightarrow> bs_assigned st \<le> unat (sr_max_assignments request)
     \<and> bd_assigned (bs_batch st) = bs_assigned st"

lemma batch_entry_budget:
  "within_budget request st \<Longrightarrow> within_budget request (batch_entry request pass w st)"
  by (auto simp: within_budget_def batch_entry_def Let_def push_decision_def on_first_pass_def not_le
      split: option.split sum.splits)

lemma batch_fold_budget:
  "within_budget request st \<Longrightarrow>
   within_budget request (fold (\<lambda>e. batch_entry request pass (snd e)) es st)"
  by (induction es arbitrary: st) (simp_all add: batch_entry_budget)

lemma batch_passes_budget:
  "within_budget request st \<Longrightarrow> within_budget request (batch_passes request ids left pass st)"
proof (induction left arbitrary: pass st)
  case (Suc left)
  have "within_budget request (fold (\<lambda>e. batch_entry request pass (snd e))
      (batch_ordered pass ids (bs_impl st)) (st\<lparr>bs_progress := False\<rparr>))"
    using Suc.prems by (intro batch_fold_budget) (simp add: within_budget_def)
  then show ?case using Suc by (simp add: Let_def)
qed simp

text \<open>A batch never assigns more work than it was asked for.\<close>

theorem batch_respects_budget:
  "bd_assigned (snd (schedule_batch request s)) \<le> unat (sr_max_assignments request)"
proof -
  have "within_budget request (batch_passes request ids n 0
      \<lparr> bs_impl = s, bs_batch = default_batch, bs_assigned = 0, bs_progress = False \<rparr>)" for ids n
    by (rule batch_passes_budget) (simp add: within_budget_def default_batch_def)
  then show ?thesis
    by (simp add: schedule_batch_def Let_def within_budget_def default_batch_def)
qed

definition same_authority :: "Impl \<Rightarrow> Impl \<Rightarrow> bool" where
  "same_authority s t \<longleftrightarrow> im_assignments t = im_assignments s \<and> im_leases t = im_leases s
     \<and> im_agents t = im_agents s"

lemma dry_entry:
  "sr_dry_run request \<Longrightarrow> same_authority s (bs_impl st) \<Longrightarrow>
   same_authority s (bs_impl (batch_entry request pass w st))"
  by (auto simp: batch_entry_def Let_def same_authority_def split: option.split)

text \<open>A dry run of a batch creates no assignment, no lease and changes no agent.\<close>

theorem dry_run_changes_nothing:
  assumes "sr_dry_run request"
  shows "im_assignments (fst (schedule_batch request s)) = im_assignments s
    \<and> im_leases (fst (schedule_batch request s)) = im_leases s
    \<and> im_agents (fst (schedule_batch request s)) = im_agents s"
proof -
  have "same_authority s (bs_impl (batch_passes request ids n 0
      \<lparr> bs_impl = s, bs_batch = default_batch, bs_assigned = 0, bs_progress = False \<rparr>))" for ids n
    by (rule batch_passes_inv) (simp_all add: same_authority_def dry_entry [unfolded same_authority_def] assms)
  then show ?thesis
    by (simp add: schedule_batch_def Let_def same_authority_def)
qed

definition demo_dry_request :: ScheduleRequest where
  "demo_dry_request = \<lparr> sr_work = [], sr_queues = [], sr_max_assignments = 4, sr_dry_run = True \<rparr>"

theorem dry_run_changes_nothing_witness:
  "im_assignments (fst (schedule_batch demo_dry_request demo5)) = []"
  using dry_run_changes_nothing [of demo_dry_request demo5]
  by (simp add: demo_dry_request_def demo5_sel)

end
