(* ===== verification/Lifecycle_Properties.thy ===== *)
theory Lifecycle_Properties
  imports Scenario
begin

section \<open>What each lifecycle operation guarantees\<close>

text \<open>
  Postconditions of the operations that take authority away: reincarnation, loss, forced
  departure, cancellation, shutdown and lease expiry; and of the observations of a stale
  incarnation.
\<close>

lemma reincarnate_split:
  "reincarnate d existing s = (let t = cleared_incarnation (ad_id d) existing s;
      u = refresh_agent_accounting (ad_id d)
        (t\<lparr>im_agents := om_put (ad_id d) (fresh_agent d ''reincarnated'' s) (im_agents t)\<rparr>)
    in bump_revision (case om_get (im_agents u) (ad_id d) of None \<Rightarrow> u | Some r \<Rightarrow> index_agent r u))"
  by (simp add: reincarnate_def cleared_incarnation_def Let_def)

text \<open>C17: When an agent registers under a higher generation, its previous incarnation is
  permanently fenced, none of the assignments it held stays active, and the record names the
  new incarnation.\<close>

theorem reincarnation_fences_predecessor:
  assumes "reachable y" and "om_get (im_agents (sys_impl y)) (ad_id d) = Some old"
    and "ad_generation (ag_descriptor old) < ad_generation d"
    and "snd (register_commit d (sys_impl y)) = None"
  shows "let t = fst (register_commit d (sys_impl y)) in
    boot_is_fenced t (ad_boot (ag_descriptor old))
    \<and> assignments_of_agent t (ad_id d) = {}
    \<and> (\<exists>r. om_get (im_agents t) (ad_id d) = Some r \<and> ad_boot (ag_descriptor r) = ad_boot d
          \<and> ad_generation (ag_descriptor r) = ad_generation d \<and> \<not> ag_capability_current r)"
proof -
  let ?s = "sys_impl y" and ?a = "ad_id d"
  let ?t = "cleared_incarnation ?a old ?s"
  note inv = reachable_core [OF assms(1)]
  have nz: "ad_boot (ag_descriptor old) \<noteq> hash128_zero"
    using core_inv_boots [OF inv, of ?a "ad_generation (ag_descriptor old)"] assms(2)
    by (simp add: agent_auth_def)
  have res: "fst (register_commit d ?s) = reincarnate d old ?s"
    using assms(2-4) by (auto simp: register_commit_def Let_def split: option.splits)
  have "boot_is_fenced ?t (ad_boot (ag_descriptor old))"
    using nz by (simp add: cleared_incarnation_def Let_def hash128_is_zero_iff fence_boot_def
        boot_is_fenced_def)
  moreover have "im_fenced_boots (reincarnate d old ?s) = im_fenced_boots ?t"
    by (simp add: reincarnate_split Let_def split: option.split)
  moreover have "assignments_of_agent ?t ?a = {}"
    by (rule cleared_incarnation_empties [OF inv assms(2)])
  moreover have "im_assignments (reincarnate d old ?s) = im_assignments ?t"
    by (simp add: reincarnate_split Let_def split: option.split)
  moreover have "\<not> ag_capability_current (fresh_agent d ''reincarnated'' ?s)"
    by (simp add: fresh_agent_def recompute_lifecycle_def default_agent_record_def)
  then have "\<exists>r. om_get (im_agents (reincarnate d old ?s)) ?a = Some r
      \<and> ad_boot (ag_descriptor r) = ad_boot d \<and> ad_generation (ag_descriptor r) = ad_generation d
      \<and> \<not> ag_capability_current r"
    by (auto simp: reincarnate_split Let_def refresh_agent_get recompute_lifecycle_def
        split: option.split)
  ultimately show ?thesis by (simp add: res Let_def boot_is_fenced_def)
qed

definition demo_newer :: AgentDescriptor where
  "demo_newer = demo_descriptor\<lparr>ad_generation := 2, ad_boot := Hash128 3 4\<rparr>"

theorem reincarnation_fences_predecessor_witness:
  "boot_is_fenced (fst (register_commit demo_newer demo5)) demo_boot"
proof -
  have "snd (register_commit demo_newer demo5) = None"
    by (simp add: register_commit_def demo_newer_def demo5_sel Let_def boot_is_fenced_def)
  then show ?thesis
    using reincarnation_fences_predecessor [OF demo_reachable5, of demo_newer demo_agent4]
    by (simp add: demo_newer_def demo5_sel Let_def)
qed

lemma end_incarnation_get:
  assumes "om_get (im_agents s) a = Some r"
  shows "om_get (im_agents (end_incarnation a lc re s)) a = Some (recompute_lifecycle
    ((invalidate_dynamic_evidence r)\<lparr>ag_lifecycle := lc, ag_reason := re,
       ag_active_assignments := active_assignment_count s (ad_id (ag_descriptor r))\<rparr>))"
proof -
  have count: "active_assignment_count (deindex_agent a (adjust_agent a f s)) x
      = active_assignment_count s x" for f x
    by (simp add: active_assignment_count_def)
  show ?thesis
    using assms
    by (simp add: end_incarnation_def refresh_agent_def Let_def refresh_agent_get
        invalidate_dynamic_evidence_def count)
qed

text \<open>Declaring the current incarnation of an agent lost fences it, leaves no active
  assignment on the agent, and drops all its evidence.\<close>

theorem loss_revokes_everything:
  assumes "reachable y" and "om_get (im_agents (sys_impl y)) a = Some r"
    and "ad_boot (ag_descriptor r) = boot"
  shows "let t = lost_commit a boot reason (sys_impl y) in
    boot_is_fenced t boot \<and> assignments_of_agent t a = {}
    \<and> (\<exists>r'. om_get (im_agents t) a = Some r' \<and> ag_lifecycle r' = AgentLifecycle.Lost
          \<and> \<not> ag_capability_current r' \<and> \<not> ag_health_current r' \<and> \<not> ag_availability_current r'
          \<and> ag_lease_expires_at_ms r' = 0)"
proof -
  let ?s = "sys_impl y" and ?g = "ad_generation (ag_descriptor r)"
  let ?f = "fence_boot a boot ?g reason ?s"
  let ?c = "close_all_active boot AssignmentState.Lost InvalidationReason.AgentLost
    ''agent incarnation was declared lost'' ?f"
  note inv = reachable_core [OF assms(1)]
  have t: "lost_commit a boot reason ?s = end_incarnation a AgentLifecycle.Lost reason ?c"
    using assms(2,3) by (simp add: lost_commit_def Let_def)
  have nz: "boot \<noteq> hash128_zero"
    using core_inv_boots [OF inv, of a ?g boot] assms(2,3) by (simp add: agent_auth_def)
  then have "boot_is_fenced ?f boot"
    by (simp add: fence_boot_def boot_is_fenced_def hash128_is_zero_iff)
  then have "boot_is_fenced (lost_commit a boot reason ?s) boot"
    by (simp add: t boot_is_fenced_def end_incarnation_def refresh_agent_def Let_def split: option.split)
  moreover have "core_inv ?f" using fence_boot_step inv unfolding safe_step_def by blast
  then have "assignments_of_agent ?c a = {}"
    using assms(2,3) by (intro close_all_active_empties) simp_all
  then have "assignments_of_agent (lost_commit a boot reason ?s) a = {}"
    by (simp add: t end_incarnation_def refresh_agent_def Let_def split: option.split)
  moreover obtain r' where "om_get (im_agents ?c) a = Some r'"
    using stable_agents_SomeD [of ?c ?f a r] assms(2) by auto
  then have "\<exists>r'. om_get (im_agents (lost_commit a boot reason ?s)) a = Some r'
      \<and> ag_lifecycle r' = AgentLifecycle.Lost \<and> \<not> ag_capability_current r'
      \<and> \<not> ag_health_current r' \<and> \<not> ag_availability_current r' \<and> ag_lease_expires_at_ms r' = 0"
    unfolding t by (simp add: end_incarnation_get recompute_lifecycle_def invalidate_dynamic_evidence_def)
  ultimately show ?thesis by (simp add: Let_def)
qed

theorem loss_revokes_everything_witness:
  "assignments_of_agent (lost_commit 5 demo_boot ''gone'' demo5) 5 = {}"
  using loss_revokes_everything [OF demo_reachable5, of 5 demo_agent4 demo_boot "''gone''"]
  by (simp add: demo5_sel Let_def)

text \<open>C18: A cancellation that takes effect leaves no active assignment of the work item and
  the item itself cancelled.\<close>

theorem cancellation_complete:
  assumes "cancel_check w g s = None" and "snd (cancel_commit w g reason s) = None"
  shows "assignments_of_work (fst (cancel_commit w g reason s)) w = {}
    \<and> (\<exists>r. om_get (im_work (fst (cancel_commit w g reason s))) w = Some r
          \<and> wr_lifecycle r = WorkLifecycle.Cancelled)"
proof -
  obtain r where r: "om_get (im_work s) w = Some r" "\<not> work_is_terminal (wr_lifecycle r)"
    using assms by (auto simp: cancel_check_def cancel_commit_def Let_def split: option.splits if_splits)
  let ?c = "close_work w AssignmentState.Cancelled InvalidationReason.WorkCancelled reason s"
  obtain r' where r': "om_get (im_work ?c) w = Some r'"
    using stable_work_SomeD [of ?c s w r] r(1) by (auto simp: close_work_def)
  have t: "fst (cancel_commit w g reason s) = bump_revision (adjust_work w
      (\<lambda>r. r\<lparr>wr_reason := if reason = [] then ''cancelled'' else reason\<rparr>)
      (sync_work_lifecycle_index w WorkLifecycle.Cancelled
        (adjust_work w (\<lambda>r. r\<lparr>wr_lifecycle := WorkLifecycle.Cancelled\<rparr>) ?c)))"
    using assms(1) r by (simp add: cancel_commit_def Let_def)
  have "assignments_of_work ?c w = {}" by (rule close_work_empties) simp
  then show ?thesis using r' by (simp add: t sync_work_lifecycle_index_def Let_def)
qed

lemma demo6_open: "\<exists>r. om_get (im_work demo6) 9 = Some r \<and> wq_generation (wr_request r) = 1
    \<and> \<not> work_is_terminal (wr_lifecycle r)"
proof -
  let ?c = "commit_indexed 9 demo_binding demo5"
  obtain t where eq: "demo6 = count_assigned (bn_queue demo_binding) t
      (refresh_agent_accounting (bn_agent demo_binding) (refresh_work_accounting 9 ?c))"
    using commit_apply_split unfolding demo6_def by blast
  have "om_get (im_work ?c) 9 = Some (demo_work\<lparr>wr_last_assignment_generation := 1\<rparr>)"
    by (simp add: commit_indexed_def Let_def demo5_sel)
  then show ?thesis
    unfolding eq by (simp add: refresh_work_accounting_def Let_def sync_work_lifecycle_index_def)
qed

theorem cancellation_complete_witness:
  "assignments_of_work (fst (cancel_commit 9 1 ''stop'' demo6)) 9 = {}"
proof -
  have "cancel_check 9 1 demo6 = None" "snd (cancel_commit 9 1 ''stop'' demo6) = None"
    using demo6_open by (auto simp: cancel_check_def cancel_commit_def Let_def)
  then show ?thesis using cancellation_complete by blast
qed

text \<open>After a shutdown admission is closed, nothing can be planned, and, when the policy
  says so, no assignment that was not yet handed off keeps its authority.\<close>

theorem shutdown_closes_authority:
  assumes "\<not> im_shutting_down s" and "close_dispatch_authority_on_shutdown (im_policy s)"
  shows "let t = fst (shutdown s) in \<not> im_running t \<and> \<not> im_admission_open t
    \<and> pl_binding (schedule_plan t w g) = None
    \<and> (case om_get (im_assignments t) k of None \<Rightarrow> om_get (im_assignments s) k = None
       | Some r \<Rightarrow> ar_state r \<noteq> AssignmentState.Assigned)"
proof -
  let ?t = "fst (shutdown s)"
  have closed: "\<not> im_running ?t" "\<not> im_admission_open ?t"
    using assms by (simp_all add: shutdown_def Let_def)
  then have "pl_binding (plan_locked ?t r) = None" for r
    by (simp add: plan_locked_def plan_problem_def Let_def)
  then have "pl_binding (schedule_plan ?t w g) = None"
    by (simp add: schedule_plan_def Let_def split: option.split)
  moreover have "case om_get (im_assignments ?t) k of None \<Rightarrow> om_get (im_assignments s) k = None
       | Some r \<Rightarrow> ar_state r \<noteq> AssignmentState.Assigned"
    using assms by (auto simp: shutdown_def Let_def close_where_get close_effect_def split: option.split)
  ultimately show ?thesis using closed by (simp add: Let_def)
qed

theorem shutdown_closes_authority_witness:
  "pl_binding (schedule_plan (fst (shutdown demo6)) 9 1) = None"
  using shutdown_closes_authority [OF demo6_sel(1), of 9 1] demo6_sel(2) demo_policy_sel
  by (simp add: Let_def)



text \<open>Publishing a work item again at its current generation changes nothing: an identical
  request is accepted, a different one is a conflict, a cancelled or superseded item stays so,
  and a lower generation is stale.\<close>

theorem resubmission_idempotent:
  assumes "im_admission_open s" and "om_get (im_work s) (wq_id q) = Some r"
    and "wq_generation q \<le> wq_generation (wr_request r)"
  shows "fst (submit_commit q s) = s
    \<and> (snd (submit_commit q s) = None \<longleftrightarrow> wr_request r = q
         \<and> wr_lifecycle r \<noteq> WorkLifecycle.Cancelled \<and> wr_lifecycle r \<noteq> WorkLifecycle.Superseded)"
proof (cases "wq_generation q = wq_generation (wr_request r)")
  case True
  then show ?thesis
    using assms(1,2) by (auto simp: submit_commit_def Let_def existing_problem_def)
next
  case False
  then have "wq_generation q < wq_generation (wr_request r)" using assms(3) by simp
  moreover from this have "wr_request r \<noteq> q" by auto
  ultimately show ?thesis
    using assms(1,2) by (simp add: submit_commit_def Let_def existing_problem_def)
qed

theorem resubmission_idempotent_witness: "submit_commit demo_request demo5 = (demo5, None)"
  using resubmission_idempotent [of demo5 demo_request demo_work]
  by (simp add: demo5_sel prod_eq_iff)

end
