(* ===== verification/Frame_Codec_Facts.thy ===== *)
theory Frame_Codec_Facts
  imports Frames
begin

section \<open>What the frame decoder accepts\<close>

text \<open>
  The decoder of a byte stream, specified on the pending bytes alone, and what it accepts:
  exactly the frames the encoder writes.
\<close>

subsection \<open>Reading words from the buffer\<close>

lemma take_Suc_nth: "n < length d \<Longrightarrow> take (Suc n) d = take n d @ [d ! n]"
  by (rule take_Suc_conv_app_nth)

lemma read_u16_value: "2 \<le> length d \<Longrightarrow> read_u16 d = le_value (take 2 d)"
  by (cases d; cases "tl d") (auto simp: read_u16_def le_value_def or.commute)

lemma read_u32_value: "4 \<le> length d \<Longrightarrow> read_u32 d = le_value (take 4 d)"
proof -
  assume "4 \<le> length d"
  then obtain b0 b1 b2 b3 d' where d: "d = b0 # b1 # b2 # b3 # d'"
    by (auto simp: numeral_eq_Suc Suc_le_length_iff)
  show ?thesis
    unfolding d by (simp add: read_u32_def le_value_def push_bit_or ac_simps)
qed

lemma read_u64_value: "8 \<le> length d \<Longrightarrow> read_u64 d = le_value (take 8 d)"
proof -
  assume "8 \<le> length d"
  then obtain b0 b1 b2 b3 b4 b5 b6 b7 d' where d: "d = b0 # b1 # b2 # b3 # b4 # b5 # b6 # b7 # d'"
    by (auto simp: numeral_eq_Suc Suc_le_length_iff)
  show ?thesis
    unfolding d by (simp add: read_u64_def le_value_def)
qed

lemmas read_values = read_u16_value read_u32_value read_u64_value

subsection \<open>The encoded frame\<close>

lemma put_raw_small [simp]:
  "length buffer + length data \<le> 2 ^ 30 \<Longrightarrow> put_raw data buffer = Inr (buffer @ data)"
  using put_raw_cases [of data buffer] by auto

text \<open>The bytes the header checksum covers.\<close>

definition frame_prefix :: "Frame \<Rightarrow> u8 list" where
  "frame_prefix f =
     le_bytes 4 frame_magic @ le_bytes 2 (fh_version (fr_header f))
     @ le_bytes 2 (fh_type (fr_header f)) @ le_bytes 2 (fh_flags (fr_header f))
     @ le_bytes 2 (fh_reserved (fr_header f)) @ le_bytes 8 (fh_correlation (fr_header f))
     @ le_bytes 4 (of_nat (length (fr_payload f)) :: u32) @ le_bytes 4 (crc32 (fr_payload f) 0)"

definition frame_bytes :: "Frame \<Rightarrow> u8 list" where
  "frame_bytes f = frame_prefix f @ le_bytes 4 (crc32 (frame_prefix f) 0) @ fr_payload f"

text \<open>The frame as it is received: the fields the encoder computes are filled in.\<close>

definition sealed :: "Frame \<Rightarrow> Frame" where
  "sealed f = f\<lparr>fr_header := (fr_header f)\<lparr>fh_magic := frame_magic,
     fh_payload_length := of_nat (length (fr_payload f)),
     fh_payload_crc32 := crc32 (fr_payload f) 0,
     fh_header_crc32 := crc32 (frame_prefix f) 0\<rparr>\<rparr>"

lemma length_frame_prefix [simp]: "length (frame_prefix f) = 28"
  by (simp add: frame_prefix_def)

lemma frame_prefix_sealed [simp]: "frame_prefix (sealed f) = frame_prefix f"
  by (simp add: frame_prefix_def sealed_def)

lemma frame_bytes_sealed [simp]: "frame_bytes (sealed f) = frame_bytes f"
  by (simp add: frame_bytes_def) (simp add: sealed_def)

lemma sealed_sealed [simp]: "sealed (sealed f) = sealed f"
  by (simp add: sealed_def frame_prefix_def)

lemma frame_header_puts_bytes: "frame_header_puts f [] = Inr (frame_prefix f @ le_bytes 4 (0 :: u32))"
  by (simp add: frame_header_puts_def frame_prefix_def put_u16_def put_u32_def put_u64_def)

lemma encode_frame_eq:
  "encode_frame f m = (if length (fr_payload f) > unat m
     then Inl ''frame payload exceeds the configured maximum frame size'' else Inr (frame_bytes f))"
  by (simp add: encode_frame_def frame_header_puts_bytes frame_bytes_def kHeaderCrcOffset_def)

subsection \<open>The decoder on pending bytes\<close>

datatype parse_result =
    Incomplete
  | Violation FrameCodecStatus
  | Parsed Frame "u8 list"

definition parse_frame :: "u32 \<Rightarrow> u16 \<Rightarrow> u8 list \<Rightarrow> parse_result" where
  "parse_frame m v bs =
     (if length bs < 32 then Incomplete
      else case header_violation m v bs of Some status \<Rightarrow> Violation status
      | None \<Rightarrow>
          let n = unat (read_u32 (drop 20 bs)); payload = take n (drop 32 bs)
          in if length bs < 32 + n then Incomplete
             else if crc32 payload 0 \<noteq> read_u32 (drop 24 bs)
             then Violation FrameCodecStatus.BadPayloadCrc
             else Parsed (decoded_frame bs payload) (drop (32 + n) bs))"

definition pending :: "FrameStreamDecoder \<Rightarrow> u8 list" where
  "pending d = drop (fd_consumed d) (fd_buffer d)"

definition decoder_wf :: "FrameStreamDecoder \<Rightarrow> bool" where
  "decoder_wf d \<longleftrightarrow> fd_consumed d \<le> length (fd_buffer d)"

definition acceptable :: "u32 \<Rightarrow> u16 \<Rightarrow> Frame \<Rightarrow> bool" where
  "acceptable m v f \<longleftrightarrow> fh_version (fr_header f) = v
     \<and> is_known_message_type (fh_type (fr_header f)) \<and> length (fr_payload f) \<le> unat m"

text \<open>The fields of the bytes of a frame, whatever follows.\<close>

lemma frame_fields:
  assumes "length (fr_payload f) < 2 ^ 32"
  shows "read_u32 (frame_bytes f @ rest) = frame_magic"
    and "read_u16 (drop 4 (frame_bytes f @ rest)) = fh_version (fr_header f)"
    and "read_u16 (drop 6 (frame_bytes f @ rest)) = fh_type (fr_header f)"
    and "read_u16 (drop 8 (frame_bytes f @ rest)) = fh_flags (fr_header f)"
    and "read_u16 (drop 10 (frame_bytes f @ rest)) = fh_reserved (fr_header f)"
    and "read_u64 (drop 12 (frame_bytes f @ rest)) = fh_correlation (fr_header f)"
    and "unat (read_u32 (drop 20 (frame_bytes f @ rest))) = length (fr_payload f)"
    and "read_u32 (drop 24 (frame_bytes f @ rest)) = crc32 (fr_payload f) 0"
    and "read_u32 (drop 28 (frame_bytes f @ rest)) = crc32 (frame_prefix f) 0"
  using assms by (simp_all add: read_values frame_bytes_def frame_prefix_def unat_of_nat)

lemma take_prefix_bytes: "take 28 (frame_bytes f @ rest) = frame_prefix f"
  by (simp add: frame_bytes_def)

lemma unat_u32_less: "unat (m :: u32) < 2 ^ 32"
  using unsigned_less [of m] by simp

lemma parse_frame_encoded:
  assumes ok: "acceptable m v f"
  shows "parse_frame m v (frame_bytes f @ rest) = Parsed (sealed f) rest"
proof -
  let ?bs = "frame_bytes f @ rest"
  have len: "length (fr_payload f) \<le> unat m" "length (fr_payload f) < 2 ^ 32"
    using ok unat_u32_less [of m] by (auto simp: acceptable_def)
  note fields = frame_fields [OF len(2), of rest]
  have n: "read_u32 (drop 20 ?bs) = of_nat (length (fr_payload f))"
    using arg_cong [OF fields(7), of "of_nat :: nat \<Rightarrow> u32"] by simp
  have small: "\<not> read_u32 (drop 20 ?bs) > m"
    using len(1) unfolding not_less word_le_nat_alt fields(7) .
  have header: "header_violation m v ?bs = None"
    using ok small
    by (simp add: header_violation_def kHeaderCrcOffset_def take_prefix_bytes acceptable_def
        fields(1,2,3,9) del: drop_append take_append)
  have payload: "take (length (fr_payload f)) (drop 32 ?bs) = fr_payload f"
    and left: "drop (32 + length (fr_payload f)) ?bs = rest"
    and total: "length ?bs = 32 + length (fr_payload f) + length rest"
    by (simp_all add: frame_bytes_def)
  have frame: "decoded_frame ?bs (fr_payload f) = sealed f"
    by (simp add: decoded_frame_def sealed_def kHeaderCrcOffset_def fields n
        del: drop_append)
  show ?thesis
    unfolding parse_frame_def header total
    by (simp add: fields(7,8) payload frame left Let_def del: drop_append)
qed

lemma le_bytes_read:
  "2 \<le> length d \<Longrightarrow> le_bytes 2 (read_u16 d) = take 2 d"
  "4 \<le> length d \<Longrightarrow> le_bytes 4 (read_u32 d) = take 4 d"
  "8 \<le> length d \<Longrightarrow> le_bytes 8 (read_u64 d) = take 8 d"
  using le_bytes_le_value [of "take 2 d", where 'a = 16] le_bytes_le_value [of "take 4 d", where 'a = 32]
    le_bytes_le_value [of "take 8 d", where 'a = 64]
  by (simp_all add: read_values)

lemma take_split: "take (m + n) xs = take m xs @ take n (drop m xs)"
  by (rule take_add)

lemma parse_frame_Parsed:
  assumes "parse_frame m v bs = Parsed f rest"
  shows "bs = frame_bytes f @ rest \<and> acceptable m v f \<and> sealed f = f"
proof -
  let ?n = "unat (read_u32 (drop 20 bs))"
  let ?p = "take ?n (drop 32 bs)"
  have len: "32 + ?n \<le> length bs" and ok: "header_violation m v bs = None"
    and crc: "crc32 ?p 0 = read_u32 (drop 24 bs)"
    and f: "f = decoded_frame bs ?p" and rest: "rest = drop (32 + ?n) bs"
    using assms by (auto simp: parse_frame_def Let_def not_less split: if_splits option.splits)
  have checks: "read_u32 bs = frame_magic" "read_u16 (drop 4 bs) = v"
    "is_known_message_type (read_u16 (drop 6 bs))"
    "read_u32 (drop 28 bs) = crc32 (take 28 bs) 0" "\<not> read_u32 (drop 20 bs) > m"
    using ok by (auto simp: header_violation_def kHeaderCrcOffset_def split: if_splits)
  have p: "length ?p = ?n" using len by simp
  have payload: "fr_payload f = ?p" by (simp add: f decoded_frame_def)
  have "take 28 bs = take 4 bs @ take 2 (drop 4 bs) @ take 2 (drop 6 bs) @ take 2 (drop 8 bs)
      @ take 2 (drop 10 bs) @ take 8 (drop 12 bs) @ take 4 (drop 20 bs) @ take 4 (drop 24 bs)"
    using take_split [of 4 24 bs] take_split [of 2 22 "drop 4 bs"] take_split [of 2 20 "drop 6 bs"]
      take_split [of 2 18 "drop 8 bs"] take_split [of 2 16 "drop 10 bs"]
      take_split [of 8 8 "drop 12 bs"] take_split [of 4 4 "drop 20 bs"] by simp
  also have "\<dots> = frame_prefix f"
    using len unfolding frame_prefix_def payload p crc checks(1) [symmetric]
    by (simp add: f decoded_frame_def le_bytes_read)
  finally have prefix: "take 28 bs = frame_prefix f" .
  have "bs = take 28 bs @ take 4 (drop 28 bs) @ ?p @ rest"
    using append_take_drop_id [of 28 bs] append_take_drop_id [of 4 "drop 28 bs"]
      append_take_drop_id [of ?n "drop 32 bs"] by (simp add: rest add.commute)
  moreover have "take 4 (drop 28 bs) = le_bytes 4 (crc32 (frame_prefix f) 0)"
    using len checks(4) prefix le_bytes_read(2) [of "drop 28 bs"] by simp
  ultimately have "bs = frame_bytes f @ rest"
    unfolding frame_bytes_def payload prefix by simp
  moreover have "acceptable m v f"
    using checks p payload
    by (simp add: acceptable_def f decoded_frame_def not_less word_le_nat_alt)
  moreover have "sealed f = f"
    using p crc checks(4) prefix
    by (simp add: sealed_def f decoded_frame_def kHeaderCrcOffset_def)
  ultimately show ?thesis by blast
qed

subsection \<open>The decoder implements the specification\<close>

lemma decoder_next_parse:
  assumes "decoder_wf d"
  shows "decoder_next d =
    (case parse_frame (fd_max_frame_size d) (fd_expected_version d) (pending d) of
       Incomplete \<Rightarrow> (d, FrameCodecStatus.NeedMoreData, None)
     | Violation status \<Rightarrow> (decoder_reset d, status, None)
     | Parsed f rest \<Rightarrow>
         (d\<lparr>fd_consumed := length (fd_buffer d) - length rest\<rparr>, FrameCodecStatus.Ok, Some f))"
  using assms
  by (auto simp: decoder_next_def parse_frame_def pending_def decoder_wf_def Let_def
      frame_header_bytes_def add.assoc split: option.splits)

lemma pending_append [simp]: "decoder_wf d \<Longrightarrow> pending (decoder_append data d) = pending d @ data"
  by (auto simp: decoder_append_def pending_def decoder_wf_def Let_def)

lemma decoder_wf_append [simp]: "decoder_wf d \<Longrightarrow> decoder_wf (decoder_append data d)"
  by (auto simp: decoder_append_def decoder_wf_def Let_def)

lemma decoder_append_options [simp]:
  "fd_max_frame_size (decoder_append data d) = fd_max_frame_size d"
  "fd_expected_version (decoder_append data d) = fd_expected_version d"
  by (auto simp: decoder_append_def Let_def)

lemma decoder_reset_facts [simp]:
  "pending (decoder_reset d) = []" "decoder_wf (decoder_reset d)"
  "fd_max_frame_size (decoder_reset d) = fd_max_frame_size d"
  "fd_expected_version (decoder_reset d) = fd_expected_version d"
  by (simp_all add: decoder_reset_def pending_def decoder_wf_def)

lemma new_decoder_facts [simp]:
  "pending (new_decoder m v) = []" "decoder_wf (new_decoder m v)"
  "fd_max_frame_size (new_decoder m v) = m" "fd_expected_version (new_decoder m v) = v"
  by (simp_all add: new_decoder_def pending_def decoder_wf_def)

lemma length_frame_bytes [simp]: "length (frame_bytes f) = 32 + length (fr_payload f)"
  by (simp add: frame_bytes_def)

lemma pending_after_frame:
  assumes "decoder_wf d" and "pending d = used @ rest"
  shows "pending (d\<lparr>fd_consumed := length (fd_buffer d) - length rest\<rparr>) = rest
    \<and> decoder_wf (d\<lparr>fd_consumed := length (fd_buffer d) - length rest\<rparr>)"
proof -
  have "fd_buffer d = take (fd_consumed d) (fd_buffer d) @ used @ rest"
    using assms(2) append_take_drop_id [of "fd_consumed d" "fd_buffer d"] by (simp add: pending_def)
  then obtain pre where "fd_buffer d = (pre @ used) @ rest" by simp
  then show ?thesis by (simp add: pending_def decoder_wf_def)
qed

subsection \<open>Parsing a stream that arrives in pieces\<close>

text \<open>
  A parser that reads one item from the front of a buffer, and the loop that reads all the
  items the buffer holds. The laws say that a parser consumes something and does not change
  its mind when more bytes arrive; from them, how the bytes were cut does not matter.
\<close>

fun drain :: "nat \<Rightarrow> ('b list \<Rightarrow> ('f \<times> 'b list) option) \<Rightarrow> 'b list \<Rightarrow> 'f list \<times> 'b list" where
  "drain 0 parse bs = ([], bs)"
| "drain (Suc n) parse bs =
     (case parse bs of None \<Rightarrow> ([], bs)
      | Some (f, rest) \<Rightarrow> (case drain n parse rest of (fs, left) \<Rightarrow> (f # fs, left)))"

definition drain_all :: "('b list \<Rightarrow> ('f \<times> 'b list) option) \<Rightarrow> 'b list \<Rightarrow> 'f list \<times> 'b list" where
  "drain_all parse bs = drain (length bs) parse bs"

text \<open>What is delivered when the pieces are drained as they arrive.\<close>

fun feed :: "('b list \<Rightarrow> ('f \<times> 'b list) option) \<Rightarrow> 'b list \<Rightarrow> 'b list list \<Rightarrow> 'f list \<times> 'b list" where
  "feed parse bs [] = ([], bs)"
| "feed parse bs (chunk # chunks) =
     (case drain_all parse (bs @ chunk) of (fs, left) \<Rightarrow>
        case feed parse left chunks of (gs, left') \<Rightarrow> (fs @ gs, left'))"

locale incremental_parser =
  fixes parse :: "'b list \<Rightarrow> ('f \<times> 'b list) option"
  assumes consumes: "parse bs = Some (f, rest) \<Longrightarrow> length rest < length bs"
    and extends: "parse bs = Some (f, rest) \<Longrightarrow> parse (bs @ more_bytes) = Some (f, rest @ more_bytes)"
begin

lemma drain_enough: "length bs \<le> n \<Longrightarrow> drain n parse bs = drain_all parse bs"
proof (induction bs arbitrary: n rule: length_induct)
  case (1 bs)
  show ?case
  proof (cases n)
    case 0
    then show ?thesis using "1.prems" by (simp add: drain_all_def)
  next
    case (Suc m)
    show ?thesis
    proof (cases "parse bs")
      case None
      then show ?thesis by (cases "length bs") (simp_all add: Suc drain_all_def)
    next
      case (Some r)
      obtain f rest where r: "parse bs = Some (f, rest)" using Some by (cases r) auto
      note less = consumes [OF r]
      then obtain k where k: "length bs = Suc k" by (cases "length bs") auto
      have "drain m parse rest = drain_all parse rest" "drain k parse rest = drain_all parse rest"
        using "1.IH" less "1.prems" Suc k by simp_all
      then show ?thesis by (simp add: Suc r k drain_all_def [of _ bs])
    qed
  qed
qed

lemma drain_all_step:
  "drain_all parse bs = (case parse bs of None \<Rightarrow> ([], bs)
     | Some (f, rest) \<Rightarrow> (case drain_all parse rest of (fs, left) \<Rightarrow> (f # fs, left)))"
proof (cases "length bs")
  case 0
  then show ?thesis using consumes [of bs] by (auto simp: drain_all_def split: option.split)
next
  case (Suc k)
  have "drain k parse rest = drain_all parse rest" if "parse bs = Some (f, rest)" for f rest
    using drain_enough [of rest k] consumes [OF that] Suc by simp
  then show ?thesis
    unfolding drain_all_def [of _ bs] Suc by (auto split: option.split)
qed

lemma drain_all_stuck: "drain_all parse bs = (fs, left) \<Longrightarrow> parse left = None"
proof (induction bs arbitrary: fs rule: length_induct)
  case (1 bs)
  from "1.prems" [unfolded drain_all_step [of bs]] show ?case
    using "1.IH" consumes [of bs] by (auto split: option.splits prod.splits)
qed

lemma drain_all_append:
  "drain_all parse bs = (fs, left) \<Longrightarrow>
   drain_all parse (bs @ more_bytes) =
     (fs @ fst (drain_all parse (left @ more_bytes)), snd (drain_all parse (left @ more_bytes)))"
proof (induction bs arbitrary: fs rule: length_induct)
  case (1 bs)
  show ?case
  proof (cases "parse bs")
    case None
    then show ?thesis using "1.prems" by (simp add: drain_all_step [of bs])
  next
    case (Some r)
    obtain f rest where r: "parse bs = Some (f, rest)" using Some by (cases r) auto
    obtain gs where gs: "drain_all parse rest = (gs, left)" "fs = f # gs"
      using "1.prems" r by (auto simp: drain_all_step [of bs] split: prod.splits)
    show ?thesis
      using "1.IH" consumes [OF r] gs
      by (simp add: drain_all_step [of "bs @ more_bytes"] extends [OF r])
  qed
qed

text \<open>How a stream is cut into pieces does not matter.\<close>

lemma feed_whole:
  "parse bs = None \<Longrightarrow> feed parse bs chunks = drain_all parse (bs @ concat chunks)"
proof (induction chunks arbitrary: bs)
  case Nil
  then show ?case by (simp add: drain_all_step [of bs])
next
  case (Cons chunk chunks)
  obtain fs left where fs: "drain_all parse (bs @ chunk) = (fs, left)" by (rule prod.exhaust)
  have "drain_all parse ((bs @ chunk) @ concat chunks) =
      (fs @ fst (drain_all parse (left @ concat chunks)), snd (drain_all parse (left @ concat chunks)))"
    by (rule drain_all_append [OF fs])
  then show ?case
    using fs Cons.IH [OF drain_all_stuck [OF fs]] by (simp add: case_prod_beta)
qed

lemma drain_all_sound:
  assumes sound: "\<And>bs f rest. parse bs = Some (f, rest) \<Longrightarrow> bs = enc f @ rest \<and> good f"
  shows "drain_all parse bs = (fs, left) \<Longrightarrow>
    bs = concat (map enc fs) @ left \<and> (\<forall>f \<in> set fs. good f)"
proof (induction bs arbitrary: fs rule: length_induct)
  case (1 bs)
  show ?case
  proof (cases "parse bs")
    case None
    then show ?thesis using "1.prems" by (simp add: drain_all_step [of bs])
  next
    case (Some r)
    obtain f rest where r: "parse bs = Some (f, rest)" using Some by (cases r) auto
    obtain gs where gs: "drain_all parse rest = (gs, left)" "fs = f # gs"
      using "1.prems" r by (auto simp: drain_all_step [of bs] split: prod.splits)
    have "rest = concat (map enc gs) @ left \<and> (\<forall>f \<in> set gs. good f)"
      using "1.IH" consumes [OF r] gs(1) by blast
    then show ?thesis using sound [OF r] gs(2) by simp
  qed
qed

lemma drain_all_items:
  assumes "\<And>x rest. x \<in> set xs \<Longrightarrow> parse (enc x @ rest) = Some (view x, rest)"
  shows "drain_all parse (concat (map enc xs) @ tail) =
    (map view xs @ fst (drain_all parse tail), snd (drain_all parse tail))"
  using assms
proof (induction xs)
  case (Cons x xs)
  then show ?case by (subst drain_all_step) simp
qed simp

end

definition frame_parser :: "u32 \<Rightarrow> u16 \<Rightarrow> u8 list \<Rightarrow> (Frame \<times> u8 list) option" where
  "frame_parser m v bs = (case parse_frame m v bs of Parsed f rest \<Rightarrow> Some (f, rest) | _ \<Rightarrow> None)"

lemma frame_parser_Some:
  "frame_parser m v bs = Some (f, rest) \<longleftrightarrow>
     bs = frame_bytes f @ rest \<and> acceptable m v f \<and> sealed f = f"
proof
  assume "frame_parser m v bs = Some (f, rest)"
  then have "parse_frame m v bs = Parsed f rest"
    by (simp add: frame_parser_def split: parse_result.splits)
  then show "bs = frame_bytes f @ rest \<and> acceptable m v f \<and> sealed f = f"
    by (rule parse_frame_Parsed)
next
  assume "bs = frame_bytes f @ rest \<and> acceptable m v f \<and> sealed f = f"
  then show "frame_parser m v bs = Some (f, rest)"
    using parse_frame_encoded [of m v f rest] by (simp add: frame_parser_def)
qed

interpretation frame_stream: incremental_parser "frame_parser m v" for m v
proof
  fix bs f rest
  assume "frame_parser m v bs = Some (f, rest)"
  then have bs: "bs = frame_bytes f @ rest" and f: "acceptable m v f \<and> sealed f = f"
    unfolding frame_parser_Some by blast+
  show "length rest < length bs" by (simp add: bs)
  show "frame_parser m v (bs @ more) = Some (f, rest @ more)" for more
    unfolding frame_parser_Some using f by (simp add: bs)
qed

end
