(* ===== verification/Sessions.thy ===== *)
theory Sessions
  imports Frame_Codec_Facts
begin

section \<open>Network sessions\<close>

text \<open>
  net/session.hpp and net/session.cpp: the part of a session its mutex protects, the bounded
  send queue, and the loops of the reader and the writer thread. The socket is the
  environment: what a read returns and how much a write accepts are inputs of the steps. The
  handler of received frames is a parameter, an arbitrary change of the world the session
  lives in.
\<close>

subsection \<open>State\<close>

record SessionOptions =
  so_max_frame_size :: u32
  so_max_send_queue :: u32
  so_max_payload_size :: u32
  so_protocol_version :: u16

definition default_session_options :: SessionOptions where
  "default_session_options =
     \<lparr> so_max_frame_size = push_bit 20 1, so_max_send_queue = 4096,
       so_max_payload_size = push_bit 20 1, so_protocol_version = 1 \<rparr>"

record Session =
  ss_id :: u64
  ss_options :: SessionOptions
  ss_outbound :: "u8 list list"
  ss_close_reason :: string
  ss_protocol_violation :: string
  ss_bound_agent :: "(u64 \<times> Hash128) option"
  ss_closing :: bool
  ss_closed :: bool
  ss_frames_sent :: u64
  ss_frames_received :: u64
  ss_dropped_frames :: u64

definition new_session :: "u64 \<Rightarrow> SessionOptions \<Rightarrow> Session" where
  "new_session sid options =
     \<lparr> ss_id = sid, ss_options = options, ss_outbound = [], ss_close_reason = [],
       ss_protocol_violation = [], ss_bound_agent = None, ss_closing = False, ss_closed = False,
       ss_frames_sent = 0, ss_frames_received = 0, ss_dropped_frames = 0 \<rparr>"

subsection \<open>Operations\<close>

definition request_close :: "Session \<Rightarrow> Session" where
  "request_close s =
     (let s' = (if \<not> ss_closing s
                then s\<lparr>ss_closing := True, ss_close_reason := ''close requested''\<rparr> else s)
      in s'\<lparr>ss_outbound := [], ss_closed := True\<rparr>)"

definition close_locked :: "string \<Rightarrow> Session \<Rightarrow> Session" where
  "close_locked reason s =
     (if ss_closing s then s
      else s\<lparr>ss_closing := True, ss_close_reason := reason, ss_outbound := [], ss_closed := True\<rparr>)"

definition note_protocol_violation :: "string \<Rightarrow> Session \<Rightarrow> Session" where
  "note_protocol_violation reason s =
     (if ss_protocol_violation s = [] then s\<lparr>ss_protocol_violation := reason\<rparr> else s)"

definition drop_frame :: "Session \<Rightarrow> Session" where
  "drop_frame s = s\<lparr>ss_dropped_frames := ss_dropped_frames s + 1\<rparr>"

definition enqueue :: "Frame \<Rightarrow> Session \<Rightarrow> Session \<times> bool" where
  "enqueue frame s =
     (case encode_frame frame (so_max_frame_size (ss_options s)) of
        Inl _ \<Rightarrow> (drop_frame s, False)
      | Inr bytes \<Rightarrow>
          if ss_closing s \<or> ss_closed s then (drop_frame s, False)
          else if length (ss_outbound s) \<ge> unat (so_max_send_queue (ss_options s))
          then (drop_frame s, False)
          else (s\<lparr>ss_outbound := ss_outbound s @ [bytes]\<rparr>, True))"

definition bind_agent :: "u64 \<Rightarrow> Hash128 \<Rightarrow> Session \<Rightarrow> Session" where
  "bind_agent agent boot s = s\<lparr>ss_bound_agent := Some (agent, boot)\<rparr>"

definition unbind_agent :: "Session \<Rightarrow> Session" where
  "unbind_agent s = s\<lparr>ss_bound_agent := None\<rparr>"

subsection \<open>The reader loop\<close>

text \<open>How the loop over the frames of one read ends.\<close>

datatype drain_end =
    Waiting
  | ClosedByHandler
  | Refused FrameCodecStatus

lemma decoder_next_progress:
  "decoder_next d = (d', status, Some f) \<Longrightarrow>
   length (fd_buffer d') - fd_consumed d' < length (fd_buffer d) - fd_consumed d"
  by (auto simp: decoder_next_def frame_header_bytes_def Let_def not_less
      split: if_splits option.splits)

function reader_drain ::
    "(Frame \<Rightarrow> 'w \<Rightarrow> 'w) \<Rightarrow> ('w \<Rightarrow> bool) \<Rightarrow> FrameStreamDecoder \<Rightarrow> 'w
     \<Rightarrow> FrameStreamDecoder \<times> 'w \<times> drain_end" where
  "reader_drain on_frame is_closed d w =
     (case decoder_next d of
        (d', _, Some frame) \<Rightarrow>
          (let w' = on_frame frame w
           in if is_closed w' then (d', w', ClosedByHandler) else reader_drain on_frame is_closed d' w')
      | (d', status, None) \<Rightarrow>
          (d', w, if status \<noteq> FrameCodecStatus.NeedMoreData then Refused status else Waiting))"
  by pat_completeness auto
termination
  by (relation "measure (\<lambda>(_, _, d, _). length (fd_buffer d) - fd_consumed d)")
    (auto dest!: decoder_next_progress [OF sym])

declare reader_drain.simps [simp del]

text \<open>
  One read of the loop. \<open>upd\<close> changes this session in the world. The result says whether the
  loop has finished.
\<close>

definition reader_read ::
    "((Session \<Rightarrow> Session) \<Rightarrow> 'w \<Rightarrow> 'w) \<Rightarrow> (Frame \<Rightarrow> 'w \<Rightarrow> 'w) \<Rightarrow> ('w \<Rightarrow> bool)
     \<Rightarrow> u8 list \<Rightarrow> FrameStreamDecoder \<Rightarrow> 'w \<Rightarrow> FrameStreamDecoder \<times> 'w \<times> bool" where
  "reader_read upd on_frame is_closed data d w =
     (case reader_drain
        (\<lambda>frame w. on_frame frame (upd (\<lambda>s. s\<lparr>ss_frames_received := ss_frames_received s + 1\<rparr>) w))
        is_closed (decoder_append data d) w
      of (d', w', Waiting) \<Rightarrow> (d', w', False)
       | (d', w', ClosedByHandler) \<Rightarrow> (d', w', True)
       | (d', w', Refused status) \<Rightarrow>
           (d', upd (\<lambda>s. close_locked (''protocol violation: '' @ frame_status_to_string status)
                     (note_protocol_violation (''frame rejected: '' @ frame_status_to_string status) s)) w',
            True))"

subsection \<open>The writer loop\<close>

datatype IoResult = Data | WouldBlock | Closed | Error

text \<open>The frame the writer thread is sending and how much of it the socket has taken.\<close>

record Writer =
  wt_frame :: "u8 list"
  wt_offset :: nat

definition new_writer :: Writer where
  "new_writer = \<lparr> wt_frame = [], wt_offset = 0 \<rparr>"

definition unsent :: "Writer \<Rightarrow> u8 list" where
  "unsent t = drop (wt_offset t) (wt_frame t)"

text \<open>
  The next frame is fetched when the current one is sent. None: the loop returns, because the
  session is closing, or it waits (the condition variable) for a frame.
\<close>

definition writer_fetch :: "Session \<Rightarrow> Writer \<Rightarrow> (Session \<times> Writer) option" where
  "writer_fetch s t =
     (if wt_offset t = length (wt_frame t)
      then if ss_closing s \<or> ss_outbound s = [] then None
           else Some (s\<lparr>ss_outbound := tl (ss_outbound s)\<rparr>,
                      \<lparr> wt_frame = hd (ss_outbound s), wt_offset = 0 \<rparr>)
      else Some (s, t))"

text \<open>After a write attempt that took \<open>written\<close> bytes. The flag says that the loop returns.\<close>

definition writer_wrote ::
    "IoResult \<Rightarrow> nat \<Rightarrow> Session \<Rightarrow> Writer \<Rightarrow> Session \<times> Writer \<times> bool" where
  "writer_wrote result written s t =
     (let t' = t\<lparr>wt_offset := wt_offset t + written\<rparr>
      in case result of
           WouldBlock \<Rightarrow> (s, t', False)
         | Closed \<Rightarrow> (close_locked ''write failed'' (note_protocol_violation ''write failed'' s), t', True)
         | Error \<Rightarrow> (close_locked ''write failed'' (note_protocol_violation ''write failed'' s), t', True)
         | Data \<Rightarrow>
             (if wt_offset t' = length (wt_frame t')
              then s\<lparr>ss_frames_sent := ss_frames_sent s + 1\<rparr> else s, t', False))"

subsection \<open>The send queue is bounded, and empty once the session closes\<close>

definition session_wf :: "Session \<Rightarrow> bool" where
  "session_wf s \<longleftrightarrow> length (ss_outbound s) \<le> unat (so_max_send_queue (ss_options s))
     \<and> (ss_closing s \<longrightarrow> ss_outbound s = [] \<and> ss_closed s)"

named_theorems session_wf_intros \<open>operations keep a session well formed\<close>

lemma session_wf_new [session_wf_intros]: "session_wf (new_session sid options)"
  by (simp add: session_wf_def new_session_def)

lemma session_wf_close [session_wf_intros]:
  "session_wf (request_close s)" "session_wf s \<Longrightarrow> session_wf (close_locked reason s)"
  by (auto simp: session_wf_def request_close_def close_locked_def Let_def)

lemma session_wf_note [session_wf_intros]:
  "session_wf s \<Longrightarrow> session_wf (note_protocol_violation reason s)"
  "session_wf s \<Longrightarrow> session_wf (bind_agent agent boot s)"
  "session_wf s \<Longrightarrow> session_wf (unbind_agent s)"
  "session_wf s \<Longrightarrow> session_wf (s\<lparr>ss_frames_received := n\<rparr>)"
  "session_wf s \<Longrightarrow> session_wf (s\<lparr>ss_frames_sent := n\<rparr>)"
  by (auto simp: session_wf_def note_protocol_violation_def bind_agent_def unbind_agent_def)

lemma session_wf_enqueue [session_wf_intros]: "session_wf s \<Longrightarrow> session_wf (fst (enqueue f s))"
  by (auto simp: session_wf_def enqueue_def drop_frame_def not_le split: sum.splits)

lemma session_wf_fetch [session_wf_intros]:
  "session_wf s \<Longrightarrow> writer_fetch s t = Some (s', t') \<Longrightarrow> session_wf s'"
  by (cases "ss_outbound s") (auto simp: session_wf_def writer_fetch_def split: if_splits)

lemma session_wf_wrote [session_wf_intros]:
  "session_wf s \<Longrightarrow> session_wf (fst (writer_wrote result n s t))"
  by (auto simp: writer_wrote_def Let_def session_wf_intros split: IoResult.splits)

lemma enqueue_accepted:
  "enqueue f s = (s', True) \<longleftrightarrow>
     length (fr_payload f) \<le> unat (so_max_frame_size (ss_options s))
     \<and> \<not> ss_closing s \<and> \<not> ss_closed s
     \<and> length (ss_outbound s) < unat (so_max_send_queue (ss_options s))
     \<and> s' = s\<lparr>ss_outbound := ss_outbound s @ [frame_bytes f]\<rparr>"
  by (auto simp: enqueue_def encode_frame_eq)

lemma enqueue_refused: "enqueue f s = (s', False) \<Longrightarrow> s' = drop_frame s"
  by (auto simp: enqueue_def encode_frame_eq split: if_splits)

end
