(* ===== verification/Delivery.thy ===== *)
theory Delivery
  imports Sessions
begin

section \<open>Delivery over a connection\<close>

text \<open>
  A sending session, its writer thread, the bytes in flight, and the reader loop of the peer.
  The connection is a queue of bytes (TCP); writes may be partial and reads may cut the bytes
  anywhere. A step is one action of one thread, in any order.
\<close>

record Link =
  lk_session :: Session
  lk_writer :: Writer
  lk_wire :: "u8 list"
  lk_decoder :: FrameStreamDecoder
  lk_sent :: "Frame list"
  lk_received :: "Frame list"
  lk_violation :: bool

definition new_link :: "SessionOptions \<Rightarrow> Link" where
  "new_link options =
     \<lparr> lk_session = new_session 1 options, lk_writer = new_writer, lk_wire = [],
       lk_decoder = new_decoder (so_max_frame_size options) (so_protocol_version options),
       lk_sent = [], lk_received = [], lk_violation = False \<rparr>"

definition deliver :: "u8 list \<Rightarrow> Link \<Rightarrow> Link" where
  "deliver data x =
     (case reader_read (\<lambda>_ fs. fs) (\<lambda>f fs. fs @ [f]) (\<lambda>_. False) data (lk_decoder x) (lk_received x) of
        (d, fs, finished) \<Rightarrow>
          x\<lparr>lk_decoder := d, lk_received := fs, lk_violation := lk_violation x \<or> finished\<rparr>)"

inductive link_step :: "Link \<Rightarrow> Link \<Rightarrow> bool" where
  send: "enqueue f (lk_session x) = (s, accepted) \<Longrightarrow>
     link_step x (x\<lparr>lk_session := s, lk_sent := lk_sent x @ (if accepted then [f] else [])\<rparr>)"
| fetch: "writer_fetch (lk_session x) (lk_writer x) = Some (s, t) \<Longrightarrow>
     link_step x (x\<lparr>lk_session := s, lk_writer := t\<rparr>)"
| send_bytes: "unsent (lk_writer x) \<noteq> [] \<Longrightarrow> n \<le> length (unsent (lk_writer x)) \<Longrightarrow>
     writer_wrote result n (lk_session x) (lk_writer x) = (s, t, finished) \<Longrightarrow>
     link_step x (x\<lparr>lk_session := s, lk_writer := t,
                    lk_wire := lk_wire x @ take n (unsent (lk_writer x))\<rparr>)"
| receive_bytes: "lk_wire x = data @ rest \<Longrightarrow> \<not> lk_violation x \<Longrightarrow>
     link_step x (deliver data (x\<lparr>lk_wire := rest\<rparr>))"
| close: "link_step x (x\<lparr>lk_session := request_close (lk_session x)\<rparr>)"

inductive_cases link_stepE: "link_step x y"

abbreviation link_reaches :: "Link \<Rightarrow> Link \<Rightarrow> bool" where
  "link_reaches x y \<equiv> link_step\<^sup>*\<^sup>* x y"

subsection \<open>A violation is final\<close>

lemma header_violation_append:
  "32 \<le> length p \<Longrightarrow> header_violation m v (p @ q) = header_violation m v p"
  by (simp add: header_violation_def read_values kHeaderCrcOffset_def)

lemma parse_violation_append:
  assumes "parse_frame m v p = Violation status"
  shows "parse_frame m v (p @ q) = Violation status"
proof -
  let ?n = "unat (read_u32 (drop 20 p))"
  have len: "32 \<le> length p" using assms by (auto simp: parse_frame_def split: if_splits)
  then have words: "read_u32 (drop 20 (p @ q)) = read_u32 (drop 20 p)"
    "read_u32 (drop 24 (p @ q)) = read_u32 (drop 24 p)"
    by (simp_all add: read_values)
  note header = header_violation_append [OF len, of m v q]
  show ?thesis
  proof (cases "header_violation m v p")
    case None
    then have p: "32 + ?n \<le> length p" "crc32 (take ?n (drop 32 p)) 0 \<noteq> read_u32 (drop 24 p)"
      "status = FrameCodecStatus.BadPayloadCrc"
      using assms len by (auto simp: parse_frame_def Let_def split: if_splits)
    then have "take ?n (drop 32 (p @ q)) = take ?n (drop 32 p)" by simp
    then show ?thesis using p len None by (simp add: parse_frame_def header words Let_def del: drop_append take_append)
  next
    case (Some status')
    then show ?thesis using assms len by (simp add: parse_frame_def header)
  qed
qed

lemma stream_never_violates:
  assumes "p @ q = concat (map frame_bytes fs)" and "\<forall>f \<in> set fs. acceptable m v f"
  shows "parse_frame m v p \<noteq> Violation status"
proof
  assume "parse_frame m v p = Violation status"
  then have bad: "parse_frame m v (p @ q) = Violation status" by (rule parse_violation_append)
  show False
  proof (cases fs)
    case Nil
    then show False using bad assms(1) by (simp add: parse_frame_def)
  next
    case (Cons f gs)
    then have "parse_frame m v (p @ q) = Parsed (sealed f) (concat (map frame_bytes gs))"
      using assms parse_frame_encoded [of m v f] by simp
    then show False using bad by simp
  qed
qed

lemma acceptable_sealed [simp]: "acceptable m v (sealed f) = acceptable m v f"
  by (simp add: acceptable_def sealed_def)

text \<open>Received frames account for a prefix of what was sent.\<close>

abbreviation stream_of :: "Frame list \<Rightarrow> u8 list" where
  "stream_of fs \<equiv> concat (map frame_bytes fs)"

lemma stream_split:
  assumes "stream_of fs = stream_of gs @ tail" and "\<forall>f \<in> set fs. acceptable m v f"
    and "\<forall>g \<in> set gs. acceptable m v g \<and> sealed g = g"
  obtains hs where "map sealed fs = gs @ map sealed hs" and "tail = stream_of hs"
    and "\<forall>f \<in> set hs. acceptable m v f"
  using assms
proof (induction gs arbitrary: fs thesis)
  case Nil
  then show ?case by simp
next
  case (Cons g gs)
  have parsed: "parse_frame m v (stream_of fs) = Parsed g (stream_of gs @ tail)"
    using Cons.prems(2,4) parse_frame_encoded [of m v g "stream_of gs @ tail"] by simp
  show ?case
  proof (cases fs)
    case Nil
    then show ?thesis using parsed by (simp add: parse_frame_def)
  next
    case (Cons f fs')
    then have "sealed f = g" "stream_of fs' = stream_of gs @ tail"
      using parsed parse_frame_encoded [of m v f "stream_of fs'"] Cons.prems(3) by simp_all
    then show ?thesis
      using Cons Cons.prems(1,3,4) Cons.IH [of fs'] by auto
  qed
qed

subsection \<open>The reader loop delivers what the parser finds\<close>

lemma reader_drain_spec:
  assumes "decoder_wf d" "fd_max_frame_size d = m" "fd_expected_version d = v"
    and "\<And>gs q status. pending d = concat (map frame_bytes gs) @ q \<Longrightarrow>
           \<forall>g \<in> set gs. acceptable m v g \<and> sealed g = g \<Longrightarrow> parse_frame m v q \<noteq> Violation status"
  shows "\<exists>d'. reader_drain (\<lambda>f fs. fs @ [f]) (\<lambda>_. False) d fs
      = (d', fs @ fst (drain_all (frame_parser m v) (pending d)), Waiting)
    \<and> decoder_wf d' \<and> fd_max_frame_size d' = m \<and> fd_expected_version d' = v
    \<and> pending d' = snd (drain_all (frame_parser m v) (pending d))"
  using assms
proof (induction "length (pending d)" arbitrary: d fs rule: less_induct)
  case less
  show ?case
  proof (cases "parse_frame m v (pending d)")
    case Incomplete
    then have "drain_all (frame_parser m v) (pending d) = ([], pending d)"
      by (subst frame_stream.drain_all_step) (simp add: frame_parser_def)
    moreover have "decoder_next d = (d, FrameCodecStatus.NeedMoreData, None)"
      unfolding decoder_next_parse [OF less.prems(1)] less.prems(2,3) Incomplete by simp
    then have "reader_drain (\<lambda>f fs. fs @ [f]) (\<lambda>_. False) d fs = (d, fs, Waiting)"
      by (subst reader_drain.simps) simp
    ultimately show ?thesis using less.prems(1-3) by simp
  next
    case (Violation status)
    then show ?thesis using less.prems(4) [of "[]" "pending d" status] by simp
  next
    case (Parsed f rest)
    let ?d = "d\<lparr>fd_consumed := length (fd_buffer d) - length rest\<rparr>"
    have bs: "pending d = frame_bytes f @ rest" using parse_frame_Parsed [OF Parsed] by simp
    note after = pending_after_frame [OF less.prems(1) bs]
    have "\<exists>d'. reader_drain (\<lambda>f fs. fs @ [f]) (\<lambda>_. False) ?d (fs @ [f])
        = (d', (fs @ [f]) @ fst (drain_all (frame_parser m v) (pending ?d)), Waiting)
      \<and> decoder_wf d' \<and> fd_max_frame_size d' = m \<and> fd_expected_version d' = v
      \<and> pending d' = snd (drain_all (frame_parser m v) (pending ?d))"
    proof (rule less.hyps)
      show "length (pending ?d) < length (pending d)" using after bs by simp
      show "parse_frame m v q \<noteq> Violation status"
        if "pending ?d = concat (map frame_bytes gs) @ q"
          "\<forall>g \<in> set gs. acceptable m v g \<and> sealed g = g" for gs q status
        using less.prems(4) [of "f # gs" q] that after bs parse_frame_Parsed [OF Parsed] by simp
    qed (use after less.prems(1-3) in simp_all)
    moreover have "decoder_next d = (?d, FrameCodecStatus.Ok, Some f)"
      unfolding decoder_next_parse [OF less.prems(1)] less.prems(2,3) Parsed by simp
    then have "reader_drain (\<lambda>f fs. fs @ [f]) (\<lambda>_. False) d fs
        = reader_drain (\<lambda>f fs. fs @ [f]) (\<lambda>_. False) ?d (fs @ [f])"
      by (subst reader_drain.simps) simp
    moreover have "drain_all (frame_parser m v) (pending d)
        = (f # fst (drain_all (frame_parser m v) rest), snd (drain_all (frame_parser m v) rest))"
      by (subst frame_stream.drain_all_step) (simp add: frame_parser_def Parsed split: prod.split)
    ultimately show ?thesis using after by simp
  qed
qed

subsection \<open>The invariant of a connection\<close>

definition link_stream :: "Link \<Rightarrow> bool" where
  "link_stream x \<longleftrightarrow> (\<exists>lost. (\<not> ss_closing (lk_session x) \<longrightarrow> lost = [])
     \<and> stream_of (lk_sent x) = stream_of (lk_received x) @ pending (lk_decoder x) @ lk_wire x
         @ unsent (lk_writer x) @ concat (ss_outbound (lk_session x)) @ lost)"

definition link_inv :: "SessionOptions \<Rightarrow> Link \<Rightarrow> bool" where
  "link_inv cfg x \<longleftrightarrow> session_wf (lk_session x) \<and> ss_options (lk_session x) = cfg
     \<and> wt_offset (lk_writer x) \<le> length (wt_frame (lk_writer x))
     \<and> decoder_wf (lk_decoder x) \<and> fd_max_frame_size (lk_decoder x) = so_max_frame_size cfg
     \<and> fd_expected_version (lk_decoder x) = so_protocol_version cfg
     \<and> frame_parser (so_max_frame_size cfg) (so_protocol_version cfg) (pending (lk_decoder x)) = None
     \<and> link_stream x
     \<and> (\<forall>f \<in> set (lk_received x). acceptable (so_max_frame_size cfg) (so_protocol_version cfg) f
          \<and> sealed f = f)
     \<and> \<not> lk_violation x"

text \<open>What a session operation may do to the queue when nothing else moves.\<close>

lemma link_stream_session:
  assumes "link_stream x" and "ss_outbound s = ss_outbound (lk_session x)"
    and "ss_closing (lk_session x) \<longrightarrow> ss_closing s"
  shows "link_stream (x\<lparr>lk_session := s\<rparr>)"
  using assms unfolding link_stream_def by auto

lemma link_stream_cleared:
  assumes "link_stream x" and "ss_outbound s = []" and "ss_closing s"
  shows "link_stream (x\<lparr>lk_session := s\<rparr>)"
  using assms unfolding link_stream_def by auto

lemma link_inv_new: "link_inv cfg (new_link cfg)"
  by (simp add: link_inv_def new_link_def link_stream_def new_session_def session_wf_def
      new_writer_def unsent_def frame_parser_def parse_frame_def)

lemma enqueue_options [simp]: "ss_options (fst (enqueue f s)) = ss_options s"
  by (auto simp: enqueue_def drop_frame_def split: sum.splits)

lemma link_inv_send:
  assumes "link_inv cfg x" and "enqueue f (lk_session x) = (s, accepted)"
  shows "link_inv cfg (x\<lparr>lk_session := s, lk_sent := lk_sent x @ (if accepted then [f] else [])\<rparr>)"
proof -
  have wf: "session_wf s" "ss_options s = ss_options (lk_session x)"
    using assms session_wf_enqueue [of "lk_session x" f] enqueue_options [of f "lk_session x"]
    by (auto simp: link_inv_def)
  show ?thesis
  proof (cases accepted)
    case True
    then show ?thesis
      using assms wf unfolding link_inv_def link_stream_def by (auto simp: enqueue_accepted)
  next
    case False
    then have "s = drop_frame (lk_session x)" using assms(2) enqueue_refused by simp
    then show ?thesis
      using assms wf False unfolding link_inv_def link_stream_def by (auto simp: drop_frame_def)
  qed
qed

lemma link_inv_fetch:
  assumes "link_inv cfg x" and "writer_fetch (lk_session x) (lk_writer x) = Some (s, t)"
  shows "link_inv cfg (x\<lparr>lk_session := s, lk_writer := t\<rparr>)"
proof -
  have "session_wf s" using assms session_wf_fetch unfolding link_inv_def by blast
  then show ?thesis
    using assms unfolding link_inv_def link_stream_def
    by (cases "ss_outbound (lk_session x)") (auto simp: writer_fetch_def unsent_def split: if_splits)
qed

lemma link_inv_send_bytes:
  assumes "link_inv cfg x" and n: "n \<le> length (unsent (lk_writer x))"
    and "writer_wrote result n (lk_session x) (lk_writer x) = (s, t, finished)"
  shows "link_inv cfg (x\<lparr>lk_session := s, lk_writer := t,
           lk_wire := lk_wire x @ take n (unsent (lk_writer x))\<rparr>)"
proof -
  have wf: "session_wf s"
    using assms session_wf_wrote [of "lk_session x" result n "lk_writer x"]
    by (simp add: link_inv_def)
  have t: "t = (lk_writer x)\<lparr>wt_offset := wt_offset (lk_writer x) + n\<rparr>"
    and s: "ss_options s = ss_options (lk_session x)"
      "ss_outbound s = ss_outbound (lk_session x) \<and> ss_closing s = ss_closing (lk_session x)
       \<or> ss_outbound s = [] \<and> ss_closing s"
    using assms(3)
    by (auto simp: writer_wrote_def Let_def close_locked_def note_protocol_violation_def
        split: IoResult.splits if_splits)
  have bytes: "take n (unsent (lk_writer x)) @ unsent t = unsent (lk_writer x)"
    using append_take_drop_id [of n "unsent (lk_writer x)"] by (simp add: t unsent_def add.commute)
  let ?y = "x\<lparr>lk_writer := t, lk_wire := lk_wire x @ take n (unsent (lk_writer x))\<rparr>"
  have "link_stream ?y"
    using assms(1) bytes unfolding link_inv_def link_stream_def
    by simp (metis append_assoc)
  then have "link_stream (?y\<lparr>lk_session := s\<rparr>)"
    using s(2) link_stream_session [of ?y s] link_stream_cleared [of ?y s] by auto
  then show ?thesis
    using assms(1) wf s(1) n unfolding link_inv_def
    by (simp add: t unsent_def link_stream_def le_diff_conv2 add.commute)
qed

lemma link_inv_close:
  "link_inv cfg x \<Longrightarrow> link_inv cfg (x\<lparr>lk_session := request_close (lk_session x)\<rparr>)"
  using link_stream_cleared [of x "request_close (lk_session x)"]
  unfolding link_inv_def by (simp add: request_close_def session_wf_def Let_def)

lemma link_inv_deliver:
  assumes inv: "link_inv cfg x" and wire: "lk_wire x = data @ rest"
    and sent: "\<forall>f \<in> set (lk_sent x). acceptable (so_max_frame_size cfg) (so_protocol_version cfg) f"
  shows "link_inv cfg (deliver data (x\<lparr>lk_wire := rest\<rparr>))"
proof -
  let ?m = "so_max_frame_size cfg" and ?v = "so_protocol_version cfg"
  let ?p = "frame_parser ?m ?v" and ?d = "decoder_append data (lk_decoder x)"
  have d: "decoder_wf ?d" "fd_max_frame_size ?d = ?m" "fd_expected_version ?d = ?v"
    and pend: "pending ?d = pending (lk_decoder x) @ data"
    using inv by (simp_all add: link_inv_def)
  obtain lost where lost: "\<not> ss_closing (lk_session x) \<longrightarrow> lost = []"
    "stream_of (lk_sent x) = stream_of (lk_received x) @ pending ?d @ rest
       @ unsent (lk_writer x) @ concat (ss_outbound (lk_session x)) @ lost"
    using inv wire pend unfolding link_inv_def link_stream_def by auto
  have received: "\<And>f. f \<in> set (lk_received x) \<Longrightarrow> acceptable ?m ?v f \<and> sealed f = f"
    using inv by (simp add: link_inv_def)
  have no_violation: "parse_frame ?m ?v q \<noteq> Violation status"
    if q: "pending ?d = stream_of gs @ q" "\<forall>g \<in> set gs. acceptable ?m ?v g \<and> sealed g = g" for gs q status
  proof -
    have "stream_of (lk_sent x) = stream_of (lk_received x @ gs) @ q @ rest
        @ unsent (lk_writer x) @ concat (ss_outbound (lk_session x)) @ lost"
      using lost(2) q(1) by simp
    moreover have "\<forall>g \<in> set (lk_received x @ gs). acceptable ?m ?v g \<and> sealed g = g"
      using received q(2) by auto
    ultimately obtain ys where "q @ rest @ unsent (lk_writer x)
        @ concat (ss_outbound (lk_session x)) @ lost = stream_of ys" "\<forall>f \<in> set ys. acceptable ?m ?v f"
      by (rule stream_split [OF _ sent])
    then show ?thesis by (rule stream_never_violates)
  qed
  have "\<exists>d'. reader_drain (\<lambda>f fs. fs @ [f]) (\<lambda>_. False) ?d (lk_received x)
      = (d', lk_received x @ fst (drain_all ?p (pending ?d)), Waiting)
    \<and> decoder_wf d' \<and> fd_max_frame_size d' = ?m \<and> fd_expected_version d' = ?v
    \<and> pending d' = snd (drain_all ?p (pending ?d))"
    by (rule reader_drain_spec [OF d no_violation])
  then obtain d' where drained: "reader_drain (\<lambda>f fs. fs @ [f]) (\<lambda>_. False) ?d (lk_received x)
      = (d', lk_received x @ fst (drain_all ?p (pending ?d)), Waiting)"
    "decoder_wf d'" "fd_max_frame_size d' = ?m" "fd_expected_version d' = ?v"
    "pending d' = snd (drain_all ?p (pending ?d))"
    by (elim exE conjE)
  obtain gs left where gs: "drain_all ?p (pending ?d) = (gs, left)" by (rule prod.exhaust)
  have split: "pending ?d = stream_of gs @ left \<and> (\<forall>f \<in> set gs. acceptable ?m ?v f \<and> sealed f = f)"
    by (rule frame_stream.drain_all_sound [OF _ gs]) (simp add: frame_parser_Some)
  have "?p left = None" by (rule frame_stream.drain_all_stuck [OF gs])
  then show ?thesis
    using inv drained split received lost gs
    unfolding link_inv_def link_stream_def deliver_def reader_read_def by auto
qed

lemma link_reaches_inv:
  assumes "link_reaches (new_link cfg) y"
    and "\<forall>f \<in> set (lk_sent y). acceptable (so_max_frame_size cfg) (so_protocol_version cfg) f"
  shows "link_inv cfg y"
  using assms
proof (induction rule: rtranclp_induct)
  case base
  show ?case by (rule link_inv_new)
next
  case (step y z)
  have sent: "set (lk_sent y) \<subseteq> set (lk_sent z)"
    using step.hyps(2) by (auto elim!: link_stepE simp: deliver_def split: prod.splits)
  then have sent: "\<forall>f \<in> set (lk_sent y). acceptable (so_max_frame_size cfg) (so_protocol_version cfg) f"
    using step.prems by auto
  note inv = step.IH [OF this]
  from step.hyps(2) show ?case
  proof (rule link_stepE)
    fix f s accepted
    assume "z = y\<lparr>lk_session := s, lk_sent := lk_sent y @ (if accepted then [f] else [])\<rparr>"
      and "enqueue f (lk_session y) = (s, accepted)"
    then show ?thesis using link_inv_send [OF inv] by (simp only:)
  next
    fix s t assume "z = y\<lparr>lk_session := s, lk_writer := t\<rparr>"
      and "writer_fetch (lk_session y) (lk_writer y) = Some (s, t)"
    then show ?thesis using link_inv_fetch [OF inv] by (simp only:)
  next
    fix n result s t finished
    assume "z = y\<lparr>lk_session := s, lk_writer := t, lk_wire := lk_wire y @ take n (unsent (lk_writer y))\<rparr>"
      and "n \<le> length (unsent (lk_writer y))"
      and "writer_wrote result n (lk_session y) (lk_writer y) = (s, t, finished)"
    then show ?thesis using link_inv_send_bytes [OF inv] by (simp only:)
  next
    fix data rest assume "z = deliver data (y\<lparr>lk_wire := rest\<rparr>)" and "lk_wire y = data @ rest"
    then show ?thesis using link_inv_deliver [OF inv _ sent] by (simp only:)
  next
    assume "z = y\<lparr>lk_session := request_close (lk_session y)\<rparr>"
    then show ?thesis using link_inv_close [OF inv] by (simp only:)
  qed
qed

lemma link_delivers:
  assumes "link_inv cfg x"
    and "\<forall>f \<in> set (lk_sent x). acceptable (so_max_frame_size cfg) (so_protocol_version cfg) f"
  shows "\<exists>hs. map sealed (lk_sent x) = lk_received x @ map sealed hs
    \<and> (\<not> ss_closing (lk_session x) \<longrightarrow> stream_of hs = pending (lk_decoder x) @ lk_wire x
         @ unsent (lk_writer x) @ concat (ss_outbound (lk_session x)))"
proof -
  obtain lost where lost: "\<not> ss_closing (lk_session x) \<longrightarrow> lost = []"
    "stream_of (lk_sent x) = stream_of (lk_received x) @ pending (lk_decoder x) @ lk_wire x
       @ unsent (lk_writer x) @ concat (ss_outbound (lk_session x)) @ lost"
    using assms(1) unfolding link_inv_def link_stream_def by blast
  obtain hs where "map sealed (lk_sent x) = lk_received x @ map sealed hs"
    "pending (lk_decoder x) @ lk_wire x @ unsent (lk_writer x)
       @ concat (ss_outbound (lk_session x)) @ lost = stream_of hs"
    by (rule stream_split [OF lost(2) assms(2)]) (use assms(1) in \<open>simp_all add: link_inv_def\<close>)
  with lost(1) show ?thesis by (intro exI [of _ hs]) auto
qed

text \<open>Once nothing is in flight, everything sent has been received.\<close>

lemma link_drained:
  assumes "link_inv cfg x"
    and "\<forall>f \<in> set (lk_sent x). acceptable (so_max_frame_size cfg) (so_protocol_version cfg) f"
    and "\<not> ss_closing (lk_session x)" and "lk_wire x = []" and "unsent (lk_writer x) = []"
    and "ss_outbound (lk_session x) = []"
  shows "lk_received x = map sealed (lk_sent x)"
proof -
  obtain hs where hs: "map sealed (lk_sent x) = lk_received x @ map sealed hs"
    "stream_of hs = pending (lk_decoder x)"
    using link_delivers [OF assms(1,2)] assms(3-6) by auto
  show ?thesis
  proof (cases hs)
    case Nil
    then show ?thesis using hs by simp
  next
    case (Cons h hs')
    let ?m = "so_max_frame_size cfg" and ?v = "so_protocol_version cfg"
    have "sealed h \<in> sealed ` set (lk_sent x)"
      using arg_cong [OF hs(1), of set] Cons by auto
    then obtain f where "f \<in> set (lk_sent x)" "sealed h = sealed f" by auto
    then have "acceptable ?m ?v h" using assms(2) by (metis acceptable_sealed)
    then have "frame_parser ?m ?v (pending (lk_decoder x)) = Some (sealed h, stream_of hs')"
      using parse_frame_encoded [of ?m ?v h] Cons hs(2) by (simp add: frame_parser_def flip: hs(2))
    then show ?thesis using assms(1) by (simp add: link_inv_def)
  qed
qed

end
