(* ===== verification/Wire_Messages.thy ===== *)
theory Wire_Messages
  imports Wire_Fields Frames
begin

section \<open>The messages of the protocol\<close>

text \<open>
  net/protocol.hpp and net/protocol.cpp: the payload of every message type, with its encoder
  and its decoder. Error codes and outcomes are cast without a check, so they are numbers
  here; query kinds and the request type of a result are checked.
\<close>

subsection \<open>Numbered enumerations\<close>

definition checked_number :: "(u16 \<Rightarrow> bool) \<Rightarrow> 'e list \<Rightarrow> string \<Rightarrow> 'e reader" where
  "checked_number known vals message = bind_get get_u16 (\<lambda>v.
     if \<not> known v then fail_get message else return_get (vals ! (unat v - 1)))"

lemma number_format:
  assumes codes: "map code vals = [1..<Suc (length vals)]" and vals: "\<And>x. x \<in> set vals"
    and small: "length vals < 2 ^ 16"
    and known: "\<And>v. known v \<longleftrightarrow> 1 \<le> unat v \<and> unat v \<le> length vals"
  shows "wire_format (\<lambda>x. put_u16 (of_nat (code x))) (checked_number known vals message) (\<lambda>_. True)"
  unfolding checked_number_def
proof (rule wire_format_checked [OF u16_format.wire_format_axioms])
  have nth: "code (vals ! i) = Suc i" if "i < length vals" for i
    using arg_cong [OF codes, of "\<lambda>xs. xs ! i"] that by (simp del: upt_Suc)
  fix x
  obtain i where i: "i < length vals" "x = vals ! i"
    using vals [of x] by (auto simp: in_set_conv_nth)
  have "unat (of_nat n :: u16) = n" if "n < 2 ^ 16" for n using that by (simp add: unat_of_nat)
  moreover have "code x = Suc i" using i nth by simp
  ultimately have "unat (of_nat (code x) :: u16) = Suc i" using i(1) small by (simp only:)
  with i show "True \<and> \<not> \<not> known (of_nat (code x))
      \<and> vals ! (unat (of_nat (code x) :: u16) - 1) = x" by (simp add: known)
next
  fix y :: u16 assume "\<not> \<not> known y"
  then have y: "1 \<le> unat y" "unat y - 1 < length vals" by (auto simp: known)
  then have "code (vals ! (unat y - 1)) = unat y"
    using arg_cong [OF codes, of "\<lambda>xs. xs ! (unat y - 1)"] by (simp del: upt_Suc)
  then show "True \<and> of_nat (code (vals ! (unat y - 1))) = y" by simp
qed

lemma length_message_type_values: "length message_type_values = 37"
  by (simp add: message_type_values_def)

interpretation message_type_format: wire_format "\<lambda>x. put_u16 (of_nat (message_type_code x))"
    "checked_number is_known_message_type message_type_values message" "\<lambda>_. True" for message
proof (rule number_format)
  show "x \<in> set message_type_values" for x by (cases x) (simp_all add: message_type_values_def)
  show "map message_type_code message_type_values = [1..<Suc (length message_type_values)]"
    by (simp add: message_type_values_def upt_rec)
qed (simp_all add: length_message_type_values is_known_message_type_def word_le_nat_alt)

lemmas [struct_fields] = struct_Cons_any [OF message_type_format.wire_format_axioms]

datatype QueryKind =
    Version
  | Summary
  | Agents
  | Work
  | Assignments
  | Leases
  | Fenced
  | Invariants
  | Fairness
  | Capabilities
  | Queues
  | Policy

primrec query_kind_code :: "QueryKind \<Rightarrow> nat" where
  "query_kind_code QueryKind.Version = 1"
| "query_kind_code QueryKind.Summary = 2"
| "query_kind_code QueryKind.Agents = 3"
| "query_kind_code QueryKind.Work = 4"
| "query_kind_code QueryKind.Assignments = 5"
| "query_kind_code QueryKind.Leases = 6"
| "query_kind_code QueryKind.Fenced = 7"
| "query_kind_code QueryKind.Invariants = 8"
| "query_kind_code QueryKind.Fairness = 9"
| "query_kind_code QueryKind.Capabilities = 10"
| "query_kind_code QueryKind.Queues = 11"
| "query_kind_code QueryKind.Policy = 12"

primrec query_kind_to_string :: "QueryKind \<Rightarrow> string" where
  "query_kind_to_string QueryKind.Version = ''VERSION''"
| "query_kind_to_string QueryKind.Summary = ''SUMMARY''"
| "query_kind_to_string QueryKind.Agents = ''AGENTS''"
| "query_kind_to_string QueryKind.Work = ''WORK''"
| "query_kind_to_string QueryKind.Assignments = ''ASSIGNMENTS''"
| "query_kind_to_string QueryKind.Leases = ''LEASES''"
| "query_kind_to_string QueryKind.Fenced = ''FENCED''"
| "query_kind_to_string QueryKind.Invariants = ''INVARIANTS''"
| "query_kind_to_string QueryKind.Fairness = ''FAIRNESS''"
| "query_kind_to_string QueryKind.Capabilities = ''CAPABILITIES''"
| "query_kind_to_string QueryKind.Queues = ''QUEUES''"
| "query_kind_to_string QueryKind.Policy = ''POLICY''"

definition query_kind_values :: "QueryKind list" where
  "query_kind_values = [QueryKind.Version, QueryKind.Summary, QueryKind.Agents, QueryKind.Work,
     QueryKind.Assignments, QueryKind.Leases, QueryKind.Fenced, QueryKind.Invariants,
     QueryKind.Fairness, QueryKind.Capabilities, QueryKind.Queues, QueryKind.Policy]"

definition is_known_query_kind :: "u16 \<Rightarrow> bool" where
  "is_known_query_kind v \<longleftrightarrow>
     v \<ge> of_nat (query_kind_code QueryKind.Version) \<and> v \<le> of_nat (query_kind_code QueryKind.Policy)"

lemma length_query_kind_values: "length query_kind_values = 12"
  by (simp add: query_kind_values_def)

interpretation query_kind_format: wire_format "\<lambda>x. put_u16 (of_nat (query_kind_code x))"
    "checked_number is_known_query_kind query_kind_values message" "\<lambda>_. True" for message
proof (rule number_format)
  show "x \<in> set query_kind_values" for x by (cases x) (simp_all add: query_kind_values_def)
  show "map query_kind_code query_kind_values = [1..<Suc (length query_kind_values)]"
    by (simp add: query_kind_values_def upt_rec)
qed (simp_all add: length_query_kind_values is_known_query_kind_def word_le_nat_alt)

lemmas [struct_fields] = struct_Cons_any [OF query_kind_format.wire_format_axioms]

subsection \<open>Payloads\<close>

record HelloMessage =
  hm_protocol_version :: u32
  hm_role :: string
  hm_build :: string
  hm_nonce :: u64

definition default_hello :: HelloMessage where
  "default_hello =
     \<lparr> hm_protocol_version = 0, hm_role = [], hm_build = [], hm_nonce = 0 \<rparr>"

definition encode_hello :: "ResourceLimits \<Rightarrow> HelloMessage \<Rightarrow> writer" where
  "encode_hello l m = seq_puts
     [put_u32 (hm_protocol_version m), put_string (hm_role m) (max_identifier_size l),
      put_string (hm_build m) (max_string_size l), put_u64 (hm_nonce m)]"

definition decode_hello :: "ResourceLimits \<Rightarrow> HelloMessage reader" where
  "decode_hello l = seq_gets
     [into get_u32 (\<lambda>v m. m\<lparr>hm_protocol_version := v\<rparr>),
      into (get_string (max_identifier_size l)) (\<lambda>v m. m\<lparr>hm_role := v\<rparr>),
      into (get_string (max_string_size l)) (\<lambda>v m. m\<lparr>hm_build := v\<rparr>),
      into get_u64 (\<lambda>v m. m\<lparr>hm_nonce := v\<rparr>)]
     default_hello"

definition hello_fits :: "ResourceLimits \<Rightarrow> HelloMessage \<Rightarrow> bool" where
  "hello_fits l m \<longleftrightarrow>
     length (hm_role m) \<le> unat (max_identifier_size l)
     \<and> length (hm_build m) \<le> unat (max_string_size l)"

interpretation hello_format: wire_format "encode_hello l" "decode_hello l"
    "hello_fits l" for l
  unfolding encode_hello_def [abs_def] decode_hello_def
  by (rule struct_fields struct_Nil | (simp add: hello_fits_def; fail))+
    (auto simp: hello_fits_def default_hello_def intro!: HelloMessage.equality)

lemmas [struct_fields] = struct_Cons [OF hello_format.wire_format_axioms]

record RegisterAgentMessage =
  rm_descriptor :: AgentDescriptor

definition default_register :: RegisterAgentMessage where
  "default_register =
     \<lparr> rm_descriptor = default_descriptor \<rparr>"

definition encode_register :: "ResourceLimits \<Rightarrow> RegisterAgentMessage \<Rightarrow> writer" where
  "encode_register l m = seq_puts
     [encode_descriptor l (rm_descriptor m)]"

definition decode_register :: "ResourceLimits \<Rightarrow> RegisterAgentMessage reader" where
  "decode_register l = seq_gets
     [into (decode_descriptor l) (\<lambda>v m. m\<lparr>rm_descriptor := v\<rparr>)]
     default_register"

definition register_fits :: "ResourceLimits \<Rightarrow> RegisterAgentMessage \<Rightarrow> bool" where
  "register_fits l m \<longleftrightarrow>
     descriptor_fits l (rm_descriptor m)"

interpretation register_format: wire_format "encode_register l" "decode_register l"
    "register_fits l" for l
  unfolding encode_register_def [abs_def] decode_register_def
  by (rule struct_fields struct_Nil | (simp add: register_fits_def; fail))+
    (auto simp: register_fits_def default_register_def intro!: RegisterAgentMessage.equality)

lemmas [struct_fields] = struct_Cons [OF register_format.wire_format_axioms]

record PublishCapabilitiesMessage =
  pcm_agent :: u64
  pcm_boot :: Hash128
  pcm_profile :: CapabilityProfile

definition default_publish_capabilities :: PublishCapabilitiesMessage where
  "default_publish_capabilities =
     \<lparr> pcm_agent = 0, pcm_boot = hash128_zero, pcm_profile = default_profile \<rparr>"

definition encode_publish_capabilities :: "ResourceLimits \<Rightarrow> PublishCapabilitiesMessage \<Rightarrow> writer" where
  "encode_publish_capabilities l m = seq_puts
     [put_u64 (pcm_agent m), put_hash128 (pcm_boot m), encode_profile l (pcm_profile m)]"

definition decode_publish_capabilities :: "ResourceLimits \<Rightarrow> PublishCapabilitiesMessage reader" where
  "decode_publish_capabilities l = seq_gets
     [into get_u64 (\<lambda>v m. m\<lparr>pcm_agent := v\<rparr>),
      into get_hash128 (\<lambda>v m. m\<lparr>pcm_boot := v\<rparr>),
      into (decode_profile l) (\<lambda>v m. m\<lparr>pcm_profile := v\<rparr>)]
     default_publish_capabilities"

definition publish_capabilities_fits :: "ResourceLimits \<Rightarrow> PublishCapabilitiesMessage \<Rightarrow> bool" where
  "publish_capabilities_fits l m \<longleftrightarrow>
     profile_fits l (pcm_profile m)"

interpretation publish_capabilities_format: wire_format "encode_publish_capabilities l" "decode_publish_capabilities l"
    "publish_capabilities_fits l" for l
  unfolding encode_publish_capabilities_def [abs_def] decode_publish_capabilities_def
  by (rule struct_fields struct_Nil | (simp add: publish_capabilities_fits_def; fail))+
    (auto simp: publish_capabilities_fits_def default_publish_capabilities_def intro!: PublishCapabilitiesMessage.equality)

lemmas [struct_fields] = struct_Cons [OF publish_capabilities_format.wire_format_axioms]

record PublishHealthMessage =
  phm_agent :: u64
  phm_boot :: Hash128
  phm_observation :: HealthObservation

definition default_publish_health :: PublishHealthMessage where
  "default_publish_health =
     \<lparr> phm_agent = 0, phm_boot = hash128_zero, phm_observation = default_health \<rparr>"

definition encode_publish_health :: "ResourceLimits \<Rightarrow> PublishHealthMessage \<Rightarrow> writer" where
  "encode_publish_health l m = seq_puts
     [put_u64 (phm_agent m), put_hash128 (phm_boot m), encode_health l (phm_observation m)]"

definition decode_publish_health :: "ResourceLimits \<Rightarrow> PublishHealthMessage reader" where
  "decode_publish_health l = seq_gets
     [into get_u64 (\<lambda>v m. m\<lparr>phm_agent := v\<rparr>),
      into get_hash128 (\<lambda>v m. m\<lparr>phm_boot := v\<rparr>),
      into (decode_health l) (\<lambda>v m. m\<lparr>phm_observation := v\<rparr>)]
     default_publish_health"

definition publish_health_fits :: "ResourceLimits \<Rightarrow> PublishHealthMessage \<Rightarrow> bool" where
  "publish_health_fits l m \<longleftrightarrow>
     health_fits l (phm_observation m)"

interpretation publish_health_format: wire_format "encode_publish_health l" "decode_publish_health l"
    "publish_health_fits l" for l
  unfolding encode_publish_health_def [abs_def] decode_publish_health_def
  by (rule struct_fields struct_Nil | (simp add: publish_health_fits_def; fail))+
    (auto simp: publish_health_fits_def default_publish_health_def intro!: PublishHealthMessage.equality)

lemmas [struct_fields] = struct_Cons [OF publish_health_format.wire_format_axioms]

record PublishAvailabilityMessage =
  pam_agent :: u64
  pam_boot :: Hash128
  pam_observation :: AvailabilityObservation

definition default_publish_availability :: PublishAvailabilityMessage where
  "default_publish_availability =
     \<lparr> pam_agent = 0, pam_boot = hash128_zero, pam_observation = default_availability \<rparr>"

definition encode_publish_availability :: "ResourceLimits \<Rightarrow> PublishAvailabilityMessage \<Rightarrow> writer" where
  "encode_publish_availability l m = seq_puts
     [put_u64 (pam_agent m), put_hash128 (pam_boot m), encode_availability l (pam_observation m)]"

definition decode_publish_availability :: "ResourceLimits \<Rightarrow> PublishAvailabilityMessage reader" where
  "decode_publish_availability l = seq_gets
     [into get_u64 (\<lambda>v m. m\<lparr>pam_agent := v\<rparr>),
      into get_hash128 (\<lambda>v m. m\<lparr>pam_boot := v\<rparr>),
      into (decode_availability l) (\<lambda>v m. m\<lparr>pam_observation := v\<rparr>)]
     default_publish_availability"

interpretation publish_availability_format: wire_format "encode_publish_availability l" "decode_publish_availability l"
    "(\<lambda>_. True)" for l
  unfolding encode_publish_availability_def [abs_def] decode_publish_availability_def
  by (rule struct_fields struct_Nil)+
    (auto simp: default_publish_availability_def intro!: PublishAvailabilityMessage.equality)

lemmas [struct_fields] = struct_Cons_any [OF publish_availability_format.wire_format_axioms]

record PublishLoadMessage =
  plm_agent :: u64
  plm_boot :: Hash128
  plm_observation :: LoadObservation

definition default_publish_load :: PublishLoadMessage where
  "default_publish_load =
     \<lparr> plm_agent = 0, plm_boot = hash128_zero, plm_observation = default_load \<rparr>"

definition encode_publish_load :: "ResourceLimits \<Rightarrow> PublishLoadMessage \<Rightarrow> writer" where
  "encode_publish_load l m = seq_puts
     [put_u64 (plm_agent m), put_hash128 (plm_boot m), encode_load l (plm_observation m)]"

definition decode_publish_load :: "ResourceLimits \<Rightarrow> PublishLoadMessage reader" where
  "decode_publish_load l = seq_gets
     [into get_u64 (\<lambda>v m. m\<lparr>plm_agent := v\<rparr>),
      into get_hash128 (\<lambda>v m. m\<lparr>plm_boot := v\<rparr>),
      into (decode_load l) (\<lambda>v m. m\<lparr>plm_observation := v\<rparr>)]
     default_publish_load"

definition publish_load_fits :: "ResourceLimits \<Rightarrow> PublishLoadMessage \<Rightarrow> bool" where
  "publish_load_fits l m \<longleftrightarrow>
     load_fits l (plm_observation m)"

interpretation publish_load_format: wire_format "encode_publish_load l" "decode_publish_load l"
    "publish_load_fits l" for l
  unfolding encode_publish_load_def [abs_def] decode_publish_load_def
  by (rule struct_fields struct_Nil | (simp add: publish_load_fits_def; fail))+
    (auto simp: publish_load_fits_def default_publish_load_def intro!: PublishLoadMessage.equality)

lemmas [struct_fields] = struct_Cons [OF publish_load_format.wire_format_axioms]

record HeartbeatMessage =
  hbm_agent :: u64
  hbm_boot :: Hash128
  hbm_registration_generation :: u64

definition default_heartbeat :: HeartbeatMessage where
  "default_heartbeat =
     \<lparr> hbm_agent = 0, hbm_boot = hash128_zero, hbm_registration_generation = 0 \<rparr>"

definition encode_heartbeat :: "ResourceLimits \<Rightarrow> HeartbeatMessage \<Rightarrow> writer" where
  "encode_heartbeat l m = seq_puts
     [put_u64 (hbm_agent m), put_hash128 (hbm_boot m), put_u64 (hbm_registration_generation m)]"

definition decode_heartbeat :: "ResourceLimits \<Rightarrow> HeartbeatMessage reader" where
  "decode_heartbeat l = seq_gets
     [into get_u64 (\<lambda>v m. m\<lparr>hbm_agent := v\<rparr>),
      into get_hash128 (\<lambda>v m. m\<lparr>hbm_boot := v\<rparr>),
      into get_u64 (\<lambda>v m. m\<lparr>hbm_registration_generation := v\<rparr>)]
     default_heartbeat"

interpretation heartbeat_format: wire_format "encode_heartbeat l" "decode_heartbeat l"
    "(\<lambda>_. True)" for l
  unfolding encode_heartbeat_def [abs_def] decode_heartbeat_def
  by (rule struct_fields struct_Nil)+
    (auto simp: default_heartbeat_def intro!: HeartbeatMessage.equality)

lemmas [struct_fields] = struct_Cons_any [OF heartbeat_format.wire_format_axioms]

record SubmitWorkMessage =
  sm_request :: WorkRequest

definition default_submit :: SubmitWorkMessage where
  "default_submit =
     \<lparr> sm_request = default_work_request \<rparr>"

definition encode_submit :: "ResourceLimits \<Rightarrow> SubmitWorkMessage \<Rightarrow> writer" where
  "encode_submit l m = seq_puts
     [encode_work_request l (sm_request m)]"

definition decode_submit :: "ResourceLimits \<Rightarrow> SubmitWorkMessage reader" where
  "decode_submit l = seq_gets
     [into (decode_work_request l) (\<lambda>v m. m\<lparr>sm_request := v\<rparr>)]
     default_submit"

definition submit_fits :: "ResourceLimits \<Rightarrow> SubmitWorkMessage \<Rightarrow> bool" where
  "submit_fits l m \<longleftrightarrow>
     work_request_fits l (sm_request m)"

interpretation submit_format: wire_format "encode_submit l" "decode_submit l"
    "submit_fits l" for l
  unfolding encode_submit_def [abs_def] decode_submit_def
  by (rule struct_fields struct_Nil | (simp add: submit_fits_def; fail))+
    (auto simp: submit_fits_def default_submit_def intro!: SubmitWorkMessage.equality)

lemmas [struct_fields] = struct_Cons [OF submit_format.wire_format_axioms]

record CancelWorkMessage =
  cm_work :: u64
  cm_generation :: u64
  cm_reason :: string

definition default_cancel :: CancelWorkMessage where
  "default_cancel =
     \<lparr> cm_work = 0, cm_generation = 0, cm_reason = [] \<rparr>"

definition encode_cancel :: "ResourceLimits \<Rightarrow> CancelWorkMessage \<Rightarrow> writer" where
  "encode_cancel l m = seq_puts
     [put_u64 (cm_work m), put_u64 (cm_generation m), put_string (cm_reason m) (max_string_size l)]"

definition decode_cancel :: "ResourceLimits \<Rightarrow> CancelWorkMessage reader" where
  "decode_cancel l = seq_gets
     [into get_u64 (\<lambda>v m. m\<lparr>cm_work := v\<rparr>),
      into get_u64 (\<lambda>v m. m\<lparr>cm_generation := v\<rparr>),
      into (get_string (max_string_size l)) (\<lambda>v m. m\<lparr>cm_reason := v\<rparr>)]
     default_cancel"

definition cancel_fits :: "ResourceLimits \<Rightarrow> CancelWorkMessage \<Rightarrow> bool" where
  "cancel_fits l m \<longleftrightarrow>
     length (cm_reason m) \<le> unat (max_string_size l)"

interpretation cancel_format: wire_format "encode_cancel l" "decode_cancel l"
    "cancel_fits l" for l
  unfolding encode_cancel_def [abs_def] decode_cancel_def
  by (rule struct_fields struct_Nil | (simp add: cancel_fits_def; fail))+
    (auto simp: cancel_fits_def default_cancel_def intro!: CancelWorkMessage.equality)

lemmas [struct_fields] = struct_Cons [OF cancel_format.wire_format_axioms]

record SupersedeWorkMessage =
  spm_work :: u64
  spm_expected_generation :: u64
  spm_replacement :: WorkRequest

definition default_supersede :: SupersedeWorkMessage where
  "default_supersede =
     \<lparr> spm_work = 0, spm_expected_generation = 0, spm_replacement = default_work_request \<rparr>"

definition encode_supersede :: "ResourceLimits \<Rightarrow> SupersedeWorkMessage \<Rightarrow> writer" where
  "encode_supersede l m = seq_puts
     [put_u64 (spm_work m), put_u64 (spm_expected_generation m),
      encode_work_request l (spm_replacement m)]"

definition decode_supersede :: "ResourceLimits \<Rightarrow> SupersedeWorkMessage reader" where
  "decode_supersede l = seq_gets
     [into get_u64 (\<lambda>v m. m\<lparr>spm_work := v\<rparr>),
      into get_u64 (\<lambda>v m. m\<lparr>spm_expected_generation := v\<rparr>),
      into (decode_work_request l) (\<lambda>v m. m\<lparr>spm_replacement := v\<rparr>)]
     default_supersede"

definition supersede_fits :: "ResourceLimits \<Rightarrow> SupersedeWorkMessage \<Rightarrow> bool" where
  "supersede_fits l m \<longleftrightarrow>
     work_request_fits l (spm_replacement m)"

interpretation supersede_format: wire_format "encode_supersede l" "decode_supersede l"
    "supersede_fits l" for l
  unfolding encode_supersede_def [abs_def] decode_supersede_def
  by (rule struct_fields struct_Nil | (simp add: supersede_fits_def; fail))+
    (auto simp: supersede_fits_def default_supersede_def intro!: SupersedeWorkMessage.equality)

lemmas [struct_fields] = struct_Cons [OF supersede_format.wire_format_axioms]

record AssignWorkMessage =
  awm_binding :: AssignmentBinding
  awm_kind :: string
  awm_payload_ref :: string

definition default_assign :: AssignWorkMessage where
  "default_assign =
     \<lparr> awm_binding = default_binding, awm_kind = [], awm_payload_ref = [] \<rparr>"

definition encode_assign :: "ResourceLimits \<Rightarrow> AssignWorkMessage \<Rightarrow> writer" where
  "encode_assign l m = seq_puts
     [encode_binding l (awm_binding m), put_string (awm_kind m) (max_identifier_size l),
      put_string (awm_payload_ref m) (max_string_size l)]"

definition decode_assign :: "ResourceLimits \<Rightarrow> AssignWorkMessage reader" where
  "decode_assign l = seq_gets
     [into (decode_binding l) (\<lambda>v m. m\<lparr>awm_binding := v\<rparr>),
      into (get_string (max_identifier_size l)) (\<lambda>v m. m\<lparr>awm_kind := v\<rparr>),
      into (get_string (max_string_size l)) (\<lambda>v m. m\<lparr>awm_payload_ref := v\<rparr>)]
     default_assign"

definition assign_fits :: "ResourceLimits \<Rightarrow> AssignWorkMessage \<Rightarrow> bool" where
  "assign_fits l m \<longleftrightarrow>
     length (awm_kind m) \<le> unat (max_identifier_size l)
     \<and> length (awm_payload_ref m) \<le> unat (max_string_size l)"

interpretation assign_format: wire_format "encode_assign l" "decode_assign l"
    "assign_fits l" for l
  unfolding encode_assign_def [abs_def] decode_assign_def
  by (rule struct_fields struct_Nil | (simp add: assign_fits_def; fail))+
    (auto simp: assign_fits_def default_assign_def intro!: AssignWorkMessage.equality)

lemmas [struct_fields] = struct_Cons [OF assign_format.wire_format_axioms]

record AssignmentAckMessage =
  akm_binding :: AssignmentBinding
  akm_accepted :: bool
  akm_reason :: string

definition default_ack :: AssignmentAckMessage where
  "default_ack =
     \<lparr> akm_binding = default_binding, akm_accepted = True, akm_reason = [] \<rparr>"

definition encode_ack :: "ResourceLimits \<Rightarrow> AssignmentAckMessage \<Rightarrow> writer" where
  "encode_ack l m = seq_puts
     [encode_binding l (akm_binding m), put_bool (akm_accepted m),
      put_string (akm_reason m) (max_string_size l)]"

definition decode_ack :: "ResourceLimits \<Rightarrow> AssignmentAckMessage reader" where
  "decode_ack l = seq_gets
     [into (decode_binding l) (\<lambda>v m. m\<lparr>akm_binding := v\<rparr>),
      into get_bool (\<lambda>v m. m\<lparr>akm_accepted := v\<rparr>),
      into (get_string (max_string_size l)) (\<lambda>v m. m\<lparr>akm_reason := v\<rparr>)]
     default_ack"

definition ack_fits :: "ResourceLimits \<Rightarrow> AssignmentAckMessage \<Rightarrow> bool" where
  "ack_fits l m \<longleftrightarrow>
     length (akm_reason m) \<le> unat (max_string_size l)"

interpretation ack_format: wire_format "encode_ack l" "decode_ack l"
    "ack_fits l" for l
  unfolding encode_ack_def [abs_def] decode_ack_def
  by (rule struct_fields struct_Nil | (simp add: ack_fits_def; fail))+
    (auto simp: ack_fits_def default_ack_def intro!: AssignmentAckMessage.equality)

lemmas [struct_fields] = struct_Cons [OF ack_format.wire_format_axioms]

record AssignmentObservationMessage =
  aom_binding :: AssignmentBinding
  aom_reason :: string

definition default_observation :: AssignmentObservationMessage where
  "default_observation =
     \<lparr> aom_binding = default_binding, aom_reason = [] \<rparr>"

definition encode_observation :: "ResourceLimits \<Rightarrow> AssignmentObservationMessage \<Rightarrow> writer" where
  "encode_observation l m = seq_puts
     [encode_binding l (aom_binding m), put_string (aom_reason m) (max_string_size l)]"

definition decode_observation :: "ResourceLimits \<Rightarrow> AssignmentObservationMessage reader" where
  "decode_observation l = seq_gets
     [into (decode_binding l) (\<lambda>v m. m\<lparr>aom_binding := v\<rparr>),
      into (get_string (max_string_size l)) (\<lambda>v m. m\<lparr>aom_reason := v\<rparr>)]
     default_observation"

definition observation_fits :: "ResourceLimits \<Rightarrow> AssignmentObservationMessage \<Rightarrow> bool" where
  "observation_fits l m \<longleftrightarrow>
     length (aom_reason m) \<le> unat (max_string_size l)"

interpretation observation_format: wire_format "encode_observation l" "decode_observation l"
    "observation_fits l" for l
  unfolding encode_observation_def [abs_def] decode_observation_def
  by (rule struct_fields struct_Nil | (simp add: observation_fits_def; fail))+
    (auto simp: observation_fits_def default_observation_def intro!: AssignmentObservationMessage.equality)

lemmas [struct_fields] = struct_Cons [OF observation_format.wire_format_axioms]

record DrainAgentMessage =
  dam_agent :: u64
  dam_boot :: Hash128
  dam_force :: bool

definition default_drain :: DrainAgentMessage where
  "default_drain =
     \<lparr> dam_agent = 0, dam_boot = hash128_zero, dam_force = False \<rparr>"

definition encode_drain :: "ResourceLimits \<Rightarrow> DrainAgentMessage \<Rightarrow> writer" where
  "encode_drain l m = seq_puts
     [put_u64 (dam_agent m), put_hash128 (dam_boot m), put_bool (dam_force m)]"

definition decode_drain :: "ResourceLimits \<Rightarrow> DrainAgentMessage reader" where
  "decode_drain l = seq_gets
     [into get_u64 (\<lambda>v m. m\<lparr>dam_agent := v\<rparr>),
      into get_hash128 (\<lambda>v m. m\<lparr>dam_boot := v\<rparr>),
      into get_bool (\<lambda>v m. m\<lparr>dam_force := v\<rparr>)]
     default_drain"

interpretation drain_format: wire_format "encode_drain l" "decode_drain l"
    "(\<lambda>_. True)" for l
  unfolding encode_drain_def [abs_def] decode_drain_def
  by (rule struct_fields struct_Nil)+
    (auto simp: default_drain_def intro!: DrainAgentMessage.equality)

lemmas [struct_fields] = struct_Cons_any [OF drain_format.wire_format_axioms]

record DeregisterAgentMessage =
  dgm_agent :: u64
  dgm_boot :: Hash128
  dgm_force :: bool

definition default_deregister :: DeregisterAgentMessage where
  "default_deregister =
     \<lparr> dgm_agent = 0, dgm_boot = hash128_zero, dgm_force = False \<rparr>"

definition encode_deregister :: "ResourceLimits \<Rightarrow> DeregisterAgentMessage \<Rightarrow> writer" where
  "encode_deregister l m = seq_puts
     [put_u64 (dgm_agent m), put_hash128 (dgm_boot m), put_bool (dgm_force m)]"

definition decode_deregister :: "ResourceLimits \<Rightarrow> DeregisterAgentMessage reader" where
  "decode_deregister l = seq_gets
     [into get_u64 (\<lambda>v m. m\<lparr>dgm_agent := v\<rparr>),
      into get_hash128 (\<lambda>v m. m\<lparr>dgm_boot := v\<rparr>),
      into get_bool (\<lambda>v m. m\<lparr>dgm_force := v\<rparr>)]
     default_deregister"

interpretation deregister_format: wire_format "encode_deregister l" "decode_deregister l"
    "(\<lambda>_. True)" for l
  unfolding encode_deregister_def [abs_def] decode_deregister_def
  by (rule struct_fields struct_Nil)+
    (auto simp: default_deregister_def intro!: DeregisterAgentMessage.equality)

lemmas [struct_fields] = struct_Cons_any [OF deregister_format.wire_format_axioms]

record DispatchAssignmentMessage =
  dsm_assignment :: Hash128
  dsm_generation :: u64

definition default_dispatch :: DispatchAssignmentMessage where
  "default_dispatch =
     \<lparr> dsm_assignment = hash128_zero, dsm_generation = 0 \<rparr>"

definition encode_dispatch :: "ResourceLimits \<Rightarrow> DispatchAssignmentMessage \<Rightarrow> writer" where
  "encode_dispatch l m = seq_puts
     [put_hash128 (dsm_assignment m), put_u64 (dsm_generation m)]"

definition decode_dispatch :: "ResourceLimits \<Rightarrow> DispatchAssignmentMessage reader" where
  "decode_dispatch l = seq_gets
     [into get_hash128 (\<lambda>v m. m\<lparr>dsm_assignment := v\<rparr>),
      into get_u64 (\<lambda>v m. m\<lparr>dsm_generation := v\<rparr>)]
     default_dispatch"

interpretation dispatch_format: wire_format "encode_dispatch l" "decode_dispatch l"
    "(\<lambda>_. True)" for l
  unfolding encode_dispatch_def [abs_def] decode_dispatch_def
  by (rule struct_fields struct_Nil)+
    (auto simp: default_dispatch_def intro!: DispatchAssignmentMessage.equality)

lemmas [struct_fields] = struct_Cons_any [OF dispatch_format.wire_format_axioms]

record QueryMessage =
  qm_kind :: QueryKind
  qm_agent :: u64
  qm_boot :: Hash128
  qm_work :: u64
  qm_assignment :: Hash128

definition default_query :: QueryMessage where
  "default_query =
     \<lparr> qm_kind = QueryKind.Summary, qm_agent = 0, qm_boot = hash128_zero, qm_work = 0,
       qm_assignment = hash128_zero \<rparr>"

definition encode_query :: "ResourceLimits \<Rightarrow> QueryMessage \<Rightarrow> writer" where
  "encode_query l m = seq_puts
     [put_u16 (of_nat (query_kind_code (qm_kind m))), put_u64 (qm_agent m),
      put_hash128 (qm_boot m), put_u64 (qm_work m), put_hash128 (qm_assignment m)]"

definition decode_query :: "ResourceLimits \<Rightarrow> QueryMessage reader" where
  "decode_query l = seq_gets
     [into (checked_number is_known_query_kind query_kind_values
         ''query kind is unknown'')
        (\<lambda>v m. m\<lparr>qm_kind := v\<rparr>),
      into get_u64 (\<lambda>v m. m\<lparr>qm_agent := v\<rparr>),
      into get_hash128 (\<lambda>v m. m\<lparr>qm_boot := v\<rparr>),
      into get_u64 (\<lambda>v m. m\<lparr>qm_work := v\<rparr>),
      into get_hash128 (\<lambda>v m. m\<lparr>qm_assignment := v\<rparr>)]
     default_query"

interpretation query_format: wire_format "encode_query l" "decode_query l"
    "(\<lambda>_. True)" for l
  unfolding encode_query_def [abs_def] decode_query_def
  by (rule struct_fields struct_Nil)+
    (auto simp: default_query_def intro!: QueryMessage.equality)

lemmas [struct_fields] = struct_Cons_any [OF query_format.wire_format_axioms]

record QueryResultMessage =
  qrm_kind :: QueryKind
  qrm_json :: string

definition default_query_result :: QueryResultMessage where
  "default_query_result =
     \<lparr> qrm_kind = QueryKind.Summary, qrm_json = [] \<rparr>"

definition encode_query_result :: "ResourceLimits \<Rightarrow> QueryResultMessage \<Rightarrow> writer" where
  "encode_query_result l m = seq_puts
     [put_u16 (of_nat (query_kind_code (qrm_kind m))),
      put_string (qrm_json m) (max_query_result_bytes l)]"

definition decode_query_result :: "ResourceLimits \<Rightarrow> QueryResultMessage reader" where
  "decode_query_result l = seq_gets
     [into (checked_number is_known_query_kind query_kind_values
         ''query result kind is unknown'')
        (\<lambda>v m. m\<lparr>qrm_kind := v\<rparr>),
      into (get_string (max_query_result_bytes l)) (\<lambda>v m. m\<lparr>qrm_json := v\<rparr>)]
     default_query_result"

definition query_result_fits :: "ResourceLimits \<Rightarrow> QueryResultMessage \<Rightarrow> bool" where
  "query_result_fits l m \<longleftrightarrow>
     length (qrm_json m) \<le> unat (max_query_result_bytes l)"

interpretation query_result_format: wire_format "encode_query_result l" "decode_query_result l"
    "query_result_fits l" for l
  unfolding encode_query_result_def [abs_def] decode_query_result_def
  by (rule struct_fields struct_Nil | (simp add: query_result_fits_def; fail))+
    (auto simp: query_result_fits_def default_query_result_def intro!: QueryResultMessage.equality)

lemmas [struct_fields] = struct_Cons [OF query_result_format.wire_format_axioms]

record ErrorMessage =
  em_code :: u32
  em_operation :: string
  em_subject :: string
  em_detail :: string

definition default_error_message :: ErrorMessage where
  "default_error_message =
     \<lparr> em_code = of_nat (error_code_code ErrorCode.Ok), em_operation = [], em_subject = [],
       em_detail = [] \<rparr>"

definition encode_error_message :: "ResourceLimits \<Rightarrow> ErrorMessage \<Rightarrow> writer" where
  "encode_error_message l m = seq_puts
     [put_u32 (em_code m), put_string (em_operation m) (max_identifier_size l),
      put_string (em_subject m) (max_string_size l), put_string (em_detail m) (max_string_size l)]"

definition decode_error_message :: "ResourceLimits \<Rightarrow> ErrorMessage reader" where
  "decode_error_message l = seq_gets
     [into get_u32 (\<lambda>v m. m\<lparr>em_code := v\<rparr>),
      into (get_string (max_identifier_size l)) (\<lambda>v m. m\<lparr>em_operation := v\<rparr>),
      into (get_string (max_string_size l)) (\<lambda>v m. m\<lparr>em_subject := v\<rparr>),
      into (get_string (max_string_size l)) (\<lambda>v m. m\<lparr>em_detail := v\<rparr>)]
     default_error_message"

definition error_message_fits :: "ResourceLimits \<Rightarrow> ErrorMessage \<Rightarrow> bool" where
  "error_message_fits l m \<longleftrightarrow>
     length (em_operation m) \<le> unat (max_identifier_size l)
     \<and> length (em_subject m) \<le> unat (max_string_size l)
     \<and> length (em_detail m) \<le> unat (max_string_size l)"

interpretation error_message_format: wire_format "encode_error_message l" "decode_error_message l"
    "error_message_fits l" for l
  unfolding encode_error_message_def [abs_def] decode_error_message_def
  by (rule struct_fields struct_Nil | (simp add: error_message_fits_def; fail))+
    (auto simp: error_message_fits_def default_error_message_def intro!: ErrorMessage.equality)

lemmas [struct_fields] = struct_Cons [OF error_message_format.wire_format_axioms]

record ResultMessage =
  rsm_request_type :: MessageType
  rsm_ok :: bool
  rsm_outcome :: u32
  rsm_error :: WireError

definition default_result :: ResultMessage where
  "default_result =
     \<lparr> rsm_request_type = MessageType.Hello, rsm_ok = True,
       rsm_outcome = of_nat (outcome_code ScheduleOutcome.NoChange), rsm_error = default_wire_error \<rparr>"

definition encode_result :: "ResourceLimits \<Rightarrow> ResultMessage \<Rightarrow> writer" where
  "encode_result l m = seq_puts
     [put_u16 (of_nat (message_type_code (rsm_request_type m))), put_bool (rsm_ok m),
      put_u32 (rsm_outcome m), encode_error l (rsm_error m)]"

definition decode_result :: "ResourceLimits \<Rightarrow> ResultMessage reader" where
  "decode_result l = seq_gets
     [into (checked_number is_known_message_type message_type_values
         ''result request type is unknown'')
        (\<lambda>v m. m\<lparr>rsm_request_type := v\<rparr>),
      into get_bool (\<lambda>v m. m\<lparr>rsm_ok := v\<rparr>),
      into get_u32 (\<lambda>v m. m\<lparr>rsm_outcome := v\<rparr>),
      into (decode_error l) (\<lambda>v m. m\<lparr>rsm_error := v\<rparr>)]
     default_result"

definition result_fits :: "ResourceLimits \<Rightarrow> ResultMessage \<Rightarrow> bool" where
  "result_fits l m \<longleftrightarrow>
     error_fits l (rsm_error m)"

interpretation result_format: wire_format "encode_result l" "decode_result l"
    "result_fits l" for l
  unfolding encode_result_def [abs_def] decode_result_def
  by (rule struct_fields struct_Nil | (simp add: result_fits_def; fail))+
    (auto simp: result_fits_def default_result_def intro!: ResultMessage.equality)

lemmas [struct_fields] = struct_Cons [OF result_format.wire_format_axioms]

end
