(* ===== verification/Wire_Requests.thy ===== *)
theory Wire_Requests
  imports Wire_Messages
begin

section \<open>Requests on the wire\<close>

text \<open>
  The switch of handle_frame in net/coordinator.cpp: which decoder a message type selects,
  and the check that nothing follows the message. A type that is not in the switch carries no
  request. The peers encode a request with the encoder of its payload and send it under its
  type.
\<close>

datatype Request =
    HelloRequest HelloMessage
  | RegisterAgentRequest RegisterAgentMessage
  | PublishCapabilitiesRequest PublishCapabilitiesMessage
  | PublishHealthRequest PublishHealthMessage
  | PublishAvailabilityRequest PublishAvailabilityMessage
  | PublishLoadRequest PublishLoadMessage
  | HeartbeatRequest HeartbeatMessage
  | SubmitWorkRequest SubmitWorkMessage
  | CancelWorkRequest CancelWorkMessage
  | SupersedeWorkRequest SupersedeWorkMessage
  | AssignmentAckRequest AssignmentAckMessage
  | AssignmentRejectRequest AssignmentObservationMessage
  | WorkStartedRequest AssignmentObservationMessage
  | WorkReleasedRequest AssignmentObservationMessage
  | WorkCompletedRequest AssignmentObservationMessage
  | WorkFailedRequest AssignmentObservationMessage
  | DrainAgentRequest DrainAgentMessage
  | DeregisterAgentRequest DeregisterAgentMessage
  | DispatchAssignmentRequest DispatchAssignmentMessage
  | QueryRequest QueryMessage

primrec request_type :: "Request \<Rightarrow> MessageType" where
  "request_type (HelloRequest m) = MessageType.Hello"
| "request_type (RegisterAgentRequest m) = MessageType.RegisterAgent"
| "request_type (PublishCapabilitiesRequest m) = MessageType.PublishCapabilities"
| "request_type (PublishHealthRequest m) = MessageType.PublishHealth"
| "request_type (PublishAvailabilityRequest m) = MessageType.PublishAvailability"
| "request_type (PublishLoadRequest m) = MessageType.PublishLoad"
| "request_type (HeartbeatRequest m) = MessageType.Heartbeat"
| "request_type (SubmitWorkRequest m) = MessageType.SubmitWork"
| "request_type (CancelWorkRequest m) = MessageType.CancelWork"
| "request_type (SupersedeWorkRequest m) = MessageType.SupersedeWork"
| "request_type (AssignmentAckRequest m) = MessageType.AssignmentAck"
| "request_type (AssignmentRejectRequest m) = MessageType.AssignmentReject"
| "request_type (WorkStartedRequest m) = MessageType.WorkStarted"
| "request_type (WorkReleasedRequest m) = MessageType.WorkReleased"
| "request_type (WorkCompletedRequest m) = MessageType.WorkCompleted"
| "request_type (WorkFailedRequest m) = MessageType.WorkFailed"
| "request_type (DrainAgentRequest m) = MessageType.DrainAgent"
| "request_type (DeregisterAgentRequest m) = MessageType.DeregisterAgent"
| "request_type (DispatchAssignmentRequest m) = MessageType.DispatchAssignment"
| "request_type (QueryRequest m) = MessageType.Query"

primrec encode_request :: "ResourceLimits \<Rightarrow> Request \<Rightarrow> writer" where
  "encode_request l (HelloRequest m) = encode_hello l m"
| "encode_request l (RegisterAgentRequest m) = encode_register l m"
| "encode_request l (PublishCapabilitiesRequest m) = encode_publish_capabilities l m"
| "encode_request l (PublishHealthRequest m) = encode_publish_health l m"
| "encode_request l (PublishAvailabilityRequest m) = encode_publish_availability l m"
| "encode_request l (PublishLoadRequest m) = encode_publish_load l m"
| "encode_request l (HeartbeatRequest m) = encode_heartbeat l m"
| "encode_request l (SubmitWorkRequest m) = encode_submit l m"
| "encode_request l (CancelWorkRequest m) = encode_cancel l m"
| "encode_request l (SupersedeWorkRequest m) = encode_supersede l m"
| "encode_request l (AssignmentAckRequest m) = encode_ack l m"
| "encode_request l (AssignmentRejectRequest m) = encode_observation l m"
| "encode_request l (WorkStartedRequest m) = encode_observation l m"
| "encode_request l (WorkReleasedRequest m) = encode_observation l m"
| "encode_request l (WorkCompletedRequest m) = encode_observation l m"
| "encode_request l (WorkFailedRequest m) = encode_observation l m"
| "encode_request l (DrainAgentRequest m) = encode_drain l m"
| "encode_request l (DeregisterAgentRequest m) = encode_deregister l m"
| "encode_request l (DispatchAssignmentRequest m) = encode_dispatch l m"
| "encode_request l (QueryRequest m) = encode_query l m"

primrec request_fits :: "ResourceLimits \<Rightarrow> Request \<Rightarrow> bool" where
  "request_fits l (HelloRequest m) \<longleftrightarrow> hello_fits l m"
| "request_fits l (RegisterAgentRequest m) \<longleftrightarrow> register_fits l m"
| "request_fits l (PublishCapabilitiesRequest m) \<longleftrightarrow> publish_capabilities_fits l m"
| "request_fits l (PublishHealthRequest m) \<longleftrightarrow> publish_health_fits l m"
| "request_fits l (PublishAvailabilityRequest m) \<longleftrightarrow> True"
| "request_fits l (PublishLoadRequest m) \<longleftrightarrow> publish_load_fits l m"
| "request_fits l (HeartbeatRequest m) \<longleftrightarrow> True"
| "request_fits l (SubmitWorkRequest m) \<longleftrightarrow> submit_fits l m"
| "request_fits l (CancelWorkRequest m) \<longleftrightarrow> cancel_fits l m"
| "request_fits l (SupersedeWorkRequest m) \<longleftrightarrow> supersede_fits l m"
| "request_fits l (AssignmentAckRequest m) \<longleftrightarrow> ack_fits l m"
| "request_fits l (AssignmentRejectRequest m) \<longleftrightarrow> observation_fits l m"
| "request_fits l (WorkStartedRequest m) \<longleftrightarrow> observation_fits l m"
| "request_fits l (WorkReleasedRequest m) \<longleftrightarrow> observation_fits l m"
| "request_fits l (WorkCompletedRequest m) \<longleftrightarrow> observation_fits l m"
| "request_fits l (WorkFailedRequest m) \<longleftrightarrow> observation_fits l m"
| "request_fits l (DrainAgentRequest m) \<longleftrightarrow> True"
| "request_fits l (DeregisterAgentRequest m) \<longleftrightarrow> True"
| "request_fits l (DispatchAssignmentRequest m) \<longleftrightarrow> True"
| "request_fits l (QueryRequest m) \<longleftrightarrow> True"

definition request_as :: "('a \<Rightarrow> Request) \<Rightarrow> 'a reader \<Rightarrow> u8 list \<Rightarrow> Request option coded" where
  "request_as mk get payload =
     (case decode_payload get payload of Inl e \<Rightarrow> Inl e | Inr m \<Rightarrow> Inr (Some (mk m)))"

definition decode_request ::
    "ResourceLimits \<Rightarrow> MessageType \<Rightarrow> u8 list \<Rightarrow> Request option coded" where
  "decode_request l t payload =
     (case t of
        MessageType.Hello \<Rightarrow> request_as HelloRequest (decode_hello l) payload
      | MessageType.RegisterAgent \<Rightarrow> request_as RegisterAgentRequest (decode_register l) payload
      | MessageType.PublishCapabilities \<Rightarrow> request_as PublishCapabilitiesRequest (decode_publish_capabilities l) payload
      | MessageType.PublishHealth \<Rightarrow> request_as PublishHealthRequest (decode_publish_health l) payload
      | MessageType.PublishAvailability \<Rightarrow> request_as PublishAvailabilityRequest (decode_publish_availability l) payload
      | MessageType.PublishLoad \<Rightarrow> request_as PublishLoadRequest (decode_publish_load l) payload
      | MessageType.Heartbeat \<Rightarrow> request_as HeartbeatRequest (decode_heartbeat l) payload
      | MessageType.SubmitWork \<Rightarrow> request_as SubmitWorkRequest (decode_submit l) payload
      | MessageType.CancelWork \<Rightarrow> request_as CancelWorkRequest (decode_cancel l) payload
      | MessageType.SupersedeWork \<Rightarrow> request_as SupersedeWorkRequest (decode_supersede l) payload
      | MessageType.AssignmentAck \<Rightarrow> request_as AssignmentAckRequest (decode_ack l) payload
      | MessageType.AssignmentReject \<Rightarrow> request_as AssignmentRejectRequest (decode_observation l) payload
      | MessageType.WorkStarted \<Rightarrow> request_as WorkStartedRequest (decode_observation l) payload
      | MessageType.WorkReleased \<Rightarrow> request_as WorkReleasedRequest (decode_observation l) payload
      | MessageType.WorkCompleted \<Rightarrow> request_as WorkCompletedRequest (decode_observation l) payload
      | MessageType.WorkFailed \<Rightarrow> request_as WorkFailedRequest (decode_observation l) payload
      | MessageType.DrainAgent \<Rightarrow> request_as DrainAgentRequest (decode_drain l) payload
      | MessageType.DeregisterAgent \<Rightarrow> request_as DeregisterAgentRequest (decode_deregister l) payload
      | MessageType.DispatchAssignment \<Rightarrow> request_as DispatchAssignmentRequest (decode_dispatch l) payload
      | MessageType.Query \<Rightarrow> request_as QueryRequest (decode_query l) payload
      | _ \<Rightarrow> Inr None)"

lemma request_as_Inr [simp]:
  "request_as mk get payload = Inr y \<longleftrightarrow>
     (\<exists>m. decode_payload get payload = Inr m \<and> y = Some (mk m))"
  by (auto simp: request_as_def split: sum.split)

lemmas payloads_exact = 
  hello_format.payload_exact
  register_format.payload_exact
  publish_capabilities_format.payload_exact
  publish_health_format.payload_exact
  publish_availability_format.payload_exact
  publish_load_format.payload_exact
  heartbeat_format.payload_exact
  submit_format.payload_exact
  cancel_format.payload_exact
  supersede_format.payload_exact
  ack_format.payload_exact
  observation_format.payload_exact
  drain_format.payload_exact
  deregister_format.payload_exact
  dispatch_format.payload_exact
  query_format.payload_exact

lemmas request_formats =
  hello_format.wire_format_axioms
  register_format.wire_format_axioms
  publish_capabilities_format.wire_format_axioms
  publish_health_format.wire_format_axioms
  publish_availability_format.wire_format_axioms
  publish_load_format.wire_format_axioms
  heartbeat_format.wire_format_axioms
  submit_format.wire_format_axioms
  cancel_format.wire_format_axioms
  supersede_format.wire_format_axioms
  ack_format.wire_format_axioms
  observation_format.wire_format_axioms
  drain_format.wire_format_axioms
  deregister_format.wire_format_axioms
  dispatch_format.wire_format_axioms
  query_format.wire_format_axioms

text \<open>The coordinator accepts exactly the encodings the peers produce.\<close>

lemma decode_request_exact:
  assumes "length payload \<le> 2 ^ 30"
  shows "decode_request l t payload = Inr (Some r) \<longleftrightarrow>
    request_type r = t \<and> request_fits l r \<and> encode_request l r [] = Inr payload"
  by (cases r; cases t) (simp_all add: decode_request_def payloads_exact [OF assms])

lemma request_as_truncated:
  assumes "wire_format put get ok" and "request_as mk get (p @ q) = Inr (Some r)" and "q \<noteq> []"
  shows "\<exists>e. request_as mk get p = Inl e"
proof -
  obtain m where "decode_payload get (p @ q) = Inr m" using assms(2) by auto
  then obtain e where "decode_payload get p = Inl e"
    using wire_format.payload_truncated [OF assms(1) _ assms(3)] by blast
  then show ?thesis by (simp add: request_as_def)
qed

lemma decode_request_truncated:
  assumes "decode_request l t (p @ q) = Inr (Some r)" and "q \<noteq> []"
  shows "\<exists>e. decode_request l t p = Inl e"
  using assms(1) unfolding decode_request_def
  by (cases t) (auto intro: request_as_truncated [OF _ _ assms(2)] request_formats)

end
