(* ===== verification/Restart_Scenario.thy ===== *)
theory Restart_Scenario
  imports Scenario
begin

section \<open>Saving the concrete run\<close>

text \<open>
  The state of the concrete run in which the assignment is active is saved and loaded into a
  stopped scheduler. The bytes of the file contain digests and stay symbolic; only their
  number matters here.
\<close>

subsection \<open>How many bytes a writer appends\<close>

definition writes :: "writer \<Rightarrow> nat \<Rightarrow> bool" where
  "writes p n \<longleftrightarrow> (\<forall>buffer. length buffer + n \<le> 2 ^ 30 \<longrightarrow>
     (\<exists>bs. length bs \<le> n \<and> p buffer = Inr (buffer @ bs)))"

lemma writes_raw: "length data = n \<Longrightarrow> writes (put_raw data) n"
  by (auto simp: writes_def put_raw_ok)

lemma writes_fields:
  "writes (put_u8 v) 1" "writes (put_u32 w) 4" "writes (put_u64 x) 8" "writes (put_bool b) 1"
  by (simp_all add: put_u8_def put_u32_def put_u64_def put_bool_def writes_raw)

lemma writes_Nil: "writes (seq_puts []) 0"
  by (simp add: writes_def)

lemma writes_Cons:
  assumes "writes p m" and "writes (seq_puts ps) n"
  shows "writes (seq_puts (p # ps)) (m + n)"
  unfolding writes_def
proof (intro allI impI)
  fix buffer :: "u8 list" assume room: "length buffer + (m + n) \<le> 2 ^ 30"
  obtain bs where bs: "length bs \<le> m" "p buffer = Inr (buffer @ bs)"
    using assms(1) room unfolding writes_def by (metis add.assoc add_leD1)
  then have "length (buffer @ bs) + n \<le> 2 ^ 30" using room by simp
  then obtain cs where "length cs \<le> n" "seq_puts ps (buffer @ bs) = Inr ((buffer @ bs) @ cs)"
    using assms(2) unfolding writes_def by blast
  then show "\<exists>bs. length bs \<le> m + n \<and> seq_puts (p # ps) buffer = Inr (buffer @ bs)"
    using bs by (intro exI [of _ "bs @ cs"]) simp
qed

lemma writes_string: "length v \<le> unat m \<Longrightarrow> writes (put_string v m) (4 + length v)"
proof -
  assume fits: "length v \<le> unat m"
  have "writes (seq_puts [put_u32 (of_nat (length v)), put_raw (text_bytes v)]) (4 + (length v + 0))"
    by (intro writes_Cons writes_fields writes_raw writes_Nil) simp
  then show ?thesis using fits by (simp add: writes_def put_string_def)
qed

lemma writes_hash128: "writes (put_hash128 h) 16"
proof -
  have "writes (put_hash128 h) (8 + (8 + 0))"
    unfolding put_hash128_def by (intro writes_Cons writes_fields writes_Nil)
  then show ?thesis by simp
qed

lemma writes_list:
  assumes "\<And>x. x \<in> set xs \<Longrightarrow> writes (put x) m"
  shows "writes (put_list put xs) (4 + length xs * m)"
proof -
  have "writes (seq_puts (map put xs)) (length xs * m)"
    using assms by (induction xs) (auto intro: writes_Nil writes_Cons)
  then show ?thesis unfolding put_list_def by (intro writes_Cons writes_fields)
qed

lemma writes_none: "writes (put_list put []) 4"
  using writes_list [of "[]" put 0] by simp

lemma writes_one: "writes (put x) n \<Longrightarrow> writes (put_list put [x]) (4 + n)"
  using writes_list [of "[x]" put n] by simp

lemmas writes_rules = writes_Cons writes_Nil writes_fields writes_hash128 writes_string
  writes_none writes_one

text \<open>The fixed-size records.\<close>

lemma writes_binding: "\<exists>n \<le> 300. writes (write_binding b) n"
  unfolding write_binding_def by (rule exI, rule conjI [rotated], (rule writes_rules)+) simp

lemma writes_lease: "\<exists>n \<le> 100. writes (write_lease l x) n"
  unfolding write_lease_def by (rule exI, rule conjI [rotated], (rule writes_rules)+) simp

subsection \<open>The saved state\<close>

definition demo_queue :: QueueRecord where
  "demo_queue = default_queue_record\<lparr>qr_id := 3, qr_generation := 1,
     qr_fairness_class := wq_fairness_class demo_request,
     qr_weight := fairness_class_weight (im_policy demo0) (wq_fairness_class demo_request),
     qr_admitted_count := 1\<rparr>"

lemma demo5_lists: "im_queues demo5 = [(3, demo_queue)]" "im_tenants demo5 = []"
  "im_limits demo5 = default_limits" "im_leases demo5 = []"
  using demo_stage4
  by (simp_all add: demo5_def submit_commit_def demo_stage_def Let_def demo_limits_sel unat_eq_zero
      ensure_both_def ensure_queue_def ensure_tenant_def default_requirements_def
      count_admitted_def om_emplace_def demo_queue_def om_adjust_def
      default_queue_record_def)

lemma demo6_eq: "\<exists>t. demo6 = count_assigned (bn_queue demo_binding) t
   (refresh_agent_accounting 5 (refresh_work_accounting 9 (commit_indexed 9 demo_binding demo5)))"
  using commit_apply_split [of 9 demo_binding demo5] by (simp add: demo6_def)

lemma demo6_lists:
  "im_assignments demo6 = [(demo_key, new_assignment demo_binding)]"
  "im_leases demo6 = [(bn_lease demo_binding, new_lease demo_binding)]"
  "im_queues demo6 = [(3, demo_queue\<lparr>qr_assigned_count := 1\<rparr>)]" "im_tenants demo6 = []"
  "im_fenced_boots demo6 = []" "im_limits demo6 = default_limits"
proof -
  obtain t where eq: "demo6 = count_assigned (bn_queue demo_binding) t
     (refresh_agent_accounting 5 (refresh_work_accounting 9 (commit_indexed 9 demo_binding demo5)))"
    using demo6_eq by (rule exE)
  have "bn_queue demo_binding = 3" by (simp add: demo_binding_def build_binding_def Let_def)
  then show "im_assignments demo6 = [(demo_key, new_assignment demo_binding)]"
    "im_leases demo6 = [(bn_lease demo_binding, new_lease demo_binding)]"
    "im_queues demo6 = [(3, demo_queue\<lparr>qr_assigned_count := 1\<rparr>)]" "im_tenants demo6 = []"
    "im_fenced_boots demo6 = []" "im_limits demo6 = default_limits"
    unfolding eq
    by (simp_all add: commit_indexed_def Let_def insert_assignment_def demo5_sel demo5_lists
        om_emplace_def count_assigned_def om_adjust_def demo_queue_def
        default_queue_record_def)
qed

lemma demo6_population:
  "\<exists>a. im_agents demo6 = [(5, a)] \<and> ag_descriptor a = demo_descriptor \<and> ag_profile a = demo_profile
     \<and> ag_reason a = ''registered''"
  "\<exists>w. im_work demo6 = [(9, w)] \<and> wr_request w = demo_request \<and> wr_reason w = ''admitted''
     \<and> wr_lifecycle w \<noteq> WorkLifecycle.Unknown"
proof -
  obtain t where eq: "demo6 = count_assigned (bn_queue demo_binding) t
     (refresh_agent_accounting 5 (refresh_work_accounting 9 (commit_indexed 9 demo_binding demo5)))"
    using demo6_eq by (rule exE)
  show "\<exists>w. im_work demo6 = [(9, w)] \<and> wr_request w = demo_request \<and> wr_reason w = ''admitted''
     \<and> wr_lifecycle w \<noteq> WorkLifecycle.Unknown"
    unfolding eq
    by (simp add: commit_indexed_def Let_def insert_assignment_def demo5_sel om_adjust_def
        count_assigned_def refresh_work_accounting_def) (simp add: demo_work_def)
  show "\<exists>a. im_agents demo6 = [(5, a)] \<and> ag_descriptor a = demo_descriptor \<and> ag_profile a = demo_profile
     \<and> ag_reason a = ''registered''"
    unfolding eq
    by (simp add: commit_indexed_def Let_def insert_assignment_def demo5_sel
        count_assigned_def refresh_agent_accounting_def recompute_lifecycle_def)
     (simp add: demo_agent4_def demo_agent3_def demo_agent2_def demo_agent1_def)
qed

lemma demo6_keyed: "state_keyed demo6"
  using reachable_keyed [OF demo_reachable6] by (simp add: idle_def)

lemma demo6_fits: "state_fits demo6"
proof -
  obtain a where "im_agents demo6 = [(5, a)]" "ag_descriptor a = demo_descriptor"
    "ag_profile a = demo_profile" "ag_reason a = ''registered''"
    using demo6_population(1) by blast
  moreover obtain w where "im_work demo6 = [(9, w)]" "wr_request w = demo_request"
    "wr_reason w = ''admitted''" "wr_lifecycle w \<noteq> WorkLifecycle.Unknown"
    using demo6_population(2) by blast
  moreover have "stored_policy_fits default_limits (im_policy demo6)"
    unfolding demo6_sel demo0_sel by code_simp
  moreover have "stored_queue_fits default_limits (demo_queue\<lparr>qr_assigned_count := 1\<rparr>)"
    "stored_assignment_fits default_limits (new_assignment demo_binding)"
    by (simp_all add: stored_queue_fits_def stored_assignment_fits_def new_assignment_def demo_queue_def
        demo_request_def default_work_request_def default_limits_def)
  moreover have "stored_descriptor_fits default_limits demo_descriptor"
    "stored_capabilities_fits default_limits demo_profile"
    "stored_work_request_fits default_limits demo_request" by code_simp+
  ultimately show ?thesis
    by (simp add: state_fits_def demo6_lists stored_agent_fits_def stored_work_fits_def)
     (simp add: default_limits_def)
qed

text \<open>The whole state takes a few kilobytes.\<close>

lemma writes_mono: "writes p m \<Longrightarrow> m \<le> n \<Longrightarrow> writes p n"
  unfolding writes_def by (meson add_left_mono order_trans)

lemma writes_weights:
  "stored_ranking_weight_fits l w \<Longrightarrow> writes (write_ranking_weight l w) (8 + unat (max_identifier_size l))"
  "stored_class_weight_fits l c \<Longrightarrow> writes (write_class_weight l c) (8 + unat (max_identifier_size l))"
proof -
  assume w: "stored_ranking_weight_fits l w"
  show "writes (write_ranking_weight l w) (8 + unat (max_identifier_size l))"
    unfolding write_ranking_weight_def
    using w [unfolded stored_ranking_weight_fits_def]
    by - (rule writes_mono, (rule writes_rules | assumption)+, simp)
next
  assume c: "stored_class_weight_fits l c"
  show "writes (write_class_weight l c) (8 + unat (max_identifier_size l))"
    unfolding write_class_weight_def
    using c [unfolded stored_class_weight_fits_def]
    by - (rule writes_mono, (rule writes_rules | assumption)+, simp)
qed

lemma writes_policy:
  assumes "stored_policy_fits l p"
  shows "writes (write_policy l p) (120 + (length (ranking_weights p) + length (fairness_class_weights p))
    * (8 + unat (max_identifier_size l)))"
  unfolding write_policy_def
  using assms [unfolded stored_policy_fits_def]
  by - (rule writes_mono, (rule writes_Cons writes_Nil writes_fields writes_list writes_weights
      | (blast; fail))+, simp add: algebra_simps)

lemma demo_identifier_size: "unat (max_identifier_size default_limits) = 64"
  "unat (max_string_size default_limits) = 512"
  by (simp_all add: default_limits_def)

lemma demo_policy_writes: "writes (write_policy default_limits (im_policy demo0)) 4000"
proof -
  have "stored_policy_fits default_limits (im_policy demo0)"
    "length (ranking_weights (im_policy demo0)) + length (fairness_class_weights (im_policy demo0)) \<le> 50"
    unfolding demo0_sel by code_simp+
  then show ?thesis
    using writes_mono [OF writes_policy] by (simp add: demo_identifier_size)
qed

lemma demo_record_writes:
  "writes (write_descriptor default_limits demo_descriptor) 200"
  "writes (write_capabilities default_limits demo_profile) 100"
  "writes (write_work_request default_limits demo_request) 400"
  "writes (write_queue default_limits (demo_queue\<lparr>qr_assigned_count := 1\<rparr>)) 200"
proof -
  show "writes (write_descriptor default_limits demo_descriptor) 200"
    unfolding write_descriptor_def demo_descriptor_sel
    by (rule writes_mono, (rule writes_rules | (simp add: demo_descriptor_def default_descriptor_def; fail))+)
  show "writes (write_capabilities default_limits demo_profile) 100"
    unfolding write_capabilities_def demo_profile_def CapabilityProfile.simps
    by (rule writes_mono, (rule writes_rules)+) simp
  have requirements: "writes (write_requirements default_limits default_requirements) 200"
    unfolding write_requirements_def default_requirements_def WorkRequirements.simps
    by (rule writes_mono, (rule writes_rules)+) simp
  show "writes (write_work_request default_limits demo_request) 400"
    unfolding write_work_request_def demo_request_sel
    by (rule writes_mono, (rule requirements writes_rules
        | (simp add: demo_request_def default_work_request_def demo_identifier_size; fail))+)
  show "writes (write_queue default_limits (demo_queue\<lparr>qr_assigned_count := 1\<rparr>)) 200"
    unfolding write_queue_def
    by (rule writes_mono, (rule writes_rules | (simp add: demo_queue_def demo_request_def
        default_work_request_def demo_identifier_size; fail))+)
qed

lemma demo6_writes: "writes (encode_state demo6) 10000"
proof -
  obtain a where a: "im_agents demo6 = [(5, a)]" "ag_descriptor a = demo_descriptor"
    "ag_profile a = demo_profile" "ag_reason a = ''registered''"
    using demo6_population(1) by blast
  obtain w where w: "im_work demo6 = [(9, w)]" "wr_request w = demo_request"
    "wr_reason w = ''admitted''" using demo6_population(2) by blast
  have agent: "writes (write_agent default_limits a) 400"
    unfolding write_agent_def a
    by (rule writes_mono, (rule demo_record_writes writes_rules
        | (simp add: demo_identifier_size; fail))+)
  have work: "writes (write_work default_limits w) 500"
    unfolding write_work_def w
    by (rule writes_mono, (rule demo_record_writes writes_rules
        | (simp add: demo_identifier_size; fail))+)
  obtain m where m: "m \<le> 300" "writes (write_binding demo_binding) m"
    using writes_binding by blast
  have assignment: "writes (write_assignment default_limits (new_assignment demo_binding)) 400"
    unfolding write_assignment_def new_assignment_def AssignmentRecord.simps
    by (rule writes_mono, (rule m(2) writes_rules | (simp add: demo_identifier_size; fail))+)
      (use m(1) in simp)
  obtain k where k: "k \<le> 100" "writes (write_lease default_limits (new_lease demo_binding)) k"
    using writes_lease by blast
  show ?thesis
    unfolding encode_state_def Let_def demo6_lists a(1) w(1) demo6_sel write_scheduler_def
      list.map snd_conv
    by (rule writes_mono, (rule agent work assignment k(2) demo_policy_writes demo_record_writes
          writes_rules)+) (use k(1) in simp)
qed

definition demo_popts :: PersistOptions where
  "demo_popts = \<lparr> ps_fsync = True, ps_verify_after_write = True, ps_max_bytes = 0 \<rparr>"

definition demo_lopts :: LoadOptions where
  "demo_lopts = \<lparr> ld_require_semantic_digest = True, ld_inspect_only = False \<rparr>"

lemma demo6_saved: "\<exists>f. save_bytes demo_popts path demo6 = Inr (Inr f) \<and> length f < 2 ^ 60 \<and> length f \<le> 10088"
proof -
  obtain payload where p: "length payload \<le> 10000" "encode_state demo6 [] = Inr payload"
    using demo6_writes [unfolded writes_def, rule_format, of "[]"] by auto
  then have "unat (of_nat (length payload) :: u64) = length payload" by (simp add: unat_of_nat)
  then have small: "\<not> of_nat (length payload) > max_persistence_bytes default_limits"
    using p(1) by (simp add: default_limits_def word_less_nat_alt)
  obtain h where h: "file_header payload (record_count demo6) = Inr h" "length h = 72"
    by (simp add: file_header_eq)
  obtain t where t: "file_trailer (h @ payload) = Inr t" "length t = 16"
    by (simp add: file_trailer_eq)
  have "save_bytes demo_popts path demo6 = Inr (Inr (h @ payload @ t))"
    using p(2) small h t by (simp add: save_bytes_def demo_popts_def demo6_lists)
  then show ?thesis using p(1) h(2) t(2) by (intro exI [of _ "h @ payload @ t"]) simp
qed

text \<open>A new process: a scheduler that was constructed and not started.\<close>

definition demo_fresh :: Impl where
  "demo_fresh = make_impl (demo_options\<lparr>so_auto_start := False\<rparr>) 0 0 5000"

lemma demo_fresh_sel: "\<not> im_running demo_fresh" "im_limits demo_fresh = default_limits"
  by (simp_all add: demo_fresh_def make_impl_def demo_options_def)

lemma demo6_epoch: "im_scheduler_epoch demo6 + 1 \<noteq> 0"
  using demo_stage4
  by (simp add: demo6_def commit_apply_views demo5_def submit_commit_def demo_stage_def Let_def
      demo_limits_sel unat_eq_zero ensure_both_def ensure_queue_def ensure_tenant_def
      default_requirements_def count_admitted_def om_emplace_def)

lemma demo6_restarts: "\<exists>x. restarts_to demo6 x"
proof -
  obtain f where "save_bytes demo_popts [] demo6 = Inr (Inr f)" "length f < 2 ^ 60"
    using demo6_saved by blast
  moreover from this(2) have "length f < 2 ^ 64" by simp
  ultimately show ?thesis
    using demo6_fits demo6_epoch demo_fresh_sel demo6_lists
    unfolding restarts_to_def by metis
qed

end
