(* ===== verification/State_Digest.thy ===== *)
theory State_Digest
  imports Wire_Fields Digest_Facts
begin

section \<open>The canonical digest of the state\<close>

text \<open>
  compute_state_digest, compute_agent_generation_digest and the hash helpers of
  scheduler_state.cpp. A helper is the list of the calls it makes on the hasher, in order;
  running the calls is \<open>absorb\<close>. The bytes the calls feed to the hasher are a canonical encoding:
  reading them from the front recovers every hashed field. A field the code does not hash is
  blanked by the view of its record.
\<close>

subsection \<open>Calls on the hasher\<close>

datatype HashStep = HTag u8 | HByte u8 | HWord u32 | HLong u64 | HText string

primrec run_step :: "HashStep \<Rightarrow> Hasher256 \<Rightarrow> Hasher256" where
  "run_step (HTag t) = update_field_tag t"
| "run_step (HByte v) = update_u8 v"
| "run_step (HWord v) = update_u32 v"
| "run_step (HLong v) = update_u64 v"
| "run_step (HText s) = update_length_prefixed s"

definition absorb :: "HashStep list \<Rightarrow> Hasher256 \<Rightarrow> Hasher256" where
  "absorb xs h = fold run_step xs h"

definition HFlag :: "bool \<Rightarrow> HashStep" where
  "HFlag b = HByte (if b then 1 else 0)"

abbreviation HCode :: "nat \<Rightarrow> HashStep" where
  "HCode n \<equiv> HByte (of_nat n)"

definition hash_id :: "Hash128 \<Rightarrow> HashStep list" where
  "hash_id v = [HLong (h_high v), HLong (h_low v)]"

text \<open>The size of a container, then its elements.\<close>

definition hash_counted :: "('a \<Rightarrow> HashStep list) \<Rightarrow> 'a list \<Rightarrow> HashStep list" where
  "hash_counted f xs = HLong (of_nat (length xs)) # concat (map f xs)"

definition hash_labels :: "string list \<Rightarrow> HashStep list" where
  "hash_labels labels = hash_counted (\<lambda>s. [HText s]) labels"

subsection \<open>The hash helpers\<close>

definition hash_policy :: "PolicySnapshot \<Rightarrow> HashStep list" where
  "hash_policy p =
     [HTag 0x30, HLong (po_id p), HLong (po_generation p), HWord (aging_rounds_per_step p),
      HWord (max_priority_bypass p), HWord (starvation_alert_rounds p),
      HFlag (allow_unbounded_starvation p), HWord (anti_concentration_window p),
      HWord (anti_concentration_penalty p), HLong (capability_staleness_ms p),
      HLong (health_staleness_ms p), HLong (load_staleness_ms p),
      HLong (availability_staleness_ms p), HLong (assignment_lease_ttl_ms p),
      HLong (registration_lease_ttl_ms p), HFlag (close_dispatch_authority_on_shutdown p)] @
     hash_counted (\<lambda>w. [HText (rw_factor w), HWord (rw_weight w)]) (ranking_weights p) @
     hash_counted (\<lambda>w. [HText (qw_fairness_class w), HWord (qw_weight w)])
       (fairness_class_weights p)"

definition hash_evidence :: "CapabilityEvidence \<Rightarrow> HashStep list" where
  "hash_evidence e =
     [HText (ce_name e), HCode (capability_state_code (ce_state e)), HWord (ce_quality e),
      HLong (ce_generation e)] @
     hash_id (ce_boot e) @
     [HLong (ce_observed_at_ms e), HText (ce_provenance e)]"

definition hash_capability_profile :: "CapabilityProfile \<Rightarrow> HashStep list" where
  "hash_capability_profile p =
     [HTag 0x31, HLong (cp_profile_id p), HLong (cp_generation p)] @
     hash_id (cp_boot p) @
     hash_counted hash_evidence (cp_capabilities p)"

definition hash_descriptor :: "AgentDescriptor \<Rightarrow> HashStep list" where
  "hash_descriptor d =
     [HLong (ad_id d), HLong (ad_generation d)] @
     hash_id (ad_boot d) @
     [HLong (ad_registration_generation d), HLong (ad_tenant d), HLong (ad_name_space d),
      HText (ad_display_name d)] @
     hash_labels (ad_policy_labels d) @
     [HLong (ad_placement_domain d), HLong (ad_topology_epoch d), HWord (ad_max_concurrency d),
      HLong (ad_lease_ttl_ms d), HText (ad_provenance d)]"

definition hash_load :: "LoadObservation \<Rightarrow> HashStep list" where
  "hash_load ob =
     [HWord (lo_reported_active_assignments ob), HWord (lo_queue_depth ob),
      HWord (lo_cpu_pressure_percent ob), HLong (lo_estimated_dispatch_latency_ms ob),
      HLong (lo_cost_index ob), HLong (lo_slo_headroom_fraction ob)] @
     hash_labels (lo_warm_state_keys ob) @
     [HLong (lo_observed_at_ms ob)]"

definition hash_agent_record :: "AgentRecord \<Rightarrow> HashStep list" where
  "hash_agent_record r =
     [HTag 0x40] @
     hash_descriptor (ag_descriptor r) @
     [HCode (agent_lifecycle_code (ag_lifecycle r)), HCode (agent_health_code (ag_health r)),
      HCode (agent_readiness_code (ag_readiness r)),
      HCode (agent_reachability_code (ag_reachability r)),
      HCode (agent_availability_code (ag_availability r)), HLong (ag_health_generation r),
      HLong (ag_availability_generation r), HLong (ag_load_generation r),
      HWord (ho_health_quality (ag_health_observation r)),
      HLong (ho_observed_at_ms (ag_health_observation r)),
      HLong (ao_observed_at_ms (ag_availability_observation r))] @
     hash_load (ag_load_observation r) @
     [HLong (ag_lease_expires_at_ms r), HWord (ag_active_assignments r),
      HWord (ag_recent_assignments r), HLong (ag_last_heartbeat_ms r),
      HLong (ag_registered_at_ms r), HLong (ag_assignments_completed r),
      HLong (ag_assignments_failed r), HFlag (ag_capability_current r),
      HFlag (ag_health_current r), HFlag (ag_availability_current r), HFlag (ag_load_current r),
      HFlag (ag_recovered r), HText (ag_reason r)] @
     hash_capability_profile (ag_profile r)"

definition hash_capability_requirement :: "CapabilityRequirement \<Rightarrow> HashStep list" where
  "hash_capability_requirement c =
     [HText (cr_name c), HCode (requirement_mode_code (cr_mode c)),
      HCode (capability_state_code (cr_minimum_state c)), HWord (cr_minimum_quality c)]"

definition hash_requirements :: "WorkRequirements \<Rightarrow> HashStep list" where
  "hash_requirements q =
     [HLong (rq_tenant q), HLong (rq_name_space q)] @
     hash_counted hash_capability_requirement (rq_capabilities q) @
     hash_labels (rq_required_policy_labels q) @
     hash_counted (\<lambda>a. [HLong a]) (rq_affinity q) @
     hash_counted (\<lambda>a. [HLong a]) (rq_anti_affinity q) @
     [HFlag (rq_restrict_placement_domain q), HLong (rq_placement_domain q),
      HLong (rq_topology_epoch q), HFlag (rq_require_healthy q), HFlag (rq_require_reachable q),
      HFlag (rq_require_ready q), HFlag (rq_require_current_lease q),
      HFlag (rq_require_resource_feasibility q), HLong (rq_resource_generation q),
      HCode (feasibility_verdict_code (rq_resource_feasibility q)),
      HFlag (rq_require_budget_feasibility q), HLong (rq_budget_generation q),
      HCode (feasibility_verdict_code (rq_budget_feasibility q)),
      HFlag (rq_require_slo_feasibility q), HLong (rq_slo_generation q),
      HCode (feasibility_verdict_code (rq_slo_feasibility q)), HFlag (rq_require_reservation q),
      HLong (rq_reservation_generation q),
      HCode (feasibility_verdict_code (rq_reservation_feasibility q)),
      HFlag (rq_require_warm_state q)] @
     hash_labels (rq_warm_state_keys q) @
     [HLong (rq_deadline_ms q), HWord (rq_max_parallel q), HWord (rq_max_assignments_per_agent q)]"

definition hash_work_record :: "WorkRecord \<Rightarrow> HashStep list" where
  "hash_work_record r =
     [HTag 0x41, HLong (wq_id (wr_request r)), HLong (wq_generation (wr_request r)),
      HLong (wq_queue (wr_request r)), HLong (wq_queue_generation (wr_request r)),
      HText (wq_kind (wr_request r)), HWord (wq_priority (wr_request r)),
      HText (wq_fairness_class (wr_request r)),
      HCode (scheduling_mode_code (wq_mode (wr_request r))),
      HText (wq_payload_ref (wr_request r)), HLong (wq_earliest_start_ms (wr_request r)),
      HLong (wq_expected_duration_ms (wr_request r))] @
     hash_requirements (wq_requirements (wr_request r)) @
     [HCode (work_lifecycle_code (wr_lifecycle r)), HLong (wr_admitted_sequence r),
      HLong (wr_admitted_at_ms r), HWord (wr_bypass_count r), HWord (wr_starvation_rounds r),
      HWord (wr_current_assignments r), HLong (wr_last_assignment_generation r),
      HText (wr_reason r)]"

definition hash_bound :: "AssignmentBinding \<Rightarrow> HashStep list" where
  "hash_bound b =
     hash_id (bn_id b) @
     [HLong (bn_generation b), HLong (bn_work b), HLong (bn_work_generation b), HLong (bn_agent b),
      HLong (bn_agent_generation b)] @
     hash_id (bn_boot b) @
     [HLong (bn_scheduler b), HLong (bn_scheduler_epoch b), HLong (bn_coordinator_epoch b),
      HLong (bn_policy b), HLong (bn_policy_generation b), HLong (bn_capability_profile b),
      HLong (bn_capability_generation b), HLong (bn_resource_generation b),
      HLong (bn_budget_generation b), HLong (bn_slo_generation b),
      HLong (bn_reservation_generation b), HLong (bn_queue b), HLong (bn_queue_generation b)] @
     hash_id (bn_lease b) @
     [HLong (bn_lease_generation b)] @
     hash_id (bn_dispatch b) @
     [HLong (bn_dispatch_generation b), HLong (bn_placement_domain b), HLong (bn_topology_epoch b),
      HLong (bn_created_at_ms b), HLong (bn_lease_expires_at_ms b), HWord (bn_replica_index b),
      HFlag (bn_exclusive b)]"

definition hash_assignment_record :: "AssignmentRecord \<Rightarrow> HashStep list" where
  "hash_assignment_record r =
     [HTag 0x42] @
     hash_bound (ar_binding r) @
     [HCode (assignment_state_code (ar_state r)), HCode (invalidation_code (ar_invalidation r)),
      HFlag (ar_lease_current r), HLong (ar_dispatched_at_ms r), HLong (ar_acknowledged_at_ms r),
      HLong (ar_closed_at_ms r), HText (ar_reason r)]"

definition hash_lease :: "Lease \<Rightarrow> HashStep list" where
  "hash_lease x =
     hash_id (ls_id x) @
     [HLong (ls_generation x)] @
     hash_id (ls_assignment x) @
     [HLong (ls_assignment_generation x), HLong (ls_granted_at_ms x), HLong (ls_expires_at_ms x),
      HFlag (ls_current x)]"

definition hash_fence :: "FencedBoot \<Rightarrow> HashStep list" where
  "hash_fence f =
     [HLong (fb_agent f)] @
     hash_id (fb_boot f) @
     [HLong (fb_generation f), HLong (fb_fenced_at_ms f)]"

definition hash_queue :: "QueueRecord \<Rightarrow> HashStep list" where
  "hash_queue r =
     [HLong (qr_id r), HLong (qr_generation r), HText (qr_fairness_class r), HWord (qr_weight r),
      HLong (qr_admitted_count r), HLong (qr_assigned_count r), HLong (qr_completed_count r),
      HLong (qr_cancelled_count r)]"

definition hash_tenant :: "TenantRecord \<Rightarrow> HashStep list" where
  "hash_tenant r =
     [HLong (tr_id r), HLong (tr_admitted_count r), HLong (tr_active_assignments r)]"

subsection \<open>The digests\<close>

definition hash_state :: "Impl \<Rightarrow> HashStep list" where
  "hash_state s =
     [HTag 0x50, HLong (im_scheduler_id s), HLong (im_scheduler_epoch s),
      HLong (im_coordinator_epoch s), HLong (im_queue_generation s), HFlag (im_admission_open s),
      HFlag (im_shutting_down s), HLong (im_next_admission_sequence s),
      HLong (im_scheduling_rounds s), HLong (im_assignments_created s),
      HLong (im_assignments_invalidated s)] @
     hash_policy (im_policy s) @
     hash_counted hash_agent_record (map snd (im_agents s)) @
     hash_counted hash_work_record (map snd (im_work s)) @
     hash_counted hash_assignment_record (map snd (im_assignments s)) @
     hash_counted hash_lease (map snd (im_leases s)) @
     hash_counted hash_fence (map snd (im_fenced_boots s)) @
     hash_counted hash_queue (map snd (im_queues s)) @
     hash_counted hash_tenant (map snd (im_tenants s))"

definition compute_state_digest :: "Impl \<Rightarrow> Digest256" where
  "compute_state_digest s = hasher_final (absorb (hash_state s) hasher_init)"

definition hash_incarnation :: "AgentRecord \<Rightarrow> HashStep list" where
  "hash_incarnation r =
     [HLong (ad_id (ag_descriptor r)), HLong (ad_generation (ag_descriptor r))]
     @ hash_id (ad_boot (ag_descriptor r)) @ [HLong (ad_registration_generation (ag_descriptor r))]"

definition compute_agent_generation_digest :: "Impl \<Rightarrow> Digest256" where
  "compute_agent_generation_digest s =
     hasher_final (absorb (HTag 0x51 # concat (map hash_incarnation (map snd (im_agents s)))) hasher_init)"

subsection \<open>The bytes the hasher is fed\<close>

primrec step_bytes :: "HashStep \<Rightarrow> u8 list" where
  "step_bytes (HTag t) = t # le_bytes 4 (0xA5A5A5A5 :: u32)"
| "step_bytes (HByte v) = [v]"
| "step_bytes (HWord v) = le_bytes 4 v"
| "step_bytes (HLong v) = le_bytes 8 v"
| "step_bytes (HText s) = le_bytes 4 (of_nat (length s) :: u32) @ text_bytes s"

definition hash_bytes :: "HashStep list \<Rightarrow> u8 list" where
  "hash_bytes xs = concat (map step_bytes xs)"

lemma run_step_bytes: "hasher_wf h \<Longrightarrow> run_step x h = hasher_update (step_bytes x) h"
  by (cases x)
    (simp_all add: update_field_tag_def update_u8_def update_u32_def update_u64_def
      update_length_prefixed_def hasher_update_append)

lemma absorb_bytes: "hasher_wf h \<Longrightarrow> absorb xs h = hasher_update (hash_bytes xs) h"
proof (induction xs arbitrary: h)
  case Nil
  then show ?case by (simp add: absorb_def hash_bytes_def hasher_update_bytes)
next
  case (Cons x xs)
  have "absorb (x # xs) h = absorb xs (hasher_update (step_bytes x) h)"
    using Cons.prems by (simp add: absorb_def run_step_bytes)
  also have "\<dots> = hasher_update (hash_bytes xs) (hasher_update (step_bytes x) h)"
    using Cons.prems by (intro Cons.IH) simp
  finally show ?case using Cons.prems by (simp add: hash_bytes_def hasher_update_append)
qed

lemma digest_of_steps: "hasher_final (absorb xs hasher_init) = sha256_spec (hash_bytes xs)"
  by (simp only: absorb_bytes hasher_wf_init hasher_final_spec)

subsection \<open>The encoding is canonical\<close>

definition text_ok :: "string \<Rightarrow> bool" where
  "text_ok s \<longleftrightarrow> length s < 2 ^ 32"

lemma hash_bytes_Nil [simp]: "hash_bytes [] = []"
  by (simp add: hash_bytes_def)

lemma hash_bytes_Cons [simp]: "hash_bytes (x # xs) = step_bytes x @ hash_bytes xs"
  by (simp add: hash_bytes_def)

lemma hash_bytes_append [simp]: "hash_bytes (xs @ ys) = hash_bytes xs @ hash_bytes ys"
  by (simp add: hash_bytes_def)

lemma le_bytes_inject:
  "8 * n = LENGTH('a) \<Longrightarrow> le_bytes n (v :: 'a::len word) = le_bytes n w \<longleftrightarrow> v = w"
proof -
  assume n: "8 * n = LENGTH('a)"
  have "le_value (le_bytes n x) = x" for x :: "'a word"
    using n by (simp add: le_value_le_bytes take_bit_word_eq_self)
  then show ?thesis by metis
qed

lemma word_bytes_inject [simp]:
  "le_bytes 8 v @ r = le_bytes 8 w @ s \<longleftrightarrow> v = (w :: u64) \<and> r = s"
  "le_bytes 4 x @ r = le_bytes 4 y @ s \<longleftrightarrow> x = (y :: u32) \<and> r = s"
  by (simp_all add: le_bytes_inject)

lemma of_nat_word_inject:
  assumes "m < 2 ^ LENGTH('a)" and "n < 2 ^ LENGTH('a)"
  shows "(of_nat m :: 'a::len word) = of_nat n \<longleftrightarrow> m = n"
proof -
  have "unat (of_nat m :: 'a word) = m" "unat (of_nat n :: 'a word) = n"
    using assms by (simp_all add: unat_of_nat)
  then show ?thesis by metis
qed

lemmas of_nat_u32_inject = of_nat_word_inject [where 'a = 32, simplified]
lemmas of_nat_u64_inject = of_nat_word_inject [where 'a = 64, simplified]
lemmas byte_inject = of_nat_word_inject [where 'a = 8, simplified]

lemma text_bytes_inject: "text_bytes s = text_bytes t \<longleftrightarrow> s = t"
  by (metis bytes_text_bytes)

lemma text_step [simp]:
  assumes "text_ok s" "text_ok t"
  shows "step_bytes (HText s) @ r = step_bytes (HText t) @ r' \<longleftrightarrow> s = t \<and> r = r'"
proof -
  have "length s = length t \<Longrightarrow> text_bytes s @ r = text_bytes t @ r' \<longleftrightarrow> s = t \<and> r = r'"
    by (simp add: text_bytes_inject)
  then show ?thesis
    using assms of_nat_u32_inject [of "length s" "length t"] by (auto simp: text_ok_def)
qed

declare step_bytes.simps(5) [simp del]

text \<open>
  What a helper owes its callers: the bytes it feeds, read from the front, determine the view
  of its argument, and depend on nothing else.
\<close>

locale canonical_hash =
  fixes steps :: "'a \<Rightarrow> HashStep list"
    and view :: "'a \<Rightarrow> 'b"
    and ok :: "'a \<Rightarrow> bool"
  assumes separates: "ok x \<Longrightarrow> ok y \<Longrightarrow>
    hash_bytes (steps x) @ r = hash_bytes (steps y) @ s \<longleftrightarrow> view x = view y \<and> r = s"
begin

lemma elements:
  "length xs = length ys \<Longrightarrow> \<forall>x \<in> set xs. ok x \<Longrightarrow> \<forall>y \<in> set ys. ok y \<Longrightarrow>
   hash_bytes (concat (map steps xs)) @ r = hash_bytes (concat (map steps ys)) @ s
     \<longleftrightarrow> map view xs = map view ys \<and> r = s"
  by (induction xs ys rule: list_induct2) (auto simp: separates)

lemma counted:
  assumes "length xs < 2 ^ 64 \<and> (\<forall>x \<in> set xs. ok x)" and "length ys < 2 ^ 64 \<and> (\<forall>y \<in> set ys. ok y)"
  shows "hash_bytes (hash_counted steps xs) @ r = hash_bytes (hash_counted steps ys) @ s
    \<longleftrightarrow> map view xs = map view ys \<and> r = s"
proof (cases "length xs = length ys")
  case True
  then show ?thesis using assms elements [of xs ys r s] by (simp add: hash_counted_def)
next
  case False
  then have "map view xs \<noteq> map view ys" by (metis length_map)
  moreover have "(of_nat (length xs) :: u64) \<noteq> of_nat (length ys)"
    using False assms by (simp add: of_nat_u64_inject)
  ultimately show ?thesis by (simp add: hash_counted_def)
qed

end

text \<open>Codes of the enumerations as bytes.\<close>

lemma capability_state_code_byte [simp]:
  "(of_nat (capability_state_code x) :: u8) = of_nat (capability_state_code y) \<longleftrightarrow> x = y"
  by (cases x; cases y) simp_all

lemma requirement_mode_code_byte [simp]:
  "(of_nat (requirement_mode_code x) :: u8) = of_nat (requirement_mode_code y) \<longleftrightarrow> x = y"
  by (cases x; cases y) simp_all

lemma agent_lifecycle_code_byte [simp]:
  "(of_nat (agent_lifecycle_code x) :: u8) = of_nat (agent_lifecycle_code y) \<longleftrightarrow> x = y"
  by (cases x; cases y) simp_all

lemma agent_health_code_byte [simp]:
  "(of_nat (agent_health_code x) :: u8) = of_nat (agent_health_code y) \<longleftrightarrow> x = y"
  by (cases x; cases y) simp_all

lemma agent_readiness_code_byte [simp]:
  "(of_nat (agent_readiness_code x) :: u8) = of_nat (agent_readiness_code y) \<longleftrightarrow> x = y"
  by (cases x; cases y) simp_all

lemma agent_reachability_code_byte [simp]:
  "(of_nat (agent_reachability_code x) :: u8) = of_nat (agent_reachability_code y) \<longleftrightarrow> x = y"
  by (cases x; cases y) simp_all

lemma agent_availability_code_byte [simp]:
  "(of_nat (agent_availability_code x) :: u8) = of_nat (agent_availability_code y) \<longleftrightarrow> x = y"
  by (cases x; cases y) simp_all

lemma feasibility_verdict_code_byte [simp]:
  "(of_nat (feasibility_verdict_code x) :: u8) = of_nat (feasibility_verdict_code y) \<longleftrightarrow> x = y"
  by (cases x; cases y) simp_all

lemma scheduling_mode_code_byte [simp]:
  "(of_nat (scheduling_mode_code x) :: u8) = of_nat (scheduling_mode_code y) \<longleftrightarrow> x = y"
  by (cases x; cases y) simp_all

lemma work_lifecycle_code_byte [simp]:
  "(of_nat (work_lifecycle_code x) :: u8) = of_nat (work_lifecycle_code y) \<longleftrightarrow> x = y"
  by (cases x; cases y) simp_all

lemma assignment_state_code_byte [simp]:
  "(of_nat (assignment_state_code x) :: u8) = of_nat (assignment_state_code y) \<longleftrightarrow> x = y"
  by (cases x; cases y) simp_all

lemma invalidation_code_byte [simp]:
  "(of_nat (invalidation_code x) :: u8) = of_nat (invalidation_code y) \<longleftrightarrow> x = y"
proof -
  have "invalidation_code z < 256" for z by (cases z) simp_all
  moreover have "invalidation_code x = invalidation_code y \<longleftrightarrow> x = y"
    by (cases x) (cases y; simp)+
  ultimately show ?thesis by (simp only: byte_inject)
qed

subsection \<open>Every helper is canonical\<close>

lemma flag_step [simp]: "step_bytes (HFlag a) @ r = step_bytes (HFlag b) @ s \<longleftrightarrow> a = b \<and> r = s"
  by (simp add: HFlag_def)

lemma hash_id_step [simp]:
  "hash_bytes (hash_id a) @ r = hash_bytes (hash_id b) @ s \<longleftrightarrow> a = b \<and> r = s"
  by (cases a; cases b) (auto simp: hash_id_def)

interpretation text_hash: canonical_hash "\<lambda>s. [HText s]" "\<lambda>s. s" text_ok
  by unfold_locales simp

definition labels_ok :: "string list \<Rightarrow> bool" where
  "labels_ok xs \<longleftrightarrow> length xs < 2 ^ 64 \<and> (\<forall>s \<in> set xs. text_ok s)"

lemma labels_step [simp]:
  "labels_ok xs \<Longrightarrow> labels_ok ys \<Longrightarrow>
   hash_bytes (hash_labels xs) @ r = hash_bytes (hash_labels ys) @ s \<longleftrightarrow> xs = ys \<and> r = s"
  unfolding labels_ok_def hash_labels_def using text_hash.counted [of xs ys r s] by simp

interpretation id_hash: canonical_hash "\<lambda>a. [HLong a]" "\<lambda>a. a" "\<lambda>_. True"
  by unfold_locales simp

text \<open>The two weight tables of the policy.\<close>

lemma weight_steps [simp]:
  "text_ok (rw_factor v) \<Longrightarrow> text_ok (rw_factor w) \<Longrightarrow>
   hash_bytes [HText (rw_factor v), HWord (rw_weight v)] @ r
     = hash_bytes [HText (rw_factor w), HWord (rw_weight w)] @ s \<longleftrightarrow> v = w \<and> r = s"
  "text_ok (qw_fairness_class v') \<Longrightarrow> text_ok (qw_fairness_class w') \<Longrightarrow>
   hash_bytes [HText (qw_fairness_class v'), HWord (qw_weight v')] @ r
     = hash_bytes [HText (qw_fairness_class w'), HWord (qw_weight w')] @ s \<longleftrightarrow> v' = w' \<and> r = s"
  for v w :: RankingWeight and v' w' :: QueueClassWeight
  by (cases v; cases w; auto) (cases v'; cases w'; auto)

interpretation ranking_weight_hash: canonical_hash
    "\<lambda>w :: RankingWeight. [HText (rw_factor w), HWord (rw_weight w)]" "\<lambda>w. w"
    "\<lambda>w. text_ok (rw_factor w)"
  by unfold_locales (rule weight_steps)

interpretation class_weight_hash: canonical_hash
    "\<lambda>w :: QueueClassWeight. [HText (qw_fairness_class w), HWord (qw_weight w)]" "\<lambda>w. w"
    "\<lambda>w. text_ok (qw_fairness_class w)"
  by unfold_locales (rule weight_steps)

lemmas [simp] = ranking_weight_hash.counted class_weight_hash.counted id_hash.counted

definition policy_hashable :: "PolicySnapshot \<Rightarrow> bool" where
  "policy_hashable p \<longleftrightarrow>
     length (ranking_weights p) < 2 ^ 64
     \<and> (\<forall>x \<in> set (ranking_weights p). text_ok (rw_factor x))
     \<and> length (fairness_class_weights p) < 2 ^ 64
     \<and> (\<forall>x \<in> set (fairness_class_weights p). text_ok (qw_fairness_class x))"

interpretation policy_hash: canonical_hash hash_policy "\<lambda>x. x" policy_hashable
proof
  fix x y :: PolicySnapshot and r s
  assume "policy_hashable x" "policy_hashable y"
  then show "hash_bytes (hash_policy x) @ r = hash_bytes (hash_policy y) @ s
      \<longleftrightarrow> x = y \<and> r = s"
    by (cases x; cases y) (auto simp: hash_policy_def policy_hashable_def)
qed

lemmas [simp] = policy_hash.separates policy_hash.counted

definition evidence_hashable :: "CapabilityEvidence \<Rightarrow> bool" where
  "evidence_hashable e \<longleftrightarrow>
     text_ok (ce_name e)
     \<and> text_ok (ce_provenance e)"

interpretation evidence_hash: canonical_hash hash_evidence "\<lambda>x. x" evidence_hashable
proof
  fix x y :: CapabilityEvidence and r s
  assume "evidence_hashable x" "evidence_hashable y"
  then show "hash_bytes (hash_evidence x) @ r = hash_bytes (hash_evidence y) @ s
      \<longleftrightarrow> x = y \<and> r = s"
    by (cases x; cases y) (auto simp: hash_evidence_def evidence_hashable_def)
qed

lemmas [simp] = evidence_hash.separates evidence_hash.counted

definition capability_profile_hashable :: "CapabilityProfile \<Rightarrow> bool" where
  "capability_profile_hashable p \<longleftrightarrow>
     length (cp_capabilities p) < 2 ^ 64
     \<and> (\<forall>x \<in> set (cp_capabilities p). evidence_hashable x)"

interpretation capability_profile_hash: canonical_hash hash_capability_profile "\<lambda>x. x" capability_profile_hashable
proof
  fix x y :: CapabilityProfile and r s
  assume "capability_profile_hashable x" "capability_profile_hashable y"
  then show "hash_bytes (hash_capability_profile x) @ r = hash_bytes (hash_capability_profile y) @ s
      \<longleftrightarrow> x = y \<and> r = s"
    by (cases x; cases y) (auto simp: hash_capability_profile_def capability_profile_hashable_def)
qed

lemmas [simp] = capability_profile_hash.separates capability_profile_hash.counted

definition descriptor_hashable :: "AgentDescriptor \<Rightarrow> bool" where
  "descriptor_hashable d \<longleftrightarrow>
     text_ok (ad_display_name d)
     \<and> labels_ok (ad_policy_labels d)
     \<and> text_ok (ad_provenance d)"

interpretation descriptor_hash: canonical_hash hash_descriptor "\<lambda>x. x" descriptor_hashable
proof
  fix x y :: AgentDescriptor and r s
  assume "descriptor_hashable x" "descriptor_hashable y"
  then show "hash_bytes (hash_descriptor x) @ r = hash_bytes (hash_descriptor y) @ s
      \<longleftrightarrow> x = y \<and> r = s"
    by (cases x; cases y) (auto simp: hash_descriptor_def descriptor_hashable_def)
qed

lemmas [simp] = descriptor_hash.separates descriptor_hash.counted

text \<open>What the code hashes of an observation.\<close>

definition load_view :: "LoadObservation \<Rightarrow> LoadObservation" where
  "load_view ob = ob\<lparr>lo_generation := 0, lo_max_concurrency := 0\<rparr>"

definition health_view :: "HealthObservation \<Rightarrow> HealthObservation" where
  "health_view ob = ob\<lparr>ho_generation := 0, ho_health := AgentHealth.Unknown, ho_detail := []\<rparr>"

definition availability_view :: "AvailabilityObservation \<Rightarrow> AvailabilityObservation" where
  "availability_view ob = default_availability\<lparr>ao_observed_at_ms := ao_observed_at_ms ob\<rparr>"

lemma health_view_eq: "health_view a = health_view b \<longleftrightarrow>
    ho_health_quality a = ho_health_quality b \<and> ho_observed_at_ms a = ho_observed_at_ms b"
  by (cases a; cases b) (simp add: health_view_def)

lemma availability_view_eq: "availability_view a = availability_view b \<longleftrightarrow>
    ao_observed_at_ms a = ao_observed_at_ms b"
  by (cases a; cases b) (simp add: availability_view_def default_availability_def)

definition load_hashable :: "LoadObservation \<Rightarrow> bool" where
  "load_hashable ob \<longleftrightarrow>
     labels_ok (lo_warm_state_keys ob)"

interpretation load_hash: canonical_hash hash_load load_view load_hashable
proof
  fix x y :: LoadObservation and r s
  assume "load_hashable x" "load_hashable y"
  then show "hash_bytes (hash_load x) @ r = hash_bytes (hash_load y) @ s
      \<longleftrightarrow> load_view x = load_view y \<and> r = s"
    by (cases x; cases y) (auto simp: hash_load_def load_hashable_def load_view_def)
qed

lemmas [simp] = load_hash.separates load_hash.counted

definition agent_view :: "AgentRecord \<Rightarrow> AgentRecord" where
  "agent_view r = r\<lparr>ag_health_observation := health_view (ag_health_observation r),
     ag_availability_observation := availability_view (ag_availability_observation r),
     ag_load_observation := load_view (ag_load_observation r)\<rparr>"

definition agent_record_hashable :: "AgentRecord \<Rightarrow> bool" where
  "agent_record_hashable r \<longleftrightarrow>
     descriptor_hashable (ag_descriptor r)
     \<and> load_hashable (ag_load_observation r)
     \<and> text_ok (ag_reason r)
     \<and> capability_profile_hashable (ag_profile r)"

interpretation agent_record_hash: canonical_hash hash_agent_record agent_view agent_record_hashable
proof
  fix x y :: AgentRecord and r s
  assume "agent_record_hashable x" "agent_record_hashable y"
  then show "hash_bytes (hash_agent_record x) @ r = hash_bytes (hash_agent_record y) @ s
      \<longleftrightarrow> agent_view x = agent_view y \<and> r = s"
    by (cases x; cases y) (auto simp: hash_agent_record_def agent_record_hashable_def agent_view_def
        health_view_eq availability_view_eq)
qed

lemmas [simp] = agent_record_hash.separates agent_record_hash.counted

definition capability_requirement_hashable :: "CapabilityRequirement \<Rightarrow> bool" where
  "capability_requirement_hashable c \<longleftrightarrow>
     text_ok (cr_name c)"

interpretation capability_requirement_hash: canonical_hash hash_capability_requirement "\<lambda>x. x" capability_requirement_hashable
proof
  fix x y :: CapabilityRequirement and r s
  assume "capability_requirement_hashable x" "capability_requirement_hashable y"
  then show "hash_bytes (hash_capability_requirement x) @ r = hash_bytes (hash_capability_requirement y) @ s
      \<longleftrightarrow> x = y \<and> r = s"
    by (cases x; cases y) (auto simp: hash_capability_requirement_def capability_requirement_hashable_def)
qed

lemmas [simp] = capability_requirement_hash.separates capability_requirement_hash.counted

definition requirements_hashable :: "WorkRequirements \<Rightarrow> bool" where
  "requirements_hashable q \<longleftrightarrow>
     length (rq_capabilities q) < 2 ^ 64
     \<and> (\<forall>x \<in> set (rq_capabilities q). capability_requirement_hashable x)
     \<and> labels_ok (rq_required_policy_labels q)
     \<and> length (rq_affinity q) < 2 ^ 64
     \<and> length (rq_anti_affinity q) < 2 ^ 64
     \<and> labels_ok (rq_warm_state_keys q)"

interpretation requirements_hash: canonical_hash hash_requirements "\<lambda>x. x" requirements_hashable
proof
  fix x y :: WorkRequirements and r s
  assume "requirements_hashable x" "requirements_hashable y"
  then show "hash_bytes (hash_requirements x) @ r = hash_bytes (hash_requirements y) @ s
      \<longleftrightarrow> x = y \<and> r = s"
    by (cases x; cases y) (auto simp: hash_requirements_def requirements_hashable_def)
qed

lemmas [simp] = requirements_hash.separates requirements_hash.counted

definition request_hashable :: "WorkRequest \<Rightarrow> bool" where
  "request_hashable q \<longleftrightarrow> text_ok (wq_kind q) \<and> text_ok (wq_fairness_class q)
     \<and> text_ok (wq_payload_ref q) \<and> requirements_hashable (wq_requirements q)"

lemma request_eq: "x = y \<longleftrightarrow>
    wq_id x = wq_id y \<and> wq_generation x = wq_generation y \<and> wq_queue x = wq_queue y
    \<and> wq_queue_generation x = wq_queue_generation y \<and> wq_kind x = wq_kind y
    \<and> wq_priority x = wq_priority y \<and> wq_fairness_class x = wq_fairness_class y
    \<and> wq_mode x = wq_mode y \<and> wq_requirements x = wq_requirements y
    \<and> wq_payload_ref x = wq_payload_ref y \<and> wq_earliest_start_ms x = wq_earliest_start_ms y
    \<and> wq_expected_duration_ms x = wq_expected_duration_ms y" for x y :: WorkRequest
  by (cases x; cases y) simp

definition work_record_hashable :: "WorkRecord \<Rightarrow> bool" where
  "work_record_hashable r \<longleftrightarrow>
     request_hashable (wr_request r)
     \<and> text_ok (wr_reason r)"

interpretation work_record_hash: canonical_hash hash_work_record "\<lambda>x. x" work_record_hashable
proof
  fix x y :: WorkRecord and r s
  assume "work_record_hashable x" "work_record_hashable y"
  then show "hash_bytes (hash_work_record x) @ r = hash_bytes (hash_work_record y) @ s
      \<longleftrightarrow> x = y \<and> r = s"
    by (cases x; cases y) (auto simp: hash_work_record_def work_record_hashable_def request_hashable_def request_eq)
qed

lemmas [simp] = work_record_hash.separates work_record_hash.counted

interpretation bound_hash: canonical_hash hash_bound "\<lambda>x. x" "\<lambda>_. True"
proof
  fix x y :: AssignmentBinding and r s
  show "hash_bytes (hash_bound x) @ r = hash_bytes (hash_bound y) @ s
      \<longleftrightarrow> x = y \<and> r = s"
    by (cases x; cases y) (auto simp: hash_bound_def)
qed

lemmas [simp] = bound_hash.separates bound_hash.counted

definition assignment_record_hashable :: "AssignmentRecord \<Rightarrow> bool" where
  "assignment_record_hashable r \<longleftrightarrow>
     text_ok (ar_reason r)"

interpretation assignment_record_hash: canonical_hash hash_assignment_record "\<lambda>x. x" assignment_record_hashable
proof
  fix x y :: AssignmentRecord and r s
  assume "assignment_record_hashable x" "assignment_record_hashable y"
  then show "hash_bytes (hash_assignment_record x) @ r = hash_bytes (hash_assignment_record y) @ s
      \<longleftrightarrow> x = y \<and> r = s"
    by (cases x; cases y) (auto simp: hash_assignment_record_def assignment_record_hashable_def)
qed

lemmas [simp] = assignment_record_hash.separates assignment_record_hash.counted

text \<open>The agent and the incarnation of a lease, and the reason of a fence, are not hashed.\<close>

definition lease_view :: "Lease \<Rightarrow> Lease" where
  "lease_view x = x\<lparr>ls_agent := 0, ls_boot := hash128_zero\<rparr>"

interpretation lease_hash: canonical_hash hash_lease lease_view "\<lambda>_. True"
proof
  fix x y :: Lease and r s
  show "hash_bytes (hash_lease x) @ r = hash_bytes (hash_lease y) @ s
      \<longleftrightarrow> lease_view x = lease_view y \<and> r = s"
    by (cases x; cases y) (auto simp: hash_lease_def lease_view_def)
qed

lemmas [simp] = lease_hash.separates lease_hash.counted

definition fence_view :: "FencedBoot \<Rightarrow> FencedBoot" where
  "fence_view f = f\<lparr>fb_reason := []\<rparr>"

interpretation fence_hash: canonical_hash hash_fence fence_view "\<lambda>_. True"
proof
  fix x y :: FencedBoot and r s
  show "hash_bytes (hash_fence x) @ r = hash_bytes (hash_fence y) @ s
      \<longleftrightarrow> fence_view x = fence_view y \<and> r = s"
    by (cases x; cases y) (auto simp: hash_fence_def fence_view_def)
qed

lemmas [simp] = fence_hash.separates fence_hash.counted

definition queue_hashable :: "QueueRecord \<Rightarrow> bool" where
  "queue_hashable r \<longleftrightarrow>
     text_ok (qr_fairness_class r)"

interpretation queue_hash: canonical_hash hash_queue "\<lambda>x. x" queue_hashable
proof
  fix x y :: QueueRecord and r s
  assume "queue_hashable x" "queue_hashable y"
  then show "hash_bytes (hash_queue x) @ r = hash_bytes (hash_queue y) @ s
      \<longleftrightarrow> x = y \<and> r = s"
    by (cases x; cases y) (auto simp: hash_queue_def queue_hashable_def)
qed

lemmas [simp] = queue_hash.separates queue_hash.counted

interpretation tenant_hash: canonical_hash hash_tenant "\<lambda>x. x" "\<lambda>_. True"
proof
  fix x y :: TenantRecord and r s
  show "hash_bytes (hash_tenant x) @ r = hash_bytes (hash_tenant y) @ s
      \<longleftrightarrow> x = y \<and> r = s"
    by (cases x; cases y) (auto simp: hash_tenant_def)
qed

lemmas [simp] = tenant_hash.separates tenant_hash.counted

subsection \<open>The digest of the state\<close>

record StateView =
  sv_identity :: "u64 \<times> u64 \<times> u64 \<times> u64 \<times> bool \<times> bool \<times> u64 \<times> u64 \<times> u64 \<times> u64"
  sv_policy :: PolicySnapshot
  sv_agents :: "AgentRecord list"
  sv_work :: "WorkRecord list"
  sv_assignments :: "AssignmentRecord list"
  sv_leases :: "Lease list"
  sv_fences :: "FencedBoot list"
  sv_queues :: "QueueRecord list"
  sv_tenants :: "TenantRecord list"

definition state_view :: "Impl \<Rightarrow> StateView" where
  "state_view s =
     \<lparr> sv_identity = (im_scheduler_id s, im_scheduler_epoch s, im_coordinator_epoch s,
         im_queue_generation s, im_admission_open s, im_shutting_down s,
         im_next_admission_sequence s, im_scheduling_rounds s, im_assignments_created s,
         im_assignments_invalidated s),
       sv_policy = im_policy s, sv_agents = map agent_view (map snd (im_agents s)),
       sv_work = map snd (im_work s), sv_assignments = map snd (im_assignments s),
       sv_leases = map lease_view (map snd (im_leases s)),
       sv_fences = map fence_view (map snd (im_fenced_boots s)), sv_queues = map snd (im_queues s),
       sv_tenants = map snd (im_tenants s) \<rparr>"

definition state_hashable :: "Impl \<Rightarrow> bool" where
  "state_hashable s \<longleftrightarrow>
     policy_hashable (im_policy s)
     \<and> (length (map snd (im_agents s)) < 2 ^ 64 \<and> (\<forall>x \<in> set (map snd (im_agents s)). agent_record_hashable x))
     \<and> (length (map snd (im_work s)) < 2 ^ 64 \<and> (\<forall>x \<in> set (map snd (im_work s)). work_record_hashable x))
     \<and> (length (map snd (im_assignments s)) < 2 ^ 64
        \<and> (\<forall>x \<in> set (map snd (im_assignments s)). assignment_record_hashable x))
     \<and> (length (map snd (im_leases s)) < 2 ^ 64 \<and> (\<forall>x \<in> set (map snd (im_leases s)). True))
     \<and> (length (map snd (im_fenced_boots s)) < 2 ^ 64 \<and> (\<forall>x \<in> set (map snd (im_fenced_boots s)). True))
     \<and> (length (map snd (im_queues s)) < 2 ^ 64 \<and> (\<forall>x \<in> set (map snd (im_queues s)). queue_hashable x))
     \<and> (length (map snd (im_tenants s)) < 2 ^ 64 \<and> (\<forall>x \<in> set (map snd (im_tenants s)). True))"

interpretation state_hash: canonical_hash hash_state state_view state_hashable
proof
  fix x y :: Impl and r s
  assume "state_hashable x" "state_hashable y"
  then show "hash_bytes (hash_state x) @ r = hash_bytes (hash_state y) @ s
      \<longleftrightarrow> state_view x = state_view y \<and> r = s"
    unfolding state_hashable_def
    by (auto simp: hash_state_def state_view_def simp del: map_map length_map list.set_map)
qed

lemma compute_state_digest_eq: "compute_state_digest s = sha256_spec (hash_bytes (hash_state s))"
  by (simp add: compute_state_digest_def digest_of_steps)

end
