(* ===== verification/State_Files.thy ===== *)
theory State_Files
  imports Persistence
begin

section \<open>State files on the disk (persistence_io.cpp)\<close>

text \<open>
  The files of the process are a map from paths to bytes. What the operating system answers
  (an error, a short read or write, what the medium holds after a write) is an argument of the
  operation. Every change of the map is one system call; \<open>dk_past\<close> records the maps that were
  there before each call, newest first: they are what a process killed in the middle of an
  operation leaves behind.
\<close>

subsection \<open>The disk\<close>

type_synonym Files = "string \<Rightarrow> u8 list option"

record Disk =
  dk_files :: Files
  dk_directories :: "string set"
  dk_temporaries :: u64
  dk_past :: "Files list"

definition change_files :: "(Files \<Rightarrow> Files) \<Rightarrow> Disk \<Rightarrow> Disk" where
  "change_files f d = d\<lparr>dk_files := f (dk_files d), dk_past := dk_files d # dk_past d\<rparr>"

definition exists_path :: "string \<Rightarrow> Disk \<Rightarrow> bool" where
  "exists_path path d \<longleftrightarrow> path \<in> dk_directories d \<or> dk_files d path \<noteq> None"

definition remove_file :: "string \<Rightarrow> Disk \<Rightarrow> Disk" where
  "remove_file path d = change_files (\<lambda>m. m(path := None)) d"

text \<open>rename replaces the destination in one step.\<close>

definition rename_file :: "string \<Rightarrow> string \<Rightarrow> Disk \<Rightarrow> Disk" where
  "rename_file from to d = change_files (\<lambda>m. m(from := None, to := m from)) d"

text \<open>The parent path of a POSIX path.\<close>

definition parent_path :: "string \<Rightarrow> string" where
  "parent_path path =
     (let rest = dropWhile (\<lambda>c. c \<noteq> CHR ''/'') (rev path);
          up = dropWhile (\<lambda>c. c = CHR ''/'') rest
      in if rest = [] then [] else if up = [] then ''/'' else rev up)"

subsection \<open>Reading a file\<close>

record ReadIo =
  ri_stat_error :: "string option"
  ri_opens :: bool
  ri_delivers :: nat

definition read_all ::
    "ReadIo \<Rightarrow> string \<Rightarrow> u64 \<Rightarrow> Disk \<Rightarrow> SchedulerError + u8 list" where
  "read_all io path max_bytes d =
     (case (ri_stat_error io, dk_files d path) of
        (None, Some file) \<Rightarrow>
          if length file > unat max_bytes
          then Inl (persistence_failure ErrorCode.LimitExceeded ''load'' path
                      ''state file exceeds the configured persistence byte limit'')
          else if \<not> ri_opens io
          then Inl (persistence_failure ErrorCode.PersistenceIo ''load'' path
                      ''cannot open state file for reading'')
          else if length (take (ri_delivers io) file) \<noteq> length file
          then Inl (persistence_failure ErrorCode.PersistenceIo ''load'' path
                      ''short read while loading state file'')
          else Inr (take (ri_delivers io) file)
      | (e, _) \<Rightarrow> Inl (persistence_failure ErrorCode.PersistenceIo ''load'' path
                    (''cannot stat state file: '' @ (case e of Some m \<Rightarrow> m
                       | None \<Rightarrow> ''No such file or directory''))))"

subsection \<open>Writing a file\<close>

text \<open>
  The temporary file is created, written up to \<open>wi_writes\<close> bytes, flushed if asked for, and
  closed; \<open>wi_keeps\<close> is what the medium then holds for the bytes written. The removal of the
  temporary after a failure uses the overload of std::filesystem::remove that throws:
  \<open>wi_remove_error\<close> leaves the operation as an exception.
\<close>

record WriteIo =
  wi_nonce :: u64
  wi_directory_error :: bool
  wi_opens :: bool
  wi_writes :: nat
  wi_flushes :: bool
  wi_closes :: bool
  wi_keeps :: "u8 list \<Rightarrow> u8 list"
  wi_read :: ReadIo
  wi_rename_error :: "string option"
  wi_remove_error :: "string option"

definition temp_suffix :: "u64 \<Rightarrow> u64 \<Rightarrow> string" where
  "temp_suffix nonce number =
     ''.tmp-'' @ decimal (unat nonce) @ ''-'' @ decimal (unat number)"

text \<open>The end of a write that failed: the temporary is removed and the error returned.\<close>

definition abandon ::
    "WriteIo \<Rightarrow> string \<Rightarrow> SchedulerError \<Rightarrow> Disk \<Rightarrow> Disk \<times> MutationResult coded" where
  "abandon io temporary error d =
     (case wi_remove_error io of Some e \<Rightarrow> (d, Inl e)
      | None \<Rightarrow> (remove_file temporary d, Inr (Some error)))"

definition write_temporary :: "WriteIo \<Rightarrow> string \<Rightarrow> u8 list \<Rightarrow> Disk \<Rightarrow> Disk" where
  "write_temporary io temporary bytes d =
     change_files (\<lambda>m. m(temporary \<mapsto> wi_keeps io (take (wi_writes io) bytes)))
       (change_files (\<lambda>m. m(temporary \<mapsto> [])) d)"

definition verify_written ::
    "WriteIo \<Rightarrow> string \<Rightarrow> string \<Rightarrow> u8 list \<Rightarrow> Disk \<Rightarrow> SchedulerError option" where
  "verify_written io path temporary bytes d =
     (case read_all (wi_read io) temporary (of_nat (length bytes) + 1) d of
        Inl e \<Rightarrow> Some e
      | Inr reread \<Rightarrow>
          if reread \<noteq> bytes
          then Some (persistence_failure ErrorCode.PersistenceIntegrity ''save'' path
                       ''re-read state file does not match the bytes written'')
          else (case verify_file reread of Inl e \<Rightarrow> Some e | Inr _ \<Rightarrow> None))"

definition replace_destination ::
    "WriteIo \<Rightarrow> string \<Rightarrow> string \<Rightarrow> Disk \<Rightarrow> Disk \<times> MutationResult coded" where
  "replace_destination io path temporary d =
     (case wi_rename_error io of
        Some m \<Rightarrow> abandon io temporary (persistence_failure ErrorCode.PersistenceIo ''save'' path
                    (''atomic replacement failed: '' @ m)) d
      | None \<Rightarrow> (rename_file temporary path d, Inr None))"

definition write_atomically ::
    "WriteIo \<Rightarrow> string \<Rightarrow> u8 list \<Rightarrow> PersistOptions \<Rightarrow> Disk \<Rightarrow> Disk \<times> MutationResult coded" where
  "write_atomically io path bytes options d =
     (let directory = parent_path path in
      if directory \<noteq> [] \<and> (\<not> exists_path directory d \<or> wi_directory_error io)
      then (d, Inr (Some (persistence_failure ErrorCode.PersistenceIo ''save'' path
                      ''destination directory does not exist'')))
      else let temporary = path @ temp_suffix (wi_nonce io) (dk_temporaries d);
               d0 = d\<lparr>dk_temporaries := dk_temporaries d + 1\<rparr>
      in if \<not> wi_opens io
      then (d0, Inr (Some (persistence_failure ErrorCode.PersistenceIo ''save'' path
                      ''cannot open temporary state file for writing'')))
      else let d1 = write_temporary io temporary bytes d0 in
      if length (take (wi_writes io) bytes) \<noteq> length bytes
         \<or> ps_fsync options \<and> \<not> wi_flushes io \<or> \<not> wi_closes io
      then abandon io temporary (persistence_failure ErrorCode.PersistenceIo ''save'' path
             ''failed while writing or flushing the temporary state file'') d1
      else case (if ps_verify_after_write options then verify_written io path temporary bytes d1
                 else None) of
        Some e \<Rightarrow> abandon io temporary e d1
      | None \<Rightarrow> replace_destination io path temporary d1)"

subsection \<open>The other functions\<close>

definition remove_if_present ::
    "bool \<Rightarrow> string option \<Rightarrow> string \<Rightarrow> Disk \<Rightarrow> Disk \<times> MutationResult" where
  "remove_if_present visible remove_error path d =
     (if \<not> (visible \<and> exists_path path d) then (d, None)
      else case remove_error of
        Some m \<Rightarrow> (d, Some (persistence_failure ErrorCode.PersistenceIo ''remove'' path m))
      | None \<Rightarrow> (remove_file path d, None))"

definition read_persistence_header ::
    "ReadIo \<Rightarrow> string \<Rightarrow> Disk \<Rightarrow> SchedulerError + PersistenceHeaderInfo" where
  "read_persistence_header io path d =
     (case read_all io path (push_bit 40 1) d of Inl e \<Rightarrow> Inl e
      | Inr file \<Rightarrow> map_sum (\<lambda>e. e) fst (verify_file file))"

definition save_to_disk ::
    "WriteIo \<Rightarrow> PersistOptions \<Rightarrow> string \<Rightarrow> Impl \<Rightarrow> Disk \<Rightarrow> Disk \<times> MutationResult coded" where
  "save_to_disk io options path s d =
     (case save_bytes options path s of Inl e \<Rightarrow> (d, Inl e)
      | Inr (Inl e) \<Rightarrow> (d, Inr (Some e))
      | Inr (Inr file) \<Rightarrow> write_atomically io path file options d)"

definition load_from_disk ::
    "ReadIo \<Rightarrow> LoadOptions \<Rightarrow> string \<Rightarrow> Disk \<Rightarrow> Impl \<Rightarrow> Impl \<times> RecoveryResult" where
  "load_from_disk io options path d s =
     load_state options path (read_all io path (max_persistence_bytes (im_limits s)) d) s"

subsection \<open>What a write does to the disk\<close>

definition temporary_of :: "WriteIo \<Rightarrow> string \<Rightarrow> Disk \<Rightarrow> string" where
  "temporary_of io path d = path @ temp_suffix (wi_nonce io) (dk_temporaries d)"

lemma temporary_differs [simp]: "temporary_of io path d \<noteq> path" "path \<noteq> temporary_of io path d"
  by (simp_all add: temporary_of_def temp_suffix_def)

text \<open>The maps a run of system calls passed through, its last one included.\<close>

definition passed :: "Disk \<Rightarrow> Disk \<Rightarrow> Files set" where
  "passed d d' = insert (dk_files d') (set (take (length (dk_past d') - length (dk_past d)) (dk_past d')))"

text \<open>
  A run touches only the temporary until it ends: every map it passed through agrees with
  the first one elsewhere.
\<close>

definition only_touches :: "string \<Rightarrow> Disk \<Rightarrow> Disk \<Rightarrow> bool" where
  "only_touches temporary d d' \<longleftrightarrow>
     (\<exists>new. dk_past d' = new @ dk_past d \<and> (\<forall>m\<in>set new. \<forall>p. p \<noteq> temporary \<longrightarrow> m p = dk_files d p))
     \<and> (\<forall>p. p \<noteq> temporary \<longrightarrow> dk_files d' p = dk_files d p)"

lemma only_touches_refl: "dk_past d' = dk_past d \<Longrightarrow> dk_files d' = dk_files d \<Longrightarrow> only_touches t d d'"
  by (simp add: only_touches_def)

lemma only_touches_change:
  assumes "only_touches t d d'" and "\<And>m p. p \<noteq> t \<Longrightarrow> f m p = m p"
  shows "only_touches t d (change_files f d')"
proof -
  obtain new where "dk_past d' = new @ dk_past d" "\<forall>m\<in>set new. \<forall>p. p \<noteq> t \<longrightarrow> m p = dk_files d p"
    "\<forall>p. p \<noteq> t \<longrightarrow> dk_files d' p = dk_files d p"
    using assms(1) by (auto simp: only_touches_def)
  then show ?thesis unfolding only_touches_def change_files_def
    using assms(2) by (intro conjI exI [of _ "dk_files d' # new"]) simp_all
qed

lemma only_touches_abandon:
  "only_touches t d d' \<Longrightarrow> only_touches t d (fst (abandon io t e d'))"
  by (auto simp: abandon_def remove_file_def intro!: only_touches_change split: option.split)

lemma only_touches_write:
  "only_touches t d d' \<Longrightarrow> only_touches t d (write_temporary io t bytes d')"
  by (simp add: write_temporary_def only_touches_change)

lemma only_touches_passed:
  "only_touches t d d' \<Longrightarrow> m \<in> passed d d' \<Longrightarrow> p \<noteq> t \<Longrightarrow> m p = dk_files d p"
  by (auto simp: only_touches_def passed_def)

text \<open>The read back returns what the medium holds.\<close>

lemma read_all_Inr: "read_all io path b d = Inr file \<Longrightarrow> dk_files d path = Some file"
  by (auto simp: read_all_def split: option.splits if_splits)

lemma verify_written_None:
  "verify_written io path t bytes d = None \<Longrightarrow> dk_files d t = Some bytes \<and> (\<exists>x. verify_file bytes = Inr x)"
  by (auto simp: verify_written_def dest!: read_all_Inr split: sum.splits if_splits)

lemma abandon_fails [simp]: "snd (abandon io t e d) \<noteq> Inr None"
  by (simp add: abandon_def split: option.split)

lemma dk_files_temporaries [simp]:
  "dk_files (d\<lparr>dk_temporaries := n\<rparr>) = dk_files d" "dk_past (d\<lparr>dk_temporaries := n\<rparr>) = dk_past d"
  by simp_all

lemma only_touches_numbered: "only_touches t d (d\<lparr>dk_temporaries := n\<rparr>)"
  by (rule only_touches_refl) simp_all

lemma write_failed:
  assumes "snd (write_atomically io path bytes options d) \<noteq> Inr None"
  shows "only_touches (temporary_of io path d) d (fst (write_atomically io path bytes options d))"
proof -
  let ?t = "temporary_of io path d" and ?d0 = "d\<lparr>dk_temporaries := dk_temporaries d + 1\<rparr>"
  have "only_touches ?t d (write_temporary io ?t bytes ?d0)"
    "only_touches ?t d d" "only_touches ?t d ?d0"
    by (intro only_touches_write only_touches_numbered) (simp_all add: only_touches_refl only_touches_numbered)
  then show ?thesis
    using assms unfolding write_atomically_def Let_def temporary_of_def [symmetric]
    by (auto simp: replace_destination_def only_touches_abandon split: if_splits option.splits)
qed

lemma write_done:
  assumes "snd (write_atomically io path bytes options d) = Inr None"
  shows "\<exists>d1. fst (write_atomically io path bytes options d) = rename_file (temporary_of io path d) path d1
    \<and> only_touches (temporary_of io path d) d d1
    \<and> dk_files d1 (temporary_of io path d) = Some (wi_keeps io bytes)
    \<and> (ps_verify_after_write options \<longrightarrow> wi_keeps io bytes = bytes \<and> (\<exists>x. verify_file bytes = Inr x))"
proof -
  let ?t = "temporary_of io path d"
  let ?d1 = "write_temporary io ?t bytes (d\<lparr>dk_temporaries := dk_temporaries d + 1\<rparr>)"
  have whole: "take (wi_writes io) bytes = bytes"
    and checked: "ps_verify_after_write options \<Longrightarrow> verify_written io path ?t bytes ?d1 = None"
    and eq: "fst (write_atomically io path bytes options d) = rename_file ?t path ?d1"
    using assms unfolding write_atomically_def Let_def temporary_of_def [symmetric]
    by (auto simp: replace_destination_def split: if_splits option.splits)
  have stored: "dk_files ?d1 ?t = Some (wi_keeps io bytes)"
    by (simp add: write_temporary_def change_files_def whole)
  moreover have "only_touches ?t d ?d1"
    by (intro only_touches_write only_touches_numbered)
  moreover have "wi_keeps io bytes = bytes \<and> (\<exists>x. verify_file bytes = Inr x)"
    if "ps_verify_after_write options"
    using verify_written_None [OF checked [OF that]] stored by simp
  ultimately show ?thesis using eq by blast
qed

lemma abandon_cleans:
  "wi_remove_error io = None \<Longrightarrow> dk_files (fst (abandon io t e d)) = (dk_files d)(t := None)"
  by (simp add: abandon_def remove_file_def change_files_def)

lemma write_cleans:
  assumes "snd (write_atomically io path bytes options d) \<noteq> Inr None" and "wi_remove_error io = None"
    and "dk_files d (temporary_of io path d) = None"
  shows "dk_files (fst (write_atomically io path bytes options d)) = dk_files d"
  using assms unfolding write_atomically_def Let_def temporary_of_def [symmetric]
  by (auto simp: replace_destination_def abandon_cleans write_temporary_def change_files_def fun_eq_iff
      split: option.splits if_splits)

text \<open>Every map a write passed through shows the destination as before or replaced.\<close>

lemma write_passes:
  assumes "write_atomically io path bytes options d = (d', r)" and "m \<in> passed d d'"
  shows "m path = dk_files d path
    \<or> r = Inr None \<and> m = dk_files d' \<and> m path = Some (wi_keeps io bytes)"
proof (cases "r = Inr None")
  case True
  obtain d1 where d1: "d' = rename_file (temporary_of io path d) path d1"
    "only_touches (temporary_of io path d) d d1"
    "dk_files d1 (temporary_of io path d) = Some (wi_keeps io bytes)"
    using write_done [of io path bytes options d] assms(1) True by auto
  then obtain new where "dk_past d1 = new @ dk_past d" by (auto simp: only_touches_def)
  then have "passed d d' = insert (dk_files d') (passed d d1)"
    using d1(1) by (auto simp: passed_def rename_file_def change_files_def)
  then have "m = dk_files d' \<or> m \<in> passed d d1" using assms(2) by simp
  then show ?thesis
    using d1 True only_touches_passed [OF d1(2), of m path]
    by (auto simp: rename_file_def change_files_def)
next
  case False
  then have "only_touches (temporary_of io path d) d d'"
    using write_failed [of io path bytes options d] assms(1) by simp
  then show ?thesis using only_touches_passed assms(2) by simp
qed

text \<open>When every call succeeds, so does the write.\<close>

lemma write_succeeds:
  assumes "parent_path path = [] \<or> exists_path (parent_path path) d \<and> \<not> wi_directory_error io"
    and "wi_opens io" and "length bytes \<le> wi_writes io" and "wi_flushes io" and "wi_closes io"
    and "wi_keeps io bytes = bytes" and "verify_written io path (temporary_of io path d) bytes
      (write_temporary io (temporary_of io path d) bytes (d\<lparr>dk_temporaries := dk_temporaries d + 1\<rparr>)) = None"
    and "wi_rename_error io = None"
  shows "snd (write_atomically io path bytes options d) = Inr None"
  using assms unfolding write_atomically_def Let_def temporary_of_def [symmetric]
  by (auto simp: replace_destination_def split: option.split)

lemma verify_written_ok:
  assumes "dk_files d t = Some bytes" and "verify_file bytes = Inr x" and "length bytes + 1 < 2 ^ 64"
    and "ri_stat_error (wi_read io) = None" and "ri_opens (wi_read io)"
    and "length bytes \<le> ri_delivers (wi_read io)"
  shows "verify_written io path t bytes d = None"
proof -
  have "unat (of_nat (length bytes) + 1 :: u64) = length bytes + 1"
  proof -
    have "of_nat (length bytes) + 1 = (of_nat (Suc (length bytes)) :: u64)" by simp
    then show ?thesis using assms(3) by (simp only: unat_of_nat) simp
  qed
  then show ?thesis using assms by (simp add: verify_written_def read_all_def)
qed

end
