(* ===== verification/Persistence_Properties.thy ===== *)
theory Persistence_Properties
  imports Restart_Scenario State_Digest State_Files
begin

section \<open>Properties of persistence and recovery\<close>

text \<open>
  What saving, loading and restarting guarantee: the round trip of the state through a file,
  the rejection of damaged files, the conservative recovery of authority, and the state
  digest as a canonical image of the state.
\<close>

text \<open>C26: The state of any reachable system whose records obey the limits, once saved, is
  loaded again by a stopped scheduler: the load succeeds, the digests agree, and the new state is the image of the saved one, with every
  queue, tenant, fence and the policy unchanged, every assignment, lease, agent and work item
  under its identity, and the next scheduler epoch.\<close>

theorem saved_state_recovered:
  assumes "reachable y" and "save_bytes popts path (sys_impl y) = Inr (Inr f)"
    and "state_fits (sys_impl y)" and "length f < 2 ^ 64" and "\<not> im_running t"
    and "im_limits t = im_limits (sys_impl y)"
  shows "\<exists>x r. load_state lopts path' (Inr f) t = (x, r) \<and> rv_error r = None
    \<and> rv_stored_digest r = rv_computed_digest r \<and> recovered_from (sys_impl y) x"
proof -
  let ?s = "sys_impl y"
  have keyed: "state_keyed ?s" by (rule reachable_keyed [OF assms(1)])
  obtain r where "load_state lopts path' (Inr f) t = (recover (decoded_of ?s) t, r)"
    "rv_error r = None" "rv_stored_digest r = rv_computed_digest r"
    using load_saved [OF assms(2,3) keyed assms(4-6)] by blast
  then show ?thesis using recover_recovered [OF keyed, of t] by blast
qed

theorem saved_state_recovered_witness:
  "\<exists>f x r. save_bytes demo_popts ''p'' demo6 = Inr (Inr f)
     \<and> load_state demo_lopts ''p'' (Inr f) demo_fresh = (x, r) \<and> rv_error r = None
     \<and> om_get (im_assignments x) demo_key = Some (recovered_assignment (new_assignment demo_binding))"
proof -
  obtain f where f: "save_bytes demo_popts ''p'' demo6 = Inr (Inr f)" "length f < 2 ^ 64"
    using demo6_saved by fastforce
  have "im_limits demo_fresh = im_limits demo6" by (simp add: demo_fresh_sel demo6_lists)
  then obtain x r where "load_state demo_lopts ''p'' (Inr f) demo_fresh = (x, r)" "rv_error r = None"
    "recovered_from demo6 x"
    using saved_state_recovered [OF demo_reachable6, of demo_popts "''p''" f demo_fresh demo_lopts "''p''"]
      f demo6_fits demo_fresh_sel(1) by (auto simp: idle_def)
  then show ?thesis using f(1) demo6_assignment by (auto simp: recovered_from_def)
qed

text \<open>C27: Recovery is conservative: after a restart the scheduler neither runs nor admits, no
  evidence and no lease is current, every active assignment keeps its slot but awaits
  revalidation under an older epoch, and fences and policy are kept.\<close>

theorem restart_conservative:
  assumes "reachable y" and "restarts_to (sys_impl y) x"
  shows "conservative x \<and> (\<forall>w. assignments_of_work x w = assignments_of_work (sys_impl y) w)
    \<and> im_fenced_boots x = im_fenced_boots (sys_impl y) \<and> im_policy x = im_policy (sys_impl y)
    \<and> im_scheduler_epoch x = im_scheduler_epoch (sys_impl y) + 1
    \<and> \<not> im_running x \<and> \<not> im_admission_open x"
  using restart_recovers [OF assms(2) reachable_keyed [OF assms(1)]]
    restart_core [OF assms(2) reachable_core [OF assms(1)] reachable_keyed [OF assms(1)]
      reachable_refs [OF assms(1)]]
    recovered_owned [of "sys_impl y" x bn_work]
  by (simp add: recovered_from_def)

theorem restart_conservative_witness:
  "\<exists>x. restarts_to demo6 x \<and> demo_key \<in> assignments_of_work x 9 \<and> \<not> im_running x"
  using demo6_restarts restart_conservative [OF demo_reachable6] demo6_owned by fastforce

text \<open>C28: A recovered assignment is never revived: in whatever state the scheduler reaches
  after a restart it still awaits revalidation or has ended, its dispatch is refused, and its
  revalidation fails.\<close>

theorem restart_revokes_authority:
  assumes "reachable y" and "restarts_to (sys_impl y) x"
    and "leads_to \<lparr>sys_impl = x, sys_pending = []\<rparr> z"
    and "om_get (im_assignments x) k = Some r" and "record_active r"
  shows "\<exists>r'. om_get (im_assignments (sys_impl z)) k = Some r'
    \<and> (ar_state r' = AssignmentState.RevalidationRequired \<or> assignment_state_is_terminal (ar_state r'))
    \<and> revalidate_authority (sys_impl z) r' \<noteq> None
    \<and> dr_handoff (snd (dispatch_commit k g (sys_impl z))) = None"
proof -
  let ?y = "\<lparr>sys_impl = x, sys_pending = []\<rparr>"
  have reach: "reachable ?y" by (rule reach_restart [OF assms(1,2)])
  have "conservative x" using restart_core [OF assms(2) reachable_core [OF assms(1)] reachable_keyed [OF assms(1)]
      reachable_refs [OF assms(1)]] by blast
  then have r: "ar_state r = AssignmentState.RevalidationRequired"
    "bn_scheduler_epoch (ar_binding r) < im_scheduler_epoch x"
    using assms(4,5) unfolding conservative_def by blast+
  have ev: "evolves x (sys_impl z)" using run_evolves [OF reach assms(3)] by simp
  then obtain r' where r': "om_get (im_assignments (sys_impl z)) k = Some r'"
    "binding_core (ar_binding r') = binding_core (ar_binding r)"
    "assignment_rank (ar_state r) \<le> assignment_rank (ar_state r')"
    using assms(4) unfolding evolves_def assignments_le_def by blast
  have late: "ar_state r' = AssignmentState.RevalidationRequired \<or> assignment_state_is_terminal (ar_state r')"
    using r'(3) r(1) by (cases "ar_state r'") (simp_all add: assignment_rank_def)
  have "bn_scheduler_epoch (ar_binding r') < im_scheduler_epoch (sys_impl z)"
    using r(2) binding_coreD(12) [OF r'(2)] ev by (simp add: evolves_def policy_le_def)
  then have "\<not> bound_authority_current (sys_impl z) (ar_binding r')"
    by (auto simp: bound_authority_current_def)
  then have "revalidate_authority (sys_impl z) r' \<noteq> None"
    using revalidate_authority_None by blast
  moreover have "dr_handoff (snd (dispatch_commit k g (sys_impl z))) = None"
    using late r'(1) by (auto simp: dispatch_commit_def refused_dispatch_def split: option.split)
  ultimately show ?thesis using r'(1) late by blast
qed

theorem restart_revokes_authority_witness:
  "\<exists>x. restarts_to demo6 x \<and> dr_handoff (snd (dispatch_commit demo_key 1 (fst (start x)))) = None"
proof -
  obtain x where x: "restarts_to demo6 x" using demo6_restarts by blast
  then have "recovered_from demo6 x" using restart_recovers demo6_keyed by blast
  then have "om_get (im_assignments x) demo_key = Some (recovered_assignment (new_assignment demo_binding))"
    using demo6_assignment by (simp add: recovered_from_def)
  moreover have "record_active (recovered_assignment (new_assignment demo_binding))"
    by (simp add: new_assignment_def)
  moreover have "leads_to \<lparr>sys_impl = x, sys_pending = []\<rparr> (idle (fst (start x)))"
    using idle_leads [OF sec_start] by (simp add: idle_def)
  ultimately show ?thesis
    using restart_revokes_authority [OF demo_reachable6, of x "idle (fst (start x))"] x by fastforce
qed

definition refused_file :: "u8 list \<Rightarrow> bool" where
  "refused_file g \<longleftrightarrow> (\<forall>lopts path t. \<exists>r. load_state lopts path (Inr g) t = (t, r) \<and> rv_error r \<noteq> None)"

lemma verify_refuses: "verify_file g = Inl e \<Longrightarrow> refused_file g"
  by (simp add: refused_file_def load_state_def load_file_def Let_def)

lemma invalid_refused: "length g < 2 ^ 64 \<Longrightarrow> \<not> file_valid g \<Longrightarrow> refused_file g"
  using verify_file_Inr [of g] by (cases "verify_file g") (auto intro: verify_refuses)

text \<open>C29: Whatever one byte of a valid state file is changed to (outside the four reserved bytes
  at its end), wherever it is cut and whatever is appended to it, load refuses the file and
  changes nothing.\<close>

theorem damaged_file_refused:
  assumes "verify_file f = Inr (info, payload)" and "length f < 2 ^ 64"
  shows "(\<forall>i b. i < length f - 4 \<and> b \<noteq> f ! i \<longrightarrow> refused_file (f[i := b]))
    \<and> (\<forall>n < length f. refused_file (take n f))
    \<and> (\<forall>g. g \<noteq> [] \<and> length (f @ g) < 2 ^ 64 \<longrightarrow> refused_file (f @ g))"
proof (intro conjI allI impI)
  have valid: "file_valid f" using verify_file_Inr [OF assms(2), of payload] assms(1) by blast
  show "refused_file (f[i := b])" if "i < length f - 4 \<and> b \<noteq> f ! i" for i b
    using that assms(2) changed_byte_invalid [OF valid] by (intro invalid_refused) simp_all
  show "refused_file (f @ g)" if "g \<noteq> [] \<and> length (f @ g) < 2 ^ 64" for g
    using that valid_length_unique [OF valid] by (intro invalid_refused) blast+
  fix n assume n: "n < length f"
  have "\<not> file_valid (take n f)"
  proof
    assume "file_valid (take n f)"
    then have "drop n f = []" using valid_length_unique [of "take n f" "drop n f"] valid by simp
    then show False using n by simp
  qed
  then show "refused_file (take n f)" using assms(2) by (intro invalid_refused) simp_all
qed

theorem damaged_file_refused_witness:
  "\<exists>f. save_bytes demo_popts ''p'' demo6 = Inr (Inr f) \<and> refused_file (take 3 f) \<and> refused_file (f @ [0])"
proof -
  obtain f where f: "save_bytes demo_popts ''p'' demo6 = Inr (Inr f)" "length f < 2 ^ 60"
    using demo6_saved by blast
  then have size: "length f < 2 ^ 64" "length (f @ [0]) < 2 ^ 64" by simp_all
  obtain r where "load_file demo_lopts [] (im_limits demo6) f = Inr (decoded_of demo6, r)"
    using load_saved_file [OF f(1) demo6_fits demo6_keyed size(1)] by blast
  then obtain info payload where v: "verify_file f = Inr (info, payload)"
    by (cases "verify_file f") (auto simp: load_file_def Let_def)
  have "3 < length f" using v by (auto simp: verify_file_def header_bytes_def split: if_splits)
  then show ?thesis using f(1) damaged_file_refused [OF v size(1)] size(2) by blast
qed



subsection \<open>Saving to the disk\<close>

text \<open>C35: However a save ends (success, a failing or short system call, an exception, or the
  process killed between two calls), the destination holds the previous contents or the
  complete new file, and the new file is loaded again as the saved state: an interrupted save
  never leaves a torn state file behind.\<close>

theorem interrupted_save_recovers:
  assumes "reachable y" and "save_bytes popts path (sys_impl y) = Inr (Inr f)"
    and "state_fits (sys_impl y)" and "length f \<le> unat (max_persistence_bytes (im_limits (sys_impl y)))"
    and "ps_verify_after_write popts \<or> wi_keeps io f = f"
    and "save_to_disk io popts path (sys_impl y) d = (d', r)" and "m \<in> passed d d'"
    and "\<not> im_running t" and "im_limits t = im_limits (sys_impl y)"
    and "ri_stat_error rio = None" and "ri_opens rio" and "length f \<le> ri_delivers rio"
  shows "if r = Inr None \<and> m = dk_files d'
    then (\<exists>x rr. load_from_disk rio lopts path (d'\<lparr>dk_files := m\<rparr>) t = (x, rr)
           \<and> rv_error rr = None \<and> recovered_from (sys_impl y) x)
    else m path = dk_files d path"
proof -
  have wrote: "write_atomically io path f popts d = (d', r)"
    using assms(2,6) by (simp add: save_to_disk_def)
  have kept: "wi_keeps io f = f" if "r = Inr None"
    using write_done [of io path f popts d] wrote assms(5) that by auto
  have final: "dk_files d' path = Some f" if "r = Inr None"
    using write_done [of io path f popts d] wrote kept [OF that] that
    by (auto simp: rename_file_def change_files_def)
  have small: "length f < 2 ^ 64"
    using le_less_trans [OF assms(4) unsigned_less] by simp
  have load: "\<exists>x rr. load_from_disk rio lopts path (d'\<lparr>dk_files := m\<rparr>) t = (x, rr)
      \<and> rv_error rr = None \<and> recovered_from (sys_impl y) x" if "m path = Some f"
  proof -
    have "read_all rio path (max_persistence_bytes (im_limits t)) (d'\<lparr>dk_files := m\<rparr>) = Inr f"
      using that assms(4,9-12) by (simp add: read_all_def)
    then show ?thesis
      using load_saved [OF assms(2,3) reachable_keyed [OF assms(1)] small assms(8,9), of lopts path]
        load_recovered [OF assms(2,3) reachable_keyed [OF assms(1)] small assms(8,9), of lopts path]
      by (force simp: load_from_disk_def)
  qed
  show ?thesis using write_passes [OF wrote assms(7)] load final by auto
qed

definition demo_read :: ReadIo where
  "demo_read = \<lparr> ri_stat_error = None, ri_opens = True, ri_delivers = 20000 \<rparr>"

definition demo_write :: WriteIo where
  "demo_write = \<lparr> wi_nonce = 7, wi_directory_error = False, wi_opens = True, wi_writes = 20000,
     wi_flushes = True, wi_closes = True, wi_keeps = (\<lambda>b. b), wi_read = demo_read,
     wi_rename_error = None, wi_remove_error = None \<rparr>"

definition demo_disk :: Disk where
  "demo_disk = \<lparr> dk_files = (\<lambda>p. None), dk_directories = {}, dk_temporaries = 0, dk_past = [] \<rparr>"

theorem interrupted_save_recovers_witness:
  "\<exists>d' x rr. save_to_disk demo_write demo_popts ''p'' demo6 demo_disk = (d', Inr None)
     \<and> load_from_disk demo_read demo_lopts ''p'' d' demo_fresh = (x, rr)
     \<and> rv_error rr = None \<and> recovered_from demo6 x"
proof -
  obtain f where f: "save_bytes demo_popts ''p'' demo6 = Inr (Inr f)" "length f \<le> 10088"
    using demo6_saved by blast
  have small: "length f < 2 ^ 64" using f(2) by simp
  obtain r where "load_file demo_lopts [] (im_limits demo6) f = Inr (decoded_of demo6, r)"
    using load_saved_file [OF f(1) demo6_fits reachable_keyed [OF demo_reachable6, simplified] small] by blast
  then obtain info where info: "verify_file f = Inr info"
    by (cases "verify_file f") (auto simp: load_file_def Let_def)
  define d' where "d' = fst (write_atomically demo_write ''p'' f demo_popts demo_disk)"
  have "verify_written demo_write ''p'' (temporary_of demo_write ''p'' demo_disk) f
      (write_temporary demo_write (temporary_of demo_write ''p'' demo_disk) f
        (demo_disk\<lparr>dk_temporaries := dk_temporaries demo_disk + 1\<rparr>)) = None"
    by (rule verify_written_ok [OF _ info])
      (use f(2) in \<open>simp_all add: write_temporary_def change_files_def demo_write_def demo_read_def\<close>)
  then have "snd (write_atomically demo_write ''p'' f demo_popts demo_disk) = Inr None"
    using f(2) by (intro write_succeeds) (simp_all add: demo_write_def parent_path_def)
  then have save: "save_to_disk demo_write demo_popts ''p'' demo6 demo_disk = (d', Inr None)"
    using f(1) by (simp add: save_to_disk_def d'_def prod_eq_iff)
  have "length f \<le> unat (max_persistence_bytes (im_limits demo6))"
    using f(2) by (simp add: demo6_lists default_limits_def)
  then show ?thesis
    using interrupted_save_recovers [OF demo_reachable6, of demo_popts "''p''" f demo_write demo_disk d'
        "Inr None" "dk_files d'" demo_fresh demo_read demo_lopts] f save demo6_fits demo_fresh_sel
    by (auto simp: demo_popts_def demo_read_def demo6_lists passed_def)
qed

end
