(* ===== verification/Snapshots.thy ===== *)
theory Snapshots
  imports State_Digest Dispatching
begin

section \<open>Snapshots, summaries and inspection\<close>

text \<open>
  snapshot.hpp and snapshot.cpp: the read-only views of the state. Each is computed under the
  mutex from one state. A snapshot records the generations it was taken under, and
  \<open>evaluate\<close> compares them with a later state.
\<close>

record AgentStatus =
  ast_id :: u64
  ast_generation :: u64
  ast_boot :: Hash128
  ast_registration_generation :: u64
  ast_lifecycle :: AgentLifecycle
  ast_health :: AgentHealth
  ast_readiness :: AgentReadiness
  ast_reachability :: AgentReachability
  ast_availability :: AgentAvailability
  ast_health_generation :: u64
  ast_availability_generation :: u64
  ast_load_generation :: u64
  ast_capability_generation :: u64
  ast_tenant :: u64
  ast_name_space :: u64
  ast_display_name :: string
  ast_policy_labels :: "string list"
  ast_placement_domain :: u64
  ast_topology_epoch :: u64
  ast_max_concurrency :: u32
  ast_active_assignments :: u32
  ast_available_capacity :: u32
  ast_reported_active_assignments :: u32
  ast_lease_expires_at_ms :: u64
  ast_lease_current :: bool
  ast_evidence_current :: bool
  ast_last_heartbeat_ms :: u64
  ast_registered_at_ms :: u64
  ast_capabilities :: "CapabilityEvidence list"
  ast_reason :: string

definition make_agent_status :: "Impl \<Rightarrow> AgentRecord \<Rightarrow> AgentStatus" where
  "make_agent_status impl r =
     (let d = ag_descriptor r in
      \<lparr> ast_id = ad_id d, ast_generation = ad_generation d, ast_boot = ad_boot d,
        ast_registration_generation = ad_registration_generation d,
        ast_lifecycle = ag_lifecycle r, ast_health = ag_health r, ast_readiness = ag_readiness r,
        ast_reachability = ag_reachability r, ast_availability = ag_availability r,
        ast_health_generation = ag_health_generation r,
        ast_availability_generation = ag_availability_generation r,
        ast_load_generation = ag_load_generation r,
        ast_capability_generation = cp_generation (ag_profile r),
        ast_tenant = ad_tenant d, ast_name_space = ad_name_space d,
        ast_display_name = ad_display_name d, ast_policy_labels = ad_policy_labels d,
        ast_placement_domain = ad_placement_domain d, ast_topology_epoch = ad_topology_epoch d,
        ast_max_concurrency = ad_max_concurrency d,
        ast_active_assignments = ag_active_assignments r,
        ast_available_capacity =
          (if ad_max_concurrency d > ag_active_assignments r
           then ad_max_concurrency d - ag_active_assignments r else 0),
        ast_reported_active_assignments =
          lo_reported_active_assignments (ag_load_observation r),
        ast_lease_expires_at_ms = ag_lease_expires_at_ms r,
        ast_lease_current = lease_current impl r,
        ast_evidence_current =
          (capability_fresh impl r \<and> health_fresh impl r \<and> availability_fresh impl r),
        ast_last_heartbeat_ms = ag_last_heartbeat_ms r,
        ast_registered_at_ms = ag_registered_at_ms r,
        ast_capabilities = cp_capabilities (ag_profile r), ast_reason = ag_reason r \<rparr>)"

record WorkStatus =
  ws_id :: u64
  ws_generation :: u64
  ws_queue :: u64
  ws_queue_generation :: u64
  ws_lifecycle :: WorkLifecycle
  ws_priority :: u32
  ws_fairness_class :: string
  ws_mode :: SchedulingMode
  ws_current_assignments :: u32
  ws_max_parallel :: u32
  ws_last_assignment_generation :: u64
  ws_admitted_at_ms :: u64
  ws_admitted_sequence :: u64
  ws_bypass_count :: u32
  ws_starvation_rounds :: u32
  ws_required_capabilities :: u32
  ws_preferred_capabilities :: u32
  ws_deadline_ms :: u64
  ws_kind :: string
  ws_reason :: string

text \<open>The loop over the capability requirements is a fold over its two counters.\<close>

definition count_requirement :: "CapabilityRequirement \<Rightarrow> u32 \<times> u32 \<Rightarrow> u32 \<times> u32" where
  "count_requirement r = (\<lambda>(required, preferred).
     if cr_mode r = CapabilityRequirementMode.Required then (required + 1, preferred)
     else (required, preferred + 1))"

definition make_work_status :: "WorkRecord \<Rightarrow> WorkStatus" where
  "make_work_status r =
     (let q = wr_request r; n = fold count_requirement (rq_capabilities (wq_requirements q)) (0, 0) in
      \<lparr> ws_id = wq_id q, ws_generation = wq_generation q, ws_queue = wq_queue q,
        ws_queue_generation = wq_queue_generation q, ws_lifecycle = wr_lifecycle r,
        ws_priority = wq_priority q, ws_fairness_class = wq_fairness_class q,
        ws_mode = wq_mode q, ws_current_assignments = wr_current_assignments r,
        ws_max_parallel = rq_max_parallel (wq_requirements q),
        ws_last_assignment_generation = wr_last_assignment_generation r,
        ws_admitted_at_ms = wr_admitted_at_ms r, ws_admitted_sequence = wr_admitted_sequence r,
        ws_bypass_count = wr_bypass_count r, ws_starvation_rounds = wr_starvation_rounds r,
        ws_required_capabilities = fst n, ws_preferred_capabilities = snd n,
        ws_deadline_ms = rq_deadline_ms (wq_requirements q), ws_kind = wq_kind q,
        ws_reason = wr_reason r \<rparr>)"

text \<open>The struct Assignment: the fields of an assignment record, in the same order.\<close>

type_synonym Assignment = AssignmentRecord

subsection \<open>Summaries\<close>

record SchedulerSummary =
  su_scheduler_id :: u64
  su_scheduler_epoch :: u64
  su_coordinator_epoch :: u64
  su_policy :: u64
  su_policy_generation :: u64
  su_running :: bool
  su_admission_open :: bool
  su_shutting_down :: bool
  su_agent_count :: nat
  su_agents_ready :: nat
  su_agents_busy :: nat
  su_agents_draining :: nat
  su_agents_lost :: nat
  su_agents_retired :: nat
  su_agents_revalidation_required :: nat
  su_queue_count :: nat
  su_work_admitted :: nat
  su_work_assigned :: nat
  su_work_executing :: nat
  su_work_completed :: nat
  su_work_cancelled :: nat
  su_work_superseded :: nat
  su_work_expired :: nat
  su_active_assignments :: nat
  su_dispatchable_assignments :: nat
  su_revalidation_required_assignments :: nat
  su_historical_assignments :: nat
  su_current_leases :: nat
  su_fenced_boots :: nat
  su_total_capacity :: u64
  su_used_capacity :: u64
  su_scheduling_rounds :: u64
  su_state_revision :: u64
  su_assignments_created :: u64
  su_assignments_invalidated :: u64
  su_state_digest :: Digest256

definition default_summary :: SchedulerSummary where
  "default_summary =
     \<lparr> su_scheduler_id = 0, su_scheduler_epoch = 0, su_coordinator_epoch = 0, su_policy = 0,
       su_policy_generation = 0, su_running = False, su_admission_open = False,
       su_shutting_down = False, su_agent_count = 0, su_agents_ready = 0, su_agents_busy = 0,
       su_agents_draining = 0, su_agents_lost = 0, su_agents_retired = 0,
       su_agents_revalidation_required = 0, su_queue_count = 0, su_work_admitted = 0,
       su_work_assigned = 0, su_work_executing = 0, su_work_completed = 0,
       su_work_cancelled = 0, su_work_superseded = 0, su_work_expired = 0,
       su_active_assignments = 0, su_dispatchable_assignments = 0,
       su_revalidation_required_assignments = 0, su_historical_assignments = 0,
       su_current_leases = 0, su_fenced_boots = 0, su_total_capacity = 0, su_used_capacity = 0,
       su_scheduling_rounds = 0, su_state_revision = 0, su_assignments_created = 0,
       su_assignments_invalidated = 0, su_state_digest = replicate 32 0 \<rparr>"

text \<open>The bodies of the three loops.\<close>

definition count_agent :: "AgentRecord \<Rightarrow> SchedulerSummary \<Rightarrow> SchedulerSummary" where
  "count_agent r u =
     (let u' = (case ag_lifecycle r of
          AgentLifecycle.Ready \<Rightarrow> u\<lparr>su_agents_ready := su_agents_ready u + 1\<rparr>
        | AgentLifecycle.Busy \<Rightarrow> u\<lparr>su_agents_busy := su_agents_busy u + 1\<rparr>
        | AgentLifecycle.Draining \<Rightarrow> u\<lparr>su_agents_draining := su_agents_draining u + 1\<rparr>
        | AgentLifecycle.Lost \<Rightarrow> u\<lparr>su_agents_lost := su_agents_lost u + 1\<rparr>
        | AgentLifecycle.Retired \<Rightarrow> u\<lparr>su_agents_retired := su_agents_retired u + 1\<rparr>
        | AgentLifecycle.RevalidationRequired \<Rightarrow>
            u\<lparr>su_agents_revalidation_required := su_agents_revalidation_required u + 1\<rparr>
        | _ \<Rightarrow> u)
      in u'\<lparr>su_total_capacity := su_total_capacity u' + ucast (ad_max_concurrency (ag_descriptor r)),
            su_used_capacity := su_used_capacity u' + ucast (ag_active_assignments r)\<rparr>)"

definition count_work :: "WorkRecord \<Rightarrow> SchedulerSummary \<Rightarrow> SchedulerSummary" where
  "count_work r u =
     (case wr_lifecycle r of
        WorkLifecycle.Admitted \<Rightarrow> u\<lparr>su_work_admitted := su_work_admitted u + 1\<rparr>
      | WorkLifecycle.Assigned \<Rightarrow> u\<lparr>su_work_assigned := su_work_assigned u + 1\<rparr>
      | WorkLifecycle.Executing \<Rightarrow> u\<lparr>su_work_executing := su_work_executing u + 1\<rparr>
      | WorkLifecycle.Completed \<Rightarrow> u\<lparr>su_work_completed := su_work_completed u + 1\<rparr>
      | WorkLifecycle.Cancelled \<Rightarrow> u\<lparr>su_work_cancelled := su_work_cancelled u + 1\<rparr>
      | WorkLifecycle.Superseded \<Rightarrow> u\<lparr>su_work_superseded := su_work_superseded u + 1\<rparr>
      | WorkLifecycle.Expired \<Rightarrow> u\<lparr>su_work_expired := su_work_expired u + 1\<rparr>
      | _ \<Rightarrow> u)"

definition count_assignment :: "AssignmentRecord \<Rightarrow> SchedulerSummary \<Rightarrow> SchedulerSummary" where
  "count_assignment r u =
     (if assignment_state_is_active (ar_state r)
      then (let u1 = u\<lparr>su_active_assignments := su_active_assignments u + 1\<rparr>;
                u2 = (if assignment_state_is_dispatchable (ar_state r)
                      then u1\<lparr>su_dispatchable_assignments := su_dispatchable_assignments u1 + 1\<rparr>
                      else u1)
            in if ar_state r = AssignmentState.RevalidationRequired
               then u2\<lparr>su_revalidation_required_assignments :=
                      su_revalidation_required_assignments u2 + 1\<rparr>
               else u2)
      else u\<lparr>su_historical_assignments := su_historical_assignments u + 1\<rparr>)"

text \<open>The fields both summaries copy from the state.\<close>

definition summary_head :: "Impl \<Rightarrow> SchedulerSummary" where
  "summary_head impl = default_summary\<lparr>
     su_scheduler_id := im_scheduler_id impl, su_scheduler_epoch := im_scheduler_epoch impl,
     su_coordinator_epoch := im_coordinator_epoch impl, su_policy := po_id (im_policy impl),
     su_policy_generation := po_generation (im_policy impl), su_running := im_running impl,
     su_admission_open := im_admission_open impl, su_shutting_down := im_shutting_down impl,
     su_agent_count := length (im_agents impl), su_queue_count := length (im_queues impl),
     su_state_revision := im_state_revision impl,
     su_state_digest := compute_state_digest impl\<rparr>"

definition summary :: "Impl \<Rightarrow> SchedulerSummary" where
  "summary impl =
     (let counted_agents = fold count_agent (map snd (im_agents impl)) (summary_head impl);
          counted_work = fold count_work (map snd (im_work impl)) counted_agents;
          counted = fold count_assignment (map snd (im_assignments impl)) counted_work
      in counted\<lparr>su_current_leases := length (im_leases impl),
                 su_fenced_boots := length (im_fenced_boots impl),
                 su_scheduling_rounds := im_scheduling_rounds impl,
                 su_assignments_created := im_assignments_created impl,
                 su_assignments_invalidated := im_assignments_invalidated impl\<rparr>)"

subsection \<open>Inspection\<close>

definition agent_status :: "Impl \<Rightarrow> u64 \<Rightarrow> AgentStatus option" where
  "agent_status impl agent = map_option (make_agent_status impl) (om_get (im_agents impl) agent)"

definition all_agents :: "Impl \<Rightarrow> AgentStatus list" where
  "all_agents impl = map (make_agent_status impl) (map snd (im_agents impl))"

definition work_status :: "Impl \<Rightarrow> u64 \<Rightarrow> WorkStatus option" where
  "work_status impl work = map_option make_work_status (om_get (im_work impl) work)"

definition all_work :: "Impl \<Rightarrow> WorkStatus list" where
  "all_work impl = map make_work_status (map snd (im_work impl))"

definition find_assignment :: "Impl \<Rightarrow> Hash128 \<Rightarrow> Assignment option" where
  "find_assignment impl k = om_get (im_assignments impl) k"

definition assignments_for_work :: "Impl \<Rightarrow> u64 \<Rightarrow> Assignment list" where
  "assignments_for_work impl work =
     filter (\<lambda>r. bn_work (ar_binding r) = work) (map snd (im_assignments impl))"

definition assignments_for_agent :: "Impl \<Rightarrow> u64 \<Rightarrow> Assignment list" where
  "assignments_for_agent impl agent =
     filter (\<lambda>r. bn_agent (ar_binding r) = agent) (map snd (im_assignments impl))"

definition all_assignments :: "Impl \<Rightarrow> Assignment list" where
  "all_assignments impl = map snd (im_assignments impl)"

definition find_lease :: "Impl \<Rightarrow> Hash128 \<Rightarrow> Lease option" where
  "find_lease impl k = om_get (im_leases impl) k"

definition all_leases :: "Impl \<Rightarrow> Lease list" where
  "all_leases impl = map snd (im_leases impl)"

definition all_fenced_boots :: "Impl \<Rightarrow> FencedBoot list" where
  "all_fenced_boots impl = map snd (im_fenced_boots impl)"

subsection \<open>Snapshots\<close>

datatype SnapshotStatus = Current | Stale | Reconstructed | RevalidationRequired

primrec snapshot_status_to_string :: "SnapshotStatus \<Rightarrow> string" where
  "snapshot_status_to_string SnapshotStatus.Current = ''CURRENT''"
| "snapshot_status_to_string SnapshotStatus.Stale = ''STALE''"
| "snapshot_status_to_string SnapshotStatus.Reconstructed = ''RECONSTRUCTED''"
| "snapshot_status_to_string SnapshotStatus.RevalidationRequired = ''REVALIDATION_REQUIRED''"

record SchedulerSnapshot =
  sn_status :: SnapshotStatus
  sn_scheduler_id :: u64
  sn_scheduler_epoch :: u64
  sn_coordinator_epoch :: u64
  sn_policy :: u64
  sn_policy_generation :: u64
  sn_queue_generation :: u64
  sn_max_agent_generation :: u64
  sn_max_work_generation :: u64
  sn_max_assignment_generation :: u64
  sn_state_digest :: Digest256
  sn_agent_generation_digest :: Digest256
  sn_state_revision :: u64
  sn_created_at_ms :: u64
  sn_summary :: SchedulerSummary
  sn_agents :: "AgentStatus list"
  sn_work :: "WorkStatus list"
  sn_assignments :: "Assignment list"
  sn_leases :: "Lease list"
  sn_fenced_boots :: "FencedBoot list"
  sn_fairness :: FairnessSnapshot

text \<open>The running maxima of the three loops.\<close>

definition raise_max :: "u64 \<Rightarrow> u64 \<Rightarrow> u64" where
  "raise_max generation m = (if generation > m then generation else m)"

definition snapshot :: "Impl \<Rightarrow> SchedulerSnapshot" where
  "snapshot impl =
     \<lparr> sn_status = (if im_recovered impl then SnapshotStatus.Reconstructed
                    else SnapshotStatus.Current),
       sn_scheduler_id = im_scheduler_id impl, sn_scheduler_epoch = im_scheduler_epoch impl,
       sn_coordinator_epoch = im_coordinator_epoch impl, sn_policy = po_id (im_policy impl),
       sn_policy_generation = po_generation (im_policy impl),
       sn_queue_generation = im_queue_generation impl,
       sn_max_agent_generation =
         fold (\<lambda>r. raise_max (ad_generation (ag_descriptor r))) (map snd (im_agents impl)) 0,
       sn_max_work_generation =
         fold (\<lambda>r. raise_max (wq_generation (wr_request r))) (map snd (im_work impl)) 0,
       sn_max_assignment_generation =
         fold (\<lambda>r. raise_max (bn_generation (ar_binding r))) (map snd (im_assignments impl)) 0,
       sn_state_digest = compute_state_digest impl,
       sn_agent_generation_digest = compute_agent_generation_digest impl,
       sn_state_revision = im_state_revision impl, sn_created_at_ms = im_now impl,
       sn_summary = summary_head impl, sn_agents = all_agents impl, sn_work = all_work impl,
       sn_assignments = all_assignments impl, sn_leases = all_leases impl,
       sn_fenced_boots = all_fenced_boots impl, sn_fairness = fairness impl \<rparr>"

definition binds_current_generations :: "SchedulerSnapshot \<Rightarrow> Impl \<Rightarrow> bool" where
  "binds_current_generations n impl \<longleftrightarrow> (let current = summary impl in
     \<not> (su_scheduler_id current \<noteq> sn_scheduler_id n)
     \<and> \<not> (su_scheduler_epoch current \<noteq> sn_scheduler_epoch n)
     \<and> \<not> (su_coordinator_epoch current \<noteq> sn_coordinator_epoch n)
     \<and> \<not> (su_policy current \<noteq> sn_policy n \<or> su_policy_generation current \<noteq> sn_policy_generation n)
     \<and> \<not> (su_state_revision current \<noteq> sn_state_revision n))"

definition evaluate :: "SchedulerSnapshot \<Rightarrow> Impl \<Rightarrow> SnapshotStatus" where
  "evaluate n impl = (if binds_current_generations n impl then sn_status n else SnapshotStatus.Stale)"

subsection \<open>What the counting loops compute\<close>

lemma count_agent_heads [simp]:
  "su_scheduler_id (count_agent r u) = su_scheduler_id u"
  "su_scheduler_epoch (count_agent r u) = su_scheduler_epoch u"
  "su_coordinator_epoch (count_agent r u) = su_coordinator_epoch u"
  "su_policy (count_agent r u) = su_policy u"
  "su_policy_generation (count_agent r u) = su_policy_generation u"
  "su_state_revision (count_agent r u) = su_state_revision u"
  "su_active_assignments (count_agent r u) = su_active_assignments u"
  "su_historical_assignments (count_agent r u) = su_historical_assignments u"
  by (simp_all add: count_agent_def Let_def split: AgentLifecycle.split)

lemma count_work_heads [simp]:
  "su_scheduler_id (count_work r u) = su_scheduler_id u"
  "su_scheduler_epoch (count_work r u) = su_scheduler_epoch u"
  "su_coordinator_epoch (count_work r u) = su_coordinator_epoch u"
  "su_policy (count_work r u) = su_policy u"
  "su_policy_generation (count_work r u) = su_policy_generation u"
  "su_state_revision (count_work r u) = su_state_revision u"
  "su_active_assignments (count_work r u) = su_active_assignments u"
  "su_historical_assignments (count_work r u) = su_historical_assignments u"
  "su_used_capacity (count_work r u) = su_used_capacity u"
  by (simp_all add: count_work_def split: WorkLifecycle.split)

lemma count_assignment_heads [simp]:
  "su_scheduler_id (count_assignment r u) = su_scheduler_id u"
  "su_scheduler_epoch (count_assignment r u) = su_scheduler_epoch u"
  "su_coordinator_epoch (count_assignment r u) = su_coordinator_epoch u"
  "su_policy (count_assignment r u) = su_policy u"
  "su_policy_generation (count_assignment r u) = su_policy_generation u"
  "su_state_revision (count_assignment r u) = su_state_revision u"
  "su_used_capacity (count_assignment r u) = su_used_capacity u"
  by (simp_all add: count_assignment_def Let_def)

lemma fold_preserves:
  assumes "\<And>x u. p (f x u) = p u"
  shows "p (fold f xs u) = p u"
  using assms by (induction xs arbitrary: u) simp_all

lemmas fold_heads [simp] =
  fold_preserves [of su_scheduler_id count_agent] fold_preserves [of su_scheduler_id count_work]
  fold_preserves [of su_scheduler_id count_assignment]
  fold_preserves [of su_scheduler_epoch count_agent] fold_preserves [of su_scheduler_epoch count_work]
  fold_preserves [of su_scheduler_epoch count_assignment]
  fold_preserves [of su_coordinator_epoch count_agent] fold_preserves [of su_coordinator_epoch count_work]
  fold_preserves [of su_coordinator_epoch count_assignment]
  fold_preserves [of su_policy count_agent] fold_preserves [of su_policy count_work]
  fold_preserves [of su_policy count_assignment]
  fold_preserves [of su_policy_generation count_agent] fold_preserves [of su_policy_generation count_work]
  fold_preserves [of su_policy_generation count_assignment]
  fold_preserves [of su_state_revision count_agent] fold_preserves [of su_state_revision count_work]
  fold_preserves [of su_state_revision count_assignment]
  fold_preserves [of su_active_assignments count_agent] fold_preserves [of su_active_assignments count_work]
  fold_preserves [of su_historical_assignments count_agent]
  fold_preserves [of su_historical_assignments count_work]
  fold_preserves [of su_used_capacity count_work] fold_preserves [of su_used_capacity count_assignment]

lemma summary_bindings [simp]:
  "su_scheduler_id (summary s) = im_scheduler_id s"
  "su_scheduler_epoch (summary s) = im_scheduler_epoch s"
  "su_coordinator_epoch (summary s) = im_coordinator_epoch s"
  "su_policy (summary s) = po_id (im_policy s)"
  "su_policy_generation (summary s) = po_generation (im_policy s)"
  "su_state_revision (summary s) = im_state_revision s"
  by (simp_all add: summary_def summary_head_def Let_def)

lemma fold_count_active:
  "su_active_assignments (fold count_assignment rs u)
     = su_active_assignments u + length (filter record_active rs)"
  by (induction rs arbitrary: u) (simp_all add: count_assignment_def Let_def)

lemma fold_count_historical:
  "su_historical_assignments (fold count_assignment rs u)
     = su_historical_assignments u + length (filter (\<lambda>r. \<not> record_active r) rs)"
  by (induction rs arbitrary: u) (simp_all add: count_assignment_def Let_def)

lemma fold_used_capacity:
  "su_used_capacity (fold count_agent rs u)
     = su_used_capacity u + (\<Sum>r \<leftarrow> rs. ucast (ag_active_assignments r))"
  by (induction rs arbitrary: u)
    (simp_all add: count_agent_def Let_def add.assoc split: AgentLifecycle.split)

lemma summary_counts:
  "su_active_assignments (summary s) = length (filter record_active (map snd (im_assignments s)))"
  "su_active_assignments (summary s) + su_historical_assignments (summary s)
     = length (im_assignments s)"
  "su_used_capacity (summary s) = (\<Sum>r \<leftarrow> map snd (im_agents s). ucast (ag_active_assignments r))"
  using sum_length_filter_compl [of record_active "map snd (im_assignments s)"]
  by (simp_all add: summary_def Let_def summary_head_def default_summary_def fold_count_active
      fold_count_historical fold_used_capacity del: fold_map)

lemma fold_raise_max:
  "fold (\<lambda>r. raise_max (g r)) rs m \<ge> m
   \<and> (\<forall>r \<in> set rs. g r \<le> fold (\<lambda>r. raise_max (g r)) rs m)"
proof (induction rs arbitrary: m)
  case (Cons r rs)
  have "m \<le> raise_max (g r) m" "g r \<le> raise_max (g r) m" by (auto simp: raise_max_def)
  then show ?case using Cons.IH [of "raise_max (g r) m"] by (auto intro: order_trans)
qed simp

text \<open>A snapshot is current exactly while no bound generation and no revision has moved.\<close>

lemma evaluate_snapshot:
  "binds_current_generations (snapshot s) t \<longleftrightarrow>
     im_scheduler_id t = im_scheduler_id s \<and> im_scheduler_epoch t = im_scheduler_epoch s
     \<and> im_coordinator_epoch t = im_coordinator_epoch s \<and> po_id (im_policy t) = po_id (im_policy s)
     \<and> po_generation (im_policy t) = po_generation (im_policy s)
     \<and> im_state_revision t = im_state_revision s"
  by (auto simp: binds_current_generations_def snapshot_def Let_def)

end
