(* ===== verification/Invariant_Checker.thy ===== *)
theory Invariant_Checker
  imports Snapshots "HOL-Library.Product_Lexorder"
begin

section \<open>The invariant checker\<close>

text \<open>
  check_invariants of invariants.cpp: one pass over the state that recomputes every derived
  number, set and relation and lists the disagreements. \<open>require\<close> is the pattern
  \<open>if (!check(condition)) violate(...)\<close>, which counts the check; \<open>forbid\<close> is a plain
  \<open>if (condition) violate(...)\<close>. The stable strings of scheduler.hpp name the invariants.
\<close>

subsection \<open>Reports\<close>

datatype Invariant =
    SingleSchedulerEpoch
  | ExclusiveAssignmentUniqueness
  | AssignmentReferencesKnownWork
  | AssignmentReferencesKnownAgent
  | DispatchableBootCurrent
  | FencedBootHasNoAuthority
  | AssignmentGenerationMonotonic
  | WorkGenerationMonotonic
  | AgentGenerationMonotonic
  | QueueAccountingAgrees
  | AgentAccountingAgrees
  | CapacityNotExceeded
  | NoDispatchableCancelledWork
  | NoWorkForRetiredAgent
  | NoStaleAuthorityDispatchable
  | RecoveredEvidenceNotCurrent
  | ParallelFanoutBounded
  | ExclusiveWorkSingleAssignment
  | LeaseDoesNotResurrect
  | IndexMatchesCanonical
  | DigestMatchesCanonical
  | CountersNeverNegative
  | ShutdownBlocksNewAssignment
  | ActiveAssignmentHasCurrentLease
  | WorkLifecycleAgrees

primrec invariant_name :: "Invariant \<Rightarrow> string" where
  "invariant_name Invariant.SingleSchedulerEpoch = ''single_scheduler_epoch''"
| "invariant_name Invariant.ExclusiveAssignmentUniqueness = ''exclusive_assignment_uniqueness''"
| "invariant_name Invariant.AssignmentReferencesKnownWork = ''assignment_references_known_work''"
| "invariant_name Invariant.AssignmentReferencesKnownAgent = ''assignment_references_known_agent''"
| "invariant_name Invariant.DispatchableBootCurrent = ''dispatchable_boot_current''"
| "invariant_name Invariant.FencedBootHasNoAuthority = ''fenced_boot_has_no_authority''"
| "invariant_name Invariant.AssignmentGenerationMonotonic = ''assignment_generation_monotonic''"
| "invariant_name Invariant.WorkGenerationMonotonic = ''work_generation_monotonic''"
| "invariant_name Invariant.AgentGenerationMonotonic = ''agent_generation_monotonic''"
| "invariant_name Invariant.QueueAccountingAgrees = ''queue_accounting_agrees''"
| "invariant_name Invariant.AgentAccountingAgrees = ''agent_accounting_agrees''"
| "invariant_name Invariant.CapacityNotExceeded = ''capacity_not_exceeded''"
| "invariant_name Invariant.NoDispatchableCancelledWork = ''no_dispatchable_cancelled_work''"
| "invariant_name Invariant.NoWorkForRetiredAgent = ''no_work_for_retired_agent''"
| "invariant_name Invariant.NoStaleAuthorityDispatchable = ''no_stale_authority_dispatchable''"
| "invariant_name Invariant.RecoveredEvidenceNotCurrent = ''recovered_evidence_not_current''"
| "invariant_name Invariant.ParallelFanoutBounded = ''parallel_fanout_bounded''"
| "invariant_name Invariant.ExclusiveWorkSingleAssignment = ''exclusive_work_single_assignment''"
| "invariant_name Invariant.LeaseDoesNotResurrect = ''lease_does_not_resurrect''"
| "invariant_name Invariant.IndexMatchesCanonical = ''index_matches_canonical''"
| "invariant_name Invariant.DigestMatchesCanonical = ''digest_matches_canonical''"
| "invariant_name Invariant.CountersNeverNegative = ''counters_never_negative''"
| "invariant_name Invariant.ShutdownBlocksNewAssignment = ''shutdown_blocks_new_assignment''"
| "invariant_name Invariant.ActiveAssignmentHasCurrentLease = ''active_assignment_has_current_lease''"
| "invariant_name Invariant.WorkLifecycleAgrees = ''work_lifecycle_agrees''"

record InvariantViolation =
  iv_code :: Invariant
  iv_subject :: string
  iv_detail :: string

record InvariantReport =
  ir_violations :: "InvariantViolation list"
  ir_checks_run :: nat
  ir_state_revision :: u64

definition violate :: "Invariant \<Rightarrow> string \<Rightarrow> string \<Rightarrow> InvariantReport \<Rightarrow> InvariantReport" where
  "violate c subject detail r = r\<lparr>ir_violations := ir_violations r @
     [\<lparr> iv_code = c, iv_subject = subject, iv_detail = detail \<rparr>]\<rparr>"

definition count_check :: "InvariantReport \<Rightarrow> InvariantReport" where
  "count_check r = r\<lparr>ir_checks_run := ir_checks_run r + 1\<rparr>"

definition require ::
    "bool \<Rightarrow> Invariant \<Rightarrow> string \<Rightarrow> string \<Rightarrow> InvariantReport \<Rightarrow> InvariantReport" where
  "require holds c subject detail r =
     (let r' = count_check r in if holds then r' else violate c subject detail r')"

definition forbid ::
    "bool \<Rightarrow> Invariant \<Rightarrow> string \<Rightarrow> string \<Rightarrow> InvariantReport \<Rightarrow> InvariantReport" where
  "forbid bad c subject detail r = (if bad then violate c subject detail r else r)"

text \<open>Steps in sequence, and a step that needs the record a lookup found.\<close>

definition in_order :: "('a \<Rightarrow> 'a) list \<Rightarrow> 'a \<Rightarrow> 'a" where
  "in_order steps x = fold (\<lambda>f. f) steps x"

definition when_found :: "'b option \<Rightarrow> ('b \<Rightarrow> 'a \<Rightarrow> 'a) \<Rightarrow> 'a \<Rightarrow> 'a" where
  "when_found found f x = (case found of None \<Rightarrow> x | Some y \<Rightarrow> f y x)"

definition report_ok :: "InvariantReport \<Rightarrow> bool" where
  "report_ok r \<longleftrightarrow> ir_violations r = []"

definition describe_violation :: "InvariantViolation \<Rightarrow> string" where
  "describe_violation v = CHR 0x0A # ''  '' @ invariant_name (iv_code v) @ '' subject=''
     @ iv_subject v @ '' '' @ iv_detail v"

definition describe_report :: "InvariantReport \<Rightarrow> string" where
  "describe_report r =
     (if ir_violations r = [] then ''OK checks='' @ decimal (ir_checks_run r)
      else ''VIOLATIONS='' @ decimal (length (ir_violations r)) @ '' checks=''
        @ decimal (ir_checks_run r) @ concat (map describe_violation (ir_violations r)))"

definition canonical_active_on_agent :: "Impl \<Rightarrow> u64 \<Rightarrow> u32" where
  "canonical_active_on_agent impl agent = of_nat (length (filter
     (\<lambda>r. bn_agent (ar_binding r) = agent \<and> record_active r) (map snd (im_assignments impl))))"

definition canonical_active_on_work :: "Impl \<Rightarrow> u64 \<Rightarrow> u32" where
  "canonical_active_on_work impl work = of_nat (length (filter
     (\<lambda>r. bn_work (ar_binding r) = work \<and> record_active r) (map snd (im_assignments impl))))"

subsection \<open>Assignments\<close>

text \<open>The report and the four tallies the loop over the assignments keeps.\<close>

record CheckState =
  ck_report :: InvariantReport
  ck_exclusive :: "(u64, u32) omap"
  ck_work :: "(u64, u32) omap"
  ck_work_agent :: "(u64 \<times> u64, u32) omap"
  ck_total :: u64

definition tally_of :: "('k::linorder, u32) omap \<Rightarrow> 'k \<Rightarrow> u32" where
  "tally_of m k = (case om_get m k of None \<Rightarrow> 0 | Some n \<Rightarrow> n)"

definition tally :: "'k::linorder \<Rightarrow> ('k, u32) omap \<Rightarrow> ('k, u32) omap" where
  "tally k m = om_put k (tally_of m k + 1) m"

definition reporting :: "(InvariantReport \<Rightarrow> InvariantReport) \<Rightarrow> CheckState \<Rightarrow> CheckState" where
  "reporting f st = st\<lparr>ck_report := f (ck_report st)\<rparr>"

definition tally_active :: "AssignmentBinding \<Rightarrow> CheckState \<Rightarrow> CheckState" where
  "tally_active b st = st\<lparr>
     ck_total := ck_total st + 1, ck_work := tally (bn_work b) (ck_work st),
     ck_work_agent := tally (bn_work b, bn_agent b) (ck_work_agent st),
     ck_exclusive := (if bn_exclusive b then tally (bn_work b) (ck_exclusive st)
                      else ck_exclusive st)\<rparr>"

definition check_references ::
    "AssignmentBinding \<Rightarrow> WorkRecord option \<Rightarrow> AgentRecord option \<Rightarrow> InvariantReport \<Rightarrow> InvariantReport" where
  "check_references b work agent =
     (let subject = hash128_to_string (bn_id b) in in_order
        [require (bn_generation b \<noteq> 0) Invariant.AssignmentGenerationMonotonic subject
           ''assignment generation is zero'',
         require (work \<noteq> None) Invariant.AssignmentReferencesKnownWork subject
           ''assignment references an unknown work item'',
         when_found work (\<lambda>w. require (wq_generation (wr_request w) \<ge> bn_work_generation b)
           Invariant.WorkGenerationMonotonic subject
           ''work generation is below a bound assignment generation''),
         require (agent \<noteq> None) Invariant.AssignmentReferencesKnownAgent subject
           ''assignment references an unknown agent'',
         when_found agent (\<lambda>a. require (ad_generation (ag_descriptor a) \<ge> bn_agent_generation b)
           Invariant.AgentGenerationMonotonic subject
           ''agent generation is below a bound assignment generation'')])"

definition check_active ::
    "Impl \<Rightarrow> AssignmentBinding \<Rightarrow> WorkRecord option \<Rightarrow> AgentRecord option \<Rightarrow> u32
       \<Rightarrow> InvariantReport \<Rightarrow> InvariantReport" where
  "check_active impl b work agent fanout =
     (let subject = hash128_to_string (bn_id b) in in_order
        [require (om_get (im_leases impl) (bn_lease b) \<noteq> None)
           Invariant.ActiveAssignmentHasCurrentLease subject ''active assignment has no lease record'',
         forbid (agent \<noteq> None \<and> boot_is_fenced impl (bn_boot b)) Invariant.FencedBootHasNoAuthority
           subject ''active assignment references a fenced incarnation'',
         when_found work (\<lambda>w. forbid (work_is_terminal (wr_lifecycle w))
           Invariant.NoDispatchableCancelledWork subject ''active assignment references terminal work''),
         when_found agent (\<lambda>a. forbid (ag_lifecycle a = AgentLifecycle.Retired
             \<or> ag_lifecycle a = AgentLifecycle.Lost)
           Invariant.NoWorkForRetiredAgent subject
           ''active assignment references a retired or lost agent''),
         when_found work (\<lambda>w. in_order
           [require (rq_max_parallel (wq_requirements (wr_request w)) \<ge> fanout)
              Invariant.ParallelFanoutBounded subject ''active fan-out exceeds the declared maximum'',
            forbid (bn_exclusive b \<and> wq_mode (wr_request w) \<noteq> SchedulingMode.Exclusive)
              Invariant.ExclusiveWorkSingleAssignment subject
              ''assignment is exclusive but the work item is not''])])"

definition check_dispatchable ::
    "Impl \<Rightarrow> AssignmentBinding \<Rightarrow> AgentRecord option \<Rightarrow> InvariantReport \<Rightarrow> InvariantReport" where
  "check_dispatchable impl b agent =
     (let subject = hash128_to_string (bn_id b) in in_order
        [forbid (bn_scheduler_epoch b \<noteq> im_scheduler_epoch impl)
           Invariant.NoStaleAuthorityDispatchable subject
           ''dispatchable assignment carries a stale scheduler epoch'',
         forbid (bn_coordinator_epoch b \<noteq> im_coordinator_epoch impl)
           Invariant.NoStaleAuthorityDispatchable subject
           ''dispatchable assignment carries a stale coordinator epoch'',
         forbid (bn_policy b \<noteq> po_id (im_policy impl)
             \<or> bn_policy_generation b \<noteq> po_generation (im_policy impl))
           Invariant.NoStaleAuthorityDispatchable subject
           ''dispatchable assignment carries a stale policy generation'',
         when_found agent (\<lambda>a. in_order
           [forbid (ad_boot (ag_descriptor a) \<noteq> bn_boot b) Invariant.DispatchableBootCurrent subject
              ''dispatchable assignment does not reference the current incarnation'',
            forbid (cp_generation (ag_profile a) \<noteq> bn_capability_generation b)
              Invariant.NoStaleAuthorityDispatchable subject
              ''dispatchable assignment carries a stale capability generation'']),
         forbid (im_shutting_down impl) Invariant.ShutdownBlocksNewAssignment subject
           ''dispatchable assignment exists after admission closed''])"

definition check_assignment :: "Impl \<Rightarrow> AssignmentRecord \<Rightarrow> CheckState \<Rightarrow> CheckState" where
  "check_assignment impl r st =
     (let b = ar_binding r; work = om_get (im_work impl) (bn_work b);
          agent = om_get (im_agents impl) (bn_agent b);
          st1 = reporting (check_references b work agent) st;
          st2 = (if record_active r
                 then let counted = tally_active b st1
                      in reporting (check_active impl b work agent (tally_of (ck_work counted) (bn_work b)))
                           counted
                 else st1);
          st3 = reporting (forbid (assignment_state_is_terminal (ar_state r) \<and> ar_lease_current r)
                  Invariant.LeaseDoesNotResurrect (hash128_to_string (bn_id b))
                  ''terminal assignment still holds a current lease'') st2
      in if assignment_state_is_dispatchable (ar_state r)
         then reporting (check_dispatchable impl b agent) st3 else st3)"

definition check_assignments :: "Impl \<Rightarrow> InvariantReport \<Rightarrow> CheckState" where
  "check_assignments impl r =
     fold (check_assignment impl) (map snd (im_assignments impl))
       \<lparr> ck_report = r, ck_exclusive = [], ck_work = [], ck_work_agent = [], ck_total = 0 \<rparr>"

text \<open>The tallies against the limits, after the loop.\<close>

definition check_exclusive_tally :: "u64 \<times> u32 \<Rightarrow> InvariantReport \<Rightarrow> InvariantReport" where
  "check_exclusive_tally e = require (snd e \<le> 1) Invariant.ExclusiveAssignmentUniqueness
     (id_to_string (fst e))
     ''more than one active exclusive assignment for the same work generation''"

definition check_agent_tally :: "Impl \<Rightarrow> (u64 \<times> u64) \<times> u32 \<Rightarrow> InvariantReport \<Rightarrow> InvariantReport" where
  "check_agent_tally impl e = when_found (om_get (im_work impl) (fst (fst e))) (\<lambda>w.
     require (snd e \<le> rq_max_assignments_per_agent (wq_requirements (wr_request w)))
       Invariant.ParallelFanoutBounded
       (id_to_string (fst (fst e)) @ ''/'' @ id_to_string (snd (fst e)))
       ''agent holds more than the permitted assignments for this work'')"

definition check_tallies :: "Impl \<Rightarrow> CheckState \<Rightarrow> InvariantReport" where
  "check_tallies impl st =
     (let r1 = fold check_exclusive_tally (ck_exclusive st) (ck_report st);
          r2 = fold (check_agent_tally impl) (ck_work_agent st) r1
      in require (ck_total st \<le> ucast (max_active_assignments (im_limits impl)))
           Invariant.CapacityNotExceeded []
           ''active assignment count exceeds max_active_assignments'' r2)"

subsection \<open>Work items and agents\<close>

definition check_work :: "Impl \<Rightarrow> u64 \<times> WorkRecord \<Rightarrow> InvariantReport \<Rightarrow> InvariantReport" where
  "check_work impl e =
     (let r = snd e; subject = id_to_string (fst e);
          canonical = canonical_active_on_work impl (fst e) in in_order
        [require (wq_generation (wr_request r) \<noteq> 0) Invariant.WorkGenerationMonotonic subject
           ''work generation is zero'',
         require (wq_id (wr_request r) = fst e) Invariant.IndexMatchesCanonical subject
           ''work map key does not match record id'',
         require (wr_current_assignments r = canonical) Invariant.QueueAccountingAgrees subject
           ''work assignment accounting disagrees with canonical assignments'',
         forbid (wr_lifecycle r = WorkLifecycle.Admitted \<and> canonical \<noteq> 0)
           Invariant.WorkLifecycleAgrees subject ''admitted work has active assignments'',
         forbid (wr_lifecycle r = WorkLifecycle.Assigned \<and> canonical = 0)
           Invariant.WorkLifecycleAgrees subject ''assigned work has no active assignment'',
         forbid (work_is_terminal (wr_lifecycle r) \<and> canonical \<noteq> 0)
           Invariant.WorkLifecycleAgrees subject ''terminal work has active assignments'',
         forbid (om_get (im_queues impl) (wq_queue (wr_request r)) = None)
           Invariant.IndexMatchesCanonical subject ''work references an unknown queue'',
         (if wr_last_assignment_generation r \<noteq> 0
          then require (list_ex (\<lambda>x. bn_work (ar_binding x) = fst e
                   \<and> bn_generation (ar_binding x) = wr_last_assignment_generation r)
                 (map snd (im_assignments impl)))
               Invariant.AssignmentGenerationMonotonic subject
               ''last assignment generation does not correspond to a stored assignment''
          else (\<lambda>r. r))])"

definition check_agent :: "Impl \<Rightarrow> u64 \<times> AgentRecord \<Rightarrow> InvariantReport \<Rightarrow> InvariantReport" where
  "check_agent impl e =
     (let r = snd e; d = ag_descriptor r; subject = id_to_string (fst e) in in_order
        [require (ad_id d = fst e) Invariant.IndexMatchesCanonical subject
           ''agent map key does not match record id'',
         require (ad_generation d \<noteq> 0) Invariant.AgentGenerationMonotonic subject
           ''agent generation is zero'',
         require (ag_active_assignments r = canonical_active_on_agent impl (fst e))
           Invariant.AgentAccountingAgrees subject
           ''agent assignment accounting disagrees with canonical assignments'',
         require (ag_active_assignments r \<le> ad_max_concurrency d) Invariant.CapacityNotExceeded subject
           ''agent active assignments exceed declared concurrency'',
         forbid (boot_is_fenced impl (ad_boot d)
             \<and> (ag_lifecycle r = AgentLifecycle.Ready \<or> ag_lifecycle r = AgentLifecycle.Busy))
           Invariant.FencedBootHasNoAuthority subject
           ''fenced incarnation still reports an accepting lifecycle'',
         forbid (im_recovered impl \<and> ag_recovered r
             \<and> (ag_capability_current r \<or> ag_health_current r \<or> ag_availability_current r
                \<or> ag_load_current r))
           Invariant.RecoveredEvidenceNotCurrent subject
           ''recovered dynamic evidence is marked current''])"

subsection \<open>Indexes\<close>

definition compare_index ::
    "string \<Rightarrow> string \<Rightarrow> string \<Rightarrow> ('k::linorder, 'a set) omap \<Rightarrow> ('k, 'a set) omap
       \<Rightarrow> InvariantReport \<Rightarrow> InvariantReport" where
  "compare_index label disagrees missing index expected r =
     fold (\<lambda>e. forbid (om_get index (fst e) = None \<and> snd e \<noteq> {}) Invariant.IndexMatchesCanonical
             label missing) expected
       (fold (\<lambda>e. forbid (snd e \<noteq> ix_get expected (fst e)) Invariant.IndexMatchesCanonical
                label disagrees) index r)"

definition expected_by_capability :: "Impl \<Rightarrow> (string, u64 set) omap" where
  "expected_by_capability impl =
     fold (\<lambda>e m. if ag_capability_current (snd e)
                  then fold (\<lambda>c. ix_insert (ce_name c) (fst e))
                         (filter (\<lambda>c. capability_state_is_usable (ce_state c))
                            (cp_capabilities (ag_profile (snd e)))) m
                  else m) (im_agents impl) []"

definition expected_by_domain :: "Impl \<Rightarrow> (u64, u64 set) omap" where
  "expected_by_domain impl =
     fold (\<lambda>e m. if ad_placement_domain (ag_descriptor (snd e)) \<noteq> 0
                  then ix_insert (ad_placement_domain (ag_descriptor (snd e))) (fst e) m else m)
       (im_agents impl) []"

definition check_agent_indexes :: "Impl \<Rightarrow> InvariantReport \<Rightarrow> InvariantReport" where
  "check_agent_indexes impl =
     (let disagrees = ''indexed agent set disagrees with canonical scan'';
          missing = ''canonical agent set is missing from the index'' in in_order
        [count_check,
         compare_index ''agents_by_lifecycle'' disagrees missing (im_by_lifecycle impl)
           (fold (\<lambda>e. ix_insert (ag_lifecycle (snd e)) (fst e)) (im_agents impl) []),
         compare_index ''agents_by_tenant'' disagrees missing (im_by_tenant impl)
           (fold (\<lambda>e. ix_insert (ad_tenant (ag_descriptor (snd e))) (fst e)) (im_agents impl) []),
         compare_index ''agents_by_domain'' disagrees missing (im_by_domain impl)
           (expected_by_domain impl),
         compare_index ''agents_by_capability'' disagrees missing (im_by_capability impl)
           (expected_by_capability impl)])"

definition check_work_indexes :: "Impl \<Rightarrow> InvariantReport \<Rightarrow> InvariantReport" where
  "check_work_indexes impl =
     (let disagrees = ''indexed work set disagrees with canonical scan'';
          missing = ''canonical work set is missing from the index'' in in_order
        [count_check,
         compare_index ''work_by_queue'' disagrees missing (im_work_by_queue impl)
           (fold (\<lambda>e. ix_insert (wq_queue (wr_request (snd e))) (fst e)) (im_work impl) []),
         compare_index ''work_by_lifecycle'' disagrees missing (im_work_by_lifecycle impl)
           (fold (\<lambda>e. ix_insert (wr_lifecycle (snd e)) (fst e)) (im_work impl) [])])"

definition active_entries :: "Impl \<Rightarrow> (Hash128 \<times> AssignmentRecord) list" where
  "active_entries impl = filter (\<lambda>e. record_active (snd e)) (im_assignments impl)"

definition check_assignment_indexes :: "Impl \<Rightarrow> InvariantReport \<Rightarrow> InvariantReport" where
  "check_assignment_indexes impl =
     (let disagrees = ''indexed assignment set disagrees with canonical scan'';
          missing = ''canonical assignment set is missing from the index'' in in_order
        [count_check,
         compare_index ''assignments_by_agent'' disagrees missing (im_by_agent impl)
           (fold (\<lambda>e. ix_insert (bn_agent (ar_binding (snd e))) (fst e)) (active_entries impl) []),
         compare_index ''assignments_by_work'' disagrees missing (im_by_work impl)
           (fold (\<lambda>e. ix_insert (bn_work (ar_binding (snd e))) (fst e)) (active_entries impl) [])])"

subsection \<open>The whole check\<close>

definition digest_is_zero :: "Digest256 \<Rightarrow> bool" where
  "digest_is_zero d \<longleftrightarrow> (\<forall>b \<in> set d. b = 0)"

definition state_is_empty :: "Impl \<Rightarrow> bool" where
  "state_is_empty impl \<longleftrightarrow> im_agents impl = [] \<and> im_work impl = [] \<and> im_assignments impl = []
     \<and> im_queues impl = [] \<and> im_leases impl = [] \<and> im_fenced_boots impl = []"

definition check_process :: "Impl \<Rightarrow> InvariantReport \<Rightarrow> InvariantReport" where
  "check_process impl = in_order
     [require (im_scheduler_id impl \<noteq> 0) Invariant.SingleSchedulerEpoch [] ''scheduler id is zero'',
      require (im_scheduler_epoch impl \<noteq> 0) Invariant.SingleSchedulerEpoch []
        ''scheduler epoch is zero'',
      require (if im_running impl then im_coordinator_epoch impl \<noteq> 0 else True)
        Invariant.SingleSchedulerEpoch [] ''running scheduler has no coordinator epoch'']"

definition check_bounds :: "Impl \<Rightarrow> InvariantReport \<Rightarrow> InvariantReport" where
  "check_bounds impl =
     (let l = im_limits impl in in_order
        [require (length (im_assignments impl)
             \<le> unat (max_active_assignments l) + unat (max_historical_assignments l))
           Invariant.CapacityNotExceeded [] ''assignment history exceeds configured bounds'',
         require (length (im_leases impl) \<le> unat (max_leases l)) Invariant.CapacityNotExceeded []
           ''lease count exceeds max_leases'',
         require (length (im_fenced_boots impl) \<le> unat (max_fenced_boots l))
           Invariant.CapacityNotExceeded [] ''fenced boot count exceeds max_fenced_boots''])"

definition check_digest :: "Impl \<Rightarrow> InvariantReport \<Rightarrow> InvariantReport" where
  "check_digest impl =
     (let one = compute_state_digest impl; two = compute_state_digest impl in in_order
        [require (one = two) Invariant.DigestMatchesCanonical [] ''state digest is not deterministic'',
         require (if state_is_empty impl then digest_is_zero one else \<not> digest_is_zero one)
           Invariant.DigestMatchesCanonical []
           (if state_is_empty impl then ''empty state produced a non-zero digest''
            else ''non-empty state produced a zero digest'')])"

definition check_invariants :: "Impl \<Rightarrow> InvariantReport" where
  "check_invariants impl =
     (let start = \<lparr> ir_violations = [], ir_checks_run = 0, ir_state_revision = im_state_revision impl \<rparr>
      in in_order
        [check_process impl, \<lambda>r. check_tallies impl (check_assignments impl r),
         fold (check_work impl) (im_work impl), fold (check_agent impl) (im_agents impl),
         check_agent_indexes impl, check_work_indexes impl, check_assignment_indexes impl,
         check_bounds impl, check_digest impl] start)"

end
