(* ===== verification/Json_Writer.thy ===== *)
theory Json_Writer
  imports Text_Util
begin

section \<open>The JSON writer\<close>

text \<open>
  json.hpp and json.cpp. The writer is the text written so far, the stack of open
  containers (true: no element yet) and whether a key waits for its value. The vector
  \<open>first_\<close> is a list with its last element in front. A document is a tree of values;
  \<open>write_json\<close> makes the calls a caller makes to write it. The grammar \<open>json_text\<close> is the
  one of RFC 8259, with a byte standing for the character of its number.
\<close>

subsection \<open>Escaping\<close>

definition hex_escape :: "nat \<Rightarrow> string" where
  "hex_escape b = [CHR 0x5C, CHR ''u'', CHR ''0'', CHR ''0'', hex_digit (b div 16), hex_digit (b mod 16)]"

definition escape_char :: "char \<Rightarrow> string" where
  "escape_char c =
     (let b = (of_char c :: nat) in
      if b = 0x22 then [CHR 0x5C, CHR 0x22]
      else if b = 0x5C then [CHR 0x5C, CHR 0x5C]
      else if b = 0x08 then [CHR 0x5C, CHR ''b'']
      else if b = 0x0C then [CHR 0x5C, CHR ''f'']
      else if b = 0x0A then [CHR 0x5C, CHR ''n'']
      else if b = 0x0D then [CHR 0x5C, CHR ''r'']
      else if b = 0x09 then [CHR 0x5C, CHR ''t'']
      else if b < 0x20 \<or> b = 0x7F \<or> b \<ge> 0x80 \<and> b \<le> 0x9F then hex_escape b
      else [c])"

definition escape_json :: "string \<Rightarrow> string" where
  "escape_json text = concat (map escape_char text)"

subsection \<open>The writer\<close>

record JsonWriter =
  jw_out :: string
  jw_first :: "bool list"
  jw_expecting_value :: bool

definition new_json :: JsonWriter where
  "new_json = \<lparr> jw_out = [], jw_first = [], jw_expecting_value = False \<rparr>"

definition put_text :: "string \<Rightarrow> JsonWriter \<Rightarrow> JsonWriter" where
  "put_text text w = w\<lparr>jw_out := jw_out w @ text\<rparr>"

definition json_indent :: "JsonWriter \<Rightarrow> JsonWriter" where
  "json_indent w = put_text (concat (replicate (length (jw_first w) - 1) ''  '')) w"

definition separate :: "JsonWriter \<Rightarrow> JsonWriter" where
  "separate w =
     (case jw_first w of
        [] \<Rightarrow> w
      | first # outer \<Rightarrow>
          if jw_expecting_value w then put_text '': '' (w\<lparr>jw_expecting_value := False\<rparr>)
          else let w' = (if \<not> first then json_indent (put_text [CHR '','', CHR 0x0A] w) else w)
               in w'\<lparr>jw_first := False # outer\<rparr>)"

definition begin_container :: "char \<Rightarrow> JsonWriter \<Rightarrow> JsonWriter" where
  "begin_container bracket w =
     (let w' = put_text [bracket] (separate w) in w'\<lparr>jw_first := True # jw_first w'\<rparr>)"

definition end_container :: "char \<Rightarrow> JsonWriter \<Rightarrow> JsonWriter" where
  "end_container bracket w =
     (let w' = (if jw_first w \<noteq> [] then w\<lparr>jw_first := tl (jw_first w)\<rparr> else w);
          w'' = (if jw_first w' \<noteq> [] then json_indent (put_text [CHR 0x0A] w') else w')
      in put_text [bracket] w'')"

abbreviation begin_object :: "JsonWriter \<Rightarrow> JsonWriter" where
  "begin_object \<equiv> begin_container (CHR ''{'')"

abbreviation end_object :: "JsonWriter \<Rightarrow> JsonWriter" where
  "end_object \<equiv> end_container (CHR ''}'')"

abbreviation begin_array :: "JsonWriter \<Rightarrow> JsonWriter" where
  "begin_array \<equiv> begin_container (CHR ''['')"

abbreviation end_array :: "JsonWriter \<Rightarrow> JsonWriter" where
  "end_array \<equiv> end_container (CHR '']'')"

definition quoted :: "string \<Rightarrow> string" where
  "quoted text = CHR 0x22 # escape_json text @ [CHR 0x22]"

definition json_key :: "string \<Rightarrow> JsonWriter \<Rightarrow> JsonWriter" where
  "json_key name w = (put_text (quoted name) (separate w))\<lparr>jw_expecting_value := True\<rparr>"

definition value_string :: "string \<Rightarrow> JsonWriter \<Rightarrow> JsonWriter" where
  "value_string text w = put_text (quoted text) (separate w)"

definition signed_decimal :: "int \<Rightarrow> string" where
  "signed_decimal v = (if v < 0 then CHR ''-'' # decimal (nat (- v)) else decimal (nat v))"

definition value_int :: "int \<Rightarrow> JsonWriter \<Rightarrow> JsonWriter" where
  "value_int number w = put_text (signed_decimal number) (separate w)"

definition value_bool :: "bool \<Rightarrow> JsonWriter \<Rightarrow> JsonWriter" where
  "value_bool b w = put_text (if b then ''true'' else ''false'') (separate w)"

definition null_value :: "JsonWriter \<Rightarrow> JsonWriter" where
  "null_value w = put_text ''null'' (separate w)"

definition json_raw :: "string \<Rightarrow> JsonWriter \<Rightarrow> JsonWriter" where
  "json_raw literal w = put_text literal (separate w)"

subsection \<open>Documents\<close>

datatype Json =
    JString string
  | JInt int
  | JBool bool
  | JNull
  | JArray "Json list"
  | JObject "(string \<times> Json) list"

abbreviation JNat :: "nat \<Rightarrow> Json" where
  "JNat n \<equiv> JInt (int n)"

abbreviation JWord :: "'a::len word \<Rightarrow> Json" where
  "JWord v \<equiv> JInt (uint v)"

fun write_json :: "Json \<Rightarrow> JsonWriter \<Rightarrow> JsonWriter"
  and write_members :: "(string \<times> Json) list \<Rightarrow> JsonWriter \<Rightarrow> JsonWriter"
  and write_elements :: "Json list \<Rightarrow> JsonWriter \<Rightarrow> JsonWriter" where
  "write_json (JString s) w = value_string s w"
| "write_json (JInt n) w = value_int n w"
| "write_json (JBool b) w = value_bool b w"
| "write_json JNull w = null_value w"
| "write_json (JArray vs) w = end_array (write_elements vs (begin_array w))"
| "write_json (JObject ms) w = end_object (write_members ms (begin_object w))"
| "write_members [] w = w"
| "write_members ((k, v) # ms) w = write_members ms (write_json v (json_key k w))"
| "write_elements [] w = w"
| "write_elements (v # vs) w = write_elements vs (write_json v w)"

definition json_str :: "Json \<Rightarrow> string" where
  "json_str v = jw_out (write_json v new_json)"

subsection \<open>The grammar\<close>

definition json_space :: "string \<Rightarrow> bool" where
  "json_space s \<longleftrightarrow> (\<forall>c \<in> set s. c \<in> {CHR 0x20, CHR 0x09, CHR 0x0A, CHR 0x0D})"

text \<open>A character of a string: itself, a two-character escape, or four hexadecimal digits.\<close>

definition simple_escapes :: "(char \<times> char) list" where
  "simple_escapes =
     [(CHR 0x22, CHR 0x22), (CHR 0x5C, CHR 0x5C), (CHR ''/'', CHR ''/''), (CHR ''b'', CHR 0x08),
      (CHR ''f'', CHR 0x0C), (CHR ''n'', CHR 0x0A), (CHR ''r'', CHR 0x0D), (CHR ''t'', CHR 0x09)]"

definition json_char :: "char \<Rightarrow> string \<Rightarrow> bool" where
  "json_char c s \<longleftrightarrow>
     s = [c] \<and> (of_char c :: nat) \<ge> 0x20 \<and> c \<noteq> CHR 0x22 \<and> c \<noteq> CHR 0x5C
     \<or> (\<exists>e. (e, c) \<in> set simple_escapes \<and> s = [CHR 0x5C, e])
     \<or> (\<exists>h l. h < 16 \<and> l < 16 \<and> (of_char c :: nat) = 16 * h + l
          \<and> s = [CHR 0x5C, CHR ''u'', CHR ''0'', CHR ''0'', hex_digit h, hex_digit l])"

inductive json_chars :: "string \<Rightarrow> string \<Rightarrow> bool" where
  chars_nil: "json_chars [] []"
| chars_cons: "json_char c s \<Longrightarrow> json_chars cs t \<Longrightarrow> json_chars (c # cs) (s @ t)"

definition json_string :: "string \<Rightarrow> string \<Rightarrow> bool" where
  "json_string text s \<longleftrightarrow> (\<exists>body. s = CHR 0x22 # body @ [CHR 0x22] \<and> json_chars text body)"

text \<open>An integer: no leading zero, a minus sign for negative numbers.\<close>

definition json_digits :: "nat \<Rightarrow> string \<Rightarrow> bool" where
  "json_digits n s \<longleftrightarrow> s \<noteq> [] \<and> (hd s = CHR ''0'' \<longrightarrow> s = ''0'')
     \<and> (\<forall>c \<in> set s. 48 \<le> (of_char c :: nat) \<and> (of_char c :: nat) \<le> 57)
     \<and> n = foldl (\<lambda>v c. 10 * v + (of_char c - 48)) 0 s"

definition json_number :: "int \<Rightarrow> string \<Rightarrow> bool" where
  "json_number v s \<longleftrightarrow>
     v \<ge> 0 \<and> json_digits (nat v) s \<or> v < 0 \<and> (\<exists>t. s = CHR ''-'' # t \<and> json_digits (nat (- v)) t)"

inductive json_text :: "Json \<Rightarrow> string \<Rightarrow> bool"
  and json_elements :: "Json list \<Rightarrow> string \<Rightarrow> bool"
  and json_members :: "(string \<times> Json) list \<Rightarrow> string \<Rightarrow> bool" where
  text_string: "json_string t s \<Longrightarrow> json_text (JString t) s"
| text_int: "json_number n s \<Longrightarrow> json_text (JInt n) s"
| text_true: "json_text (JBool True) ''true''"
| text_false: "json_text (JBool False) ''false''"
| text_null: "json_text JNull ''null''"
| text_empty_array: "json_space p \<Longrightarrow> json_text (JArray []) (''['' @ p @ '']'')"
| text_array: "vs \<noteq> [] \<Longrightarrow> json_elements vs s \<Longrightarrow> json_text (JArray vs) (''['' @ s @ '']'')"
| text_empty_object: "json_space p \<Longrightarrow> json_text (JObject []) (''{'' @ p @ ''}'')"
| text_object: "ms \<noteq> [] \<Longrightarrow> json_members ms s \<Longrightarrow> json_text (JObject ms) (''{'' @ s @ ''}'')"
| elements_one: "json_text v s \<Longrightarrow> json_space p \<Longrightarrow> json_space q \<Longrightarrow> json_elements [v] (p @ s @ q)"
| elements_more: "json_text v s \<Longrightarrow> json_space p \<Longrightarrow> json_space q \<Longrightarrow> json_elements vs t \<Longrightarrow>
    json_elements (v # vs) (p @ s @ q @ '','' @ t)"
| members_one: "json_string k i \<Longrightarrow> json_text v s \<Longrightarrow>
    json_space p \<Longrightarrow> json_space p' \<Longrightarrow> json_space q \<Longrightarrow> json_space q' \<Longrightarrow>
    json_members [(k, v)] (p @ i @ p' @ '':'' @ q @ s @ q')"
| members_more: "json_string k i \<Longrightarrow> json_text v s \<Longrightarrow>
    json_space p \<Longrightarrow> json_space p' \<Longrightarrow> json_space q \<Longrightarrow> json_space q' \<Longrightarrow> json_members ms t \<Longrightarrow>
    json_members ((k, v) # ms) (p @ i @ p' @ '':'' @ q @ s @ q' @ '','' @ t)"

subsection \<open>The text of a document\<close>

definition break_at :: "nat \<Rightarrow> string" where
  "break_at depth = CHR 0x0A # concat (replicate depth ''  '')"

definition closing_break :: "nat \<Rightarrow> string" where
  "closing_break depth = (if depth = 0 then [] else break_at (depth - 1))"

fun render :: "nat \<Rightarrow> Json \<Rightarrow> string"
  and render_members :: "nat \<Rightarrow> (string \<times> Json) list \<Rightarrow> string"
  and render_elements :: "nat \<Rightarrow> Json list \<Rightarrow> string" where
  "render d (JString s) = quoted s"
| "render d (JInt n) = signed_decimal n"
| "render d (JBool b) = (if b then ''true'' else ''false'')"
| "render d JNull = ''null''"
| "render d (JArray vs) = ''['' @ render_elements d vs @ closing_break d @ '']''"
| "render d (JObject ms) = ''{'' @ render_members d ms @ closing_break d @ ''}''"
| "render_members d [] = []"
| "render_members d ((k, v) # ms) = quoted k @ '': '' @ render (Suc d) v
     @ (if ms = [] then [] else '','' @ break_at d) @ render_members d ms"
| "render_elements d [] = []"
| "render_elements d (v # vs) = render (Suc d) v
     @ (if vs = [] then [] else '','' @ break_at d) @ render_elements d vs"

text \<open>What precedes the next element of the innermost container.\<close>

definition between :: "bool \<Rightarrow> nat \<Rightarrow> 'a list \<Rightarrow> string" where
  "between first depth xs = (if xs = [] \<or> first then [] else '','' @ break_at depth)"

lemma between_simps [simp]:
  "between first d [] = []" "between True d xs = []"
  "between False d (x # xs) = '','' @ break_at d"
  by (simp_all add: between_def)

lemma put_text_simps [simp]:
  "jw_first (put_text t w) = jw_first w" "jw_expecting_value (put_text t w) = jw_expecting_value w"
  "put_text t (put_text u w) = put_text (u @ t) w" "put_text [] w = w"
  "(put_text t w)\<lparr>jw_first := f\<rparr> = put_text t (w\<lparr>jw_first := f\<rparr>)"
  "(put_text t w)\<lparr>jw_expecting_value := b\<rparr> = put_text t (w\<lparr>jw_expecting_value := b\<rparr>)"
  by (simp_all add: put_text_def)

lemma separate_open:
  "jw_first w = first # outer \<Longrightarrow> \<not> jw_expecting_value w \<Longrightarrow>
   separate w = put_text (between first (length outer) [()]) (w\<lparr>jw_first := False # outer\<rparr>)"
  by (simp add: separate_def json_indent_def between_def break_at_def Let_def)

lemma separate_value:
  "jw_first w = first # outer \<Longrightarrow> jw_expecting_value w \<Longrightarrow>
   separate w = put_text '': '' (w\<lparr>jw_expecting_value := False\<rparr>)"
  by (simp add: separate_def)

lemma separate_first_length [simp]: "length (jw_first (separate w)) = length (jw_first w)"
  by (simp add: separate_def json_indent_def Let_def split: list.split)

lemma end_container_open:
  "jw_first w = first # outer \<Longrightarrow>
   end_container c w = put_text (closing_break (length outer) @ [c]) (w\<lparr>jw_first := outer\<rparr>)"
  by (cases outer)
    (simp_all add: end_container_def json_indent_def closing_break_def break_at_def Let_def)

lemma separate_nil: "jw_first w = [] \<Longrightarrow> separate w = w"
  by (simp add: separate_def)

lemma separate_not_expecting [simp]: "jw_first w \<noteq> [] \<Longrightarrow> \<not> jw_expecting_value (separate w)"
  by (cases "jw_first w") (simp_all add: separate_def json_indent_def Let_def)

lemma begin_container_first:
  "jw_first (begin_container c w) = True # jw_first (separate w)"
  "jw_expecting_value (begin_container c w) = jw_expecting_value (separate w)"
  by (simp_all add: begin_container_def Let_def)

definition awaits :: "JsonWriter \<Rightarrow> bool" where
  "awaits w \<longleftrightarrow> jw_expecting_value w \<and> jw_first w = []"

lemma awaits_simps [simp]:
  "\<not> awaits w \<Longrightarrow> \<not> jw_expecting_value (separate w)"
  by (cases "jw_first w = []") (auto simp: awaits_def separate_nil)

lemma write_json_render:
  "\<not> awaits w \<Longrightarrow> write_json v w = put_text (render (length (jw_first w)) v) (separate w)"
  "jw_first w = first # outer \<Longrightarrow> \<not> jw_expecting_value w \<Longrightarrow>
   write_members ms w = put_text (between first (length outer) ms @ render_members (length outer) ms)
     (w\<lparr>jw_first := (first \<and> ms = []) # outer\<rparr>)"
  "jw_first w = first # outer \<Longrightarrow> \<not> jw_expecting_value w \<Longrightarrow>
   write_elements vs w = put_text (between first (length outer) vs @ render_elements (length outer) vs)
     (w\<lparr>jw_first := (first \<and> vs = []) # outer\<rparr>)"
proof (induction v w and ms w and vs w arbitrary: and first outer and first outer
    rule: write_json_write_members_write_elements.induct)
  case (5 vs w)
  note inner = "5.IH" [of True "jw_first (separate w)"]
  show ?case
    using 5 inner by (simp add: begin_container_first end_container_open)
      (simp add: begin_container_def Let_def)
next
  case (6 ms w)
  note inner = "6.IH" [of True "jw_first (separate w)"]
  show ?case
    using 6 inner by (simp add: begin_container_first end_container_open)
      (simp add: begin_container_def Let_def)
next
  case (8 k v ms w)
  let ?w = "json_key k w"
  have key: "?w = put_text (between first (length outer) [()] @ quoted k)
      (w\<lparr>jw_first := False # outer, jw_expecting_value := True\<rparr>)"
    using 8 by (simp add: json_key_def separate_open)
  then have wait: "\<not> awaits ?w" and sep: "separate ?w =
      put_text (between first (length outer) [()] @ quoted k @ '': '') (w\<lparr>jw_first := False # outer\<rparr>)"
    using 8(4) by (simp_all add: awaits_def separate_value)
      (simp add: put_text_def)
  have written: "write_json v ?w = put_text (between first (length outer) [()] @ quoted k @ '': ''
      @ render (Suc (length outer)) v) (w\<lparr>jw_first := False # outer\<rparr>)"
    using "8.IH"(1) [OF wait] key sep by simp
  show ?case
    using "8.IH"(2) [of False outer] 8(3,4) written by (simp add: between_def)
next
  case (10 v vs w)
  have "\<not> awaits w" using 10 by (simp add: awaits_def)
  then have written: "write_json v w = put_text (between first (length outer) [()]
      @ render (Suc (length outer)) v) (w\<lparr>jw_first := False # outer\<rparr>)"
    using 10 by (simp add: separate_open)
  show ?case
    using "10.IH"(2) [of False outer] 10(3,4) written by (simp add: between_def)
qed (simp_all add: value_string_def value_int_def value_bool_def null_value_def)

lemma json_str_render: "json_str v = render 0 v"
proof -
  have "write_json v new_json = put_text (render 0 v) (separate new_json)"
    using write_json_render(1) [of new_json v] by (simp add: awaits_def new_json_def)
  then show ?thesis by (simp add: json_str_def separate_def new_json_def put_text_def)
qed

subsection \<open>The text is JSON\<close>

lemma json_char_escape: "json_char c (escape_char c)"
proof -
  define b where "b = (of_char c :: nat)"
  have b: "c = char_of b" "b < 256" by (simp_all add: b_def)
  have hex: "b div 16 < 16" "b mod 16 < 16" "b = 16 * (b div 16) + b mod 16" using b(2) by simp_all
  have "of_char c = b" using b by simp
  moreover have "c = CHR 0x22 \<longleftrightarrow> b = 0x22" "c = CHR 0x5C \<longleftrightarrow> b = 0x5C"
    "c = CHR 0x08 \<longleftrightarrow> b = 0x08" "c = CHR 0x0C \<longleftrightarrow> b = 0x0C" "c = CHR 0x0A \<longleftrightarrow> b = 0x0A"
    "c = CHR 0x0D \<longleftrightarrow> b = 0x0D" "c = CHR 0x09 \<longleftrightarrow> b = 0x09"
    using b take_bit_nat_eq_self [of b 8] by (simp_all add: char_of_eq_iff)
  moreover have "\<exists>h l. h < 16 \<and> l < 16 \<and> b = 16 * h + l
      \<and> hex_escape b = [CHR 0x5C, CHR ''u'', CHR ''0'', CHR ''0'', hex_digit h, hex_digit l]"
    using hex unfolding hex_escape_def by blast
  ultimately show ?thesis
    by (simp add: json_char_def escape_char_def simple_escapes_def Let_def)
qed

lemma json_string_quoted: "json_string t (quoted t)"
proof -
  have "json_chars t (escape_json t)"
    by (induction t) (auto simp: escape_json_def intro: json_chars.intros json_char_escape)
  then show ?thesis by (auto simp: json_string_def quoted_def)
qed

lemma nth_digit:
  "n < 10 \<Longrightarrow> (of_char (''0123456789'' ! n) :: nat) = 48 + n"
  by (auto simp: less_Suc_eq numeral_eq_Suc)

lemma decimal_not_empty [simp]: "decimal n \<noteq> []"
  by (subst decimal.simps) simp

lemma hd_decimal: "hd (decimal n) = CHR ''0'' \<Longrightarrow> n = 0"
proof (induction n rule: decimal.induct)
  case (1 n)
  show ?case
  proof (cases "n < 10")
    case True
    then show ?thesis
      using "1.prems" by (auto simp: decimal.simps [of n] less_Suc_eq numeral_eq_Suc)
  next
    case False
    then have "n div 10 = 0" using 1 by (simp add: decimal.simps [of n])
    then show ?thesis using False by simp
  qed
qed

lemma json_digits_decimal: "json_digits n (decimal n)"
proof -
  have "(\<forall>c \<in> set (decimal n). 48 \<le> (of_char c :: nat) \<and> (of_char c :: nat) \<le> 57)
      \<and> n = foldl (\<lambda>v c. 10 * v + (of_char c - 48)) 0 (decimal n)"
  proof (induction n rule: decimal.induct)
    case (1 n)
    have digit: "n mod 10 < 10" by simp
    show ?case
      using 1 nth_digit [OF digit] nth_digit [of n]
      by (cases "n < 10") (simp_all add: decimal.simps [of n])
  qed
  moreover have "hd (decimal n) = CHR ''0'' \<Longrightarrow> decimal n = ''0''"
    using hd_decimal [of n] by (simp add: decimal.simps)
  ultimately show ?thesis by (simp add: json_digits_def)
qed

lemma json_number_signed: "json_number v (signed_decimal v)"
  by (auto simp: json_number_def signed_decimal_def json_digits_decimal)

lemma json_space_breaks [simp]:
  "json_space []" "json_space [CHR 0x20]" "json_space (break_at d)" "json_space (closing_break d)"
  by (auto simp: json_space_def break_at_def closing_break_def)

lemma render_json:
  "json_text v (render d v)"
  "ms \<noteq> [] \<Longrightarrow> json_space p \<Longrightarrow> json_space q \<Longrightarrow> json_members ms (p @ render_members d ms @ q)"
  "vs \<noteq> [] \<Longrightarrow> json_space p \<Longrightarrow> json_space q \<Longrightarrow> json_elements vs (p @ render_elements d vs @ q)"
proof (induction d v and d ms and d vs arbitrary: and p q and p q
    rule: render_render_members_render_elements.induct)
  case (3 d b)
  show ?case by (cases b) (simp_all add: json_text_json_elements_json_members.intros)
next
  case (5 d vs)
  show ?case
    using text_empty_array [of "closing_break d"] text_array [OF _ "5.IH" [of "[]" "closing_break d"]]
    by (cases "vs = []") simp_all
next
  case (6 d ms)
  show ?case
    using text_empty_object [of "closing_break d"] text_object [OF _ "6.IH" [of "[]" "closing_break d"]]
    by (cases "ms = []") simp_all
next
  case (8 d k v ms)
  show ?case
  proof (cases "ms = []")
    case True
    then show ?thesis
      using members_one [OF json_string_quoted "8.IH"(1) 8(4), of "[]" "[CHR 0x20]" q k] 8 by simp
  next
    case False
    then have "json_members ms (break_at d @ render_members d ms @ q)" using 8 by simp
    then show ?thesis
      using members_more [OF json_string_quoted "8.IH"(1) 8(4), of "[]" "[CHR 0x20]" "[]" ms _ k] False
      by simp
  qed
next
  case (10 d v vs)
  show ?case
  proof (cases "vs = []")
    case True
    then show ?thesis using elements_one [OF "10.IH"(1), of p q] 10 by simp
  next
    case False
    then have "json_elements vs (break_at d @ render_elements d vs @ q)" using 10 by simp
    then show ?thesis
      using elements_more [OF "10.IH"(1) 10(4), of "[]"] False by simp
  qed
qed (simp_all add: json_text_json_elements_json_members.intros json_string_quoted json_number_signed)

lemma json_str_text: "json_text v (json_str v)"
  by (simp add: json_str_render render_json)

end
