(* ===== verification/Queries.thy ===== *)
theory Queries
  imports Invariant_Checker Json_Writer Wire_Requests
begin

section \<open>Queries\<close>

text \<open>
  query_json of net/coordinator.cpp. Every query takes one view of the state and writes one
  document; \<open>query_document\<close> is that document and \<open>query_json\<close> its text. The configuration
  and the compiler in the build identity are parameters, as they are macros of the compiler.
\<close>

subsection \<open>Version\<close>

definition protocol_version :: u32 where
  "protocol_version = 1"

definition persistence_format_version :: u32 where
  "persistence_format_version = 1"

definition version_string :: string where
  "version_string = ''1.0.0''"

definition product_name :: string where
  "product_name = ''Agent Scheduler''"

record Build =
  bu_debug :: bool
  bu_compiler :: string

definition build_info :: "Build \<Rightarrow> string" where
  "build_info b = version_string @ '' '' @ (if bu_debug b then ''debug'' else ''release'') @ '' ''
     @ bu_compiler b @ '' cxx20 protocol='' @ decimal (unat protocol_version)
     @ '' persistence='' @ decimal (unat persistence_format_version)"

subsection \<open>Documents\<close>

definition version_document :: "Build \<Rightarrow> Json" where
  "version_document b = JObject
     [(''product'', JString product_name), (''version'', JString version_string),
      (''build'', JString (build_info b)), (''protocol_version'', JWord protocol_version),
      (''persistence_format_version'', JWord persistence_format_version)]"

definition summary_document :: "SchedulerSummary \<Rightarrow> Json" where
  "summary_document s = JObject
     [(''scheduler_id'', JString (id_to_string (su_scheduler_id s))),
      (''scheduler_epoch'', JWord (su_scheduler_epoch s)),
      (''coordinator_epoch'', JWord (su_coordinator_epoch s)),
      (''policy_id'', JString (id_to_string (su_policy s))),
      (''policy_generation'', JWord (su_policy_generation s)),
      (''running'', JBool (su_running s)), (''admission_open'', JBool (su_admission_open s)),
      (''shutting_down'', JBool (su_shutting_down s)), (''agents'', JNat (su_agent_count s)),
      (''agents_ready'', JNat (su_agents_ready s)), (''agents_busy'', JNat (su_agents_busy s)),
      (''agents_draining'', JNat (su_agents_draining s)),
      (''agents_lost'', JNat (su_agents_lost s)), (''agents_retired'', JNat (su_agents_retired s)),
      (''queues'', JNat (su_queue_count s)), (''work_admitted'', JNat (su_work_admitted s)),
      (''work_assigned'', JNat (su_work_assigned s)),
      (''work_executing'', JNat (su_work_executing s)),
      (''work_completed'', JNat (su_work_completed s)),
      (''work_cancelled'', JNat (su_work_cancelled s)),
      (''active_assignments'', JNat (su_active_assignments s)),
      (''dispatchable_assignments'', JNat (su_dispatchable_assignments s)),
      (''fenced_boots'', JNat (su_fenced_boots s)),
      (''scheduling_rounds'', JWord (su_scheduling_rounds s)),
      (''state_revision'', JWord (su_state_revision s)),
      (''state_digest'', JString (to_hex (su_state_digest s)))]"

definition evidence_document :: "CapabilityEvidence \<Rightarrow> Json" where
  "evidence_document e = JObject
     [(''name'', JString (ce_name e)), (''state'', JString (capability_state_to_string (ce_state e))),
      (''quality'', JWord (ce_quality e)), (''generation'', JWord (ce_generation e))]"

definition agent_document :: "AgentStatus \<Rightarrow> Json" where
  "agent_document a = JObject
     [(''id'', JString (id_to_string (ast_id a))), (''generation'', JWord (ast_generation a)),
      (''boot'', JString (hash128_to_string (ast_boot a))),
      (''registration_generation'', JWord (ast_registration_generation a)),
      (''lifecycle'', JString (agent_lifecycle_to_string (ast_lifecycle a))),
      (''health'', JString (agent_health_to_string (ast_health a))),
      (''readiness'', JString (agent_readiness_to_string (ast_readiness a))),
      (''reachability'', JString (agent_reachability_to_string (ast_reachability a))),
      (''availability'', JString (agent_availability_to_string (ast_availability a))),
      (''max_concurrency'', JWord (ast_max_concurrency a)),
      (''active_assignments'', JWord (ast_active_assignments a)),
      (''available_capacity'', JWord (ast_available_capacity a)),
      (''lease_current'', JBool (ast_lease_current a)),
      (''evidence_current'', JBool (ast_evidence_current a)),
      (''capability_generation'', JWord (ast_capability_generation a)),
      (''placement_domain'', JString (id_to_string (ast_placement_domain a))),
      (''reason'', JString (ast_reason a)),
      (''capabilities'', JArray (map evidence_document (ast_capabilities a)))]"

definition work_document :: "WorkStatus \<Rightarrow> Json" where
  "work_document w = JObject
     [(''id'', JString (id_to_string (ws_id w))), (''generation'', JWord (ws_generation w)),
      (''queue'', JString (id_to_string (ws_queue w))),
      (''lifecycle'', JString (work_lifecycle_to_string (ws_lifecycle w))),
      (''priority'', JWord (ws_priority w)), (''fairness_class'', JString (ws_fairness_class w)),
      (''current_assignments'', JWord (ws_current_assignments w)),
      (''max_parallel'', JWord (ws_max_parallel w)), (''bypass_count'', JWord (ws_bypass_count w)),
      (''starvation_rounds'', JWord (ws_starvation_rounds w)),
      (''last_assignment_generation'', JWord (ws_last_assignment_generation w)),
      (''reason'', JString (ws_reason w))]"

definition assignment_document :: "Assignment \<Rightarrow> Json" where
  "assignment_document a = (let b = ar_binding a in JObject
     [(''id'', JString (hash128_to_string (bn_id b))), (''generation'', JWord (bn_generation b)),
      (''work'', JString (id_to_string (bn_work b))),
      (''work_generation'', JWord (bn_work_generation b)),
      (''agent'', JString (id_to_string (bn_agent b))),
      (''agent_generation'', JWord (bn_agent_generation b)),
      (''boot'', JString (hash128_to_string (bn_boot b))),
      (''scheduler_epoch'', JWord (bn_scheduler_epoch b)),
      (''coordinator_epoch'', JWord (bn_coordinator_epoch b)),
      (''policy_generation'', JWord (bn_policy_generation b)),
      (''capability_generation'', JWord (bn_capability_generation b)),
      (''lease'', JString (hash128_to_string (bn_lease b))),
      (''dispatch'', JString (hash128_to_string (bn_dispatch b))),
      (''state'', JString (assignment_state_to_string (ar_state a))),
      (''invalidation'', JString (invalidation_to_string (ar_invalidation a))),
      (''lease_current'', JBool (ar_lease_current a)),
      (''replica_index'', JWord (bn_replica_index b)), (''exclusive'', JBool (bn_exclusive b)),
      (''reason'', JString (ar_reason a))])"

definition lease_document :: "Lease \<Rightarrow> Json" where
  "lease_document l = JObject
     [(''id'', JString (hash128_to_string (ls_id l))), (''generation'', JWord (ls_generation l)),
      (''assignment'', JString (hash128_to_string (ls_assignment l))),
      (''agent'', JString (id_to_string (ls_agent l))),
      (''boot'', JString (hash128_to_string (ls_boot l))), (''current'', JBool (ls_current l)),
      (''expires_at_ms'', JWord (ls_expires_at_ms l))]"

definition fence_document :: "FencedBoot \<Rightarrow> Json" where
  "fence_document f = JObject
     [(''agent'', JString (id_to_string (fb_agent f))),
      (''boot'', JString (hash128_to_string (fb_boot f))), (''generation'', JWord (fb_generation f)),
      (''reason'', JString (fb_reason f))]"

definition violation_document :: "InvariantViolation \<Rightarrow> Json" where
  "violation_document v = JObject
     [(''code'', JString (invariant_name (iv_code v))), (''subject'', JString (iv_subject v)),
      (''detail'', JString (iv_detail v))]"

definition report_document :: "InvariantReport \<Rightarrow> Json" where
  "report_document r = JObject
     [(''ok'', JBool (report_ok r)), (''checks'', JNat (ir_checks_run r)),
      (''state_revision'', JWord (ir_state_revision r)),
      (''violations'', JArray (map violation_document (ir_violations r)))]"

definition fairness_entry_document :: "FairnessEntry \<Rightarrow> Json" where
  "fairness_entry_document e = JObject
     [(''work'', JString (id_to_string (fe_work e))), (''queue'', JString (id_to_string (fe_queue e))),
      (''fairness_class'', JString (fe_fairness_class e)), (''priority'', JWord (fe_priority e)),
      (''effective_priority'', JInt (fe_effective_priority e)),
      (''bypass_count'', JWord (fe_bypass_count e)), (''bypass_ceiling'', JWord (fe_bypass_ceiling e)),
      (''starvation_rounds'', JWord (fe_starvation_rounds e)), (''must_run'', JBool (fe_must_run e)),
      (''starved'', JBool (fe_starved e))]"

definition fairness_document :: "FairnessSnapshot \<Rightarrow> Json" where
  "fairness_document f = JObject
     [(''scheduling_rounds'', JWord (fn_scheduling_rounds f)),
      (''bounded_starvation'', JBool (fn_bounded_starvation f)),
      (''max_priority_bypass'', JWord (fn_max_priority_bypass f)),
      (''starved'', JWord (fn_starved_count f)), (''must_run'', JWord (fn_must_run_count f)),
      (''entries'', JArray (map fairness_entry_document (fn_entries f)))]"

definition offer_document :: "CapabilityEvidence \<Rightarrow> Json" where
  "offer_document e = JObject
     [(''name'', JString (ce_name e)), (''state'', JString (capability_state_to_string (ce_state e))),
      (''quality'', JWord (ce_quality e))]"

definition capabilities_document :: "AgentStatus \<Rightarrow> Json" where
  "capabilities_document a = JObject
     [(''agent'', JString (id_to_string (ast_id a))),
      (''boot'', JString (hash128_to_string (ast_boot a))),
      (''capability_generation'', JWord (ast_capability_generation a)),
      (''current'', JBool (ast_evidence_current a)),
      (''capabilities'', JArray (map offer_document (ast_capabilities a)))]"

definition queue_document :: "WorkStatus \<Rightarrow> Json" where
  "queue_document w = JObject
     [(''queue'', JString (id_to_string (ws_queue w))), (''work'', JString (id_to_string (ws_id w))),
      (''lifecycle'', JString (work_lifecycle_to_string (ws_lifecycle w)))]"

definition policy_document :: "PolicySnapshot \<Rightarrow> Json" where
  "policy_document p = JObject
     [(''id'', JString (id_to_string (po_id p))), (''generation'', JWord (po_generation p)),
      (''aging_rounds_per_step'', JWord (aging_rounds_per_step p)),
      (''max_priority_bypass'', JWord (max_priority_bypass p)),
      (''starvation_alert_rounds'', JWord (starvation_alert_rounds p)),
      (''allow_unbounded_starvation'', JBool (allow_unbounded_starvation p)),
      (''assignment_lease_ttl_ms'', JWord (assignment_lease_ttl_ms p)),
      (''registration_lease_ttl_ms'', JWord (registration_lease_ttl_ms p)),
      (''ranking_weights'', JArray (map (\<lambda>w. JObject
         [(''factor'', JString (rw_factor w)), (''weight'', JWord (rw_weight w))]) (ranking_weights p))),
      (''fairness_class_weights'', JArray (map (\<lambda>w. JObject
         [(''class'', JString (qw_fairness_class w)), (''weight'', JWord (qw_weight w))])
         (fairness_class_weights p)))]"

subsection \<open>The query\<close>

text \<open>A query filter: zero selects everything.\<close>

definition selects :: "'a::zero \<Rightarrow> 'a \<Rightarrow> bool" where
  "selects wanted x \<longleftrightarrow> wanted = 0 \<or> x = wanted"

definition selects_hash :: "Hash128 \<Rightarrow> Hash128 \<Rightarrow> bool" where
  "selects_hash wanted x \<longleftrightarrow> wanted = hash128_zero \<or> x = wanted"

definition query_document :: "Build \<Rightarrow> QueryMessage \<Rightarrow> Impl \<Rightarrow> Json" where
  "query_document build q impl =
     (case qm_kind q of
        QueryKind.Version \<Rightarrow> version_document build
      | QueryKind.Summary \<Rightarrow> summary_document (summary impl)
      | QueryKind.Agents \<Rightarrow> JArray (map agent_document
          (filter (\<lambda>a. selects (qm_agent q) (ast_id a)) (all_agents impl)))
      | QueryKind.Work \<Rightarrow> JArray (map work_document
          (filter (\<lambda>w. selects (qm_work q) (ws_id w)) (all_work impl)))
      | QueryKind.Assignments \<Rightarrow> JArray (map assignment_document
          (filter (\<lambda>a. selects (qm_work q) (bn_work (ar_binding a))
               \<and> selects_hash (qm_assignment q) (bn_id (ar_binding a))
               \<and> selects (qm_agent q) (bn_agent (ar_binding a))) (all_assignments impl)))
      | QueryKind.Leases \<Rightarrow> JArray (map lease_document
          (filter (\<lambda>l. selects_hash (qm_assignment q) (ls_assignment l)
               \<and> selects (qm_agent q) (ls_agent l)) (all_leases impl)))
      | QueryKind.Fenced \<Rightarrow> JArray (map fence_document (all_fenced_boots impl))
      | QueryKind.Invariants \<Rightarrow> report_document (check_invariants impl)
      | QueryKind.Fairness \<Rightarrow> fairness_document (fairness impl)
      | QueryKind.Capabilities \<Rightarrow> JArray (map capabilities_document
          (filter (\<lambda>a. selects (qm_agent q) (ast_id a)) (all_agents impl)))
      | QueryKind.Queues \<Rightarrow> JArray (map queue_document (all_work impl))
      | QueryKind.Policy \<Rightarrow> policy_document (im_policy impl))"

definition query_json :: "Build \<Rightarrow> QueryMessage \<Rightarrow> Impl \<Rightarrow> string" where
  "query_json build q impl = json_str (query_document build q impl)"

lemma query_json_text: "json_text (query_document build q impl) (query_json build q impl)"
  by (simp add: query_json_def json_str_text)

end
