(* ===== verification/Coordinator.thy ===== *)
theory Coordinator
  imports Queries Sessions Persistence Agent_Lifecycle Work_Lifecycle Process_Lifecycle Batching
begin

section \<open>The coordinator\<close>

text \<open>
  net/coordinator.cpp: the server that decodes the frames of its sessions, drives the
  scheduler and answers. A handler runs on the reader thread of its session and holds no
  lock across its calls into the scheduler; \<open>others\<close> is what the other threads do to the
  scheduler in between. Sessions are the values of the session map; a frame for a session is
  appended to its send queue by \<open>enqueue\<close>. The listener, the network library, the file and
  the reaper thread are the environment.
\<close>

subsection \<open>State\<close>

record CoordinatorOptions =
  cp_port :: u16
  cp_bind_address :: string
  cp_limits :: ResourceLimits
  cp_persistence_path :: string
  cp_load_on_start :: bool
  cp_persist_on_stop :: bool
  cp_auto_dispatch :: bool
  cp_notify_sessions_on_stop :: bool

definition default_coordinator_options :: CoordinatorOptions where
  "default_coordinator_options =
     \<lparr> cp_port = 0, cp_bind_address = ''127.0.0.1'', cp_limits = default_limits,
       cp_persistence_path = [], cp_load_on_start = True, cp_persist_on_stop = True,
       cp_auto_dispatch = True, cp_notify_sessions_on_stop = True \<rparr>"

text \<open>\<open>co_notifier\<close>: the shutdown notifier is installed in the scheduler.\<close>

record Coordinator =
  co_scheduler :: Impl
  co_options :: CoordinatorOptions
  co_port :: u16
  co_running :: bool
  co_notifier :: bool
  co_sessions :: "(u64, Session) omap"
  co_agent_sessions :: "(u64, Hash128 \<times> u64) omap"
  co_reap_queue :: "Session list"
  co_reap_stopping :: bool
  co_next_session_id :: u64
  co_frames_processed :: u64
  co_protocol_violations :: u64
  co_rejected_frames :: u64

definition new_coordinator :: "Impl \<Rightarrow> CoordinatorOptions \<Rightarrow> Coordinator" where
  "new_coordinator s options =
     \<lparr> co_scheduler = s, co_options = options\<lparr>cp_limits := im_limits s\<rparr>, co_port = 0,
       co_running = False, co_notifier = False, co_sessions = [], co_agent_sessions = [],
       co_reap_queue = [], co_reap_stopping = False, co_next_session_id = 1,
       co_frames_processed = 0, co_protocol_violations = 0, co_rejected_frames = 0 \<rparr>"

abbreviation co_limits :: "Coordinator \<Rightarrow> ResourceLimits" where
  "co_limits c \<equiv> cp_limits (co_options c)"

definition connection_count :: "Coordinator \<Rightarrow> nat" where
  "connection_count c = length (co_sessions c)"

definition count_violation :: "Coordinator \<Rightarrow> Coordinator" where
  "count_violation c = c\<lparr>co_protocol_violations := co_protocol_violations c + 1\<rparr>"

definition count_rejected :: "Coordinator \<Rightarrow> Coordinator" where
  "count_rejected c = c\<lparr>co_rejected_frames := co_rejected_frames c + 1\<rparr>"

text \<open>A call into the scheduler by this thread, after what the others did.\<close>

definition on_scheduler :: "(Impl \<Rightarrow> Impl \<times> 'r) \<Rightarrow> Coordinator \<Rightarrow> Coordinator \<times> 'r" where
  "on_scheduler f c = (let (s, r) = f (co_scheduler c) in (c\<lparr>co_scheduler := s\<rparr>, r))"

definition on_session :: "u64 \<Rightarrow> (Session \<Rightarrow> Session) \<Rightarrow> Coordinator \<Rightarrow> Coordinator" where
  "on_session sid f c = c\<lparr>co_sessions := om_adjust sid f (co_sessions c)\<rparr>"

subsection \<open>Frames to the peers\<close>

definition make_frame :: "MessageType \<Rightarrow> u64 \<Rightarrow> Frame" where
  "make_frame t correlation =
     \<lparr> fr_header = \<lparr> fh_magic = frame_magic, fh_version = ucast protocol_version,
         fh_type = of_nat (message_type_code t), fh_flags = 0, fh_reserved = 0,
         fh_correlation = correlation, fh_payload_length = 0, fh_payload_crc32 = 0,
         fh_header_crc32 = 0 \<rparr>,
       fr_payload = [] \<rparr>"

definition encode_message ::
    "MessageType \<Rightarrow> u64 \<Rightarrow> writer \<Rightarrow> ResourceLimits \<Rightarrow> Frame coded" where
  "encode_message t correlation put limits =
     (case put [] of Inl e \<Rightarrow> Inl e
      | Inr payload \<Rightarrow>
          if length payload > unat (max_payload_size limits)
          then Inl ''encoded message exceeds the configured maximum payload size''
          else Inr ((make_frame t correlation)\<lparr>fr_payload := payload\<rparr>))"

definition send_frame :: "u64 \<Rightarrow> Frame \<Rightarrow> Coordinator \<Rightarrow> Coordinator" where
  "send_frame sid frame = on_session sid (\<lambda>s. fst (enqueue frame s))"

definition send_result ::
    "u64 \<Rightarrow> MessageType \<Rightarrow> u64 \<Rightarrow> MutationResult \<Rightarrow> ScheduleOutcome \<Rightarrow> Coordinator \<Rightarrow> Coordinator" where
  "send_result sid t correlation result oc c =
     (let message = \<lparr> rsm_request_type = t, rsm_ok = (result = None),
            rsm_outcome = of_nat (outcome_code oc),
            rsm_error = (case result of Some e \<Rightarrow> error_on_wire e
                         | None \<Rightarrow> default_wire_error\<lparr>we_outcome := of_nat (outcome_code oc)\<rparr>) \<rparr>
      in case encode_message t correlation (encode_result (co_limits c) message) (co_limits c) of
           Inl _ \<Rightarrow> count_rejected c
         | Inr frame \<Rightarrow> send_frame sid frame c)"

definition send_error ::
    "u64 \<Rightarrow> u64 \<Rightarrow> ErrorCode \<Rightarrow> string \<Rightarrow> string \<Rightarrow> string \<Rightarrow> Coordinator \<Rightarrow> Coordinator" where
  "send_error sid correlation code operation subject detail c =
     (let message = \<lparr> em_code = of_nat (error_code_code code), em_operation = operation,
            em_subject = subject, em_detail = detail \<rparr>
      in case encode_message MessageType.Error correlation
                (encode_error_message (co_limits c) message) (co_limits c) of
           Inl _ \<Rightarrow> count_rejected c
         | Inr frame \<Rightarrow> send_frame sid frame c)"

text \<open>An answer that is encoded outside send_result: the exception reaches handle_frame.\<close>

definition answer ::
    "u64 \<Rightarrow> MessageType \<Rightarrow> u64 \<Rightarrow> writer \<Rightarrow> Coordinator \<Rightarrow> Coordinator \<times> string option" where
  "answer sid t correlation put c =
     (case encode_message t correlation put (co_limits c) of
        Inl e \<Rightarrow> (c, Some e)
      | Inr frame \<Rightarrow> (send_frame sid frame c, None))"

subsection \<open>Scheduling passes\<close>

definition push_assignment ::
    "u64 \<Rightarrow> Hash128 \<Rightarrow> AssignWorkMessage \<Rightarrow> Coordinator \<Rightarrow> Coordinator" where
  "push_assignment agent boot message c =
     (case om_get (co_agent_sessions c) agent of None \<Rightarrow> c
      | Some (registered, sid) \<Rightarrow>
          if registered \<noteq> boot then c
          else case om_get (co_sessions c) sid of None \<Rightarrow> c
            | Some _ \<Rightarrow>
                (case encode_message MessageType.AssignWork 0 (encode_assign (co_limits c) message)
                        (co_limits c) of
                   Inl _ \<Rightarrow> c | Inr frame \<Rightarrow> send_frame sid frame c))"

definition dispatch_decision :: "(Impl \<Rightarrow> Impl) \<Rightarrow> ScheduleDecision \<Rightarrow> Coordinator \<Rightarrow> Coordinator" where
  "dispatch_decision others d c =
     (case sd_assignment d of None \<Rightarrow> c
      | Some b \<Rightarrow>
          let (c1, r) = on_scheduler (\<lambda>s. dispatch others (bn_id b) (bn_generation b) (others s)) c in
          if dr_outcome r \<noteq> ScheduleOutcome.Assigned then c1
          else let c2 = c1\<lparr>co_scheduler := others (co_scheduler c1)\<rparr>;
                   message = \<lparr> awm_binding = (case dr_handoff r of Some h \<Rightarrow> h | None \<Rightarrow> b),
                     awm_kind = (case work_status (co_scheduler c2) (bn_work b) of
                                   Some w \<Rightarrow> ws_kind w | None \<Rightarrow> []),
                     awm_payload_ref = [] \<rparr>
               in push_assignment (bn_agent b) (bn_boot b) message c2)"

definition run_scheduling_pass :: "(Impl \<Rightarrow> Impl) \<Rightarrow> Coordinator \<Rightarrow> Coordinator" where
  "run_scheduling_pass others c =
     (if \<not> cp_auto_dispatch (co_options c) then c
      else let request = \<lparr> sr_work = [], sr_queues = [],
                 sr_max_assignments = max_batch_assignments (co_limits c), sr_dry_run = False \<rparr>;
               (c1, batch) = on_scheduler (\<lambda>s. schedule_batch request (others s)) c
           in fold (dispatch_decision others) (bd_decisions batch) c1)"

definition forget_agent_session :: "u64 \<Rightarrow> Hash128 \<Rightarrow> Coordinator \<Rightarrow> Coordinator" where
  "forget_agent_session agent boot c =
     (case om_get (co_agent_sessions c) agent of None \<Rightarrow> c
      | Some (registered, _) \<Rightarrow>
          if registered = boot
          then c\<lparr>co_agent_sessions := om_erase agent (co_agent_sessions c)\<rparr> else c)"

subsection \<open>Requests\<close>

text \<open>The outcome reported for a result, and the pass that follows a successful change.\<close>

definition outcome_for :: "ScheduleOutcome \<Rightarrow> MutationResult \<Rightarrow> ScheduleOutcome" where
  "outcome_for oc result = (if result = None then oc else ScheduleOutcome.RejectInvalidRequest)"

definition reply ::
    "u64 \<Rightarrow> MessageType \<Rightarrow> u64 \<Rightarrow> ScheduleOutcome \<Rightarrow> Coordinator \<times> MutationResult \<Rightarrow> Coordinator" where
  "reply sid t correlation oc cr =
     send_result sid t correlation (snd cr) (outcome_for oc (snd cr)) (fst cr)"

definition reply_and_schedule ::
    "(Impl \<Rightarrow> Impl) \<Rightarrow> u64 \<Rightarrow> MessageType \<Rightarrow> u64 \<Rightarrow> Coordinator \<times> MutationResult \<Rightarrow> Coordinator" where
  "reply_and_schedule others sid t correlation cr =
     (let c = reply sid t correlation ScheduleOutcome.NoChange cr
      in if snd cr = None then run_scheduling_pass others c else c)"

definition handle_hello :: "u64 \<Rightarrow> u64 \<Rightarrow> HelloMessage \<Rightarrow> Coordinator \<Rightarrow> Coordinator \<times> string option" where
  "handle_hello sid correlation m c =
     (let accepted = (hm_protocol_version m = protocol_version);
          oc = (if accepted then ScheduleOutcome.NoChange else ScheduleOutcome.RejectInvalidRequest);
          result = \<lparr> rsm_request_type = MessageType.Hello, rsm_ok = accepted,
            rsm_outcome = of_nat (outcome_code oc),
            rsm_error = (if accepted then default_wire_error
              else error_on_wire (make_error ErrorCode.ProtocolError ''hello'' []
                     ''unsupported protocol version'' ScheduleOutcome.RejectInvalidRequest)) \<rparr>;
          (c1, thrown) = answer sid MessageType.HelloResult correlation (encode_result (co_limits c) result) c
      in if thrown \<noteq> None then (c1, thrown)
         else if \<not> accepted then (on_session sid request_close (count_violation c1), None)
         else (c1, None))"

definition handle_register ::
    "(Impl \<Rightarrow> Impl) \<Rightarrow> u64 \<Rightarrow> u64 \<Rightarrow> RegisterAgentMessage \<Rightarrow> Coordinator \<Rightarrow> Coordinator" where
  "handle_register others sid correlation m c =
     (let d = rm_descriptor m; (c1, result) = on_scheduler (register_agent others d) c;
          c2 = (if result = None
                then let c' = on_session sid (bind_agent (ad_id d) (ad_boot d)) c1;
                         c'' = c'\<lparr>co_agent_sessions :=
                                  om_put (ad_id d) (ad_boot d, sid) (co_agent_sessions c')\<rparr>
                     in run_scheduling_pass others
                          (fst (on_scheduler (\<lambda>s. revalidate_assignments (others s)) c''))
                else c1)
      in reply sid MessageType.RegisterResult correlation ScheduleOutcome.NoChange (c2, result))"

definition handle_deregister ::
    "u64 \<Rightarrow> u64 \<Rightarrow> DeregisterAgentMessage \<Rightarrow> Coordinator \<Rightarrow> Coordinator" where
  "handle_deregister sid correlation m c =
     (let (c1, result) = on_scheduler (deregister_agent (dgm_agent m) (dgm_boot m) (dgm_force m)) c;
          c2 = (if result = None then forget_agent_session (dgm_agent m) (dgm_boot m) c1 else c1)
      in reply sid MessageType.DeregisterAgentResult correlation ScheduleOutcome.NoChange (c2, result))"

definition handle_dispatch ::
    "(Impl \<Rightarrow> Impl) \<Rightarrow> u64 \<Rightarrow> u64 \<Rightarrow> DispatchAssignmentMessage \<Rightarrow> Coordinator
       \<Rightarrow> Coordinator \<times> string option" where
  "handle_dispatch others sid correlation m c =
     (let (c1, r) = on_scheduler (dispatch others (dsm_assignment m) (dsm_generation m)) c;
          dispatched = (dr_outcome r = ScheduleOutcome.Assigned);
          result = \<lparr> rsm_request_type = MessageType.DispatchAssignment, rsm_ok = dispatched,
            rsm_outcome = of_nat (outcome_code (dr_outcome r)),
            rsm_error = (if dispatched then default_wire_error
              else error_on_wire (make_error ErrorCode.StaleGeneration ''dispatch_assignment''
                     (hash128_to_string (dsm_assignment m)) (dr_detail r) (dr_outcome r))) \<rparr>
      in answer sid MessageType.DispatchAssignmentResult correlation (encode_result (co_limits c) result) c1)"

definition handle_query ::
    "Build \<Rightarrow> u64 \<Rightarrow> u64 \<Rightarrow> QueryMessage \<Rightarrow> Coordinator \<Rightarrow> Coordinator \<times> string option" where
  "handle_query build sid correlation m c =
     answer sid MessageType.QueryResult correlation
       (encode_query_result (co_limits c)
          \<lparr> qrm_kind = qm_kind m, qrm_json = query_json build m (co_scheduler c) \<rparr>) c"

definition observe_ack :: "AssignmentAckMessage \<Rightarrow> Impl \<Rightarrow> Impl \<times> MutationResult" where
  "observe_ack m =
     (let b = akm_binding m in
      if akm_accepted m
      then acknowledge (bn_id b) (bn_generation b) (bn_dispatch b) (bn_dispatch_generation b) (bn_boot b)
      else reject_assignment (bn_id b) (bn_generation b) (bn_boot b) (akm_reason m))"

definition observe_end ::
    "MessageType \<Rightarrow> AssignmentObservationMessage \<Rightarrow> Impl \<Rightarrow> Impl \<times> MutationResult" where
  "observe_end t m =
     (let b = aom_binding m in
      if t = MessageType.WorkReleased
      then release (bn_id b) (bn_generation b) (bn_boot b) (aom_reason m)
      else if t = MessageType.WorkCompleted
      then complete_assignment (bn_id b) (bn_generation b) (bn_boot b)
      else fail_assignment (bn_id b) (bn_generation b) (bn_boot b) (aom_reason m))"

text \<open>
  The switch of handle_frame. The second component is the exception that leaves the switch,
  which only the answers to Hello, DispatchAssignment and Query can raise here.
\<close>

primrec handle_request ::
    "(Impl \<Rightarrow> Impl) \<Rightarrow> Build \<Rightarrow> u64 \<Rightarrow> u64 \<Rightarrow> Request \<Rightarrow> Coordinator \<Rightarrow> Coordinator \<times> string option" where
  "handle_request others build sid n (HelloRequest m) c = handle_hello sid n m c"
| "handle_request others build sid n (RegisterAgentRequest m) c =
     (handle_register others sid n m c, None)"
| "handle_request others build sid n (PublishCapabilitiesRequest m) c =
     (reply_and_schedule others sid MessageType.PublishCapabilitiesResult n
        (on_scheduler (publish_capabilities (pcm_agent m) (pcm_boot m) (pcm_profile m)) c), None)"
| "handle_request others build sid n (PublishHealthRequest m) c =
     (reply_and_schedule others sid MessageType.PublishHealthResult n
        (on_scheduler (publish_health (phm_agent m) (phm_boot m) (phm_observation m)) c), None)"
| "handle_request others build sid n (PublishAvailabilityRequest m) c =
     (reply_and_schedule others sid MessageType.PublishAvailabilityResult n
        (on_scheduler (publish_availability (pam_agent m) (pam_boot m) (pam_observation m)) c), None)"
| "handle_request others build sid n (PublishLoadRequest m) c =
     (reply_and_schedule others sid MessageType.PublishLoadResult n
        (on_scheduler (publish_load (plm_agent m) (plm_boot m) (plm_observation m)) c), None)"
| "handle_request others build sid n (HeartbeatRequest m) c =
     (reply sid MessageType.HeartbeatResult n ScheduleOutcome.NoChange
        (on_scheduler (heartbeat (hbm_agent m) (hbm_boot m) (hbm_registration_generation m)) c), None)"
| "handle_request others build sid n (SubmitWorkRequest m) c =
     (reply_and_schedule others sid MessageType.SubmitWorkResult n
        (on_scheduler (submit_work others (sm_request m)) c), None)"
| "handle_request others build sid n (CancelWorkRequest m) c =
     (reply sid MessageType.CancelWorkResult n ScheduleOutcome.RejectCancelled
        (on_scheduler (cancel_work others (cm_work m) (cm_generation m) (cm_reason m)) c), None)"
| "handle_request others build sid n (SupersedeWorkRequest m) c =
     (reply_and_schedule others sid MessageType.SupersedeWorkResult n
        (on_scheduler (supersede_work (spm_work m) (spm_expected_generation m) (spm_replacement m)) c), None)"
| "handle_request others build sid n (AssignmentAckRequest m) c =
     (reply_and_schedule others sid MessageType.AssignmentAck n (on_scheduler (observe_ack m) c), None)"
| "handle_request others build sid n (AssignmentRejectRequest m) c =
     (reply_and_schedule others sid MessageType.AssignmentReject n
        (on_scheduler (reject_assignment (bn_id (aom_binding m)) (bn_generation (aom_binding m))
           (bn_boot (aom_binding m)) (aom_reason m)) c), None)"
| "handle_request others build sid n (WorkStartedRequest m) c =
     (reply sid MessageType.WorkStarted n ScheduleOutcome.NoChange
        (on_scheduler (mark_executing (bn_id (aom_binding m)) (bn_generation (aom_binding m))
           (bn_boot (aom_binding m))) c), None)"
| "handle_request others build sid n (WorkReleasedRequest m) c =
     (reply_and_schedule others sid MessageType.WorkReleased n
        (on_scheduler (observe_end MessageType.WorkReleased m) c), None)"
| "handle_request others build sid n (WorkCompletedRequest m) c =
     (reply_and_schedule others sid MessageType.WorkCompleted n
        (on_scheduler (observe_end MessageType.WorkCompleted m) c), None)"
| "handle_request others build sid n (WorkFailedRequest m) c =
     (reply_and_schedule others sid MessageType.WorkFailed n
        (on_scheduler (observe_end MessageType.WorkFailed m) c), None)"
| "handle_request others build sid n (DrainAgentRequest m) c =
     (reply sid MessageType.DrainAgentResult n ScheduleOutcome.RejectDrain
        (on_scheduler (drain_agent (dam_agent m) (dam_boot m) (dam_force m)) c), None)"
| "handle_request others build sid n (DeregisterAgentRequest m) c =
     (handle_deregister sid n m c, None)"
| "handle_request others build sid n (DispatchAssignmentRequest m) c =
     handle_dispatch others sid n m c"
| "handle_request others build sid n (QueryRequest m) c = handle_query build sid n m c"

text \<open>The type of a frame; a number that is no message type has no entry in the switch.\<close>

definition frame_message_type :: "Frame \<Rightarrow> MessageType option" where
  "frame_message_type frame =
     (let v = fh_type (fr_header frame) in
      if is_known_message_type v then Some (message_type_values ! (unat v - 1)) else None)"

definition refuse_frame :: "u64 \<Rightarrow> Frame \<Rightarrow> MessageType \<Rightarrow> string \<Rightarrow> Coordinator \<Rightarrow> Coordinator" where
  "refuse_frame sid frame t what c =
     send_error sid (fh_correlation (fr_header frame)) ErrorCode.DecodeError ''handle_frame''
       (message_type_to_string t) what (count_violation c)"

definition unexpected_frame :: "u64 \<Rightarrow> Frame \<Rightarrow> Coordinator \<Rightarrow> Coordinator" where
  "unexpected_frame sid frame c =
     send_error sid (fh_correlation (fr_header frame)) ErrorCode.ProtocolError ''handle_frame''
       (decimal (unat (fh_type (fr_header frame)))) ''message type is not accepted from this peer''
       (count_violation c)"

definition handle_frame ::
    "(Impl \<Rightarrow> Impl) \<Rightarrow> Build \<Rightarrow> u64 \<Rightarrow> Frame \<Rightarrow> Coordinator \<Rightarrow> Coordinator" where
  "handle_frame others build sid frame c0 =
     (let c = c0\<lparr>co_frames_processed := co_frames_processed c0 + 1\<rparr> in
      case frame_message_type frame of None \<Rightarrow> unexpected_frame sid frame c
      | Some t \<Rightarrow>
          (case decode_request (co_limits c) t (fr_payload frame) of
             Inl e \<Rightarrow> refuse_frame sid frame t e c
           | Inr None \<Rightarrow> unexpected_frame sid frame c
           | Inr (Some r) \<Rightarrow>
               (case handle_request others build sid (fh_correlation (fr_header frame)) r c of
                  (c1, None) \<Rightarrow> c1
                | (c1, Some e) \<Rightarrow> refuse_frame sid frame t e c1)))"

definition on_frame ::
    "(Impl \<Rightarrow> Impl) \<Rightarrow> Build \<Rightarrow> u64 \<Rightarrow> Frame \<Rightarrow> Coordinator \<Rightarrow> Coordinator" where
  "on_frame others build sid frame c =
     (case om_get (co_sessions c) sid of None \<Rightarrow> c
      | Some _ \<Rightarrow> handle_frame others build sid frame c)"

subsection \<open>Connections\<close>

definition session_options_of :: "Coordinator \<Rightarrow> SessionOptions" where
  "session_options_of c =
     \<lparr> so_max_frame_size = max_frame_size (co_limits c), so_max_send_queue = max_send_queue (co_limits c),
       so_max_payload_size = max_payload_size (co_limits c),
       so_protocol_version = ucast protocol_version \<rparr>"

text \<open>What the accept loop does with an accepted socket.\<close>

definition accept_connection :: "Coordinator \<Rightarrow> Coordinator" where
  "accept_connection c =
     (if \<not> co_running c then c
      else if connection_count c \<ge> unat (max_connections (co_limits c)) then count_rejected c
      else let sid = co_next_session_id c in
        c\<lparr>co_next_session_id := sid + 1,
          co_sessions := om_emplace sid (new_session sid (session_options_of c)) (co_sessions c)\<rparr>)"

text \<open>on_closed waits until the reaper has room; the session then waits to be destroyed.\<close>

definition reaper_has_room :: "Coordinator \<Rightarrow> bool" where
  "reaper_has_room c \<longleftrightarrow>
     length (co_reap_queue c) < unat (max_connections (co_limits c)) \<or> co_reap_stopping c"

definition drop_session :: "Session \<Rightarrow> Coordinator \<Rightarrow> Coordinator" where
  "drop_session session c =
     (let c1 = (case om_get (co_sessions c) (ss_id session) of None \<Rightarrow> c
                | Some kept \<Rightarrow> c\<lparr>co_sessions := om_erase (ss_id session) (co_sessions c),
                                 co_reap_queue := co_reap_queue c @ [kept]\<rparr>)
      in case ss_bound_agent session of None \<Rightarrow> c1
         | Some (agent, boot) \<Rightarrow>
             if om_get (co_agent_sessions c1) agent = Some (boot, ss_id session)
             then c1\<lparr>co_agent_sessions := om_erase agent (co_agent_sessions c1)\<rparr> else c1)"

definition on_closed :: "(Impl \<Rightarrow> Impl) \<Rightarrow> Session \<Rightarrow> string \<Rightarrow> Coordinator \<Rightarrow> Coordinator" where
  "on_closed others session reason c =
     (let c1 = drop_session session c in
      case ss_bound_agent session of None \<Rightarrow> c1
      | Some (agent, boot) \<Rightarrow>
          fst (on_scheduler (\<lambda>s. declare_agent_lost others agent boot
                 (if reason = [] then ''session closed'' else reason) (others s)) c1))"

definition reap :: "Coordinator \<Rightarrow> Coordinator" where
  "reap c = c\<lparr>co_reap_queue := []\<rparr>"

subsection \<open>Start and stop\<close>

text \<open>
  What start finds: the result of initialize_network, the contents of the persistence file if
  it exists, the result of listening and the bound port.
\<close>

record StartEnvironment =
  en_network :: MutationResult
  en_file :: "(SchedulerError + u8 list) option"
  en_listen :: MutationResult
  en_port :: u16

definition load_at_start :: "StartEnvironment \<Rightarrow> Coordinator \<Rightarrow> Impl \<times> MutationResult" where
  "load_at_start env c =
     (if cp_load_on_start (co_options c) \<and> cp_persistence_path (co_options c) \<noteq> []
      then case en_file env of None \<Rightarrow> (co_scheduler c, None)
        | Some contents \<Rightarrow>
            (let (s, r) = load_state \<lparr> ld_require_semantic_digest = True, ld_inspect_only = False \<rparr>
                            (cp_persistence_path (co_options c)) contents (co_scheduler c)
             in (s, rv_error r))
      else (co_scheduler c, None))"

definition coordinator_start :: "StartEnvironment \<Rightarrow> Coordinator \<Rightarrow> Coordinator \<times> MutationResult" where
  "coordinator_start env c =
     (if co_running c then (c, None)
      else case en_network env of Some e \<Rightarrow> (c, Some e)
      | None \<Rightarrow>
          (case load_at_start env c of
             (s1, Some e) \<Rightarrow> (c\<lparr>co_scheduler := s1\<rparr>, Some e)
           | (s1, None) \<Rightarrow>
               (case start s1 of
                  (s2, Some e) \<Rightarrow> (c\<lparr>co_scheduler := s2\<rparr>, Some e)
                | (s2, None) \<Rightarrow>
                    (case en_listen env of Some e \<Rightarrow> (c\<lparr>co_scheduler := s2\<rparr>, Some e)
                     | None \<Rightarrow> (c\<lparr>co_scheduler := s2, co_port := en_port env, co_running := True,
                                 co_notifier := True\<rparr>, None)))))"

definition notify_session :: "bool \<Rightarrow> Session \<Rightarrow> Session" where
  "notify_session notice s =
     request_close (if notice then fst (enqueue (make_frame MessageType.ShutdownNotice 0) s) else s)"

definition notify_sessions :: "Coordinator \<Rightarrow> Coordinator" where
  "notify_sessions c = c\<lparr>co_sessions :=
     om_map (notify_session (cp_notify_sessions_on_stop (co_options c))) (co_sessions c)\<rparr>"

text \<open>Shutting the scheduler down calls the notifier, unless it was shutting down already.\<close>

definition shutdown_scheduler :: "Coordinator \<Rightarrow> Coordinator" where
  "shutdown_scheduler c =
     (let notified = co_notifier c \<and> \<not> im_shutting_down (co_scheduler c);
          c1 = fst (on_scheduler shutdown c)
      in if notified then notify_sessions c1 else c1)"

text \<open>
  The first part of stop returns the sessions it removed from the map and closed. Their
  readers then report on_closed, stop joins them, and the second part saves the state.
\<close>

definition stop_sessions :: "Coordinator \<Rightarrow> Coordinator \<times> Session list" where
  "stop_sessions c =
     (let c1 = shutdown_scheduler (c\<lparr>co_running := False\<rparr>);
          removed = map (\<lambda>e. request_close (snd e)) (co_sessions c1)
      in (c1\<lparr>co_sessions := [], co_agent_sessions := []\<rparr>, removed))"

definition finish_stop ::
    "(u8 list \<Rightarrow> PersistOptions \<Rightarrow> MutationResult) \<Rightarrow> Coordinator \<Rightarrow> Coordinator \<times> MutationResult coded" where
  "finish_stop write_atomically c =
     (c\<lparr>co_reap_stopping := True\<rparr>,
      if cp_persist_on_stop (co_options c) \<and> cp_persistence_path (co_options c) \<noteq> []
      then save write_atomically \<lparr> ps_fsync = True, ps_verify_after_write = True, ps_max_bytes = 0 \<rparr>
             (cp_persistence_path (co_options c)) (co_scheduler c)
      else Inr None)"

definition coordinator_stop ::
    "(Coordinator \<Rightarrow> Session list \<Rightarrow> Coordinator) \<Rightarrow> (u8 list \<Rightarrow> PersistOptions \<Rightarrow> MutationResult)
       \<Rightarrow> Coordinator \<Rightarrow> Coordinator \<times> MutationResult coded" where
  "coordinator_stop readers write_atomically c =
     (if \<not> co_running c then (c, Inr None)
      else let (c1, removed) = stop_sessions c in finish_stop write_atomically (readers c1 removed))"

end
