(* ===== verification/Control_Client.thy ===== *)
theory Control_Client
  imports Delivery Wire_Requests Queries Coordinator
begin

section \<open>The control client (net/control_client.cpp)\<close>

text \<open>
  A blocking client: every call writes one frame and reads frames until one carries its
  correlation. The socket is the environment: what each read returns, an exception included,
  and whether the write throws are arguments. An exhausted list of reads is a connection that
  was closed. Error codes of replies are kept as the numbers on the wire, as in the code, which
  casts them without a check. An exception that leaves the client is the outer Inl.
\<close>

subsection \<open>State\<close>

record ControlClientOptions =
  kc_host :: string
  kc_port :: u16
  kc_limits :: ResourceLimits
  kc_protocol_version :: u16

record ControlClient =
  cc_options :: ControlClientOptions
  cc_valid :: bool
  cc_decoder :: FrameStreamDecoder
  cc_next_correlation :: u64
  cc_frames_received :: u64

definition new_control_client :: "ControlClientOptions \<Rightarrow> ControlClient" where
  "new_control_client options =
     \<lparr> cc_options = options, cc_valid = False,
       cc_decoder = new_decoder (max_frame_size (kc_limits options)) (kc_protocol_version options),
       cc_next_correlation = 1, cc_frames_received = 0 \<rparr>"

abbreviation cc_limits :: "ControlClient \<Rightarrow> ResourceLimits" where
  "cc_limits cc \<equiv> kc_limits (cc_options cc)"

text \<open>What reads return and whether the write throws; what was written.\<close>

type_synonym Reads = "u8 list coded list"

record Connection =
  cx_reads :: Reads
  cx_write_error :: "string option"
  cx_written :: "u8 list list"

definition client_failure :: "ErrorCode \<Rightarrow> string \<Rightarrow> string \<Rightarrow> WireError option" where
  "client_failure code subject detail =
     Some (error_on_wire (make_error code ''control_client'' subject detail ScheduleOutcome.NoChange))"

subsection \<open>Reading a frame\<close>

fun read_frame ::
    "Reads \<Rightarrow> ControlClient \<Rightarrow> Reads \<times> ControlClient \<times> Frame option coded" where
  "read_frame reads cc =
     (case decoder_next (cc_decoder cc) of
        (d, _, Some frame) \<Rightarrow>
          (reads, cc\<lparr>cc_decoder := d, cc_frames_received := cc_frames_received cc + 1\<rparr>, Inr (Some frame))
      | (d, status, None) \<Rightarrow>
          if status \<noteq> FrameCodecStatus.NeedMoreData then (reads, cc\<lparr>cc_decoder := d\<rparr>, Inr None)
          else (case reads of
              [] \<Rightarrow> ([], cc\<lparr>cc_decoder := d\<rparr>, Inr None)
            | Inl e # rest \<Rightarrow> (rest, cc\<lparr>cc_decoder := d\<rparr>, Inl e)
            | Inr data # rest \<Rightarrow>
                if data = [] then (rest, cc\<lparr>cc_decoder := d\<rparr>, Inr None)
                else read_frame rest (cc\<lparr>cc_decoder := decoder_append data d\<rparr>)))"

declare read_frame.simps [simp del]

text \<open>The bytes that are not decoded yet.\<close>

primrec read_length :: "u8 list coded \<Rightarrow> nat" where
  "read_length (Inl _) = 0"
| "read_length (Inr data) = length data"

definition unread :: "Reads \<Rightarrow> ControlClient \<Rightarrow> nat" where
  "unread reads cc = length (fd_buffer (cc_decoder cc)) - fd_consumed (cc_decoder cc)
     + sum_list (map read_length reads)"

lemma decoder_append_unread:
  "length (fd_buffer (decoder_append data d)) - fd_consumed (decoder_append data d)
     \<le> length (fd_buffer d) - fd_consumed d + length data"
  by (auto simp: decoder_append_def Let_def)

lemma decoder_next_keeps:
  "decoder_next d = (d', status, None) \<Longrightarrow>
   length (fd_buffer d') - fd_consumed d' \<le> length (fd_buffer d) - fd_consumed d"
  by (auto simp: decoder_next_def Let_def decoder_reset_def split: if_splits option.splits)

lemma read_frame_progress:
  "read_frame reads cc = (reads', cc', Inr (Some frame)) \<Longrightarrow> unread reads' cc' < unread reads cc"
proof (induction reads cc rule: read_frame.induct)
  case (1 reads cc)
  obtain d status r where step: "decoder_next (cc_decoder cc) = (d, status, r)" by (rule prod_cases3)
  show ?case
  proof (cases r)
    case (Some f)
    then show ?thesis
      using "1.prems" step decoder_next_progress by (auto simp: read_frame.simps [of reads] unread_def)
  next
    case None
    then obtain data rest where r: "reads = Inr data # rest" "status = FrameCodecStatus.NeedMoreData"
      "data \<noteq> []" "read_frame rest (cc\<lparr>cc_decoder := decoder_append data d\<rparr>) = (reads', cc', Inr (Some frame))"
      using "1.prems" step by (subst (asm) read_frame.simps) (auto split: if_splits list.splits sum.splits)
    then have "unread reads' cc' < unread rest (cc\<lparr>cc_decoder := decoder_append data d\<rparr>)"
      using "1.IH" [OF step [symmetric] refl None _ r(1) refl r(3,4)] by simp
    also have "\<dots> \<le> unread reads cc"
      using decoder_append_unread [of data d] decoder_next_keeps [of "cc_decoder cc" d status] step None
      by (simp add: unread_def r(1))
    finally show ?thesis .
  qed
qed

subsection \<open>Waiting for the reply\<close>

text \<open>
  The loop that skips frames of other correlations; \<open>interpret_reply\<close> is what is done with the reply.
\<close>

function await_reply ::
    "u64 \<Rightarrow> (Frame \<Rightarrow> 'r) \<Rightarrow> 'r \<Rightarrow> Reads \<Rightarrow> ControlClient
       \<Rightarrow> Reads \<times> ControlClient \<times> 'r coded" where
  "await_reply correlation interpret_reply lost reads cc =
     (case read_frame reads cc of
        (reads', cc', Inl e) \<Rightarrow> (reads', cc', Inl e)
      | (reads', cc', Inr None) \<Rightarrow> (reads', cc', Inr lost)
      | (reads', cc', Inr (Some frame)) \<Rightarrow>
          if fh_correlation (fr_header frame) \<noteq> correlation
          then await_reply correlation interpret_reply lost reads' cc'
          else (reads', cc', Inr (interpret_reply frame)))"
  by pat_completeness auto
termination
  by (relation "measure (\<lambda>(_, _, _, reads, cc). unread reads cc)")
    (auto dest!: read_frame_progress [OF sym])

declare await_reply.simps [simp del]

subsection \<open>Replies\<close>

text \<open>An error reply; bytes after the message are not looked at.\<close>

definition error_reply :: "ResourceLimits \<Rightarrow> string \<Rightarrow> Frame \<Rightarrow> WireError option" where
  "error_reply l subject frame =
     (case decode_error_message l (fr_payload frame) of
        Inl e \<Rightarrow> client_failure ErrorCode.DecodeError subject e
      | Inr (m, _) \<Rightarrow> Some (default_wire_error\<lparr>we_code := em_code m,
          we_outcome := of_nat (outcome_code ScheduleOutcome.RejectInvalidRequest),
          we_operation := em_operation m, we_subject := em_subject m, we_detail := em_detail m\<rparr>))"

definition reply_type_name :: "MessageType option \<Rightarrow> string" where
  "reply_type_name t = (case t of Some t \<Rightarrow> message_type_to_string t | None \<Rightarrow> ''UNKNOWN'')"

definition result_reply ::
    "ResourceLimits \<Rightarrow> MessageType \<Rightarrow> MessageType \<Rightarrow> Frame \<Rightarrow> WireError option" where
  "result_reply l t expected frame =
     (let subject = message_type_to_string t; reply_type = frame_message_type frame in
      if reply_type = Some MessageType.Error then error_reply l subject frame
      else if reply_type \<noteq> Some expected
      then client_failure ErrorCode.ProtocolError subject
             (''unexpected reply type '' @ reply_type_name reply_type)
      else case decode_payload (decode_result l) (fr_payload frame) of
             Inl e \<Rightarrow> client_failure ErrorCode.DecodeError subject e
           | Inr m \<Rightarrow> if rsm_ok m then None else Some (rsm_error m))"

definition query_reply :: "ResourceLimits \<Rightarrow> Frame \<Rightarrow> WireError option \<times> string option" where
  "query_reply l frame =
     (if frame_message_type frame = Some MessageType.Error then (error_reply l ''query'' frame, None)
      else case decode_payload (decode_query_result l) (fr_payload frame) of
             Inl e \<Rightarrow> (client_failure ErrorCode.DecodeError ''query'' e, None)
           | Inr m \<Rightarrow> (None, Some (qrm_json m)))"

subsection \<open>Calls\<close>

definition client_frame :: "MessageType \<Rightarrow> u8 list \<Rightarrow> ControlClient \<Rightarrow> Frame" where
  "client_frame t payload cc =
     (let frame = make_frame t (cc_next_correlation cc)
      in frame\<lparr>fr_header := (fr_header frame)\<lparr>fh_version := kc_protocol_version (cc_options cc)\<rparr>,
               fr_payload := payload\<rparr>)"

text \<open>
  What send_raw and query share: the check that the client is connected, the frame with the
  next correlation, the write, and the wait. \<open>fail\<close> makes a result of an error.
\<close>

definition exchange ::
    "MessageType \<Rightarrow> u8 list \<Rightarrow> string \<Rightarrow> (WireError option \<Rightarrow> 'r) \<Rightarrow> (Frame \<Rightarrow> 'r)
       \<Rightarrow> Connection \<Rightarrow> ControlClient \<Rightarrow> Connection \<times> ControlClient \<times> 'r coded" where
  "exchange t payload subject fail interpret_reply cx cc =
     (if \<not> cc_valid cc
      then (cx, cc, Inr (fail (client_failure ErrorCode.NotStarted subject ''not connected'')))
      else let correlation = cc_next_correlation cc;
               cc1 = cc\<lparr>cc_next_correlation := correlation + 1\<rparr>
      in case encode_frame (client_frame t payload cc) (max_frame_size (cc_limits cc)) of
           Inl e \<Rightarrow> (cx, cc1, Inr (fail (client_failure ErrorCode.Internal subject e)))
         | Inr bytes \<Rightarrow>
             (case cx_write_error cx of
                Some e \<Rightarrow> (cx, cc1, Inr (fail (client_failure ErrorCode.Internal subject e)))
              | None \<Rightarrow>
                  let (reads, cc2, r) = await_reply correlation interpret_reply
                        (fail (client_failure ErrorCode.Internal subject
                                 ''connection closed before a reply arrived''))
                        (cx_reads cx) cc1
                  in (cx\<lparr>cx_reads := reads, cx_written := cx_written cx @ [bytes]\<rparr>, cc2, r)))"

definition send_raw ::
    "MessageType \<Rightarrow> u8 list \<Rightarrow> MessageType \<Rightarrow> Connection \<Rightarrow> ControlClient
       \<Rightarrow> Connection \<times> ControlClient \<times> WireError option coded" where
  "send_raw t payload expected cx cc =
     exchange t payload (message_type_to_string t) (\<lambda>e. e) (result_reply (cc_limits cc) t expected) cx cc"

text \<open>The message is encoded first; a string over its limit throws.\<close>

definition send_message ::
    "MessageType \<Rightarrow> (ResourceLimits \<Rightarrow> writer) \<Rightarrow> MessageType \<Rightarrow> Connection \<Rightarrow> ControlClient
       \<Rightarrow> Connection \<times> ControlClient \<times> WireError option coded" where
  "send_message t put expected cx cc =
     (case put (cc_limits cc) [] of Inl e \<Rightarrow> (cx, cc, Inl e)
      | Inr payload \<Rightarrow> send_raw t payload expected cx cc)"

text \<open>The requests, with the type of the reply each of them waits for.\<close>

primrec expected_reply :: "Request \<Rightarrow> MessageType" where
  "expected_reply (HelloRequest m) = MessageType.HelloResult"
| "expected_reply (RegisterAgentRequest m) = MessageType.RegisterResult"
| "expected_reply (PublishCapabilitiesRequest m) = MessageType.PublishCapabilitiesResult"
| "expected_reply (PublishHealthRequest m) = MessageType.PublishHealthResult"
| "expected_reply (PublishAvailabilityRequest m) = MessageType.PublishAvailabilityResult"
| "expected_reply (PublishLoadRequest m) = MessageType.PublishLoadResult"
| "expected_reply (HeartbeatRequest m) = MessageType.HeartbeatResult"
| "expected_reply (SubmitWorkRequest m) = MessageType.SubmitWorkResult"
| "expected_reply (CancelWorkRequest m) = MessageType.CancelWorkResult"
| "expected_reply (SupersedeWorkRequest m) = MessageType.SupersedeWorkResult"
| "expected_reply (AssignmentAckRequest m) = MessageType.AssignmentAck"
| "expected_reply (AssignmentRejectRequest m) = MessageType.AssignmentReject"
| "expected_reply (WorkStartedRequest m) = MessageType.WorkStarted"
| "expected_reply (WorkReleasedRequest m) = MessageType.WorkReleased"
| "expected_reply (WorkCompletedRequest m) = MessageType.WorkCompleted"
| "expected_reply (WorkFailedRequest m) = MessageType.WorkFailed"
| "expected_reply (DrainAgentRequest m) = MessageType.DrainAgentResult"
| "expected_reply (DeregisterAgentRequest m) = MessageType.DeregisterAgentResult"
| "expected_reply (DispatchAssignmentRequest m) = MessageType.DispatchAssignmentResult"
| "expected_reply (QueryRequest m) = MessageType.QueryResult"

definition send_request ::
    "Request \<Rightarrow> Connection \<Rightarrow> ControlClient \<Rightarrow> Connection \<times> ControlClient \<times> WireError option coded" where
  "send_request r = send_message (request_type r) (\<lambda>l. encode_request l r) (expected_reply r)"

definition client_hello ::
    "Build \<Rightarrow> u64 \<Rightarrow> Connection \<Rightarrow> ControlClient \<Rightarrow> Connection \<times> ControlClient \<times> WireError option coded" where
  "client_hello build nonce = send_request (HelloRequest \<lparr> hm_protocol_version = protocol_version,
     hm_role = ''control'', hm_build = build_info build, hm_nonce = nonce \<rparr>)"

definition client_register_agent ::
    "AgentDescriptor \<Rightarrow> Connection \<Rightarrow> ControlClient \<Rightarrow> Connection \<times> ControlClient \<times> WireError option coded" where
  "client_register_agent d = send_request (RegisterAgentRequest \<lparr> rm_descriptor = d \<rparr>)"

definition client_publish_capabilities ::
    "u64 \<Rightarrow> Hash128 \<Rightarrow> CapabilityProfile \<Rightarrow> Connection \<Rightarrow> ControlClient \<Rightarrow> Connection \<times> ControlClient \<times> WireError option coded" where
  "client_publish_capabilities agent boot profile = send_request (PublishCapabilitiesRequest
     \<lparr> pcm_agent = agent, pcm_boot = boot, pcm_profile = profile \<rparr>)"

definition client_publish_health ::
    "u64 \<Rightarrow> Hash128 \<Rightarrow> HealthObservation \<Rightarrow> Connection \<Rightarrow> ControlClient \<Rightarrow> Connection \<times> ControlClient \<times> WireError option coded" where
  "client_publish_health agent boot h = send_request (PublishHealthRequest
     \<lparr> phm_agent = agent, phm_boot = boot, phm_observation = h \<rparr>)"

definition client_publish_availability ::
    "u64 \<Rightarrow> Hash128 \<Rightarrow> AvailabilityObservation \<Rightarrow> Connection \<Rightarrow> ControlClient \<Rightarrow> Connection \<times> ControlClient \<times> WireError option coded" where
  "client_publish_availability agent boot v = send_request (PublishAvailabilityRequest
     \<lparr> pam_agent = agent, pam_boot = boot, pam_observation = v \<rparr>)"

definition client_publish_load ::
    "u64 \<Rightarrow> Hash128 \<Rightarrow> LoadObservation \<Rightarrow> Connection \<Rightarrow> ControlClient \<Rightarrow> Connection \<times> ControlClient \<times> WireError option coded" where
  "client_publish_load agent boot v = send_request (PublishLoadRequest
     \<lparr> plm_agent = agent, plm_boot = boot, plm_observation = v \<rparr>)"

definition client_submit_work ::
    "WorkRequest \<Rightarrow> Connection \<Rightarrow> ControlClient \<Rightarrow> Connection \<times> ControlClient \<times> WireError option coded" where
  "client_submit_work rq = send_request (SubmitWorkRequest \<lparr> sm_request = rq \<rparr>)"

definition client_cancel_work ::
    "u64 \<Rightarrow> u64 \<Rightarrow> string \<Rightarrow> Connection \<Rightarrow> ControlClient \<Rightarrow> Connection \<times> ControlClient \<times> WireError option coded" where
  "client_cancel_work w g reason = send_request (CancelWorkRequest
     \<lparr> cm_work = w, cm_generation = g, cm_reason = reason \<rparr>)"

definition client_supersede_work ::
    "u64 \<Rightarrow> u64 \<Rightarrow> WorkRequest \<Rightarrow> Connection \<Rightarrow> ControlClient \<Rightarrow> Connection \<times> ControlClient \<times> WireError option coded" where
  "client_supersede_work w g rq = send_request (SupersedeWorkRequest
     \<lparr> spm_work = w, spm_expected_generation = g, spm_replacement = rq \<rparr>)"

definition client_drain_agent ::
    "u64 \<Rightarrow> Hash128 \<Rightarrow> bool \<Rightarrow> Connection \<Rightarrow> ControlClient \<Rightarrow> Connection \<times> ControlClient \<times> WireError option coded" where
  "client_drain_agent agent boot force = send_request (DrainAgentRequest
     \<lparr> dam_agent = agent, dam_boot = boot, dam_force = force \<rparr>)"

definition client_deregister_agent ::
    "u64 \<Rightarrow> Hash128 \<Rightarrow> bool \<Rightarrow> Connection \<Rightarrow> ControlClient \<Rightarrow> Connection \<times> ControlClient \<times> WireError option coded" where
  "client_deregister_agent agent boot force = send_request (DeregisterAgentRequest
     \<lparr> dgm_agent = agent, dgm_boot = boot, dgm_force = force \<rparr>)"

definition client_assignment_ack ::
    "AssignmentBinding \<Rightarrow> bool \<Rightarrow> string \<Rightarrow> Connection \<Rightarrow> ControlClient \<Rightarrow> Connection \<times> ControlClient \<times> WireError option coded" where
  "client_assignment_ack b accepted reason = send_request (AssignmentAckRequest
     \<lparr> akm_binding = b, akm_accepted = accepted, akm_reason = reason \<rparr>)"

text \<open>An observation names its type, which is also the type of the reply.\<close>

definition client_observation ::
    "MessageType \<Rightarrow> AssignmentBinding \<Rightarrow> string \<Rightarrow> Connection \<Rightarrow> ControlClient
       \<Rightarrow> Connection \<times> ControlClient \<times> WireError option coded" where
  "client_observation t b reason =
     send_message t (\<lambda>l. encode_observation l \<lparr> aom_binding = b, aom_reason = reason \<rparr>) t"

text \<open>The outcome is the caller's variable: a call that throws leaves it.\<close>

definition client_dispatch_assignment ::
    "Hash128 \<Rightarrow> u64 \<Rightarrow> u32 \<Rightarrow> Connection \<Rightarrow> ControlClient
       \<Rightarrow> Connection \<times> ControlClient \<times> (WireError option \<times> u32) coded" where
  "client_dispatch_assignment k g oc cx cc =
     (case send_request (DispatchAssignmentRequest \<lparr> dsm_assignment = k, dsm_generation = g \<rparr>) cx cc of
        (cx', cc', Inl e) \<Rightarrow> (cx', cc', Inl e)
      | (cx', cc', Inr None) \<Rightarrow> (cx', cc', Inr (None, of_nat (outcome_code ScheduleOutcome.Assigned)))
      | (cx', cc', Inr (Some e)) \<Rightarrow> (cx', cc', Inr (Some e, we_outcome e)))"

text \<open>query checks the connection and takes the correlation before it encodes the message.\<close>

definition client_query ::
    "QueryMessage \<Rightarrow> Connection \<Rightarrow> ControlClient
       \<Rightarrow> Connection \<times> ControlClient \<times> (WireError option \<times> string option) coded" where
  "client_query m cx cc =
     (if \<not> cc_valid cc
      then (cx, cc, Inr (client_failure ErrorCode.NotStarted ''query'' ''not connected'', None))
      else case encode_query (cc_limits cc) m [] of
        Inl e \<Rightarrow> (cx, cc\<lparr>cc_next_correlation := cc_next_correlation cc + 1\<rparr>, Inl e)
      | Inr payload \<Rightarrow>
          exchange MessageType.Query payload ''query'' (\<lambda>e. (e, None)) (query_reply (cc_limits cc)) cx cc)"

definition client_query_kind ::
    "QueryKind \<Rightarrow> Connection \<Rightarrow> ControlClient
       \<Rightarrow> Connection \<times> ControlClient \<times> (WireError option \<times> string option) coded" where
  "client_query_kind kind = client_query \<lparr> qm_kind = kind, qm_agent = 0, qm_boot = hash128_zero,
     qm_work = 0, qm_assignment = hash128_zero \<rparr>"

text \<open>
  connect: the network must initialise and the peer accept (both may fail with an error of
  their own); the decoder starts empty and the client says hello.
\<close>

definition client_connect ::
    "MutationResult \<Rightarrow> Build \<Rightarrow> u64 \<Rightarrow> Connection \<Rightarrow> ControlClient
       \<Rightarrow> Connection \<times> ControlClient \<times> WireError option coded" where
  "client_connect network build nonce cx cc =
     (if cc_valid cc then (cx, cc, Inr None)
      else case network of Some e \<Rightarrow> (cx, cc, Inr (Some (error_on_wire e)))
      | None \<Rightarrow> client_hello build nonce cx
                  (cc\<lparr>cc_valid := True, cc_decoder := decoder_reset (cc_decoder cc)\<rparr>))"

definition client_close :: "ControlClient \<Rightarrow> ControlClient" where
  "client_close cc = cc\<lparr>cc_valid := False\<rparr>"

subsection \<open>The reply does not depend on how the stream is cut\<close>

text \<open>The specification: the first frame of the stream that carries the correlation.\<close>

definition first_reply ::
    "u64 \<Rightarrow> (Frame \<Rightarrow> 'r) \<Rightarrow> 'r \<Rightarrow> Frame list \<Rightarrow> 'r" where
  "first_reply correlation interpret_reply lost frames =
     (case List.find (\<lambda>f. fh_correlation (fr_header f) = correlation) frames of
        Some f \<Rightarrow> interpret_reply f | None \<Rightarrow> lost)"

definition client_wf :: "ControlClient \<Rightarrow> bool" where
  "client_wf cc \<longleftrightarrow> decoder_wf (cc_decoder cc)
     \<and> fd_max_frame_size (cc_decoder cc) = max_frame_size (cc_limits cc)
     \<and> fd_expected_version (cc_decoder cc) = kc_protocol_version (cc_options cc)"

abbreviation client_parser :: "ControlClient \<Rightarrow> u8 list \<Rightarrow> (Frame \<times> u8 list) option" where
  "client_parser cc \<equiv> frame_parser (max_frame_size (cc_limits cc)) (kc_protocol_version (cc_options cc))"

lemma client_wf_new [simp]: "client_wf (new_control_client options)"
  by (simp add: client_wf_def new_control_client_def)

lemma client_wf_append:
  "client_wf cc \<Longrightarrow> client_wf (cc\<lparr>cc_decoder := decoder_append data (cc_decoder cc)\<rparr>)"
  by (simp add: client_wf_def)

lemma client_next:
  assumes "client_wf cc"
  shows "decoder_next (cc_decoder cc) =
    (case parse_frame (max_frame_size (cc_limits cc)) (kc_protocol_version (cc_options cc))
            (pending (cc_decoder cc)) of
       Incomplete \<Rightarrow> (cc_decoder cc, FrameCodecStatus.NeedMoreData, None)
     | Violation status \<Rightarrow> (decoder_reset (cc_decoder cc), status, None)
     | Parsed f rest \<Rightarrow>
         ((cc_decoder cc)\<lparr>fd_consumed := length (fd_buffer (cc_decoder cc)) - length rest\<rparr>,
          FrameCodecStatus.Ok, Some f))"
  using assms decoder_next_parse [of "cc_decoder cc"] by (simp add: client_wf_def)

lemma violation_status: "parse_frame m v bs = Violation status \<Longrightarrow> status \<noteq> FrameCodecStatus.NeedMoreData"
  by (auto simp: parse_frame_def header_violation_def Let_def split: if_splits option.splits)

lemma read_frame_spec:
  assumes "client_wf cc" and "[] \<notin> set chunks"
  shows "case client_parser cc (pending (cc_decoder cc) @ concat chunks) of
      None \<Rightarrow> \<exists>reads' cc'. read_frame (map Inr chunks) cc = (reads', cc', Inr None)
    | Some (f, rest) \<Rightarrow> \<exists>left cc'. [] \<notin> set left
        \<and> read_frame (map Inr chunks) cc = (map Inr left, cc', Inr (Some f))
        \<and> client_wf cc' \<and> cc_options cc' = cc_options cc \<and> pending (cc_decoder cc') @ concat left = rest"
  using assms
proof (induction chunks arbitrary: cc)
  case Nil
  let ?d = "cc_decoder cc"
  show ?case
  proof (cases "parse_frame (max_frame_size (cc_limits cc)) (kc_protocol_version (cc_options cc)) (pending ?d)")
    case (Parsed f rest)
    then have "pending ?d = frame_bytes f @ rest" using parse_frame_Parsed by blast
    then show ?thesis
      using Nil Parsed pending_after_frame [of ?d "frame_bytes f" rest]
      by (auto simp: read_frame.simps client_next frame_parser_def client_wf_def)
  qed (use Nil in \<open>simp_all add: read_frame.simps client_next frame_parser_def\<close>)
next
  case (Cons x xs)
  let ?d = "cc_decoder cc" and ?m = "max_frame_size (cc_limits cc)" and ?v = "kc_protocol_version (cc_options cc)"
  show ?case
  proof (cases "parse_frame ?m ?v (pending ?d)")
    case (Parsed f rest)
    then have bytes: "pending ?d = frame_bytes f @ rest" using parse_frame_Parsed by blast
    have "frame_parser ?m ?v (pending ?d) = Some (f, rest)" by (simp add: frame_parser_def Parsed)
    then have "frame_parser ?m ?v (pending ?d @ concat (x # xs)) = Some (f, rest @ concat (x # xs))"
      by (rule frame_stream.extends)
    then show ?thesis
      using Cons.prems Parsed pending_after_frame [of ?d "frame_bytes f" rest] bytes
      by (auto simp: read_frame.simps client_next client_wf_def intro!: exI [of _ "x # xs"])
  next
    case (Violation status)
    then have "frame_parser ?m ?v (pending ?d @ concat (x # xs)) = None"
      by (simp add: frame_parser_def parse_violation_append)
    then show ?thesis
      using Cons.prems Violation violation_status [OF Violation]
      by (simp add: read_frame.simps client_next)
  next
    case Incomplete
    let ?c = "cc\<lparr>cc_decoder := decoder_append x ?d\<rparr>"
    have "read_frame (map Inr (x # xs)) cc = read_frame (map Inr xs) ?c"
      using Cons.prems Incomplete by (subst read_frame.simps) (auto simp: client_next)
    moreover have "pending (cc_decoder ?c) = pending ?d @ x"
      using Cons.prems(1) by (simp add: client_wf_def)
    ultimately show ?thesis
      using Cons.IH [of ?c] Cons.prems client_wf_append [OF Cons.prems(1), of x]
      by (auto split: option.splits)
  qed
qed

lemma await_reply_spec:
  assumes "client_wf cc" and "[] \<notin> set chunks"
  shows "\<exists>reads' cc'. await_reply correlation interpret_reply lost (map Inr chunks) cc
    = (reads', cc', Inr (first_reply correlation interpret_reply lost
         (fst (drain_all (client_parser cc) (pending (cc_decoder cc) @ concat chunks)))))"
  using assms
proof (induction "unread (map Inr chunks) cc" arbitrary: chunks cc rule: less_induct)
  case less
  let ?bytes = "pending (cc_decoder cc) @ concat chunks"
  note spec = read_frame_spec [OF less.prems]
  show ?case
  proof (cases "client_parser cc ?bytes")
    case None
    then show ?thesis using spec
      by (auto simp: await_reply.simps frame_stream.drain_all_step [of _ _ ?bytes] first_reply_def)
  next
    case (Some r)
    obtain f rest where r: "client_parser cc ?bytes = Some (f, rest)" using Some by (cases r) auto
    then obtain left cc' where read: "[] \<notin> set left" "client_wf cc'" "cc_options cc' = cc_options cc"
      "read_frame (map Inr chunks) cc = (map Inr left, cc', Inr (Some f))"
      "pending (cc_decoder cc') @ concat left = rest"
      using spec by auto
    have frames: "fst (drain_all (client_parser cc) ?bytes) = f # fst (drain_all (client_parser cc') rest)"
      using read(3) by (simp add: frame_stream.drain_all_step [of _ _ ?bytes] r case_prod_beta)
    have "\<exists>reads'' cc''. await_reply correlation interpret_reply lost (map Inr left) cc'
        = (reads'', cc'', Inr (first_reply correlation interpret_reply lost
             (fst (drain_all (client_parser cc') rest))))"
      using less.hyps [OF read_frame_progress [OF read(4)] read(2,1)] read(5) by simp
    then show ?thesis
      unfolding frames by (subst await_reply.simps) (auto simp: read(4) first_reply_def)
  qed
qed

end
