(* ===== verification/Coordinator_Facts.thy ===== *)
theory Coordinator_Facts
  imports Coordinator Interleaving
begin

section \<open>The coordinator drives the scheduler\<close>

text \<open>
  Whatever the coordinator does, its scheduler only goes through critical sections, so every
  invariant of the scheduler holds in it. \<open>polite others\<close> says the same of the other
  threads. The second part follows the frames that a scheduling pass queues.
\<close>

subsection \<open>Runs of critical sections\<close>

abbreviation sections :: "Impl \<Rightarrow> Impl \<Rightarrow> bool" where
  "sections \<equiv> critical_section\<^sup>*\<^sup>*"

definition polite :: "(Impl \<Rightarrow> Impl) \<Rightarrow> bool" where
  "polite others \<longleftrightarrow> (\<forall>s. sections s (others s))"

lemma sections_safe:
  assumes "sections s t" and "core_inv s"
  shows "core_inv t \<and> evolves s t"
  using assms
proof (induction rule: rtranclp_induct)
  case (step t u)
  then have "safe_step t u" using critical_section_step by blast
  then show ?case using step evolves_trans by (auto simp: safe_step_def)
qed simp

lemma sections_one: "critical_section s t \<Longrightarrow> sections s t"
  by (rule r_into_rtranclp)

lemma sections_limits: "sections s t \<Longrightarrow> core_inv s \<Longrightarrow> im_limits t = im_limits s"
  using sections_safe by (simp add: evolves_def policy_le_def)

lemma sections_leads:
  "sections s t \<Longrightarrow> leads_to \<lparr>sys_impl = s, sys_pending = ps\<rparr> \<lparr>sys_impl = t, sys_pending = ps\<rparr>"
  by (induction rule: rtranclp_induct) (auto intro: rtranclp.rtrancl_into_rtrancl step_section)

lemma politeD: "polite others \<Longrightarrow> sections s (others s)"
  by (simp add: polite_def)

text \<open>Operations with an interlock: two sections with those of the other threads in between.\<close>

lemma sections_register:
  assumes "polite others" and "core_inv s"
  shows "sections s (fst (register_agent others d s))"
proof -
  have "sections s (fst (register_commit d (others s)))" if "validate_descriptor d (im_limits s) = None"
  proof -
    have "critical_section (others s) (fst (register_commit d (others s)))"
      using that sections_limits [OF politeD [OF assms(1)] assms(2)] by (intro sec_register_agent) simp
    then show ?thesis using politeD [OF assms(1), of s] by (rule rtranclp.rtrancl_into_rtrancl [rotated])
  qed
  then show ?thesis by (simp add: register_agent_def split: option.split)
qed

lemma sections_submit:
  assumes "polite others" and "core_inv s"
  shows "sections s (fst (submit_work others q s))"
proof -
  have "sections s (fst (submit_commit q' (others s)))" if "validate_work q' (im_limits s) = None" for q'
  proof -
    have "critical_section (others s) (fst (submit_commit q' (others s)))"
      using that sections_limits [OF politeD [OF assms(1)] assms(2)] by (intro sec_submit) simp
    then show ?thesis using politeD [OF assms(1), of s] by (rule rtranclp.rtrancl_into_rtrancl [rotated])
  qed
  then show ?thesis by (simp add: submit_work_def Let_def split: option.split)
qed

lemma sections_then: "polite others \<Longrightarrow> critical_section (others s) t \<Longrightarrow> sections s t"
  using politeD by (rule rtranclp.rtrancl_into_rtrancl)

lemma sections_interlocked:
  assumes "polite others"
  shows "sections s (fst (cancel_work others w g reason s))"
    and "sections s (fst (dispatch others k g s))"
    and "sections s (fst (declare_agent_lost others a boot reason s))"
  using sections_then [OF assms sec_cancel] sections_then [OF assms sec_dispatch]
    sections_then [OF assms sec_lost]
  by (simp_all add: cancel_work_def dispatch_def declare_agent_lost_def split: option.split)

subsection \<open>The scheduler of the coordinator\<close>

definition drives :: "Coordinator \<Rightarrow> Coordinator \<Rightarrow> bool" where
  "drives c c' \<longleftrightarrow> sections (co_scheduler c) (co_scheduler c')"

lemma drives_refl [simp]: "drives c c"
  by (simp add: drives_def)

lemma drives_trans: "drives a b \<Longrightarrow> drives b c \<Longrightarrow> drives a c"
  by (simp add: drives_def)

lemma drives_same: "co_scheduler c' = co_scheduler c \<Longrightarrow> drives c c'"
  by (simp add: drives_def)

lemma drives_core: "drives c c' \<Longrightarrow> core_inv (co_scheduler c) \<Longrightarrow> core_inv (co_scheduler c')"
  using sections_safe by (simp add: drives_def)

lemma scheduler_kept [simp]:
  "co_scheduler (count_violation c) = co_scheduler c" "co_scheduler (count_rejected c) = co_scheduler c"
  "co_scheduler (on_session sid f c) = co_scheduler c" "co_scheduler (send_frame sid frame c) = co_scheduler c"
  "co_scheduler (send_result sid t n r oc c) = co_scheduler c"
  "co_scheduler (send_error sid n code oper subject detail c) = co_scheduler c"
  "co_scheduler (fst (answer sid t n put c)) = co_scheduler c"
  "co_scheduler (push_assignment a boot m c) = co_scheduler c"
  "co_scheduler (forget_agent_session a boot c) = co_scheduler c"
  "co_scheduler (reply sid t n oc (c, r)) = co_scheduler c"
  "co_scheduler (refuse_frame sid frame t what c) = co_scheduler c"
  "co_scheduler (unexpected_frame sid frame c) = co_scheduler c"
  "co_scheduler (accept_connection c) = co_scheduler c"
  "co_scheduler (drop_session session c) = co_scheduler c" "co_scheduler (reap c) = co_scheduler c"
  "co_scheduler (notify_sessions c) = co_scheduler c"
  by (simp_all add: count_violation_def count_rejected_def on_session_def send_frame_def
      send_result_def send_error_def answer_def push_assignment_def forget_agent_session_def reply_def
      refuse_frame_def unexpected_frame_def accept_connection_def drop_session_def reap_def
      notify_sessions_def Let_def split: sum.split option.split prod.split)

lemma on_scheduler_simps [simp]:
  "fst (on_scheduler f c) = c\<lparr>co_scheduler := fst (f (co_scheduler c))\<rparr>"
  "snd (on_scheduler f c) = snd (f (co_scheduler c))"
  by (simp_all add: on_scheduler_def split: prod.split)

lemma drives_on_scheduler:
  "sections (co_scheduler c) (fst (f (co_scheduler c))) \<Longrightarrow> drives c (fst (on_scheduler f c))"
  by (simp add: drives_def)

lemma drives_section:
  "critical_section (co_scheduler c) (fst (f (co_scheduler c))) \<Longrightarrow> drives c (fst (on_scheduler f c))"
  by (rule drives_on_scheduler [OF sections_one])

lemma drives_decision:
  assumes "polite others"
  shows "drives c (dispatch_decision others d c)"
proof (cases "sd_assignment d")
  case (Some b)
  let ?s1 = "fst (dispatch others (bn_id b) (bn_generation b) (others (co_scheduler c)))"
  have "sections (co_scheduler c) ?s1"
    using politeD [OF assms] sections_interlocked(2) [OF assms] by (rule rtranclp_trans)
  moreover from this have "sections (co_scheduler c) (others ?s1)"
    using politeD [OF assms] by (rule rtranclp_trans)
  ultimately show ?thesis
    using Some by (simp add: drives_def dispatch_decision_def Let_def case_prod_beta)
qed (simp add: dispatch_decision_def)

lemma drives_decisions:
  assumes "polite others"
  shows "drives c (fold (dispatch_decision others) ds c)"
proof (induction ds arbitrary: c)
  case (Cons d ds)
  show ?case
    using drives_trans [OF drives_decision [OF assms] Cons.IH] by simp
qed simp

lemma drives_pass:
  assumes "polite others"
  shows "drives c (run_scheduling_pass others c)"
proof -
  have "drives c (fst (on_scheduler (\<lambda>s. schedule_batch request (others s)) c))" for request
    by (rule drives_on_scheduler) (rule sections_then [OF assms sec_schedule_batch])
  then show ?thesis
    using drives_trans [OF _ drives_decisions [OF assms]]
    by (simp add: run_scheduling_pass_def Let_def case_prod_beta)
qed

lemma drives_reply: "drives c (fst cr) \<Longrightarrow> drives c (reply sid t n oc cr)"
  by (cases cr) (simp add: drives_def)

lemma drives_reply_and_schedule:
  assumes "polite others" and "drives c (fst cr)"
  shows "drives c (reply_and_schedule others sid t n cr)"
  using drives_reply [OF assms(2)] drives_trans [OF _ drives_pass [OF assms(1)]]
  by (simp add: reply_and_schedule_def Let_def)

lemma drives_register:
  assumes polite: "polite others" and core: "core_inv (co_scheduler c)"
  shows "drives c (handle_register others sid n m c)"
proof -
  let ?s = "fst (register_agent others (rm_descriptor m) (co_scheduler c))"
  let ?t = "fst (revalidate_assignments (others ?s))"
  have registered: "sections (co_scheduler c) ?s" by (rule sections_register [OF polite core])
  also have "sections ?s ?t" by (rule sections_then [OF polite sec_revalidate])
  finally have "sections (co_scheduler c) ?t" .
  then have "drives c (run_scheduling_pass others d)" if "co_scheduler d = ?t" for d
    using drives_trans [OF _ drives_pass [OF polite], of c d] that by (simp add: drives_def)
  then show ?thesis
    using registered by (simp add: handle_register_def Let_def case_prod_beta drives_def)
qed

lemma drives_ack: "critical_section s (fst (observe_ack m s))"
  by (simp add: observe_ack_def Let_def sec_acknowledge sec_reject)

lemma drives_end: "critical_section s (fst (observe_end t m s))"
  by (simp add: observe_end_def Let_def sec_release sec_complete sec_fail)

lemmas request_sections = sec_publish_capabilities sec_publish_health sec_publish_availability
  sec_publish_load sec_heartbeat sec_supersede drives_ack drives_end sec_reject sec_mark_executing
  sec_drain sec_deregister

lemma drives_answer: "drives c c' \<Longrightarrow> drives c (fst (answer sid t n put c'))"
  by (simp add: drives_def)

lemma drives_request:
  assumes polite: "polite others" and core: "core_inv (co_scheduler c)"
  shows "drives c (fst (handle_request others build sid n r c))"
proof (cases r)
  case (HelloRequest m)
  show ?thesis unfolding HelloRequest
    by (simp add: handle_hello_def Let_def case_prod_beta drives_same)
next
  case (RegisterAgentRequest m)
  then show ?thesis by (simp add: drives_register [OF polite core])
next
  case (SubmitWorkRequest m)
  then show ?thesis
    by (simp add: drives_reply_and_schedule [OF polite drives_on_scheduler] sections_submit [OF polite core])
next
  case (CancelWorkRequest m)
  then show ?thesis
    by (simp add: drives_reply [OF drives_on_scheduler] sections_interlocked [OF polite])
next
  case (DeregisterAgentRequest m)
  have "drives c (handle_deregister sid n m c)"
    using sections_one [OF sec_deregister, of "co_scheduler c"]
    by (simp add: handle_deregister_def Let_def case_prod_beta drives_def)
  then show ?thesis by (simp add: DeregisterAgentRequest)
next
  case (DispatchAssignmentRequest m)
  show ?thesis unfolding DispatchAssignmentRequest
    by (simp add: handle_dispatch_def Let_def case_prod_beta drives_def sections_interlocked [OF polite])
next
  case (QueryRequest m)
  then show ?thesis by (simp add: handle_query_def drives_same)
qed (simp_all add: drives_reply_and_schedule [OF polite drives_section] drives_reply [OF drives_section]
      request_sections)

lemma drives_frame:
  assumes "polite others" and "core_inv (co_scheduler c)"
  shows "drives c (on_frame others build sid frame c)"
proof -
  let ?c = "c\<lparr>co_frames_processed := co_frames_processed c + 1\<rparr>"
  have "drives c (fst (handle_request others build sid n r ?c))" for n r
    using drives_request [of others ?c build sid n r] assms by (simp add: drives_def)
  then show ?thesis
    by (auto simp: on_frame_def handle_frame_def Let_def drives_def case_prod_beta
        split: option.split sum.split)
qed

lemma drives_closed:
  assumes "polite others"
  shows "drives c (on_closed others session reason c)"
proof -
  have "drives c (fst (on_scheduler (\<lambda>s. declare_agent_lost others a boot re (others s)) (drop_session session c)))"
    for a boot re
    using politeD [OF assms, of "co_scheduler c"]
      sections_interlocked(3) [OF assms, of "others (co_scheduler c)" a boot re]
    by (simp add: drives_def)
  then show ?thesis
    by (simp add: on_closed_def Let_def drives_same split: option.split prod.split)
qed

lemma drives_stop: "drives c (fst (stop_sessions c))"
  using sections_one [OF sec_shutdown, of "co_scheduler c"]
  by (simp add: stop_sessions_def shutdown_scheduler_def Let_def drives_def)

lemma drives_finish: "drives c (fst (finish_stop write c))"
  by (simp add: finish_stop_def drives_same)

lemma drives_start:
  assumes "load_at_start env c = (co_scheduler c, e)"
  shows "drives c (fst (coordinator_start env c))"
  using assms sections_one [OF sec_start, of "co_scheduler c"]
  by (auto simp: coordinator_start_def drives_def split: option.split prod.split)

subsection \<open>Reachable coordinators\<close>

text \<open>
  The events of a coordinator, by whatever thread: a frame of a session, a connection that
  opens or closes, the reaper, a start without a state file, the parts of a stop, and calls
  of other users of the scheduler.
\<close>

inductive coord_step :: "Coordinator \<Rightarrow> Coordinator \<Rightarrow> bool" where
  ev_frame: "polite others \<Longrightarrow> coord_step c (on_frame others build sid frame c)"
| ev_accept: "coord_step c (accept_connection c)"
| ev_closed: "polite others \<Longrightarrow> coord_step c (on_closed others session reason c)"
| ev_reap: "coord_step c (reap c)"
| ev_start: "load_at_start env c = (co_scheduler c, e) \<Longrightarrow> coord_step c (fst (coordinator_start env c))"
| ev_stop: "coord_step c (fst (stop_sessions c))"
| ev_finish: "coord_step c (fst (finish_stop write c))"
| ev_scheduler: "critical_section (co_scheduler c) s \<Longrightarrow> coord_step c (c\<lparr>co_scheduler := s\<rparr>)"
| ev_session: "coord_step c (on_session sid f c)"

lemma coord_step_drives: "coord_step c c' \<Longrightarrow> core_inv (co_scheduler c) \<Longrightarrow> drives c c'"
proof (induction rule: coord_step.induct)
  case (ev_start env c e)
  then show ?case by (intro drives_start)
qed (simp_all add: drives_frame drives_closed drives_stop drives_finish drives_same,
     simp add: drives_def sections_one)

text \<open>A start that restores the state a reachable scheduler has saved.\<close>

definition restores :: "StartEnvironment \<Rightarrow> Coordinator \<Rightarrow> Impl \<Rightarrow> bool" where
  "restores env c s \<longleftrightarrow> state_fits s \<and> im_scheduler_epoch s + 1 \<noteq> 0
     \<and> \<not> im_running (co_scheduler c) \<and> im_limits (co_scheduler c) = im_limits s
     \<and> (\<exists>popts path f. save_bytes popts path s = Inr (Inr f) \<and> length f < 2 ^ 64
          \<and> en_file env = Some (Inr f))"

inductive coord_reachable :: "Coordinator \<Rightarrow> bool" where
  coord_initial: "make_scheduler options nonce wall now = Some s \<Longrightarrow>
    coord_reachable (new_coordinator s coptions)"
| coord_next: "coord_reachable c \<Longrightarrow> coord_step c c' \<Longrightarrow> coord_reachable c'"
| coord_restore: "coord_reachable c \<Longrightarrow> coord_reachable d \<Longrightarrow> restores env c (co_scheduler d) \<Longrightarrow>
    coord_reachable (fst (coordinator_start env c))"

lemma start_restores:
  assumes "restores env c s"
  shows "co_scheduler (fst (coordinator_start env c)) = co_scheduler c
    \<or> (\<exists>x. restarts_to s x \<and> sections x (co_scheduler (fst (coordinator_start env c))))
    \<or> sections (co_scheduler c) (co_scheduler (fst (coordinator_start env c)))"
proof -
  let ?opts = "\<lparr>ld_require_semantic_digest = True, ld_inspect_only = False\<rparr>"
  obtain popts path f where f: "save_bytes popts path s = Inr (Inr f)" "length f < 2 ^ 64"
    "en_file env = Some (Inr f)" using assms unfolding restores_def by blast
  let ?x = "fst (load_state ?opts (cp_persistence_path (co_options c)) (Inr f) (co_scheduler c))"
  have restart: "restarts_to s ?x"
    using assms f unfolding restarts_to_def restores_def by blast
  have cases: "fst (load_at_start env c) = ?x \<or> load_at_start env c = (co_scheduler c, None)"
    by (simp add: load_at_start_def f(3) case_prod_beta)
  have "sections t u" if "start t = (u, e)" for t u e
    using sections_one [OF sec_start, of t] that by simp
  then have "co_scheduler (fst (coordinator_start env c)) = co_scheduler c
      \<or> sections (fst (load_at_start env c)) (co_scheduler (fst (coordinator_start env c)))"
    by (auto simp: coordinator_start_def split: option.split prod.split)
  then show ?thesis using cases restart by auto
qed

lemma sections_reachable:
  "sections s t \<Longrightarrow> reachable \<lparr>sys_impl = s, sys_pending = ps\<rparr> \<Longrightarrow>
   reachable \<lparr>sys_impl = t, sys_pending = ps\<rparr>"
  by (rule run_reachable [OF _ sections_leads])

lemma coord_scheduler_reachable:
  "coord_reachable c \<Longrightarrow> reachable \<lparr>sys_impl = co_scheduler c, sys_pending = []\<rparr>"
proof (induction rule: coord_reachable.induct)
  case (coord_initial options nonce wall now s coptions)
  then show ?case
    by (intro reach_initial) (auto simp: initial_system_def new_coordinator_def)
next
  case (coord_next c c')
  have "core_inv (co_scheduler c)" using reachable_core [OF coord_next.IH] by simp
  with coord_next.hyps(2) have "drives c c'" by (rule coord_step_drives)
  then show ?case using sections_reachable coord_next.IH by (simp add: drives_def)
next
  case (coord_restore c d env)
  have restart: "reachable \<lparr>sys_impl = x, sys_pending = []\<rparr>" if "restarts_to (co_scheduler d) x" for x
    using reach_restart [OF coord_restore.IH(2), of x] that by simp
  show ?case
    using start_restores [OF coord_restore.hyps(3)] coord_restore.IH(1) restart sections_reachable
    by metis
qed

end
