(* ===== verification/Coordinator_Delivery.thy ===== *)
theory Coordinator_Delivery
  imports Coordinator_Facts
begin

section \<open>The frames the coordinator queues\<close>

text \<open>
  Which frames a scheduling pass appends to which send queue: only handoffs, and only to the
  session under which the incarnation of the assignment registered. And what happens to the
  frames queued right before a session is closed.
\<close>

subsection \<open>Queues\<close>

definition queued :: "Coordinator \<Rightarrow> u64 \<Rightarrow> u8 list list" where
  "queued c sid = (case om_get (co_sessions c) sid of None \<Rightarrow> [] | Some s \<Rightarrow> ss_outbound s)"

text \<open>The bytes of an assign-work frame.\<close>

definition carries :: "ResourceLimits \<Rightarrow> AssignWorkMessage \<Rightarrow> u8 list \<Rightarrow> bool" where
  "carries l m bytes \<longleftrightarrow> (\<exists>frame size.
     encode_message MessageType.AssignWork 0 (encode_assign l m) l = Inr frame
     \<and> encode_frame frame size = Inr bytes)"

definition registered_under :: "Coordinator \<Rightarrow> u64 \<Rightarrow> Hash128 \<Rightarrow> u64 \<Rightarrow> bool" where
  "registered_under c agent boot sid \<longleftrightarrow> om_get (co_agent_sessions c) agent = Some (boot, sid)"

lemma queued_same: "co_sessions c' = co_sessions c \<Longrightarrow> queued c' sid = queued c sid"
  by (simp add: queued_def)

lemma enqueue_outbound:
  "\<exists>bs. ss_outbound (fst (enqueue frame s)) = ss_outbound s @ bs
     \<and> (\<forall>x\<in>set bs. encode_frame frame (so_max_frame_size (ss_options s)) = Inr x)"
  by (auto simp: enqueue_def drop_frame_def split: sum.split)

lemma queued_send:
  "\<exists>bs. queued (send_frame sid frame c) j = queued c j @ bs
     \<and> (\<forall>x\<in>set bs. j = sid \<and> (\<exists>size. encode_frame frame size = Inr x))"
proof (cases "j = sid")
  case True
  show ?thesis
  proof (cases "om_get (co_sessions c) sid")
    case (Some s)
    obtain bs where "ss_outbound (fst (enqueue frame s)) = ss_outbound s @ bs"
      "\<forall>x\<in>set bs. encode_frame frame (so_max_frame_size (ss_options s)) = Inr x"
      using enqueue_outbound by blast
    then show ?thesis
      using True Some by (intro exI [of _ bs]) (auto simp: queued_def send_frame_def on_session_def)
  qed (use True in \<open>simp add: queued_def send_frame_def on_session_def\<close>)
qed (simp add: queued_def send_frame_def on_session_def)

lemma queued_push:
  "\<exists>bs. queued (push_assignment a boot m c) j = queued c j @ bs
     \<and> (\<forall>x\<in>set bs. registered_under c a boot j \<and> carries (co_limits c) m x)"
proof (cases "\<exists>sid frame. om_get (co_agent_sessions c) a = Some (boot, sid)
    \<and> encode_message MessageType.AssignWork 0 (encode_assign (co_limits c) m) (co_limits c) = Inr frame
    \<and> push_assignment a boot m c = send_frame sid frame c")
  case True
  then obtain sid frame where p: "om_get (co_agent_sessions c) a = Some (boot, sid)"
    "encode_message MessageType.AssignWork 0 (encode_assign (co_limits c) m) (co_limits c) = Inr frame"
    "push_assignment a boot m c = send_frame sid frame c" by blast
  show ?thesis
    using queued_send [of sid frame c j] p by (auto simp: registered_under_def carries_def)
next
  case False
  then have "push_assignment a boot m c = c"
    by (auto simp: push_assignment_def split: option.split sum.split)
  then show ?thesis by simp
qed

lemma push_kept [simp]:
  "co_agent_sessions (push_assignment a boot m c) = co_agent_sessions c"
  "co_options (push_assignment a boot m c) = co_options c"
  by (simp_all add: push_assignment_def send_frame_def on_session_def split: option.split sum.split)

subsection \<open>Handoffs\<close>

text \<open>The assignment of a handoff is stored under its identity and is handed off or further.\<close>

definition handed_over :: "Impl \<Rightarrow> AssignmentBinding \<Rightarrow> bool" where
  "handed_over s h \<longleftrightarrow> (\<exists>r. om_get (im_assignments s) (bn_id h) = Some r
     \<and> binding_core (ar_binding r) = binding_core h \<and> 2 \<le> assignment_rank (ar_state r))"

lemma handed_over_evolves: "handed_over s h \<Longrightarrow> evolves s t \<Longrightarrow> handed_over t h"
  unfolding handed_over_def evolves_def assignments_le_def by fastforce

text \<open>A check that is never passed by the outcome Assigned.\<close>

definition refuses :: "(ScheduleOutcome \<times> string) option \<Rightarrow> bool" where
  "refuses x \<longleftrightarrow> (\<forall>f. x = Some f \<longrightarrow> fst f \<noteq> ScheduleOutcome.Assigned)"

lemma refuses_simps [simp]:
  "refuses None" "refuses (Some f) \<longleftrightarrow> fst f \<noteq> ScheduleOutcome.Assigned"
  "refuses (guard c f) \<longleftrightarrow> (c \<longrightarrow> fst f \<noteq> ScheduleOutcome.Assigned)"
  by (cases f; auto simp: refuses_def guard_def)+

lemma refuses_first: "list_all refuses xs \<Longrightarrow> refuses (first_some xs)"
  unfolding refuses_def list_all_iff using first_some_Some by metis

lemma refuses_feasibility: "refuses (feasibility_problem rq x say)"
  unfolding feasibility_problem_def by (rule refuses_first) simp

lemma refuses_agent: "refuses (revalidate_agent s b w a)"
  unfolding revalidate_agent_def Let_def by (rule refuses_first) (simp add: refuses_feasibility)

lemma refuses_work: "refuses (revalidate_work s b w)"
  unfolding revalidate_work_def by (rule refuses_first) simp

lemma refuses_authority: "refuses (revalidate_authority s r)"
  unfolding revalidate_authority_def Let_def
  by (rule refuses_first) (simp add: refuses_first refuses_agent refuses_work split: option.split)

lemma refuses_dispatch: "refuses (dispatch_problem s g r)"
  unfolding dispatch_problem_def by (rule refuses_first) (simp add: refuses_authority)

lemma refusal_outcome:
  "dispatch_problem s g r = Some f \<Longrightarrow> fst f \<noteq> ScheduleOutcome.Assigned"
  "revalidate_authority s r = Some f \<Longrightarrow> fst f \<noteq> ScheduleOutcome.Assigned"
  using refuses_dispatch [of s g r] refuses_authority [of s r] by simp_all

lemma handoff:
  assumes "state_keyed s" and "dr_outcome (snd (dispatch_commit k g s)) = ScheduleOutcome.Assigned"
  shows "\<exists>h. dr_handoff (snd (dispatch_commit k g s)) = Some h \<and> bn_id h = k \<and> bn_generation h = g
    \<and> handed_over (fst (dispatch_commit k g s)) h"
proof -
  obtain r where r: "om_get (im_assignments s) k = Some r" "bn_generation (ar_binding r) = g"
    "ar_state r = AssignmentState.Assigned" "revalidate_authority s r = None"
    using assms(2) refusal_outcome(2)
    by (auto simp: dispatch_commit_def refused_dispatch_def split: option.splits if_splits)
  have "bn_id (ar_binding r) = k"
    using assms(1) r(1) by (auto simp: state_keyed_maps well_keyed_def)
  then show ?thesis
    using r by (auto simp: dispatch_commit_def handed_over_def Let_def handoff_record_def
        renew_record_def binding_core_def)
qed

lemma dispatch_handoff:
  assumes "state_keyed (others s)" and "dr_outcome (snd (dispatch others k g s)) = ScheduleOutcome.Assigned"
  shows "\<exists>h. dr_handoff (snd (dispatch others k g s)) = Some h \<and> bn_id h = k \<and> bn_generation h = g
    \<and> handed_over (fst (dispatch others k g s)) h"
proof -
  have "dispatch_check s k g = None"
    using assms(2) refusal_outcome(1)
    by (auto simp: dispatch_def dispatch_check_def refused_dispatch_def split: option.splits)
  then show ?thesis using handoff [of "others s" k g] assms by (simp add: dispatch_def)
qed

subsection \<open>A scheduling pass\<close>

text \<open>
  A frame that a pass over the decisions ds queued for a session: the handoff of the
  assignment a decision names, for the incarnation that registered under the session.
\<close>

definition pass_frame ::
    "Coordinator \<Rightarrow> Impl \<Rightarrow> ScheduleDecision list \<Rightarrow> u64 \<Rightarrow> u8 list \<Rightarrow> bool" where
  "pass_frame c s ds sid bytes \<longleftrightarrow> (\<exists>d\<in>set ds. \<exists>b m.
     sd_assignment d = Some b \<and> registered_under c (bn_agent b) (bn_boot b) sid
     \<and> carries (co_limits c) m bytes \<and> bn_id (awm_binding m) = bn_id b
     \<and> bn_generation (awm_binding m) = bn_generation b \<and> handed_over s (awm_binding m))"

lemma pass_frame_mono:
  "pass_frame c s ds sid x \<Longrightarrow> evolves s t \<Longrightarrow> set ds \<subseteq> set es \<Longrightarrow> pass_frame c t es sid x"
  unfolding pass_frame_def using handed_over_evolves by blast

lemma decision_kept:
  "co_agent_sessions (dispatch_decision others d c) = co_agent_sessions c"
  "co_options (dispatch_decision others d c) = co_options c"
  by (simp_all add: dispatch_decision_def Let_def case_prod_beta split: option.split)

lemma decision_frames:
  assumes polite: "polite others" and reach: "reachable \<lparr>sys_impl = co_scheduler c, sys_pending = []\<rparr>"
  shows "\<exists>bs. queued (dispatch_decision others d c) j = queued c j @ bs
    \<and> (\<forall>x\<in>set bs. pass_frame c (co_scheduler (dispatch_decision others d c)) [d] j x)"
proof (cases "sd_assignment d")
  case (Some b)
  let ?s = "others (co_scheduler c)"
  let ?r = "dispatch others (bn_id b) (bn_generation b) ?s"
  have sec: "sections (co_scheduler c) (others ?s)"
    using politeD [OF polite] by (rule rtranclp_trans) (rule politeD [OF polite])
  have keyed: "state_keyed (others ?s)"
    using reachable_keyed [OF sections_reachable [OF sec reach]] by simp
  show ?thesis
  proof (cases "dr_outcome (snd ?r) = ScheduleOutcome.Assigned")
    case True
    obtain h where h: "dr_handoff (snd ?r) = Some h" "bn_id h = bn_id b"
      "bn_generation h = bn_generation b" "handed_over (fst ?r) h"
      using dispatch_handoff [OF keyed True] by blast
    have "sections (co_scheduler c) (fst ?r)"
      using politeD [OF polite] sections_interlocked(2) [OF polite] by (rule rtranclp_trans)
    then have "core_inv (fst ?r)"
      using sections_safe reachable_core [OF reach] by simp
    then have "evolves (fst ?r) (others (fst ?r))"
      using sections_safe [OF politeD [OF polite]] by blast
    then have over: "handed_over (others (fst ?r)) h" using h(4) handed_over_evolves by blast
    define c2 where "c2 = c\<lparr>co_scheduler := others (fst ?r)\<rparr>"
    define m where "m = \<lparr> awm_binding = h,
      awm_kind = (case work_status (co_scheduler c2) (bn_work b) of Some w \<Rightarrow> ws_kind w | None \<Rightarrow> []),
      awm_payload_ref = [] \<rparr>"
    have eq: "dispatch_decision others d c = push_assignment (bn_agent b) (bn_boot b) m c2"
      using Some True h(1) by (simp add: dispatch_decision_def Let_def case_prod_beta c2_def m_def)
    have "queued c2 j = queued c j" by (rule queued_same) (simp add: c2_def)
    moreover have "registered_under c2 a boot j = registered_under c a boot j" for a boot
      by (simp add: registered_under_def c2_def)
    ultimately obtain bs where bs: "queued (push_assignment (bn_agent b) (bn_boot b) m c2) j = queued c j @ bs"
      "\<forall>x\<in>set bs. registered_under c (bn_agent b) (bn_boot b) j \<and> carries (co_limits c2) m x"
      using queued_push [of "bn_agent b" "bn_boot b" m c2 j] by auto
    have "pass_frame c (co_scheduler (dispatch_decision others d c)) [d] j x" if "x \<in> set bs" for x
      unfolding pass_frame_def eq using that bs(2) Some over h(2,3)
      by (auto simp: c2_def m_def intro!: exI [of _ m])
    then show ?thesis using bs(1) unfolding eq by blast
  next
    case False
    then have "dispatch_decision others d c = c\<lparr>co_scheduler := fst ?r\<rparr>"
      using Some by (simp add: dispatch_decision_def Let_def case_prod_beta)
    then show ?thesis by (simp add: queued_def)
  qed
qed (simp add: dispatch_decision_def)

lemma decisions_kept:
  "co_agent_sessions (fold (dispatch_decision others) ds c) = co_agent_sessions c"
  "co_options (fold (dispatch_decision others) ds c) = co_options c"
  by (induction ds arbitrary: c) (simp_all add: decision_kept)

lemma pass_frame_kept:
  "co_agent_sessions c' = co_agent_sessions c \<Longrightarrow> co_options c' = co_options c \<Longrightarrow>
   pass_frame c' s ds sid x = pass_frame c s ds sid x"
  by (simp add: pass_frame_def registered_under_def)

lemma decisions_frames:
  assumes polite: "polite others" and "reachable \<lparr>sys_impl = co_scheduler c, sys_pending = []\<rparr>"
  shows "\<exists>bs. queued (fold (dispatch_decision others) ds c) j = queued c j @ bs
    \<and> (\<forall>x\<in>set bs. pass_frame c (co_scheduler (fold (dispatch_decision others) ds c)) ds j x)"
  using assms(2)
proof (induction ds arbitrary: c)
  case (Cons d ds)
  let ?c = "dispatch_decision others d c" and ?e = "fold (dispatch_decision others) (d # ds) c"
  have reach: "reachable \<lparr>sys_impl = co_scheduler ?c, sys_pending = []\<rparr>"
    using sections_reachable [OF _ Cons.prems] drives_decision [OF polite] by (simp add: drives_def)
  obtain b1 where b1: "queued ?c j = queued c j @ b1"
    "\<forall>x\<in>set b1. pass_frame c (co_scheduler ?c) [d] j x"
    using decision_frames [OF polite Cons.prems] by blast
  obtain b2 where b2: "queued ?e j = queued ?c j @ b2"
    "\<forall>x\<in>set b2. pass_frame ?c (co_scheduler ?e) ds j x"
    using Cons.IH [OF reach] by auto
  have "evolves (co_scheduler ?c) (co_scheduler ?e)"
    using sections_safe reachable_core [OF reach] drives_decisions [OF polite, of ?c ds]
    by (simp add: drives_def)
  then have "pass_frame c (co_scheduler ?e) (d # ds) j x" if "x \<in> set (b1 @ b2)" for x
    using that b1(2) b2(2) pass_frame_mono [of c _ "[d]" j x "co_scheduler ?e" "d # ds"]
      pass_frame_mono [of c "co_scheduler ?e" ds j x "co_scheduler ?e" "d # ds"]
    by (auto simp: pass_frame_kept [OF decision_kept])
  then show ?case using b1(1) b2(1) by (intro exI [of _ "b1 @ b2"]) simp
qed simp

text \<open>The decisions of a pass.\<close>

definition pass_batch :: "(Impl \<Rightarrow> Impl) \<Rightarrow> Coordinator \<Rightarrow> Impl \<times> BatchDecision" where
  "pass_batch others c = schedule_batch
     \<lparr> sr_work = [], sr_queues = [], sr_max_assignments = max_batch_assignments (co_limits c),
       sr_dry_run = False \<rparr> (others (co_scheduler c))"

lemma pass_frames:
  assumes polite: "polite others" and reach: "reachable \<lparr>sys_impl = co_scheduler c, sys_pending = []\<rparr>"
  shows "\<exists>bs. queued (run_scheduling_pass others c) j = queued c j @ bs
    \<and> (\<forall>x\<in>set bs. pass_frame c (co_scheduler (run_scheduling_pass others c))
          (bd_decisions (snd (pass_batch others c))) j x)"
proof (cases "cp_auto_dispatch (co_options c)")
  case True
  let ?c = "c\<lparr>co_scheduler := fst (pass_batch others c)\<rparr>"
  let ?ds = "bd_decisions (snd (pass_batch others c))"
  have eq: "run_scheduling_pass others c = fold (dispatch_decision others) ?ds ?c"
    using True by (simp add: run_scheduling_pass_def pass_batch_def Let_def case_prod_beta)
  have "sections (co_scheduler c) (fst (pass_batch others c))"
    unfolding pass_batch_def by (rule sections_then [OF polite sec_schedule_batch])
  then have "reachable \<lparr>sys_impl = co_scheduler ?c, sys_pending = []\<rparr>"
    using sections_reachable [OF _ reach] by simp
  then obtain bs where "queued (run_scheduling_pass others c) j = queued ?c j @ bs"
    "\<forall>x\<in>set bs. pass_frame ?c (co_scheduler (run_scheduling_pass others c)) ?ds j x"
    using decisions_frames [OF polite, of ?c ?ds j] unfolding eq by blast
  moreover have "queued ?c j = queued c j" by (rule queued_same) simp
  moreover have "pass_frame ?c s ds j x = pass_frame c s ds j x" for s ds x
    by (rule pass_frame_kept) simp_all
  ultimately show ?thesis by auto
qed (simp add: run_scheduling_pass_def)

subsection \<open>Frames before a close\<close>

text \<open>
  request_close clears the send queue. The notice that the shutdown notifier queues right
  before it, and the refusal of a hello with another protocol version, are therefore dropped
  unless the writer thread fetched them in between.
\<close>

lemma request_close_outbound [simp]: "ss_outbound (request_close s) = []"
  by (simp add: request_close_def Let_def)

lemma shutdown_notice_dropped: "ss_outbound (notify_session notice s) = []"
  by (simp add: notify_session_def)

lemma queued_close: "queued (on_session sid request_close c) sid = []"
  by (simp add: queued_def on_session_def split: option.split)

theorem refused_hello_unanswered:
  assumes "hm_protocol_version m \<noteq> protocol_version"
    and "snd (handle_hello sid n m c) = None"
  shows "queued (fst (handle_hello sid n m c)) sid = []"
  using assms by (simp add: handle_hello_def Let_def case_prod_beta queued_close split: if_splits)

end
