(* ===== verification/Client_Server.thy ===== *)
theory Client_Server
  imports Control_Client Coordinator_Delivery
begin

section \<open>A client and the coordinator\<close>

text \<open>
  What the coordinator makes of the bytes a control client wrote, and what the client makes of
  the bytes the coordinator queued for its session.
\<close>

subsection \<open>Frames of the two sides\<close>

lemma type_code_word [simp]: "unat (of_nat (message_type_code t) :: u16) = message_type_code t"
  by (cases t) simp_all

lemma known_code [simp]: "is_known_message_type (of_nat (message_type_code t))"
  by (cases t) (simp_all add: is_known_message_type_def)

lemma values_code [simp]: "message_type_values ! (message_type_code t - Suc 0) = t"
  by (cases t) (simp_all add: message_type_values_def)

lemma make_frame_sel [simp]:
  "fh_version (fr_header (make_frame t n)) = ucast protocol_version"
  "fh_type (fr_header (make_frame t n)) = of_nat (message_type_code t)"
  "fh_correlation (fr_header (make_frame t n)) = n"
  by (simp_all add: make_frame_def)

lemma client_frame_sel [simp]:
  "fh_version (fr_header (client_frame t p cc)) = kc_protocol_version (cc_options cc)"
  "fh_type (fr_header (client_frame t p cc)) = of_nat (message_type_code t)"
  "fh_correlation (fr_header (client_frame t p cc)) = cc_next_correlation cc"
  "fr_payload (client_frame t p cc) = p"
  by (simp_all add: client_frame_def Let_def)

lemma sealed_sel [simp]:
  "fr_payload (sealed f) = fr_payload f"
  "fh_type (fr_header (sealed f)) = fh_type (fr_header f)"
  "fh_correlation (fr_header (sealed f)) = fh_correlation (fr_header f)"
  by (simp_all add: sealed_def)

lemma frame_message_type_code:
  "fh_type (fr_header f) = of_nat (message_type_code t) \<Longrightarrow> frame_message_type f = Some t"
  by (simp add: frame_message_type_def Let_def)

lemma frame_bytes_nonempty [simp]: "frame_bytes f \<noteq> []" "[] \<noteq> frame_bytes f"
  by (cases "frame_bytes f"; use length_frame_bytes [of f] in force)+

text \<open>Frames at the front of a stream.\<close>

lemma drain_frame:
  "acceptable m v f \<Longrightarrow> fst (drain_all (frame_parser m v) (frame_bytes f @ rest))
     = sealed f # fst (drain_all (frame_parser m v) rest)"
  by (subst frame_stream.drain_all_step)
    (simp add: frame_parser_def parse_frame_encoded case_prod_beta)

subsection \<open>The coordinator reads\<close>

text \<open>The reader of the session calls on_frame for each frame of the bytes.\<close>

definition served ::
    "(Impl \<Rightarrow> Impl) \<Rightarrow> Build \<Rightarrow> u64 \<Rightarrow> u8 list \<Rightarrow> Coordinator \<Rightarrow> Coordinator" where
  "served others build sid bytes c = fold (on_frame others build sid)
     (fst (drain_all (frame_parser (max_frame_size (co_limits c)) (ucast protocol_version)) bytes)) c"

lemma served_frame:
  assumes "acceptable (max_frame_size (co_limits c)) (ucast protocol_version) f"
  shows "served others build sid (frame_bytes f) c = on_frame others build sid (sealed f) c"
  using drain_frame [OF assms, of "[]"]
  by (simp add: served_def frame_stream.drain_all_step [of _ _ "[]"] frame_parser_def parse_frame_def)

text \<open>A session that is open and has room for n frames.\<close>

definition listening :: "Coordinator \<Rightarrow> u64 \<Rightarrow> bool" where
  "listening c sid \<longleftrightarrow> (\<exists>s. om_get (co_sessions c) sid = Some s \<and> ss_outbound s = []
     \<and> \<not> ss_closing s \<and> \<not> ss_closed s \<and> 0 < so_max_send_queue (ss_options s)
     \<and> so_max_frame_size (ss_options s) = max_frame_size (co_limits c))"

lemma queued_answer:
  assumes "listening c sid" and "length (fr_payload f) \<le> unat (max_frame_size (co_limits c))"
  shows "queued (send_frame sid f c) sid = [frame_bytes f]"
  using assms
  by (auto simp: listening_def queued_def send_frame_def on_session_def enqueue_def encode_frame_eq
      word_less_nat_alt)

lemma handle_decoded:
  assumes "decode_request (co_limits c) t (fr_payload f) = Inr (Some r)"
    and "fh_type (fr_header f) = of_nat (message_type_code t)" and "om_get (co_sessions c) sid \<noteq> None"
    and "handle_request others build sid (fh_correlation (fr_header f)) r
      (c\<lparr>co_frames_processed := co_frames_processed c + 1\<rparr>) = (c1, None)"
  shows "on_frame others build sid f c = c1"
  using assms by (auto simp: on_frame_def handle_frame_def frame_message_type_code Let_def)

text \<open>What was queued stays in front of what a scheduling pass adds.\<close>

lemma queued_decision: "\<exists>bs. queued (dispatch_decision others d c) j = queued c j @ bs"
proof (cases "sd_assignment d")
  case (Some b)
  have same: "queued (c\<lparr>co_scheduler := s\<rparr>) j = queued c j" for s by (rule queued_same) simp
  have "\<exists>bs. queued (push_assignment a boot m (c\<lparr>co_scheduler := s\<rparr>)) j = queued c j @ bs" for a boot m s
    using queued_push [of a boot m "c\<lparr>co_scheduler := s\<rparr>" j] same by auto
  then show ?thesis
    using Some same by (simp add: dispatch_decision_def Let_def case_prod_beta on_scheduler_def)
qed (simp add: dispatch_decision_def)

lemma queued_decisions: "\<exists>bs. queued (fold (dispatch_decision others) ds c) j = queued c j @ bs"
proof (induction ds arbitrary: c)
  case (Cons d ds)
  then show ?case using queued_decision [of others d c j] by (metis append.assoc fold_simps(2))
qed simp

lemma queued_pass: "\<exists>bs. queued (run_scheduling_pass others c) j = queued c j @ bs"
proof -
  have "queued (c\<lparr>co_scheduler := s\<rparr>) j = queued c j" for s by (rule queued_same) simp
  then have "\<exists>bs. queued (fold (dispatch_decision others) ds (c\<lparr>co_scheduler := s\<rparr>)) j = queued c j @ bs"
    for ds s using queued_decisions [of others ds "c\<lparr>co_scheduler := s\<rparr>" j] by simp
  then show ?thesis
    by (simp add: run_scheduling_pass_def Let_def case_prod_beta on_scheduler_def)
qed

subsection \<open>The client hears\<close>

lemma hears_reply:
  assumes "client_wf cc" and "pending (cc_decoder cc) = []" and "[] \<notin> set chunks"
    and "concat chunks = frame_bytes f @ rest"
    and "acceptable (max_frame_size (cc_limits cc)) (kc_protocol_version (cc_options cc)) f"
    and "fh_correlation (fr_header f) = correlation"
  shows "snd (snd (await_reply correlation interpret_reply lost (map Inr chunks) cc))
    = Inr (interpret_reply (sealed f))"
  using await_reply_spec [OF assms(1,3), of correlation interpret_reply lost] assms
  by (auto simp: drain_frame first_reply_def)

subsection \<open>Calls\<close>

lemma decode_encoded:
  assumes "wire_format put get ok" and "ok x" and "put x [] = Inr p"
  shows "decode_payload get p = Inr x"
proof -
  obtain used where "p = [] @ used" "\<And>rest. get (used @ rest) = Inr (x, rest)"
    by (rule wire_format.decode_inverts [OF assms]) blast
  from this(1) this(2) [of "[]"] show ?thesis by (simp add: decode_payload_def require_exhausted_def)
qed

text \<open>
  A call that is connected writes its frame and ends with the reply the session holds after
  the coordinator handled it.
\<close>

lemma exchange_spec:
  assumes "cc_valid cc" and "length p \<le> unat (max_frame_size (cc_limits cc))"
    and "cx_write_error cx = None"
  shows "\<exists>reads cc'. exchange t p subject fail interpret_reply cx cc =
    (cx\<lparr>cx_reads := reads, cx_written := cx_written cx @ [frame_bytes (client_frame t p cc)]\<rparr>, cc',
     snd (snd (await_reply (cc_next_correlation cc) interpret_reply
       (fail (client_failure ErrorCode.Internal subject ''connection closed before a reply arrived''))
       (cx_reads cx) (cc\<lparr>cc_next_correlation := cc_next_correlation cc + 1\<rparr>))))"
  using assms by (auto simp: exchange_def Let_def encode_frame_eq case_prod_beta prod_eq_iff)

text \<open>A connected client and the session it talks to.\<close>

definition talking :: "ControlClient \<Rightarrow> Coordinator \<Rightarrow> u64 \<Rightarrow> bool" where
  "talking cc c sid \<longleftrightarrow> client_wf cc \<and> cc_valid cc \<and> pending (cc_decoder cc) = []
     \<and> kc_protocol_version (cc_options cc) = ucast protocol_version
     \<and> co_limits c = cc_limits cc \<and> listening c sid"

lemma talking_exchange:
  assumes talk: "talking cc c sid" and size: "length p \<le> unat (max_frame_size (cc_limits cc))"
    and cx: "cx_write_error cx = None" "cx_written cx = []" "cx_reads cx = map Inr chunks"
    and run: "exchange t p subject fail interpret_reply cx cc = (cx', cc', r)"
    and answer: "concat chunks = concat (queued (served others build sid (concat (cx_written cx')) c) sid)"
      "[] \<notin> set chunks"
    and handled: "queued (on_frame others build sid (sealed (client_frame t p cc)) c) sid
      = frame_bytes f # rest"
    and f: "fh_correlation (fr_header f) = cc_next_correlation cc"
      "acceptable (max_frame_size (cc_limits cc)) (ucast protocol_version) f"
  shows "r = Inr (interpret_reply (sealed f))"
proof -
  let ?g = "client_frame t p cc" and ?cc = "cc\<lparr>cc_next_correlation := cc_next_correlation cc + 1\<rparr>"
  have ok: "acceptable (max_frame_size (co_limits c)) (ucast protocol_version) ?g"
    using talk size by (simp add: acceptable_def talking_def)
  have cx': "cx_written cx' = [frame_bytes ?g]" and r: "r = snd (snd (await_reply (cc_next_correlation cc)
      interpret_reply (fail (client_failure ErrorCode.Internal subject
        ''connection closed before a reply arrived'')) (map Inr chunks) ?cc))"
    using exchange_spec [OF _ size cx(1), of t subject fail interpret_reply] talk run cx(2,3)
    by (auto simp: talking_def)
  have bytes: "concat chunks = frame_bytes f @ concat rest"
    using answer(1) handled by (simp add: cx' served_frame [OF ok])
  show ?thesis
    unfolding r
    by (rule hears_reply [OF _ _ answer(2) bytes]) (use talk f in \<open>simp_all add: talking_def client_wf_def\<close>)
qed

text \<open>An encoded answer is queued as one frame.\<close>

lemma encode_message_Inr:
  "put [] = Inr p \<Longrightarrow> length p \<le> unat (max_payload_size l) \<Longrightarrow>
   encode_message t n put l = Inr ((make_frame t n)\<lparr>fr_payload := p\<rparr>)"
  by (simp add: encode_message_def)

lemma acceptable_answer:
  "length p \<le> unat m \<Longrightarrow> acceptable m (ucast protocol_version) ((make_frame t n)\<lparr>fr_payload := p\<rparr>)"
  by (simp add: acceptable_def)

end
