(* ===== verification/Agent_Client.thy ===== *)
theory Agent_Client
  imports Client_Server
begin

section \<open>The agent client (net/agent_client.cpp)\<close>

text \<open>
  An agent process: it connects, registers its incarnation, publishes its evidence, answers
  assignments and sends heartbeats. Its session has a reader thread that calls on_frame. A
  call that waits for its reply is split at the wait: \<open>env\<close> is what the reader and other
  threads did meanwhile, and a call whose condition still does not hold after it has not
  returned (None). The callback on_assignment is a parameter, an exception it may throw.
\<close>

subsection \<open>State\<close>

record AgentClientOptions =
  ao_host :: string
  ao_port :: u16
  ao_descriptor :: AgentDescriptor
  ao_profile :: CapabilityProfile
  ao_health :: HealthObservation
  ao_availability :: AvailabilityObservation
  ao_load :: LoadObservation
  ao_limits :: ResourceLimits
  ao_auto_ack :: bool
  ao_auto_complete :: bool
  ao_simulated_work_ms :: u64
  ao_run_duration_ms :: u64
  ao_heartbeat_interval_ms :: u64

record AgentClient =
  ac_options :: AgentClientOptions
  ac_session :: "Session option"
  ac_stopped :: bool
  ac_assignments :: "AssignWorkMessage list"
  ac_frames_handled :: u64
  ac_last_result :: "ResultMessage option"
  ac_last_correlation :: u64
  ac_next_correlation :: u64

definition new_agent_client :: "AgentClientOptions \<Rightarrow> AgentClient" where
  "new_agent_client options =
     \<lparr> ac_options = options, ac_session = None, ac_stopped = False, ac_assignments = [],
       ac_frames_handled = 0, ac_last_result = None, ac_last_correlation = 0,
       ac_next_correlation = 1 \<rparr>"

abbreviation ac_limits :: "AgentClient \<Rightarrow> ResourceLimits" where
  "ac_limits a \<equiv> ao_limits (ac_options a)"

definition agent_connected :: "AgentClient \<Rightarrow> bool" where
  "agent_connected a = (case ac_session a of None \<Rightarrow> False | Some s \<Rightarrow> \<not> ss_closed s)"

text \<open>enqueue on the session; the flag is its result.\<close>

definition agent_enqueue :: "Frame \<Rightarrow> AgentClient \<Rightarrow> AgentClient \<times> bool" where
  "agent_enqueue frame a =
     (case ac_session a of None \<Rightarrow> (a, False)
      | Some s \<Rightarrow> let (s', accepted) = enqueue frame s in (a\<lparr>ac_session := Some s'\<rparr>, accepted))"

definition agent_failure :: "ErrorCode \<Rightarrow> MessageType \<Rightarrow> string \<Rightarrow> WireError" where
  "agent_failure code t detail =
     error_on_wire (make_error code ''send'' (message_type_to_string t) detail ScheduleOutcome.NoChange)"

subsection \<open>Requests\<close>

text \<open>Up to the wait: the correlation of the call, or its error.\<close>

definition begin_call ::
    "MessageType \<Rightarrow> u8 list \<Rightarrow> AgentClient \<Rightarrow> AgentClient \<times> (WireError + u64)" where
  "begin_call t payload a =
     (if ac_session a = None
      then (a, Inl (agent_failure ErrorCode.NotStarted t ''session is not connected''))
      else let correlation = ac_next_correlation a;
               frame = (make_frame t correlation)\<lparr>fr_payload := payload\<rparr>;
               (a', accepted) = agent_enqueue frame (a\<lparr>ac_next_correlation := correlation + 1\<rparr>)
      in if accepted then (a', Inr correlation)
         else (a', Inl (agent_failure ErrorCode.Internal t ''send queue is saturated'')))"

definition reply_arrived :: "u64 \<Rightarrow> AgentClient \<Rightarrow> bool" where
  "reply_arrived correlation a \<longleftrightarrow>
     ac_last_correlation a = correlation \<and> ac_last_result a \<noteq> None"

definition wait_over :: "u64 \<Rightarrow> AgentClient \<Rightarrow> bool" where
  "wait_over correlation a \<longleftrightarrow> reply_arrived correlation a \<or> ac_stopped a
     \<or> (case ac_session a of None \<Rightarrow> False | Some s \<Rightarrow> ss_closed s)"

definition end_call :: "MessageType \<Rightarrow> u64 \<Rightarrow> AgentClient \<Rightarrow> AgentClient \<times> WireError option" where
  "end_call t correlation a =
     (if reply_arrived correlation a
      then let m = the (ac_last_result a) in
        (a\<lparr>ac_last_result := None\<rparr>, if rsm_ok m then None else Some (rsm_error m))
      else (a, Some (agent_failure ErrorCode.Internal t ''session closed before a reply arrived'')))"

definition send_and_wait ::
    "(AgentClient \<Rightarrow> AgentClient) \<Rightarrow> MessageType \<Rightarrow> u8 list \<Rightarrow> AgentClient
       \<Rightarrow> (AgentClient \<times> WireError option) option" where
  "send_and_wait env t payload a =
     (case begin_call t payload a of
        (a', Inl e) \<Rightarrow> Some (a', Some e)
      | (a', Inr correlation) \<Rightarrow>
          let a'' = env a' in
          if wait_over correlation a'' then Some (end_call t correlation a'') else None)"

text \<open>A request of the agent; the encoder may throw before anything is sent.\<close>

definition agent_request ::
    "(AgentClient \<Rightarrow> AgentClient) \<Rightarrow> Request \<Rightarrow> AgentClient
       \<Rightarrow> (AgentClient \<times> WireError option) option coded" where
  "agent_request env r a =
     (case encode_request (ac_limits a) r [] of Inl e \<Rightarrow> Inl e
      | Inr payload \<Rightarrow> Inr (send_and_wait env (request_type r) payload a))"

definition agent_publish_capabilities ::
    "(AgentClient \<Rightarrow> AgentClient) \<Rightarrow> AgentClient \<Rightarrow> (AgentClient \<times> WireError option) option coded" where
  "agent_publish_capabilities env a =
     (let d = ao_descriptor (ac_options a) in agent_request env (PublishCapabilitiesRequest
        \<lparr> pcm_agent = ad_id d, pcm_boot = ad_boot d, pcm_profile = ao_profile (ac_options a) \<rparr>) a)"

definition agent_publish_health ::
    "(AgentClient \<Rightarrow> AgentClient) \<Rightarrow> AgentClient \<Rightarrow> (AgentClient \<times> WireError option) option coded" where
  "agent_publish_health env a =
     (let d = ao_descriptor (ac_options a) in agent_request env (PublishHealthRequest
        \<lparr> phm_agent = ad_id d, phm_boot = ad_boot d, phm_observation = ao_health (ac_options a) \<rparr>) a)"

definition agent_publish_availability ::
    "(AgentClient \<Rightarrow> AgentClient) \<Rightarrow> AgentClient \<Rightarrow> (AgentClient \<times> WireError option) option coded" where
  "agent_publish_availability env a =
     (let d = ao_descriptor (ac_options a) in agent_request env (PublishAvailabilityRequest
        \<lparr> pam_agent = ad_id d, pam_boot = ad_boot d,
          pam_observation = ao_availability (ac_options a) \<rparr>) a)"

definition agent_publish_load ::
    "(AgentClient \<Rightarrow> AgentClient) \<Rightarrow> AgentClient \<Rightarrow> (AgentClient \<times> WireError option) option coded" where
  "agent_publish_load env a =
     (let d = ao_descriptor (ac_options a) in agent_request env (PublishLoadRequest
        \<lparr> plm_agent = ad_id d, plm_boot = ad_boot d, plm_observation = ao_load (ac_options a) \<rparr>) a)"

definition agent_heartbeat ::
    "(AgentClient \<Rightarrow> AgentClient) \<Rightarrow> AgentClient \<Rightarrow> (AgentClient \<times> WireError option) option coded" where
  "agent_heartbeat env a =
     (let d = ao_descriptor (ac_options a) in agent_request env (HeartbeatRequest
        \<lparr> hbm_agent = ad_id d, hbm_boot = ad_boot d,
          hbm_registration_generation = ad_registration_generation d \<rparr>) a)"

text \<open>Calls in a row, the first error ends them.\<close>

fun in_sequence ::
    "(AgentClient \<Rightarrow> (AgentClient \<times> WireError option) option coded) list \<Rightarrow> AgentClient
       \<Rightarrow> (AgentClient \<times> WireError option) option coded" where
  "in_sequence [] a = Inr (Some (a, None))"
| "in_sequence (call # calls) a =
     (case call a of
        Inr (Some (a', None)) \<Rightarrow> in_sequence calls a'
      | r \<Rightarrow> r)"

definition connect_and_register ::
    "(AgentClient \<Rightarrow> AgentClient) \<Rightarrow> MutationResult \<Rightarrow> Build \<Rightarrow> u64 \<Rightarrow> AgentClient
       \<Rightarrow> (AgentClient \<times> WireError option) option coded" where
  "connect_and_register env network build nonce a =
     (if ac_session a \<noteq> None then Inr (Some (a, None))
      else case network of Some e \<Rightarrow> Inr (Some (a, Some (error_on_wire e)))
      | None \<Rightarrow>
          let l = ac_limits a;
              options = \<lparr> so_max_frame_size = max_frame_size l, so_max_send_queue = max_send_queue l,
                so_max_payload_size = max_payload_size l, so_protocol_version = ucast protocol_version \<rparr>
          in in_sequence
               [agent_request env (HelloRequest \<lparr> hm_protocol_version = protocol_version,
                  hm_role = ''agent'', hm_build = build_info build, hm_nonce = nonce \<rparr>),
                agent_request env (RegisterAgentRequest \<lparr> rm_descriptor = ao_descriptor (ac_options a) \<rparr>),
                agent_publish_capabilities env]
               (a\<lparr>ac_session := Some (new_session 1 options)\<rparr>))"

subsection \<open>Frames from the coordinator\<close>

definition carries_result :: "MessageType \<Rightarrow> bool" where
  "carries_result t \<longleftrightarrow> t \<in> {MessageType.HelloResult, MessageType.RegisterResult,
     MessageType.PublishCapabilitiesResult, MessageType.PublishHealthResult,
     MessageType.PublishAvailabilityResult, MessageType.PublishLoadResult,
     MessageType.HeartbeatResult, MessageType.SubmitWorkResult, MessageType.CancelWorkResult,
     MessageType.SupersedeWorkResult, MessageType.DrainAgentResult,
     MessageType.DeregisterAgentResult, MessageType.DispatchAssignmentResult}"

text \<open>A message of the agent that expects no reply; an encoding that throws ends the handler.\<close>

definition report :: "Request \<Rightarrow> AgentClient \<Rightarrow> AgentClient coded" where
  "report r a =
     (case encode_request (ac_limits a) r [] of Inl e \<Rightarrow> Inl e
      | Inr payload \<Rightarrow>
          Inr (fst (agent_enqueue ((make_frame (request_type r) 0)\<lparr>fr_payload := payload\<rparr>) a)))"

text \<open>What was done before an exception stays done.\<close>

fun report_all :: "Request list \<Rightarrow> AgentClient \<Rightarrow> AgentClient" where
  "report_all [] a = a"
| "report_all (r # rs) a = (case report r a of Inl _ \<Rightarrow> a | Inr a' \<Rightarrow> report_all rs a')"

definition assignment_reports :: "AgentClientOptions \<Rightarrow> AssignWorkMessage \<Rightarrow> Request list" where
  "assignment_reports options m =
     (let b = awm_binding m in
      (if ao_auto_ack options
       then [AssignmentAckRequest \<lparr> akm_binding = b, akm_accepted = True, akm_reason = ''accepted'' \<rparr>]
       else [])
      @ (if ao_auto_complete options
         then [WorkStartedRequest \<lparr> aom_binding = b, aom_reason = ''started'' \<rparr>,
               WorkCompletedRequest \<lparr> aom_binding = b, aom_reason = ''completed'' \<rparr>]
         else []))"

definition handle_assignment ::
    "(AssignWorkMessage \<Rightarrow> string option) \<Rightarrow> AssignWorkMessage \<Rightarrow> AgentClient \<Rightarrow> AgentClient" where
  "handle_assignment on_assignment m a =
     (let a' = a\<lparr>ac_assignments := ac_assignments a @ [m]\<rparr> in
      if on_assignment m \<noteq> None then a'
      else report_all (assignment_reports (ac_options a) m) a')"

definition agent_handle_frame ::
    "(AssignWorkMessage \<Rightarrow> string option) \<Rightarrow> Frame \<Rightarrow> AgentClient \<Rightarrow> AgentClient" where
  "agent_handle_frame on_assignment frame a =
     (case frame_message_type frame of None \<Rightarrow> a
      | Some t \<Rightarrow>
          if carries_result t
          then case decode_payload (decode_result (ac_limits a)) (fr_payload frame) of
                 Inl _ \<Rightarrow> a
               | Inr m \<Rightarrow> a\<lparr>ac_last_result := Some m,
                             ac_last_correlation := fh_correlation (fr_header frame)\<rparr>
          else if t = MessageType.AssignWork
          then case decode_payload (decode_assign (ac_limits a)) (fr_payload frame) of
                 Inl _ \<Rightarrow> a
               | Inr m \<Rightarrow> handle_assignment on_assignment m a
          else a)"

definition agent_on_frame ::
    "(AssignWorkMessage \<Rightarrow> string option) \<Rightarrow> Frame \<Rightarrow> AgentClient \<Rightarrow> AgentClient" where
  "agent_on_frame on_assignment frame a =
     agent_handle_frame on_assignment frame (a\<lparr>ac_frames_handled := ac_frames_handled a + 1\<rparr>)"

subsection \<open>The loop of the process\<close>

text \<open>
  One element of the list is one turn: the stop flag and the clock. A list that is used up is
  a loop that has not returned.
\<close>

fun run_loop ::
    "(AgentClient \<Rightarrow> AgentClient) \<Rightarrow> u64 \<Rightarrow> (bool \<times> u64) list \<Rightarrow> u64 \<Rightarrow> AgentClient
       \<Rightarrow> (AgentClient \<times> WireError option) option coded" where
  "run_loop env began [] last_heartbeat a = Inr None"
| "run_loop env began ((stop_flag, now) # turns) last_heartbeat a0 =
     (let a = env a0 in
      if stop_flag \<or> ac_stopped a \<or> \<not> agent_connected a then Inr (Some (a, None))
      else let due = (now - last_heartbeat \<ge> ao_heartbeat_interval_ms (ac_options a))
      in case (if due then agent_heartbeat env a else Inr (Some (a, None))) of
           Inl e \<Rightarrow> Inl e
         | Inr None \<Rightarrow> Inr None
         | Inr (Some (a', _)) \<Rightarrow>
             if ao_run_duration_ms (ac_options a) \<noteq> 0 \<and> now - began \<ge> ao_run_duration_ms (ac_options a)
             then Inr (Some (a', None))
             else run_loop env began turns (if due then now else last_heartbeat) a')"

definition agent_run ::
    "(AgentClient \<Rightarrow> AgentClient) \<Rightarrow> MutationResult \<Rightarrow> Build \<Rightarrow> u64 \<Rightarrow> u64 \<Rightarrow> (bool \<times> u64) list
       \<Rightarrow> AgentClient \<Rightarrow> (AgentClient \<times> WireError option) option coded" where
  "agent_run env network build nonce began turns =
     in_sequence [connect_and_register env network build nonce, agent_publish_health env,
       agent_publish_availability env, agent_publish_load env, run_loop env began turns began]"

text \<open>stop closes the session, waits for its threads and forgets it.\<close>

definition agent_stop :: "AgentClient \<Rightarrow> AgentClient" where
  "agent_stop a = (if ac_stopped a then a else a\<lparr>ac_stopped := True, ac_session := None\<rparr>)"

subsection \<open>What the agent answers\<close>

text \<open>A session of the agent that is open and has room for n more frames.\<close>

definition agent_ready :: "nat \<Rightarrow> AgentClient \<Rightarrow> bool" where
  "agent_ready n a \<longleftrightarrow> (\<exists>s. ac_session a = Some s \<and> \<not> ss_closing s \<and> \<not> ss_closed s
     \<and> length (ss_outbound s) + n \<le> unat (so_max_send_queue (ss_options s))
     \<and> so_max_frame_size (ss_options s) = max_frame_size (ac_limits a))"

definition agent_queue :: "AgentClient \<Rightarrow> u8 list list" where
  "agent_queue a = (case ac_session a of None \<Rightarrow> [] | Some s \<Rightarrow> ss_outbound s)"

text \<open>A frame that the coordinator decodes as the request r.\<close>

definition frame_of :: "ResourceLimits \<Rightarrow> Request \<Rightarrow> u8 list \<Rightarrow> bool" where
  "frame_of l r bytes \<longleftrightarrow> (\<exists>f. bytes = frame_bytes f
     \<and> acceptable (max_frame_size l) (ucast protocol_version) f
     \<and> frame_message_type (sealed f) = Some (request_type r)
     \<and> decode_request l (request_type r) (fr_payload (sealed f)) = Inr (Some r))"

lemma report_queued:
  assumes "agent_ready (Suc n) a" and "request_fits (ac_limits a) r"
    and "encode_request (ac_limits a) r [] = Inr p" and "length p \<le> unat (max_frame_size (ac_limits a))"
    and "length p \<le> 2 ^ 30"
  shows "\<exists>a' bytes. report r a = Inr a' \<and> agent_ready n a' \<and> ac_options a' = ac_options a
    \<and> agent_queue a' = agent_queue a @ [bytes] \<and> frame_of (ac_limits a) r bytes"
proof -
  let ?f = "(make_frame (request_type r) 0)\<lparr>fr_payload := p\<rparr>"
  obtain s where s: "ac_session a = Some s" "\<not> ss_closing s" "\<not> ss_closed s"
    "length (ss_outbound s) + Suc n \<le> unat (so_max_send_queue (ss_options s))"
    "so_max_frame_size (ss_options s) = max_frame_size (ac_limits a)"
    using assms(1) by (auto simp: agent_ready_def)
  let ?a = "a\<lparr>ac_session := Some (s\<lparr>ss_outbound := ss_outbound s @ [frame_bytes ?f]\<rparr>)\<rparr>"
  have "report r a = Inr ?a"
    using assms(3,4) s by (simp add: report_def agent_enqueue_def enqueue_def encode_frame_eq)
  moreover have "frame_of (ac_limits a) r (frame_bytes ?f)"
    using assms decode_request_exact [OF assms(5), of "ac_limits a" "request_type r" r]
    unfolding frame_of_def
    by (intro exI [of _ ?f]) (simp add: acceptable_answer frame_message_type_code)
  ultimately show ?thesis using s by (auto simp: agent_ready_def agent_queue_def)
qed

lemma report_all_queued:
  assumes "agent_ready (length rs) a" and "\<forall>r\<in>set rs. request_fits (ac_limits a) r
    \<and> (\<exists>p. encode_request (ac_limits a) r [] = Inr p \<and> length p \<le> unat (max_frame_size (ac_limits a))
           \<and> length p \<le> 2 ^ 30)"
  shows "\<exists>bs. agent_queue (report_all rs a) = agent_queue a @ bs \<and> list_all2 (frame_of (ac_limits a)) rs bs"
  using assms
proof (induction rs arbitrary: a)
  case (Cons r rs)
  then obtain a' bytes where r: "report r a = Inr a'" "agent_ready (length rs) a'"
    "ac_options a' = ac_options a" "agent_queue a' = agent_queue a @ [bytes]" "frame_of (ac_limits a) r bytes"
    using report_queued [of "length rs" a r] by (metis length_Cons list.set_intros(1))
  moreover obtain bs where "agent_queue (report_all rs a') = agent_queue a' @ bs"
    "list_all2 (frame_of (ac_limits a)) rs bs"
    using Cons.IH [OF r(2)] Cons.prems(2) r(3) by auto
  ultimately show ?case by (intro exI [of _ "bytes # bs"]) simp
qed simp

text \<open>An answer of type Error is decoded and dropped: a call that waits goes on waiting.\<close>

lemma error_reply_dropped:
  "frame_message_type f = Some MessageType.Error \<Longrightarrow>
   agent_on_frame cb f a = a\<lparr>ac_frames_handled := ac_frames_handled a + 1\<rparr>"
  by (simp add: agent_on_frame_def agent_handle_frame_def carries_result_def)

end
