(* ===== verification/Checker_Facts.thy ===== *)
theory Checker_Facts
  imports Invariant_Checker Interleaving
begin

section \<open>What the invariant checker can report\<close>

text \<open>
  In a reachable state the checker reports no violation of exclusivity, fan-out, references,
  generations of work items, accounting, or of the current incarnation, and its comparison of the eight indexes
  finds nothing. \<open>clean C r\<close> says that the report r names no invariant of C.
\<close>

subsection \<open>Clean reports\<close>

definition clean :: "Invariant set \<Rightarrow> InvariantReport \<Rightarrow> bool" where
  "clean C r \<longleftrightarrow> iv_code ` set (ir_violations r) \<inter> C = {}"

lemma clean_step [simp]:
  "clean C (count_check r) = clean C r"
  "clean C (violate c subject detail r) \<longleftrightarrow> clean C r \<and> c \<notin> C"
  "clean C (require holds c subject detail r) \<longleftrightarrow> clean C r \<and> (c \<in> C \<longrightarrow> holds)"
  "clean C (forbid bad c subject detail r) \<longleftrightarrow> clean C r \<and> (c \<in> C \<longrightarrow> \<not> bad)"
  by (auto simp: clean_def violate_def count_check_def require_def forbid_def Let_def)

lemma in_order_simps [simp]:
  "in_order [] x = x" "in_order (f # fs) x = in_order fs (f x)"
  by (simp_all add: in_order_def)

lemma clean_when_found [simp]:
  "clean C (when_found found f r) \<longleftrightarrow> (case found of None \<Rightarrow> clean C r | Some y \<Rightarrow> clean C (f y r))"
  by (simp add: when_found_def split: option.split)

lemma clean_fold:
  assumes "\<And>e r. e \<in> set es \<Longrightarrow> clean C r \<Longrightarrow> clean C (f e r)" and "clean C r"
  shows "clean C (fold f es r)"
  using assms by (induction es arbitrary: r) simp_all

lemma forbid_nothing: "\<not> bad \<Longrightarrow> forbid bad c subject detail r = r"
  by (simp add: forbid_def)

lemma fold_nothing: "(\<And>e r. e \<in> set es \<Longrightarrow> f e r = r) \<Longrightarrow> fold f es r = r"
  by (induction es) simp_all

subsection \<open>The tallies\<close>

lemma length_filter_entries:
  assumes "om_ok m"
  shows "length (filter P (map snd m)) = card {k. \<exists>r. om_get m k = Some r \<and> P r}"
proof -
  have "{k. \<exists>r. om_get m k = Some r \<and> P r} = set (map fst (filter (\<lambda>e. P (snd e)) m))"
    using om_get_entries [OF assms] by force
  moreover have "distinct (map fst (filter (\<lambda>e. P (snd e)) m))"
    using om_ok_distinct [OF assms] by (simp add: om_keys_def distinct_map_filter)
  ultimately have "card {k. \<exists>r. om_get m k = Some r \<and> P r} = length (filter (\<lambda>e. P (snd e)) m)"
    by (simp add: distinct_card del: set_map)
  then show ?thesis by (simp add: filter_map comp_def)
qed

text \<open>A tally holds, under every key, the number of the records seen that count for it.\<close>

definition tally_ok :: "('k::linorder, u32) omap \<Rightarrow> (AssignmentRecord \<Rightarrow> 'k \<Rightarrow> bool)
    \<Rightarrow> AssignmentRecord list \<Rightarrow> bool" where
  "tally_ok m counts rs \<longleftrightarrow> om_ok m
     \<and> (\<forall>k. tally_of m k = of_nat (length (filter (\<lambda>r. counts r k) rs)))"

lemma tally_of_tally: "tally_of (tally k m) j = (if j = k then tally_of m k + 1 else tally_of m j)"
  by (simp add: tally_of_def tally_def)

lemma tally_ok_counted:
  "tally_ok m counts rs \<Longrightarrow> (\<And>j. counts r j \<longleftrightarrow> j = k) \<Longrightarrow> tally_ok (tally k m) counts (rs @ [r])"
  by (auto simp: tally_ok_def tally_of_tally) (simp add: tally_def)

lemma tally_ok_skipped:
  "tally_ok m counts rs \<Longrightarrow> (\<And>j. \<not> counts r j) \<Longrightarrow> tally_ok m counts (rs @ [r])"
  by (simp add: tally_ok_def)

lemma tally_ok_entry:
  assumes "tally_ok m counts rs" and "e \<in> set m"
  shows "snd e = of_nat (length (filter (\<lambda>r. counts r (fst e)) rs))"
proof -
  have "om_get m (fst e) = Some (snd e)"
    using assms om_get_entries [of m "fst e" "snd e"] by (simp add: tally_ok_def)
  then show ?thesis using assms(1) by (auto simp: tally_ok_def tally_of_def dest!: spec [of _ "fst e"])
qed

definition counts_work :: "AssignmentRecord \<Rightarrow> u64 \<Rightarrow> bool" where
  "counts_work r w \<longleftrightarrow> record_active r \<and> bn_work (ar_binding r) = w"

definition counts_exclusive :: "AssignmentRecord \<Rightarrow> u64 \<Rightarrow> bool" where
  "counts_exclusive r w \<longleftrightarrow> counts_work r w \<and> bn_exclusive (ar_binding r)"

definition counts_pair :: "AssignmentRecord \<Rightarrow> u64 \<times> u64 \<Rightarrow> bool" where
  "counts_pair r p \<longleftrightarrow> counts_work r (fst p) \<and> bn_agent (ar_binding r) = snd p"

definition tallied :: "CheckState \<Rightarrow> AssignmentRecord list \<Rightarrow> bool" where
  "tallied st rs \<longleftrightarrow> tally_ok (ck_work st) counts_work rs
     \<and> tally_ok (ck_exclusive st) counts_exclusive rs
     \<and> tally_ok (ck_work_agent st) counts_pair rs"

lemma tallied_active:
  assumes "tallied st rs" and "record_active r"
  shows "tallied (tally_active (ar_binding r) st) (rs @ [r])"
proof -
  let ?b = "ar_binding r"
  have ok: "tally_ok (ck_work st) counts_work rs" "tally_ok (ck_exclusive st) counts_exclusive rs"
    "tally_ok (ck_work_agent st) counts_pair rs" using assms(1) by (simp_all add: tallied_def)
  have "tally_ok (tally (bn_work ?b) (ck_work st)) counts_work (rs @ [r])"
    by (rule tally_ok_counted [OF ok(1)]) (use assms(2) in \<open>auto simp: counts_work_def\<close>)
  moreover have "tally_ok (tally (bn_work ?b, bn_agent ?b) (ck_work_agent st)) counts_pair (rs @ [r])"
    by (rule tally_ok_counted [OF ok(3)])
      (use assms(2) in \<open>auto simp: counts_work_def counts_pair_def prod_eq_iff\<close>)
  moreover have "tally_ok (if bn_exclusive ?b then tally (bn_work ?b) (ck_exclusive st)
      else ck_exclusive st) counts_exclusive (rs @ [r])"
  proof (cases "bn_exclusive ?b")
    case True
    have "tally_ok (tally (bn_work ?b) (ck_exclusive st)) counts_exclusive (rs @ [r])"
      by (rule tally_ok_counted [OF ok(2)])
        (use assms(2) True in \<open>auto simp: counts_work_def counts_exclusive_def\<close>)
    then show ?thesis using True by simp
  next
    case False
    then show ?thesis using tally_ok_skipped [OF ok(2), of r] by (simp add: counts_exclusive_def)
  qed
  ultimately show ?thesis by (simp add: tallied_def tally_active_def)
qed

lemma tallied_reporting [simp]: "tallied (reporting f st) rs = tallied st rs"
  by (simp add: tallied_def reporting_def)

lemma tallied_inactive: "tallied st rs \<Longrightarrow> \<not> record_active r \<Longrightarrow> tallied st (rs @ [r])"
  unfolding tallied_def
  by (auto intro!: tally_ok_skipped simp: counts_work_def counts_exclusive_def counts_pair_def)

lemma reporting_report [simp]: "ck_report (reporting f st) = f (ck_report st)"
  by (simp add: reporting_def)

lemma reporting_work [simp]: "ck_work (reporting f st) = ck_work st"
  by (simp add: reporting_def)

lemma tally_active_report [simp]: "ck_report (tally_active b st) = ck_report st"
  by (simp add: tally_active_def)

lemma tallied_assignment: "tallied st rs \<Longrightarrow> tallied (check_assignment s r st) (rs @ [r])"
  by (simp add: check_assignment_def Let_def tallied_active tallied_inactive)

subsection \<open>The invariants the model establishes\<close>

definition established :: "Invariant set" where
  "established = {ExclusiveAssignmentUniqueness, ExclusiveWorkSingleAssignment, ParallelFanoutBounded,
     AssignmentReferencesKnownWork, AssignmentReferencesKnownAgent, WorkGenerationMonotonic,
     QueueAccountingAgrees, AgentAccountingAgrees, DispatchableBootCurrent}"

text \<open>What these checks rely on.\<close>

definition checkable :: "Impl \<Rightarrow> bool" where
  "checkable s \<longleftrightarrow> core_inv s \<and> refs_ok s \<and> state_keyed s"

lemma reachable_checkable: "reachable y \<Longrightarrow> checkable (sys_impl y)"
  by (simp add: checkable_def reachable_core reachable_refs reachable_keyed)

lemma checkable_assignments: "checkable s \<Longrightarrow> om_ok (im_assignments s)"
  by (simp add: checkable_def state_keyed_maps well_keyed_def)

lemma checkable_entry:
  "checkable s \<Longrightarrow> r \<in> set (map snd (im_assignments s)) \<Longrightarrow> \<exists>k. om_get (im_assignments s) k = Some r"
  using om_get_entries [OF checkable_assignments] by auto

lemma counted_work:
  assumes "checkable s"
  shows "length (filter (\<lambda>r. counts_work r w) (map snd (im_assignments s))) = card (assignments_of_work s w)"
  unfolding length_filter_entries [OF checkable_assignments [OF assms]]
  by (simp add: active_owned_def counts_work_def)

lemma counted_pair:
  assumes "checkable s"
  shows "length (filter (\<lambda>r. counts_pair r (w, a)) (map snd (im_assignments s))) = card (held_by s w a)"
  unfolding length_filter_entries [OF checkable_assignments [OF assms]]
  by (auto simp: active_owned_def counts_work_def counts_pair_def held_by_def
      intro!: arg_cong [of _ _ card])

lemma work_fanout:
  assumes "checkable s" and "work_req s w = Some q"
  shows "card (assignments_of_work s w) \<le> unat (rq_max_parallel (wq_requirements q))"
    and "card (held_by s w a) \<le> unat (rq_max_assignments_per_agent (wq_requirements q))"
  using core_inv_fanout [of s w q] assms by (simp_all add: checkable_def fanout_bounded_def)

lemma of_nat_bounded:
  assumes "n \<le> unat (m :: u32)"
  shows "(of_nat n :: u32) \<le> m"
proof -
  have "unat m < 2 ^ LENGTH(32)" by (rule unsigned_less)
  then show ?thesis using assms by (simp add: word_le_nat_alt unat_of_nat)
qed

lemma length_filter_imp: "(\<And>x. P x \<Longrightarrow> Q x) \<Longrightarrow> length (filter P xs) \<le> length (filter Q xs)"
  by (induction xs) (auto simp: le_Suc_eq)

lemma filter_prefix:
  "xs = ys @ zs \<Longrightarrow> length (filter P ys) \<le> length (filter P xs)"
  by simp

lemma established_members [simp]:
  "ExclusiveAssignmentUniqueness \<in> established" "ExclusiveWorkSingleAssignment \<in> established"
  "ParallelFanoutBounded \<in> established" "AssignmentReferencesKnownWork \<in> established"
  "AssignmentReferencesKnownAgent \<in> established" "WorkGenerationMonotonic \<in> established"
  "QueueAccountingAgrees \<in> established" "AgentAccountingAgrees \<in> established"
  "DispatchableBootCurrent \<in> established"
  "SingleSchedulerEpoch \<notin> established" "AssignmentGenerationMonotonic \<notin> established"
  "AgentGenerationMonotonic \<notin> established" "FencedBootHasNoAuthority \<notin> established"
  "CapacityNotExceeded \<notin> established" "NoDispatchableCancelledWork \<notin> established"
  "NoWorkForRetiredAgent \<notin> established" "NoStaleAuthorityDispatchable \<notin> established"
  "RecoveredEvidenceNotCurrent \<notin> established" "LeaseDoesNotResurrect \<notin> established"
  "IndexMatchesCanonical \<notin> established" "DigestMatchesCanonical \<notin> established"
  "CountersNeverNegative \<notin> established" "ShutdownBlocksNewAssignment \<notin> established"
  "ActiveAssignmentHasCurrentLease \<notin> established" "WorkLifecycleAgrees \<notin> established"
  by (simp_all add: established_def)

subsection \<open>The loop over the assignments\<close>

lemma clean_references:
  assumes "binding_referenced s b" and "clean established r"
  shows "clean established
    (check_references b (om_get (im_work s) (bn_work b)) (om_get (im_agents s) (bn_agent b)) r)"
  using assms
  by (auto simp: check_references_def Let_def binding_referenced_def work_req_def agent_auth_def)

lemma clean_active:
  assumes "assignment_bound s r" and "clean established rep"
    and "\<And>w. om_get (im_work s) (bn_work (ar_binding r)) = Some w \<Longrightarrow>
      fanout \<le> rq_max_parallel (wq_requirements (wr_request w))"
  shows "clean established (check_active s (ar_binding r) (om_get (im_work s) (bn_work (ar_binding r)))
    agent fanout rep)"
  using assms
  by (auto simp: check_active_def Let_def assignment_bound_def work_req_def split: option.split)

lemma clean_dispatchable:
  assumes "assignment_bound s r" and "clean established rep"
  shows "clean established (check_dispatchable s (ar_binding r)
    (om_get (im_agents s) (bn_agent (ar_binding r))) rep)"
  using assms
  by (auto simp: check_dispatchable_def Let_def assignment_bound_def agent_auth_def split: option.split)

lemma tally_work_bounded:
  assumes ok: "checkable s" and parts: "map snd (im_assignments s) = rs @ qs" and t: "tallied st rs"
    and w: "om_get (im_work s) j = Some w"
  shows "tally_of (ck_work st) j \<le> rq_max_parallel (wq_requirements (wr_request w))"
proof -
  have "length (filter (\<lambda>r. counts_work r j) rs) \<le> card (assignments_of_work s j)"
    using filter_prefix [OF parts] counted_work [OF ok] by metis
  also have "\<dots> \<le> unat (rq_max_parallel (wq_requirements (wr_request w)))"
    using work_fanout(1) [OF ok] w by (simp add: work_req_def)
  finally show ?thesis
    using t of_nat_bounded by (simp add: tallied_def tally_ok_def)
qed

lemma clean_assignment:
  assumes ok: "checkable s" and parts: "map snd (im_assignments s) = rs @ r # qs"
    and t: "tallied st rs" and c: "clean established (ck_report st)"
  shows "clean established (ck_report (check_assignment s r st))"
proof -
  let ?b = "ar_binding r"
  obtain k where k: "om_get (im_assignments s) k = Some r"
    using checkable_entry [OF ok, of r] parts by auto
  have "binding_referenced s ?b" using ok k by (auto simp: checkable_def refs_ok_def)
  note refs = clean_references [OF this]
  have bound: "assignment_bound s r" if "record_active r"
    using ok k that by (auto simp: checkable_def intro: core_inv_bound)
  have active: "clean established (check_active s ?b (om_get (im_work s) (bn_work ?b)) agent
      (tally_of (ck_work (tally_active ?b st)) (bn_work ?b)) rep)"
    if "record_active r" and "clean established rep" for agent rep
    using clean_active [OF bound [OF that(1)] that(2)]
      tally_work_bounded [OF ok, of "rs @ [r]" qs] parts tallied_active [OF t that(1)] by auto
  have "ck_work (tally_active ?b (reporting f st)) = ck_work (tally_active ?b st)" for f
    by (simp add: tally_active_def)
  then show ?thesis
    using c refs active bound clean_dispatchable [OF bound]
    by (simp add: check_assignment_def Let_def assignment_state_is_dispatchable_def)
qed

lemma clean_assignments_part:
  assumes ok: "checkable s" and "clean established (ck_report st)" and "tallied st rs"
    and "map snd (im_assignments s) = rs @ qs"
  shows "clean established (ck_report (fold (check_assignment s) qs st))
    \<and> tallied (fold (check_assignment s) qs st) (rs @ qs)"
  using assms(2-)
proof (induction qs arbitrary: rs st)
  case (Cons q qs)
  then show ?case
    using clean_assignment [OF ok Cons.prems(3) Cons.prems(2)] tallied_assignment [of st rs s q]
      Cons.IH [of "check_assignment s q st" "rs @ [q]"] by simp
qed simp

lemma clean_assignments:
  assumes "checkable s" and "clean established r"
  shows "clean established (ck_report (check_assignments s r))"
    and "tallied (check_assignments s r) (map snd (im_assignments s))"
  using clean_assignments_part [of s _ "[]" "map snd (im_assignments s)"] assms
  by (simp_all add: check_assignments_def tallied_def tally_ok_def tally_of_def)

lemma clean_tallies:
  assumes ok: "checkable s" and t: "tallied st (map snd (im_assignments s))"
    and c: "clean established (ck_report st)"
  shows "clean established (check_tallies s st)"
proof -
  have exclusive: "snd e \<le> 1" if e: "e \<in> set (ck_exclusive st)" for e
  proof -
    let ?n = "length (filter (\<lambda>r. counts_exclusive r (fst e)) (map snd (im_assignments s)))"
    have "?n \<le> 1"
    proof (cases "?n = 0")
      case False
      then obtain r where r: "r \<in> set (map snd (im_assignments s))" "counts_exclusive r (fst e)"
        by (auto simp: filter_empty_conv)
      then obtain k where "om_get (im_assignments s) k = Some r" using checkable_entry [OF ok] by blast
      then have "assignment_bound s r"
        using ok r(2) core_inv_bound by (auto simp: checkable_def counts_exclusive_def counts_work_def)
      then obtain q where q: "work_req s (fst e) = Some q" "wq_mode q = SchedulingMode.Exclusive"
        using r(2) by (auto simp: assignment_bound_def Let_def counts_exclusive_def counts_work_def)
      have "?n \<le> length (filter (\<lambda>r. counts_work r (fst e)) (map snd (im_assignments s)))"
        by (rule length_filter_imp) (simp add: counts_exclusive_def)
      also have "\<dots> \<le> unat (rq_max_parallel (wq_requirements q))"
        using work_fanout(1) [OF ok q(1)] counted_work [OF ok] by simp
      also have "\<dots> = 1"
        using core_inv_reqs [of s "fst e" q] ok q by (simp add: checkable_def request_wf_def)
      finally show ?thesis .
    qed simp
    then have "(of_nat ?n :: u32) \<le> 1" using of_nat_bounded [of ?n 1] by simp
    moreover have "tally_ok (ck_exclusive st) counts_exclusive (map snd (im_assignments s))"
      using t by (simp add: tallied_def)
    note tally_ok_entry [OF this e]
    ultimately show ?thesis by simp
  qed
  have pairs: "snd e \<le> rq_max_assignments_per_agent (wq_requirements (wr_request w))"
    if e: "e \<in> set (ck_work_agent st)" and w: "om_get (im_work s) (fst (fst e)) = Some w" for e w
  proof -
    have "length (filter (\<lambda>r. counts_pair r (fst e)) (map snd (im_assignments s)))
        \<le> unat (rq_max_assignments_per_agent (wq_requirements (wr_request w)))"
      using work_fanout(2) [OF ok, of "fst (fst e)" "wr_request w" "snd (fst e)"] w
        counted_pair [OF ok, of "fst (fst e)" "snd (fst e)"] by (simp add: work_req_def)
    note of_nat_bounded [OF this]
    moreover have "tally_ok (ck_work_agent st) counts_pair (map snd (im_assignments s))"
      using t by (simp add: tallied_def)
    note tally_ok_entry [OF this e]
    ultimately show ?thesis by simp
  qed
  show ?thesis
    unfolding check_tallies_def Let_def clean_step
    by (intro conjI clean_fold)
      (use c exclusive pairs in
        \<open>simp_all add: check_exclusive_tally_def check_agent_tally_def split: option.split\<close>)
qed

subsection \<open>Work items and agents\<close>

lemma canonical_counts:
  assumes "checkable s"
  shows "canonical_active_on_work s w = of_nat (card (assignments_of_work s w))"
    and "canonical_active_on_agent s a = of_nat (card (assignments_of_agent s a))"
  unfolding canonical_active_on_work_def canonical_active_on_agent_def
    length_filter_entries [OF checkable_assignments [OF assms]]
  by (simp_all add: active_owned_def conj_commute)

lemma clean_work:
  assumes ok: "checkable s" and e: "e \<in> set (im_work s)" and c: "clean established r"
  shows "clean established (check_work s e r)"
proof -
  have "om_ok (im_work s)" using ok by (simp add: checkable_def state_keyed_maps well_keyed_def)
  then have got: "om_get (im_work s) (fst e) = Some (snd e)"
    using e om_get_entries [of "im_work s" "fst e" "snd e"] by simp
  have "work_accounted s (fst e)" using ok by (simp add: checkable_def core_inv_def accounts_ok_def)
  moreover have "request_wf (wr_request (snd e))"
    using core_inv_reqs [of s "fst e"] ok got by (simp add: checkable_def work_req_def)
  ultimately show ?thesis
    using got c canonical_counts(1) [OF ok]
    by (simp add: check_work_def Let_def work_accounted_def request_wf_def)
qed

lemma clean_agent:
  assumes ok: "checkable s" and e: "e \<in> set (im_agents s)" and c: "clean established r"
  shows "clean established (check_agent s e r)"
proof -
  have "om_ok (im_agents s)" using ok by (simp add: checkable_def state_keyed_maps well_keyed_def)
  then have got: "om_get (im_agents s) (fst e) = Some (snd e)"
    using e om_get_entries [of "im_agents s" "fst e" "snd e"] by simp
  have "agent_accounted s (fst e)" using ok by (simp add: checkable_def core_inv_def accounts_ok_def)
  then show ?thesis
    using got c canonical_counts(2) [OF ok]
    by (simp add: check_agent_def Let_def agent_accounted_def)
qed

subsection \<open>Indexes\<close>

lemma compare_index_agrees:
  assumes "om_ok ix" and "\<And>k. ix_get ix k = ix_get expected k" and "om_ok expected"
  shows "compare_index label disagrees missing ix expected r = r"
proof -
  have "snd e = ix_get expected (fst e)" if "e \<in> set ix" for e
    using om_get_entries [OF assms(1), of "fst e" "snd e"] that assms(2) [of "fst e"]
    by (simp add: ix_get_def)
  moreover have "\<not> (om_get ix (fst e) = None \<and> snd e \<noteq> {})" if "e \<in> set expected" for e
    using om_get_entries [OF assms(3), of "fst e" "snd e"] that assms(2) [of "fst e"]
    by (auto simp: ix_get_def)
  ultimately show ?thesis
    unfolding compare_index_def by (simp add: fold_nothing forbid_nothing)
qed

lemma clean_compare:
  "IndexMatchesCanonical \<notin> C \<Longrightarrow> clean C r \<Longrightarrow> clean C (compare_index label disagrees missing ix expected r)"
  unfolding compare_index_def by (intro clean_fold) simp_all

lemma clean_indexes:
  assumes "clean established r"
  shows "clean established (check_agent_indexes s r)" and "clean established (check_work_indexes s r)"
    and "clean established (check_assignment_indexes s r)"
  using assms
  by (simp_all add: check_agent_indexes_def check_work_indexes_def check_assignment_indexes_def
      Let_def clean_compare)

lemma clean_check:
  assumes "checkable s"
  shows "clean established (check_invariants s)"
proof -
  let ?start = "\<lparr> ir_violations = [], ir_checks_run = 0, ir_state_revision = im_state_revision s \<rparr>"
  have "clean established ?start" by (simp add: clean_def)
  then have 1: "clean established (check_process s ?start)" by (simp add: check_process_def)
  then have 2: "clean established (check_tallies s (check_assignments s (check_process s ?start)))"
    using clean_assignments [OF assms 1] clean_tallies [OF assms] by blast
  then show ?thesis
    unfolding check_invariants_def Let_def in_order_simps
    by (simp add: check_bounds_def check_digest_def Let_def)
      (intro clean_indexes clean_fold clean_work clean_agent assms; assumption)
qed

subsection \<open>What the indexes look up\<close>

lemma agent_filed_iff:
  assumes "agent_filed s a"
  shows "a \<in> ix_get (im_by_lifecycle s) lc \<longleftrightarrow> (\<exists>r. om_get (im_agents s) a = Some r \<and> ag_lifecycle r = lc)"
    and "a \<in> ix_get (im_by_tenant s) t \<longleftrightarrow>
      (\<exists>r. om_get (im_agents s) a = Some r \<and> ad_tenant (ag_descriptor r) = t)"
    and "a \<in> ix_get (im_by_domain s) d \<longleftrightarrow>
      (\<exists>r. om_get (im_agents s) a = Some r \<and> d \<noteq> 0 \<and> ad_placement_domain (ag_descriptor r) = d)"
    and "a \<in> ix_get (im_by_capability s) c \<longleftrightarrow> (\<exists>r. om_get (im_agents s) a = Some r \<and> c \<in> offered r)"
  using assms
  by (auto simp: agent_filed_def filed_keys_def agent_keys_def no_keys_def set_eq_iff split: option.splits)

lemma work_filed_iff:
  assumes "work_filed s w"
  shows "w \<in> ix_get (im_work_by_queue s) q \<longleftrightarrow>
      (\<exists>r. om_get (im_work s) w = Some r \<and> wq_queue (wr_request r) = q)"
    and "w \<in> ix_get (im_work_by_lifecycle s) lc \<longleftrightarrow>
      (\<exists>r. om_get (im_work s) w = Some r \<and> wr_lifecycle r = lc)"
  using assms
  by (auto simp: work_filed_def filed_work_def work_keys_def set_eq_iff split: option.splits)

lemma all_filed_agent:
  assumes "all_filed s"
  shows "ix_get (im_by_lifecycle s) lc = {a. \<exists>r. om_get (im_agents s) a = Some r \<and> ag_lifecycle r = lc}"
    and "ix_get (im_by_tenant s) t =
      {a. \<exists>r. om_get (im_agents s) a = Some r \<and> ad_tenant (ag_descriptor r) = t}"
    and "ix_get (im_by_domain s) d =
      {a. \<exists>r. om_get (im_agents s) a = Some r \<and> d \<noteq> 0 \<and> ad_placement_domain (ag_descriptor r) = d}"
    and "ix_get (im_by_capability s) c = {a. \<exists>r. om_get (im_agents s) a = Some r \<and> c \<in> offered r}"
proof -
  have "agent_filed s a" for a using assms by (simp add: filed_but_def)
  then show "ix_get (im_by_lifecycle s) lc = {a. \<exists>r. om_get (im_agents s) a = Some r \<and> ag_lifecycle r = lc}"
    "ix_get (im_by_tenant s) t =
      {a. \<exists>r. om_get (im_agents s) a = Some r \<and> ad_tenant (ag_descriptor r) = t}"
    "ix_get (im_by_domain s) d =
      {a. \<exists>r. om_get (im_agents s) a = Some r \<and> d \<noteq> 0 \<and> ad_placement_domain (ag_descriptor r) = d}"
    "ix_get (im_by_capability s) c = {a. \<exists>r. om_get (im_agents s) a = Some r \<and> c \<in> offered r}"
    by (simp_all add: set_eq_iff agent_filed_iff)
qed

lemma all_filed_work:
  assumes "all_filed s"
  shows "ix_get (im_work_by_queue s) q =
      {w. \<exists>r. om_get (im_work s) w = Some r \<and> wq_queue (wr_request r) = q}"
    and "ix_get (im_work_by_lifecycle s) lc =
      {w. \<exists>r. om_get (im_work s) w = Some r \<and> wr_lifecycle r = lc}"
proof -
  have "work_filed s w" for w using assms by (simp add: filed_but_def)
  then show "ix_get (im_work_by_queue s) q =
      {w. \<exists>r. om_get (im_work s) w = Some r \<and> wq_queue (wr_request r) = q}"
    "ix_get (im_work_by_lifecycle s) lc =
      {w. \<exists>r. om_get (im_work s) w = Some r \<and> wr_lifecycle r = lc}"
    by (simp_all add: set_eq_iff work_filed_iff)
qed

end
