(* ===== verification/Service_Properties.thy ===== *)
theory Service_Properties
  imports Checker_Facts Coordinator_Delivery Scenario
begin

section \<open>Properties of the service\<close>

text \<open>
  What holds of the scheduler as the coordinator runs it: its states are reachable states of
  the scheduler, what the checker and the indexes say of them, the assignments it hands to
  its peers, and the answers to queries.
\<close>

subsection \<open>A connected coordinator\<close>

definition demo_service :: Coordinator where
  "demo_service = new_coordinator demo0 default_coordinator_options"

definition demo_start :: StartEnvironment where
  "demo_start = \<lparr> en_network = None, en_file = None, en_listen = None, en_port = 7000 \<rparr>"

definition demo_connected :: Coordinator where
  "demo_connected = accept_connection (fst (coordinator_start demo_start demo_service))"

lemma demo_service_reachable: "coord_reachable demo_service"
  unfolding demo_service_def by (rule coord_initial [OF demo_created])

lemma demo_started_reachable: "coord_reachable (fst (coordinator_start demo_start demo_service))"
proof (rule coord_next [OF demo_service_reachable ev_start])
  show "load_at_start demo_start demo_service = (co_scheduler demo_service, None)"
    by (simp add: load_at_start_def demo_service_def new_coordinator_def default_coordinator_options_def)
qed

lemma demo_connected_reachable: "coord_reachable demo_connected"
  unfolding demo_connected_def by (rule coord_next [OF demo_started_reachable ev_accept])


subsection \<open>Properties\<close>

text \<open>C31: Whatever the coordinator does, with any number of sessions, other users of the
  scheduler, stops and restarts from saved state: its scheduler is in a reachable state, and
  every event of the coordinator is a run of the scheduler. Everything proved of reachable
  states and runs of the scheduler therefore holds of the service.\<close>

theorem coordinator_refines_scheduler:
  assumes "coord_reachable c" and "coord_step c c'"
  shows "reachable \<lparr>sys_impl = co_scheduler c, sys_pending = []\<rparr>
    \<and> leads_to \<lparr>sys_impl = co_scheduler c, sys_pending = []\<rparr>
               \<lparr>sys_impl = co_scheduler c', sys_pending = []\<rparr>"
proof -
  have reach: "reachable \<lparr>sys_impl = co_scheduler c, sys_pending = []\<rparr>"
    by (rule coord_scheduler_reachable [OF assms(1)])
  then have "drives c c'" using coord_step_drives [OF assms(2)] reachable_core [OF reach] by simp
  then show ?thesis using reach sections_leads by (simp add: drives_def)
qed

theorem coordinator_refines_scheduler_witness:
  "leads_to \<lparr>sys_impl = co_scheduler demo_connected, sys_pending = []\<rparr>
     \<lparr>sys_impl = co_scheduler (fst (stop_sessions demo_connected)), sys_pending = []\<rparr>"
  using coordinator_refines_scheduler [OF demo_connected_reachable ev_stop] by blast



text \<open>The answer to a query of any kind is a JSON text of the grammar of RFC 8259, and
  it is the text of the document the query asks for, whatever strings the peers supplied.\<close>

theorem query_answers_are_json:
  "json_text (query_document build q s) (query_json build q s)"
  by (rule query_json_text)

text \<open>C33: In a reachable state the invariant checker never reports a second exclusive
  assignment, an exceeded fan-out, an assignment without its work item or agent, a work
  generation that went back, a counter that disagrees, or a dispatchable assignment of a
  replaced incarnation.\<close>

theorem checker_confirms_authority:
  assumes "reachable y"
  shows "iv_code ` set (ir_violations (check_invariants (sys_impl y)))
    \<inter> {ExclusiveAssignmentUniqueness, ExclusiveWorkSingleAssignment, ParallelFanoutBounded,
        AssignmentReferencesKnownWork, AssignmentReferencesKnownAgent, WorkGenerationMonotonic,
        QueueAccountingAgrees, AgentAccountingAgrees, DispatchableBootCurrent} = {}"
  using clean_check [OF reachable_checkable [OF assms]] unfolding clean_def established_def .

theorem checker_confirms_authority_witness:
  "om_get (im_assignments demo6) demo_key \<noteq> None
    \<and> ParallelFanoutBounded \<notin> iv_code ` set (ir_violations (check_invariants demo6))"
  using checker_confirms_authority [OF demo_reachable6] demo6_assignment by auto

text \<open>C34: In a reachable state every index agrees with a scan of the records: agents by
  lifecycle, tenant, placement domain and offered capability, work items by queue and
  lifecycle, active assignments by agent and by work item.\<close>

theorem indexes_agree_with_scan:
  assumes "reachable y"
  shows "(let s = sys_impl y in
    (\<forall>k. ix_get (im_by_lifecycle s) k = {a. \<exists>r. om_get (im_agents s) a = Some r \<and> ag_lifecycle r = k})
    \<and> (\<forall>k. ix_get (im_by_tenant s) k = {a. \<exists>r. om_get (im_agents s) a = Some r \<and> ad_tenant (ag_descriptor r) = k})
    \<and> (\<forall>k. ix_get (im_by_domain s) k = {a. \<exists>r. om_get (im_agents s) a = Some r
          \<and> k \<noteq> 0 \<and> ad_placement_domain (ag_descriptor r) = k})
    \<and> (\<forall>k. ix_get (im_by_capability s) k = {a. \<exists>r. om_get (im_agents s) a = Some r \<and> k \<in> offered r})
    \<and> (\<forall>k. ix_get (im_work_by_queue s) k = {w. \<exists>r. om_get (im_work s) w = Some r \<and> wq_queue (wr_request r) = k})
    \<and> (\<forall>k. ix_get (im_work_by_lifecycle s) k = {w. \<exists>r. om_get (im_work s) w = Some r \<and> wr_lifecycle r = k})
    \<and> (\<forall>a. ix_get (im_by_agent s) a = assignments_of_agent s a)
    \<and> (\<forall>w. ix_get (im_by_work s) w = assignments_of_work s w))"
proof -
  note agents = all_filed_agent [OF reachable_filed [OF assms]]
  note work = all_filed_work [OF reachable_filed [OF assms]]
  have "indexes_ok (sys_impl y)"
    using core_inv_accounts [OF reachable_core [OF assms]] by (simp add: accounts_ok_def)
  then show ?thesis
    by (simp add: Let_def agents work indexes_ok_def index_matches_def)
qed

theorem indexes_agree_with_scan_witness:
  "demo_key \<in> ix_get (im_by_work demo6) 9"
  using indexes_agree_with_scan [OF demo_reachable6] demo6_owned(1) by (simp add: Let_def)

end
