(* ===== verification/Client_Properties.thy ===== *)
theory Client_Properties
  imports Agent_Client Service_Properties
begin

section \<open>Properties of the clients\<close>


definition demo_client :: ControlClient where
  "demo_client = (new_control_client
     \<lparr> kc_host = ''127.0.0.1'', kc_port = 7000, kc_limits = default_limits, kc_protocol_version = 1 \<rparr>)\<lparr>cc_valid := True\<rparr>"

lemma demo_client_sel [simp]:
  "client_wf demo_client" "cc_valid demo_client" "pending (cc_decoder demo_client) = []"
  "cc_limits demo_client = default_limits" "kc_protocol_version (cc_options demo_client) = 1"
  "cc_next_correlation demo_client = 1"
  by (simp_all add: demo_client_def new_control_client_def client_wf_def)


subsection \<open>Queries\<close>

lemma encoded_query: "\<exists>p. encode_query l m [] = Inr p \<and> length p = 50"
  by (simp add: encode_query_def put_hash128_def put_u16_def put_u64_def)

lemma decoded_query:
  "encode_query l m [] = Inr p \<Longrightarrow> decode_request l MessageType.Query p = Inr (Some (QueryRequest m))"
  by (simp add: decode_request_def decode_encoded [OF query_format.wire_format_axioms TrueI])

lemma query_queued:
  assumes "talking cc c sid" and "encode_query (cc_limits cc) m [] = Inr q"
    and "encode_query_result (cc_limits cc)
           \<lparr> qrm_kind = qm_kind m, qrm_json = query_json build m (co_scheduler c) \<rparr> [] = Inr p"
    and "length p \<le> unat (max_payload_size (cc_limits cc))" and "length p \<le> unat (max_frame_size (cc_limits cc))"
  shows "queued (on_frame others build sid (sealed (client_frame MessageType.Query q cc)) c) sid
    = [frame_bytes ((make_frame MessageType.QueryResult (cc_next_correlation cc))\<lparr>fr_payload := p\<rparr>)]"
proof -
  let ?l = "cc_limits cc" and ?n = "cc_next_correlation cc"
  let ?f = "(make_frame MessageType.QueryResult ?n)\<lparr>fr_payload := p\<rparr>"
  let ?c = "c\<lparr>co_frames_processed := co_frames_processed c + 1\<rparr>"
  have talk: "co_limits c = ?l" "listening c sid" using assms(1) by (simp_all add: talking_def)
  have "handle_request others build sid ?n (QueryRequest m) ?c = (send_frame sid ?f ?c, None)"
    using assms(3,4) talk(1) by (simp add: handle_query_def answer_def encode_message_Inr)
  then have "on_frame others build sid (sealed (client_frame MessageType.Query q cc)) c = send_frame sid ?f ?c"
    using talk decoded_query [OF assms(2)]
    by (intro handle_decoded [where r = "QueryRequest m" and t = MessageType.Query]) (auto simp: listening_def)
  then show ?thesis
    using queued_answer [of ?c sid ?f] talk assms(5) by (simp add: listening_def)
qed

text \<open>C37: A query of a connected control client returns the text of the document the query
  asks for in the state of the scheduler: the frame the client writes is decoded by the
  coordinator as this query, its answer is queued for the session, and the client, reading it
  in pieces of any size, returns its JSON.\<close>

theorem query_answered:
  assumes "talking cc c sid" and "50 \<le> unat (max_frame_size (cc_limits cc))"
    and "encode_query_result (cc_limits cc)
           \<lparr> qrm_kind = qm_kind m, qrm_json = query_json build m (co_scheduler c) \<rparr> [] = Inr p"
    and "length p \<le> unat (max_payload_size (cc_limits cc))" and "length p \<le> unat (max_frame_size (cc_limits cc))"
    and "client_query m \<lparr> cx_reads = map Inr chunks, cx_write_error = None, cx_written = [] \<rparr> cc = (cx', cc', r)"
    and "concat chunks = concat (queued (served others build sid (concat (cx_written cx')) c) sid)"
    and "[] \<notin> set chunks"
  shows "r = Inr (None, Some (query_json build m (co_scheduler c)))"
proof -
  let ?l = "cc_limits cc"
  let ?x = "\<lparr> qrm_kind = qm_kind m, qrm_json = query_json build m (co_scheduler c) \<rparr>"
  let ?f = "(make_frame MessageType.QueryResult (cc_next_correlation cc))\<lparr>fr_payload := p\<rparr>"
  obtain q where q: "encode_query ?l m [] = Inr q" "length q = 50" using encoded_query by blast
  have run: "exchange MessageType.Query q ''query'' (\<lambda>e. (e, None)) (query_reply ?l)
      \<lparr> cx_reads = map Inr chunks, cx_write_error = None, cx_written = [] \<rparr> cc = (cx', cc', r)"
    using assms(1,6) q(1) by (simp add: client_query_def talking_def)
  note handled = query_queued [OF assms(1) q(1) assms(3-5), of others]
  have r: "r = Inr (query_reply ?l (sealed ?f))"
    by (rule talking_exchange [OF assms(1) _ _ _ _ run assms(7,8) handled])
      (use assms(2,5) q(2) in \<open>simp_all add: acceptable_answer\<close>)
  have fits: "query_result_fits ?l ?x"
    using assms(3) by (auto simp: encode_query_result_def query_result_fits_def put_string_def
        put_u16_def split: if_splits)
  have "frame_message_type (sealed ?f) = Some MessageType.QueryResult"
    by (rule frame_message_type_code) simp
  then show ?thesis
    using decode_encoded [OF query_result_format.wire_format_axioms fits assms(3)]
    by (simp add: r query_reply_def)
qed

definition demo_build :: Build where
  "demo_build = \<lparr> bu_debug = False, bu_compiler = ''cxx'' \<rparr>"

definition demo_version_query :: QueryMessage where
  "demo_version_query = \<lparr> qm_kind = QueryKind.Version, qm_agent = 0, qm_boot = hash128_zero,
     qm_work = 0, qm_assignment = hash128_zero \<rparr>"

lemma demo_talking: "talking demo_client demo_connected 1"
proof -
  have load: "load_at_start demo_start demo_service = (demo0, None)"
    by (simp add: load_at_start_def demo_service_def new_coordinator_def default_coordinator_options_def)
  have limits: "co_limits demo_service = default_limits"
    by (simp add: demo_service_def new_coordinator_def demo0_def make_impl_def start_def demo_options_def
        bump_revision_def)
  have "im_running demo0" by (simp add: demo0_def make_impl_def start_def bump_revision_def demo_options_def)
  then have "fst (coordinator_start demo_start demo_service)
      = demo_service\<lparr>co_scheduler := demo0, co_port := 7000, co_running := True, co_notifier := True\<rparr>"
    using load by (simp add: coordinator_start_def demo_start_def start_def)
      (simp add: demo_service_def new_coordinator_def)
  then have eq: "demo_connected = demo_service\<lparr>co_scheduler := demo0, co_port := 7000, co_running := True,
      co_notifier := True, co_next_session_id := 2,
      co_sessions := [(1, new_session 1 (session_options_of demo_service))]\<rparr>"
    using limits by (simp add: demo_connected_def accept_connection_def connection_count_def Let_def
        default_limits_def om_emplace_def)
      (simp add: demo_service_def new_coordinator_def session_options_of_def)
  have options: "co_limits demo_connected = default_limits" unfolding eq using limits by simp
  have found: "om_get (co_sessions demo_connected) 1 = Some (new_session 1 (session_options_of demo_service))"
    unfolding eq by simp
  show ?thesis
    using options found limits
    by (simp add: talking_def listening_def protocol_version_def new_session_def session_options_of_def)
      (simp add: default_limits_def)
qed

lemma demo_version: "length (query_json demo_build demo_version_query s) \<le> 1000"
  by (simp add: query_json_def query_document_def demo_version_query_def) code_simp

theorem query_answered_witness:
  "\<exists>reads cx' cc'. client_query demo_version_query
     \<lparr> cx_reads = reads, cx_write_error = None, cx_written = [] \<rparr> demo_client
     = (cx', cc', Inr (None, Some (query_json demo_build demo_version_query (co_scheduler demo_connected))))"
proof -
  let ?l = "default_limits" and ?c = demo_connected
  let ?json = "query_json demo_build demo_version_query (co_scheduler ?c)"
  obtain q where q: "encode_query ?l demo_version_query [] = Inr q" "length q = 50" using encoded_query by blast
  obtain p where p: "encode_query_result ?l \<lparr> qrm_kind = qm_kind demo_version_query, qrm_json = ?json \<rparr> [] = Inr p"
    "length p \<le> 1010"
    using demo_version [of "co_scheduler ?c"]
    by (simp add: encode_query_result_def put_string_def put_u16_def put_u32_def default_limits_def)
  let ?g = "client_frame MessageType.Query q demo_client"
  let ?chunks = "queued (served (\<lambda>s. s) demo_build 1 (frame_bytes ?g) ?c) 1"
  have small: "length p \<le> unat (max_payload_size ?l)" "length p \<le> unat (max_frame_size ?l)"
    "50 \<le> unat (max_frame_size ?l)"
    using p(2) by (simp_all add: default_limits_def)
  have ok: "acceptable (max_frame_size (co_limits ?c)) (ucast protocol_version) ?g"
    using demo_talking q(2) small(3) by (simp add: acceptable_def talking_def del: message_type_code.simps)
  have "?chunks = [frame_bytes ((make_frame MessageType.QueryResult 1)\<lparr>fr_payload := p\<rparr>)]"
    using query_queued [OF demo_talking, of demo_version_query q demo_build p "\<lambda>s. s"] q(1) p(1) small
    by (simp add: served_frame [OF ok])
  then have chunks: "[] \<notin> set ?chunks" by simp
  obtain cx' cc' r where run: "client_query demo_version_query
      \<lparr> cx_reads = map Inr ?chunks, cx_write_error = None, cx_written = [] \<rparr> demo_client = (cx', cc', r)"
    by (rule prod_cases3)
  have "cx_written cx' = [frame_bytes ?g]"
    using run q exchange_spec [of demo_client q "\<lparr> cx_reads = map Inr ?chunks, cx_write_error = None, cx_written = [] \<rparr>"
        MessageType.Query "''query''" "\<lambda>e. (e, None)" "query_reply ?l"] small(3)
    by (auto simp: client_query_def)
  then have "r = Inr (None, Some ?json)"
    using query_answered [OF demo_talking, of demo_version_query demo_build p ?chunks cx' cc' r "\<lambda>s. s"]
      p(1) small run chunks by simp
  then show ?thesis using run by blast
qed

subsection \<open>Assignments\<close>

lemma encoded_binding: "length buffer \<le> 100 \<Longrightarrow> \<exists>p. encode_binding l b buffer = Inr (buffer @ p) \<and> length p = 261"
  by (simp add: encode_binding_def put_hash128_def put_u64_def put_u32_def put_bool_def put_u8_def)

lemma encoded_reports:
  assumes "16 \<le> unat (max_string_size l)" and "r \<in> set (assignment_reports options m)"
  shows "request_fits l r \<and> (\<exists>p. encode_request l r [] = Inr p \<and> length p \<le> 512)"
proof -
  obtain p where p: "encode_binding l (awm_binding m) [] = Inr p" "length p = 261"
    using encoded_binding [of "[]"] by auto
  show ?thesis
    using assms p
    by (auto simp: assignment_reports_def Let_def ack_fits_def observation_fits_def encode_ack_def
        encode_observation_def put_bool_def put_u8_def put_string_def put_u32_def text_bytes_def split: if_splits)
qed

text \<open>C38: An agent that acknowledges and completes automatically answers an assignment the
  coordinator pushes with exactly three frames, in this order, behind what it had queued: an
  accepted acknowledgement, the start and the completion of the work, each carrying the
  binding it was handed, and the coordinator decodes them as these requests.\<close>

theorem agent_answers_assignment:
  assumes "encode_message MessageType.AssignWork 0 (encode_assign (ac_limits a) m) (ac_limits a) = Inr f"
    and "assign_fits (ac_limits a) m" and "on_assignment m = None"
    and "ao_auto_ack (ac_options a)" and "ao_auto_complete (ac_options a)"
    and "agent_ready 3 a" and "16 \<le> unat (max_string_size (ac_limits a))"
    and "512 \<le> unat (max_frame_size (ac_limits a))"
  shows "let a' = agent_on_frame on_assignment (sealed f) a; b = awm_binding m in
    ac_assignments a' = ac_assignments a @ [m]
    \<and> (\<exists>bs. agent_queue a' = agent_queue a @ bs \<and> list_all2 (frame_of (ac_limits a))
         [AssignmentAckRequest \<lparr> akm_binding = b, akm_accepted = True, akm_reason = ''accepted'' \<rparr>,
          WorkStartedRequest \<lparr> aom_binding = b, aom_reason = ''started'' \<rparr>,
          WorkCompletedRequest \<lparr> aom_binding = b, aom_reason = ''completed'' \<rparr>] bs)"
proof -
  let ?rs = "assignment_reports (ac_options a) m"
  let ?a = "a\<lparr>ac_frames_handled := ac_frames_handled a + 1, ac_assignments := ac_assignments a @ [m]\<rparr>"
  obtain p where p: "encode_assign (ac_limits a) m [] = Inr p"
    "f = (make_frame MessageType.AssignWork 0)\<lparr>fr_payload := p\<rparr>"
    using assms(1) by (auto simp: encode_message_def split: sum.splits if_splits)
  have t: "frame_message_type (sealed f) = Some MessageType.AssignWork"
    by (rule frame_message_type_code) (simp add: p(2))
  have handled: "agent_on_frame on_assignment (sealed f) a = report_all ?rs ?a"
    using decode_encoded [OF assign_format.wire_format_axioms assms(2) p(1)] t assms(3)
    by (simp add: agent_on_frame_def agent_handle_frame_def carries_result_def handle_assignment_def p(2))
  have three: "?rs = [AssignmentAckRequest \<lparr> akm_binding = awm_binding m, akm_accepted = True, akm_reason = ''accepted'' \<rparr>,
      WorkStartedRequest \<lparr> aom_binding = awm_binding m, aom_reason = ''started'' \<rparr>,
      WorkCompletedRequest \<lparr> aom_binding = awm_binding m, aom_reason = ''completed'' \<rparr>]"
    using assms(4,5) by (simp add: assignment_reports_def Let_def)
  have "length ?rs = 3" by (simp add: three)
  then have ready: "agent_ready (length ?rs) ?a" using assms(6) by (simp only: agent_ready_def) simp
  have sizes: "\<forall>r\<in>set ?rs. request_fits (ac_limits ?a) r \<and> (\<exists>p. encode_request (ac_limits ?a) r [] = Inr p
      \<and> length p \<le> unat (max_frame_size (ac_limits ?a)) \<and> length p \<le> 2 ^ 30)"
    using encoded_reports [OF assms(7)] assms(8) by fastforce
  obtain bs where "agent_queue (report_all ?rs ?a) = agent_queue ?a @ bs"
    "list_all2 (frame_of (ac_limits ?a)) ?rs bs"
    using report_all_queued [OF ready sizes] by blast
  moreover have "ac_assignments (report_all rs x) = ac_assignments x" for rs x
    by (induction rs arbitrary: x)
      (auto simp: report_def agent_enqueue_def case_prod_beta Let_def split: sum.splits option.splits)
  ultimately show ?thesis unfolding handled Let_def three [symmetric] by (auto simp: agent_queue_def)
qed

definition demo_agent_client :: AgentClient where
  "demo_agent_client = (new_agent_client
     \<lparr> ao_host = ''127.0.0.1'', ao_port = 7000, ao_descriptor = demo_descriptor, ao_profile = demo_profile, ao_health = demo_health,
       ao_availability = demo_availability, ao_load = plm_observation default_publish_load, ao_limits = default_limits,
       ao_auto_ack = True, ao_auto_complete = True, ao_simulated_work_ms = 0,
       ao_run_duration_ms = 0, ao_heartbeat_interval_ms = 1000 \<rparr>)
     \<lparr>ac_session := Some (new_session 1 default_session_options)\<rparr>"

theorem agent_answers_assignment_witness:
  "\<exists>f. length (agent_queue (agent_on_frame (\<lambda>m. None) (sealed f) demo_agent_client)) = 3"
proof -
  let ?m = "\<lparr> awm_binding = demo_binding, awm_kind = ''k'', awm_payload_ref = [] \<rparr>"
  obtain p where p: "encode_binding default_limits demo_binding [] = Inr p" "length p = 261"
    using encoded_binding [of "[]"] by auto
  have l: "ac_limits demo_agent_client = default_limits" "ao_auto_ack (ac_options demo_agent_client)"
    "ao_auto_complete (ac_options demo_agent_client)" "agent_ready 3 demo_agent_client"
    "agent_queue demo_agent_client = []"
    by (simp_all add: demo_agent_client_def new_agent_client_def agent_ready_def agent_queue_def
        new_session_def default_session_options_def default_limits_def)
  obtain f where f: "encode_message MessageType.AssignWork 0 (encode_assign default_limits ?m) default_limits = Inr f"
    using p by (simp add: encode_message_def encode_assign_def put_string_def put_u32_def text_bytes_def
        default_limits_def)
  have "assign_fits default_limits ?m" by (simp add: assign_fits_def default_limits_def)
  moreover have "16 \<le> unat (max_string_size default_limits)" "512 \<le> unat (max_frame_size default_limits)"
    by (simp_all add: default_limits_def)
  ultimately obtain bs where bs: "agent_queue (agent_on_frame (\<lambda>m. None) (sealed f) demo_agent_client)
      = agent_queue demo_agent_client @ bs"
    "list_all2 (frame_of default_limits)
         [AssignmentAckRequest \<lparr> akm_binding = demo_binding, akm_accepted = True, akm_reason = ''accepted'' \<rparr>,
          WorkStartedRequest \<lparr> aom_binding = demo_binding, aom_reason = ''started'' \<rparr>,
          WorkCompletedRequest \<lparr> aom_binding = demo_binding, aom_reason = ''completed'' \<rparr>] bs"
    using agent_answers_assignment [of demo_agent_client ?m f "\<lambda>m. None"] f l by (auto simp: Let_def)
  have "length bs = 3" using list_all2_lengthD [OF bs(2)] by simp
  then show ?thesis using bs(1) l(5) by (intro exI [of _ f]) simp
qed

end
