(* ===== verification/Command_Line.thy ===== *)
theory Command_Line
  imports Json_Writer Sched_Digest
begin

section \<open>Command lines (tools/cli_support.hpp)\<close>

text \<open>
  The argument parser of the tools, its numbers and its identifiers. What the parser of numbers
  accepts is stated against the value of a numeral.
\<close>

unbundle bit_operations_syntax

subsection \<open>Arguments\<close>

record Args =
  ar_entries :: "(string \<times> string) list"
  ar_positional :: "string list"

definition is_option :: "string \<Rightarrow> bool" where
  "is_option argument \<longleftrightarrow> take 2 argument = ''--''"

definition add_entry :: "string \<Rightarrow> string \<Rightarrow> Args \<Rightarrow> Args" where
  "add_entry name v a = a\<lparr>ar_entries := ar_entries a @ [(name, v)]\<rparr>"

fun parse_arguments :: "string list \<Rightarrow> Args \<Rightarrow> Args" where
  "parse_arguments [] a = a"
| "parse_arguments [argument] a =
     (if \<not> is_option argument then a\<lparr>ar_positional := ar_positional a @ [argument]\<rparr>
      else if CHR ''='' \<in> set argument
      then add_entry (drop 2 (takeWhile (\<lambda>c. c \<noteq> CHR ''='') argument))
             (drop 1 (dropWhile (\<lambda>c. c \<noteq> CHR ''='') argument)) a
      else add_entry (drop 2 argument) [] a)"
| "parse_arguments (argument # follower # rest) a =
     (if \<not> is_option argument
      then parse_arguments (follower # rest) (a\<lparr>ar_positional := ar_positional a @ [argument]\<rparr>)
      else if CHR ''='' \<in> set argument
      then parse_arguments (follower # rest)
             (add_entry (drop 2 (takeWhile (\<lambda>c. c \<noteq> CHR ''='') argument))
                (drop 1 (dropWhile (\<lambda>c. c \<noteq> CHR ''='') argument)) a)
      else if \<not> is_option follower then parse_arguments rest (add_entry (drop 2 argument) follower a)
      else parse_arguments (follower # rest) (add_entry (drop 2 argument) [] a))"

text \<open>The first argument is the name of the program.\<close>

definition parse_argv :: "string list \<Rightarrow> Args" where
  "parse_argv argv = parse_arguments (drop 1 argv) \<lparr> ar_entries = [], ar_positional = [] \<rparr>"

definition has_arg :: "Args \<Rightarrow> string \<Rightarrow> bool" where
  "has_arg a name \<longleftrightarrow> name \<in> fst ` set (ar_entries a)"

definition arg_value :: "Args \<Rightarrow> string \<Rightarrow> string option" where
  "arg_value a name = map_of (ar_entries a) name"

definition arg_values :: "Args \<Rightarrow> string \<Rightarrow> string list" where
  "arg_values a name = map snd (filter (\<lambda>e. fst e = name) (ar_entries a))"

definition arg_text :: "Args \<Rightarrow> string \<Rightarrow> string \<Rightarrow> string" where
  "arg_text a name fallback = (case arg_value a name of None \<Rightarrow> fallback | Some v \<Rightarrow> v)"

lemma has_arg_value: "has_arg a name \<longleftrightarrow> arg_value a name \<noteq> None"
  by (simp add: has_arg_def arg_value_def map_of_eq_None_iff)

lemma arg_value_first: "arg_value a name = (case arg_values a name of [] \<Rightarrow> None | v # _ \<Rightarrow> Some v)"
proof -
  have "map_of es name = (case map snd (filter (\<lambda>e. fst e = name) es) of [] \<Rightarrow> None | v # _ \<Rightarrow> Some v)"
    for es :: "(string \<times> string) list"
    by (induction es) auto
  then show ?thesis by (simp add: arg_value_def arg_values_def)
qed

subsection \<open>Numbers\<close>

definition digit_value :: "nat \<Rightarrow> char \<Rightarrow> nat option" where
  "digit_value base c =
     (let b = of_char c :: nat;
          digit = (if 48 \<le> b \<and> b \<le> 57 then Some (b - 48)
                   else if base = 16 \<and> 97 \<le> b \<and> b \<le> 102 then Some (b - 97 + 10)
                   else if base = 16 \<and> 65 \<le> b \<and> b \<le> 70 then Some (b - 65 + 10)
                   else None)
      in case digit of None \<Rightarrow> None | Some d \<Rightarrow> if d \<ge> base then None else Some d)"

fun parse_digits :: "nat \<Rightarrow> string \<Rightarrow> u64 \<Rightarrow> u64 option" where
  "parse_digits base [] v = Some v"
| "parse_digits base (c # cs) v =
     (case digit_value base c of None \<Rightarrow> None
      | Some d \<Rightarrow> if v > (0xFFFFFFFFFFFFFFFF - of_nat d) div of_nat base then None
                  else parse_digits base cs (v * of_nat base + of_nat d))"

definition hex_prefixed :: "string \<Rightarrow> bool" where
  "hex_prefixed t \<longleftrightarrow> length t > 2 \<and> t ! 0 = CHR ''0'' \<and> (t ! 1 = CHR ''x'' \<or> t ! 1 = CHR ''X'')"

definition parse_u64 :: "string \<Rightarrow> u64 option" where
  "parse_u64 t =
     (if t = [] then None
      else if hex_prefixed t then parse_digits 16 (drop 2 t) 0 else parse_digits 10 t 0)"

definition arg_number :: "Args \<Rightarrow> string \<Rightarrow> u64 \<Rightarrow> u64" where
  "arg_number a name fallback =
     (case arg_value a name of None \<Rightarrow> fallback
      | Some v \<Rightarrow> case parse_u64 v of None \<Rightarrow> fallback | Some n \<Rightarrow> n)"

definition parse_hash128 :: "string \<Rightarrow> Hash128 option" where
  "parse_hash128 t =
     (if length t \<noteq> 32 then None
      else case (parse_u64 (''0x'' @ take 16 t), parse_u64 (''0x'' @ drop 16 t)) of
        (Some high, Some low) \<Rightarrow> Some (Hash128 high low)
      | _ \<Rightarrow> None)"

subsection \<open>What the parser of numbers accepts\<close>

text \<open>The value of a numeral, without any bound.\<close>

fun numeral_value :: "nat \<Rightarrow> string \<Rightarrow> nat \<Rightarrow> nat option" where
  "numeral_value base [] n = Some n"
| "numeral_value base (c # cs) n =
     (case digit_value base c of None \<Rightarrow> None | Some d \<Rightarrow> numeral_value base cs (n * base + d))"

lemma numeral_grows: "1 \<le> base \<Longrightarrow> numeral_value base cs n = Some m \<Longrightarrow> n \<le> m"
proof (induction cs arbitrary: n)
  case (Cons c cs)
  then obtain d where "numeral_value base cs (n * base + d) = Some m"
    by (auto split: option.splits)
  then have "n * base + d \<le> m" using Cons by blast
  moreover have "n \<le> n * base" using Cons.prems(1) by (cases base) auto
  ultimately show ?case by linarith
qed simp

lemma digit_below: "digit_value base c = Some d \<Longrightarrow> d < base"
  by (auto simp: digit_value_def Let_def split: if_splits option.splits)

lemma digit_step:
  fixes v :: u64
  assumes "d < base" and "base \<le> 16"
  shows "(v > (0xFFFFFFFFFFFFFFFF - of_nat d) div of_nat base) \<longleftrightarrow> 2 ^ 64 \<le> unat v * base + d"
    and "unat v * base + d < 2 ^ 64 \<Longrightarrow> unat (v * of_nat base + of_nat d) = unat v * base + d"
proof -
  have d: "unat (of_nat d :: u64) = d" and b: "unat (of_nat base :: u64) = base"
    using assms by (simp_all add: unsigned_of_nat take_bit_nat_eq_self)
  have "unat (0xFFFFFFFFFFFFFFFF - of_nat d :: u64) = 2 ^ 64 - 1 - d"
    using assms d by (subst unat_sub) (simp_all add: word_le_nat_alt)
  then have "v > (0xFFFFFFFFFFFFFFFF - of_nat d) div of_nat base \<longleftrightarrow> (2 ^ 64 - 1 - d) div base < unat v"
    by (simp add: word_less_nat_alt unat_div_distrib b)
  also have "\<dots> \<longleftrightarrow> 2 ^ 64 - 1 - d < unat v * base"
    using assms by (subst div_less_iff_less_mult) auto
  also have "\<dots> \<longleftrightarrow> 2 ^ 64 \<le> unat v * base + d" using assms by auto
  finally show "(v > (0xFFFFFFFFFFFFFFFF - of_nat d) div of_nat base) \<longleftrightarrow> 2 ^ 64 \<le> unat v * base + d" .
  assume small: "unat v * base + d < 2 ^ 64"
  have "unat (v * of_nat base) = unat v * base"
    using small b by (subst unat_mult_lem [THEN iffD1]) simp_all
  then show "unat (v * of_nat base + of_nat d) = unat v * base + d"
    using small d by (subst unat_add_lem [THEN iffD1]) simp_all
qed

lemma parse_digits_exact:
  assumes "1 \<le> base" and "base \<le> 16"
  shows "parse_digits base cs v =
    (case numeral_value base cs (unat v) of None \<Rightarrow> None
     | Some n \<Rightarrow> if n < 2 ^ 64 then Some (of_nat n) else None)"
proof (induction cs arbitrary: v)
  case Nil
  show ?case using unsigned_less [where 'a = nat, of v] by simp
next
  case (Cons c cs)
  show ?case
  proof (cases "digit_value base c")
    case (Some d)
    note step = digit_step [OF digit_below [OF Some] assms(2), of v]
    show ?thesis
    proof (cases "2 ^ 64 \<le> unat v * base + d")
      case True
      moreover have "2 ^ 64 \<le> n" if "numeral_value base cs (unat v * base + d) = Some n" for n
        using numeral_grows [OF assms(1) that] True by linarith
      ultimately show ?thesis using Some step(1) by (auto split: option.splits)
    next
      case False
      then show ?thesis using Some step Cons by simp
    qed
  qed simp
qed

text \<open>The parser of numbers, without the loop: a non-empty numeral, hexadecimal behind 0x, whose
  value fits 64 bits.\<close>

lemma parse_u64_exact:
  "parse_u64 t =
     (if t = [] then None
      else case (if hex_prefixed t then numeral_value 16 (drop 2 t) 0 else numeral_value 10 t 0) of
        None \<Rightarrow> None | Some n \<Rightarrow> if n < 2 ^ 64 then Some (of_nat n) else None)"
  unfolding parse_u64_def using parse_digits_exact [of 16] parse_digits_exact [of 10] by simp

subsection \<open>Printed numbers are read back\<close>

lemma numeral_append:
  "numeral_value base (cs @ ds) n = Option.bind (numeral_value base cs n) (numeral_value base ds)"
  by (induction cs arbitrary: n) (auto split: option.splits)

lemma below_sixteen: "d < 16 \<Longrightarrow> d \<in> {0, 1, 2, 3, 4, 5, 6, 7, 8, 9, 10, 11, 12, 13, 14, 15 :: nat}"
  unfolding insert_iff empty_iff by presburger

lemma decimal_digit: "d < 10 \<Longrightarrow> digit_value 10 (''0123456789'' ! d) = Some d"
  using below_sixteen [of d] by (auto simp: digit_value_def)

lemma hex_digit_value: "d < 16 \<Longrightarrow> digit_value 16 (hex_digit d) = Some d"
  using below_sixteen [of d] by (auto simp: digit_value_def hex_digit_def)

lemma numeral_decimal: "numeral_value 10 (decimal n) 0 = Some n"
proof (induction n rule: decimal.induct)
  case (1 n)
  show ?case
    using 1 decimal_digit [of "n mod 10"] decimal_digit [of n]
    by (subst decimal.simps) (simp add: numeral_append)
qed

lemma numeral_bytes:
  "numeral_value 16 (to_hex bs) n = Some (foldl (\<lambda>n b. n * 256 + unat b) n bs)"
proof (induction bs arbitrary: n)
  case (Cons b bs)
  have "b AND 0xF = take_bit 4 b" "drop_bit 4 b AND 0xF = take_bit 4 (drop_bit 4 b)"
    by (simp_all add: take_bit_eq_mask mask_eq_exp_minus_1)
  then have "unat (drop_bit 4 b AND 0xF) = unat b div 16" "unat (b AND 0xF) = unat b mod 16"
    using unsigned_less [where 'a = nat, of b]
    by (simp_all add: unsigned_take_bit_eq drop_bit_eq_div unat_div_distrib take_bit_nat_def)
  then show ?case
    using Cons hex_digit_value [of "unat b div 16"] hex_digit_value [of "unat b mod 16"]
      unsigned_less [where 'a = nat, of b]
    by (simp add: to_hex_def numeral_append mult.commute add.commute)
qed (simp add: to_hex_def)

lemma byte_below:
  fixes v :: u64
  shows "unat (ucast (drop_bit k v AND 0xFF) :: u8) = unat v div 2 ^ k mod 256"
proof -
  have "drop_bit k v AND 0xFF = take_bit 8 (drop_bit k v)" by (simp add: take_bit_eq_mask mask_eq_exp_minus_1)
  moreover have "unat (drop_bit k v) = unat v div 2 ^ k"
    unfolding unsigned_drop_bit_eq using unsigned_less [where 'a = nat, of v]
    by (simp add: drop_bit_eq_div take_bit_nat_eq_self)
  ultimately show ?thesis
    by (simp add: unsigned_ucast_eq unsigned_take_bit_eq take_bit_nat_def)
qed

lemma bytes_value: "foldl (\<lambda>n b. n * 256 + unat b) 0 (be_bytes64 v) = unat v"
proof -
  have step: "unat v div 2 ^ (k + 8) * 256 + unat v div 2 ^ k mod 256 = unat v div 2 ^ k" for k
    by (simp add: power_add div_mult2_eq)
  have top: "unat v div 2 ^ 64 = 0" using unsigned_less [where 'a = nat, of v] by simp
  have "foldl (\<lambda>n b. n * 256 + unat b) 0 (be_bytes64 v)
      = foldl (\<lambda>n k. n * 256 + unat v div 2 ^ k mod 256) (unat v div 2 ^ 64) [56, 48, 40, 32, 24, 16, 8, 0]"
    using top by (simp add: be_bytes64_def upt_rec byte_below byte_below [of 0 v, simplified])
  also have "\<dots> = unat v"
    using step [of 56] step [of 48] step [of 40] step [of 32] step [of 24] step [of 16] step [of 8] step [of 0]
    by simp
  finally show ?thesis .
qed

lemma length_to_hex [simp]: "length (to_hex bs) = 2 * length bs"
  by (induction bs) (simp_all add: to_hex_def)

lemma to_hex_append: "to_hex (bs @ cs) = to_hex bs @ to_hex cs"
  by (simp add: to_hex_def)

lemma length_bytes64: "length (be_bytes64 v) = 8"
  by (simp add: be_bytes64_def)

lemma parse_hex_word: "parse_u64 (''0x'' @ to_hex (be_bytes64 v)) = Some v"
  using unsigned_less [where 'a = nat, of v]
  by (simp add: parse_u64_exact hex_prefixed_def numeral_bytes bytes_value length_bytes64)

text \<open>An identifier copied from any output of the service is accepted by the tools.\<close>

lemma printed_hash_read: "parse_hash128 (hash128_to_string h) = Some h"
  by (simp add: parse_hash128_def hash128_to_string_def to_hex_append length_bytes64 parse_hex_word [simplified])

lemma decimal_prefix: "\<not> hex_prefixed (decimal n)"
proof -
  have digits: "set (decimal n) \<subseteq> set ''0123456789''"
  proof (induction n rule: decimal.induct)
    case (1 n)
    have "''0123456789'' ! d \<in> set ''0123456789''" if "d < 10" for d by (rule nth_mem) (use that in simp)
    then show ?case using 1 by (subst decimal.simps) auto
  qed
  have "decimal n ! 1 \<in> set ''0123456789''" if "length (decimal n) > 2"
    by (rule subsetD [OF digits]) (use that in simp)
  then show ?thesis by (auto simp: hex_prefixed_def)
qed

lemma printed_number_read: "n < 2 ^ 64 \<Longrightarrow> parse_u64 (decimal n) = Some (of_nat n)"
  by (simp add: parse_u64_exact decimal_prefix numeral_decimal)

end
