(* ===== verification/Synthetic.thy ===== *)
theory Synthetic
  imports Coordinator_Facts Snapshots Invariant_Checker "HOL-Library.State_Monad"
begin

section \<open>The synthetic laboratory (synthetic.cpp)\<close>

text \<open>
  A deterministic generator of agents and work and a driver that runs a scheduler on them. The
  random generator is a state monad over its 64 bit state, so the order of the draws is that of
  the code; the driver is a state monad over the scheduler, the generator and the report.
\<close>

unbundle bit_operations_syntax

subsection \<open>Random numbers\<close>

type_synonym 'a random = "(u64, 'a) state"

definition random_next :: "u64 random" where
  "random_next = State (\<lambda>s.
     let s' = s + 0x9E3779B97F4A7C15;
         v1 = (s' XOR drop_bit 30 s') * 0xBF58476D1CE4E5B9;
         v2 = (v1 XOR drop_bit 27 v1) * 0x94D049BB133111EB
     in (v2 XOR drop_bit 31 v2, s'))"

definition next_bounded :: "u32 \<Rightarrow> u32 random" where
  "next_bounded bound =
     (if bound = 0 then State_Monad.return 0
      else do { v \<leftarrow> random_next; State_Monad.return (ucast (v mod ucast bound)) })"

definition next_percent :: "u32 \<Rightarrow> bool random" where
  "next_percent percent =
     (if percent = 0 then State_Monad.return False
      else if percent \<ge> 100 then State_Monad.return True
      else do { v \<leftarrow> next_bounded 100; State_Monad.return (v < percent) })"

text \<open>The double k / 2^53 for k below 2^53, as its bit pattern; the division is exact.\<close>

definition unit_double :: "nat \<Rightarrow> u64" where
  "unit_double k =
     (if k = 0 then 0
      else let e = bit_length (int k) - 1
           in of_nat ((970 + e) * 2 ^ 52 + (k * 2 ^ (52 - e) - 2 ^ 52)))"

definition next_unit :: "u64 random" where
  "next_unit = do { v \<leftarrow> random_next; State_Monad.return (unit_double (unat (drop_bit 11 v))) }"

subsection \<open>Populations\<close>

record SyntheticConfig =
  sc_seed :: u64
  sc_agent_count :: u32
  sc_queue_count :: u32
  sc_tenant_count :: u32
  sc_work_count :: u32
  sc_capability_density :: u32
  sc_min_concurrency :: u32
  sc_max_concurrency :: u32
  sc_priority_levels :: u32
  sc_placement_domains :: u32
  sc_policy_generations :: u32
  sc_agent_death_percent :: u32
  sc_reincarnation_percent :: u32
  sc_capability_churn_percent :: u32
  sc_stale_evidence_percent :: u32
  sc_health_degradation_percent :: u32
  sc_availability_change_percent :: u32
  sc_affinity_percent :: u32
  sc_anti_affinity_percent :: u32
  sc_infeasible_resource_percent :: u32
  sc_infeasible_budget_percent :: u32
  sc_infeasible_slo_percent :: u32
  sc_arrival_burst :: u32
  sc_require_external_feasibility :: bool
  sc_capability_pool :: u32

text \<open>The member initializers of SyntheticConfig.\<close>

definition default_synthetic_config :: SyntheticConfig where
  "default_synthetic_config =
     \<lparr> sc_seed = 1, sc_agent_count = 8, sc_queue_count = 4, sc_tenant_count = 2, sc_work_count = 64,
       sc_capability_density = 4, sc_min_concurrency = 1, sc_max_concurrency = 4,
       sc_priority_levels = 4, sc_placement_domains = 2, sc_policy_generations = 1,
       sc_agent_death_percent = 0, sc_reincarnation_percent = 0, sc_capability_churn_percent = 0,
       sc_stale_evidence_percent = 0, sc_health_degradation_percent = 0,
       sc_availability_change_percent = 0, sc_affinity_percent = 0, sc_anti_affinity_percent = 0,
       sc_infeasible_resource_percent = 0, sc_infeasible_budget_percent = 0,
       sc_infeasible_slo_percent = 0, sc_arrival_burst = 1,
       sc_require_external_feasibility = False, sc_capability_pool = 12 \<rparr>"

record SyntheticPopulation =
  sp_queues :: "u64 list"
  sp_tenants :: "u64 list"
  sp_agents :: "AgentDescriptor list"
  sp_profiles :: "CapabilityProfile list"
  sp_work :: "WorkRequest list"
  sp_policy :: PolicySnapshot
  sp_config :: SyntheticConfig
  sp_agent_capabilities :: "string list list"

definition derive_hash :: "u64 \<Rightarrow> u64 \<Rightarrow> u64 \<Rightarrow> Hash128" where
  "derive_hash seed kind index = hash128_of (hasher_final
     (update_u64 index (update_u64 seed (update_field_tag (ucast (kind AND 0xFF)) hasher_init))))"

definition verdict_from :: "u32 \<Rightarrow> bool \<Rightarrow> FeasibilityVerdict random" where
  "verdict_from infeasible_percent required =
     (if \<not> required then State_Monad.return FeasibilityVerdict.Unknown
      else do { bad \<leftarrow> next_percent infeasible_percent;
                State_Monad.return (if bad then FeasibilityVerdict.Infeasible
                                    else FeasibilityVerdict.Feasible) })"

definition capability_name :: "u32 \<Rightarrow> string" where
  "capability_name index = ''cap:'' @ decimal (unat index)"

definition synthetic_policy :: PolicySnapshot where
  "synthetic_policy = default_policy\<lparr>po_id := 1, po_generation := 1,
     ranking_weights := default_ranking_weights,
     fairness_class_weights := default_fairness_class_weights, max_priority_bypass := 8,
     aging_rounds_per_step := 1, starvation_alert_rounds := 32\<rparr>"

definition at_least_one :: "u32 \<Rightarrow> u32" where
  "at_least_one n = (if n < 1 then 1 else n)"

text \<open>n draws of a capability name, sorted and without repetitions.\<close>

definition draw_names :: "u32 \<Rightarrow> u32 \<Rightarrow> string list random" where
  "draw_names pool n = do {
     names \<leftarrow> State_Monad.traverse_list
       (\<lambda>_. do { v \<leftarrow> next_bounded pool; State_Monad.return (capability_name v) }) [0..<unat n];
     State_Monad.return (canonicalize_strings names) }"

definition element :: "'a list \<Rightarrow> nat \<Rightarrow> 'a" where
  "element xs i = xs ! (i mod length xs)"

definition generate_descriptor ::
    "SyntheticConfig \<Rightarrow> u64 list \<Rightarrow> nat \<Rightarrow> AgentDescriptor random" where
  "generate_descriptor c tenants i =
     (let low = at_least_one (sc_min_concurrency c);
          high = (if sc_max_concurrency c < low then low else sc_max_concurrency c);
          d = default_descriptor\<lparr>ad_id := of_nat (i + 1), ad_generation := 1,
            ad_boot := derive_hash (sc_seed c) 1 (of_nat i), ad_registration_generation := 1,
            ad_tenant := element tenants i, ad_name_space := 1,
            ad_display_name := ''synthetic-agent-'' @ decimal i, ad_policy_labels := [''synthetic''],
            ad_lease_ttl_ms := 600000, ad_provenance := ''synthetic-laboratory''\<rparr>;
          d' = (if sc_placement_domains c > 0
                then d\<lparr>ad_placement_domain := 1 + of_nat (i mod unat (at_least_one (sc_placement_domains c))),
                       ad_topology_epoch := 1\<rparr>
                else d)
      in do { v \<leftarrow> next_bounded (high - low + 1);
              State_Monad.return (d'\<lparr>ad_max_concurrency := low + v\<rparr>) })"

definition generate_evidence :: "AgentDescriptor \<Rightarrow> string \<Rightarrow> CapabilityEvidence random" where
  "generate_evidence d name = do {
     v \<leftarrow> next_bounded 601;
     State_Monad.return \<lparr> ce_name = name, ce_state = CapabilityState.Observed, ce_quality = 400 + v,
       ce_generation = 1, ce_boot = ad_boot d, ce_observed_at_ms = 0, ce_provenance = ''synthetic'' \<rparr> }"

definition generate_agent ::
    "SyntheticConfig \<Rightarrow> u64 list \<Rightarrow> nat \<Rightarrow> (AgentDescriptor \<times> CapabilityProfile \<times> string list) random" where
  "generate_agent c tenants i = do {
     d \<leftarrow> generate_descriptor c tenants i;
     names \<leftarrow> draw_names (at_least_one (sc_capability_pool c)) (at_least_one (sc_capability_density c));
     evidence \<leftarrow> State_Monad.traverse_list (generate_evidence d) names;
     State_Monad.return (d, \<lparr> cp_profile_id = of_nat (i + 1), cp_generation = 1, cp_boot = ad_boot d,
       cp_capabilities = evidence \<rparr>, names) }"

text \<open>An agent of the population, if there is one: the guard every random event ends with.\<close>

definition strikes :: "u32 \<Rightarrow> AgentDescriptor list \<Rightarrow> bool random" where
  "strikes percent agents =
     (if percent = 0 then State_Monad.return False
      else do { hit \<leftarrow> next_percent percent; State_Monad.return (hit \<and> agents \<noteq> []) })"

definition pick_agent :: "AgentDescriptor list \<Rightarrow> AgentDescriptor random" where
  "pick_agent agents = do {
     v \<leftarrow> next_bounded (of_nat (length agents));
     State_Monad.return (agents ! unat v) }"

definition synthetic_requirement :: "string \<Rightarrow> CapabilityRequirement" where
  "synthetic_requirement name =
     \<lparr> cr_name = name, cr_mode = CapabilityRequirementMode.Required,
       cr_minimum_state = CapabilityState.Observed, cr_minimum_quality = 0 \<rparr>"

definition generate_affinity ::
    "SyntheticConfig \<Rightarrow> AgentDescriptor list \<Rightarrow> WorkRequirements \<Rightarrow> WorkRequirements random" where
  "generate_affinity c agents r = do {
     near \<leftarrow> strikes (sc_affinity_percent c) agents;
     r1 \<leftarrow> (if near
            then do { d \<leftarrow> pick_agent agents;
                      State_Monad.return (r\<lparr>rq_affinity := rq_affinity r @ [ad_id d]\<rparr>) }
            else State_Monad.return r);
     far \<leftarrow> strikes (sc_anti_affinity_percent c) agents;
     if far
     then do { d \<leftarrow> pick_agent agents;
               State_Monad.return (if ad_id d \<in> set (rq_affinity r1) then r1
                 else r1\<lparr>rq_anti_affinity := rq_anti_affinity r1 @ [ad_id d]\<rparr>) }
     else State_Monad.return r1 }"

definition generate_placement :: "SyntheticConfig \<Rightarrow> WorkRequirements \<Rightarrow> WorkRequirements random" where
  "generate_placement c r =
     (if sc_placement_domains c > 1
      then do {
        pinned \<leftarrow> next_percent 10;
        if pinned
        then do { v \<leftarrow> next_bounded (sc_placement_domains c);
                  State_Monad.return (r\<lparr>rq_restrict_placement_domain := True,
                    rq_placement_domain := ucast (1 + v), rq_topology_epoch := 1\<rparr>) }
        else State_Monad.return r }
      else State_Monad.return r)"

definition generate_feasibility :: "SyntheticConfig \<Rightarrow> WorkRequirements \<Rightarrow> WorkRequirements random" where
  "generate_feasibility c r =
     (if sc_require_external_feasibility c
      then do {
        resource \<leftarrow> verdict_from (sc_infeasible_resource_percent c) True;
        budget \<leftarrow> verdict_from (sc_infeasible_budget_percent c) True;
        slo \<leftarrow> verdict_from (sc_infeasible_slo_percent c) True;
        State_Monad.return (r\<lparr>rq_require_resource_feasibility := True, rq_resource_generation := 1,
          rq_resource_feasibility := resource, rq_require_budget_feasibility := True,
          rq_budget_generation := 1, rq_budget_feasibility := budget,
          rq_require_slo_feasibility := True, rq_slo_generation := 1,
          rq_slo_feasibility := slo\<rparr>) }
      else State_Monad.return r)"

definition generate_work ::
    "SyntheticConfig \<Rightarrow> u64 list \<Rightarrow> u64 list \<Rightarrow> AgentDescriptor list \<Rightarrow> nat \<Rightarrow> WorkRequest random" where
  "generate_work c queues tenants agents i =
     (let levels = at_least_one (sc_priority_levels c) in do {
       step \<leftarrow> next_bounded levels;
       cls \<leftarrow> next_bounded 3;
       extra \<leftarrow> next_bounded (at_least_one (sc_capability_density c));
       names \<leftarrow> draw_names (at_least_one (sc_capability_pool c)) (1 + extra);
       r1 \<leftarrow> generate_affinity c agents (default_requirements\<lparr>
             rq_tenant := element tenants i, rq_name_space := 1,
             rq_required_policy_labels := [''synthetic''], rq_require_healthy := True,
             rq_require_reachable := True, rq_require_ready := True, rq_require_current_lease := True,
             rq_capabilities := map synthetic_requirement names\<rparr>);
       r2 \<leftarrow> generate_placement c r1;
       r3 \<leftarrow> generate_feasibility c r2;
       State_Monad.return (canonicalize_work (default_work_request\<lparr>
         wq_id := of_nat (i + 1), wq_generation := 1, wq_queue := element queues i,
         wq_queue_generation := 1, wq_kind := ''synthetic'',
         wq_priority := 1000 * (levels - 1 - step) div (if levels = 1 then 1 else levels - 1),
         wq_fairness_class := [''interactive'', ''default'', ''batch''] ! unat cls,
         wq_mode := SchedulingMode.Exclusive, wq_requirements := r3\<rparr>)) })"

definition first_ids :: "u32 \<Rightarrow> u64 list" where
  "first_ids n = map (\<lambda>i. of_nat (i + 1)) [0..<unat (at_least_one n)]"

definition generate_population :: "SyntheticConfig \<Rightarrow> SyntheticPopulation random" where
  "generate_population c =
     (let queues = first_ids (sc_queue_count c); tenants = first_ids (sc_tenant_count c) in do {
       agents \<leftarrow> State_Monad.traverse_list (generate_agent c tenants) [0..<unat (sc_agent_count c)];
       work \<leftarrow> State_Monad.traverse_list (generate_work c queues tenants (map fst agents))
              [0..<unat (sc_work_count c)];
       State_Monad.return \<lparr> sp_queues = queues, sp_tenants = tenants, sp_agents = map fst agents,
         sp_profiles = map (fst \<circ> snd) agents, sp_work = work, sp_policy = synthetic_policy,
         sp_config = c, sp_agent_capabilities = map (snd \<circ> snd) agents \<rparr> })"

definition generate :: "SyntheticConfig \<Rightarrow> SyntheticPopulation" where
  "generate c = fst (run_state (generate_population c) (sc_seed c))"

subsection \<open>The driver\<close>

record RunReport =
  rn_agents_registered :: nat
  rn_work_admitted :: nat
  rn_assignments :: nat
  rn_deferred :: nat
  rn_rejected :: nat
  rn_starved :: nat
  rn_agent_deaths :: nat
  rn_reincarnations :: nat
  rn_rounds :: nat
  rn_final_state_digest :: Digest256
  rn_invariants :: InvariantReport

record LabRun =
  lb_impl :: Impl
  lb_random :: u64
  lb_report :: RunReport

type_synonym 'a lab = "(LabRun, 'a) state"

text \<open>A call of the scheduler, after whatever other threads do; a read of it; a draw; a count.\<close>

definition call :: "(Impl \<Rightarrow> Impl) \<Rightarrow> (Impl \<Rightarrow> Impl \<times> 'a) \<Rightarrow> 'a lab" where
  "call others f = State (\<lambda>s. let (impl, r) = f (others (lb_impl s)) in (r, s\<lparr>lb_impl := impl\<rparr>))"

definition look_up :: "(Impl \<Rightarrow> Impl) \<Rightarrow> (Impl \<Rightarrow> 'a) \<Rightarrow> 'a lab" where
  "look_up others f = call others (\<lambda>impl. (impl, f impl))"

definition roll :: "'a random \<Rightarrow> 'a lab" where
  "roll m = State (\<lambda>s. let (v, r) = run_state m (lb_random s) in (v, s\<lparr>lb_random := r\<rparr>))"

definition update_report :: "(RunReport \<Rightarrow> RunReport) \<Rightarrow> unit lab" where
  "update_report f = State (\<lambda>s. ((), s\<lparr>lb_report := f (lb_report s)\<rparr>))"

definition update_report_if :: "bool \<Rightarrow> (RunReport \<Rightarrow> RunReport) \<Rightarrow> unit lab" where
  "update_report_if b f = (if b then update_report f else State_Monad.return ())"

definition healthy_now :: HealthObservation where
  "healthy_now = default_health\<lparr>ho_generation := 1, ho_health := AgentHealth.Healthy,
     ho_health_quality := 900\<rparr>"

definition available_now :: AvailabilityObservation where
  "available_now = default_availability\<lparr>ao_generation := 1,
     ao_availability := AgentAvailability.Available, ao_reachability := AgentReachability.Reachable,
     ao_readiness := AgentReadiness.Ready\<rparr>"

definition introduce ::
    "(Impl \<Rightarrow> Impl) \<Rightarrow> AgentDescriptor \<times> CapabilityProfile \<Rightarrow> unit lab" where
  "introduce others a = (case a of (d, profile) \<Rightarrow> do {
     e \<leftarrow> call others (register_agent others d);
     update_report_if (e = None) (\<lambda>r. r\<lparr>rn_agents_registered := rn_agents_registered r + 1\<rparr>);
     call others (publish_capabilities (ad_id d) (ad_boot d) profile);
     call others (publish_health (ad_id d) (ad_boot d) healthy_now);
     call others (publish_availability (ad_id d) (ad_boot d) available_now);
     latency \<leftarrow> roll (next_bounded 500);
     cost \<leftarrow> roll next_unit;
     headroom \<leftarrow> roll next_unit;
     call others (publish_load (ad_id d) (ad_boot d) (default_load\<lparr>lo_generation := 1,
       lo_max_concurrency := ad_max_concurrency d,
       lo_estimated_dispatch_latency_ms := ucast (1 + latency), lo_cost_index := cost,
       lo_slo_headroom_fraction := headroom\<rparr>));
     State_Monad.return () })"

definition admit :: "(Impl \<Rightarrow> Impl) \<Rightarrow> WorkRequest \<Rightarrow> unit lab" where
  "admit others q = do {
     e \<leftarrow> call others (submit_work others q);
     update_report_if (e = None) (\<lambda>r. r\<lparr>rn_work_admitted := rn_work_admitted r + 1\<rparr>) }"

definition lab_request :: ScheduleRequest where
  "lab_request = \<lparr> sr_work = [], sr_queues = [], sr_max_assignments = 16, sr_dry_run = False \<rparr>"

definition schedule_round :: "(Impl \<Rightarrow> Impl) \<Rightarrow> unit lab" where
  "schedule_round others = do {
     b \<leftarrow> call others (schedule_batch lab_request);
     update_report (\<lambda>r. r\<lparr>rn_assignments := rn_assignments r + bd_assigned b,
                  rn_deferred := rn_deferred r + bd_deferred b,
                  rn_rejected := rn_rejected r + bd_rejected b,
                  rn_rounds := rn_rounds r + 1\<rparr>) }"

definition agent_death :: "(Impl \<Rightarrow> Impl) \<Rightarrow> SyntheticConfig \<Rightarrow> AgentDescriptor list \<Rightarrow> unit lab" where
  "agent_death others c agents = do {
     hit \<leftarrow> roll (strikes (sc_agent_death_percent c) agents);
     if hit
     then do {
       victim \<leftarrow> roll (pick_agent agents);
       e \<leftarrow> call others (declare_agent_lost others (ad_id victim) (ad_boot victim) ''synthetic loss'');
       update_report_if (e = None) (\<lambda>r. r\<lparr>rn_agent_deaths := rn_agent_deaths r + 1\<rparr>) }
     else State_Monad.return () }"

definition reborn_profile :: "u64 \<Rightarrow> Hash128 \<Rightarrow> string list \<Rightarrow> CapabilityProfile" where
  "reborn_profile agent boot names =
     \<lparr> cp_profile_id = agent, cp_generation = 1, cp_boot = boot,
       cp_capabilities = map (\<lambda>name. \<lparr> ce_name = name, ce_state = CapabilityState.Observed,
         ce_quality = 500, ce_generation = 1, ce_boot = boot, ce_observed_at_ms = 0,
         ce_provenance = [] \<rparr>) names \<rparr>"

definition replacement_of :: "u64 \<Rightarrow> u32 \<Rightarrow> u64 \<Rightarrow> AgentDescriptor \<Rightarrow> AgentDescriptor" where
  "replacement_of seed turn generation base =
     base\<lparr>ad_generation := generation + 1,
          ad_boot := derive_hash seed 2 (ucast (turn * 1000) + ad_id base),
          ad_registration_generation := 1\<rparr>"

definition reincarnation ::
    "(Impl \<Rightarrow> Impl) \<Rightarrow> SyntheticPopulation \<Rightarrow> u32 \<Rightarrow> unit lab" where
  "reincarnation others p turn = do {
     hit \<leftarrow> roll (strikes (sc_reincarnation_percent (sp_config p)) (sp_agents p));
     if hit
     then do {
       base \<leftarrow> roll (pick_agent (sp_agents p));
       status \<leftarrow> look_up others (\<lambda>impl. agent_status impl (ad_id base));
       (case status of None \<Rightarrow> State_Monad.return ()
        | Some st \<Rightarrow>
            let d = replacement_of (sc_seed (sp_config p)) turn (ast_generation st) base in do {
            e \<leftarrow> call others (register_agent others d);
            if e = None
            then do {
              call others (publish_capabilities (ad_id base) (ad_boot d)
                (reborn_profile (ad_id base) (ad_boot d)
                   (sp_agent_capabilities p ! unat (ad_id base - 1))));
              call others (publish_health (ad_id base) (ad_boot d) healthy_now);
              call others (publish_availability (ad_id base) (ad_boot d) available_now);
              update_report (\<lambda>r. r\<lparr>rn_reincarnations := rn_reincarnations r + 1\<rparr>) }
            else State_Monad.return () }) }
     else State_Monad.return () }"

definition health_degradation ::
    "(Impl \<Rightarrow> Impl) \<Rightarrow> SyntheticConfig \<Rightarrow> AgentDescriptor list \<Rightarrow> unit lab" where
  "health_degradation others c agents = do {
     hit \<leftarrow> roll (strikes (sc_health_degradation_percent c) agents);
     if hit
     then do {
       victim \<leftarrow> roll (pick_agent agents);
       status \<leftarrow> look_up others (\<lambda>impl. agent_status impl (ad_id victim));
       (case status of None \<Rightarrow> State_Monad.return ()
        | Some st \<Rightarrow> do {
            call others (publish_health (ad_id victim) (ast_boot st)
              (default_health\<lparr>ho_generation := ast_health_generation st + 1,
                 ho_health := AgentHealth.Degraded, ho_health_quality := 400\<rparr>));
            State_Monad.return () }) }
     else State_Monad.return () }"

definition availability_change ::
    "(Impl \<Rightarrow> Impl) \<Rightarrow> SyntheticConfig \<Rightarrow> AgentDescriptor list \<Rightarrow> unit lab" where
  "availability_change others c agents = do {
     hit \<leftarrow> roll (strikes (sc_availability_change_percent c) agents);
     if hit
     then do {
       victim \<leftarrow> roll (pick_agent agents);
       status \<leftarrow> look_up others (\<lambda>impl. agent_status impl (ad_id victim));
       (case status of None \<Rightarrow> State_Monad.return ()
        | Some st \<Rightarrow> do {
            up \<leftarrow> roll (next_percent 50);
            call others (publish_availability (ad_id victim) (ast_boot st)
              (default_availability\<lparr>ao_generation := ast_availability_generation st + 1,
                 ao_availability := (if up then AgentAvailability.Available
                                     else AgentAvailability.Unavailable),
                 ao_reachability := AgentReachability.Reachable,
                 ao_readiness := (if up then AgentReadiness.Ready else AgentReadiness.NotReady)\<rparr>));
            State_Monad.return () }) }
     else State_Monad.return () }"

definition lab_round :: "(Impl \<Rightarrow> Impl) \<Rightarrow> SyntheticPopulation \<Rightarrow> nat \<Rightarrow> unit lab" where
  "lab_round others p turn = do {
     schedule_round others;
     agent_death others (sp_config p) (sp_agents p);
     reincarnation others p (of_nat turn);
     health_degradation others (sp_config p) (sp_agents p);
     availability_change others (sp_config p) (sp_agents p) }"

definition conclude :: "(Impl \<Rightarrow> Impl) \<Rightarrow> unit lab" where
  "conclude others = do {
     f \<leftarrow> look_up others fairness;
     digest \<leftarrow> look_up others compute_state_digest;
     report \<leftarrow> look_up others check_invariants;
     update_report (\<lambda>r. r\<lparr>rn_starved := unat (fn_starved_count f), rn_final_state_digest := digest,
                  rn_invariants := report\<rparr>) }"

definition whole_run :: "(Impl \<Rightarrow> Impl) \<Rightarrow> SyntheticPopulation \<Rightarrow> u32 \<Rightarrow> unit lab" where
  "whole_run others p rounds = do {
     call others (set_policy (sp_policy p));
     State_Monad.traverse_list (introduce others) (zip (sp_agents p) (sp_profiles p));
     State_Monad.traverse_list (admit others) (sp_work p);
     State_Monad.traverse_list (lab_round others p) [0..<unat rounds];
     conclude others }"

definition empty_report :: RunReport where
  "empty_report = \<lparr> rn_agents_registered = 0, rn_work_admitted = 0, rn_assignments = 0,
     rn_deferred = 0, rn_rejected = 0, rn_starved = 0, rn_agent_deaths = 0, rn_reincarnations = 0,
     rn_rounds = 0, rn_final_state_digest = replicate 32 0,
     rn_invariants = \<lparr> ir_violations = [], ir_checks_run = 0, ir_state_revision = 0 \<rparr> \<rparr>"

definition lab_start :: "SyntheticConfig \<Rightarrow> Impl \<Rightarrow> LabRun" where
  "lab_start c impl = \<lparr> lb_impl = impl, lb_random = sc_seed c XOR 0xA5A5A5A5A5A5A5A5,
     lb_report = empty_report \<rparr>"

definition run_lab :: "(Impl \<Rightarrow> Impl) \<Rightarrow> SyntheticConfig \<Rightarrow> u32 \<Rightarrow> Impl \<Rightarrow> Impl \<times> RunReport" where
  "run_lab others c rounds impl =
     (let s = snd (run_state (whole_run others (generate c) rounds) (lab_start c impl))
      in (lb_impl s, lb_report s))"

end
