(* ===== verification/Inspect_Tool.thy ===== *)
theory Inspect_Tool
  imports Command_Line Queries State_Files Synthetic
begin

section \<open>The inspection tool (tools/agent_scheduler_inspect.cpp)\<close>

text \<open>
  The documents the tool prints and its main function: from the arguments, the files of the disk
  and what the system calls answer to the exit code and the text of the two output streams. None
  is the end of the process by an exception nobody catches.
\<close>

subsection \<open>Output\<close>

record ToolResult =
  tr_exit :: nat
  tr_out :: string
  tr_err :: string

text \<open>What printf makes of a C string, and a line of output.\<close>

definition c_str :: "string \<Rightarrow> string" where
  "c_str s = takeWhile (\<lambda>c. c \<noteq> CHR 0x00) s"

definition output_line :: "string \<Rightarrow> string" where
  "output_line s = c_str s @ [CHR 0x0A]"

definition printed :: "string \<Rightarrow> ToolResult" where
  "printed s = \<lparr> tr_exit = 0, tr_out = s, tr_err = [] \<rparr>"

definition refused :: "nat \<Rightarrow> string \<Rightarrow> ToolResult" where
  "refused code s = \<lparr> tr_exit = code, tr_out = [], tr_err = s \<rparr>"

definition version_line :: "Build \<Rightarrow> string" where
  "version_line build = c_str product_name @ '' '' @ output_line (build_info build)"

definition inspect_help :: string where
  "inspect_help = concat (map (\<lambda>l. l @ [CHR 0x0A])
     [''agent_scheduler_inspect - inspect Agent Scheduler state'', [],
      ''usage: agent_scheduler_inspect [options]'', [],
      ''  --state <path>        durable state file to inspect'',
      ''  --validate            validate the file header and check invariants'',
      ''  --summary             scheduler summary'',
      ''  --agents              agent records'',
      ''  --queues              queue and work accounting'',
      ''  --assignments         assignment records'',
      ''  --leases              lease records'',
      ''  --fenced              fenced incarnations'',
      ''  --capabilities        capability evidence'',
      ''  --fairness            fairness accounting'',
      ''  --invariants          invariant report'',
      ''  --policy              active policy'',
      ''  --synthetic           build a deterministic synthetic population'',
      ''  --seed <n>            synthetic seed (default 1)'',
      ''  --agents-count <n>    synthetic agent count (default 32)'',
      ''  --work-count <n>      synthetic work count (default 128)'',
      ''  --rounds <n>          synthetic scheduling rounds (default 4)'',
      ''  --json                emit deterministic JSON'',
      ''  --version             print version and exit'',
      ''  --help                print this help and exit''])"

definition describe_recovery :: "RecoveryResult \<Rightarrow> string" where
  "describe_recovery r =
     (case rv_error r of Some e \<Rightarrow> describe_error e
      | None \<Rightarrow> ''RECOVERED format='' @ decimal (unat (rv_format_version r))
          @ '' scheduler_epoch='' @ decimal (unat (rv_new_scheduler_epoch r))
          @ '' coordinator_epoch='' @ decimal (unat (rv_new_coordinator_epoch r))
          @ '' agents='' @ decimal (rv_agents_loaded r) @ '' work='' @ decimal (rv_work_loaded r)
          @ '' assignments='' @ decimal (rv_assignments_loaded r)
          @ '' revalidation_required='' @ decimal (rv_assignments_requiring_revalidation r)
          @ '' leases_invalidated='' @ decimal (rv_leases_invalidated r)
          @ '' fenced='' @ decimal (rv_fenced_boots_loaded r)
          @ '' digest='' @ to_hex (rv_computed_digest r))"

subsection \<open>Documents\<close>

definition render_summary :: "SchedulerSummary \<Rightarrow> Json" where
  "render_summary s = JObject
     [(''scheduler_id'', JString (id_to_string (su_scheduler_id s))),
      (''scheduler_epoch'', JWord (su_scheduler_epoch s)),
      (''coordinator_epoch'', JWord (su_coordinator_epoch s)),
      (''policy_id'', JString (id_to_string (su_policy s))),
      (''policy_generation'', JWord (su_policy_generation s)),
      (''running'', JBool (su_running s)), (''admission_open'', JBool (su_admission_open s)),
      (''shutting_down'', JBool (su_shutting_down s)), (''agents'', JNat (su_agent_count s)),
      (''queues'', JNat (su_queue_count s)), (''work_admitted'', JNat (su_work_admitted s)),
      (''work_assigned'', JNat (su_work_assigned s)),
      (''work_executing'', JNat (su_work_executing s)),
      (''work_completed'', JNat (su_work_completed s)),
      (''work_cancelled'', JNat (su_work_cancelled s)),
      (''active_assignments'', JNat (su_active_assignments s)),
      (''dispatchable_assignments'', JNat (su_dispatchable_assignments s)),
      (''historical_assignments'', JNat (su_historical_assignments s)),
      (''current_leases'', JNat (su_current_leases s)),
      (''fenced_boots'', JNat (su_fenced_boots s)),
      (''total_capacity'', JWord (su_total_capacity s)),
      (''used_capacity'', JWord (su_used_capacity s)),
      (''scheduling_rounds'', JWord (su_scheduling_rounds s)),
      (''state_revision'', JWord (su_state_revision s)),
      (''state_digest'', JString (to_hex (su_state_digest s)))]"

definition render_agent :: "AgentStatus \<Rightarrow> Json" where
  "render_agent a = JObject
     [(''id'', JString (id_to_string (ast_id a))), (''generation'', JWord (ast_generation a)),
      (''boot'', JString (hash128_to_string (ast_boot a))),
      (''lifecycle'', JString (agent_lifecycle_to_string (ast_lifecycle a))),
      (''health'', JString (agent_health_to_string (ast_health a))),
      (''readiness'', JString (agent_readiness_to_string (ast_readiness a))),
      (''reachability'', JString (agent_reachability_to_string (ast_reachability a))),
      (''availability'', JString (agent_availability_to_string (ast_availability a))),
      (''max_concurrency'', JWord (ast_max_concurrency a)),
      (''active_assignments'', JWord (ast_active_assignments a)),
      (''available_capacity'', JWord (ast_available_capacity a)),
      (''lease_current'', JBool (ast_lease_current a)),
      (''evidence_current'', JBool (ast_evidence_current a)),
      (''capability_generation'', JWord (ast_capability_generation a)),
      (''placement_domain'', JString (id_to_string (ast_placement_domain a))),
      (''reason'', JString (ast_reason a))]"

definition render_work :: "WorkStatus \<Rightarrow> Json" where
  "render_work w = JObject
     [(''id'', JString (id_to_string (ws_id w))), (''queue'', JString (id_to_string (ws_queue w))),
      (''generation'', JWord (ws_generation w)),
      (''lifecycle'', JString (work_lifecycle_to_string (ws_lifecycle w))),
      (''priority'', JWord (ws_priority w)), (''fairness_class'', JString (ws_fairness_class w)),
      (''current_assignments'', JWord (ws_current_assignments w)),
      (''bypass_count'', JWord (ws_bypass_count w)),
      (''starvation_rounds'', JWord (ws_starvation_rounds w))]"

definition render_assignment :: "Assignment \<Rightarrow> Json" where
  "render_assignment a = (let b = ar_binding a in JObject
     [(''id'', JString (hash128_to_string (bn_id b))), (''generation'', JWord (bn_generation b)),
      (''work'', JString (id_to_string (bn_work b))),
      (''work_generation'', JWord (bn_work_generation b)),
      (''agent'', JString (id_to_string (bn_agent b))),
      (''agent_generation'', JWord (bn_agent_generation b)),
      (''boot'', JString (hash128_to_string (bn_boot b))),
      (''scheduler_epoch'', JWord (bn_scheduler_epoch b)),
      (''coordinator_epoch'', JWord (bn_coordinator_epoch b)),
      (''policy_generation'', JWord (bn_policy_generation b)),
      (''capability_generation'', JWord (bn_capability_generation b)),
      (''lease'', JString (hash128_to_string (bn_lease b))),
      (''dispatch'', JString (hash128_to_string (bn_dispatch b))),
      (''state'', JString (assignment_state_to_string (ar_state a))),
      (''invalidation'', JString (invalidation_to_string (ar_invalidation a))),
      (''lease_current'', JBool (ar_lease_current a)),
      (''replica_index'', JWord (bn_replica_index b)), (''exclusive'', JBool (bn_exclusive b)),
      (''reason'', JString (ar_reason a))])"

definition render_lease :: "Lease \<Rightarrow> Json" where
  "render_lease l = JObject
     [(''id'', JString (hash128_to_string (ls_id l))), (''generation'', JWord (ls_generation l)),
      (''assignment'', JString (hash128_to_string (ls_assignment l))),
      (''agent'', JString (id_to_string (ls_agent l))),
      (''boot'', JString (hash128_to_string (ls_boot l))), (''current'', JBool (ls_current l)),
      (''expires_at_ms'', JWord (ls_expires_at_ms l))]"

definition render_fence :: "FencedBoot \<Rightarrow> Json" where
  "render_fence f = JObject
     [(''agent'', JString (id_to_string (fb_agent f))),
      (''boot'', JString (hash128_to_string (fb_boot f))), (''generation'', JWord (fb_generation f)),
      (''reason'', JString (fb_reason f))]"

definition render_fairness_entry :: "FairnessEntry \<Rightarrow> Json" where
  "render_fairness_entry e = JObject
     [(''work'', JString (id_to_string (fe_work e))), (''queue'', JString (id_to_string (fe_queue e))),
      (''fairness_class'', JString (fe_fairness_class e)), (''priority'', JWord (fe_priority e)),
      (''effective_priority'', JInt (fe_effective_priority e)),
      (''bypass_count'', JWord (fe_bypass_count e)), (''bypass_ceiling'', JWord (fe_bypass_ceiling e)),
      (''starvation_rounds'', JWord (fe_starvation_rounds e)), (''must_run'', JBool (fe_must_run e)),
      (''starved'', JBool (fe_starved e))]"

definition render_fairness :: "FairnessSnapshot \<Rightarrow> Json" where
  "render_fairness f = JObject
     [(''bounded_starvation'', JBool (fn_bounded_starvation f)),
      (''max_priority_bypass'', JWord (fn_max_priority_bypass f)),
      (''aging_rounds_per_step'', JWord (fn_aging_rounds_per_step f)),
      (''scheduling_rounds'', JWord (fn_scheduling_rounds f)),
      (''starved'', JWord (fn_starved_count f)), (''must_run'', JWord (fn_must_run_count f)),
      (''entries'', JArray (map render_fairness_entry (fn_entries f)))]"

definition render_policy :: "PolicySnapshot \<Rightarrow> Json" where
  "render_policy p = JObject
     [(''id'', JString (id_to_string (po_id p))), (''generation'', JWord (po_generation p)),
      (''max_priority_bypass'', JWord (max_priority_bypass p)),
      (''aging_rounds_per_step'', JWord (aging_rounds_per_step p)),
      (''starvation_alert_rounds'', JWord (starvation_alert_rounds p)),
      (''allow_unbounded_starvation'', JBool (allow_unbounded_starvation p)),
      (''assignment_lease_ttl_ms'', JWord (assignment_lease_ttl_ms p)),
      (''registration_lease_ttl_ms'', JWord (registration_lease_ttl_ms p))]"

definition render_violation :: "InvariantViolation \<Rightarrow> Json" where
  "render_violation v = JObject
     [(''code'', JString (invariant_name (iv_code v))), (''subject'', JString (iv_subject v)),
      (''detail'', JString (iv_detail v))]"

definition render_invariants :: "InvariantReport \<Rightarrow> Json" where
  "render_invariants r = JObject
     [(''ok'', JBool (report_ok r)), (''checks'', JNat (ir_checks_run r)),
      (''state_revision'', JWord (ir_state_revision r)),
      (''violations'', JArray (map render_violation (ir_violations r)))]"

text \<open>The document of a loaded state: the sections the arguments ask for.\<close>

definition any_view :: "Args \<Rightarrow> bool" where
  "any_view a \<longleftrightarrow> (\<exists>name \<in> {''summary'', ''agents'', ''queues'', ''assignments'', ''leases'', ''fenced'',
     ''capabilities'', ''fairness'', ''invariants'', ''policy'', ''validate''}. has_arg a name)"

definition section_if :: "bool \<Rightarrow> string \<Rightarrow> Json \<Rightarrow> (string \<times> Json) list" where
  "section_if wanted name v = (if wanted then [(name, v)] else [])"

definition inspect_document :: "Args \<Rightarrow> Impl \<Rightarrow> Json" where
  "inspect_document a s = JObject
     ([(''state_file'', JString (arg_text a ''state'' [])), (''version'', JString version_string)]
      @ section_if (\<not> any_view a \<or> has_arg a ''summary'' \<or> has_arg a ''validate'') ''summary''
          (render_summary (summary s))
      @ section_if (has_arg a ''agents'' \<or> has_arg a ''capabilities'') ''agents''
          (JArray (map render_agent (all_agents s)))
      @ section_if (has_arg a ''queues'') ''work'' (JArray (map render_work (all_work s)))
      @ section_if (has_arg a ''assignments'') ''assignments''
          (JArray (map render_assignment (all_assignments s)))
      @ section_if (has_arg a ''leases'') ''leases'' (JArray (map render_lease (all_leases s)))
      @ section_if (has_arg a ''fenced'') ''fenced'' (JArray (map render_fence (all_fenced_boots s)))
      @ section_if (has_arg a ''fairness'') ''fairness'' (render_fairness (fairness s))
      @ section_if (has_arg a ''policy'') ''policy'' (render_policy (im_policy s))
      @ section_if (\<not> any_view a \<or> has_arg a ''invariants'' \<or> has_arg a ''validate'') ''invariants''
          (render_invariants (check_invariants s)))"

definition synthetic_document :: "u64 \<Rightarrow> RunReport \<Rightarrow> Json" where
  "synthetic_document seed r = JObject
     [(''synthetic'', JBool True), (''seed'', JWord seed),
      (''agents_registered'', JNat (rn_agents_registered r)), (''work_admitted'', JNat (rn_work_admitted r)),
      (''assignments'', JNat (rn_assignments r)), (''deferred'', JNat (rn_deferred r)),
      (''rejected'', JNat (rn_rejected r)), (''agent_deaths'', JNat (rn_agent_deaths r)),
      (''reincarnations'', JNat (rn_reincarnations r)), (''rounds'', JNat (rn_rounds r)),
      (''state_digest'', JString (to_hex (rn_final_state_digest r))),
      (''invariants'', render_invariants (rn_invariants r))]"

subsection \<open>The program\<close>

text \<open>What the environment decides: the build, the nonce and clocks of a new scheduler, the answers
  of the system calls for the two reads of the file, and how the clock of a scheduler moves
  between two calls. The views of a run are taken at one reading of the clock.\<close>

record ToolEnv =
  te_build :: Build
  te_nonce :: u64
  te_wall :: u64
  te_now :: u64
  te_header_read :: ReadIo
  te_load_read :: ReadIo
  te_clock :: "u64 \<Rightarrow> u64"

definition te_later :: "ToolEnv \<Rightarrow> Impl \<Rightarrow> Impl" where
  "te_later env s = s\<lparr>im_now := te_clock env (im_now s)\<rparr>"

definition tool_options :: "bool \<Rightarrow> SchedulerOptions" where
  "tool_options auto_start =
     \<lparr> so_scheduler_id = 1, so_limits = default_limits, so_policy = default_policy,
       so_feasibility = None, so_auto_start = auto_start \<rparr>"

definition default_load_options :: LoadOptions where
  "default_load_options = \<lparr> ld_require_semantic_digest = True, ld_inspect_only = False \<rparr>"

definition new_tool_scheduler :: "ToolEnv \<Rightarrow> bool \<Rightarrow> Impl option" where
  "new_tool_scheduler env auto_start =
     make_scheduler (tool_options auto_start) (te_nonce env) (te_wall env) (te_now env)"

definition rejected_line :: "string \<Rightarrow> string" where
  "rejected_line text = ''state file rejected: '' @ output_line text"

text \<open>The state the views are taken of: none without --state.\<close>

definition inspect_load :: "ToolEnv \<Rightarrow> Disk \<Rightarrow> string \<Rightarrow> Impl \<Rightarrow> ToolResult + Impl option" where
  "inspect_load env disk path s =
     (if path = [] then Inr None
      else case read_persistence_header (te_header_read env) path disk of
        Inl e \<Rightarrow> Inl (refused 1 (rejected_line (describe_error e)))
      | Inr _ \<Rightarrow>
          (let (x, r) = load_from_disk (te_load_read env) default_load_options path disk (te_later env s)
           in if rv_error r \<noteq> None then Inl (refused 1 (rejected_line (describe_recovery r)))
              else Inr (Some x)))"

definition inspect_config :: "Args \<Rightarrow> SyntheticConfig" where
  "inspect_config a = default_synthetic_config\<lparr>
     sc_seed := arg_number a ''seed'' 1, sc_agent_count := ucast (arg_number a ''agents-count'' 32),
     sc_work_count := ucast (arg_number a ''work-count'' 128), sc_queue_count := 4,
     sc_tenant_count := 2, sc_capability_density := 4, sc_placement_domains := 2,
     sc_agent_death_percent := 10, sc_reincarnation_percent := 10\<rparr>"

definition exit_code :: "InvariantReport \<Rightarrow> nat" where
  "exit_code r = (if report_ok r then 0 else 1)"

definition inspect_synthetic :: "ToolEnv \<Rightarrow> Args \<Rightarrow> Impl \<Rightarrow> ToolResult" where
  "inspect_synthetic env a s =
     (let c = inspect_config a;
          report = snd (run_lab (te_later env) c (ucast (arg_number a ''rounds'' 4)) s)
      in \<lparr> tr_exit = exit_code (rn_invariants report),
           tr_out = output_line (json_str (synthetic_document (sc_seed c) report)), tr_err = [] \<rparr>)"

definition inspect_views :: "ToolEnv \<Rightarrow> Args \<Rightarrow> Impl \<Rightarrow> ToolResult" where
  "inspect_views env a x =
     (let s = te_later env x
      in \<lparr> tr_exit = exit_code (check_invariants s), tr_out = output_line (json_str (inspect_document a s)),
           tr_err = [] \<rparr>)"

definition inspect_main :: "ToolEnv \<Rightarrow> string list \<Rightarrow> Disk \<Rightarrow> ToolResult option" where
  "inspect_main env argv disk =
     (let a = parse_argv argv in
      if has_arg a ''help'' then Some (printed inspect_help)
      else if has_arg a ''version'' then Some (printed (version_line (te_build env)))
      else case new_tool_scheduler env False of None \<Rightarrow> None
      | Some s \<Rightarrow>
          (case inspect_load env disk (arg_text a ''state'' []) s of
             Inl r \<Rightarrow> Some r
           | Inr loaded \<Rightarrow>
               if has_arg a ''synthetic''
               then map_option (inspect_synthetic env a) (new_tool_scheduler env True)
               else (case loaded of
                   None \<Rightarrow> Some (refused 2 (''no --state file and no --synthetic request'' @ [CHR 0x0A]))
                 | Some x \<Rightarrow> Some (inspect_views env a x))))"

end
