(* ===== verification/Synthetic_Facts.thy ===== *)
theory Synthetic_Facts
  imports Synthetic Checker_Facts Fairness_Properties
begin

section \<open>The laboratory: facts\<close>

text \<open>
  What the generator of the laboratory produces, and what a run does to the scheduler it drives.
\<close>

section \<open>What the generator produces\<close>

text \<open>
  Every value a random program can return satisfies a predicate: rules for the programs of the
  generator, and from them the shape of the agents and the work of a population.
\<close>

subsection \<open>Predicates on results\<close>

lemma pred_return: "P x \<Longrightarrow> pred_state P (State_Monad.return x)"
  by (auto intro!: pred_stateI)

lemma pred_bind:
  assumes "pred_state P m" and "\<And>x. P x \<Longrightarrow> pred_state Q (f x)"
  shows "pred_state Q (State_Monad.bind m f)"
proof (rule pred_stateI)
  fix a s s' assume "run_state (State_Monad.bind m f) s = (a, s')"
  moreover obtain x t where "run_state m s = (x, t)" by fastforce
  ultimately show "Q a" using assms by (auto dest: pred_stateD)
qed

lemma pred_any: "pred_state (\<lambda>_. True) m"
  by (rule pred_stateI) simp

lemma pred_bind_any: "(\<And>x. pred_state Q (f x)) \<Longrightarrow> pred_state Q (State_Monad.bind m f)"
  by (rule pred_bind [OF pred_any])

lemma pred_traverse:
  "(\<And>x. x \<in> set xs \<Longrightarrow> pred_state (P x) (f x)) \<Longrightarrow>
    pred_state (list_all2 P xs) (State_Monad.traverse_list f xs)"
proof (induction xs)
  case (Cons x xs)
  have head: "pred_state (P x) (f x)" using Cons.prems by simp
  have tail: "pred_state (list_all2 P xs) (State_Monad.traverse_list f xs)"
    using Cons.prems by (intro Cons.IH) simp
  show ?case by (auto intro!: pred_bind [OF head] pred_bind [OF tail] pred_return)
qed (auto intro: pred_return)

lemma pred_mono: "pred_state P m \<Longrightarrow> (\<And>x. P x \<Longrightarrow> Q x) \<Longrightarrow> pred_state Q m"
  by (metis pred_stateD pred_stateI)

subsection \<open>Draws\<close>

lemma draw_below:
  fixes v :: u64 and bound :: u32
  assumes "bound \<noteq> 0"
  shows "(ucast (v mod ucast bound) :: u32) < bound"
proof -
  have "0 < unat bound" using assms by (simp add: unat_gt_0)
  moreover have "unat v mod unat bound < 2 ^ 32"
    using mod_less_divisor [OF \<open>0 < unat bound\<close>, of "unat v"] unsigned_less [where 'a = nat, of bound]
    by simp
  moreover have "unat (ucast bound :: u64) = unat bound"
    using unsigned_less [where 'a = nat, of bound] by (simp add: unsigned_ucast_eq take_bit_nat_eq_self)
  ultimately show ?thesis
    by (simp add: word_less_nat_alt unsigned_ucast_eq unat_mod_distrib take_bit_nat_eq_self)
qed

lemma pred_next_bounded: "bound \<noteq> 0 \<Longrightarrow> pred_state (\<lambda>v. v < bound) (next_bounded bound)"
  unfolding next_bounded_def by (auto intro!: pred_bind_any pred_return draw_below)

lemma at_least_one_nz [simp]: "at_least_one n \<noteq> 0"
  by (simp add: at_least_one_def word_less_1)

subsection \<open>Unit doubles\<close>

lemma bit_length_bounds: "0 < n \<Longrightarrow> 2 ^ (bit_length n - 1) \<le> n \<and> n < 2 ^ bit_length n \<and> 0 < bit_length n"
proof (induction n rule: bit_length.induct)
  case (1 n)
  show ?case
  proof (cases "n div 2 = 0")
    case True
    then have "n = 1" using 1 by auto
    then show ?thesis by (simp add: bit_length.simps)
  next
    case False
    then have half: "0 < n div 2" using 1(2) by auto
    then have IH: "2 ^ (bit_length (n div 2) - 1) \<le> n div 2" "n div 2 < 2 ^ bit_length (n div 2)"
      and pos: "0 < bit_length (n div 2)" using 1 by auto
    obtain m where m: "bit_length (n div 2) = Suc m" using pos by (cases "bit_length (n div 2)") auto
    have len: "bit_length n = Suc (Suc m)" using 1(2) m by (simp add: bit_length.simps [of n])
    show ?thesis using IH by (simp add: len m) linarith
  qed
qed

text \<open>Exponent and fraction of a double assembled from its fields.\<close>

lemma f64_fields:
  assumes "e < 2 ^ 11" and "f < 2 ^ 52"
  shows "f64_exponent (of_nat (e * 2 ^ 52 + f)) = e"
    and "f64_fraction (of_nat (e * 2 ^ 52 + f)) = int f"
    and "drop_bit 63 (of_nat (e * 2 ^ 52 + f) :: u64) = 0"
proof -
  define n where "n = e * 2 ^ 52 + f"
  let ?b = "of_nat n :: u64"
  have small: "n < 2 ^ 63" using assms by (simp add: n_def)
  then have n: "unat ?b = n" by (simp add: unsigned_of_nat take_bit_nat_eq_self)
  have "drop_bit 52 ?b AND 0x7FF = take_bit 11 (drop_bit 52 ?b)" by (simp add: take_bit_eq_mask mask_eq_exp_minus_1)
  then have "f64_exponent ?b = n div 2 ^ 52 mod 2 ^ 11"
    unfolding f64_exponent_def using n
    by (simp add: unsigned_take_bit_eq drop_bit_eq_div take_bit_nat_def unat_div_distrib)
  then show "f64_exponent (of_nat (e * 2 ^ 52 + f)) = e"
    using assms by (simp add: n_def)
  have "?b AND 0xFFFFFFFFFFFFF = take_bit 52 ?b" by (simp add: take_bit_eq_mask mask_eq_exp_minus_1)
  then have "f64_fraction ?b = int (n mod 2 ^ 52)"
    unfolding f64_fraction_def uint_nat using n by (simp add: take_bit_nat_def unsigned_take_bit_eq)
  then show "f64_fraction (of_nat (e * 2 ^ 52 + f)) = int f"
    using assms by (simp add: n_def)
  have "unat (drop_bit 63 ?b) = 0" using n small by (simp add: drop_bit_eq_div unat_div_distrib)
  then show "drop_bit 63 (of_nat (e * 2 ^ 52 + f) :: u64) = 0"
    by (simp only: unat_eq_zero n_def)
qed

lemma unit_double_value:
  assumes "k < 2 ^ 53"
  shows "f64_value (unit_double k) = of_nat k / 2 ^ 53 \<and> f64_is_finite (unit_double k)"
proof (cases "k = 0")
  case True
  then show ?thesis by (simp add: unit_double_def f64_value_def f64_magnitude_def f64_exponent_def f64_fraction_def f64_is_finite_def)
next
  case False
  define e where "e = bit_length (int k) - 1"
  have "2 ^ e \<le> int k" "int k < 2 ^ Suc e"
    using bit_length_bounds [of "int k"] False by (auto simp: e_def)
  then have "int (2 ^ e) \<le> int k" "int k < int (2 ^ Suc e)" by simp_all
  then have low: "2 ^ e \<le> k" and high: "k < 2 ^ Suc e" by (simp_all only: of_nat_le_iff of_nat_less_iff)
  have "(2::nat) ^ e < 2 ^ 53" using low assms by (rule le_less_trans)
  then have e: "e \<le> 52" using power_less_imp_less_exp [of "2 :: nat" e 53] by simp
  define f where "f = k * 2 ^ (52 - e) - 2 ^ 52"
  have p: "(2::nat) ^ e * 2 ^ (52 - e) = 2 ^ 52" "(2::nat) ^ Suc e * 2 ^ (52 - e) = 2 ^ 53"
    using e by (simp_all flip: power_add)
  have k1: "2 ^ 52 \<le> k * 2 ^ (52 - e)" "k * 2 ^ (52 - e) < 2 ^ 53"
    using mult_le_mono1 [OF low, of "2 ^ (52 - e)"]
      mult_strict_right_mono [OF high, of "2 ^ (52 - e)"] unfolding p by simp_all
  then have f: "f < 2 ^ 52" and sum: "2 ^ 52 + f = k * 2 ^ (52 - e)" by (simp_all add: f_def)
  have b: "unit_double k = of_nat ((970 + e) * 2 ^ 52 + f)"
    unfolding unit_double_def Let_def e_def [symmetric] f_def by (simp only: False if_False)
  note fields = f64_fields [of "970 + e" f, folded b]
  have "(2 :: rat) ^ (1075 - (970 + e)) = 2 ^ (52 - e) * 2 ^ 53"
  proof -
    have "1075 - (970 + e) = (52 - e) + 53" using e by simp
    then show ?thesis by (simp only: power_add)
  qed
  moreover have "of_int (2 ^ 52 + int f) = (of_nat k * 2 ^ (52 - e) :: rat)"
  proof -
    have "(of_nat (2 ^ 52 + f) :: rat) = of_nat (k * 2 ^ (52 - e))" by (simp only: sum)
    then show ?thesis by simp
  qed
  ultimately have "f64_magnitude (unit_double k) = of_nat k / 2 ^ 53"
    using fields f e by (simp add: f64_magnitude_def del: of_int_add)
  then show ?thesis
    using fields f e by (simp add: f64_value_def f64_is_finite_def)
qed

lemma pred_next_unit:
  "pred_state (\<lambda>b. f64_is_finite b \<and> 0 \<le> f64_value b \<and> f64_value b < 1) next_unit"
proof -
  have "unat (drop_bit 11 v) < 2 ^ 53" for v :: u64
    using unsigned_less [where 'a = nat, of v]
    by (simp add: drop_bit_eq_div unat_div_distrib less_mult_imp_div_less)
  moreover have "f64_is_finite (unit_double k) \<and> 0 \<le> f64_value (unit_double k)
      \<and> f64_value (unit_double k) < 1" if "k < 2 ^ 53" for k
  proof -
    have "(of_nat k :: rat) < of_nat (2 ^ 53)" using that by (simp only: of_nat_less_iff)
    then show ?thesis using unit_double_value [OF that] by (simp add: divide_less_eq)
  qed
  ultimately show ?thesis
    unfolding next_unit_def by (intro pred_bind_any pred_return) blast
qed

subsection \<open>Capability names\<close>

definition pool_names :: "SyntheticConfig \<Rightarrow> string set" where
  "pool_names c = capability_name ` {..<at_least_one (sc_capability_pool c)}"

definition drawn :: "SyntheticConfig \<Rightarrow> string list \<Rightarrow> bool" where
  "drawn c names \<longleftrightarrow> sorted_wrt (<) names \<and> set names \<subseteq> pool_names c"

lemma list_all2_any: "list_all2 (\<lambda>_. P) xs ys \<Longrightarrow> \<forall>y \<in> set ys. P y"
  by (induction xs ys rule: list_all2_induct) auto

lemma pred_draw_names:
  "pred_state (drawn c) (draw_names (at_least_one (sc_capability_pool c)) n)"
  unfolding draw_names_def
  by (rule pred_bind [OF pred_traverse [where P = "\<lambda>_ name. name \<in> pool_names c"]])
    (auto simp: drawn_def canonicalize_strings_props pool_names_def dest!: list_all2_any
      intro!: pred_return pred_bind [OF pred_next_bounded])

subsection \<open>Agents\<close>

lemma span_above:
  fixes low high v :: u32
  assumes "low \<noteq> 0" and "low \<le> high"
  shows "high - low + 1 \<noteq> 0"
    and "v < high - low + 1 \<Longrightarrow> low \<le> low + v \<and> low + v \<le> high"
  using assms by unat_arith+

definition descriptor_ok :: "SyntheticConfig \<Rightarrow> nat \<Rightarrow> AgentDescriptor \<Rightarrow> bool" where
  "descriptor_ok c i d \<longleftrightarrow> ad_id d = of_nat (i + 1) \<and> ad_generation d = 1
     \<and> at_least_one (sc_min_concurrency c) \<le> ad_max_concurrency d
     \<and> ad_max_concurrency d \<le> max (at_least_one (sc_min_concurrency c)) (sc_max_concurrency c)"

lemma pred_generate_descriptor: "pred_state (descriptor_ok c i) (generate_descriptor c tenants i)"
proof -
  let ?low = "at_least_one (sc_min_concurrency c)"
  let ?high = "if sc_max_concurrency c < ?low then ?low else sc_max_concurrency c"
  have "?low \<le> ?high" by auto
  note span = span_above [OF at_least_one_nz this]
  show ?thesis
    unfolding generate_descriptor_def Let_def
    by (rule pred_bind [OF pred_next_bounded [OF span(1)]])
      (use span(2) in \<open>auto simp: descriptor_ok_def default_descriptor_def max_def not_less
          intro!: pred_return split: if_splits\<close>)
qed

definition evidence_ok :: "Hash128 \<Rightarrow> string \<Rightarrow> CapabilityEvidence \<Rightarrow> bool" where
  "evidence_ok boot name e \<longleftrightarrow> ce_name e = name \<and> ce_boot e = boot \<and> ce_generation e = 1
     \<and> 400 \<le> ce_quality e \<and> ce_quality e \<le> 1000"

lemma pred_generate_evidence: "pred_state (evidence_ok (ad_boot d) name) (generate_evidence d name)"
proof -
  have "400 \<le> 400 + v \<and> 400 + v \<le> 1000" if "v < 601" for v :: u32
    using that span_above(2) [of 400 1000 v] by simp
  then show ?thesis
    unfolding generate_evidence_def
    by (auto simp: evidence_ok_def intro!: pred_return pred_bind [OF pred_next_bounded])
qed

definition agent_ok ::
    "SyntheticConfig \<Rightarrow> nat \<Rightarrow> AgentDescriptor \<times> CapabilityProfile \<times> string list \<Rightarrow> bool" where
  "agent_ok c i a \<longleftrightarrow> (case a of (d, profile, names) \<Rightarrow>
     descriptor_ok c i d \<and> drawn c names \<and> cp_boot profile = ad_boot d
     \<and> list_all2 (evidence_ok (ad_boot d)) names (cp_capabilities profile))"

lemma pred_generate_agent: "pred_state (agent_ok c i) (generate_agent c tenants i)"
  unfolding generate_agent_def
  by (rule pred_bind [OF pred_generate_descriptor], rule pred_bind [OF pred_draw_names],
      rule pred_bind [OF pred_traverse [OF pred_generate_evidence]])
    (simp add: agent_ok_def pred_return)

subsection \<open>Work\<close>

lemma pred_pick_agent:
  assumes "agents \<noteq> []" and "length agents < 2 ^ 32"
  shows "pred_state (\<lambda>d. d \<in> set agents) (pick_agent agents)"
proof -
  have "unat (of_nat (length agents) :: u32) = length agents"
    using assms(2) by (simp add: unsigned_of_nat take_bit_nat_eq_self)
  moreover from this have "(of_nat (length agents) :: u32) \<noteq> 0" using assms(1) by auto
  ultimately show ?thesis
    unfolding pick_agent_def
    by (auto simp: word_less_nat_alt intro!: pred_return pred_bind [OF pred_next_bounded])
qed

lemma pred_strikes: "pred_state (\<lambda>hit. hit \<longrightarrow> agents \<noteq> []) (strikes percent agents)"
  unfolding strikes_def by (auto intro!: pred_return pred_bind_any)

definition placed_among :: "AgentDescriptor list \<Rightarrow> WorkRequirements \<Rightarrow> bool" where
  "placed_among agents r \<longleftrightarrow> set (rq_affinity r) \<inter> set (rq_anti_affinity r) = {}
     \<and> set (rq_affinity r) \<union> set (rq_anti_affinity r) \<subseteq> ad_id ` set agents"

text \<open>The parts of the requirements the later steps of the generator leave alone.\<close>

definition same_core :: "WorkRequirements \<Rightarrow> WorkRequirements \<Rightarrow> bool" where
  "same_core r r' \<longleftrightarrow> rq_capabilities r' = rq_capabilities r
     \<and> rq_affinity r' = rq_affinity r \<and> rq_anti_affinity r' = rq_anti_affinity r"

lemma pred_generate_affinity:
  assumes "length agents < 2 ^ 32" and "rq_affinity r = []" "rq_anti_affinity r = []"
  shows "pred_state (\<lambda>r'. placed_among agents r' \<and> rq_capabilities r' = rq_capabilities r)
    (generate_affinity c agents r)"
proof -
  have near: "pred_state (\<lambda>r'. placed_among agents r' \<and> rq_anti_affinity r' = []
        \<and> rq_capabilities r' = rq_capabilities r)
      (if near then State_Monad.bind (pick_agent agents)
           (\<lambda>d. State_Monad.return (r\<lparr>rq_affinity := rq_affinity r @ [ad_id d]\<rparr>))
       else State_Monad.return r)" if "near \<longrightarrow> agents \<noteq> []" for near
    using assms that
    by (auto simp: placed_among_def intro!: pred_return pred_bind [OF pred_pick_agent])
  show ?thesis
    unfolding generate_affinity_def
    by (rule pred_bind [OF pred_strikes], rule pred_bind [OF near], assumption,
        rule pred_bind [OF pred_strikes])
      (use assms in \<open>auto simp: placed_among_def intro!: pred_return pred_bind [OF pred_pick_agent]
          split: if_splits\<close>)
qed

lemma pred_generate_rest:
  "pred_state (same_core r) (generate_placement c r)"
  "pred_state (same_core r) (generate_feasibility c r)"
  unfolding generate_placement_def generate_feasibility_def
  by (auto simp: same_core_def intro!: pred_return pred_bind_any)

definition work_ok :: "SyntheticConfig \<Rightarrow> AgentDescriptor list \<Rightarrow> nat \<Rightarrow> WorkRequest \<Rightarrow> bool" where
  "work_ok c agents i q \<longleftrightarrow> wq_id q = of_nat (i + 1)
     \<and> placed_among agents (wq_requirements q)
     \<and> cr_name ` set (rq_capabilities (wq_requirements q)) \<subseteq> pool_names c
     \<and> wq_fairness_class q \<in> {''interactive'', ''default'', ''batch''}"

lemma canonical_requirements:
  "set (rq_affinity (wq_requirements (canonicalize_work q))) = set (rq_affinity (wq_requirements q))"
  "set (rq_anti_affinity (wq_requirements (canonicalize_work q))) = set (rq_anti_affinity (wq_requirements q))"
  "set (rq_capabilities (wq_requirements (canonicalize_work q))) = set (rq_capabilities (wq_requirements q))"
  "wq_fairness_class (canonicalize_work q) = wq_fairness_class q"
  by (simp_all add: canonicalize_work_def Let_def canonicalize_ids_def)

lemma class_drawn:
  "(v :: u32) < 3 \<Longrightarrow> [''interactive'', ''default'', ''batch''] ! unat v \<in> {''interactive'', ''default'', ''batch''}"
proof -
  assume "v < 3"
  then have "unat v < 3" by (simp add: word_less_nat_alt)
  then have "unat v = 0 \<or> unat v = 1 \<or> unat v = 2" by arith
  then show ?thesis by auto
qed

lemma pred_generate_work:
  assumes "length agents < 2 ^ 32"
  shows "pred_state (work_ok c agents i) (generate_work c queues tenants agents i)"
proof -
  note affinity = pred_generate_affinity [OF assms]
  show ?thesis
    unfolding generate_work_def Let_def
    by (rule pred_bind_any, rule pred_bind [OF pred_next_bounded], simp, rule pred_bind_any,
        rule pred_bind [OF pred_draw_names], rule pred_bind [OF affinity],
        simp add: default_requirements_def, simp add: default_requirements_def,
        rule pred_bind [OF pred_generate_rest(1)], rule pred_bind [OF pred_generate_rest(2)],
        rule pred_return)
      (use class_drawn in \<open>auto simp: work_ok_def canonical_requirements same_core_def
         placed_among_def drawn_def synthetic_requirement_def default_work_request_def\<close>)
qed

subsection \<open>Populations\<close>

definition population_ok :: "SyntheticConfig \<Rightarrow> SyntheticPopulation \<Rightarrow> bool" where
  "population_ok c p \<longleftrightarrow>
     list_all2 (agent_ok c) [0..<unat (sc_agent_count c)]
       (zip (sp_agents p) (zip (sp_profiles p) (sp_agent_capabilities p)))
     \<and> length (sp_agents p) = unat (sc_agent_count c)
     \<and> length (sp_profiles p) = length (sp_agents p)
     \<and> length (sp_agent_capabilities p) = length (sp_agents p)
     \<and> list_all2 (work_ok c (sp_agents p)) [0..<unat (sc_work_count c)] (sp_work p)"

lemma zip_parts: "zip (map fst xs) (zip (map (fst \<circ> snd) xs) (map (snd \<circ> snd) xs)) = xs"
  by (induction xs) auto

lemma pred_generate_population: "pred_state (population_ok c) (generate_population c)"
proof -
  have agents: "pred_state (list_all2 (agent_ok c) [0..<unat (sc_agent_count c)])
      (State_Monad.traverse_list (generate_agent c tenants) [0..<unat (sc_agent_count c)])" for tenants
    by (rule pred_traverse) (rule pred_generate_agent)
  have work: "pred_state (list_all2 (work_ok c (map fst xs)) [0..<unat (sc_work_count c)])
      (State_Monad.traverse_list (generate_work c queues tenants (map fst xs)) [0..<unat (sc_work_count c)])"
    if "list_all2 (agent_ok c) [0..<unat (sc_agent_count c)] xs" for xs queues tenants
    using list_all2_lengthD [OF that] unsigned_less [where 'a = nat, of "sc_agent_count c"]
    by (intro pred_traverse pred_generate_work) simp
  show ?thesis
    unfolding generate_population_def Let_def
    by (rule pred_bind [OF agents], rule pred_bind [OF work], assumption, rule pred_return)
      (auto simp: population_ok_def zip_parts dest: list_all2_lengthD)
qed

lemma generate_ok: "population_ok c (generate c)"
  unfolding generate_def by (rule pred_state_run_state [OF pred_generate_population])

lemma generated_agent:
  assumes "i < unat (sc_agent_count c)"
  shows "agent_ok c i (sp_agents (generate c) ! i, sp_profiles (generate c) ! i,
    sp_agent_capabilities (generate c) ! i)"
proof -
  let ?p = "generate c"
  have len: "length (sp_agents ?p) = unat (sc_agent_count c)"
      "length (sp_profiles ?p) = unat (sc_agent_count c)"
      "length (sp_agent_capabilities ?p) = unat (sc_agent_count c)"
    using generate_ok [of c] by (simp_all add: population_ok_def)
  have "list_all2 (agent_ok c) [0..<unat (sc_agent_count c)]
      (zip (sp_agents ?p) (zip (sp_profiles ?p) (sp_agent_capabilities ?p)))"
    using generate_ok [of c] by (simp add: population_ok_def)
  from list_all2_nthD [OF this, of i] show ?thesis using assms by (simp add: len)
qed

lemma generated_work:
  assumes "i < unat (sc_work_count c)"
  shows "work_ok c (sp_agents (generate c)) i (sp_work (generate c) ! i)"
  using generate_ok [of c] list_all2_nthD [of "work_ok c (sp_agents (generate c))" _ _ i] assms
  by (fastforce simp: population_ok_def)

section \<open>What a laboratory run does to a scheduler\<close>

text \<open>
  Relations between the states before and after a program of the state monad, closed under
  sequencing; the laboratory only drives its scheduler through critical sections, and never
  counts more assignments than it asked for.
\<close>

subsection \<open>Preorders kept by monadic programs\<close>

locale io_preorder =
  fixes R :: "'s \<Rightarrow> 's \<Rightarrow> bool"
  assumes R_refl: "R s s"
    and R_trans: "R s t \<Longrightarrow> R t u \<Longrightarrow> R s u"
begin

lemma io_return: "state_io_rel R (State_Monad.return x)"
  by (simp add: state_io_rel_def R_refl)

lemma io_bind:
  "state_io_rel R m \<Longrightarrow> (\<And>x. state_io_rel R (f x)) \<Longrightarrow> state_io_rel R (State_Monad.bind m f)"
  using R_trans by (simp add: state_io_rel_def case_prod_beta) blast

lemma io_traverse:
  assumes "\<And>x. state_io_rel R (f x)"
  shows "state_io_rel R (State_Monad.traverse_list f xs)"
  by (induction xs) (auto intro!: io_bind io_return assms)

lemma io_if:
  "state_io_rel R m \<Longrightarrow> state_io_rel R n \<Longrightarrow> state_io_rel R (if b then m else n)"
  by simp

lemma io_case:
  "state_io_rel R m \<Longrightarrow> (\<And>x. state_io_rel R (f x)) \<Longrightarrow>
    state_io_rel R (case v of None \<Rightarrow> m | Some x \<Rightarrow> f x)"
  by (cases v) simp_all

lemma io_case_prod:
  "(\<And>a b. state_io_rel R (f a b)) \<Longrightarrow> state_io_rel R (case v of (a, b) \<Rightarrow> f a b)"
  by (cases v) simp

lemmas io_rules = io_return io_bind io_traverse io_if io_case io_case_prod

end

subsection \<open>The scheduler\<close>

definition lab_drives :: "LabRun \<Rightarrow> LabRun \<Rightarrow> bool" where
  "lab_drives s t \<longleftrightarrow>
     (core_inv (lb_impl s) \<longrightarrow> sections (lb_impl s) (lb_impl t))"

interpretation driving: io_preorder lab_drives
proof
  fix s t u
  assume "lab_drives s t" "lab_drives t u"
  then show "lab_drives s u"
    using sections_safe by (auto simp: lab_drives_def intro: rtranclp_trans)
qed (simp add: lab_drives_def)

lemma drives_call:
  assumes "polite others"
    and "\<And>s. core_inv s \<Longrightarrow> sections s (fst (f s))"
  shows "state_io_rel lab_drives (call others f)"
  unfolding state_io_rel_def lab_drives_def call_def
proof (intro allI impI)
  fix s assume core: "core_inv (lb_impl s)"
  have there: "sections (lb_impl s) (others (lb_impl s))" by (rule politeD [OF assms(1)])
  also have "sections \<dots> (fst (f (others (lb_impl s))))"
    using assms(2) sections_safe [OF there core] by blast
  finally show "sections (lb_impl s) (lb_impl (snd (run_state (State (\<lambda>s. let (impl, r) =
      f (others (lb_impl s)) in (r, s\<lparr>lb_impl := impl\<rparr>))) s)))"
    by (simp add: Let_def case_prod_beta)
qed

lemma drives_lab_section:
  "polite others \<Longrightarrow> (\<And>s. critical_section s (fst (f s))) \<Longrightarrow> state_io_rel lab_drives (call others f)"
  by (rule drives_call) auto

lemma drives_look_up: "polite others \<Longrightarrow> state_io_rel lab_drives (look_up others f)"
  unfolding look_up_def by (rule drives_call) simp_all

lemma drives_roll: "state_io_rel lab_drives (roll m)"
  by (simp add: state_io_rel_def lab_drives_def roll_def case_prod_beta)

lemma drives_note: "state_io_rel lab_drives (update_report f)"
  by (simp add: state_io_rel_def lab_drives_def update_report_def)

lemma drives_note_if: "state_io_rel lab_drives (update_report_if b f)"
  by (simp add: update_report_if_def drives_note driving.io_return)

lemmas lab_sections = sec_set_policy sec_publish_capabilities sec_publish_health
  sec_publish_availability sec_publish_load sec_schedule_batch

lemmas drives_calls = drives_lab_section [OF _ sec_set_policy] drives_lab_section [OF _ sec_publish_capabilities]
  drives_lab_section [OF _ sec_publish_health] drives_lab_section [OF _ sec_publish_availability]
  drives_lab_section [OF _ sec_publish_load] drives_lab_section [OF _ sec_schedule_batch]
  drives_call [OF _ sections_register] drives_call [OF _ sections_submit]
  drives_call [OF _ sections_interlocked(3)]

lemmas lab_programs = introduce_def admit_def schedule_round_def agent_death_def reincarnation_def
  health_degradation_def availability_change_def lab_round_def conclude_def whole_run_def

lemma drives_whole_run:
  assumes "polite others"
  shows "state_io_rel lab_drives (whole_run others p rounds)"
  unfolding lab_programs Let_def
  by (intro driving.io_rules drives_calls drives_look_up drives_roll drives_note drives_note_if
      assms)

lemma reachable_run:
  assumes "polite others" and "reachable \<lparr>sys_impl = impl, sys_pending = ps\<rparr>"
  shows "reachable \<lparr>sys_impl = fst (run_lab others c rounds impl), sys_pending = ps\<rparr>"
proof -
  have "core_inv impl" using reachable_core [OF assms(2)] by simp
  then have "sections impl (fst (run_lab others c rounds impl))"
    using drives_whole_run [OF assms(1), of "generate c" rounds]
    unfolding state_io_rel_def lab_drives_def run_lab_def Let_def
    by (auto dest: spec [of _ "lab_start c impl"] simp: lab_start_def)
  then show ?thesis by (rule sections_reachable [OF _ assms(2)])
qed

subsection \<open>The report\<close>

text \<open>The report ends with the checker's verdict on the final state.\<close>

lemma conclude_reports:
  "rn_invariants (lb_report (snd (run_state (conclude others) s)))
     = check_invariants (lb_impl (snd (run_state (conclude others) s)))"
  by (simp add: conclude_def look_up_def call_def update_report_def Let_def)

lemma run_reports:
  "rn_invariants (snd (run_lab others c rounds impl)) = check_invariants (fst (run_lab others c rounds impl))"
  by (simp add: run_lab_def Let_def whole_run_def case_prod_beta conclude_reports)

definition same_counts :: "LabRun \<Rightarrow> LabRun \<Rightarrow> bool" where
  "same_counts s t \<longleftrightarrow> rn_rounds (lb_report t) = rn_rounds (lb_report s)
     \<and> rn_assignments (lb_report t) = rn_assignments (lb_report s)"

interpretation counting: io_preorder same_counts
  by unfold_locales (simp_all add: same_counts_def)

lemma counts_call: "state_io_rel same_counts (call others f)"
  by (simp add: state_io_rel_def same_counts_def call_def case_prod_beta)

lemma counts_look_up: "state_io_rel same_counts (look_up others f)"
  by (simp add: look_up_def counts_call)

lemma counts_roll: "state_io_rel same_counts (roll m)"
  by (simp add: state_io_rel_def same_counts_def roll_def case_prod_beta)

lemma counts_note:
  "(\<And>r. rn_rounds (f r) = rn_rounds r \<and> rn_assignments (f r) = rn_assignments r) \<Longrightarrow>
    state_io_rel same_counts (update_report f)"
  by (simp add: state_io_rel_def same_counts_def update_report_def)

lemma counts_note_if:
  "(\<And>r. rn_rounds (f r) = rn_rounds r \<and> rn_assignments (f r) = rn_assignments r) \<Longrightarrow>
    state_io_rel same_counts (update_report_if b f)"
  by (simp add: update_report_if_def counts_note counting.io_return)

lemmas counts_rules = counting.io_rules counts_call counts_look_up counts_roll counts_note
  counts_note_if

lemma counts_steps:
  "state_io_rel same_counts (introduce others a)"
  "state_io_rel same_counts (admit others q)"
  "state_io_rel same_counts (agent_death others cfg agents)"
  "state_io_rel same_counts (reincarnation others p turn)"
  "state_io_rel same_counts (health_degradation others cfg agents)"
  "state_io_rel same_counts (availability_change others cfg agents)"
  "state_io_rel same_counts (conclude others)"
  unfolding lab_programs Let_def by (intro counts_rules; simp)+

definition adds_rounds :: "nat \<Rightarrow> LabRun \<Rightarrow> LabRun \<Rightarrow> bool" where
  "adds_rounds n s t \<longleftrightarrow> rn_rounds (lb_report t) = rn_rounds (lb_report s) + n
     \<and> rn_assignments (lb_report t) \<le> rn_assignments (lb_report s) + 16 * n"

lemma adds_same: "adds_rounds n s t \<Longrightarrow> same_counts t u \<Longrightarrow> adds_rounds n s u"
  "same_counts s t \<Longrightarrow> adds_rounds n t u \<Longrightarrow> adds_rounds n s u"
  by (simp_all add: adds_rounds_def same_counts_def)

lemma adds_then:
  "state_io_rel (adds_rounds n) m \<Longrightarrow> (\<And>x. state_io_rel same_counts (f x)) \<Longrightarrow>
    state_io_rel (adds_rounds n) (State_Monad.bind m f)"
  "state_io_rel same_counts m \<Longrightarrow> (\<And>x. state_io_rel (adds_rounds n) (f x)) \<Longrightarrow>
    state_io_rel (adds_rounds n) (State_Monad.bind m f)"
  by (auto simp: state_io_rel_def case_prod_beta intro: adds_same)

lemma adds_schedule_round: "state_io_rel (adds_rounds 1) (schedule_round others)"
  using batch_respects_budget [of lab_request]
  by (simp add: state_io_rel_def adds_rounds_def schedule_round_def call_def update_report_def case_prod_beta
      lab_request_def)

lemma adds_lab_round: "state_io_rel (adds_rounds 1) (lab_round others p turn)"
  unfolding lab_round_def
  by (rule adds_then(1) [OF adds_schedule_round]) (intro counting.io_bind counts_steps)

lemma adds_lab_rounds:
  "state_io_rel (adds_rounds (length turns)) (State_Monad.traverse_list (lab_round others p) turns)"
proof (induction turns)
  case (Cons turn turns)
  have "adds_rounds (Suc n) s u" if "adds_rounds 1 s t" "adds_rounds n t u" for n s t u
    using that by (simp add: adds_rounds_def)
  then show ?case
    using Cons adds_lab_round [of others p turn] by (simp add: state_io_rel_def case_prod_beta) blast
qed (simp add: state_io_rel_def adds_rounds_def)

lemma adds_whole_run: "state_io_rel (adds_rounds (unat rounds)) (whole_run others p rounds)"
  unfolding whole_run_def
  using adds_lab_rounds [of "[0..<unat rounds]" others p]
  by (intro adds_then(2) [OF counts_call] adds_then(2) [OF counting.io_traverse]
      adds_then(1) [OF _ counts_steps(7)] counts_steps) simp

lemma run_counts:
  "rn_rounds (snd (run_lab others c rounds impl)) = unat rounds
    \<and> rn_assignments (snd (run_lab others c rounds impl)) \<le> 16 * unat rounds"
  using adds_whole_run [of rounds others "generate c"]
  unfolding state_io_rel_def adds_rounds_def run_lab_def Let_def
  by (auto dest: spec [of _ "lab_start c impl"] simp: lab_start_def empty_report_def)

end
