(* ===== verification/Tool_Properties.thy ===== *)
theory Tool_Properties
  imports Inspect_Tool Synthetic_Facts Restart_Scenario
begin

section \<open>The laboratory and the tools: properties\<close>

text \<open>
  What a laboratory run promises about the scheduler it drives and about the population it
  makes up, what the inspection tool prints, and what an operator sees of a state file.
\<close>

subsection \<open>The laboratory\<close>

text \<open>What the generator makes up: the agents are numbered from 1, their concurrency and the
  quality of their evidence stay within the configured bounds, their names and those the work
  requires come from the pool; affinities name agents of the population and never contradict
  each other.\<close>

lemma generated_population:
  "(\<forall>i < unat (sc_agent_count c).
      let d = sp_agents (generate c) ! i; profile = sp_profiles (generate c) ! i in
      ad_id d = of_nat (i + 1)
      \<and> at_least_one (sc_min_concurrency c) \<le> ad_max_concurrency d
      \<and> ad_max_concurrency d \<le> max (at_least_one (sc_min_concurrency c)) (sc_max_concurrency c)
      \<and> cp_boot profile = ad_boot d
      \<and> (\<forall>e \<in> set (cp_capabilities profile). 400 \<le> ce_quality e \<and> ce_quality e \<le> 1000
            \<and> ce_boot e = ad_boot d \<and> ce_name e \<in> pool_names c))
   \<and> (\<forall>i < unat (sc_work_count c).
      let r = wq_requirements (sp_work (generate c) ! i) in
      cr_name ` set (rq_capabilities r) \<subseteq> pool_names c
      \<and> set (rq_affinity r) \<inter> set (rq_anti_affinity r) = {}
      \<and> set (rq_affinity r) \<union> set (rq_anti_affinity r) \<subseteq> ad_id ` set (sp_agents (generate c)))"
proof -
  have evidence: "evidence_ok boot (ce_name e) e \<and> ce_name e \<in> set names"
    if "list_all2 (evidence_ok boot) names es" "e \<in> set es" for boot names es e
    using that by (induction rule: list_all2_induct) (auto simp: evidence_ok_def)
  show ?thesis
    using generated_agent [of _ c] generated_work [of _ c]
    by (fastforce simp: Let_def agent_ok_def descriptor_ok_def work_ok_def placed_among_def drawn_def
        evidence_ok_def dest: evidence)
qed

text \<open>C39: Whatever the configuration, the number of rounds and the other users of the scheduler,
  a laboratory run that starts on a reachable system ends on one; its report is the checker's
  verdict on that final state, and names none of the violations of authority, references,
  accounting and currency that no reachable state has; it counts exactly the rounds asked for and
  at most 16 assignments for each.\<close>

theorem laboratory_run_sound:
  assumes "polite others" and "reachable \<lparr>sys_impl = impl, sys_pending = ps\<rparr>"
    and "run_lab others c rounds impl = (t, report)"
  shows "reachable \<lparr>sys_impl = t, sys_pending = ps\<rparr>
    \<and> rn_invariants report = check_invariants t
    \<and> iv_code ` set (ir_violations (rn_invariants report))
        \<inter> {ExclusiveAssignmentUniqueness, ExclusiveWorkSingleAssignment, ParallelFanoutBounded,
            AssignmentReferencesKnownWork, AssignmentReferencesKnownAgent, WorkGenerationMonotonic,
            QueueAccountingAgrees, AgentAccountingAgrees, DispatchableBootCurrent} = {}
    \<and> rn_rounds report = unat rounds \<and> rn_assignments report \<le> 16 * unat rounds"
proof -
  have t: "t = fst (run_lab others c rounds impl)" and r: "report = snd (run_lab others c rounds impl)"
    using assms(3) by simp_all
  have "reachable \<lparr>sys_impl = t, sys_pending = ps\<rparr>"
    unfolding t by (rule reachable_run [OF assms(1,2)])
  moreover from this have "clean established (check_invariants t)"
    using clean_check [OF reachable_checkable] by fastforce
  moreover have "rn_invariants report = check_invariants t" unfolding t r by (rule run_reports)
  ultimately show ?thesis
    using run_counts [of others c rounds impl] unfolding r [symmetric] by (simp add: clean_def established_def)
qed

definition demo_config :: SyntheticConfig where
  "demo_config = default_synthetic_config\<lparr>sc_agent_death_percent := 5, sc_reincarnation_percent := 5,
     sc_health_degradation_percent := 5, sc_availability_change_percent := 5, sc_affinity_percent := 5,
     sc_anti_affinity_percent := 5\<rparr>"

theorem laboratory_run_sound_witness:
  "case run_lab (\<lambda>s. s) demo_config 20 demo6 of (t, report) \<Rightarrow>
     reachable \<lparr>sys_impl = t, sys_pending = []\<rparr>
     \<and> rn_rounds report = 20 \<and> rn_assignments report \<le> 320
     \<and> ExclusiveAssignmentUniqueness \<notin> iv_code ` set (ir_violations (rn_invariants report))"
proof -
  obtain t report where run: "run_lab (\<lambda>s. s) demo_config 20 demo6 = (t, report)" by fastforce
  have "polite (\<lambda>s. s)" by (simp add: polite_def)
  from laboratory_run_sound [OF this demo_reachable6 [unfolded idle_def] run]
  have "reachable \<lparr>sys_impl = t, sys_pending = []\<rparr>" "rn_rounds report = unat (20 :: u32)"
    "rn_assignments report \<le> 16 * unat (20 :: u32)"
    "ExclusiveAssignmentUniqueness \<notin> iv_code ` set (ir_violations (rn_invariants report))"
    by blast+
  then show ?thesis unfolding run by simp
qed

subsection \<open>What the inspection tool prints\<close>

text \<open>
  Its output is the text of a JSON document without a zero byte, so printf prints all of it; a
  file that a reachable scheduler saved is loaded and shown as the checker sees it.
\<close>

subsubsection \<open>Documents survive printf\<close>

lemma digits_clean: "CHR 0x00 \<notin> set (decimal n)"
proof (induction n rule: decimal.induct)
  case (1 n)
  have "CHR 0x00 \<notin> set ''0123456789''" by simp
  then have "''0123456789'' ! d \<noteq> CHR 0x00" if "d < 10" for d
    using nth_mem [of d "''0123456789''"] that by fastforce
  then show ?case using 1 by (subst decimal.simps) (simp add: eq_commute [of "CHR 0x00"])
qed

lemma hex_digit_clean: "d < 16 \<Longrightarrow> hex_digit d \<noteq> CHR 0x00"
  using nth_mem [of d "''0123456789abcdef''"] by (fastforce simp: hex_digit_def)

lemma escape_char_clean: "CHR 0x00 \<notin> set (escape_char c)"
proof -
  have "(of_char c :: nat) < 256" by (rule nat_of_char_less_256)
  then have "(of_char c :: nat) div 16 < 16" by (simp add: less_mult_imp_div_less)
  then show ?thesis
    using hex_digit_clean [of "of_char c div 16"] hex_digit_clean [of "of_char c mod 16"]
    by (auto simp: escape_char_def hex_escape_def Let_def)
qed

lemma quoted_clean: "CHR 0x00 \<notin> set (quoted t)"
  using escape_char_clean by (auto simp: quoted_def escape_json_def)

lemma signed_clean: "CHR 0x00 \<notin> set (signed_decimal v)"
  using digits_clean by (auto simp: signed_decimal_def)

lemma breaks_clean: "CHR 0x00 \<notin> set (break_at d)" "CHR 0x00 \<notin> set (closing_break d)"
  by (auto simp: break_at_def closing_break_def)

lemma render_clean:
  "CHR 0x00 \<notin> set (render d v)"
  "CHR 0x00 \<notin> set (render_members d ms)"
  "CHR 0x00 \<notin> set (render_elements d vs)"
  by (induction d v and d ms and d vs rule: render_render_members_render_elements.induct)
    (simp_all add: quoted_clean signed_clean breaks_clean)

lemma printed_json: "output_line (json_str v) = json_str v @ [CHR 0x0A]"
proof -
  have "c_str (json_str v) = json_str v"
    unfolding c_str_def using render_clean(1) [of 0 v]
    by (intro takeWhile_eq_all_conv [THEN iffD2]) (auto simp: json_str_render)
  then show ?thesis by (simp add: output_line_def)
qed

subsubsection \<open>The program\<close>

lemma tool_scheduler:
  "new_tool_scheduler env b = Some (let s = make_impl (tool_options b) (te_nonce env) (te_wall env) (te_now env)
     in if b then fst (start s) else s)"
  using demo_limits_valid demo_policy_valid
  by (simp add: new_tool_scheduler_def make_scheduler_def Let_def tool_options_def make_impl_def)

lemma inspect_returns: "inspect_main env argv disk \<noteq> None"
  by (simp add: inspect_main_def tool_scheduler Let_def split: sum.split option.split)

text \<open>Whatever it prints besides its help and version is one JSON document or an error text.\<close>

definition tool_output :: "ToolResult \<Rightarrow> bool" where
  "tool_output r \<longleftrightarrow>
     (\<exists>v. json_text v (json_str v) \<and> tr_out r = json_str v @ [CHR 0x0A] \<and> tr_err r = [])
     \<or> tr_exit r \<noteq> 0 \<and> tr_out r = [] \<and> tr_err r \<noteq> []"

lemma load_output: "inspect_load env disk path s = Inl r \<Longrightarrow> tool_output r"
  by (auto simp: inspect_load_def case_prod_beta Let_def tool_output_def refused_def rejected_line_def
      split: if_splits sum.splits)

lemma inspect_outputs:
  assumes "inspect_main env argv disk = Some r"
    and "\<not> has_arg (parse_argv argv) ''help''" and "\<not> has_arg (parse_argv argv) ''version''"
  shows "tool_output r"
  using assms
  by (auto simp: inspect_main_def tool_scheduler Let_def inspect_synthetic_def inspect_views_def
      printed_json json_str_text refused_def
      dest: load_output split: sum.splits option.splits if_splits)
    (auto simp: tool_output_def json_str_text)

subsubsection \<open>A saved file\<close>

definition readable :: "ReadIo \<Rightarrow> u8 list \<Rightarrow> bool" where
  "readable io f \<longleftrightarrow> ri_stat_error io = None \<and> ri_opens io \<and> length f \<le> ri_delivers io"

lemma readable_read:
  "readable io f \<Longrightarrow> dk_files d path = Some f \<Longrightarrow> length f \<le> unat bound \<Longrightarrow> read_all io path bound d = Inr f"
  by (simp add: readable_def read_all_def)

lemma later_section: "critical_section s (te_later env s)"
  unfolding te_later_def by (rule sec_clock)

lemma inspect_loads:
  assumes "reachable y" and "save_bytes popts origin (sys_impl y) = Inr (Inr f)"
    and "state_fits (sys_impl y)" and "im_scheduler_epoch (sys_impl y) + 1 \<noteq> 0"
    and "im_limits (sys_impl y) = default_limits"
    and "length f \<le> unat (max_persistence_bytes default_limits)"
    and "dk_files d path = Some f" and "path \<noteq> []"
    and "readable (te_header_read env) f" and "readable (te_load_read env) f"
    and "\<not> im_running s" and "im_limits s = default_limits"
  shows "\<exists>x. inspect_load env d path s = Inr (Some x) \<and> restarts_to (sys_impl y) x
    \<and> recovered_from (sys_impl y) x"
proof -
  let ?t = "te_later env s"
  have small: "length f < 2 ^ 64" using le_less_trans [OF assms(6) unsigned_less] by simp
  have t: "\<not> im_running ?t" "im_limits ?t = im_limits (sys_impl y)"
    using assms(5,11,12) by (simp_all add: te_later_def)
  have keyed: "state_keyed (sys_impl y)" by (rule reachable_keyed [OF assms(1)])
  obtain info where "verify_file f = Inr info"
  proof -
    obtain r where "load_file default_load_options [] (im_limits (sys_impl y)) f = Inr (decoded_of (sys_impl y), r)"
      using load_saved_file [OF assms(2,3) keyed small] by blast
    then show thesis using that by (cases "verify_file f") (auto simp: load_file_def Let_def)
  qed
  moreover have "read_all (te_header_read env) path (push_bit 40 1) d = Inr f"
    by (rule readable_read [OF assms(9,7)]) (use assms(6) in \<open>simp add: default_limits_def\<close>)
  ultimately have header: "read_persistence_header (te_header_read env) path d = Inr (fst info)"
    by (simp add: read_persistence_header_def)
  have "read_all (te_load_read env) path (max_persistence_bytes (im_limits ?t)) d = Inr f"
    using readable_read [OF assms(10,7,6)] t(2) assms(5) by simp
  then have load: "load_from_disk (te_load_read env) default_load_options path d ?t
      = load_state default_load_options path (Inr f) ?t"
    by (simp add: load_from_disk_def)
  define x where "x = fst (load_state default_load_options path (Inr f) ?t)"
  have "restarts_to (sys_impl y) x"
    unfolding restarts_to_def x_def using assms(2-4) small t by blast
  moreover have "recovered_from (sys_impl y) x"
    unfolding x_def using load_recovered [OF assms(2,3) keyed small t] by blast
  moreover have "inspect_load env d path s = Inr (Some x)"
    using load_saved [OF assms(2,3) keyed small t, of default_load_options path] assms(8) header load
    by (auto simp: inspect_load_def x_def)
  ultimately show ?thesis by blast
qed

subsection \<open>Inspecting a state file\<close>

text \<open>C40: Inspecting the file a reachable scheduler saved shows that state: the tool loads it as
  a conservative recovery, prints one JSON text, the document of the recovered state for the
  sections the arguments ask for, and nothing on the error stream, and exits with 0 exactly when
  the checker is satisfied; what it reports is never one of the violations of authority,
  references, accounting and currency.\<close>

theorem inspected_state:
  assumes "reachable y" and "save_bytes popts origin (sys_impl y) = Inr (Inr f)"
    and "state_fits (sys_impl y)" and "im_scheduler_epoch (sys_impl y) + 1 \<noteq> 0"
    and "im_limits (sys_impl y) = default_limits"
    and "length f \<le> unat (max_persistence_bytes default_limits)"
    and "a = parse_argv argv" and "\<not> has_arg a ''help''" and "\<not> has_arg a ''version''"
    and "\<not> has_arg a ''synthetic''" and "arg_text a ''state'' [] = path" and "path \<noteq> []"
    and "dk_files d path = Some f"
    and "readable (te_header_read env) f" and "readable (te_load_read env) f"
  shows "\<exists>x. recovered_from (sys_impl y) x \<and> (let s = te_later env x; v = inspect_document a s in
    inspect_main env argv d = Some \<lparr> tr_exit = (if report_ok (check_invariants s) then 0 else 1),
        tr_out = json_str v @ [CHR 0x0A], tr_err = [] \<rparr>
    \<and> json_text v (json_str v)
    \<and> reachable \<lparr>sys_impl = s, sys_pending = []\<rparr>
    \<and> iv_code ` set (ir_violations (check_invariants s))
        \<inter> {ExclusiveAssignmentUniqueness, ExclusiveWorkSingleAssignment, ParallelFanoutBounded,
            AssignmentReferencesKnownWork, AssignmentReferencesKnownAgent, WorkGenerationMonotonic,
            QueueAccountingAgrees, AgentAccountingAgrees, DispatchableBootCurrent} = {})"
proof -
  let ?t = "make_impl (tool_options False) (te_nonce env) (te_wall env) (te_now env)"
  have "\<not> im_running ?t" "im_limits ?t = default_limits"
    by (simp_all add: make_impl_def tool_options_def)
  then obtain x where x: "inspect_load env d path ?t = Inr (Some x)" "restarts_to (sys_impl y) x"
    "recovered_from (sys_impl y) x"
    using inspect_loads [OF assms(1-6,13,12,14,15)] by blast
  have "reachable \<lparr>sys_impl = te_later env x, sys_pending = []\<rparr>"
    by (rule sections_reachable [OF sections_one [OF later_section] reach_restart [OF assms(1) x(2)]])
  moreover from this have "clean established (check_invariants (te_later env x))"
    using clean_check [OF reachable_checkable] by fastforce
  moreover have "inspect_main env argv d = Some (inspect_views env a x)"
    using x(1) assms(7-11) by (simp add: inspect_main_def tool_scheduler Let_def)
  ultimately show ?thesis
    using x(3) by (auto simp: inspect_views_def Let_def printed_json json_str_text exit_code_def
        clean_def established_def)
qed

definition demo_tool_env :: ToolEnv where
  "demo_tool_env =
     \<lparr> te_build = \<lparr> bu_debug = False, bu_compiler = ''c'' \<rparr>, te_nonce = 0, te_wall = 0, te_now = 5000,
       te_header_read = \<lparr> ri_stat_error = None, ri_opens = True, ri_delivers = 20000 \<rparr>,
       te_load_read = \<lparr> ri_stat_error = None, ri_opens = True, ri_delivers = 20000 \<rparr>,
       te_clock = (\<lambda>t. t + 1) \<rparr>"

theorem inspected_state_witness:
  "\<exists>f d x v. save_bytes demo_popts ''p'' demo6 = Inr (Inr f) \<and> dk_files d ''p'' = Some f
     \<and> recovered_from demo6 x
     \<and> (\<exists>r. inspect_main demo_tool_env [''inspect'', ''--state'', ''p'', ''--assignments''] d = Some r
            \<and> json_text v (json_str v) \<and> tr_out r = json_str v @ [CHR 0x0A])"
proof -
  obtain f where f: "save_bytes demo_popts ''p'' demo6 = Inr (Inr f)" "length f \<le> 10088"
    using demo6_saved by blast
  let ?d = "\<lparr> dk_files = [''p'' \<mapsto> f], dk_directories = {}, dk_temporaries = 0, dk_past = [] \<rparr>"
  let ?argv = "[''inspect'', ''--state'', ''p'', ''--assignments'']"
  have a: "parse_argv ?argv = \<lparr> ar_entries = [(''state'', ''p''), (''assignments'', [])], ar_positional = [] \<rparr>"
    by code_simp
  have read: "readable (te_header_read demo_tool_env) f" "readable (te_load_read demo_tool_env) f"
    using f(2) by (simp_all add: readable_def demo_tool_env_def)
  have small: "length f \<le> unat (max_persistence_bytes default_limits)"
    using f(2) by (simp add: default_limits_def)
  have idle: "sys_impl (idle demo6) = demo6" by (simp add: idle_def)
  have saved: "save_bytes demo_popts ''p'' (sys_impl (idle demo6)) = Inr (Inr f)"
    "state_fits (sys_impl (idle demo6))" "im_scheduler_epoch (sys_impl (idle demo6)) + 1 \<noteq> 0"
    "im_limits (sys_impl (idle demo6)) = default_limits"
    unfolding idle using f(1) demo6_fits demo6_epoch by (simp_all add: demo6_lists)
  have args: "\<not> has_arg (parse_argv ?argv) ''help''" "\<not> has_arg (parse_argv ?argv) ''version''"
    "\<not> has_arg (parse_argv ?argv) ''synthetic''" "arg_text (parse_argv ?argv) ''state'' [] = ''p''"
    unfolding a by (simp_all add: has_arg_def arg_text_def arg_value_def)
  have "dk_files ?d ''p'' = Some f" by simp
  then have "\<exists>x. recovered_from demo6 x \<and> (\<exists>r v. inspect_main demo_tool_env ?argv ?d = Some r
      \<and> json_text v (json_str v) \<and> tr_out r = json_str v @ [CHR 0x0A])"
    using inspected_state [OF demo_reachable6 saved small refl args _ _ read] unfolding idle Let_def
    by fastforce
  then show ?thesis using f(1) \<open>dk_files ?d ''p'' = Some f\<close> by blast
qed

end
