(* ===== verification/Service_Tools.thy ===== *)
theory Service_Tools
  imports Inspect_Tool Control_Client Agent_Client
begin

section \<open>The tools of the service (tools/agent_scheduler_ctl, _agent, _coordinator)\<close>

text \<open>
  The main functions of the control tool, the agent worker and the coordinator process, over the
  models of the clients and of the coordinator. What the network, the clocks and the files answer
  are arguments. The outer None is a process that ends by an exception nobody catches, or that
  has not ended yet.
\<close>

subsection \<open>Errors of a reply\<close>

text \<open>A reply may carry a code no enumerator has; to_string then falls through its switch.\<close>

definition error_codes :: "ErrorCode list" where
  "error_codes =
    [ErrorCode.Ok, ErrorCode.InvalidArgument, ErrorCode.LimitExceeded, ErrorCode.NotFound,
     ErrorCode.StaleGeneration, ErrorCode.Conflict, ErrorCode.Duplicate, ErrorCode.NotEligible,
     ErrorCode.NoCapacity, ErrorCode.PolicyRejected, ErrorCode.CapabilityRejected,
     ErrorCode.NotReady, ErrorCode.Unhealthy, ErrorCode.Unreachable, ErrorCode.LeaseExpired,
     ErrorCode.Fenced, ErrorCode.Cancelled, ErrorCode.Superseded, ErrorCode.ShuttingDown,
     ErrorCode.AdmissionClosed, ErrorCode.PersistenceFormat, ErrorCode.PersistenceIntegrity,
     ErrorCode.PersistenceIo, ErrorCode.PersistenceUnsupportedVersion, ErrorCode.ProtocolError,
     ErrorCode.DecodeError, ErrorCode.RecoveryRejected, ErrorCode.InvariantViolation,
     ErrorCode.NotStarted, ErrorCode.AlreadyStarted, ErrorCode.Internal,
     ErrorCode.DeadlineExpired, ErrorCode.FeasibilityRejected, ErrorCode.DrainBarrier,
     ErrorCode.ExclusiveConflict]"

definition outcomes :: "ScheduleOutcome list" where
  "outcomes =
    [ScheduleOutcome.Assigned, ScheduleOutcome.NoChange, ScheduleOutcome.Deferred,
     ScheduleOutcome.NoEligibleAgent, ScheduleOutcome.RejectStaleSchedulerEpoch,
     ScheduleOutcome.RejectStaleCoordinatorEpoch, ScheduleOutcome.RejectStaleAgentBoot,
     ScheduleOutcome.RejectStaleAgentGeneration, ScheduleOutcome.RejectStaleWorkGeneration,
     ScheduleOutcome.RejectStaleAssignment, ScheduleOutcome.RejectStalePolicy,
     ScheduleOutcome.RejectStaleCapability, ScheduleOutcome.RejectResourceFeasibility,
     ScheduleOutcome.RejectBudget, ScheduleOutcome.RejectSlo, ScheduleOutcome.RejectPolicy,
     ScheduleOutcome.RejectCancelled, ScheduleOutcome.RejectSuperseded,
     ScheduleOutcome.RejectConflict, ScheduleOutcome.RevalidationRequired,
     ScheduleOutcome.ShuttingDown, ScheduleOutcome.RejectInvalidRequest,
     ScheduleOutcome.RejectLimitExceeded, ScheduleOutcome.RejectHealth,
     ScheduleOutcome.RejectReachability, ScheduleOutcome.RejectReadiness,
     ScheduleOutcome.RejectCapacity, ScheduleOutcome.RejectAffinity,
     ScheduleOutcome.RejectLocality, ScheduleOutcome.RejectTenant,
     ScheduleOutcome.RejectLeaseExpired, ScheduleOutcome.RejectDrain,
     ScheduleOutcome.RejectDuplicate, ScheduleOutcome.RejectExpired,
     ScheduleOutcome.RejectFenced, ScheduleOutcome.RejectReservation,
     ScheduleOutcome.RejectLifecycle, ScheduleOutcome.RejectDeadline,
     ScheduleOutcome.RejectCapability, ScheduleOutcome.RejectStaleQueueGeneration]"

definition code_text :: "u32 \<Rightarrow> string" where
  "code_text n = (if unat n < length error_codes then error_code_to_string (error_codes ! unat n)
                  else ''UNKNOWN_ERROR_CODE'')"

definition outcome_text :: "u32 \<Rightarrow> string" where
  "outcome_text n = (if unat n < length outcomes then outcome_to_string (outcomes ! unat n)
                     else ''UNKNOWN_OUTCOME'')"

definition describe_wire :: "WireError \<Rightarrow> string" where
  "describe_wire e =
     code_text (we_code e) @ '' op='' @ we_operation e @ '' subject='' @ we_subject e
     @ '' outcome='' @ outcome_text (we_outcome e)
     @ (if we_current_generation e \<noteq> 0 \<or> we_expected_generation e \<noteq> 0
        then '' current='' @ decimal (unat (we_current_generation e))
             @ '' expected='' @ decimal (unat (we_expected_generation e))
        else [])
     @ concat (map (\<lambda>f. '' factor='' @ f) (we_factors e))
     @ (if we_detail e \<noteq> [] then '' detail='' @ we_detail e else [])"

lemma code_text_code: "code_text (of_nat (error_code_code c)) = error_code_to_string c"
  by (cases c) (simp_all add: code_text_def error_codes_def)

lemma outcome_text_code: "outcome_text (of_nat (outcome_code c)) = outcome_to_string c"
  by (cases c) (simp_all add: outcome_text_def outcomes_def)

lemma describe_on_wire: "describe_wire (error_on_wire e) = describe_error e"
  by (simp add: describe_wire_def describe_error_def error_on_wire_def code_text_code outcome_text_code)

definition result_text :: "string \<Rightarrow> WireError option \<Rightarrow> string" where
  "result_text ok r = (case r of None \<Rightarrow> ok | Some e \<Rightarrow> c_str (describe_wire e))"

definition result_exit :: "WireError option \<Rightarrow> nat" where
  "result_exit r = (case r of None \<Rightarrow> 0 | Some _ \<Rightarrow> 1)"

text \<open>A command that prints one line with its result.\<close>

definition result_line :: "string \<Rightarrow> WireError option \<Rightarrow> ToolResult" where
  "result_line ok r = \<lparr> tr_exit = result_exit r, tr_out = result_text ok r @ [CHR 0x0A], tr_err = [] \<rparr>"

subsection \<open>The control tool\<close>

definition ctl_help :: string where
  "ctl_help = concat (map (\<lambda>l. l @ [CHR 0x0A])
     [''agent_scheduler_ctl - drive a running Agent Scheduler coordinator'', [],
      ''usage: agent_scheduler_ctl --port <n> <command> [options]'', [], ''commands:'',
      ''  --query <kind>        version|summary|agents|work|assignments|leases|fenced|'',
      ''                        invariants|fairness|capabilities|queues|policy'',
      ''  --submit-work <id>    submit a work item'',
      ''  --cancel-work <id>    cancel a work item'',
      ''  --dispatch <hex>      attempt pre-dispatch revalidation of an assignment'',
      ''  --drain-agent <id>    drain an agent'',
      ''  --deregister-agent <id> deregister an agent'', [], ''options:'',
      ''  --port <n>            coordinator port (required)'',
      ''  --host <text>         coordinator host (default 127.0.0.1)'',
      ''  --generation <n>      work or assignment generation (default 1)'',
      ''  --priority <n>        work priority 0..1000 (default 500)'',
      ''  --queue <n>           queue id (default 1)'',
      ''  --require <name>      repeatable required capability'',
      ''  --prefer <name>       repeatable preferred capability'',
      ''  --concurrency <n>     unused placeholder for agent commands'',
      ''  --boot <hex>          agent incarnation for agent commands'',
      ''  --force               force flag for drain/deregister'',
      ''  --json                emit the raw JSON result'',
      ''  --version             print version and exit'',
      ''  --help                print this help and exit''])"

definition parse_query_kind :: "string \<Rightarrow> QueryKind option" where
  "parse_query_kind t = map_of
     [(''version'', QueryKind.Version), (''summary'', QueryKind.Summary), (''agents'', QueryKind.Agents),
      (''work'', QueryKind.Work), (''assignments'', QueryKind.Assignments), (''leases'', QueryKind.Leases),
      (''fenced'', QueryKind.Fenced), (''invariants'', QueryKind.Invariants),
      (''fairness'', QueryKind.Fairness), (''capabilities'', QueryKind.Capabilities),
      (''queues'', QueryKind.Queues), (''policy'', QueryKind.Policy)] t"

definition ctl_requirement :: "CapabilityRequirementMode \<Rightarrow> string \<Rightarrow> CapabilityRequirement" where
  "ctl_requirement mode name = \<lparr> cr_name = name, cr_mode = mode,
     cr_minimum_state = CapabilityState.Observed, cr_minimum_quality = 0 \<rparr>"

definition ctl_work :: "Args \<Rightarrow> WorkRequest" where
  "ctl_work a = canonicalize_work (default_work_request\<lparr>
     wq_id := arg_number a ''submit-work'' 0, wq_generation := arg_number a ''generation'' 1,
     wq_queue := arg_number a ''queue'' 1, wq_queue_generation := 1, wq_kind := ''ctl'',
     wq_priority := ucast (arg_number a ''priority'' 500), wq_fairness_class := ''default'',
     wq_requirements := default_requirements\<lparr>
       rq_tenant := arg_number a ''tenant'' 1, rq_name_space := 1,
       rq_capabilities :=
         map (ctl_requirement CapabilityRequirementMode.Required) (arg_values a ''require'')
         @ map (ctl_requirement CapabilityRequirementMode.Preferred) (arg_values a ''prefer'')\<rparr>\<rparr>)"

definition ctl_boot :: "Args \<Rightarrow> Hash128" where
  "ctl_boot a = (case parse_hash128 (arg_text a ''boot'' []) of None \<Rightarrow> hash128_zero | Some h \<Rightarrow> h)"

text \<open>A call whose exception nobody catches ends the process.\<close>

definition finish_call ::
    "('r \<Rightarrow> ToolResult) \<Rightarrow> Connection \<times> ControlClient \<times> 'r coded \<Rightarrow> Connection \<times> ToolResult option" where
  "finish_call show r = (case r of
     (cx, _, Inl _) \<Rightarrow> (cx, None)
   | (cx, _, Inr v) \<Rightarrow> (cx, Some (show v)))"

definition show_query :: "WireError option \<times> string option \<Rightarrow> ToolResult" where
  "show_query r = (case r of
     (Some e, _) \<Rightarrow> refused 1 (''query failed: '' @ output_line (describe_wire e))
   | (None, json) \<Rightarrow> printed (output_line (case json of None \<Rightarrow> [] | Some t \<Rightarrow> t)))"

definition show_dispatch :: "WireError option \<times> u32 \<Rightarrow> ToolResult" where
  "show_dispatch r = (case r of (e, oc) \<Rightarrow>
     \<lparr> tr_exit = result_exit e,
       tr_out = ''outcome='' @ outcome_text oc @ '' '' @ result_text ''OK'' e @ [CHR 0x0A], tr_err = [] \<rparr>)"

definition ctl_command ::
    "Args \<Rightarrow> Connection \<Rightarrow> ControlClient \<Rightarrow> Connection \<times> ToolResult option" where
  "ctl_command a cx cc =
     (let query = arg_text a ''query'' [] in
      if query \<noteq> []
      then (case parse_query_kind query of
          None \<Rightarrow> (cx, Some (refused 2 (''unknown query kind '' @ [CHR 0x27] @ c_str query @ [CHR 0x27, CHR 0x0A])))
        | Some kind \<Rightarrow> finish_call show_query (client_query_kind kind cx cc))
      else if has_arg a ''submit-work''
      then finish_call (result_line ''OK SUBMIT_WORK'') (client_submit_work (ctl_work a) cx cc)
      else if has_arg a ''cancel-work''
      then finish_call (result_line ''OK CANCEL_WORK'')
             (client_cancel_work (arg_number a ''cancel-work'' 0) (arg_number a ''generation'' 1)
                (arg_text a ''reason'' ''cancelled by ctl'') cx cc)
      else if has_arg a ''dispatch''
      then (case parse_hash128 (arg_text a ''dispatch'' []) of
          None \<Rightarrow> (cx, Some (refused 2 (''--dispatch must be 32 hexadecimal characters'' @ [CHR 0x0A])))
        | Some k \<Rightarrow> finish_call show_dispatch
            (client_dispatch_assignment k (arg_number a ''generation'' 1)
               (of_nat (outcome_code ScheduleOutcome.NoChange)) cx cc))
      else if has_arg a ''drain-agent''
      then finish_call (result_line ''OK DRAIN_AGENT'')
             (client_drain_agent (arg_number a ''drain-agent'' 0) (ctl_boot a) (has_arg a ''force'') cx cc)
      else if has_arg a ''deregister-agent''
      then finish_call (result_line ''OK DEREGISTER_AGENT'')
             (client_deregister_agent (arg_number a ''deregister-agent'' 0) (ctl_boot a)
                (has_arg a ''force'') cx cc)
      else (cx, Some (refused 2 (''no command given; use --help'' @ [CHR 0x0A]))))"

definition ctl_options :: "Args \<Rightarrow> ControlClientOptions" where
  "ctl_options a = \<lparr> kc_host = arg_text a ''host'' ''127.0.0.1'', kc_port = ucast (arg_number a ''port'' 0),
     kc_limits = default_limits, kc_protocol_version = 1 \<rparr>"

definition ctl_main ::
    "Build \<Rightarrow> u64 \<Rightarrow> MutationResult \<Rightarrow> string list \<Rightarrow> Connection \<Rightarrow> Connection \<times> ToolResult option" where
  "ctl_main build nonce network argv cx =
     (let a = parse_argv argv in
      if has_arg a ''help'' then (cx, Some (printed ctl_help))
      else if has_arg a ''version'' then (cx, Some (printed (version_line build)))
      else if \<not> has_arg a ''port'' then (cx, Some (refused 2 (''missing required --port'' @ [CHR 0x0A])))
      else case client_connect network build nonce cx (new_control_client (ctl_options a)) of
        (cx', _, Inl _) \<Rightarrow> (cx', None)
      | (cx', _, Inr (Some e)) \<Rightarrow>
          (cx', Some (refused 1 (''connect failed: '' @ output_line (describe_wire e))))
      | (cx', cc, Inr None) \<Rightarrow> ctl_command a cx' cc)"

subsection \<open>The agent worker\<close>

definition agent_help :: string where
  "agent_help = concat (map (\<lambda>l. l @ [CHR 0x0A])
     [''agent_scheduler_agent - run one persistent agent worker process'', [],
      ''usage: agent_scheduler_agent --port <n> [options]'', [],
      ''  --port <n>            coordinator port (required)'',
      ''  --agent-id <n>        agent identity (default 1)'',
      ''  --generation <n>      agent generation (default 1)'',
      ''  --boot <hex>          incarnation id; omitted means a fresh one'',
      ''  --concurrency <n>     declared maximum concurrent assignments (default 2)'',
      ''  --capability <name>   repeatable capability name (default: coding)'',
      ''  --tenant <n>          tenant id (default 1)'',
      ''  --domain <n>          placement domain id (default 1)'',
      ''  --quality <n>         capability quality 0..1000 (default 800)'',
      ''  --work-ms <n>         simulated handling duration per assignment'',
      ''  --run-ms <n>          stop after n milliseconds (0 runs until stopped)'',
      ''  --stop-file <path>    stop when this file exists'',
      ''  --version             print version and exit'',
      ''  --help                print this help and exit''])"

text \<open>A fresh incarnation is derived from the nonce of the process and the wall clock.\<close>

definition fresh_boot :: "u64 \<Rightarrow> u64 \<Rightarrow> Hash128" where
  "fresh_boot nonce wall = hash128_of (hasher_final
     (update_u64 wall (update_u64 nonce (update_field_tag 0xB0 hasher_init))))"

definition agent_boot_of :: "u64 \<Rightarrow> u64 \<Rightarrow> Args \<Rightarrow> Hash128 option" where
  "agent_boot_of nonce wall a =
     (let t = arg_text a ''boot'' [] in if t \<noteq> [] then parse_hash128 t else Some (fresh_boot nonce wall))"

definition agent_descriptor_of :: "Args \<Rightarrow> Hash128 \<Rightarrow> AgentDescriptor" where
  "agent_descriptor_of a boot = default_descriptor\<lparr>
     ad_id := arg_number a ''agent-id'' 1, ad_generation := arg_number a ''generation'' 1,
     ad_boot := boot, ad_registration_generation := 1, ad_tenant := arg_number a ''tenant'' 1,
     ad_name_space := 1, ad_display_name := ''agent-'' @ decimal (unat (arg_number a ''agent-id'' 1)),
     ad_policy_labels := [''worker''], ad_placement_domain := arg_number a ''domain'' 1,
     ad_topology_epoch := 1, ad_max_concurrency := ucast (arg_number a ''concurrency'' 2),
     ad_lease_ttl_ms := 600000, ad_provenance := ''agent_scheduler_agent''\<rparr>"

definition agent_profile_of :: "Args \<Rightarrow> Hash128 \<Rightarrow> CapabilityProfile" where
  "agent_profile_of a boot =
     (let names = (if arg_values a ''capability'' = [] then [''coding''] else arg_values a ''capability'') in
      \<lparr> cp_profile_id = arg_number a ''agent-id'' 1, cp_generation = 1, cp_boot = boot,
        cp_capabilities = map (\<lambda>name. \<lparr> ce_name = name, ce_state = CapabilityState.Observed,
          ce_quality = ucast (arg_number a ''quality'' 800), ce_generation = 1, ce_boot = boot,
          ce_observed_at_ms = 0, ce_provenance = ''agent_scheduler_agent'' \<rparr>) names \<rparr>)"

text \<open>The doubles 0.5 and 0.9 as bit patterns.\<close>

definition agent_options_of :: "Args \<Rightarrow> Hash128 \<Rightarrow> AgentClientOptions" where
  "agent_options_of a boot =
     (let d = agent_descriptor_of a boot in
      \<lparr> ao_host = ''127.0.0.1'', ao_port = ucast (arg_number a ''port'' 0), ao_descriptor = d,
        ao_profile = agent_profile_of a boot,
        ao_health = default_health\<lparr>ho_generation := 1, ho_health := AgentHealth.Healthy,
          ho_health_quality := 900, ho_detail := ''agent tool''\<rparr>,
        ao_availability = default_availability\<lparr>ao_generation := 1,
          AvailabilityObservation.ao_availability := AgentAvailability.Available,
          ao_reachability := AgentReachability.Reachable, ao_readiness := AgentReadiness.Ready\<rparr>,
        ao_load = default_load\<lparr>lo_generation := 1, lo_max_concurrency := ad_max_concurrency d,
          lo_estimated_dispatch_latency_ms := 2, lo_cost_index := 0x3FE0000000000000,
          lo_slo_headroom_fraction := 0x3FECCCCCCCCCCCCD\<rparr>,
        ao_limits = default_limits, ao_auto_ack = True, ao_auto_complete = True,
        ao_simulated_work_ms = arg_number a ''work-ms'' 0,
        ao_run_duration_ms = arg_number a ''run-ms'' 0, ao_heartbeat_interval_ms = 1000 \<rparr>)"

text \<open>The first error of a sequence of calls stops the process with its text.\<close>

type_synonym agent_call = "AgentClient \<Rightarrow> (AgentClient \<times> WireError option) option coded"

fun agent_steps ::
    "(string \<times> agent_call) list \<Rightarrow> (AgentClient \<Rightarrow> ToolResult option) \<Rightarrow> AgentClient \<Rightarrow> ToolResult option" where
  "agent_steps [] continue a = continue a"
| "agent_steps ((what, step) # steps) continue a =
     (case step a of
        Inr (Some (a', None)) \<Rightarrow> agent_steps steps continue a'
      | Inr (Some (_, Some e)) \<Rightarrow> Some (refused 1 (what @ '' failed: '' @ output_line (describe_wire e)))
      | _ \<Rightarrow> None)"

text \<open>The run loop and the last line; the result of run is not looked at.\<close>

definition agent_serve ::
    "(AgentClient \<Rightarrow> AgentClient) \<Rightarrow> MutationResult \<Rightarrow> Build \<Rightarrow> u64 \<Rightarrow> u64 \<Rightarrow> (bool \<times> u64) list
       \<Rightarrow> AgentClient \<Rightarrow> ToolResult option" where
  "agent_serve env network build nonce began turns a =
     (let d = ao_descriptor (ac_options a) in
      case agent_run env network build nonce began turns a of
        Inr (Some (a', _)) \<Rightarrow>
          (let a'' = agent_stop a' in Some (printed
             (''AGENT_READY '' @ decimal (unat (ad_id d)) @ '' '' @ hash128_to_string (ad_boot d) @ [CHR 0x0A]
              @ ''AGENT_STOPPED '' @ decimal (unat (ad_id d)) @ '' assignments=''
              @ decimal (length (ac_assignments a'')) @ [CHR 0x0A])))
      | _ \<Rightarrow> None)"

definition agent_main ::
    "(AgentClient \<Rightarrow> AgentClient) \<Rightarrow> MutationResult \<Rightarrow> Build \<Rightarrow> u64 \<Rightarrow> u64 \<Rightarrow> u64 \<Rightarrow> (bool \<times> u64) list
       \<Rightarrow> string list \<Rightarrow> ToolResult option" where
  "agent_main env network build nonce wall began turns argv =
     (let a = parse_argv argv in
      if has_arg a ''help'' then Some (printed agent_help)
      else if has_arg a ''version'' then Some (printed (version_line build))
      else if \<not> has_arg a ''port'' then Some (refused 2 (''missing required --port'' @ [CHR 0x0A]))
      else case agent_boot_of nonce wall a of
        None \<Rightarrow> Some (refused 2 (''--boot must be 32 hexadecimal characters'' @ [CHR 0x0A]))
      | Some boot \<Rightarrow>
          agent_steps [(''registration'', connect_and_register env network build nonce),
              (''health publication'', agent_publish_health env),
              (''availability publication'', agent_publish_availability env),
              (''load publication'', agent_publish_load env)]
            (agent_serve env network build nonce began turns)
            (new_agent_client (agent_options_of a boot)))"

subsection \<open>The coordinator process\<close>

definition coordinator_help :: string where
  "coordinator_help = concat (map (\<lambda>l. l @ [CHR 0x0A])
     [''agent_scheduler_coordinator - run the Agent Scheduler coordinator'', [],
      ''usage: agent_scheduler_coordinator [options]'', [],
      ''  --port <n>            listen port (0 selects an ephemeral port, default 0)'',
      ''  --state <path>        durable state file (default: none)'',
      ''  --no-load             do not load an existing state file'',
      ''  --no-persist          do not save on stop'',
      ''  --run-ms <n>          stop after n milliseconds (0 runs until stopped)'',
      ''  --stop-file <path>    stop when this file exists'',
      ''  --no-auto-dispatch    do not dispatch assignments automatically'',
      ''  --version             print version and exit'',
      ''  --help                print this help and exit''])"

definition coordinator_options_of :: "Args \<Rightarrow> CoordinatorOptions" where
  "coordinator_options_of a = default_coordinator_options\<lparr>
     cp_port := ucast (arg_number a ''port'' 0), cp_persistence_path := arg_text a ''state'' [],
     cp_load_on_start := \<not> has_arg a ''no-load'', cp_persist_on_stop := \<not> has_arg a ''no-persist'',
     cp_auto_dispatch := \<not> has_arg a ''no-auto-dispatch''\<rparr>"

text \<open>The port is an atomic number, so the optional port() returns is never empty.\<close>

definition coordinator_port :: "Coordinator \<Rightarrow> u16 option" where
  "coordinator_port c = Some (co_port c)"

text \<open>A turn of the wait: whether the stop file exists, the time since the start, and what the
  threads of the server do before it.\<close>

type_synonym turn = "bool \<times> u64 \<times> (Coordinator \<Rightarrow> Coordinator)"

fun wait_to_stop :: "Args \<Rightarrow> turn list \<Rightarrow> Coordinator \<Rightarrow> Coordinator option" where
  "wait_to_stop a [] c = None"
| "wait_to_stop a ((exists_file, elapsed, threads) # turns) c0 =
     (let c = threads c0; run_ms = arg_number a ''run-ms'' 0 in
      if arg_text a ''stop-file'' [] \<noteq> [] \<and> exists_file then Some c
      else if run_ms \<noteq> 0 \<and> elapsed \<ge> run_ms then Some c
      else if coordinator_port c = None then Some c
      else wait_to_stop a turns c)"

definition stopped_line :: "SchedulerSummary \<Rightarrow> string" where
  "stopped_line s = ''STOPPED agents='' @ decimal (su_agent_count s) @ '' work=''
     @ decimal (su_work_admitted s + su_work_assigned s + su_work_executing s)
     @ '' active_assignments='' @ decimal (su_active_assignments s)
     @ '' fenced='' @ decimal (su_fenced_boots s)
     @ '' digest='' @ to_hex (su_state_digest s) @ [CHR 0x0A]"

definition coordinator_main ::
    "ToolEnv \<Rightarrow> MutationResult \<Rightarrow> StartEnvironment \<Rightarrow> turn list
       \<Rightarrow> (Coordinator \<Rightarrow> Session list \<Rightarrow> Coordinator) \<Rightarrow> (u8 list \<Rightarrow> PersistOptions \<Rightarrow> MutationResult)
       \<Rightarrow> string list \<Rightarrow> ToolResult option" where
  "coordinator_main env network start_env turns readers write_file argv =
     (let a = parse_argv argv in
      if has_arg a ''help'' then Some (printed coordinator_help)
      else if has_arg a ''version'' then Some (printed (version_line (te_build env)))
      else case network of
        Some e \<Rightarrow> Some (refused 1 (''network initialization failed: '' @ output_line (describe_error e)))
      | None \<Rightarrow>
          (case new_tool_scheduler env False of None \<Rightarrow> None
           | Some s \<Rightarrow>
               (case coordinator_start start_env (new_coordinator s (coordinator_options_of a)) of
                  (_, Some e) \<Rightarrow> Some (refused 1 (''coordinator start failed: '' @ output_line (describe_error e)))
                | (c, None) \<Rightarrow>
                    (let listen = ''LISTEN '' @ decimal (unat (co_port c)) @ [CHR 0x0A] in
                     case wait_to_stop a turns c of None \<Rightarrow> None
                     | Some c1 \<Rightarrow>
                         (case coordinator_stop readers write_file c1 of
                            (_, Inl _) \<Rightarrow> None
                          | (_, Inr (Some e)) \<Rightarrow>
                              Some \<lparr> tr_exit = 1, tr_out = listen,
                                tr_err = ''coordinator stop failed: '' @ output_line (describe_error e) \<rparr>
                          | (c2, Inr None) \<Rightarrow>
                              Some (printed (listen @ stopped_line (summary (co_scheduler c2)))))))))"

end
