(* ===== verification/Spec2Isabelle.thy ===== *)
theory Spec2Isabelle
  imports Planning_Properties Fairness_Properties Lifecycle_Properties Wire_Properties
    Persistence_Properties Client_Properties Tool_Properties Service_Tools
begin

text \<open>
  This development models the decision core of the agent scheduler (a C++20 library) and
  proves the properties that make its decisions safe to act on.

  The program. A scheduler process keeps an authoritative state (internal/scheduler_impl.hpp):
  registered agents with their evidence, work items, assignments with leases, fenced
  incarnations, queue and tenant accounting, the policy, and eight indexes over them. Agents
  and control clients send requests; every request runs under one mutex. An operation that
  could race with the outside world runs an interlock between two critical sections and
  checks everything again in the second one. Planning ranks the agents that pass every hard
  check; a commit turns a plan into an assignment; dispatch hands an assignment to its agent;
  observations move it to a terminal state; changes of generation, policy, evidence or
  incarnation take the authority away. The durable part of the state is saved to a file and
  recovered conservatively by the next process.

  How the code is represented. A struct is a record and an enum class a datatype with the
  constructors of the source; identifiers and counters of fixed width are words, so their
  arithmetic wraps as in the code; int64 scores and int64 checked arithmetic are integers with
  the range written out; doubles are their 64 bit patterns, and the arithmetic on them rounds
  to nearest, ties to even; a std::map is an association list in key order; strings are lists
  of bytes. An operation is a function from the state to the new state and its result; a
  MutationResult is an optional error (None is success). Early returns are guard chains
  (\<open>first_some\<close>) in the order of the code. A two phase operation is two definitions, a check
  and a commit, and between them the state is arbitrary: any other operation may have run.

  The theories, from the bottom up.
  Sched_Prelude: integer types, ordered maps, guard chains, stable sorting by a comparison.
  Outcomes (result.cpp), Text_Util (internal/util.cpp, ids.hpp), Sched_Digest (digest.cpp),
  Resource_Limits (limits.cpp), Capabilities (capability.cpp), Float64 (IEEE doubles), Agents
  (agent.cpp), Sched_Policy (policy.cpp), Work_Items (work.cpp), Assignments (assignment.cpp),
  Feasibility (adapters.cpp), Explanations (explanation.cpp): the data of the scheduler, its
  validation and canonical forms.
  Scheduler_State (scheduler_impl.hpp) and State_Maintenance (scheduler_state.cpp): the state
  and the internal functions that mutate it. State_Frames says what each of them leaves alone.
  Accounting and Closing: the indexes and counters, and what closing assignments does.
  Eligibility, Ranking, Planning, Committing, Batching, Dispatching
  (scheduling.cpp): evaluate_eligibility, score_candidate, plan_locked, commit_locked and
  schedule, schedule_batch, dispatch and the observations.
  Agent_Lifecycle, Work_Lifecycle, Process_Lifecycle (scheduler.cpp): the public operations
  on agents, work items, policy and process.
  Invariants, Safe_Steps, Operation_Safety, Agent_Safety, Work_Safety: \<open>core_inv\<close>, the
  invariant of the state, and \<open>evolves\<close>, what an operation may do to it, proved one mutation at
  a time and composed for every operation.
  Interleaving: the step relation of a scheduler shared by arbitrarily many callers. A step is
  one critical section; plans, checks and commits of different callers interleave freely.
  Scenario: a concrete run (start, register, publish evidence, submit, schedule) that is the
  input of the witnesses.
  Codec (codec.cpp): the bounds-checked byte writer and reader and the contract of a wire
  format. Wire_Fields and Wire_Messages (net/protocol.cpp): encoder and decoder of every
  structure and message. Wire_Requests (net/coordinator.cpp): which decoder a message type
  selects. Frames and Frame_Codec_Facts (net/frame.cpp): framing, the incremental decoder and
  the parser it implements. Sessions and Delivery (net/session.cpp): the send queue, the
  reader and writer loops, and two peers connected by a byte stream. Digest_Facts: the hash
  against its specification and what a checksum notices.
  State_Digest (scheduler_state.cpp): the canonical digest of the state. Persisted_Records,
  Persisted_Entries and Persistence (persistence.cpp, persistence_io.cpp): the encoding of
  every record and section, save, verify_file, the decoding and the recovery of load.
  Persistence_Facts and Recovery: the round trip of the sections, what
  makes a file valid, and the invariant of the recovered state. Restart_Scenario saves the
  concrete run and loads it into a new process.
  Keyed_Maps, Index_Invariants and Reference_Invariants: in every reachable state the maps are
  keyed by the identities of their records, the eight indexes file exactly those records, and
  every assignment refers to a stored agent and work item.
  Snapshots (snapshot.cpp): the view records and their projections. Json_Writer (json.cpp):
  escaping, the incremental writer, and a grammar of JSON texts. Invariant_Checker
  (invariants.cpp): check_invariants with every check in order; Checker_Facts says what it can
  never report of a reachable state. Queries (net/coordinator.cpp, version.cpp): the document
  that answers each query.
  Coordinator (net/coordinator.cpp): the server around the scheduler, its sessions and the
  incarnations registered under them; every request handler, the frame guards, the scheduling
  pass, accept, close and reap of sessions, start and stop. Coordinator_Facts: every event of
  the coordinator is a run of the scheduler. Coordinator_Delivery: what a scheduling pass
  queues for which session.
  State_Files (persistence_io.cpp): reading, verifying and atomically replacing a state file
  over a map of files that remembers the maps before each system call.
  Control_Client (net/control_client.cpp) and Agent_Client (net/agent_client.cpp): the two
  clients, their calls and the handling of frames. Client_Server: what the coordinator makes of
  the bytes of a client and the client of the bytes queued for its session.
  Synthetic (synthetic.cpp): the generator of populations, a state monad over the random state,
  and the driver, a state monad over the scheduler, the random state and the report.
  Synthetic_Facts: what every value a random program returns satisfies, and relations between
  states that monadic programs keep.
  Command_Line (tools/cli_support.hpp): the parser of arguments, numbers and identifiers, against
  the value of a numeral. Inspect_Tool (tools/agent_scheduler_inspect.cpp): its documents and
  main function. Service_Tools (tools/agent_scheduler_ctl.cpp,
  _agent.cpp, _coordinator.cpp): the main functions of the other three tools over the models of
  the clients and of the coordinator.
  Planning_Properties, Fairness_Properties, Lifecycle_Properties, Wire_Properties,
  Persistence_Properties, Service_Properties, Client_Properties and Tool_Properties (the
  laboratory and the tools): the properties, each after a sentence that states it.

  What is shown. C1 to C8 hold in every state any interleaving reaches, restarts included: single ownership,
  bounded fan-out, current authority, exact accounting, permanence of
  bindings and fences, monotone generations, one way assignment states. C9 and C10 are
  about one commit: capacity, and the recheck of every authority after the interlock. C11 to
  C14 are about planning: eligibility against its specification, completeness and optimality
  of the selection, and the score. C15 and C16 are about batches: the fairness
  order and bounded bypass (budgets and dry runs are theorems of Fairness_Properties). C17 to
  C19 are postconditions of the operations that take authority away and the error behaviour of
  stale observations. C20 to C25 are about the protocol: requests decode to what was encoded
  and nothing else is accepted, the frame decoder implements a parser and notices a changed
  byte, a connection delivers in order, the frame loop ends, and the streaming hash is
  SHA-256. C26 to C30 are about durability: a saved state is loaded again, recovery is
  conservative, a recovered assignment is never revived, a damaged file changes nothing, and
  the state digest is a canonical image of the state. C31 to C34 are about the service: the
  coordinator only takes steps of the scheduler, hands an assignment only to the incarnation
  that registered, and what the checker and the indexes say of a reachable state is true (the
  JSON of every query is a theorem of Service_Properties). C35 is about the disk: an interrupted
  save leaves the old or the complete new file. C36 to C38 are about the clients: a reply does
  not depend on how the stream is cut, a query returns the document of the scheduler end to end,
  and an agent answers an assignment with the frames the coordinator decodes. C39 is about the
  laboratory: a run keeps the scheduler on reachable states and reports what the checker says of
  the last. C40 is about the tools: inspecting the file of a reachable scheduler shows its
  conservative recovery as one JSON text, with the exit code of the checker.

  Interfaces. \<open>feasibility_provider\<close> is what the scheduler relies on of an external
  feasibility authority; the two providers of the repository interpret it. \<open>assignment_index\<close>
  is the contract of an index over assignments, \<open>strict_weak_order\<close> that of a comparison the
  library sorts by, \<open>ordered_system\<close> that of a step relation with an invariant and a preorder
  that every step respects. \<open>wire_format\<close> is the contract of a pair of encoder and decoder,
  interpreted for every structure and message, and \<open>incremental_parser\<close> that of a parser fed
  with pieces of a stream. \<open>storing_format\<close> is the contract of a pair that restores an image of
  the value, which every persisted record meets, and \<open>canonical_hash\<close> that of a hash helper whose
  bytes determine the fields it covers, and \<open>io_preorder\<close> a preorder on states that programs of the
  state monad keep. Each is interpreted on the definitions of the model.

  Bounds and recursion. Every loop of the modelled code is a structural recursion over a list
  or the remaining bytes, a recursion with the bound the code itself has (the passes of a
  batch), or a recursion that ends because each frame consumes bytes (the reader of a session,
  the wait of the control client). The heartbeat loop of the agent runs over the list of its
  turns, and so does the wait of the coordinator process. No fuel is used.

  Not modelled. The socket calls, threads and condition variables behind the steps, clock
  sources, benchmarks, examples and the CUDA evidence program; json_error of the inspection tool,
  which nothing calls. The manifest lists them with the reason.
\<close>

section \<open>Properties of every reachable state\<close>

text \<open>C1: In every interleaving of critical sections, with restarts from saved states between
  them, a work item whose current request is exclusive has at most one active assignment.\<close>

theorem exclusive_single_owner:
  assumes "reachable y" and "om_get (im_work (sys_impl y)) w = Some r"
    and "wq_mode (wr_request r) = SchedulingMode.Exclusive"
  shows "card (assignments_of_work (sys_impl y) w) \<le> 1"
proof -
  have req: "work_req (sys_impl y) w = Some (wr_request r)" using assms(2) by (simp add: work_req_def)
  note inv = reachable_core [OF assms(1)]
  show ?thesis
    using core_inv_reqs [OF inv req] core_inv_fanout [OF inv req] assms(3)
    by (simp add: request_wf_def fanout_bounded_def)
qed

theorem exclusive_single_owner_witness:
  "demo_key \<in> assignments_of_work demo6 9 \<and> card (assignments_of_work demo6 9) \<le> 1"
  using exclusive_single_owner [OF demo_reachable6, of 9] demo6_work demo6_owned by auto

text \<open>C2: A work item never holds more active assignments than max_parallel, and no agent
  holds more than max_assignments_per_agent of them.\<close>

theorem fanout_never_exceeded:
  assumes "reachable y" and "om_get (im_work (sys_impl y)) w = Some r"
  shows "card (assignments_of_work (sys_impl y) w)
           \<le> unat (rq_max_parallel (wq_requirements (wr_request r)))
       \<and> (\<forall>a. card (held_by (sys_impl y) w a)
           \<le> unat (rq_max_assignments_per_agent (wq_requirements (wr_request r))))"
proof -
  have "work_req (sys_impl y) w = Some (wr_request r)" using assms(2) by (simp add: work_req_def)
  from core_inv_fanout [OF reachable_core [OF assms(1)] this]
  show ?thesis by (simp add: fanout_bounded_def)
qed

theorem fanout_never_exceeded_witness:
  "\<exists>r. om_get (im_work demo6) 9 = Some r \<and> card (assignments_of_work demo6 9)
     \<le> unat (rq_max_parallel (wq_requirements (wr_request r)))"
  using fanout_never_exceeded [OF demo_reachable6, of 9] demo6_work by auto

text \<open>C3: Every active assignment is bound to the current generation of its work item, the
  current incarnation of its agent and the current policy generation; its capability evidence
  is the current profile and valid, unless the assignment is marked for revalidation.\<close>

theorem active_assignments_current:
  assumes "reachable y" and "om_get (im_assignments (sys_impl y)) k = Some r" and "record_active r"
  shows "\<exists>w a. om_get (im_work (sys_impl y)) (bn_work (ar_binding r)) = Some w
    \<and> om_get (im_agents (sys_impl y)) (bn_agent (ar_binding r)) = Some a
    \<and> wq_generation (wr_request w) = bn_work_generation (ar_binding r)
    \<and> ad_generation (ag_descriptor a) = bn_agent_generation (ar_binding r)
    \<and> ad_boot (ag_descriptor a) = bn_boot (ar_binding r)
    \<and> bn_policy_generation (ar_binding r) = po_generation (im_policy (sys_impl y))
    \<and> (ar_state r \<noteq> AssignmentState.RevalidationRequired \<longrightarrow>
         ag_capability_current a
         \<and> cp_generation (ag_profile a) = bn_capability_generation (ar_binding r)
         \<and> cp_profile_id (ag_profile a) = bn_capability_profile (ar_binding r))"
  using core_inv_bound [OF reachable_core [OF assms(1)] assms(2,3)]
  by (auto simp: assignment_bound_def Let_def work_req_def agent_auth_def evidence_bound_def)

theorem active_assignments_current_witness:
  "\<exists>w. om_get (im_work demo6) 9 = Some w \<and> wq_generation (wr_request w) = 1
     \<and> record_active (new_assignment demo_binding)"
  using active_assignments_current [OF demo_reachable6, of demo_key "new_assignment demo_binding"]
    demo6_assignment by auto

text \<open>C4: The derived data agrees with the assignment map: the two indexes list exactly the
  active assignments, and the counters of agents and work items are their number.\<close>

theorem accounting_agrees:
  assumes "reachable y"
  shows "ix_get (im_by_agent (sys_impl y)) j = assignments_of_agent (sys_impl y) j
    \<and> ix_get (im_by_work (sys_impl y)) j = assignments_of_work (sys_impl y) j
    \<and> (\<forall>a. om_get (im_agents (sys_impl y)) j = Some a \<longrightarrow> ad_id (ag_descriptor a) = j
          \<and> unat (ag_active_assignments a) = card (assignments_of_agent (sys_impl y) j))
    \<and> (\<forall>w. om_get (im_work (sys_impl y)) j = Some w \<longrightarrow> wq_id (wr_request w) = j
          \<and> unat (wr_current_assignments w) = card (assignments_of_work (sys_impl y) j))"
proof -
  let ?s = "sys_impl y"
  note inv = reachable_core [OF assms]
  have acc: "indexes_ok ?s" "agent_accounted ?s j" "work_accounted ?s j"
    using core_inv_accounts [OF inv] by (simp_all add: accounts_ok_def)
  have work: "unat (of_nat (card (assignments_of_work ?s j)) :: u32) = card (assignments_of_work ?s j)"
    if "om_get (im_work ?s) j = Some w" for w
  proof -
    have "work_req ?s j = Some (wr_request w)" using that by (simp add: work_req_def)
    then have "card (assignments_of_work ?s j) \<le> unat (rq_max_parallel (wq_requirements (wr_request w)))"
      using core_inv_fanout [OF inv] by (simp add: fanout_bounded_def)
    then show ?thesis
      using unat_u32_bound by (intro unat_of_nat_small) (rule order.strict_trans1)
  qed
  have "unat (of_nat (card (assignments_of_agent ?s j)) :: u32) = card (assignments_of_agent ?s j)"
    by (rule unat_of_nat_small [OF core_inv_card [OF inv]])
  then show ?thesis
    using acc work
    by (auto simp: indexes_ok_def index_matches_def agent_accounted_def work_accounted_def)
qed

theorem accounting_agrees_witness: "demo_key \<in> ix_get (im_by_work demo6) 9"
  using accounting_agrees [OF demo_reachable6, of 9] demo6_owned by simp

text \<open>A terminal assignment never changes again, whatever happens later.\<close>

theorem terminal_assignments_final:
  assumes "reachable y" and "leads_to y z" and "om_get (im_assignments (sys_impl y)) k = Some r"
    and "assignment_state_is_terminal (ar_state r)"
  shows "om_get (im_assignments (sys_impl z)) k = Some r"
  using run_evolves [OF assms(1,2)] assms(3,4) unfolding evolves_def assignments_le_def by blast

theorem terminal_assignments_final_witness:
  "\<exists>r. om_get (im_assignments demo7) demo_key = Some r \<and> assignment_state_is_terminal (ar_state r)
     \<and> om_get (im_assignments demo8) demo_key = Some r"
  using terminal_assignments_final [OF demo_reachable7 idle_leads [OF demo_restart], of demo_key]
    demo7_assignment by auto

text \<open>C5: Assignments are never deleted, and nothing of the authority an assignment was bound
  to is ever rewritten except the expiry of its lease.\<close>

theorem bindings_immutable:
  assumes "reachable y" and "leads_to y z" and "om_get (im_assignments (sys_impl y)) k = Some r"
  shows "\<exists>r'. om_get (im_assignments (sys_impl z)) k = Some r'
    \<and> (ar_binding r')\<lparr>bn_lease_expires_at_ms := 0\<rparr> = (ar_binding r)\<lparr>bn_lease_expires_at_ms := 0\<rparr>"
  using run_evolves [OF assms(1,2)] assms(3)
  unfolding evolves_def assignments_le_def binding_core_def by blast

theorem bindings_immutable_witness: "\<exists>r'. om_get (im_assignments demo7) demo_key = Some r'"
  using bindings_immutable [OF demo_reachable6 idle_leads [OF demo_shutdown], of demo_key]
    demo6_assignment by auto

text \<open>C6: A fence is permanent, and in every later state a fenced incarnation can neither be
  committed to, nor receive a dispatch, nor have an observation accepted.\<close>

theorem fences_permanent:
  assumes "reachable y" and "leads_to y z" and "boot_is_fenced (sys_impl y) boot"
  shows "boot_is_fenced (sys_impl z) boot
    \<and> (\<forall>b w g. bn_boot b = boot \<longrightarrow> commit_problem (sys_impl z) w g b \<noteq> None)
    \<and> (\<forall>k r. om_get (im_assignments (sys_impl z)) k = Some r \<and> bn_boot (ar_binding r) = boot
         \<longrightarrow> dr_handoff (snd (dispatch_commit k (bn_generation (ar_binding r)) (sys_impl z))) = None
             \<and> (\<forall>g b. \<exists>e. lookup_assignment (sys_impl z) k g b = Inl e))"
proof (intro conjI allI impI)
  obtain f where "om_get (im_fenced_boots (sys_impl y)) boot = Some f"
    using assms(3) by (auto simp: boot_is_fenced_def)
  then have "om_get (im_fenced_boots (sys_impl z)) boot = Some f"
    using run_evolves [OF assms(1,2)] unfolding evolves_def fences_le_def by blast
  then show fenced: "boot_is_fenced (sys_impl z) boot" by (simp add: boot_is_fenced_def)
  fix b :: AssignmentBinding and w g assume "bn_boot b = boot"
  show "commit_problem (sys_impl z) w g b \<noteq> None"
  proof
    assume none: "commit_problem (sys_impl z) w g b = None"
    obtain r a where "commit_agent_problem (sys_impl z) w b r a = None"
      by (rule commit_problem_None [OF none])
    then show False
      using fenced \<open>bn_boot b = boot\<close> by (simp add: commit_agent_problem_None)
  qed
next
  fix k r assume r: "om_get (im_assignments (sys_impl z)) k = Some r \<and> bn_boot (ar_binding r) = boot"
  have fenced: "boot_is_fenced (sys_impl z) boot"
    using assms run_evolves [OF assms(1,2)]
    by (auto simp: boot_is_fenced_def evolves_def fences_le_def)
  have "revalidate_authority (sys_impl z) r \<noteq> None"
  proof
    assume none: "revalidate_authority (sys_impl z) r = None"
    obtain w a where "revalidate_agent (sys_impl z) (ar_binding r) w a = None"
      by (rule revalidate_authority_None [OF none])
    then show False using r fenced by (auto dest: revalidate_agent_None)
  qed
  then show "dr_handoff (snd (dispatch_commit k (bn_generation (ar_binding r)) (sys_impl z))) = None"
    using r by (auto simp: dispatch_commit_def refused_dispatch_def split: option.split)
  fix g b
  show "\<exists>e. lookup_assignment (sys_impl z) k g b = Inl e"
  proof (cases "lookup_assignment (sys_impl z) k g b")
    case (Inr x)
    then show ?thesis using lookup_assignment_Inr [OF Inr] r fenced by auto
  qed blast
qed

theorem fences_permanent_witness:
  "commit_problem (demo_lost\<lparr>im_now := 2000\<rparr>) 9 1 demo_binding \<noteq> None"
  using fences_permanent [OF demo_reachable_lost, of "idle (demo_lost\<lparr>im_now := 2000\<rparr>)" demo_boot]
    idle_leads [OF sec_clock] demo_lost_fenced by simp

text \<open>C7: Generations never go back; a work request never changes within its generation and an
  agent never changes its incarnation within its generation.\<close>

theorem generations_monotone:
  assumes "reachable y" and "leads_to y z"
  shows "(\<forall>w r. om_get (im_work (sys_impl y)) w = Some r \<longrightarrow>
           (\<exists>r'. om_get (im_work (sys_impl z)) w = Some r'
              \<and> (wq_generation (wr_request r) < wq_generation (wr_request r')
                 \<or> wr_request r' = wr_request r)))
    \<and> (\<forall>a r. om_get (im_agents (sys_impl y)) a = Some r \<longrightarrow>
           (\<exists>r'. om_get (im_agents (sys_impl z)) a = Some r'
              \<and> (ad_generation (ag_descriptor r) < ad_generation (ag_descriptor r')
                 \<or> ad_generation (ag_descriptor r') = ad_generation (ag_descriptor r)
                   \<and> ad_boot (ag_descriptor r') = ad_boot (ag_descriptor r)
                   \<and> cp_generation (ag_profile r) \<le> cp_generation (ag_profile r'))))
    \<and> (po_generation (im_policy (sys_impl y)) < po_generation (im_policy (sys_impl z))
       \<or> im_policy (sys_impl z) = im_policy (sys_impl y))"
proof (intro conjI allI impI)
  note ev = run_evolves [OF assms]
  show "po_generation (im_policy (sys_impl y)) < po_generation (im_policy (sys_impl z))
       \<or> im_policy (sys_impl z) = im_policy (sys_impl y)"
    using ev by (simp add: evolves_def policy_le_def)
  fix w r assume "om_get (im_work (sys_impl y)) w = Some r"
  then have "work_req (sys_impl y) w = Some (wr_request r)" by (simp add: work_req_def)
  then obtain q where "work_req (sys_impl z) w = Some q"
    "wq_generation (wr_request r) < wq_generation q \<or> q = wr_request r"
    using ev unfolding evolves_def work_le_def by blast
  then show "\<exists>r'. om_get (im_work (sys_impl z)) w = Some r'
      \<and> (wq_generation (wr_request r) < wq_generation (wr_request r') \<or> wr_request r' = wr_request r)"
    by (auto simp: work_req_def)
next
  fix a r assume "om_get (im_agents (sys_impl y)) a = Some r"
  then have "agent_auth (sys_impl y) a = Some (ad_generation (ag_descriptor r),
      ad_boot (ag_descriptor r), ag_capability_current r, cp_generation (ag_profile r),
      cp_profile_id (ag_profile r))" by (simp add: agent_auth_def)
  then obtain x where "agent_auth (sys_impl z) a = Some x" "auth_le (ad_generation (ag_descriptor r),
      ad_boot (ag_descriptor r), ag_capability_current r, cp_generation (ag_profile r),
      cp_profile_id (ag_profile r)) x"
    using run_evolves [OF assms] unfolding evolves_def agents_le_def by blast
  then show "\<exists>r'. om_get (im_agents (sys_impl z)) a = Some r'
      \<and> (ad_generation (ag_descriptor r) < ad_generation (ag_descriptor r')
         \<or> ad_generation (ag_descriptor r') = ad_generation (ag_descriptor r)
           \<and> ad_boot (ag_descriptor r') = ad_boot (ag_descriptor r)
           \<and> cp_generation (ag_profile r) \<le> cp_generation (ag_profile r'))"
    by (auto simp: agent_auth_def)
qed

theorem generations_monotone_witness:
  "\<exists>r. om_get (im_work demo6) 9 = Some r \<and> (1 < wq_generation (wr_request r) \<or> wr_request r = demo_request)"
  using generations_monotone [OF demo_reachable5 demo_run]
  by (auto simp: demo5_sel split: if_splits)

text \<open>C8: An assignment only moves forward through Assigned, Dispatched, Acknowledged,
  Executing, RevalidationRequired and a terminal state, in every run; so authority that was
  handed off is never handed off again.\<close>

theorem assignment_states_advance:
  assumes "reachable y" and "leads_to y z" and "om_get (im_assignments (sys_impl y)) k = Some r"
  shows "(\<exists>r'. om_get (im_assignments (sys_impl z)) k = Some r'
       \<and> assignment_rank (ar_state r) \<le> assignment_rank (ar_state r'))
    \<and> (1 < assignment_rank (ar_state r) \<longrightarrow>
         dr_handoff (snd (dispatch_commit k g (sys_impl z))) = None)"
proof -
  obtain r' where r': "om_get (im_assignments (sys_impl z)) k = Some r'"
    "assignment_rank (ar_state r) \<le> assignment_rank (ar_state r')"
    using run_evolves [OF assms(1,2)] assms(3) unfolding evolves_def assignments_le_def by blast
  moreover have "ar_state r' \<noteq> AssignmentState.Assigned" if "1 < assignment_rank (ar_state r)"
    using r'(2) that by auto
  ultimately show ?thesis
    by (auto simp: dispatch_commit_def refused_dispatch_def split: option.split)
qed

theorem assignment_states_advance_witness:
  "dr_handoff (snd (dispatch_commit demo_key 1 demo8)) = None"
  using assignment_states_advance [OF demo_reachable7 idle_leads [OF demo_restart], of demo_key]
    demo7_assignment by (auto simp: assignment_rank_def)

text \<open>C9: A commit never takes an agent over its declared concurrency, whatever other commits
  happened since the plan was made.\<close>

theorem commit_within_capacity:
  assumes "reachable y" and "(w, g, d, b) \<in> set (sys_pending y)"
    and "commit_locked w g b (sys_impl y) = Inr t"
  shows "\<exists>a. om_get (im_agents (sys_impl y)) (bn_agent b) = Some a
    \<and> card (assignments_of_agent t (bn_agent b)) \<le> unat (ad_max_concurrency (ag_descriptor a))"
proof -
  let ?s = "sys_impl y"
  have "pending_ok ?s (w, g, d, b)"
    using reachable_inv [OF assms(1)] assms(2) unfolding system_inv_def by blast
  then have w: "bn_work b = w" by (simp add: pending_ok_def)
  have ok: "commit_problem ?s (bn_work b) g b = None" and t: "t = commit_apply (bn_work b) b ?s"
    using assms(3) w by (auto simp: commit_locked_def split: option.splits)
  obtain a where a: "om_get (im_agents ?s) (bn_agent b) = Some a"
    "card (assignments_of_agent ?s (bn_agent b)) < unat (ad_max_concurrency (ag_descriptor a))"
    by (rule commit_agent_room [OF reachable_core [OF assms(1)] ok])
  have "card (assignments_of_agent t (bn_agent b)) \<le> Suc (card (assignments_of_agent ?s (bn_agent b)))"
    by (cases "om_get (im_assignments ?s) (bn_id b)")
      (simp_all add: t commit_owned commit_owned_present card_insert_if)
  with a show ?thesis by auto
qed

theorem commit_within_capacity_witness: "card (assignments_of_agent demo6 5) \<le> 2"
proof -
  have "reachable demo_planned" using demo_reachable5 demo_plan_steps by (blast intro: reach_step)
  then show ?thesis
    using commit_within_capacity [of demo_planned 9 1 demo_decision demo_binding demo6] demo_commit_ok
    by (simp add: demo_planned_def commit_locked_def demo6_def demo5_sel)
qed


end
